(* ===== verification/Tgt_Prelude.thy ===== *)
theory Tgt_Prelude
  imports "HOL-Library.Word" "HOL-Library.Sublist"
begin

text \<open>
  Shared vocabulary of the tgt development: the C integer types as words of
  their width, byte buffers as lists of bytes with the reads and writes the C
  code performs on them, C results as data types, and the generic lemmas on
  lists and words the component theories rest on.
\<close>

unbundle bit_operations_syntax

section \<open>Integer types, buffers and results\<close>

type_synonym u8 = "8 word"
type_synonym u16 = "16 word"
type_synonym u32 = "32 word"
type_synonym u64 = "64 word"

type_synonym bytes = "u8 list"

named_theorems buf_simps "lengths and contents of byte buffers"
named_theorems op_defs "definitions of the operations, unfolded by case proofs"
named_theorems inv_intros "preservation of the invariants"

text \<open>The error codes of \<open>usr/tgtadm_error.h\<close>, in its order.\<close>

datatype tgtadm_err =
    TGTADM_SUCCESS | TGTADM_UNKNOWN_ERR | TGTADM_NOMEM | TGTADM_NO_DRIVER
  | TGTADM_NO_TARGET | TGTADM_NO_LUN | TGTADM_NO_SESSION | TGTADM_NO_CONNECTION
  | TGTADM_NO_BINDING | TGTADM_TARGET_EXIST | TGTADM_LUN_EXIST
  | TGTADM_BINDING_EXIST | TGTADM_ACL_EXIST | TGTADM_ACL_NOEXIST
  | TGTADM_USER_EXIST | TGTADM_NO_USER | TGTADM_TOO_MANY_USER
  | TGTADM_INVALID_REQUEST | TGTADM_OUTACCOUNT_EXIST | TGTADM_TARGET_ACTIVE
  | TGTADM_LUN_ACTIVE | TGTADM_DRIVER_ACTIVE | TGTADM_UNSUPPORTED_OPERATION
  | TGTADM_UNKNOWN_PARAM | TGTADM_PREVENT_REMOVAL

text \<open>
  A read of byte \<open>i\<close> of a buffer. C leaves a read past the end undefined; the
  model reads a zero there, and the theorems whose content depends on such a
  byte ask for a buffer that is long enough.
\<close>

definition byte_at :: "bytes \<Rightarrow> nat \<Rightarrow> u8" where
  "byte_at p i = (if i < length p then p ! i else 0)"

text \<open>
  A write of the bytes \<open>bs\<close> at offset \<open>off\<close> of a buffer (\<open>memcpy\<close>, or a run of
  assignments). \<open>None\<close> is a write that leaves the buffer, undefined in C.
\<close>

definition write_at :: "bytes \<Rightarrow> nat \<Rightarrow> bytes \<Rightarrow> bytes option" where
  "write_at buf off bs =
     (if off + length bs \<le> length buf
      then Some (take off buf @ bs @ drop (off + length bs) buf) else None)"

text \<open>The same write into a buffer that is known to be large enough.\<close>

definition put_bytes :: "bytes \<Rightarrow> nat \<Rightarrow> bytes \<Rightarrow> bytes" where
  "put_bytes buf off bs = take off buf @ bs @ drop (off + length bs) buf"

section \<open>Buffers\<close>

lemma write_at_Some [buf_simps]:
  "off + length bs \<le> length buf \<Longrightarrow> write_at buf off bs = Some (put_bytes buf off bs)"
  by (simp add: write_at_def put_bytes_def)

lemma write_at_length:
  "write_at buf off bs = Some buf' \<Longrightarrow> length buf' = length buf"
  by (auto simp: write_at_def split: if_splits)

lemma write_at_None_iff:
  "write_at buf off bs = None \<longleftrightarrow> length buf < off + length bs"
  by (auto simp: write_at_def)

lemma length_put_bytes [simp, buf_simps]:
  "off + length bs \<le> length buf \<Longrightarrow> length (put_bytes buf off bs) = length buf"
  by (simp add: put_bytes_def)

lemma nth_put_bytes:
  "off + length bs \<le> length buf \<Longrightarrow> i < length buf \<Longrightarrow>
   put_bytes buf off bs ! i = (if off \<le> i \<and> i < off + length bs then bs ! (i - off) else buf ! i)"
  by (auto simp: put_bytes_def nth_append)

lemma put_bytes_Nil [simp]: "put_bytes buf off [] = buf"
  by (simp add: put_bytes_def)

lemma put_bytes_append:
  "i + length xs + length ys \<le> length b \<Longrightarrow>
   put_bytes (put_bytes b i xs) (i + length xs) ys = put_bytes b i (xs @ ys)"
  by (rule nth_equalityI) (auto simp: nth_put_bytes nth_append)

lemma byte_at_nth: "i < length p \<Longrightarrow> byte_at p i = p ! i"
  by (simp add: byte_at_def)

lemma byte_at_put_bytes:
  "off + length bs \<le> length buf \<Longrightarrow>
   byte_at (put_bytes buf off bs) i =
     (if off \<le> i \<and> i < off + length bs then bs ! (i - off) else byte_at buf i)"
  by (auto simp: byte_at_def nth_put_bytes)

lemma byte_at_drop: "byte_at (drop n p) i = byte_at p (n + i)"
  by (auto simp: byte_at_def)

lemma byte_at_append:
  "byte_at (xs @ ys) i = (if i < length xs then byte_at xs i else byte_at ys (i - length xs))"
  by (auto simp: byte_at_def nth_append)

lemma byte_at_replicate [simp]: "byte_at (replicate n x) i = (if i < n then x else 0)"
  by (simp add: byte_at_def)

lemma byte_at_list_update:
  "byte_at (xs[i := v]) j = (if i = j \<and> i < length xs then v else byte_at xs j)"
  by (auto simp: byte_at_def nth_list_update)

lemma byte_at_Cons: "byte_at (x # xs) i = (if i = 0 then x else byte_at xs (i - 1))"
  by (auto simp: byte_at_def nth_Cons split: nat.split)

lemma byte_at_Cons_0 [simp]: "byte_at (x # xs) 0 = x"
  by (simp add: byte_at_Cons)

lemma byte_at_Cons_Suc [simp]: "byte_at (x # xs) (Suc i) = byte_at xs i"
  by (simp add: byte_at_Cons)

lemma byte_at_Nil [simp]: "byte_at [] i = 0"
  by (simp add: byte_at_def)

lemma byte_at_Cons_numeral [simp]:
  "byte_at (x # xs) (numeral k) = byte_at xs (numeral k - 1)"
  by (simp add: byte_at_Cons)

section \<open>Lists of keyed objects\<close>

text \<open>
  The linked lists of the C code hold objects found by a key. \<open>lfind k x\<close> is
  the first element whose key (read by \<open>key\<close>) is \<open>x\<close>, \<open>lremove\<close> takes it out,
  \<open>lupdate\<close> replaces it in place.
\<close>

definition lfind :: "('a \<Rightarrow> 'k) \<Rightarrow> 'k \<Rightarrow> 'a list \<Rightarrow> 'a option" where
  "lfind key k xs = find (\<lambda>x. key x = k) xs"

definition lremove :: "('a \<Rightarrow> 'k) \<Rightarrow> 'k \<Rightarrow> 'a list \<Rightarrow> 'a list" where
  "lremove key k xs = filter (\<lambda>x. key x \<noteq> k) xs"

definition lupdate :: "('a \<Rightarrow> 'k) \<Rightarrow> 'k \<Rightarrow> ('a \<Rightarrow> 'a) \<Rightarrow> 'a list \<Rightarrow> 'a list" where
  "lupdate key k f xs = map (\<lambda>x. if key x = k then f x else x) xs"

lemma lfind_Nil [simp]: "lfind key k [] = None"
  by (simp add: lfind_def)

lemma lfind_Cons [simp]:
  "lfind key k (x # xs) = (if key x = k then Some x else lfind key k xs)"
  by (simp add: lfind_def)

lemma lfind_None_iff: "lfind key k xs = None \<longleftrightarrow> k \<notin> key ` set xs"
  by (induction xs) auto

lemma lfind_SomeD: "lfind key k xs = Some x \<Longrightarrow> x \<in> set xs \<and> key x = k"
  by (induction xs) (auto split: if_splits)

lemma lfind_distinct:
  "distinct (map key xs) \<Longrightarrow> x \<in> set xs \<Longrightarrow> lfind key (key x) xs = Some x"
  by (induction xs) (auto simp: image_iff)

lemma lfind_append:
  "lfind key k (xs @ ys) = (case lfind key k xs of None \<Rightarrow> lfind key k ys | Some x \<Rightarrow> Some x)"
  by (induction xs) auto

lemma lfind_lremove:
  "lfind key k (lremove key j xs) = (if k = j then None else lfind key k xs)"
  by (induction xs) (auto simp: lremove_def)

lemma set_lremove [simp]: "set (lremove key k xs) = {x \<in> set xs. key x \<noteq> k}"
  by (auto simp: lremove_def)

lemma map_key_lremove: "map key (lremove key k xs) = filter (\<lambda>y. y \<noteq> k) (map key xs)"
  by (induction xs) (auto simp: lremove_def)

lemma distinct_lremove: "distinct (map key xs) \<Longrightarrow> distinct (map key (lremove key k xs))"
  by (simp add: map_key_lremove)

lemma sorted_wrt_lremove:
  "sorted_wrt P xs \<Longrightarrow> sorted_wrt P (lremove key k xs)"
  by (simp add: lremove_def sorted_wrt_filter)

lemma map_key_lupdate:
  "(\<And>x. key (f x) = key x) \<Longrightarrow> map key (lupdate key k f xs) = map key xs"
  by (induction xs) (auto simp: lupdate_def)

lemma lfind_lupdate:
  "(\<And>x. key (f x) = key x) \<Longrightarrow>
   lfind key k (lupdate key j f xs) = map_option (\<lambda>x. if k = j then f x else x) (lfind key k xs)"
  by (induction xs) (auto simp: lupdate_def)

lemma length_lupdate [simp]: "length (lupdate key k f xs) = length xs"
  by (simp add: lupdate_def)

lemma set_lupdate:
  "set (lupdate key k f xs) = (\<lambda>x. if key x = k then f x else x) ` set xs"
  by (simp add: lupdate_def)

lemma map_eq_image: "map f xs = map f ys \<Longrightarrow> f ` set xs = f ` set ys"
  by (metis list.set_map)

text \<open>Update of the first element a loop finds before it breaks.\<close>

fun upd_first :: "('a \<Rightarrow> bool) \<Rightarrow> ('a \<Rightarrow> 'a) \<Rightarrow> 'a list \<Rightarrow> 'a list" where
  "upd_first P f [] = []"
| "upd_first P f (x # xs) = (if P x then f x # xs else x # upd_first P f xs)"

lemma length_upd_first [simp]: "length (upd_first P f xs) = length xs"
  by (induction xs) auto

lemma map_key_upd_first:
  "(\<And>x. key (f x) = key x) \<Longrightarrow> map key (upd_first P f xs) = map key xs"
  by (induction xs) auto

lemma upd_first_none: "\<forall>x\<in>set xs. \<not> P x \<Longrightarrow> upd_first P f xs = xs"
  by (induction xs) auto

lemma upd_first_lupdate:
  "distinct (map key xs) \<Longrightarrow> upd_first (\<lambda>x. key x = k) f xs = lupdate key k f xs"
proof (induction xs)
  case (Cons x xs)
  have "lupdate key k f xs = xs" if "key x = k"
    unfolding lupdate_def using Cons.prems that by (intro map_idI) (auto simp: image_iff)
  then show ?case
    using Cons by (auto simp: lupdate_def)
qed (simp add: lupdate_def)

lemma set_upd_first_subset: "set (upd_first P f xs) \<subseteq> set xs \<union> f ` set xs"
  by (induction xs) auto

end
