(* ===== verification/Scsi_Const.thy ===== *)
theory Scsi_Const
  imports Tgt_Prelude
begin

text \<open>
  The constants of \<open>usr/scsi.h\<close> the modelled handlers use, at the width the
  code uses them: operation codes, service actions, sense keys and device types
  are bytes, additional sense codes are 16 bits, statuses are the \<open>int\<close> a
  handler returns.
\<close>

section \<open>Operation codes and service actions\<close>

abbreviation (input) "TEST_UNIT_READY \<equiv> 0 :: u8"
abbreviation (input) "REQUEST_SENSE \<equiv> 0x03 :: u8"
abbreviation (input) "FORMAT_UNIT \<equiv> 0x04 :: u8"
abbreviation (input) "READ_6 \<equiv> 0x08 :: u8"
abbreviation (input) "WRITE_6 \<equiv> 0x0a :: u8"
abbreviation (input) "INQUIRY \<equiv> 0x12 :: u8"
abbreviation (input) "MODE_SELECT \<equiv> 0x15 :: u8"
abbreviation (input) "RESERVE \<equiv> 0x16 :: u8"
abbreviation (input) "RELEASE \<equiv> 0x17 :: u8"
abbreviation (input) "MODE_SENSE \<equiv> 0x1a :: u8"
abbreviation (input) "START_STOP \<equiv> 0x1b :: u8"
abbreviation (input) "SEND_DIAGNOSTIC \<equiv> 0x1d :: u8"
abbreviation (input) "ALLOW_MEDIUM_REMOVAL \<equiv> 0x1e :: u8"
abbreviation (input) "READ_CAPACITY \<equiv> 0x25 :: u8"
abbreviation (input) "READ_10 \<equiv> 0x28 :: u8"
abbreviation (input) "WRITE_10 \<equiv> 0x2a :: u8"
abbreviation (input) "WRITE_VERIFY \<equiv> 0x2e :: u8"
abbreviation (input) "VERIFY_10 \<equiv> 0x2f :: u8"
abbreviation (input) "PRE_FETCH_10 \<equiv> 0x34 :: u8"
abbreviation (input) "SYNCHRONIZE_CACHE \<equiv> 0x35 :: u8"
abbreviation (input) "WRITE_SAME \<equiv> 0x41 :: u8"
abbreviation (input) "UNMAP \<equiv> 0x42 :: u8"
abbreviation (input) "MODE_SELECT_10 \<equiv> 0x55 :: u8"
abbreviation (input) "RESERVE_10 \<equiv> 0x56 :: u8"
abbreviation (input) "RELEASE_10 \<equiv> 0x57 :: u8"
abbreviation (input) "MODE_SENSE_10 \<equiv> 0x5a :: u8"
abbreviation (input) "PERSISTENT_RESERVE_IN \<equiv> 0x5e :: u8"
abbreviation (input) "PERSISTENT_RESERVE_OUT \<equiv> 0x5f :: u8"
abbreviation (input) "VARLEN_CDB \<equiv> 0x7f :: u8"
abbreviation (input) "READ_16 \<equiv> 0x88 :: u8"
abbreviation (input) "COMPARE_AND_WRITE \<equiv> 0x89 :: u8"
abbreviation (input) "WRITE_16 \<equiv> 0x8a :: u8"
abbreviation (input) "ORWRITE_16 \<equiv> 0x8b :: u8"
abbreviation (input) "WRITE_VERIFY_16 \<equiv> 0x8e :: u8"
abbreviation (input) "VERIFY_16 \<equiv> 0x8f :: u8"
abbreviation (input) "PRE_FETCH_16 \<equiv> 0x90 :: u8"
abbreviation (input) "SYNCHRONIZE_CACHE_16 \<equiv> 0x91 :: u8"
abbreviation (input) "WRITE_SAME_16 \<equiv> 0x93 :: u8"
abbreviation (input) "SERVICE_ACTION_IN \<equiv> 0x9e :: u8"
abbreviation (input) "SAI_READ_CAPACITY_16 \<equiv> 0x10 :: u8"
abbreviation (input) "SAI_GET_LBA_STATUS \<equiv> 0x12 :: u8"
abbreviation (input) "REPORT_LUNS \<equiv> 0xa0 :: u8"
abbreviation (input) "MAINT_PROTOCOL_IN \<equiv> 0xa3 :: u8"
abbreviation (input) "READ_12 \<equiv> 0xa8 :: u8"
abbreviation (input) "WRITE_12 \<equiv> 0xaa :: u8"
abbreviation (input) "WRITE_VERIFY_12 \<equiv> 0xae :: u8"
abbreviation (input) "VERIFY_12 \<equiv> 0xaf :: u8"
abbreviation (input) "MPI_REPORT_SUPPORTED_OPCODES \<equiv> 0x0c :: u8"

section \<open>Persistent reservations\<close>

abbreviation (input) "PR_IN_READ_KEYS \<equiv> 0 :: u8"
abbreviation (input) "PR_IN_READ_RESERVATION \<equiv> 1 :: u8"
abbreviation (input) "PR_IN_REPORT_CAPABILITIES \<equiv> 0x02 :: u8"
abbreviation (input) "PR_IN_READ_FULL_STATUS \<equiv> 0x03 :: u8"
abbreviation (input) "PR_OUT_REGISTER \<equiv> 0 :: u8"
abbreviation (input) "PR_OUT_RESERVE \<equiv> 1 :: u8"
abbreviation (input) "PR_OUT_RELEASE \<equiv> 0x02 :: u8"
abbreviation (input) "PR_OUT_CLEAR \<equiv> 0x03 :: u8"
abbreviation (input) "PR_OUT_PREEMPT \<equiv> 0x04 :: u8"
abbreviation (input) "PR_OUT_PREEMPT_AND_ABORT \<equiv> 0x05 :: u8"
abbreviation (input) "PR_OUT_REGISTER_AND_IGNORE_EXISTING_KEY \<equiv> 0x06 :: u8"
abbreviation (input) "PR_OUT_REGISTER_AND_MOVE \<equiv> 0x07 :: u8"
abbreviation (input) "PR_LU_SCOPE \<equiv> 0 :: u8"
abbreviation (input) "PR_TYPE_WRITE_EXCLUSIVE \<equiv> 1 :: u8"
abbreviation (input) "PR_TYPE_EXCLUSIVE_ACCESS \<equiv> 0x03 :: u8"
abbreviation (input) "PR_TYPE_WRITE_EXCLUSIVE_REGONLY \<equiv> 0x05 :: u8"
abbreviation (input) "PR_TYPE_EXCLUSIVE_ACCESS_REGONLY \<equiv> 0x06 :: u8"
abbreviation (input) "PR_TYPE_WRITE_EXCLUSIVE_ALLREG \<equiv> 0x07 :: u8"
abbreviation (input) "PR_TYPE_EXCLUSIVE_ACCESS_ALLREG \<equiv> 0x08 :: u8"

section \<open>Statuses, sense keys and additional sense codes\<close>

abbreviation (input) "SAM_STAT_GOOD \<equiv> 0 :: int"
abbreviation (input) "SAM_STAT_CHECK_CONDITION \<equiv> 0x02 :: int"
abbreviation (input) "SAM_STAT_BUSY \<equiv> 0x08 :: int"
abbreviation (input) "SAM_STAT_RESERVATION_CONFLICT \<equiv> 0x18 :: int"
abbreviation (input) "SAM_STAT_TASK_SET_FULL \<equiv> 0x28 :: int"
abbreviation (input) "SAM_STAT_TASK_ABORTED \<equiv> 0x40 :: int"

abbreviation (input) "NO_SENSE \<equiv> 0 :: u8"
abbreviation (input) "NOT_READY \<equiv> 0x02 :: u8"
abbreviation (input) "MEDIUM_ERROR \<equiv> 0x03 :: u8"
abbreviation (input) "HARDWARE_ERROR \<equiv> 0x04 :: u8"
abbreviation (input) "ILLEGAL_REQUEST \<equiv> 0x05 :: u8"
abbreviation (input) "UNIT_ATTENTION \<equiv> 0x06 :: u8"
abbreviation (input) "DATA_PROTECT \<equiv> 0x07 :: u8"
abbreviation (input) "MISCOMPARE \<equiv> 0x0e :: u8"

abbreviation (input) "NO_ADDITIONAL_SENSE \<equiv> 0 :: u16"
abbreviation (input) "ASC_WRITE_ERROR \<equiv> 0x0c00 :: u16"
abbreviation (input) "ASC_READ_ERROR \<equiv> 0x1100 :: u16"
abbreviation (input) "ASC_CAUSE_NOT_REPORTABLE \<equiv> 0x0400 :: u16"
abbreviation (input) "ASC_BECOMING_READY \<equiv> 0x0401 :: u16"
abbreviation (input) "ASC_MEDIUM_NOT_PRESENT \<equiv> 0x3a00 :: u16"
abbreviation (input) "ASC_UNRECOVERED_READ \<equiv> 0x1100 :: u16"
abbreviation (input) "ASC_INTERNAL_TGT_FAILURE \<equiv> 0x4400 :: u16"
abbreviation (input) "ASC_PARAMETER_LIST_LENGTH_ERR \<equiv> 0x1a00 :: u16"
abbreviation (input) "ASC_INVALID_OP_CODE \<equiv> 0x2000 :: u16"
abbreviation (input) "ASC_LBA_OUT_OF_RANGE \<equiv> 0x2100 :: u16"
abbreviation (input) "ASC_INVALID_FIELD_IN_CDB \<equiv> 0x2400 :: u16"
abbreviation (input) "ASC_LUN_NOT_SUPPORTED \<equiv> 0x2500 :: u16"
abbreviation (input) "ASC_INVALID_FIELD_IN_PARMS \<equiv> 0x2600 :: u16"
abbreviation (input) "ASC_INVALID_RELEASE_OF_PERSISTENT_RESERVATION \<equiv> 0x2604 :: u16"
abbreviation (input) "ASC_SAVING_PARMS_UNSUP \<equiv> 0x3900 :: u16"
abbreviation (input) "ASC_MEDIUM_REMOVAL_PREVENTED \<equiv> 0x5302 :: u16"
abbreviation (input) "ASC_INSUFFICENT_REGISTRATION_RESOURCES \<equiv> 0x5504 :: u16"
abbreviation (input) "ASC_NOT_READY_TO_TRANSITION \<equiv> 0x2800 :: u16"
abbreviation (input) "ASC_POWERON_RESET \<equiv> 0x2900 :: u16"
abbreviation (input) "ASC_I_T_NEXUS_LOSS_OCCURRED \<equiv> 0x2907 :: u16"
abbreviation (input) "ASC_MODE_PARAMETERS_CHANGED \<equiv> 0x2a01 :: u16"
abbreviation (input) "ASC_RESERVATIONS_PREEMPTED \<equiv> 0x2a03 :: u16"
abbreviation (input) "ASC_RESERVATIONS_RELEASED \<equiv> 0x2a04 :: u16"
abbreviation (input) "ASC_CMDS_CLEARED_BY_ANOTHER_INI \<equiv> 0x2f00 :: u16"
abbreviation (input) "ASC_INQUIRY_DATA_HAS_CHANGED \<equiv> 0x3f03 :: u16"
abbreviation (input) "ASC_REPORTED_LUNS_DATA_HAS_CHANGED \<equiv> 0x3f0e :: u16"
abbreviation (input) "ASC_WRITE_PROTECT \<equiv> 0x2700 :: u16"
abbreviation (input) "ASC_MISCOMPARE_DURING_VERIFY_OPERATION \<equiv> 0x1d00 :: u16"

section \<open>Device types and task attributes\<close>

abbreviation (input) "TYPE_DISK \<equiv> 0 :: u8"
abbreviation (input) "TYPE_TAPE \<equiv> 1 :: u8"
abbreviation (input) "TYPE_MMC \<equiv> 0x05 :: u8"
abbreviation (input) "TYPE_MEDIUM_CHANGER \<equiv> 0x08 :: u8"
abbreviation (input) "TYPE_RAID \<equiv> 0x0c :: u8"
abbreviation (input) "TYPE_OSD \<equiv> 0x11 :: u8"
abbreviation (input) "TYPE_NO_LUN \<equiv> 0x7f :: u8"
abbreviation (input) "TYPE_PT \<equiv> 0xff :: u8"

abbreviation (input) "MSG_SIMPLE_TAG \<equiv> 0x20 :: int"
abbreviation (input) "MSG_HEAD_TAG \<equiv> 0x21 :: int"
abbreviation (input) "MSG_ORDERED_TAG \<equiv> 0x22 :: int"

end
