(* ===== verification/Byteshift.thy ===== *)
theory Byteshift
  imports Tgt_Prelude
begin

text \<open>
  The big-endian accessors of \<open>usr/be_byteshift.h\<close>. A pointer argument is a
  buffer and the offset the C code adds to it. The \<open>put\<close> functions store
  through \<^const>\<open>put_bytes\<close>, so a caller that stays in its buffer keeps the
  buffer's length. The contract \<open>be_codec\<close> collects what the callers use of
  each width: a value that was put is the value that is got, and no other byte
  of the buffer changes.
\<close>

unbundle bit_operations_syntax

section \<open>The accessors\<close>

definition get_unaligned_be16 :: "bytes \<Rightarrow> nat \<Rightarrow> u16" where
  "get_unaligned_be16 p i =
     push_bit 8 (ucast (byte_at p i)) OR ucast (byte_at p (i + 1))"

definition get_unaligned_be24 :: "bytes \<Rightarrow> nat \<Rightarrow> u32" where
  "get_unaligned_be24 p i =
     push_bit 16 (ucast (byte_at p i)) OR push_bit 8 (ucast (byte_at p (i + 1)))
       OR ucast (byte_at p (i + 2))"

definition get_unaligned_be32 :: "bytes \<Rightarrow> nat \<Rightarrow> u32" where
  "get_unaligned_be32 p i =
     push_bit 24 (ucast (byte_at p i)) OR push_bit 16 (ucast (byte_at p (i + 1)))
       OR push_bit 8 (ucast (byte_at p (i + 2))) OR ucast (byte_at p (i + 3))"

definition get_unaligned_be64 :: "bytes \<Rightarrow> nat \<Rightarrow> u64" where
  "get_unaligned_be64 p i =
     push_bit 32 (ucast (get_unaligned_be32 p i)) OR ucast (get_unaligned_be32 p (i + 4))"

definition be16_bytes :: "u16 \<Rightarrow> bytes" where
  "be16_bytes v = [ucast (drop_bit 8 v), ucast v]"

definition be24_bytes :: "u32 \<Rightarrow> bytes" where
  "be24_bytes v = [ucast (drop_bit 16 v AND 0xff), ucast (drop_bit 8 v AND 0xff), ucast (v AND 0xff)]"

definition be32_bytes :: "u32 \<Rightarrow> bytes" where
  "be32_bytes v = be16_bytes (ucast (drop_bit 16 v)) @ be16_bytes (ucast v)"

definition be64_bytes :: "u64 \<Rightarrow> bytes" where
  "be64_bytes v = be32_bytes (ucast (drop_bit 32 v)) @ be32_bytes (ucast v)"

definition put_unaligned_be16 :: "u16 \<Rightarrow> bytes \<Rightarrow> nat \<Rightarrow> bytes" where
  "put_unaligned_be16 v p i = put_bytes p i (be16_bytes v)"

definition put_unaligned_be24 :: "u32 \<Rightarrow> bytes \<Rightarrow> nat \<Rightarrow> bytes" where
  "put_unaligned_be24 v p i = put_bytes p i (be24_bytes v)"

definition put_unaligned_be32 :: "u32 \<Rightarrow> bytes \<Rightarrow> nat \<Rightarrow> bytes" where
  "put_unaligned_be32 v p i = put_bytes p i (be32_bytes v)"

definition put_unaligned_be64 :: "u64 \<Rightarrow> bytes \<Rightarrow> nat \<Rightarrow> bytes" where
  "put_unaligned_be64 v p i = put_bytes p i (be64_bytes v)"

section \<open>Lengths and contents\<close>

lemma length_be_bytes [simp, buf_simps]:
  "length (be16_bytes v) = 2" "length (be24_bytes w) = 3"
  "length (be32_bytes w) = 4" "length (be64_bytes x) = 8"
  by (simp_all add: be16_bytes_def be24_bytes_def be32_bytes_def be64_bytes_def)

lemma be32_bytes_list:
  "be32_bytes v = [ucast (drop_bit 24 v), ucast (drop_bit 16 v), ucast (drop_bit 8 v), ucast v]"
proof -
  have "ucast (drop_bit 8 (ucast (drop_bit 16 v) :: u16)) = (ucast (drop_bit 24 v) :: u8)"
    by (rule bit_word_eqI) (auto simp: bit_simps ac_simps)
  moreover have "ucast (ucast (drop_bit 16 v) :: u16) = (ucast (drop_bit 16 v) :: u8)"
    by (rule bit_word_eqI) (auto simp: bit_simps)
  moreover have "ucast (drop_bit 8 (ucast v :: u16)) = (ucast (drop_bit 8 v) :: u8)"
    by (rule bit_word_eqI) (auto simp: bit_simps)
  moreover have "ucast (ucast v :: u16) = (ucast v :: u8)"
    by (rule bit_word_eqI) (auto simp: bit_simps)
  ultimately show ?thesis
    by (simp add: be32_bytes_def be16_bytes_def)
qed

lemma ucast_and_0xff: "ucast (x AND 0xff :: u32) = (ucast x :: u8)"
proof -
  have "(0xff :: u32) = mask 8"
    by (simp add: mask_eq_exp_minus_1)
  then have "x AND 0xff = x AND mask 8"
    by simp
  then show ?thesis
    by (simp only:) (rule bit_word_eqI, auto simp: bit_simps)
qed

lemma be16_join:
  "push_bit 8 (ucast (ucast (drop_bit 8 v) :: u8)) OR ucast (ucast v :: u8) = (v :: u16)"
  by (rule bit_word_eqI) (auto simp: bit_simps)

lemma be24_join:
  "push_bit 16 (ucast (ucast (drop_bit 16 v) :: u8)) OR push_bit 8 (ucast (ucast (drop_bit 8 v) :: u8))
     OR ucast (ucast v :: u8) = take_bit 24 (v :: u32)" (is "?l = ?r")
proof (rule bit_word_eqI)
  fix n :: nat
  consider "n < 8" | "8 \<le> n" "n < 16" | "16 \<le> n" "n < 24" | "24 \<le> n" by linarith
  then show "bit ?l n = bit ?r n"
    by cases (auto simp: bit_simps)
qed

lemma be32_join:
  "push_bit 24 (ucast (ucast (drop_bit 24 v) :: u8)) OR push_bit 16 (ucast (ucast (drop_bit 16 v) :: u8))
     OR push_bit 8 (ucast (ucast (drop_bit 8 v) :: u8)) OR ucast (ucast v :: u8) = (v :: u32)" (is "?l = ?r")
proof (rule bit_word_eqI)
  fix n :: nat assume "n < LENGTH(32)"
  then consider "n < 8" | "8 \<le> n" "n < 16" | "16 \<le> n" "n < 24" | "24 \<le> n" "n < 32"
    by fastforce
  then show "bit ?l n = bit ?r n"
    by cases (auto simp: bit_simps)
qed

lemma be64_join:
  "push_bit 32 (ucast (ucast (drop_bit 32 v) :: u32)) OR ucast (ucast v :: u32) = (v :: u64)"
  by (rule bit_word_eqI) (auto simp: bit_simps)

lemma get_put_be16:
  "i + 2 \<le> length p \<Longrightarrow> get_unaligned_be16 (put_unaligned_be16 v p i) i = v"
  by (simp add: get_unaligned_be16_def put_unaligned_be16_def byte_at_put_bytes)
     (simp add: be16_bytes_def be16_join)

lemma get_put_be24:
  "i + 3 \<le> length p \<Longrightarrow> get_unaligned_be24 (put_unaligned_be24 v p i) i = take_bit 24 v"
  by (simp add: get_unaligned_be24_def put_unaligned_be24_def byte_at_put_bytes)
     (simp add: be24_bytes_def ucast_and_0xff be24_join)

lemma get_put_be32:
  "i + 4 \<le> length p \<Longrightarrow> get_unaligned_be32 (put_unaligned_be32 v p i) i = v"
  by (simp add: get_unaligned_be32_def put_unaligned_be32_def byte_at_put_bytes)
     (simp add: be32_bytes_list be32_join)

lemma get_be32_append_bytes:
  "length xs = i \<Longrightarrow> get_unaligned_be32 (xs @ be32_bytes v @ ys) i = v"
  using get_put_be32 [of i "xs @ replicate 4 0 @ ys" v]
  by (simp add: put_unaligned_be32_def put_bytes_def)

lemma get_put_be64:
  assumes "i + 8 \<le> length p"
  shows "get_unaligned_be64 (put_unaligned_be64 v p i) i = v"
proof -
  let ?hi = "be32_bytes (ucast (drop_bit 32 v))" and ?lo = "be32_bytes (ucast v)"
  have eq: "put_unaligned_be64 v p i = take i p @ ?hi @ (?lo @ drop (i + 8) p)"
    "put_unaligned_be64 v p i = (take i p @ ?hi) @ ?lo @ drop (i + 8) p"
    by (simp_all add: put_unaligned_be64_def put_bytes_def be64_bytes_def)
  have "get_unaligned_be32 (put_unaligned_be64 v p i) i = ucast (drop_bit 32 v)"
    unfolding eq(1) using assms by (intro get_be32_append_bytes) simp
  moreover have "get_unaligned_be32 (put_unaligned_be64 v p i) (i + 4) = ucast v"
    unfolding eq(2) using assms by (intro get_be32_append_bytes) simp
  ultimately show ?thesis
    by (simp add: get_unaligned_be64_def be64_join)
qed

section \<open>The contract of a big-endian field\<close>

text \<open>
  A field of \<open>n\<close> bytes read by \<open>get\<close> and stored by \<open>put\<close>, for the values \<open>ok\<close>
  that fit it.
\<close>

locale be_codec =
  fixes n :: nat
    and get :: "bytes \<Rightarrow> nat \<Rightarrow> 'a"
    and put :: "'a \<Rightarrow> bytes \<Rightarrow> nat \<Rightarrow> bytes"
    and enc :: "'a \<Rightarrow> bytes"
    and ok :: "'a \<Rightarrow> bool"
  assumes len_enc: "length (enc v) = n"
    and put_enc: "put v p i = put_bytes p i (enc v)"
    and get_local: "(\<And>j. j < n \<Longrightarrow> byte_at p (i + j) = byte_at q (k + j)) \<Longrightarrow> get p i = get q k"
    and get_put: "i + n \<le> length p \<Longrightarrow> ok v \<Longrightarrow> get (put v p i) i = v"
begin

lemma length_put: "i + n \<le> length p \<Longrightarrow> length (put v p i) = length p"
  by (simp add: put_enc len_enc)

lemma put_other_byte:
  "i + n \<le> length p \<Longrightarrow> j < i \<or> i + n \<le> j \<Longrightarrow> byte_at (put v p i) j = byte_at p j"
  by (auto simp: put_enc len_enc byte_at_put_bytes)

lemma get_put_disjoint:
  "i + n \<le> length p \<Longrightarrow> k + n \<le> i \<or> i + n \<le> k \<Longrightarrow> get (put v p i) k = get p k"
  by (rule get_local) (auto intro!: put_other_byte)

lemma put_put: "i + n \<le> length p \<Longrightarrow> put v (put w p i) i = put v p i"
  by (simp add: put_enc len_enc put_bytes_def)

lemma enc_inject: "ok v \<Longrightarrow> ok w \<Longrightarrow> enc v = enc w \<longleftrightarrow> v = w"
  by (metis get_put length_replicate add_0 order_refl put_enc)

end

lemma get_unaligned_local:
  assumes "\<And>j. j < n \<Longrightarrow> byte_at p (i + j) = byte_at q (k + j)"
  shows "n = 2 \<Longrightarrow> get_unaligned_be16 p i = get_unaligned_be16 q k"
    and "n = 3 \<Longrightarrow> get_unaligned_be24 p i = get_unaligned_be24 q k"
    and "n = 4 \<Longrightarrow> get_unaligned_be32 p i = get_unaligned_be32 q k"
  using assms [of 0] assms [of 1] assms [of 2] assms [of 3]
  by (simp_all add: get_unaligned_be16_def get_unaligned_be24_def get_unaligned_be32_def)

lemma get_unaligned_be64_local:
  assumes "\<And>j. j < 8 \<Longrightarrow> byte_at p (i + j) = byte_at q (k + j)"
  shows "get_unaligned_be64 p i = get_unaligned_be64 q k"
proof -
  have "get_unaligned_be32 p i = get_unaligned_be32 q k"
    by (rule get_unaligned_local [of 4]) (simp_all add: assms)
  moreover have "get_unaligned_be32 p (i + 4) = get_unaligned_be32 q (k + 4)"
    by (rule get_unaligned_local [of 4]) (use assms in \<open>simp_all add: add.assoc\<close>)
  ultimately show ?thesis
    by (simp add: get_unaligned_be64_def)
qed

lemma take_bit_24_small: "(v :: u32) < 2 ^ 24 \<Longrightarrow> take_bit 24 v = v"
  by (rule word_unat_eq_iff [THEN iffD2])
     (simp add: unsigned_take_bit_eq take_bit_nat_eq_self word_less_nat_alt)

interpretation be16: be_codec 2 get_unaligned_be16 put_unaligned_be16 be16_bytes "\<lambda>_. True"
  by (unfold_locales; (rule get_put_be16 get_unaligned_local(1))?) (auto simp: put_unaligned_be16_def)

interpretation be24: be_codec 3 get_unaligned_be24 put_unaligned_be24 be24_bytes "\<lambda>v. v < 2 ^ 24"
  by (unfold_locales; (rule get_put_be24 [THEN trans] get_unaligned_local(2))?)
     (auto simp: put_unaligned_be24_def take_bit_24_small)

interpretation be32: be_codec 4 get_unaligned_be32 put_unaligned_be32 be32_bytes "\<lambda>_. True"
  by (unfold_locales; (rule get_put_be32 get_unaligned_local(3))?) (auto simp: put_unaligned_be32_def)

interpretation be64: be_codec 8 get_unaligned_be64 put_unaligned_be64 be64_bytes "\<lambda>_. True"
  by (unfold_locales; (rule get_put_be64 get_unaligned_be64_local)?) (auto simp: put_unaligned_be64_def)

end
