(* ===== verification/Scsi_Cdb.thy ===== *)
theory Scsi_Cdb
  imports Scsi_Const Byteshift
begin

text \<open>
  The command descriptor block decoders of \<open>usr/scsi.c\<close>: the size and control
  byte of a CDB, the usage masks of REPORT SUPPORTED OPERATION CODES, the LUN of
  a request, the block address and block count of a medium access, and the
  opcode classes. A CDB is the byte list \<open>scb\<close>.
\<close>

unbundle bit_operations_syntax

section \<open>CDB size and control byte\<close>

definition scsi_command_size :: "nat list" where
  "scsi_command_size = [6, 10, 10, 12, 16, 12, 10, 10]"

definition get_scsi_command_size :: "u8 \<Rightarrow> nat" where
  "get_scsi_command_size op = scsi_command_size ! unat (drop_bit 5 op AND 7)"

definition get_scsi_cdb_size :: "bytes \<Rightarrow> nat \<Rightarrow> nat" where
  "get_scsi_cdb_size scb scb_len =
     (if drop_bit 5 (byte_at scb 0) AND 7 < 6 then get_scsi_command_size (byte_at scb 0) else scb_len)"

definition cdb_control :: "bytes \<Rightarrow> nat \<Rightarrow> u8" where
  "cdb_control scb scb_len =
     (if byte_at scb 0 = VARLEN_CDB then byte_at scb 1
      else byte_at scb (get_scsi_cdb_size scb scb_len - 1))"

section \<open>CDB usage masks\<close>

named_theorems usage_tabs "the static usage masks"

definition usage_allow_medium_removal :: bytes where [usage_tabs]:
  "usage_allow_medium_removal = [0xff, 0x00, 0x00, 0x00, 0x03, 0x07]"

definition usage_send_diagnostics :: bytes where [usage_tabs]:
  "usage_send_diagnostics = [0xff, 0xff, 0x00, 0xff, 0xff, 0x07]"

definition usage_start_stop :: bytes where [usage_tabs]:
  "usage_start_stop = [0xff, 0x01, 0x00, 0x0f, 0xf7, 0x07]"

definition usage_mode_sense :: bytes where [usage_tabs]:
  "usage_mode_sense = [0xff, 0x08, 0xff, 0xff, 0xff, 0x07]"

definition usage_mode_select :: bytes where [usage_tabs]:
  "usage_mode_select = [0xff, 0x11, 0x00, 0x00, 0xff, 0x07]"

definition usage_reserve_release :: bytes where [usage_tabs]:
  "usage_reserve_release = [0xff, 0x00, 0x00, 0x00, 0x00, 0x07]"

definition usage_inquiry :: bytes where [usage_tabs]:
  "usage_inquiry = [0xff, 0x01, 0xff, 0xff, 0xff, 0x07]"

definition usage_read_write_6 :: bytes where [usage_tabs]:
  "usage_read_write_6 = [0xff, 0x1f, 0xff, 0xff, 0xff, 0x07]"

definition usage_format_unit :: bytes where [usage_tabs]:
  "usage_format_unit = [0xff, 0xff, 0x00, 0x00, 0x00, 0x07]"

definition usage_request_sense :: bytes where [usage_tabs]:
  "usage_request_sense = [0xff, 0x01, 0x00, 0x00, 0xff, 0x07]"

definition usage_test_unit_ready :: bytes where [usage_tabs]:
  "usage_test_unit_ready = [0xff, 0x00, 0x00, 0x00, 0x00, 0x07]"

definition usage_persistent_reserve_in :: bytes where [usage_tabs]:
  "usage_persistent_reserve_in = [0xff, 0x1f, 0x00, 0x00, 0x00, 0x00, 0x00, 0xff, 0xff, 0x07]"

definition usage_persistent_reserve_out :: bytes where [usage_tabs]:
  "usage_persistent_reserve_out = [0xff, 0x1f, 0xff, 0x00, 0x00, 0xff, 0xff, 0xff, 0xff, 0x07]"

definition usage_mode_sense_10 :: bytes where [usage_tabs]:
  "usage_mode_sense_10 = [0xff, 0x18, 0xff, 0xff, 0x00, 0x00, 0x00, 0xff, 0xff, 0x07]"

definition usage_mode_select_10 :: bytes where [usage_tabs]:
  "usage_mode_select_10 = [0xff, 0x11, 0x00, 0x00, 0x00, 0x00, 0x00, 0xff, 0xff, 0x07]"

definition usage_unmap :: bytes where [usage_tabs]:
  "usage_unmap = [0xff, 0x01, 0x00, 0x00, 0x00, 0x00, 0x00, 0xff, 0xff, 0x07]"

definition usage_write_same_10 :: bytes where [usage_tabs]:
  "usage_write_same_10 = [0xff, 0xf8, 0xff, 0xff, 0xff, 0xff, 0x00, 0xff, 0xff, 0x07]"

definition usage_pre_fetch_10 :: bytes where [usage_tabs]:
  "usage_pre_fetch_10 = [0xff, 0x02, 0xff, 0xff, 0xff, 0xff, 0x00, 0xff, 0xff, 0x07]"

definition usage_synchronize_cache_10 :: bytes where [usage_tabs]:
  "usage_synchronize_cache_10 = [0xff, 0x06, 0xff, 0xff, 0xff, 0xff, 0x00, 0xff, 0xff, 0x07]"

definition usage_verify_10 :: bytes where [usage_tabs]:
  "usage_verify_10 = [0xff, 0xf2, 0xff, 0xff, 0xff, 0xff, 0x00, 0xff, 0xff, 0x07]"

definition usage_write_10 :: bytes where [usage_tabs]:
  "usage_write_10 = [0xff, 0xfa, 0xff, 0xff, 0xff, 0xff, 0x00, 0xff, 0xff, 0x07]"

definition usage_read_10 :: bytes where [usage_tabs]:
  "usage_read_10 = [0xff, 0xfe, 0xff, 0xff, 0xff, 0xff, 0x00, 0xff, 0xff, 0x07]"

definition usage_read_capacity :: bytes where [usage_tabs]:
  "usage_read_capacity = [0xff, 0x00, 0x00, 0x00, 0x00, 0x00, 0x00, 0x00, 0x00, 0x07]"

definition usage_verify_12 :: bytes where [usage_tabs]:
  "usage_verify_12 = [0xff, 0xf2, 0xff, 0xff, 0xff, 0xff, 0xff, 0xff, 0xff, 0xff, 0x00, 0x07]"

definition usage_write_12 :: bytes where [usage_tabs]:
  "usage_write_12 = [0xff, 0xfa, 0xff, 0xff, 0xff, 0xff, 0xff, 0xff, 0xff, 0xff, 0x00, 0x07]"

definition usage_read_12 :: bytes where [usage_tabs]:
  "usage_read_12 = [0xff, 0xfe, 0xff, 0xff, 0xff, 0xff, 0xff, 0xff, 0xff, 0xff, 0x00, 0x07]"

definition usage_rep_sup_opcodes :: bytes where [usage_tabs]:
  "usage_rep_sup_opcodes = [0xff, 0x1f, 0x87, 0xff, 0xff, 0xff, 0xff, 0xff, 0xff, 0xff, 0x00, 0x07]"

definition usage_report_luns :: bytes where [usage_tabs]:
  "usage_report_luns = [0xff, 0x00, 0xff, 0x00, 0x00, 0x00, 0xff, 0xff, 0xff, 0xff, 0x00, 0x07]"

definition usage_get_lba_status :: bytes where [usage_tabs]:
  "usage_get_lba_status = [0xff, 0x1f, 0xff, 0xff, 0xff, 0xff, 0xff, 0xff, 0xff, 0xff, 0xff, 0xff, 0xff, 0xff, 0x00, 0x07]"

definition usage_read_capacity_16 :: bytes where [usage_tabs]:
  "usage_read_capacity_16 = [0xff, 0x1f, 0x00, 0x00, 0x00, 0x00, 0x00, 0x00, 0x00, 0x00, 0xff, 0xff, 0xff, 0xff, 0x00, 0x07]"

definition usage_write_same_16 :: bytes where [usage_tabs]:
  "usage_write_same_16 = [0xff, 0xf8, 0xff, 0xff, 0xff, 0xff, 0xff, 0xff, 0xff, 0xff, 0xff, 0xff, 0xff, 0xff, 0x00, 0x07]"

definition usage_synchronize_cache_16 :: bytes where [usage_tabs]:
  "usage_synchronize_cache_16 = [0xff, 0x06, 0xff, 0xff, 0xff, 0xff, 0xff, 0xff, 0xff, 0xff, 0xff, 0xff, 0xff, 0xff, 0x00, 0x07]"

definition usage_pre_fetch_16 :: bytes where [usage_tabs]:
  "usage_pre_fetch_16 = [0xff, 0x02, 0xff, 0xff, 0xff, 0xff, 0xff, 0xff, 0xff, 0xff, 0xff, 0xff, 0xff, 0xff, 0x00, 0x07]"

definition usage_verify_16 :: bytes where [usage_tabs]:
  "usage_verify_16 = [0xff, 0xf2, 0xff, 0xff, 0xff, 0xff, 0xff, 0xff, 0xff, 0xff, 0xff, 0xff, 0xff, 0xff, 0x00, 0x07]"

definition usage_orwrite_16 :: bytes where [usage_tabs]:
  "usage_orwrite_16 = [0xff, 0xfa, 0xff, 0xff, 0xff, 0xff, 0xff, 0xff, 0xff, 0xff, 0xff, 0xff, 0xff, 0xff, 0x00, 0x07]"

definition usage_compare_and_write :: bytes where [usage_tabs]:
  "usage_compare_and_write = [0xff, 0xfa, 0xff, 0xff, 0xff, 0xff, 0xff, 0xff, 0xff, 0xff, 0x00, 0x00, 0x00, 0xff, 0x00, 0x07]"

definition usage_read_16 :: bytes where [usage_tabs]:
  "usage_read_16 = [0xff, 0xfe, 0xff, 0xff, 0xff, 0xff, 0xff, 0xff, 0xff, 0xff, 0xff, 0xff, 0xff, 0xff, 0x00, 0x07]"

text \<open>The \<open>switch\<close> that selects the mask; \<open>None\<close> is an opcode it has no case for.\<close>

definition cdb_usage_buf :: "u8 \<Rightarrow> u8 \<Rightarrow> bytes option" where
  "cdb_usage_buf op sa =
     (if op = TEST_UNIT_READY then Some usage_test_unit_ready
      else if op = REQUEST_SENSE then Some usage_request_sense
      else if op = FORMAT_UNIT then Some usage_format_unit
      else if op \<in> {READ_6, WRITE_6} then Some usage_read_write_6
      else if op = INQUIRY then Some usage_inquiry
      else if op = MODE_SELECT then Some usage_mode_select
      else if op \<in> {RELEASE, RESERVE} then Some usage_reserve_release
      else if op = MODE_SENSE then Some usage_mode_sense
      else if op = START_STOP then Some usage_start_stop
      else if op = SEND_DIAGNOSTIC then Some usage_send_diagnostics
      else if op = ALLOW_MEDIUM_REMOVAL then Some usage_allow_medium_removal
      else if op = READ_CAPACITY then Some usage_read_capacity
      else if op = READ_10 then Some usage_read_10
      else if op = WRITE_10 then Some usage_write_10
      else if op \<in> {WRITE_VERIFY, VERIFY_10} then Some usage_verify_10
      else if op = PRE_FETCH_10 then Some usage_pre_fetch_10
      else if op = SYNCHRONIZE_CACHE then Some usage_synchronize_cache_10
      else if op = WRITE_SAME then Some usage_write_same_10
      else if op = UNMAP then Some usage_unmap
      else if op = MODE_SELECT_10 then Some usage_mode_select_10
      else if op = MODE_SENSE_10 then Some usage_mode_sense_10
      else if op = PERSISTENT_RESERVE_IN then (if sa \<in> {PR_IN_READ_KEYS, PR_IN_READ_RESERVATION, PR_IN_REPORT_CAPABILITIES, PR_IN_READ_FULL_STATUS} then Some usage_persistent_reserve_in else None)
      else if op = PERSISTENT_RESERVE_OUT then (if sa \<in> {PR_OUT_REGISTER, PR_OUT_RESERVE, PR_OUT_RELEASE, PR_OUT_CLEAR, PR_OUT_PREEMPT, PR_OUT_PREEMPT_AND_ABORT, PR_OUT_REGISTER_AND_IGNORE_EXISTING_KEY, PR_OUT_REGISTER_AND_MOVE} then Some usage_persistent_reserve_out else None)
      else if op = READ_16 then Some usage_read_16
      else if op = COMPARE_AND_WRITE then Some usage_compare_and_write
      else if op \<in> {WRITE_16, ORWRITE_16} then Some usage_orwrite_16
      else if op \<in> {WRITE_VERIFY_16, VERIFY_16} then Some usage_verify_16
      else if op = PRE_FETCH_16 then Some usage_pre_fetch_16
      else if op = SYNCHRONIZE_CACHE_16 then Some usage_synchronize_cache_16
      else if op = WRITE_SAME_16 then Some usage_write_same_16
      else if op = SERVICE_ACTION_IN then (if sa = SAI_READ_CAPACITY_16 then Some usage_read_capacity_16 else if sa = SAI_GET_LBA_STATUS then Some usage_get_lba_status else None)
      else if op = REPORT_LUNS then Some usage_report_luns
      else if op = MAINT_PROTOCOL_IN then (if sa = MPI_REPORT_SUPPORTED_OPCODES then Some usage_rep_sup_opcodes else None)
      else if op = READ_12 then Some usage_read_12
      else if op \<in> {VERIFY_12, WRITE_VERIFY_12} then Some usage_verify_12
      else if op = WRITE_12 then Some usage_write_12
      else None)"

definition get_scsi_cdb_usage_data :: "u8 \<Rightarrow> u8 \<Rightarrow> bytes" where
  "get_scsi_cdb_usage_data op sa =
     (case cdb_usage_buf op sa of Some buf \<Rightarrow> buf[0 := op] | None \<Rightarrow> replicate 16 0)"

section \<open>The logical unit of a request\<close>

definition TGT_INVALID_DEV_ID :: u64 where "TGT_INVALID_DEV_ID = NOT 0"

definition default_scsi_get_devid :: "bytes \<Rightarrow> u64" where
  "default_scsi_get_devid p =
     (let m = drop_bit 6 (byte_at p 0) in
      if m = 0 then ucast (byte_at p 1)
      else if m = 1 then push_bit 8 (ucast (0x3f AND byte_at p 0)) OR ucast (byte_at p 1)
      else TGT_INVALID_DEV_ID)"

text \<open>A driver may replace the decoder; \<open>scsi_get_lun\<close> is the driver's function, if any.\<close>

definition scsi_get_devid :: "(bytes \<Rightarrow> u64) option \<Rightarrow> bytes \<Rightarrow> u64" where
  "scsi_get_devid scsi_get_lun p =
     (case scsi_get_lun of Some fn \<Rightarrow> fn p | None \<Rightarrow> default_scsi_get_devid p)"

section \<open>Block address and block count\<close>

abbreviation (input) "off32_ops \<equiv>
  {READ_10, PRE_FETCH_10, WRITE_10, VERIFY_10, WRITE_VERIFY, WRITE_SAME, SYNCHRONIZE_CACHE,
   READ_12, WRITE_12, VERIFY_12, WRITE_VERIFY_12}"

abbreviation (input) "cnt16_ops \<equiv>
  {READ_10, PRE_FETCH_10, WRITE_10, VERIFY_10, WRITE_VERIFY, WRITE_SAME, SYNCHRONIZE_CACHE}"

abbreviation (input) "cnt12_ops \<equiv> {READ_12, WRITE_12, VERIFY_12, WRITE_VERIFY_12}"

abbreviation (input) "cdb16_ops \<equiv>
  {READ_16, PRE_FETCH_16, WRITE_16, ORWRITE_16, VERIFY_16, WRITE_VERIFY_16, WRITE_SAME_16,
   SYNCHRONIZE_CACHE_16}"

definition scsi_rw_offset :: "bytes \<Rightarrow> u64" where
  "scsi_rw_offset scb =
     (let b = (\<lambda>i. ucast (byte_at scb i) :: u64); op = byte_at scb 0 in
      if op \<in> {READ_6, WRITE_6} then
        push_bit 16 (ucast (byte_at scb 1 AND 0x1f)) + push_bit 8 (b 2) + b 3
      else if op \<in> off32_ops then
        push_bit 24 (b 2) OR push_bit 16 (b 3) OR push_bit 8 (b 4) OR b 5
      else if op \<in> cdb16_ops \<union> {COMPARE_AND_WRITE} then
        push_bit 56 (b 2) OR push_bit 48 (b 3) OR push_bit 40 (b 4) OR push_bit 32 (b 5)
          OR push_bit 24 (b 6) OR push_bit 16 (b 7) OR push_bit 8 (b 8) OR b 9
      else 0)"

definition scsi_rw_count :: "bytes \<Rightarrow> u32" where
  "scsi_rw_count scb =
     (let b = (\<lambda>i. ucast (byte_at scb i) :: u32); op = byte_at scb 0 in
      if op \<in> {READ_6, WRITE_6} then (if b 4 = 0 then 256 else b 4)
      else if op \<in> cnt16_ops then push_bit 8 (b 7) OR b 8
      else if op \<in> cnt12_ops then
        push_bit 24 (b 6) OR push_bit 16 (b 7) OR push_bit 8 (b 8) OR b 9
      else if op \<in> cdb16_ops then
        push_bit 24 (b 10) OR push_bit 16 (b 11) OR push_bit 8 (b 12) OR b 13
      else if op = COMPARE_AND_WRITE then b 13
      else 0)"

section \<open>Opcode classes\<close>

datatype data_direction = DATA_NONE | DATA_WRITE | DATA_READ | DATA_BIDIRECTIONAL

definition scsi_is_io_opcode :: "u8 \<Rightarrow> bool" where
  "scsi_is_io_opcode op \<longleftrightarrow>
     op \<in> {READ_6, WRITE_6, READ_10, WRITE_10, VERIFY_10, WRITE_VERIFY, READ_12, WRITE_12,
            VERIFY_12, WRITE_VERIFY_12, READ_16, WRITE_16, ORWRITE_16, VERIFY_16, WRITE_VERIFY_16,
            COMPARE_AND_WRITE}"

definition scsi_data_dir_opcode :: "u8 \<Rightarrow> data_direction" where
  "scsi_data_dir_opcode op =
     (if op \<in> {WRITE_6, WRITE_10, WRITE_12, WRITE_16, ORWRITE_16, WRITE_VERIFY, WRITE_VERIFY_12,
                WRITE_VERIFY_16, COMPARE_AND_WRITE}
      then DATA_WRITE else DATA_READ)"

section \<open>Usage masks and CDB sizes agree\<close>

lemma cdb_usage_buf_length:
  "cdb_usage_buf op sa = Some buf \<Longrightarrow> length buf = get_scsi_command_size op"
  unfolding cdb_usage_buf_def usage_tabs
  by (auto simp: get_scsi_command_size_def scsi_command_size_def split: if_splits)

lemma cdb_usage_buf_last:
  "cdb_usage_buf op sa = Some buf \<Longrightarrow> last buf = 0x07"
  unfolding cdb_usage_buf_def usage_tabs by (auto split: if_splits)

lemma less_8_cases: "(n::nat) < 8 \<Longrightarrow> n \<in> {0, 1, 2, 3, 4, 5, 6, 7}"
  by auto

lemma command_size_ge_6: "6 \<le> get_scsi_command_size op"
proof -
  have "unat (drop_bit 5 op AND 7) < 8"
    using word_and_le1 [of "drop_bit 5 op" 7] by (simp add: word_le_nat_alt)
  then show ?thesis
    unfolding get_scsi_command_size_def scsi_command_size_def
    by (auto dest!: less_8_cases)
qed

text \<open>
  For every opcode (and service action) the usage table knows, the mask
  REPORT SUPPORTED OPERATION CODES returns has exactly the length of the CDB of
  that opcode, starts with the opcode itself, and ends in the mask \<open>0x07\<close> of the
  control byte.
\<close>

theorem cdb_usage_data_shape:
  assumes "cdb_usage_buf op sa = Some buf"
  shows "length (get_scsi_cdb_usage_data op sa) = get_scsi_command_size op
    \<and> hd (get_scsi_cdb_usage_data op sa) = op
    \<and> last (get_scsi_cdb_usage_data op sa) = 0x07"
proof -
  have len: "length buf = get_scsi_command_size op"
    using assms by (rule cdb_usage_buf_length)
  have "6 \<le> length buf"
    unfolding len by (rule command_size_ge_6)
  moreover have "last buf = 0x07"
    using assms by (rule cdb_usage_buf_last)
  ultimately have "hd (buf[0 := op]) = op" "last (buf[0 := op]) = 0x07"
    by (cases buf; auto)+
  then show ?thesis
    using assms len by (simp add: get_scsi_cdb_usage_data_def)
qed

theorem cdb_usage_data_shape_witness:
  "length (get_scsi_cdb_usage_data READ_10 0) = get_scsi_command_size READ_10
   \<and> hd (get_scsi_cdb_usage_data READ_10 0) = READ_10
   \<and> last (get_scsi_cdb_usage_data READ_10 0) = 0x07"
  using cdb_usage_data_shape [of READ_10 0 usage_read_10]
  by (simp add: cdb_usage_buf_def)

section \<open>Address and count as big-endian fields\<close>

lemma ucast_push_8: "n \<le> 24 \<Longrightarrow> ucast (push_bit n (ucast (a :: u8) :: u32)) = (push_bit n (ucast a) :: u64)"
  by (rule bit_word_eqI) (auto simp: bit_simps dest: bit_imp_le_length)

lemma ucast_be32:
  "ucast (push_bit 24 (ucast a) OR push_bit 16 (ucast b) OR push_bit 8 (ucast c) OR (ucast (d :: u8) :: u32))
   = (push_bit 24 (ucast (a :: u8)) OR push_bit 16 (ucast (b :: u8)) OR push_bit 8 (ucast (c :: u8)) OR ucast d :: u64)"
  by (simp add: unsigned_or_eq ucast_push_8 ucast_push_8 [of 0, simplified])

lemma ucast_be16:
  "ucast (push_bit 8 (ucast a) OR (ucast (b :: u8) :: u16)) = (push_bit 8 (ucast (a :: u8)) OR ucast b :: u32)"
  by (rule bit_word_eqI) (auto simp: bit_simps dest: bit_imp_le_length)

lemma scsi_rw_offset_16:
  assumes "byte_at scb 0 \<in> cdb16_ops \<union> {COMPARE_AND_WRITE}"
  shows "scsi_rw_offset scb = get_unaligned_be64 scb 2"
proof -
  have "byte_at scb 0 \<notin> {READ_6, WRITE_6}" "byte_at scb 0 \<notin> off32_ops"
    using assms by auto
  then show ?thesis
    using assms
    by (simp only: scsi_rw_offset_def Let_def if_False if_True get_unaligned_be64_def get_unaligned_be32_def
        ucast_be32 push_bit_or push_bit_push_bit or.assoc) simp
qed

lemma scsi_rw_offset_10_12:
  assumes "byte_at scb 0 \<in> off32_ops"
  shows "scsi_rw_offset scb = ucast (get_unaligned_be32 scb 2)"
proof -
  have "byte_at scb 0 \<notin> {READ_6, WRITE_6}"
    using assms by auto
  then show ?thesis
    using assms
    by (simp only: scsi_rw_offset_def Let_def if_False if_True get_unaligned_be32_def ucast_be32) simp
qed

lemma scsi_rw_count_10:
  assumes "byte_at scb 0 \<in> cnt16_ops"
  shows "scsi_rw_count scb = ucast (get_unaligned_be16 scb 7)"
proof -
  have "byte_at scb 0 \<notin> {READ_6, WRITE_6}"
    using assms by auto
  then show ?thesis
    using assms
    by (simp only: scsi_rw_count_def Let_def if_False if_True get_unaligned_be16_def ucast_be16) simp
qed

lemma scsi_rw_count_12:
  "byte_at scb 0 \<in> cnt12_ops \<Longrightarrow> scsi_rw_count scb = get_unaligned_be32 scb 6"
  by (auto simp: scsi_rw_count_def get_unaligned_be32_def Let_def)

lemma scsi_rw_count_16:
  "byte_at scb 0 \<in> cdb16_ops \<Longrightarrow> scsi_rw_count scb = get_unaligned_be32 scb 10"
  by (auto simp: scsi_rw_count_def get_unaligned_be32_def Let_def)

lemmas scsi_rw_fields =
  scsi_rw_offset_16 scsi_rw_offset_10_12 scsi_rw_count_10 scsi_rw_count_12 scsi_rw_count_16

end
