(* ===== verification/Tgt_Util.thy ===== *)
theory Tgt_Util
  imports Byteshift
begin

text \<open>
  The helpers of \<open>usr/util.c\<close> and \<open>usr/util.h\<close> the rest of the daemon is written
  with: the block shift of a power-of-two block size, the \<open>bsoflags\<close> strings,
  the bounded copy of the SPC responses, serial-number comparison and the
  opcode bit maps.
\<close>

unbundle bit_operations_syntax

section \<open>Definitions\<close>

subsection \<open>\<open>get_blk_shift\<close>\<close>

text \<open>
  The search loop. \<open>None\<close> is a loop that shifted past the word, which the caller
  rules out by testing for zero first.
\<close>

function blk_shift_loop :: "u32 \<Rightarrow> nat \<Rightarrow> nat option" where
  "blk_shift_loop sz shift =
     (if 32 \<le> shift then None
      else if sz AND push_bit shift 1 = 0 then blk_shift_loop sz (shift + 1)
      else Some shift)"
  by pat_completeness auto
termination by (relation "measure (\<lambda>(sz, shift). 32 - shift)") auto

definition get_blk_shift :: "u32 \<Rightarrow> int option" where
  "get_blk_shift sz =
     (if sz = 0 then Some (- 1)
      else case blk_shift_loop sz 0 of
        None \<Rightarrow> None
      | Some shift \<Rightarrow> if sz > push_bit shift 1 then Some (- 1) else Some (int shift))"

subsection \<open>Open flags\<close>

definition O_SYNC :: u32 where "O_SYNC = 0x101000"
definition O_DIRECT :: u32 where "O_DIRECT = 0x4000"

text \<open>The tokens \<open>strtok\<close> returns for the delimiter \<open>d\<close>: empty tokens are skipped.\<close>

fun strtok_all :: "char \<Rightarrow> string \<Rightarrow> string \<Rightarrow> string list" where
  "strtok_all d acc [] = (if acc = [] then [] else [rev acc])"
| "strtok_all d acc (c # cs) =
     (if c = d then (if acc = [] then [] else [rev acc]) @ strtok_all d [] cs
      else strtok_all d (c # acc) cs)"

fun open_flags_loop :: "u32 \<Rightarrow> string list \<Rightarrow> u32 option" where
  "open_flags_loop flags [] = Some flags"
| "open_flags_loop flags (tok # toks) =
     (let t = dropWhile (\<lambda>c. c = CHR '' '') tok in
      if take 4 t = ''sync'' then open_flags_loop (flags OR O_SYNC) toks
      else if take 6 t = ''direct'' then open_flags_loop (flags OR O_DIRECT) toks
      else None)"

text \<open>\<open>None\<close> is the return value \<open>-1\<close> of an unknown option.\<close>

definition str_to_open_flags :: "string \<Rightarrow> u32 option" where
  "str_to_open_flags buf = open_flags_loop 0 (strtok_all (CHR '':'') [] buf)"

definition open_flags_to_str :: "u32 \<Rightarrow> string" where
  "open_flags_to_str flags =
     (let dest = (if flags AND O_SYNC \<noteq> 0 then ''sync'' else []) in
      if flags AND O_DIRECT \<noteq> 0
      then dest @ (if dest \<noteq> [] then '':'' else []) @ ''direct''
      else dest)"

subsection \<open>\<open>spc_memcpy\<close>\<close>

text \<open>
  \<open>dst\<close> points \<open>off\<close> bytes into the buffer \<open>buf\<close>; the result is the buffer, the
  remaining length and the copied length. \<open>None\<close> is a copy that leaves the
  buffer.
\<close>

definition spc_memcpy :: "bytes \<Rightarrow> nat \<Rightarrow> u32 \<Rightarrow> bytes \<Rightarrow> u32 \<Rightarrow> (bytes \<times> u32 \<times> u32) option" where
  "spc_memcpy buf off dst_remain_len src src_len =
     (let copy_len = min dst_remain_len src_len in
      if copy_len \<noteq> 0
      then map_option (\<lambda>buf'. (buf', dst_remain_len - copy_len, copy_len))
             (write_at buf off (take (unat copy_len) src))
      else Some (buf, dst_remain_len, copy_len))"

subsection \<open>Serial numbers\<close>

definition before :: "u32 \<Rightarrow> u32 \<Rightarrow> bool" where
  "before seq1 seq2 = (sint (seq1 - seq2) < 0)"

definition after :: "u32 \<Rightarrow> u32 \<Rightarrow> bool" where
  "after seq1 seq2 = (sint (seq2 - seq1) < 0)"

definition between :: "u32 \<Rightarrow> u32 \<Rightarrow> u32 \<Rightarrow> bool" where
  "between seq1 seq2 seq3 = (seq3 - seq2 \<ge> seq1 - seq2)"

subsection \<open>Bit maps\<close>

definition set_bit_map :: "nat \<Rightarrow> u64 list \<Rightarrow> u64 list" where
  "set_bit_map nr addr = addr[nr div 64 := addr ! (nr div 64) OR push_bit (nr mod 64) 1]"

definition clear_bit_map :: "nat \<Rightarrow> u64 list \<Rightarrow> u64 list" where
  "clear_bit_map nr addr = addr[nr div 64 := addr ! (nr div 64) AND NOT (push_bit (nr mod 64) 1)]"

definition test_bit_map :: "nat \<Rightarrow> u64 list \<Rightarrow> bool" where
  "test_bit_map nr addr = (push_bit (nr mod 64) 1 AND addr ! (nr div 64) \<noteq> 0)"

subsection \<open>Numbers in configuration strings\<close>

text \<open>
  \<open>strtoull\<close> with base 0 as the C library defines it: leading white space, an
  optional sign, a base prefix, and the longest run of digits. The result is the
  value and whether any digit was read; a value over 64 bits saturates.
\<close>

definition is_cspace :: "char \<Rightarrow> bool" where
  "is_cspace c \<longleftrightarrow> of_char c = (32 :: nat) \<or> (9 \<le> (of_char c :: nat) \<and> (of_char c :: nat) \<le> 13)"

definition digit_val :: "char \<Rightarrow> nat" where
  "digit_val c =
     (let n = of_char c :: nat in
      if 48 \<le> n \<and> n \<le> 57 then n - 48
      else if 97 \<le> n \<and> n \<le> 122 then n - 87
      else if 65 \<le> n \<and> n \<le> 90 then n - 55
      else 255)"

fun digits_val :: "nat \<Rightarrow> nat \<Rightarrow> string \<Rightarrow> nat \<times> bool" where
  "digits_val base acc [] = (acc, False)"
| "digits_val base acc (c # cs) =
     (if digit_val c < base then (fst (digits_val base (acc * base + digit_val c) cs), True) else (acc, False))"

definition strtoull0 :: "string \<Rightarrow> u64 \<times> bool" where
  "strtoull0 str =
     (let s1 = dropWhile is_cspace str;
          neg = (take 1 s1 = ''-'');
          s2 = (if take 1 s1 = ''-'' \<or> take 1 s1 = ''+'' then drop 1 s1 else s1);
          hex = ((take 2 s2 = ''0x'' \<or> take 2 s2 = ''0X'') \<and> (snd (digits_val 16 0 (drop 2 s2))));
          (v, any) = (if hex then digits_val 16 0 (drop 2 s2)
                      else if take 1 s2 = ''0'' then digits_val 8 0 s2
                      else digits_val 10 0 s2)
      in (if 2 ^ 64 \<le> v then - 1 else if neg then - of_nat v else of_nat v, any))"

text \<open>
  \<open>str_to_int\<close> for an unsigned destination of \<open>n\<close> bits: the stored value and the
  error (\<open>EINVAL\<close> 22, \<open>ERANGE\<close> 34, or 0).
\<close>

definition str_to_uint :: "nat \<Rightarrow> string \<Rightarrow> nat \<times> int" where
  "str_to_uint n str =
     (let (ull, any) = strtoull0 str; val = take_bit n (unat ull) in
      (val, if ull = - 1 \<or> \<not> any then 22 else if val \<noteq> unat ull then 34 else 0))"

definition str_to_uint_range :: "nat \<Rightarrow> string \<Rightarrow> nat \<Rightarrow> nat \<Rightarrow> nat \<times> int" where
  "str_to_uint_range n str minv maxv =
     (let (val, ret) = str_to_uint n str in
      (val, if ret = 0 \<and> (val < minv \<or> maxv < val) then 34 else ret))"

section \<open>Block sizes\<close>

lemmas and_push_bit_1 = and_exp_eq_0_iff_not_bit

declare blk_shift_loop.simps [simp del]

lemma blk_shift_loop_first:
  "bit sz k \<Longrightarrow> shift \<le> k \<Longrightarrow>
   \<exists>j\<ge>shift. blk_shift_loop sz shift = Some j \<and> bit sz j \<and> (\<forall>i. shift \<le> i \<and> i < j \<longrightarrow> \<not> bit sz i)"
proof (induction sz shift rule: blk_shift_loop.induct)
  case (1 sz shift)
  have "k < 32"
    using "1.prems"(1) bit_imp_le_length by fastforce
  show ?case
  proof (cases "bit sz shift")
    case True
    then show ?thesis
      using \<open>k < 32\<close> "1.prems"
      by (subst blk_shift_loop.simps) (auto simp: and_push_bit_1)
  next
    case False
    then have "shift + 1 \<le> k"
      using "1.prems" by (metis Suc_eq_plus1 Suc_leI nless_le)
    with False \<open>k < 32\<close> "1.prems" obtain j where
      "j \<ge> shift + 1" "blk_shift_loop sz (shift + 1) = Some j" "bit sz j"
      "\<forall>i. shift + 1 \<le> i \<and> i < j \<longrightarrow> \<not> bit sz i"
      using "1.IH" by (auto simp: and_push_bit_1)
    moreover have "blk_shift_loop sz shift = blk_shift_loop sz (shift + 1)"
      using False \<open>k < 32\<close> "1.prems" by (subst blk_shift_loop.simps) (auto simp: and_push_bit_1)
    moreover have "\<forall>i. shift \<le> i \<and> i < j \<longrightarrow> \<not> bit sz i"
      using calculation(4) False by (metis Suc_eq_plus1 Suc_leI le_neq_implies_less)
    ultimately show ?thesis
      by (intro exI [of _ j]) simp
  qed
qed

lemma lowest_bit_power:
  fixes sz :: u32
  assumes "bit sz j" "\<forall>i<j. \<not> bit sz i"
  shows "sz > push_bit j 1 \<longleftrightarrow> sz \<noteq> 2 ^ j"
proof -
  have pb: "push_bit j 1 = (2 ^ j :: u32)"
    by (simp add: push_bit_eq_mult)
  have "sz AND 2 ^ j = 2 ^ j"
    using assms(1) by (intro bit_word_eqI) (auto simp: bit_simps)
  then have "2 ^ j \<le> sz"
    by (metis word_and_le2 and.commute)
  then show ?thesis
    by (auto simp: pb)
qed

lemma nonzero_bit: "(w :: 'a::len word) \<noteq> 0 \<Longrightarrow> \<exists>k. bit w k"
  by (auto simp: bit_eq_iff)

lemma get_blk_shift_total: "\<exists>r. get_blk_shift sz = Some r"
proof (cases "sz = 0")
  case False
  then obtain k where "bit sz k"
    using nonzero_bit by blast
  then show ?thesis
    using blk_shift_loop_first [of sz k 0] by (auto simp: get_blk_shift_def)
qed (simp add: get_blk_shift_def)

lemma get_blk_shift_power:
  assumes "k < 32"
  shows "get_blk_shift (2 ^ k) = Some (int k)"
proof -
  have bits: "bit (2 ^ k :: u32) i \<longleftrightarrow> i = k" for i
    using assms by (auto simp: bit_simps)
  then obtain j where "blk_shift_loop (2 ^ k) 0 = Some j" "bit (2 ^ k :: u32) j"
    using blk_shift_loop_first [of "2 ^ k" k 0] by auto
  moreover have "(2 ^ k :: u32) \<noteq> 0"
    using bits [of k] by (metis bit_0_eq bot_apply bot_bool_def)
  ultimately show ?thesis
    using bits by (simp add: get_blk_shift_def push_bit_eq_mult)
qed

text \<open>
  C28. \<open>get_blk_shift\<close> always returns; the result is the exponent of the block
  size when the size is a power of two, and \<open>-1\<close> for every other size.
\<close>

theorem get_blk_shift_correct:
  "get_blk_shift sz = Some r \<longleftrightarrow>
     (if sz \<in> (\<lambda>k. 2 ^ k) ` {..<32::nat} then r \<in> {0..<32} \<and> sz = 2 ^ nat r else r = - 1)"
proof (cases "sz \<in> (\<lambda>k. 2 ^ k) ` {..<32::nat}")
  case True
  then obtain k where k: "k < 32" "sz = 2 ^ k" by blast
  have inj: "i = k" if "i < 32" "(2 ^ i :: u32) = 2 ^ k" for i
  proof -
    have "Some (int i) = Some (int k)"
      unfolding get_blk_shift_power [OF that(1), symmetric] get_blk_shift_power [OF k(1), symmetric]
      by (simp only: that(2))
    then show ?thesis by simp
  qed
  have "get_blk_shift sz = Some r \<longleftrightarrow> r = int k"
    unfolding k(2) get_blk_shift_power [OF k(1)] by auto
  also have "\<dots> \<longleftrightarrow> r \<in> {0..<32} \<and> sz = 2 ^ nat r"
    unfolding k(2) using inj [of "nat r"] k(1) by auto
  finally show ?thesis
    using True by simp
next
  case False
  have "get_blk_shift sz = Some (- 1)"
  proof (cases "sz = 0")
    case nz: False
    then obtain k where "bit sz k"
      using nonzero_bit by blast
    then obtain j where j: "blk_shift_loop sz 0 = Some j" "bit sz j" "\<forall>i<j. \<not> bit sz i"
      using blk_shift_loop_first [of sz k 0] by auto
    moreover have "j < 32"
      using j(2) bit_imp_le_length by fastforce
    ultimately show ?thesis
      using nz False lowest_bit_power [of sz j] by (auto simp: get_blk_shift_def)
  qed (simp add: get_blk_shift_def)
  with False show ?thesis by auto
qed

section \<open>Open flags\<close>

lemmas open_flag_defs = str_to_open_flags_def open_flags_to_str_def O_SYNC_def O_DIRECT_def Let_def

lemma open_flags_roundtrip:
  "flags \<in> {0, O_SYNC, O_DIRECT, O_SYNC OR O_DIRECT} \<Longrightarrow>
   str_to_open_flags (open_flags_to_str flags) = Some flags"
  by (auto simp: open_flag_defs)

lemma open_flags_loop_subset:
  "open_flags_loop flags toks = Some r \<Longrightarrow>
   \<exists>x\<in>{0, O_SYNC, O_DIRECT, O_SYNC OR O_DIRECT}. r = flags OR x"
proof (induction toks arbitrary: flags)
  case (Cons tok toks)
  from Cons.prems obtain f where f: "f = O_SYNC \<or> f = O_DIRECT"
    "open_flags_loop (flags OR f) toks = Some r"
    by (auto simp: Let_def split: if_splits)
  then obtain x where "x \<in> {0, O_SYNC, O_DIRECT, O_SYNC OR O_DIRECT}" "r = (flags OR f) OR x"
    using Cons.IH by blast
  then show ?case
    using f(1) by (auto simp: ac_simps intro: bexI)
qed auto

section \<open>The bounded copy\<close>

lemma spc_memcpy_eq:
  assumes "off + unat (min remain src_len) \<le> length buf"
  shows "spc_memcpy buf off remain src src_len =
    Some (put_bytes buf off (take (unat (min remain src_len)) src), remain - min remain src_len, min remain src_len)"
proof -
  have "off + length (take (unat (min remain src_len)) src) \<le> length buf"
    using assms by simp
  then show ?thesis
    by (auto simp: spc_memcpy_def Let_def write_at_Some)
qed

lemma spc_memcpy_bounded:
  assumes "off + unat remain \<le> length buf" "unat src_len \<le> length src"
  shows "\<exists>buf'. spc_memcpy buf off remain src src_len = Some (buf', remain - min remain src_len, min remain src_len)
     \<and> length buf' = length buf
     \<and> take (unat (min remain src_len)) (drop off buf') = take (unat (min remain src_len)) src
     \<and> take off buf' = take off buf
     \<and> drop (off + unat (min remain src_len)) buf' = drop (off + unat (min remain src_len)) buf"
proof -
  define n where "n = unat (min remain src_len)"
  have n: "n \<le> length src" "off + n \<le> length buf"
    using assms by (auto simp: n_def min_def word_le_nat_alt)
  then have "spc_memcpy buf off remain src src_len =
      Some (put_bytes buf off (take n src), remain - min remain src_len, min remain src_len)"
    using spc_memcpy_eq by (simp add: n_def)
  then show ?thesis
    using n by (auto simp: put_bytes_def simp flip: n_def)
qed

section \<open>Serial numbers\<close>

lemma sint_neg_iff: "sint (w :: u32) < 0 \<longleftrightarrow> 2 ^ 31 \<le> uint w"
proof -
  have "uint w < 2 ^ 32"
    using uint_lt2p [of w] by simp
  then have "uint w div 2 ^ 31 = (if 2 ^ 31 \<le> uint w then 1 else 0)"
    by auto
  then have "bit (uint w) 31 \<longleftrightarrow> 2 ^ 31 \<le> uint w"
    by (simp add: bit_iff_odd)
  then show ?thesis
    by (simp add: sint_uint)
qed

lemma before_iff: "before a b \<longleftrightarrow> 2 ^ 31 \<le> uint (a - b)"
  by (simp only: before_def sint_neg_iff)

lemma after_before: "after a b \<longleftrightarrow> before b a"
  by (simp add: after_def before_def)

lemma uint_minus_swap: "(d :: u32) \<noteq> 0 \<Longrightarrow> uint (- d) = 2 ^ 32 - uint d"
  using uint_lt2p [of d] by (simp add: uint_word_ariths zmod_zminus1_eq_if uint_0_iff)

lemma before_add:
  "before a (a + d) \<longleftrightarrow> 0 < uint d \<and> uint d \<le> 2 ^ 31"
  by (cases "d = 0") (auto simp: before_iff uint_minus_swap less_le uint_0_iff)

lemma before_irrefl [simp]: "\<not> before a a"
  by (simp add: before_def)

lemma before_asym:
  assumes "before a b" "a - b \<noteq> 2 ^ 31"
  shows "\<not> before b a"
proof -
  have "uint (a - b) \<noteq> 2 ^ 31"
    using assms(2) by (metis word_of_int_uint word_of_int_2p)
  moreover have "a - b \<noteq> 0"
    using assms(1) by (auto simp: before_def)
  ultimately show ?thesis
    using assms(1) uint_minus_swap [of "a - b"] by (simp add: before_iff)
qed

text \<open>Numbers within half the range after \<open>e\<close> are ordered by their distance from \<open>e\<close>.\<close>

lemma wrapped_less_iff:
  "\<lbrakk>0 \<le> i; i < 2 ^ 31; 0 \<le> j; j < 2 ^ 31\<rbrakk> \<Longrightarrow>
   2 ^ 31 \<le> (if j \<le> i then i - j else i - j + 2 ^ 32) \<longleftrightarrow> i < (j :: int)"
  by auto

lemma before_window:
  assumes "unat (x - e) < 2 ^ 31" "unat (y - e) < 2 ^ 31"
  shows "before x y \<longleftrightarrow> unat (x - e) < unat (y - e)"
proof -
  obtain a b where ab: "a = x - e" "b = y - e"
    by simp
  then have "x - y = a - b"
    by simp
  moreover have "uint a < 2 ^ 31" "uint b < 2 ^ 31"
    using assms ab by (simp_all add: nat_less_iff flip: nat_uint_eq)
  moreover have "uint (a - b) = (if uint b \<le> uint a then uint a - uint b else uint a - uint b + 2 ^ 32)"
    by (simp add: uint_sub_if')
  ultimately have "before x y \<longleftrightarrow> uint a < uint b"
    by (simp only: before_iff wrapped_less_iff uint_ge_0)
  then show ?thesis
    by (simp only: ab word_less_nat_alt [symmetric] word_less_alt)
qed

lemma between_iff:
  "between s lo hi \<longleftrightarrow> (\<exists>d\<le>hi - lo. s = lo + d)"
  by (auto simp: between_def intro: exI [of _ "s - lo"])

section \<open>Bit maps\<close>

text \<open>What the users of an opcode map rely on.\<close>

locale bitmap =
  fixes sz :: nat
    and valid :: "'m \<Rightarrow> bool"
    and set1 :: "nat \<Rightarrow> 'm \<Rightarrow> 'm"
    and clear1 :: "nat \<Rightarrow> 'm \<Rightarrow> 'm"
    and test :: "nat \<Rightarrow> 'm \<Rightarrow> bool"
  assumes valid_set: "valid m \<Longrightarrow> valid (set1 i m)"
    and valid_clear: "valid m \<Longrightarrow> valid (clear1 i m)"
    and test_set: "valid m \<Longrightarrow> i < sz \<Longrightarrow> j < sz \<Longrightarrow> test j (set1 i m) \<longleftrightarrow> j = i \<or> test j m"
    and test_clear: "valid m \<Longrightarrow> i < sz \<Longrightarrow> j < sz \<Longrightarrow> test j (clear1 i m) \<longleftrightarrow> j \<noteq> i \<and> test j m"
begin

lemma valid_fold: "valid m \<Longrightarrow> valid (fold set1 is m)"
  by (induction "is" arbitrary: m) (simp_all add: valid_set)

lemma test_fold:
  "valid m \<Longrightarrow> \<forall>i\<in>set is. i < sz \<Longrightarrow> j < sz \<Longrightarrow> test j (fold set1 is m) \<longleftrightarrow> j \<in> set is \<or> test j m"
  by (induction "is" arbitrary: m) (auto simp: valid_set test_set)

lemma set_clear:
  "valid m \<Longrightarrow> i < sz \<Longrightarrow> j < sz \<Longrightarrow> test j (clear1 i (set1 i m)) \<longleftrightarrow> j \<noteq> i \<and> test j m"
  by (auto simp: valid_set test_set test_clear)

end

lemma bit_1_push: "j < 64 \<Longrightarrow> bit (push_bit i 1 :: u64) j \<longleftrightarrow> j = i"
  by (auto simp: bit_simps)

lemma test_bit_map_bit: "test_bit_map nr addr \<longleftrightarrow> bit (addr ! (nr div 64)) (nr mod 64)"
  unfolding test_bit_map_def
  by (metis and.commute and_exp_eq_0_iff_not_bit push_bit_of_1)

lemma div_mod_64_eq: "i div 64 = j div 64 \<Longrightarrow> i mod 64 = j mod 64 \<Longrightarrow> i = (j::nat)"
  by (metis mod_div_decomp)

interpretation opcode_map: bitmap 256 "\<lambda>m. length m = 4" set_bit_map clear_bit_map test_bit_map
proof
  fix m :: "u64 list" and i j :: nat
  assume m: "length m = 4" and ij: "i < 256" "j < 256"
  then have "i div 64 < length m" "j div 64 < length m" by auto
  then show "test_bit_map j (set_bit_map i m) = (j = i \<or> test_bit_map j m)"
    "test_bit_map j (clear_bit_map i m) = (j \<noteq> i \<and> test_bit_map j m)"
    by (auto simp: test_bit_map_bit set_bit_map_def clear_bit_map_def nth_list_update bit_simps
        dest: div_mod_64_eq)
qed (simp_all add: set_bit_map_def clear_bit_map_def)

section \<open>Numbers\<close>

lemma str_to_uint_ok:
  "str_to_uint n str = (v, 0) \<Longrightarrow> v < 2 ^ n \<and> snd (strtoull0 str) \<and> v = unat (fst (strtoull0 str))"
  by (auto simp: str_to_uint_def Let_def take_bit_nat_eq_self_iff split: prod.splits if_splits)

lemma str_to_uint_range_ok:
  "str_to_uint_range n str lo hi = (v, 0) \<Longrightarrow> lo \<le> v \<and> v \<le> hi \<and> v < 2 ^ n"
  by (auto simp: str_to_uint_range_def split: prod.splits if_splits dest: str_to_uint_ok)

lemma strtoull0_examples:
  "strtoull0 ''512'' = (512, True)" "strtoull0 '' 0x10k'' = (16, True)" "strtoull0 ''010'' = (8, True)"
  "strtoull0 ''-1'' = (- 1, True)" "strtoull0 ''abc'' = (0, False)" "strtoull0 ''0x'' = (0, True)"
  by (simp_all add: strtoull0_def digit_val_def is_cspace_def)

end
