(* ===== verification/Scsi_State.thy ===== *)
theory Scsi_State
  imports Scsi_Cdb Tgt_Util
begin

text \<open>
  The objects the SCSI layer works on (\<open>usr/tgtd.h\<close>, \<open>usr/target.h\<close>,
  \<open>usr/scsi_cmnd.h\<close>) as records, and the accessors every handler uses: sense
  data, residual counts, the state bits of commands and queues.

  Pointers are keys. A logical unit is named by its LUN within its target, an
  I\_T nexus by its identifier, the pair's \<open>it_nexus_lu_info\<close> by both, a
  registration by the nexus identifier and creation time it was made with, and a
  command by a handle. The lists that link objects hold the objects where they
  are owned and keys elsewhere. A C \<open>char\<close> used as a flag is a byte that is
  tested against zero.
\<close>

unbundle bit_operations_syntax

section \<open>Objects\<close>

record scsi_data_buffer =
  sdb_buffer :: bytes
  sdb_length :: u32
  sdb_transfer_len :: u32
  sdb_resid :: u32

record lu_stat =
  rd_subm_bytes :: u64
  rd_done_bytes :: u64
  wr_subm_bytes :: u64
  wr_done_bytes :: u64
  rd_subm_cmds :: u32
  rd_done_cmds :: u32
  wr_subm_cmds :: u32
  wr_done_cmds :: u32
  bidir_subm_cmds :: u32
  bidir_done_cmds :: u32
  err_num :: u32

record ua_sense =
  ua_sense_buffer :: bytes
  ua_sense_len :: nat

record it_nexus_lu_info =
  itl_lu :: u64
  itl_itn_id :: u64
  itl_stat :: lu_stat
  pending_ua_sense_list :: "ua_sense list"
  itl_prevent :: u32

type_synonym nexus_key = "u64 \<times> int"

record registration =
  reg_key :: u64
  reg_nexus_id :: u64
  reg_ctime :: int
  reg_pr_scope :: u8
  reg_pr_type :: u8

text \<open>\<open>mode_data\<close> holds the page followed by its mask of changeable bits.\<close>

record mode_pg =
  pcode :: u8
  subpcode :: u8
  pcode_size :: nat
  mode_data :: bytes

datatype vpd_update_fn = Update_vpd_80 | Update_vpd_83 | Update_vpd_b0 | Update_vpd_b2

record vpd =
  vpd_size :: u16
  vpd_update :: "vpd_update_fn option"
  vpd_data :: bytes

record lu_phy_attr =
  scsi_id :: bytes
  scsi_sn :: bytes
  numeric_id :: u64
  vendor_id :: bytes
  product_id :: bytes
  product_rev :: bytes
  version_desc :: "u16 list"
  device_type :: u8
  qualifier :: u8
  removable :: u8
  readonly :: u8
  swp :: u8
  thinprovisioning :: u8
  online :: u8
  sense_format :: u8
  lbppbe :: u8
  no_auto_lbppbe :: u8
  la_lba :: u16
  lu_vpd :: "vpd option list"

record tgt_cmd_queue =
  active_cmd :: int
  queue_state :: u64
  queue :: "nat list"

text \<open>
  A device type's operation table. The entries name the handler functions of
  the code; \<open>service_actions\<close> is the table an opcode with service actions
  dispatches through.
\<close>

datatype perform_fn =
    Spc_illegal_op | Spc_inquiry | Spc_report_luns | Spc_start_stop | Spc_test_unit
  | Spc_request_sense | Spc_prevent_allow | Spc_service_action | Spc_send_diagnostics
  | Spc_report_supported_opcodes
  | Spc_pr_read_keys | Spc_pr_read_reservation | Spc_pr_report_capabilities
  | Spc_pr_register | Spc_pr_reserve | Spc_pr_release | Spc_pr_clear | Spc_pr_preempt
  | Spc_pr_register_and_move
  | Spc_mode_sense | Sbc_mode_sense | Sbc_mode_select | Sbc_format_unit | Sbc_unmap | Sbc_rw
  | Sbc_reserve | Sbc_release | Sbc_read_capacity | Sbc_verify | Sbc_readcapacity16
  | Sbc_getlbastatus | Sbc_service_action | Sbc_sync_cache

record device_type_operations =
  cmd_perform :: "perform_fn option"
  service_actions :: "(u32 \<times> perform_fn) list"
  pr_conflict_bits :: u8

record backingstore_template =
  bs_name :: string
  bs_oflags_supported :: u32
  bs_supported_ops :: "u64 list"

record scsi_lu =
  lu_fd :: int
  lu_addr :: u64
  lu_size :: u64
  lun :: u64
  lu_path :: "string option"
  bsoflags :: u32
  blk_shift :: nat
  lu_itl_info_list :: "u64 list"
  cmd_queue :: tgt_cmd_queue
  reserve_id :: u64
  dt_ops :: "u8 \<Rightarrow> device_type_operations"
  lu_bst :: backingstore_template
  mode_block_descriptor :: bytes
  mode_pages :: "mode_pg list"
  attrs :: lu_phy_attr
  registration_list :: "registration list"
  prgeneration :: u32
  pr_holder :: "nexus_key option"

record it_nexus =
  itn_id :: u64
  itn_ctime :: int
  itn_cmd_list :: "nat list"
  itn_host_no :: int
  itn_itl_info_list :: "it_nexus_lu_info list"
  itn_info :: string

datatype scsi_target_state = SCSI_TARGET_OFFLINE | SCSI_TARGET_READY

record tgt_account =
  out_aid :: int
  nr_inaccount :: nat
  max_inaccount :: nat
  in_aids :: "int list"

record target =
  tgt_name :: string
  tid :: int
  lid :: int
  target_state :: scsi_target_state
  device_list :: "scsi_lu list"
  it_nexus_list :: "it_nexus list"
  tgt_bst :: backingstore_template
  acl_list :: "string list"
  iqn_acl_list :: "string list"
  account :: tgt_account

record scsi_cmd =
  c_target :: "int option"
  dev_id :: u64
  c_dev :: u64
  c_state :: u64
  data_dir :: data_direction
  in_sdb :: scsi_data_buffer
  out_sdb :: scsi_data_buffer
  cmd_itn_id :: u64
  c_itn_ctime :: int
  c_offset :: u64
  c_tl :: u32
  scb :: bytes
  scb_len :: nat
  c_lun :: bytes
  attribute :: int
  c_tag :: u64
  c_result :: int
  c_mreq :: "nat option"
  sense_buffer :: bytes
  sense_len :: nat

abbreviation (input) "SCSI_SENSE_BUFFERSIZE \<equiv> 252 :: nat"

text \<open>
  What a handler reaches from its command: the command, the logical unit
  \<open>cmd->dev\<close>, the nexuses \<open>cmd->dev->tgt->it_nexus_list\<close>, the LUNs of the
  target's devices in list order, and the target's id.
\<close>

record hst =
  hs_cmd :: scsi_cmd
  hs_lu :: scsi_lu
  hs_itns :: "it_nexus list"
  hs_luns :: "u64 list"
  hs_tid :: int

definition upd_cmd :: "(scsi_cmd \<Rightarrow> scsi_cmd) \<Rightarrow> hst \<Rightarrow> hst" where
  [simp]: "upd_cmd f s = s\<lparr>hs_cmd := f (hs_cmd s)\<rparr>"

definition upd_lu :: "(scsi_lu \<Rightarrow> scsi_lu) \<Rightarrow> hst \<Rightarrow> hst" where
  [simp]: "upd_lu f s = s\<lparr>hs_lu := f (hs_lu s)\<rparr>"

section \<open>Residual counts\<close>

text \<open>
  \<open>transfer_len\<close> bytes were moved; the residual is positive when fewer bytes
  than the buffer holds were moved and negative when more were available.
\<close>

definition sdb_set_resid_by_actual :: "u32 \<Rightarrow> scsi_data_buffer \<Rightarrow> scsi_data_buffer" where
  "sdb_set_resid_by_actual transfer_len sdb =
     (let expected_len = sdb_length sdb in
      if transfer_len \<le> expected_len
      then sdb\<lparr>sdb_transfer_len := transfer_len, sdb_resid := expected_len - transfer_len\<rparr>
      else sdb\<lparr>sdb_transfer_len := expected_len, sdb_resid := - (transfer_len - expected_len)\<rparr>)"

definition scsi_set_in_resid_by_actual :: "u32 \<Rightarrow> scsi_cmd \<Rightarrow> scsi_cmd" where
  "scsi_set_in_resid_by_actual n cmd = cmd\<lparr>in_sdb := sdb_set_resid_by_actual n (in_sdb cmd)\<rparr>"

definition scsi_set_out_resid_by_actual :: "u32 \<Rightarrow> scsi_cmd \<Rightarrow> scsi_cmd" where
  "scsi_set_out_resid_by_actual n cmd = cmd\<lparr>out_sdb := sdb_set_resid_by_actual n (out_sdb cmd)\<rparr>"

abbreviation (input) "scsi_get_in_length cmd \<equiv> sdb_length (in_sdb cmd)"
abbreviation (input) "scsi_get_out_length cmd \<equiv> sdb_length (out_sdb cmd)"
abbreviation (input) "scsi_get_in_buffer cmd \<equiv> sdb_buffer (in_sdb cmd)"
abbreviation (input) "scsi_get_out_buffer cmd \<equiv> sdb_buffer (out_sdb cmd)"

definition set_in_buffer :: "bytes \<Rightarrow> scsi_cmd \<Rightarrow> scsi_cmd" where
  "set_in_buffer b cmd = cmd\<lparr>in_sdb := (in_sdb cmd)\<lparr>sdb_buffer := b\<rparr>\<rparr>"

section \<open>State bits\<close>

abbreviation (input) "TGT_CMD_QUEUED \<equiv> 0 :: nat"
abbreviation (input) "TGT_CMD_PROCESSED \<equiv> 1 :: nat"
abbreviation (input) "TGT_CMD_ASYNC \<equiv> 2 :: nat"
abbreviation (input) "TGT_CMD_NOT_LAST \<equiv> 3 :: nat"
abbreviation (input) "TGT_QUEUE_BLOCKED \<equiv> 0 :: nat"
abbreviation (input) "TGT_QUEUE_DELETED \<equiv> 1 :: nat"

definition set_cmd_bit :: "nat \<Rightarrow> scsi_cmd \<Rightarrow> scsi_cmd" where
  "set_cmd_bit b c = c\<lparr>c_state := c_state c OR push_bit b 1\<rparr>"

definition clear_cmd_bit :: "nat \<Rightarrow> scsi_cmd \<Rightarrow> scsi_cmd" where
  "clear_cmd_bit b c = c\<lparr>c_state := c_state c AND NOT (push_bit b 1)\<rparr>"

definition cmd_bit :: "nat \<Rightarrow> scsi_cmd \<Rightarrow> bool" where
  "cmd_bit b c \<longleftrightarrow> c_state c AND push_bit b 1 \<noteq> 0"

definition set_queue_bit :: "nat \<Rightarrow> tgt_cmd_queue \<Rightarrow> tgt_cmd_queue" where
  "set_queue_bit b q = q\<lparr>queue_state := queue_state q OR push_bit b 1\<rparr>"

definition clear_queue_bit :: "nat \<Rightarrow> tgt_cmd_queue \<Rightarrow> tgt_cmd_queue" where
  "clear_queue_bit b q = q\<lparr>queue_state := queue_state q AND NOT (push_bit b 1)\<rparr>"

definition queue_bit :: "nat \<Rightarrow> tgt_cmd_queue \<Rightarrow> bool" where
  "queue_bit b q \<longleftrightarrow> queue_state q AND push_bit b 1 \<noteq> 0"

definition queue_active :: "tgt_cmd_queue \<Rightarrow> bool" where
  "queue_active q \<longleftrightarrow> active_cmd q \<noteq> 0"

section \<open>Sense data\<close>

text \<open>The sense data of a key and code, in the descriptor or the fixed format, stored over \<open>buf\<close>.\<close>

definition sense_bytes :: "bool \<Rightarrow> u8 \<Rightarrow> u16 \<Rightarrow> bytes \<Rightarrow> bytes" where
  "sense_bytes descriptor key asc buf =
     (if descriptor then
        buf[0 := 0x72, 1 := key, 2 := ucast (drop_bit 8 asc AND 0xff), 3 := ucast (asc AND 0xff)]
      else
        buf[0 := 0x70, 2 := key, 7 := 0xa, 12 := ucast (drop_bit 8 asc AND 0xff),
            13 := ucast (asc AND 0xff)])"

definition sense_bytes_len :: "bool \<Rightarrow> nat" where
  "sense_bytes_len descriptor = (if descriptor then 8 else 0xa + 8)"

definition sense_data_build :: "scsi_lu \<Rightarrow> u8 \<Rightarrow> u16 \<Rightarrow> scsi_cmd \<Rightarrow> scsi_cmd" where
  "sense_data_build lu key asc cmd =
     (let d = sense_format (attrs lu) \<noteq> 0 in
      cmd\<lparr>sense_buffer := sense_bytes d key asc (sense_buffer cmd), sense_len := sense_bytes_len d\<rparr>)"

text \<open>
  The common failure exit of the handlers: no data is returned and the command
  carries sense data.
\<close>

definition sense_exit :: "u8 \<Rightarrow> u16 \<Rightarrow> hst \<Rightarrow> int \<times> hst" where
  "sense_exit key asc s =
     (SAM_STAT_CHECK_CONDITION,
      upd_cmd (sense_data_build (hs_lu s) key asc \<circ> scsi_set_in_resid_by_actual 0) s)"

text \<open>The key and code a reader finds in sense data of either format.\<close>

definition sense_key_of :: "bytes \<Rightarrow> u8" where
  "sense_key_of b = (if byte_at b 0 = 0x72 then byte_at b 1 else byte_at b 2)"

definition sense_asc_of :: "bytes \<Rightarrow> u16" where
  "sense_asc_of b = (if byte_at b 0 = 0x72 then get_unaligned_be16 b 2 else get_unaligned_be16 b 12)"

section \<open>Lemmas\<close>

lemma sdb_resid_word: "sdb_resid (sdb_set_resid_by_actual n sdb) = sdb_length sdb - n"
  by (simp add: sdb_set_resid_by_actual_def Let_def)

lemma sdb_set_resid_simps [simp]:
  "sdb_length (sdb_set_resid_by_actual n sdb) = sdb_length sdb"
  "sdb_buffer (sdb_set_resid_by_actual n sdb) = sdb_buffer sdb"
  "sdb_transfer_len (sdb_set_resid_by_actual n sdb) = min n (sdb_length sdb)"
  by (simp_all add: sdb_set_resid_by_actual_def Let_def min_def)

lemma length_sense_bytes [simp]: "length (sense_bytes d k a buf) = length buf"
  by (simp add: sense_bytes_def)

lemma ucast_and_0xff_16: "ucast (x AND 0xff :: u16) = (ucast x :: u8)"
proof -
  have "x AND 0xff = x AND mask 8"
    by (simp add: mask_eq_exp_minus_1)
  then show ?thesis
    by (simp only:) (rule bit_word_eqI, auto simp: bit_simps)
qed

lemma sense_bytes_decode:
  assumes "14 \<le> length buf"
  shows "sense_key_of (sense_bytes d key asc buf) = key"
    and "sense_asc_of (sense_bytes d key asc buf) = asc"
  using assms be16_join [of asc]
  by (auto simp: sense_key_of_def sense_asc_of_def sense_bytes_def get_unaligned_be16_def
      byte_at_list_update ucast_and_0xff_16)

section \<open>Blank objects\<close>

text \<open>
  Zeroed objects, as \<open>zalloc\<close> leaves them; the concrete instances of the
  theorems are built from these.
\<close>

definition blank_sdb :: scsi_data_buffer where
  "blank_sdb = \<lparr>sdb_buffer = [], sdb_length = 0, sdb_transfer_len = 0, sdb_resid = 0\<rparr>"

definition blank_stat :: lu_stat where
  "blank_stat = \<lparr>rd_subm_bytes = 0, rd_done_bytes = 0, wr_subm_bytes = 0, wr_done_bytes = 0,
     rd_subm_cmds = 0, rd_done_cmds = 0, wr_subm_cmds = 0, wr_done_cmds = 0,
     bidir_subm_cmds = 0, bidir_done_cmds = 0, err_num = 0\<rparr>"

definition blank_attrs :: lu_phy_attr where
  "blank_attrs = \<lparr>scsi_id = replicate 37 0, scsi_sn = replicate 37 0, numeric_id = 0,
     vendor_id = replicate 9 0, product_id = replicate 17 0, product_rev = replicate 5 0,
     version_desc = replicate 8 0, device_type = 0, qualifier = 0, removable = 0, readonly = 0,
     swp = 0, thinprovisioning = 0, online = 0, sense_format = 0, lbppbe = 0, no_auto_lbppbe = 0,
     la_lba = 0, lu_vpd = replicate 128 None\<rparr>"

definition tgt_cmd_queue_init :: tgt_cmd_queue where
  "tgt_cmd_queue_init = \<lparr>active_cmd = 0, queue_state = 0, queue = []\<rparr>"

definition blank_op :: device_type_operations where
  "blank_op = \<lparr>cmd_perform = None, service_actions = [], pr_conflict_bits = 0\<rparr>"

definition blank_lu :: "u64 \<Rightarrow> scsi_lu" where
  "blank_lu l = \<lparr>lu_fd = 0, lu_addr = 0, lu_size = 0, lun = l, lu_path = None, bsoflags = 0, blk_shift = 0,
     lu_itl_info_list = [], cmd_queue = tgt_cmd_queue_init, reserve_id = 0, dt_ops = (\<lambda>_. blank_op),
     lu_bst = \<lparr>bs_name = [], bs_oflags_supported = 0, bs_supported_ops = replicate 4 0\<rparr>,
     mode_block_descriptor = replicate 8 0, mode_pages = [], attrs = blank_attrs,
     registration_list = [], prgeneration = 0, pr_holder = None\<rparr>"

definition blank_cmd :: scsi_cmd where
  "blank_cmd = \<lparr>c_target = None, dev_id = 0, c_dev = 0, c_state = 0, data_dir = DATA_NONE,
     in_sdb = blank_sdb, out_sdb = blank_sdb, cmd_itn_id = 0, c_itn_ctime = 0, c_offset = 0, c_tl = 0,
     scb = replicate 16 0, scb_len = 16, c_lun = replicate 8 0, attribute = 0, c_tag = 0, c_result = 0,
     c_mreq = None, sense_buffer = replicate SCSI_SENSE_BUFFERSIZE 0, sense_len = 0\<rparr>"

definition blank_hst :: hst where
  "blank_hst = \<lparr>hs_cmd = blank_cmd, hs_lu = blank_lu 0, hs_itns = [], hs_luns = [0], hs_tid = 1\<rparr>"

lemmas blank_defs = blank_sdb_def blank_stat_def blank_attrs_def tgt_cmd_queue_init_def blank_op_def
  blank_lu_def blank_cmd_def blank_hst_def

end
