(* ===== verification/Ua_Sense.thy ===== *)
theory Ua_Sense
  imports Scsi_State
begin

text \<open>
  Unit attention conditions (\<open>usr/target.c\<close>): every I\_T\_L nexus keeps a queue of
  pending sense data, filled by the \<open>ua_sense_add\<close> family and drained by the
  commands that report it. The nexuses of the target are the list \<open>itns\<close>; the
  pending queue of a nexus and a logical unit is in the nexus's
  \<open>it_nexus_lu_info\<close> for that unit.
\<close>

unbundle bit_operations_syntax

section \<open>Operations\<close>

definition ua_sense_of :: "bool \<Rightarrow> u16 \<Rightarrow> ua_sense" where
  "ua_sense_of descriptor asc =
     \<lparr>ua_sense_buffer = sense_bytes descriptor UNIT_ATTENTION asc (replicate SCSI_SENSE_BUFFERSIZE 0),
      ua_sense_len = sense_bytes_len descriptor\<rparr>"

definition ua_sense_add :: "scsi_lu \<Rightarrow> u16 \<Rightarrow> it_nexus_lu_info \<Rightarrow> it_nexus_lu_info" where
  "ua_sense_add lu asc itn_lu =
     itn_lu\<lparr>pending_ua_sense_list :=
       pending_ua_sense_list itn_lu @ [ua_sense_of (sense_format (attrs lu) \<noteq> 0) asc]\<rparr>"

text \<open>
  The return value is 0 when a condition was reported and 1 when none was
  pending.
\<close>

definition ua_sense_del :: "bool \<Rightarrow> it_nexus_lu_info \<Rightarrow> scsi_cmd \<Rightarrow> int \<times> it_nexus_lu_info \<times> scsi_cmd" where
  "ua_sense_del del itn_lu cmd =
     (case pending_ua_sense_list itn_lu of
        [] \<Rightarrow> (1, itn_lu, cmd)
      | uas # rest \<Rightarrow>
          let n = min (ua_sense_len uas) SCSI_SENSE_BUFFERSIZE in
          (0, if del then itn_lu\<lparr>pending_ua_sense_list := rest\<rparr> else itn_lu,
           cmd\<lparr>sense_buffer := put_bytes (sense_buffer cmd) 0 (take n (ua_sense_buffer uas)),
               sense_len := n\<rparr>))"

definition ua_sense_match :: "u16 \<Rightarrow> ua_sense \<Rightarrow> bool" where
  "ua_sense_match asc uas =
     (let src = (if byte_at (ua_sense_buffer uas) 0 = 0x72 then 2 else 12) in
      byte_at (ua_sense_buffer uas) src = ucast (drop_bit 8 asc AND 0xff) \<and>
      byte_at (ua_sense_buffer uas) (src + 1) = ucast (asc AND 0xff))"

definition ua_sense_clear :: "u16 \<Rightarrow> it_nexus_lu_info \<Rightarrow> it_nexus_lu_info" where
  "ua_sense_clear asc itn_lu =
     itn_lu\<lparr>pending_ua_sense_list :=
       filter (\<lambda>uas. \<not> ua_sense_match asc uas) (pending_ua_sense_list itn_lu)\<rparr>"

definition ua_sense_pending_del :: "it_nexus_lu_info \<Rightarrow> it_nexus_lu_info" where
  "ua_sense_pending_del itn_lu = itn_lu\<lparr>pending_ua_sense_list := []\<rparr>"

definition ua_sense_add_other_it_nexus :: "u64 \<Rightarrow> scsi_lu \<Rightarrow> u16 \<Rightarrow> it_nexus list \<Rightarrow> it_nexus list" where
  "ua_sense_add_other_it_nexus nid lu asc itns =
     map (\<lambda>itn. if itn_id itn = nid then itn
                else itn\<lparr>itn_itl_info_list :=
                  map (\<lambda>itn_lu. if itl_lu itn_lu \<noteq> lun lu then itn_lu else ua_sense_add lu asc itn_lu)
                    (itn_itl_info_list itn)\<rparr>) itns"

definition ua_sense_add_it_nexus :: "u64 \<Rightarrow> scsi_lu \<Rightarrow> u16 \<Rightarrow> it_nexus list \<Rightarrow> it_nexus list" where
  "ua_sense_add_it_nexus nid lu asc itns =
     upd_first (\<lambda>itn. itn_id itn = nid)
       (\<lambda>itn. itn\<lparr>itn_itl_info_list :=
          upd_first (\<lambda>itn_lu. itl_lu itn_lu = lun lu) (ua_sense_add lu asc) (itn_itl_info_list itn)\<rparr>)
       itns"

definition lu_prevent_removal :: "scsi_lu \<Rightarrow> it_nexus list \<Rightarrow> bool" where
  "lu_prevent_removal lu itns =
     list_ex (\<lambda>itn. list_ex (\<lambda>itn_lu. itl_lu itn_lu = lun lu \<and> itl_prevent itn_lu AND 0x01 \<noteq> 0)
                     (itn_itl_info_list itn)) itns"

text \<open>The I\_T\_L object of a nexus and a logical unit, and its update.\<close>

definition it_nexus_lu_info_lookup :: "it_nexus \<Rightarrow> u64 \<Rightarrow> it_nexus_lu_info option" where
  "it_nexus_lu_info_lookup itn l = lfind itl_lu l (itn_itl_info_list itn)"

definition itl_lookup :: "u64 \<Rightarrow> u64 \<Rightarrow> it_nexus list \<Rightarrow> it_nexus_lu_info option" where
  "itl_lookup nid l itns = Option.bind (lfind itn_id nid itns) (\<lambda>itn. it_nexus_lu_info_lookup itn l)"

definition itl_update :: "u64 \<Rightarrow> u64 \<Rightarrow> (it_nexus_lu_info \<Rightarrow> it_nexus_lu_info) \<Rightarrow> it_nexus list \<Rightarrow> it_nexus list" where
  "itl_update nid l f itns =
     lupdate itn_id nid (\<lambda>itn. itn\<lparr>itn_itl_info_list := lupdate itl_lu l f (itn_itl_info_list itn)\<rparr>) itns"

section \<open>The pending conditions of an I\_T\_L nexus\<close>

text \<open>
  The codes pending for nexus \<open>nid\<close> on unit \<open>l\<close>, oldest first: the abstraction the
  properties are stated on.
\<close>

definition pending_ascs :: "u64 \<Rightarrow> u64 \<Rightarrow> it_nexus list \<Rightarrow> u16 list" where
  "pending_ascs nid l itns =
     (case itl_lookup nid l itns of None \<Rightarrow> []
      | Some itn_lu \<Rightarrow> map (\<lambda>u. sense_asc_of (ua_sense_buffer u)) (pending_ua_sense_list itn_lu))"

definition itns_wf :: "it_nexus list \<Rightarrow> bool" where
  "itns_wf itns \<longleftrightarrow>
     distinct (map itn_id itns) \<and>
     list_all (\<lambda>itn. distinct (map itl_lu (itn_itl_info_list itn)) \<and>
                      list_all (\<lambda>i. itl_itn_id i = itn_id itn) (itn_itl_info_list itn)) itns"

lemma ua_sense_of_decode [simp]:
  "sense_asc_of (ua_sense_buffer (ua_sense_of d asc)) = asc"
  "sense_key_of (ua_sense_buffer (ua_sense_of d asc)) = UNIT_ATTENTION"
  by (simp_all add: ua_sense_of_def sense_bytes_decode)

lemma itl_ua_add_simps [simp]:
  "itl_lu (ua_sense_add lu asc i) = itl_lu i" "itl_itn_id (ua_sense_add lu asc i) = itl_itn_id i"
  "itl_lu (ua_sense_clear asc i) = itl_lu i" "itl_itn_id (ua_sense_clear asc i) = itl_itn_id i"
  by (simp_all add: ua_sense_add_def ua_sense_clear_def)

lemma map_itn_id_ua_add [simp]:
  "map itn_id (ua_sense_add_other_it_nexus nid lu asc itns) = map itn_id itns"
  "map itn_id (ua_sense_add_it_nexus nid lu asc itns) = map itn_id itns"
  by (simp_all add: ua_sense_add_other_it_nexus_def ua_sense_add_it_nexus_def map_key_upd_first)

lemma lfind_map:
  "(\<And>x. key (f x) = key x) \<Longrightarrow> lfind key k (map f xs) = map_option f (lfind key k xs)"
  by (induction xs) auto

lemma itl_lookup_add_other:
  "itl_lookup i l (ua_sense_add_other_it_nexus nid lu asc itns) =
     map_option (if i \<noteq> nid \<and> l = lun lu then ua_sense_add lu asc else (\<lambda>x. x)) (itl_lookup i l itns)"
proof -
  have "lfind itl_lu l (map (\<lambda>x. if itl_lu x \<noteq> lun lu then x else ua_sense_add lu asc x) infos) =
      map_option (if l = lun lu then ua_sense_add lu asc else (\<lambda>x. x)) (lfind itl_lu l infos)" for infos
    by (induction infos) auto
  then show ?thesis
    by (cases "lfind itn_id i itns")
       (auto simp: itl_lookup_def ua_sense_add_other_it_nexus_def lfind_map [where key = itn_id]
         it_nexus_lu_info_lookup_def option.map_id0 [unfolded id_def] dest!: lfind_SomeD)
qed

lemma itl_lookup_add_one:
  assumes "itns_wf itns"
  shows "itl_lookup i l (ua_sense_add_it_nexus nid lu asc itns) =
     map_option (if i = nid \<and> l = lun lu then ua_sense_add lu asc else (\<lambda>x. x)) (itl_lookup i l itns)"
proof -
  have d: "distinct (map itn_id itns)"
    using assms by (simp add: itns_wf_def)
  show ?thesis
  proof (cases "lfind itn_id i itns")
    case (Some itn)
    then have "distinct (map itl_lu (itn_itl_info_list itn))"
      using assms by (auto simp: itns_wf_def list_all_iff dest: lfind_SomeD)
    then show ?thesis
      using Some d
      by (auto simp: itl_lookup_def ua_sense_add_it_nexus_def upd_first_lupdate lfind_lupdate
          it_nexus_lu_info_lookup_def option.map_comp comp_def option.map_id0 [unfolded id_def] intro!: option.map_cong)
  qed (simp add: itl_lookup_def ua_sense_add_it_nexus_def upd_first_lupdate [OF d] lfind_lupdate)
qed

lemma itl_lookup_update:
  assumes "\<And>x. itl_lu (f x) = itl_lu x"
  shows "itl_lookup i l (itl_update j k f itns) =
     map_option (if i = j \<and> l = k then f else (\<lambda>x. x)) (itl_lookup i l itns)"
  using assms
  by (cases "lfind itn_id i itns")
     (auto simp: itl_lookup_def itl_update_def lfind_lupdate it_nexus_lu_info_lookup_def
        option.map_id0 [unfolded id_def] intro!: option.map_cong)

lemma pending_ascs_add_other:
  "pending_ascs i l (ua_sense_add_other_it_nexus nid lu asc itns) =
     pending_ascs i l itns @ (if i \<noteq> nid \<and> l = lun lu \<and> itl_lookup i l itns \<noteq> None then [asc] else [])"
  by (auto simp: pending_ascs_def itl_lookup_add_other ua_sense_add_def split: option.splits)

lemma pending_ascs_add_one:
  "itns_wf itns \<Longrightarrow>
   pending_ascs i l (ua_sense_add_it_nexus nid lu asc itns) =
     pending_ascs i l itns @ (if i = nid \<and> l = lun lu \<and> itl_lookup i l itns \<noteq> None then [asc] else [])"
  by (auto simp: pending_ascs_def itl_lookup_add_one ua_sense_add_def split: option.splits)

section \<open>Well-formedness\<close>

lemma itns_wf_update_infos:
  assumes "itns_wf itns"
    and "\<And>itn. itn_id (g itn) = itn_id itn"
    and "\<And>itn. map itl_lu (itn_itl_info_list (g itn)) = map itl_lu (itn_itl_info_list itn)"
    and "\<And>itn. map itl_itn_id (itn_itl_info_list (g itn)) = map itl_itn_id (itn_itl_info_list itn)"
  shows "itns_wf (map g itns)"
proof -
  have ids: "itl_itn_id ` set (itn_itl_info_list (g itn)) = itl_itn_id ` set (itn_itl_info_list itn)" for itn
    using assms(4) [of itn] by (metis list.set_map)
  have "itl_itn_id x = itn_id itn" if "itn \<in> set itns" "x \<in> set (itn_itl_info_list (g itn))" for itn x
  proof -
    have "itl_itn_id x \<in> itl_itn_id ` set (itn_itl_info_list itn)"
      using that(2) ids by blast
    then show ?thesis
      using assms(1) that(1) by (auto simp: itns_wf_def list_all_iff)
  qed
  then show ?thesis
    using assms(1-3) by (auto simp: itns_wf_def list_all_iff comp_def)
qed

lemma itns_wf_add_other [inv_intros]:
  "itns_wf itns \<Longrightarrow> itns_wf (ua_sense_add_other_it_nexus nid lu asc itns)"
  unfolding ua_sense_add_other_it_nexus_def
  by (rule itns_wf_update_infos) (auto simp: comp_def intro!: map_cong)

lemma itns_wf_update [inv_intros]:
  "itns_wf itns \<Longrightarrow> (\<And>x. itl_lu (f x) = itl_lu x) \<Longrightarrow> (\<And>x. itl_itn_id (f x) = itl_itn_id x) \<Longrightarrow>
   itns_wf (itl_update i l f itns)"
  unfolding itl_update_def lupdate_def
  by (rule itns_wf_update_infos) (auto simp: comp_def intro!: map_cong)

lemma itns_wf_distinct: "itns_wf itns \<Longrightarrow> distinct (map itn_id itns)"
  by (simp add: itns_wf_def)

lemma ua_sense_add_it_nexus_update:
  assumes "itns_wf itns"
  shows "ua_sense_add_it_nexus nid lu asc itns = itl_update nid (lun lu) (ua_sense_add lu asc) itns"
proof -
  have "upd_first (\<lambda>x. itl_lu x = lun lu) (ua_sense_add lu asc) (itn_itl_info_list itn) =
        lupdate itl_lu (lun lu) (ua_sense_add lu asc) (itn_itl_info_list itn)" if "itn \<in> set itns" for itn
    using assms that by (intro upd_first_lupdate) (auto simp: itns_wf_def list_all_iff)
  then show ?thesis
    unfolding ua_sense_add_it_nexus_def itl_update_def upd_first_lupdate [OF itns_wf_distinct [OF assms]]
    by (auto simp: lupdate_def)
qed

lemma itns_wf_add_one [inv_intros]:
  "itns_wf itns \<Longrightarrow> itns_wf (ua_sense_add_it_nexus nid lu asc itns)"
  by (simp add: ua_sense_add_it_nexus_update itns_wf_update)

section \<open>Reporting\<close>

lemma u8_bit_ge: "8 \<le> n \<Longrightarrow> \<not> bit (w :: u8) n"
  using bit_imp_le_length [of w n] by auto

lemma ua_sense_match_iff: "ua_sense_match asc uas \<longleftrightarrow> sense_asc_of (ua_sense_buffer uas) = asc"
proof -
  have *: "push_bit 8 (ucast a) OR ucast b = asc \<longleftrightarrow> a = ucast (drop_bit 8 asc) \<and> b = ucast asc"
    for a b :: u8
  proof
    assume "push_bit 8 (ucast a) OR ucast b = asc"
    then show "a = ucast (drop_bit 8 asc) \<and> b = ucast asc"
      by (auto intro!: bit_word_eqI simp: bit_simps u8_bit_ge)
  next
    assume "a = ucast (drop_bit 8 asc) \<and> b = ucast asc"
    then show "push_bit 8 (ucast a) OR ucast b = asc"
      by (simp add: be16_join)
  qed
  show ?thesis
    by (simp add: ua_sense_match_def sense_asc_of_def get_unaligned_be16_def * ucast_and_0xff_16 Let_def)
qed

lemma ua_sense_clear_pending:
  "map (\<lambda>u. sense_asc_of (ua_sense_buffer u)) (pending_ua_sense_list (ua_sense_clear asc i)) =
   filter (\<lambda>a. a \<noteq> asc) (map (\<lambda>u. sense_asc_of (ua_sense_buffer u)) (pending_ua_sense_list i))"
  by (simp add: ua_sense_clear_def ua_sense_match_iff filter_map comp_def)

text \<open>The shape every queued condition has: a full buffer and a length inside it.\<close>

definition ua_wf :: "ua_sense \<Rightarrow> bool" where
  "ua_wf uas \<longleftrightarrow> length (ua_sense_buffer uas) = SCSI_SENSE_BUFFERSIZE \<and>
     ua_sense_len uas = sense_bytes_len (byte_at (ua_sense_buffer uas) 0 = 0x72)"

lemma ua_wf_of [simp]: "ua_wf (ua_sense_of d asc)"
  by (simp add: ua_wf_def ua_sense_of_def sense_bytes_def byte_at_list_update)

lemma ua_sense_del_reports:
  assumes "pending_ua_sense_list itn_lu = uas # rest" "ua_wf uas"
    and "length (sense_buffer cmd) = SCSI_SENSE_BUFFERSIZE"
  obtains cmd' where "ua_sense_del del itn_lu cmd =
      (0, if del then itn_lu\<lparr>pending_ua_sense_list := rest\<rparr> else itn_lu, cmd')"
    and "sense_asc_of (sense_buffer cmd') = sense_asc_of (ua_sense_buffer uas)"
    and "sense_len cmd' = ua_sense_len uas"
proof -
  let ?n = "ua_sense_len uas"
  let ?b = "put_bytes (sense_buffer cmd) 0 (take ?n (ua_sense_buffer uas))"
  have n: "?n \<le> 18" "4 \<le> ?n" "byte_at (ua_sense_buffer uas) 0 \<noteq> 0x72 \<Longrightarrow> 14 \<le> ?n"
    using assms(2) by (auto simp: ua_wf_def sense_bytes_len_def)
  have len: "length (ua_sense_buffer uas) = SCSI_SENSE_BUFFERSIZE"
    using assms(2) by (simp add: ua_wf_def)
  have "byte_at ?b i = byte_at (ua_sense_buffer uas) i" if "i < ?n" for i
    using that n(1) len assms(3) byte_at_put_bytes [of 0 "take ?n (ua_sense_buffer uas)" "sense_buffer cmd" i]
    by (simp add: byte_at_def)
  then have "sense_asc_of ?b = sense_asc_of (ua_sense_buffer uas)"
    using n by (auto simp: sense_asc_of_def get_unaligned_be16_def)
  then show thesis
    using that [of "cmd\<lparr>sense_buffer := ?b, sense_len := ?n\<rparr>"] n(1) assms(1)
    by (simp add: ua_sense_del_def Let_def)
qed

end
