(* ===== verification/Spc_Pr.thy ===== *)
theory Spc_Pr
  imports Ua_Sense "HOL-Library.Monad_Syntax"
begin

text \<open>
  Persistent reservations (\<open>usr/spc.c\<close>): the registrations of a logical unit, the
  reservation holder, the PERSISTENT RESERVE IN and OUT service actions and the
  access check every command passes. A handler returns \<open>None\<close> where the C code
  follows a null or dangling \<open>pr_holder\<close> pointer.
\<close>

unbundle bit_operations_syntax

section \<open>Registrations and the holder\<close>

definition reg_id :: "registration \<Rightarrow> nexus_key" where
  "reg_id r = (reg_nexus_id r, reg_ctime r)"

abbreviation (input) "cmd_nexus cmd \<equiv> (cmd_itn_id cmd, c_itn_ctime cmd)"

definition all_registrants :: "u8 \<Rightarrow> bool" where
  "all_registrants t \<longleftrightarrow> t = PR_TYPE_WRITE_EXCLUSIVE_ALLREG \<or> t = PR_TYPE_EXCLUSIVE_ACCESS_ALLREG"

definition pr_types :: "u8 set" where
  "pr_types = {PR_TYPE_WRITE_EXCLUSIVE, PR_TYPE_EXCLUSIVE_ACCESS, PR_TYPE_WRITE_EXCLUSIVE_REGONLY,
     PR_TYPE_EXCLUSIVE_ACCESS_REGONLY, PR_TYPE_WRITE_EXCLUSIVE_ALLREG, PR_TYPE_EXCLUSIVE_ACCESS_ALLREG}"

text \<open>Following the pointer \<open>pr_holder\<close>.\<close>

definition holder_reg :: "scsi_lu \<Rightarrow> registration option" where
  "holder_reg lu = Option.bind (pr_holder lu) (\<lambda>k. lfind reg_id k (registration_list lu))"

definition is_pr_holder :: "scsi_lu \<Rightarrow> registration \<Rightarrow> bool option" where
  "is_pr_holder lu reg =
     do { h \<leftarrow> holder_reg lu;
          Some (all_registrants (reg_pr_type h) \<or> pr_holder lu = Some (reg_id reg)) }"

definition lookup_registration_by_nexus :: "scsi_lu \<Rightarrow> nexus_key \<Rightarrow> registration option" where
  "lookup_registration_by_nexus lu itn =
     find (\<lambda>reg. reg_nexus_id reg = fst itn \<and> reg_ctime reg = snd itn) (registration_list lu)"

definition check_registration_key_exists :: "scsi_lu \<Rightarrow> u64 \<Rightarrow> bool" where
  "check_registration_key_exists lu key = (\<not> list_ex (\<lambda>reg. reg_key reg = key) (registration_list lu))"

definition upd_reg :: "nexus_key \<Rightarrow> (registration \<Rightarrow> registration) \<Rightarrow> scsi_lu \<Rightarrow> scsi_lu" where
  "upd_reg k f lu = lu\<lparr>registration_list := lupdate reg_id k f (registration_list lu)\<rparr>"

definition unregister :: "nexus_key \<Rightarrow> scsi_lu \<Rightarrow> scsi_lu" where
  "unregister k lu = lu\<lparr>registration_list := lremove reg_id k (registration_list lu)\<rparr>"

text \<open>
  The holder pointer is followed while the registration that goes away is still
  allocated, so it is read in the state before the removal.
\<close>

definition unregister_and_clean :: "registration \<Rightarrow> hst \<Rightarrow> hst option" where
  "unregister_and_clean reg s =
     (let lu = hs_lu s; lu' = unregister (reg_id reg) lu; regs = registration_list lu' in
      case pr_holder lu of
        None \<Rightarrow> Some (s\<lparr>hs_lu := lu'\<rparr>)
      | Some _ \<Rightarrow>
          do { holder \<leftarrow> holder_reg lu;
               mine \<leftarrow> is_pr_holder lu reg;
               if \<not> mine then Some (s\<lparr>hs_lu := lu'\<rparr>)
               else if \<not> all_registrants (reg_pr_type holder) \<or> regs = [] then
                 let lu1 = (upd_reg (reg_id holder) (\<lambda>r. r\<lparr>reg_pr_scope := 0, reg_pr_type := 0\<rparr>) lu')
                             \<lparr>pr_holder := None\<rparr>;
                     itns' = fold (\<lambda>r. ua_sense_add_other_it_nexus (reg_nexus_id r) lu1 ASC_RESERVATIONS_RELEASED)
                               regs (hs_itns s)
                 in Some (s\<lparr>hs_lu := lu1\<lparr>prgeneration := prgeneration lu1 + 1\<rparr>, hs_itns := itns'\<rparr>)
               else
                 let d = hd regs in
                 Some (s\<lparr>hs_lu := (upd_reg (reg_id d)
                            (\<lambda>r. r\<lparr>reg_pr_scope := reg_pr_scope holder, reg_pr_type := reg_pr_type holder\<rparr>) lu')
                              \<lparr>pr_holder := Some (reg_id d)\<rparr>\<rparr>) })"

definition check_pr_out_basic_parameter :: "scsi_cmd \<Rightarrow> bool" where
  "check_pr_out_basic_parameter cmd =
     (let buf = scsi_get_out_buffer cmd in
      if get_unaligned_be32 (scb cmd) 5 \<noteq> 24 then True
      else if scsi_get_out_length cmd < 24 then True
      else byte_at buf 20 AND 0x8 OR byte_at buf 20 AND 0x4 OR byte_at buf 20 AND 0x1 \<noteq> 0)"

section \<open>PERSISTENT RESERVE OUT\<close>

text \<open>The sense exit for an invalid field in the CDB.\<close>

definition pr_invalid_field :: "hst \<Rightarrow> (int \<times> hst) option" where
  "pr_invalid_field s = Some (sense_exit ILLEGAL_REQUEST ASC_INVALID_FIELD_IN_CDB s)"

definition inc_prgeneration :: "hst \<Rightarrow> hst" where
  "inc_prgeneration s = upd_lu (\<lambda>lu. lu\<lparr>prgeneration := prgeneration lu + 1\<rparr>) s"

text \<open>\<open>mem\<close> says whether the allocation of a new registration succeeds.\<close>

definition spc_pr_register :: "bool \<Rightarrow> hst \<Rightarrow> (int \<times> hst) option" where
  "spc_pr_register mem s =
     (let cmd = hs_cmd s; lu = hs_lu s; buf = scsi_get_out_buffer cmd;
          force = (byte_at (scb cmd) 1 AND 0x1f = PR_OUT_REGISTER_AND_IGNORE_EXISTING_KEY);
          res_key = get_unaligned_be64 buf 0; sa_res_key = get_unaligned_be64 buf 8
      in if check_pr_out_basic_parameter cmd then pr_invalid_field s
         else case lookup_registration_by_nexus lu (cmd_nexus cmd) of
           Some reg \<Rightarrow>
             if force \<or> reg_key reg = res_key then
               (if sa_res_key \<noteq> 0
                then Some (SAM_STAT_GOOD, inc_prgeneration
                             (upd_lu (upd_reg (reg_id reg) (\<lambda>r. r\<lparr>reg_key := sa_res_key\<rparr>)) s))
                else do { s' \<leftarrow> unregister_and_clean reg s; Some (SAM_STAT_GOOD, inc_prgeneration s') })
             else Some (SAM_STAT_RESERVATION_CONFLICT, s)
         | None \<Rightarrow>
             if force \<or> res_key = 0 then
               (if sa_res_key \<noteq> 0 then
                  (if \<not> mem then Some (sense_exit ILLEGAL_REQUEST ASC_INSUFFICENT_REGISTRATION_RESOURCES s)
                   else Some (SAM_STAT_GOOD, inc_prgeneration
                     (upd_lu (\<lambda>lu. lu\<lparr>registration_list := registration_list lu @
                        [\<lparr>reg_key = sa_res_key, reg_nexus_id = cmd_itn_id cmd, reg_ctime = c_itn_ctime cmd,
                          reg_pr_scope = 0, reg_pr_type = 0\<rparr>]\<rparr>) s)))
                else Some (SAM_STAT_GOOD, inc_prgeneration s))
             else Some (SAM_STAT_RESERVATION_CONFLICT, s))"

definition spc_pr_reserve :: "hst \<Rightarrow> (int \<times> hst) option" where
  "spc_pr_reserve s =
     (let cmd = hs_cmd s; lu = hs_lu s;
          scope = drop_bit 4 (byte_at (scb cmd) 2 AND 0xf0); type = byte_at (scb cmd) 2 AND 0x0f
      in if check_pr_out_basic_parameter cmd then pr_invalid_field s
         else if type \<notin> pr_types then pr_invalid_field s
         else if scope \<noteq> PR_LU_SCOPE then pr_invalid_field s
         else case lookup_registration_by_nexus lu (cmd_nexus cmd) of
           None \<Rightarrow> Some (SAM_STAT_RESERVATION_CONFLICT, s)
         | Some reg \<Rightarrow>
             (case pr_holder lu of
                Some _ \<Rightarrow>
                  do { holder \<leftarrow> holder_reg lu;
                       mine \<leftarrow> is_pr_holder lu reg;
                       if \<not> mine then Some (SAM_STAT_RESERVATION_CONFLICT, s)
                       else if reg_pr_type holder \<noteq> type \<or> reg_pr_scope holder \<noteq> scope
                       then Some (SAM_STAT_RESERVATION_CONFLICT, s)
                       else Some (SAM_STAT_GOOD, s) }
              | None \<Rightarrow>
                  Some (SAM_STAT_GOOD, s\<lparr>hs_lu :=
                    (upd_reg (reg_id reg) (\<lambda>r. r\<lparr>reg_pr_scope := scope, reg_pr_type := type\<rparr>) lu)
                      \<lparr>pr_holder := Some (reg_id reg)\<rparr>\<rparr>)))"

definition spc_pr_release :: "hst \<Rightarrow> (int \<times> hst) option" where
  "spc_pr_release s =
     (let cmd = hs_cmd s; lu = hs_lu s;
          scope = drop_bit 4 (byte_at (scb cmd) 2 AND 0xf0); type = byte_at (scb cmd) 2 AND 0x0f;
          res_key = get_unaligned_be64 (scsi_get_out_buffer cmd) 0
      in if check_pr_out_basic_parameter cmd then pr_invalid_field s
         else case lookup_registration_by_nexus lu (cmd_nexus cmd) of
           None \<Rightarrow> Some (SAM_STAT_RESERVATION_CONFLICT, s)
         | Some reg \<Rightarrow>
             (case pr_holder lu of
                None \<Rightarrow> Some (SAM_STAT_GOOD, s)
              | Some _ \<Rightarrow>
                  do { holder \<leftarrow> holder_reg lu;
                       mine \<leftarrow> is_pr_holder lu reg;
                       if \<not> mine then Some (SAM_STAT_GOOD, s)
                       else if res_key \<noteq> reg_key reg then Some (SAM_STAT_RESERVATION_CONFLICT, s)
                       else if reg_pr_scope holder \<noteq> scope \<or> reg_pr_type holder \<noteq> type
                       then Some (sense_exit ILLEGAL_REQUEST ASC_INVALID_RELEASE_OF_PERSISTENT_RESERVATION s)
                       else
                         let lu1 = upd_reg (reg_id reg) (\<lambda>r. r\<lparr>reg_pr_scope := 0, reg_pr_type := 0\<rparr>)
                                     (lu\<lparr>pr_holder := None\<rparr>) in
                         if type \<in> {PR_TYPE_WRITE_EXCLUSIVE_REGONLY, PR_TYPE_EXCLUSIVE_ACCESS_REGONLY,
                                     PR_TYPE_WRITE_EXCLUSIVE_ALLREG, PR_TYPE_EXCLUSIVE_ACCESS_ALLREG}
                         then Some (SAM_STAT_GOOD, s\<lparr>hs_lu := lu1\<rparr>)
                         else Some (SAM_STAT_GOOD, s\<lparr>hs_lu := lu1, hs_itns :=
                           fold (\<lambda>r itns. if reg_id r = reg_id reg then itns
                                   else ua_sense_add_other_it_nexus (reg_nexus_id r) lu1 ASC_RESERVATIONS_RELEASED itns)
                             (registration_list lu1) (hs_itns s)\<rparr>) }))"

definition spc_pr_clear :: "hst \<Rightarrow> (int \<times> hst) option" where
  "spc_pr_clear s =
     (let cmd = hs_cmd s; lu = hs_lu s; res_key = get_unaligned_be64 (scsi_get_out_buffer cmd) 0
      in if check_pr_out_basic_parameter cmd then pr_invalid_field s
         else case lookup_registration_by_nexus lu (cmd_nexus cmd) of
           None \<Rightarrow> Some (SAM_STAT_RESERVATION_CONFLICT, s)
         | Some reg \<Rightarrow>
             if reg_key reg \<noteq> res_key then Some (SAM_STAT_RESERVATION_CONFLICT, s)
             else if pr_holder lu \<noteq> None \<and> holder_reg lu = None then None
             else Some (SAM_STAT_GOOD, inc_prgeneration (s\<lparr>
               hs_lu := lu\<lparr>pr_holder := None, registration_list := []\<rparr>,
               hs_itns := fold (\<lambda>r itns. if reg_id r \<noteq> reg_id reg
                                 then ua_sense_add_it_nexus (reg_nexus_id r) lu ASC_RESERVATIONS_PREEMPTED itns
                                 else itns)
                            (registration_list lu) (hs_itns s)\<rparr>)))"

text \<open>The loop of PREEMPT over the registrations other than the caller's.\<close>

definition preempt_loop :: "registration \<Rightarrow> u64 \<Rightarrow> bool \<Rightarrow> bool \<Rightarrow> hst \<Rightarrow> hst" where
  "preempt_loop reg sa_res_key remove_all_reg res_released s =
     fold (\<lambda>sibling s.
         if reg_id sibling = reg_id reg then s
         else if reg_key sibling = sa_res_key \<or> remove_all_reg then
           s\<lparr>hs_itns := ua_sense_add_it_nexus (reg_nexus_id sibling) (hs_lu s) ASC_RESERVATIONS_PREEMPTED (hs_itns s),
             hs_lu := unregister (reg_id sibling) (hs_lu s)\<rparr>
         else if res_released then
           s\<lparr>hs_itns := ua_sense_add_it_nexus (reg_nexus_id sibling) (hs_lu s) ASC_RESERVATIONS_RELEASED (hs_itns s)\<rparr>
         else s)
       (registration_list (hs_lu s)) s"

definition spc_pr_preempt :: "hst \<Rightarrow> (int \<times> hst) option" where
  "spc_pr_preempt s =
     (let cmd = hs_cmd s; lu = hs_lu s; buf = scsi_get_out_buffer cmd;
          scope = drop_bit 4 (byte_at (scb cmd) 2 AND 0xf0); type = byte_at (scb cmd) 2 AND 0x0f;
          res_key = get_unaligned_be64 buf 0; sa_res_key = get_unaligned_be64 buf 8
      in if check_pr_out_basic_parameter cmd then pr_invalid_field s
         else case lookup_registration_by_nexus lu (cmd_nexus cmd) of
           None \<Rightarrow> Some (SAM_STAT_RESERVATION_CONFLICT, s)
         | Some reg \<Rightarrow>
             if reg_key reg \<noteq> res_key then Some (SAM_STAT_RESERVATION_CONFLICT, s)
             else if sa_res_key \<noteq> 0 \<and> check_registration_key_exists lu sa_res_key
             then Some (SAM_STAT_RESERVATION_CONFLICT, s)
             else
               let take_over = (upd_reg (reg_id reg) (\<lambda>r. r\<lparr>reg_pr_type := type, reg_pr_scope := scope\<rparr>) lu)
                                 \<lparr>pr_holder := Some (reg_id reg)\<rparr>;
                   finish = (\<lambda>lu1 all rel. Some (SAM_STAT_GOOD,
                      inc_prgeneration (preempt_loop reg sa_res_key all rel (s\<lparr>hs_lu := lu1\<rparr>))))
               in case pr_holder lu of
                    None \<Rightarrow> finish lu False False
                  | Some _ \<Rightarrow>
                      do { holder \<leftarrow> holder_reg lu;
                           let rel = (type \<noteq> reg_pr_type holder \<or> scope \<noteq> reg_pr_scope holder);
                           if all_registrants (reg_pr_type holder) then
                             (if sa_res_key = 0 then finish take_over True rel else finish lu False False)
                           else if reg_key holder = sa_res_key then finish take_over False rel
                           else if sa_res_key = 0 then pr_invalid_field s
                           else finish lu False False })"

text \<open>
  \<open>transportid\<close> is the driver's callback, if it has one: the identifier's length
  and its bytes for a nexus of a target.
\<close>

definition spc_pr_register_and_move ::
  "(int \<Rightarrow> u64 \<Rightarrow> u32 \<times> bytes) option \<Rightarrow> hst \<Rightarrow> (int \<times> hst) option" where
  "spc_pr_register_and_move transportid s =
     (let cmd = hs_cmd s; lu = hs_lu s; buf = scsi_get_out_buffer cmd;
          param_list_len = get_unaligned_be32 (scb cmd) 5;
          unreg = (byte_at buf 17 AND 0x02 \<noteq> 0);
          res_key = get_unaligned_be64 buf 0; sa_res_key = get_unaligned_be64 buf 8;
          tpid_data_len = get_unaligned_be32 buf 20
      in if param_list_len < 24 then pr_invalid_field s
         else if scsi_get_out_length cmd < param_list_len then pr_invalid_field s
         else if byte_at buf 17 AND 0x01 \<noteq> 0 then pr_invalid_field s
         else if tpid_data_len < 24 \<or> tpid_data_len mod 4 \<noteq> 0 then pr_invalid_field s
         else if param_list_len - 24 < tpid_data_len then pr_invalid_field s
         else case lookup_registration_by_nexus lu (cmd_nexus cmd) of
           None \<Rightarrow> if pr_holder lu \<noteq> None then Some (SAM_STAT_RESERVATION_CONFLICT, s) else pr_invalid_field s
         | Some reg \<Rightarrow>
             do { mine \<leftarrow> is_pr_holder lu reg;
                  if \<not> mine then Some (SAM_STAT_GOOD, s)
                  else if reg_key reg \<noteq> res_key then Some (SAM_STAT_RESERVATION_CONFLICT, s)
                  else if sa_res_key = 0 then Some (SAM_STAT_RESERVATION_CONFLICT, s)
                  else case lfind reg_key sa_res_key (registration_list lu) of
                    None \<Rightarrow> pr_invalid_field s
                  | Some dst \<Rightarrow>
                      if (case transportid of None \<Rightarrow> False
                          | Some f \<Rightarrow> let (idlen, tpid) = f (hs_tid s) (reg_nexus_id dst) in
                              tpid_data_len \<noteq> idlen \<or>
                              take (unat idlen) tpid \<noteq> take (unat idlen) (drop 24 buf))
                      then pr_invalid_field s
                      else
                        let lu1 = lu\<lparr>pr_holder := Some (reg_id dst)\<rparr>;
                            lu2 = (if unreg then unregister (reg_id reg) lu1 else lu1)
                        in Some (SAM_STAT_GOOD, inc_prgeneration (s\<lparr>hs_lu := lu2\<rparr>)) })"

section \<open>PERSISTENT RESERVE IN\<close>

text \<open>The loop of READ KEYS: \<open>actual\<close> bytes are in the buffer, \<open>remain\<close> still fit.\<close>

fun read_keys_loop :: "registration list \<Rightarrow> bytes \<Rightarrow> u32 \<Rightarrow> u32 \<Rightarrow> u32 \<Rightarrow> (bytes \<times> u32 \<times> u32) option" where
  "read_keys_loop [] buf actual_len avail_len remain_len = Some (buf, actual_len, avail_len)"
| "read_keys_loop (reg # regs) buf actual_len avail_len remain_len =
     do { (buf', remain', n) \<leftarrow> spc_memcpy buf (unat actual_len) remain_len (be64_bytes (reg_key reg)) 8;
          read_keys_loop regs buf' (actual_len + n) (avail_len + 8) remain' }"

text \<open>The checks on the allocation length the three service actions start with.\<close>

definition pr_in_alloc_len :: "scsi_cmd \<Rightarrow> u32" where
  "pr_in_alloc_len cmd = ucast (get_unaligned_be16 (scb cmd) 7)"

definition pr_in_bad_alloc :: "scsi_cmd \<Rightarrow> bool" where
  "pr_in_bad_alloc cmd \<longleftrightarrow> pr_in_alloc_len cmd < 8 \<or> scsi_get_in_length cmd < pr_in_alloc_len cmd"

definition spc_pr_read_keys :: "hst \<Rightarrow> (int \<times> hst) option" where
  "spc_pr_read_keys s =
     (let cmd = hs_cmd s; lu = hs_lu s in
      if pr_in_bad_alloc cmd then pr_invalid_field s
      else do {
        buf0 \<leftarrow> write_at (scsi_get_in_buffer cmd) 0 (be32_bytes (prgeneration lu));
        (buf1, actual_len, avail_len) \<leftarrow>
          read_keys_loop (registration_list lu) buf0 8 8 (pr_in_alloc_len cmd - 8);
        buf2 \<leftarrow> write_at buf1 4 (be32_bytes (avail_len - 8));
        Some (SAM_STAT_GOOD, upd_cmd (scsi_set_in_resid_by_actual actual_len \<circ> set_in_buffer buf2) s) })"

text \<open>The 32-byte response buffer of READ RESERVATION, of which \<open>avail_len\<close> bytes are used.\<close>

definition read_reservation_buf :: "scsi_lu \<Rightarrow> registration option \<Rightarrow> bytes" where
  "read_reservation_buf lu h =
     (let add_len = (if h \<noteq> None then 16 else 0);
          b0 = put_unaligned_be32 add_len (put_unaligned_be32 (prgeneration lu) (replicate 32 0) 0) 4
      in case h of None \<Rightarrow> b0
         | Some reg \<Rightarrow>
             let b1 = put_unaligned_be64 (if all_registrants (reg_pr_type reg) then 0 else reg_key reg) b0 8
             in b1[21 := (push_bit 4 (reg_pr_scope reg) AND 0xf0) OR (reg_pr_type reg AND 0x0f)])"

definition spc_pr_read_reservation :: "hst \<Rightarrow> (int \<times> hst) option" where
  "spc_pr_read_reservation s =
     (let cmd = hs_cmd s; lu = hs_lu s in
      if pr_in_bad_alloc cmd then pr_invalid_field s
      else if pr_holder lu \<noteq> None \<and> holder_reg lu = None then None
      else
        let h = holder_reg lu; avail_len = (if h \<noteq> None then 24 else 8) in
        do { (data, _, actual_len) \<leftarrow>
               spc_memcpy (scsi_get_in_buffer cmd) 0 (pr_in_alloc_len cmd) (read_reservation_buf lu h) avail_len;
             Some (SAM_STAT_GOOD, upd_cmd (scsi_set_in_resid_by_actual actual_len \<circ> set_in_buffer data) s) })"

definition report_capabilities_buf :: bytes where
  "report_capabilities_buf =
     (put_unaligned_be16 8 (replicate 8 0) 0)
       [3 := 0x80, 4 := 0x80 OR 0x40 OR 0x20 OR 0x08 OR 0x02, 5 := 0x01]"

definition spc_pr_report_capabilities :: "hst \<Rightarrow> (int \<times> hst) option" where
  "spc_pr_report_capabilities s =
     (let cmd = hs_cmd s in
      if pr_in_bad_alloc cmd then pr_invalid_field s
      else
        do { (data, _, actual_len) \<leftarrow>
               spc_memcpy (scsi_get_in_buffer cmd) 0 (pr_in_alloc_len cmd) report_capabilities_buf 8;
             Some (SAM_STAT_GOOD, upd_cmd (scsi_set_in_resid_by_actual actual_len \<circ> set_in_buffer data) s) })"

section \<open>The service action tables\<close>

definition persistent_reserve_in_actions :: "(u32 \<times> perform_fn) list" where
  "persistent_reserve_in_actions =
     [(0x00, Spc_pr_read_keys), (0x01, Spc_pr_read_reservation), (0x02, Spc_pr_report_capabilities)]"

definition persistent_reserve_out_actions :: "(u32 \<times> perform_fn) list" where
  "persistent_reserve_out_actions =
     [(0x00, Spc_pr_register), (0x01, Spc_pr_reserve), (0x02, Spc_pr_release), (0x03, Spc_pr_clear),
      (0x04, Spc_pr_preempt), (0x06, Spc_pr_register), (0x07, Spc_pr_register_and_move)]"

definition find_service_action :: "(u32 \<times> perform_fn) list \<Rightarrow> u32 \<Rightarrow> perform_fn option" where
  "find_service_action tab action = map_option snd (find (\<lambda>e. fst e = action) tab)"

section \<open>The access check\<close>

abbreviation (input) "PR_SPECIAL \<equiv> 0x20 :: u8"
abbreviation (input) "PR_WE_FA \<equiv> 0x10 :: u8"
abbreviation (input) "PR_EA_FA \<equiv> 0x08 :: u8"
abbreviation (input) "PR_RR_FR \<equiv> 0x04 :: u8"
abbreviation (input) "PR_WE_FN \<equiv> 0x02 :: u8"
abbreviation (input) "PR_EA_FN \<equiv> 0x01 :: u8"

text \<open>The result is the conflicting bit, zero when the command may proceed.\<close>

definition spc_access_check :: "scsi_lu \<Rightarrow> scsi_cmd \<Rightarrow> u8 option" where
  "spc_access_check lu cmd =
     (case pr_holder lu of
        None \<Rightarrow> Some 0
      | Some _ \<Rightarrow>
          let reg = lookup_registration_by_nexus lu (cmd_nexus cmd) in
          do { mine \<leftarrow> (case reg of None \<Rightarrow> Some False | Some r \<Rightarrow> is_pr_holder lu r);
               if mine then Some 0
               else do {
                 holder \<leftarrow> holder_reg lu;
                 let pr_type = reg_pr_type holder;
                 let bits = pr_conflict_bits (dt_ops lu (byte_at (scb cmd) 0));
                 Some (if pr_type = PR_TYPE_EXCLUSIVE_ACCESS then bits AND PR_EA_FA
                       else if pr_type = PR_TYPE_WRITE_EXCLUSIVE then bits AND PR_WE_FA
                       else if reg \<noteq> None then bits AND PR_RR_FR
                       else if pr_type = PR_TYPE_WRITE_EXCLUSIVE_REGONLY \<or>
                               pr_type = PR_TYPE_WRITE_EXCLUSIVE_ALLREG
                       then bits AND PR_WE_FN
                       else bits AND PR_EA_FN) } })"

section \<open>The invariant of the registrations\<close>

text \<open>
  Registrations are unique per nexus, carry a non-zero key, and the holder
  pointer is null or points to one of them.
\<close>

definition pr_inv :: "scsi_lu \<Rightarrow> bool" where
  "pr_inv lu \<longleftrightarrow>
     distinct (map reg_id (registration_list lu)) \<and>
     list_all (\<lambda>r. reg_key r \<noteq> 0) (registration_list lu) \<and>
     set_option (pr_holder lu) \<subseteq> reg_id ` set (registration_list lu)"

lemma lookup_registration_lfind:
  "lookup_registration_by_nexus lu k = lfind reg_id k (registration_list lu)"
  unfolding lookup_registration_by_nexus_def lfind_def
  by (metis (mono_tags, lifting) reg_id_def prod.collapse prod.inject)

lemma reg_id_updates [simp]:
  "reg_id (r\<lparr>reg_key := k\<rparr>) = reg_id r" "reg_id (r\<lparr>reg_pr_scope := x\<rparr>) = reg_id r"
  "reg_id (r\<lparr>reg_pr_type := t\<rparr>) = reg_id r"
  by (simp_all add: reg_id_def)

lemma holder_reg_cong:
  "pr_holder lu' = pr_holder lu \<Longrightarrow> registration_list lu' = registration_list lu \<Longrightarrow> holder_reg lu' = holder_reg lu"
  by (simp add: holder_reg_def)

lemma pr_inv_holder:
  assumes "pr_inv lu" "pr_holder lu = Some k"
  obtains h where "holder_reg lu = Some h" "h \<in> set (registration_list lu)" "reg_id h = k"
proof -
  have "k \<in> reg_id ` set (registration_list lu)"
    using assms by (simp add: pr_inv_def)
  then obtain h where "lfind reg_id k (registration_list lu) = Some h"
    by (metis lfind_None_iff not_None_eq)
  then show thesis
    using that [of h] assms(2) lfind_SomeD [of reg_id k _ h] by (auto simp: holder_reg_def)
qed

lemma pr_inv_cong:
  "pr_inv lu \<Longrightarrow> pr_holder lu' = pr_holder lu \<Longrightarrow> registration_list lu' = registration_list lu \<Longrightarrow> pr_inv lu'"
  by (simp add: pr_inv_def)

lemma pr_inv_upd_reg:
  assumes "pr_inv lu" "\<And>r. reg_id (f r) = reg_id r" "\<And>r. reg_key r \<noteq> 0 \<Longrightarrow> reg_key (f r) \<noteq> 0"
  shows "pr_inv (upd_reg k f lu)"
proof -
  have ids: "map reg_id (lupdate reg_id k f regs) = map reg_id regs" for regs
    by (rule map_key_lupdate) (rule assms(2))
  have "reg_id ` set (lupdate reg_id k f (registration_list lu)) = reg_id ` set (registration_list lu)"
    using ids by (metis list.set_map)
  then show ?thesis
    using assms(1,3) by (auto simp: pr_inv_def upd_reg_def ids list_all_iff set_lupdate split: option.splits)
qed

lemma pr_inv_set_holder:
  "pr_inv lu \<Longrightarrow> k \<in> reg_id ` set (registration_list lu) \<Longrightarrow> pr_inv (lu\<lparr>pr_holder := Some k\<rparr>)"
  by (simp add: pr_inv_def)

lemma pr_inv_no_holder: "pr_inv lu \<Longrightarrow> pr_inv (lu\<lparr>pr_holder := None\<rparr>)"
  by (simp add: pr_inv_def)

lemma pr_inv_unregister:
  "pr_inv lu \<Longrightarrow> pr_holder lu \<noteq> Some k \<Longrightarrow> pr_inv (unregister k lu)"
  by (auto simp: pr_inv_def unregister_def distinct_lremove list_all_iff split: option.splits)

lemma registration_ids_upd_reg:
  assumes "\<And>r. reg_id (f r) = reg_id r"
  shows "reg_id ` set (registration_list (upd_reg k f lu)) = reg_id ` set (registration_list lu)"
proof -
  have "map reg_id (registration_list (upd_reg k f lu)) = map reg_id (registration_list lu)"
    unfolding upd_reg_def by (simp add: map_key_lupdate assms)
  then show ?thesis by (metis list.set_map)
qed

lemma pr_inv_append:
  "pr_inv lu \<Longrightarrow> reg_id r \<notin> reg_id ` set (registration_list lu) \<Longrightarrow> reg_key r \<noteq> 0 \<Longrightarrow>
   pr_inv (lu\<lparr>registration_list := registration_list lu @ [r]\<rparr>)"
  by (auto simp: pr_inv_def split: option.splits)

lemma pr_fields_upd [simp]:
  "pr_holder (upd_reg k f lu) = pr_holder lu" "pr_holder (unregister k lu) = pr_holder lu"
  "registration_list (unregister k lu) = lremove reg_id k (registration_list lu)"
  "prgeneration (upd_reg k f lu) = prgeneration lu" "prgeneration (unregister k lu) = prgeneration lu"
  by (simp_all add: upd_reg_def unregister_def)

lemma hs_lu_inc [simp]:
  "hs_lu (inc_prgeneration s) = (hs_lu s)\<lparr>prgeneration := prgeneration (hs_lu s) + 1\<rparr>"
  "hs_itns (inc_prgeneration s) = hs_itns s" "hs_cmd (inc_prgeneration s) = hs_cmd s"
  by (simp_all add: inc_prgeneration_def)

lemma pr_inv_prgeneration [simp]: "pr_inv (lu\<lparr>prgeneration := g\<rparr>) = pr_inv lu"
  by (simp add: pr_inv_def)

lemma sense_exit_lu [simp]: "hs_lu (snd (sense_exit k a s)) = hs_lu s" "hs_itns (snd (sense_exit k a s)) = hs_itns s"
  by (simp_all add: sense_exit_def)

text \<open>The handler returns, without following a bad pointer, in a state with the invariant.\<close>

definition pr_ok :: "(int \<times> hst) option \<Rightarrow> bool" where
  "pr_ok res = (case res of None \<Rightarrow> False | Some (_, s') \<Rightarrow> pr_inv (hs_lu s'))"

lemma pr_ok_Some [simp]: "pr_ok (Some (r, s')) \<longleftrightarrow> pr_inv (hs_lu s')"
  by (simp add: pr_ok_def)

lemma pr_ok_sense_exit [simp]: "pr_ok (Some (sense_exit k a s)) \<longleftrightarrow> pr_inv (hs_lu s)"
  by (simp add: sense_exit_def)

lemma pr_ok_invalid_field [simp]: "pr_ok (pr_invalid_field s) \<longleftrightarrow> pr_inv (hs_lu s)"
  by (simp add: pr_invalid_field_def)

lemma hd_reg_id: "regs \<noteq> [] \<Longrightarrow> reg_id (hd regs) \<in> reg_id ` set regs"
  by (simp add: hd_in_set)

lemma unregister_and_clean_inv:
  assumes "pr_inv (hs_lu s)" "reg \<in> set (registration_list (hs_lu s))"
  shows "\<exists>s'. unregister_and_clean reg s = Some s' \<and> pr_inv (hs_lu s')"
proof (cases "pr_holder (hs_lu s)")
  case None
  then show ?thesis
    using assms by (simp add: unregister_and_clean_def pr_inv_unregister)
next
  case (Some k)
  let ?lu' = "unregister (reg_id reg) (hs_lu s)"
  from assms(1) Some obtain h where h: "holder_reg (hs_lu s) = Some h" "reg_id h = k"
    by (rule pr_inv_holder)
  show ?thesis
  proof (cases "all_registrants (reg_pr_type h) \<and> registration_list ?lu' \<noteq> []")
    case True
    let ?d = "hd (registration_list ?lu')"
    let ?f = "\<lambda>r. r\<lparr>reg_pr_scope := reg_pr_scope h, reg_pr_type := reg_pr_type h\<rparr>"
    have "pr_inv (unregister (reg_id reg) (hs_lu s\<lparr>pr_holder := None\<rparr>))"
      using assms(1) by (intro pr_inv_unregister pr_inv_no_holder) simp_all
    then have "pr_inv (?lu'\<lparr>pr_holder := None\<rparr>)"
      by (rule pr_inv_cong) (simp_all add: unregister_def)
    then have "pr_inv ((upd_reg (reg_id ?d) ?f (?lu'\<lparr>pr_holder := None\<rparr>))\<lparr>pr_holder := Some (reg_id ?d)\<rparr>)"
      using True hd_reg_id [of "registration_list ?lu'"]
      by (intro pr_inv_set_holder pr_inv_upd_reg) (simp_all add: registration_ids_upd_reg)
    then have "pr_inv ((upd_reg (reg_id ?d) ?f ?lu')\<lparr>pr_holder := Some (reg_id ?d)\<rparr>)"
      by (rule pr_inv_cong) (simp_all add: upd_reg_def)
    then show ?thesis
      using True h Some by (simp add: unregister_and_clean_def is_pr_holder_def Let_def)
  next
    case False
    have no: "pr_inv ((upd_reg j f ?lu')\<lparr>pr_holder := None\<rparr>)"
      if "f = (\<lambda>r. r\<lparr>reg_pr_scope := 0, reg_pr_type := 0\<rparr>)" for f j
    proof -
      have "pr_inv (unregister (reg_id reg) (hs_lu s\<lparr>pr_holder := None\<rparr>))"
        using assms(1) by (intro pr_inv_unregister pr_inv_no_holder) simp_all
      then have "pr_inv (upd_reg j f (unregister (reg_id reg) (hs_lu s\<lparr>pr_holder := None\<rparr>)))"
        by (rule pr_inv_upd_reg) (simp_all add: that)
      then show ?thesis
        by (rule pr_inv_cong) (simp_all add: upd_reg_def unregister_def)
    qed
    have keep: "pr_inv ?lu'" if "pr_holder (hs_lu s) \<noteq> Some (reg_id reg)"
      using assms(1) that by (rule pr_inv_unregister)
    show ?thesis
      using False h Some no keep by (auto simp: unregister_and_clean_def is_pr_holder_def Let_def)
  qed
qed

lemma spc_pr_register_ok:
  assumes "pr_inv (hs_lu s)"
  shows "pr_ok (spc_pr_register mem s)"
proof (cases "lookup_registration_by_nexus (hs_lu s) (cmd_nexus (hs_cmd s))")
  case None
  then have "cmd_nexus (hs_cmd s) \<notin> reg_id ` set (registration_list (hs_lu s))"
    by (simp add: lookup_registration_lfind lfind_None_iff)
  then show ?thesis
    using assms None
    by (auto simp: spc_pr_register_def Let_def reg_id_def intro!: pr_inv_append)
next
  case (Some reg)
  then have reg: "reg \<in> set (registration_list (hs_lu s))"
    by (auto simp: lookup_registration_lfind dest: lfind_SomeD)
  obtain s' where "unregister_and_clean reg s = Some s'" "pr_inv (hs_lu s')"
    using unregister_and_clean_inv [OF assms reg] by blast
  then show ?thesis
    using assms Some by (auto simp: spc_pr_register_def Let_def intro!: pr_inv_upd_reg)
qed

lemma lookup_reg_mem:
  "lookup_registration_by_nexus lu k = Some reg \<Longrightarrow> reg \<in> set (registration_list lu) \<and> reg_id reg = k"
  by (auto simp: lookup_registration_lfind dest: lfind_SomeD)

lemma pr_inv_take_over:
  assumes "pr_inv lu" "reg \<in> set (registration_list lu)" "reg_id reg = k"
    and "\<And>r. reg_id (f r) = reg_id r" "\<And>r. reg_key (f r) = reg_key r"
  shows "pr_inv ((upd_reg k f lu)\<lparr>pr_holder := Some k\<rparr>)"
  using assms by (intro pr_inv_set_holder pr_inv_upd_reg) (auto simp: registration_ids_upd_reg)

lemma spc_pr_reserve_ok:
  assumes "pr_inv (hs_lu s)"
  shows "pr_ok (spc_pr_reserve s)"
proof (cases "pr_holder (hs_lu s)")
  case None
  then show ?thesis
    using assms
    by (auto simp: spc_pr_reserve_def Let_def dest!: lookup_reg_mem intro: pr_inv_take_over split: option.splits)
next
  case (Some k)
  from assms Some obtain h where "holder_reg (hs_lu s) = Some h"
    by (rule pr_inv_holder)
  then show ?thesis
    using assms Some by (auto simp: spc_pr_reserve_def is_pr_holder_def Let_def split: option.splits)
qed

lemma spc_pr_release_ok:
  assumes "pr_inv (hs_lu s)"
  shows "pr_ok (spc_pr_release s)"
proof (cases "pr_holder (hs_lu s)")
  case None
  then show ?thesis
    using assms by (auto simp: spc_pr_release_def Let_def split: option.splits)
next
  case (Some k)
  from assms Some obtain h where "holder_reg (hs_lu s) = Some h"
    by (rule pr_inv_holder)
  then show ?thesis
    using assms Some
    by (auto simp: spc_pr_release_def is_pr_holder_def Let_def intro!: pr_inv_upd_reg pr_inv_no_holder split: option.splits)
qed

lemma spc_pr_clear_ok:
  assumes "pr_inv (hs_lu s)"
  shows "pr_ok (spc_pr_clear s)"
proof -
  have "\<not> (pr_holder (hs_lu s) \<noteq> None \<and> holder_reg (hs_lu s) = None)"
    using assms by (auto elim: pr_inv_holder)
  then show ?thesis
    using assms by (auto simp: spc_pr_clear_def Let_def pr_inv_def split: option.splits)
qed

subsection \<open>PREEMPT\<close>

text \<open>
  The one case the code does not handle: an all-registrants reservation whose
  holder is not the caller and carries the key to preempt.
\<close>

definition preempts_allreg_holder :: "hst \<Rightarrow> bool" where
  "preempts_allreg_holder s =
     (let sa_res_key = get_unaligned_be64 (scsi_get_out_buffer (hs_cmd s)) 8 in
      case holder_reg (hs_lu s) of
        None \<Rightarrow> False
      | Some h \<Rightarrow> all_registrants (reg_pr_type h) \<and> reg_key h = sa_res_key \<and> sa_res_key \<noteq> 0 \<and>
                  reg_id h \<noteq> cmd_nexus (hs_cmd s))"

definition preempt_victim :: "registration \<Rightarrow> u64 \<Rightarrow> bool \<Rightarrow> registration \<Rightarrow> bool" where
  "preempt_victim reg sa_res_key all r \<longleftrightarrow> reg_id r \<noteq> reg_id reg \<and> (reg_key r = sa_res_key \<or> all)"

lemma preempt_fold_regs:
  assumes "distinct (map reg_id regs)"
  shows "registration_list (hs_lu (fold (\<lambda>sibling s.
         if reg_id sibling = reg_id reg then s
         else if reg_key sibling = sa \<or> all then
           s\<lparr>hs_itns := ua_sense_add_it_nexus (reg_nexus_id sibling) (hs_lu s) ASC_RESERVATIONS_PREEMPTED (hs_itns s),
             hs_lu := unregister (reg_id sibling) (hs_lu s)\<rparr>
         else if rel then
           s\<lparr>hs_itns := ua_sense_add_it_nexus (reg_nexus_id sibling) (hs_lu s) ASC_RESERVATIONS_RELEASED (hs_itns s)\<rparr>
         else s) regs s)) =
     filter (\<lambda>r. reg_id r \<notin> reg_id ` {x \<in> set regs. preempt_victim reg sa all x}) (registration_list (hs_lu s))"
    (is "registration_list (hs_lu (fold ?f regs s)) = _")
proof (induction regs arbitrary: s)
  case (Cons x xs)
  have step: "registration_list (hs_lu (?f x s)) =
      (if preempt_victim reg sa all x then lremove reg_id (reg_id x) (registration_list (hs_lu s))
       else registration_list (hs_lu s))"
    by (auto simp: preempt_victim_def)
  show ?case
    unfolding fold.simps comp_def Cons.IH step
    by (auto simp: lremove_def intro!: filter_cong)
qed simp

lemma preempt_loop_regs:
  assumes "distinct (map reg_id (registration_list (hs_lu s)))"
  shows "registration_list (hs_lu (preempt_loop reg sa all rel s)) =
     filter (\<lambda>r. \<not> preempt_victim reg sa all r) (registration_list (hs_lu s))"
proof -
  have "reg_id r \<in> reg_id ` {x \<in> set regs. preempt_victim reg sa all x} \<longleftrightarrow> preempt_victim reg sa all r"
    if "r \<in> set regs" "regs = registration_list (hs_lu s)" for r regs
    using assms that by (auto simp: distinct_map inj_on_eq_iff)
  then show ?thesis
    unfolding preempt_loop_def preempt_fold_regs [OF assms] by (auto intro!: filter_cong)
qed

lemma preempt_loop_holder [simp]:
  "pr_holder (hs_lu (preempt_loop reg sa all rel s)) = pr_holder (hs_lu s)"
proof -
  have "pr_holder (hs_lu (fold f regs s)) = pr_holder (hs_lu s)"
    if "\<And>x s. pr_holder (hs_lu (f x s)) = pr_holder (hs_lu s)" for f :: "registration \<Rightarrow> hst \<Rightarrow> hst" and regs s
    by (induction regs arbitrary: s) (simp_all add: that)
  then show ?thesis
    by (simp add: preempt_loop_def)
qed

lemma preempt_loop_inv:
  assumes "pr_inv (hs_lu s)"
    and "\<And>k. pr_holder (hs_lu s) = Some k \<Longrightarrow>
           \<exists>h\<in>set (registration_list (hs_lu s)). reg_id h = k \<and> \<not> preempt_victim reg sa all h"
  shows "pr_inv (hs_lu (preempt_loop reg sa all rel s))"
proof -
  have d: "distinct (map reg_id (registration_list (hs_lu s)))"
    using assms(1) by (simp add: pr_inv_def)
  then have "distinct (map reg_id (filter P (registration_list (hs_lu s))))" for P
    by (auto simp: distinct_map intro: inj_on_subset)
  moreover have "set_option (pr_holder (hs_lu s)) \<subseteq>
      reg_id ` set (filter (\<lambda>r. \<not> preempt_victim reg sa all r) (registration_list (hs_lu s)))"
  proof
    fix k assume "k \<in> set_option (pr_holder (hs_lu s))"
    then obtain h where "h \<in> set (registration_list (hs_lu s))" "reg_id h = k" "\<not> preempt_victim reg sa all h"
      using assms(2) [of k] by auto
    then show "k \<in> reg_id ` set (filter (\<lambda>r. \<not> preempt_victim reg sa all r) (registration_list (hs_lu s)))"
      by auto
  qed
  ultimately show ?thesis
    using assms(1) by (auto simp: pr_inv_def preempt_loop_regs [OF d] list_all_iff)
qed

lemma upd_reg_not_victim:
  assumes "reg \<in> set (registration_list lu)" "\<And>r. reg_id (f r) = reg_id r"
  shows "\<exists>h\<in>set (registration_list (upd_reg (reg_id reg) f lu)).
           reg_id h = reg_id reg \<and> \<not> preempt_victim reg sa all h"
  using assms by (auto simp: upd_reg_def set_lupdate preempt_victim_def image_iff)

lemma spc_pr_preempt_ok:
  assumes inv: "pr_inv (hs_lu s)" and safe: "\<not> preempts_allreg_holder s"
  shows "pr_ok (spc_pr_preempt s)"
proof (cases "lookup_registration_by_nexus (hs_lu s) (cmd_nexus (hs_cmd s))")
  case None
  then show ?thesis
    using inv by (simp add: spc_pr_preempt_def Let_def)
next
  case (Some reg)
  then have reg: "reg \<in> set (registration_list (hs_lu s))" "reg_id reg = cmd_nexus (hs_cmd s)"
    using lookup_reg_mem [OF Some] by simp_all
  let ?sa = "get_unaligned_be64 (scsi_get_out_buffer (hs_cmd s)) 8"
  have over: "pr_inv (hs_lu (preempt_loop reg ?sa all rel (s\<lparr>hs_lu :=
      (upd_reg (reg_id reg) (\<lambda>r. r\<lparr>reg_pr_type := t, reg_pr_scope := x\<rparr>) (hs_lu s))\<lparr>pr_holder := Some (reg_id reg)\<rparr>\<rparr>)))"
    for all rel t x
    using inv reg(1) upd_reg_not_victim [OF reg(1), of "\<lambda>r. r\<lparr>reg_pr_type := t, reg_pr_scope := x\<rparr>"]
    by (intro preempt_loop_inv) (auto intro: pr_inv_take_over)
  have keep: "pr_inv (hs_lu (preempt_loop reg ?sa False rel s))"
    if "\<And>h. holder_reg (hs_lu s) = Some h \<Longrightarrow> reg_id h = reg_id reg \<or> reg_key h \<noteq> ?sa" for rel
  proof (rule preempt_loop_inv [OF inv])
    fix k assume "pr_holder (hs_lu s) = Some k"
    with inv obtain h where "holder_reg (hs_lu s) = Some h" "h \<in> set (registration_list (hs_lu s))" "reg_id h = k"
      by (rule pr_inv_holder)
    then show "\<exists>h\<in>set (registration_list (hs_lu s)). reg_id h = k \<and> \<not> preempt_victim reg ?sa False h"
      using that by (auto simp: preempt_victim_def)
  qed
  show ?thesis
  proof (cases "pr_holder (hs_lu s)")
    case None
    then have "holder_reg (hs_lu s) = None"
      by (simp add: holder_reg_def)
    then show ?thesis
      using inv Some None keep by (simp add: spc_pr_preempt_def Let_def)
  next
    case (Some k)
    from inv Some obtain h where h: "holder_reg (hs_lu s) = Some h"
      by (rule pr_inv_holder)
    then show ?thesis
      using inv safe over keep \<open>lookup_registration_by_nexus _ _ = _\<close> Some reg(2)
      by (auto simp: spc_pr_preempt_def preempts_allreg_holder_def Let_def)
  qed
qed

subsection \<open>REGISTER AND MOVE\<close>

text \<open>
  The cases the code handles: there is a reservation, and the caller does not
  unregister the registration it moves the reservation to.
\<close>

definition moves_safely :: "hst \<Rightarrow> bool" where
  "moves_safely s =
     (let buf = scsi_get_out_buffer (hs_cmd s) in
      pr_holder (hs_lu s) \<noteq> None \<and>
      (byte_at buf 17 AND 0x02 \<noteq> 0 \<longrightarrow>
        (case lfind reg_key (get_unaligned_be64 buf 8) (registration_list (hs_lu s)) of
           None \<Rightarrow> True | Some dst \<Rightarrow> reg_id dst \<noteq> cmd_nexus (hs_cmd s))))"

lemma spc_pr_register_and_move_ok:
  assumes inv: "pr_inv (hs_lu s)" and safe: "moves_safely s"
  shows "pr_ok (spc_pr_register_and_move transportid s)"
proof -
  let ?lu = "hs_lu s"
  let ?sa = "get_unaligned_be64 (scsi_get_out_buffer (hs_cmd s)) 8"
  from safe obtain k where "pr_holder ?lu = Some k"
    by (auto simp: moves_safely_def Let_def)
  with inv obtain h where h: "holder_reg ?lu = Some h"
    by (rule pr_inv_holder)
  have moved: "pr_inv (?lu\<lparr>pr_holder := Some (reg_id dst)\<rparr>)"
    if "lfind reg_key ?sa (registration_list ?lu) = Some dst" for dst
    using inv that by (auto intro!: pr_inv_set_holder dest: lfind_SomeD)
  have moved_unreg: "pr_inv (unregister j (?lu\<lparr>pr_holder := Some (reg_id dst)\<rparr>))"
    if "lfind reg_key ?sa (registration_list ?lu) = Some dst" "reg_id dst \<noteq> j" for dst j
    using moved [OF that(1)] that(2) by (intro pr_inv_unregister) auto
  show ?thesis
  proof (cases "lookup_registration_by_nexus ?lu (cmd_nexus (hs_cmd s))")
    case None
    then show ?thesis
      using inv by (simp add: spc_pr_register_and_move_def Let_def)
  next
    case (Some reg)
    then have "reg_id reg = cmd_nexus (hs_cmd s)"
      using lookup_reg_mem by blast
    then show ?thesis
      using inv safe h Some moved moved_unreg
      by (auto simp: spc_pr_register_and_move_def is_pr_holder_def moves_safely_def Let_def split: option.splits)
  qed
qed

section \<open>All service actions\<close>

definition pr_out_perform ::
  "bool \<Rightarrow> (int \<Rightarrow> u64 \<Rightarrow> u32 \<times> bytes) option \<Rightarrow> perform_fn \<Rightarrow> hst \<Rightarrow> (int \<times> hst) option" where
  "pr_out_perform mem transportid fn s =
     (case fn of
        Spc_pr_register \<Rightarrow> spc_pr_register mem s
      | Spc_pr_reserve \<Rightarrow> spc_pr_reserve s
      | Spc_pr_release \<Rightarrow> spc_pr_release s
      | Spc_pr_clear \<Rightarrow> spc_pr_clear s
      | Spc_pr_preempt \<Rightarrow> spc_pr_preempt s
      | Spc_pr_register_and_move \<Rightarrow> spc_pr_register_and_move transportid s
      | _ \<Rightarrow> None)"

abbreviation (input) "pr_out_fns \<equiv> {Spc_pr_register, Spc_pr_reserve, Spc_pr_release, Spc_pr_clear,
  Spc_pr_preempt, Spc_pr_register_and_move}"

definition pr_guard :: "perform_fn \<Rightarrow> hst \<Rightarrow> bool" where
  "pr_guard fn s =
     (if fn = Spc_pr_preempt then \<not> preempts_allreg_holder s
      else if fn = Spc_pr_register_and_move then moves_safely s
      else True)"

text \<open>
  Logical units reached from an unregistered one by any sequence of PERSISTENT
  RESERVE OUT commands from any nexus.
\<close>

inductive pr_reach :: "scsi_lu \<Rightarrow> bool" where
  init: "registration_list lu = [] \<Longrightarrow> pr_holder lu = None \<Longrightarrow> pr_reach lu"
| step: "pr_reach (hs_lu s) \<Longrightarrow> fn \<in> pr_out_fns \<Longrightarrow> pr_guard fn s \<Longrightarrow>
         pr_out_perform mem transportid fn s = Some (r, s') \<Longrightarrow> pr_reach (hs_lu s')"

lemma pr_out_perform_ok:
  "pr_inv (hs_lu s) \<Longrightarrow> fn \<in> pr_out_fns \<Longrightarrow> pr_guard fn s \<Longrightarrow> pr_ok (pr_out_perform mem transportid fn s)"
  by (auto simp: pr_out_perform_def pr_guard_def spc_pr_register_ok spc_pr_reserve_ok spc_pr_release_ok
      spc_pr_clear_ok spc_pr_preempt_ok spc_pr_register_and_move_ok)

lemma pr_reach_inv: "pr_reach lu \<Longrightarrow> pr_inv lu"
proof (induction rule: pr_reach.induct)
  case (init lu)
  then show ?case
    by (simp add: pr_inv_def)
next
  case (step s fn mem transportid r s')
  then show ?case
    using pr_out_perform_ok [of s fn mem transportid] by simp
qed

lemma pr_access_total:
  assumes "pr_inv lu"
  shows "\<exists>c. spc_access_check lu cmd = Some c"
proof (cases "pr_holder lu")
  case (Some k)
  from assms Some obtain h where "holder_reg lu = Some h"
    by (rule pr_inv_holder)
  then show ?thesis
    using Some by (auto simp: spc_access_check_def is_pr_holder_def Let_def split: option.splits)
qed (simp add: spc_access_check_def)

section \<open>READ KEYS\<close>

definition reg_keys_bytes :: "registration list \<Rightarrow> bytes" where
  "reg_keys_bytes regs = concat (map (\<lambda>r. be64_bytes (reg_key r)) regs)"

lemma length_reg_keys_bytes [simp]: "length (reg_keys_bytes regs) = 8 * length regs"
  by (induction regs) (simp_all add: reg_keys_bytes_def)

lemma read_keys_loop_eq:
  assumes "unat actual + unat remain \<le> length buf" "length buf < 2 ^ 32"
  shows "read_keys_loop regs buf actual avail remain =
     Some (put_bytes buf (unat actual) (take (unat remain) (reg_keys_bytes regs)),
           actual + of_nat (min (unat remain) (8 * length regs)),
           avail + of_nat (8 * length regs))"
  using assms
proof (induction regs arbitrary: buf actual avail remain)
  case (Cons r regs)
  let ?n = "min remain 8"
  have n: "unat ?n = min (unat remain) 8"
    by (simp add: min_def word_le_nat_alt)
  have cp: "spc_memcpy buf (unat actual) remain (be64_bytes (reg_key r)) 8 =
      Some (put_bytes buf (unat actual) (take (unat ?n) (be64_bytes (reg_key r))), remain - ?n, ?n)"
    using Cons.prems by (intro spc_memcpy_eq) (simp add: n)
  have rem: "unat (remain - ?n) = unat remain - unat ?n"
    by (intro unat_sub) (auto simp: min_def)
  have act: "unat (actual + ?n) = unat actual + unat ?n"
    using Cons.prems by (intro unat_add_lem [THEN iffD1]) (simp add: n)
  let ?b = "put_bytes buf (unat actual) (take (unat ?n) (be64_bytes (reg_key r)))"
  have len: "length ?b = length buf"
    using Cons.prems by (simp add: n)
  have "read_keys_loop (r # regs) buf actual avail remain =
      read_keys_loop regs ?b (actual + ?n) (avail + 8) (remain - ?n)"
    by (simp add: cp)
  also have "\<dots> = Some (put_bytes ?b (unat (actual + ?n)) (take (unat (remain - ?n)) (reg_keys_bytes regs)),
      actual + ?n + of_nat (min (unat (remain - ?n)) (8 * length regs)), avail + 8 + of_nat (8 * length regs))"
    using Cons.prems by (intro Cons.IH) (simp_all add: len act rem n)
  also have "put_bytes ?b (unat (actual + ?n)) (take (unat (remain - ?n)) (reg_keys_bytes regs)) =
      put_bytes buf (unat actual) (take (unat remain) (reg_keys_bytes (r # regs)))"
  proof (cases "8 \<le> unat remain")
    case True
    then show ?thesis
      using Cons.prems put_bytes_append [of "unat actual" "be64_bytes (reg_key r)"
          "take (unat remain - 8) (reg_keys_bytes regs)" buf]
      unfolding act rem n by (simp add: reg_keys_bytes_def)
  next
    case False
    then show ?thesis
      unfolding act rem n by (simp add: reg_keys_bytes_def)
  qed
  also have "actual + ?n + of_nat (min (unat (remain - ?n)) (8 * length regs)) =
      actual + of_nat (min (unat remain) (8 * length (r # regs)))"
  proof -
    have of_n: "of_nat (min (unat remain) 8) = ?n"
      unfolding n [symmetric] by simp
    have "actual + ?n + of_nat (min (unat (remain - ?n)) (8 * length regs)) =
        actual + of_nat (min (unat remain) 8 + min (unat remain - min (unat remain) 8) (8 * length regs))"
      unfolding of_nat_add of_n by (simp add: rem n)
    also have "min (unat remain) 8 + min (unat remain - min (unat remain) 8) (8 * length regs) =
        min (unat remain) (8 * length (r # regs))"
      by auto
    finally show ?thesis .
  qed
  finally show ?case
    by (simp add: algebra_simps)
qed (simp add: reg_keys_bytes_def)

lemma get_be64_bytes: "get_unaligned_be64 (be64_bytes v) 0 = v"
  using be64.get_put [of 0 "replicate 8 0" v] by (simp add: put_unaligned_be64_def put_bytes_def)

lemma nth_reg_keys_bytes:
  "i < length regs \<Longrightarrow> j < 8 \<Longrightarrow> reg_keys_bytes regs ! (8 * i + j) = be64_bytes (reg_key (regs ! i)) ! j"
proof (induction regs arbitrary: i)
  case (Cons r regs)
  then show ?case
    by (cases i) (auto simp: reg_keys_bytes_def nth_append)
qed simp

lemma get_be64_reg_keys:
  assumes "i < length regs" "8 * i + 8 \<le> n" "m + length (take n (reg_keys_bytes regs)) \<le> length b"
  shows "get_unaligned_be64 (put_bytes b m (take n (reg_keys_bytes regs))) (m + 8 * i) = reg_key (regs ! i)"
proof -
  have idx: "8 * i + j < min n (8 * length regs)" if "j < 8" for j
    using assms(1,2) that by (auto simp: min_def)
  have "get_unaligned_be64 (put_bytes b m (take n (reg_keys_bytes regs))) (m + 8 * i) =
      get_unaligned_be64 (be64_bytes (reg_key (regs ! i))) 0"
  proof (rule be64.get_local)
    fix j :: nat assume "j < 8"
    then show "byte_at (put_bytes b m (take n (reg_keys_bytes regs))) (m + 8 * i + j) =
        byte_at (be64_bytes (reg_key (regs ! i))) (0 + j)"
      using idx [of j] assms(1,3) byte_at_nth [of j "be64_bytes (reg_key (regs ! i))"]
      by (simp add: byte_at_put_bytes nth_reg_keys_bytes add.assoc)
  qed
  then show ?thesis
    by (simp add: get_be64_bytes)
qed

lemma read_keys_result:
  fixes s :: hst
  defines "al \<equiv> pr_in_alloc_len (hs_cmd s)" and "regs \<equiv> registration_list (hs_lu s)"
    and "B \<equiv> scsi_get_in_buffer (hs_cmd s)"
  assumes len: "8 \<le> al" "al \<le> scsi_get_in_length (hs_cmd s)" "unat (scsi_get_in_length (hs_cmd s)) \<le> length B"
    and small: "length B < 2 ^ 32"
  shows "spc_pr_read_keys s = Some (SAM_STAT_GOOD,
     upd_cmd (scsi_set_in_resid_by_actual (8 + of_nat (min (unat al - 8) (8 * length regs))) \<circ>
       set_in_buffer (put_unaligned_be32 (of_nat (8 * length regs))
         (put_bytes (put_unaligned_be32 (prgeneration (hs_lu s)) B 0) 8
            (take (unat al - 8) (reg_keys_bytes regs))) 4)) s)"
proof -
  have bad: "\<not> pr_in_bad_alloc (hs_cmd s)"
    using len by (auto simp: pr_in_bad_alloc_def al_def)
  have al: "unat (al - 8) = unat al - 8" "8 \<le> unat al" "unat al \<le> length B"
    using len by (auto simp: word_le_nat_alt unat_sub)
  let ?b0 = "put_bytes B 0 (be32_bytes (prgeneration (hs_lu s)))"
  have w0: "write_at B 0 (be32_bytes (prgeneration (hs_lu s))) = Some ?b0"
    using al by (intro write_at_Some) simp
  have loop: "read_keys_loop regs ?b0 8 8 (al - 8) =
      Some (put_bytes ?b0 8 (take (unat al - 8) (reg_keys_bytes regs)),
            8 + of_nat (min (unat al - 8) (8 * length regs)), 8 + of_nat (8 * length regs))"
    using al small read_keys_loop_eq [of 8 "al - 8" ?b0 regs 8] by simp
  let ?b1 = "put_bytes ?b0 8 (take (unat al - 8) (reg_keys_bytes regs))"
  have "length ?b1 = length B"
    using al by simp
  then have w2: "write_at ?b1 4 (be32_bytes v) = Some (put_bytes ?b1 4 (be32_bytes v))" for v
    using al by (intro write_at_Some) simp
  show ?thesis
    using bad w0 loop w2
    by (simp add: spc_pr_read_keys_def Let_def put_unaligned_be32_def flip: al_def regs_def B_def)
qed

end
