(* ===== verification/Spc_Pr_Thms.thy ===== *)
theory Spc_Pr_Thms
  imports Spc_Pr
begin

text \<open>
  What the persistent reservation commands guarantee, and the cases where the
  code falls short of SPC.
\<close>

unbundle bit_operations_syntax

section \<open>Concrete states\<close>

definition ex_reg :: "u64 \<Rightarrow> u64 \<Rightarrow> u8 \<Rightarrow> registration" where
  "ex_reg n k t = \<lparr>reg_key = k, reg_nexus_id = n, reg_ctime = 7, reg_pr_scope = 0, reg_pr_type = t\<rparr>"

definition ex_itn :: "u64 \<Rightarrow> it_nexus" where
  "ex_itn n = \<lparr>itn_id = n, itn_ctime = 7, itn_cmd_list = [], itn_host_no = 0,
     itn_itl_info_list = [\<lparr>itl_lu = 0, itl_itn_id = n, itl_stat = blank_stat,
        pending_ua_sense_list = [], itl_prevent = 0\<rparr>], itn_info = []\<rparr>"

text \<open>A PERSISTENT RESERVE OUT command of nexus \<open>n\<close> with the given service action, scope/type byte and keys.\<close>

definition ex_pr_out :: "u64 \<Rightarrow> u8 \<Rightarrow> u8 \<Rightarrow> u64 \<Rightarrow> u64 \<Rightarrow> scsi_cmd" where
  "ex_pr_out n sa t k sk = blank_cmd\<lparr>cmd_itn_id := n, c_itn_ctime := 7,
     scb := [PERSISTENT_RESERVE_OUT, sa, t, 0, 0, 0, 0, 0, 24, 0],
     out_sdb := \<lparr>sdb_buffer = be64_bytes k @ be64_bytes sk @ replicate 8 0, sdb_length = 24,
       sdb_transfer_len = 0, sdb_resid = 0\<rparr>\<rparr>"

definition ex_hst :: "registration list \<Rightarrow> nexus_key option \<Rightarrow> scsi_cmd \<Rightarrow> hst" where
  "ex_hst regs h cmd = blank_hst\<lparr>hs_cmd := cmd,
     hs_lu := (blank_lu 0)\<lparr>registration_list := regs, pr_holder := h\<rparr>,
     hs_itns := [ex_itn 1, ex_itn 2, ex_itn 3]\<rparr>"

definition ex_two :: "u8 \<Rightarrow> scsi_cmd \<Rightarrow> hst" where
  "ex_two t cmd = ex_hst [ex_reg 1 5 t, ex_reg 2 6 0] (Some (1, 7)) cmd"

lemma ex_hst_sel [simp]:
  "hs_cmd (ex_hst regs h cmd) = cmd" "registration_list (hs_lu (ex_hst regs h cmd)) = regs"
  "pr_holder (hs_lu (ex_hst regs h cmd)) = h" "hs_itns (ex_hst regs h cmd) = [ex_itn 1, ex_itn 2, ex_itn 3]"
  "lun (hs_lu (ex_hst regs h cmd)) = 0"
  by (simp_all add: ex_hst_def blank_lu_def)

lemma ex_reg_sel [simp]:
  "reg_key (ex_reg n k t) = k" "reg_id (ex_reg n k t) = (n, 7)" "reg_nexus_id (ex_reg n k t) = n"
  "reg_pr_type (ex_reg n k t) = t" "reg_pr_scope (ex_reg n k t) = 0"
  by (simp_all add: ex_reg_def reg_id_def)

lemma ex_pr_out_sel [simp]:
  "cmd_itn_id (ex_pr_out n sa t k sk) = n" "c_itn_ctime (ex_pr_out n sa t k sk) = 7"
  "scb (ex_pr_out n sa t k sk) = [PERSISTENT_RESERVE_OUT, sa, t, 0, 0, 0, 0, 0, 24, 0]"
  "scsi_get_out_buffer (ex_pr_out n sa t k sk) = be64_bytes k @ be64_bytes sk @ replicate 8 0"
  "scsi_get_out_length (ex_pr_out n sa t k sk) = 24"
  by (simp_all add: ex_pr_out_def)

lemma ex_two_sel [simp]:
  "hs_cmd (ex_two t cmd) = cmd" "registration_list (hs_lu (ex_two t cmd)) = [ex_reg 1 5 t, ex_reg 2 6 0]"
  "pr_holder (hs_lu (ex_two t cmd)) = Some (1, 7)" "holder_reg (hs_lu (ex_two t cmd)) = Some (ex_reg 1 5 t)"
  "hs_itns (ex_two t cmd) = [ex_itn 1, ex_itn 2, ex_itn 3]"
  by (simp_all add: ex_two_def holder_reg_def)

lemma ex_keys [simp]:
  "get_unaligned_be64 (be64_bytes k @ bs) 0 = k"
  "get_unaligned_be64 (be64_bytes j @ be64_bytes k @ bs) 8 = k"
  using be64.get_put [of 0 "replicate 8 0 @ bs" k] be64.get_put [of 8 "be64_bytes j @ replicate 8 0 @ bs" k]
  by (simp_all add: put_unaligned_be64_def put_bytes_def)

lemma ex_param [simp]: "\<not> check_pr_out_basic_parameter (ex_pr_out n sa t k sk)"
  by (simp add: check_pr_out_basic_parameter_def get_unaligned_be32_def byte_at_append)

section \<open>No bad pointer is followed\<close>

text \<open>
  C19. From an unregistered unit, through any sequence of PERSISTENT RESERVE OUT
  commands of any nexuses (outside the two unsafe cases), every further command
  returns, leaves at most one registration per nexus, each with a non-zero key,
  and the holder pointer null or on one of the registrations; and the access
  check of any command never follows a bad pointer.
\<close>

theorem pr_reach_safe:
  assumes "pr_reach (hs_lu s)" "fn \<in> pr_out_fns" "pr_guard fn s"
  shows "(\<exists>r s'. pr_out_perform mem transportid fn s = Some (r, s') \<and> pr_inv (hs_lu s'))
    \<and> (\<exists>c. spc_access_check (hs_lu s) cmd = Some c)"
proof -
  have inv: "pr_inv (hs_lu s)"
    using assms(1) by (rule pr_reach_inv)
  then have "pr_ok (pr_out_perform mem transportid fn s)"
    using assms(2,3) by (rule pr_out_perform_ok)
  then show ?thesis
    using pr_access_total [OF inv] by (auto simp: pr_ok_def split: option.splits)
qed

theorem pr_reach_safe_witness:
  "(\<exists>r s'. pr_out_perform True None Spc_pr_register (ex_hst [] None (ex_pr_out 1 0 0 0 5)) = Some (r, s')
      \<and> pr_inv (hs_lu s'))
   \<and> (\<exists>c. spc_access_check (hs_lu (ex_hst [] None (ex_pr_out 1 0 0 0 5))) blank_cmd = Some c)"
  by (rule pr_reach_safe) (simp_all add: pr_guard_def ex_hst_def pr_reach.init)

section \<open>Exclusion\<close>

lemma holder_regD: "holder_reg lu = Some h \<Longrightarrow> pr_holder lu = Some (reg_id h)"
  by (auto simp: holder_reg_def bind_eq_Some_conv dest: lfind_SomeD)

text \<open>
  Commands SPC accepts: a parameter list of 24 bytes that is there, without the bits
  SPEC\_I\_PT, ALL\_TG\_PT and APTPL; a RESERVE also has one of the six types and the scope of a unit.
\<close>

definition pr_out_wellformed :: "scsi_cmd \<Rightarrow> bool" where
  "pr_out_wellformed cmd \<longleftrightarrow> get_unaligned_be32 (scb cmd) 5 = 24 \<and> 24 \<le> scsi_get_out_length cmd
     \<and> (\<forall>b \<in> {0, 2, 3}. \<not> bit (byte_at (scsi_get_out_buffer cmd) 20) b)"

definition pr_reserve_wellformed :: "scsi_cmd \<Rightarrow> bool" where
  "pr_reserve_wellformed cmd \<longleftrightarrow> pr_out_wellformed cmd
     \<and> unat (byte_at (scb cmd) 2) \<in> {1, 3, 5, 6, 7, 8}"

lemma bit_masks: "x AND 8 = 0 \<longleftrightarrow> \<not> bit x 3" "x AND 4 = 0 \<longleftrightarrow> \<not> bit x 2" "x AND 1 = 0 \<longleftrightarrow> \<not> bit x 0" for x :: u8
  using and_exp_eq_0_iff_not_bit [of x 3] and_exp_eq_0_iff_not_bit [of x 2] and_exp_eq_0_iff_not_bit [of x 0] by simp_all

lemma basic_parameter_wellformed: "check_pr_out_basic_parameter cmd \<longleftrightarrow> \<not> pr_out_wellformed cmd"
  by (auto simp: check_pr_out_basic_parameter_def pr_out_wellformed_def Let_def or_eq_0_iff bit_masks)

lemma reserve_scope_type:
  "(x AND 0x0f \<in> pr_types \<and> drop_bit 4 (x AND 0xf0) = PR_LU_SCOPE) \<longleftrightarrow> unat x \<in> {1, 3, 5, 6, 7, 8}" for x :: u8
proof -
  have "x = of_nat (unat x)" "unat x < 256"
    using unsigned_less [of x, where 'a = nat] by simp_all
  moreover have "\<forall>n \<in> set [0..<256]. ((of_nat n :: u8) AND 0x0f \<in> pr_types \<and> drop_bit 4 ((of_nat n :: u8) AND 0xf0) = PR_LU_SCOPE)
      \<longleftrightarrow> n \<in> set [1, 3, 5, 6, 7, 8]"
    by code_simp
  ultimately show ?thesis
    by (metis atLeastLessThan_iff le0 list.set set_upt)
qed

text \<open>
  C25. While one registrant holds a reservation that is not all-registrants, every
  well-formed RESERVE of another nexus, registered or not, ends in RESERVATION CONFLICT and
  changes nothing. A well-formed RELEASE of another nexus changes nothing either: it is GOOD
  for a registrant and a conflict for the others. Malformed ones are refused with INVALID
  FIELD IN CDB, and no others are.
\<close>

theorem pr_reservation_exclusive:
  assumes "holder_reg (hs_lu s) = Some h" "\<not> all_registrants (reg_pr_type h)"
    and "reg_id h \<noteq> cmd_nexus (hs_cmd s)"
  shows "spc_pr_reserve s =
      (if pr_reserve_wellformed (hs_cmd s) then Some (SAM_STAT_RESERVATION_CONFLICT, s) else pr_invalid_field s)
    \<and> spc_pr_release s =
      (if \<not> pr_out_wellformed (hs_cmd s) then pr_invalid_field s
       else if \<exists>r \<in> set (registration_list (hs_lu s)). reg_id r = cmd_nexus (hs_cmd s) then Some (SAM_STAT_GOOD, s)
       else Some (SAM_STAT_RESERVATION_CONFLICT, s))"
proof -
  have "is_pr_holder (hs_lu s) reg = Some False"
    if "lookup_registration_by_nexus (hs_lu s) (cmd_nexus (hs_cmd s)) = Some reg" for reg
    using assms(1-3) holder_regD [OF assms(1)] lookup_reg_mem [OF that] by (auto simp: is_pr_holder_def)
  moreover have "lookup_registration_by_nexus (hs_lu s) (cmd_nexus (hs_cmd s)) = None \<longleftrightarrow>
      \<not> (\<exists>r \<in> set (registration_list (hs_lu s)). reg_id r = cmd_nexus (hs_cmd s))"
    by (auto simp: lookup_registration_by_nexus_def find_None_iff reg_id_def)
  ultimately show ?thesis
    using assms(1) holder_regD [OF assms(1)]
    unfolding pr_reserve_wellformed_def reserve_scope_type [symmetric]
    by (cases "lookup_registration_by_nexus (hs_lu s) (cmd_nexus (hs_cmd s))")
       (simp_all add: spc_pr_reserve_def spc_pr_release_def Let_def basic_parameter_wellformed)
qed

theorem pr_reservation_exclusive_witness:
  "spc_pr_reserve (ex_two PR_TYPE_EXCLUSIVE_ACCESS (ex_pr_out 2 1 3 6 0)) =
     Some (SAM_STAT_RESERVATION_CONFLICT, ex_two PR_TYPE_EXCLUSIVE_ACCESS (ex_pr_out 2 1 3 6 0))"
proof -
  have "pr_reserve_wellformed (ex_pr_out 2 1 3 6 0)"
    using ex_param by (simp add: pr_reserve_wellformed_def basic_parameter_wellformed byte_at_def)
  then show ?thesis
    using pr_reservation_exclusive [of "ex_two PR_TYPE_EXCLUSIVE_ACCESS (ex_pr_out 2 1 3 6 0)" "ex_reg 1 5 PR_TYPE_EXCLUSIVE_ACCESS"]
    by (simp add: all_registrants_def)
qed

section \<open>RESERVE and RELEASE\<close>

lemma lupdate_id: "(\<And>x. x \<in> set xs \<Longrightarrow> key x = k \<Longrightarrow> f x = x) \<Longrightarrow> lupdate key k f xs = xs"
  by (simp add: lupdate_def map_idI)

lemma upd_reg_upd_reg:
  assumes "\<And>r. reg_id (f r) = reg_id r"
  shows "upd_reg k g (upd_reg k f lu) = upd_reg k (\<lambda>r. g (f r)) lu"
proof -
  have "lupdate reg_id k g (lupdate reg_id k f xs) = lupdate reg_id k (\<lambda>r. g (f r)) xs" for xs
    using assms by (induction xs) (auto simp: lupdate_def)
  then show ?thesis
    by (simp add: upd_reg_def)
qed

lemma upd_reg_pr_holder: "upd_reg k f (lu\<lparr>pr_holder := h\<rparr>) = (upd_reg k f lu)\<lparr>pr_holder := h\<rparr>"
  by (simp add: upd_reg_def)

lemma upd_reg_id:
  "(\<And>r. r \<in> set (registration_list lu) \<Longrightarrow> reg_id r = k \<Longrightarrow> f r = r) \<Longrightarrow> upd_reg k f lu = lu"
  by (simp add: upd_reg_def lupdate_id)

lemma lu_no_holder: "pr_holder lu = None \<Longrightarrow> lu\<lparr>pr_holder := None\<rparr> = (lu :: scsi_lu)"
  by (cases lu) simp

lemma pr_inv_unique:
  assumes "pr_inv lu" "x \<in> set (registration_list lu)" "y \<in> set (registration_list lu)" "reg_id x = reg_id y"
  shows "x = y"
proof -
  have "inj_on reg_id (set (registration_list lu))"
    using assms(1) by (simp add: pr_inv_def distinct_map)
  then show ?thesis
    using assms(2-4) by (meson inj_onD)
qed

text \<open>
  A registrant that reserves an unreserved unit becomes its holder with the
  type and scope it asked for, and its RELEASE with the same type, scope and key
  takes the reservation away again and leaves every registration as it was.
\<close>

lemma pr_reserve_release:
  assumes "pr_inv (hs_lu s)" "pr_holder (hs_lu s) = None"
    and "lookup_registration_by_nexus (hs_lu s) (cmd_nexus (hs_cmd s)) = Some reg"
    and "reg_pr_scope reg = 0" "reg_pr_type reg = 0"
    and "\<not> check_pr_out_basic_parameter (hs_cmd s)"
    and "byte_at (scb (hs_cmd s)) 2 \<in> pr_types"
    and "get_unaligned_be64 (scsi_get_out_buffer (hs_cmd s)) 0 = reg_key reg"
  shows "\<exists>s1 s2. spc_pr_reserve s = Some (SAM_STAT_GOOD, s1)
    \<and> pr_holder (hs_lu s1) = Some (reg_id reg)
    \<and> map_option reg_pr_type (holder_reg (hs_lu s1)) = Some (byte_at (scb (hs_cmd s)) 2)
    \<and> spc_pr_release s1 = Some (SAM_STAT_GOOD, s2)
    \<and> hs_lu s2 = hs_lu s"
proof -
  let ?t = "byte_at (scb (hs_cmd s)) 2"
  let ?k = "cmd_nexus (hs_cmd s)"
  let ?set = "\<lambda>r. r\<lparr>reg_pr_scope := 0, reg_pr_type := ?t\<rparr>"
  have t: "?t AND 0x0f = ?t" "drop_bit 4 (?t AND 0xf0) = 0"
    using assms(7) by (auto simp: pr_types_def)
  have reg: "reg \<in> set (registration_list (hs_lu s))" "reg_id reg = ?k"
    using lookup_reg_mem [OF assms(3)] by simp_all
  let ?lu1 = "(upd_reg ?k ?set (hs_lu s))\<lparr>pr_holder := Some ?k\<rparr>"
  have res: "spc_pr_reserve s = Some (SAM_STAT_GOOD, s\<lparr>hs_lu := ?lu1\<rparr>)"
    using assms(2,3,6,7) t reg(2) by (simp add: spc_pr_reserve_def Let_def)
  have look1: "lookup_registration_by_nexus ?lu1 ?k = Some (?set reg)"
    using assms(3) by (simp add: lookup_registration_lfind upd_reg_def lfind_lupdate)
  have hold1: "holder_reg ?lu1 = Some (?set reg)"
    using look1 by (simp add: holder_reg_def lookup_registration_lfind)
  have "upd_reg ?k (\<lambda>r. r\<lparr>reg_pr_scope := 0, reg_pr_type := 0\<rparr>) (hs_lu s) = hs_lu s"
  proof (rule upd_reg_id)
    fix x assume "x \<in> set (registration_list (hs_lu s))" "reg_id x = ?k"
    then have "x = reg"
      using pr_inv_unique [OF assms(1) _ reg(1)] reg(2) by simp
    then show "x\<lparr>reg_pr_scope := 0, reg_pr_type := 0\<rparr> = x"
      using assms(4,5) by simp
  qed
  then have restored: "upd_reg ?k (\<lambda>r. r\<lparr>reg_pr_scope := 0, reg_pr_type := 0\<rparr>) (?lu1\<lparr>pr_holder := None\<rparr>) = hs_lu s"
    using assms(2) by (simp add: upd_reg_pr_holder upd_reg_upd_reg lu_no_holder)
  have "\<exists>s2. spc_pr_release (s\<lparr>hs_lu := ?lu1\<rparr>) = Some (SAM_STAT_GOOD, s2) \<and> hs_lu s2 = hs_lu s"
    using assms(6,8) t look1 hold1 restored reg(2)
    by (simp add: spc_pr_release_def is_pr_holder_def Let_def)
  then show ?thesis
    using res hold1 reg(2) by auto
qed

lemma pr_reserve_release_witness:
  "\<exists>s1 s2. spc_pr_reserve (ex_hst [ex_reg 1 5 0, ex_reg 2 6 0] None (ex_pr_out 1 1 3 5 0)) = Some (SAM_STAT_GOOD, s1)
    \<and> pr_holder (hs_lu s1) = Some (1, 7)
    \<and> map_option reg_pr_type (holder_reg (hs_lu s1)) = Some 3
    \<and> spc_pr_release s1 = Some (SAM_STAT_GOOD, s2)
    \<and> hs_lu s2 = hs_lu (ex_hst [ex_reg 1 5 0, ex_reg 2 6 0] None (ex_pr_out 1 1 3 5 0))"
  using pr_reserve_release
    [of "ex_hst [ex_reg 1 5 0, ex_reg 2 6 0] None (ex_pr_out 1 1 3 5 0)" "ex_reg 1 5 0"]
  by (simp add: pr_inv_def lookup_registration_lfind pr_types_def)

section \<open>CLEAR and PREEMPT\<close>

lemma pending_ascs_fold_add:
  assumes "itns_wf itns" "lun lu = l"
  shows "pending_ascs i l (fold (\<lambda>r itns. if P r then ua_sense_add_it_nexus (reg_nexus_id r) lu asc itns else itns) regs itns) =
     pending_ascs i l itns @
       (if itl_lookup i l itns \<noteq> None
        then replicate (length (filter (\<lambda>r. P r \<and> reg_nexus_id r = i) regs)) asc else [])"
  using assms(1)
proof (induction regs arbitrary: itns)
  case (Cons r regs)
  have wf: "itns_wf (ua_sense_add_it_nexus (reg_nexus_id r) lu asc itns)"
    using Cons.prems by (rule itns_wf_add_one)
  have look: "itl_lookup i l (ua_sense_add_it_nexus (reg_nexus_id r) lu asc itns) \<noteq> None \<longleftrightarrow>
      itl_lookup i l itns \<noteq> None"
    using Cons.prems by (simp add: itl_lookup_add_one)
  show ?case
    using Cons.IH [OF Cons.prems] Cons.IH [OF wf] Cons.prems look assms(2)
    by (auto simp: pending_ascs_add_one)
qed simp

text \<open>
  A CLEAR with the caller's key removes every registration and the
  reservation, advances the generation, and leaves one RESERVATIONS PREEMPTED
  unit attention pending for every other registrant's nexus that is logged in,
  and none for the caller.
\<close>

theorem pr_clear_correct:
  assumes "pr_inv (hs_lu s)" "itns_wf (hs_itns s)"
    and "lookup_registration_by_nexus (hs_lu s) (cmd_nexus (hs_cmd s)) = Some reg"
    and "\<not> check_pr_out_basic_parameter (hs_cmd s)"
    and "get_unaligned_be64 (scsi_get_out_buffer (hs_cmd s)) 0 = reg_key reg"
  shows "\<exists>s'. spc_pr_clear s = Some (SAM_STAT_GOOD, s')
    \<and> registration_list (hs_lu s') = [] \<and> pr_holder (hs_lu s') = None
    \<and> prgeneration (hs_lu s') = prgeneration (hs_lu s) + 1
    \<and> (\<forall>i. itl_lookup i (lun (hs_lu s)) (hs_itns s) \<noteq> None \<longrightarrow>
         pending_ascs i (lun (hs_lu s)) (hs_itns s') =
         pending_ascs i (lun (hs_lu s)) (hs_itns s) @
         replicate (length (filter (\<lambda>r. reg_id r \<noteq> cmd_nexus (hs_cmd s) \<and> reg_nexus_id r = i)
                              (registration_list (hs_lu s)))) ASC_RESERVATIONS_PREEMPTED)"
proof -
  have "\<not> (pr_holder (hs_lu s) \<noteq> None \<and> holder_reg (hs_lu s) = None)"
    using assms(1) by (auto elim: pr_inv_holder)
  moreover have "reg_id reg = cmd_nexus (hs_cmd s)"
    using lookup_reg_mem [OF assms(3)] by simp
  ultimately show ?thesis
    using assms(2-5) by (simp add: spc_pr_clear_def Let_def pending_ascs_fold_add)
qed

theorem pr_clear_correct_witness:
  "\<exists>s'. spc_pr_clear (ex_two PR_TYPE_EXCLUSIVE_ACCESS (ex_pr_out 2 3 0 6 0)) = Some (SAM_STAT_GOOD, s')
    \<and> registration_list (hs_lu s') = [] \<and> pr_holder (hs_lu s') = None"
proof -
  have "itns_wf (hs_itns (ex_two PR_TYPE_EXCLUSIVE_ACCESS (ex_pr_out 2 3 0 6 0)))"
    by (simp add: itns_wf_def ex_itn_def)
  then show ?thesis
    using pr_clear_correct [of "ex_two PR_TYPE_EXCLUSIVE_ACCESS (ex_pr_out 2 3 0 6 0)" "ex_reg 2 6 0"]
    by (auto simp: pr_inv_def lookup_registration_lfind)
qed

lemma preempt_loop_take_over:
  assumes "distinct (map reg_id (registration_list lu))" "reg_id reg = k"
    and "lfind reg_id k (registration_list lu) = Some reg"
    and "\<And>r. reg_id (f r) = reg_id r" "\<And>r. reg_key (f r) = reg_key r"
    and "hs_lu s = (upd_reg k f lu)\<lparr>pr_holder := Some k\<rparr>"
  shows "lfind reg_id k (registration_list (hs_lu (preempt_loop reg sa False rel s))) = Some (f reg)"
    and "map reg_id (registration_list (hs_lu (preempt_loop reg sa False rel s))) =
         map reg_id (filter (\<lambda>r. reg_id r = k \<or> reg_key r \<noteq> sa) (registration_list lu))"
proof -
  have "distinct (map reg_id (registration_list (hs_lu s)))"
    using assms(1,4,6) by (simp add: upd_reg_def map_key_lupdate)
  then have regs: "registration_list (hs_lu (preempt_loop reg sa False rel s)) =
      filter (\<lambda>r. \<not> preempt_victim reg sa False r) (lupdate reg_id k f (registration_list lu))"
    using preempt_loop_regs [of s] assms(6) by (simp add: upd_reg_def)
  have "lfind reg_id k (filter P (lupdate reg_id k f xs)) = Some (f reg)"
    if "lfind reg_id k xs = Some reg" "P (f reg)" for P xs
    using that assms(4) by (induction xs) (auto simp: lupdate_def split: if_splits)
  then show "lfind reg_id k (registration_list (hs_lu (preempt_loop reg sa False rel s))) = Some (f reg)"
    using assms(2-4) by (simp add: regs preempt_victim_def)
  have "map reg_id (filter (\<lambda>r. \<not> preempt_victim reg sa False r) (lupdate reg_id k f xs)) =
      map reg_id (filter (\<lambda>r. reg_id r = k \<or> reg_key r \<noteq> sa) xs)" for xs
    using assms(2,4,5) by (induction xs) (auto simp: lupdate_def preempt_victim_def)
  then show "map reg_id (registration_list (hs_lu (preempt_loop reg sa False rel s))) =
      map reg_id (filter (\<lambda>r. reg_id r = k \<or> reg_key r \<noteq> sa) (registration_list lu))"
    by (simp add: regs)
qed

text \<open>
  C26. A PREEMPT that names the key of a reservation's holder (not
  all-registrants) makes the caller the holder with the new type and scope and
  removes exactly the other registrations with that key.
\<close>

theorem pr_preempt_correct:
  assumes "pr_inv (hs_lu s)"
    and "lookup_registration_by_nexus (hs_lu s) (cmd_nexus (hs_cmd s)) = Some reg"
    and "\<not> check_pr_out_basic_parameter (hs_cmd s)"
    and "get_unaligned_be64 (scsi_get_out_buffer (hs_cmd s)) 0 = reg_key reg"
    and "holder_reg (hs_lu s) = Some h" "\<not> all_registrants (reg_pr_type h)"
    and "get_unaligned_be64 (scsi_get_out_buffer (hs_cmd s)) 8 = reg_key h"
  shows "\<exists>s'. spc_pr_preempt s = Some (SAM_STAT_GOOD, s')
    \<and> pr_holder (hs_lu s') = Some (cmd_nexus (hs_cmd s))
    \<and> map_option (\<lambda>r. (reg_pr_type r, reg_pr_scope r)) (holder_reg (hs_lu s')) =
        Some (byte_at (scb (hs_cmd s)) 2 AND 0x0f, drop_bit 4 (byte_at (scb (hs_cmd s)) 2 AND 0xf0))
    \<and> map reg_id (registration_list (hs_lu s')) =
        map reg_id (filter (\<lambda>r. reg_id r = cmd_nexus (hs_cmd s) \<or> reg_key r \<noteq> reg_key h)
                      (registration_list (hs_lu s)))"
proof -
  let ?k = "cmd_nexus (hs_cmd s)"
  define t where "t = byte_at (scb (hs_cmd s)) 2 AND 0x0f"
  define x where "x = drop_bit 4 (byte_at (scb (hs_cmd s)) 2 AND 0xf0)"
  let ?f = "\<lambda>r. r\<lparr>reg_pr_type := t, reg_pr_scope := x\<rparr>"
  let ?s1 = "s\<lparr>hs_lu := (upd_reg ?k ?f (hs_lu s))\<lparr>pr_holder := Some ?k\<rparr>\<rparr>"
  have reg: "reg \<in> set (registration_list (hs_lu s))" "reg_id reg = ?k"
    using lookup_reg_mem [OF assms(2)] by simp_all
  have h: "h \<in> set (registration_list (hs_lu s))"
    using assms(5) by (auto simp: holder_reg_def bind_eq_Some_conv dest: lfind_SomeD)
  then have nz: "reg_key h \<noteq> 0"
    using assms(1) by (auto simp: pr_inv_def list_all_iff)
  have ex: "\<not> check_registration_key_exists (hs_lu s) (reg_key h)"
    using h by (auto simp: check_registration_key_exists_def list_ex_iff)
  let ?s2 = "preempt_loop reg (reg_key h) False (t \<noteq> reg_pr_type h \<or> x \<noteq> reg_pr_scope h) ?s1"
  have run: "spc_pr_preempt s = Some (SAM_STAT_GOOD, inc_prgeneration ?s2)"
    using assms(2-7) holder_regD [OF assms(5)] nz ex reg(2)
    by (simp only: spc_pr_preempt_def Let_def flip: t_def x_def) simp
  have "distinct (map reg_id (registration_list (hs_lu s)))"
    using assms(1) by (simp add: pr_inv_def)
  note over = preempt_loop_take_over [OF this reg(2), of ?f ?s1 "reg_key h" "t \<noteq> reg_pr_type h \<or> x \<noteq> reg_pr_scope h"]
  have "lfind reg_id ?k (registration_list (hs_lu ?s2)) = Some (?f reg)"
    using assms(2) by (intro over(1)) (simp_all add: lookup_registration_lfind)
  moreover have "map reg_id (registration_list (hs_lu ?s2)) =
      map reg_id (filter (\<lambda>r. reg_id r = ?k \<or> reg_key r \<noteq> reg_key h) (registration_list (hs_lu s)))"
    using assms(2) by (intro over(2)) (simp_all add: lookup_registration_lfind)
  ultimately have "holder_reg (hs_lu ?s2) = Some (?f reg)"
    by (simp add: holder_reg_def)
  then have "holder_reg (hs_lu (inc_prgeneration ?s2)) = Some (?f reg)"
    by (simp add: holder_reg_def)
  with \<open>map reg_id _ = _\<close> show ?thesis
    unfolding t_def [symmetric] x_def [symmetric] using run by simp
qed

theorem pr_preempt_correct_witness:
  "\<exists>s'. spc_pr_preempt (ex_two PR_TYPE_EXCLUSIVE_ACCESS (ex_pr_out 2 4 1 6 5)) = Some (SAM_STAT_GOOD, s')
    \<and> pr_holder (hs_lu s') = Some (2, 7)
    \<and> map reg_id (registration_list (hs_lu s')) = [(2, 7)]"
  using pr_preempt_correct
    [of "ex_two PR_TYPE_EXCLUSIVE_ACCESS (ex_pr_out 2 4 1 6 5)" "ex_reg 2 6 0" "ex_reg 1 5 PR_TYPE_EXCLUSIVE_ACCESS"]
  by (auto simp: pr_inv_def lookup_registration_lfind all_registrants_def)

section \<open>READ KEYS\<close>

text \<open>
  C27. READ KEYS stays inside the data-in buffer for every allocation length the
  command passes, and a buffer that is long enough holds the generation, the
  length of the full list, and the key of every registration in order.
\<close>

theorem read_keys_correct:
  assumes "8 \<le> pr_in_alloc_len (hs_cmd s)" "pr_in_alloc_len (hs_cmd s) \<le> scsi_get_in_length (hs_cmd s)"
    and "unat (scsi_get_in_length (hs_cmd s)) \<le> length (scsi_get_in_buffer (hs_cmd s))"
    and "length (scsi_get_in_buffer (hs_cmd s)) < 2 ^ 32"
  shows "\<exists>s'. spc_pr_read_keys s = Some (SAM_STAT_GOOD, s') \<and>
     hs_lu s' = hs_lu s \<and>
     length (scsi_get_in_buffer (hs_cmd s')) = length (scsi_get_in_buffer (hs_cmd s)) \<and>
     get_unaligned_be32 (scsi_get_in_buffer (hs_cmd s')) 0 = prgeneration (hs_lu s) \<and>
     get_unaligned_be32 (scsi_get_in_buffer (hs_cmd s')) 4 = of_nat (8 * length (registration_list (hs_lu s))) \<and>
     (\<forall>i < length (registration_list (hs_lu s)). 16 + 8 * i \<le> unat (pr_in_alloc_len (hs_cmd s)) \<longrightarrow>
        get_unaligned_be64 (scsi_get_in_buffer (hs_cmd s')) (8 + 8 * i) = reg_key (registration_list (hs_lu s) ! i))"
proof -
  let ?regs = "registration_list (hs_lu s)" and ?B = "scsi_get_in_buffer (hs_cmd s)"
    and ?al = "unat (pr_in_alloc_len (hs_cmd s))"
  have al: "8 \<le> ?al" "?al \<le> length ?B"
    using assms by (auto simp: word_le_nat_alt)
  let ?b0 = "put_unaligned_be32 (prgeneration (hs_lu s)) ?B 0"
  let ?b1 = "put_bytes ?b0 8 (take (?al - 8) (reg_keys_bytes ?regs))"
  let ?b2 = "put_unaligned_be32 (of_nat (8 * length ?regs)) ?b1 4"
  have l0: "length ?b0 = length ?B"
    using al by (intro be32.length_put) simp
  have l1: "length ?b1 = length ?B"
    using al l0 by simp
  have "get_unaligned_be32 ?b2 0 = get_unaligned_be32 ?b1 0"
    using al l1 by (intro be32.get_put_disjoint) auto
  also have "\<dots> = get_unaligned_be32 ?b0 0"
    using al l0 by (intro be32.get_local) (simp add: byte_at_put_bytes)
  also have "\<dots> = prgeneration (hs_lu s)"
    using al by (intro be32.get_put) auto
  finally have gen: "get_unaligned_be32 ?b2 0 = prgeneration (hs_lu s)" .
  have add: "get_unaligned_be32 ?b2 4 = of_nat (8 * length ?regs)"
    using al l1 by (intro be32.get_put) auto
  have keys: "get_unaligned_be64 ?b2 (8 + 8 * i) = reg_key (?regs ! i)"
    if "i < length ?regs" "16 + 8 * i \<le> ?al" for i
  proof -
    have "get_unaligned_be64 ?b2 (8 + 8 * i) = get_unaligned_be64 ?b1 (8 + 8 * i)"
      using al l1 by (intro be64.get_local) (auto intro!: be32.put_other_byte)
    also have "\<dots> = reg_key (?regs ! i)"
      using that al l0 by (intro get_be64_reg_keys) auto
    finally show ?thesis .
  qed
  have "length ?b2 = length ?B"
    using al l1 be32.length_put [of 4 ?b1 "of_nat (8 * length ?regs)"] by simp
  then show ?thesis
    using read_keys_result [OF assms] gen add keys
    by (simp add: set_in_buffer_def scsi_set_in_resid_by_actual_def)
qed

definition ex_read_keys_cmd :: scsi_cmd where
  "ex_read_keys_cmd = blank_cmd\<lparr>scb := [PERSISTENT_RESERVE_IN, 0, 0, 0, 0, 0, 0, 0, 32, 0],
     in_sdb := \<lparr>sdb_buffer = replicate 32 0, sdb_length = 32, sdb_transfer_len = 0, sdb_resid = 0\<rparr>\<rparr>"

theorem read_keys_correct_witness:
  "\<exists>s'. spc_pr_read_keys (ex_two 0 ex_read_keys_cmd) = Some (SAM_STAT_GOOD, s') \<and>
     get_unaligned_be64 (scsi_get_in_buffer (hs_cmd s')) 8 = 5 \<and>
     get_unaligned_be64 (scsi_get_in_buffer (hs_cmd s')) 16 = 6"
proof -
  have cmd: "pr_in_alloc_len ex_read_keys_cmd = 32" "scsi_get_in_length ex_read_keys_cmd = 32"
    "length (scsi_get_in_buffer ex_read_keys_cmd) = 32"
    by (simp_all add: ex_read_keys_cmd_def pr_in_alloc_len_def get_unaligned_be16_def)
  obtain s' where s': "spc_pr_read_keys (ex_two 0 ex_read_keys_cmd) = Some (SAM_STAT_GOOD, s')"
    and keys: "\<And>i. i < 2 \<Longrightarrow> 16 + 8 * i \<le> 32 \<Longrightarrow>
      get_unaligned_be64 (scsi_get_in_buffer (hs_cmd s')) (8 + 8 * i) = reg_key ([ex_reg 1 5 0, ex_reg 2 6 0] ! i)"
    using read_keys_correct [of "ex_two 0 ex_read_keys_cmd"] by (auto simp: cmd)
  show ?thesis
    using s' keys [of 0] keys [of 1] by simp
qed

section \<open>Where the code falls short\<close>

lemma dangling_access_check:
  "pr_holder lu \<noteq> None \<Longrightarrow> holder_reg lu = None \<Longrightarrow> spc_access_check lu cmd = None"
  by (auto simp: spc_access_check_def is_pr_holder_def Let_def split: option.splits)

text \<open>
  C29. A PREEMPT that names the key of the registration holding an
  all-registrants reservation frees that registration and leaves the unit's
  holder pointer on it: the access check of every later command follows the
  dangling pointer.
\<close>

theorem pr_preempt_allreg_dangling:
  assumes "pr_inv (hs_lu s)" "preempts_allreg_holder s"
    and "lookup_registration_by_nexus (hs_lu s) (cmd_nexus (hs_cmd s)) = Some reg"
    and "\<not> check_pr_out_basic_parameter (hs_cmd s)"
    and "get_unaligned_be64 (scsi_get_out_buffer (hs_cmd s)) 0 = reg_key reg"
  shows "\<exists>s'. spc_pr_preempt s = Some (SAM_STAT_GOOD, s') \<and> pr_holder (hs_lu s') \<noteq> None
    \<and> holder_reg (hs_lu s') = None \<and> (\<forall>cmd. spc_access_check (hs_lu s') cmd = None)"
proof -
  let ?sa = "get_unaligned_be64 (scsi_get_out_buffer (hs_cmd s)) 8"
  from assms(2) obtain h where h: "holder_reg (hs_lu s) = Some h" "all_registrants (reg_pr_type h)"
    "reg_key h = ?sa" "?sa \<noteq> 0" "reg_id h \<noteq> cmd_nexus (hs_cmd s)"
    by (auto simp: preempts_allreg_holder_def Let_def split: option.splits)
  have mem: "h \<in> set (registration_list (hs_lu s))" "pr_holder (hs_lu s) = Some (reg_id h)"
    using h(1) by (auto simp: holder_reg_def bind_eq_Some_conv dest: lfind_SomeD)
  have reg: "reg_id reg = cmd_nexus (hs_cmd s)"
    using lookup_reg_mem [OF assms(3)] by simp
  let ?s1 = "preempt_loop reg ?sa False False s"
  have run: "spc_pr_preempt s = Some (SAM_STAT_GOOD, inc_prgeneration ?s1)"
    using assms(3-5) h mem
    by (auto simp: spc_pr_preempt_def check_registration_key_exists_def list_ex_iff Let_def)
  have "distinct (map reg_id (registration_list (hs_lu s)))"
    using assms(1) by (simp add: pr_inv_def)
  then have "registration_list (hs_lu ?s1) =
      filter (\<lambda>r. \<not> preempt_victim reg ?sa False r) (registration_list (hs_lu s))"
    by (rule preempt_loop_regs)
  moreover have "preempt_victim reg ?sa False r" if "r \<in> set (registration_list (hs_lu s))" "reg_id r = reg_id h" for r
    using pr_inv_unique [OF assms(1) that(1) mem(1) that(2)] h(3,5) reg by (simp add: preempt_victim_def)
  ultimately have "reg_id h \<notin> reg_id ` set (registration_list (hs_lu ?s1))"
    by (auto simp: image_iff)
  then have dang: "pr_holder (hs_lu (inc_prgeneration ?s1)) \<noteq> None" "holder_reg (hs_lu (inc_prgeneration ?s1)) = None"
    using mem(2) by (simp_all add: holder_reg_def lfind_None_iff)
  show ?thesis
    using run dang dangling_access_check [OF dang] by blast
qed

theorem pr_preempt_allreg_dangling_witness:
  "\<exists>s'. spc_pr_preempt (ex_two PR_TYPE_WRITE_EXCLUSIVE_ALLREG (ex_pr_out 2 4 1 6 5)) = Some (SAM_STAT_GOOD, s')
    \<and> pr_holder (hs_lu s') \<noteq> None
    \<and> holder_reg (hs_lu s') = None \<and> spc_access_check (hs_lu s') blank_cmd = None"
  using pr_preempt_allreg_dangling
    [of "ex_two PR_TYPE_WRITE_EXCLUSIVE_ALLREG (ex_pr_out 2 4 1 6 5)" "ex_reg 2 6 0"]
  by (auto simp: pr_inv_def lookup_registration_lfind preempts_allreg_holder_def all_registrants_def)

text \<open>
  REGISTER AND MOVE of a registered nexus on a unit without a reservation
  follows the null holder pointer.
\<close>

theorem pr_register_and_move_null:
  assumes "lookup_registration_by_nexus (hs_lu s) (cmd_nexus (hs_cmd s)) = Some reg"
    and "pr_holder (hs_lu s) = None"
    and "24 \<le> get_unaligned_be32 (scb (hs_cmd s)) 5"
    and "get_unaligned_be32 (scb (hs_cmd s)) 5 \<le> scsi_get_out_length (hs_cmd s)"
    and "byte_at (scsi_get_out_buffer (hs_cmd s)) 17 AND 0x01 = 0"
    and "24 \<le> get_unaligned_be32 (scsi_get_out_buffer (hs_cmd s)) 20"
    and "get_unaligned_be32 (scsi_get_out_buffer (hs_cmd s)) 20 mod 4 = 0"
    and "get_unaligned_be32 (scsi_get_out_buffer (hs_cmd s)) 20 \<le> get_unaligned_be32 (scb (hs_cmd s)) 5 - 24"
  shows "spc_pr_register_and_move transportid s = None"
  using assms(1,2,5,7) assms(3,4,6,8) [folded not_less]
  by (simp add: spc_pr_register_and_move_def is_pr_holder_def holder_reg_def Let_def)

definition ex_move_cmd :: scsi_cmd where
  "ex_move_cmd = (ex_pr_out 1 7 0 5 6)\<lparr>scb := [PERSISTENT_RESERVE_OUT, 7, 0, 0, 0, 0, 0, 0, 48, 0],
     out_sdb := \<lparr>sdb_buffer = replicate 20 0 @ [0, 0, 0, 24] @ replicate 24 0, sdb_length = 48,
       sdb_transfer_len = 0, sdb_resid = 0\<rparr>\<rparr>"

theorem pr_register_and_move_null_witness:
  "spc_pr_register_and_move None (ex_hst [ex_reg 1 5 0, ex_reg 2 6 0] None ex_move_cmd) = None"
  by (rule pr_register_and_move_null [where reg = "ex_reg 1 5 0"])
     (simp_all add: ex_move_cmd_def lookup_registration_lfind get_unaligned_be32_def byte_at_append)

text \<open>
  A RELEASE by the holder of a write-exclusive or exclusive-access
  reservation with one other registrant queues RESERVATIONS RELEASED for every
  logged-in nexus except that registrant's: the releasing nexus gets one and
  the registrant that should learn of it gets none.
\<close>

theorem pr_release_ua_wrong_nexus:
  assumes "registration_list (hs_lu s) = [reg, sib]" "reg_nexus_id reg \<noteq> reg_nexus_id sib"
    and "reg_id reg = cmd_nexus (hs_cmd s)" "pr_holder (hs_lu s) = Some (reg_id reg)"
    and "\<not> check_pr_out_basic_parameter (hs_cmd s)"
    and "get_unaligned_be64 (scsi_get_out_buffer (hs_cmd s)) 0 = reg_key reg"
    and "byte_at (scb (hs_cmd s)) 2 = reg_pr_type reg" "reg_pr_scope reg = 0"
    and "reg_pr_type reg = PR_TYPE_WRITE_EXCLUSIVE \<or> reg_pr_type reg = PR_TYPE_EXCLUSIVE_ACCESS"
    and "lun (hs_lu s) = l"
    and "itl_lookup (reg_nexus_id reg) l (hs_itns s) \<noteq> None"
  shows "\<exists>s'. spc_pr_release s = Some (SAM_STAT_GOOD, s')
    \<and> pending_ascs (reg_nexus_id sib) l (hs_itns s') = pending_ascs (reg_nexus_id sib) l (hs_itns s)
    \<and> pending_ascs (reg_nexus_id reg) l (hs_itns s') =
        pending_ascs (reg_nexus_id reg) l (hs_itns s) @ [ASC_RESERVATIONS_RELEASED]"
proof -
  have ne: "reg_id sib \<noteq> reg_id reg"
    using assms(2) by (auto simp: reg_id_def)
  have look: "lookup_registration_by_nexus (hs_lu s) (cmd_nexus (hs_cmd s)) = Some reg"
    "holder_reg (hs_lu s) = Some reg" "is_pr_holder (hs_lu s) reg = Some True"
    using assms(1,3,4) by (auto simp: lookup_registration_lfind holder_reg_def is_pr_holder_def)
  have t: "byte_at (scb (hs_cmd s)) 2 AND 0x0f = reg_pr_type reg" "drop_bit 4 (byte_at (scb (hs_cmd s)) 2 AND 0xf0) = 0"
    using assms(7,9) by auto
  let ?z = "\<lambda>r. r\<lparr>reg_pr_scope := 0, reg_pr_type := 0\<rparr>"
  let ?lu1 = "upd_reg (reg_id reg) ?z (hs_lu s\<lparr>pr_holder := None\<rparr>)"
  have regs1: "registration_list ?lu1 = [?z reg, sib]"
    using assms(1) ne by (simp add: upd_reg_def lupdate_def)
  have "spc_pr_release s = Some (SAM_STAT_GOOD, s\<lparr>hs_lu := ?lu1,
      hs_itns := ua_sense_add_other_it_nexus (reg_nexus_id sib) ?lu1 ASC_RESERVATIONS_RELEASED (hs_itns s)\<rparr>)"
    unfolding spc_pr_release_def Let_def look t using assms(4-9) regs1 ne by (auto simp: look)
  moreover have "lun ?lu1 = l"
    using assms(10) by (simp add: upd_reg_def)
  ultimately show ?thesis
    using assms(2,11) by (simp add: pending_ascs_add_other)
qed

theorem pr_release_ua_wrong_nexus_witness:
  "\<exists>s'. spc_pr_release (ex_two PR_TYPE_EXCLUSIVE_ACCESS (ex_pr_out 1 2 3 5 0)) = Some (SAM_STAT_GOOD, s')
    \<and> pending_ascs 2 0 (hs_itns s') = pending_ascs 2 0 (hs_itns (ex_two PR_TYPE_EXCLUSIVE_ACCESS (ex_pr_out 1 2 3 5 0)))
    \<and> pending_ascs 1 0 (hs_itns s') =
        pending_ascs 1 0 (hs_itns (ex_two PR_TYPE_EXCLUSIVE_ACCESS (ex_pr_out 1 2 3 5 0))) @ [ASC_RESERVATIONS_RELEASED]"
  using pr_release_ua_wrong_nexus
    [of "ex_two PR_TYPE_EXCLUSIVE_ACCESS (ex_pr_out 1 2 3 5 0)" "ex_reg 1 5 PR_TYPE_EXCLUSIVE_ACCESS" "ex_reg 2 6 0" 0]
  by (simp add: ex_two_def itl_lookup_def it_nexus_lu_info_lookup_def ex_itn_def)

end
