(* ===== verification/Target_Core.thy ===== *)
theory Target_Core
  imports Ua_Sense
begin

text \<open>
  Targets, logical units and I\_T nexuses (\<open>usr/target.c\<close>): look-ups, creation and
  destruction, and RESERVE/RELEASE ownership. The state is the target list. The
  device type callbacks and the backing store operations a device calls through
  its function pointers are arguments (\<open>device_type_template\<close>, \<open>bs_ops\<close>).
  Allocations succeed; a null pointer dereference is \<open>None\<close>.
\<close>

unbundle bit_operations_syntax

section \<open>Look-ups\<close>

abbreviation (input) "EINVAL \<equiv> 22 :: int"
abbreviation (input) "EEXIST \<equiv> 17 :: int"
abbreviation (input) "ENOENT \<equiv> 2 :: int"
abbreviation (input) "EBUSY \<equiv> 16 :: int"
abbreviation (input) "ENOMEM \<equiv> 12 :: int"

definition target_lookup :: "int \<Rightarrow> target list \<Rightarrow> target option" where
  "target_lookup t ts = lfind tid t ts"

definition target_name_lookup :: "string \<Rightarrow> target list \<Rightarrow> bool" where
  "target_name_lookup name ts = list_ex (\<lambda>t. tgt_name t = name) ts"

definition it_nexus_lookup :: "int \<Rightarrow> u64 \<Rightarrow> target list \<Rightarrow> it_nexus option" where
  "it_nexus_lookup t nid ts =
     (case target_lookup t ts of None \<Rightarrow> None | Some target \<Rightarrow> lfind itn_id nid (it_nexus_list target))"

definition device_lookup :: "target \<Rightarrow> u64 \<Rightarrow> scsi_lu option" where
  "device_lookup target l = lfind lun l (device_list target)"

text \<open>\<open>__device_lookup\<close>: the unit and its target.\<close>

definition device_lookup_tid :: "int \<Rightarrow> u64 \<Rightarrow> target list \<Rightarrow> (target \<times> scsi_lu) option" where
  "device_lookup_tid t l ts =
     (case target_lookup t ts of None \<Rightarrow> None
      | Some target \<Rightarrow> map_option (\<lambda>lu. (target, lu)) (device_lookup target l))"

definition upd_target :: "int \<Rightarrow> (target \<Rightarrow> target) \<Rightarrow> target list \<Rightarrow> target list" where
  "upd_target t f ts = lupdate tid t f ts"

definition upd_device :: "u64 \<Rightarrow> (scsi_lu \<Rightarrow> scsi_lu) \<Rightarrow> target \<Rightarrow> target" where
  "upd_device l f target = target\<lparr>device_list := lupdate lun l f (device_list target)\<rparr>"

definition lu_attr_lookup :: "int \<Rightarrow> u64 \<Rightarrow> target list \<Rightarrow> lu_phy_attr option" where
  "lu_attr_lookup t l ts = map_option (\<lambda>(_, lu). attrs lu) (device_lookup_tid t l ts)"

section \<open>RESERVE and RELEASE\<close>

definition device_reserve :: "scsi_cmd \<Rightarrow> target \<Rightarrow> int \<times> target" where
  "device_reserve cmd target =
     (case device_lookup target (c_dev cmd) of
        None \<Rightarrow> (0, target)
      | Some lu \<Rightarrow>
          if reserve_id lu \<noteq> 0 \<and> reserve_id lu \<noteq> cmd_itn_id cmd then (- EBUSY, target)
          else (0, upd_device (c_dev cmd) (\<lambda>lu. lu\<lparr>reserve_id := cmd_itn_id cmd\<rparr>) target))"

definition device_release :: "u64 \<Rightarrow> u64 \<Rightarrow> bool \<Rightarrow> target \<Rightarrow> int \<times> target" where
  "device_release nid l force target =
     (case device_lookup target l of
        None \<Rightarrow> (0, target)
      | Some lu \<Rightarrow>
          if force \<or> reserve_id lu = nid then (0, upd_device l (\<lambda>lu. lu\<lparr>reserve_id := 0\<rparr>) target)
          else if reserve_id lu \<noteq> nid then (0, target)
          else (- EBUSY, target))"

definition device_reserved :: "scsi_cmd \<Rightarrow> target \<Rightarrow> int" where
  "device_reserved cmd target =
     (case device_lookup target (c_dev cmd) of
        None \<Rightarrow> 0
      | Some lu \<Rightarrow> if reserve_id lu = 0 \<or> reserve_id lu = cmd_itn_id cmd then 0 else - EBUSY)"

section \<open>I\_T nexuses\<close>

definition new_itl_info :: "u64 \<Rightarrow> u64 \<Rightarrow> it_nexus_lu_info" where
  "new_itl_info l nid =
     \<lparr>itl_lu = l, itl_itn_id = nid, itl_stat = blank_stat, pending_ua_sense_list = [], itl_prevent = 0\<rparr>"

text \<open>
  The nexus gets one \<open>it_nexus_lu_info\<close> per device, each with a pending POWER ON
  condition; new entries go to the head of the nexus's list and to the tail of
  the unit's list. \<open>now\<close> is the time of day in seconds. \<open>None\<close> is the dereference
  of a target that does not exist.
\<close>

definition it_nexus_create :: "int \<Rightarrow> int \<Rightarrow> u64 \<Rightarrow> int \<Rightarrow> string \<Rightarrow> target list \<Rightarrow> (int \<times> target list) option" where
  "it_nexus_create now t nid host_no info ts =
     (if nid = 0 then Some (- EINVAL, ts)
      else if it_nexus_lookup t nid ts \<noteq> None then Some (- EEXIST, ts)
      else case target_lookup t ts of
        None \<Rightarrow> None
      | Some target \<Rightarrow>
          let itn = \<lparr>itn_id = nid, itn_ctime = now, itn_cmd_list = [], itn_host_no = host_no,
                     itn_itl_info_list =
                       rev (map (\<lambda>lu. ua_sense_add lu ASC_POWERON_RESET (new_itl_info (lun lu) nid)) (device_list target)),
                     itn_info = info\<rparr>
          in Some (0, upd_target t (\<lambda>target. target\<lparr>
               device_list := map (\<lambda>lu. lu\<lparr>lu_itl_info_list := lu_itl_info_list lu @ [nid]\<rparr>) (device_list target),
               it_nexus_list := it_nexus_list target @ [itn]\<rparr>) ts))"

text \<open>\<open>it_nexus_del_lu_info\<close>: every entry of the nexus leaves the list of its unit.\<close>

definition it_nexus_del_lu_info :: "it_nexus \<Rightarrow> scsi_lu list \<Rightarrow> scsi_lu list" where
  "it_nexus_del_lu_info itn devs =
     fold (\<lambda>i devs. lupdate lun (itl_lu i) (\<lambda>lu. lu\<lparr>lu_itl_info_list := remove1 (itl_itn_id i) (lu_itl_info_list lu)\<rparr>) devs)
       (itn_itl_info_list itn) devs"

definition it_nexus_destroy :: "int \<Rightarrow> u64 \<Rightarrow> target list \<Rightarrow> int \<times> target list" where
  "it_nexus_destroy t nid ts =
     (case it_nexus_lookup t nid ts of
        None \<Rightarrow> (- ENOENT, ts)
      | Some itn \<Rightarrow>
          if itn_cmd_list itn \<noteq> [] then (- EBUSY, ts)
          else (0, upd_target t (\<lambda>target.
            let target1 = fold (\<lambda>l target. snd (device_release nid l False target))
                            (map lun (device_list target)) target
            in target1\<lparr>device_list := it_nexus_del_lu_info itn (device_list target1),
                       it_nexus_list := lremove itn_id nid (it_nexus_list target1)\<rparr>) ts))"

section \<open>Device types and backing stores\<close>

text \<open>
  The callbacks of a device type (\<open>struct device_type_template\<close>). Those that
  read the target through \<open>lu->tgt\<close> take it as an argument.
\<close>

record device_type_template =
  dt_type :: int
  dt_lu_init :: "(target \<Rightarrow> scsi_lu \<Rightarrow> tgtadm_err \<times> scsi_lu) option"
  dt_lu_config :: "(target \<Rightarrow> scsi_lu \<Rightarrow> string \<Rightarrow> tgtadm_err \<times> scsi_lu) option"
  dt_lu_online :: "scsi_lu \<Rightarrow> tgtadm_err \<times> scsi_lu"
  dt_lu_offline :: "target \<Rightarrow> scsi_lu \<Rightarrow> tgtadm_err \<times> scsi_lu"
  dt_ops_table :: "u8 \<Rightarrow> device_type_operations"

definition device_type_register :: "device_type_template \<Rightarrow> device_type_template list \<Rightarrow> device_type_template list" where
  "device_type_register t ts = ts @ [t]"

definition device_type_lookup :: "int \<Rightarrow> device_type_template list \<Rightarrow> device_type_template option" where
  "device_type_lookup ty ts = lfind dt_type ty ts"

text \<open>
  What the backing store does when a unit is set up: \<open>bs_init\<close> may be absent,
  \<open>bs_open\<close> fails with an error or returns the file descriptor and the size, and
  may set attributes of the unit.
\<close>

record bs_ops =
  bs_init :: "(scsi_lu \<Rightarrow> string option \<Rightarrow> tgtadm_err \<times> scsi_lu) option"
  bs_open :: "scsi_lu \<Rightarrow> string \<Rightarrow> (int \<times> u64) option \<times> scsi_lu"
  bs_close :: "scsi_lu \<Rightarrow> scsi_lu"

definition tgt_device_path_update ::
  "bs_ops \<Rightarrow> device_type_template \<Rightarrow> target \<Rightarrow> scsi_lu \<Rightarrow> string \<Rightarrow> tgtadm_err \<times> scsi_lu" where
  "tgt_device_path_update bs dt target lu path =
     (let open_new = (\<lambda>lu.
            case bs_open bs lu path of
              (None, lu1) \<Rightarrow> (TGTADM_INVALID_REQUEST, lu1)
            | (Some (fd, sz), lu1) \<Rightarrow>
                dt_lu_online dt (lu1\<lparr>lu_fd := fd, lu_addr := 0, lu_size := sz, lu_path := Some path\<rparr>))
      in case lu_path lu of
           None \<Rightarrow> open_new lu
         | Some _ \<Rightarrow>
             if online (attrs lu) \<noteq> 0 then (TGTADM_INVALID_REQUEST, lu)
             else case dt_lu_offline dt target lu of
               (TGTADM_SUCCESS, lu1) \<Rightarrow>
                 open_new ((bs_close bs lu1)\<lparr>lu_fd := 0, lu_addr := 0, lu_size := 0, lu_path := None\<rparr>)
             | (err, lu1) \<Rightarrow> (err, lu1))"

subsection \<open>Options of a new device\<close>

record device_opts =
  opt_path :: "string option"
  opt_bstype :: "string option"
  opt_bsopts :: "string option"
  opt_bsoflags :: "string option"
  opt_blocksize :: "string option"

text \<open>\<open>match_one\<close> for a pattern \<open>pre%s\<close>: the prefix and a non-empty rest.\<close>

definition match_prefix :: "string \<Rightarrow> string \<Rightarrow> string option" where
  "match_prefix pre p = (if take (length pre) p = pre \<and> length pre < length p then Some (drop (length pre) p) else None)"

definition parse_device_opt :: "string \<Rightarrow> device_opts \<Rightarrow> device_opts" where
  "parse_device_opt p os =
     (case match_prefix ''path='' p of Some a \<Rightarrow> os\<lparr>opt_path := Some a\<rparr> | None \<Rightarrow>
      case match_prefix ''bstype='' p of Some a \<Rightarrow> os\<lparr>opt_bstype := Some a\<rparr> | None \<Rightarrow>
      case match_prefix ''bsopts='' p of Some a \<Rightarrow> os\<lparr>opt_bsopts := Some a\<rparr> | None \<Rightarrow>
      case match_prefix ''bsoflags='' p of Some a \<Rightarrow> os\<lparr>opt_bsoflags := Some a\<rparr> | None \<Rightarrow>
      case match_prefix ''blocksize='' p of Some a \<Rightarrow> os\<lparr>opt_blocksize := Some a\<rparr> | None \<Rightarrow> os)"

text \<open>Splitting at commas skips empty parts, as the loop over \<open>strsep\<close> does.\<close>

definition parse_device_opts :: "string option \<Rightarrow> device_opts" where
  "parse_device_opts params =
     fold parse_device_opt (case params of None \<Rightarrow> [] | Some s \<Rightarrow> strtok_all (CHR '','') [] s)
       \<lparr>opt_path = None, opt_bstype = None, opt_bsopts = None, opt_bsoflags = None, opt_blocksize = None\<rparr>"

definition is_sg_name :: "string \<Rightarrow> bool" where
  "is_sg_name n \<longleftrightarrow> take 3 n = ''bsg'' \<or> take 2 n = ''sg''"

text \<open>The block shift of the \<open>blocksize\<close> option; an invalid size leaves it zero.\<close>

definition opt_blk_shift :: "string option \<Rightarrow> nat" where
  "opt_blk_shift blocksize =
     (case blocksize of None \<Rightarrow> 0
      | Some str \<Rightarrow>
          (case get_blk_shift (ucast (fst (strtoull0 str))) of
             None \<Rightarrow> 0 | Some sh \<Rightarrow> if sh > 0 then nat sh else 0))"

subsection \<open>Creation and destruction\<close>

text \<open>The device list is kept in LUN order.\<close>

fun insert_device :: "scsi_lu \<Rightarrow> scsi_lu list \<Rightarrow> scsi_lu list" where
  "insert_device lu [] = [lu]"
| "insert_device lu (pos # ps) = (if lun lu < lun pos then lu # pos # ps else pos # insert_device lu ps)"

text \<open>A unit attention for an entry of a nexus, in the format of the unit it belongs to.\<close>

definition ua_sense_add_info :: "scsi_lu list \<Rightarrow> u16 \<Rightarrow> it_nexus_lu_info \<Rightarrow> it_nexus_lu_info" where
  "ua_sense_add_info devs asc i =
     (case lfind lun (itl_lu i) devs of None \<Rightarrow> i | Some lu \<Rightarrow> ua_sense_add lu asc i)"

text \<open>
  Linking a new unit into its target: every nexus gets REPORTED LUNS DATA HAS
  CHANGED on its existing units and an entry for the new one.
\<close>

definition link_device :: "scsi_lu \<Rightarrow> target \<Rightarrow> target" where
  "link_device lu target =
     (let devs = insert_device (lu\<lparr>lu_itl_info_list := lu_itl_info_list lu @ map itn_id (it_nexus_list target)\<rparr>)
                   (device_list target)
      in target\<lparr>device_list := devs,
           it_nexus_list := map (\<lambda>itn. itn\<lparr>itn_itl_info_list :=
             new_itl_info (lun lu) (itn_id itn) #
             map (ua_sense_add_info devs ASC_REPORTED_LUNS_DATA_HAS_CHANGED) (itn_itl_info_list itn)\<rparr>)
             (it_nexus_list target)\<rparr>)"

definition new_lu :: "device_type_template \<Rightarrow> backingstore_template \<Rightarrow> u64 \<Rightarrow> u32 \<Rightarrow> nat \<Rightarrow> scsi_lu" where
  "new_lu dt bst l oflags shift =
     (blank_lu l)\<lparr>dt_ops := dt_ops_table dt, lu_bst := bst, bsoflags := oflags, blk_shift := shift\<rparr>"

text \<open>The checks on the backing store and the flags, in the order of the code.\<close>

definition device_bst ::
  "(string \<Rightarrow> backingstore_template option) \<Rightarrow> target \<Rightarrow> bool \<Rightarrow> device_opts \<Rightarrow> backingstore_template option" where
  "device_bst get_bst target backing os =
     (if backing then (case opt_bstype os of None \<Rightarrow> Some (tgt_bst target) | Some b \<Rightarrow> get_bst b)
      else get_bst ''null'')"

definition device_oflags :: "backingstore_template \<Rightarrow> device_opts \<Rightarrow> u32 option" where
  "device_oflags bst os =
     (case (case opt_bsoflags os of None \<Rightarrow> Some 0 | Some str \<Rightarrow> str_to_open_flags str) of
        None \<Rightarrow> None
      | Some fl \<Rightarrow> if fl \<noteq> 0 \<and> bs_oflags_supported bst AND fl \<noteq> fl then None else Some fl)"

text \<open>
  The null store is registered before any unit is created. If it were not, the code would read
  through a null pointer where the model answers INVALID\_REQUEST.
\<close>

definition tgt_device_create ::
  "(string \<Rightarrow> backingstore_template option) \<Rightarrow> (backingstore_template \<Rightarrow> bs_ops) \<Rightarrow> device_type_template list \<Rightarrow>
   int \<Rightarrow> int \<Rightarrow> u64 \<Rightarrow> string option \<Rightarrow> bool \<Rightarrow> target list \<Rightarrow> tgtadm_err \<times> target list" where
  "tgt_device_create get_bst bsops dtypes t dev_type l params backing ts =
     (let os = parse_device_opts params in
      case target_lookup t ts of
        None \<Rightarrow> (TGTADM_NO_TARGET, ts)
      | Some target \<Rightarrow>
      if device_lookup target l \<noteq> None then (TGTADM_LUN_EXIST, ts)
      else case device_bst get_bst target backing os of
        None \<Rightarrow> (TGTADM_INVALID_REQUEST, ts)
      | Some bst \<Rightarrow>
      if is_sg_name (bs_name bst) \<noteq> (dev_type = 0xff) then (TGTADM_INVALID_REQUEST, ts)
      else case device_oflags bst os of
        None \<Rightarrow> (TGTADM_INVALID_REQUEST, ts)
      | Some oflags \<Rightarrow>
      case device_type_lookup dev_type dtypes of
        None \<Rightarrow> (TGTADM_INVALID_REQUEST, ts)
      | Some dt \<Rightarrow>
      let lu0 = new_lu dt bst l oflags (opt_blk_shift (opt_blocksize os));
          (err1, lu1) = (case dt_lu_init dt of None \<Rightarrow> (TGTADM_SUCCESS, lu0) | Some f \<Rightarrow> f target lu0)
      in if err1 \<noteq> TGTADM_SUCCESS then (err1, ts)
         else
           let (err2, lu2) = (case bs_init (bsops bst) of None \<Rightarrow> (TGTADM_SUCCESS, lu1)
                              | Some f \<Rightarrow> f lu1 (opt_bsopts os))
           in if err2 \<noteq> TGTADM_SUCCESS then (err2, ts)
              else
                let lu3 = (if backing \<and> opt_path os = None
                           then lu2\<lparr>attrs := (attrs lu2)\<lparr>removable := 1, online := 0\<rparr>\<rparr> else lu2);
                    (err4, lu4) = (case opt_path os of
                                     Some p \<Rightarrow> if backing then tgt_device_path_update (bsops bst) dt target lu3 p
                                               else (TGTADM_SUCCESS, lu3)
                                   | None \<Rightarrow> (TGTADM_SUCCESS, lu3))
                in if err4 \<noteq> TGTADM_SUCCESS then (err4, ts)
                   else
                     let ts' = upd_target t (link_device lu4) ts in
                     (TGTADM_SUCCESS,
                      if backing \<and> opt_path os = None
                      then upd_target t (\<lambda>tg. upd_device l (\<lambda>lu. snd (dt_lu_offline dt tg lu)) tg) ts' else ts'))"

text \<open>\<open>tgt_device_destroy\<close>; the device type's and the backing store's exit functions only free memory.\<close>

definition unlink_device :: "u64 \<Rightarrow> target \<Rightarrow> target" where
  "unlink_device l target =
     (let devs = lremove lun l (device_list target) in
      target\<lparr>device_list := devs,
        it_nexus_list := map (\<lambda>itn. itn\<lparr>itn_itl_info_list :=
          map (ua_sense_add_info devs ASC_REPORTED_LUNS_DATA_HAS_CHANGED)
            (lremove itl_lu l (itn_itl_info_list itn))\<rparr>) (it_nexus_list target)\<rparr>)"

definition tgt_device_destroy :: "int \<Rightarrow> u64 \<Rightarrow> bool \<Rightarrow> target list \<Rightarrow> tgtadm_err \<times> target list" where
  "tgt_device_destroy t l force ts =
     (if l = 0 \<and> \<not> force then (TGTADM_INVALID_REQUEST, ts)
      else case device_lookup_tid t l ts of
        None \<Rightarrow> (TGTADM_NO_LUN, ts)
      | Some (target, lu) \<Rightarrow>
          if queue (cmd_queue lu) \<noteq> [] \<or> active_cmd (cmd_queue lu) \<noteq> 0 then (TGTADM_LUN_ACTIVE, ts)
          else (TGTADM_SUCCESS, upd_target t (unlink_device l) ts))"

end
