(* ===== verification/Spc.thy ===== *)
theory Spc
  imports Spc_Pr Target_Core
begin

text \<open>
  The SCSI primary commands every device type shares (\<open>usr/spc.c\<close>): INQUIRY and
  its vital product data pages, REPORT LUNS, START STOP UNIT, TEST UNIT READY,
  PREVENT ALLOW MEDIUM REMOVAL, MODE SELECT and MODE SENSE, REPORT SUPPORTED
  OPERATION CODES, SEND DIAGNOSTIC, REQUEST SENSE, and the set-up and
  configuration of a logical unit's attributes. A handler maps the objects it
  reaches (\<open>hst\<close>) to a status and the changed objects; \<open>None\<close> is an access
  outside a buffer or the \<open>exit(1)\<close> of an impossible opcode.
\<close>

unbundle bit_operations_syntax

section \<open>C strings and numbers\<close>

definition cstr :: "bytes \<Rightarrow> bytes" where
  "cstr b = takeWhile (\<lambda>x. x \<noteq> 0) b"

definition str_bytes :: "string \<Rightarrow> bytes" where
  "str_bytes s = map of_char s"

text \<open>\<open>strncpy\<close> of \<open>n\<close> bytes: shorter strings are padded with zeros.\<close>

definition strncpy_bytes :: "nat \<Rightarrow> bytes \<Rightarrow> bytes" where
  "strncpy_bytes n s = take n (cstr s @ replicate n 0)"

text \<open>\<open>snprintf\<close> into an array of \<open>n\<close> bytes.\<close>

definition snprintf_bytes :: "nat \<Rightarrow> bytes \<Rightarrow> bytes \<Rightarrow> bytes" where
  "snprintf_bytes n s buf = put_bytes buf 0 (take (n - 1) s @ [0])"

fun print_digits :: "nat \<Rightarrow> nat \<Rightarrow> string" where
  "print_digits b n =
     (let d = n mod b; c = (char_of (if d < 10 then 48 + d else 87 + d) :: char) in
      if b \<le> 1 \<or> n < b then [c] else print_digits b (n div b) @ [c])"

declare print_digits.simps [simp del]

definition print_hex04 :: "nat \<Rightarrow> string" where
  "print_hex04 n = (let s = print_digits 16 n in replicate (4 - length s) (CHR ''0'') @ s)"

definition print_int :: "int \<Rightarrow> string" where
  "print_int i = (if i < 0 then CHR ''-'' # print_digits 10 (nat (- i)) else print_digits 10 (nat i))"

text \<open>
  \<open>strtol\<close> (64 bits, saturating) in base 10, and with base 0, where a prefix
  selects the base.
\<close>

definition strtol_sat :: "bool \<Rightarrow> nat \<Rightarrow> int" where
  "strtol_sat neg v = (if neg then max (- (2 ^ 63)) (- int v) else min (2 ^ 63 - 1) (int v))"

definition strtol :: "bool \<Rightarrow> string \<Rightarrow> int" where
  "strtol base0 str =
     (let s1 = dropWhile is_cspace str;
          s2 = (if take 1 s1 = ''-'' \<or> take 1 s1 = ''+'' then drop 1 s1 else s1);
          hex = (base0 \<and> (take 2 s2 = ''0x'' \<or> take 2 s2 = ''0X'') \<and> snd (digits_val 16 0 (drop 2 s2)))
      in strtol_sat (take 1 s1 = ''-'')
           (fst (if hex then digits_val 16 0 (drop 2 s2)
                 else if base0 \<and> take 1 s2 = ''0'' then digits_val 8 0 s2
                 else digits_val 10 0 s2)))"

definition atoi :: "string \<Rightarrow> u32" where
  "atoi str = of_int (strtol False str)"

section \<open>Vital product data\<close>

abbreviation (input) "SCSI_ID_LEN \<equiv> 36 :: nat"
abbreviation (input) "SCSI_SN_LEN \<equiv> 36 :: nat"
abbreviation (input) "VENDOR_ID_LEN \<equiv> 8 :: nat"
abbreviation (input) "PRODUCT_ID_LEN \<equiv> 16 :: nat"
abbreviation (input) "PRODUCT_REV_LEN \<equiv> 4 :: nat"
abbreviation (input) "BLOCK_LIMITS_VPD_LEN \<equiv> 0x3C :: nat"
abbreviation (input) "LBP_VPD_LEN \<equiv> 4 :: nat"
abbreviation (input) "DESG_HDR_LEN \<equiv> 4 :: nat"
abbreviation (input) "NAA_DESG_LEN \<equiv> 8 :: nat"
abbreviation (input) "NAA_DESG_LEN_EXTD \<equiv> 16 :: nat"
abbreviation (input) "BLOCK_DESCRIPTOR_LEN \<equiv> 8 :: nat"

definition PCODE_OFFSET :: "u8 \<Rightarrow> nat" where
  "PCODE_OFFSET x = unat (x AND 0x7f)"

definition alloc_vpd :: "nat \<Rightarrow> vpd" where
  "alloc_vpd n = \<lparr>vpd_size = of_nat n, vpd_update = None, vpd_data = replicate n 0\<rparr>"

definition get_vpd :: "u8 \<Rightarrow> scsi_lu \<Rightarrow> vpd option" where
  "get_vpd pg lu = lu_vpd (attrs lu) ! PCODE_OFFSET pg"

definition set_vpd :: "u8 \<Rightarrow> vpd \<Rightarrow> scsi_lu \<Rightarrow> scsi_lu" where
  "set_vpd pg v lu = lu\<lparr>attrs := (attrs lu)\<lparr>lu_vpd := (lu_vpd (attrs lu))[PCODE_OFFSET pg := Some v]\<rparr>\<rparr>"

text \<open>
  The update functions write the page they are named after; the pages exist from
  \<open>spc_lu_init\<close> on.
\<close>

definition upd_vpd_data :: "u8 \<Rightarrow> (bytes \<Rightarrow> bytes) \<Rightarrow> scsi_lu \<Rightarrow> scsi_lu" where
  "upd_vpd_data pg f lu =
     (case get_vpd pg lu of None \<Rightarrow> lu | Some v \<Rightarrow> set_vpd pg (v\<lparr>vpd_data := f (vpd_data v)\<rparr>) lu)"

definition update_vpd_80 :: "bytes \<Rightarrow> scsi_lu \<Rightarrow> scsi_lu" where
  "update_vpd_80 sn lu =
     upd_vpd_data 0x80 (\<lambda>data.
       let n = length data; blank = replicate n 0x20 in
       if cstr sn \<noteq> [] then put_bytes blank (n - length (cstr sn)) (cstr sn) else blank) lu"

text \<open>The loop that reads the identifier as a 128-bit hexadecimal number \<open>b:a\<close>.\<close>

definition hex_nibble :: "u8 \<Rightarrow> u64" where
  "hex_nibble c = (let d = digit_val (char_of (unat c)) in if d < 16 then of_nat d else 0)"

fun vpd_83_loop :: "u64 \<Rightarrow> u64 \<Rightarrow> bytes \<Rightarrow> u64 \<times> u64" where
  "vpd_83_loop a b [] = (a, b)"
| "vpd_83_loop a b (ch # s) =
     (let c = drop_bit 60 a in vpd_83_loop (push_bit 4 a OR hex_nibble ch) (push_bit 4 b OR c) s)"

definition update_vpd_83 :: "bytes \<Rightarrow> scsi_lu \<Rightarrow> scsi_lu" where
  "update_vpd_83 sid lu =
     upd_vpd_data 0x83 (\<lambda>data.
       let (a, b) = vpd_83_loop 0 0 (cstr sid);
           d1 = put_bytes (data[0 := 2, 1 := 1, 3 := of_nat SCSI_ID_LEN]) 4 (strncpy_bytes SCSI_ID_LEN sid);
           d2 = put_unaligned_be64 (numeric_id (attrs lu)) (d1[40 := 1, 41 := 3, 43 := of_nat NAA_DESG_LEN]) 44;
           d3 = d2[44 := byte_at d2 44 OR 0x30, 52 := 1, 53 := 3, 55 := of_nat NAA_DESG_LEN_EXTD];
           d4 = put_unaligned_be64 a (put_unaligned_be64 b d3 56) 64
       in d4[56 := byte_at d4 56 AND 0x0f OR 0x60]) lu"

definition update_vpd_b2 :: "scsi_lu \<Rightarrow> scsi_lu" where
  "update_vpd_b2 lu =
     upd_vpd_data 0xb2 (\<lambda>data.
       if thinprovisioning (attrs lu) \<noteq> 0 then data[0 := 0, 1 := 0xe4, 2 := 0x02, 3 := 0]
       else data[0 := 0, 1 := 0, 2 := 0, 3 := 0]) lu"

definition update_vpd_b0 :: "scsi_lu \<Rightarrow> scsi_lu" where
  "update_vpd_b0 lu =
     upd_vpd_data 0xb0 (\<lambda>data.
       let n = (if thinprovisioning (attrs lu) \<noteq> 0 then 0xffffffff else 0) in
       put_unaligned_be32 n (put_unaligned_be32 n (data[1 := 128]) 16) 20) lu"

definition update_b0_opt_xfer_gran :: "u32 \<Rightarrow> scsi_lu \<Rightarrow> scsi_lu" where
  "update_b0_opt_xfer_gran v lu = upd_vpd_data 0xb0 (\<lambda>data. put_unaligned_be16 (ucast v) data 2) lu"

definition update_b0_opt_xfer_len :: "u32 \<Rightarrow> scsi_lu \<Rightarrow> scsi_lu" where
  "update_b0_opt_xfer_len v lu = upd_vpd_data 0xb0 (\<lambda>data. put_unaligned_be32 v data 8) lu"

section \<open>INQUIRY\<close>

definition inquiry_devtype :: "lu_phy_attr \<Rightarrow> u8" where
  "inquiry_devtype a = push_bit 5 (qualifier a AND 0x7) OR (device_type a AND 0x1f)"

text \<open>The standard data; the buffer is 256 zeroed bytes of which 66 are available.\<close>

definition inquiry_std :: "lu_phy_attr \<Rightarrow> bytes" where
  "inquiry_std a =
     (let b0 = (replicate 256 0)[0 := inquiry_devtype a, 1 := (if removable a \<noteq> 0 then 0x80 else 0),
                                 2 := 5, 3 := 0x12, 7 := 0x02];
          b1 = put_bytes b0 8 (replicate 28 0x20);
          b2 = put_bytes b1 8 (strncpy_bytes VENDOR_ID_LEN (vendor_id a));
          b3 = put_bytes b2 16 (strncpy_bytes PRODUCT_ID_LEN (product_id a));
          b4 = put_bytes b3 32 (strncpy_bytes PRODUCT_REV_LEN (product_rev a));
          b5 = put_bytes b4 58 (concat (map be16_bytes (version_desc a)))
      in b5[4 := 66 - 5])"

definition vpd_page_codes :: "lu_phy_attr \<Rightarrow> bytes" where
  "vpd_page_codes a =
     map (\<lambda>i. of_nat i OR 0x80) (filter (\<lambda>i. lu_vpd a ! i \<noteq> None) [0..<length (lu_vpd a)])"

definition inquiry_vpd_list :: "lu_phy_attr \<Rightarrow> bytes \<times> nat" where
  "inquiry_vpd_list a =
     (let p = vpd_page_codes a; cnt = 1 + length p in
      (put_bytes ((replicate 256 0)[0 := inquiry_devtype a, 3 := of_nat cnt]) 5 p, cnt + 4))"

text \<open>A page; \<open>None\<close> is a page that does not fit the buffer.\<close>

definition inquiry_vpd_page :: "lu_phy_attr \<Rightarrow> u8 \<Rightarrow> vpd \<Rightarrow> (bytes \<times> nat) option" where
  "inquiry_vpd_page a pc v =
     map_option (\<lambda>b. (b, unat (vpd_size v) + 4))
       (write_at ((replicate 256 0)[0 := inquiry_devtype a, 1 := pc,
                    2 := ucast (drop_bit 8 (vpd_size v)), 3 := ucast (vpd_size v AND 0xff)])
          4 (take (unat (vpd_size v)) (vpd_data v)))"

text \<open>The copy of a response into the data-in buffer and the residual count.\<close>

definition return_data :: "bytes \<Rightarrow> nat \<Rightarrow> u32 \<Rightarrow> hst \<Rightarrow> (int \<times> hst) option" where
  "return_data data avail_len alloc_len s =
     do { (buf, _, actual_len) \<leftarrow> spc_memcpy (scsi_get_in_buffer (hs_cmd s)) 0 alloc_len data (of_nat avail_len);
          Some (SAM_STAT_GOOD, upd_cmd (scsi_set_in_resid_by_actual actual_len \<circ> set_in_buffer buf) s) }"

definition illegal_cdb :: "hst \<Rightarrow> (int \<times> hst) option" where
  "illegal_cdb s = Some (sense_exit ILLEGAL_REQUEST ASC_INVALID_FIELD_IN_CDB s)"

definition spc_inquiry :: "hst \<Rightarrow> (int \<times> hst) option" where
  "spc_inquiry s =
     (let cmd = hs_cmd s; a = attrs (hs_lu s);
          evpd = (byte_at (scb cmd) 1 AND 0x01 \<noteq> 0); pc = byte_at (scb cmd) 2;
          alloc_len = ucast (get_unaligned_be16 (scb cmd) 3);
          mark = (\<lambda>data. if lun (hs_lu s) \<noteq> dev_id cmd then data[0 := TYPE_NO_LUN] else data)
      in if \<not> evpd \<and> pc \<noteq> 0 then illegal_cdb s
         else if scsi_get_in_length cmd < alloc_len then illegal_cdb s
         else if \<not> evpd then return_data (mark (inquiry_std a)) 66 alloc_len s
         else if pc = 0 then
           (let (data, avail) = inquiry_vpd_list a in return_data (mark data) avail alloc_len s)
         else case lu_vpd a ! PCODE_OFFSET pc of
           None \<Rightarrow> illegal_cdb s
         | Some v \<Rightarrow>
             do { (data, avail) \<leftarrow> inquiry_vpd_page a pc v;
                  return_data (mark data) avail alloc_len s })"

section \<open>REPORT LUNS\<close>

definition report_lun_entry :: "u64 \<Rightarrow> bytes" where
  "report_lun_entry l =
     be64_bytes (push_bit 32 ((if l > 0xff then push_bit 30 1 else 0) OR push_bit 16 (0x3fff AND l)))"

fun report_luns_loop :: "bytes \<Rightarrow> nat \<Rightarrow> u32 \<Rightarrow> u32 \<Rightarrow> u32 \<Rightarrow> u64 list \<Rightarrow> (bytes \<times> u32 \<times> u32) option" where
  "report_luns_loop buf plun remain actual avail [] = Some (buf, actual, avail)"
| "report_luns_loop buf plun remain actual avail (l # ls) =
     do { (buf', remain', n) \<leftarrow> spc_memcpy buf plun remain (report_lun_entry l) 8;
          report_luns_loop buf' (plun + 8) remain' (actual + n) (avail + 8) ls }"

definition spc_report_luns :: "hst \<Rightarrow> (int \<times> hst) option" where
  "spc_report_luns s =
     (let cmd = hs_cmd s; alloc_len = get_unaligned_be32 (scb cmd) 6 in
      if alloc_len < 16 then illegal_cdb s
      else if scsi_get_in_length cmd < alloc_len then illegal_cdb s
      else do { (buf, actual, avail) \<leftarrow>
                  report_luns_loop (scsi_get_in_buffer cmd) 8 (alloc_len - 8) 8 0 (hs_luns s);
                hdr \<leftarrow> write_at buf 0 (be32_bytes avail @ replicate 4 0);
                Some (SAM_STAT_GOOD, upd_cmd (scsi_set_in_resid_by_actual actual \<circ> set_in_buffer hdr) s) })"

section \<open>Unit state\<close>

text \<open>\<open>device_reserved\<close> for the command of a handler: its unit is \<open>cmd->dev\<close>.\<close>

definition hs_reserved :: "hst \<Rightarrow> bool" where
  "hs_reserved s \<longleftrightarrow> reserve_id (hs_lu s) \<noteq> 0 \<and> reserve_id (hs_lu s) \<noteq> cmd_itn_id (hs_cmd s)"

definition spc_lu_online :: "scsi_lu \<Rightarrow> tgtadm_err \<times> scsi_lu" where
  "spc_lu_online lu = (TGTADM_SUCCESS, lu\<lparr>attrs := (attrs lu)\<lparr>online := 1\<rparr>\<rparr>)"

definition spc_lu_offline :: "it_nexus list \<Rightarrow> scsi_lu \<Rightarrow> tgtadm_err \<times> scsi_lu" where
  "spc_lu_offline itns lu =
     (if lu_prevent_removal lu itns then (TGTADM_PREVENT_REMOVAL, lu)
      else (TGTADM_SUCCESS, lu\<lparr>attrs := (attrs lu)\<lparr>online := 0\<rparr>\<rparr>))"

definition spc_start_stop :: "hst \<Rightarrow> (int \<times> hst) option" where
  "spc_start_stop s0 =
     (let s = upd_cmd (scsi_set_in_resid_by_actual 0) s0; lu = hs_lu s; b = byte_at (scb (hs_cmd s)) 4;
          loej = (b AND 0x02 \<noteq> 0); start = (b AND 0x01 \<noteq> 0)
      in if hs_reserved s then Some (SAM_STAT_RESERVATION_CONFLICT, s)
         else if b AND 0xf0 \<noteq> 0 then Some (SAM_STAT_GOOD, s)
         else if loej \<and> \<not> start \<and> removable (attrs lu) \<noteq> 0 then
           (if lu_prevent_removal lu (hs_itns s) then
              Some (SAM_STAT_CHECK_CONDITION,
                upd_cmd (sense_data_build lu (if online (attrs lu) \<noteq> 0 then ILLEGAL_REQUEST else NOT_READY)
                           ASC_MEDIUM_REMOVAL_PREVENTED) s)
            else Some (SAM_STAT_GOOD, s\<lparr>hs_lu := snd (spc_lu_offline (hs_itns s) lu)\<rparr>))
         else if loej \<and> start \<and> removable (attrs lu) \<noteq> 0 then
           Some (SAM_STAT_GOOD, s\<lparr>hs_lu := snd (spc_lu_online lu)\<rparr>)
         else Some (SAM_STAT_GOOD, s))"

definition spc_test_unit :: "hst \<Rightarrow> (int \<times> hst) option" where
  "spc_test_unit s =
     (let lu = hs_lu s in
      if hs_reserved s then Some (SAM_STAT_RESERVATION_CONFLICT, s)
      else if online (attrs lu) \<noteq> 0 then Some (SAM_STAT_GOOD, s)
      else Some (SAM_STAT_CHECK_CONDITION,
        upd_cmd (sense_data_build lu NOT_READY
          (if removable (attrs lu) \<noteq> 0 then ASC_MEDIUM_NOT_PRESENT else ASC_BECOMING_READY)) s))"

definition spc_prevent_allow_media_removal :: "hst \<Rightarrow> (int \<times> hst) option" where
  "spc_prevent_allow_media_removal s =
     (let cmd = hs_cmd s in
      if hs_reserved s then Some (SAM_STAT_RESERVATION_CONFLICT, s)
      else Some (SAM_STAT_GOOD, s\<lparr>hs_itns := itl_update (cmd_itn_id cmd) (c_dev cmd)
             (\<lambda>i. i\<lparr>itl_prevent := ucast (byte_at (scb cmd) 4 AND 0x03)\<rparr>) (hs_itns s)\<rparr>))"

section \<open>Mode pages\<close>

definition find_mode_page :: "scsi_lu \<Rightarrow> u8 \<Rightarrow> u8 \<Rightarrow> mode_pg option" where
  "find_mode_page lu pc sub = lfind (\<lambda>pg. (pcode pg, subpcode pg)) (pc, sub) (mode_pages lu)"

text \<open>An update through the pointer \<open>find_mode_page\<close> returns.\<close>

definition upd_mode_page :: "u8 \<Rightarrow> u8 \<Rightarrow> (mode_pg \<Rightarrow> mode_pg) \<Rightarrow> scsi_lu \<Rightarrow> scsi_lu" where
  "upd_mode_page pc sub f lu =
     lu\<lparr>mode_pages := upd_first (\<lambda>pg. (pcode pg, subpcode pg) = (pc, sub)) f (mode_pages lu)\<rparr>"

definition set_mode_page_changeable_mask :: "u8 \<Rightarrow> u8 \<Rightarrow> bytes \<Rightarrow> scsi_lu \<Rightarrow> int \<times> scsi_lu" where
  "set_mode_page_changeable_mask pc sub msk lu =
     (case find_mode_page lu pc sub of
        None \<Rightarrow> (1, lu)
      | Some pg \<Rightarrow>
          (0, upd_mode_page pc sub
                (\<lambda>pg. pg\<lparr>mode_data := put_bytes (mode_data pg) (pcode_size pg) (take (pcode_size pg) msk)\<rparr>) lu))"

definition alloc_mode_pg :: "u8 \<Rightarrow> u8 \<Rightarrow> nat \<Rightarrow> mode_pg" where
  "alloc_mode_pg pc sub n = \<lparr>pcode = pc, subpcode = sub, pcode_size = n, mode_data = replicate (n * 2) 0\<rparr>"

fun split_on :: "char \<Rightarrow> string \<Rightarrow> string \<Rightarrow> string list" where
  "split_on d acc [] = [rev acc]"
| "split_on d acc (c # cs) = (if c = d then rev acc # split_on d [] cs else split_on d (c # acc) cs)"

text \<open>
  The fields of a \<open>mode_page\<close> parameter are separated by colons: page code,
  subcode, size, and the bytes of the page. Sizes are below \<open>2 ^ 15\<close>, so that the
  \<open>int16_t\<close> of the page holds them.
\<close>

definition add_mode_page :: "scsi_lu \<Rightarrow> string \<Rightarrow> tgtadm_err \<times> scsi_lu" where
  "add_mode_page lu p =
     (let fs = split_on (CHR '':'') [] p; n = length fs;
          pc = (if 0 < n then of_int (strtol True (fs ! 0)) else 0);
          sub = (if 1 < n then of_int (strtol True (fs ! 1)) else 0);
          sz = (if 2 < n then unat (of_int (strtol True (fs ! 2)) :: u16) else 0);
          vals = map (\<lambda>f. of_int (strtol True f) :: u8) (take sz (drop 3 fs));
          pg = (alloc_mode_pg pc sub sz)\<lparr>mode_data := put_bytes (replicate (sz * 2) 0) 0 vals\<rparr>;
          old = (case find_mode_page lu pc sub of None \<Rightarrow> mode_pages lu | Some q \<Rightarrow> remove1 q (mode_pages lu))
      in (if sz + 3 < n then TGTADM_INVALID_REQUEST else TGTADM_SUCCESS,
          if 2 < n then lu\<lparr>mode_pages := old @ [pg]\<rparr> else lu))"

section \<open>MODE SENSE\<close>

definition set_byte_safe :: "bytes \<Rightarrow> nat \<Rightarrow> u32 \<Rightarrow> u8 \<Rightarrow> bytes" where
  "set_byte_safe dst i dst_len v = (if i < unat dst_len then dst[i := v] else dst)"

definition mode_page_hdr :: "mode_pg \<Rightarrow> bytes" where
  "mode_page_hdr pg =
     (if subpcode pg = 0 then [pcode pg, of_nat (pcode_size pg)]
      else [pcode pg OR 0x40, subpcode pg, of_nat (pcode_size pg div 256), of_nat (pcode_size pg)])"

text \<open>
  The buffer, the write position, the remaining and the available length are
  passed through; the result also has the number of bytes copied.
\<close>

definition build_mode_page ::
  "bytes \<Rightarrow> nat \<Rightarrow> mode_pg \<Rightarrow> u32 \<Rightarrow> u32 \<Rightarrow> u8 \<Rightarrow> (bytes \<times> u32 \<times> u32 \<times> u32) option" where
  "build_mode_page data off pg avail_len remain_len pc =
     (let hdr = mode_page_hdr pg; hdr_size = length hdr; sz = of_nat (pcode_size pg);
          md = (if pc = 1 then drop (pcode_size pg) (mode_data pg) else mode_data pg)
      in do { (d1, r1, n1) \<leftarrow> spc_memcpy data off remain_len hdr (of_nat hdr_size);
              (d2, r2, n2) \<leftarrow> spc_memcpy d1 (off + hdr_size) r1 md sz;
              Some (d2, avail_len + of_nat hdr_size + sz, r2, n1 + n2) })"

fun build_mode_pages ::
  "bytes \<Rightarrow> u32 \<Rightarrow> u32 \<Rightarrow> u32 \<Rightarrow> u8 \<Rightarrow> mode_pg list \<Rightarrow> (bytes \<times> u32 \<times> u32) option" where
  "build_mode_pages data actual_len avail_len remain_len pc [] = Some (data, actual_len, avail_len)"
| "build_mode_pages data actual_len avail_len remain_len pc (pg # pgs) =
     do { (d, avail, remain, n) \<leftarrow> build_mode_page data (unat actual_len) pg avail_len remain_len pc;
          build_mode_pages d (actual_len + n) avail remain pc pgs }"

definition mode_sense_header :: "bool \<Rightarrow> u32 \<Rightarrow> u32 \<Rightarrow> u8 \<Rightarrow> bytes \<Rightarrow> bytes" where
  "mode_sense_header mode6 alloc_len avail_len blk_desc_len data =
     (if mode6 then
        set_byte_safe (set_byte_safe data 0 alloc_len (ucast (avail_len - 1))) 3 alloc_len blk_desc_len
      else
        let n = avail_len - 2;
            d1 = set_byte_safe data 0 alloc_len (ucast (drop_bit 8 n));
            d2 = set_byte_safe d1 1 alloc_len (ucast n);
            d3 = set_byte_safe d2 6 alloc_len 0
        in set_byte_safe d3 7 alloc_len blk_desc_len)"

definition spc_mode_sense :: "hst \<Rightarrow> (int \<times> hst) option" where
  "spc_mode_sense s =
     (let cmd = hs_cmd s; lu = hs_lu s; b = byte_at (scb cmd);
          mode6 = (b 0 = 0x1a); dbd = (b 1 AND 0x8 \<noteq> 0);
          blk_desc_len = (if dbd then 0 else 8); pc = b 2 AND 0x3f; pctrl = drop_bit 6 (b 2 AND 0xc0);
          alloc_len = (if mode6 then ucast (b 4) else ucast (get_unaligned_be16 (scb cmd) 7));
          hdr_len = (if mode6 then 4 else 8);
          actual0 = min alloc_len hdr_len; remain0 = alloc_len - actual0
      in if pctrl = 3 then Some (sense_exit ILLEGAL_REQUEST ASC_SAVING_PARMS_UNSUP s)
         else if scsi_get_in_length cmd < alloc_len then illegal_cdb s
         else do {
           data0 \<leftarrow> write_at (scsi_get_in_buffer cmd) 0 (replicate (unat alloc_len) 0);
           (data1, remain1, n) \<leftarrow>
             (if dbd then Some (data0, remain0, 0)
              else spc_memcpy data0 (unat actual0) remain0 (mode_block_descriptor lu) 8);
           (let actual1 = actual0 + n; avail1 = hdr_len + (if dbd then 0 else 8);
                pgs = (if pc = 0x3f then Some (mode_pages lu)
                       else map_option (\<lambda>pg. [pg]) (find_mode_page lu pc (b 3)))
            in case pgs of
                 None \<Rightarrow> illegal_cdb (upd_cmd (set_in_buffer data1) s)
               | Some pgs \<Rightarrow>
                   do { (data2, actual2, avail2) \<leftarrow> build_mode_pages data1 actual1 avail1 remain1 pctrl pgs;
                        Some (SAM_STAT_GOOD,
                          upd_cmd (scsi_set_in_resid_by_actual actual2 \<circ>
                            set_in_buffer (mode_sense_header mode6 alloc_len avail2 blk_desc_len data2)) s) }) })"

section \<open>MODE SELECT\<close>

text \<open>
  A page update reports a failure, changes the unit, and says whether the page
  changed.
\<close>

type_synonym mode_update = "bytes \<Rightarrow> scsi_lu \<Rightarrow> bool \<times> scsi_lu \<times> bool"

definition page_unchangeable :: "mode_pg \<Rightarrow> bytes \<Rightarrow> bool" where
  "page_unchangeable pg p =
     list_ex (\<lambda>i. let v = byte_at p i XOR byte_at (mode_data pg) i in
                   v \<noteq> 0 \<and> v AND NOT (byte_at (mode_data pg) (pcode_size pg + i)) \<noteq> 0)
       [0..<pcode_size pg]"

text \<open>
  The loop over the pages of the parameter list: the unit and \<open>add_ua\<close> are
  carried along; the first component is the final offset, or \<open>None\<close> on the way to
  the sense exit.
\<close>

function mode_select_loop ::
  "mode_update \<Rightarrow> bytes \<Rightarrow> nat \<Rightarrow> nat \<Rightarrow> scsi_lu \<Rightarrow> bool \<Rightarrow> nat option \<times> scsi_lu \<times> bool" where
  "mode_select_loop update data in_len offset lu ua =
     (if in_len \<le> offset + 2 then (Some offset, lu, ua)
      else if byte_at data offset AND 0x80 \<noteq> 0 then (None, lu, ua)
      else case find_mode_page lu (byte_at data offset AND 0x3f) 0 of
        None \<Rightarrow> (None, lu, ua)
      | Some pg \<Rightarrow>
          if in_len - (offset + 2) < pcode_size pg then (None, lu, ua)
          else if page_unchangeable pg (drop (offset + 2) data) then (None, lu, ua)
          else
            let (err, lu', changed) = update (drop offset data) lu in
            if err then (None, lu', ua)
            else mode_select_loop update data in_len (offset + unat (byte_at data (offset + 1)) + 2) lu' (ua \<or> changed))"
  by pat_completeness auto
termination
  by (relation "measure (\<lambda>(update, data, in_len, offset, lu, ua). in_len - offset)") auto

declare mode_select_loop.simps [simp del]

definition spc_mode_select :: "mode_update \<Rightarrow> hst \<Rightarrow> (int \<times> hst) option" where
  "spc_mode_select update s =
     (let cmd = hs_cmd s; b = byte_at (scb cmd); data = scsi_get_out_buffer cmd;
          mode6 = (b 0 = MODE_SELECT);
          list_len = (if mode6 then ucast (b 4) else push_bit 8 (ucast (b 7)) + ucast (b 8)) :: u32;
          in_len = unat (min list_len (scsi_get_out_length cmd));
          hdr = (if mode6 then 4 else 8);
          bd_len = (if mode6 then unat (byte_at data 3) else unat (byte_at data 6) * 256 + unat (byte_at data 7));
          parms = sense_exit ILLEGAL_REQUEST ASC_INVALID_FIELD_IN_PARMS
      in if hs_reserved s then Some (SAM_STAT_RESERVATION_CONFLICT, s)
         else if b 1 AND 0x10 = 0 \<or> b 1 AND 0x01 \<noteq> 0 then illegal_cdb s
         else if b 0 \<notin> {MODE_SELECT, MODE_SELECT_10} then None
         else if in_len < hdr then illegal_cdb s
         else if bd_len \<noteq> 0 \<and> bd_len \<noteq> 8 then Some (parms s)
         else if bd_len \<noteq> 0 \<and> length data < hdr + 8 then None
         else
           let lu = hs_lu s;
               lu1 = (if bd_len = 0 then lu else lu\<lparr>mode_block_descriptor := take 8 (drop hdr data)\<rparr>);
               (r, lu2, ua) = mode_select_loop update data in_len (hdr + bd_len) lu1 False;
               s2 = s\<lparr>hs_lu := lu2\<rparr>
           in case r of
                None \<Rightarrow> Some (parms s2)
              | Some offset \<Rightarrow>
                  let s3 = (if ua then s2\<lparr>hs_itns := ua_sense_add_other_it_nexus (cmd_itn_id cmd) lu2
                                             ASC_MODE_PARAMETERS_CHANGED (hs_itns s)\<rparr> else s2)
                  in if in_len \<noteq> offset
                     then Some (sense_exit ILLEGAL_REQUEST ASC_PARAMETER_LIST_LENGTH_ERR s3)
                     else Some (SAM_STAT_GOOD, s3))"

section \<open>REPORT SUPPORTED OPERATION CODES\<close>

text \<open>A template without a map supports every opcode.\<close>

definition is_bs_support_opcode :: "backingstore_template \<Rightarrow> u8 \<Rightarrow> bool" where
  "is_bs_support_opcode bst op =
     (if \<not> test_bit_map (unat TEST_UNIT_READY) (bs_supported_ops bst) then True
      else test_bit_map (unat op) (bs_supported_ops bst))"

definition timeout_desc :: "bool \<Rightarrow> bytes" where
  "timeout_desc rctd = (if rctd then [0, 0x0a] @ replicate 10 0 else [])"

definition opcode_desc :: "bool \<Rightarrow> u8 \<Rightarrow> u32 option \<Rightarrow> bytes" where
  "opcode_desc rctd op sa =
     (let n = get_scsi_command_size op; a = (case sa of None \<Rightarrow> 0 | Some a \<Rightarrow> a);
          fl = (if rctd then 0x02 else 0) OR (if sa \<noteq> None then 0x01 else 0)
      in [op, 0, ucast (drop_bit 8 a), ucast a, 0, fl, of_nat (n div 256), of_nat n] @ timeout_desc rctd)"

definition opcode_descs :: "scsi_lu \<Rightarrow> bool \<Rightarrow> u8 \<Rightarrow> bytes" where
  "opcode_descs lu rctd op =
     (let ops = dt_ops lu op in
      if cmd_perform ops = Some Spc_illegal_op then []
      else if \<not> is_bs_support_opcode (lu_bst lu) op then []
      else if service_actions ops = [] then opcode_desc rctd op None
      else concat (map (\<lambda>(a, _). opcode_desc rctd op (Some a)) (service_actions ops)))"

text \<open>
  The descriptors of all opcodes, built in a buffer of 2048 bytes; \<open>None\<close> is a
  list that overruns it.
\<close>

definition report_opcodes_all :: "bool \<Rightarrow> u32 \<Rightarrow> hst \<Rightarrow> (int \<times> hst) option" where
  "report_opcodes_all rctd alloc_len s =
     (let ds = concat (map (opcode_descs (hs_lu s) rctd) (map of_nat [0..<256])); avail_len = 4 + length ds in
      if 2048 < avail_len then None
      else return_data (be32_bytes (of_nat avail_len - 4) @ ds) avail_len alloc_len s)"

definition report_opcode_one :: "bool \<Rightarrow> u8 \<Rightarrow> u16 \<Rightarrow> bool \<Rightarrow> u32 \<Rightarrow> hst \<Rightarrow> (int \<times> hst) option" where
  "report_opcode_one rctd op sa is_sa alloc_len s =
     (let lu = hs_lu s; n = get_scsi_command_size op;
          data = [0, if rctd then 0x83 else 0x03, of_nat (n div 256), of_nat n]
                   @ take n (get_scsi_cdb_usage_data op (ucast sa)) @ timeout_desc rctd
      in if \<not> is_bs_support_opcode (lu_bst lu) op then Some (SAM_STAT_CHECK_CONDITION, s)
         else if is_sa = (service_actions (dt_ops lu op) = []) then Some (SAM_STAT_CHECK_CONDITION, s)
         else return_data data (4 + n + (if rctd then 12 else 0)) alloc_len s)"

definition spc_report_supported_opcodes :: "hst \<Rightarrow> (int \<times> hst) option" where
  "spc_report_supported_opcodes s =
     (let cmd = hs_cmd s; b = byte_at (scb cmd); opts = b 2 AND 0x07; op = b 3;
          sa = get_unaligned_be16 (scb cmd) 4; alloc_len = get_unaligned_be32 (scb cmd) 6;
          rctd = (b 2 AND 0x80 \<noteq> 0);
          one = (\<lambda>is_sa. do { (ret, s') \<leftarrow> report_opcode_one rctd op sa is_sa alloc_len s;
                               if ret \<noteq> 0 then illegal_cdb s' else Some (ret, s') })
      in if scsi_get_in_length cmd < alloc_len then illegal_cdb s
         else if opts = 0 then report_opcodes_all rctd alloc_len s
         else if opts = 1 then one False
         else if opts = 2 then one True
         else illegal_cdb s)"

definition maint_in_service_actions :: "(u32 \<times> perform_fn) list" where
  "maint_in_service_actions = [(0x0c, Spc_report_supported_opcodes)]"

section \<open>The remaining commands\<close>

definition spc_send_diagnostics :: "hst \<Rightarrow> (int \<times> hst) option" where
  "spc_send_diagnostics s =
     (if byte_at (scb (hs_cmd s)) 1 AND 0x04 = 0 then illegal_cdb s else Some (SAM_STAT_GOOD, s))"

text \<open>\<open>run\<close> calls the handler a table entry names.\<close>

definition spc_service_action :: "(perform_fn \<Rightarrow> hst \<Rightarrow> (int \<times> hst) option) \<Rightarrow> hst \<Rightarrow> (int \<times> hst) option" where
  "spc_service_action run s =
     (let b = byte_at (scb (hs_cmd s)); action = b 1 AND 0x1f in
      case find_service_action (service_actions (dt_ops (hs_lu s) (b 0))) (ucast action) of
        None \<Rightarrow> illegal_cdb s
      | Some fn \<Rightarrow> run fn s)"

definition spc_request_sense :: "hst \<Rightarrow> (int \<times> hst) option" where
  "spc_request_sense s =
     (let cmd = sense_data_build (hs_lu s) NO_SENSE NO_ADDITIONAL_SENSE (hs_cmd s);
          alloc_len = min (ucast (byte_at (scb cmd) 4)) (scsi_get_in_length cmd)
      in do { (buf, _, actual_len) \<leftarrow>
                spc_memcpy (scsi_get_in_buffer cmd) 0 alloc_len (sense_buffer cmd) (of_nat (sense_len cmd));
              Some (SAM_STAT_GOOD,
                s\<lparr>hs_cmd := (scsi_set_in_resid_by_actual actual_len (set_in_buffer buf cmd))
                   \<lparr>sense_buffer := replicate SCSI_SENSE_BUFFERSIZE 0, sense_len := 0\<rparr>\<rparr>) })"

definition spc_illegal_op :: "hst \<Rightarrow> (int \<times> hst) option" where
  "spc_illegal_op s = Some (sense_exit ILLEGAL_REQUEST ASC_INVALID_OP_CODE s)"

section \<open>Set-up and configuration\<close>

text \<open>\<open>lu_off\<close> is the \<open>lu_offline\<close> callback of the unit's device type, \<open>ty\<close> its type.\<close>

definition spc_lu_attrs :: "u8 \<Rightarrow> target \<Rightarrow> scsi_lu \<Rightarrow> scsi_lu" where
  "spc_lu_attrs ty tgt lu =
     (let a = attrs lu; t32 = nat (tid tgt mod 2 ^ 32); l = unat (lun lu) in
      lu\<lparr>attrs := a\<lparr>device_type := ty, qualifier := 0, thinprovisioning := 0, removable := 0,
           readonly := 0, swp := 0, sense_format := 0,
           vendor_id := snprintf_bytes (VENDOR_ID_LEN + 1) (str_bytes (''IET'' @ replicate 13 (CHR '' ''))) (vendor_id a),
           product_rev := snprintf_bytes (PRODUCT_REV_LEN + 1) (str_bytes ''0001'') (product_rev a),
           scsi_id := snprintf_bytes (SCSI_ID_LEN + 1)
             (str_bytes (''IET     '' @ print_hex04 t32 @ print_hex04 l)) (scsi_id a),
           scsi_sn := snprintf_bytes (SCSI_SN_LEN + 1)
             (str_bytes (''beaf'' @ print_int (tid tgt) @ print_digits 10 l)) (scsi_sn a),
           numeric_id := push_bit 32 (of_int (tid tgt)) OR lun lu\<rparr>\<rparr>)"

definition spc_lu_init ::
  "u8 \<Rightarrow> (target \<Rightarrow> scsi_lu \<Rightarrow> tgtadm_err \<times> scsi_lu) \<Rightarrow> target \<Rightarrow> scsi_lu \<Rightarrow> tgtadm_err \<times> scsi_lu" where
  "spc_lu_init ty lu_off tgt lu0 =
     (let lu1 = spc_lu_attrs ty tgt lu0;
          lu2 = update_vpd_80 (scsi_sn (attrs lu1))
                  (set_vpd 0x80 ((alloc_vpd SCSI_SN_LEN)\<lparr>vpd_update := Some Update_vpd_80\<rparr>) lu1);
          lu3 = update_vpd_83 (scsi_id (attrs lu2))
                  (set_vpd 0x83 ((alloc_vpd (3 * DESG_HDR_LEN + NAA_DESG_LEN + SCSI_ID_LEN + NAA_DESG_LEN_EXTD))
                     \<lparr>vpd_update := Some Update_vpd_83\<rparr>) lu2);
          lu4 = update_vpd_b0 (set_vpd 0xb0 ((alloc_vpd BLOCK_LIMITS_VPD_LEN)\<lparr>vpd_update := Some Update_vpd_b0\<rparr>) lu3);
          lu5 = update_vpd_b2 (set_vpd 0xb2 ((alloc_vpd LBP_VPD_LEN)\<lparr>vpd_update := Some Update_vpd_b2\<rparr>) lu4)
      in (TGTADM_SUCCESS, snd (lu_off tgt lu5)))"

datatype lu_opt =
    Opt_scsi_id | Opt_scsi_sn | Opt_vendor_id | Opt_product_id | Opt_product_rev | Opt_sense_format
  | Opt_lbppbe | Opt_la_lba | Opt_optimal_xfer_gran | Opt_optimal_xfer_len | Opt_removable
  | Opt_readonly | Opt_online | Opt_mode_page | Opt_path | Opt_bsopts | Opt_bsoflags
  | Opt_thinprovisioning

definition tokens :: "(lu_opt \<times> string) list" where
  "tokens =
     [(Opt_scsi_id, ''scsi_id=''), (Opt_scsi_sn, ''scsi_sn=''), (Opt_vendor_id, ''vendor_id=''),
      (Opt_product_id, ''product_id=''), (Opt_product_rev, ''product_rev=''),
      (Opt_sense_format, ''sense_format=''), (Opt_lbppbe, ''lbppbe=''), (Opt_la_lba, ''la_lba=''),
      (Opt_optimal_xfer_gran, ''optimal_xfer_gran=''), (Opt_optimal_xfer_len, ''optimal_xfer_len=''),
      (Opt_removable, ''removable=''), (Opt_readonly, ''readonly=''), (Opt_online, ''online=''),
      (Opt_mode_page, ''mode_page=''), (Opt_path, ''path=''), (Opt_bsopts, ''bsopts=''),
      (Opt_bsoflags, ''bsoflags=''), (Opt_thinprovisioning, ''thin_provisioning='')]"

text \<open>The first entry whose pattern matches, and the text after the prefix.\<close>

fun match_token :: "string \<Rightarrow> (lu_opt \<times> string) list \<Rightarrow> (lu_opt \<times> string) option" where
  "match_token p [] = None"
| "match_token p ((opt, pat) # ts) =
     (case match_prefix pat p of Some v \<Rightarrow> Some (opt, v) | None \<Rightarrow> match_token p ts)"

definition upd_attrs :: "(lu_phy_attr \<Rightarrow> lu_phy_attr) \<Rightarrow> scsi_lu \<Rightarrow> scsi_lu" where
  "upd_attrs f lu = lu\<lparr>attrs := f (attrs lu)\<rparr>"

text \<open>The options that only change attributes and pages and leave the error code alone.\<close>

definition lu_config_attr :: "lu_opt \<Rightarrow> string \<Rightarrow> scsi_lu \<Rightarrow> scsi_lu" where
  "lu_config_attr opt v lu =
     (let num = atoi (take 1023 v); str = str_bytes v in
      case opt of
        Opt_scsi_id \<Rightarrow>
          (let lu1 = upd_attrs (\<lambda>a. a\<lparr>scsi_id := snprintf_bytes (SCSI_ID_LEN + 1) str (scsi_id a)\<rparr>) lu
           in update_vpd_83 (scsi_id (attrs lu1)) lu1)
      | Opt_scsi_sn \<Rightarrow>
          (let lu1 = upd_attrs (\<lambda>a. a\<lparr>scsi_sn := snprintf_bytes (SCSI_SN_LEN + 1) str (scsi_sn a)\<rparr>) lu
           in update_vpd_80 (scsi_sn (attrs lu1)) lu1)
      | Opt_vendor_id \<Rightarrow> upd_attrs (\<lambda>a. a\<lparr>vendor_id := snprintf_bytes (VENDOR_ID_LEN + 1) str (vendor_id a)\<rparr>) lu
      | Opt_product_id \<Rightarrow> upd_attrs (\<lambda>a. a\<lparr>product_id := snprintf_bytes (PRODUCT_ID_LEN + 1) str (product_id a)\<rparr>) lu
      | Opt_product_rev \<Rightarrow> upd_attrs (\<lambda>a. a\<lparr>product_rev := snprintf_bytes (PRODUCT_REV_LEN + 1) str (product_rev a)\<rparr>) lu
      | Opt_sense_format \<Rightarrow> upd_attrs (\<lambda>a. a\<lparr>sense_format := ucast num\<rparr>) lu
      | Opt_lbppbe \<Rightarrow> upd_attrs (\<lambda>a. a\<lparr>lbppbe := ucast num, no_auto_lbppbe := 1\<rparr>) lu
      | Opt_la_lba \<Rightarrow> upd_attrs (\<lambda>a. a\<lparr>la_lba := ucast num\<rparr>) lu
      | Opt_optimal_xfer_gran \<Rightarrow> update_b0_opt_xfer_gran num lu
      | Opt_optimal_xfer_len \<Rightarrow> update_b0_opt_xfer_len num lu
      | Opt_removable \<Rightarrow> upd_attrs (\<lambda>a. a\<lparr>removable := ucast num\<rparr>) lu
      | Opt_readonly \<Rightarrow> upd_attrs (\<lambda>a. a\<lparr>readonly := ucast num\<rparr>) lu
      | Opt_thinprovisioning \<Rightarrow>
          update_vpd_b2 (update_vpd_b0 (upd_attrs (\<lambda>a. a\<lparr>thinprovisioning := ucast num\<rparr>) lu))
      | _ \<Rightarrow> lu)"

text \<open>
  One parameter; \<open>fn\<close> takes what the table does not know, \<open>bsopts\<close> and \<open>bsoflags\<close>
  included.
\<close>

definition lu_config_opt ::
  "bs_ops \<Rightarrow> device_type_template \<Rightarrow> target \<Rightarrow> (scsi_lu \<Rightarrow> string \<Rightarrow> tgtadm_err \<times> scsi_lu) option \<Rightarrow>
   string \<Rightarrow> tgtadm_err \<times> scsi_lu \<Rightarrow> tgtadm_err \<times> scsi_lu" where
  "lu_config_opt bs dt tgt fn p r =
     (let err = fst r; lu = snd r;
          other = (case fn of None \<Rightarrow> (TGTADM_INVALID_REQUEST, lu) | Some f \<Rightarrow> f lu p) in
      case match_token p tokens of
        None \<Rightarrow> other
      | Some (opt, v) \<Rightarrow>
          if opt \<in> {Opt_bsopts, Opt_bsoflags} then other
          else if opt = Opt_online then
            (if atoi (take 1023 v) \<noteq> 0 then dt_lu_online dt lu else dt_lu_offline dt tgt lu)
          else if opt = Opt_mode_page then add_mode_page lu (take 1023 v)
          else if opt = Opt_path then tgt_device_path_update bs dt tgt lu (take 1023 v)
          else (err, lu_config_attr opt v lu))"

definition lu_config ::
  "bs_ops \<Rightarrow> device_type_template \<Rightarrow> (scsi_lu \<Rightarrow> string \<Rightarrow> tgtadm_err \<times> scsi_lu) option \<Rightarrow>
   target \<Rightarrow> scsi_lu \<Rightarrow> string \<Rightarrow> tgtadm_err \<times> scsi_lu" where
  "lu_config bs dt fn tgt lu params =
     (let params1 = (if take 9 params = ''targetOps'' then drop 10 params else params) in
      fold (lu_config_opt bs dt tgt fn) (strtok_all (CHR '','') [] params1) (TGTADM_SUCCESS, lu))"


end
