(* ===== verification/Sbc.thy ===== *)
theory Sbc
  imports Spc
begin

text \<open>
  The block device type (\<open>usr/sbc.c\<close>): its command handlers, operation table and
  the set-up of a disk. The backing store's \<open>bs_cmd_submit\<close> is the argument
  \<open>submit\<close> of the handlers that call it; it returns the C result (zero for
  success) and the changed objects, \<open>None\<close> when it accesses memory it must not.
\<close>

unbundle bit_operations_syntax

type_synonym submit_fn = "hst \<Rightarrow> (int \<times> hst) option"

section \<open>Mode pages\<close>

text \<open>The result \<open>True\<close> of the first component is the failure code 1.\<close>

definition upd_mode_byte :: "nat \<Rightarrow> u8 \<Rightarrow> bool \<Rightarrow> mode_pg \<Rightarrow> mode_pg" where
  "upd_mode_byte i m b pg =
     pg\<lparr>mode_data := (mode_data pg)[i := if b then byte_at (mode_data pg) i OR m else byte_at (mode_data pg) i AND NOT m]\<rparr>"

definition sbc_mode_page_update :: mode_update where
  "sbc_mode_page_update data lu =
     (let pc = byte_at data 0 AND 0x3f; sub = (if byte_at data 0 AND 0x40 \<noteq> 0 then byte_at data 1 else 0) in
      case find_mode_page lu pc sub of
        None \<Rightarrow> (True, lu, False)
      | Some pg \<Rightarrow>
          if pc = 0x08 then
            let f = upd_mode_byte 0 0x4 (byte_at data 2 AND 0x4 \<noteq> 0) in
            (False, upd_mode_page pc sub f lu, byte_at (mode_data (f pg)) 0 \<noteq> byte_at (mode_data pg) 0)
          else if pc = 0x0a then
            let on = (byte_at data 4 AND 0x8 \<noteq> 0); f = upd_mode_byte 2 0x8 on in
            (False, upd_attrs (\<lambda>a. a\<lparr>swp := if on then 1 else 0\<rparr>) (upd_mode_page pc sub f lu),
             byte_at (mode_data (f pg)) 2 \<noteq> byte_at (mode_data pg) 2)
          else (True, lu, False))"

definition sbc_mode_select :: "hst \<Rightarrow> (int \<times> hst) option" where
  "sbc_mode_select s = spc_mode_select sbc_mode_page_update s"

text \<open>\<open>None\<close> is the unchecked write of the device-specific parameter past the buffer.\<close>

definition sbc_mode_sense :: "hst \<Rightarrow> (int \<times> hst) option" where
  "sbc_mode_sense s =
     do { (ret, s1) \<leftarrow> spc_mode_sense s;
          if ret \<noteq> SAM_STAT_GOOD then Some (ret, s1)
          else
            let a = attrs (hs_lu s1);
                v = (if readonly a \<noteq> 0 \<or> swp a \<noteq> 0 then 0x10 OR 0x80 else 0x10);
                i = (if byte_at (scb (hs_cmd s1)) 0 = 0x1a then 2 else 3)
            in do { buf \<leftarrow> write_at (scsi_get_in_buffer (hs_cmd s1)) i [v];
                    Some (SAM_STAT_GOOD, upd_cmd (set_in_buffer buf) s1) } }"

section \<open>FORMAT UNIT and UNMAP\<close>

definition write_protected :: "scsi_lu \<Rightarrow> bool" where
  "write_protected lu \<longleftrightarrow> readonly (attrs lu) \<noteq> 0 \<or> swp (attrs lu) \<noteq> 0"

definition medium_absent :: "scsi_lu \<Rightarrow> bool" where
  "medium_absent lu \<longleftrightarrow> removable (attrs lu) \<noteq> 0 \<and> online (attrs lu) = 0"

text \<open>The failure exit without a residual count.\<close>

definition sense_only :: "u8 \<Rightarrow> u16 \<Rightarrow> hst \<Rightarrow> int \<times> hst" where
  "sense_only key asc s = (SAM_STAT_CHECK_CONDITION, upd_cmd (sense_data_build (hs_lu s) key asc) s)"

definition sbc_format_unit :: "hst \<Rightarrow> (int \<times> hst) option" where
  "sbc_format_unit s =
     (let lu = hs_lu s; b1 = byte_at (scb (hs_cmd s)) 1 in
      if hs_reserved s then Some (SAM_STAT_RESERVATION_CONFLICT, s)
      else if online (attrs lu) = 0 then Some (sense_only NOT_READY ASC_MEDIUM_NOT_PRESENT s)
      else if write_protected lu then Some (sense_only DATA_PROTECT ASC_WRITE_PROTECT s)
      else if b1 AND 0x80 \<noteq> 0 \<or> b1 AND 0x10 \<noteq> 0 \<or> b1 AND 0x07 \<noteq> 0
      then Some (sense_only ILLEGAL_REQUEST ASC_INVALID_FIELD_IN_CDB s)
      else Some (SAM_STAT_GOOD, s))"

text \<open>The failure exit of the data commands: the offset is cleared and no data moves.\<close>

definition sense_reset :: "u8 \<Rightarrow> u16 \<Rightarrow> hst \<Rightarrow> int \<times> hst" where
  "sense_reset key asc s =
     (SAM_STAT_CHECK_CONDITION,
      upd_cmd (sense_data_build (hs_lu s) key asc \<circ> scsi_set_out_resid_by_actual 0 \<circ>
               scsi_set_in_resid_by_actual 0 \<circ> (\<lambda>c. c\<lparr>c_offset := 0\<rparr>)) s)"

text \<open>A submitted UNMAP runs into the failure exit as well, with the initial sense code.\<close>

definition sbc_unmap :: "submit_fn \<Rightarrow> hst \<Rightarrow> (int \<times> hst) option" where
  "sbc_unmap submit s =
     (let lu = hs_lu s in
      if hs_reserved s then Some (SAM_STAT_RESERVATION_CONFLICT, s)
      else if byte_at (scb (hs_cmd s)) 1 AND 0x01 \<noteq> 0
      then Some (sense_reset ILLEGAL_REQUEST ASC_INVALID_FIELD_IN_CDB s)
      else if medium_absent lu then Some (sense_reset NOT_READY ASC_MEDIUM_NOT_PRESENT s)
      else if thinprovisioning (attrs lu) = 0 then Some (sense_reset ILLEGAL_REQUEST ASC_INVALID_OP_CODE s)
      else if write_protected lu then Some (sense_reset DATA_PROTECT ASC_WRITE_PROTECT s)
      else do { (ret, s1) \<leftarrow> submit s;
                Some (if ret \<noteq> 0 then sense_reset HARDWARE_ERROR ASC_INTERNAL_TGT_FAILURE s1
                      else sense_reset ILLEGAL_REQUEST ASC_LUN_NOT_SUPPORTED s1) })"

section \<open>READ and WRITE\<close>

text \<open>The opcode groups of the \<open>switch\<close> statements.\<close>

definition protect_opcode :: "u8 \<Rightarrow> bool" where
  "protect_opcode op \<longleftrightarrow>
     op \<in> {READ_10, READ_12, READ_16, WRITE_10, WRITE_12, WRITE_16, ORWRITE_16, WRITE_VERIFY,
            WRITE_VERIFY_12, WRITE_VERIFY_16, COMPARE_AND_WRITE}"

definition write_same_opcode :: "u8 \<Rightarrow> bool" where
  "write_same_opcode op \<longleftrightarrow> op \<in> {WRITE_SAME, WRITE_SAME_16}"

definition plain_read_opcode :: "u8 \<Rightarrow> bool" where
  "plain_read_opcode op \<longleftrightarrow> op \<in> {READ_6, READ_10, READ_12, READ_16}"

definition plain_write_opcode :: "u8 \<Rightarrow> bool" where
  "plain_write_opcode op \<longleftrightarrow>
     op \<in> {WRITE_6, WRITE_10, WRITE_12, WRITE_16, WRITE_VERIFY, WRITE_VERIFY_12, WRITE_VERIFY_16}"

definition write_opcode :: "u8 \<Rightarrow> bool" where
  "write_opcode op \<longleftrightarrow>
     op \<in> {WRITE_6, WRITE_10, WRITE_12, WRITE_16, ORWRITE_16, WRITE_VERIFY, WRITE_VERIFY_12,
            WRITE_VERIFY_16, WRITE_SAME, WRITE_SAME_16, PRE_FETCH_10, PRE_FETCH_16, COMPARE_AND_WRITE}"

definition lu_blocks :: "scsi_lu \<Rightarrow> u64" where
  "lu_blocks lu = drop_bit (blk_shift lu) (lu_size lu)"

text \<open>The check that the range is inside the unit; the sum is a 64-bit one.\<close>

definition lba_out_of_range :: "scsi_lu \<Rightarrow> u64 \<Rightarrow> u32 \<Rightarrow> bool" where
  "lba_out_of_range lu lba cnt \<longleftrightarrow>
     (if cnt \<noteq> 0 then lba + ucast cnt < lba \<or> lba + ucast cnt > lu_blocks lu else lba \<ge> lu_blocks lu)"

text \<open>The checks before the transfer: a sense key and code, or the address and the count.\<close>

definition sbc_rw_check :: "scsi_cmd \<Rightarrow> scsi_lu \<Rightarrow> (u8 \<times> u16) + (u64 \<times> u32)" where
  "sbc_rw_check cmd lu =
     (let op = byte_at (scb cmd) 0; b1 = byte_at (scb cmd) 1;
          lba = scsi_rw_offset (scb cmd); cnt0 = scsi_rw_count (scb cmd);
          blocksize = push_bit (blk_shift lu) 1 :: u64;
          cnt = (if write_same_opcode op \<and> cnt0 = 0 then ucast (lu_blocks lu - lba) else cnt0)
      in if medium_absent lu then Inl (NOT_READY, ASC_MEDIUM_NOT_PRESENT)
         else if protect_opcode op \<and> b1 AND 0xe0 \<noteq> 0 then Inl (ILLEGAL_REQUEST, ASC_INVALID_FIELD_IN_CDB)
         else if write_same_opcode op \<and>
             (b1 AND 0x10 \<noteq> 0 \<or> b1 AND 0x08 \<noteq> 0 \<and> thinprovisioning (attrs lu) = 0 \<or>
              b1 AND 0xe0 \<noteq> 0 \<or> b1 AND 0x06 = 0x06)
         then Inl (ILLEGAL_REQUEST, ASC_INVALID_FIELD_IN_CDB)
         else if write_same_opcode op \<and> scsi_get_out_length cmd \<noteq> 0 \<and> blocksize \<noteq> ucast (scsi_get_out_length cmd)
         then Inl (ILLEGAL_REQUEST, ASC_PARAMETER_LIST_LENGTH_ERR)
         else if write_protected lu \<and> write_opcode op then Inl (DATA_PROTECT, ASC_WRITE_PROTECT)
         else if lba_out_of_range lu lba cnt then Inl (ILLEGAL_REQUEST, ASC_LBA_OUT_OF_RANGE)
         else Inr (lba, cnt))"

definition set_out_length :: "u32 \<Rightarrow> scsi_cmd \<Rightarrow> scsi_cmd" where
  "set_out_length n cmd = cmd\<lparr>out_sdb := (out_sdb cmd)\<lparr>sdb_length := n\<rparr>\<rparr>"

definition sbc_rw_setup :: "scsi_lu \<Rightarrow> u64 \<Rightarrow> u32 \<Rightarrow> scsi_cmd \<Rightarrow> scsi_cmd" where
  "sbc_rw_setup lu lba cnt cmd0 =
     (let cmd = cmd0\<lparr>c_offset := push_bit (blk_shift lu) lba, c_tl := push_bit (blk_shift lu) cnt\<rparr>;
          op = byte_at (scb cmd) 0
      in if plain_read_opcode op then
           (if c_tl cmd \<noteq> scsi_get_in_length cmd then scsi_set_in_resid_by_actual (c_tl cmd) cmd else cmd)
         else if plain_write_opcode op then
           (if c_tl cmd \<noteq> scsi_get_out_length cmd then
              let cmd1 = scsi_set_out_resid_by_actual (c_tl cmd) cmd in
              if c_tl cmd1 < scsi_get_out_length cmd1 then set_out_length (c_tl cmd1) cmd1 else cmd1
            else cmd)
         else cmd)"

definition sbc_rw :: "submit_fn \<Rightarrow> hst \<Rightarrow> (int \<times> hst) option" where
  "sbc_rw submit s =
     (if hs_reserved s then Some (SAM_STAT_RESERVATION_CONFLICT, s)
      else case sbc_rw_check (hs_cmd s) (hs_lu s) of
        Inl (key, asc) \<Rightarrow> Some (sense_reset key asc s)
      | Inr (lba, cnt) \<Rightarrow>
          do { (ret, s1) \<leftarrow> submit (upd_cmd (sbc_rw_setup (hs_lu s) lba cnt) s);
               Some (if ret \<noteq> 0 then sense_reset HARDWARE_ERROR ASC_INTERNAL_TGT_FAILURE s1
                     else (SAM_STAT_GOOD, s1)) })"

section \<open>RESERVE and RELEASE\<close>

text \<open>
  \<open>device_reserve\<close> and \<open>device_release\<close> on the unit of the command: they look the
  unit up by the target and LUN the command was queued for.
\<close>

definition sbc_reserve :: "hst \<Rightarrow> (int \<times> hst) option" where
  "sbc_reserve s =
     (if hs_reserved s then Some (SAM_STAT_RESERVATION_CONFLICT, s)
      else Some (SAM_STAT_GOOD, upd_lu (\<lambda>lu. lu\<lparr>reserve_id := cmd_itn_id (hs_cmd s)\<rparr>) s))"

definition sbc_release :: "hst \<Rightarrow> (int \<times> hst) option" where
  "sbc_release s =
     Some (SAM_STAT_GOOD,
       if reserve_id (hs_lu s) = cmd_itn_id (hs_cmd s) then upd_lu (\<lambda>lu. lu\<lparr>reserve_id := 0\<rparr>) s else s)"

section \<open>Capacity\<close>

definition sbc_read_capacity :: "hst \<Rightarrow> (int \<times> hst) option" where
  "sbc_read_capacity s =
     (let cmd = hs_cmd s; lu = hs_lu s; b = byte_at (scb cmd); n = lu_blocks lu;
          done = (\<lambda>c. scsi_set_in_resid_by_actual 8 c)
      in if medium_absent lu then Some (sense_exit NOT_READY ASC_MEDIUM_NOT_PRESENT s)
         else if b 8 AND 0x1 = 0 \<and> b 2 OR b 3 OR b 4 OR b 5 \<noteq> 0
         then Some (sense_exit ILLEGAL_REQUEST ASC_INVALID_FIELD_IN_CDB s)
         else if scsi_get_in_length cmd < 8 then Some (SAM_STAT_GOOD, upd_cmd done s)
         else do { buf \<leftarrow> write_at (scsi_get_in_buffer cmd) 0
                     (be32_bytes (if drop_bit 32 n \<noteq> 0 then 0xffffffff else ucast (n - 1)) @
                      be32_bytes (push_bit (blk_shift lu) 1));
                   Some (SAM_STAT_GOOD, upd_cmd (done \<circ> set_in_buffer buf) s) })"

definition sbc_verify :: "submit_fn \<Rightarrow> hst \<Rightarrow> (int \<times> hst) option" where
  "sbc_verify submit s =
     (let cmd = hs_cmd s; lu = hs_lu s; b1 = byte_at (scb cmd) 1;
          lba = scsi_rw_offset (scb cmd); cnt = scsi_rw_count (scb cmd)
      in if medium_absent lu then Some (sense_exit NOT_READY ASC_MEDIUM_NOT_PRESENT s)
         else if b1 AND 0xe0 \<noteq> 0 then Some (sense_exit ILLEGAL_REQUEST ASC_INVALID_FIELD_IN_CDB s)
         else if b1 AND 0x02 = 0 then Some (SAM_STAT_GOOD, s)
         else if lba_out_of_range lu lba cnt then Some (sense_exit ILLEGAL_REQUEST ASC_LBA_OUT_OF_RANGE s)
         else do { (ret, s1) \<leftarrow> submit (upd_cmd (\<lambda>c. c\<lparr>c_offset := push_bit (blk_shift lu) lba\<rparr>) s);
                   Some (if ret \<noteq> 0 then sense_exit HARDWARE_ERROR ASC_INTERNAL_TGT_FAILURE s1
                         else (SAM_STAT_GOOD, s1)) })"

definition readcapacity16_buf :: "scsi_lu \<Rightarrow> bytes" where
  "readcapacity16_buf lu =
     (let a = attrs lu;
          val = push_bit 16 (ucast (lbppbe a)) OR ucast (la_lba a)
                  OR (if thinprovisioning a \<noteq> 0 then push_bit 14 3 else 0)
      in be64_bytes (lu_blocks lu - 1) @ be32_bytes (push_bit (blk_shift lu) 1) @ be32_bytes val @ replicate 16 0)"

definition sbc_readcapacity16 :: "hst \<Rightarrow> (int \<times> hst) option" where
  "sbc_readcapacity16 s =
     (let cmd = hs_cmd s; lu = hs_lu s; alloc_len = get_unaligned_be32 (scb cmd) 10 in
      if medium_absent lu then Some (sense_only NOT_READY ASC_MEDIUM_NOT_PRESENT s)
      else if scsi_get_in_length cmd < alloc_len then Some (sense_only ILLEGAL_REQUEST ASC_INVALID_FIELD_IN_CDB s)
      else return_data (readcapacity16_buf lu) 32 alloc_len s)"

section \<open>GET LBA STATUS\<close>

text \<open>
  \<open>next_data\<close> and \<open>next_hole\<close> are \<open>lseek\<close> with \<open>SEEK_DATA\<close> and \<open>SEEK_HOLE\<close>: the
  returned offset as a 64-bit value, where an error is \<open>-1\<close>. The loop ends only
  when they make progress, so it is a partial function.
\<close>

partial_function (option) getlbastatus_loop ::
  "(u64 \<Rightarrow> u64) \<Rightarrow> (u64 \<Rightarrow> u64) \<Rightarrow> scsi_lu \<Rightarrow> bool \<Rightarrow> u64 \<Rightarrow> bytes \<Rightarrow> u32 \<Rightarrow> u32 \<Rightarrow> u32 \<Rightarrow>
   (bytes \<times> u32 \<times> u32) option" where
  "getlbastatus_loop next_data next_hole lu mapped offset buf avail_len remain_len actual_len =
     (let nxt0 = (if \<not> mapped then next_data offset else next_hole offset) in
      if nxt0 = offset then
        (if offset < lu_size lu
         then getlbastatus_loop next_data next_hole lu (\<not> mapped) offset buf avail_len remain_len actual_len
         else Some (buf, avail_len, actual_len))
      else
        let nxt = (if nxt0 > lu_size lu then lu_size lu else nxt0);
            data = be64_bytes (drop_bit (blk_shift lu) offset) @
                   be32_bytes (ucast (drop_bit (blk_shift lu) (nxt - offset))) @
                   [if mapped then 0 else 1, 0, 0, 0]
        in do { (buf1, remain1, n) \<leftarrow> spc_memcpy buf (unat avail_len) remain_len data 16;
                if nxt < lu_size lu
                then getlbastatus_loop next_data next_hole lu (\<not> mapped) nxt buf1 (avail_len + 16) remain1 (actual_len + n)
                else Some (buf1, avail_len + 16, actual_len + n) })"

definition sbc_getlbastatus :: "(u64 \<Rightarrow> u64) \<Rightarrow> (u64 \<Rightarrow> u64) \<Rightarrow> hst \<Rightarrow> (int \<times> hst) option" where
  "sbc_getlbastatus next_data next_hole s =
     (let cmd = hs_cmd s; lu = hs_lu s; offset = push_bit (blk_shift lu) (get_unaligned_be64 (scb cmd) 2);
          alloc_len = get_unaligned_be32 (scb cmd) 10
      in if medium_absent lu then Some (sense_only NOT_READY ASC_MEDIUM_NOT_PRESENT s)
         else if offset \<ge> lu_size lu then Some (sense_only ILLEGAL_REQUEST ASC_LBA_OUT_OF_RANGE s)
         else if alloc_len < 4 \<or> scsi_get_in_length cmd < alloc_len
         then Some (sense_only ILLEGAL_REQUEST ASC_INVALID_FIELD_IN_CDB s)
         else do { (buf0, remain0, n) \<leftarrow> spc_memcpy (scsi_get_in_buffer cmd) 0 alloc_len (replicate 16 0) 8;
                   (buf1, avail, actual) \<leftarrow> getlbastatus_loop next_data next_hole lu True offset buf0 8 remain0 n;
                   buf2 \<leftarrow> write_at buf1 0 (be32_bytes (avail - 4));
                   Some (SAM_STAT_GOOD, upd_cmd (scsi_set_in_resid_by_actual actual \<circ> set_in_buffer buf2) s) })"

definition sbc_service_actions :: "(u32 \<times> perform_fn) list" where
  "sbc_service_actions = [(ucast SAI_READ_CAPACITY_16, Sbc_readcapacity16), (ucast SAI_GET_LBA_STATUS, Sbc_getlbastatus)]"

definition sbc_service_action :: "(perform_fn \<Rightarrow> hst \<Rightarrow> (int \<times> hst) option) \<Rightarrow> hst \<Rightarrow> (int \<times> hst) option" where
  "sbc_service_action run s =
     (let b = byte_at (scb (hs_cmd s)); action = b 1 AND 0x1f in
      case find_service_action (service_actions (dt_ops (hs_lu s) (b 0))) (ucast action) of
        None \<Rightarrow> illegal_cdb s
      | Some fn \<Rightarrow> run fn s)"

text \<open>The results of \<open>submit\<close> that count as failures are \<open>EROFS\<close>, \<open>EINVAL\<close>, \<open>EBADF\<close> and \<open>EIO\<close>.\<close>

definition sbc_sync_cache :: "submit_fn \<Rightarrow> hst \<Rightarrow> (int \<times> hst) option" where
  "sbc_sync_cache submit s =
     (if hs_reserved s then Some (SAM_STAT_RESERVATION_CONFLICT, s)
      else
        let s0 = upd_cmd (scsi_set_in_resid_by_actual 0) s in
        if medium_absent (hs_lu s) then Some (sense_only NOT_READY ASC_MEDIUM_NOT_PRESENT s0)
        else do { (ret, s1) \<leftarrow> submit s0;
                  Some (if ret \<in> {30, 22, 9, 5} then sense_only HARDWARE_ERROR ASC_INTERNAL_TGT_FAILURE s1
                        else (SAM_STAT_GOOD, s1)) })"

section \<open>The device type\<close>

definition pr_read_bits :: u8 where "pr_read_bits = PR_EA_FA OR PR_EA_FN"
definition pr_write_bits :: u8 where "pr_write_bits = PR_WE_FA OR PR_EA_FA OR PR_WE_FN OR PR_EA_FN"

text \<open>The entries of the table that are not \<open>spc_illegal_op\<close>.\<close>

definition sbc_op_list :: "(u8 \<times> perform_fn \<times> (u32 \<times> perform_fn) list \<times> u8) list" where
  "sbc_op_list =
     [(0x00, Spc_test_unit, [], 0), (0x03, Spc_request_sense, [], 0), (0x04, Sbc_format_unit, [], 0),
      (0x08, Sbc_rw, [], pr_read_bits), (0x0a, Sbc_rw, [], pr_write_bits),
      (0x12, Spc_inquiry, [], 0), (0x15, Sbc_mode_select, [], pr_write_bits),
      (0x16, Sbc_reserve, [], 0), (0x17, Sbc_release, [], 0),
      (0x1a, Sbc_mode_sense, [], pr_write_bits), (0x1b, Spc_start_stop, [], PR_SPECIAL),
      (0x1d, Spc_send_diagnostics, [], 0), (0x1e, Spc_prevent_allow, [], 0),
      (0x25, Sbc_read_capacity, [], 0),
      (0x28, Sbc_rw, [], pr_read_bits), (0x2a, Sbc_rw, [], pr_write_bits),
      (0x2e, Sbc_rw, [], pr_read_bits), (0x2f, Sbc_verify, [], pr_read_bits),
      (0x34, Sbc_rw, [], pr_read_bits), (0x35, Sbc_sync_cache, [], pr_write_bits),
      (0x41, Sbc_rw, [], 0), (0x42, Sbc_unmap, [], 0),
      (0x55, Sbc_mode_select, [], pr_write_bits), (0x5a, Sbc_mode_sense, [], pr_write_bits),
      (0x5e, Spc_service_action, persistent_reserve_in_actions, 0),
      (0x5f, Spc_service_action, persistent_reserve_out_actions, 0),
      (0x88, Sbc_rw, [], pr_read_bits), (0x8a, Sbc_rw, [], pr_write_bits), (0x8b, Sbc_rw, [], pr_read_bits),
      (0x8e, Sbc_rw, [], pr_read_bits), (0x8f, Sbc_verify, [], pr_read_bits),
      (0x90, Sbc_rw, [], pr_read_bits), (0x91, Sbc_sync_cache, [], pr_write_bits), (0x93, Sbc_rw, [], 0),
      (0x9e, Sbc_service_action, sbc_service_actions, 0),
      (0xa0, Spc_report_luns, [], 0), (0xa3, Spc_service_action, maint_in_service_actions, 0),
      (0xa8, Sbc_rw, [], pr_read_bits), (0xaa, Sbc_rw, [], pr_write_bits),
      (0xae, Sbc_rw, [], pr_read_bits), (0xaf, Sbc_verify, [], pr_read_bits)]"

definition table_op :: "(u8 \<times> perform_fn \<times> (u32 \<times> perform_fn) list \<times> u8) list \<Rightarrow> u8 \<Rightarrow> device_type_operations" where
  "table_op tab op =
     (case map_of tab op of
        None \<Rightarrow> \<lparr>cmd_perform = Some Spc_illegal_op, service_actions = [], pr_conflict_bits = 0\<rparr>
      | Some (fn, sas, bits) \<Rightarrow> \<lparr>cmd_perform = Some fn, service_actions = sas, pr_conflict_bits = bits\<rparr>)"

definition sbc_ops :: "u8 \<Rightarrow> device_type_operations" where
  "sbc_ops = table_op sbc_op_list"

text \<open>The file-scope default of the block shift.\<close>

abbreviation (input) "DEFAULT_BLK_SHIFT \<equiv> 9 :: nat"

definition sbc_mode_pages :: "scsi_lu \<Rightarrow> scsi_lu" where
  "sbc_mode_pages lu =
     (let add = (\<lambda>p lu. snd (add_mode_page lu p)) in
      (add ''0x1c:0:10:8:0:0:0:0:0:0:0:0:0'' \<circ>
       add ''0x0a:1:0x1c:0x04:0x00:0x00'' \<circ>
       (\<lambda>lu. snd (set_mode_page_changeable_mask 0x0a 0 ((replicate 10 0)[2 := 0x08]) lu)) \<circ>
       add ''0x0a:0:10:2:0x10:0:0:0:0:0:0:2:0'' \<circ>
       (\<lambda>lu. snd (set_mode_page_changeable_mask 8 0 ((replicate 18 0)[0 := 0x4]) lu)) \<circ>
       add ''8:0:18:0x14:0:0xff:0xff:0:0:0xff:0xff:0xff:0xff:0x80:0x14:0:0:0:0:0:0'' \<circ>
       add ''2:0:14:0x80:0x80:0:0xa:0:0:0:0:0:0:0:0:0:0'' \<circ>
       add ''0:0:0'') lu)"

definition sbc_lu_init :: "(target \<Rightarrow> scsi_lu \<Rightarrow> tgtadm_err \<times> scsi_lu) \<Rightarrow> target \<Rightarrow> scsi_lu \<Rightarrow> tgtadm_err \<times> scsi_lu" where
  "sbc_lu_init lu_off tgt lu0 =
     (let (err, lu1) = spc_lu_init TYPE_DISK lu_off tgt lu0 in
      if err \<noteq> TGTADM_SUCCESS then (TGTADM_NOMEM, lu1)
      else
        let lu2 = upd_attrs (\<lambda>a. a\<lparr>product_id := strncpy_bytes (PRODUCT_ID_LEN + 1) (str_bytes ''VIRTUAL-DISK''),
                    version_desc := (version_desc a)[0 := 0x04C0, 1 := 0x0960, 2 := 0x0300]\<rparr>) lu1;
            lu3 = (if blk_shift lu2 = 0 then lu2\<lparr>blk_shift := DEFAULT_BLK_SHIFT\<rparr> else lu2);
            n = lu_blocks lu3;
            lu4 = lu3\<lparr>mode_block_descriptor :=
                    be32_bytes (if drop_bit 32 n \<noteq> 0 then 0xffffffff else ucast n) @
                    be32_bytes (push_bit (blk_shift lu3) 1)\<rparr>
        in (TGTADM_SUCCESS, sbc_mode_pages lu4))"

definition off_cb :: "target \<Rightarrow> scsi_lu \<Rightarrow> tgtadm_err \<times> scsi_lu" where
  "off_cb tgt lu = spc_lu_offline (it_nexus_list tgt) lu"

text \<open>
  \<open>lu_config\<close> calls the callbacks and the store of the unit it configures; the
  template given to it has the callbacks without a configuration of its own.
\<close>

definition sbc_template :: "(backingstore_template \<Rightarrow> bs_ops) \<Rightarrow> device_type_template" where
  "sbc_template bsops =
     (let base = \<lparr>dt_type = 0, dt_lu_init = Some (sbc_lu_init off_cb), dt_lu_config = None,
                  dt_lu_online = spc_lu_online, dt_lu_offline = off_cb, dt_ops_table = sbc_ops\<rparr>
      in base\<lparr>dt_lu_config := Some (\<lambda>tgt lu. lu_config (bsops (lu_bst lu)) base None tgt lu)\<rparr>)"


end
