(* ===== verification/Scc.thy ===== *)
theory Scc
  imports Sbc
begin

text \<open>
  The controller device type (\<open>usr/scc.c\<close>), the type of the LUN 0 every target
  gets: its set-up and operation table.
\<close>

definition scc_lu_init :: "(target \<Rightarrow> scsi_lu \<Rightarrow> tgtadm_err \<times> scsi_lu) \<Rightarrow> target \<Rightarrow> scsi_lu \<Rightarrow> tgtadm_err \<times> scsi_lu" where
  "scc_lu_init lu_off tgt lu0 =
     (let (err, lu1) = spc_lu_init TYPE_RAID lu_off tgt lu0 in
      if err \<noteq> TGTADM_SUCCESS then (TGTADM_NOMEM, lu1)
      else
        let lu2 = upd_attrs (\<lambda>a. a\<lparr>product_id := strncpy_bytes (PRODUCT_ID_LEN + 1) (str_bytes ''Controller''),
                    version_desc := (version_desc a)[0 := 0x04C0, 1 := 0x0960, 2 := 0x01fb]\<rparr>) lu1
        in (TGTADM_SUCCESS, snd (spc_lu_online lu2)))"

definition scc_op_list :: "(u8 \<times> perform_fn \<times> (u32 \<times> perform_fn) list \<times> u8) list" where
  "scc_op_list =
     [(0x00, Spc_test_unit, [], 0), (0x03, Spc_request_sense, [], 0), (0x12, Spc_inquiry, [], 0),
      (0x2f, Spc_test_unit, [], 0), (0x8f, Spc_test_unit, [], 0), (0xa0, Spc_report_luns, [], 0),
      (0xa3, Spc_service_action, maint_in_service_actions, 0), (0xaf, Spc_test_unit, [], 0)]"

definition scc_ops :: "u8 \<Rightarrow> device_type_operations" where
  "scc_ops = table_op scc_op_list"

definition scc_template :: "(backingstore_template \<Rightarrow> bs_ops) \<Rightarrow> device_type_template" where
  "scc_template bsops =
     (let base = \<lparr>dt_type = 0x0c, dt_lu_init = Some (scc_lu_init off_cb), dt_lu_config = None,
                  dt_lu_online = spc_lu_online, dt_lu_offline = off_cb, dt_ops_table = scc_ops\<rparr>
      in base\<lparr>dt_lu_config := Some (\<lambda>tgt lu. lu_config (bsops (lu_bst lu)) base None tgt lu)\<rparr>)"

end
