(* ===== verification/Spc_Thms.thy ===== *)
theory Spc_Thms
  imports Scc
begin

text \<open>
  Properties of the primary commands: responses stay in the data-in buffer and are
  truncated to the allocation length, REPORT LUNS names units by the addresses
  the decoder of incoming LUNs understands, MODE SENSE and MODE SELECT are total,
  and the 128-bit identifier of the device identification page.
\<close>

unbundle bit_operations_syntax

section \<open>Responses\<close>



text \<open>The in-buffer of a command and what a response leaves of the rest of the objects.\<close>

definition response :: "bytes \<Rightarrow> u32 \<Rightarrow> hst \<Rightarrow> hst \<Rightarrow> bool" where
  "response bs n s s' \<longleftrightarrow>
     s' = upd_cmd (\<lambda>c. c\<lparr>in_sdb := sdb_set_resid_by_actual n ((in_sdb c)\<lparr>sdb_buffer :=
            bs @ drop (length bs) (sdb_buffer (in_sdb c))\<rparr>)\<rparr>) s"


section \<open>INQUIRY\<close>



lemma length_strncpy [simp]: "length (strncpy_bytes n s) = n"
  by (simp add: strncpy_bytes_def)


lemma response_fields:
  assumes "response bs n s s'" "length bs \<le> length (scsi_get_in_buffer (hs_cmd s))"
  shows "hs_lu s' = hs_lu s" "hs_itns s' = hs_itns s"
    "scsi_get_in_buffer (hs_cmd s') = bs @ drop (length bs) (scsi_get_in_buffer (hs_cmd s))"
    "length (scsi_get_in_buffer (hs_cmd s')) = length (scsi_get_in_buffer (hs_cmd s))"
    "sdb_transfer_len (in_sdb (hs_cmd s')) = min n (scsi_get_in_length (hs_cmd s))"
  using assms by (simp_all add: response_def)

lemma sense_exit_in_buffer [simp]:
  "scsi_get_in_buffer (hs_cmd (snd (sense_exit k a s))) = scsi_get_in_buffer (hs_cmd s)"
  by (simp add: sense_exit_def sense_data_build_def scsi_set_in_resid_by_actual_def Let_def)

lemma fst_sense_exit [simp]: "fst (sense_exit k a s) = SAM_STAT_CHECK_CONDITION"
  by (simp add: sense_exit_def)


definition inquiry_text :: "nat \<Rightarrow> bytes \<Rightarrow> bytes" where
  "inquiry_text n t = (let c = take n (takeWhile (\<lambda>x. x \<noteq> 0) t) in c @ replicate (n - length c) 0)"










lemma length_inquiry_text [simp]: "length (inquiry_text n t) = n"
  by (simp add: inquiry_text_def Let_def)















section \<open>REPORT LUNS\<close>

lemma unat_less_power_bit: "unat (w :: u64) < 2 ^ k \<Longrightarrow> bit w n \<Longrightarrow> n < k"
proof (rule ccontr)
  assume w: "unat w < 2 ^ k" and b: "bit w n" and "\<not> n < k"
  have "bit (unat w) n"
    using b by (simp add: bit_unsigned_iff bit_imp_le_length)
  then have "2 ^ n \<le> unat w"
    by (metis bit_iff_odd div_less even_zero not_le)
  with w have "(2::nat) ^ n < 2 ^ k"
    by linarith
  with \<open>\<not> n < k\<close> show False
    by simp
qed

lemma be64_bytes_high:
  "byte_at (be64_bytes v) 0 = ucast (drop_bit 56 v)" "byte_at (be64_bytes v) 1 = ucast (drop_bit 48 v)"
proof -
  have "ucast (drop_bit 24 (ucast (drop_bit 32 v) :: u32)) = (ucast (drop_bit 56 v) :: u8)"
    "ucast (drop_bit 16 (ucast (drop_bit 32 v) :: u32)) = (ucast (drop_bit 48 v) :: u8)"
    by (rule bit_word_eqI; auto simp: bit_simps ac_simps)+
  then show "byte_at (be64_bytes v) 0 = ucast (drop_bit 56 v)" "byte_at (be64_bytes v) 1 = ucast (drop_bit 48 v)"
    by (simp_all add: be64_bytes_def be32_bytes_list)
qed

lemma mask_14: "(0x3fff :: u64) = mask 14" and mask_6: "(0x3f :: u8) = mask 6"
  by (simp_all add: mask_eq_exp_minus_1)

text \<open>The flag bits of an entry and of its first byte.\<close>

lemma lun_flag_bits: "bit (0x40000000 :: u64) n \<longleftrightarrow> n = 30" "bit (0x40 :: u8) n \<longleftrightarrow> n = 6"
proof -
  have "(0x40000000 :: u64) = 2 ^ 30" "(0x40 :: u8) = 2 ^ 6"
    by simp_all
  then show "bit (0x40000000 :: u64) n \<longleftrightarrow> n = 30" "bit (0x40 :: u8) n \<longleftrightarrow> n = 6"
    by (simp_all only: bit_exp_iff) auto
qed

lemma lun_flag_shift:
  assumes "\<And>n. bit (c :: u64) n \<longleftrightarrow> n = 30" "\<And>n. bit (d :: u8) n \<longleftrightarrow> n = 6"
  shows "ucast (drop_bit 56 (push_bit 32 (c OR push_bit 16 (mask 14 AND l)))) = d OR ucast (drop_bit 8 (mask 14 AND l))"
    and "ucast (drop_bit 48 (push_bit 32 (c OR push_bit 16 (mask 14 AND l)))) = (ucast l :: u8)"
    and "drop_bit 6 (d OR ucast (drop_bit 8 (mask 14 AND l))) = 1"
  using assms by - (rule bit_word_eqI; auto simp: bit_simps bit_1_iff)+

lemma lun_flag_join:
  assumes d: "\<And>n. bit (d :: u8) n \<longleftrightarrow> n = 6" and l: "\<And>n. bit (l :: u64) n \<Longrightarrow> n < 14"
  shows "push_bit 8 (ucast (mask 6 AND (d OR ucast (drop_bit 8 (mask 14 AND l))))) OR ucast (ucast l :: u8) = l" (is "?j = l")
proof (rule bit_word_eqI)
  fix n :: nat
  show "bit ?j n = bit l n"
    using l [of n] by (cases "n < 8") (auto simp: bit_simps d)
qed

lemma lun_plain_shift:
  "ucast (drop_bit 56 (push_bit 32 (push_bit 16 (mask 14 AND l)) :: u64)) = (ucast (drop_bit 8 (mask 14 AND l)) :: u8)"
  "ucast (drop_bit 48 (push_bit 32 (push_bit 16 (mask 14 AND l)) :: u64)) = (ucast l :: u8)"
  by (rule bit_word_eqI; auto simp: bit_simps)+

lemma report_lun_bytes:
  "byte_at (report_lun_entry l) 0 = (if l > 0xff then 0x40 else 0) OR ucast (drop_bit 8 (0x3fff AND l))"
  "byte_at (report_lun_entry l) 1 = ucast l"
  using lun_flag_shift(1,2) [OF lun_flag_bits, of l] lun_plain_shift [of l]
  unfolding report_lun_entry_def be64_bytes_high mask_14 by (simp_all add: push_bit_eq_mult [of 30])

text \<open>The address REPORT LUNS gives a unit is decoded to the unit.\<close>

lemma report_lun_devid:
  assumes "l < 0x4000"
  shows "default_scsi_get_devid (report_lun_entry l) = l"
proof (cases "l > 0xff")
  case True
  have "bit l n \<Longrightarrow> n < 14" for n
    using assms unat_less_power_bit [of l 14 n] by (simp add: word_less_nat_alt)
  then show ?thesis
    using True lun_flag_shift(3) [OF lun_flag_bits, of l] lun_flag_join [OF lun_flag_bits(2), of l]
    unfolding default_scsi_get_devid_def report_lun_bytes mask_14 mask_6 by (simp add: Let_def)
next
  case False
  then have b8: "bit l n \<Longrightarrow> n < 8" for n
    using unat_less_power_bit [of l 8 n] by (simp add: word_less_nat_alt)
  have "drop_bit 6 (ucast (drop_bit 8 (mask 14 AND l)) :: u8) = 0" "ucast (ucast l :: u8) = l"
    by (rule bit_word_eqI; auto simp: bit_simps dest: b8)+
  then show ?thesis
    using False unfolding default_scsi_get_devid_def report_lun_bytes mask_14 by (simp add: Let_def)
qed

definition lun_list_bytes :: "u64 list \<Rightarrow> bytes" where
  "lun_list_bytes ls = concat (map report_lun_entry ls)"

lemma length_report_lun_entry [simp]: "length (report_lun_entry l) = 8"
  by (simp add: report_lun_entry_def)

lemma length_lun_list_bytes [simp]: "length (lun_list_bytes ls) = 8 * length ls"
  by (induction ls) (simp_all add: lun_list_bytes_def)

lemma report_luns_loop_eq:
  assumes "remain \<noteq> 0 \<longrightarrow> plun + unat remain \<le> length buf"
  shows "report_luns_loop buf plun remain actual avail ls =
    Some (put_bytes buf plun (take (unat remain) (lun_list_bytes ls)),
          actual + of_nat (min (unat remain) (8 * length ls)), avail + of_nat (8 * length ls))"
  using assms
proof (induction ls arbitrary: buf plun remain actual avail)
  case (Cons l ls)
  let ?n = "min remain 8"
  have n: "unat ?n = min (unat remain) 8"
    by (simp add: min_def word_le_nat_alt)
  have rem: "unat (remain - ?n) = unat remain - min (unat remain) 8"
    unfolding n [symmetric] by (intro unat_sub) (auto simp: min_def)
  have cp: "spc_memcpy buf plun remain (report_lun_entry l) 8 =
      Some (put_bytes buf plun (take (min (unat remain) 8) (report_lun_entry l)), remain - ?n, ?n)"
  proof (cases "remain = 0")
    case False
    then show ?thesis
      using Cons.prems by (subst spc_memcpy_eq) (simp_all add: n)
  qed (simp add: spc_memcpy_def)
  let ?b = "put_bytes buf plun (take (min (unat remain) 8) (report_lun_entry l))"
  have fits: "remain - ?n \<noteq> 0 \<longrightarrow> plun + 8 + unat (remain - ?n) \<le> length ?b"
  proof
    assume "remain - ?n \<noteq> 0"
    then have "8 < unat remain"
      using rem by (metis diff_is_0_eq min.absorb1 min.cobounded1 not_le unat_eq_zero)
    then show "plun + 8 + unat (remain - ?n) \<le> length ?b"
      using Cons.prems rem by (cases "remain = 0") simp_all
  qed
  have "report_luns_loop buf plun remain actual avail (l # ls) =
      report_luns_loop ?b (plun + 8) (remain - ?n) (actual + ?n) (avail + 8) ls"
    by (simp add: cp)
  also note Cons.IH [OF fits]
  also have "put_bytes ?b (plun + 8) (take (unat (remain - ?n)) (lun_list_bytes ls)) =
      put_bytes buf plun (take (unat remain) (lun_list_bytes (l # ls)))"
  proof (cases "8 \<le> unat remain")
    case True
    then show ?thesis
      using Cons.prems put_bytes_append [of plun "report_lun_entry l" "take (unat remain - 8) (lun_list_bytes ls)" buf]
      unfolding rem by (cases "remain = 0") (simp_all add: lun_list_bytes_def)
  next
    case False
    then show ?thesis
      unfolding rem by (simp add: lun_list_bytes_def)
  qed
  also have "actual + ?n + of_nat (min (unat (remain - ?n)) (8 * length ls)) =
      actual + of_nat (min (unat remain) (8 * length (l # ls)))"
  proof -
    have "?n = of_nat (min (unat remain) 8)"
      unfolding n [symmetric] by simp
    then have "actual + ?n + of_nat (min (unat (remain - ?n)) (8 * length ls)) =
        actual + (of_nat (min (unat remain) 8) + of_nat (min (unat remain - min (unat remain) 8) (8 * length ls)))"
      unfolding rem by (simp only: add.assoc)
    also have "\<dots> = actual + of_nat (min (unat remain) 8 + min (unat remain - min (unat remain) 8) (8 * length ls))"
      by (simp only: of_nat_add)
    also have "min (unat remain) 8 + min (unat remain - min (unat remain) 8) (8 * length ls) =
        min (unat remain) (8 * length (l # ls))"
      by auto
    finally show ?thesis .
  qed
  finally show ?case
    by (simp add: algebra_simps)
qed (simp add: lun_list_bytes_def)

lemma nth_lun_list_bytes:
  "i < length ls \<Longrightarrow> take 8 (drop (8 * i) (lun_list_bytes ls)) = report_lun_entry (ls ! i)"
proof (induction ls arbitrary: i)
  case (Cons l ls)
  then show ?case
    by (cases i) (auto simp: lun_list_bytes_def)
qed simp

definition report_luns_alloc :: "hst \<Rightarrow> u32" where
  "report_luns_alloc s = get_unaligned_be32 (scb (hs_cmd s)) 6"

text \<open>
  C22. REPORT LUNS with an allocation length of at least 16 that fits the transfer
  always returns. The list length it reports covers all units of the target, and
  every entry that fits the allocation length names the unit at that place of the
  device list: decoding the entry the way incoming commands are decoded gives the
  unit's LUN (below \<open>0x4000\<close>, the largest flat address).
\<close>

theorem report_luns_correct:
  assumes "16 \<le> report_luns_alloc s" "report_luns_alloc s \<le> scsi_get_in_length (hs_cmd s)"
    and "unat (scsi_get_in_length (hs_cmd s)) \<le> length (scsi_get_in_buffer (hs_cmd s))"
  shows "\<exists>s'. spc_report_luns s = Some (SAM_STAT_GOOD, s') \<and> hs_lu s' = hs_lu s \<and>
    get_unaligned_be32 (scsi_get_in_buffer (hs_cmd s')) 0 = of_nat (8 * length (hs_luns s)) \<and>
    (\<forall>i. i < length (hs_luns s) \<and> 8 * i + 16 \<le> unat (report_luns_alloc s) \<and> hs_luns s ! i < 0x4000 \<longrightarrow>
       default_scsi_get_devid (drop (8 + 8 * i) (scsi_get_in_buffer (hs_cmd s'))) = hs_luns s ! i)"
proof -
  let ?al = "report_luns_alloc s"
  let ?B = "scsi_get_in_buffer (hs_cmd s)" and ?ls = "hs_luns s"
  have al: "16 \<le> unat ?al" "unat ?al \<le> length ?B"
    using assms by (simp_all add: word_le_nat_alt)
  have rem: "unat (?al - 8) = unat ?al - 8"
    using assms(1) by (subst unat_sub) (auto simp: word_le_nat_alt)
  let ?D = "take (unat ?al - 8) (lun_list_bytes ?ls)"
  let ?b = "put_bytes ?B 8 ?D" and ?h = "be32_bytes (of_nat (8 * length ?ls)) @ replicate 4 0"
  have loop: "report_luns_loop ?B 8 (?al - 8) 8 0 ?ls =
      Some (?b, 8 + of_nat (min (unat ?al - 8) (8 * length ?ls)), of_nat (8 * length ?ls))"
    using al by (subst report_luns_loop_eq) (simp_all add: rem)
  have lb: "length ?b = length ?B"
    using al by simp
  have "write_at ?b 0 ?h = Some (?h @ drop 8 ?b)"
    using al lb by (simp add: write_at_def)
  then obtain s' where s': "spc_report_luns s = Some (SAM_STAT_GOOD, s')" "hs_lu s' = hs_lu s"
    "scsi_get_in_buffer (hs_cmd s') = ?h @ drop 8 ?b"
    using assms(1,2) loop
    by (simp add: spc_report_luns_def Let_def report_luns_alloc_def [symmetric] not_less [symmetric]
        scsi_set_in_resid_by_actual_def set_in_buffer_def)
  have buf: "scsi_get_in_buffer (hs_cmd s') = ?h @ ?D @ drop (8 + length ?D) ?B"
    unfolding s'(3) put_bytes_def using al by simp
  have entry: "default_scsi_get_devid (drop (8 + 8 * i) (scsi_get_in_buffer (hs_cmd s'))) = ?ls ! i"
    if "i < length ?ls" "8 * i + 16 \<le> unat ?al" "?ls ! i < 0x4000" for i
  proof -
    have "take 8 (drop (8 + 8 * i) (scsi_get_in_buffer (hs_cmd s'))) = take 8 (drop (8 * i) (lun_list_bytes ?ls))"
      unfolding buf using that(1,2) by (simp add: drop_take) linarith
    then have e: "take 8 (drop (8 + 8 * i) (scsi_get_in_buffer (hs_cmd s'))) = report_lun_entry (?ls ! i)"
      using nth_lun_list_bytes [OF that(1)] by simp
    have b: "byte_at (take 8 xs) 0 = byte_at xs 0" "byte_at (take 8 xs) 1 = byte_at xs 1" for xs :: bytes
      by (simp_all add: byte_at_def)
    have "default_scsi_get_devid (drop (8 + 8 * i) (scsi_get_in_buffer (hs_cmd s'))) =
        default_scsi_get_devid (report_lun_entry (?ls ! i))"
      unfolding e [symmetric] default_scsi_get_devid_def Let_def b ..
    then show ?thesis
      using report_lun_devid [OF that(3)] by simp
  qed
  have "get_unaligned_be32 (scsi_get_in_buffer (hs_cmd s')) 0 = of_nat (8 * length ?ls)"
    unfolding s'(3) append_assoc using get_be32_append_bytes [of "[]" 0] by simp
  then show ?thesis
    using s'(1,2) entry by blast
qed


definition ex_report_luns_hst :: hst where
  "ex_report_luns_hst = blank_hst\<lparr>hs_luns := [0, 0x123],
     hs_cmd := blank_cmd\<lparr>scb := [REPORT_LUNS, 0, 0, 0, 0, 0, 0, 0, 0, 24, 0, 0],
       in_sdb := blank_sdb\<lparr>sdb_buffer := replicate 24 0, sdb_length := 24\<rparr>\<rparr>\<rparr>"

theorem report_luns_correct_witness:
  "\<exists>s'. spc_report_luns ex_report_luns_hst = Some (SAM_STAT_GOOD, s') \<and>
     default_scsi_get_devid (drop 16 (scsi_get_in_buffer (hs_cmd s'))) = 0x123"
proof -
  have ex: "report_luns_alloc ex_report_luns_hst = 24" "hs_luns ex_report_luns_hst = [0, 0x123]"
    "scsi_get_in_length (hs_cmd ex_report_luns_hst) = 24"
    "length (scsi_get_in_buffer (hs_cmd ex_report_luns_hst)) = 24"
    by (simp_all add: report_luns_alloc_def ex_report_luns_hst_def get_unaligned_be32_def blank_defs)
  then obtain s' where "spc_report_luns ex_report_luns_hst = Some (SAM_STAT_GOOD, s')"
    "\<forall>i. i < 2 \<and> 8 * i + 16 \<le> (24 :: nat) \<and> [0, 0x123] ! i < (0x4000 :: u64) \<longrightarrow>
       default_scsi_get_devid (drop (8 + 8 * i) (scsi_get_in_buffer (hs_cmd s'))) = [0, 0x123] ! i"
    using report_luns_correct [of ex_report_luns_hst] by auto
  then show ?thesis
    by (intro exI [of _ s']) (auto dest!: spec [of _ 1])
qed

section \<open>MODE SENSE\<close>

text \<open>The pages as \<open>alloc_mode_pg\<close> makes them, and a block descriptor of eight bytes.\<close>

definition mode_wf :: "scsi_lu \<Rightarrow> bool" where
  "mode_wf lu \<longleftrightarrow> length (mode_block_descriptor lu) = 8 \<and>
     (\<forall>pg. pg \<in> set (mode_pages lu) \<longrightarrow> length (mode_data pg) = 2 * pcode_size pg \<and> pcode_size pg < 2 ^ 15)"

text \<open>
  The bytes of a page, and the whole reply: the header with the length of all that
  is available, the block descriptor unless it is disabled, the pages.
\<close>

definition mode_page_bytes :: "u8 \<Rightarrow> mode_pg \<Rightarrow> bytes" where
  "mode_page_bytes pctrl pg = mode_page_hdr pg @
     take (pcode_size pg) (if pctrl = 1 then drop (pcode_size pg) (mode_data pg) else mode_data pg)"

definition mode_reply_header :: "bool \<Rightarrow> bool \<Rightarrow> nat \<Rightarrow> bytes" where
  "mode_reply_header mode6 dbd n =
     (let bd = (if dbd then 0 else 8) in
      if mode6 then [of_nat (n + 3), 0, 0, bd]
      else [of_nat ((n + 6) div 256), of_nat (n + 6), 0, 0, 0, 0, 0, bd])"

definition mode_reply :: "bool \<Rightarrow> bool \<Rightarrow> u8 \<Rightarrow> scsi_lu \<Rightarrow> mode_pg list \<Rightarrow> bytes" where
  "mode_reply mode6 dbd pctrl lu pgs =
     (let body = (if dbd then [] else mode_block_descriptor lu) @ concat (map (mode_page_bytes pctrl) pgs)
      in mode_reply_header mode6 dbd (length body) @ body)"

text \<open>
  A buffer of which the first \<open>A\<close> bytes hold as much of a reply as has been written,
  and zeros after it.
\<close>

definition img :: "nat \<Rightarrow> bytes \<Rightarrow> bytes \<Rightarrow> bytes" where
  "img A xs rest = take A (xs @ replicate A 0) @ rest"

lemma img_put:
  assumes "length xs < A"
  shows "put_bytes (img A xs rest) (length xs) (take (A - length xs) ys) = img A (xs @ ys) rest"
proof -
  let ?k = "min (length ys) (A - length xs)"
  have "take A (xs @ ys @ replicate A 0) = xs @ take (A - length xs) ys @ replicate (A - length xs - ?k) 0"
    using assms by (simp add: min_def)
  moreover have "drop (length xs + ?k) (take A (xs @ replicate A 0) @ rest) = replicate (A - length xs - ?k) 0 @ rest"
    using assms by (simp add: min_def)
  moreover have "take (length xs) (take A (xs @ replicate A 0) @ rest) = xs"
    using assms by simp
  ultimately show ?thesis
    by (simp add: img_def put_bytes_def)
qed

lemma img_full: "A \<le> length xs \<Longrightarrow> img A (xs @ ys) rest = img A xs rest"
  by (simp add: img_def)

lemma set_byte_img:
  assumes "i < length h"
  shows "set_byte_safe (img (unat a) (h @ ys) rest) i a v = img (unat a) (h[i := v] @ ys) rest"
proof (cases "i < unat a")
  case True
  then show ?thesis
    using assms by (simp add: set_byte_safe_def img_def list_update_append take_update_swap)
next
  case False
  then show ?thesis
    using assms by (simp add: set_byte_safe_def img_def)
qed

lemma unat_minus_min: "unat (r - min r n) = unat r - unat (min r n)" for r n :: u32
  by (rule unat_sub) (rule min.cobounded1)

lemma unat_min: "unat (min r n) = min (unat r) (unat n)" for r n :: u32
  by (simp add: min_def word_le_nat_alt)

lemma spc_memcpy_img:
  assumes "unat r = A - length xs" "r \<noteq> 0 \<longrightarrow> off = length xs"
  shows "\<exists>r' m. spc_memcpy (img A xs rest) off r src n = Some (img A (xs @ take (unat n) src) rest, r', m) \<and>
    unat r' = A - (length xs + unat n) \<and> unat m = min A (length xs + unat n) - min A (length xs)"
proof (cases "r = 0")
  case True
  then show ?thesis
    using assms(1) by (simp add: spc_memcpy_def img_full)
next
  case False
  then have off: "off = length xs" "length xs < A"
    using assms by (auto simp: unat_eq_zero intro: ccontr)
  have m: "unat (min r n) = min (A - length xs) (unat n)"
    using assms(1) by (simp add: unat_min)
  then have "spc_memcpy (img A xs rest) off r src n =
      Some (put_bytes (img A xs rest) off (take (unat (min r n)) src), r - min r n, min r n)"
    using off by (intro spc_memcpy_eq) (simp add: img_def)
  moreover have "put_bytes (img A xs rest) off (take (unat (min r n)) src) = img A (xs @ take (unat n) src) rest"
    using img_put [OF off(2), of rest "take (unat n) src"] m off by simp
  ultimately show ?thesis
    using m assms(1) off by (auto simp: unat_minus_min)
qed

lemma build_mode_page_img:
  assumes "unat r = A - length xs" "r \<noteq> 0 \<longrightarrow> off = length xs" "A < 2 ^ 32"
    and pg: "length (mode_data pg) = 2 * pcode_size pg" "pcode_size pg < 2 ^ 15"
  shows "\<exists>r' m. build_mode_page (img A xs rest) off pg avail r pctrl =
      Some (img A (xs @ mode_page_bytes pctrl pg) rest, avail + of_nat (length (mode_page_bytes pctrl pg)), r', m) \<and>
    unat r' = A - length (xs @ mode_page_bytes pctrl pg) \<and>
    unat m = min A (length (xs @ mode_page_bytes pctrl pg)) - min A (length xs)"
proof -
  let ?h = "mode_page_hdr pg"
  let ?md = "if pctrl = 1 then drop (pcode_size pg) (mode_data pg) else mode_data pg"
  have hl: "length ?h < 2 ^ 32"
    by (simp add: mode_page_hdr_def)
  have sz: "unat (of_nat (pcode_size pg) :: u32) = pcode_size pg"
    using pg(2) by (simp add: unsigned_of_nat take_bit_nat_eq_self)
  have hz: "unat (of_nat (length ?h) :: u32) = length ?h"
    using hl by (simp add: unsigned_of_nat take_bit_nat_eq_self)
  obtain r1 m1 where 1: "spc_memcpy (img A xs rest) off r ?h (of_nat (length ?h)) = Some (img A (xs @ ?h) rest, r1, m1)"
    "unat r1 = A - length (xs @ ?h)" "unat m1 = min A (length (xs @ ?h)) - min A (length xs)"
    using spc_memcpy_img [OF assms(1,2), of rest ?h "of_nat (length ?h)"] hz by auto
  have "r1 \<noteq> 0 \<longrightarrow> off + length ?h = length (xs @ ?h)"
    using 1(2) assms(1,2) by (auto simp: unat_eq_zero)
  from spc_memcpy_img [OF 1(2) this, of rest ?md "of_nat (pcode_size pg)"]
  obtain r2 m2 where 2: "spc_memcpy (img A (xs @ ?h) rest) (off + length ?h) r1 ?md (of_nat (pcode_size pg)) =
      Some (img A ((xs @ ?h) @ take (pcode_size pg) ?md) rest, r2, m2)"
    "unat r2 = A - (length (xs @ ?h) + pcode_size pg)"
    "unat m2 = min A (length (xs @ ?h) + pcode_size pg) - min A (length (xs @ ?h))"
    using sz by auto
  have len: "length (mode_page_bytes pctrl pg) = length ?h + pcode_size pg"
    using pg(1) by (simp add: mode_page_bytes_def)
  have "unat (m1 + m2) = unat m1 + unat m2"
    using assms(3) 1(3) 2(3) by (simp add: unat_word_ariths)
  then show ?thesis
    using 1 2 len by (simp add: build_mode_page_def Let_def mode_page_bytes_def add.assoc)
qed

lemma build_mode_pages_img:
  assumes "unat r = A - length xs" "unat actual = min A (length xs)" "A < 2 ^ 32"
    and "\<forall>pg\<in>set pgs. length (mode_data pg) = 2 * pcode_size pg \<and> pcode_size pg < 2 ^ 15"
  shows "\<exists>actual'. build_mode_pages (img A xs rest) actual avail r pctrl pgs =
      Some (img A (xs @ concat (map (mode_page_bytes pctrl) pgs)) rest, actual',
        avail + of_nat (length (concat (map (mode_page_bytes pctrl) pgs)))) \<and>
    unat actual' = min A (length (xs @ concat (map (mode_page_bytes pctrl) pgs)))"
  using assms
proof (induction pgs arbitrary: xs r actual avail)
  case (Cons pg pgs)
  let ?b = "mode_page_bytes pctrl pg"
  have "r \<noteq> 0 \<longrightarrow> unat actual = length xs"
    using Cons.prems(1,2) unat_eq_zero [of r] by (auto simp: min_def)
  from build_mode_page_img [OF Cons.prems(1) this Cons.prems(3), of pg rest avail pctrl]
  obtain r' m where 1: "build_mode_page (img A xs rest) (unat actual) pg avail r pctrl =
      Some (img A (xs @ ?b) rest, avail + of_nat (length ?b), r', m)"
    "unat r' = A - length (xs @ ?b)" "unat m = min A (length (xs @ ?b)) - min A (length xs)"
    using Cons.prems(4) by auto
  have "unat (actual + m) = min A (length (xs @ ?b))"
    using Cons.prems(2,3) 1(3) by (simp add: unat_word_ariths)
  from Cons.IH [OF 1(2) this Cons.prems(3), of "avail + of_nat (length ?b)"] 1(1) Cons.prems(4)
  show ?case
    by (auto simp: add.assoc)
qed simp


text \<open>The fields of the CDB that MODE SENSE(6) and (10) read.\<close>

definition mode_sense6 :: "bytes \<Rightarrow> bool" where
  "mode_sense6 b \<longleftrightarrow> byte_at b 0 = 0x1a"

definition mode_sense_dbd :: "bytes \<Rightarrow> bool" where
  "mode_sense_dbd b \<longleftrightarrow> byte_at b 1 AND 8 \<noteq> 0"

definition mode_sense_pctrl :: "bytes \<Rightarrow> u8" where
  "mode_sense_pctrl b = drop_bit 6 (byte_at b 2 AND 0xc0)"

definition mode_sense_alloc :: "bytes \<Rightarrow> u32" where
  "mode_sense_alloc b = (if mode_sense6 b then ucast (byte_at b 4) else ucast (get_unaligned_be16 b 7))"

definition mode_sense_pages :: "scsi_lu \<Rightarrow> bytes \<Rightarrow> mode_pg list option" where
  "mode_sense_pages lu b =
     (if byte_at b 2 AND 0x3f = 0x3f then Some (mode_pages lu)
      else map_option (\<lambda>pg. [pg]) (find_mode_page lu (byte_at b 2 AND 0x3f) (byte_at b 3)))"

lemma mode_sense_pages_wf:
  assumes "mode_sense_pages lu b = Some pgs" "mode_wf lu"
  shows "\<forall>pg\<in>set pgs. length (mode_data pg) = 2 * pcode_size pg \<and> pcode_size pg < 2 ^ 15"
  using assms by (auto simp: mode_sense_pages_def mode_wf_def find_mode_page_def split: if_splits dest: lfind_SomeD)


lemma len_byte_hi: "(ucast (drop_bit 8 (of_nat m :: u32)) :: u8) = of_nat (m div 256)"
proof -
  have "(ucast (drop_bit 8 (of_nat m :: u32)) :: u8) = of_nat (drop_bit 8 m)"
    by (rule bit_word_eqI) (simp add: bit_simps)
  then show ?thesis
    by (simp add: drop_bit_eq_div)
qed

lemma len_byte_lo: "(ucast (of_nat m :: u32) :: u8) = of_nat m"
  by (rule bit_word_eqI) (simp add: bit_simps)

lemma mode_sense_header_img:
  assumes "avail = of_nat ((if mode6 then 4 else 8) + n)"
  shows "mode_sense_header mode6 a avail (if dbd then 0 else 8)
      (img (unat a) (replicate (if mode6 then 4 else 8) 0 @ body) rest) =
    img (unat a) (mode_reply_header mode6 dbd n @ body) rest"
proof (cases mode6)
  case True
  have *: "avail - 1 = of_nat (n + 3)"
    using assms True by (simp add: algebra_simps)
  have "replicate 4 0 = [0, 0, 0, 0 :: u8]"
    by (simp add: numeral_eq_Suc)
  then show ?thesis
    using True unfolding mode_sense_header_def mode_reply_header_def Let_def * len_byte_lo
    apply (simp only: if_True)
    apply (subst set_byte_img, simp)+
    apply simp
    done
next
  case False
  have *: "avail - 2 = of_nat (n + 6)"
    using assms False by (simp add: algebra_simps)
  have "replicate 8 0 = [0, 0, 0, 0, 0, 0, 0, 0 :: u8]"
    by (simp add: numeral_eq_Suc)
  then show ?thesis
    using False unfolding mode_sense_header_def mode_reply_header_def Let_def * len_byte_lo len_byte_hi
    apply (simp only: if_False)
    apply (subst set_byte_img, simp)+
    apply simp
    done
qed


lemma spc_mode_sense_fields:
  "spc_mode_sense s =
     (let cmd = hs_cmd s; lu = hs_lu s; b = scb cmd; m6 = mode_sense6 b; a = mode_sense_alloc b; dbd = mode_sense_dbd b;
          h = (if m6 then 4 else 8)
      in if mode_sense_pctrl b = 3 then Some (sense_exit ILLEGAL_REQUEST ASC_SAVING_PARMS_UNSUP s)
         else if scsi_get_in_length cmd < a then illegal_cdb s
         else do {
           data0 \<leftarrow> write_at (scsi_get_in_buffer cmd) 0 (replicate (unat a) 0);
           (data1, remain1, n) \<leftarrow>
             (if dbd then Some (data0, a - min a h, 0)
              else spc_memcpy data0 (unat (min a h)) (a - min a h) (mode_block_descriptor lu) 8);
           (case mode_sense_pages lu b of
              None \<Rightarrow> illegal_cdb (upd_cmd (set_in_buffer data1) s)
            | Some pgs \<Rightarrow>
                do { (data2, actual2, avail2) \<leftarrow>
                       build_mode_pages data1 (min a h + n) (h + (if dbd then 0 else 8)) remain1 (mode_sense_pctrl b) pgs;
                     Some (SAM_STAT_GOOD, upd_cmd (scsi_set_in_resid_by_actual actual2 \<circ>
                       set_in_buffer (mode_sense_header m6 a avail2 (if dbd then 0 else 8) data2)) s) }) })"
  unfolding spc_mode_sense_def mode_sense6_def mode_sense_alloc_def mode_sense_dbd_def mode_sense_pctrl_def mode_sense_pages_def Let_def
  by (rule refl)

text \<open>
  C21. MODE SENSE returns exactly the reply it promises, cut to the allocation
  length: the header with the length of everything available, the block descriptor
  unless disabled, and the current (or changeable) bytes of the page asked for or
  of all pages, with zeros behind it when the allocation is longer; nothing outside
  the allocation is touched and the residual reports what was returned.
\<close>

theorem mode_sense_correct:
  assumes "mode_wf (hs_lu s)" "mode_sense_alloc (scb (hs_cmd s)) \<le> scsi_get_in_length (hs_cmd s)"
    and "unat (scsi_get_in_length (hs_cmd s)) \<le> length (scsi_get_in_buffer (hs_cmd s))"
    and "mode_sense_pctrl (scb (hs_cmd s)) \<noteq> 3" "mode_sense_pages (hs_lu s) (scb (hs_cmd s)) = Some pgs"
    and "A = unat (mode_sense_alloc (scb (hs_cmd s)))"
    and "reply = mode_reply (mode_sense6 (scb (hs_cmd s))) (mode_sense_dbd (scb (hs_cmd s)))
      (mode_sense_pctrl (scb (hs_cmd s))) (hs_lu s) pgs"
  shows "spc_mode_sense s = Some (SAM_STAT_GOOD, upd_cmd (scsi_set_in_resid_by_actual (of_nat (min A (length reply))) \<circ>
    set_in_buffer (take A (reply @ replicate A 0) @ drop A (scsi_get_in_buffer (hs_cmd s)))) s)"
proof -
  let ?b = "scb (hs_cmd s)" and ?lu = "hs_lu s"
  let ?m6 = "mode_sense6 ?b" and ?dbd = "mode_sense_dbd ?b" and ?a = "mode_sense_alloc ?b"
  let ?rest = "drop A (scsi_get_in_buffer (hs_cmd s))" and ?bd = "if ?dbd then [] else mode_block_descriptor ?lu"
  let ?pgs = "concat (map (mode_page_bytes (mode_sense_pctrl ?b)) pgs)"
  define hl :: nat where "hl = (if ?m6 then 4 else 8)"
  define hw :: u32 where "hw = (if ?m6 then 4 else 8)"
  have hw: "unat hw = hl" "hw = of_nat hl"
    by (simp_all add: hw_def hl_def)
  have A: "A < 2 ^ 32"
    using assms(6) unsigned_less [of ?a, where 'a = nat] by simp
  have bd: "length ?bd = (if ?dbd then 0 else 8)"
    using assms(1) by (simp add: mode_wf_def)
  have w0: "write_at (scsi_get_in_buffer (hs_cmd s)) 0 (replicate (unat ?a) 0) = Some (img A (replicate hl 0) ?rest)"
    using assms(2,3,6) by (auto simp: write_at_def img_def word_le_nat_alt take_replicate replicate_add [symmetric] min_def)
  have r0: "unat (?a - min ?a hw) = A - length (replicate hl (0 :: u8))" "unat (min ?a hw) = min A hl"
    using assms(6) by (simp_all add: unat_minus_min unat_min hw(1))
  obtain r1 n where 1: "(if ?dbd then Some (img A (replicate hl 0) ?rest, ?a - min ?a hw, 0)
      else spc_memcpy (img A (replicate hl 0) ?rest) (unat (min ?a hw)) (?a - min ?a hw) (mode_block_descriptor ?lu) 8) =
      Some (img A (replicate hl 0 @ ?bd) ?rest, r1, n)"
    "unat r1 = A - length (replicate hl (0 :: u8) @ ?bd)" "unat n = min A (length (replicate hl (0 :: u8) @ ?bd)) - min A hl"
  proof (cases ?dbd)
    case False
    have "?a - min ?a hw \<noteq> 0 \<longrightarrow> unat (min ?a hw) = length (replicate hl (0 :: u8))"
      using r0 unat_eq_zero [of "?a - min ?a hw"] by (auto simp: min_def)
    from spc_memcpy_img [OF r0(1) this, of ?rest "mode_block_descriptor ?lu" 8] that show ?thesis
      using False bd by auto
  qed (use r0 that in simp)
  have "unat (min ?a hw + n) = min A (length (replicate hl (0 :: u8) @ ?bd))"
    using r0(2) 1(3) A by (simp add: unat_word_ariths)
  from build_mode_pages_img [OF 1(2) this A mode_sense_pages_wf [OF assms(5,1)], of ?rest "hw + (if ?dbd then 0 else 8)" "mode_sense_pctrl ?b"]
  obtain actual where 2: "build_mode_pages (img A (replicate hl 0 @ ?bd) ?rest) (min ?a hw + n) (hw + (if ?dbd then 0 else 8)) r1
      (mode_sense_pctrl ?b) pgs = Some (img A (replicate hl 0 @ ?bd @ ?pgs) ?rest, actual,
        hw + (if ?dbd then 0 else 8) + of_nat (length ?pgs))"
    "unat actual = min A (hl + length (?bd @ ?pgs))"
    by auto
  have reply: "reply = mode_reply_header ?m6 ?dbd (length (?bd @ ?pgs)) @ ?bd @ ?pgs"
    using assms(7) by (simp add: mode_reply_def Let_def)
  then have "length reply = hl + length (?bd @ ?pgs)"
    by (simp add: mode_reply_header_def hl_def Let_def)
  then have act: "actual = of_nat (min A (length reply))"
    using arg_cong [OF 2(2), of "of_nat :: nat \<Rightarrow> u32"] by simp
  have hd: "mode_sense_header ?m6 ?a (hw + (if ?dbd then 0 else 8) + of_nat (length ?pgs)) (if ?dbd then 0 else 8)
      (img A (replicate hl 0 @ ?bd @ ?pgs) ?rest) = img A reply ?rest"
    unfolding reply assms(6) hl_def
    by (rule mode_sense_header_img) (use bd in \<open>simp add: hw_def\<close>)
  have "\<not> scsi_get_in_length (hs_cmd s) < ?a"
    using assms(2) by (simp add: not_less)
  then show ?thesis
    using assms(4)
    unfolding spc_mode_sense_fields Let_def hw_def [symmetric] w0 assms(5) img_def [symmetric]
    by (simp only: Option.bind.simps 1(1) prod.case option.case 2(1) hd act if_False)
qed

text \<open>A unit with a caching page, of which one bit can change, asked for its pages.\<close>

definition ex_mode_hst :: hst where
  "ex_mode_hst = blank_hst\<lparr>
     hs_lu := (blank_lu 0)\<lparr>mode_block_descriptor := replicate 8 0,
       mode_pages := [\<lparr>pcode = 8, subpcode = 0, pcode_size = 2, mode_data = [0x14, 0xff, 4, 0]\<rparr>]\<rparr>,
     hs_cmd := blank_cmd\<lparr>scb := [0x1a, 8, 8, 0, 7, 0],
       in_sdb := blank_sdb\<lparr>sdb_buffer := [0xee, 0xee, 0xee, 0xee, 0xee, 0xee, 0xee, 0xee], sdb_length := 8\<rparr>\<rparr>\<rparr>"

theorem mode_sense_correct_witness:
  "spc_mode_sense ex_mode_hst = Some (SAM_STAT_GOOD, upd_cmd (scsi_set_in_resid_by_actual 7 \<circ>
     set_in_buffer [7, 0, 0, 0, 8, 2, 0x14, 0xee]) ex_mode_hst)"
proof -
  let ?s = ex_mode_hst
  have wf: "mode_wf (hs_lu ?s)" and len: "scsi_get_in_length (hs_cmd ?s) = 8"
    and buf: "scsi_get_in_buffer (hs_cmd ?s) = [0xee, 0xee, 0xee, 0xee, 0xee, 0xee, 0xee, 0xee]"
    and alloc: "mode_sense_alloc (scb (hs_cmd ?s)) = 7" and pctrl: "mode_sense_pctrl (scb (hs_cmd ?s)) = 0"
    and pgs: "mode_sense_pages (hs_lu ?s) (scb (hs_cmd ?s)) = Some (mode_pages (hs_lu ?s))"
    and flags: "mode_sense6 (scb (hs_cmd ?s))" "mode_sense_dbd (scb (hs_cmd ?s))"
    by (simp_all add: ex_mode_hst_def mode_wf_def blank_defs mode_sense_alloc_def mode_sense6_def mode_sense_pctrl_def
        mode_sense_pages_def mode_sense_dbd_def find_mode_page_def)
  have reply: "mode_reply (mode_sense6 (scb (hs_cmd ?s))) (mode_sense_dbd (scb (hs_cmd ?s))) (mode_sense_pctrl (scb (hs_cmd ?s)))
      (hs_lu ?s) (mode_pages (hs_lu ?s)) = [7, 0, 0, 0, 8, 2, 0x14, 0xff]"
    unfolding pctrl using flags
    by (simp add: ex_mode_hst_def blank_defs mode_reply_def mode_reply_header_def mode_page_bytes_def mode_page_hdr_def)
  have "spc_mode_sense ?s = Some (SAM_STAT_GOOD, upd_cmd (scsi_set_in_resid_by_actual (of_nat (min 7 (length [7, 0, 0, 0, 8, 2, 0x14, 0xff :: u8]))) \<circ>
      set_in_buffer (take 7 ([7, 0, 0, 0, 8, 2, 0x14, 0xff] @ replicate 7 0) @ drop 7 (scsi_get_in_buffer (hs_cmd ?s)))) ?s)"
    by (rule mode_sense_correct [OF wf _ _ _ pgs _ reply [symmetric]]) (simp_all add: len alloc buf pctrl)
  then show ?thesis
    unfolding buf by simp
qed

end
