(* ===== verification/Scsi_Perform.thy ===== *)
theory Scsi_Perform
  imports Scc
begin

text \<open>
  The command processor (\<open>scsi_cmd_perform\<close> of \<open>usr/scsi.c\<close>): statistics, the
  checks every command passes before its handler runs (control byte, addressed
  LUN, unit attention, persistent reservation, opcode support), and the call
  through the operation table of the device type. The function pointers of the
  tables are the constructors of \<open>perform_fn\<close>; \<open>run_fn\<close> calls them.
\<close>

unbundle bit_operations_syntax

section \<open>Dispatch\<close>

text \<open>
  What the handlers call outside the modelled code: memory allocation, the
  backing store's submit function, \<open>lseek\<close> and the driver's transport id.
\<close>

record env =
  e_mem :: bool
  e_submit :: submit_fn
  e_next_data :: "u64 \<Rightarrow> u64"
  e_next_hole :: "u64 \<Rightarrow> u64"
  e_transportid :: "(int \<Rightarrow> u64 \<Rightarrow> u32 \<times> bytes) option"

text \<open>
  The handlers; the service action tables name no function that dispatches
  again, so such a call is not part of the model (\<open>None\<close>).
\<close>

definition run_leaf :: "env \<Rightarrow> perform_fn \<Rightarrow> hst \<Rightarrow> (int \<times> hst) option" where
  "run_leaf e fn s =
     (case fn of
        Spc_illegal_op \<Rightarrow> spc_illegal_op s
      | Spc_inquiry \<Rightarrow> spc_inquiry s
      | Spc_report_luns \<Rightarrow> spc_report_luns s
      | Spc_start_stop \<Rightarrow> spc_start_stop s
      | Spc_test_unit \<Rightarrow> spc_test_unit s
      | Spc_request_sense \<Rightarrow> spc_request_sense s
      | Spc_prevent_allow \<Rightarrow> spc_prevent_allow_media_removal s
      | Spc_send_diagnostics \<Rightarrow> spc_send_diagnostics s
      | Spc_report_supported_opcodes \<Rightarrow> spc_report_supported_opcodes s
      | Spc_pr_read_keys \<Rightarrow> spc_pr_read_keys s
      | Spc_pr_read_reservation \<Rightarrow> spc_pr_read_reservation s
      | Spc_pr_report_capabilities \<Rightarrow> spc_pr_report_capabilities s
      | Spc_pr_register \<Rightarrow> spc_pr_register (e_mem e) s
      | Spc_pr_reserve \<Rightarrow> spc_pr_reserve s
      | Spc_pr_release \<Rightarrow> spc_pr_release s
      | Spc_pr_clear \<Rightarrow> spc_pr_clear s
      | Spc_pr_preempt \<Rightarrow> spc_pr_preempt s
      | Spc_pr_register_and_move \<Rightarrow> spc_pr_register_and_move (e_transportid e) s
      | Spc_mode_sense \<Rightarrow> spc_mode_sense s
      | Sbc_mode_sense \<Rightarrow> sbc_mode_sense s
      | Sbc_mode_select \<Rightarrow> sbc_mode_select s
      | Sbc_format_unit \<Rightarrow> sbc_format_unit s
      | Sbc_unmap \<Rightarrow> sbc_unmap (e_submit e) s
      | Sbc_rw \<Rightarrow> sbc_rw (e_submit e) s
      | Sbc_reserve \<Rightarrow> sbc_reserve s
      | Sbc_release \<Rightarrow> sbc_release s
      | Sbc_read_capacity \<Rightarrow> sbc_read_capacity s
      | Sbc_verify \<Rightarrow> sbc_verify (e_submit e) s
      | Sbc_readcapacity16 \<Rightarrow> sbc_readcapacity16 s
      | Sbc_getlbastatus \<Rightarrow> sbc_getlbastatus (e_next_data e) (e_next_hole e) s
      | Sbc_sync_cache \<Rightarrow> sbc_sync_cache (e_submit e) s
      | Spc_service_action \<Rightarrow> None
      | Sbc_service_action \<Rightarrow> None)"

definition run_fn :: "env \<Rightarrow> perform_fn \<Rightarrow> hst \<Rightarrow> (int \<times> hst) option" where
  "run_fn e fn s =
     (if fn = Spc_service_action then spc_service_action (run_leaf e) s
      else if fn = Sbc_service_action then sbc_service_action (run_leaf e) s
      else run_leaf e fn s)"

section \<open>\<open>scsi_cmd_perform\<close>\<close>

definition subm_stat :: "scsi_cmd \<Rightarrow> lu_stat \<Rightarrow> lu_stat" where
  "subm_stat cmd st =
     (case data_dir cmd of
        DATA_WRITE \<Rightarrow> st\<lparr>wr_subm_bytes := wr_subm_bytes st + ucast (scsi_get_out_length cmd),
                         wr_subm_cmds := wr_subm_cmds st + 1\<rparr>
      | DATA_READ \<Rightarrow> st\<lparr>rd_subm_bytes := rd_subm_bytes st + ucast (scsi_get_in_length cmd),
                        rd_subm_cmds := rd_subm_cmds st + 1\<rparr>
      | DATA_BIDIRECTIONAL \<Rightarrow>
          st\<lparr>wr_subm_bytes := wr_subm_bytes st + ucast (scsi_get_out_length cmd),
             rd_subm_bytes := rd_subm_bytes st + ucast (scsi_get_in_length cmd),
             bidir_subm_cmds := bidir_subm_cmds st + 1\<rparr>
      | DATA_NONE \<Rightarrow> st)"

definition upd_itl :: "(it_nexus_lu_info \<Rightarrow> it_nexus_lu_info) \<Rightarrow> hst \<Rightarrow> hst" where
  "upd_itl f s = s\<lparr>hs_itns := itl_update (cmd_itn_id (hs_cmd s)) (c_dev (hs_cmd s)) f (hs_itns s)\<rparr>"

text \<open>
  \<open>ua_sense_del\<close> on the I\_T\_L nexus of the command; \<open>None\<close> is a command without
  one.
\<close>

definition hs_ua_sense_del :: "bool \<Rightarrow> hst \<Rightarrow> (bool \<times> hst) option" where
  "hs_ua_sense_del del s =
     do { i \<leftarrow> itl_lookup (cmd_itn_id (hs_cmd s)) (c_dev (hs_cmd s)) (hs_itns s);
          (let (r, i', cmd') = ua_sense_del del i (hs_cmd s) in
           Some (r = 0, (upd_itl (\<lambda>_. i') s)\<lparr>hs_cmd := cmd'\<rparr>)) }"

definition clear_luns_changed :: "hst \<Rightarrow> hst" where
  "clear_luns_changed s =
     s\<lparr>hs_itns := lupdate itn_id (cmd_itn_id (hs_cmd s))
        (\<lambda>itn. itn\<lparr>itn_itl_info_list :=
           map (ua_sense_clear ASC_REPORTED_LUNS_DATA_HAS_CHANGED) (itn_itl_info_list itn)\<rparr>) (hs_itns s)\<rparr>"

text \<open>The access check, the opcode map and the handler.\<close>

definition perform_op :: "env \<Rightarrow> hst \<Rightarrow> (int \<times> hst) option" where
  "perform_op e s =
     (let op = byte_at (scb (hs_cmd s)) 0 in
      do { c \<leftarrow> spc_access_check (hs_lu s) (hs_cmd s);
           if c \<noteq> 0 then Some (SAM_STAT_RESERVATION_CONFLICT, s)
           else if \<not> is_bs_support_opcode (lu_bst (hs_lu s)) op
           then Some (sense_only ILLEGAL_REQUEST ASC_INVALID_OP_CODE s)
           else do { fn \<leftarrow> cmd_perform (dt_ops (hs_lu s) op); run_fn e fn s } })"

definition scsi_cmd_perform :: "env \<Rightarrow> hst \<Rightarrow> (int \<times> hst) option" where
  "scsi_cmd_perform e s0 =
     (let s = upd_itl (\<lambda>i. i\<lparr>itl_stat := subm_stat (hs_cmd s0) (itl_stat i)\<rparr>) s0;
          cmd = hs_cmd s; op = byte_at (scb cmd) 0
      in if cdb_control (scb cmd) (scb_len cmd) AND 0x05 \<noteq> 0
         then Some (sense_only ILLEGAL_REQUEST ASC_INVALID_FIELD_IN_CDB s)
         else if lun (hs_lu s) \<noteq> dev_id cmd \<and> op = REQUEST_SENSE
         then Some (SAM_STAT_GOOD, snd (sense_only ILLEGAL_REQUEST ASC_LUN_NOT_SUPPORTED s))
         else if lun (hs_lu s) \<noteq> dev_id cmd \<and> op \<noteq> INQUIRY
         then Some (sense_only ILLEGAL_REQUEST ASC_LUN_NOT_SUPPORTED s)
         else if op = INQUIRY then perform_op e s
         else if op = REPORT_LUNS then perform_op e (clear_luns_changed s)
         else do { (reported, s1) \<leftarrow> hs_ua_sense_del (op \<noteq> REQUEST_SENSE) s;
                   if reported then Some (SAM_STAT_CHECK_CONDITION, s1) else perform_op e s1 })"

end
