(* ===== verification/Target_Admin.thy ===== *)
theory Target_Admin
  imports Target_Core
begin

text \<open>
  Administration of targets (\<open>usr/target.c\<close>): CHAP accounts and their binding to
  targets, address and initiator-name access lists, host bindings, target and
  system states, creation and destruction of targets, media load and unload.
\<close>

section \<open>State\<close>

record account_entry =
  aid :: int
  ac_user :: string
  ac_password :: string

datatype tgt_system_state = TGT_SYSTEM_OFFLINE | TGT_SYSTEM_READY

text \<open>\<open>adm_global\<close> holds the accounts of the global target, \<open>adm_hosts\<close> the pairs of host number and target id.\<close>

record adm =
  adm_targets :: "target list"
  adm_accounts :: "account_entry list"
  adm_global :: tgt_account
  adm_hosts :: "(int \<times> int) list"
  adm_state :: tgt_system_state

text \<open>\<open>GLOBAL_TID\<close> is \<open>~0U\<close>; an \<open>int\<close> equals it when it is -1.\<close>

abbreviation (input) "GLOBAL_TID \<equiv> - 1 :: int"
abbreviation (input) "INT_MAX \<equiv> 2147483647 :: int"

datatype account_type = ACCOUNT_TYPE_INCOMING | ACCOUNT_TYPE_OUTGOING

section \<open>Accounts\<close>

definition account_lookup_id :: "int \<Rightarrow> adm \<Rightarrow> account_entry option" where
  "account_lookup_id a st = lfind aid a (adm_accounts st)"

definition account_lookup_user :: "string \<Rightarrow> adm \<Rightarrow> account_entry option" where
  "account_lookup_user user st = lfind ac_user user (adm_accounts st)"

text \<open>The account record of a target or of the global target.\<close>

definition get_account :: "int \<Rightarrow> adm \<Rightarrow> tgt_account option" where
  "get_account t st =
     (if t = GLOBAL_TID then Some (adm_global st)
      else map_option account (target_lookup t (adm_targets st)))"

definition set_account :: "int \<Rightarrow> tgt_account \<Rightarrow> adm \<Rightarrow> adm" where
  "set_account t a st =
     (if t = GLOBAL_TID then st\<lparr>adm_global := a\<rparr>
      else st\<lparr>adm_targets := upd_target t (\<lambda>x. x\<lparr>account := a\<rparr>) (adm_targets st)\<rparr>)"

text \<open>
  The search for an incoming user goes over the first \<open>nr_inaccount\<close> slots. The
  result is the password; \<open>None\<close> is \<open>-ENOENT\<close>.
\<close>

definition find_incoming :: "adm \<Rightarrow> string \<Rightarrow> int list \<Rightarrow> account_entry option" where
  "find_incoming st user aids =
     (case find (\<lambda>a. case account_lookup_id a st of None \<Rightarrow> False | Some ac \<Rightarrow> ac_user ac = user) aids of
        None \<Rightarrow> None | Some a \<Rightarrow> account_lookup_id a st)"

definition account_lookup :: "int \<Rightarrow> account_type \<Rightarrow> string \<Rightarrow> nat \<Rightarrow> nat \<Rightarrow> adm \<Rightarrow> (string \<times> string) option" where
  "account_lookup t type user ulen plen st =
     (case get_account t st of
        None \<Rightarrow> None
      | Some acc \<Rightarrow>
          (case type of
             ACCOUNT_TYPE_INCOMING \<Rightarrow>
               map_option (\<lambda>ac. (user, take plen (ac_password ac)))
                 (find_incoming st user (take (nr_inaccount acc) (in_aids acc)))
           | ACCOUNT_TYPE_OUTGOING \<Rightarrow>
               map_option (\<lambda>ac. (take ulen (ac_user ac), take plen (ac_password ac)))
                 (account_lookup_id (out_aid acc) st)))"

function next_aid :: "adm \<Rightarrow> int \<Rightarrow> int" where
  "next_aid st a = (if account_lookup_id a st \<noteq> None \<and> a < INT_MAX then next_aid st (a + 1) else a)"
  by pat_completeness auto
termination by (relation "measure (\<lambda>(st, a). nat (INT_MAX - a))") auto

definition account_add :: "string \<Rightarrow> string \<Rightarrow> adm \<Rightarrow> tgtadm_err \<times> adm" where
  "account_add user password st =
     (if account_lookup_user user st \<noteq> None then (TGTADM_USER_EXIST, st)
      else let a = next_aid st 1 in
        if a = INT_MAX then (TGTADM_TOO_MANY_USER, st)
        else (TGTADM_SUCCESS,
          st\<lparr>adm_accounts := \<lparr>aid = a, ac_user = user, ac_password = password\<rparr> # adm_accounts st\<rparr>))"

text \<open>The first free slot.\<close>

fun first_free :: "nat \<Rightarrow> int list \<Rightarrow> nat" where
  "first_free i [] = i"
| "first_free i (a # as) = (if a = 0 then i else first_free (i + 1) as)"

definition inaccount_bind :: "int \<Rightarrow> tgt_account \<Rightarrow> tgtadm_err \<times> tgt_account" where
  "inaccount_bind a acc =
     (if a \<in> set (take (max_inaccount acc) (in_aids acc)) then (TGTADM_USER_EXIST, acc)
      else if nr_inaccount acc < max_inaccount acc then
        let i = first_free 0 (take (max_inaccount acc) (in_aids acc)) in
        if i = max_inaccount acc then (TGTADM_UNKNOWN_ERR, acc)
        else (TGTADM_SUCCESS, acc\<lparr>in_aids := (in_aids acc)[i := a], nr_inaccount := nr_inaccount acc + 1\<rparr>)
      else
        let new_max = 2 * max_inaccount acc;
            buf = take (max_inaccount acc) (in_aids acc) @ replicate (max_inaccount acc) 0
        in (TGTADM_SUCCESS, acc\<lparr>in_aids := buf[max_inaccount acc := a], max_inaccount := new_max,
                                nr_inaccount := nr_inaccount acc + 1\<rparr>))"

text \<open>Unbinding clears the slot and leaves a hole.\<close>

definition inaccount_unbind :: "int \<Rightarrow> tgt_account \<Rightarrow> tgtadm_err \<times> tgt_account" where
  "inaccount_unbind a acc =
     (if a \<in> set (take (max_inaccount acc) (in_aids acc))
      then (TGTADM_SUCCESS, acc\<lparr>
        in_aids := upd_first (\<lambda>x. x = a) (\<lambda>_. 0) (in_aids acc),
        nr_inaccount := nr_inaccount acc - 1\<rparr>)
      else (TGTADM_NO_USER, acc))"

definition account_ctl :: "int \<Rightarrow> account_type \<Rightarrow> string \<Rightarrow> bool \<Rightarrow> adm \<Rightarrow> tgtadm_err \<times> adm" where
  "account_ctl t type user bind st =
     (case get_account t st of
        None \<Rightarrow> (TGTADM_NO_TARGET, st)
      | Some acc \<Rightarrow>
      case account_lookup_user user st of
        None \<Rightarrow> (TGTADM_NO_USER, st)
      | Some ac \<Rightarrow>
          let (err, acc') =
            (case (bind, type) of
               (True, ACCOUNT_TYPE_INCOMING) \<Rightarrow> inaccount_bind (aid ac) acc
             | (True, ACCOUNT_TYPE_OUTGOING) \<Rightarrow>
                 if out_aid acc \<noteq> 0 then (TGTADM_OUTACCOUNT_EXIST, acc)
                 else (TGTADM_SUCCESS, acc\<lparr>out_aid := aid ac\<rparr>)
             | (False, ACCOUNT_TYPE_INCOMING) \<Rightarrow> inaccount_unbind (aid ac) acc
             | (False, ACCOUNT_TYPE_OUTGOING) \<Rightarrow>
                 if out_aid acc = aid ac then (TGTADM_SUCCESS, acc\<lparr>out_aid := 0\<rparr>) else (TGTADM_NO_USER, acc))
          in (err, set_account t acc' st))"

definition account_del :: "string \<Rightarrow> adm \<Rightarrow> tgtadm_err \<times> adm" where
  "account_del user st =
     (case account_lookup_user user st of
        None \<Rightarrow> (TGTADM_NO_USER, st)
      | Some ac \<Rightarrow>
          let unbind = (\<lambda>t st. snd (account_ctl t ACCOUNT_TYPE_OUTGOING user False
                                 (snd (account_ctl t ACCOUNT_TYPE_INCOMING user False st))));
              st1 = fold unbind (map tid (adm_targets st)) st;
              st2 = unbind GLOBAL_TID st1
          in (TGTADM_SUCCESS, st2\<lparr>adm_accounts := lremove ac_user user (adm_accounts st2)\<rparr>))"

definition account_available :: "int \<Rightarrow> account_type \<Rightarrow> adm \<Rightarrow> int" where
  "account_available t dir st =
     (case get_account t st of
        None \<Rightarrow> 0
      | Some acc \<Rightarrow> (case dir of ACCOUNT_TYPE_INCOMING \<Rightarrow> int (nr_inaccount acc) | ACCOUNT_TYPE_OUTGOING \<Rightarrow> out_aid acc))"

section \<open>Access lists\<close>

definition acl_add :: "int \<Rightarrow> string \<Rightarrow> target list \<Rightarrow> tgtadm_err \<times> target list" where
  "acl_add t address ts =
     (case target_lookup t ts of
        None \<Rightarrow> (TGTADM_NO_TARGET, ts)
      | Some target \<Rightarrow>
          if address \<in> set (acl_list target) then (TGTADM_ACL_EXIST, ts)
          else (TGTADM_SUCCESS, upd_target t (\<lambda>x. x\<lparr>acl_list := acl_list x @ [address]\<rparr>) ts))"

definition acl_del :: "int \<Rightarrow> string \<Rightarrow> target list \<Rightarrow> tgtadm_err \<times> target list" where
  "acl_del t address ts =
     (case target_lookup t ts of
        None \<Rightarrow> (TGTADM_NO_TARGET, ts)
      | Some target \<Rightarrow>
          if address \<in> set (acl_list target)
          then (TGTADM_SUCCESS, upd_target t (\<lambda>x. x\<lparr>acl_list := remove1 address (acl_list x)\<rparr>) ts)
          else (TGTADM_ACL_NOEXIST, ts))"

definition acl_get :: "int \<Rightarrow> nat \<Rightarrow> target list \<Rightarrow> string option" where
  "acl_get t idx ts =
     (case target_lookup t ts of
        None \<Rightarrow> None
      | Some target \<Rightarrow> if idx < length (acl_list target) then Some (acl_list target ! idx) else None)"

definition iqn_acl_add :: "int \<Rightarrow> string \<Rightarrow> target list \<Rightarrow> tgtadm_err \<times> target list" where
  "iqn_acl_add t name ts =
     (case target_lookup t ts of
        None \<Rightarrow> (TGTADM_NO_TARGET, ts)
      | Some target \<Rightarrow>
          if name \<in> set (iqn_acl_list target) then (TGTADM_ACL_EXIST, ts)
          else (TGTADM_SUCCESS, upd_target t (\<lambda>x. x\<lparr>iqn_acl_list := iqn_acl_list x @ [name]\<rparr>) ts))"

definition iqn_acl_del :: "int \<Rightarrow> string \<Rightarrow> target list \<Rightarrow> tgtadm_err \<times> target list" where
  "iqn_acl_del t name ts =
     (case target_lookup t ts of
        None \<Rightarrow> (TGTADM_NO_TARGET, ts)
      | Some target \<Rightarrow>
          if name \<in> set (iqn_acl_list target)
          then (TGTADM_SUCCESS, upd_target t (\<lambda>x. x\<lparr>iqn_acl_list := remove1 name (iqn_acl_list x)\<rparr>) ts)
          else (TGTADM_ACL_NOEXIST, ts))"

definition iqn_acl_get :: "int \<Rightarrow> nat \<Rightarrow> target list \<Rightarrow> string option" where
  "iqn_acl_get t idx ts =
     (case target_lookup t ts of
        None \<Rightarrow> None
      | Some target \<Rightarrow> if idx < length (iqn_acl_list target) then Some (iqn_acl_list target ! idx) else None)"

section \<open>Host bindings and states\<close>

definition tgt_bind_host_to_target :: "int \<Rightarrow> int \<Rightarrow> adm \<Rightarrow> tgtadm_err \<times> adm" where
  "tgt_bind_host_to_target t host_no st =
     (case target_lookup t (adm_targets st) of
        None \<Rightarrow> (TGTADM_NO_TARGET, st)
      | Some _ \<Rightarrow>
          if host_no \<in> fst ` set (adm_hosts st) then (TGTADM_BINDING_EXIST, st)
          else (TGTADM_SUCCESS, st\<lparr>adm_hosts := (host_no, t) # adm_hosts st\<rparr>))"

text \<open>\<open>None\<close>: the binding's target was destroyed and its pointer dangles.\<close>

definition tgt_unbind_host_to_target :: "int \<Rightarrow> adm \<Rightarrow> (tgtadm_err \<times> adm) option" where
  "tgt_unbind_host_to_target host_no st =
     (case lfind fst host_no (adm_hosts st) of
        None \<Rightarrow> Some (TGTADM_NO_BINDING, st)
      | Some (_, t) \<Rightarrow>
          (case target_lookup t (adm_targets st) of
             None \<Rightarrow> None
           | Some target \<Rightarrow>
               if it_nexus_list target \<noteq> [] then Some (TGTADM_TARGET_ACTIVE, st)
               else Some (TGTADM_SUCCESS, st\<lparr>adm_hosts := lremove fst host_no (adm_hosts st)\<rparr>)))"

definition tgt_get_target_state :: "int \<Rightarrow> target list \<Rightarrow> scsi_target_state option" where
  "tgt_get_target_state t ts = map_option target_state (target_lookup t ts)"

definition target_state_names :: "(scsi_target_state \<times> string) list" where
  "target_state_names = [(SCSI_TARGET_OFFLINE, ''offline''), (SCSI_TARGET_READY, ''ready'')]"

definition target_state_name :: "scsi_target_state \<Rightarrow> string option" where
  "target_state_name state = map_option snd (lfind fst state target_state_names)"

definition tgt_set_target_state :: "int \<Rightarrow> string \<Rightarrow> target list \<Rightarrow> tgtadm_err \<times> target list" where
  "tgt_set_target_state t str ts =
     (case target_lookup t ts of
        None \<Rightarrow> (TGTADM_NO_TARGET, ts)
      | Some _ \<Rightarrow>
          (case lfind snd str target_state_names of
             None \<Rightarrow> (TGTADM_INVALID_REQUEST, ts)
           | Some (v, _) \<Rightarrow> (TGTADM_SUCCESS, upd_target t (\<lambda>x. x\<lparr>target_state := v\<rparr>) ts)))"

definition system_state_names :: "(tgt_system_state \<times> string) list" where
  "system_state_names = [(TGT_SYSTEM_OFFLINE, ''offline''), (TGT_SYSTEM_READY, ''ready'')]"

definition system_state_name :: "tgt_system_state \<Rightarrow> string option" where
  "system_state_name state = map_option snd (lfind fst state system_state_names)"

definition system_set_state :: "string \<Rightarrow> adm \<Rightarrow> tgtadm_err \<times> adm" where
  "system_set_state str st =
     (case lfind snd str system_state_names of
        None \<Rightarrow> (TGTADM_INVALID_REQUEST, st)
      | Some (v, _) \<Rightarrow> (TGTADM_SUCCESS, st\<lparr>adm_state := v\<rparr>))"

definition is_system_available :: "adm \<Rightarrow> bool" where
  "is_system_available st \<longleftrightarrow> adm_state st = TGT_SYSTEM_READY"

definition is_system_inactive :: "adm \<Rightarrow> bool" where
  "is_system_inactive st \<longleftrightarrow> adm_targets st = []"

section \<open>Targets\<close>

definition target_name_char :: "char \<Rightarrow> bool" where
  "target_name_char c =
     (let n = of_char c :: nat in
      (48 \<le> n \<and> n \<le> 57) \<or> (65 \<le> n \<and> n \<le> 90) \<or> (97 \<le> n \<and> n \<le> 122) \<or>
      c = CHR '':'' \<or> c = CHR ''.'' \<or> c = CHR ''-'')"

fun split_commas :: "string \<Rightarrow> string \<Rightarrow> string list" where
  "split_commas acc [] = [rev acc]"
| "split_commas acc (c # cs) = (if c = CHR '','' then rev acc # split_commas [] cs else split_commas (c # acc) cs)"

text \<open>The last \<open>targetname=\<close> option of the argument string.\<close>

definition parse_targetname :: "string \<Rightarrow> string option" where
  "parse_targetname args =
     fold (\<lambda>q name.
         if CHR ''='' \<in> set q \<and> takeWhile (\<lambda>c. c \<noteq> CHR ''='') q = ''targetname''
         then Some (drop 1 (dropWhile (\<lambda>c. c \<noteq> CHR ''='') q)) else name)
       (split_commas [] args) None"

fun insert_target :: "target \<Rightarrow> target list \<Rightarrow> target list" where
  "insert_target t [] = [t]"
| "insert_target t (pos # ps) = (if tid t < tid pos then t # pos # ps else pos # insert_target t ps)"

definition new_target :: "int \<Rightarrow> int \<Rightarrow> string \<Rightarrow> backingstore_template \<Rightarrow> target" where
  "new_target lld t name bst =
     \<lparr>tgt_name = name, tid = t, lid = lld, target_state = SCSI_TARGET_READY, device_list = [],
      it_nexus_list = [], tgt_bst = bst, acl_list = [], iqn_acl_list = [],
      account = \<lparr>out_aid = 0, nr_inaccount = 0, max_inaccount = 16, in_aids = replicate 16 0\<rparr>\<rparr>"

text \<open>
  \<open>default_bst\<close> is the driver's default store, \<open>dev_create\<close> the creation of unit 0
  (a controller on the null store). \<open>None\<close>: the name is read before it is tested
  against null.
\<close>

definition tgt_target_create ::
  "(string \<Rightarrow> backingstore_template option) \<Rightarrow> (backingstore_template \<Rightarrow> bs_ops) \<Rightarrow> device_type_template list \<Rightarrow>
   string \<Rightarrow> int \<Rightarrow> int \<Rightarrow> string \<Rightarrow> target list \<Rightarrow> (tgtadm_err \<times> target list) option" where
  "tgt_target_create get_bst bsops dtypes default_bst lld t args ts =
     (case parse_targetname args of
        None \<Rightarrow> None
      | Some name \<Rightarrow>
          if \<not> list_all target_name_char name then Some (TGTADM_INVALID_REQUEST, ts)
          else if target_lookup t ts \<noteq> None then Some (TGTADM_TARGET_EXIST, ts)
          else if target_name_lookup name ts then Some (TGTADM_TARGET_EXIST, ts)
          else case get_bst default_bst of
            None \<Rightarrow> Some (TGTADM_INVALID_REQUEST, ts)
          | Some bst \<Rightarrow>
              let ts1 = insert_target (new_target lld t name bst) ts in
              Some (TGTADM_SUCCESS, snd (tgt_device_create get_bst bsops dtypes t 0x0c 0 None False ts1)))"

text \<open>The units go from the last to unit 0; a busy unit stops the destruction.\<close>

function destroy_devices :: "int \<Rightarrow> target list \<Rightarrow> tgtadm_err \<times> target list" where
  "destroy_devices t ts =
     (case target_lookup t ts of
        None \<Rightarrow> (TGTADM_SUCCESS, ts)
      | Some target \<Rightarrow>
          if device_list target = [] then (TGTADM_SUCCESS, ts)
          else
            let (err, ts1) = tgt_device_destroy t (lun (last (device_list target))) True ts in
            if err \<noteq> TGTADM_SUCCESS then (err, ts1) else destroy_devices t ts1)"
  by pat_completeness auto

lemma target_lookup_upd:
  "(\<And>x. tid (f x) = tid x) \<Longrightarrow>
   target_lookup i (upd_target t f ts) = map_option (\<lambda>x. if i = t then f x else x) (target_lookup i ts)"
  by (simp add: target_lookup_def upd_target_def lfind_lupdate)

lemma length_lremove_less: "x \<in> set xs \<Longrightarrow> length (lremove key (key x) xs) < length xs"
  by (induction xs) (auto simp: lremove_def le_imp_less_Suc)

lemma tgt_device_destroy_shrinks:
  assumes "target_lookup t ts = Some target" "lu \<in> set (device_list target)"
    and "tgt_device_destroy t (lun lu) True ts = (TGTADM_SUCCESS, ts1)"
  shows "\<exists>target1. target_lookup t ts1 = Some target1 \<and> length (device_list target1) < length (device_list target)"
proof -
  have "ts1 = upd_target t (unlink_device (lun lu)) ts"
    using assms(3) by (auto simp: tgt_device_destroy_def split: option.splits if_splits)
  then have "target_lookup t ts1 = Some (unlink_device (lun lu) target)"
    using assms(1) by (simp add: target_lookup_upd unlink_device_def Let_def)
  moreover have "length (device_list (unlink_device (lun lu) target)) < length (device_list target)"
    using length_lremove_less [OF assms(2), of lun] by (simp add: unlink_device_def Let_def)
  ultimately show ?thesis by blast
qed

termination destroy_devices
proof (relation "measure (\<lambda>(t, ts). case target_lookup t ts of None \<Rightarrow> 0 | Some x \<Rightarrow> length (device_list x))")
  fix t ts target p err ts1
  assume t: "target_lookup t ts = Some target" and ne: "device_list target \<noteq> []"
    and p: "p = tgt_device_destroy t (lun (last (device_list target))) True ts" "(err, ts1) = p" "\<not> err \<noteq> TGTADM_SUCCESS"
  have "last (device_list target) \<in> set (device_list target)"
    using ne by simp
  then obtain target1 where "target_lookup t ts1 = Some target1" "length (device_list target1) < length (device_list target)"
    using tgt_device_destroy_shrinks [OF t] p by metis
  then show "((t, ts1), (t, ts)) \<in> measure (\<lambda>(t, ts). case target_lookup t ts of None \<Rightarrow> 0 | Some x \<Rightarrow> length (device_list x))"
    using t by simp
qed simp

declare destroy_devices.simps [simp del]

definition tgt_target_destroy :: "int \<Rightarrow> bool \<Rightarrow> adm \<Rightarrow> tgtadm_err \<times> adm" where
  "tgt_target_destroy t force st =
     (case target_lookup t (adm_targets st) of
        None \<Rightarrow> (TGTADM_NO_TARGET, st)
      | Some target \<Rightarrow>
          if \<not> force \<and> it_nexus_list target \<noteq> [] then (TGTADM_TARGET_ACTIVE, st)
          else
            let (err, ts1) = destroy_devices t (adm_targets st) in
            if err \<noteq> TGTADM_SUCCESS then (err, st\<lparr>adm_targets := ts1\<rparr>)
            else (TGTADM_SUCCESS, st\<lparr>adm_targets := lremove tid t ts1\<rparr>))"

section \<open>Media and attributes\<close>

definition dtd_check_removable :: "int \<Rightarrow> u64 \<Rightarrow> target list \<Rightarrow> tgtadm_err" where
  "dtd_check_removable t l ts =
     (case device_lookup_tid t l ts of
        None \<Rightarrow> TGTADM_NO_LUN
      | Some (target, lu) \<Rightarrow>
          if lu_prevent_removal lu (it_nexus_list target) then TGTADM_PREVENT_REMOVAL
          else if removable (attrs lu) = 0 then TGTADM_INVALID_REQUEST
          else TGTADM_SUCCESS)"

text \<open>The unit after an unload, before a new medium is opened.\<close>

definition unload_lu :: "bs_ops \<Rightarrow> scsi_lu \<Rightarrow> scsi_lu" where
  "unload_lu bs lu =
     (if lu_path lu \<noteq> None then (bs_close bs lu)\<lparr>lu_path := None\<rparr> else lu)\<lparr>lu_size := 0, lu_fd := 0\<rparr>"

definition dtd_load_unload ::
  "bs_ops \<Rightarrow> device_type_template \<Rightarrow> int \<Rightarrow> u64 \<Rightarrow> bool \<Rightarrow> string \<Rightarrow> target list \<Rightarrow> tgtadm_err \<times> target list" where
  "dtd_load_unload bs dt t l load file ts =
     (case device_lookup_tid t l ts of
        None \<Rightarrow> (TGTADM_NO_LUN, ts)
      | Some (target, lu) \<Rightarrow>
          if lu_prevent_removal lu (it_nexus_list target) then (TGTADM_PREVENT_REMOVAL, ts)
          else if removable (attrs lu) = 0 then (TGTADM_INVALID_REQUEST, ts)
          else
            let (err, lu1) = dt_lu_offline dt target (unload_lu bs lu);
                put = (\<lambda>lu'. upd_target t (upd_device l (\<lambda>_. lu')) ts)
            in if err \<noteq> TGTADM_SUCCESS then (err, put lu1)
               else if \<not> load then (err, put lu1)
               else case bs_open bs (lu1\<lparr>lu_path := Some file\<rparr>) file of
                 (None, lu2) \<Rightarrow> (TGTADM_UNSUPPORTED_OPERATION, put (lu2\<lparr>lu_fd := - 1, lu_path := None\<rparr>))
               | (Some (fd, sz), lu2) \<Rightarrow>
                   let (err2, lu3) = dt_lu_online dt (lu2\<lparr>lu_fd := fd, lu_size := sz\<rparr>) in (err2, put lu3))"

definition tgt_device_update :: "device_type_template \<Rightarrow> int \<Rightarrow> u64 \<Rightarrow> string \<Rightarrow> target list \<Rightarrow> tgtadm_err \<times> target list" where
  "tgt_device_update dt t l params ts =
     (case target_lookup t ts of
        None \<Rightarrow> (TGTADM_NO_TARGET, ts)
      | Some target \<Rightarrow>
          (case device_lookup target l of
             None \<Rightarrow> (TGTADM_NO_LUN, ts)
           | Some lu \<Rightarrow>
               (case dt_lu_config dt of
                  None \<Rightarrow> (TGTADM_INVALID_REQUEST, ts)
                | Some f \<Rightarrow> (fst (f target lu params), upd_target t (upd_device l (\<lambda>lu. snd (f target lu params))) ts))))"

text \<open>
  The logical-blocks-per-physical-block exponent of a file's preferred block
  size; the exponent is an 8-bit counter.
\<close>

function lbppbe_loop :: "nat \<Rightarrow> int \<Rightarrow> u8 \<Rightarrow> u8" where
  "lbppbe_loop shift blksize e =
     (if 0 < blksize \<and> 2 ^ shift < blksize then lbppbe_loop shift (blksize div 2) (e + 1) else e)"
  by pat_completeness auto
termination by (relation "measure (\<lambda>(shift, b, e). nat b)") auto

definition update_lbppbe :: "int \<Rightarrow> scsi_lu \<Rightarrow> scsi_lu" where
  "update_lbppbe blksize lu = lu\<lparr>attrs := (attrs lu)\<lparr>lbppbe := lbppbe_loop (blk_shift lu) blksize 0\<rparr>\<rparr>"

section \<open>The contract of an access list\<close>

text \<open>
  Both access lists of a target (addresses and initiator names) keep this
  contract; what the iSCSI login relies on is proved once from it.
\<close>

locale access_list =
  fixes entries :: "target \<Rightarrow> string list"
    and put :: "string list \<Rightarrow> target \<Rightarrow> target"
    and add :: "int \<Rightarrow> string \<Rightarrow> target list \<Rightarrow> tgtadm_err \<times> target list"
    and del :: "int \<Rightarrow> string \<Rightarrow> target list \<Rightarrow> tgtadm_err \<times> target list"
    and get :: "int \<Rightarrow> nat \<Rightarrow> target list \<Rightarrow> string option"
  assumes entries_put: "entries (put es t) = es"
    and tid_put: "tid (put es t) = tid t"
    and add_eq: "add i a ts = (case target_lookup i ts of
        None \<Rightarrow> (TGTADM_NO_TARGET, ts)
      | Some t \<Rightarrow> if a \<in> set (entries t) then (TGTADM_ACL_EXIST, ts)
                  else (TGTADM_SUCCESS, upd_target i (\<lambda>t. put (entries t @ [a]) t) ts))"
    and del_eq: "del i a ts = (case target_lookup i ts of
        None \<Rightarrow> (TGTADM_NO_TARGET, ts)
      | Some t \<Rightarrow> if a \<in> set (entries t)
                  then (TGTADM_SUCCESS, upd_target i (\<lambda>t. put (remove1 a (entries t)) t) ts)
                  else (TGTADM_ACL_NOEXIST, ts))"
    and get_eq: "get i idx ts = (case target_lookup i ts of
        None \<Rightarrow> None | Some t \<Rightarrow> if idx < length (entries t) then Some (entries t ! idx) else None)"
begin

lemma get_iff: "target_lookup i ts = Some t \<Longrightarrow> (\<exists>idx. get i idx ts = Some a) \<longleftrightarrow> a \<in> set (entries t)"
  by (auto simp: get_eq in_set_conv_nth)

lemma add_success:
  assumes "add i a ts = (TGTADM_SUCCESS, ts1)"
  obtains t where "target_lookup i ts = Some t" "a \<notin> set (entries t)"
    "target_lookup i ts1 = Some (put (entries t @ [a]) t)"
  using assms
  by (auto simp: add_eq target_lookup_upd tid_put split: option.splits if_splits)

lemma add_then_get: "add i a ts = (TGTADM_SUCCESS, ts1) \<Longrightarrow> \<exists>idx. get i idx ts1 = Some a"
  by (erule add_success) (simp add: get_iff entries_put)

lemma add_then_del:
  assumes "add i a ts = (TGTADM_SUCCESS, ts1)"
  shows "fst (del i a ts1) = TGTADM_SUCCESS \<and> get i idx (snd (del i a ts1)) = get i idx ts"
  using assms
  by (elim add_success) (simp add: del_eq get_eq target_lookup_upd tid_put entries_put remove1_append)

lemma add_twice: "add i a ts = (TGTADM_SUCCESS, ts1) \<Longrightarrow> fst (add i a ts1) = TGTADM_ACL_EXIST"
proof (erule add_success)
  fix t assume "target_lookup i ts1 = Some (put (entries t @ [a]) t)"
  then show ?thesis
    unfolding add_eq [of i a ts1] by (simp add: entries_put)
qed

lemma add_contract:
  "add i a ts = (TGTADM_SUCCESS, ts1) \<Longrightarrow>
   (\<exists>idx. get i idx ts1 = Some a) \<and> fst (add i a ts1) = TGTADM_ACL_EXIST
   \<and> fst (del i a ts1) = TGTADM_SUCCESS \<and> (\<forall>idx. get i idx (snd (del i a ts1)) = get i idx ts)"
  using add_then_get add_twice add_then_del by blast

lemma distinct_add:
  "target_lookup i ts = Some t \<Longrightarrow> distinct (entries t) \<Longrightarrow> target_lookup i (snd (add i a ts)) = Some t1 \<Longrightarrow>
   distinct (entries t1)"
  by (auto simp: add_eq target_lookup_upd tid_put entries_put split: if_splits)

end

interpretation acl: access_list acl_list "\<lambda>es t. t\<lparr>acl_list := es\<rparr>" acl_add acl_del acl_get
  by unfold_locales (simp_all add: acl_add_def acl_del_def acl_get_def)

interpretation iqn_acl: access_list iqn_acl_list "\<lambda>es t. t\<lparr>iqn_acl_list := es\<rparr>" iqn_acl_add iqn_acl_del iqn_acl_get
  by unfold_locales (simp_all add: iqn_acl_add_def iqn_acl_del_def iqn_acl_get_def)

text \<open>
  An address that was added to a target's access list is found among its
  entries, a second addition is refused, and its removal restores the list; the
  same holds of the list of initiator names.
\<close>

theorem acl_add_del_roundtrip:
  "(\<forall>ts1. acl_add i a ts = (TGTADM_SUCCESS, ts1) \<longrightarrow>
      (\<exists>idx. acl_get i idx ts1 = Some a) \<and> fst (acl_add i a ts1) = TGTADM_ACL_EXIST
      \<and> fst (acl_del i a ts1) = TGTADM_SUCCESS \<and> (\<forall>idx. acl_get i idx (snd (acl_del i a ts1)) = acl_get i idx ts))
   \<and> (\<forall>ts1. iqn_acl_add i a ts = (TGTADM_SUCCESS, ts1) \<longrightarrow>
      (\<exists>idx. iqn_acl_get i idx ts1 = Some a) \<and> fst (iqn_acl_add i a ts1) = TGTADM_ACL_EXIST
      \<and> fst (iqn_acl_del i a ts1) = TGTADM_SUCCESS
      \<and> (\<forall>idx. iqn_acl_get i idx (snd (iqn_acl_del i a ts1)) = iqn_acl_get i idx ts))"
  using acl.add_contract iqn_acl.add_contract by blast

definition ex_bst :: backingstore_template where
  "ex_bst = \<lparr>bs_name = ''rdwr'', bs_oflags_supported = O_SYNC OR O_DIRECT, bs_supported_ops = replicate 4 0\<rparr>"

theorem acl_add_del_roundtrip_witness:
  "\<exists>idx. acl_get 1 idx (snd (acl_add 1 ''ALL'' [new_target 0 1 ''t'' ex_bst])) = Some ''ALL''"
proof -
  have "acl_add 1 ''ALL'' [new_target 0 1 ''t'' ex_bst] =
      (TGTADM_SUCCESS, [(new_target 0 1 ''t'' ex_bst)\<lparr>acl_list := [''ALL'']\<rparr>])"
    by (simp add: acl_add_def target_lookup_def new_target_def upd_target_def lupdate_def)
  then show ?thesis
    using acl_add_del_roundtrip [of 1 "''ALL''" "[new_target 0 1 ''t'' ex_bst]"] by auto
qed

section \<open>Accounts\<close>

text \<open>
  The slots of an account record: as many are used as \<open>nr_inaccount\<close> says. They
  are compact when the used slots come first.
\<close>

definition acc_inv :: "tgt_account \<Rightarrow> bool" where
  "acc_inv acc \<longleftrightarrow> length (in_aids acc) = max_inaccount acc \<and> 0 < max_inaccount acc \<and>
     length (filter (\<lambda>a. a \<noteq> 0) (in_aids acc)) = nr_inaccount acc"

definition acc_compact :: "tgt_account \<Rightarrow> bool" where
  "acc_compact acc \<longleftrightarrow> list_all (\<lambda>a. a \<noteq> 0) (take (nr_inaccount acc) (in_aids acc)) \<and>
     list_all (\<lambda>a. a = 0) (drop (nr_inaccount acc) (in_aids acc))"

lemma first_free_le: "first_free i as \<le> i + length as"
  by (induction i as rule: first_free.induct) auto

lemma first_free_nth:
  "first_free i as < i + length as \<Longrightarrow> i \<le> first_free i as \<and> as ! (first_free i as - i) = 0"
proof (induction i as rule: first_free.induct)
  case (2 i a as)
  then show ?case
    by (cases "a = 0") (auto simp: nth_Cons' split: if_splits)
qed simp

lemma first_free_compact:
  "list_all (\<lambda>a. a \<noteq> 0) xs \<Longrightarrow> list_all (\<lambda>a. a = 0) ys \<Longrightarrow> first_free i (xs @ ys) = i + length xs"
  by (induction xs arbitrary: i) (cases ys; auto)+

lemma first_free_full:
  "first_free i as = i + length as \<Longrightarrow> list_all (\<lambda>a. a \<noteq> 0) as"
proof (induction i as rule: first_free.induct)
  case (2 i a as)
  then show ?case
    using first_free_le [of "i + 1" as] by (cases "a = 0") auto
qed simp

lemma filter_update_zero:
  "i < length as \<Longrightarrow> as ! i = 0 \<Longrightarrow> (a::int) \<noteq> 0 \<Longrightarrow>
   length (filter (\<lambda>x. x \<noteq> 0) (as[i := a])) = length (filter (\<lambda>x. x \<noteq> 0) as) + 1"
  by (induction as arbitrary: i) (auto split: nat.splits)

lemma filter_upd_first:
  "a \<in> set as \<Longrightarrow> (a::int) \<noteq> 0 \<Longrightarrow>
   length (filter (\<lambda>x. x \<noteq> 0) (upd_first (\<lambda>x. x = a) (\<lambda>_. 0) as)) = length (filter (\<lambda>x. x \<noteq> 0) as) - 1"
proof (induction as)
  case (Cons x xs)
  then show ?case
    using length_pos_if_in_set [of a "filter (\<lambda>x. x \<noteq> 0) xs"] by (auto simp: Suc_diff_Suc)
qed simp

lemma acc_inv_bind:
  assumes "acc_inv acc" "a \<noteq> 0" "inaccount_bind a acc = (TGTADM_SUCCESS, acc')"
  shows "acc_inv acc' \<and> a \<in> set (in_aids acc') \<and> nr_inaccount acc' = nr_inaccount acc + 1"
proof (cases "nr_inaccount acc < max_inaccount acc")
  case True
  let ?i = "first_free 0 (in_aids acc)"
  have i: "?i < length (in_aids acc)" "in_aids acc ! ?i = 0"
    and acc': "acc' = acc\<lparr>in_aids := (in_aids acc)[?i := a], nr_inaccount := nr_inaccount acc + 1\<rparr>"
    using assms True first_free_le [of 0 "in_aids acc"] first_free_nth [of 0 "in_aids acc"]
    by (auto simp: inaccount_bind_def acc_inv_def Let_def split: if_splits)
  show ?thesis
    using assms(1,2) i filter_update_zero [OF i assms(2)]
    by (auto simp: acc' acc_inv_def set_update_memI)
next
  case False
  let ?m = "max_inaccount acc"
  let ?buf = "in_aids acc @ replicate ?m 0"
  have acc': "acc' = acc\<lparr>in_aids := ?buf[?m := a], max_inaccount := 2 * ?m, nr_inaccount := nr_inaccount acc + 1\<rparr>"
    using assms False by (auto simp: inaccount_bind_def acc_inv_def Let_def split: if_splits)
  have m: "?m < length ?buf" "?buf ! ?m = 0"
    using assms(1) by (auto simp: acc_inv_def nth_append)
  show ?thesis
    using assms(1,2) m filter_update_zero [OF m assms(2)]
    by (auto simp: acc' acc_inv_def set_update_memI)
qed

lemma acc_inv_unbind:
  "acc_inv acc \<Longrightarrow> a \<noteq> 0 \<Longrightarrow> acc_inv (snd (inaccount_unbind a acc))"
  by (auto simp: inaccount_unbind_def acc_inv_def filter_upd_first)

text \<open>Binding keeps compact slots compact and puts the new account among the used ones.\<close>

lemma acc_compact_bind:
  assumes "acc_inv acc" "acc_compact acc" "a \<noteq> 0" "inaccount_bind a acc = (TGTADM_SUCCESS, acc')"
  shows "acc_compact acc' \<and>
     take (nr_inaccount acc') (in_aids acc') = take (nr_inaccount acc) (in_aids acc) @ [a]"
proof -
  let ?n = "nr_inaccount acc" and ?as = "in_aids acc" and ?m = "max_inaccount acc"
  have n: "?n \<le> length ?as"
    using assms(1) length_filter_le [of "\<lambda>a. a \<noteq> 0" ?as] by (simp add: acc_inv_def)
  show ?thesis
  proof (cases "?n < ?m")
    case True
    have "first_free 0 (take ?n ?as @ drop ?n ?as) = 0 + length (take ?n ?as)"
      using assms(2) by (intro first_free_compact) (simp_all add: acc_compact_def)
    then have "first_free 0 ?as = ?n"
      using n by simp
    then have acc': "acc' = acc\<lparr>in_aids := ?as[?n := a], nr_inaccount := ?n + 1\<rparr>"
      using assms(1,4) True by (auto simp: inaccount_bind_def acc_inv_def Let_def split: if_splits)
    have "?n < length ?as"
      using True assms(1) by (simp add: acc_inv_def)
    moreover have "set (drop (Suc ?n) ?as) \<subseteq> set (drop ?n ?as)"
      by (simp add: set_drop_subset_set_drop)
    ultimately show ?thesis
      using assms(2,3) by (auto simp: acc' acc_compact_def take_Suc_conv_app_nth list_all_iff)
  next
    case False
    then have nm: "?n = ?m" "length ?as = ?m"
      using n assms(1) by (simp_all add: acc_inv_def)
    then have acc': "acc' = acc\<lparr>in_aids := (?as @ replicate ?m 0)[?m := a], max_inaccount := 2 * ?m, nr_inaccount := ?n + 1\<rparr>"
      using assms(1,4) by (auto simp: inaccount_bind_def acc_inv_def Let_def split: if_splits)
    obtain k where "?m = Suc k"
      using assms(1) by (cases ?m) (auto simp: acc_inv_def)
    then show ?thesis
      using assms(1-3) nm by (auto simp: acc' acc_compact_def acc_inv_def list_update_append list_all_iff)
  qed
qed

definition accounts_inv :: "adm \<Rightarrow> bool" where
  "accounts_inv st \<longleftrightarrow> distinct (map aid (adm_accounts st)) \<and> distinct (map ac_user (adm_accounts st)) \<and>
     list_all (\<lambda>ac. 0 < aid ac) (adm_accounts st)"

declare next_aid.simps [simp del]

lemma next_aid_fresh: "next_aid st a = b \<Longrightarrow> b \<noteq> INT_MAX \<Longrightarrow> a \<le> INT_MAX \<Longrightarrow> account_lookup_id b st = None \<and> a \<le> b"
proof (induction st a arbitrary: b rule: next_aid.induct)
  case (1 st a)
  show ?case
  proof (cases "account_lookup_id a st \<noteq> None \<and> a < INT_MAX")
    case True
    then have "next_aid st (a + 1) = b"
      using "1.prems"(1) by (subst (asm) next_aid.simps) simp
    then show ?thesis
      using "1.IH" [OF True] "1.prems" True by fastforce
  next
    case False
    then have "b = a"
      using "1.prems"(1) by (subst (asm) next_aid.simps) (metis (no_types, lifting))
    then show ?thesis
      using False "1.prems" by auto
  qed
qed

lemma accounts_inv_add: "accounts_inv st \<Longrightarrow> accounts_inv (snd (account_add user password st))"
  using next_aid_fresh [of st 1 "next_aid st 1"]
  by (auto simp: account_add_def accounts_inv_def Let_def account_lookup_id_def account_lookup_user_def lfind_None_iff)

lemma get_set_account [simp]:
  "get_account t st \<noteq> None \<Longrightarrow> get_account t (set_account t a st) = Some a"
  by (auto simp: get_account_def set_account_def target_lookup_upd)

lemma accounts_set_account [simp]:
  "adm_accounts (set_account t a st) = adm_accounts st"
  "account_lookup_user u (set_account t a st) = account_lookup_user u st"
  "account_lookup_id i (set_account t a st) = account_lookup_id i st"
  by (simp_all add: set_account_def account_lookup_user_def account_lookup_id_def)

lemma find_incoming_mem:
  assumes inv: "accounts_inv st" and ac: "account_lookup_user user st = Some ac"
  shows "find_incoming st user aids = (if aid ac \<in> set aids then Some ac else None)"
proof -
  have mem: "ac \<in> set (adm_accounts st)" "ac_user ac = user"
    using ac by (auto simp: account_lookup_user_def dest: lfind_SomeD)
  have id: "account_lookup_id (aid ac) st = Some ac"
    using inv mem by (simp add: account_lookup_id_def accounts_inv_def lfind_distinct)
  have uniq: "x = ac" if "account_lookup_id a st = Some x" "ac_user x = user" for a x
  proof -
    have "x \<in> set (adm_accounts st)"
      using that by (auto simp: account_lookup_id_def dest: lfind_SomeD)
    then show ?thesis
      using inv mem that(2) by (metis accounts_inv_def lfind_distinct option.inject)
  qed
  have key: "(case account_lookup_id a st of None \<Rightarrow> False | Some x \<Rightarrow> ac_user x = user) \<longleftrightarrow> a = aid ac" for a
    using uniq [of a] id mem by (auto simp: account_lookup_id_def split: option.splits dest: lfind_SomeD)
  have "find (\<lambda>a. a = aid ac) aids = (if aid ac \<in> set aids then Some (aid ac) else None)"
    by (induction aids) auto
  then show ?thesis
    unfolding find_incoming_def key using id by simp
qed

text \<open>
  Binding a user to a target whose account slots were only ever filled makes
  the login's look-up find the user with the stored password, and keeps every
  user found that was found before.
\<close>

lemma account_bind_lookup:
  assumes "accounts_inv st" "get_account t st = Some acc" "acc_inv acc" "acc_compact acc"
    and "account_ctl t ACCOUNT_TYPE_INCOMING user True st = (TGTADM_SUCCESS, st')"
  shows "(\<exists>ac. account_lookup_user user st = Some ac \<and>
      account_lookup t ACCOUNT_TYPE_INCOMING user ulen plen st' = Some (user, take plen (ac_password ac)))
    \<and> (\<forall>u r. account_lookup t ACCOUNT_TYPE_INCOMING u ulen plen st = Some r \<longrightarrow>
        account_lookup t ACCOUNT_TYPE_INCOMING u ulen plen st' = Some r)"
proof -
  obtain ac where ac: "account_lookup_user user st = Some ac"
    using assms(2,5) by (auto simp: account_ctl_def split: option.splits)
  have "ac \<in> set (adm_accounts st)"
    using ac by (auto simp: account_lookup_user_def dest: lfind_SomeD)
  then have nz: "aid ac \<noteq> 0"
    using assms(1) by (auto simp: accounts_inv_def list_all_iff)
  obtain acc' where bind: "inaccount_bind (aid ac) acc = (TGTADM_SUCCESS, acc')" and st': "st' = set_account t acc' st"
    using assms(2,5) ac by (auto simp: account_ctl_def split: prod.splits)
  have tk: "take (nr_inaccount acc') (in_aids acc') = take (nr_inaccount acc) (in_aids acc) @ [aid ac]"
    using acc_compact_bind [OF assms(3,4) nz bind] by simp
  have inv': "accounts_inv st'"
    using assms(1) by (simp add: st' accounts_inv_def)
  have find_app: "find_incoming st u (xs @ ys) = Some z" if "find_incoming st u xs = Some z" for u xs ys z
  proof -
    have "find P xs = Some a \<Longrightarrow> find P (xs @ ys) = Some a" for P :: "int \<Rightarrow> bool" and a
      by (induction xs) (auto split: if_splits)
    then show ?thesis
      using that by (auto simp: find_incoming_def split: option.splits)
  qed
  have same: "find_incoming st' u xs = find_incoming st u xs" for u xs
    by (simp add: find_incoming_def st' cong: option.case_cong)
  have "account_lookup t ACCOUNT_TYPE_INCOMING user ulen plen st' = Some (user, take plen (ac_password ac))"
    using assms(2) ac find_incoming_mem [OF inv', of user ac] tk
    by (simp add: account_lookup_def st')
  moreover have "account_lookup t ACCOUNT_TYPE_INCOMING u ulen plen st' = Some r"
    if "account_lookup t ACCOUNT_TYPE_INCOMING u ulen plen st = Some r" for u r
    using that assms(2) tk find_app [of u "take (nr_inaccount acc) (in_aids acc)" _ "[aid ac]"]
    unfolding st' by (auto simp: account_lookup_def same [unfolded st'])
  ultimately show ?thesis
    using ac by blast
qed

definition ex_adm :: adm where
  "ex_adm = \<lparr>adm_targets = [], adm_accounts =
      [\<lparr>aid = 2, ac_user = ''bob'', ac_password = ''pw2''\<rparr>, \<lparr>aid = 1, ac_user = ''ann'', ac_password = ''pw1''\<rparr>],
     adm_global = \<lparr>out_aid = 0, nr_inaccount = 0, max_inaccount = 16, in_aids = replicate 16 0\<rparr>,
     adm_hosts = [], adm_state = TGT_SYSTEM_READY\<rparr>"

lemma ex_adm_bind:
  "account_ctl GLOBAL_TID ACCOUNT_TYPE_INCOMING ''ann'' True ex_adm =
   (TGTADM_SUCCESS, ex_adm\<lparr>adm_global := \<lparr>out_aid = 0, nr_inaccount = 1, max_inaccount = 16,
      in_aids = 1 # replicate 15 0\<rparr>\<rparr>)"
  by (simp add: account_ctl_def get_account_def set_account_def ex_adm_def account_lookup_user_def inaccount_bind_def
      eval_nat_numeral)

lemma account_bind_lookup_witness:
  "\<exists>st'. account_ctl GLOBAL_TID ACCOUNT_TYPE_INCOMING ''ann'' True ex_adm = (TGTADM_SUCCESS, st') \<and>
     account_lookup GLOBAL_TID ACCOUNT_TYPE_INCOMING ''ann'' 32 32 st' = Some (''ann'', ''pw1'')"
proof -
  have "accounts_inv ex_adm" "get_account GLOBAL_TID ex_adm = Some (adm_global ex_adm)"
    "acc_inv (adm_global ex_adm)" "acc_compact (adm_global ex_adm)"
    "account_lookup_user ''ann'' ex_adm = Some \<lparr>aid = 1, ac_user = ''ann'', ac_password = ''pw1''\<rparr>"
    by (simp_all add: ex_adm_def accounts_inv_def get_account_def acc_inv_def acc_compact_def account_lookup_user_def list_all_iff)
  then show ?thesis
    using account_bind_lookup [of ex_adm GLOBAL_TID "adm_global ex_adm" "''ann''" _ 32 32] ex_adm_bind by auto
qed

text \<open>
  Two users are bound to a fresh account record and the first is unbound
  again: the second is still bound and counted, but the login's look-up, which
  only scans as many slots as users are counted, no longer finds it.
\<close>

theorem account_unbind_hides:
  assumes "accounts_inv st" "get_account t st = Some acc"
    and "acc = \<lparr>out_aid = 0, nr_inaccount = 0, max_inaccount = 16, in_aids = replicate 16 0\<rparr>"
    and "account_lookup_user u1 st = Some ac1" "account_lookup_user u2 st = Some ac2" "u1 \<noteq> u2"
  shows "\<exists>st1 st2 st3. account_ctl t ACCOUNT_TYPE_INCOMING u1 True st = (TGTADM_SUCCESS, st1)
    \<and> account_ctl t ACCOUNT_TYPE_INCOMING u2 True st1 = (TGTADM_SUCCESS, st2)
    \<and> account_ctl t ACCOUNT_TYPE_INCOMING u1 False st2 = (TGTADM_SUCCESS, st3)
    \<and> account_available t ACCOUNT_TYPE_INCOMING st3 = 1
    \<and> (\<exists>acc3. get_account t st3 = Some acc3 \<and> aid ac2 \<in> set (in_aids acc3))
    \<and> account_lookup t ACCOUNT_TYPE_INCOMING u2 ulen plen st3 = None"
proof -
  have mem: "ac1 \<in> set (adm_accounts st)" "ac_user ac1 = u1" "ac2 \<in> set (adm_accounts st)" "ac_user ac2 = u2"
    using assms(4,5) by (auto simp: account_lookup_user_def dest: lfind_SomeD)
  then have nz: "aid ac1 \<noteq> 0" "aid ac2 \<noteq> 0"
    using assms(1) by (auto simp: accounts_inv_def list_all_iff)
  have ne: "aid ac1 \<noteq> aid ac2"
    using assms(1,6) mem by (metis accounts_inv_def lfind_distinct option.inject)
  let ?a1 = "acc\<lparr>nr_inaccount := 1, in_aids := aid ac1 # replicate 15 0\<rparr>"
  let ?a2 = "acc\<lparr>nr_inaccount := 2, in_aids := aid ac1 # aid ac2 # replicate 14 0\<rparr>"
  let ?a3 = "acc\<lparr>nr_inaccount := 1, in_aids := 0 # aid ac2 # replicate 14 0\<rparr>"
  have "inaccount_bind (aid ac1) acc = (TGTADM_SUCCESS, ?a1)" "inaccount_bind (aid ac2) ?a1 = (TGTADM_SUCCESS, ?a2)"
    "inaccount_unbind (aid ac1) ?a2 = (TGTADM_SUCCESS, ?a3)"
    using nz ne by (simp_all add: assms(3) inaccount_bind_def inaccount_unbind_def eval_nat_numeral)
  then have "account_ctl t ACCOUNT_TYPE_INCOMING u1 True st = (TGTADM_SUCCESS, set_account t ?a1 st)"
    "account_ctl t ACCOUNT_TYPE_INCOMING u2 True (set_account t ?a1 st) =
       (TGTADM_SUCCESS, set_account t ?a2 (set_account t ?a1 st))"
    "account_ctl t ACCOUNT_TYPE_INCOMING u1 False (set_account t ?a2 (set_account t ?a1 st)) =
       (TGTADM_SUCCESS, set_account t ?a3 (set_account t ?a2 (set_account t ?a1 st)))"
    using assms(2,4,5) by (simp_all add: account_ctl_def)
  moreover have "accounts_inv (set_account t ?a3 (set_account t ?a2 (set_account t ?a1 st)))"
    using assms(1) by (simp add: accounts_inv_def)
  ultimately show ?thesis
    using assms(2,5) nz(2)
    by (auto simp: account_available_def account_lookup_def find_incoming_mem)
qed

theorem account_unbind_hides_witness:
  "\<exists>st1 st2 st3. account_ctl GLOBAL_TID ACCOUNT_TYPE_INCOMING ''ann'' True ex_adm = (TGTADM_SUCCESS, st1)
    \<and> account_ctl GLOBAL_TID ACCOUNT_TYPE_INCOMING ''bob'' True st1 = (TGTADM_SUCCESS, st2)
    \<and> account_ctl GLOBAL_TID ACCOUNT_TYPE_INCOMING ''ann'' False st2 = (TGTADM_SUCCESS, st3)
    \<and> account_available GLOBAL_TID ACCOUNT_TYPE_INCOMING st3 = 1
    \<and> account_lookup GLOBAL_TID ACCOUNT_TYPE_INCOMING ''bob'' 32 32 st3 = None"
proof -
  have "accounts_inv ex_adm" "get_account GLOBAL_TID ex_adm = Some (adm_global ex_adm)"
    "adm_global ex_adm = \<lparr>out_aid = 0, nr_inaccount = 0, max_inaccount = 16, in_aids = replicate 16 0\<rparr>"
    "account_lookup_user ''ann'' ex_adm = Some \<lparr>aid = 1, ac_user = ''ann'', ac_password = ''pw1''\<rparr>"
    "account_lookup_user ''bob'' ex_adm = Some \<lparr>aid = 2, ac_user = ''bob'', ac_password = ''pw2''\<rparr>"
    by (simp_all add: ex_adm_def accounts_inv_def get_account_def account_lookup_user_def)
  then show ?thesis
    using account_unbind_hides [of ex_adm GLOBAL_TID "adm_global ex_adm" "''ann''" _ "''bob''" _ 32 32] by fastforce
qed

end
