(* ===== verification/Bs_Rdwr.thy ===== *)
theory Bs_Rdwr
  imports Scsi_Perform Target_Admin
begin

text \<open>
  The file backing store (\<open>usr/bs_rdwr.c\<close>) and the null store (\<open>usr/bs_null.c\<close>).
  The file is reached by system calls only, which are the fields of \<open>file_ops\<close>:
  a request maps the command and the file to the completed command and the new
  file. \<open>None\<close> is an access outside a data buffer.
\<close>

unbundle bit_operations_syntax

section \<open>Files\<close>

text \<open>
  \<open>fo_pread f n off\<close> is the bytes \<open>pread64\<close> returns, \<open>None\<close> for an error;
  \<open>fo_pwrite\<close> returns the count written, \<open>None\<close> for an error; the remaining
  operations return whether they succeeded. \<open>fo_malloc\<close> says whether an
  allocation succeeds.
\<close>

record 'f file_ops =
  fo_pread :: "'f \<Rightarrow> nat \<Rightarrow> nat \<Rightarrow> bytes option"
  fo_pwrite :: "'f \<Rightarrow> bytes \<Rightarrow> nat \<Rightarrow> nat option \<times> 'f"
  fo_fdatasync :: "'f \<Rightarrow> bool \<times> 'f"
  fo_willneed :: "'f \<Rightarrow> nat \<Rightarrow> nat \<Rightarrow> bool"
  fo_punch :: "'f \<Rightarrow> nat \<Rightarrow> nat \<Rightarrow> bool \<times> 'f"
  fo_malloc :: bool

section \<open>The pieces of a request\<close>

text \<open>The result, sense key and code a request carries.\<close>

type_synonym io = "int \<times> u8 \<times> u16"

definition io_ok :: io where
  "io_ok = (SAM_STAT_GOOD, 0, 0)"

definition medium_error :: io where
  "medium_error = (SAM_STAT_CHECK_CONDITION, MEDIUM_ERROR, ASC_READ_ERROR)"

definition io_error :: "u8 \<Rightarrow> u16 \<Rightarrow> io" where
  "io_error key asc = (SAM_STAT_CHECK_CONDITION, key, asc)"

definition bs_sync_sync_range :: "'f file_ops \<Rightarrow> io \<times> 'f \<Rightarrow> io \<times> 'f" where
  "bs_sync_sync_range fo r = (case fo_fdatasync fo (snd r) of (ok, f') \<Rightarrow> (if ok then fst r else medium_error, f'))"

text \<open>A read of exactly \<open>n\<close> bytes.\<close>

definition pread_full :: "'f file_ops \<Rightarrow> 'f \<Rightarrow> nat \<Rightarrow> nat \<Rightarrow> bytes option" where
  "pread_full fo f n off =
     (case fo_pread fo f n off of None \<Rightarrow> None | Some d \<Rightarrow> if length d = n then Some d else None)"

text \<open>
  The label \<open>write\<close>: the second component says whether the caching page was
  missing, where the C code leaves the \<open>switch\<close> at once.
\<close>

definition rdwr_write :: "'f file_ops \<Rightarrow> scsi_lu \<Rightarrow> scsi_cmd \<Rightarrow> bytes \<Rightarrow> nat \<Rightarrow> 'f \<Rightarrow> io \<times> bool \<times> 'f" where
  "rdwr_write fo lu cmd data off f =
     (let op = byte_at (scb cmd) 0; b1 = byte_at (scb cmd) 1; (n, f1) = fo_pwrite fo f data off in
      if n = Some (length data) then
        (case find_mode_page lu 0x08 0 of
           None \<Rightarrow> (io_error ILLEGAL_REQUEST ASC_INVALID_FIELD_IN_CDB, True, f1)
         | Some pg \<Rightarrow>
             if op \<noteq> WRITE_6 \<and> b1 AND 0x8 \<noteq> 0 \<or> byte_at (mode_data pg) 0 AND 0x04 = 0
             then (let (r, f2) = bs_sync_sync_range fo (io_ok, f1) in (r, False, f2))
             else (io_ok, False, f1))
      else (medium_error, False, f1))"

text \<open>The label \<open>verify\<close>, after the result \<open>r\<close> so far.\<close>

definition rdwr_verify :: "'f file_ops \<Rightarrow> bytes \<Rightarrow> nat \<Rightarrow> io \<Rightarrow> 'f \<Rightarrow> io" where
  "rdwr_verify fo data off r f =
     (if \<not> fo_malloc fo then io_error HARDWARE_ERROR ASC_INTERNAL_TGT_FAILURE
      else case pread_full fo f (length data) off of
        None \<Rightarrow> medium_error
      | Some d \<Rightarrow> if d \<noteq> data then io_error MISCOMPARE ASC_MISCOMPARE_DURING_VERIFY_OPERATION else r)"

text \<open>
  The WRITE SAME loop: the block is stamped with the offset when asked to and
  written once per block. The count is 32 bits wide and only meets zero when it
  is a multiple of the block size.
\<close>

definition stamp_block :: "u8 \<Rightarrow> u64 \<Rightarrow> bytes \<Rightarrow> bytes" where
  "stamp_block b1 off buf =
     (if b1 AND 0x06 = 0x02 then put_unaligned_be32 (ucast off) buf 0
      else if b1 AND 0x06 = 0x04 then put_unaligned_be64 off buf 0
      else buf)"

partial_function (option) write_same_loop ::
  "'f file_ops \<Rightarrow> u8 \<Rightarrow> u64 \<Rightarrow> bytes \<Rightarrow> u64 \<Rightarrow> u32 \<Rightarrow> io \<Rightarrow> 'f \<Rightarrow> (io \<times> bytes \<times> 'f) option" where
  "write_same_loop fo b1 bsz buf off cnt r f =
     (if cnt = 0 then Some (r, buf, f)
      else if length buf < unat bsz then None
      else
        let buf1 = stamp_block b1 off buf;
            (n, f1) = fo_pwrite fo f (take (unat bsz) buf1) (unat off)
        in write_same_loop fo b1 bsz buf1 (off + bsz) (cnt - ucast bsz)
             (if n = Some (unat bsz) then r else medium_error) f1)"

text \<open>The UNMAP loop over the block descriptors; lengths and offsets are shifted at their widths.\<close>

fun unmap_loop :: "'f file_ops \<Rightarrow> scsi_lu \<Rightarrow> bytes \<Rightarrow> nat \<Rightarrow> 'f \<Rightarrow> io \<times> 'f" where
  "unmap_loop fo lu d 0 f = (io_ok, f)"
| "unmap_loop fo lu d (Suc n) f =
     (let off = push_bit (blk_shift lu) (get_unaligned_be64 d 0);
          cnt = push_bit (blk_shift lu) (get_unaligned_be32 d 8)
      in if off + ucast cnt > lu_size lu then (io_error ILLEGAL_REQUEST ASC_LBA_OUT_OF_RANGE, f)
         else if cnt > 0 then
           (let (ok, f1) = fo_punch fo f (unat off) (unat cnt) in
            if \<not> ok then (io_error HARDWARE_ERROR ASC_INTERNAL_TGT_FAILURE, f1)
            else unmap_loop fo lu (drop 16 d) n f1)
         else unmap_loop fo lu (drop 16 d) n f)"

section \<open>\<open>bs_rdwr_request\<close>\<close>

definition set_out_buffer :: "bytes \<Rightarrow> scsi_cmd \<Rightarrow> scsi_cmd" where
  "set_out_buffer b cmd = cmd\<lparr>out_sdb := (out_sdb cmd)\<lparr>sdb_buffer := b\<rparr>\<rparr>"

text \<open>The first \<open>n\<close> bytes of the data-out buffer.\<close>

definition out_data :: "scsi_cmd \<Rightarrow> nat \<Rightarrow> bytes option" where
  "out_data cmd n = (if n \<le> length (scsi_get_out_buffer cmd) then Some (take n (scsi_get_out_buffer cmd)) else None)"

definition rdwr_orwrite :: "'f file_ops \<Rightarrow> scsi_lu \<Rightarrow> scsi_cmd \<Rightarrow> 'f \<Rightarrow> (io \<times> scsi_cmd \<times> 'f) option" where
  "rdwr_orwrite fo lu cmd f =
     (let len = unat (scsi_get_out_length cmd); off = unat (c_offset cmd) in
      if \<not> fo_malloc fo then Some (io_error HARDWARE_ERROR ASC_INTERNAL_TGT_FAILURE, cmd, f)
      else case pread_full fo f len off of
        None \<Rightarrow> Some (medium_error, cmd, f)
      | Some d \<Rightarrow>
          do { out \<leftarrow> out_data cmd len;
               (let new = map2 (OR) out d;
                    cmd1 = set_out_buffer (new @ drop len (scsi_get_out_buffer cmd)) cmd;
                    (r, _, f1) = rdwr_write fo lu cmd1 new off f
                in Some (r, cmd1, f1)) })"

definition rdwr_compare_and_write :: "'f file_ops \<Rightarrow> scsi_lu \<Rightarrow> scsi_cmd \<Rightarrow> 'f \<Rightarrow> (io \<times> scsi_cmd \<times> 'f) option" where
  "rdwr_compare_and_write fo lu cmd f =
     (let half = scsi_get_out_length cmd div 2; len = unat half; off = unat (c_offset cmd) in
      if half \<noteq> c_tl cmd then Some (io_error ILLEGAL_REQUEST ASC_INVALID_FIELD_IN_CDB, cmd, f)
      else if \<not> fo_malloc fo then Some (io_error HARDWARE_ERROR ASC_INTERNAL_TGT_FAILURE, cmd, f)
      else case pread_full fo f len off of
        None \<Rightarrow> Some (medium_error, cmd, f)
      | Some d \<Rightarrow>
          do { out \<leftarrow> out_data cmd (2 * len);
               if take len out \<noteq> d then Some (io_error MISCOMPARE ASC_MISCOMPARE_DURING_VERIFY_OPERATION, cmd, f)
               else (let (r, _, f1) = rdwr_write fo lu cmd (drop len out) off f in Some (r, cmd, f1)) })"

definition rdwr_plain_write :: "'f file_ops \<Rightarrow> scsi_lu \<Rightarrow> scsi_cmd \<Rightarrow> bool \<Rightarrow> 'f \<Rightarrow> (io \<times> scsi_cmd \<times> 'f) option" where
  "rdwr_plain_write fo lu cmd verify f =
     (let off = unat (c_offset cmd) in
      do { out \<leftarrow> out_data cmd (unat (scsi_get_out_length cmd));
           (let (r, stop, f1) = rdwr_write fo lu cmd out off f in
            Some (if verify \<and> \<not> stop then rdwr_verify fo out off r f1 else r, cmd, f1)) })"

definition rdwr_write_same :: "'f file_ops \<Rightarrow> scsi_lu \<Rightarrow> scsi_cmd \<Rightarrow> 'f \<Rightarrow> (io \<times> scsi_cmd \<times> 'f) option" where
  "rdwr_write_same fo lu cmd f =
     (let b1 = byte_at (scb cmd) 1 in
      if b1 AND 0x08 \<noteq> 0 then
        (let (ok, f1) = fo_punch fo f (unat (c_offset cmd)) (unat (c_tl cmd)) in
         Some (if ok then io_ok else io_error HARDWARE_ERROR ASC_INTERNAL_TGT_FAILURE, cmd, f1))
      else
        do { (r, buf, f1) \<leftarrow> write_same_loop fo b1 (push_bit (blk_shift lu) 1) (scsi_get_out_buffer cmd)
                               (c_offset cmd) (c_tl cmd) io_ok f;
             Some (r, set_out_buffer buf cmd, f1) })"

definition rdwr_read :: "'f file_ops \<Rightarrow> scsi_cmd \<Rightarrow> 'f \<Rightarrow> (io \<times> scsi_cmd \<times> 'f) option" where
  "rdwr_read fo cmd f =
     (let len = unat (scsi_get_in_length cmd) in
      case fo_pread fo f len (unat (c_offset cmd)) of
        None \<Rightarrow> Some (medium_error, cmd, f)
      | Some d \<Rightarrow>
          do { buf \<leftarrow> write_at (scsi_get_in_buffer cmd) 0 d;
               Some (if length d = len then io_ok else medium_error, set_in_buffer buf cmd, f) })"

definition rdwr_unmap :: "'f file_ops \<Rightarrow> scsi_lu \<Rightarrow> scsi_cmd \<Rightarrow> 'f \<Rightarrow> (io \<times> scsi_cmd \<times> 'f) option" where
  "rdwr_unmap fo lu cmd f =
     (let len = unat (scsi_get_out_length cmd) in
      if thinprovisioning (attrs lu) = 0 then Some (io_error ILLEGAL_REQUEST ASC_INVALID_FIELD_IN_CDB, cmd, f)
      else if len < 8 then Some (io_ok, cmd, f)
      else do { out \<leftarrow> out_data cmd len;
                (let (r, f1) = unmap_loop fo lu (drop 8 out) ((len - 8) div 16) f in Some (r, cmd, f1)) })"

definition rdwr_dispatch :: "'f file_ops \<Rightarrow> scsi_lu \<Rightarrow> scsi_cmd \<Rightarrow> 'f \<Rightarrow> (io \<times> scsi_cmd \<times> 'f) option" where
  "rdwr_dispatch fo lu cmd f =
     (let op = byte_at (scb cmd) 0; b1 = byte_at (scb cmd) 1; off = unat (c_offset cmd) in
      if op = ORWRITE_16 then rdwr_orwrite fo lu cmd f
      else if op = COMPARE_AND_WRITE then rdwr_compare_and_write fo lu cmd f
      else if op \<in> {SYNCHRONIZE_CACHE, SYNCHRONIZE_CACHE_16} then
        (if b1 AND 0x2 \<noteq> 0 then Some (io_error ILLEGAL_REQUEST ASC_INVALID_FIELD_IN_CDB, cmd, f)
         else (let (r, f1) = bs_sync_sync_range fo (io_ok, f) in Some (r, cmd, f1)))
      else if op \<in> {WRITE_VERIFY, WRITE_VERIFY_12, WRITE_VERIFY_16} then rdwr_plain_write fo lu cmd True f
      else if op \<in> {WRITE_6, WRITE_10, WRITE_12, WRITE_16} then rdwr_plain_write fo lu cmd False f
      else if op \<in> {WRITE_SAME, WRITE_SAME_16} then rdwr_write_same fo lu cmd f
      else if op \<in> {READ_6, READ_10, READ_12, READ_16} then rdwr_read fo cmd f
      else if op \<in> {PRE_FETCH_10, PRE_FETCH_16} then
        Some (if fo_willneed fo f off (unat (c_tl cmd)) then io_ok else medium_error, cmd, f)
      else if op \<in> {VERIFY_10, VERIFY_12, VERIFY_16} then
        do { out \<leftarrow> out_data cmd (unat (scsi_get_out_length cmd)); Some (rdwr_verify fo out off io_ok f, cmd, f) }
      else if op = UNMAP then rdwr_unmap fo lu cmd f
      else Some (io_ok, cmd, f))"

definition bs_rdwr_request :: "'f file_ops \<Rightarrow> scsi_lu \<Rightarrow> scsi_cmd \<Rightarrow> 'f \<Rightarrow> (scsi_cmd \<times> 'f) option" where
  "bs_rdwr_request fo lu cmd f =
     do { ((result, key, asc), cmd1, f1) \<leftarrow> rdwr_dispatch fo lu cmd f;
          (let cmd2 = cmd1\<lparr>c_result := result\<rparr> in
           Some (if result \<noteq> SAM_STAT_GOOD then sense_data_build lu key asc cmd2 else cmd2, f1)) }"

section \<open>The stores\<close>

text \<open>
  \<open>file_open path readonly\<close> is \<open>backed_file_open\<close>: the descriptor, size and block
  size, or an error and whether access was denied.
\<close>

definition bs_rdwr_open ::
  "(string \<Rightarrow> bool \<Rightarrow> bool + (int \<times> u64 \<times> int)) \<Rightarrow> scsi_lu \<Rightarrow> string \<Rightarrow> (int \<times> u64) option \<times> scsi_lu" where
  "bs_rdwr_open file_open lu path =
     (let finish = (\<lambda>lu (fd, sz, blksize).
            (Some (fd, sz), if no_auto_lbppbe (attrs lu) = 0 then update_lbppbe blksize lu else lu))
      in case file_open path False of
           Inr r \<Rightarrow> finish lu r
         | Inl denied \<Rightarrow>
             if \<not> denied then (None, lu)
             else
               let lu1 = upd_attrs (\<lambda>a. a\<lparr>readonly := 1\<rparr>) lu in
               (case file_open path True of Inl _ \<Rightarrow> (None, lu1) | Inr r \<Rightarrow> finish lu1 r))"

definition rdwr_bs_ops :: "(string \<Rightarrow> bool \<Rightarrow> bool + (int \<times> u64 \<times> int)) \<Rightarrow> bs_ops" where
  "rdwr_bs_ops file_open =
     \<lparr>bs_init = Some (\<lambda>lu _. (TGTADM_SUCCESS, lu)), bs_open = bs_rdwr_open file_open, bs_close = (\<lambda>lu. lu)\<rparr>"

definition bs_create_opcode_map :: "u8 list \<Rightarrow> u64 list \<Rightarrow> u64 list" where
  "bs_create_opcode_map opcodes m = fold (\<lambda>op. set_bit_map (unat op)) opcodes m"

definition rdwr_sbc_opcodes :: "u8 list" where
  "rdwr_sbc_opcodes =
     [ALLOW_MEDIUM_REMOVAL, COMPARE_AND_WRITE, FORMAT_UNIT, INQUIRY, MAINT_PROTOCOL_IN, MODE_SELECT,
      MODE_SELECT_10, MODE_SENSE, MODE_SENSE_10, ORWRITE_16, PERSISTENT_RESERVE_IN, PERSISTENT_RESERVE_OUT,
      PRE_FETCH_10, PRE_FETCH_16, READ_10, READ_12, READ_16, READ_6, READ_CAPACITY, RELEASE, REPORT_LUNS,
      REQUEST_SENSE, RESERVE, SEND_DIAGNOSTIC, SERVICE_ACTION_IN, START_STOP, SYNCHRONIZE_CACHE,
      SYNCHRONIZE_CACHE_16, TEST_UNIT_READY, UNMAP, VERIFY_10, VERIFY_12, VERIFY_16, WRITE_10, WRITE_12,
      WRITE_16, WRITE_6, WRITE_SAME, WRITE_SAME_16, WRITE_VERIFY, WRITE_VERIFY_12, WRITE_VERIFY_16]"

definition rdwr_bst :: backingstore_template where
  "rdwr_bst = \<lparr>bs_name = ''rdwr'', bs_oflags_supported = O_SYNC OR O_DIRECT,
     bs_supported_ops = bs_create_opcode_map rdwr_sbc_opcodes (replicate 4 0)\<rparr>"

text \<open>The null store completes every command at once.\<close>

definition bs_null_cmd_submit :: submit_fn where
  "bs_null_cmd_submit s = Some (0, upd_cmd (\<lambda>c. c\<lparr>c_result := SAM_STAT_GOOD\<rparr>) s)"

definition null_bst :: backingstore_template where
  "null_bst = \<lparr>bs_name = ''null'', bs_oflags_supported = 0, bs_supported_ops = replicate 4 0\<rparr>"

text \<open>The descriptor is whatever the caller's variable held; the model keeps the unit's.\<close>

definition null_bs_ops :: bs_ops where
  "null_bs_ops = \<lparr>bs_init = None, bs_open = (\<lambda>lu path. (Some (lu_fd lu, push_bit 40 1), lu)), bs_close = (\<lambda>lu. lu)\<rparr>"

definition register_backingstore_template :: "backingstore_template \<Rightarrow> backingstore_template list \<Rightarrow> backingstore_template list" where
  "register_backingstore_template bst bsts = bst # bsts"

definition get_backingstore_template :: "backingstore_template list \<Rightarrow> string \<Rightarrow> backingstore_template option" where
  "get_backingstore_template bsts name = lfind bs_name name bsts"

text \<open>\<open>bs_thread_cmd_submit\<close> leaves the command to the worker threads.\<close>

definition bs_thread_cmd_submit :: submit_fn where
  "bs_thread_cmd_submit s = Some (0, upd_cmd (set_cmd_bit TGT_CMD_ASYNC) s)"

end
