(* ===== verification/Target_Inv.thy ===== *)
theory Target_Inv
  imports Target_Core
begin

text \<open>
  The invariant of a target and its preservation by the operations of
  \<open>Target_Core\<close>: devices in strict LUN order, one \<open>it_nexus_lu_info\<close> for every
  pair of a nexus and a unit, linked from both, and no unit reserved by a nexus
  that is gone.
\<close>

section \<open>The invariant\<close>

definition lu_inv :: "u64 set \<Rightarrow> scsi_lu \<Rightarrow> bool" where
  "lu_inv nids lu \<longleftrightarrow>
     distinct (lu_itl_info_list lu) \<and> set (lu_itl_info_list lu) = nids \<and>
     (reserve_id lu = 0 \<or> reserve_id lu \<in> nids)"

definition itn_inv :: "u64 set \<Rightarrow> it_nexus \<Rightarrow> bool" where
  "itn_inv luns itn \<longleftrightarrow> itn_id itn \<noteq> 0 \<and> itl_lu ` set (itn_itl_info_list itn) = luns"

definition tgt_inv :: "target \<Rightarrow> bool" where
  "tgt_inv target \<longleftrightarrow>
     sorted_wrt (<) (map lun (device_list target)) \<and>
     itns_wf (it_nexus_list target) \<and>
     list_all (itn_inv (lun ` set (device_list target))) (it_nexus_list target) \<and>
     list_all (lu_inv (itn_id ` set (it_nexus_list target))) (device_list target)"

definition sys_inv :: "target list \<Rightarrow> bool" where
  "sys_inv ts \<longleftrightarrow> sorted_wrt (<) (map tid ts) \<and> list_all tgt_inv ts"

lemma sorted_distinct: "sorted_wrt (<) (xs :: 'a::linorder list) \<Longrightarrow> distinct xs"
  by (simp add: strict_sorted_iff)

lemma tgt_inv_distinct: "tgt_inv t \<Longrightarrow> distinct (map lun (device_list t))"
  by (simp add: tgt_inv_def sorted_distinct)

lemma set_lupdate_image: "(\<And>x. key (f x) = key x) \<Longrightarrow> key ` set (lupdate key k f xs) = key ` set xs"
  by (metis list.set_map map_key_lupdate)

section \<open>RESERVE and RELEASE\<close>

lemma tgt_inv_upd_device:
  assumes "tgt_inv t" "\<And>lu. lun (f lu) = lun lu"
    and "\<And>lu. lu_inv (itn_id ` set (it_nexus_list t)) lu \<Longrightarrow> lu_inv (itn_id ` set (it_nexus_list t)) (f lu)"
  shows "tgt_inv (upd_device l f t)"
proof -
  have "map lun (device_list (upd_device l f t)) = map lun (device_list t)"
    using assms(2) by (simp add: upd_device_def map_key_lupdate)
  moreover have "lun ` set (device_list (upd_device l f t)) = lun ` set (device_list t)"
    using assms(2) by (simp add: upd_device_def set_lupdate_image)
  moreover have "list_all (lu_inv (itn_id ` set (it_nexus_list t))) (device_list (upd_device l f t))"
    using assms(1,3) by (auto simp: tgt_inv_def upd_device_def list_all_iff set_lupdate)
  ultimately show ?thesis
    using assms(1) by (simp add: tgt_inv_def) (simp add: upd_device_def)
qed

lemma tgt_inv_device_reserve:
  "tgt_inv t \<Longrightarrow> cmd_itn_id cmd \<in> itn_id ` set (it_nexus_list t) \<Longrightarrow> tgt_inv (snd (device_reserve cmd t))"
  unfolding device_reserve_def
  by (auto split: option.split intro!: tgt_inv_upd_device simp: lu_inv_def)

lemma tgt_inv_device_release: "tgt_inv t \<Longrightarrow> tgt_inv (snd (device_release nid l force t))"
  unfolding device_release_def
  by (auto split: option.split intro!: tgt_inv_upd_device simp: lu_inv_def)

section \<open>Devices\<close>

lemma set_insert_device: "set (insert_device lu devs) = insert lu (set devs)"
  by (induction devs) auto

lemma sorted_insert_device:
  "sorted_wrt (<) (map lun devs) \<Longrightarrow> lun lu \<notin> lun ` set devs \<Longrightarrow> sorted_wrt (<) (map lun (insert_device lu devs))"
proof (induction devs)
  case (Cons p ps)
  then show ?case
    by (fastforce simp: set_insert_device neq_iff)
qed simp

lemma ua_sense_add_info_keys [simp]:
  "itl_lu (ua_sense_add_info devs asc i) = itl_lu i" "itl_itn_id (ua_sense_add_info devs asc i) = itl_itn_id i"
  by (simp_all add: ua_sense_add_info_def split: option.split)

lemma map_ua_sense_add_info [simp]:
  "map itl_lu (map (ua_sense_add_info devs asc) is) = map itl_lu is"
  "itl_lu ` ua_sense_add_info devs asc ` A = itl_lu ` A"
  by (simp_all add: image_image comp_def)

lemma tgt_inv_link_device:
  assumes "tgt_inv t" "lun lu \<notin> lun ` set (device_list t)" "lu_itl_info_list lu = []" "reserve_id lu = 0"
  shows "tgt_inv (link_device lu t)"
proof -
  let ?n = "map itn_id (it_nexus_list t)"
  have d: "distinct ?n"
    using assms(1) by (simp add: tgt_inv_def itns_wf_def)
  have wf: "itns_wf (it_nexus_list (link_device lu t))"
    using assms(1,2)
    by (auto simp: tgt_inv_def itns_wf_def itn_inv_def link_device_def new_itl_info_def list_all_iff comp_def Let_def)
  have devs: "set (device_list (link_device lu t)) =
      insert (lu\<lparr>lu_itl_info_list := ?n\<rparr>) (set (device_list t))"
    using assms(3) by (simp add: link_device_def Let_def set_insert_device)
  have nids: "itn_id ` set (it_nexus_list (link_device lu t)) = itn_id ` set (it_nexus_list t)"
    by (simp add: link_device_def Let_def image_image)
  have "sorted_wrt (<) (map lun (device_list (link_device lu t)))"
    using assms(1,2) by (simp add: tgt_inv_def link_device_def Let_def sorted_insert_device)
  moreover have "list_all (itn_inv (lun ` set (device_list (link_device lu t)))) (it_nexus_list (link_device lu t))"
  proof -
    have luns: "lun ` set (device_list (link_device lu t)) = insert (lun lu) (lun ` set (device_list t))"
      by (simp add: devs)
    have "itn_inv (insert (lun lu) (lun ` set (device_list t))) itn'"
      if itn': "itn' \<in> set (it_nexus_list (link_device lu t))" for itn'
    proof -
      from itn' obtain itn devs where "itn \<in> set (it_nexus_list t)" and
        eq: "itn' = itn\<lparr>itn_itl_info_list := new_itl_info (lun lu) (itn_id itn) #
          map (ua_sense_add_info devs ASC_REPORTED_LUNS_DATA_HAS_CHANGED) (itn_itl_info_list itn)\<rparr>"
        by (auto simp: link_device_def Let_def)
      then have "itn_id itn \<noteq> 0" "itl_lu ` set (itn_itl_info_list itn) = lun ` set (device_list t)"
        using assms(1) by (auto simp: tgt_inv_def itn_inv_def list_all_iff)
      then show ?thesis
        by (simp add: eq itn_inv_def new_itl_info_def)
    qed
    then show ?thesis
      unfolding luns list_all_iff by blast
  qed
  moreover have "list_all (lu_inv (itn_id ` set (it_nexus_list (link_device lu t)))) (device_list (link_device lu t))"
    using assms d unfolding list_all_iff devs nids by (auto simp: tgt_inv_def lu_inv_def list_all_iff)
  ultimately show ?thesis
    using wf by (simp add: tgt_inv_def)
qed

lemma tgt_inv_unlink_device:
  assumes "tgt_inv t"
  shows "tgt_inv (unlink_device l t)"
proof -
  have "itns_wf (it_nexus_list (unlink_device l t))"
    using assms
    by (auto simp: tgt_inv_def itns_wf_def unlink_device_def list_all_iff comp_def Let_def distinct_lremove)
  moreover have "sorted_wrt (<) (map lun (lremove lun l (device_list t)))"
    using assms by (simp add: tgt_inv_def map_key_lremove sorted_wrt_filter)
  moreover have "itn_id ` set (it_nexus_list (unlink_device l t)) = itn_id ` set (it_nexus_list t)"
    by (simp add: unlink_device_def Let_def image_image)
  moreover have "list_all (itn_inv (lun ` set (lremove lun l (device_list t)))) (it_nexus_list (unlink_device l t))"
    using assms by (fastforce simp: tgt_inv_def itn_inv_def unlink_device_def list_all_iff image_image Let_def)
  ultimately show ?thesis
    using assms by (auto simp: tgt_inv_def unlink_device_def list_all_iff Let_def)
qed

section \<open>Nexuses\<close>

lemma tgt_inv_add_nexus:
  assumes "tgt_inv t" "itn_id itn = nid" "nid \<noteq> 0" "nid \<notin> itn_id ` set (it_nexus_list t)"
    and "map itl_lu (itn_itl_info_list itn) = rev (map lun (device_list t))"
    and "list_all (\<lambda>i. itl_itn_id i = nid) (itn_itl_info_list itn)"
  shows "tgt_inv (t\<lparr>
     device_list := map (\<lambda>lu. lu\<lparr>lu_itl_info_list := lu_itl_info_list lu @ [nid]\<rparr>) (device_list t),
     it_nexus_list := it_nexus_list t @ [itn]\<rparr>)"
proof -
  have infos: "distinct (map itl_lu (itn_itl_info_list itn))"
    "itl_lu ` set (itn_itl_info_list itn) = lun ` set (device_list t)"
    using tgt_inv_distinct [OF assms(1)] assms(5) by (simp, metis list.set_map set_rev)
  then have "itns_wf (it_nexus_list t @ [itn])"
    using assms by (auto simp: tgt_inv_def itns_wf_def)
  then show ?thesis
    using assms infos by (auto simp: tgt_inv_def itn_inv_def lu_inv_def list_all_iff comp_def image_image)
qed

lemma sys_inv_upd_target:
  assumes "sys_inv ts" "\<And>t. tid (f t) = tid t" "\<And>t. t \<in> set ts \<Longrightarrow> tid t = i \<Longrightarrow> tgt_inv (f t)"
  shows "sys_inv (upd_target i f ts)"
  using assms by (auto simp: sys_inv_def upd_target_def map_key_lupdate list_all_iff set_lupdate)

lemma target_lookup_unique:
  "sys_inv ts \<Longrightarrow> target_lookup i ts = Some t \<Longrightarrow> t' \<in> set ts \<Longrightarrow> tid t' = i \<Longrightarrow> t' = t"
  unfolding target_lookup_def sys_inv_def by (metis lfind_distinct option.inject sorted_distinct)

lemma target_lookup_inv: "sys_inv ts \<Longrightarrow> target_lookup i ts = Some t \<Longrightarrow> tgt_inv t \<and> tid t = i \<and> t \<in> set ts"
  by (auto simp: sys_inv_def target_lookup_def list_all_iff dest: lfind_SomeD)

lemma sys_inv_nexus_create:
  assumes inv: "sys_inv ts" and run: "it_nexus_create now i nid host_no info ts = Some (r, ts')"
  shows "sys_inv ts'"
proof (cases "nid = 0 \<or> it_nexus_lookup i nid ts \<noteq> None")
  case True
  then show ?thesis
    using assms by (auto simp: it_nexus_create_def split: if_splits)
next
  case False
  then obtain t where t: "target_lookup i ts = Some t"
    using run by (auto simp: it_nexus_create_def split: option.splits)
  let ?infos = "rev (map (\<lambda>lu. ua_sense_add lu ASC_POWERON_RESET (new_itl_info (lun lu) nid)) (device_list t))"
  let ?itn = "\<lparr>itn_id = nid, itn_ctime = now, itn_cmd_list = [], itn_host_no = host_no,
     itn_itl_info_list = ?infos, itn_info = info\<rparr>"
  have fresh: "nid \<notin> itn_id ` set (it_nexus_list t)"
    using False t by (auto simp: it_nexus_lookup_def lfind_None_iff)
  have keys: "map itl_lu ?infos = rev (map lun (device_list t))"
    by (simp add: rev_map new_itl_info_def comp_def)
  have ids: "list_all (\<lambda>i. itl_itn_id i = nid) ?infos"
    by (simp add: list_all_iff new_itl_info_def)
  have ts': "ts' = upd_target i (\<lambda>t. t\<lparr>
      device_list := map (\<lambda>lu. lu\<lparr>lu_itl_info_list := lu_itl_info_list lu @ [nid]\<rparr>) (device_list t),
      it_nexus_list := it_nexus_list t @ [?itn]\<rparr>) ts"
    using run False t by (simp add: it_nexus_create_def Let_def)
  show ?thesis
    unfolding ts'
  proof (rule sys_inv_upd_target [OF inv])
    fix t' assume "t' \<in> set ts" "tid t' = i"
    then have "t' = t"
      using target_lookup_unique [OF inv t] by blast
    then show "tgt_inv (t'\<lparr>
        device_list := map (\<lambda>lu. lu\<lparr>lu_itl_info_list := lu_itl_info_list lu @ [nid]\<rparr>) (device_list t'),
        it_nexus_list := it_nexus_list t' @ [?itn]\<rparr>)"
      using target_lookup_inv [OF inv t] False fresh keys ids by (simp add: tgt_inv_add_nexus)
  qed simp
qed

lemma device_release_map:
  assumes "distinct (map lun (device_list t))"
  shows "snd (device_release nid l False t) = t\<lparr>device_list :=
     map (\<lambda>lu. if lun lu = l \<and> reserve_id lu = nid then lu\<lparr>reserve_id := 0\<rparr> else lu) (device_list t)\<rparr>"
proof (cases "device_lookup t l")
  case None
  then have "l \<notin> lun ` set (device_list t)"
    by (simp add: device_lookup_def lfind_None_iff)
  then have "map (\<lambda>lu. if lun lu = l \<and> reserve_id lu = nid then lu\<lparr>reserve_id := 0\<rparr> else lu) (device_list t) = device_list t"
    by (intro map_idI) auto
  then show ?thesis
    using None by (simp add: device_release_def)
next
  case (Some lu)
  then have lu: "lu \<in> set (device_list t)" "lun lu = l"
    by (auto simp: device_lookup_def dest: lfind_SomeD)
  have uniq: "x = lu" if "x \<in> set (device_list t)" "lun x = l" for x
    using assms that lu by (metis lfind_distinct option.inject)
  show ?thesis
  proof (cases "reserve_id lu = nid")
    case True
    then have "map (\<lambda>x. if lun x = l \<and> reserve_id x = nid then x\<lparr>reserve_id := 0\<rparr> else x) (device_list t) =
        lupdate lun l (\<lambda>lu. lu\<lparr>reserve_id := 0\<rparr>) (device_list t)"
      unfolding lupdate_def using uniq by (intro map_cong) auto
    then show ?thesis
      using Some True by (simp add: device_release_def upd_device_def)
  next
    case False
    then have "map (\<lambda>x. if lun x = l \<and> reserve_id x = nid then x\<lparr>reserve_id := 0\<rparr> else x) (device_list t) = device_list t"
      using uniq by (intro map_idI) auto
    then show ?thesis
      using Some False by (simp add: device_release_def)
  qed
qed

lemma fold_device_release:
  assumes "distinct (map lun (device_list t))" "nid \<noteq> 0"
  shows "fold (\<lambda>l t. snd (device_release nid l False t)) ls t = t\<lparr>device_list :=
     map (\<lambda>lu. if lun lu \<in> set ls \<and> reserve_id lu = nid then lu\<lparr>reserve_id := 0\<rparr> else lu) (device_list t)\<rparr>"
  using assms(1)
proof (induction ls arbitrary: t)
  case (Cons l ls)
  let ?t1 = "snd (device_release nid l False t)"
  have t1: "?t1 = t\<lparr>device_list :=
     map (\<lambda>lu. if lun lu = l \<and> reserve_id lu = nid then lu\<lparr>reserve_id := 0\<rparr> else lu) (device_list t)\<rparr>"
    using Cons.prems by (rule device_release_map)
  have "map lun (device_list ?t1) = map lun (device_list t)"
    unfolding t1 by (simp add: comp_def)
  then have "distinct (map lun (device_list ?t1))"
    using Cons.prems by (simp only:)
  then have "fold (\<lambda>l t. snd (device_release nid l False t)) ls ?t1 = ?t1\<lparr>device_list :=
     map (\<lambda>lu. if lun lu \<in> set ls \<and> reserve_id lu = nid then lu\<lparr>reserve_id := 0\<rparr> else lu) (device_list ?t1)\<rparr>"
    by (rule Cons.IH)
  then show ?case
    using assms(2) by (auto simp: t1 comp_def)
qed simp

lemma it_nexus_del_lu_info_map:
  assumes "distinct (map itl_lu infos)" "list_all (\<lambda>i. itl_itn_id i = nid) infos"
  shows "fold (\<lambda>i devs. lupdate lun (itl_lu i) (\<lambda>lu. lu\<lparr>lu_itl_info_list := remove1 (itl_itn_id i) (lu_itl_info_list lu)\<rparr>) devs)
       infos devs =
     map (\<lambda>lu. if lun lu \<in> itl_lu ` set infos then lu\<lparr>lu_itl_info_list := remove1 nid (lu_itl_info_list lu)\<rparr> else lu) devs"
  using assms
proof (induction infos arbitrary: devs)
  case (Cons i infos)
  then have "itl_lu i \<notin> itl_lu ` set infos"
    by auto
  then show ?case
    using Cons by (auto simp: lupdate_def comp_def)
qed simp

text \<open>The unit without the nexus \<open>nid\<close>: neither reserved by it nor linked to it.\<close>

definition forget_nexus :: "u64 \<Rightarrow> scsi_lu \<Rightarrow> scsi_lu" where
  "forget_nexus nid lu = lu\<lparr>reserve_id := (if reserve_id lu = nid then 0 else reserve_id lu),
     lu_itl_info_list := remove1 nid (lu_itl_info_list lu)\<rparr>"

lemma tgt_inv_forget_nexus:
  assumes "tgt_inv t"
  shows "tgt_inv (t\<lparr>device_list := map (forget_nexus nid) (device_list t),
     it_nexus_list := lremove itn_id nid (it_nexus_list t)\<rparr>)"
proof -
  have nids: "itn_id ` {x \<in> set (it_nexus_list t). itn_id x \<noteq> nid} = itn_id ` set (it_nexus_list t) - {nid}"
    by auto
  have "itns_wf (lremove itn_id nid (it_nexus_list t))"
    using assms by (auto simp: tgt_inv_def itns_wf_def distinct_lremove list_all_iff)
  moreover have "lun (forget_nexus nid lu) = lun lu" for lu
    by (simp add: forget_nexus_def)
  moreover have "lu_inv (itn_id ` set (it_nexus_list t) - {nid}) (forget_nexus nid lu)"
    if "lu \<in> set (device_list t)" for lu
    using assms that by (auto simp: tgt_inv_def lu_inv_def list_all_iff forget_nexus_def)
  ultimately show ?thesis
    using assms by (auto simp: tgt_inv_def list_all_iff nids comp_def image_image)
qed

text \<open>What destroying a nexus does to its target.\<close>

lemma nexus_destroy_target:
  assumes ti: "tgt_inv t" and itn: "lfind itn_id nid (it_nexus_list t) = Some itn"
  defines "t1 \<equiv> fold (\<lambda>l t. snd (device_release nid l False t)) (map lun (device_list t)) t"
  shows "t1\<lparr>device_list := it_nexus_del_lu_info itn (device_list t1),
      it_nexus_list := lremove itn_id nid (it_nexus_list t1)\<rparr> =
    t\<lparr>device_list := map (forget_nexus nid) (device_list t),
      it_nexus_list := lremove itn_id nid (it_nexus_list t)\<rparr>"
proof -
  have mem: "itn \<in> set (it_nexus_list t)" "itn_id itn = nid"
    using lfind_SomeD [OF itn] by auto
  have nz: "nid \<noteq> 0" and luns: "itl_lu ` set (itn_itl_info_list itn) = lun ` set (device_list t)"
    and infos: "distinct (map itl_lu (itn_itl_info_list itn))" "list_all (\<lambda>i. itl_itn_id i = nid) (itn_itl_info_list itn)"
    using ti mem by (auto simp: tgt_inv_def itn_inv_def itns_wf_def list_all_iff)
  have t1: "t1 = t\<lparr>device_list :=
      map (\<lambda>lu. if lun lu \<in> lun ` set (device_list t) \<and> reserve_id lu = nid then lu\<lparr>reserve_id := 0\<rparr> else lu) (device_list t)\<rparr>"
    unfolding t1_def using fold_device_release [OF tgt_inv_distinct [OF ti] nz, of "map lun (device_list t)"] by simp
  have "it_nexus_del_lu_info itn (device_list t1) = map (forget_nexus nid) (device_list t)"
    unfolding t1 using luns
    by (auto simp: it_nexus_del_lu_info_def it_nexus_del_lu_info_map [OF infos] forget_nexus_def)
  then show ?thesis
    by (simp add: t1)
qed

lemma sys_inv_nexus_destroy:
  assumes inv: "sys_inv ts"
  shows "sys_inv (snd (it_nexus_destroy i nid ts))"
proof (cases "it_nexus_lookup i nid ts")
  case None
  then show ?thesis
    using inv by (simp add: it_nexus_destroy_def)
next
  case (Some itn)
  then obtain t where t: "target_lookup i ts = Some t" "lfind itn_id nid (it_nexus_list t) = Some itn"
    by (auto simp: it_nexus_lookup_def split: option.splits)
  have ti: "tgt_inv t"
    using target_lookup_inv [OF inv t(1)] by simp
  show ?thesis
  proof (cases "itn_cmd_list itn = []")
    case True
    have "tid (fold (\<lambda>l t. snd (device_release nid l False t)) ls x) = tid x" for ls x
      by (induction ls arbitrary: x) (simp_all add: device_release_def upd_device_def split: option.split)
    moreover have "tgt_inv (let t1 = fold (\<lambda>l t. snd (device_release nid l False t)) (map lun (device_list t')) t'
        in t1\<lparr>device_list := it_nexus_del_lu_info itn (device_list t1),
              it_nexus_list := lremove itn_id nid (it_nexus_list t1)\<rparr>)"
      if "t' \<in> set ts" "tid t' = i" for t'
      using target_lookup_unique [OF inv t(1) that] tgt_inv_forget_nexus [OF ti]
        nexus_destroy_target [OF ti t(2)] by (simp add: Let_def)
    ultimately show ?thesis
      using True Some unfolding it_nexus_destroy_def
      by (simp add: sys_inv_upd_target [OF inv] Let_def)
  next
    case False
    then show ?thesis
      using inv Some by (simp add: it_nexus_destroy_def)
  qed
qed

section \<open>Callbacks of devices\<close>

text \<open>
  What a device type or backing store may not touch when it sets a unit up: its
  LUN, its list of nexuses and its reservation.
\<close>

definition same_identity :: "scsi_lu \<Rightarrow> scsi_lu \<Rightarrow> bool" where
  "same_identity lu lu' \<longleftrightarrow>
     lun lu' = lun lu \<and> lu_itl_info_list lu' = lu_itl_info_list lu \<and> reserve_id lu' = reserve_id lu"

lemma same_identity_refl [simp]: "same_identity lu lu"
  by (simp add: same_identity_def)

lemma same_identity_trans: "same_identity a b \<Longrightarrow> same_identity b c \<Longrightarrow> same_identity a c"
  by (simp add: same_identity_def)

lemma same_identity_attrs [simp]:
  "same_identity lu (lu1\<lparr>attrs := a\<rparr>) = same_identity lu lu1"
  "same_identity lu (lu1\<lparr>lu_fd := fd, lu_addr := ad, lu_size := sz, lu_path := p\<rparr>) = same_identity lu lu1"
  by (simp_all add: same_identity_def)

text \<open>
  The interface between the target core and the device types and backing stores
  registered with it.
\<close>

locale device_callbacks =
  fixes get_bst :: "string \<Rightarrow> backingstore_template option"
    and bsops :: "backingstore_template \<Rightarrow> bs_ops"
    and dtypes :: "device_type_template list"
  assumes init_keeps: "dt \<in> set dtypes \<Longrightarrow> dt_lu_init dt = Some f \<Longrightarrow> same_identity lu (snd (f tg lu))"
    and online_keeps: "dt \<in> set dtypes \<Longrightarrow> same_identity lu (snd (dt_lu_online dt lu))"
    and offline_keeps: "dt \<in> set dtypes \<Longrightarrow> same_identity lu (snd (dt_lu_offline dt tg lu))"
    and bs_init_keeps: "bs_init (bsops b) = Some g \<Longrightarrow> same_identity lu (snd (g lu o1))"
    and bs_open_keeps: "same_identity lu (snd (bs_open (bsops b) lu path))"
    and bs_close_keeps: "same_identity lu (bs_close (bsops b) lu)"
begin

lemma path_update_keeps:
  assumes "dt \<in> set dtypes"
  shows "same_identity lu (snd (tgt_device_path_update (bsops b) dt tg lu path))"
proof -
  have op: "same_identity x (snd (case bs_open (bsops b) y path of
              (None, lu1) \<Rightarrow> (TGTADM_INVALID_REQUEST, lu1)
            | (Some (fd, sz), lu1) \<Rightarrow>
                dt_lu_online dt (lu1\<lparr>lu_fd := fd, lu_addr := 0, lu_size := sz, lu_path := Some path\<rparr>)))"
    if "same_identity x y" for x y
  proof -
    obtain r lu1 where r: "bs_open (bsops b) y path = (r, lu1)"
      by (cases "bs_open (bsops b) y path")
    have "same_identity x lu1"
      using same_identity_trans [OF that bs_open_keeps, of b path] r by simp
    then show ?thesis
      using r same_identity_trans [OF _ online_keeps [OF assms]] by (auto split: option.split)
  qed
  show ?thesis
  proof (cases "lu_path lu = None \<or> online (attrs lu) \<noteq> 0")
    case True
    then show ?thesis
      using op [of lu lu] by (auto simp: tgt_device_path_update_def Let_def split: option.split)
  next
    case False
    obtain err lu1 where off: "dt_lu_offline dt tg lu = (err, lu1)"
      by (cases "dt_lu_offline dt tg lu")
    have k1: "same_identity lu lu1"
      using offline_keeps [OF assms, of lu tg] off by simp
    then have "same_identity lu ((bs_close (bsops b) lu1)\<lparr>lu_fd := 0, lu_addr := 0, lu_size := 0, lu_path := None\<rparr>)"
      using bs_close_keeps same_identity_trans by simp
    from op [OF this] show ?thesis
      using False off k1 by (cases err) (auto simp: tgt_device_path_update_def Let_def)
  qed
qed

end

lemma device_type_lookup_mem: "device_type_lookup ty ts = Some dt \<Longrightarrow> dt \<in> set ts"
  by (auto simp: device_type_lookup_def dest: lfind_SomeD)

lemma tid_link_device [simp]: "tid (link_device lu t) = tid t" "tid (unlink_device l t) = tid t" "tid (upd_device l f t) = tid t"
  by (simp_all add: link_device_def unlink_device_def upd_device_def Let_def)

lemma sys_inv_device_destroy:
  assumes "sys_inv ts"
  shows "sys_inv (snd (tgt_device_destroy i l force ts))"
proof -
  have "sys_inv (upd_target i (unlink_device l) ts)"
    using assms by (intro sys_inv_upd_target tgt_inv_unlink_device) (auto simp: sys_inv_def list_all_iff)
  then show ?thesis
    using assms by (auto simp: tgt_device_destroy_def split: option.split)
qed

lemma sys_inv_link:
  assumes "sys_inv ts" "target_lookup i ts = Some t" "device_lookup t (lun lu) = None"
    and "lu_itl_info_list lu = []" "reserve_id lu = 0"
  shows "sys_inv (upd_target i (link_device lu) ts)"
proof (rule sys_inv_upd_target [OF assms(1)])
  fix t' assume "t' \<in> set ts" "tid t' = i"
  then have "t' = t"
    using target_lookup_unique assms(1,2) by blast
  then show "tgt_inv (link_device lu t')"
    using assms target_lookup_inv [OF assms(1,2)]
    by (intro tgt_inv_link_device) (auto simp: device_lookup_def lfind_None_iff)
qed simp

lemma sys_inv_upd_device:
  assumes "sys_inv ts" "\<And>tg lu. same_identity lu (f tg lu)"
  shows "sys_inv (upd_target i (\<lambda>tg. upd_device l (f tg) tg) ts)"
  using assms
  by (intro sys_inv_upd_target tgt_inv_upd_device) (auto simp: sys_inv_def list_all_iff same_identity_def lu_inv_def)

context device_callbacks
begin

lemma create_inv:
  assumes inv: "sys_inv ts"
  shows "sys_inv (snd (tgt_device_create get_bst bsops dtypes i ty l params backing ts))"
proof -
  let ?res = "tgt_device_create get_bst bsops dtypes i ty l params backing ts"
  let ?os = "parse_device_opts params"
  show ?thesis
  proof (cases "snd ?res = ts")
    case False
    then obtain t bst fl dt where t: "target_lookup i ts = Some t" and free: "device_lookup t l = None"
      and bst: "device_bst get_bst t backing ?os = Some bst"
      and fl: "device_oflags bst ?os = Some fl" and dt: "device_type_lookup ty dtypes = Some dt"
      and sg: "is_sg_name (bs_name bst) = (ty = 0xff)"
      unfolding tgt_device_create_def Let_def by (auto split: option.splits if_splits)
    have mem: "dt \<in> set dtypes"
      using dt by (rule device_type_lookup_mem)
    let ?lu0 = "new_lu dt bst l fl (opt_blk_shift (opt_blocksize ?os))"
    obtain e1 lu1 where r1: "(case dt_lu_init dt of None \<Rightarrow> (TGTADM_SUCCESS, ?lu0) | Some f \<Rightarrow> f t ?lu0) = (e1, lu1)"
      by (metis surj_pair)
    have i1: "same_identity ?lu0 lu1"
      using r1 init_keeps [OF mem, of _ ?lu0 t] by (fastforce split: option.splits)
    obtain e2 lu2 where r2: "(case bs_init (bsops bst) of None \<Rightarrow> (TGTADM_SUCCESS, lu1) | Some f \<Rightarrow> f lu1 (opt_bsopts ?os)) = (e2, lu2)"
      by (metis surj_pair)
    have i2: "same_identity lu1 lu2"
    proof (cases "bs_init (bsops bst)")
      case (Some g)
      then show ?thesis
        using r2 bs_init_keeps [OF Some, of lu1 "opt_bsopts ?os"] by simp
    qed (use r2 in simp)
    let ?lu3 = "if backing \<and> opt_path ?os = None then lu2\<lparr>attrs := (attrs lu2)\<lparr>removable := 1, online := 0\<rparr>\<rparr> else lu2"
    obtain e4 lu4 where r4: "(case opt_path ?os of
          Some p \<Rightarrow> if backing then tgt_device_path_update (bsops bst) dt t ?lu3 p else (TGTADM_SUCCESS, ?lu3)
        | None \<Rightarrow> (TGTADM_SUCCESS, ?lu3)) = (e4, lu4)"
      by (metis surj_pair)
    have i4: "same_identity ?lu3 lu4"
    proof (cases "opt_path ?os")
      case (Some p)
      then show ?thesis
        using r4 path_update_keeps [OF mem, of lu2 bst t p] by (cases backing) auto
    qed (use r4 in simp)
    have "same_identity lu2 ?lu3"
      by simp
    then have id: "same_identity ?lu0 lu4"
      using i1 i2 i4 same_identity_trans by blast
    have "snd ?res = (let ts' = upd_target i (link_device lu4) ts in
        if backing \<and> opt_path ?os = None then upd_target i (\<lambda>tg. upd_device l (\<lambda>lu. snd (dt_lu_offline dt tg lu)) tg) ts' else ts')"
      using False t free bst fl dt sg r1 r2 r4 unfolding tgt_device_create_def
      by (auto simp: Let_def split: if_splits)
    moreover have "sys_inv (upd_target i (link_device lu4) ts)"
      using id inv t free by (intro sys_inv_link) (auto simp: same_identity_def new_lu_def blank_lu_def)
    ultimately show ?thesis
      using offline_keeps [OF mem] by (auto simp: Let_def intro!: sys_inv_upd_device)
  qed (use inv in simp)
qed

end

end
