(* ===== verification/Device_Types.thy ===== *)
theory Device_Types
  imports Bs_Rdwr Target_Inv
begin

text \<open>
  The device types and backing stores of the model meet the contract the target
  core relies on, so the invariant of the system holds along every sequence of
  administrative operations.
\<close>

section \<open>Set-up keeps the identity of a unit\<close>

lemma same_identity_upd [simp]:
  "same_identity lu (upd_attrs f lu1) = same_identity lu lu1"
  "same_identity lu (set_vpd pg v lu1) = same_identity lu lu1"
  "same_identity lu (lu1\<lparr>mode_pages := ps\<rparr>) = same_identity lu lu1"
  "same_identity lu (lu1\<lparr>mode_block_descriptor := b\<rparr>) = same_identity lu lu1"
  "same_identity lu (lu1\<lparr>blk_shift := sh\<rparr>) = same_identity lu lu1"
  by (simp_all add: same_identity_def upd_attrs_def set_vpd_def)

lemma same_identity_vpd [simp]:
  "same_identity lu (upd_vpd_data pg f lu1) = same_identity lu lu1"
  by (simp add: upd_vpd_data_def split: option.split)

lemma same_identity_update_vpd [simp]:
  "same_identity lu (update_vpd_80 sn lu1) = same_identity lu lu1"
  "same_identity lu (update_vpd_83 sid lu1) = same_identity lu lu1"
  "same_identity lu (update_vpd_b0 lu1) = same_identity lu lu1"
  "same_identity lu (update_vpd_b2 lu1) = same_identity lu lu1"
  by (simp_all add: update_vpd_80_def update_vpd_83_def update_vpd_b0_def update_vpd_b2_def)

lemma same_identity_online [simp]:
  "same_identity lu (snd (spc_lu_online lu1)) = same_identity lu lu1"
  "same_identity lu (snd (spc_lu_offline itns lu1)) = same_identity lu lu1"
  "same_identity lu (snd (off_cb tgt lu1)) = same_identity lu lu1"
  by (simp_all add: spc_lu_online_def spc_lu_offline_def off_cb_def)

lemma same_identity_mode_pages [simp]:
  "same_identity lu (snd (add_mode_page lu1 p)) = same_identity lu lu1"
  "same_identity lu (snd (set_mode_page_changeable_mask pc sub m lu1)) = same_identity lu lu1"
  by (simp_all add: add_mode_page_def set_mode_page_changeable_mask_def upd_mode_page_def Let_def split: option.split)

lemma same_identity_spc_lu_init [simp]:
  "same_identity lu (snd (spc_lu_init ty off_cb tgt lu1)) = same_identity lu lu1"
  by (simp add: spc_lu_init_def spc_lu_attrs_def Let_def)

lemma same_identity_sbc_lu_init [simp]:
  "same_identity lu (snd (sbc_lu_init off_cb tgt lu1)) = same_identity lu lu1"
proof -
  obtain e x where r: "spc_lu_init TYPE_DISK off_cb tgt lu1 = (e, x)"
    by (cases "spc_lu_init TYPE_DISK off_cb tgt lu1")
  have "same_identity lu x = same_identity lu lu1"
    using same_identity_spc_lu_init [of lu TYPE_DISK tgt lu1] r by simp
  then show ?thesis
    using r by (simp add: sbc_lu_init_def sbc_mode_pages_def Let_def)
qed

lemma same_identity_scc_lu_init [simp]:
  "same_identity lu (snd (scc_lu_init off_cb tgt lu1)) = same_identity lu lu1"
proof -
  obtain e x where r: "spc_lu_init TYPE_RAID off_cb tgt lu1 = (e, x)"
    by (cases "spc_lu_init TYPE_RAID off_cb tgt lu1")
  have "same_identity lu x = same_identity lu lu1"
    using same_identity_spc_lu_init [of lu TYPE_RAID tgt lu1] r by simp
  then show ?thesis
    using r by (simp add: scc_lu_init_def Let_def)
qed

lemma same_identity_rdwr_open [simp]:
  "same_identity lu (snd (bs_rdwr_open file_open lu1 path)) = same_identity lu lu1"
  by (auto simp: bs_rdwr_open_def Let_def update_lbppbe_def split: sum.split prod.split)

section \<open>The registered types and stores\<close>

abbreviation (input) "bst_list \<equiv>
  register_backingstore_template null_bst (register_backingstore_template rdwr_bst [])"

definition model_bsops :: "(string \<Rightarrow> bool \<Rightarrow> bool + (int \<times> u64 \<times> int)) \<Rightarrow> backingstore_template \<Rightarrow> bs_ops" where
  "model_bsops file_open b = (if bs_name b = ''null'' then null_bs_ops else rdwr_bs_ops file_open)"

text \<open>The invariants of the daemon are proved for disks and controllers on the null and the file store.\<close>

definition model_dtypes :: "(string \<Rightarrow> bool \<Rightarrow> bool + (int \<times> u64 \<times> int)) \<Rightarrow> device_type_template list" where
  "model_dtypes file_open =
     device_type_register (scc_template (model_bsops file_open))
       (device_type_register (sbc_template (model_bsops file_open)) [])"

interpretation disks: device_callbacks "get_backingstore_template bst_list" "model_bsops fo" "model_dtypes fo" for fo
  by unfold_locales
     (auto simp: model_dtypes_def device_type_register_def sbc_template_def scc_template_def Let_def
        model_bsops_def null_bs_ops_def rdwr_bs_ops_def split: if_splits)

section \<open>Administrative operations keep the invariant\<close>

abbreviation (input) "model_bst \<equiv> get_backingstore_template bst_list"

abbreviation (input) "create_target fo \<equiv> tgt_target_create model_bst (model_bsops fo) (model_dtypes fo)"

abbreviation (input) "create_device fo \<equiv> tgt_device_create model_bst (model_bsops fo) (model_dtypes fo)"

text \<open>The target lists any sequence of administrative requests and nexus changes leads to.\<close>

inductive admin_reach :: "(string \<Rightarrow> bool \<Rightarrow> bool + (int \<times> u64 \<times> int)) \<Rightarrow> target list \<Rightarrow> bool"
  for fo where
  start: "admin_reach fo []"
| target_create: "admin_reach fo ts \<Longrightarrow> create_target fo dbst lld i args ts = Some (r, ts') \<Longrightarrow> admin_reach fo ts'"
| target_destroy: "admin_reach fo (adm_targets st) \<Longrightarrow> tgt_target_destroy i force st = (r, st') \<Longrightarrow>
    admin_reach fo (adm_targets st')"
| device_create: "admin_reach fo ts \<Longrightarrow> create_device fo i ty l params backing ts = (r, ts') \<Longrightarrow> admin_reach fo ts'"
| device_destroy: "admin_reach fo ts \<Longrightarrow> tgt_device_destroy i l force ts = (r, ts') \<Longrightarrow> admin_reach fo ts'"
| nexus_create: "admin_reach fo ts \<Longrightarrow> it_nexus_create now i nid host info ts = Some (r, ts') \<Longrightarrow> admin_reach fo ts'"
| nexus_destroy: "admin_reach fo ts \<Longrightarrow> it_nexus_destroy i nid ts = (r, ts') \<Longrightarrow> admin_reach fo ts'"
| reserve: "admin_reach fo ts \<Longrightarrow> target_lookup i ts = Some tg \<Longrightarrow> cmd_itn_id cmd \<in> itn_id ` set (it_nexus_list tg) \<Longrightarrow>
    admin_reach fo (upd_target i (\<lambda>t. snd (device_reserve cmd t)) ts)"
| release: "admin_reach fo ts \<Longrightarrow> admin_reach fo (upd_target i (\<lambda>t. snd (device_release nid l force t)) ts)"

lemma tid_insert_target: "set (insert_target t ts) = insert t (set ts)"
  by (induction ts) auto

lemma sorted_insert_target:
  "sorted_wrt (<) (map tid ts) \<Longrightarrow> tid t \<notin> tid ` set ts \<Longrightarrow> sorted_wrt (<) (map tid (insert_target t ts))"
proof (induction ts)
  case (Cons p ps)
  then show ?case
    by (fastforce simp: tid_insert_target neq_iff)
qed simp

lemma sys_inv_insert_target:
  "sys_inv ts \<Longrightarrow> target_lookup i ts = None \<Longrightarrow> sys_inv (insert_target (new_target lld i name bst) ts)"
  by (auto simp: sys_inv_def target_lookup_def lfind_None_iff list_all_iff tid_insert_target new_target_def
      tgt_inv_def itns_wf_def intro!: sorted_insert_target)

lemma sys_inv_target_create:
  assumes "sys_inv ts" "create_target fo dbst lld i args ts = Some (r, ts')"
  shows "sys_inv ts'"
proof (cases "ts' = ts")
  case False
  then obtain name bst where "target_lookup i ts = None"
    "ts' = snd (create_device fo i 0x0c 0 None False (insert_target (new_target lld i name bst) ts))"
    using assms(2) by (auto simp: tgt_target_create_def Let_def split: option.splits if_splits)
  then show ?thesis
    using sys_inv_insert_target [OF assms(1)] disks.create_inv by blast
qed (use assms in simp)

lemma sys_inv_destroy_devices: "sys_inv ts \<Longrightarrow> sys_inv (snd (destroy_devices i ts))"
proof (induction i ts rule: destroy_devices.induct)
  case (1 t ts)
  show ?case
  proof (cases "target_lookup t ts")
    case (Some tg)
    obtain err ts1 where d: "tgt_device_destroy t (lun (last (device_list tg))) True ts = (err, ts1)"
      by (cases "tgt_device_destroy t (lun (last (device_list tg))) True ts")
    have "sys_inv ts1"
      using sys_inv_device_destroy [OF "1.prems", of t "lun (last (device_list tg))" True] d by simp
    then show ?thesis
      using Some d "1.prems" "1.IH" [OF Some _ refl] by (subst destroy_devices.simps) auto
  qed (use "1.prems" in \<open>subst destroy_devices.simps; simp\<close>)
qed

lemma sys_inv_target_destroy:
  assumes "sys_inv (adm_targets st)" "tgt_target_destroy i force st = (r, st')"
  shows "sys_inv (adm_targets st')"
proof -
  have "sys_inv (snd (destroy_devices i (adm_targets st)))"
    using assms(1) by (rule sys_inv_destroy_devices)
  moreover have "sys_inv (lremove tid i ts)" if "sys_inv ts" for ts
    using that by (auto simp: sys_inv_def list_all_iff map_key_lremove sorted_wrt_filter)
  ultimately show ?thesis
    using assms unfolding tgt_target_destroy_def
    by (cases "target_lookup i (adm_targets st)"; cases "destroy_devices i (adm_targets st)")
       (auto simp del: destroy_devices.simps split: if_splits)
qed

lemma admin_reach_sys_inv: "admin_reach fo ts \<Longrightarrow> sys_inv ts"
proof (induction rule: admin_reach.induct)
  case start
  show ?case by (simp add: sys_inv_def)
next
  case (target_create ts dbst lld i args r ts')
  then show ?case by (blast intro: sys_inv_target_create)
next
  case (target_destroy st i force r st')
  then show ?case by (blast intro: sys_inv_target_destroy)
next
  case (device_create ts i ty l params backing r ts')
  then show ?case by (metis disks.create_inv snd_conv)
next
  case (device_destroy ts i l force r ts')
  then show ?case by (metis sys_inv_device_destroy snd_conv)
next
  case (nexus_create ts now i nid host info r ts')
  then show ?case by (blast intro: sys_inv_nexus_create)
next
  case (nexus_destroy ts i nid r ts')
  then show ?case by (metis sys_inv_nexus_destroy snd_conv)
next
  case (reserve ts i tg cmd)
  show ?case
  proof (rule sys_inv_upd_target [OF reserve.IH])
    fix t assume t: "t \<in> set ts" "tid t = i"
    then have "t = tg"
      using target_lookup_unique [OF reserve.IH reserve.hyps(2)] by blast
    then show "tgt_inv (snd (device_reserve cmd t))"
      using target_lookup_inv [OF reserve.IH reserve.hyps(2)] reserve.hyps(3)
      by (simp add: tgt_inv_device_reserve)
  qed (simp add: device_reserve_def split: option.split)
next
  case (release ts i nid l force)
  then show ?case
    by (intro sys_inv_upd_target tgt_inv_device_release)
       (auto simp: sys_inv_def list_all_iff device_release_def split: option.split)
qed


section \<open>Properties\<close>

text \<open>
  After any sequence of target, unit and nexus creations and destructions and
  of RESERVE and RELEASE commands: targets are in strict order of their ids, units
  in strict order of their LUNs, every nexus of a target has exactly one
  \<open>it_nexus_lu_info\<close> for every unit and is in every unit's list exactly once, and
  a reserved unit is reserved by a nexus that still exists.
\<close>

lemma admin_reach_inv:
  assumes "admin_reach fo ts"
  shows "sorted_wrt (<) (map tid ts) \<and>
    list_all (\<lambda>t.
      sorted_wrt (<) (map lun (device_list t)) \<and> distinct (map itn_id (it_nexus_list t)) \<and>
      list_all (\<lambda>itn. distinct (map itl_lu (itn_itl_info_list itn)) \<and>
        itl_lu ` set (itn_itl_info_list itn) = lun ` set (device_list t)) (it_nexus_list t) \<and>
      list_all (\<lambda>lu. distinct (lu_itl_info_list lu) \<and>
        set (lu_itl_info_list lu) = itn_id ` set (it_nexus_list t) \<and>
        (reserve_id lu = 0 \<or> reserve_id lu \<in> itn_id ` set (it_nexus_list t))) (device_list t)) ts"
  using admin_reach_sys_inv [OF assms]
  by (auto simp: sys_inv_def tgt_inv_def itns_wf_def itn_inv_def lu_inv_def list_all_iff)

lemma parse_ex_name: "parse_targetname ''targetname=iqn.t'' = Some ''iqn.t''"
  by (simp add: parse_targetname_def)

text \<open>A file system without files.\<close>

definition no_files :: "string \<Rightarrow> bool \<Rightarrow> bool + (int \<times> u64 \<times> int)" where
  "no_files path ro = Inl False"

lemma ex_target_create:
  "\<exists>ts. create_target no_files ''null'' 0 1 ''targetname=iqn.t'' [] = Some (TGTADM_SUCCESS, ts)"
  by (simp add: tgt_target_create_def parse_ex_name target_name_char_def target_lookup_def
      target_name_lookup_def get_backingstore_template_def register_backingstore_template_def null_bst_def Let_def)

lemma admin_reach_inv_witness:
  "\<exists>ts. create_target no_files ''null'' 0 1 ''targetname=iqn.t'' [] = Some (TGTADM_SUCCESS, ts) \<and>
     sorted_wrt (<) (map tid ts)"
proof -
  obtain ts where ts: "create_target no_files ''null'' 0 1 ''targetname=iqn.t'' [] = Some (TGTADM_SUCCESS, ts)"
    using ex_target_create by blast
  then have "admin_reach no_files ts"
    by (rule admin_reach.target_create [OF admin_reach.start])
  from admin_reach_inv [OF this] ts show ?thesis
    by blast
qed


subsection \<open>A new target\<close>

lemma fst_spc_lu_init [simp]: "fst (spc_lu_init ty lu_off tgt lu) = TGTADM_SUCCESS"
  by (simp add: spc_lu_init_def Let_def)

lemma attrs_upd_vpd [simp]:
  "device_type (attrs (upd_vpd_data pg f lu)) = device_type (attrs lu)"
  "device_type (attrs (set_vpd pg v lu)) = device_type (attrs lu)"
  by (simp_all add: upd_vpd_data_def set_vpd_def split: option.split)

lemma device_type_update_vpd [simp]:
  "device_type (attrs (update_vpd_80 sn lu)) = device_type (attrs lu)"
  "device_type (attrs (update_vpd_83 sid lu)) = device_type (attrs lu)"
  "device_type (attrs (update_vpd_b0 lu)) = device_type (attrs lu)"
  "device_type (attrs (update_vpd_b2 lu)) = device_type (attrs lu)"
  by (simp_all add: update_vpd_80_def update_vpd_83_def update_vpd_b0_def update_vpd_b2_def)

lemma device_type_off_cb [simp]: "device_type (attrs (snd (off_cb tgt lu))) = device_type (attrs lu)"
  by (simp add: off_cb_def spc_lu_offline_def)

lemma device_type_spc_lu_init [simp]: "device_type (attrs (snd (spc_lu_init ty off_cb tgt lu))) = ty"
  by (simp add: spc_lu_init_def spc_lu_attrs_def Let_def)

lemma scc_lu_init_result:
  "\<exists>lu'. scc_lu_init off_cb tgt lu = (TGTADM_SUCCESS, lu') \<and> device_type (attrs lu') = TYPE_RAID \<and>
     online (attrs lu') = 1 \<and> same_identity lu lu' \<and> cmd_queue lu' = cmd_queue (snd (spc_lu_init TYPE_RAID off_cb tgt lu))"
proof -
  obtain x where r: "spc_lu_init TYPE_RAID off_cb tgt lu = (TGTADM_SUCCESS, x)"
    by (metis fst_spc_lu_init prod.collapse)
  have "device_type (attrs x) = TYPE_RAID" "same_identity lu x"
    using device_type_spc_lu_init [of TYPE_RAID tgt lu] same_identity_spc_lu_init [of lu TYPE_RAID tgt lu] r
    by simp_all
  then show ?thesis
    using r by (simp add: scc_lu_init_def Let_def spc_lu_online_def upd_attrs_def same_identity_def)
qed

lemma cmd_queue_vpd [simp]:
  "cmd_queue (upd_vpd_data pg f lu) = cmd_queue lu" "cmd_queue (set_vpd pg v lu) = cmd_queue lu"
  by (simp_all add: upd_vpd_data_def set_vpd_def split: option.split)

lemma cmd_queue_update_vpd [simp]:
  "cmd_queue (update_vpd_80 sn lu) = cmd_queue lu" "cmd_queue (update_vpd_83 sid lu) = cmd_queue lu"
  "cmd_queue (update_vpd_b0 lu) = cmd_queue lu" "cmd_queue (update_vpd_b2 lu) = cmd_queue lu"
  by (simp_all add: update_vpd_80_def update_vpd_83_def update_vpd_b0_def update_vpd_b2_def)

lemma cmd_queue_spc_lu_init [simp]: "cmd_queue (snd (spc_lu_init ty off_cb tgt lu)) = cmd_queue lu"
  by (simp add: spc_lu_init_def spc_lu_attrs_def Let_def off_cb_def spc_lu_offline_def)

lemma lookup_insert_target:
  "target_lookup (tid t) ts = None \<Longrightarrow>
   target_lookup i (insert_target t ts) = (if i = tid t then Some t else target_lookup i ts)"
  by (induction ts) (auto simp: target_lookup_def split: if_splits)

lemma lremove_absent: "k \<notin> key ` set xs \<Longrightarrow> lremove key k xs = xs"
  by (auto simp: lremove_def filter_id_conv)

lemma lupdate_absent: "k \<notin> key ` set xs \<Longrightarrow> lupdate key k f xs = xs"
  unfolding lupdate_def by (rule map_idI) auto

lemma upd_insert_target:
  assumes "target_lookup (tid t) ts = None" "tid (f t) = tid t"
  shows "upd_target (tid t) f (insert_target t ts) = insert_target (f t) ts"
  using assms(1)
proof (induction ts)
  case (Cons a ts)
  then have "tid t \<notin> tid ` set (a # ts)"
    by (simp add: target_lookup_def lfind_None_iff split: if_splits)
  then show ?case
    using Cons lupdate_absent [of "tid t" tid ts f] assms(2)
    by (auto simp: target_lookup_def upd_target_def lfind_None_iff) (simp_all add: lupdate_def)
qed (simp add: upd_target_def lupdate_def)

lemma lremove_insert_target:
  assumes "target_lookup (tid t) ts = None"
  shows "lremove tid (tid t) (insert_target t ts) = ts"
  using assms
proof (induction ts)
  case (Cons a ts)
  then have "tid t \<notin> tid ` set (a # ts)"
    by (simp add: target_lookup_def lfind_None_iff split: if_splits)
  then show ?case
    using Cons lremove_absent [of "tid t" tid ts]
    by (auto simp: target_lookup_def lfind_None_iff) (simp_all add: lremove_def)
qed (simp add: lremove_def)

lemma model_null_bst: "model_bst ''null'' = Some null_bst"
  by (simp add: get_backingstore_template_def register_backingstore_template_def null_bst_def)

lemma model_scc_type: "device_type_lookup 0x0c (model_dtypes fo) = Some (scc_template (model_bsops fo))"
  by (simp add: device_type_lookup_def model_dtypes_def device_type_register_def sbc_template_def scc_template_def Let_def)

lemma create_device_0:
  assumes "target_lookup i ts = None" "tid t = i" "device_list t = []" "it_nexus_list t = []"
  shows "\<exists>lu. create_device fo i 0x0c 0 None False (insert_target t ts) =
      (TGTADM_SUCCESS, insert_target (t\<lparr>device_list := [lu]\<rparr>) ts) \<and>
      lun lu = 0 \<and> device_type (attrs lu) = TYPE_RAID \<and> online (attrs lu) = 1 \<and> cmd_queue lu = tgt_cmd_queue_init"
proof -
  let ?lu0 = "new_lu (scc_template (model_bsops fo)) null_bst 0 0 0"
  obtain lu where lu: "scc_lu_init off_cb t ?lu0 = (TGTADM_SUCCESS, lu)" "device_type (attrs lu) = TYPE_RAID"
    "online (attrs lu) = 1" "same_identity ?lu0 lu" "cmd_queue lu = cmd_queue ?lu0"
    using scc_lu_init_result [of t ?lu0] by auto
  have init: "dt_lu_init (scc_template (model_bsops fo)) = Some (scc_lu_init off_cb)"
    "bs_init (model_bsops fo null_bst) = None"
    by (simp_all add: scc_template_def Let_def model_bsops_def null_bst_def null_bs_ops_def)
  have id: "lun lu = 0" "lu_itl_info_list lu = []"
    using lu(4) by (simp_all add: same_identity_def new_lu_def blank_lu_def)
  have lu_eq: "lu\<lparr>lu_itl_info_list := []\<rparr> = lu"
    using id(2) by (cases lu) simp
  have link: "link_device lu t = t\<lparr>device_list := [lu], it_nexus_list := []\<rparr>"
    using id lu_eq assms by (simp add: link_device_def Let_def)
  then have link': "link_device lu t = t\<lparr>device_list := [lu]\<rparr>"
    using assms by (cases t) simp
  have upd: "upd_target i (link_device lu) (insert_target t ts) = insert_target (t\<lparr>device_list := [lu]\<rparr>) ts"
    using upd_insert_target [of t ts "link_device lu"] assms(1,2) link' by simp
  have "create_device fo i 0x0c 0 None False (insert_target t ts) =
      (TGTADM_SUCCESS, upd_target i (link_device lu) (insert_target t ts))"
    using assms lu(1)
    by (simp add: tgt_device_create_def Let_def parse_device_opts_def lookup_insert_target device_lookup_def
        device_bst_def model_null_bst device_oflags_def is_sg_name_def model_scc_type init opt_blk_shift_def)
       (simp add: null_bst_def)
  then show ?thesis
    using upd lu id by (auto simp: new_lu_def blank_lu_def)
qed


lemma create_target_success:
  assumes "create_target fo dbst lld i args ts = Some (TGTADM_SUCCESS, ts')"
  shows "\<exists>t lu. target_lookup i ts = None \<and> ts' = insert_target t ts \<and> tid t = i \<and> device_list t = [lu] \<and>
    it_nexus_list t = [] \<and> target_state t = SCSI_TARGET_READY \<and> \<not> target_name_lookup (tgt_name t) ts \<and>
    lun lu = 0 \<and> device_type (attrs lu) = TYPE_RAID \<and> online (attrs lu) = 1 \<and> cmd_queue lu = tgt_cmd_queue_init"
proof -
  obtain name bst where n: "\<not> target_name_lookup name ts" and free: "target_lookup i ts = None"
    and ts': "ts' = snd (create_device fo i 0x0c 0 None False (insert_target (new_target lld i name bst) ts))"
    using assms by (auto simp: tgt_target_create_def Let_def split: option.splits if_splits)
  obtain lu where "create_device fo i 0x0c 0 None False (insert_target (new_target lld i name bst) ts) =
      (TGTADM_SUCCESS, insert_target ((new_target lld i name bst)\<lparr>device_list := [lu]\<rparr>) ts)"
    "lun lu = 0" "device_type (attrs lu) = TYPE_RAID" "online (attrs lu) = 1" "cmd_queue lu = tgt_cmd_queue_init"
    using create_device_0 [OF free, of "new_target lld i name bst" fo] by (auto simp: new_target_def)
  then show ?thesis
    using n free ts'
    by (intro exI [of _ "(new_target lld i name bst)\<lparr>device_list := [lu]\<rparr>"] exI [of _ lu]) (simp add: new_target_def)
qed

text \<open>
  A successful target creation adds one target under an id and a name that
  were free, ready, with no nexus and exactly one unit: LUN 0, a controller that
  is online; every other target is as before.
\<close>

lemma target_create_correct:
  assumes "create_target fo dbst lld i args ts = Some (TGTADM_SUCCESS, ts')"
  shows "target_lookup i ts = None \<and>
    (\<exists>t lu. target_lookup i ts' = Some t \<and> \<not> target_name_lookup (tgt_name t) ts \<and>
       target_state t = SCSI_TARGET_READY \<and> it_nexus_list t = [] \<and> device_list t = [lu] \<and>
       lun lu = 0 \<and> device_type (attrs lu) = TYPE_RAID \<and> online (attrs lu) = 1) \<and>
    (\<forall>j. j \<noteq> i \<longrightarrow> target_lookup j ts' = target_lookup j ts)"
proof -
  obtain t lu where r: "target_lookup i ts = None" "ts' = insert_target t ts" "tid t = i" "device_list t = [lu]"
    "it_nexus_list t = []" "target_state t = SCSI_TARGET_READY" "\<not> target_name_lookup (tgt_name t) ts"
    "lun lu = 0" "device_type (attrs lu) = TYPE_RAID" "online (attrs lu) = 1"
    using create_target_success [OF assms] by blast
  then have "target_lookup j ts' = (if j = i then Some t else target_lookup j ts)" for j
    using lookup_insert_target [of t ts j] by simp
  then show ?thesis
    using r by auto
qed

lemma target_create_correct_witness:
  "\<exists>ts t lu. create_target no_files ''null'' 0 1 ''targetname=iqn.t'' [] = Some (TGTADM_SUCCESS, ts) \<and>
     target_lookup 1 ts = Some t \<and> device_list t = [lu] \<and> lun lu = 0 \<and> online (attrs lu) = 1"
  using ex_target_create target_create_correct [of no_files "''null''" 0 1 "''targetname=iqn.t''" "[]"] by metis

text \<open>
  Destroying a target right after its creation succeeds and restores the
  target list.
\<close>

lemma target_create_destroy:
  assumes "create_target fo dbst lld i args (adm_targets st) = Some (TGTADM_SUCCESS, ts')"
  shows "tgt_target_destroy i False (st\<lparr>adm_targets := ts'\<rparr>) = (TGTADM_SUCCESS, st)"
proof -
  obtain t lu where r: "target_lookup i (adm_targets st) = None" "ts' = insert_target t (adm_targets st)" "tid t = i"
    "device_list t = [lu]" "it_nexus_list t = []" "lun lu = 0" "cmd_queue lu = tgt_cmd_queue_init"
    using create_target_success [OF assms] by blast
  have t: "target_lookup i ts' = Some t"
    using r lookup_insert_target [of t "adm_targets st" i] by simp
  have "tgt_device_destroy i (lun (last (device_list t))) True ts' = (TGTADM_SUCCESS, upd_target i (unlink_device 0) ts')"
    using r t by (simp add: tgt_device_destroy_def device_lookup_tid_def device_lookup_def tgt_cmd_queue_init_def)
  moreover have u: "upd_target i (unlink_device 0) ts' = insert_target (unlink_device 0 t) (adm_targets st)"
    using r upd_insert_target [of t "adm_targets st" "unlink_device 0"] by simp
  moreover have "target_lookup i (insert_target (unlink_device 0 t) (adm_targets st)) = Some (unlink_device 0 t)"
    using r lookup_insert_target [of "unlink_device 0 t" "adm_targets st" i] by simp
  moreover have "device_list (unlink_device 0 t) = []"
    using r by (simp add: unlink_device_def Let_def lremove_def)
  ultimately have "destroy_devices i ts' = (TGTADM_SUCCESS, insert_target (unlink_device 0 t) (adm_targets st))"
    using t r by (subst destroy_devices.simps; simp; subst destroy_devices.simps; simp)
  moreover have "lremove tid i (insert_target (unlink_device 0 t) (adm_targets st)) = adm_targets st"
    using r lremove_insert_target [of "unlink_device 0 t" "adm_targets st"] by simp
  ultimately show ?thesis
    using t r by (simp add: tgt_target_destroy_def del: destroy_devices.simps)
qed

lemma target_create_destroy_witness:
  "\<exists>ts. create_target no_files ''null'' 0 1 ''targetname=iqn.t'' (adm_targets (ex_adm\<lparr>adm_targets := []\<rparr>)) = Some (TGTADM_SUCCESS, ts) \<and>
     tgt_target_destroy 1 False (ex_adm\<lparr>adm_targets := ts\<rparr>) = (TGTADM_SUCCESS, ex_adm\<lparr>adm_targets := []\<rparr>)"
  using ex_target_create
    target_create_destroy [of no_files "''null''" 0 1 "''targetname=iqn.t''" "ex_adm\<lparr>adm_targets := []\<rparr>"]
  by auto


end
