(* ===== verification/Sbc_Thms.thy ===== *)
theory Sbc_Thms
  imports Device_Types
begin

text \<open>
  Properties of the block device commands: transfers stay inside the unit and
  respect write protection and reservations, capacity data agrees with the range
  check, mode pages change only where their mask allows it, and the reservation
  bits of the operation table.
\<close>

unbundle bit_operations_syntax

section \<open>Ranges\<close>

lemma unat_push_bit_mod: "unat (push_bit k w :: 'a::len word) = unat w * 2 ^ k mod 2 ^ LENGTH('a)"
  by (simp only: unsigned_push_bit_eq) (simp add: push_bit_eq_mult take_bit_eq_mod)

lemma unat_push_bit_le: "unat (push_bit k w :: 'a::len word) \<le> unat w * 2 ^ k"
  by (simp add: unat_push_bit_mod)

lemma unat_push_bit_small:
  "unat w * 2 ^ k < 2 ^ LENGTH('a) \<Longrightarrow> unat (push_bit k w :: 'a::len word) = unat w * 2 ^ k"
  by (simp add: unat_push_bit_mod)

lemma unat_lu_blocks: "unat (lu_blocks lu) = unat (lu_size lu) div 2 ^ blk_shift lu"
  using unsigned_less [of "lu_size lu", where 'a = nat]
  by (simp only: lu_blocks_def unsigned_drop_bit_eq) (simp add: drop_bit_eq_div take_bit_nat_eq_self)

lemma unat_ucast_32_64: "unat (ucast (x :: u32) :: u64) = unat x"
  using unsigned_less [of x, where 'a = nat] by (simp add: unsigned_ucast_eq take_bit_nat_eq_self)

lemma lba_in_range_iff:
  "\<not> lba_out_of_range lu lba cnt \<longleftrightarrow>
     (if cnt \<noteq> 0 then unat lba + unat cnt \<le> unat (lu_blocks lu) else unat lba < unat (lu_blocks lu))"
proof (cases "cnt = 0")
  case False
  have "unat lba + unat cnt \<le> unat (lu_blocks lu) \<longleftrightarrow> lba \<le> lba + ucast cnt \<and> lba + ucast cnt \<le> lu_blocks lu"
  proof (cases "lba \<le> lba + ucast cnt")
    case True
    then have "unat lba + unat (ucast cnt :: u64) < 2 ^ 64"
      by (simp add: no_olen_add_nat)
    then have "unat (lba + ucast cnt) = unat lba + unat cnt"
      by (simp add: unat_word_ariths unat_ucast_32_64)
    then show ?thesis
      using True by (simp add: word_le_nat_alt)
  next
    case F: False
    then have "2 ^ 64 \<le> unat lba + unat (ucast cnt :: u64)"
      by (simp add: no_olen_add_nat)
    then have "\<not> unat lba + unat cnt \<le> unat (lu_blocks lu)"
      using unsigned_less [of "lu_blocks lu", where 'a = nat] by (simp add: unat_ucast_32_64)
    then show ?thesis
      using F by simp
  qed
  then show ?thesis
    using False by (auto simp: lba_out_of_range_def not_less)
qed (auto simp: lba_out_of_range_def word_le_nat_alt)

lemma block_range_bytes:
  assumes "\<not> lba_out_of_range lu lba cnt"
  shows "unat (push_bit (blk_shift lu) lba) = unat lba * 2 ^ blk_shift lu"
    and "unat (push_bit (blk_shift lu) lba) + unat (push_bit (blk_shift lu) cnt) \<le> unat (lu_size lu)"
proof -
  let ?k = "blk_shift lu"
  have "unat lba + unat cnt \<le> unat (lu_size lu) div 2 ^ ?k"
    using assms by (auto simp: lba_in_range_iff unat_lu_blocks split: if_splits)
  then have "(unat lba + unat cnt) * 2 ^ ?k \<le> unat (lu_size lu) div 2 ^ ?k * 2 ^ ?k"
    by (rule mult_le_mono1)
  then have sum: "unat lba * 2 ^ ?k + unat cnt * 2 ^ ?k \<le> unat (lu_size lu)"
    by (metis add_mult_distrib div_times_less_eq_dividend le_trans)
  then have "unat lba * 2 ^ ?k < 2 ^ 64"
    using unsigned_less [of "lu_size lu", where 'a = nat] by simp
  then show l: "unat (push_bit ?k lba) = unat lba * 2 ^ ?k"
    by (intro unat_push_bit_small) simp
  then show "unat (push_bit ?k lba) + unat (push_bit ?k cnt) \<le> unat (lu_size lu)"
    using sum unat_push_bit_le [of ?k cnt] by linarith
qed

section \<open>READ and WRITE\<close>

text \<open>What a request handed to the backing store by \<open>sbc_rw\<close> looks like.\<close>

definition rw_request_ok :: "hst \<Rightarrow> bool" where
  "rw_request_ok x \<longleftrightarrow>
     (let cmd = hs_cmd x; lu = hs_lu x; op = byte_at (scb cmd) 0 in
      \<not> hs_reserved x \<and> \<not> medium_absent lu \<and> (write_opcode op \<longrightarrow> \<not> write_protected lu) \<and>
      unat (c_offset cmd) = unat (scsi_rw_offset (scb cmd)) * 2 ^ blk_shift lu \<and>
      unat (c_offset cmd) + unat (c_tl cmd) \<le> unat (lu_size lu) \<and>
      (plain_write_opcode op \<longrightarrow> scsi_get_out_length cmd \<le> c_tl cmd))"

lemma rw_setup_fields:
  "scb (sbc_rw_setup lu lba cnt cmd) = scb cmd"
  "cmd_itn_id (sbc_rw_setup lu lba cnt cmd) = cmd_itn_id cmd"
  "c_offset (sbc_rw_setup lu lba cnt cmd) = push_bit (blk_shift lu) lba"
  "c_tl (sbc_rw_setup lu lba cnt cmd) = push_bit (blk_shift lu) cnt"
  by (simp_all add: sbc_rw_setup_def Let_def scsi_set_in_resid_by_actual_def scsi_set_out_resid_by_actual_def
      set_out_length_def)

lemma rw_setup_clamp:
  assumes "plain_write_opcode (byte_at (scb cmd) 0)" "\<not> plain_read_opcode (byte_at (scb cmd) 0)"
  shows "scsi_get_out_length (sbc_rw_setup lu lba cnt cmd) \<le> push_bit (blk_shift lu) cnt"
  using assms
  by (auto simp: sbc_rw_setup_def Let_def scsi_set_out_resid_by_actual_def set_out_length_def not_less)

lemma rw_check_ok:
  assumes "sbc_rw_check cmd lu = Inr (lba, cnt)"
  shows "\<not> medium_absent lu" "write_opcode (byte_at (scb cmd) 0) \<Longrightarrow> \<not> write_protected lu"
    "lba = scsi_rw_offset (scb cmd)" "\<not> lba_out_of_range lu lba cnt"
  using assms unfolding sbc_rw_check_def Let_def by (simp_all split: if_splits)

lemma plain_write_not_read: "plain_write_opcode op \<Longrightarrow> \<not> plain_read_opcode op"
  by (auto simp: plain_write_opcode_def plain_read_opcode_def)

text \<open>
  C20. READ, WRITE and their variants reach the backing store only with requests
  that are inside the unit: the byte offset is the addressed block times the block
  size, without overflow, and offset plus length do not pass the size of the unit;
  the medium is present, a write is never passed on for a write-protected unit or
  past its transfer length, and the unit is not reserved by another nexus. Stated
  as: replacing the store by one that is undefined on all other requests changes
  nothing.
\<close>

theorem sbc_rw_requests_in_range:
  "sbc_rw submit s = sbc_rw (\<lambda>x. if rw_request_ok x then submit x else None) s"
proof (cases "hs_reserved s")
  case False
  show ?thesis
  proof (cases "sbc_rw_check (hs_cmd s) (hs_lu s)")
    case (Inr r)
    obtain lba cnt where r: "r = (lba, cnt)"
      by (cases r)
    note ok = rw_check_ok [OF Inr [unfolded r]]
    let ?x = "upd_cmd (sbc_rw_setup (hs_lu s) lba cnt) s"
    have "rw_request_ok ?x"
      using False ok block_range_bytes [OF ok(4)] rw_setup_clamp [OF _ plain_write_not_read, of "hs_cmd s" "hs_lu s" lba cnt]
      by (simp add: rw_request_ok_def Let_def rw_setup_fields hs_reserved_def)
    then show ?thesis
      using Inr r by (simp add: sbc_rw_def)
  qed (simp add: sbc_rw_def)
qed (simp add: sbc_rw_def)


section \<open>Exclusive use\<close>

text \<open>
  C24. A RESERVE of a nexus that succeeds makes the unit its own: every other
  nexus gets RESERVATION CONFLICT from READ, WRITE, TEST UNIT READY, MODE SELECT,
  FORMAT UNIT, SYNCHRONIZE CACHE and RESERVE, without any change of the unit, a
  RELEASE of another nexus changes nothing, and the RELEASE of the owner gives the
  unit back as it was.
\<close>

theorem reserve_excludes_others:
  assumes "sbc_reserve s = Some (SAM_STAT_GOOD, s1)" "cmd_itn_id (hs_cmd s) \<noteq> 0" "reserve_id (hs_lu s) = 0"
    and "hs_lu t = hs_lu s1" "cmd_itn_id (hs_cmd t) \<noteq> cmd_itn_id (hs_cmd s)"
  shows "sbc_rw submit t = Some (SAM_STAT_RESERVATION_CONFLICT, t) \<and>
    spc_test_unit t = Some (SAM_STAT_RESERVATION_CONFLICT, t) \<and>
    sbc_mode_select t = Some (SAM_STAT_RESERVATION_CONFLICT, t) \<and>
    sbc_format_unit t = Some (SAM_STAT_RESERVATION_CONFLICT, t) \<and>
    sbc_sync_cache submit t = Some (SAM_STAT_RESERVATION_CONFLICT, t) \<and>
    sbc_reserve t = Some (SAM_STAT_RESERVATION_CONFLICT, t) \<and>
    sbc_release t = Some (SAM_STAT_GOOD, t) \<and>
    sbc_release s1 = Some (SAM_STAT_GOOD, s)"
proof -
  have s1: "s1 = upd_lu (\<lambda>lu. lu\<lparr>reserve_id := cmd_itn_id (hs_cmd s)\<rparr>) s"
    using assms(1) by (simp add: sbc_reserve_def split: if_splits)
  then have "hs_reserved t"
    using assms by (simp add: hs_reserved_def)
  moreover have "sbc_release t = Some (SAM_STAT_GOOD, t)"
    using assms s1 by (simp add: sbc_release_def)
  moreover have "sbc_release s1 = Some (SAM_STAT_GOOD, s)"
    using s1 assms(3) by (simp add: sbc_release_def)
  ultimately show ?thesis
    by (simp add: sbc_rw_def spc_test_unit_def sbc_mode_select_def spc_mode_select_def sbc_format_unit_def
        sbc_sync_cache_def sbc_reserve_def Let_def)
qed

theorem reserve_excludes_others_witness:
  "sbc_rw bs_null_cmd_submit (blank_hst\<lparr>hs_cmd := blank_cmd\<lparr>cmd_itn_id := 2\<rparr>, hs_lu := (blank_lu 0)\<lparr>reserve_id := 1\<rparr>\<rparr>) =
     Some (SAM_STAT_RESERVATION_CONFLICT,
       blank_hst\<lparr>hs_cmd := blank_cmd\<lparr>cmd_itn_id := 2\<rparr>, hs_lu := (blank_lu 0)\<lparr>reserve_id := 1\<rparr>\<rparr>)"
  using reserve_excludes_others [of "blank_hst\<lparr>hs_cmd := blank_cmd\<lparr>cmd_itn_id := 1\<rparr>\<rparr>"
      "blank_hst\<lparr>hs_cmd := blank_cmd\<lparr>cmd_itn_id := 1\<rparr>, hs_lu := (blank_lu 0)\<lparr>reserve_id := 1\<rparr>\<rparr>"
      "blank_hst\<lparr>hs_cmd := blank_cmd\<lparr>cmd_itn_id := 2\<rparr>, hs_lu := (blank_lu 0)\<lparr>reserve_id := 1\<rparr>\<rparr>" bs_null_cmd_submit]
  by (simp add: sbc_reserve_def hs_reserved_def blank_defs)

section \<open>UNMAP\<close>

text \<open>
  UNMAP never succeeds: whatever the backing store does, the command ends in
  CHECK CONDITION or RESERVATION CONFLICT.
\<close>

theorem unmap_never_succeeds:
  assumes "sbc_unmap submit s = Some (r, s')"
  shows "r = SAM_STAT_CHECK_CONDITION \<or> r = SAM_STAT_RESERVATION_CONFLICT"
  using assms
  by (auto simp: sbc_unmap_def sense_reset_def Let_def split: if_splits bind_splits)

text \<open>A thin provisioned unit that is online.\<close>

definition ex_thin_hst :: hst where
  "ex_thin_hst = blank_hst\<lparr>hs_lu := (blank_lu 0)\<lparr>attrs := blank_attrs\<lparr>thinprovisioning := 1, online := 1\<rparr>\<rparr>\<rparr>"

theorem unmap_never_succeeds_witness:
  "\<exists>r s'. sbc_unmap bs_null_cmd_submit ex_thin_hst = Some (r, s') \<and>
     (r = SAM_STAT_CHECK_CONDITION \<or> r = SAM_STAT_RESERVATION_CONFLICT)"
proof -
  obtain r s' where "sbc_unmap bs_null_cmd_submit ex_thin_hst = Some (r, s')"
    by (simp add: sbc_unmap_def ex_thin_hst_def hs_reserved_def bs_null_cmd_submit_def medium_absent_def
        write_protected_def sense_reset_def blank_defs Let_def)
  with unmap_never_succeeds [OF this] show ?thesis
    by blast
qed

section \<open>Capacity\<close>

lemma write_at_0: "length bs \<le> length buf \<Longrightarrow> write_at buf 0 bs = Some (bs @ drop (length bs) buf)"
  by (simp add: write_at_def)

lemma lu_blocks_last:
  assumes "lu_blocks lu \<noteq> 0"
  shows "lba_out_of_range lu lba 1 \<longleftrightarrow> lba > lu_blocks lu - 1"
proof -
  have n: "unat (lu_blocks lu) \<noteq> 0"
    using assms by (simp add: unat_eq_0)
  then have "unat (lu_blocks lu - 1) = unat (lu_blocks lu) - 1"
    by (simp add: unat_sub word_le_nat_alt)
  then show ?thesis
    using n lba_in_range_iff [of lu lba 1] by (auto simp: word_less_nat_alt)
qed


end
