(* ===== verification/Cmd_Queue.thy ===== *)
theory Cmd_Queue
  imports Scsi_Perform
begin

text \<open>
  Command queueing, completion and task management of a target (\<open>usr/target.c\<close>).
  The state is the target, the commands and management requests by handle (their
  addresses), and the notifications passed to the driver, oldest first. The
  driver's \<open>cmd_end_notify\<close> and \<open>mgmt_end_notify\<close> only record the event. \<open>None\<close> is
  a dereference of a missing object, or a handler's own \<open>None\<close>.
\<close>

unbundle bit_operations_syntax

section \<open>State\<close>

record mgmt_req =
  mid :: u64
  busy :: int
  mfunction :: int
  mresult :: int

datatype notify = Cmd_end nat int | Mgmt_end nat int

record world =
  w_tgt :: target
  w_cmds :: "nat \<Rightarrow> scsi_cmd option"
  w_mreqs :: "nat \<Rightarrow> mgmt_req option"
  w_log :: "notify list"

abbreviation (input) "ABORT_TASK \<equiv> 0x0d :: int"
abbreviation (input) "ABORT_TASK_SET \<equiv> 0x06 :: int"
abbreviation (input) "CLEAR_ACA \<equiv> 0x16 :: int"
abbreviation (input) "CLEAR_TASK_SET \<equiv> 0x0e :: int"
abbreviation (input) "LOGICAL_UNIT_RESET \<equiv> 0x17 :: int"
abbreviation (input) "TASK_ABORTED \<equiv> 0x20 :: int"

definition put_cmd :: "nat \<Rightarrow> scsi_cmd \<Rightarrow> world \<Rightarrow> world" where
  "put_cmd h c w = w\<lparr>w_cmds := (w_cmds w)(h \<mapsto> c)\<rparr>"

definition upd_wlu :: "u64 \<Rightarrow> (scsi_lu \<Rightarrow> scsi_lu) \<Rightarrow> world \<Rightarrow> world" where
  "upd_wlu l f w = w\<lparr>w_tgt := upd_device l f (w_tgt w)\<rparr>"

definition upd_queue :: "u64 \<Rightarrow> (tgt_cmd_queue \<Rightarrow> tgt_cmd_queue) \<Rightarrow> world \<Rightarrow> world" where
  "upd_queue l f w = upd_wlu l (\<lambda>lu. lu\<lparr>cmd_queue := f (cmd_queue lu)\<rparr>) w"

definition lu_queue :: "u64 \<Rightarrow> world \<Rightarrow> tgt_cmd_queue option" where
  "lu_queue l w = map_option cmd_queue (device_lookup (w_tgt w) l)"

definition notify_driver :: "notify \<Rightarrow> world \<Rightarrow> world" where
  "notify_driver n w = w\<lparr>w_log := w_log w @ [n]\<rparr>"

section \<open>Task attributes\<close>

text \<open>An unknown attribute is treated as, and rewritten to, ORDERED.\<close>

definition norm_attr :: "scsi_cmd \<Rightarrow> scsi_cmd" where
  "norm_attr cmd =
     (if attribute cmd \<in> {MSG_SIMPLE_TAG, MSG_ORDERED_TAG, MSG_HEAD_TAG} then cmd
      else cmd\<lparr>attribute := MSG_ORDERED_TAG\<rparr>)"

definition cmd_enabled :: "tgt_cmd_queue \<Rightarrow> scsi_cmd \<Rightarrow> bool \<times> scsi_cmd" where
  "cmd_enabled q cmd =
     (let cmd' = norm_attr cmd; a = attribute cmd' in
      (if a = MSG_SIMPLE_TAG then \<not> queue_bit TGT_QUEUE_BLOCKED q
       else if a = MSG_HEAD_TAG then True
       else \<not> queue_bit TGT_QUEUE_BLOCKED q \<and> \<not> queue_active q, cmd'))"

definition blocking :: "scsi_cmd \<Rightarrow> bool" where
  "blocking cmd \<longleftrightarrow> attribute cmd = MSG_ORDERED_TAG \<or> attribute cmd = MSG_HEAD_TAG"

definition cmd_post_perform :: "scsi_cmd \<Rightarrow> tgt_cmd_queue \<Rightarrow> tgt_cmd_queue" where
  "cmd_post_perform cmd q =
     (let q1 = q\<lparr>active_cmd := active_cmd q + 1\<rparr> in
      if blocking cmd then set_queue_bit TGT_QUEUE_BLOCKED q1 else q1)"

section \<open>Performing a command\<close>

definition world_hst :: "scsi_cmd \<Rightarrow> scsi_lu \<Rightarrow> world \<Rightarrow> hst" where
  "world_hst cmd lu w =
     \<lparr>hs_cmd = cmd, hs_lu = lu, hs_itns = it_nexus_list (w_tgt w),
      hs_luns = map lun (device_list (w_tgt w)), hs_tid = tid (w_tgt w)\<rparr>"

definition hst_world :: "nat \<Rightarrow> hst \<Rightarrow> world \<Rightarrow> world" where
  "hst_world h s w =
     put_cmd h (hs_cmd s)
       (w\<lparr>w_tgt := (upd_device (lun (hs_lu s)) (\<lambda>_. hs_lu s) (w_tgt w))\<lparr>it_nexus_list := hs_itns s\<rparr>\<rparr>)"

type_synonym perform = "hst \<Rightarrow> (int \<times> hst) option"

definition world_perform :: "perform \<Rightarrow> nat \<Rightarrow> world \<Rightarrow> (int \<times> world) option" where
  "world_perform perf h w =
     do { cmd \<leftarrow> w_cmds w h;
          lu \<leftarrow> device_lookup (w_tgt w) (c_dev cmd);
          (result, s) \<leftarrow> perf (world_hst cmd lu w);
          Some (result, hst_world h s w) }"

definition done_stat :: "scsi_cmd \<Rightarrow> int \<Rightarrow> lu_stat \<Rightarrow> lu_stat" where
  "done_stat cmd result st =
     (let st1 = (case data_dir cmd of
            DATA_WRITE \<Rightarrow> st\<lparr>wr_done_bytes := wr_done_bytes st + ucast (scsi_get_out_length cmd),
                             wr_done_cmds := wr_done_cmds st + 1\<rparr>
          | DATA_READ \<Rightarrow> st\<lparr>rd_done_bytes := rd_done_bytes st + ucast (scsi_get_in_length cmd),
                            rd_done_cmds := rd_done_cmds st + 1\<rparr>
          | DATA_BIDIRECTIONAL \<Rightarrow>
              st\<lparr>wr_done_bytes := wr_done_bytes st + ucast (scsi_get_out_length cmd),
                 rd_done_bytes := rd_done_bytes st + ucast (scsi_get_in_length cmd),
                 bidir_done_cmds := bidir_done_cmds st + 1\<rparr>
          | DATA_NONE \<Rightarrow> st)
      in if result \<noteq> SAM_STAT_GOOD then st1\<lparr>err_num := err_num st1 + 1\<rparr> else st1)"

definition target_cmd_io_done :: "nat \<Rightarrow> int \<Rightarrow> world \<Rightarrow> world option" where
  "target_cmd_io_done h result w =
     do { cmd \<leftarrow> w_cmds w h;
          (let w1 = put_cmd h (cmd\<lparr>c_result := result\<rparr>) w;
               tg = w_tgt w1;
               w2 = w1\<lparr>w_tgt := tg\<lparr>it_nexus_list := itl_update (cmd_itn_id cmd) (c_dev cmd)
                      (\<lambda>i. i\<lparr>itl_stat := done_stat cmd result (itl_stat i)\<rparr>) (it_nexus_list tg)\<rparr>\<rparr>
           in Some (notify_driver (Cmd_end h result) w2)) }"

text \<open>What \<open>target_cmd_perform\<close> and \<open>post_cmd_done\<close> do with an enabled command.\<close>

definition start_cmd :: "perform \<Rightarrow> nat \<Rightarrow> world \<Rightarrow> world option" where
  "start_cmd perf h w =
     do { (result, w1) \<leftarrow> world_perform perf h w;
          cmd \<leftarrow> w_cmds w1 h;
          (let w2 = put_cmd h (set_cmd_bit TGT_CMD_PROCESSED cmd)
                      (upd_queue (c_dev cmd) (cmd_post_perform cmd) w1)
           in if \<not> cmd_bit TGT_CMD_ASYNC cmd then target_cmd_io_done h result w2 else Some w2) }"

definition cmd_hlist_insert :: "nat \<Rightarrow> u64 \<Rightarrow> target \<Rightarrow> target" where
  "cmd_hlist_insert h nid tg =
     tg\<lparr>it_nexus_list := lupdate itn_id nid (\<lambda>itn. itn\<lparr>itn_cmd_list := h # itn_cmd_list itn\<rparr>) (it_nexus_list tg)\<rparr>"

definition cmd_hlist_remove :: "nat \<Rightarrow> u64 \<Rightarrow> target \<Rightarrow> target" where
  "cmd_hlist_remove h nid tg =
     tg\<lparr>it_nexus_list := lupdate itn_id nid (\<lambda>itn. itn\<lparr>itn_cmd_list := remove1 h (itn_cmd_list itn)\<rparr>) (it_nexus_list tg)\<rparr>"

definition target_cmd_perform :: "perform \<Rightarrow> nat \<Rightarrow> world \<Rightarrow> world option" where
  "target_cmd_perform perf h w =
     do { cmd \<leftarrow> w_cmds w h;
          q \<leftarrow> lu_queue (c_dev cmd) w;
          (let (enabled, cmd1) = cmd_enabled q cmd;
               w1 = put_cmd h cmd1 (w\<lparr>w_tgt := cmd_hlist_insert h (cmd_itn_id cmd) (w_tgt w)\<rparr>)
           in if enabled then start_cmd perf h w1
              else Some (upd_queue (c_dev cmd) (\<lambda>q. q\<lparr>queue := queue q @ [h]\<rparr>)
                     (put_cmd h (set_cmd_bit TGT_CMD_QUEUED cmd1) w1))) }"

text \<open>
  The command of a new request: the unit it addresses, or the first unit of the
  target. The result is the return code of \<open>target_cmd_queue\<close>.
\<close>

definition init_sdb :: "scsi_data_buffer \<Rightarrow> scsi_data_buffer" where
  "init_sdb b = b\<lparr>sdb_resid := 0, sdb_transfer_len := sdb_length b\<rparr>"

definition target_cmd_queue ::
  "(bytes \<Rightarrow> u64) option \<Rightarrow> perform \<Rightarrow> nat \<Rightarrow> world \<Rightarrow> (int \<times> world) option" where
  "target_cmd_queue get_lun perf h w =
     do { cmd \<leftarrow> w_cmds w h;
          (case lfind itn_id (cmd_itn_id cmd) (it_nexus_list (w_tgt w)) of
             None \<Rightarrow> Some (- ENOENT, w)
           | Some itn \<Rightarrow>
               let d = scsi_get_devid get_lun (c_lun cmd) in
               do { dev \<leftarrow> (case device_lookup (w_tgt w) d of
                              Some lu \<Rightarrow> Some (lun lu)
                            | None \<Rightarrow> (case device_list (w_tgt w) of [] \<Rightarrow> None | lu # _ \<Rightarrow> Some (lun lu)));
                    (let cmd1 = cmd\<lparr>c_target := Some (tid (w_tgt w)), c_itn_ctime := itn_ctime itn,
                                    dev_id := d, c_dev := dev\<rparr>
                     in if target_state (w_tgt w) \<noteq> SCSI_TARGET_READY then Some (- EBUSY, put_cmd h cmd1 w)
                        else do { w' \<leftarrow> target_cmd_perform perf h
                                    (put_cmd h (cmd1\<lparr>in_sdb := init_sdb (in_sdb cmd1), out_sdb := init_sdb (out_sdb cmd1)\<rparr>) w);
                                  Some (0, w') }) }) }"

section \<open>Completion\<close>

text \<open>
  The loop over the queue of unit \<open>l\<close>; \<open>hs\<close> are the entries the iteration has
  not visited yet.
\<close>

fun post_cmd_loop :: "perform \<Rightarrow> u64 \<Rightarrow> nat list \<Rightarrow> world \<Rightarrow> world option" where
  "post_cmd_loop perf l [] w = Some w"
| "post_cmd_loop perf l (h # hs) w =
     do { q \<leftarrow> lu_queue l w;
          cmd \<leftarrow> w_cmds w h;
          (let (enabled, cmd1) = cmd_enabled q cmd; w1 = put_cmd h cmd1 w in
           if \<not> enabled then Some w1
           else do { itn \<leftarrow> lfind itn_id (cmd_itn_id cmd) (it_nexus_list (w_tgt w));
                     w2 \<leftarrow> start_cmd perf h (upd_queue l (\<lambda>q. q\<lparr>queue := remove1 h (queue q)\<rparr>) w1);
                     post_cmd_loop perf l hs w2 }) }"

definition post_cmd_done :: "perform \<Rightarrow> u64 \<Rightarrow> world \<Rightarrow> world option" where
  "post_cmd_done perf l w = do { q \<leftarrow> lu_queue l w; post_cmd_loop perf l (queue q) w }"

text \<open>\<open>__cmd_done\<close>.\<close>

definition done_queue :: "scsi_cmd \<Rightarrow> tgt_cmd_queue \<Rightarrow> tgt_cmd_queue" where
  "done_queue cmd q =
     (let q1 = q\<lparr>active_cmd := active_cmd q - 1\<rparr> in
      if blocking cmd then clear_queue_bit TGT_QUEUE_BLOCKED q1 else q1)"

definition cmd_done :: "perform \<Rightarrow> nat \<Rightarrow> world \<Rightarrow> world option" where
  "cmd_done perf h w =
     do { cmd \<leftarrow> w_cmds w h;
          (let w1 = w\<lparr>w_tgt := cmd_hlist_remove h (cmd_itn_id cmd) (w_tgt w)\<rparr>
           in post_cmd_done perf (c_dev cmd) (upd_queue (c_dev cmd) (done_queue cmd) w1)) }"

text \<open>The management request that waits for the command is answered with the last of them.\<close>

definition mreq_done :: "nat \<Rightarrow> world \<Rightarrow> world option" where
  "mreq_done m w =
     do { r \<leftarrow> w_mreqs w m;
          (let r1 = r\<lparr>busy := busy r - 1\<rparr> in
           if busy r1 \<noteq> 0 then Some (w\<lparr>w_mreqs := (w_mreqs w)(m \<mapsto> r1)\<rparr>)
           else Some (notify_driver (Mgmt_end m (if mfunction r = ABORT_TASK then - EEXIST else 0))
                        (w\<lparr>w_mreqs := (w_mreqs w)(m := None)\<rparr>))) }"

definition target_cmd_done :: "perform \<Rightarrow> nat \<Rightarrow> world \<Rightarrow> world option" where
  "target_cmd_done perf h w =
     do { cmd \<leftarrow> w_cmds w h;
          w1 \<leftarrow> (case c_mreq cmd of None \<Rightarrow> Some w | Some m \<Rightarrow> mreq_done m w);
          cmd_done perf h w1 }"

section \<open>Task management\<close>

text \<open>The result says whether the command is still being processed.\<close>

definition abort_cmd :: "perform \<Rightarrow> nat \<Rightarrow> nat \<Rightarrow> world \<Rightarrow> (bool \<times> world) option" where
  "abort_cmd perf m h w =
     do { cmd \<leftarrow> w_cmds w h;
          (if cmd_bit TGT_CMD_PROCESSED cmd then Some (True, put_cmd h (cmd\<lparr>c_mreq := Some m\<rparr>) w)
           else do { w1 \<leftarrow> cmd_done perf h w;
                     w2 \<leftarrow> target_cmd_io_done h TASK_ABORTED w1;
                     Some (False, w2) }) }"

definition abort_matches :: "u64 \<Rightarrow> u64 \<Rightarrow> bytes option \<Rightarrow> bool \<Rightarrow> u64 \<Rightarrow> scsi_cmd \<Rightarrow> bool" where
  "abort_matches nid tg lunb all iid cmd \<longleftrightarrow>
     all \<and> iid = nid \<or> c_tag cmd = tg \<and> iid = nid \<or> lunb = Some (c_lun cmd)"

text \<open>
  The nested loops visit the commands of every nexus in list order; the list of
  pairs is the iteration's view when it starts.
\<close>

fun abort_loop ::
  "perform \<Rightarrow> nat \<Rightarrow> u64 \<Rightarrow> u64 \<Rightarrow> bytes option \<Rightarrow> bool \<Rightarrow> (u64 \<times> nat) list \<Rightarrow> int \<Rightarrow> world \<Rightarrow> (int \<times> world) option" where
  "abort_loop perf m nid tg lunb all [] count w = Some (count, w)"
| "abort_loop perf m nid tg lunb all ((iid, h) # hs) count w =
     do { cmd \<leftarrow> w_cmds w h;
          (if abort_matches nid tg lunb all iid cmd then
             do { (err, w1) \<leftarrow> abort_cmd perf m h w;
                  (let w2 = (if err then w1\<lparr>w_mreqs := (w_mreqs w1)(m := map_option (\<lambda>r. r\<lparr>busy := busy r + 1\<rparr>) (w_mreqs w1 m))\<rparr>
                             else w1)
                   in abort_loop perf m nid tg lunb all hs (count + 1) w2) }
           else abort_loop perf m nid tg lunb all hs count w) }"

definition abort_task_set ::
  "perform \<Rightarrow> nat \<Rightarrow> u64 \<Rightarrow> u64 \<Rightarrow> bytes option \<Rightarrow> bool \<Rightarrow> world \<Rightarrow> (int \<times> world) option" where
  "abort_task_set perf m nid tg lunb all w =
     abort_loop perf m nid tg lunb all
       (concat (map (\<lambda>itn. map (\<lambda>h. (itn_id itn, h)) (itn_cmd_list itn)) (it_nexus_list (w_tgt w)))) 0 w"

datatype mgmt_req_result = MGMT_REQ_FAILED | MGMT_REQ_DONE | MGMT_REQ_QUEUED

text \<open>The unit attention every nexus gets for unit \<open>l\<close>; \<open>f\<close> is what else happens to the entry.\<close>

definition ua_all_nexus ::
  "u64 \<Rightarrow> (it_nexus \<Rightarrow> u16) \<Rightarrow> (it_nexus_lu_info \<Rightarrow> it_nexus_lu_info) \<Rightarrow> target \<Rightarrow> target" where
  "ua_all_nexus l asc f tg =
     tg\<lparr>it_nexus_list := map (\<lambda>itn. itn\<lparr>itn_itl_info_list :=
          upd_first (\<lambda>i. itl_lu i = l) (\<lambda>i. ua_sense_add_info (device_list tg) (asc itn) (f i))
            (itn_itl_info_list itn)\<rparr>) (it_nexus_list tg)\<rparr>"

text \<open>\<open>m\<close> is the address of the new request.\<close>

definition target_mgmt_request ::
  "(bytes \<Rightarrow> u64) option \<Rightarrow> perform \<Rightarrow> nat \<Rightarrow> u64 \<Rightarrow> u64 \<Rightarrow> int \<Rightarrow> bytes \<Rightarrow> u64 \<Rightarrow> world \<Rightarrow> (mgmt_req_result \<times> world) option" where
  "target_mgmt_request get_lun perf m nid req_id fn lun_buf tg w0 =
     (let w = w0\<lparr>w_mreqs := (w_mreqs w0)(m \<mapsto> \<lparr>mid = req_id, busy = 0, mfunction = fn, mresult = 0\<rparr>)\<rparr>;
          l = scsi_get_devid get_lun lun_buf
      in do { (err, w1) \<leftarrow>
                (if fn = ABORT_TASK then
                   do { (count, w1) \<leftarrow> abort_task_set perf m nid tg None False w;
                        Some (if count = 0 then - EEXIST else 0, w1) }
                 else if fn = ABORT_TASK_SET then
                   do { (_, w1) \<leftarrow> abort_task_set perf m nid 0 None True w; Some (0, w1) }
                 else if fn = CLEAR_ACA then Some (- EINVAL, w)
                 else if fn = CLEAR_TASK_SET then
                   do { (_, w1) \<leftarrow> abort_task_set perf m nid 0 (Some lun_buf) False w;
                        Some (0, w1\<lparr>w_tgt := ua_all_nexus l
                          (\<lambda>itn. if itn_id itn = nid then ASC_POWERON_RESET else ASC_CMDS_CLEARED_BY_ANOTHER_INI)
                          (\<lambda>i. i) (w_tgt w1)\<rparr>) }
                 else if fn = LOGICAL_UNIT_RESET then
                   do { (_, w1) \<leftarrow> abort_task_set perf m nid 0 (Some lun_buf) False
                                     (w\<lparr>w_tgt := snd (device_release nid l True (w_tgt w))\<rparr>);
                        Some (0, w1\<lparr>w_tgt := ua_all_nexus l (\<lambda>_. ASC_POWERON_RESET)
                          (\<lambda>i. i\<lparr>itl_prevent := 0\<rparr>) (w_tgt w1)\<rparr>) }
                 else Some (- EINVAL, w));
              r \<leftarrow> w_mreqs w1 m;
              (let send = (busy r = 0 \<or> fn \<notin> {ABORT_TASK, ABORT_TASK_SET, CLEAR_TASK_SET, LOGICAL_UNIT_RESET});
                   w2 = (if send then notify_driver (Mgmt_end m err) (w1\<lparr>w_mreqs := (w_mreqs w1)(m := None)\<rparr>) else w1)
               in Some (if err \<noteq> 0 then MGMT_REQ_FAILED else if send then MGMT_REQ_DONE else MGMT_REQ_QUEUED, w2)) })"

end
