(* ===== verification/Iscsi_Param.thy ===== *)
theory Iscsi_Param
  imports Spc
begin

text \<open>
  The iSCSI login parameters (\<open>usr/iscsi/param.c\<close>, \<open>usr/iscsi/param.h\<close>): the table of
  keys with their defaults and ranges, conversion of values from and to text, and
  the negotiation functions. A text is a \<open>string\<close> without a zero character; a
  function that returns \<open>-EINVAL\<close> instead of a value returns \<open>None\<close>.
\<close>

unbundle bit_operations_syntax

section \<open>Parameters and keys\<close>

datatype key_state = KEY_STATE_START | KEY_STATE_REQUEST | KEY_STATE_DONE

record param =
  p_state :: key_state
  p_val :: u32

text \<open>
  The function table of a key. A missing function is \<open>None\<close>; \<open>check_val\<close> gets the
  minimum and the maximum of its key and returns whether it failed and the value.
\<close>

record iscsi_key_ops =
  op_val_to_str :: "u32 \<Rightarrow> string option"
  op_str_to_val :: "(string \<Rightarrow> u32 option) option"
  op_check_val :: "(u32 \<Rightarrow> u32 \<Rightarrow> u32 \<Rightarrow> bool \<times> u32) option"
  op_set_val :: "param list \<Rightarrow> nat \<Rightarrow> u32 \<Rightarrow> param list \<times> u32"

record iscsi_key =
  k_name :: string
  k_def :: u32
  k_min :: u32
  k_max :: u32
  k_ops :: iscsi_key_ops

abbreviation (input) "DIGEST_NONE \<equiv> 1 :: u32"
abbreviation (input) "DIGEST_CRC32C \<equiv> 2 :: u32"
abbreviation (input) "DIGEST_ALL \<equiv> 3 :: u32"

definition ISCSI_PARAM_MAX_RECV_DLENGTH :: nat where "ISCSI_PARAM_MAX_RECV_DLENGTH = 0"
definition ISCSI_PARAM_HDRDGST_EN :: nat where "ISCSI_PARAM_HDRDGST_EN = 1"
definition ISCSI_PARAM_DATADGST_EN :: nat where "ISCSI_PARAM_DATADGST_EN = 2"
definition ISCSI_PARAM_INITIAL_R2T_EN :: nat where "ISCSI_PARAM_INITIAL_R2T_EN = 3"
definition ISCSI_PARAM_MAX_R2T :: nat where "ISCSI_PARAM_MAX_R2T = 4"
definition ISCSI_PARAM_IMM_DATA_EN :: nat where "ISCSI_PARAM_IMM_DATA_EN = 5"
definition ISCSI_PARAM_FIRST_BURST :: nat where "ISCSI_PARAM_FIRST_BURST = 6"
definition ISCSI_PARAM_MAX_BURST :: nat where "ISCSI_PARAM_MAX_BURST = 7"
definition ISCSI_PARAM_IFMARKER_EN :: nat where "ISCSI_PARAM_IFMARKER_EN = 11"
definition ISCSI_PARAM_OFMARKER_EN :: nat where "ISCSI_PARAM_OFMARKER_EN = 12"
definition ISCSI_PARAM_RDMA_EXTENSIONS :: nat where "ISCSI_PARAM_RDMA_EXTENSIONS = 18"
definition ISCSI_PARAM_FIRST_LOCAL :: nat where "ISCSI_PARAM_FIRST_LOCAL = 22"
definition ISCSI_PARAM_MAX_XMIT_DLENGTH :: nat where "ISCSI_PARAM_MAX_XMIT_DLENGTH = 22"
definition ISCSI_PARAM_MAX_QUEUE_CMD :: nat where "ISCSI_PARAM_MAX_QUEUE_CMD = 23"
definition ISCSI_PARAM_MAX :: nat where "ISCSI_PARAM_MAX = 24"

lemmas iscsi_param_defs =
  ISCSI_PARAM_MAX_RECV_DLENGTH_def ISCSI_PARAM_HDRDGST_EN_def ISCSI_PARAM_DATADGST_EN_def
  ISCSI_PARAM_INITIAL_R2T_EN_def ISCSI_PARAM_MAX_R2T_def ISCSI_PARAM_IMM_DATA_EN_def
  ISCSI_PARAM_FIRST_BURST_def ISCSI_PARAM_MAX_BURST_def ISCSI_PARAM_IFMARKER_EN_def
  ISCSI_PARAM_OFMARKER_EN_def ISCSI_PARAM_RDMA_EXTENSIONS_def ISCSI_PARAM_FIRST_LOCAL_def
  ISCSI_PARAM_MAX_XMIT_DLENGTH_def ISCSI_PARAM_MAX_QUEUE_CMD_def ISCSI_PARAM_MAX_def

definition set_p_val :: "nat \<Rightarrow> u32 \<Rightarrow> param list \<Rightarrow> param list" where
  "set_p_val i v ps = ps[i := (ps ! i)\<lparr>p_val := v\<rparr>]"

definition set_p_state :: "nat \<Rightarrow> key_state \<Rightarrow> param list \<Rightarrow> param list" where
  "set_p_state i st ps = ps[i := (ps ! i)\<lparr>p_state := st\<rparr>]"

section \<open>Look-up\<close>

definition to_lower :: "char \<Rightarrow> char" where
  "to_lower c = (let n = of_char c :: nat in if 65 \<le> n \<and> n \<le> 90 then char_of (n + 32) else c)"

definition strcaseeq :: "string \<Rightarrow> string \<Rightarrow> bool" where
  "strcaseeq a b \<longleftrightarrow> map to_lower a = map to_lower b"

fun param_index_from :: "nat \<Rightarrow> string \<Rightarrow> iscsi_key list \<Rightarrow> nat option" where
  "param_index_from i name [] = None"
| "param_index_from i name (k # ks) =
     (if strcaseeq (k_name k) name then Some i else param_index_from (i + 1) name ks)"

definition param_index_by_name :: "string \<Rightarrow> iscsi_key list \<Rightarrow> nat option" where
  "param_index_by_name name keys = param_index_from 0 name keys"

definition param_set_defaults :: "iscsi_key list \<Rightarrow> param list \<Rightarrow> param list" where
  "param_set_defaults keys ps = map2 (\<lambda>k p. p\<lparr>p_val := k_def k\<rparr>) keys ps @ drop (length keys) ps"

section \<open>Values as text\<close>

text \<open>\<open>%u\<close> of \<open>printf\<close>.\<close>

function (sequential) dec_str :: "nat \<Rightarrow> string" where
  "dec_str n = (if n < 10 then [char_of (48 + n)] else dec_str (n div 10) @ [char_of (48 + n mod 10)])"
  by pat_completeness auto
termination by (relation "measure (\<lambda>n. n)") auto

declare dec_str.simps [simp del]

definition range_val_to_str :: "u32 \<Rightarrow> string option" where
  "range_val_to_str v = Some (dec_str (unat v))"

definition range_str_to_val :: "string \<Rightarrow> u32 option" where
  "range_str_to_val str = Some (of_int (strtol True str))"

definition bool_val_to_str :: "u32 \<Rightarrow> string option" where
  "bool_val_to_str v = (if v = 0 then Some ''No'' else if v = 1 then Some ''Yes'' else None)"

definition bool_str_to_val :: "string \<Rightarrow> u32 option" where
  "bool_str_to_val str = (if str = ''Yes'' then Some 1 else if str = ''No'' then Some 0 else None)"

definition digest_val_to_str :: "u32 \<Rightarrow> string option" where
  "digest_val_to_str v =
     (if v AND DIGEST_CRC32C \<noteq> 0 then Some ''CRC32C'' else if v AND DIGEST_NONE \<noteq> 0 then Some ''None'' else None)"

text \<open>The loop over the comma-separated list; only the start of each item is compared.\<close>

function digest_loop :: "string \<Rightarrow> u32 \<Rightarrow> u32 option" where
  "digest_loop p v =
     (let w = (if take 4 p = ''None'' then Some (v OR DIGEST_NONE)
               else if take 6 p = ''CRC32C'' then Some (v OR DIGEST_CRC32C) else None);
          q = dropWhile (\<lambda>c. c \<noteq> CHR '','') p
      in case w of None \<Rightarrow> None | Some v' \<Rightarrow> if q = [] then Some v' else digest_loop (drop 1 q) v')"
  by pat_completeness auto
termination
proof (relation "measure (length \<circ> fst)")
  fix p :: string and v :: u32 and w q v'
  assume "q = dropWhile (\<lambda>c. c \<noteq> CHR '','') p" "q \<noteq> []"
  moreover have "length (dropWhile (\<lambda>c. c \<noteq> CHR '','') p) \<le> length p"
    by (rule length_dropWhile_le)
  moreover have "length (drop 1 q) < length q"
    using \<open>q \<noteq> []\<close> by simp
  ultimately have "length (drop 1 q) < length p"
    by (metis less_le_trans)
  then show "((drop 1 q, v'), (p, v)) \<in> measure (length \<circ> fst)"
    by simp
qed simp

declare digest_loop.simps [simp del]

definition digest_str_to_val :: "string \<Rightarrow> u32 option" where
  "digest_str_to_val str = digest_loop str DIGEST_NONE"

definition marker_val_to_str :: "u32 \<Rightarrow> string option" where
  "marker_val_to_str v = Some (if v = 0 then ''Irrelevant'' else ''Reject'')"

section \<open>Range checks\<close>

definition minimum_check_val :: "u32 \<Rightarrow> u32 \<Rightarrow> u32 \<Rightarrow> bool \<times> u32" where
  "minimum_check_val kmin kmax v = (if v < kmin \<or> kmax < v then (True, kmin) else (False, v))"

definition min_or_zero_check_val :: "u32 \<Rightarrow> u32 \<Rightarrow> u32 \<Rightarrow> bool \<times> u32" where
  "min_or_zero_check_val kmin kmax v =
     (if v \<noteq> 0 \<and> (v < kmin \<or> kmax < v) then (True, kmin) else (False, v))"

definition maximum_check_val :: "u32 \<Rightarrow> u32 \<Rightarrow> u32 \<Rightarrow> bool \<times> u32" where
  "maximum_check_val kmin kmax v = (if v < kmin \<or> kmax < v then (True, kmax) else (False, v))"

section \<open>Negotiation\<close>

definition or_set_val :: "param list \<Rightarrow> nat \<Rightarrow> u32 \<Rightarrow> param list \<times> u32" where
  "or_set_val ps i v = (let w = v OR p_val (ps ! i) in (set_p_val i w ps, w))"

definition and_set_val :: "param list \<Rightarrow> nat \<Rightarrow> u32 \<Rightarrow> param list \<times> u32" where
  "and_set_val ps i v = (let w = v AND p_val (ps ! i) in (set_p_val i w ps, w))"

definition minimum_set_val :: "param list \<Rightarrow> nat \<Rightarrow> u32 \<Rightarrow> param list \<times> u32" where
  "minimum_set_val ps i v = (if p_val (ps ! i) < v then (ps, p_val (ps ! i)) else (set_p_val i v ps, v))"

definition min_or_zero_set_val :: "param list \<Rightarrow> nat \<Rightarrow> u32 \<Rightarrow> param list \<times> u32" where
  "min_or_zero_set_val ps i v =
     (if p_val (ps ! i) < v \<or> v = 0 then (ps, p_val (ps ! i)) else (set_p_val i v ps, v))"

definition maximum_set_val :: "param list \<Rightarrow> nat \<Rightarrow> u32 \<Rightarrow> param list \<times> u32" where
  "maximum_set_val ps i v = (if v < p_val (ps ! i) then (ps, p_val (ps ! i)) else (set_p_val i v ps, v))"

definition digest_set_val :: "param list \<Rightarrow> nat \<Rightarrow> u32 \<Rightarrow> param list \<times> u32" where
  "digest_set_val ps i v =
     (let w = (if v AND DIGEST_CRC32C \<noteq> 0 \<and> p_val (ps ! i) AND DIGEST_CRC32C \<noteq> 0 then DIGEST_CRC32C else DIGEST_NONE)
      in (set_p_val i w ps, w))"

definition marker_set_val :: "param list \<Rightarrow> nat \<Rightarrow> u32 \<Rightarrow> param list \<times> u32" where
  "marker_set_val ps i v =
     (let w = (if i = ISCSI_PARAM_OFMARKER_EN \<and> p_state (ps ! ISCSI_PARAM_OFMARKER_EN) = KEY_STATE_DONE \<or>
                  i = ISCSI_PARAM_IFMARKER_EN \<and> p_state (ps ! ISCSI_PARAM_IFMARKER_EN) = KEY_STATE_DONE
               then 0 else 1)
      in (set_p_val i w ps, w))"

section \<open>The key table\<close>

definition minimum_ops :: iscsi_key_ops where
  "minimum_ops = \<lparr>op_val_to_str = range_val_to_str, op_str_to_val = Some range_str_to_val,
     op_check_val = Some minimum_check_val, op_set_val = minimum_set_val\<rparr>"

definition min_or_zero_ops :: iscsi_key_ops where
  "min_or_zero_ops = \<lparr>op_val_to_str = range_val_to_str, op_str_to_val = Some range_str_to_val,
     op_check_val = Some min_or_zero_check_val, op_set_val = min_or_zero_set_val\<rparr>"

definition maximum_ops :: iscsi_key_ops where
  "maximum_ops = \<lparr>op_val_to_str = range_val_to_str, op_str_to_val = Some range_str_to_val,
     op_check_val = Some maximum_check_val, op_set_val = maximum_set_val\<rparr>"

definition or_ops :: iscsi_key_ops where
  "or_ops = \<lparr>op_val_to_str = bool_val_to_str, op_str_to_val = Some bool_str_to_val,
     op_check_val = None, op_set_val = or_set_val\<rparr>"

definition and_ops :: iscsi_key_ops where
  "and_ops = \<lparr>op_val_to_str = bool_val_to_str, op_str_to_val = Some bool_str_to_val,
     op_check_val = None, op_set_val = and_set_val\<rparr>"

definition digest_ops :: iscsi_key_ops where
  "digest_ops = \<lparr>op_val_to_str = digest_val_to_str, op_str_to_val = Some digest_str_to_val,
     op_check_val = None, op_set_val = digest_set_val\<rparr>"

definition marker_ops :: iscsi_key_ops where
  "marker_ops = \<lparr>op_val_to_str = marker_val_to_str, op_str_to_val = None,
     op_check_val = None, op_set_val = marker_set_val\<rparr>"

definition session_keys :: "iscsi_key list" where
  "session_keys =
     [\<lparr>k_name = ''MaxRecvDataSegmentLength'', k_def = 8192, k_min = 512, k_max = 16777215, k_ops = minimum_ops\<rparr>,
      \<lparr>k_name = ''HeaderDigest'', k_def = DIGEST_NONE, k_min = DIGEST_NONE, k_max = DIGEST_ALL, k_ops = digest_ops\<rparr>,
      \<lparr>k_name = ''DataDigest'', k_def = DIGEST_NONE, k_min = DIGEST_NONE, k_max = DIGEST_ALL, k_ops = digest_ops\<rparr>,
      \<lparr>k_name = ''InitialR2T'', k_def = 1, k_min = 0, k_max = 1, k_ops = or_ops\<rparr>,
      \<lparr>k_name = ''MaxOutstandingR2T'', k_def = 1, k_min = 1, k_max = 65535, k_ops = minimum_ops\<rparr>,
      \<lparr>k_name = ''ImmediateData'', k_def = 1, k_min = 0, k_max = 1, k_ops = and_ops\<rparr>,
      \<lparr>k_name = ''FirstBurstLength'', k_def = 65536, k_min = 512, k_max = 16777215, k_ops = minimum_ops\<rparr>,
      \<lparr>k_name = ''MaxBurstLength'', k_def = 262144, k_min = 512, k_max = 16777215, k_ops = minimum_ops\<rparr>,
      \<lparr>k_name = ''DataPDUInOrder'', k_def = 1, k_min = 0, k_max = 1, k_ops = or_ops\<rparr>,
      \<lparr>k_name = ''DataSequenceInOrder'', k_def = 1, k_min = 0, k_max = 1, k_ops = or_ops\<rparr>,
      \<lparr>k_name = ''ErrorRecoveryLevel'', k_def = 0, k_min = 0, k_max = 2, k_ops = minimum_ops\<rparr>,
      \<lparr>k_name = ''IFMarker'', k_def = 0, k_min = 0, k_max = 1, k_ops = and_ops\<rparr>,
      \<lparr>k_name = ''OFMarker'', k_def = 0, k_min = 0, k_max = 1, k_ops = and_ops\<rparr>,
      \<lparr>k_name = ''DefaultTime2Wait'', k_def = 2, k_min = 0, k_max = 3600, k_ops = maximum_ops\<rparr>,
      \<lparr>k_name = ''DefaultTime2Retain'', k_def = 20, k_min = 0, k_max = 3600, k_ops = minimum_ops\<rparr>,
      \<lparr>k_name = ''OFMarkInt'', k_def = 2048, k_min = 1, k_max = 65535, k_ops = marker_ops\<rparr>,
      \<lparr>k_name = ''IFMarkInt'', k_def = 2048, k_min = 1, k_max = 65535, k_ops = marker_ops\<rparr>,
      \<lparr>k_name = ''MaxConnections'', k_def = 1, k_min = 1, k_max = 65535, k_ops = minimum_ops\<rparr>,
      \<lparr>k_name = ''RDMAExtensions'', k_def = 0, k_min = 0, k_max = 1, k_ops = and_ops\<rparr>,
      \<lparr>k_name = ''TargetRecvDataSegmentLength'', k_def = 8192, k_min = 512, k_max = 16777215, k_ops = minimum_ops\<rparr>,
      \<lparr>k_name = ''InitiatorRecvDataSegmentLength'', k_def = 8192, k_min = 512, k_max = 16777215, k_ops = minimum_ops\<rparr>,
      \<lparr>k_name = ''MaxOutstandingUnexpectedPDUs'', k_def = 0, k_min = 2, k_max = 4294967295, k_ops = min_or_zero_ops\<rparr>,
      \<lparr>k_name = ''MaxXmitDataSegmentLength'', k_def = 8192, k_min = 512, k_max = 16777215, k_ops = minimum_ops\<rparr>,
      \<lparr>k_name = ''MaxQueueCmd'', k_def = 128, k_min = 1, k_max = 512, k_ops = minimum_ops\<rparr>]"

definition param_val_to_str :: "iscsi_key list \<Rightarrow> nat \<Rightarrow> u32 \<Rightarrow> string option" where
  "param_val_to_str keys i v = op_val_to_str (k_ops (keys ! i)) v"

text \<open>A key without a conversion leaves the caller's value, here \<open>v0\<close>, as it is.\<close>

definition param_str_to_val :: "iscsi_key list \<Rightarrow> nat \<Rightarrow> string \<Rightarrow> u32 \<Rightarrow> u32 option" where
  "param_str_to_val keys i str v0 =
     (case op_str_to_val (k_ops (keys ! i)) of None \<Rightarrow> Some v0 | Some f \<Rightarrow> f str)"

definition param_check_val :: "iscsi_key list \<Rightarrow> nat \<Rightarrow> u32 \<Rightarrow> bool \<times> u32" where
  "param_check_val keys i v =
     (case op_check_val (k_ops (keys ! i)) of None \<Rightarrow> (False, v)
      | Some f \<Rightarrow> f (k_min (keys ! i)) (k_max (keys ! i)) v)"

definition param_set_val :: "iscsi_key list \<Rightarrow> param list \<Rightarrow> nat \<Rightarrow> u32 \<Rightarrow> param list \<times> u32" where
  "param_set_val keys ps i v = op_set_val (k_ops (keys ! i)) ps i v"

section \<open>Text round trips\<close>

lemma digit_val_char_of: "d < 10 \<Longrightarrow> digit_val (char_of (48 + d)) = d"
  by (simp add: digit_val_def Let_def)

lemma digit_val_signs: "digit_val (CHR ''-'') = 255" "digit_val (CHR ''+'') = 255" "digit_val (CHR ''0'') = 0"
  by (simp_all add: digit_val_def Let_def)

lemma digits_val_append:
  "\<forall>c\<in>set xs. digit_val c < base \<Longrightarrow>
     fst (digits_val base acc (xs @ ys)) = fst (digits_val base (fst (digits_val base acc xs)) ys)"
  by (induction xs arbitrary: acc) auto

lemma dec_str_digits: "\<forall>c\<in>set (dec_str n). digit_val c < 10 \<and> \<not> is_cspace c \<and> c \<noteq> CHR ''-'' \<and> c \<noteq> CHR ''+''"
proof (induction n rule: dec_str.induct)
  case (1 n)
  have c: "digit_val (char_of (48 + d)) < 10 \<and> \<not> is_cspace (char_of (48 + d)) \<and> (char_of (48 + d) :: char) \<noteq> CHR ''-'' \<and>
      (char_of (48 + d) :: char) \<noteq> CHR ''+''" if "d < 10" for d :: nat
    using that digit_val_char_of [OF that] digit_val_signs by (auto simp: is_cspace_def)
  show ?case
    using 1 c by (subst dec_str.simps) auto
qed

lemma digits_val_dec_str: "fst (digits_val 10 acc (dec_str n)) = acc * 10 ^ length (dec_str n) + n"
proof (induction n arbitrary: acc rule: dec_str.induct)
  case (1 n)
  show ?case
  proof (cases "n < 10")
    case True
    then show ?thesis
      by (simp add: dec_str.simps [of n] digit_val_char_of)
  next
    case False
    have "fst (digits_val 10 acc (dec_str (n div 10) @ [char_of (48 + n mod 10)])) =
        (acc * 10 ^ length (dec_str (n div 10)) + n div 10) * 10 + n mod 10"
      using dec_str_digits [of "n div 10"] 1 [OF False, of acc] digit_val_char_of [of "n mod 10"]
      by (subst digits_val_append) auto
    then show ?thesis
      using False by (simp add: dec_str.simps [of n] algebra_simps)
  qed
qed

lemma dec_str_hd: "0 < n \<Longrightarrow> \<exists>(d :: nat) cs. dec_str n = char_of (48 + d) # cs \<and> 0 < d \<and> d < 10"
proof (induction n rule: dec_str.induct)
  case (1 n)
  show ?case
  proof (cases "n < 10")
    case True
    then show ?thesis
      using 1(2) by (intro exI [of _ n] exI [of _ "[]"]) (simp add: dec_str.simps [of n])
  next
    case False
    then obtain d :: nat and cs where "dec_str (n div 10) = char_of (48 + d) # cs" "0 < d" "d < 10"
      using 1(1) [OF False] by (metis div_greater_zero_iff not_le zero_less_numeral)
    then show ?thesis
      using False by (intro exI [of _ d] exI [of _ "cs @ [char_of (48 + n mod 10)]"]) (simp add: dec_str.simps [of n])
  qed
qed

lemma dec_str_0: "dec_str 0 = ''0''"
  using char_of_char [where 'a = nat, of "CHR ''0''"] by (simp add: dec_str.simps)

lemma strtol_dec_str: "int n < 2 ^ 63 \<Longrightarrow> strtol True (dec_str n) = int n"
proof (cases "n = 0")
  case False
  assume n: "int n < 2 ^ 63"
  obtain d :: nat and cs where d: "dec_str n = char_of (48 + d) # cs" "0 < d" "d < 10"
    using False dec_str_hd by blast
  have "(char_of (48 + d) :: char) \<noteq> CHR ''0''"
    using d(2) digit_val_char_of [OF d(3)] digit_val_signs by auto
  moreover have "\<not> is_cspace (char_of (48 + d)) \<and> (char_of (48 + d) :: char) \<noteq> CHR ''-'' \<and> (char_of (48 + d) :: char) \<noteq> CHR ''+''"
    using dec_str_digits [of n] d(1) by simp
  moreover have "fst (digits_val 10 0 (dec_str n)) = n"
    by (simp add: digits_val_dec_str)
  ultimately show ?thesis
    using n d(1) by (simp add: strtol_def strtol_sat_def Let_def numeral_2_eq_2)
qed (simp add: dec_str_0 strtol_def strtol_sat_def Let_def is_cspace_def digit_val_def)

text \<open>
  A value the target offers is read back by a peer with the same tables: for a
  range key every 32-bit value, for a boolean key zero and one.
\<close>

theorem param_str_roundtrip:
  assumes "i < length session_keys" "param_val_to_str session_keys i v = Some str"
    and "k_ops (session_keys ! i) \<in> {minimum_ops, maximum_ops, min_or_zero_ops, or_ops, and_ops}"
  shows "param_str_to_val session_keys i str v0 = Some v"
proof -
  have "int (unat v) < 2 ^ 63"
    using unsigned_less [of v, where 'a = int] by simp
  from strtol_dec_str [OF this] have "range_str_to_val (dec_str (unat v)) = Some v"
    by (simp add: range_str_to_val_def)
  then have r: "range_val_to_str v = Some str \<Longrightarrow> range_str_to_val str = Some v"
    by (auto simp: range_val_to_str_def)
  have b: "bool_val_to_str v = Some str \<Longrightarrow> bool_str_to_val str = Some v"
    by (auto simp: bool_val_to_str_def bool_str_to_val_def split: if_splits)
  show ?thesis
    using assms(2,3) r b unfolding param_val_to_str_def param_str_to_val_def
    by (auto simp: minimum_ops_def maximum_ops_def min_or_zero_ops_def or_ops_def and_ops_def)
qed

lemma dec_str_512: "dec_str 512 = ''512''"
  using char_of_char [where 'a = nat, of "CHR ''5''"] char_of_char [where 'a = nat, of "CHR ''1''"]
    char_of_char [where 'a = nat, of "CHR ''2''"]
  by (simp add: dec_str.simps)

theorem param_str_roundtrip_witness:
  "param_val_to_str session_keys 7 512 = Some ''512'' \<and> param_str_to_val session_keys 7 ''512'' 0 = Some 512"
proof -
  have "param_val_to_str session_keys 7 512 = Some ''512''"
    by (simp add: dec_str_512 param_val_to_str_def session_keys_def minimum_ops_def range_val_to_str_def)
  moreover have "k_ops (session_keys ! 7) = minimum_ops" "7 < length session_keys"
    by (simp_all add: session_keys_def)
  ultimately show ?thesis
    using param_str_roundtrip [of 7 512 "''512''" 0] by simp
qed

section \<open>Results of the negotiation\<close>

text \<open>
  What RFC 3720 asks of a key: the smaller or larger of the two values, the
  disjunction or conjunction of the two answers.
\<close>

definition rfc_result :: "string \<Rightarrow> u32 \<Rightarrow> u32 \<Rightarrow> u32" where
  "rfc_result name a b =
     (if name \<in> {''InitialR2T'', ''DataPDUInOrder'', ''DataSequenceInOrder''} then (if a = 1 \<or> b = 1 then 1 else 0)
      else if name \<in> {''ImmediateData'', ''IFMarker'', ''OFMarker'', ''RDMAExtensions''} then (if a = 1 \<and> b = 1 then 1 else 0)
      else if name = ''DefaultTime2Wait'' then max a b
      else min a b)"

text \<open>Keys whose result is a function of the two values: all but digests, markers and unexpected PDUs.\<close>

definition plain_key :: "nat \<Rightarrow> bool" where
  "plain_key i \<longleftrightarrow> i < ISCSI_PARAM_MAX \<and> i \<notin> {1, 2, 15, 16, 21}"

lemma plain_key_cases: "plain_key i \<Longrightarrow> i \<in> {0, 3, 4, 5, 6, 7, 8, 9, 10, 11, 12, 13, 14, 17, 18, 19, 20, 22, 23}"
  unfolding plain_key_def ISCSI_PARAM_MAX_def by simp presburger

lemma set_p_val_nth:
  "i < length ps \<Longrightarrow> p_val (set_p_val i w ps ! i) = w"
  "i < length ps \<Longrightarrow> p_state (set_p_val i w ps ! j) = p_state (ps ! j)"
  "j \<noteq> i \<Longrightarrow> set_p_val i w ps ! j = ps ! j"
  "length (set_p_val i w ps) = length ps"
  by (auto simp: set_p_val_def nth_list_update)

lemma bit_values: "v = 0 \<or> v = 1 \<Longrightarrow> w = 0 \<or> w = 1 \<Longrightarrow>
    v OR w = (if v = 1 \<or> w = 1 then 1 else 0) \<and> v AND w = (if v = 1 \<and> w = 1 then 1 else 0)" for v w :: u32
  by auto

lemma set_val_results:
  assumes "i < length ps" and r: "(ps', w) = f ps i v"
    and f: "f \<in> {or_set_val, and_set_val, minimum_set_val, maximum_set_val, min_or_zero_set_val, digest_set_val, marker_set_val}"
  shows "p_val (ps' ! i) = w" "length ps' = length ps" "\<forall>j. j \<noteq> i \<longrightarrow> ps' ! j = ps ! j"
    "\<forall>j. p_state (ps' ! j) = p_state (ps ! j)"
  using assms
  by (auto simp: or_set_val_def and_set_val_def minimum_set_val_def maximum_set_val_def min_or_zero_set_val_def
      digest_set_val_def marker_set_val_def Let_def set_p_val_nth split: if_splits)

lemma bool_str_to_val_01: "bool_str_to_val str = Some v \<Longrightarrow> v = 0 \<or> v = 1"
  by (auto simp: bool_str_to_val_def split: if_splits)

lemma word_le_1: "w \<le> 1 \<Longrightarrow> w = 0 \<or> w = 1" for w :: u32
  using unat_eq_zero [of w] word_unat_eq_iff [of w 1] by (auto simp: word_le_nat_alt le_Suc_eq)

text \<open>
  C34. Negotiating a key, with a text that parses and passes the check, gives both
  sides the value RFC 3720 prescribes: the target stores the value it answers, that
  value is in the range of the key, and no other parameter changes.
\<close>

theorem param_negotiation_correct:
  assumes "plain_key i" "length ps = ISCSI_PARAM_MAX"
    and own: "k_min (session_keys ! i) \<le> p_val (ps ! i)" "p_val (ps ! i) \<le> k_max (session_keys ! i)"
    and str: "param_str_to_val session_keys i str v0 = Some v"
    and chk: "param_check_val session_keys i v = (False, v)"
    and set: "param_set_val session_keys ps i v = (ps', w)"
  shows "w = rfc_result (k_name (session_keys ! i)) v (p_val (ps ! i)) \<and> p_val (ps' ! i) = w \<and>
    k_min (session_keys ! i) \<le> w \<and> w \<le> k_max (session_keys ! i) \<and> (\<forall>j. j \<noteq> i \<longrightarrow> ps' ! j = ps ! j)"
proof -
  have i: "i < length ps"
    using assms(1,2) by (simp add: plain_key_def)
  have len: "length ps = 24"
    using assms(2) by (simp add: ISCSI_PARAM_MAX_def)
  let ?k = "session_keys ! i"
  consider (min) "k_ops ?k = minimum_ops" "rfc_result (k_name ?k) = min"
    | (max) "k_ops ?k = maximum_ops" "rfc_result (k_name ?k) = max"
    | (orr) "k_ops ?k = or_ops" "k_min ?k = 0" "k_max ?k = 1" "rfc_result (k_name ?k) = (\<lambda>a b. if a = 1 \<or> b = 1 then 1 else 0)"
    | (andd) "k_ops ?k = and_ops" "k_min ?k = 0" "k_max ?k = 1" "rfc_result (k_name ?k) = (\<lambda>a b. if a = 1 \<and> b = 1 then 1 else 0)"
    using plain_key_cases [OF assms(1)]
    by (elim insertE emptyE) (simp_all add: session_keys_def rfc_result_def fun_eq_iff)
  then show ?thesis
  proof cases
    case min
    then have "minimum_check_val (k_min ?k) (k_max ?k) v = (False, v)" "(ps', w) = minimum_set_val ps i v"
      using chk set by (simp_all add: param_check_val_def param_set_val_def minimum_ops_def)
    then show ?thesis
      using set_val_results [OF i, of ps' w minimum_set_val v] own min(2)
      by (auto simp: minimum_check_val_def minimum_set_val_def min_def split: if_splits)
  next
    case max
    then have "maximum_check_val (k_min ?k) (k_max ?k) v = (False, v)" "(ps', w) = maximum_set_val ps i v"
      using chk set by (simp_all add: param_check_val_def param_set_val_def maximum_ops_def)
    then show ?thesis
      using set_val_results [OF i, of ps' w maximum_set_val v] own max(2)
      by (auto simp: maximum_check_val_def maximum_set_val_def max_def split: if_splits)
  next
    case orr
    then have "v = 0 \<or> v = 1" "p_val (ps ! i) = 0 \<or> p_val (ps ! i) = 1" and s: "(ps', w) = or_set_val ps i v"
      using str set own bool_str_to_val_01 word_le_1
      by (auto simp: param_str_to_val_def param_set_val_def or_ops_def)
    then show ?thesis
      using set_val_results [OF i, of ps' w or_set_val v] orr(2,3,4) bit_values [of v "p_val (ps ! i)"] s
      by (auto simp: or_set_val_def Let_def)
  next
    case andd
    then have "v = 0 \<or> v = 1" "p_val (ps ! i) = 0 \<or> p_val (ps ! i) = 1" and s: "(ps', w) = and_set_val ps i v"
      using str set own bool_str_to_val_01 word_le_1
      by (auto simp: param_str_to_val_def param_set_val_def and_ops_def)
    then show ?thesis
      using set_val_results [OF i, of ps' w and_set_val v] andd(2,3,4) bit_values [of v "p_val (ps ! i)"] s
      by (auto simp: and_set_val_def Let_def)
  qed
qed

theorem param_negotiation_correct_witness:
  "param_set_val session_keys (param_set_defaults session_keys (replicate 24 \<lparr>p_state = KEY_STATE_START, p_val = 0\<rparr>)) 7 512 =
     (set_p_val 7 512 (param_set_defaults session_keys (replicate 24 \<lparr>p_state = KEY_STATE_START, p_val = 0\<rparr>)), 512) \<and>
   rfc_result ''MaxBurstLength'' 512 262144 = 512"
proof -
  let ?ps = "param_set_defaults session_keys (replicate 24 \<lparr>p_state = KEY_STATE_START, p_val = 0\<rparr>)"
  have k: "session_keys ! 7 = \<lparr>k_name = ''MaxBurstLength'', k_def = 262144, k_min = 512, k_max = 16777215, k_ops = minimum_ops\<rparr>"
    by (simp add: session_keys_def)
  have l: "length session_keys = 24"
    by (simp add: session_keys_def)
  have p: "p_val (?ps ! 7) = 262144" "length ?ps = 24"
    using l k by (simp_all add: param_set_defaults_def)
  have "param_str_to_val session_keys 7 ''512'' 0 = Some 512"
    using strtol_dec_str [of 512] by (simp add: k dec_str_512 param_str_to_val_def minimum_ops_def range_str_to_val_def)
  moreover have "param_check_val session_keys 7 512 = (False, 512)"
    by (simp add: k param_check_val_def minimum_ops_def minimum_check_val_def)
  moreover have s: "param_set_val session_keys ?ps 7 512 = (set_p_val 7 512 ?ps, 512)"
    using p by (simp add: k param_set_val_def minimum_ops_def minimum_set_val_def)
  ultimately show ?thesis
    using param_negotiation_correct [of 7 ?ps "''512''" 0 512 "set_p_val 7 512 ?ps" 512] p
    by (simp add: k plain_key_def ISCSI_PARAM_MAX_def)
qed

end
