(* ===== verification/Block_Hash.thy ===== *)
theory Block_Hash
  imports Tgt_Prelude
begin

text \<open>
  What the two message digests of the daemon share: a message is absorbed in blocks
  of 64 bytes, and the bytes that do not fill a block wait in a buffer. The locale
  \<open>block_hash\<close> states what an implementation promises about its update function and
  derives that the way a message is cut into updates does not matter.
\<close>

unbundle bit_operations_syntax

section \<open>Numbers and bytes\<close>

lemma byte_of_number: "ucast (drop_bit n w) = (of_nat (unat w div 2 ^ n mod 256) :: u8)" for w :: "'a::len word"
proof -
  have "(ucast (drop_bit n w) :: u8) = of_nat (unat w div 2 ^ n)"
    by (metis of_nat_unat unat_drop_bit_eq drop_bit_eq_div)
  then show ?thesis
    by (simp add: word_of_nat_eq_iff take_bit_eq_mod)
qed

lemma byte_wrap: "k < 8 \<Longrightarrow> unat (of_nat n :: u64) div 2 ^ (8 * k) mod 256 = n div 256 ^ k mod 256"
proof -
  assume "k < 8"
  then have "take_bit 8 (drop_bit (8 * k) (take_bit 64 n)) = take_bit 8 (drop_bit (8 * k) n)"
    by (intro bit_eqI) (auto simp: bit_simps)
  then have "take_bit 64 n div 2 ^ (8 * k) mod 256 = n div 2 ^ (8 * k) mod 256"
    by (simp add: take_bit_eq_mod [of 8] drop_bit_eq_div)
  then show ?thesis
    by (simp add: unsigned_of_nat power_mult)
qed

lemma number_of_bytes:
  "push_bit 24 (ucast a) OR push_bit 16 (ucast b) OR push_bit 8 (ucast c) OR ucast d
     = (of_nat (256 ^ 3 * unat a + 256 ^ 2 * unat b + 256 * unat c + unat d) :: u32)" for a b c d :: u8
proof -
  have "push_bit 24 (ucast a) OR push_bit 16 (ucast b) OR push_bit 8 (ucast c) OR ucast d
      = push_bit 24 (ucast a) + (push_bit 16 (ucast b) + (push_bit 8 (ucast c) + (ucast d :: u32)))"
    by (subst disjunctive_add, (auto simp: bit_simps dest: bit_imp_le_length)[1])+ simp
  then show ?thesis
    by (simp add: push_bit_eq_mult)
qed

lemma sum_less_4: "(\<Sum>k<4. f k) = f 0 + f 1 + f 2 + f 3" for f :: "nat \<Rightarrow> nat"
  by (simp add: eval_nat_numeral)

section \<open>Runs over an interval\<close>

lemma fold_upt_step: "fold f [i..<j] s = (if i < j then fold f [i + 1..<j] (f i s) else s)"
  by (simp add: upt_conv_Cons)

lemma fold_upt_split: "i \<le> j \<Longrightarrow> j \<le> k \<Longrightarrow> fold f [i..<k] s = fold f [j..<k] (fold f [i..<j] s)"
  by (metis fold_append comp_apply le_Suc_ex upt_add_eq_append)

section \<open>Blocks of a message\<close>

function blocks64 :: "bytes \<Rightarrow> bytes list" where
  "blocks64 xs = (if length xs < 64 then [] else take 64 xs # blocks64 (drop 64 xs))"
  by pat_completeness auto
termination by (relation "measure length") auto

declare blocks64.simps [simp del]

definition leftover :: "bytes \<Rightarrow> bytes" where
  "leftover xs = drop (64 * (length xs div 64)) xs"

lemma blocks64_short [simp]: "length xs < 64 \<Longrightarrow> blocks64 xs = []"
  by (simp add: blocks64.simps)

lemma blocks64_block: "length xs = 64 \<Longrightarrow> blocks64 (xs @ ys) = xs # blocks64 ys"
  by (subst blocks64.simps) simp

lemma blocks64_length: "b \<in> set (blocks64 xs) \<Longrightarrow> length b = 64"
proof (induction xs rule: blocks64.induct)
  case (1 xs)
  then show ?case
    using blocks64.simps [of xs] by (auto split: if_splits)
qed

lemma leftover_short [simp]: "length xs < 64 \<Longrightarrow> leftover xs = xs"
  by (simp add: leftover_def)

lemma length_leftover: "length (leftover xs) = length xs mod 64"
  by (simp add: leftover_def minus_mult_div_eq_mod)

lemma length_leftover_less [simp]: "length (leftover xs) < 64"
  by (simp add: length_leftover)

lemma leftover_block: "length xs = 64 \<Longrightarrow> leftover (xs @ ys) = leftover ys"
proof -
  assume "length xs = 64"
  moreover have "(64 + length ys) div 64 = Suc (length ys div 64)"
    by simp
  ultimately show ?thesis
    by (simp add: leftover_def)
qed

lemma split_block: "64 \<le> length xs \<Longrightarrow> \<exists>b r. xs = b @ r \<and> length b = 64"
  by (intro exI [of _ "take 64 xs"] exI [of _ "drop 64 xs"]) simp

lemma blocks_leftover_append:
  "blocks64 (xs @ ys) = blocks64 xs @ blocks64 (leftover xs @ ys)"
  "leftover (xs @ ys) = leftover (leftover xs @ ys)"
proof (induction xs rule: blocks64.induct)
  case (1 xs)
  {
    case 1
    then show ?case
      using "1.IH"(1) split_block [of xs] by (cases "length xs < 64") (auto simp: blocks64_block leftover_block not_less)
  next
    case 2
    then show ?case
      using "1.IH"(2) split_block [of xs] by (cases "length xs < 64") (auto simp: leftover_block not_less)
  }
qed

lemma blocks_leftover_concat: "concat (blocks64 xs) @ leftover xs = xs"
proof (induction xs rule: blocks64.induct)
  case (1 xs)
  then show ?case
    using split_block [of xs] by (cases "length xs < 64") (auto simp: blocks64_block leftover_block not_less)
qed

section \<open>Streaming\<close>

text \<open>
  \<open>state\<close> and \<open>pending\<close> read the chaining value and the waiting bytes out of a
  context, \<open>wf\<close> holds of the contexts an implementation works on.
\<close>

locale block_hash =
  fixes transform :: "'h \<Rightarrow> bytes \<Rightarrow> 'h"
    and state :: "'c \<Rightarrow> 'h"
    and pending :: "'c \<Rightarrow> bytes"
    and wf :: "'c \<Rightarrow> bool"
    and init :: 'c
    and update :: "'c \<Rightarrow> bytes \<Rightarrow> 'c"
  assumes init_wf: "wf init" and init_pending: "pending init = []"
    and update_wf: "wf c \<Longrightarrow> wf (update c data)"
    and update_state: "wf c \<Longrightarrow> state (update c data) = foldl transform (state c) (blocks64 (pending c @ data))"
    and update_pending: "wf c \<Longrightarrow> pending (update c data) = leftover (pending c @ data)"
begin

lemma absorb:
  assumes "wf c"
  shows "wf (foldl update c ds)"
    and "length (pending c) < 64 \<Longrightarrow>
      state (foldl update c ds) = foldl transform (state c) (blocks64 (pending c @ concat ds)) \<and>
      pending (foldl update c ds) = leftover (pending c @ concat ds)"
  using assms
proof (induction ds arbitrary: c)
  case (Cons d ds)
  {
    case 1
    then show ?case
      using Cons.IH(1) update_wf by simp
  next
    case 2
    then show ?case
      using Cons.IH(2) [of "update c d"] update_wf update_state update_pending
        blocks_leftover_append [of "pending c @ d" "concat ds"]
      by simp
  }
qed simp_all

theorem stream:
  "wf (foldl update init ds)"
  "state (foldl update init ds) = foldl transform (state init) (blocks64 (concat ds))"
  "pending (foldl update init ds) = leftover (concat ds)"
  using absorb [OF init_wf, of ds] by (simp_all add: init_pending)

end

end
