(* ===== verification/Sha1.thy ===== *)
theory Sha1
  imports Block_Hash Byteshift
begin

text \<open>
  The SHA-1 digest of \<open>usr/iscsi/sha1.c\<close>: the unrolled compression function with its
  16-word window, the buffered update and the final padding. The theorems compare
  the compression function with the schedule of 80 words and the round functions of
  FIPS 180, and the streamed digest with the digest of the padded message.
\<close>

unbundle bit_operations_syntax

section \<open>The compression function\<close>

type_synonym sha1_state = "u32 \<times> u32 \<times> u32 \<times> u32 \<times> u32"

definition rol :: "u32 \<Rightarrow> nat \<Rightarrow> u32" where
  "rol v n = push_bit n v OR drop_bit (32 - n) v"

text \<open>\<open>blk\<close>: the next word of the schedule overwrites the oldest of the window.\<close>

definition blk_val :: "u32 list \<Rightarrow> nat \<Rightarrow> u32" where
  "blk_val w i =
     rol (w ! ((i + 13) mod 16) XOR w ! ((i + 8) mod 16) XOR w ! ((i + 2) mod 16) XOR w ! (i mod 16)) 1"

text \<open>The five round macros \<open>R0\<close> to \<open>R4\<close> differ in the mixing function, the constant and the word.\<close>

definition sha1_f :: "nat \<Rightarrow> u32 \<Rightarrow> u32 \<Rightarrow> u32 \<Rightarrow> u32" where
  "sha1_f i w x y =
     (if i < 20 then (w AND (x XOR y)) XOR y
      else if i < 40 then w XOR x XOR y
      else if i < 60 then ((w OR x) AND y) OR (w AND x)
      else w XOR x XOR y)"

definition sha1_k :: "nat \<Rightarrow> u32" where
  "sha1_k i = (if i < 20 then 0x5A827999 else if i < 40 then 0x6ED9EBA1
     else if i < 60 then 0x8F1BBCDC else 0xCA62C1D6)"

text \<open>
  One macro call: the variable in the role of \<open>z\<close> gets its new value, \<open>w\<close> is
  rotated, and the next call has the roles shifted by one.
\<close>

definition sha1_round :: "nat \<Rightarrow> u32 list \<times> sha1_state \<Rightarrow> u32 list \<times> sha1_state" where
  "sha1_round i = (\<lambda>(blk32, v, w, x, y, z).
     let b = (if i < 16 then blk32 ! i else blk_val blk32 i);
         blk32' = (if i < 16 then blk32 else blk32[i mod 16 := b]);
         z' = z + (sha1_f i w x y + b + sha1_k i + rol v 5)
     in (blk32', z', v, rol w 30, x, y))"

definition be_words :: "bytes \<Rightarrow> u32 list" where
  "be_words xs = map (\<lambda>i. get_unaligned_be32 xs (4 * i)) [0..<16]"

definition sha1_add :: "sha1_state \<Rightarrow> sha1_state \<Rightarrow> sha1_state" where
  "sha1_add = (\<lambda>(a, b, c, d, e) (a', b', c', d', e'). (a + a', b + b', c + c', d + d', e + e'))"

definition sha1_transform :: "sha1_state \<Rightarrow> bytes \<Rightarrow> sha1_state" where
  "sha1_transform st inp = sha1_add st (snd (fold sha1_round [0..<80] (be_words inp, st)))"

section \<open>Contexts\<close>

record sha1_ctx =
  sha_count :: u64
  sha_state :: sha1_state
  sha_buffer :: bytes

definition sha1_init :: sha1_ctx where
  "sha1_init = \<lparr>sha_count = 0,
     sha_state = (0x67452301, 0xEFCDAB89, 0x98BADCFE, 0x10325476, 0xC3D2E1F0), sha_buffer = replicate 64 0\<rparr>"

text \<open>The loop of \<open>sha1_update\<close> over the whole blocks of the data; it returns the state and the rest.\<close>

function sha1_loop :: "sha1_state \<Rightarrow> bytes \<Rightarrow> sha1_state \<times> bytes" where
  "sha1_loop st data =
     (if length data < 64 then (st, data) else sha1_loop (sha1_transform st (take 64 data)) (drop 64 data))"
  by pat_completeness auto
termination by (relation "measure (length \<circ> snd)") auto

declare sha1_loop.simps [simp del]

definition sha1_index :: "sha1_ctx \<Rightarrow> nat" where
  "sha1_index c = unat (drop_bit 3 (sha_count c) AND 0x3f)"

definition sha1_update :: "sha1_ctx \<Rightarrow> bytes \<Rightarrow> sha1_ctx" where
  "sha1_update c data =
     (let j = sha1_index c;
          c1 = c\<lparr>sha_count := sha_count c + ucast (push_bit 3 (of_nat (length data) :: u32))\<rparr>
      in if 63 < j + length data then
           let b = put_bytes (sha_buffer c) j (take (64 - j) data);
               (st, rest) = sha1_loop (sha1_transform (sha_state c) b) (drop (64 - j) data)
           in c1\<lparr>sha_state := st, sha_buffer := put_bytes b 0 rest\<rparr>
         else c1\<lparr>sha_buffer := put_bytes (sha_buffer c) j data\<rparr>)"

definition sha1_padlen :: "nat \<Rightarrow> nat" where
  "sha1_padlen index = (if index < 56 then 56 - index else 120 - index)"

definition sha1_out :: "sha1_state \<Rightarrow> bytes" where
  "sha1_out = (\<lambda>(a, b, c, d, e). be32_bytes a @ be32_bytes b @ be32_bytes c @ be32_bytes d @ be32_bytes e)"

definition sha1_final :: "sha1_ctx \<Rightarrow> bytes" where
  "sha1_final c =
     (let bits = be64_bytes (sha_count c);
          c1 = sha1_update c (take (sha1_padlen (sha1_index c)) (0x80 # replicate 63 0));
          c2 = sha1_update c1 bits
      in sha1_out (sha_state c2))"

section \<open>Streaming\<close>

lemma sha1_loop_blocks: "sha1_loop st data = (foldl sha1_transform st (blocks64 data), leftover data)"
proof (induction st data rule: sha1_loop.induct)
  case (1 st data)
  show ?case
  proof (cases "length data < 64")
    case False
    then obtain b r where "data = b @ r" "length b = 64"
      using split_block [of data] by auto
    moreover have "sha1_loop st data = sha1_loop (sha1_transform st (take 64 data)) (drop 64 data)"
      using False by (subst sha1_loop.simps) simp
    ultimately show ?thesis
      using 1 [OF False] by (simp add: blocks64_block leftover_block)
  qed (simp add: sha1_loop.simps)
qed

lemma mod_512_div_8: "n mod 512 div 8 = n div 8 mod (64 :: nat)"
  using mod_mult2_eq [of n 8 64] by simp

lemma mod_512_times_8: "8 * m mod 512 = 8 * (m mod (64 :: nat))"
  using mult_mod_right [of 8 m 64] by simp

lemma sha1_index_mod: "sha1_index c = unat (sha_count c) mod 512 div 8"
proof -
  have "drop_bit 3 (sha_count c) AND 0x3f = take_bit 6 (drop_bit 3 (sha_count c))"
    by (simp add: take_bit_eq_mask mask_numeral)
  then have "sha1_index c = unat (sha_count c) div 8 mod 64"
    by (simp add: sha1_index_def take_bit_eq_mod drop_bit_eq_div unat_div_distrib unat_mod_distrib)
  then show ?thesis
    by (simp add: mod_512_div_8)
qed

lemma sha1_count_mod:
  "unat (sha_count c + ucast (push_bit 3 (of_nat n :: u32))) mod 512 = (unat (sha_count c) + 8 * n) mod 512"
proof -
  have "8 * (n mod 4294967296) mod 512 = 8 * n mod 512"
    unfolding mod_512_times_8 by (simp add: mod_mod_cancel)
  then have "unat (ucast (push_bit 3 (of_nat n :: u32)) :: u64) mod 512 = (8 * n) mod 512"
    by (simp add: unsigned_ucast_eq unat_word_ariths unsigned_of_nat take_bit_eq_mod push_bit_eq_mult mod_mod_cancel
        mod_mult_left_eq mult.commute [of _ 8])
  moreover have "unat (sha_count c + w) mod 512 = (unat (sha_count c) + unat w) mod 512" for w
    by (simp add: unat_word_ariths mod_mod_cancel)
  ultimately show ?thesis
    by (metis mod_add_right_eq)
qed


definition sha1_wf :: "sha1_ctx \<Rightarrow> bool" where
  "sha1_wf c \<longleftrightarrow> length (sha_buffer c) = 64 \<and> unat (sha_count c) mod 8 = 0"

definition sha1_pending :: "sha1_ctx \<Rightarrow> bytes" where
  "sha1_pending c = take (sha1_index c) (sha_buffer c)"

lemma sha1_index_less: "sha1_index c < 64"
  by (simp add: sha1_index_mod mod_512_div_8)

lemma length_sha1_pending: "sha1_wf c \<Longrightarrow> length (sha1_pending c) = sha1_index c"
  using sha1_index_less [of c] by (simp add: sha1_wf_def sha1_pending_def)

lemma sha1_update_count:
  "sha_count (sha1_update c data) = sha_count c + ucast (push_bit 3 (of_nat (length data) :: u32))"
  by (simp add: sha1_update_def Let_def split: prod.split)

lemma sha1_index_update:
  assumes "sha1_wf c"
  shows "sha1_index (sha1_update c data) = (sha1_index c + length data) mod 64"
proof -
  obtain m where m: "unat (sha_count c) = 8 * m"
    using assms by (auto simp: sha1_wf_def)
  have "sha1_index (sha1_update c data) = (8 * m + 8 * length data) mod 512 div 8"
    unfolding sha1_index_mod sha1_update_count sha1_count_mod m ..
  also have "\<dots> = (m + length data) mod 64"
    unfolding distrib_left [symmetric] mod_512_times_8 by simp
  also have "\<dots> = (sha1_index c + length data) mod 64"
    unfolding sha1_index_mod m mod_512_times_8 by (simp add: mod_add_left_eq)
  finally show ?thesis .
qed

lemma sha1_update_short:
  assumes "sha1_wf c" "sha1_index c + length data < 64"
  shows "sha_state (sha1_update c data) = sha_state c" "sha1_pending (sha1_update c data) = sha1_pending c @ data"
    "length (sha_buffer (sha1_update c data)) = 64"
proof -
  have "sha1_index (sha1_update c data) = sha1_index c + length data"
    using sha1_index_update assms by simp
  then show "sha1_pending (sha1_update c data) = sha1_pending c @ data"
    using assms by (simp add: sha1_pending_def sha1_update_def Let_def put_bytes_def sha1_wf_def)
  show "sha_state (sha1_update c data) = sha_state c" "length (sha_buffer (sha1_update c data)) = 64"
    using assms by (simp_all add: sha1_update_def Let_def put_bytes_def sha1_wf_def)
qed

lemma sha1_update_long:
  assumes "sha1_wf c" "64 \<le> sha1_index c + length data"
  shows "sha_state (sha1_update c data) = foldl sha1_transform (sha_state c) (blocks64 (sha1_pending c @ data))"
    "sha1_pending (sha1_update c data) = leftover (sha1_pending c @ data)" "length (sha_buffer (sha1_update c data)) = 64"
proof -
  let ?j = "sha1_index c"
  let ?b = "sha1_pending c @ take (64 - ?j) data" and ?r = "drop (64 - ?j) data"
  have j: "?j < 64" "length (sha1_pending c) = ?j"
    using assms(1) by (simp_all add: sha1_index_less length_sha1_pending)
  have b: "put_bytes (sha_buffer c) ?j (take (64 - ?j) data) = ?b" "length ?b = 64"
    using assms j by (simp_all add: put_bytes_def sha1_pending_def sha1_wf_def)
  have m: "sha1_pending c @ data = ?b @ ?r"
    by simp
  have upd: "sha1_update c data = c\<lparr>sha_count := sha_count c + ucast (push_bit 3 (of_nat (length data) :: u32)),
      sha_state := foldl sha1_transform (sha1_transform (sha_state c) ?b) (blocks64 ?r),
      sha_buffer := put_bytes ?b 0 (leftover ?r)\<rparr>"
    using assms(2) b(1) by (simp add: sha1_update_def Let_def sha1_loop_blocks)
  then show "sha_state (sha1_update c data) = foldl sha1_transform (sha_state c) (blocks64 (sha1_pending c @ data))"
    unfolding m blocks64_block [OF b(2)] by simp
  have l: "leftover (sha1_pending c @ data) = leftover ?r"
    unfolding m leftover_block [OF b(2)] ..
  have "sha1_index (sha1_update c data) = length (leftover ?r)"
    using sha1_index_update [OF assms(1), of data] j l length_leftover [of "sha1_pending c @ data"] by simp
  moreover have buf: "sha_buffer (sha1_update c data) = leftover ?r @ drop (length (leftover ?r)) ?b"
    using upd by (simp add: put_bytes_def)
  ultimately show "sha1_pending (sha1_update c data) = leftover (sha1_pending c @ data)"
    unfolding l sha1_pending_def [of "sha1_update c data"] by simp
  show "length (sha_buffer (sha1_update c data)) = 64"
    unfolding buf using b(2) length_leftover_less [of ?r] by (simp only: length_append length_drop)
qed

lemma sha1_wf_update: "sha1_wf c \<Longrightarrow> sha1_wf (sha1_update c data)"
proof -
  assume c: "sha1_wf c"
  have "unat (sha_count (sha1_update c data)) mod 8 = unat (sha_count (sha1_update c data)) mod 512 mod 8"
    by (simp add: mod_mod_cancel)
  also have "\<dots> = (unat (sha_count c) + 8 * length data) mod 512 mod 8"
    unfolding sha1_update_count sha1_count_mod ..
  also have "\<dots> = 0"
    using c by (simp add: sha1_wf_def mod_mod_cancel mod_add_eq)
  finally show ?thesis
    using sha1_update_short(3) [OF c, of data] sha1_update_long(3) [OF c, of data]
    by (cases "sha1_index c + length data < 64") (simp_all add: sha1_wf_def)
qed

interpretation sha1: block_hash sha1_transform sha_state sha1_pending sha1_wf sha1_init sha1_update
proof
  show "sha1_wf sha1_init" "sha1_pending sha1_init = []"
    by (simp_all add: sha1_wf_def sha1_init_def sha1_pending_def sha1_index_mod)
  fix c data
  assume c: "sha1_wf c"
  show "sha1_wf (sha1_update c data)"
    using c by (rule sha1_wf_update)
  show "sha_state (sha1_update c data) = foldl sha1_transform (sha_state c) (blocks64 (sha1_pending c @ data))"
    "sha1_pending (sha1_update c data) = leftover (sha1_pending c @ data)"
    using sha1_update_short [OF c, of data] sha1_update_long [OF c, of data] length_sha1_pending [OF c]
    by (cases "sha1_index c + length data < 64"; simp)+
qed

section \<open>The reference\<close>

definition fips_f :: "nat \<Rightarrow> u32 \<Rightarrow> u32 \<Rightarrow> u32 \<Rightarrow> u32" where
  "fips_f t x y z =
     (if t < 20 then (x AND y) XOR (NOT x AND z)
      else if t < 40 then x XOR y XOR z
      else if t < 60 then (x AND y) XOR (x AND z) XOR (y AND z)
      else x XOR y XOR z)"

text \<open>
  The constants of section 4.2.1 of FIPS 180. They are the integer parts of \<open>2 ^ 30\<close> times
  the square roots of 2, 3, 5 and 10, which \<open>fips_K_sqrt\<close> checks.
\<close>

definition fips_K :: "nat \<Rightarrow> u32" where
  "fips_K t = (if t < 20 then 0x5a827999 else if t < 40 then 0x6ed9eba1
     else if t < 60 then 0x8f1bbcdc else 0xca62c1d6)"

text \<open>Big-endian numbers: the words of a block, and the bytes of a number.\<close>

definition fips_words :: "bytes \<Rightarrow> u32 list" where
  "fips_words m = map (\<lambda>i. of_nat (\<Sum>k<4. 256 ^ (3 - k) * unat (m ! (4 * i + k)))) [0..<16]"

definition fips_bytes :: "nat \<Rightarrow> nat \<Rightarrow> bytes" where
  "fips_bytes n x = map (\<lambda>k. of_nat (x div 256 ^ k mod 256)) (rev [0..<n])"

fun fips_W :: "u32 list \<Rightarrow> nat \<Rightarrow> u32" where
  "fips_W ms t =
     (if t < 16 then ms ! t
      else word_rotl 1 (fips_W ms (t - 3) XOR fips_W ms (t - 8) XOR fips_W ms (t - 14) XOR fips_W ms (t - 16)))"

declare fips_W.simps [simp del]

definition fips_round :: "u32 list \<Rightarrow> nat \<Rightarrow> sha1_state \<Rightarrow> sha1_state" where
  "fips_round ms t = (\<lambda>(a, b, c, d, e).
     (word_rotl 5 a + fips_f t b c d + e + fips_K t + fips_W ms t, a, word_rotl 30 b, c, d))"

definition fips_compress :: "sha1_state \<Rightarrow> bytes \<Rightarrow> sha1_state" where
  "fips_compress = (\<lambda>(h0, h1, h2, h3, h4) m.
     case fold (fips_round (fips_words m)) [0..<80] (h0, h1, h2, h3, h4) of
       (a, b, c, d, e) \<Rightarrow> (h0 + a, h1 + b, h2 + c, h3 + d, h4 + e))"

definition fips_pad :: "bytes \<Rightarrow> bytes" where
  "fips_pad m = m @ 0x80 # replicate ((119 - length m mod 64) mod 64) 0 @ fips_bytes 8 (8 * length m)"

definition fips_sha1 :: "bytes \<Rightarrow> bytes" where
  "fips_sha1 m =
     (case foldl fips_compress (0x67452301, 0xefcdab89, 0x98badcfe, 0x10325476, 0xc3d2e1f0) (blocks64 (fips_pad m)) of
        (h0, h1, h2, h3, h4) \<Rightarrow> concat (map (fips_bytes 4 \<circ> unat) [h0, h1, h2, h3, h4]))"

lemma fips_K_sqrt:
  "unat (fips_K t) ^ 2 \<le> (if t < 20 then 2 else if t < 40 then 3 else if t < 60 then 5 else 10) * 2 ^ 60"
  "(if t < 20 then 2 else if t < 40 then 3 else if t < 60 then 5 else 10) * 2 ^ 60 < (unat (fips_K t) + 1) ^ 2"
  by (simp_all add: fips_K_def)

lemma rol_rotl: "0 < n \<Longrightarrow> n < 32 \<Longrightarrow> rol v n = word_rotl n v"
  by (rule bit_word_eqI)
     (auto simp: rol_def bit_simps bit_word_rotl_iff mod_if add.commute [of 32] dest: bit_imp_le_length)

lemma sha1_k_fips: "sha1_k t = fips_K t"
  by (simp add: sha1_k_def fips_K_def)

lemma be32_bytes_fips: "be32_bytes w = fips_bytes 4 (unat w)"
proof -
  have "be32_bytes w = [ucast (drop_bit 24 w), ucast (drop_bit 16 w), ucast (drop_bit 8 w), ucast (drop_bit 0 w)]"
    by (simp add: be32_bytes_def be16_bytes_def) (auto intro!: bit_word_eqI simp: bit_simps)
  then show ?thesis
    unfolding byte_of_number by (simp add: fips_bytes_def upt_rec)
qed

lemma be64_bytes_fips: "be64_bytes (of_nat n) = fips_bytes 8 n"
proof -
  let ?w = "of_nat n :: u64"
  have "be64_bytes ?w = be32_bytes (ucast (drop_bit 32 ?w)) @ be32_bytes (ucast (drop_bit 0 ?w))"
    by (simp add: be64_bytes_def)
  also have "\<dots> = map (\<lambda>k. ucast (drop_bit (8 * k) ?w)) [7, 6, 5, 4, 3, 2, 1, 0]"
    by (simp add: be32_bytes_def be16_bytes_def) (auto intro!: bit_word_eqI simp: bit_simps)
  also have "\<dots> = map (\<lambda>k. of_nat (n div 256 ^ k mod 256)) [7, 6, 5, 4, 3, 2, 1, 0]"
    unfolding byte_of_number by (simp only: list.map byte_wrap)
  finally show ?thesis
    by (simp add: fips_bytes_def upt_rec)
qed

lemma be_words_fips: "length m = 64 \<Longrightarrow> be_words m = fips_words m"
proof -
  assume "length m = 64"
  then have "get_unaligned_be32 m (4 * i) = of_nat (\<Sum>k<4. 256 ^ (3 - k) * unat (m ! (4 * i + k)))" if "i < 16" for i
    using that unfolding sum_less_4 get_unaligned_be32_def number_of_bytes by (simp add: byte_at_def)
  then show ?thesis
    by (simp add: be_words_def fips_words_def)
qed

lemma sha1_f_fips: "sha1_f t x y z = fips_f t x y z"
proof -
  have "(x AND (y XOR z)) XOR z = (x AND y) XOR (NOT x AND z)"
    "((x OR y) AND z) OR (x AND y) = (x AND y) XOR (x AND z) XOR (y AND z)"
    by (auto intro!: bit_word_eqI simp: bit_simps)
  then show ?thesis
    by (simp add: sha1_f_def fips_f_def)
qed

text \<open>The window holds the last sixteen words of the schedule.\<close>

definition sha1_window :: "u32 list \<Rightarrow> nat \<Rightarrow> u32 list \<Rightarrow> bool" where
  "sha1_window ms i w \<longleftrightarrow> length w = 16 \<and> (\<forall>k. k < max 16 i \<and> i \<le> k + 16 \<longrightarrow> w ! (k mod 16) = fips_W ms k)"

lemma sha1_window_val:
  assumes "sha1_window ms i w"
  shows "(if i < 16 then w ! i else blk_val w i) = fips_W ms i"
proof (cases "i < 16")
  case False
  then obtain j where j: "i = j + 16"
    by (metis add.commute le_Suc_ex not_less)
  have m: "(i + 13) mod 16 = (j + 13) mod 16" "(i + 8) mod 16 = (j + 8) mod 16" "(i + 2) mod 16 = (j + 2) mod 16"
    "i mod 16 = j mod 16"
    using mod_add_self2 [of "j + 13" 16] mod_add_self2 [of "j + 8" 16] mod_add_self2 [of "j + 2" 16] j
    by (simp_all add: ac_simps)
  have win: "w ! (k mod 16) = fips_W ms k" if "j \<le> k" "k < j + 16" for k
    using assms that j by (simp add: sha1_window_def)
  have "w ! ((i + 13) mod 16) = fips_W ms (j + 13)" "w ! ((i + 8) mod 16) = fips_W ms (j + 8)"
    "w ! ((i + 2) mod 16) = fips_W ms (j + 2)" "w ! (i mod 16) = fips_W ms j"
    unfolding m by (simp_all add: win)
  then show ?thesis
    using j by (subst fips_W.simps) (simp add: blk_val_def rol_rotl add.commute)
qed (use assms in \<open>simp add: sha1_window_def\<close>)

lemma sha1_window_step:
  assumes "sha1_window ms i w"
  shows "sha1_window ms (Suc i) (if i < 16 then w else w[i mod 16 := fips_W ms i])"
proof (cases "i < 16")
  case False
  have "w[i mod 16 := fips_W ms i] ! (k mod 16) = fips_W ms k" if k: "k < Suc i" "Suc i \<le> k + 16" for k
  proof (cases "k = i")
    case ne: False
    have "k mod 16 \<noteq> i mod 16"
    proof
      assume "k mod 16 = i mod 16"
      then have "16 dvd i - k"
        using k by (metis less_Suc_eq_le mod_eq_dvd_iff_nat)
      then show False
        using k ne dvd_imp_le [of 16 "i - k"] by auto
    qed
    then show ?thesis
      using assms k ne False by (simp add: sha1_window_def)
  qed (use assms in \<open>simp add: sha1_window_def\<close>)
  then show ?thesis
    using assms False by (simp add: sha1_window_def)
qed (use assms in \<open>auto simp: sha1_window_def\<close>)

lemma sha1_rounds:
  assumes "length ms = 16"
  shows "\<exists>w. fold sha1_round [0..<i] (ms, st) = (w, fold (fips_round ms) [0..<i] st) \<and> sha1_window ms i w"
proof (induction i)
  case 0
  then show ?case
    using assms by (auto simp: sha1_window_def fips_W.simps)
next
  case (Suc i)
  then obtain w where w: "fold sha1_round [0..<i] (ms, st) = (w, fold (fips_round ms) [0..<i] st)" "sha1_window ms i w"
    by blast
  obtain a b c d e where s: "fold (fips_round ms) [0..<i] st = (a, b, c, d, e)"
    by (metis prod.exhaust)
  have "sha1_round i (w, a, b, c, d, e) = (if i < 16 then w else w[i mod 16 := fips_W ms i], fips_round ms i (a, b, c, d, e))"
    using sha1_window_val [OF w(2)]
    by (simp add: sha1_round_def fips_round_def sha1_f_fips sha1_k_fips rol_rotl Let_def ac_simps split: if_splits)
  then show ?case
    using w s sha1_window_step [OF w(2)] by simp
qed

lemma sha1_transform_fips:
  assumes "length m = 64"
  shows "sha1_transform st m = fips_compress st m"
proof -
  have "snd (fold sha1_round [0..<80] (be_words m, st)) = fold (fips_round (fips_words m)) [0..<80] st"
    using sha1_rounds [of "be_words m" 80 st] be_words_fips [OF assms] by (auto simp: be_words_def)
  then show ?thesis
    by (simp add: sha1_transform_def fips_compress_def sha1_add_def split: prod.split)
qed

lemma sha1_out_fips:
  "sha1_out st = (case st of (h0, h1, h2, h3, h4) \<Rightarrow> concat (map (fips_bytes 4 \<circ> unat) [h0, h1, h2, h3, h4]))"
  by (simp add: sha1_out_def be32_bytes_fips split: prod.split)

lemma sha1_blocks_fips: "foldl sha1_transform st (blocks64 m) = foldl fips_compress st (blocks64 m)"
  by (rule foldl_cong) (auto simp: sha1_transform_fips dest: blocks64_length)

lemma sha1_count_stream:
  assumes "\<forall>d\<in>set ds. length d < 2 ^ 29"
  shows "sha_count (foldl sha1_update c ds) = sha_count c + of_nat (8 * length (concat ds))"
  using assms
proof (induction ds arbitrary: c)
  case (Cons d ds)
  have "unat (push_bit 3 (of_nat (length d) :: u32)) = 8 * length d"
    using Cons.prems by (simp add: unat_word_ariths unsigned_of_nat take_bit_eq_mod push_bit_eq_mult)
  moreover have "(ucast x :: u64) = of_nat (unat x)" for x :: u32
    by simp
  ultimately have "(ucast (push_bit 3 (of_nat (length d) :: u32)) :: u64) = of_nat (8 * length d)"
    by (simp only:)
  then show ?case
    using Cons by (simp add: sha1_update_count algebra_simps)
qed simp

lemma sha1_pad_eq:
  assumes "index < 64"
  shows "take (sha1_padlen index) (0x80 # replicate 63 0) = 0x80 # replicate ((119 - index) mod 64) (0 :: u8)"
proof (cases "index < 56")
  case True
  then have "(119 - index) mod 64 = 55 - index" "sha1_padlen index = Suc (55 - index)"
    using mod_add_self2 [of "55 - index" 64] by (simp_all add: sha1_padlen_def)
  then show ?thesis
    by (simp add: min_def)
next
  case False
  then have "(119 - index) mod 64 = 119 - index" "sha1_padlen index = Suc (119 - index)"
    using assms by (simp_all add: sha1_padlen_def)
  then show ?thesis
    using False by (simp add: min_def)
qed

lemma sha1_stream_digest:
  assumes "\<forall>d\<in>set ds. length d < 2 ^ 29"
  shows "sha1_final (foldl sha1_update sha1_init ds) = fips_sha1 (concat ds)"
proof -
  let ?c = "foldl sha1_update sha1_init ds" and ?m = "concat ds"
  let ?pad = "0x80 # replicate ((119 - length ?m mod 64) mod 64) (0 :: u8)" and ?bits = "be64_bytes (of_nat (8 * length ?m))"
  have "sha1_index ?c = length ?m mod 64"
    using length_sha1_pending [OF sha1.stream(1) [of ds]] sha1.stream(3) [of ds] by (simp only: length_leftover)
  then have pad: "take (sha1_padlen (sha1_index ?c)) (0x80 # replicate 63 0) = ?pad"
    by (simp add: sha1_pad_eq)
  have bits: "be64_bytes (sha_count ?c) = ?bits"
    using sha1_count_stream [OF assms, of sha1_init] by (simp add: sha1_init_def)
  have "sha1_final ?c = sha1_out (sha_state (foldl sha1_update sha1_init (ds @ [?pad, ?bits])))"
    by (simp add: sha1_final_def pad bits Let_def)
  also have "\<dots> = sha1_out (foldl sha1_transform (sha_state sha1_init) (blocks64 (?m @ ?pad @ ?bits)))"
    unfolding sha1.stream(2) by simp
  also have "\<dots> = fips_sha1 ?m"
    unfolding sha1_blocks_fips sha1_out_fips be64_bytes_fips by (simp add: fips_sha1_def fips_pad_def sha1_init_def)
  finally show ?thesis .
qed

text \<open>
  C31. The digest of a message fed to the context in any pieces (each below 512 MiB)
  is the SHA-1 digest of FIPS 180 of the whole message. The reference \<open>fips_sha1\<close> shares
  nothing with the code: it has its own constants, rotations, big-endian words, schedule of
  eighty words, padding and output. So the constants and the byte order of the code are
  those of the standard, its window of sixteen words and rewritten round functions compute
  the schedule, and the buffering loses and repeats nothing. The witness is the example
  of the standard, the message \<open>abc\<close>.
\<close>

theorem sha1_stream_correct:
  assumes "\<forall>d\<in>set ds. length d < 2 ^ 29"
  shows "sha1_final (foldl sha1_update sha1_init ds) = fips_sha1 (concat ds)"
  by (rule sha1_stream_digest [OF assms])

text \<open>The one-block example of the standard, the message \<open>abc\<close>.\<close>

lemmas sha1_eval = fold_upt_step [of sha1_round] sha1_round_def sha1_f_def sha1_k_def rol_def blk_val_def

lemma sha1_abc_rounds:
  "fold sha1_round [0..<8] ([0x61626380, 0, 0, 0, 0, 0, 0, 0, 0, 0, 0, 0, 0, 0, 0, 0x00000018],
       0x67452301, 0xefcdab89, 0x98badcfe, 0x10325476, 0xc3d2e1f0)
   = ([0x61626380, 0, 0, 0, 0, 0, 0, 0, 0, 0, 0, 0, 0, 0, 0, 0x00000018],
       0x9e8c07d4, 0x993e30c1, 0x0ff1f290, 0xb3f52677, 0xf3763846)"
  "fold sha1_round [8..<16] ([0x61626380, 0, 0, 0, 0, 0, 0, 0, 0, 0, 0, 0, 0, 0, 0, 0x00000018],
       0x9e8c07d4, 0x993e30c1, 0x0ff1f290, 0xb3f52677, 0xf3763846)
   = ([0x61626380, 0, 0, 0, 0, 0, 0, 0, 0, 0, 0, 0, 0, 0, 0, 0x00000018],
       0x20bdd62f, 0x196bee77, 0x644a3da5, 0x1181ed99, 0x18c623f9)"
  "fold sha1_round [16..<24] ([0x61626380, 0, 0, 0, 0, 0, 0, 0, 0, 0, 0, 0, 0, 0, 0, 0x00000018],
       0x20bdd62f, 0x196bee77, 0x644a3da5, 0x1181ed99, 0x18c623f9)
   = ([0xc2c4c700, 0, 0x00000030, 0x85898e01, 0, 0x00000060, 0x0b131c03, 0x00000030, 0, 0, 0, 0, 0, 0, 0, 0x00000018],
       0xd541f12d, 0x21283486, 0x0ce88eff, 0x868dec32, 0x7f67875f)"
  "fold sha1_round [24..<32] ([0xc2c4c700, 0, 0x00000030, 0x85898e01, 0, 0x00000060, 0x0b131c03, 0x00000030, 0, 0, 0, 0, 0, 0, 0, 0x00000018],
       0xd541f12d, 0x21283486, 0x0ce88eff, 0x868dec32, 0x7f67875f)
   = ([0xc2c4c700, 0, 0x00000030, 0x85898e01, 0, 0x00000060, 0x0b131c03, 0x00000030, 0x85898ec1, 0x16263806, 0, 0x00000180, 0x2c4c700c, 0x000000f0, 0x93afb507, 0x5898e048],
       0x3b845d33, 0x1267b407, 0x717eebd7, 0xa0dc2d4b, 0xd2aa1365)"
  "fold sha1_round [32..<40] ([0xc2c4c700, 0, 0x00000030, 0x85898e01, 0, 0x00000060, 0x0b131c03, 0x00000030, 0x85898ec1, 0x16263806, 0, 0x00000180, 0x2c4c700c, 0x000000f0, 0x93afb507, 0x5898e048],
       0x3b845d33, 0x1267b407, 0x717eebd7, 0xa0dc2d4b, 0xd2aa1365)
   = ([0x8e9a9202, 0x00000600, 0xb131c0f0, 0x16263bc6, 0x4ebed41e, 0x626380a1, 0x16263806, 0x000018c0, 0x85898ec1, 0x16263806, 0, 0x00000180, 0x2c4c700c, 0x000000f0, 0x93afb507, 0x5898e048],
       0x32de1cba, 0x4c986405, 0xf718e5cf, 0x03d447f6, 0xf72eec32)"
  "fold sha1_round [40..<48] ([0x8e9a9202, 0x00000600, 0xb131c0f0, 0x16263bc6, 0x4ebed41e, 0x626380a1, 0x16263806, 0x000018c0, 0x85898ec1, 0x16263806, 0, 0x00000180, 0x2c4c700c, 0x000000f0, 0x93afb507, 0x5898e048],
       0x32de1cba, 0x4c986405, 0xf718e5cf, 0x03d447f6, 0xf72eec32)
   = ([0x8e9a9202, 0x00000600, 0xb131c0f0, 0x16263bc6, 0x4ebed41e, 0x626380a1, 0x16263806, 0x000018c0, 0xd2e138c4, 0x00000f00, 0x3afb5079, 0x898e04e5, 0xe2ba3c2b, 0x000060c0, 0x053a37cd, 0x74458547],
       0xbead02ca, 0xa01b846c, 0x8714787c, 0x503ca382, 0xfb86c6ab)"
  "fold sha1_round [48..<56] ([0x8e9a9202, 0x00000600, 0xb131c0f0, 0x16263bc6, 0x4ebed41e, 0x626380a1, 0x16263806, 0x000018c0, 0xd2e138c4, 0x00000f00, 0x3afb5079, 0x898e04e5, 0xe2ba3c2b, 0x000060c0, 0x053a37cd, 0x74458547],
       0xbead02ca, 0xa01b846c, 0x8714787c, 0x503ca382, 0xfb86c6ab)
   = ([0xda9415ed, 0x26380a16, 0x626383a1, 0x4ebf54de, 0x3835b44b, 0x0000f600, 0x1e84c7a3, 0x98e04d98, 0xd2e138c4, 0x00000f00, 0x3afb5079, 0x898e04e5, 0xe2ba3c2b, 0x000060c0, 0x053a37cd, 0x74458547],
       0x5e6456af, 0x7b71f76d, 0x09fa7c76, 0x792410db, 0x8e11eb59)"
  "fold sha1_round [56..<64] ([0xda9415ed, 0x26380a16, 0x626383a1, 0x4ebf54de, 0x3835b44b, 0x0000f600, 0x1e84c7a3, 0x98e04d98, 0xd2e138c4, 0x00000f00, 0x3afb5079, 0x898e04e5, 0xe2ba3c2b, 0x000060c0, 0x053a37cd, 0x74458547],
       0x5e6456af, 0x7b71f76d, 0x09fa7c76, 0x792410db, 0x8e11eb59)
   = ([0xda9415ed, 0x26380a16, 0x626383a1, 0x4ebf54de, 0x3835b44b, 0x0000f600, 0x1e84c7a3, 0x98e04d98, 0x651d16a0, 0x62658ca1, 0x458544d6, 0x44584cb7, 0x7ba06619, 0x6380aea2, 0x0ae55269, 0x627b49a1],
       0x6b61c9e1, 0xb66c020b, 0x9523272c, 0xf5d5b051, 0x8fd4b796)"
  "fold sha1_round [64..<72] ([0xda9415ed, 0x26380a16, 0x626383a1, 0x4ebf54de, 0x3835b44b, 0x0000f600, 0x1e84c7a3, 0x98e04d98, 0x651d16a0, 0x62658ca1, 0x458544d6, 0x44584cb7, 0x7ba06619, 0x6380aea2, 0x0ae55269, 0x627b49a1],
       0x6b61c9e1, 0xb66c020b, 0x9523272c, 0xf5d5b051, 0x8fd4b796)
   = ([0x7cd45c9d, 0x000f0000, 0xfb50753a, 0xec6765e8, 0xba3c2be2, 0x0060c000, 0x3a37cd05, 0x458546f4, 0x651d16a0, 0x62658ca1, 0x458544d6, 0x44584cb7, 0x7ba06619, 0x6380aea2, 0x0ae55269, 0x627b49a1],
       0x39859de7, 0xc199f8c7, 0x8fc96230, 0x125c24f0, 0xde37534a)"
  "fold sha1_round [72..<80] ([0x7cd45c9d, 0x000f0000, 0xfb50753a, 0xec6765e8, 0xba3c2be2, 0x0060c000, 0x3a37cd05, 0x458546f4, 0x651d16a0, 0x62658ca1, 0x458544d6, 0x44584cb7, 0x7ba06619, 0x6380aea2, 0x0ae55269, 0x627b49a1],
       0x39859de7, 0xc199f8c7, 0x8fc96230, 0x125c24f0, 0xde37534a)
   = ([0x7cd45c9d, 0x000f0000, 0xfb50753a, 0xec6765e8, 0xba3c2be2, 0x0060c000, 0x3a37cd05, 0x458546f4, 0xb8599dd6, 0x380a1a26, 0x01e02203, 0xe7cc3456, 0xe6e60b69, 0x00f60a00, 0x5795ef4f, 0x822e0879],
       0x42541b35, 0x5738d5e1, 0x21834873, 0x681e6df6, 0xd8fdf6ad)"
  by (simp_all add: sha1_eval del: upt_Suc)

lemma fips_sha1_abc:
  "fips_sha1 [0x61, 0x62, 0x63] =
     [0xa9, 0x99, 0x3e, 0x36, 0x47, 0x06, 0x81, 0x6a, 0xba, 0x3e,
      0x25, 0x71, 0x78, 0x50, 0xc2, 0x6c, 0x9c, 0xd0, 0xd8, 0x9d]"
proof -
  let ?b = "[0x61, 0x62, 0x63, 0x80] @ replicate 52 0 @ [0, 0, 0, 0, 0, 0, 0, 24] :: bytes"
  let ?s = "(0x67452301, 0xefcdab89, 0x98badcfe, 0x10325476, 0xc3d2e1f0) :: sha1_state"
  have pad: "fips_pad [0x61, 0x62, 0x63] = ?b"
    by (simp add: fips_pad_def fips_bytes_def upt_rec)
  have w: "be_words ?b = [0x61626380, 0, 0, 0, 0, 0, 0, 0, 0, 0, 0, 0, 0, 0, 0, 24]"
    by (simp add: be_words_def upt_rec get_unaligned_be32_def byte_at_def nth_append nth_Cons')
  have r: "snd (fold sha1_round [0..<80] (be_words ?b, ?s)) = (0x42541b35, 0x5738d5e1, 0x21834873, 0x681e6df6, 0xd8fdf6ad)"
    unfolding w
    by (simp only: fold_upt_split [of 0 8 80] fold_upt_split [of 8 16 80] fold_upt_split [of 16 24 80]
        fold_upt_split [of 24 32 80] fold_upt_split [of 32 40 80] fold_upt_split [of 40 48 80]
        fold_upt_split [of 48 56 80] fold_upt_split [of 56 64 80] fold_upt_split [of 64 72 80] sha1_abc_rounds) simp
  have "foldl fips_compress ?s (blocks64 (fips_pad [0x61, 0x62, 0x63])) = sha1_transform ?s ?b"
    using blocks64_block [of ?b "[]"] unfolding pad sha1_blocks_fips [symmetric] by simp
  also have "\<dots> = (0xa9993e36, 0x4706816a, 0xba3e2571, 0x7850c26c, 0x9cd0d89d)"
    unfolding sha1_transform_def r by (simp add: sha1_add_def)
  finally show ?thesis
    by (simp add: fips_sha1_def fips_bytes_def upt_rec)
qed

theorem sha1_stream_correct_witness:
  "sha1_final (sha1_update (sha1_update sha1_init [0x61, 0x62]) [0x63]) =
     [0xa9, 0x99, 0x3e, 0x36, 0x47, 0x06, 0x81, 0x6a, 0xba, 0x3e,
      0x25, 0x71, 0x78, 0x50, 0xc2, 0x6c, 0x9c, 0xd0, 0xd8, 0x9d]"
  using sha1_stream_correct [of "[[0x61, 0x62], [0x63]]"] fips_sha1_abc by simp

end
