(* ===== verification/Md5_Sine.thy ===== *)
theory Md5_Sine
  imports Complex_Main
begin

text \<open>
  The constants of MD5 as RFC 1321 defines them: \<open>T[i]\<close> is the integer part of 4294967296
  times \<open>abs(sin(i))\<close>, with \<open>i\<close> in radians. Their values are computed with numbers of 112
  binary places: the sine and cosine of 1 from the Taylor series, the sines of larger numbers
  from the two before by \<open>sin (x + 1) + sin (x - 1) = 2 * sin x * cos 1\<close>, with an error bound that
  doubles at each step.
\<close>

definition rfc_T :: "nat \<Rightarrow> nat" where
  "rfc_T i = nat \<lfloor>4294967296 * \<bar>sin (real i)\<bar>\<rfloor>"

section \<open>Sines with 112 binary places\<close>

definition sin1 :: int where
  "sin1 = 4369167150966248696362992495346959"

definition cos1 :: int where
  "cos1 = 2805409965418265417902907108845682"

text \<open>From the sines of \<open>n - 1\<close> and \<open>n\<close> to those of \<open>n\<close> and \<open>n + 1\<close>.\<close>

definition sine_next :: "int \<times> int \<Rightarrow> int \<times> int" where
  "sine_next = (\<lambda>(p, s). (s, drop_bit 111 (cos1 * s) - p))"

definition sine_near :: "nat \<Rightarrow> int \<times> int \<Rightarrow> real \<Rightarrow> bool" where
  "sine_near n = (\<lambda>(p, s) e. \<bar>real_of_int p - 2 ^ 112 * sin (real n - 1)\<bar> \<le> e / 2
     \<and> \<bar>real_of_int s - 2 ^ 112 * sin (real n)\<bar> \<le> e)"

lemma sum_less_33: "(\<Sum>m<33. f m) = sum_list (map f [0..<33])" for f :: "nat \<Rightarrow> real"
  by (simp only: interv_sum_list_conv_sum_set_nat set_upt atLeast0LessThan)

lemma taylor_near:
  fixes x p S :: real
  assumes "\<bar>x - p\<bar> \<le> 1 / fact 33" "\<bar>S - 2 ^ 112 * p\<bar> \<le> 1 / 2"
  shows "\<bar>S - 2 ^ 112 * x\<bar> \<le> 1"
proof -
  have "2 ^ 112 * \<bar>x - p\<bar> \<le> 2 ^ 112 * (1 / fact 33)"
    by (rule mult_left_mono [OF assms(1)]) simp
  also have "\<dots> \<le> 1 / 2"
    by (simp add: fact_numeral)
  finally show ?thesis
    using assms(2) by (simp add: abs_le_iff abs_if split: if_splits)
qed

lemma sin1_near: "\<bar>real_of_int sin1 - 2 ^ 112 * sin 1\<bar> \<le> 1"
proof (rule taylor_near)
  show "\<bar>sin 1 - (\<Sum>m<33. sin_coeff m)\<bar> \<le> 1 / fact 33"
    using Maclaurin_sin_bound [of 1 33] by (simp add: divide_inverse)
  show "\<bar>real_of_int sin1 - 2 ^ 112 * (\<Sum>m<33. sin_coeff m)\<bar> \<le> 1 / 2"
    by (simp add: sum_less_33 sin1_def sin_coeff_def fact_numeral upt_rec)
qed

lemma cos1_near: "\<bar>real_of_int cos1 - 2 ^ 112 * cos 1\<bar> \<le> 1"
proof (rule taylor_near)
  obtain t where "cos 1 = (\<Sum>m<33. cos_coeff m) + cos (t + 1 / 2 * real 33 * pi) / fact 33"
    using Maclaurin_cos_expansion [of 1 33] by auto
  then show "\<bar>cos 1 - (\<Sum>m<33. cos_coeff m)\<bar> \<le> 1 / fact 33"
    using abs_cos_le_one [of "t + 1 / 2 * real 33 * pi"] by (simp add: divide_right_mono)
  show "\<bar>real_of_int cos1 - 2 ^ 112 * (\<Sum>m<33. cos_coeff m)\<bar> \<le> 1 / 2"
    by (simp add: sum_less_33 cos1_def cos_coeff_def fact_numeral upt_rec)
qed

lemma cos1_bound: "\<bar>real_of_int cos1 / 2 ^ 111\<bar> \<le> 11 / 10"
  by (simp add: cos1_def)

lemma sine_next_near:
  assumes "sine_near n (p, s) e" "8 \<le> e"
  shows "sine_near (Suc n) (sine_next (p, s)) (2 * e)"
proof -
  let ?P = "real_of_int p" and ?S = "real_of_int s" and ?C = "real_of_int cos1" and ?x = "sin (real n)"
  have near: "\<bar>?P - 2 ^ 112 * sin (real n - 1)\<bar> \<le> e / 2" "\<bar>?S - 2 ^ 112 * ?x\<bar> \<le> e"
    using assms(1) by (simp_all add: sine_near_def)
  have "?C * ?S / 2 ^ 111 - 2 ^ 112 * (2 * ?x * cos 1)
      = (?S - 2 ^ 112 * ?x) * (?C / 2 ^ 111) + 2 * ?x * (?C - 2 ^ 112 * cos 1)"
    by (simp add: field_simps)
  also have "\<bar>\<dots>\<bar> \<le> \<bar>?S - 2 ^ 112 * ?x\<bar> * \<bar>?C / 2 ^ 111\<bar> + \<bar>2 * ?x\<bar> * \<bar>?C - 2 ^ 112 * cos 1\<bar>"
    by (rule order_trans [OF abs_triangle_ineq]) (simp only: abs_mult order_refl)
  also have "\<dots> \<le> e * (11 / 10) + 2 * 1"
    using near cos1_near abs_sin_le_one [of "real n"] cos1_bound
    by (intro add_mono mult_mono) (simp_all add: abs_mult)
  finally have prod: "\<bar>?C * ?S / 2 ^ 111 - 2 ^ 112 * (2 * ?x * cos 1)\<bar> \<le> e * (11 / 10) + 2"
    by simp
  have "drop_bit 111 (cos1 * s) = cos1 * s div 2 ^ 111"
    by (simp only: drop_bit_eq_div)
  then have round: "\<bar>real_of_int (drop_bit 111 (cos1 * s)) - ?C * ?S / 2 ^ 111\<bar> \<le> 1"
    using real_of_int_div4 [of "cos1 * s" "2 ^ 111"] real_of_int_div3 [of "cos1 * s" "2 ^ 111"] by simp
  have "sin (real (Suc n)) = 2 * ?x * cos 1 - sin (real n - 1)"
    by (simp add: sin_add sin_diff add.commute [of 1])
  then have "\<bar>(real_of_int (drop_bit 111 (cos1 * s)) - ?P) - 2 ^ 112 * sin (real (Suc n))\<bar> \<le> 2 * e"
    using near(1) prod round assms(2) by (simp only: right_diff_distrib)
  then show ?thesis
    using near(2) by (simp add: sine_near_def sine_next_def)
qed

section \<open>The constants\<close>

text \<open>The values of \<open>ts\<close> are certain, with an error up to \<open>2 ^ 66\<close> in the last place.\<close>

fun sine_values :: "nat list \<Rightarrow> int \<times> int \<Rightarrow> bool" where
  "sine_values [] ps = True"
| "sine_values (t # ts) ps \<longleftrightarrow>
     int t * 2 ^ 80 + 2 ^ 66 \<le> \<bar>snd ps\<bar> \<and> \<bar>snd ps\<bar> + 2 ^ 66 < (int t + 1) * 2 ^ 80 \<and> sine_values ts (sine_next ps)"

lemma rfc_T_eqI:
  assumes "sine_near n ps e" "e \<le> 2 ^ 66"
    and "int t * 2 ^ 80 + 2 ^ 66 \<le> \<bar>snd ps\<bar>" "\<bar>snd ps\<bar> + 2 ^ 66 < (int t + 1) * 2 ^ 80"
  shows "rfc_T n = t"
proof -
  let ?s = "real_of_int (snd ps)" and ?x = "sin (real n)"
  have "\<bar>?s - 2 ^ 112 * ?x\<bar> \<le> 2 ^ 66"
    using assms(1,2) by (auto simp: sine_near_def split: prod.splits)
  moreover have "\<bar>2 ^ 112 * ?x\<bar> = 2 ^ 112 * \<bar>?x\<bar>"
    by (simp add: abs_mult)
  ultimately have "\<bar>?s\<bar> - 2 ^ 66 \<le> 2 ^ 112 * \<bar>?x\<bar>" "2 ^ 112 * \<bar>?x\<bar> \<le> \<bar>?s\<bar> + 2 ^ 66"
    by linarith+
  moreover have "real_of_int (int t * 2 ^ 80 + 2 ^ 66) \<le> real_of_int \<bar>snd ps\<bar>"
      "real_of_int (\<bar>snd ps\<bar> + 2 ^ 66) < real_of_int ((int t + 1) * 2 ^ 80)"
    using assms(3,4) by (simp_all only: of_int_le_iff of_int_less_iff)
  ultimately have "\<lfloor>4294967296 * \<bar>?x\<bar>\<rfloor> = int t"
    by (intro floor_unique) simp_all
  then show ?thesis
    by (simp add: rfc_T_def)
qed

lemma sine_values_rfc_T:
  assumes "sine_values ts ps" "sine_near n ps (2 ^ k)" "3 \<le> k" "k + length ts \<le> 67"
  shows "map rfc_T [n..<n + length ts] = ts"
  using assms
proof (induction ts arbitrary: n ps k)
  case (Cons t ts)
  have e: "(2 :: real) ^ k \<le> 2 ^ 66" "8 \<le> (2 :: real) ^ k"
    using Cons.prems(3,4) power_increasing [of k 66 "2 :: real"] power_increasing [of 3 k "2 :: real"] by simp_all
  have "rfc_T n = t"
    by (rule rfc_T_eqI [OF Cons.prems(2) e(1)]) (use Cons.prems(1) in simp_all)
  moreover have "sine_near (Suc n) (sine_next ps) (2 ^ Suc k)"
    using sine_next_near [of n "fst ps" "snd ps" "2 ^ k"] Cons.prems(2) e(2) by simp
  then have "map rfc_T [Suc n..<Suc n + length ts] = ts"
    by (rule Cons.IH [rotated]) (use Cons.prems in simp_all)
  ultimately show ?case
    by (simp add: upt_conv_Cons del: upt_Suc)
qed simp

definition rfc_T_table :: "nat list" where
  "rfc_T_table =
     [0xd76aa478, 0xe8c7b756, 0x242070db, 0xc1bdceee, 0xf57c0faf, 0x4787c62a,
      0xa8304613, 0xfd469501, 0x698098d8, 0x8b44f7af, 0xffff5bb1, 0x895cd7be,
      0x6b901122, 0xfd987193, 0xa679438e, 0x49b40821, 0xf61e2562, 0xc040b340,
      0x265e5a51, 0xe9b6c7aa, 0xd62f105d, 0x02441453, 0xd8a1e681, 0xe7d3fbc8,
      0x21e1cde6, 0xc33707d6, 0xf4d50d87, 0x455a14ed, 0xa9e3e905, 0xfcefa3f8,
      0x676f02d9, 0x8d2a4c8a, 0xfffa3942, 0x8771f681, 0x6d9d6122, 0xfde5380c,
      0xa4beea44, 0x4bdecfa9, 0xf6bb4b60, 0xbebfbc70, 0x289b7ec6, 0xeaa127fa,
      0xd4ef3085, 0x04881d05, 0xd9d4d039, 0xe6db99e5, 0x1fa27cf8, 0xc4ac5665,
      0xf4292244, 0x432aff97, 0xab9423a7, 0xfc93a039, 0x655b59c3, 0x8f0ccc92,
      0xffeff47d, 0x85845dd1, 0x6fa87e4f, 0xfe2ce6e0, 0xa3014314, 0x4e0811a1,
      0xf7537e82, 0xbd3af235, 0x2ad7d2bb, 0xeb86d391]"

lemma length_rfc_T_table: "length rfc_T_table = 64"
  by (simp add: rfc_T_table_def)

lemma sine_values_table: "sine_values rfc_T_table (0, sin1)"
  by (simp add: rfc_T_table_def sine_next_def sin1_def cos1_def)

lemma rfc_T_values: "map rfc_T [1..<65] = rfc_T_table"
proof -
  have "sine_near 1 (0, sin1) (2 ^ 3)"
    using sin1_near by (simp add: sine_near_def)
  then show ?thesis
    using sine_values_rfc_T [OF sine_values_table, of 1 3] length_rfc_T_table by (simp del: upt_Suc)
qed

end
