(* ===== verification/Md5.thy ===== *)
theory Md5
  imports Block_Hash Md5_Sine
begin

text \<open>
  The MD5 digest of \<open>usr/iscsi/md5.c\<close>: the 64 steps of the compression function in
  the order of the source, the buffered update with its two-word byte count, and the
  final padding. The theorems compare the steps with the round functions, word order,
  shifts and sines (\<open>Md5_Sine\<close>) of RFC 1321 and the streamed digest with the digest of the padded message.
  The context is the memory of a little-endian machine.
\<close>

unbundle bit_operations_syntax

section \<open>The compression function\<close>

type_synonym md5_state = "u32 \<times> u32 \<times> u32 \<times> u32"

definition md5_F1 :: "u32 \<Rightarrow> u32 \<Rightarrow> u32 \<Rightarrow> u32" where
  "md5_F1 x y z = z XOR (x AND (y XOR z))"

definition md5_F2 :: "u32 \<Rightarrow> u32 \<Rightarrow> u32 \<Rightarrow> u32" where
  "md5_F2 x y z = md5_F1 z x y"

definition md5_F3 :: "u32 \<Rightarrow> u32 \<Rightarrow> u32 \<Rightarrow> u32" where
  "md5_F3 x y z = x XOR y XOR z"

definition md5_F4 :: "u32 \<Rightarrow> u32 \<Rightarrow> u32 \<Rightarrow> u32" where
  "md5_F4 x y z = y XOR (x OR NOT z)"

definition md5_F :: "nat \<Rightarrow> u32 \<Rightarrow> u32 \<Rightarrow> u32 \<Rightarrow> u32" where
  "md5_F n = (if n = 1 then md5_F1 else if n = 2 then md5_F2 else if n = 3 then md5_F3 else md5_F4)"

text \<open>
  \<open>MD5STEP (f, w, x, y, z, in, s)\<close>: the variable in the role of \<open>w\<close> gets its new
  value, and the next step has the roles shifted by one.
\<close>

definition MD5STEP :: "u32 list \<Rightarrow> nat \<times> nat \<times> u32 \<times> nat \<Rightarrow> md5_state \<Rightarrow> md5_state" where
  "MD5STEP inp = (\<lambda>(f, i, k, s) (w, x, y, z).
     let w1 = w + (md5_F f x y z + (inp ! i + k));
         w2 = (push_bit s w1 OR drop_bit (32 - s) w1) + x
     in (z, w2, x, y))"

text \<open>Function, input word, constant and shift of each step.\<close>

definition md5_steps :: "(nat \<times> nat \<times> u32 \<times> nat) list" where
  "md5_steps =
     [(1, 0, 0xd76aa478, 7), (1, 1, 0xe8c7b756, 12), (1, 2, 0x242070db, 17), (1, 3, 0xc1bdceee, 22),
      (1, 4, 0xf57c0faf, 7), (1, 5, 0x4787c62a, 12), (1, 6, 0xa8304613, 17), (1, 7, 0xfd469501, 22),
      (1, 8, 0x698098d8, 7), (1, 9, 0x8b44f7af, 12), (1, 10, 0xffff5bb1, 17), (1, 11, 0x895cd7be, 22),
      (1, 12, 0x6b901122, 7), (1, 13, 0xfd987193, 12), (1, 14, 0xa679438e, 17), (1, 15, 0x49b40821, 22),
      (2, 1, 0xf61e2562, 5), (2, 6, 0xc040b340, 9), (2, 11, 0x265e5a51, 14), (2, 0, 0xe9b6c7aa, 20),
      (2, 5, 0xd62f105d, 5), (2, 10, 0x02441453, 9), (2, 15, 0xd8a1e681, 14), (2, 4, 0xe7d3fbc8, 20),
      (2, 9, 0x21e1cde6, 5), (2, 14, 0xc33707d6, 9), (2, 3, 0xf4d50d87, 14), (2, 8, 0x455a14ed, 20),
      (2, 13, 0xa9e3e905, 5), (2, 2, 0xfcefa3f8, 9), (2, 7, 0x676f02d9, 14), (2, 12, 0x8d2a4c8a, 20),
      (3, 5, 0xfffa3942, 4), (3, 8, 0x8771f681, 11), (3, 11, 0x6d9d6122, 16), (3, 14, 0xfde5380c, 23),
      (3, 1, 0xa4beea44, 4), (3, 4, 0x4bdecfa9, 11), (3, 7, 0xf6bb4b60, 16), (3, 10, 0xbebfbc70, 23),
      (3, 13, 0x289b7ec6, 4), (3, 0, 0xeaa127fa, 11), (3, 3, 0xd4ef3085, 16), (3, 6, 0x04881d05, 23),
      (3, 9, 0xd9d4d039, 4), (3, 12, 0xe6db99e5, 11), (3, 15, 0x1fa27cf8, 16), (3, 2, 0xc4ac5665, 23),
      (4, 0, 0xf4292244, 6), (4, 7, 0x432aff97, 10), (4, 14, 0xab9423a7, 15), (4, 5, 0xfc93a039, 21),
      (4, 12, 0x655b59c3, 6), (4, 3, 0x8f0ccc92, 10), (4, 10, 0xffeff47d, 15), (4, 1, 0x85845dd1, 21),
      (4, 8, 0x6fa87e4f, 6), (4, 15, 0xfe2ce6e0, 10), (4, 6, 0xa3014314, 15), (4, 13, 0x4e0811a1, 21),
      (4, 4, 0xf7537e82, 6), (4, 11, 0xbd3af235, 10), (4, 2, 0x2ad7d2bb, 15), (4, 9, 0xeb86d391, 21)]"

definition md5_add :: "md5_state \<Rightarrow> md5_state \<Rightarrow> md5_state" where
  "md5_add = (\<lambda>(a, b, c, d) (a', b', c', d'). (a + a', b + b', c + c', d + d'))"

definition get_le32 :: "bytes \<Rightarrow> nat \<Rightarrow> u32" where
  "get_le32 b i = ucast (byte_at b i) OR push_bit 8 (ucast (byte_at b (i + 1))) OR
     push_bit 16 (ucast (byte_at b (i + 2))) OR push_bit 24 (ucast (byte_at b (i + 3)))"

definition le32_bytes :: "u32 \<Rightarrow> bytes" where
  "le32_bytes w = [ucast w, ucast (drop_bit 8 w), ucast (drop_bit 16 w), ucast (drop_bit 24 w)]"

definition le_words :: "bytes \<Rightarrow> u32 list" where
  "le_words xs = map (\<lambda>i. get_le32 xs (4 * i)) [0..<16]"

definition MD5Transform :: "md5_state \<Rightarrow> bytes \<Rightarrow> md5_state" where
  "MD5Transform buf inp = md5_add buf (fold (MD5STEP (le_words inp)) md5_steps buf)"

section \<open>Contexts\<close>

record MD5Context =
  md_buf :: md5_state
  md_bytes :: "u32 \<times> u32"
  md_in :: bytes

text \<open>\<open>MD5Init\<close> leaves the buffer as it is.\<close>

definition MD5Init :: "bytes \<Rightarrow> MD5Context" where
  "MD5Init junk = \<lparr>md_buf = (0x67452301, 0xefcdab89, 0x98badcfe, 0x10325476), md_bytes = (0, 0), md_in = junk\<rparr>"

text \<open>The loop of \<open>MD5Update\<close> over whole blocks and the copy of the rest.\<close>

function md5_loop :: "md5_state \<Rightarrow> bytes \<Rightarrow> bytes \<Rightarrow> md5_state \<times> bytes" where
  "md5_loop buf inp data =
     (if length data < 64 then (buf, put_bytes inp 0 data)
      else md5_loop (MD5Transform buf (take 64 data)) (take 64 data) (drop 64 data))"
  by pat_completeness auto
termination by (relation "measure (\<lambda>(buf, inp, data). length data)") auto

declare md5_loop.simps [simp del]

definition md5_count :: "u32 \<times> u32 \<Rightarrow> u32 \<Rightarrow> u32 \<times> u32" where
  "md5_count = (\<lambda>(lo, hi) len. (lo + len, if lo + len < lo then hi + 1 else hi))"

definition md5_index :: "MD5Context \<Rightarrow> nat" where
  "md5_index c = unat (fst (md_bytes c) AND 0x3f)"

definition MD5Update :: "MD5Context \<Rightarrow> bytes \<Rightarrow> MD5Context" where
  "MD5Update c data =
     (let t = 64 - md5_index c;
          c1 = c\<lparr>md_bytes := md5_count (md_bytes c) (of_nat (length data))\<rparr>
      in if length data < t then c1\<lparr>md_in := put_bytes (md_in c) (64 - t) data\<rparr>
         else let inp = put_bytes (md_in c) (64 - t) (take t data);
                  (buf, inp') = md5_loop (MD5Transform (md_buf c) inp) inp (drop t data)
              in c1\<lparr>md_buf := buf, md_in := inp'\<rparr>)"

definition md5_out :: "md5_state \<Rightarrow> bytes" where
  "md5_out = (\<lambda>(a, b, c, d). le32_bytes a @ le32_bytes b @ le32_bytes c @ le32_bytes d)"

definition MD5Final :: "MD5Context \<Rightarrow> bytes" where
  "MD5Final c =
     (let count = md5_index c; (lo, hi) = md_bytes c;
          inp = put_bytes (md_in c) count [0x80];
          (buf1, inp1) =
            (if 55 < count then
               (MD5Transform (md_buf c) (put_bytes inp (count + 1) (replicate (63 - count) 0)),
                put_bytes (put_bytes inp (count + 1) (replicate (63 - count) 0)) 0 (replicate 56 0))
             else (md_buf c, put_bytes inp (count + 1) (replicate (55 - count) 0)));
          inp2 = put_bytes (put_bytes inp1 56 (le32_bytes (push_bit 3 lo))) 60
                   (le32_bytes (push_bit 3 hi OR drop_bit 29 lo))
      in md5_out (MD5Transform buf1 inp2))"

section \<open>Streaming\<close>

lemma md5_loop_blocks:
  "length inp = 64 \<Longrightarrow> md5_loop buf inp data =
     (foldl MD5Transform buf (blocks64 data), put_bytes (last (inp # blocks64 data)) 0 (leftover data))"
proof (induction buf inp data rule: md5_loop.induct)
  case (1 buf inp data)
  show ?case
  proof (cases "length data < 64")
    case False
    then obtain b r where d: "data = b @ r" "length b = 64"
      using split_block [of data] by auto
    moreover have "md5_loop buf inp data = md5_loop (MD5Transform buf (take 64 data)) (take 64 data) (drop 64 data)"
      using False by (subst md5_loop.simps) simp
    ultimately show ?thesis
      using 1(1) [OF False] by (simp add: blocks64_block leftover_block)
  qed (simp add: md5_loop.simps)
qed

definition md5_wf :: "MD5Context \<Rightarrow> bool" where
  "md5_wf c \<longleftrightarrow> length (md_in c) = 64"

definition md5_pending :: "MD5Context \<Rightarrow> bytes" where
  "md5_pending c = take (md5_index c) (md_in c)"

lemma md5_index_mod: "md5_index c = unat (fst (md_bytes c)) mod 64"
proof -
  have "fst (md_bytes c) AND 0x3f = take_bit 6 (fst (md_bytes c))"
    by (simp add: take_bit_eq_mask mask_numeral)
  then show ?thesis
    by (simp add: md5_index_def take_bit_eq_mod unat_mod_distrib)
qed

lemma md5_index_less: "md5_index c < 64"
  by (simp add: md5_index_mod)

lemma length_md5_pending: "md5_wf c \<Longrightarrow> length (md5_pending c) = md5_index c"
  using md5_index_less [of c] by (simp add: md5_wf_def md5_pending_def)

lemma md5_update_bytes: "md_bytes (MD5Update c data) = md5_count (md_bytes c) (of_nat (length data))"
  by (simp add: MD5Update_def Let_def split: prod.split)

lemma md5_index_update: "md5_index (MD5Update c data) = (md5_index c + length data) mod 64"
proof -
  obtain lo hi where b: "md_bytes c = (lo, hi)"
    by fastforce
  have "unat (lo + of_nat n) mod 64 = (unat lo + n) mod 64" for n
    by (simp add: unat_word_ariths unsigned_of_nat take_bit_eq_mod mod_mod_cancel mod_add_right_eq)
  then show ?thesis
    by (simp add: md5_index_mod md5_update_bytes md5_count_def b mod_add_left_eq)
qed


lemma md5_update_short:
  assumes "md5_wf c" "md5_index c + length data < 64"
  shows "md_buf (MD5Update c data) = md_buf c" "md5_pending (MD5Update c data) = md5_pending c @ data"
    "length (md_in (MD5Update c data)) = 64"
proof -
  have l: "length data < 64 - md5_index c" "64 - (64 - md5_index c) = md5_index c"
    using assms(2) by simp_all
  have "md5_index (MD5Update c data) = md5_index c + length data"
    using md5_index_update [of c data] assms(2) by simp
  then show "md5_pending (MD5Update c data) = md5_pending c @ data"
    using assms l by (simp add: md5_pending_def MD5Update_def Let_def put_bytes_def md5_wf_def)
  show "md_buf (MD5Update c data) = md_buf c" "length (md_in (MD5Update c data)) = 64"
    using assms l by (simp_all add: MD5Update_def Let_def put_bytes_def md5_wf_def)
qed

lemma length_last_blocks64: "length x = 64 \<Longrightarrow> length (last (x # blocks64 d)) = 64"
proof (induction d arbitrary: x rule: blocks64.induct)
  case (1 d)
  show ?case
  proof (cases "length d < 64")
    case False
    then obtain b r where "d = b @ r" "length b = 64"
      using split_block [of d] by auto
    then show ?thesis
      using 1(1) [OF False, of b] by (simp add: blocks64_block)
  qed (use 1(2) in simp)
qed

lemma md5_update_long:
  assumes "md5_wf c" "64 \<le> md5_index c + length data"
  shows "md_buf (MD5Update c data) = foldl MD5Transform (md_buf c) (blocks64 (md5_pending c @ data))"
    "md5_pending (MD5Update c data) = leftover (md5_pending c @ data)" "length (md_in (MD5Update c data)) = 64"
proof -
  let ?j = "md5_index c"
  let ?b = "md5_pending c @ take (64 - ?j) data" and ?r = "drop (64 - ?j) data"
  let ?l = "last (?b # blocks64 ?r)"
  have j: "?j < 64" "length (md5_pending c) = ?j" "\<not> length data < 64 - ?j" "64 - (64 - ?j) = ?j"
    using assms by (simp_all add: md5_index_less length_md5_pending less_imp_le)
  have b: "put_bytes (md_in c) ?j (take (64 - ?j) data) = ?b" "length ?b = 64"
    using assms j by (simp_all add: put_bytes_def md5_pending_def md5_wf_def)
  have m: "md5_pending c @ data = ?b @ ?r"
    by simp
  have upd: "md_buf (MD5Update c data) = foldl MD5Transform (MD5Transform (md_buf c) ?b) (blocks64 ?r)"
    "md_in (MD5Update c data) = put_bytes ?l 0 (leftover ?r)"
    using j b md5_loop_blocks [OF b(2), of "MD5Transform (md_buf c) ?b" ?r]
    by (simp_all add: MD5Update_def Let_def)
  then show "md_buf (MD5Update c data) = foldl MD5Transform (md_buf c) (blocks64 (md5_pending c @ data))"
    unfolding m blocks64_block [OF b(2)] by simp
  have l: "leftover (md5_pending c @ data) = leftover ?r"
    unfolding m leftover_block [OF b(2)] ..
  have "md5_index (MD5Update c data) = length (leftover ?r)"
    using md5_index_update [of c data] j l length_leftover [of "md5_pending c @ data"] by simp
  moreover have buf: "md_in (MD5Update c data) = leftover ?r @ drop (length (leftover ?r)) ?l"
    using upd by (simp add: put_bytes_def)
  ultimately show "md5_pending (MD5Update c data) = leftover (md5_pending c @ data)"
    unfolding l md5_pending_def [of "MD5Update c data"] by simp
  show "length (md_in (MD5Update c data)) = 64"
    unfolding buf using length_last_blocks64 [OF b(2), of ?r] length_leftover_less [of ?r]
    by (simp only: length_append length_drop)
qed

lemma md5_wf_update: "md5_wf c \<Longrightarrow> md5_wf (MD5Update c data)"
  using md5_update_short(3) [of c data] md5_update_long(3) [of c data]
  by (cases "md5_index c + length data < 64") (simp_all add: md5_wf_def)

interpretation md5: block_hash MD5Transform md_buf md5_pending md5_wf "MD5Init (replicate 64 0)" MD5Update
proof
  show "md5_wf (MD5Init (replicate 64 0))" "md5_pending (MD5Init (replicate 64 0)) = []"
    by (simp_all add: md5_wf_def MD5Init_def md5_pending_def md5_index_mod)
  fix c data
  assume c: "md5_wf c"
  show "md5_wf (MD5Update c data)"
    using c by (rule md5_wf_update)
  show "md_buf (MD5Update c data) = foldl MD5Transform (md_buf c) (blocks64 (md5_pending c @ data))"
    "md5_pending (MD5Update c data) = leftover (md5_pending c @ data)"
    using md5_update_short [OF c, of data] md5_update_long [OF c, of data] length_md5_pending [OF c]
    by (cases "md5_index c + length data < 64"; simp)+
qed

section \<open>The byte count\<close>

definition md5_len :: "u32 \<times> u32 \<Rightarrow> u64" where
  "md5_len = (\<lambda>(lo, hi). ucast lo OR push_bit 32 (ucast hi))"

lemma md5_len_nat: "md5_len (lo, hi) = of_nat (unat lo + 2 ^ 32 * unat hi)"
proof -
  have "md5_len (lo, hi) = ucast lo + push_bit 32 (ucast hi)"
    unfolding md5_len_def prod.case
    by (rule disjunctive_add [symmetric]) (auto simp: bit_simps dest: bit_imp_le_length)
  also have "\<dots> = of_nat (unat lo) + 2 ^ 32 * of_nat (unat hi)"
    by (simp add: push_bit_eq_mult)
  finally show ?thesis
    by simp
qed

lemma md5_len_wrap: "of_nat (a + 2 ^ 32 * (b mod 2 ^ 32)) = (of_nat (a + 2 ^ 32 * b) :: u64)"
proof -
  have "2 ^ 32 * (b mod 2 ^ 32) = 2 ^ 32 * b mod (2 ^ 64 :: nat)"
    using mult_mod_right [of "2 ^ 32" b "2 ^ 32"] by simp
  then have "(of_nat (2 ^ 32 * (b mod 2 ^ 32)) :: u64) = of_nat (2 ^ 32 * b)"
    by (simp only: word_of_nat_eq_iff take_bit_eq_mod) simp
  then show ?thesis
    by simp
qed

lemma md5_count_len:
  assumes "n < 2 ^ 32"
  shows "md5_len (md5_count b (of_nat n)) = md5_len b + of_nat n"
proof -
  obtain lo hi where b: "b = (lo, hi)"
    by fastforce
  have n: "unat (of_nat n :: u32) = n"
    using assms by (simp add: unsigned_of_nat take_bit_nat_eq_self)
  have carry: "lo + of_nat n < lo \<longleftrightarrow> 2 ^ 32 \<le> unat lo + n"
    using no_olen_add_nat [of lo "of_nat n"] n by (auto simp: not_le)
  show ?thesis
  proof (cases "unat lo + n < 2 ^ 32")
    case True
    then have "unat (lo + of_nat n) = unat lo + n"
      using n by (simp add: unat_word_ariths)
    then show ?thesis
      using True carry by (simp add: b md5_count_def md5_len_nat)
  next
    case False
    have "unat lo < 2 ^ 32"
      using unsigned_less [of lo, where 'a = nat] by simp
    then have "(unat lo + n) mod 2 ^ 32 = unat lo + n - 2 ^ 32"
      using False assms by (simp add: mod_if)
    then have lo: "unat (lo + of_nat n) + 2 ^ 32 = unat lo + n"
      using False n by (simp add: unat_word_ariths)
    have hi: "unat (hi + 1) = (unat hi + 1) mod 2 ^ 32"
      by (simp add: unat_word_ariths)
    have "md5_len (md5_count b (of_nat n)) = of_nat (unat (lo + of_nat n) + 2 ^ 32 * (unat hi + 1))"
      using False carry unfolding b md5_count_def prod.case md5_len_nat
      by (simp only: not_less if_True hi md5_len_wrap)
    also have "\<dots> = of_nat (unat lo + n + 2 ^ 32 * unat hi)"
      unfolding lo [symmetric] by (simp add: algebra_simps)
    also have "\<dots> = md5_len b + of_nat n"
      by (simp add: b md5_len_nat)
    finally show ?thesis .
  qed
qed

lemma md5_len_stream:
  assumes "\<forall>d\<in>set ds. length d < 2 ^ 32"
  shows "md5_len (md_bytes (foldl MD5Update c ds)) = md5_len (md_bytes c) + of_nat (length (concat ds))"
  using assms
proof (induction ds arbitrary: c)
  case (Cons d ds)
  have "md5_len (md_bytes (MD5Update c d)) = md5_len (md_bytes c) + of_nat (length d)"
    unfolding md5_update_bytes using Cons.prems by (intro md5_count_len) simp
  then show ?case
    using Cons.IH [of "MD5Update c d"] Cons.prems by (simp add: ac_simps)
qed simp

lemma md5_len_bits:
  "(ucast (push_bit 3 (md5_len (lo, hi))) :: u32) = push_bit 3 lo"
  "(ucast (drop_bit 32 (push_bit 3 (md5_len (lo, hi)))) :: u32) = push_bit 3 hi OR drop_bit 29 lo"
  unfolding md5_len_def prod.case
  by (rule bit_word_eqI, force simp: bit_simps dest: bit_imp_le_length)+

section \<open>The reference\<close>

definition rfc_f :: "nat \<Rightarrow> u32 \<Rightarrow> u32 \<Rightarrow> u32 \<Rightarrow> u32" where
  "rfc_f i x y z =
     (if i < 16 then (x AND y) OR (NOT x AND z)
      else if i < 32 then (x AND z) OR (y AND NOT z)
      else if i < 48 then x XOR y XOR z
      else y XOR (x OR NOT z))"

definition rfc_k :: "nat \<Rightarrow> nat" where
  "rfc_k i = (if i < 16 then i else if i < 32 then (5 * i + 1) mod 16
     else if i < 48 then (3 * i + 5) mod 16 else 7 * i mod 16)"

definition rfc_s :: "nat \<Rightarrow> nat" where
  "rfc_s i = (if i < 16 then [7, 12, 17, 22] else if i < 32 then [5, 9, 14, 20]
     else if i < 48 then [4, 11, 16, 23] else [6, 10, 15, 21]) ! (i mod 4)"

text \<open>Little-endian numbers: the words of a block, and the bytes of a number.\<close>

definition rfc_words :: "bytes \<Rightarrow> u32 list" where
  "rfc_words m = map (\<lambda>i. of_nat (\<Sum>k<4. 256 ^ k * unat (m ! (4 * i + k)))) [0..<16]"

definition rfc_bytes :: "nat \<Rightarrow> nat \<Rightarrow> bytes" where
  "rfc_bytes n x = map (\<lambda>k. of_nat (x div 256 ^ k mod 256)) [0..<n]"

text \<open>
  One operation \<open>[abcd k s i]\<close>: \<open>a = b + ((a + f (b, c, d) + X[k] + T[i]) <<< s)\<close>. The RFC counts
  the operations from 1.
\<close>

definition rfc_step :: "u32 list \<Rightarrow> nat \<Rightarrow> md5_state \<Rightarrow> md5_state" where
  "rfc_step X i = (\<lambda>(a, b, c, d).
     (d, b + word_rotl (rfc_s i) (a + rfc_f i b c d + X ! rfc_k i + of_nat (rfc_T (i + 1))), b, c))"

definition rfc_compress :: "md5_state \<Rightarrow> bytes \<Rightarrow> md5_state" where
  "rfc_compress = (\<lambda>(AA, BB, CC, DD) m.
     case fold (rfc_step (rfc_words m)) [0..<64] (AA, BB, CC, DD) of
       (A, B, C, D) \<Rightarrow> (A + AA, B + BB, C + CC, D + DD))"

definition rfc_pad :: "bytes \<Rightarrow> bytes" where
  "rfc_pad m = m @ 0x80 # replicate ((119 - length m mod 64) mod 64) 0 @ rfc_bytes 8 (8 * length m)"

definition rfc_md5 :: "bytes \<Rightarrow> bytes" where
  "rfc_md5 m =
     (case foldl rfc_compress (0x67452301, 0xefcdab89, 0x98badcfe, 0x10325476) (blocks64 (rfc_pad m)) of
        (A, B, C, D) \<Rightarrow> concat (map (rfc_bytes 4 \<circ> unat) [A, B, C, D]))"

text \<open>The table of the source against the order of words, the shifts and the sines of the RFC.\<close>

lemma md5_steps_shape:
  "map (\<lambda>(f, k, c, s). (f, k, s)) md5_steps = map (\<lambda>i. (i div 16 + 1, rfc_k i, rfc_s i)) [0..<64]"
  by code_simp

lemma md5_steps_sines: "map (\<lambda>(f, k, c, s). c) md5_steps = map (\<lambda>i. of_nat (rfc_T (i + 1))) [0..<64]"
proof -
  have "map (\<lambda>i. of_nat (rfc_T (i + 1))) [0..<64] = (map of_nat (map rfc_T (map Suc [0..<64])) :: u32 list)"
    by simp
  also have "\<dots> = map of_nat rfc_T_table"
    unfolding map_Suc_upt rfc_T_values [symmetric] by simp
  finally show ?thesis
    by (simp add: md5_steps_def rfc_T_table_def)
qed

lemma md5_steps_nth:
  assumes "i < 64"
  shows "md5_steps ! i = (i div 16 + 1, rfc_k i, of_nat (rfc_T (i + 1)), rfc_s i)"
proof -
  have "length md5_steps = 64"
    by (simp add: md5_steps_def)
  then have "(\<lambda>(f, k, c, s). (f, k, s)) (md5_steps ! i) = (i div 16 + 1, rfc_k i, rfc_s i)"
      "(\<lambda>(f, k, c, s). c) (md5_steps ! i) = of_nat (rfc_T (i + 1))"
    using arg_cong [OF md5_steps_shape, of "\<lambda>l. l ! i"] arg_cong [OF md5_steps_sines, of "\<lambda>l. l ! i"] assms
    by simp_all
  then show ?thesis
    by (cases "md5_steps ! i") auto
qed

lemma le_words_rfc: "length m = 64 \<Longrightarrow> le_words m = rfc_words m"
proof -
  assume "length m = 64"
  moreover have "get_le32 m (4 * i) = push_bit 24 (ucast (byte_at m (4 * i + 3))) OR push_bit 16 (ucast (byte_at m (4 * i + 2)))
      OR push_bit 8 (ucast (byte_at m (4 * i + 1))) OR ucast (byte_at m (4 * i))" for i
    by (simp add: get_le32_def or.commute or.left_commute)
  ultimately have "get_le32 m (4 * i) = of_nat (\<Sum>k<4. 256 ^ k * unat (m ! (4 * i + k)))" if "i < 16" for i
    using that unfolding sum_less_4 number_of_bytes by (simp add: byte_at_def)
  then show ?thesis
    by (simp add: le_words_def rfc_words_def)
qed

lemma le32_bytes_rfc: "le32_bytes w = rfc_bytes 4 (unat w)"
proof -
  have "le32_bytes w = map (\<lambda>k. ucast (drop_bit (8 * k) w)) [0, 1, 2, 3]"
    by (simp add: le32_bytes_def)
  then show ?thesis
    unfolding byte_of_number by (simp add: rfc_bytes_def upt_rec)
qed

lemma le_count_rfc:
  "le32_bytes (ucast w) @ le32_bytes (ucast (drop_bit 32 w)) = rfc_bytes 8 n" if "w = of_nat n" for w :: u64
proof -
  have "le32_bytes (ucast w) @ le32_bytes (ucast (drop_bit 32 w)) = map (\<lambda>k. ucast (drop_bit (8 * k) w)) [0, 1, 2, 3, 4, 5, 6, 7]"
    by (simp add: le32_bytes_def) (auto intro!: bit_word_eqI simp: bit_simps)
  also have "\<dots> = map (\<lambda>k. of_nat (n div 256 ^ k mod 256)) [0, 1, 2, 3, 4, 5, 6, 7]"
    unfolding byte_of_number that by (simp only: list.map byte_wrap)
  finally show ?thesis
    by (simp add: rfc_bytes_def upt_rec)
qed

lemma md5_F_rfc: "i < 64 \<Longrightarrow> md5_F (Suc (i div 16)) x y z = rfc_f i x y z"
proof -
  assume i: "i < 64"
  have f: "md5_F1 x y z = (x AND y) OR (NOT x AND z)" "md5_F2 x y z = (x AND z) OR (y AND NOT z)"
    by (auto intro!: bit_word_eqI simp: md5_F1_def md5_F2_def bit_simps)
  consider "i < 16" "i div 16 = 0" | "16 \<le> i" "i < 32" "i div 16 = 1" | "32 \<le> i" "i < 48" "i div 16 = 2" | "48 \<le> i" "i div 16 = 3"
    using i by force
  then show ?thesis
    by cases (simp_all add: md5_F_def rfc_f_def f md5_F3_def md5_F4_def)
qed

lemma rotl_or: "0 < s \<Longrightarrow> s < 32 \<Longrightarrow> push_bit s w OR drop_bit (32 - s) w = word_rotl s w" for w :: u32
  by (rule bit_word_eqI) (auto simp: bit_simps bit_word_rotl_iff mod_if add.commute [of 32] dest: bit_imp_le_length)

lemma rfc_s_range: "0 < rfc_s i \<and> rfc_s i < 32"
proof -
  have "i mod 4 = 0 \<or> i mod 4 = 1 \<or> i mod 4 = 2 \<or> i mod 4 = 3"
    by linarith
  then show ?thesis
    by (auto simp: rfc_s_def)
qed

lemma md5_step_rfc: "i < 64 \<Longrightarrow> MD5STEP X (md5_steps ! i) st = rfc_step X i st"
  using rotl_or [of "rfc_s i"] rfc_s_range [of i]
  by (subst md5_steps_nth) (auto simp: MD5STEP_def rfc_step_def md5_F_rfc Let_def ac_simps split: prod.split)

lemma fold_cong_on: "(\<And>x st. x \<in> set xs \<Longrightarrow> f x st = g x st) \<Longrightarrow> fold f xs st = fold g xs st"
  by (induction xs arbitrary: st) auto

lemma md5_transform_rfc:
  assumes "length m = 64"
  shows "MD5Transform st m = rfc_compress st m"
proof -
  have "length md5_steps = 64"
    by (simp add: md5_steps_def)
  then have "md5_steps = map ((!) md5_steps) [0..<64]"
    using map_nth [of md5_steps] by simp
  then have "fold (MD5STEP (le_words m)) md5_steps st = fold (MD5STEP (le_words m) \<circ> (!) md5_steps) [0..<64] st"
    by (metis fold_map)
  also have "\<dots> = fold (rfc_step (rfc_words m)) [0..<64] st"
    unfolding le_words_rfc [OF assms] by (rule fold_cong_on) (simp add: md5_step_rfc)
  finally show ?thesis
    by (simp add: MD5Transform_def rfc_compress_def md5_add_def add.commute split: prod.split)
qed

lemma md5_blocks_rfc: "foldl MD5Transform st (blocks64 m) = foldl rfc_compress st (blocks64 m)"
  by (rule foldl_cong) (auto simp: md5_transform_rfc dest: blocks64_length)

lemma md5_out_rfc: "md5_out st = (case st of (A, B, C, D) \<Rightarrow> concat (map (rfc_bytes 4 \<circ> unat) [A, B, C, D]))"
  by (simp add: md5_out_def le32_bytes_rfc split: prod.split)

section \<open>The final block\<close>

lemma put_bytes_after: "length z = n \<Longrightarrow> put_bytes (z @ r) n bs = z @ bs @ drop (length bs) r"
  by (simp add: put_bytes_def)

lemma md5_final_pad:
  assumes c: "md5_wf c"
  shows "MD5Final c = md5_out (foldl MD5Transform (md_buf c) (blocks64 (md5_pending c @ 0x80 #
      replicate ((119 - md5_index c) mod 64) 0 @ le32_bytes (push_bit 3 (fst (md_bytes c))) @
      le32_bytes (push_bit 3 (snd (md_bytes c)) OR drop_bit 29 (fst (md_bytes c))))))"
proof -
  obtain lo hi where b: "md_bytes c = (lo, hi)"
    by fastforce
  let ?j = "md5_index c" and ?lb = "le32_bytes (push_bit 3 lo)" and ?hb = "le32_bytes (push_bit 3 hi OR drop_bit 29 lo)"
  let ?p = "md5_pending c" and ?inp = "put_bytes (md_in c) (md5_index c) [0x80]"
  have j: "?j < 64" "length ?p = ?j" and l: "length (md_in c) = 64"
    using c by (simp_all add: md5_index_less length_md5_pending md5_wf_def)
  have le: "length (le32_bytes w) = 4" for w
    by (simp add: le32_bytes_def)
  have inp: "?inp = ?p @ 0x80 # drop (?j + 1) (md_in c)"
    by (simp add: put_bytes_def md5_pending_def)
  show ?thesis
  proof (cases "55 < ?j")
    case True
    let ?blk = "?p @ 0x80 # replicate (63 - ?j) 0"
    have blk: "put_bytes ?inp (?j + 1) (replicate (63 - ?j) 0) = ?blk" "length ?blk = 64"
      using j l True by (simp_all add: put_bytes_def md5_pending_def)
    have "put_bytes (put_bytes (put_bytes ?blk 0 (replicate 56 0)) 56 ?lb) 60 ?hb = replicate 56 0 @ ?lb @ ?hb"
      using blk(2) le by (simp add: put_bytes_def)
    then have "MD5Final c = md5_out (MD5Transform (MD5Transform (md_buf c) ?blk) (replicate 56 0 @ ?lb @ ?hb))"
      using True blk(1) by (simp add: MD5Final_def b Let_def)
    moreover have pad: "(119 - ?j) mod 64 = (63 - ?j) + 56"
      using True j by simp
    have "?p @ 0x80 # replicate ((119 - ?j) mod 64) 0 @ ?lb @ ?hb = ?blk @ (replicate 56 0 @ ?lb @ ?hb) @ []"
      unfolding pad replicate_add by simp
    moreover have "blocks64 (?blk @ (replicate 56 0 @ ?lb @ ?hb) @ []) = [?blk, replicate 56 0 @ ?lb @ ?hb]"
      using blk(2) le by (subst blocks64_block, simp, subst blocks64_block) simp_all
    ultimately show ?thesis
      by (simp add: b)
  next
    case False
    let ?z = "?p @ 0x80 # replicate (55 - ?j) 0"
    have z: "put_bytes ?inp (?j + 1) (replicate (55 - ?j) 0) = ?z @ drop 56 (md_in c)" "length ?z = 56"
      using j l False by (simp_all add: put_bytes_def md5_pending_def drop_Cons')
    have "put_bytes (put_bytes (put_bytes ?inp (?j + 1) (replicate (55 - ?j) 0)) 56 ?lb) 60 ?hb = ?z @ ?lb @ ?hb"
      unfolding z(1) put_bytes_after [OF z(2)]
      using put_bytes_after [of "?z @ ?lb" 60 "drop 4 (drop 56 (md_in c))" ?hb] l le z(2) by simp
    then have "MD5Final c = md5_out (MD5Transform (md_buf c) (?z @ ?lb @ ?hb))"
      using False by (simp add: MD5Final_def b Let_def)
    moreover have "(119 - ?j) mod 64 = 55 - ?j"
      using mod_add_self2 [of "55 - ?j" 64] False by simp
    moreover have "blocks64 ((?z @ ?lb @ ?hb) @ []) = [?z @ ?lb @ ?hb]"
      using z(2) le by (subst blocks64_block) simp_all
    ultimately show ?thesis
      by (simp add: b)
  qed
qed

lemma md5_stream_digest:
  assumes "\<forall>d\<in>set ds. length d < 2 ^ 32" "length junk = 64"
  shows "MD5Final (foldl MD5Update (MD5Init junk) ds) = rfc_md5 (concat ds)"
proof -
  let ?c = "foldl MD5Update (MD5Init junk) ds" and ?m = "concat ds"
  have wf: "md5_wf (MD5Init junk)" and p0: "md5_pending (MD5Init junk) = []"
    using assms(2) by (simp_all add: md5_wf_def MD5Init_def md5_pending_def md5_index_mod)
  note st = md5.absorb [OF wf, of ds, unfolded p0, simplified]
  have j: "md5_index ?c = length ?m mod 64"
    using length_md5_pending [OF st(1)] st(2) by (simp only: length_leftover)
  have "md5_len (md_bytes ?c) = of_nat (length ?m)"
    using md5_len_stream [OF assms(1), of "MD5Init junk"] by (simp add: MD5Init_def md5_len_def)
  then have len: "push_bit 3 (fst (md_bytes ?c)) = ucast (push_bit 3 (of_nat (length ?m) :: u64))"
    "push_bit 3 (snd (md_bytes ?c)) OR drop_bit 29 (fst (md_bytes ?c)) = ucast (drop_bit 32 (push_bit 3 (of_nat (length ?m) :: u64)))"
    using md5_len_bits [of "fst (md_bytes ?c)" "snd (md_bytes ?c)"] by simp_all
  have count: "push_bit 3 (of_nat (length ?m) :: u64) = of_nat (8 * length ?m)"
    by (simp add: push_bit_eq_mult)
  let ?t = "0x80 # replicate ((119 - length ?m mod 64) mod 64) 0 @
      le32_bytes (ucast (push_bit 3 (of_nat (length ?m) :: u64))) @ le32_bytes (ucast (drop_bit 32 (push_bit 3 (of_nat (length ?m) :: u64))))"
  have "MD5Final ?c = md5_out (foldl MD5Transform (md_buf ?c) (blocks64 (leftover ?m @ ?t)))"
    unfolding md5_final_pad [OF st(1)] len j using st(2) by simp
  also have "\<dots> = md5_out (foldl MD5Transform (md_buf (MD5Init junk)) (blocks64 (?m @ ?t)))"
    using st(2) by (simp add: blocks_leftover_append(1) [of ?m ?t])
  also have "\<dots> = rfc_md5 ?m"
    unfolding md5_blocks_rfc md5_out_rfc le_count_rfc [OF count] by (simp add: rfc_md5_def rfc_pad_def MD5Init_def)
  finally show ?thesis .
qed

text \<open>
  C32. The MD5 digest of a message fed to a fresh context in any pieces (each below
  4 GiB, whatever the uninitialised buffer held) is the digest of RFC 1321 of the
  whole message. The reference \<open>rfc_md5\<close> shares nothing with the code: its constants are
  the integer parts of 4294967296 times \<open>abs(sin(i))\<close>, and it has its own round functions, word
  order, shifts, little-endian words, padding and output. The buffering loses and repeats
  nothing. The witness is an example of the RFC, the message \<open>abc\<close>.
\<close>

theorem md5_stream_correct:
  assumes "\<forall>d\<in>set ds. length d < 2 ^ 32" "length junk = 64"
  shows "MD5Final (foldl MD5Update (MD5Init junk) ds) = rfc_md5 (concat ds)"
  by (rule md5_stream_digest [OF assms])

text \<open>An example of the RFC, the message \<open>abc\<close>.\<close>

abbreviation md5_chunk :: "nat \<Rightarrow> md5_state \<Rightarrow> md5_state" where
  "md5_chunk k \<equiv> fold (MD5STEP [0x80636261, 0, 0, 0, 0, 0, 0, 0, 0, 0, 0, 0, 0, 0, 24, 0]) (take 8 (drop (8 * k) md5_steps))"

lemma md5_abc_steps:
  "md5_chunk 0 (0x67452301, 0xefcdab89, 0x98badcfe, 0x10325476) = (0xc73741ef, 0x928d99f6, 0x207dc67b, 0x8bac3051)"
  "md5_chunk 1 (0xc73741ef, 0x928d99f6, 0x207dc67b, 0x8bac3051) = (0xdda9b9a6, 0x72aff2e0, 0xe396856b, 0xa1051895)"
  "md5_chunk 2 (0xdda9b9a6, 0x72aff2e0, 0xe396856b, 0xa1051895) = (0x59a8ffda, 0x47092c07, 0xabfc7920, 0x6d002f1e)"
  "md5_chunk 3 (0x59a8ffda, 0x47092c07, 0xabfc7920, 0x6d002f1e) = (0x790a77fb, 0x726342d3, 0xa62884aa, 0x9f47e4f8)"
  "md5_chunk 4 (0x790a77fb, 0x726342d3, 0xa62884aa, 0x9f47e4f8) = (0x21b117b9, 0x5a2f5ea5, 0x3575227e, 0x6e7429d5)"
  "md5_chunk 5 (0x21b117b9, 0x5a2f5ea5, 0x3575227e, 0x6e7429d5) = (0x7f2e507b, 0x7beb9700, 0x8fae6399, 0x99d9679d)"
  "md5_chunk 6 (0x7f2e507b, 0x7beb9700, 0x8fae6399, 0x99d9679d) = (0x06cc5e8a, 0x3bfa2c27, 0x7d632dd0, 0x5b0d97aa)"
  "md5_chunk 7 (0x06cc5e8a, 0x3bfa2c27, 0x7d632dd0, 0x5b0d97aa) = (0x310ade8f, 0xc08226b3, 0xe484b9d8, 0x624d8cb2)"
  by (simp_all add: md5_steps_def MD5STEP_def md5_F_def md5_F1_def md5_F2_def md5_F3_def md5_F4_def Let_def)

lemma md5_steps_chunks: "md5_steps = concat (map (\<lambda>k. take 8 (drop (8 * k) md5_steps)) [0, 1, 2, 3, 4, 5, 6, 7])"
  by (simp add: md5_steps_def)

lemma rfc_md5_abc:
  "rfc_md5 [0x61, 0x62, 0x63] =
     [0x90, 0x01, 0x50, 0x98, 0x3c, 0xd2, 0x4f, 0xb0,
      0xd6, 0x96, 0x3f, 0x7d, 0x28, 0xe1, 0x7f, 0x72]"
proof -
  let ?b = "[0x61, 0x62, 0x63, 0x80] @ replicate 52 0 @ [24, 0, 0, 0, 0, 0, 0, 0] :: bytes"
  let ?s = "(0x67452301, 0xefcdab89, 0x98badcfe, 0x10325476) :: md5_state"
  have pad: "rfc_pad [0x61, 0x62, 0x63] = ?b"
    by (simp add: rfc_pad_def rfc_bytes_def upt_rec)
  have w: "le_words ?b = [0x80636261, 0, 0, 0, 0, 0, 0, 0, 0, 0, 0, 0, 0, 0, 24, 0]"
    by (simp add: le_words_def upt_rec get_le32_def byte_at_def nth_append nth_Cons')
  have r: "fold (MD5STEP (le_words ?b)) md5_steps ?s = (0x310ade8f, 0xc08226b3, 0xe484b9d8, 0x624d8cb2)"
    unfolding w by (subst md5_steps_chunks) (simp only: list.map concat.simps append_Nil2 fold_append comp_apply md5_abc_steps)
  have "foldl rfc_compress ?s (blocks64 (rfc_pad [0x61, 0x62, 0x63])) = MD5Transform ?s ?b"
    using blocks64_block [of ?b "[]"] unfolding pad md5_blocks_rfc [symmetric] by simp
  also have "\<dots> = (0x98500190, 0xb04fd23c, 0x7d3f96d6, 0x727fe128)"
    unfolding MD5Transform_def r by (simp add: md5_add_def)
  finally show ?thesis
    by (simp add: rfc_md5_def rfc_bytes_def upt_rec)
qed

theorem md5_stream_correct_witness:
  "MD5Final (MD5Update (MD5Update (MD5Init (replicate 64 7)) [0x61, 0x62]) [0x63]) =
     [0x90, 0x01, 0x50, 0x98, 0x3c, 0xd2, 0x4f, 0xb0,
      0xd6, 0x96, 0x3f, 0x7d, 0x28, 0xe1, 0x7f, 0x72]"
  using md5_stream_correct [of "[[0x61, 0x62], [0x63]]" "replicate 64 7"] rfc_md5_abc by simp

end
