(* ===== verification/Crc32c.thy ===== *)
theory Crc32c
  imports Tgt_Prelude
begin

text \<open>
  The CRC32C of the iSCSI header and data digests (\<open>usr/libcrc32c.c\<close>): the table
  driven form that is compiled, and the bitwise form of the same file, which serves
  as the reference.
\<close>

unbundle bit_operations_syntax

definition CRC32C_POLY_LE :: u32 where "CRC32C_POLY_LE = 0x82F63B78"
definition CRC32C_POLY_BE :: u32 where "CRC32C_POLY_BE = 0x1EDC6F41"

definition crc32c_table :: "u32 list" where
  "crc32c_table =
     [0x00000000, 0xF26B8303, 0xE13B70F7, 0x1350F3F4, 0xC79A971F, 0x35F1141C, 0x26A1E7E8, 0xD4CA64EB,
      0x8AD958CF, 0x78B2DBCC, 0x6BE22838, 0x9989AB3B, 0x4D43CFD0, 0xBF284CD3, 0xAC78BF27, 0x5E133C24,
      0x105EC76F, 0xE235446C, 0xF165B798, 0x030E349B, 0xD7C45070, 0x25AFD373, 0x36FF2087, 0xC494A384,
      0x9A879FA0, 0x68EC1CA3, 0x7BBCEF57, 0x89D76C54, 0x5D1D08BF, 0xAF768BBC, 0xBC267848, 0x4E4DFB4B,
      0x20BD8EDE, 0xD2D60DDD, 0xC186FE29, 0x33ED7D2A, 0xE72719C1, 0x154C9AC2, 0x061C6936, 0xF477EA35,
      0xAA64D611, 0x580F5512, 0x4B5FA6E6, 0xB93425E5, 0x6DFE410E, 0x9F95C20D, 0x8CC531F9, 0x7EAEB2FA,
      0x30E349B1, 0xC288CAB2, 0xD1D83946, 0x23B3BA45, 0xF779DEAE, 0x05125DAD, 0x1642AE59, 0xE4292D5A,
      0xBA3A117E, 0x4851927D, 0x5B016189, 0xA96AE28A, 0x7DA08661, 0x8FCB0562, 0x9C9BF696, 0x6EF07595,
      0x417B1DBC, 0xB3109EBF, 0xA0406D4B, 0x522BEE48, 0x86E18AA3, 0x748A09A0, 0x67DAFA54, 0x95B17957,
      0xCBA24573, 0x39C9C670, 0x2A993584, 0xD8F2B687, 0x0C38D26C, 0xFE53516F, 0xED03A29B, 0x1F682198,
      0x5125DAD3, 0xA34E59D0, 0xB01EAA24, 0x42752927, 0x96BF4DCC, 0x64D4CECF, 0x77843D3B, 0x85EFBE38,
      0xDBFC821C, 0x2997011F, 0x3AC7F2EB, 0xC8AC71E8, 0x1C661503, 0xEE0D9600, 0xFD5D65F4, 0x0F36E6F7,
      0x61C69362, 0x93AD1061, 0x80FDE395, 0x72966096, 0xA65C047D, 0x5437877E, 0x4767748A, 0xB50CF789,
      0xEB1FCBAD, 0x197448AE, 0x0A24BB5A, 0xF84F3859, 0x2C855CB2, 0xDEEEDFB1, 0xCDBE2C45, 0x3FD5AF46,
      0x7198540D, 0x83F3D70E, 0x90A324FA, 0x62C8A7F9, 0xB602C312, 0x44694011, 0x5739B3E5, 0xA55230E6,
      0xFB410CC2, 0x092A8FC1, 0x1A7A7C35, 0xE811FF36, 0x3CDB9BDD, 0xCEB018DE, 0xDDE0EB2A, 0x2F8B6829,
      0x82F63B78, 0x709DB87B, 0x63CD4B8F, 0x91A6C88C, 0x456CAC67, 0xB7072F64, 0xA457DC90, 0x563C5F93,
      0x082F63B7, 0xFA44E0B4, 0xE9141340, 0x1B7F9043, 0xCFB5F4A8, 0x3DDE77AB, 0x2E8E845F, 0xDCE5075C,
      0x92A8FC17, 0x60C37F14, 0x73938CE0, 0x81F80FE3, 0x55326B08, 0xA759E80B, 0xB4091BFF, 0x466298FC,
      0x1871A4D8, 0xEA1A27DB, 0xF94AD42F, 0x0B21572C, 0xDFEB33C7, 0x2D80B0C4, 0x3ED04330, 0xCCBBC033,
      0xA24BB5A6, 0x502036A5, 0x4370C551, 0xB11B4652, 0x65D122B9, 0x97BAA1BA, 0x84EA524E, 0x7681D14D,
      0x2892ED69, 0xDAF96E6A, 0xC9A99D9E, 0x3BC21E9D, 0xEF087A76, 0x1D63F975, 0x0E330A81, 0xFC588982,
      0xB21572C9, 0x407EF1CA, 0x532E023E, 0xA145813D, 0x758FE5D6, 0x87E466D5, 0x94B49521, 0x66DF1622,
      0x38CC2A06, 0xCAA7A905, 0xD9F75AF1, 0x2B9CD9F2, 0xFF56BD19, 0x0D3D3E1A, 0x1E6DCDEE, 0xEC064EED,
      0xC38D26C4, 0x31E6A5C7, 0x22B65633, 0xD0DDD530, 0x0417B1DB, 0xF67C32D8, 0xE52CC12C, 0x1747422F,
      0x49547E0B, 0xBB3FFD08, 0xA86F0EFC, 0x5A048DFF, 0x8ECEE914, 0x7CA56A17, 0x6FF599E3, 0x9D9E1AE0,
      0xD3D3E1AB, 0x21B862A8, 0x32E8915C, 0xC083125F, 0x144976B4, 0xE622F5B7, 0xF5720643, 0x07198540,
      0x590AB964, 0xAB613A67, 0xB831C993, 0x4A5A4A90, 0x9E902E7B, 0x6CFBAD78, 0x7FAB5E8C, 0x8DC0DD8F,
      0xE330A81A, 0x115B2B19, 0x020BD8ED, 0xF0605BEE, 0x24AA3F05, 0xD6C1BC06, 0xC5914FF2, 0x37FACCF1,
      0x69E9F0D5, 0x9B8273D6, 0x88D28022, 0x7AB90321, 0xAE7367CA, 0x5C18E4C9, 0x4F48173D, 0xBD23943E,
      0xF36E6F75, 0x0105EC76, 0x12551F82, 0xE03E9C81, 0x34F4F86A, 0xC69F7B69, 0xD5CF889D, 0x27A40B9E,
      0x79B737BA, 0x8BDCB4B9, 0x988C474D, 0x6AE7C44E, 0xBE2DA0A5, 0x4C4623A6, 0x5F16D052, 0xAD7D5351]"

text \<open>One byte of the loop of \<open>crc32c_le\<close> with \<open>CRC_LE_BITS\<close> 8.\<close>

definition crc_table_step :: "u32 \<Rightarrow> u8 \<Rightarrow> u32" where
  "crc_table_step crc b = crc32c_table ! unat ((crc XOR ucast b) AND 0xFF) XOR drop_bit 8 crc"

text \<open>On a little-endian machine, where \<open>cpu_to_le32\<close> and \<open>le32_to_cpu\<close> are the identity.\<close>

definition crc32c_le :: "u32 \<Rightarrow> bytes \<Rightarrow> u32" where
  "crc32c_le seed data = foldl crc_table_step seed data"

text \<open>The inner loop of \<open>crc32c_le\<close> with \<open>CRC_LE_BITS\<close> 1.\<close>

definition crc_bit_step :: "u32 \<Rightarrow> u32" where
  "crc_bit_step crc = drop_bit 1 crc XOR (if crc AND 1 \<noteq> 0 then CRC32C_POLY_LE else 0)"

definition crc_byte_bitwise :: "u32 \<Rightarrow> u8 \<Rightarrow> u32" where
  "crc_byte_bitwise crc b = (crc_bit_step ^^ 8) (crc XOR ucast b)"

definition crc32c_le_bitwise :: "u32 \<Rightarrow> bytes \<Rightarrow> u32" where
  "crc32c_le_bitwise crc data = foldl crc_byte_bitwise crc data"

definition crc_be_bit_step :: "u32 \<Rightarrow> u32" where
  "crc_be_bit_step crc = push_bit 1 crc XOR (if crc AND 0x80000000 \<noteq> 0 then CRC32C_POLY_BE else 0)"

definition crc32c_be :: "u32 \<Rightarrow> bytes \<Rightarrow> u32" where
  "crc32c_be crc data = foldl (\<lambda>c b. (crc_be_bit_step ^^ 8) (c XOR push_bit 24 (ucast b))) crc data"

section \<open>The table is the polynomial\<close>

text \<open>The bit step is linear, so a byte can be looked up.\<close>

lemma and_1_odd: "w AND 1 \<noteq> 0 \<longleftrightarrow> bit w 0" for w :: u32
  by (simp add: and_one_eq mod2_eq_if bit_0)

lemma crc_bit_step_xor: "crc_bit_step (a XOR b) = crc_bit_step a XOR crc_bit_step b"
  unfolding crc_bit_step_def and_1_odd bit_xor_iff
  by (rule bit_word_eqI) (auto simp: bit_simps)

lemma crc_bit_steps_xor: "(crc_bit_step ^^ n) (a XOR b) = (crc_bit_step ^^ n) a XOR (crc_bit_step ^^ n) b"
  by (induction n) (simp_all add: crc_bit_step_xor)

lemma crc_bit_steps_high: "(crc_bit_step ^^ n) (push_bit n a) = a" if "drop_bit (32 - n) a = 0" "n \<le> 32" for a
  using that
proof (induction n arbitrary: a)
  case (Suc n)
  have z: "\<not> bit a k" if "32 \<le> k + Suc n" for k
  proof -
    have "32 - Suc n + (k + Suc n - 32) = k"
      using that Suc.prems(2) by simp
    moreover have "\<not> bit (drop_bit (32 - Suc n) a) (k + Suc n - 32)"
      using Suc.prems(1) by simp
    ultimately show ?thesis
      by (metis bit_drop_bit_eq comp_apply)
  qed
  have "push_bit (Suc n) a = push_bit n (push_bit 1 a)"
    by simp
  moreover have "drop_bit (32 - n) (push_bit 1 a) = 0"
  proof (rule bit_word_eqI)
    fix k
    show "bit (drop_bit (32 - n) (push_bit 1 a)) k = bit (0 :: u32) k"
      using z [of "32 - n + k - 1"] Suc.prems(2) unfolding bit_drop_bit_eq comp_apply bit_push_bit_iff by auto
  qed
  ultimately have "(crc_bit_step ^^ n) (push_bit (Suc n) a) = push_bit 1 a"
    using Suc.IH [of "push_bit 1 a"] Suc.prems by simp
  moreover have "crc_bit_step (push_bit 1 a) = a"
  proof -
    have "push_bit 1 a AND 1 = 0"
      by (rule bit_word_eqI) (auto simp only: bit_and_iff bit_push_bit_iff bit_1_iff bit_0_eq)
    moreover have "drop_bit 1 (push_bit 1 a) = a"
    proof (rule bit_word_eqI)
      fix k
      show "bit (drop_bit 1 (push_bit 1 a)) k = bit a k"
        using z [of k] bit_imp_le_length [of a k] unfolding bit_drop_bit_eq comp_apply bit_push_bit_iff
        by (cases "k < 31") auto
    qed
    ultimately show ?thesis
      by (simp add: crc_bit_step_def)
  qed
  ultimately show ?case
    by simp
qed simp

text \<open>The table is the images of the single bits and what linearity makes of them.\<close>

definition crc_byte :: "u32 \<Rightarrow> u32" where
  "crc_byte w = (crc_bit_step ^^ 8) w"

lemma funpow_8: "(f ^^ 8) x = f (f (f (f (f (f (f (f x)))))))"
  by (simp add: numeral_eq_Suc)

lemma crc_byte_bits:
  "crc_byte 0 = 0" "crc_byte 1 = 0xF26B8303" "crc_byte 2 = 0xE13B70F7" "crc_byte 4 = 0xC79A971F" "crc_byte 8 = 0x8AD958CF"
  "crc_byte 16 = 0x105EC76F" "crc_byte 32 = 0x20BD8EDE" "crc_byte 64 = 0x417B1DBC" "crc_byte 128 = 0x82F63B78"
  unfolding crc_byte_def funpow_8 by (simp_all add: crc_bit_step_def CRC32C_POLY_LE_def)

definition crc_double :: "u32 \<Rightarrow> u32 list \<Rightarrow> u32 list" where
  "crc_double b t = t @ map (\<lambda>v. b XOR v) t"

lemma crc_byte_double:
  assumes "k < 8"
  shows "map (\<lambda>i. crc_byte (of_nat i)) [0..<2 ^ Suc k] = crc_double (crc_byte (2 ^ k)) (map (\<lambda>i. crc_byte (of_nat i)) [0..<2 ^ k])"
proof -
  have "(of_nat (i + 2 ^ k) :: u32) = 2 ^ k XOR of_nat i" if "i < 2 ^ k" for i
  proof -
    have d: "\<not> bit (of_nat i :: u32) k"
    proof -
      have "\<not> bit i k"
        using that by (simp add: bit_iff_odd)
      then show ?thesis
        by (simp add: bit_simps)
    qed
    have "(2 ^ k :: u32) XOR of_nat i = 2 ^ k + of_nat i"
    proof -
      have "(2 ^ k :: u32) + of_nat i = 2 ^ k OR of_nat i"
        by (rule disjunctive_add) (use d in \<open>auto simp: bit_simps\<close>)
      moreover have "(2 ^ k :: u32) XOR of_nat i = 2 ^ k OR of_nat i"
        by (rule bit_word_eqI) (use d in \<open>auto simp: bit_simps\<close>)
      ultimately show ?thesis
        by simp
    qed
    then show ?thesis
      by simp
  qed
  then have x: "crc_byte (of_nat (i + 2 ^ k)) = crc_byte (2 ^ k) XOR crc_byte (of_nat i)" if "i < 2 ^ k" for i
    using that by (simp only: crc_byte_def crc_bit_steps_xor)
  have "map (\<lambda>i. crc_byte (of_nat i)) [2 ^ k..<2 ^ k + 2 ^ k] = map (\<lambda>i. crc_byte (of_nat (i + 2 ^ k))) [0..<2 ^ k]"
    unfolding map_add_upt [symmetric] map_map comp_def ..
  also have "\<dots> = map (\<lambda>i. crc_byte (2 ^ k) XOR crc_byte (of_nat i)) [0..<2 ^ k]"
    by (rule map_cong [OF refl], rule x) simp
  finally have "map (\<lambda>i. crc_byte (of_nat i)) [2 ^ k..<2 ^ k + 2 ^ k] = map (\<lambda>i. crc_byte (2 ^ k) XOR crc_byte (of_nat i)) [0..<2 ^ k]" .
  moreover have "[0..<2 ^ Suc k] = [0..<2 ^ k] @ [2 ^ k..<2 ^ k + 2 ^ k]"
    using upt_add_eq_append [of 0 "2 ^ k" "2 ^ k"] by (simp only: power_Suc mult_2 le0)
  ultimately show ?thesis
    by (simp add: crc_double_def comp_def)
qed

lemma crc_byte_doubles:
  "map (\<lambda>i. crc_byte (of_nat i)) [0..<2 ^ k] = fold (\<lambda>j. crc_double (crc_byte (2 ^ j))) [0..<k] [crc_byte 0]" if "k \<le> 8"
  using that
proof (induction k)
  case (Suc k)
  then show ?case
    using crc_byte_double [of k] by simp
qed simp

lemma crc_table_correct: "crc32c_table = map (\<lambda>i. crc_byte (of_nat i)) [0..<256]"
proof -
  have "[0..<8] = [0, 1, 2, 3, 4, 5, 6, 7 :: nat]"
    by (simp add: upt_rec)
  then have "map (\<lambda>i. crc_byte (of_nat i)) [0..<256] =
      fold (\<lambda>j. crc_double (crc_byte (2 ^ j))) [0, 1, 2, 3, 4, 5, 6, 7] [crc_byte 0]"
    using crc_byte_doubles [of 8] by (simp del: upt_conv_Cons)
  also have "\<dots> = fold crc_double [crc_byte 1, crc_byte 2, crc_byte 4, crc_byte 8, crc_byte 16, crc_byte 32,
      crc_byte 64, crc_byte 128] [crc_byte 0]"
    by simp
  also have "\<dots> = crc32c_table"
    unfolding crc_byte_bits crc_double_def crc32c_table_def by simp
  finally show ?thesis ..
qed

text \<open>
  C30. The table driven CRC32C that protects headers and data computes the same
  function as the bitwise polynomial division, for every seed and every buffer.
\<close>

theorem crc32c_table_bitwise: "crc32c_le seed data = crc32c_le_bitwise seed data"
proof -
  have "crc_table_step crc b = crc_byte_bitwise crc b" for crc b
  proof -
    let ?x = "crc XOR ucast b"
    have m: "(0xFF :: u32) = mask 8"
      by (simp add: mask_numeral)
    have "crc_byte_bitwise crc b = (crc_bit_step ^^ 8) ((?x AND 0xFF) XOR push_bit 8 (drop_bit 8 crc))"
    proof -
      have "?x = (?x AND 0xFF) XOR push_bit 8 (drop_bit 8 crc)"
        unfolding m by (rule bit_word_eqI) (auto simp: bit_simps dest: bit_imp_le_length)
      then show ?thesis
        by (simp add: crc_byte_bitwise_def)
    qed
    also have "\<dots> = crc_byte (?x AND 0xFF) XOR drop_bit 8 crc"
    proof -
      have "drop_bit (32 - 8) (drop_bit 8 crc) = 0"
        by (rule bit_word_eqI) (auto simp: bit_simps dest: bit_imp_le_length)
      then show ?thesis
        unfolding crc_bit_steps_xor crc_byte_def by (simp add: crc_bit_steps_high)
    qed
    also have "\<dots> = crc_table_step crc b"
    proof -
      have "?x AND 0xFF \<le> 0xFF"
        by (rule word_and_le1)
      then have "unat (?x AND 0xFF) < 256"
        by (simp add: word_le_nat_alt)
      then show ?thesis
        by (simp add: crc_table_step_def crc_table_correct)
    qed
    finally show ?thesis ..
  qed
  then have "crc_table_step = crc_byte_bitwise"
    by (intro ext)
  then show ?thesis
    by (simp add: crc32c_le_def crc32c_le_bitwise_def)
qed

end
