(* ===== verification/Iscsi_State.thy ===== *)
theory Iscsi_State
  imports Iscsi_Param Target_Admin Cmd_Queue
begin

text \<open>
  The data of the iSCSI transport (\<open>usr/iscsi/iscsid.h\<close>, \<open>usr/iscsi/iscsi_proto.h\<close>):
  the 48-byte header, PDUs, tasks, sessions, connections, iSCSI targets, and the state
  of the transport as a whole. Connections, sessions and tasks are kept in lists and
  refer to each other by a number that stands for the address of the structure. A
  32-bit field of a header is held in host order; \<open>tsih\<close>, which the code copies
  without conversion, is the little-endian value of its two bytes. Memory allocation
  does not fail.
\<close>

unbundle bit_operations_syntax

section \<open>Protocol data units\<close>

record iscsi_hdr =
  h_opcode :: u8
  h_flags :: u8
  h_rsvd2 :: bytes
  h_hlength :: u8
  h_dlength :: bytes
  h_lun :: bytes
  h_itt :: u32
  h_ttt :: u32
  h_statsn :: u32
  h_exp_statsn :: u32
  h_max_statsn :: u32
  h_other :: bytes

abbreviation (input) "BHS_SIZE \<equiv> 48 :: nat"

text \<open>\<open>memset (hdr, 0, BHS_SIZE)\<close>.\<close>

definition zero_hdr :: iscsi_hdr where
  "zero_hdr = \<lparr>h_opcode = 0, h_flags = 0, h_rsvd2 = [0, 0], h_hlength = 0, h_dlength = [0, 0, 0],
     h_lun = replicate 8 0, h_itt = 0, h_ttt = 0, h_statsn = 0, h_exp_statsn = 0, h_max_statsn = 0,
     h_other = replicate 12 0\<rparr>"

text \<open>The header as it is sent, and its reading from the 48 bytes received.\<close>

definition hdr_bytes :: "iscsi_hdr \<Rightarrow> bytes" where
  "hdr_bytes h = [h_opcode h, h_flags h] @ h_rsvd2 h @ [h_hlength h] @ h_dlength h @ h_lun h @
     be32_bytes (h_itt h) @ be32_bytes (h_ttt h) @ be32_bytes (h_statsn h) @ be32_bytes (h_exp_statsn h) @
     be32_bytes (h_max_statsn h) @ h_other h"

definition parse_hdr :: "bytes \<Rightarrow> iscsi_hdr" where
  "parse_hdr b = \<lparr>h_opcode = byte_at b 0, h_flags = byte_at b 1, h_rsvd2 = take 2 (drop 2 b), h_hlength = byte_at b 4,
     h_dlength = take 3 (drop 5 b), h_lun = take 8 (drop 8 b), h_itt = get_unaligned_be32 b 16, h_ttt = get_unaligned_be32 b 20,
     h_statsn = get_unaligned_be32 b 24, h_exp_statsn = get_unaligned_be32 b 28, h_max_statsn = get_unaligned_be32 b 32,
     h_other = take 12 (drop 36 b)\<rparr>"

definition ntoh24 :: "bytes \<Rightarrow> u32" where
  "ntoh24 p = push_bit 16 (ucast (byte_at p 0)) OR push_bit 8 (ucast (byte_at p 1)) OR ucast (byte_at p 2)"

definition hton24 :: "u32 \<Rightarrow> bytes" where
  "hton24 v = [ucast (drop_bit 16 v AND 0xFF), ucast (drop_bit 8 v AND 0xFF), ucast (v AND 0xFF)]"

abbreviation (input) "ISCSI_RESERVED_TAG \<equiv> 0xffffffff :: u32"
abbreviation (input) "ISCSI_OP_IMMEDIATE \<equiv> 0x40 :: u8"
abbreviation (input) "ISCSI_OPCODE_MASK \<equiv> 0x3F :: u8"
abbreviation (input) "ISCSI_OP_NOOP_OUT \<equiv> 0x00 :: u8"
abbreviation (input) "ISCSI_OP_SCSI_CMD \<equiv> 0x01 :: u8"
abbreviation (input) "ISCSI_OP_SCSI_TMFUNC \<equiv> 0x02 :: u8"
abbreviation (input) "ISCSI_OP_LOGIN \<equiv> 0x03 :: u8"
abbreviation (input) "ISCSI_OP_TEXT \<equiv> 0x04 :: u8"
abbreviation (input) "ISCSI_OP_SCSI_DATA_OUT \<equiv> 0x05 :: u8"
abbreviation (input) "ISCSI_OP_LOGOUT \<equiv> 0x06 :: u8"
abbreviation (input) "ISCSI_OP_SNACK \<equiv> 0x10 :: u8"
abbreviation (input) "ISCSI_OP_NOOP_IN \<equiv> 0x20 :: u8"
abbreviation (input) "ISCSI_OP_SCSI_CMD_RSP \<equiv> 0x21 :: u8"
abbreviation (input) "ISCSI_OP_SCSI_TMFUNC_RSP \<equiv> 0x22 :: u8"
abbreviation (input) "ISCSI_OP_LOGIN_RSP \<equiv> 0x23 :: u8"
abbreviation (input) "ISCSI_OP_TEXT_RSP \<equiv> 0x24 :: u8"
abbreviation (input) "ISCSI_OP_SCSI_DATA_IN \<equiv> 0x25 :: u8"
abbreviation (input) "ISCSI_OP_LOGOUT_RSP \<equiv> 0x26 :: u8"
abbreviation (input) "ISCSI_OP_R2T \<equiv> 0x31 :: u8"
abbreviation (input) "ISCSI_OP_REJECT \<equiv> 0x3f :: u8"
abbreviation (input) "ISCSI_FLAG_CMD_FINAL \<equiv> 0x80 :: u8"
abbreviation (input) "ISCSI_FLAG_CMD_READ \<equiv> 0x40 :: u8"
abbreviation (input) "ISCSI_FLAG_CMD_WRITE \<equiv> 0x20 :: u8"

definition hdr_op :: "iscsi_hdr \<Rightarrow> u8" where
  "hdr_op h = h_opcode h AND ISCSI_OPCODE_MASK"

text \<open>The fields of the login request and response that lie over the common header.\<close>

definition login_isid :: "iscsi_hdr \<Rightarrow> bytes" where
  "login_isid h = take 6 (h_lun h)"

definition login_tsih :: "iscsi_hdr \<Rightarrow> u16" where
  "login_tsih h = ucast (byte_at (h_lun h) 6) OR push_bit 8 (ucast (byte_at (h_lun h) 7))"

definition login_cid :: "iscsi_hdr \<Rightarrow> u16" where
  "login_cid h = ucast (drop_bit 16 (h_ttt h))"

definition set_login_isid :: "bytes \<Rightarrow> u16 \<Rightarrow> iscsi_hdr \<Rightarrow> iscsi_hdr" where
  "set_login_isid isid tsih h = h\<lparr>h_lun := take 6 isid @ [ucast tsih, ucast (drop_bit 8 tsih)]\<rparr>"

definition status_class :: "iscsi_hdr \<Rightarrow> u8" where
  "status_class h = byte_at (h_other h) 0"

definition status_detail :: "iscsi_hdr \<Rightarrow> u8" where
  "status_detail h = byte_at (h_other h) 1"

definition set_login_status :: "u8 \<Rightarrow> u8 \<Rightarrow> iscsi_hdr \<Rightarrow> iscsi_hdr" where
  "set_login_status c d h = h\<lparr>h_other := put_bytes (h_other h) 0 [c, d]\<rparr>"

record iscsi_pdu =
  pd_bhs :: iscsi_hdr
  pd_ahs :: bytes
  pd_data :: bytes

text \<open>The text of a PDU and the bytes of a text.\<close>

definition bytes_str :: "bytes \<Rightarrow> string" where
  "bytes_str b = map (\<lambda>x. char_of (unat x)) b"

lemma bytes_str_str_bytes [simp]: "bytes_str (str_bytes s) = s"
proof -
  have "unat (of_char c :: u8) = of_char c" for c :: char
  proof -
    have "(of_char c :: u8) = of_nat (of_char c)"
      by (simp add: of_char_def)
    then show ?thesis
      by (simp add: unat_of_nat)
  qed
  then show ?thesis
    by (simp add: bytes_str_def str_bytes_def comp_def)
qed

section \<open>Tasks, sessions and connections\<close>

text \<open>\<open>flags\<close> of a task holds two bits, \<open>TASK_pending\<close> and \<open>TASK_in_scsi\<close>.\<close>

record iscsi_task =
  tk_id :: nat
  tk_req :: iscsi_hdr
  tk_tag :: u32
  tk_conn :: nat
  tk_pending :: bool
  tk_in_scsi :: bool
  tk_result :: int
  tk_len :: u32
  tk_offset :: u32
  tk_r2t_count :: u32
  tk_unsol_count :: bool
  tk_exp_r2tsn :: u32
  tk_ahs :: bytes
  tk_data :: bytes
  tk_scmd :: scsi_cmd

record iscsi_session =
  ss_id :: nat
  ss_refcount :: int
  ss_initiator :: string
  ss_initiator_alias :: "string option"
  ss_target :: int
  ss_isid :: bytes
  ss_tsih :: u16
  ss_conn_list :: "nat list"
  ss_conn_cnt :: int
  ss_cmd_list :: "nat list"
  ss_pending_cmd_list :: "nat list"
  ss_exp_cmd_sn :: u32
  ss_max_queue_cmd :: u32
  ss_session_param :: "param list"
  ss_info :: string
  ss_rdma :: bool

datatype iostate =
    IOSTATE_FREE
  | IOSTATE_RX_BHS | IOSTATE_RX_INIT_AHS | IOSTATE_RX_AHS | IOSTATE_RX_INIT_HDIGEST | IOSTATE_RX_HDIGEST
  | IOSTATE_RX_CHECK_HDIGEST | IOSTATE_RX_INIT_DATA | IOSTATE_RX_DATA | IOSTATE_RX_INIT_DDIGEST | IOSTATE_RX_DDIGEST
  | IOSTATE_RX_CHECK_DDIGEST | IOSTATE_RX_END
  | IOSTATE_TX_BHS | IOSTATE_TX_INIT_AHS | IOSTATE_TX_AHS | IOSTATE_TX_INIT_HDIGEST | IOSTATE_TX_HDIGEST
  | IOSTATE_TX_INIT_DATA | IOSTATE_TX_DATA | IOSTATE_TX_INIT_DDIGEST | IOSTATE_TX_DDIGEST | IOSTATE_TX_END

abbreviation (input) "STATE_FREE \<equiv> 0 :: int"
abbreviation (input) "STATE_SECURITY \<equiv> 1 :: int"
abbreviation (input) "STATE_SECURITY_AUTH \<equiv> 2 :: int"
abbreviation (input) "STATE_SECURITY_DONE \<equiv> 3 :: int"
abbreviation (input) "STATE_SECURITY_LOGIN \<equiv> 4 :: int"
abbreviation (input) "STATE_SECURITY_FULL \<equiv> 5 :: int"
abbreviation (input) "STATE_LOGIN \<equiv> 6 :: int"
abbreviation (input) "STATE_LOGIN_FULL \<equiv> 7 :: int"
abbreviation (input) "STATE_FULL \<equiv> 8 :: int"
abbreviation (input) "STATE_KERNEL \<equiv> 9 :: int"
abbreviation (input) "STATE_CLOSE \<equiv> 10 :: int"
abbreviation (input) "STATE_EXIT \<equiv> 11 :: int"
abbreviation (input) "STATE_SCSI \<equiv> 12 :: int"
abbreviation (input) "AUTH_STATE_START \<equiv> 0 :: int"
abbreviation (input) "SESSION_NORMAL \<equiv> 0 :: int"
abbreviation (input) "SESSION_DISCOVERY \<equiv> 1 :: int"
abbreviation (input) "AUTH_UNKNOWN \<equiv> - 1 :: int"
abbreviation (input) "AUTH_NONE \<equiv> 0 :: int"
abbreviation (input) "AUTH_CHAP \<equiv> 1 :: int"
abbreviation (input) "INCOMING_BUFSIZE \<equiv> 8192 :: nat"
abbreviation (input) "ISCSI_NAME_LEN \<equiv> 256 :: nat"
abbreviation (input) "PAD_WORD_LEN \<equiv> 4 :: nat"

text \<open>
  The state of the byte transfer of a connection. A place that incoming bytes are written to
  is a field of the connection or a buffer of a task, with an offset: \<open>rx_buffer\<close>, and \<open>ahs\<close> and
  \<open>data\<close> of the request. \<open>io_bhs\<close> is \<open>req.bhs\<close> as received so far, \<open>io_tx_buffer\<close> is what is left
  to send of the current part of the response (\<open>tx_buffer\<close> with \<open>tx_size\<close>). Of the statistics,
  the counters that the code updates.
\<close>

datatype rx_ptr = Rx_null | Rx_bhs nat | Rx_req_buffer nat | Rx_digest nat | Rx_task_ahs nat nat | Rx_task_data nat nat

record iscsi_stats =
  txdata_octets :: u64
  rxdata_octets :: u64
  scsicmd_pdus :: u32
  dataout_pdus :: u32
  scsirsp_pdus :: u32
  datain_pdus :: u32

record conn_io =
  io_bhs :: bytes
  io_req_buffer :: bytes
  io_rx_buffer :: rx_ptr
  io_rx_size :: nat
  io_req_ahs :: rx_ptr
  io_req_data :: rx_ptr
  io_ahssize :: nat
  io_datasize :: nat
  io_tx_buffer :: bytes
  io_rx_digest :: bytes
  io_tx_digest :: bytes
  io_events :: u32
  io_stats :: iscsi_stats

text \<open>
  The fields as \<open>zalloc\<close> of the connection leaves them. The bytes of the request buffer are
  read only after they were received; it starts as zeros.
\<close>

definition conn_io_init :: conn_io where
  "conn_io_init = \<lparr>io_bhs = replicate BHS_SIZE 0, io_req_buffer = replicate 8192 0, io_rx_buffer = Rx_null, io_rx_size = 0,
     io_req_ahs = Rx_null, io_req_data = Rx_null, io_ahssize = 0, io_datasize = 0, io_tx_buffer = [],
     io_rx_digest = replicate 4 0, io_tx_digest = replicate 4 0, io_events = 0,
     io_stats = \<lparr>txdata_octets = 0, rxdata_octets = 0, scsicmd_pdus = 0, dataout_pdus = 0, scsirsp_pdus = 0, datain_pdus = 0\<rparr>\<rparr>"

text \<open>
  A connection with the fields of the TCP transport's \<open>iscsi_tcp_connection\<close> around it
  (\<open>nop_count\<close>, \<open>nop_interval\<close>, \<open>nop_tick\<close>, \<open>nop_inflight_count\<close>, \<open>ttt\<close> as \<open>cn_nop_ttt\<close>). The buffer
  \<open>rsp_buffer\<close> is the data of the response; \<open>text_rsp_buffer\<close> with \<open>text_datasize\<close> is
  the rest of a long text response.
\<close>

record iscsi_connection =
  cn_id :: nat
  cn_state :: int
  cn_closed :: bool
  cn_rx_iostate :: iostate
  cn_tx_iostate :: iostate
  cn_refcount :: int
  cn_session :: "nat option"
  cn_tid :: int
  cn_session_param :: "param list"
  cn_initiator :: "string option"
  cn_initiator_alias :: "string option"
  cn_isid :: bytes
  cn_tsih :: u16
  cn_cid :: u16
  cn_session_type :: int
  cn_auth_method :: int
  cn_stat_sn :: u32
  cn_exp_stat_sn :: u32
  cn_exp_cmd_sn :: u32
  cn_max_cmd_sn :: u32
  cn_req :: iscsi_pdu
  cn_rsp :: iscsi_pdu
  cn_rsp_buffer_size :: nat
  cn_ttt :: u32
  cn_text_rsp :: bytes
  cn_rx_task :: "nat option"
  cn_tx_task :: "nat option"
  cn_tx_clist :: "nat list"
  cn_task_list :: "nat list"
  cn_auth_state :: int
  cn_digest_alg :: int
  cn_chap_id :: u32
  cn_challenge :: bytes
  cn_nop_count :: int
  cn_nop_interval :: int
  cn_nop_tick :: int
  cn_nop_inflight_count :: int
  cn_nop_ttt :: u32
  cn_io :: conn_io

record redirect_info =
  ri_addr :: string
  ri_port :: string
  ri_reason :: u8
  ri_callback :: "string option"

text \<open>The sessions of a target are those of \<open>iw_sessions\<close> with its id, in that order.\<close>

record iscsi_target =
  it_session_param :: "param list"
  it_tid :: int
  it_redirect_info :: redirect_info
  it_isns_list :: "string list"
  it_rdma :: bool
  it_nop_interval :: int
  it_nop_count :: int

text \<open>An address the TCP transport listens on.\<close>

record iscsi_portal =
  po_addr :: string
  po_port :: int
  po_tpgt :: int
  po_fd :: int
  po_af :: nat

text \<open>
  The state of the transport: the targets and accounts of the core, the iSCSI targets,
  sessions (newest first, as \<open>list_add\<close> leaves them), connections and tasks, the management requests, the
  static variables \<open>last_tsih\<close> of \<open>session_create\<close> and \<open>chap_id\<close> of the CHAP code and
  \<open>nop_ttt\<close> of the TCP transport, the next
  free address, the notifications of the core that are not delivered yet, the settings of
  the iSNS client, the portals (newest first) and the ping settings a new target gets.
\<close>

record iscsi_world =
  iw_adm :: adm
  iw_targets :: "iscsi_target list"
  iw_sessions :: "iscsi_session list"
  iw_conns :: "iscsi_connection list"
  iw_tasks :: "iscsi_task list"
  iw_mreqs :: "nat \<Rightarrow> mgmt_req option"
  iw_last_tsih :: u16
  iw_chap_id :: u32
  iw_nop_ttt :: u32
  iw_next :: nat
  iw_events :: "notify list"
  iw_use_isns :: bool
  iw_use_isns_ac :: bool
  iw_isns_addr :: string
  iw_isns_port :: int
  iw_portals :: "iscsi_portal list"
  iw_default_nop_interval :: int
  iw_default_nop_count :: int

definition upd_session :: "nat \<Rightarrow> (iscsi_session \<Rightarrow> iscsi_session) \<Rightarrow> iscsi_world \<Rightarrow> iscsi_world" where
  "upd_session s f w = w\<lparr>iw_sessions := lupdate ss_id s f (iw_sessions w)\<rparr>"

definition upd_conn :: "nat \<Rightarrow> (iscsi_connection \<Rightarrow> iscsi_connection) \<Rightarrow> iscsi_world \<Rightarrow> iscsi_world" where
  "upd_conn c f w = w\<lparr>iw_conns := lupdate cn_id c f (iw_conns w)\<rparr>"

definition upd_task :: "nat \<Rightarrow> (iscsi_task \<Rightarrow> iscsi_task) \<Rightarrow> iscsi_world \<Rightarrow> iscsi_world" where
  "upd_task t f w = w\<lparr>iw_tasks := lupdate tk_id t f (iw_tasks w)\<rparr>"

definition get_session :: "nat \<Rightarrow> iscsi_world \<Rightarrow> iscsi_session option" where
  "get_session s w = lfind ss_id s (iw_sessions w)"

definition get_conn :: "nat \<Rightarrow> iscsi_world \<Rightarrow> iscsi_connection option" where
  "get_conn c w = lfind cn_id c (iw_conns w)"

definition get_task :: "nat \<Rightarrow> iscsi_world \<Rightarrow> iscsi_task option" where
  "get_task t w = lfind tk_id t (iw_tasks w)"

section \<open>Services of the operating system\<close>

text \<open>
  A socket address is its family and its storage; the answers of the socket layer and of
  the resolver, the output of a program, the random numbers, the content of a local
  variable and of allocated memory that was never written and the time are given by an environment.
\<close>

abbreviation (input) "AF_INET \<equiv> 2 :: nat"
abbreviation (input) "AF_INET6 \<equiv> 10 :: nat"

record sockaddr =
  sa_family :: nat
  sa_storage :: bytes

record os_env =
  ep_getpeername :: "nat \<Rightarrow> sockaddr option"
  ep_getsockname :: "nat \<Rightarrow> sockaddr option"
  os_getaddrinfo :: "string \<Rightarrow> sockaddr option"
  os_getnameinfo :: "sockaddr \<Rightarrow> string option"
  os_call_program :: "string \<Rightarrow> string option"
  os_rand :: "nat \<Rightarrow> u32"
  os_uninit :: u32
  os_heap :: "nat \<Rightarrow> u8"
  os_time :: int

end
