(* ===== verification/Iscsi_Text.thy ===== *)
theory Iscsi_Text
  imports Iscsi_State
begin

text \<open>
  The key=value texts of login and text requests (\<open>usr/iscsi/iscsid.c\<close>): finding a key,
  walking over the pairs, and appending a pair to the response. The scanners write zero
  bytes into the request they walk over; no request is walked over twice, so the model
  leaves the request as it is.
\<close>

unbundle bit_operations_syntax

section \<open>Reading\<close>

abbreviation (input) "NUL \<equiv> CHR 0x00"

text \<open>
  One step over the text: the characters before the next \<open>=\<close>, those up to the zero
  byte after it, and the rest; \<open>None\<close> when a terminator is missing.
\<close>

definition split_pair :: "string \<Rightarrow> (string \<times> string \<times> string) option" where
  "split_pair data =
     (case dropWhile (\<lambda>c. c \<noteq> CHR ''='') data of
        [] \<Rightarrow> None
      | _ # r \<Rightarrow>
          (case dropWhile (\<lambda>c. c \<noteq> NUL) r of
             [] \<Rightarrow> None
           | _ # rest \<Rightarrow> Some (takeWhile (\<lambda>c. c \<noteq> CHR ''='') data, takeWhile (\<lambda>c. c \<noteq> NUL) r, rest)))"

lemma split_pair_shorter: "split_pair data = Some (k, v, rest) \<Longrightarrow> length rest < length data"
proof -
  assume s: "split_pair data = Some (k, v, rest)"
  obtain c r d where r: "dropWhile (\<lambda>c. c \<noteq> CHR ''='') data = c # r" "dropWhile (\<lambda>c. c \<noteq> NUL) r = d # rest"
    using s by (auto simp: split_pair_def split: list.splits)
  have "length (c # r) \<le> length data" "length (d # rest) \<le> length r"
    using length_dropWhile_le [of "\<lambda>c. c \<noteq> CHR ''=''" data] length_dropWhile_le [of "\<lambda>c. c \<noteq> NUL" r] r by simp_all
  then show ?thesis
    by simp
qed

function text_find :: "string \<Rightarrow> string \<Rightarrow> string option" where
  "text_find key data =
     (case split_pair data of
        None \<Rightarrow> None
      | Some (k, v, rest) \<Rightarrow> if k = key then Some v else text_find key rest)"
  by pat_completeness auto
termination
  by (relation "measure (\<lambda>(k, d). length d)") (auto dest: split_pair_shorter)

declare text_find.simps [simp del]

definition text_key_find :: "iscsi_connection \<Rightarrow> string \<Rightarrow> string option" where
  "text_key_find conn key = text_find key (bytes_str (pd_data (cn_req conn)))"

text \<open>The key that \<open>next_key\<close> returns is a C string: it ends at its first zero byte.\<close>

definition next_key :: "string \<Rightarrow> (string \<times> string \<times> string) option" where
  "next_key data =
     (case split_pair data of
        None \<Rightarrow> None
      | Some (k, v, rest) \<Rightarrow> Some (takeWhile (\<lambda>c. c \<noteq> NUL) k, v, rest))"

text \<open>The pairs that the loops \<open>while ((key = next_key (...)))\<close> meet.\<close>

function scan_keys :: "string \<Rightarrow> (string \<times> string) list" where
  "scan_keys data = (case next_key data of None \<Rightarrow> [] | Some (k, v, rest) \<Rightarrow> (k, v) # scan_keys rest)"
  by pat_completeness auto
termination
  by (relation "measure length") (auto simp: next_key_def dest: split_pair_shorter split: option.splits)

declare scan_keys.simps [simp del]

definition req_keys :: "iscsi_connection \<Rightarrow> (string \<times> string) list" where
  "req_keys conn = scan_keys (bytes_str (pd_data (cn_req conn)))"

section \<open>Writing\<close>

definition rsp_datasize :: "iscsi_connection \<Rightarrow> nat" where
  "rsp_datasize conn = length (pd_data (cn_rsp conn))"

definition upd_rsp :: "(iscsi_hdr \<Rightarrow> iscsi_hdr) \<Rightarrow> iscsi_connection \<Rightarrow> iscsi_connection" where
  "upd_rsp f conn = conn\<lparr>cn_rsp := (cn_rsp conn)\<lparr>pd_bhs := f (pd_bhs (cn_rsp conn))\<rparr>\<rparr>"

definition pair_text :: "string \<Rightarrow> string \<Rightarrow> string" where
  "pair_text key value = key @ CHR ''='' # value @ [NUL]"

definition text_key_add :: "string \<Rightarrow> string \<Rightarrow> iscsi_connection \<Rightarrow> iscsi_connection" where
  "text_key_add key value conn =
     (let len = length key + length value + 2;
          max_len = (if cn_state conn = STATE_FULL
                     then unat (p_val (cn_session_param conn ! ISCSI_PARAM_MAX_XMIT_DLENGTH))
                     else cn_rsp_buffer_size conn)
      in if rsp_datasize conn + len > max_len \<and> hdr_op (pd_bhs (cn_req conn)) \<noteq> ISCSI_OP_TEXT then conn
         else conn\<lparr>cn_rsp_buffer_size := max (cn_rsp_buffer_size conn) (rsp_datasize conn + len),
                   cn_rsp := (cn_rsp conn)\<lparr>pd_data := pd_data (cn_rsp conn) @ str_bytes (pair_text key value)\<rparr>\<rparr>)"

definition text_key_add_reject :: "string \<Rightarrow> iscsi_connection \<Rightarrow> iscsi_connection" where
  "text_key_add_reject key conn = text_key_add key ''Reject'' conn"

section \<open>What is written is read back\<close>

lemma split_pair_text:
  assumes "CHR ''='' \<notin> set key" "NUL \<notin> set value"
  shows "split_pair (pair_text key value @ rest) = Some (key, value, rest)"
proof -
  have k: "\<forall>c\<in>set key. c \<noteq> CHR ''=''" and v: "\<forall>c\<in>set value. c \<noteq> NUL"
    using assms by auto
  then show ?thesis
    by (simp add: split_pair_def pair_text_def dropWhile_append3 takeWhile_append takeWhile_tail dropWhile_append)
qed

definition good_pair :: "string \<times> string \<Rightarrow> bool" where
  "good_pair kv \<longleftrightarrow> CHR ''='' \<notin> set (fst kv) \<and> NUL \<notin> set (fst kv) \<and> NUL \<notin> set (snd kv)"

definition pairs_text :: "(string \<times> string) list \<Rightarrow> string" where
  "pairs_text kvs = concat (map (\<lambda>kv. pair_text (fst kv) (snd kv)) kvs)"

lemma scan_keys_pairs: "list_all good_pair kvs \<Longrightarrow> scan_keys (pairs_text kvs) = kvs"
proof (induction kvs)
  case Nil
  then show ?case
    by (subst scan_keys.simps) (simp add: pairs_text_def next_key_def split_pair_def)
next
  case (Cons kv kvs)
  then have "next_key (pairs_text (kv # kvs)) = Some (fst kv, snd kv, pairs_text kvs)"
    by (auto simp: pairs_text_def next_key_def split_pair_text good_pair_def takeWhile_eq_all_conv)
  then show ?case
    using Cons by (subst scan_keys.simps) simp
qed

lemma text_find_pairs: "list_all good_pair kvs \<Longrightarrow> text_find key (pairs_text kvs) = map_of kvs key"
proof (induction kvs)
  case Nil
  then show ?case
    by (subst text_find.simps) (simp add: pairs_text_def split_pair_def)
next
  case (Cons kv kvs)
  then have "split_pair (pairs_text (kv # kvs)) = Some (fst kv, snd kv, pairs_text kvs)"
    by (auto simp: pairs_text_def split_pair_text good_pair_def)
  then show ?case
    using Cons by (subst text_find.simps) (cases kv, simp)
qed

lemma length_pair_text: "length (pair_text k v) = length k + length v + 2"
  by (simp add: pair_text_def)

text \<open>Adding a list of pairs that fits into the response buffer appends its text.\<close>

definition add_keys :: "(string \<times> string) list \<Rightarrow> iscsi_connection \<Rightarrow> iscsi_connection" where
  "add_keys kvs conn = fold (\<lambda>kv. text_key_add (fst kv) (snd kv)) kvs conn"

lemma add_keys_text:
  assumes "cn_state conn \<noteq> STATE_FULL" "rsp_datasize conn + length (pairs_text kvs) \<le> cn_rsp_buffer_size conn"
  shows "pd_data (cn_rsp (add_keys kvs conn)) = pd_data (cn_rsp conn) @ str_bytes (pairs_text kvs)"
  using assms
proof (induction kvs arbitrary: conn)
  case Nil
  then show ?case
    by (simp add: add_keys_def pairs_text_def str_bytes_def)
next
  case (Cons kv kvs)
  let ?c = "text_key_add (fst kv) (snd kv) conn"
  have fits: "rsp_datasize conn + (length (fst kv) + length (snd kv) + 2) + length (pairs_text kvs) \<le> cn_rsp_buffer_size conn"
    using Cons.prems(2) by (simp add: pairs_text_def length_pair_text)
  then have c: "?c = conn\<lparr>cn_rsp := (cn_rsp conn)\<lparr>pd_data := pd_data (cn_rsp conn) @ str_bytes (pair_text (fst kv) (snd kv))\<rparr>\<rparr>"
    using Cons.prems(1) by (simp add: text_key_add_def Let_def max_def)
  have "pd_data (cn_rsp (add_keys kvs ?c)) = pd_data (cn_rsp ?c) @ str_bytes (pairs_text kvs)"
    by (rule Cons.IH) (use c fits Cons.prems(1) in \<open>simp_all add: rsp_datasize_def str_bytes_def length_pair_text\<close>)
  then show ?case
    by (simp add: add_keys_def c pairs_text_def str_bytes_def)
qed

text \<open>
  C37. The text of a response is read back as it was written. A list of pairs, with no
  \<open>=\<close> in a key and no zero byte in either, that fits into the response buffer is
  found again pair by pair by the scanner, and \<open>text_key_find\<close> run on that text gives
  the value first written for the key.
\<close>

theorem text_keys_roundtrip:
  assumes "list_all good_pair kvs" "cn_state conn \<noteq> STATE_FULL" "pd_data (cn_rsp conn) = []"
    and "length (pairs_text kvs) \<le> cn_rsp_buffer_size conn"
    and "pd_data (cn_req peer) = pd_data (cn_rsp (add_keys kvs conn))"
  shows "req_keys peer = kvs \<and> text_key_find peer key = map_of kvs key"
  using assms add_keys_text [of conn kvs]
  by (simp add: req_keys_def text_key_find_def rsp_datasize_def scan_keys_pairs text_find_pairs)

definition ex_conn :: iscsi_connection where
  "ex_conn = \<lparr>cn_id = 0, cn_state = STATE_FREE, cn_closed = False, cn_rx_iostate = IOSTATE_FREE, cn_tx_iostate = IOSTATE_FREE,
     cn_refcount = 1, cn_session = None, cn_tid = 0,
     cn_session_param = param_set_defaults session_keys (replicate 24 \<lparr>p_state = KEY_STATE_START, p_val = 0\<rparr>),
     cn_initiator = None, cn_initiator_alias = None, cn_isid = replicate 6 0, cn_tsih = 0, cn_cid = 0,
     cn_session_type = 0, cn_auth_method = 0, cn_stat_sn = 0, cn_exp_stat_sn = 0, cn_exp_cmd_sn = 0, cn_max_cmd_sn = 0,
     cn_req = \<lparr>pd_bhs = zero_hdr, pd_ahs = [], pd_data = []\<rparr>, cn_rsp = \<lparr>pd_bhs = zero_hdr, pd_ahs = [], pd_data = []\<rparr>,
     cn_rsp_buffer_size = 8192, cn_ttt = 0, cn_text_rsp = [], cn_rx_task = None, cn_tx_task = None, cn_tx_clist = [],
     cn_task_list = [], cn_auth_state = 0, cn_digest_alg = 0, cn_chap_id = 0, cn_challenge = [], cn_nop_count = 0,
     cn_nop_interval = 0, cn_nop_tick = 0, cn_nop_inflight_count = 0, cn_nop_ttt = 0, cn_io = conn_io_init\<rparr>"

theorem text_keys_roundtrip_witness:
  "\<exists>peer. text_key_find peer ''CHAP_N'' = Some ''bob'' \<and> req_keys peer = [(''AuthMethod'', ''CHAP''), (''CHAP_N'', ''bob'')]"
proof -
  let ?kvs = "[(''AuthMethod'', ''CHAP''), (''CHAP_N'', ''bob'')]"
  let ?peer = "ex_conn\<lparr>cn_req := \<lparr>pd_bhs = zero_hdr, pd_ahs = [], pd_data = pd_data (cn_rsp (add_keys ?kvs ex_conn))\<rparr>\<rparr>"
  have "req_keys ?peer = ?kvs \<and> text_key_find ?peer ''CHAP_N'' = map_of ?kvs ''CHAP_N''"
    by (rule text_keys_roundtrip [where conn = ex_conn])
       (simp_all add: ex_conn_def good_pair_def pairs_text_def pair_text_def)
  then show ?thesis
    by (intro exI [of _ ?peer]) simp
qed

end
