(* ===== verification/Iscsi_Acl.thy ===== *)
theory Iscsi_Acl
  imports Iscsi_Text "HOL-Library.Monad_Syntax"
begin

text \<open>
  Address and name access lists, redirection and the iSCSI target table
  (\<open>usr/iscsi/target.c\<close>). A predicate that the code leaves undefined (a shift by the
  width of the type) is \<open>None\<close>; otherwise \<open>Some True\<close> means that the initiator is admitted.
\<close>

unbundle bit_operations_syntax

section \<open>Address matching\<close>

definition sin_addr :: "sockaddr \<Rightarrow> u32" where
  "sin_addr sa = get_unaligned_be32 (sa_storage sa) 4"

definition s6_addr16 :: "sockaddr \<Rightarrow> nat \<Rightarrow> u16" where
  "s6_addr16 sa i = get_unaligned_be16 (sa_storage sa) (8 + 2 * i)"

definition netmask_match_v6 :: "sockaddr \<Rightarrow> sockaddr \<Rightarrow> u32 \<Rightarrow> bool" where
  "netmask_match_v6 sa1 sa2 mbit =
     (let q = unat mbit div 16; r = unat mbit mod 16; msk = NOT (push_bit (16 - r) 1 - 1) :: u16 in
      if list_ex (\<lambda>i. s6_addr16 sa1 i XOR s6_addr16 sa2 i \<noteq> 0) [0..<q] then False
      else if r \<noteq> 0 \<and> (msk AND s6_addr16 sa1 q) XOR (msk AND s6_addr16 sa2 q) \<noteq> 0 then False
      else True)"

text \<open>\<open>1 << (32 - mbit)\<close> is undefined for \<open>mbit = 0\<close>.\<close>

definition netmask_match_v4 :: "sockaddr \<Rightarrow> sockaddr \<Rightarrow> u32 \<Rightarrow> bool option" where
  "netmask_match_v4 sa1 sa2 mbit =
     (let msk = NOT (push_bit (32 - unat mbit) 1 - 1) :: u32; s1 = sin_addr sa1; s2 = sin_addr sa2 in
      if mbit = 0 then None
      else if NOT msk AND s1 \<noteq> 0 then Some False
      else Some ((msk AND s2) XOR (msk AND s1) = 0))"

definition netmask_match :: "sockaddr \<Rightarrow> sockaddr \<Rightarrow> string \<Rightarrow> bool option" where
  "netmask_match sa1 sa2 buf =
     (let family = sa_family sa1; mbit = ucast (fst (strtoull0 buf)) :: u32 in
      if family = AF_INET \<and> mbit > 31 \<or> family = AF_INET6 \<and> mbit > 127 then Some False
      else if family = AF_INET then netmask_match_v4 sa1 sa2 mbit
      else Some (netmask_match_v6 sa1 sa2 mbit))"

definition address_match :: "sockaddr \<Rightarrow> sockaddr \<Rightarrow> bool" where
  "address_match sa1 sa2 =
     (if sa_family sa1 = AF_INET then sin_addr sa1 = sin_addr sa2
      else list_all (\<lambda>i. get_unaligned_be32 (sa_storage sa1) (8 + 4 * i) = get_unaligned_be32 (sa_storage sa2) (8 + 4 * i)) [0..<4])"

text \<open>A rule is a host, in brackets or not, with an optional prefix length after a slash.\<close>

definition split_at :: "char \<Rightarrow> string \<Rightarrow> (string \<times> string) option" where
  "split_at c s = (case dropWhile (\<lambda>x. x \<noteq> c) s of [] \<Rightarrow> None | _ # r \<Rightarrow> Some (takeWhile (\<lambda>x. x \<noteq> c) s, r))"

definition acl_rule :: "string \<Rightarrow> (string \<times> string option) option" where
  "acl_rule address =
     (if take 1 address = ''['' then
        (case split_at (CHR '']'') (drop 1 address) of
           None \<Rightarrow> None
         | Some (host, q) \<Rightarrow> Some (host, map_option snd (split_at (CHR ''/'') q)))
      else (case split_at (CHR ''/'') address of
              None \<Rightarrow> Some (address, None)
            | Some (host, q) \<Rightarrow> Some (host, Some q)))"

definition ip_match :: "os_env \<Rightarrow> iscsi_connection \<Rightarrow> string \<Rightarrow> bool option" where
  "ip_match env conn address =
     (case ep_getpeername env (cn_id conn) of
        None \<Rightarrow> Some False
      | Some from \<Rightarrow>
          if address = ''ALL'' then Some True
          else (case acl_rule address of
                  None \<Rightarrow> Some False
                | Some (host, q) \<Rightarrow>
                    (case os_getaddrinfo env host of
                       None \<Rightarrow> Some False
                     | Some res \<Rightarrow>
                         (case q of Some m \<Rightarrow> netmask_match res from m | None \<Rightarrow> Some (address_match res from)))))"

fun acl_loop :: "(string \<Rightarrow> bool option) \<Rightarrow> string list \<Rightarrow> bool option" where
  "acl_loop match [] = Some False"
| "acl_loop match (a # as) = (case match a of None \<Rightarrow> None | Some True \<Rightarrow> Some True | Some False \<Rightarrow> acl_loop match as)"

text \<open>
  The loops \<open>for (idx = 0;; idx++)\<close> read the lists with \<open>acl_get\<close> and \<open>iqn_acl_get\<close>
  until there is no entry: they walk over the lists in order.
\<close>

definition acl_entries :: "(target \<Rightarrow> string list) \<Rightarrow> int \<Rightarrow> target list \<Rightarrow> string list" where
  "acl_entries entries t ts = (case target_lookup t ts of None \<Rightarrow> [] | Some target \<Rightarrow> entries target)"

lemma acl_get_entries:
  "acl_get t i ts = (if i < length (acl_entries acl_list t ts) then Some (acl_entries acl_list t ts ! i) else None)"
  "iqn_acl_get t i ts = (if i < length (acl_entries iqn_acl_list t ts) then Some (acl_entries iqn_acl_list t ts ! i) else None)"
  by (simp_all add: acl_get_def iqn_acl_get_def acl_entries_def split: option.split)

definition ip_acl :: "os_env \<Rightarrow> target list \<Rightarrow> int \<Rightarrow> iscsi_connection \<Rightarrow> bool option" where
  "ip_acl env ts t conn = acl_loop (ip_match env conn) (acl_entries acl_list t ts)"

text \<open>A connection that has not logged in has no initiator name; comparing it reads through a null pointer.\<close>

definition iqn_match :: "iscsi_connection \<Rightarrow> string \<Rightarrow> bool option" where
  "iqn_match conn name = map_option (\<lambda>init. init = name) (cn_initiator conn)"

definition iqn_acl :: "target list \<Rightarrow> int \<Rightarrow> iscsi_connection \<Rightarrow> bool option" where
  "iqn_acl ts t conn =
     (let names = acl_entries iqn_acl_list t ts in if names = [] then Some True else acl_loop (iqn_match conn) names)"

section \<open>What the rules admit\<close>

text \<open>
  The reference: an IPv4 rule with a prefix length has no bits below the prefix, and the
  bits of the prefix, counted from the left, are those of the peer; an IPv6 rule agrees
  with the peer on the first bits in network order.
\<close>

definition prefix4 :: "nat \<Rightarrow> u32 \<Rightarrow> u32 \<Rightarrow> bool" where
  "prefix4 m a b \<longleftrightarrow> (\<forall>k<m. bit a (31 - k) = bit b (31 - k)) \<and> (\<forall>k<32. m \<le> k \<longrightarrow> \<not> bit a (31 - k))"

definition prefix6 :: "nat \<Rightarrow> (nat \<Rightarrow> u16) \<Rightarrow> (nat \<Rightarrow> u16) \<Rightarrow> bool" where
  "prefix6 m a b \<longleftrightarrow> (\<forall>k<m. bit (a (k div 16)) (15 - k mod 16) = bit (b (k div 16)) (15 - k mod 16))"

lemma xor_eq_0: "a XOR b = 0 \<longleftrightarrow> a = b" for a b :: "'a::len word"
  by (auto simp: bit_eq_iff bit_simps)

lemma not_mask: "(NOT (push_bit k 1 - 1) :: 'a::len word) = NOT (mask k)"
  by (simp add: mask_eq_exp_minus_1 push_bit_eq_mult)

lemma mask_and_eq:
  "NOT (mask k) AND a = NOT (mask k) AND b \<longleftrightarrow> (\<forall>n. k \<le> n \<longrightarrow> n < LENGTH('a) \<longrightarrow> bit a n = bit b n)"
  for a b :: "'a::len word"
  by (auto simp: bit_eq_iff bit_simps not_less)

lemma mask_and_zero: "mask k AND a = 0 \<longleftrightarrow> (\<forall>n<k. n < LENGTH('a) \<longrightarrow> \<not> bit a n)" for a :: "'a::len word"
  by (auto simp: bit_eq_iff bit_simps)

lemma flip_index: "(\<forall>k<m. P (w - k)) \<longleftrightarrow> (\<forall>n. Suc w - m \<le> n \<longrightarrow> n \<le> w \<longrightarrow> P n)" if "m \<le> Suc w" for m w :: nat
proof (intro iffI allI impI)
  fix n assume "\<forall>k<m. P (w - k)" "Suc w - m \<le> n" "n \<le> w"
  moreover from this have "w - n < m"
    by linarith
  ultimately have "P (w - (w - n))"
    by blast
  then show "P n"
    using \<open>n \<le> w\<close> by simp
next
  fix k assume "\<forall>n. Suc w - m \<le> n \<longrightarrow> n \<le> w \<longrightarrow> P n" "k < m"
  moreover from this that have "Suc w - m \<le> w - k"
    by linarith
  ultimately show "P (w - k)"
    by simp
qed

lemma netmask_match_v4_prefix:
  assumes "0 < mbit" "mbit \<le> 31"
  shows "netmask_match_v4 sa1 sa2 mbit = Some (prefix4 (unat mbit) (sin_addr sa1) (sin_addr sa2))"
proof -
  define m a b where "m = unat mbit" and "a = sin_addr sa1" and "b = sin_addr sa2"
  have m: "0 < m" "m \<le> 31"
    using assms by (simp_all add: m_def word_less_nat_alt word_le_nat_alt)
  have low: "mask (32 - m) AND a = 0 \<longleftrightarrow> (\<forall>k<32. m \<le> k \<longrightarrow> \<not> bit a (31 - k))"
  proof -
    have "(\<forall>k<32. m \<le> k \<longrightarrow> \<not> bit a (31 - k)) \<longleftrightarrow> (\<forall>n<32 - m. \<not> bit a n)"
    proof (intro iffI allI impI)
      fix n assume h: "\<forall>k<32. m \<le> k \<longrightarrow> \<not> bit a (31 - k)" "n < 32 - m"
      then have "31 - n < 32" "m \<le> 31 - n" "31 - (31 - n) = n"
        by simp_all
      then show "\<not> bit a n"
        using h(1) by metis
    qed (use m in auto)
    then show ?thesis
      by (auto simp: mask_and_zero)
  qed
  have high: "NOT (mask (32 - m)) AND b = NOT (mask (32 - m)) AND a \<longleftrightarrow> (\<forall>k<m. bit a (31 - k) = bit b (31 - k))"
    using flip_index [of m 31 "\<lambda>n. bit a n = bit b n"] m by (auto simp: mask_and_eq)
  show ?thesis
    using assms(1) low high unfolding netmask_match_v4_def prefix4_def Let_def not_mask
    by (simp add: xor_eq_0 flip: m_def a_def b_def) blast
qed

lemma netmask_match_v6_prefix:
  assumes "mbit \<le> 127"
  shows "netmask_match_v6 sa1 sa2 mbit \<longleftrightarrow> prefix6 (unat mbit) (s6_addr16 sa1) (s6_addr16 sa2)"
proof -
  define m q r a b where "m = unat mbit" and "q = m div 16" and "r = m mod 16" and "a = s6_addr16 sa1" and "b = s6_addr16 sa2"
  have m: "m = 16 * q + r" "r < 16"
    by (simp_all add: q_def r_def)
  have word: "a i = b i \<longleftrightarrow> (\<forall>j<16. bit (a i) (15 - j) = bit (b i) (15 - j))" for i
    using flip_index [of 16 15 "\<lambda>n. bit (a i) n = bit (b i) n"] by (auto simp: bit_eq_iff)
  have part: "NOT (mask (16 - r)) AND a q = NOT (mask (16 - r)) AND b q \<longleftrightarrow> (\<forall>j<r. bit (a q) (15 - j) = bit (b q) (15 - j))"
    using flip_index [of r 15 "\<lambda>n. bit (a q) n = bit (b q) n"] m by (auto simp: mask_and_eq)
  have "prefix6 m a b \<longleftrightarrow> (\<forall>i<q. \<forall>j<16. bit (a i) (15 - j) = bit (b i) (15 - j)) \<and> (\<forall>j<r. bit (a q) (15 - j) = bit (b q) (15 - j))"
  proof (rule iffI, intro conjI allI impI)
    fix i j :: nat assume h: "prefix6 m a b" "i < q" "j < 16"
    then have "16 * i + j < m"
      using m by linarith
    then show "bit (a i) (15 - j) = bit (b i) (15 - j)"
      using h(1,3) by (auto simp: prefix6_def dest: spec [of _ "16 * i + j"])
  next
    fix j assume h: "prefix6 m a b" "j < r"
    then show "bit (a q) (15 - j) = bit (b q) (15 - j)"
      using m by (auto simp: prefix6_def dest: spec [of _ "16 * q + j"])
  next
    assume h: "(\<forall>i<q. \<forall>j<16. bit (a i) (15 - j) = bit (b i) (15 - j)) \<and> (\<forall>j<r. bit (a q) (15 - j) = bit (b q) (15 - j))"
    show "prefix6 m a b"
      unfolding prefix6_def
    proof (intro allI impI)
      fix k assume k: "k < m"
      show "bit (a (k div 16)) (15 - k mod 16) = bit (b (k div 16)) (15 - k mod 16)"
      proof (cases "k div 16 < q")
        case False
        then have "k div 16 = q"
          using div_le_mono [of k m 16] k by (simp add: q_def)
        moreover from this have "k mod 16 < r"
          using k m div_mult_mod_eq [of k 16] by linarith
        ultimately have "k div 16 = q" "k mod 16 < r"
          by simp_all
        then show ?thesis
          using h by simp
      qed (use h in simp)
    qed
  qed
  then show ?thesis
    using part word unfolding netmask_match_v6_def Let_def not_mask
    by (auto simp: xor_eq_0 list_ex_iff simp flip: m_def a_def b_def q_def r_def)
qed


text \<open>
  What a rule describes: every peer, or the peers of the family of its host whose address
  is the host, or agrees with it on the prefix.
\<close>

definition same_address :: "sockaddr \<Rightarrow> sockaddr \<Rightarrow> bool" where
  "same_address sa from \<longleftrightarrow> (if sa_family from = AF_INET then sin_addr sa = sin_addr from
     else (\<forall>i<8. s6_addr16 sa i = s6_addr16 from i))"

definition same_prefix :: "u32 \<Rightarrow> sockaddr \<Rightarrow> sockaddr \<Rightarrow> bool" where
  "same_prefix n sa from \<longleftrightarrow> (if sa_family from = AF_INET then n \<le> 31 \<and> prefix4 (unat n) (sin_addr sa) (sin_addr from)
     else n \<le> 127 \<and> prefix6 (unat n) (s6_addr16 sa) (s6_addr16 from))"

definition rule_admits :: "os_env \<Rightarrow> sockaddr \<Rightarrow> string \<Rightarrow> bool" where
  "rule_admits env from rule \<longleftrightarrow> rule = ''ALL'' \<or>
     (\<exists>host q sa. acl_rule rule = Some (host, q) \<and> os_getaddrinfo env host = Some sa \<and> sa_family sa = sa_family from \<and>
        (case q of None \<Rightarrow> same_address sa from | Some m \<Rightarrow> same_prefix (ucast (fst (strtoull0 m))) sa from))"

text \<open>
  The families are not compared. A rule of the other family is held against other parts of
  the address of the peer: an IPv4 rule against the flow information of an IPv6 peer, an IPv6
  rule against the sixteen bytes behind the address of an IPv4 peer.
\<close>

definition sin6_flowinfo :: "sockaddr \<Rightarrow> u32" where
  "sin6_flowinfo sa = get_unaligned_be32 (sa_storage sa) 4"

definition after_sin_addr :: "sockaddr \<Rightarrow> nat \<Rightarrow> u16" where
  "after_sin_addr sa i = get_unaligned_be16 (sa_storage sa) (8 + 2 * i)"

definition rule_crosses :: "os_env \<Rightarrow> sockaddr \<Rightarrow> string \<Rightarrow> bool" where
  "rule_crosses env from rule \<longleftrightarrow>
     (\<exists>host q sa. rule \<noteq> ''ALL'' \<and> acl_rule rule = Some (host, q) \<and> os_getaddrinfo env host = Some sa \<and>
        (sa_family sa = AF_INET \<and> sa_family from = AF_INET6 \<and>
           (case q of None \<Rightarrow> sin_addr sa = sin6_flowinfo from
            | Some m \<Rightarrow> let n = ucast (fst (strtoull0 m)) :: u32 in n \<le> 31 \<and> prefix4 (unat n) (sin_addr sa) (sin6_flowinfo from))
         \<or> sa_family sa = AF_INET6 \<and> sa_family from = AF_INET \<and>
           (case q of None \<Rightarrow> \<forall>i<8. s6_addr16 sa i = after_sin_addr from i
            | Some m \<Rightarrow> let n = ucast (fst (strtoull0 m)) :: u32 in n \<le> 127 \<and> prefix6 (unat n) (s6_addr16 sa) (after_sin_addr from))))"

text \<open>Rules the code has a meaning for: the resolver gives addresses of the two families and no IPv4 prefix has length 0.\<close>

definition rule_defined :: "os_env \<Rightarrow> string \<Rightarrow> bool" where
  "rule_defined env rule \<longleftrightarrow> (\<forall>host q sa. acl_rule rule = Some (host, q) \<longrightarrow> os_getaddrinfo env host = Some sa \<longrightarrow>
     (sa_family sa = AF_INET \<or> sa_family sa = AF_INET6) \<and>
     (\<forall>m. q = Some m \<longrightarrow> sa_family sa = AF_INET \<longrightarrow> (ucast (fst (strtoull0 m)) :: u32) \<noteq> 0))"

lemma word_halves:
  fixes a b c d :: u8
  defines "w \<equiv> push_bit 24 (ucast a) OR push_bit 16 (ucast b) OR push_bit 8 (ucast c) OR ucast d :: u32"
  shows "ucast (drop_bit 16 w) = (push_bit 8 (ucast a) OR ucast b :: u16)"
    and "ucast w = (push_bit 8 (ucast c) OR ucast d :: u16)"
    and "w = push_bit 16 (ucast (push_bit 8 (ucast a) OR ucast b :: u16)) OR ucast (push_bit 8 (ucast c) OR ucast d :: u16)"
  unfolding w_def
  by (rule bit_word_eqI, auto simp: bit_simps dest: bit_imp_le_length)+

lemma be32_halves:
  "get_unaligned_be32 b p = get_unaligned_be32 c p \<longleftrightarrow>
     get_unaligned_be16 b p = get_unaligned_be16 c p \<and> get_unaligned_be16 b (p + 2) = get_unaligned_be16 c (p + 2)"
proof -
  have n: "p + 2 + 1 = p + 3"
    by simp
  show ?thesis
    unfolding get_unaligned_be32_def get_unaligned_be16_def n
    by (metis word_halves)
qed

lemma address_match_v6:
  assumes "sa_family sa = AF_INET6"
  shows "address_match sa from \<longleftrightarrow> (\<forall>i<8. s6_addr16 sa i = s6_addr16 from i)"
proof -
  have "(\<forall>i<8. P i) \<longleftrightarrow> (\<forall>i<4. P (2 * i) \<and> P (2 * i + 1))" for P :: "nat \<Rightarrow> bool"
    by (simp add: eval_nat_numeral All_less_Suc) blast
  then show ?thesis
    using assms by (simp add: address_match_def list_all_iff s6_addr16_def be32_halves algebra_simps Ball_def)
qed

text \<open>One rule whose host has an address, against the peer.\<close>

lemma address_match_rule:
  assumes "sa_family sa = AF_INET \<or> sa_family sa = AF_INET6" "sa_family from = AF_INET \<or> sa_family from = AF_INET6"
  shows "address_match sa from \<longleftrightarrow>
     sa_family sa = sa_family from \<and> same_address sa from
     \<or> sa_family sa = AF_INET \<and> sa_family from = AF_INET6 \<and> sin_addr sa = sin6_flowinfo from
     \<or> sa_family sa = AF_INET6 \<and> sa_family from = AF_INET \<and> (\<forall>i<8. s6_addr16 sa i = after_sin_addr from i)"
proof (cases "sa_family sa = AF_INET6")
  case True
  then show ?thesis
    using assms(2) address_match_v6 [OF True] by (auto simp: same_address_def s6_addr16_def after_sin_addr_def)
next
  case False
  then show ?thesis
    using assms by (auto simp: same_address_def address_match_def sin_addr_def sin6_flowinfo_def)
qed

lemma netmask_match_rule:
  assumes "sa_family sa = AF_INET \<or> sa_family sa = AF_INET6" "sa_family from = AF_INET \<or> sa_family from = AF_INET6"
    and n: "n = ucast (fst (strtoull0 m))" "sa_family sa = AF_INET \<Longrightarrow> n \<noteq> 0"
  shows "netmask_match sa from m = Some (
     sa_family sa = sa_family from \<and> same_prefix n sa from
     \<or> sa_family sa = AF_INET \<and> sa_family from = AF_INET6 \<and> n \<le> 31 \<and> prefix4 (unat n) (sin_addr sa) (sin6_flowinfo from)
     \<or> sa_family sa = AF_INET6 \<and> sa_family from = AF_INET \<and> n \<le> 127 \<and> prefix6 (unat n) (s6_addr16 sa) (after_sin_addr from))"
proof -
  have "sin6_flowinfo from = sin_addr from" "after_sin_addr from = s6_addr16 from"
    by (auto simp: sin6_flowinfo_def sin_addr_def after_sin_addr_def s6_addr16_def)
  then show ?thesis
    using assms unfolding netmask_match_def Let_def n(1) [symmetric]
    by (auto simp: same_prefix_def netmask_match_v4_prefix netmask_match_v6_prefix word_neq_0_conv not_less)
qed

lemma ip_match_admits:
  assumes peer: "ep_getpeername env (cn_id conn) = Some from" "sa_family from = AF_INET \<or> sa_family from = AF_INET6"
    and rule: "rule_defined env rule"
  shows "ip_match env conn rule = Some (rule_admits env from rule \<or> rule_crosses env from rule)"
proof (cases "rule \<noteq> ''ALL'' \<and> (\<exists>host q sa. acl_rule rule = Some (host, q) \<and> os_getaddrinfo env host = Some sa)")
  case False
  then show ?thesis
    using peer(1) by (auto simp: ip_match_def rule_admits_def rule_crosses_def split: option.splits prod.splits)
next
  case True
  then obtain host q sa where r: "rule \<noteq> ''ALL''" "acl_rule rule = Some (host, q)" "os_getaddrinfo env host = Some sa"
    by blast
  then have fam: "sa_family sa = AF_INET \<or> sa_family sa = AF_INET6"
      "\<And>m. q = Some m \<Longrightarrow> sa_family sa = AF_INET \<Longrightarrow> (ucast (fst (strtoull0 m)) :: u32) \<noteq> 0"
    using rule by (auto simp: rule_defined_def)
  have "ip_match env conn rule = (case q of Some m \<Rightarrow> netmask_match sa from m | None \<Rightarrow> Some (address_match sa from))"
    using peer(1) r by (simp add: ip_match_def)
  also have "\<dots> = Some (rule_admits env from rule \<or> rule_crosses env from rule)"
  proof (cases q)
    case None
    then show ?thesis
      using r address_match_rule [OF fam(1) peer(2)] by (simp add: rule_admits_def rule_crosses_def)
  next
    case (Some m)
    then show ?thesis
      using r netmask_match_rule [OF fam(1) peer(2) refl fam(2)] by (simp add: rule_admits_def rule_crosses_def Let_def)
  qed
  finally show ?thesis .
qed

lemma acl_loop_exists: "(\<And>a. a \<in> set as \<Longrightarrow> match a = Some (P a)) \<Longrightarrow> acl_loop match as = Some (\<exists>a\<in>set as. P a)"
  by (induction as) (auto split: bool.split)

text \<open>Rules of the family of the peer cannot cross; a rule of the other family can.\<close>

lemma rule_crosses_family:
  assumes "\<And>host q sa. acl_rule rule = Some (host, q) \<Longrightarrow> os_getaddrinfo env host = Some sa \<Longrightarrow> sa_family sa = sa_family from"
  shows "\<not> rule_crosses env from rule"
  using assms by (force simp: rule_crosses_def)

lemma ipv4_any_admits_ipv6:
  assumes "ep_getpeername env (cn_id conn) = Some from" "sa_family from = AF_INET6" "sin6_flowinfo from = 0"
    and "os_getaddrinfo env ''0.0.0.0'' = Some sa" "sa_family sa = AF_INET" "sin_addr sa = 0"
  shows "ip_match env conn ''0.0.0.0'' = Some True" "\<not> rule_admits env from ''0.0.0.0''"
proof -
  have r: "acl_rule ''0.0.0.0'' = Some (''0.0.0.0'', None)"
    by (simp add: acl_rule_def split_at_def)
  show "ip_match env conn ''0.0.0.0'' = Some True"
    using assms r by (simp add: ip_match_def address_match_def sin_addr_def sin6_flowinfo_def)
  show "\<not> rule_admits env from ''0.0.0.0''"
    using assms r by (simp add: rule_admits_def)
qed

text \<open>
  C36. The address list of a target admits every peer one of its rules describes: the rule
  is ALL, or its host is of the family of the peer and is the address of the peer, or, with a
  prefix length, agrees with the address of the peer on that many leading bits (an IPv4 host
  must have no bits below the prefix, and a prefix length above 31 for IPv4 or 127 for IPv6
  never matches). It admits no other peer, except through a rule of the other family
  (\<open>rule_crosses\<close>), because the code does not compare families: an IPv4 rule is compared with the
  flow information of an IPv6 peer, so the rule 0.0.0.0 admits every IPv6 peer without flow
  label, and an IPv6 rule with the bytes behind an IPv4 address. Lists whose rules have the
  family of the peer are exact.
\<close>

theorem ip_acl_correct:
  assumes "ep_getpeername env (cn_id conn) = Some from" "sa_family from = AF_INET \<or> sa_family from = AF_INET6"
    and "\<And>rule. rule \<in> set (acl_entries acl_list t ts) \<Longrightarrow> rule_defined env rule"
  shows "ip_acl env ts t conn = Some (\<exists>rule\<in>set (acl_entries acl_list t ts). rule_admits env from rule \<or> rule_crosses env from rule)"
  unfolding ip_acl_def by (rule acl_loop_exists) (rule ip_match_admits [OF assms(1,2)], rule assms(3))

definition ex_sockaddr :: "u8 \<Rightarrow> sockaddr" where
  "ex_sockaddr x = \<lparr>sa_family = AF_INET, sa_storage = [2, 0, 0, 0, 192, 168, 1, x]\<rparr>"

definition ex_env :: os_env where
  "ex_env = \<lparr>ep_getpeername = (\<lambda>_. Some (ex_sockaddr 5)), ep_getsockname = (\<lambda>_. Some (ex_sockaddr 1)),
     os_getaddrinfo = (\<lambda>host. if host = ''192.168.1.0'' then Some (ex_sockaddr 0) else None),
     os_getnameinfo = (\<lambda>_. None), os_call_program = (\<lambda>_. None), os_rand = (\<lambda>_. 0), os_uninit = 0, os_heap = (\<lambda>_. 0), os_time = 0\<rparr>"

theorem ip_acl_correct_witness:
  "ip_acl ex_env [(new_target 0 1 ''t'' ex_bst)\<lparr>acl_list := [''192.168.1.0/24'']\<rparr>] 1 ex_conn = Some True"
proof -
  let ?ts = "[(new_target 0 1 ''t'' ex_bst)\<lparr>acl_list := [''192.168.1.0/24'']\<rparr>]"
  have es: "acl_entries acl_list 1 ?ts = [''192.168.1.0/24'']"
    by (simp add: acl_entries_def target_lookup_def new_target_def)
  have r: "acl_rule ''192.168.1.0/24'' = Some (''192.168.1.0'', Some ''24'')"
    by (simp add: acl_rule_def split_at_def)
  have m: "(ucast (fst (strtoull0 ''24'')) :: u32) = 24"
    by (simp add: strtoull0_def is_cspace_def digit_val_def Let_def)
  have d: "rule_defined ex_env ''192.168.1.0/24''"
    using m by (simp add: rule_defined_def r ex_env_def ex_sockaddr_def)
  have a: "sin_addr (ex_sockaddr 0) = 0xC0A80100" "sin_addr (ex_sockaddr 5) = 0xC0A80105"
    by (simp_all add: sin_addr_def ex_sockaddr_def get_unaligned_be32_def byte_at_def)
  have "netmask_match_v4 (ex_sockaddr 0) (ex_sockaddr 5) 24 = Some True"
    by (simp add: netmask_match_v4_def a)
  then have "prefix4 24 0xC0A80100 0xC0A80105"
    using netmask_match_v4_prefix [of 24 "ex_sockaddr 0" "ex_sockaddr 5"] a by simp
  then have "rule_admits ex_env (ex_sockaddr 5) ''192.168.1.0/24''"
    using m a by (simp add: rule_admits_def r ex_env_def same_prefix_def) (simp add: ex_sockaddr_def)
  moreover have "ip_acl ex_env ?ts 1 ex_conn = Some (\<exists>rule\<in>set (acl_entries acl_list 1 ?ts).
      rule_admits ex_env (ex_sockaddr 5) rule \<or> rule_crosses ex_env (ex_sockaddr 5) rule)"
    by (rule ip_acl_correct) (use d es in \<open>simp_all add: ex_env_def ex_sockaddr_def\<close>)
  ultimately show ?thesis
    using es by simp
qed


end
