(* ===== verification/Iscsi_Target.thy ===== *)
theory Iscsi_Target
  imports Iscsi_Acl "HOL-Library.Monad_Syntax"
begin

text \<open>
  The iSCSI targets (\<open>usr/iscsi/target.c\<close>): look-ups, redirection of a login, the list of
  a discovery, creation with the default parameters and the update of a target. A
  target of the iSCSI list without a target of the core, whose name the code would read
  through a null pointer, gives \<open>None\<close>. The messages to an iSNS server that announce a
  target are left out.
\<close>

unbundle bit_operations_syntax

section \<open>Look-ups\<close>

definition tgt_targetname :: "int \<Rightarrow> target list \<Rightarrow> string option" where
  "tgt_targetname t ts = map_option tgt_name (target_lookup t ts)"

definition target_find_by_name :: "string \<Rightarrow> iscsi_world \<Rightarrow> iscsi_target option" where
  "target_find_by_name name w = find (\<lambda>it. tgt_targetname (it_tid it) (adm_targets (iw_adm w)) = Some name) (iw_targets w)"

definition target_find_by_id :: "int \<Rightarrow> iscsi_world \<Rightarrow> iscsi_target option" where
  "target_find_by_id t w = lfind it_tid t (iw_targets w)"

definition upd_itarget :: "int \<Rightarrow> (iscsi_target \<Rightarrow> iscsi_target) \<Rightarrow> iscsi_world \<Rightarrow> iscsi_world" where
  "upd_itarget t f w = w\<lparr>iw_targets := upd_first (\<lambda>it. it_tid it = t) f (iw_targets w)\<rparr>"

text \<open>\<open>Some True\<close> means that the initiator is admitted; its name may be missing.\<close>

definition isns_scn_access :: "int \<Rightarrow> string option \<Rightarrow> iscsi_world \<Rightarrow> bool option" where
  "isns_scn_access t name w =
     (if \<not> iw_use_isns w \<or> \<not> iw_use_isns_ac w then Some True
      else case target_find_by_id t w of
        None \<Rightarrow> Some False
      | Some it \<Rightarrow> if it_isns_list it = [] then Some False else map_option (\<lambda>n. n \<in> set (it_isns_list it)) name)"

section \<open>Redirection\<close>

abbreviation (input) "ISCSI_LOGIN_STATUS_TGT_MOVED_TEMP \<equiv> 1 :: u8"
abbreviation (input) "ISCSI_LOGIN_STATUS_TGT_MOVED_PERM \<equiv> 2 :: u8"

text \<open>The address, port and reason in the output of a callback program.\<close>

definition get_redirect_address :: "os_env \<Rightarrow> string \<Rightarrow> (string \<times> string \<times> u8) option" where
  "get_redirect_address env callback =
     do { buffer \<leftarrow> os_call_program env callback;
          (addr, r) \<leftarrow>
            (if take 1 buffer = ''['' then
               do { (a, r) \<leftarrow> split_at (CHR '']'') buffer;
                    if take 1 r = '':'' then Some (a @ '']'', drop 1 r) else None }
             else split_at (CHR '':'') buffer);
          (port, reason) \<leftarrow> split_at (CHR '':'') r;
          if take 9 reason = ''Temporary'' then Some (addr, port, ISCSI_LOGIN_STATUS_TGT_MOVED_TEMP)
          else if take 9 reason = ''Permanent'' then Some (addr, port, ISCSI_LOGIN_STATUS_TGT_MOVED_PERM)
          else None }"

datatype redirection = No_redirect | Redirect_failed | Redirect string u8

text \<open>Where the configured or reported address leads: nowhere when it is the peer's own.\<close>

definition redirect_to :: "os_env \<Rightarrow> sockaddr \<Rightarrow> string \<Rightarrow> string \<Rightarrow> u8 \<Rightarrow> redirection" where
  "redirect_to env from addr port rsn =
     (if rsn \<noteq> ISCSI_LOGIN_STATUS_TGT_MOVED_TEMP \<and> rsn \<noteq> ISCSI_LOGIN_STATUS_TGT_MOVED_PERM then No_redirect
      else case (if take 1 addr = ''['' then map_option fst (split_at (CHR '']'') (drop 1 addr)) else Some addr) of
        None \<Rightarrow> No_redirect
      | Some host \<Rightarrow>
          (case os_getaddrinfo env host of
             None \<Rightarrow> No_redirect
           | Some sa \<Rightarrow> if address_match sa from then No_redirect else Redirect (addr @ '':'' @ port) rsn))"

text \<open>The command line of the callback is printed into 1024 bytes; a longer one overflows.\<close>

definition target_redirected :: "os_env \<Rightarrow> iscsi_target \<Rightarrow> iscsi_connection \<Rightarrow> target list \<Rightarrow> redirection option" where
  "target_redirected env it conn ts =
     (let ri = it_redirect_info it;
          predefined = (\<lambda>from. if ri_addr ri = '''' then No_redirect else redirect_to env from (ri_addr ri) (ri_port ri) (ri_reason ri))
      in case ep_getpeername env (cn_id conn) of
        None \<Rightarrow> Some No_redirect
      | Some from \<Rightarrow>
          (case ri_callback ri of
             None \<Rightarrow> Some (predefined from)
           | Some callback \<Rightarrow>
               do { name \<leftarrow> tgt_targetname (it_tid it) ts;
                    (case os_getnameinfo env from of
                       None \<Rightarrow> Some (predefined from)
                     | Some dst \<Rightarrow>
                         let line = callback @ '' '' @ name @ '' '' @ dst in
                         if 1024 \<le> length line then None
                         else Some (case get_redirect_address env line of
                                      None \<Rightarrow> Redirect_failed
                                    | Some (addr, port, rsn) \<Rightarrow> redirect_to env from addr port rsn)) }))"

section \<open>Discovery\<close>

text \<open>The targets a discovery may see, and the pairs that list them.\<close>

definition target_visible :: "os_env \<Rightarrow> iscsi_world \<Rightarrow> iscsi_connection \<Rightarrow> string option \<Rightarrow> iscsi_target \<Rightarrow> bool option" where
  "target_visible env w conn name it =
     do { tname \<leftarrow> tgt_targetname (it_tid it) (adm_targets (iw_adm w));
          if name \<noteq> None \<and> name \<noteq> Some tname then Some False
          else do { ok \<leftarrow> ip_acl env (adm_targets (iw_adm w)) (it_tid it) conn;
                    if \<not> ok then Some False
                    else do { iqn \<leftarrow> iqn_acl (adm_targets (iw_adm w)) (it_tid it) conn;
                              if \<not> iqn then Some False else isns_scn_access (it_tid it) (cn_initiator conn) w } } }"

fun target_list_loop :: "os_env \<Rightarrow> iscsi_world \<Rightarrow> string \<Rightarrow> string option \<Rightarrow> iscsi_target list \<Rightarrow> iscsi_connection \<Rightarrow> iscsi_connection option" where
  "target_list_loop env w addr name [] conn = Some conn"
| "target_list_loop env w addr name (it # its) conn =
     do { visible \<leftarrow> target_visible env w conn name it;
          tname \<leftarrow> tgt_targetname (it_tid it) (adm_targets (iw_adm w));
          target_list_loop env w addr name its
            (if visible then text_key_add ''TargetAddress'' addr (text_key_add ''TargetName'' tname conn) else conn) }"

definition target_list_build :: "os_env \<Rightarrow> iscsi_world \<Rightarrow> string \<Rightarrow> string option \<Rightarrow> iscsi_connection \<Rightarrow> iscsi_connection option" where
  "target_list_build env w addr name conn = target_list_loop env w addr name (iw_targets w) conn"

section \<open>Creation and update\<close>

definition default_tgt_session_param :: "param list" where
  "default_tgt_session_param =
     map (\<lambda>v. \<lparr>p_state = KEY_STATE_START, p_val = v\<rparr>)
       [8192, DIGEST_NONE, DIGEST_NONE, 1, 1, 1, 65536, 262144, 1, 1, 0, 0, 0, 2, 20, 2048, 2048, 1, 1, 262144, 262144, 0,
        8192, 128]"

definition iscsi_target_create :: "int \<Rightarrow> int \<Rightarrow> int \<Rightarrow> iscsi_world \<Rightarrow> iscsi_world" where
  "iscsi_target_create nop_interval nop_count t w =
     w\<lparr>iw_targets := iw_targets w @
         [\<lparr>it_session_param = default_tgt_session_param, it_tid = t,
           it_redirect_info = \<lparr>ri_addr = '''', ri_port = '''', ri_reason = 0, ri_callback = None\<rparr>,
           it_isns_list = [], it_rdma = False, it_nop_interval = nop_interval, it_nop_count = nop_count\<rparr>]\<rparr>"

definition iscsi_session_param_update :: "u32 \<Rightarrow> nat \<Rightarrow> string \<Rightarrow> iscsi_target \<Rightarrow> iscsi_target option" where
  "iscsi_session_param_update uninit idx str it =
     do { v \<leftarrow> param_str_to_val session_keys idx str uninit;
          (let (failed, v') = param_check_val session_keys idx v in
           if failed then None
           else Some (it\<lparr>it_session_param := set_p_val idx v' (it_session_param it)\<rparr>)) }"

text \<open>
  The target mode of \<open>iscsi_target_update\<close> with \<open>name\<close> and the string after its zero
  byte. \<open>nop_count\<close> and \<open>nop_interval\<close> are compared by prefix and their number is read
  at a fixed offset.
\<close>

definition text_at :: "nat \<Rightarrow> string \<Rightarrow> string \<Rightarrow> string" where
  "text_at off name str = takeWhile (\<lambda>c. c \<noteq> NUL) (drop off (name @ [NUL] @ str @ [NUL]))"

definition update_target_param :: "u32 \<Rightarrow> string \<Rightarrow> string \<Rightarrow> tgtadm_err \<Rightarrow> iscsi_target \<Rightarrow> tgtadm_err \<times> iscsi_target" where
  "update_target_param uninit name str err it =
     (case param_index_by_name name session_keys of
        None \<Rightarrow> (err, it)
      | Some idx \<Rightarrow>
          (case iscsi_session_param_update uninit idx str it of
             None \<Rightarrow> (TGTADM_INVALID_REQUEST, it)
           | Some it' \<Rightarrow> (TGTADM_SUCCESS, it')))"

definition update_target :: "u32 \<Rightarrow> string \<Rightarrow> string \<Rightarrow> iscsi_target \<Rightarrow> tgtadm_err \<times> iscsi_target" where
  "update_target uninit name str it =
     (let ri = it_redirect_info it; upd = (\<lambda>f. it\<lparr>it_redirect_info := f ri\<rparr>) in
      if take 15 name = ''RedirectAddress'' then (TGTADM_SUCCESS, upd (\<lambda>r. r\<lparr>ri_addr := take 1025 str\<rparr>))
      else if take 12 name = ''RedirectPort'' then (TGTADM_SUCCESS, upd (\<lambda>r. r\<lparr>ri_port := take 32 str\<rparr>))
      else if take 14 name = ''RedirectReason'' then
        (if take 9 str = ''Temporary'' then
           update_target_param uninit name str TGTADM_SUCCESS (upd (\<lambda>r. r\<lparr>ri_reason := ISCSI_LOGIN_STATUS_TGT_MOVED_TEMP\<rparr>))
         else if take 9 str = ''Permanent'' then
           update_target_param uninit name str TGTADM_SUCCESS (upd (\<lambda>r. r\<lparr>ri_reason := ISCSI_LOGIN_STATUS_TGT_MOVED_PERM\<rparr>))
         else (TGTADM_INVALID_REQUEST, it))
      else if take 16 name = ''RedirectCallback'' then
        update_target_param uninit name str TGTADM_SUCCESS (upd (\<lambda>r. r\<lparr>ri_callback := Some str\<rparr>))
      else if take 9 name = ''nop_count'' then (TGTADM_SUCCESS, it\<lparr>it_nop_count := sint (atoi (text_at 10 name str))\<rparr>)
      else if take 12 name = ''nop_interval'' then (TGTADM_SUCCESS, it\<lparr>it_nop_interval := sint (atoi (text_at 13 name str))\<rparr>)
      else update_target_param uninit name str TGTADM_INVALID_REQUEST it)"

definition update_target_mode :: "u32 \<Rightarrow> int \<Rightarrow> string \<Rightarrow> string \<Rightarrow> iscsi_world \<Rightarrow> tgtadm_err \<times> iscsi_world" where
  "update_target_mode uninit t name str w =
     (case target_find_by_id t w of
        None \<Rightarrow> (TGTADM_NO_TARGET, w)
      | Some it \<Rightarrow> let (err, it') = update_target uninit name str it in (err, upd_itarget t (\<lambda>_. it') w))"

end
