(* ===== verification/Iscsi_Session.thy ===== *)
theory Iscsi_Session
  imports Iscsi_Target
begin

text \<open>
  Sessions and connections (\<open>usr/iscsi/session.c\<close>, \<open>usr/iscsi/conn.c\<close>, and the close
  and release operations of \<open>usr/iscsi/iscsi_tcp.c\<close>). \<open>None\<close> is a reference to an object
  that does not exist, or the \<open>exit\<close> of the code on a state it calls a bug.

  A call into the core runs on the target of the session, with the commands of the
  tasks by their address. Notifications that the core sends to the transport during
  the call are kept in \<open>iw_events\<close> and delivered after the operation.
\<close>

unbundle bit_operations_syntax

section \<open>Calls into the core\<close>

definition core_world :: "target \<Rightarrow> iscsi_world \<Rightarrow> world" where
  "core_world tg w = \<lparr>w_tgt = tg, w_cmds = (\<lambda>t. map_option tk_scmd (get_task t w)), w_mreqs = iw_mreqs w, w_log = []\<rparr>"

definition core_result :: "int \<Rightarrow> world \<Rightarrow> iscsi_world \<Rightarrow> iscsi_world" where
  "core_result t cw w =
     w\<lparr>iw_adm := (iw_adm w)\<lparr>adm_targets := upd_target t (\<lambda>_. w_tgt cw) (adm_targets (iw_adm w))\<rparr>,
       iw_tasks := map (\<lambda>tk. case w_cmds cw (tk_id tk) of None \<Rightarrow> tk | Some c \<Rightarrow> tk\<lparr>tk_scmd := c\<rparr>) (iw_tasks w),
       iw_mreqs := w_mreqs cw, iw_events := iw_events w @ w_log cw\<rparr>"

definition with_core :: "int \<Rightarrow> (world \<Rightarrow> ('a \<times> world) option) \<Rightarrow> iscsi_world \<Rightarrow> ('a \<times> iscsi_world) option" where
  "with_core t f w =
     do { tg \<leftarrow> target_lookup t (adm_targets (iw_adm w));
          (r, cw) \<leftarrow> f (core_world tg w);
          Some (r, core_result t cw w) }"

section \<open>Sessions\<close>

definition session_find_name :: "int \<Rightarrow> string \<Rightarrow> bytes \<Rightarrow> iscsi_world \<Rightarrow> iscsi_session option" where
  "session_find_name t iname isid w =
     (case target_find_by_id t w of
        None \<Rightarrow> None
      | Some it \<Rightarrow> find (\<lambda>ss. ss_target ss = t \<and> ss_isid ss = isid \<and> ss_initiator ss = iname) (iw_sessions w))"

definition session_lookup_by_tsih :: "u16 \<Rightarrow> iscsi_world \<Rightarrow> iscsi_session option" where
  "session_lookup_by_tsih tsih w = lfind ss_tsih tsih (iw_sessions w)"

text \<open>The loop over the handles, from the one after the last that was given until that one is met again.\<close>

function next_tsih :: "u16 \<Rightarrow> u16 \<Rightarrow> iscsi_world \<Rightarrow> u16 option" where
  "next_tsih last_tsih tsih w =
     (if tsih = last_tsih then None
      else if tsih \<noteq> 0 \<and> session_lookup_by_tsih tsih w = None then Some tsih
      else next_tsih last_tsih (tsih + 1) w)"
  by pat_completeness auto
termination
proof (relation "measure (\<lambda>(l, t, w). unat (l - t))")
  fix l t :: u16 and w :: iscsi_world
  assume "t \<noteq> l"
  then have "l - t \<noteq> 0"
    by simp
  then have "unat (l - t - 1) < unat (l - t)"
    by (simp add: unat_minus_one unat_gt_0)
  then show "((l, t + 1, w), (l, t, w)) \<in> measure (\<lambda>(l, t, w). unat (l - t))"
    by (simp add: algebra_simps)
qed simp

declare next_tsih.simps [simp del]

definition conn_add_to_session :: "nat \<Rightarrow> iscsi_world \<Rightarrow> iscsi_connection \<Rightarrow> (iscsi_world \<times> iscsi_connection) option" where
  "conn_add_to_session s w conn =
     (if cn_session conn \<noteq> None then None
      else Some (upd_session s (\<lambda>ss. ss\<lparr>ss_refcount := ss_refcount ss + 1, ss_conn_list := cn_id conn # ss_conn_list ss\<rparr>) w,
                 conn\<lparr>cn_session := Some s\<rparr>))"

definition iscsi_tcp_show :: "os_env \<Rightarrow> iscsi_connection \<Rightarrow> nat \<Rightarrow> string" where
  "iscsi_tcp_show env conn rest =
     (case ep_getpeername env (cn_id conn) of
        None \<Rightarrow> []
      | Some sa \<Rightarrow>
          (case os_getnameinfo env sa of None \<Rightarrow> [] | Some dst \<Rightarrow> take (rest - 1) (''IP Address: '' @ dst)))"

definition session_info :: "os_env \<Rightarrow> iscsi_connection \<Rightarrow> string \<Rightarrow> string" where
  "session_info env conn init =
     take 1023 (''            Initiator: '' @ init @ '' alias: '' @
       (case cn_initiator_alias conn of None \<Rightarrow> ''none'' | Some a \<Rightarrow> a) @ [CHR 0x0A] @
       ''            Connection: '' @ dec_str (unat (cn_cid conn)) @ [CHR 0x0A] @
       ''                '' @ iscsi_tcp_show env conn 128 @ [CHR 0x0A])"

text \<open>The new session has the address \<open>iw_next\<close>; the result is the error of the code, 0 on success.\<close>

definition session_create :: "os_env \<Rightarrow> iscsi_world \<Rightarrow> iscsi_connection \<Rightarrow> (int \<times> iscsi_world \<times> iscsi_connection) option" where
  "session_create env w conn =
     (case target_find_by_id (cn_tid conn) w of
        None \<Rightarrow> Some (- EINVAL, w, conn)
      | Some it \<Rightarrow>
          (case next_tsih (iw_last_tsih w) (iw_last_tsih w + 1) w of
             None \<Rightarrow> Some (- EINVAL, w, conn)
           | Some tsih \<Rightarrow>
               do { init \<leftarrow> cn_initiator conn;
                    (let info = session_info env conn init in
                     do { (err, ts) \<leftarrow> it_nexus_create (os_time env) (it_tid it) (ucast tsih) 0 info (adm_targets (iw_adm w));
                          if err \<noteq> 0 then Some (err, w, conn)
                          else
                            (let s = iw_next w;
                                 ss = \<lparr>ss_id = s, ss_refcount = 0, ss_initiator = init, ss_initiator_alias = cn_initiator_alias conn,
                                       ss_target = it_tid it, ss_isid = cn_isid conn, ss_tsih = tsih, ss_conn_list = [], ss_conn_cnt = 0,
                                       ss_cmd_list = [], ss_pending_cmd_list = [], ss_exp_cmd_sn = cn_exp_cmd_sn conn,
                                       ss_max_queue_cmd = p_val (cn_session_param conn ! ISCSI_PARAM_MAX_QUEUE_CMD),
                                       ss_session_param = cn_session_param conn, ss_info = info, ss_rdma = False\<rparr>;
                                 w1 = w\<lparr>iw_adm := (iw_adm w)\<lparr>adm_targets := ts\<rparr>, iw_sessions := ss # iw_sessions w,
                                        iw_last_tsih := tsih, iw_next := s + 1\<rparr>
                             in do { (w2, conn') \<leftarrow> conn_add_to_session s w1 conn; Some (0, w2, conn') }) }) }))"

definition session_destroy :: "nat \<Rightarrow> iscsi_world \<Rightarrow> iscsi_world option" where
  "session_destroy s w =
     do { ss \<leftarrow> get_session s w;
          if ss_conn_list ss \<noteq> [] then Some w
          else Some (w\<lparr>iw_adm := (iw_adm w)\<lparr>adm_targets :=
                         snd (it_nexus_destroy (ss_target ss) (ucast (ss_tsih ss)) (adm_targets (iw_adm w)))\<rparr>,
                       iw_sessions := lremove ss_id s (iw_sessions w)\<rparr>) }"

definition session_put :: "nat \<Rightarrow> iscsi_world \<Rightarrow> iscsi_world option" where
  "session_put s w =
     do { ss \<leftarrow> get_session s w;
          (let w1 = upd_session s (\<lambda>ss. ss\<lparr>ss_refcount := ss_refcount ss - 1\<rparr>) w in
           if ss_refcount ss - 1 = 0 then session_destroy s w1 else Some w1) }"

section \<open>Connections\<close>

definition conn_init :: "nat \<Rightarrow> iscsi_connection" where
  "conn_init c = \<lparr>cn_id = c, cn_state = STATE_FREE, cn_closed = False, cn_rx_iostate = IOSTATE_FREE, cn_tx_iostate = IOSTATE_FREE,
     cn_refcount = 1, cn_session = None, cn_tid = 0,
     cn_session_param = param_set_defaults session_keys (replicate ISCSI_PARAM_MAX \<lparr>p_state = KEY_STATE_START, p_val = 0\<rparr>),
     cn_initiator = None, cn_initiator_alias = None, cn_isid = replicate 6 0, cn_tsih = 0, cn_cid = 0,
     cn_session_type = 0, cn_auth_method = 0, cn_stat_sn = 0, cn_exp_stat_sn = 0, cn_exp_cmd_sn = 0, cn_max_cmd_sn = 0,
     cn_req = \<lparr>pd_bhs = zero_hdr, pd_ahs = [], pd_data = []\<rparr>, cn_rsp = \<lparr>pd_bhs = zero_hdr, pd_ahs = [], pd_data = []\<rparr>,
     cn_rsp_buffer_size = INCOMING_BUFSIZE, cn_ttt = 0, cn_text_rsp = [], cn_rx_task = None, cn_tx_task = None, cn_tx_clist = [],
     cn_task_list = [], cn_auth_state = 0, cn_digest_alg = 0, cn_chap_id = 0, cn_challenge = [], cn_nop_count = 0,
     cn_nop_interval = 0, cn_nop_tick = 0, cn_nop_inflight_count = 0, cn_nop_ttt = 0, cn_io = conn_io_init\<rparr>"

text \<open>\<open>conn_exit\<close> within \<open>iscsi_tcp_release\<close>: the connection leaves its session and is freed.\<close>

definition conn_exit :: "nat \<Rightarrow> iscsi_world \<Rightarrow> iscsi_world option" where
  "conn_exit c w =
     do { conn \<leftarrow> get_conn c w;
          (let w1 = w\<lparr>iw_conns := lremove cn_id c (iw_conns w)\<rparr> in
           case cn_session conn of
             None \<Rightarrow> Some w1
           | Some s \<Rightarrow> session_put s (upd_session s (\<lambda>ss. ss\<lparr>ss_conn_list := remove1 c (ss_conn_list ss)\<rparr>) w1)) }"

definition conn_get :: "nat \<Rightarrow> iscsi_world \<Rightarrow> iscsi_world" where
  "conn_get c w = upd_conn c (\<lambda>conn. conn\<lparr>cn_refcount := cn_refcount conn + 1\<rparr>) w"

definition conn_put :: "nat \<Rightarrow> iscsi_world \<Rightarrow> iscsi_world option" where
  "conn_put c w =
     do { conn \<leftarrow> get_conn c w;
          (let w1 = upd_conn c (\<lambda>conn. conn\<lparr>cn_refcount := cn_refcount conn - 1\<rparr>) w in
           if cn_refcount conn - 1 = 0 then conn_exit c w1 else Some w1) }"

text \<open>Freeing the data buffers leaves no trace in the model: they are fields of the task.\<close>

definition iscsi_free_task :: "nat \<Rightarrow> iscsi_world \<Rightarrow> iscsi_world option" where
  "iscsi_free_task t w =
     do { task \<leftarrow> get_task t w;
          conn \<leftarrow> get_conn (tk_conn task) w;
          (let w1 = upd_conn (tk_conn task) (\<lambda>conn. conn\<lparr>cn_task_list := remove1 t (cn_task_list conn)\<rparr>) w;
               w2 = (case cn_session conn of
                       Some s \<Rightarrow> if hdr_op (tk_req task) = ISCSI_OP_SCSI_CMD
                                 then upd_session s (\<lambda>ss. ss\<lparr>ss_cmd_list := remove1 t (ss_cmd_list ss)\<rparr>) w1 else w1
                     | None \<Rightarrow> w1)
           in conn_put (tk_conn task) (w2\<lparr>iw_tasks := lremove tk_id t (iw_tasks w2)\<rparr>)) }"

definition iscsi_free_cmd_task :: "perform \<Rightarrow> nat \<Rightarrow> iscsi_world \<Rightarrow> iscsi_world option" where
  "iscsi_free_cmd_task perf t w =
     do { task \<leftarrow> get_task t w;
          tg \<leftarrow> c_target (tk_scmd task);
          (_, w1) \<leftarrow> with_core tg (\<lambda>cw. map_option (\<lambda>cw'. ((), cw')) (target_cmd_done perf t cw)) w;
          iscsi_free_task t w1 }"

text \<open>What \<open>conn_close\<close> does with a task on the transmit list.\<close>

definition close_tx_task :: "perform \<Rightarrow> nat \<Rightarrow> iscsi_world \<Rightarrow> iscsi_world option" where
  "close_tx_task perf t w =
     do { task \<leftarrow> get_task t w;
          (let op = hdr_op (tk_req task) in
           if op = ISCSI_OP_SCSI_CMD then
             (if c_target (tk_scmd task) \<noteq> None then iscsi_free_cmd_task perf t w else iscsi_free_task t w)
           else if op = ISCSI_OP_NOOP_IN then Some (w\<lparr>iw_tasks := lremove tk_id t (iw_tasks w)\<rparr>)
           else if op = ISCSI_OP_NOOP_OUT \<or> op = ISCSI_OP_LOGOUT \<or> op = ISCSI_OP_SCSI_TMFUNC then iscsi_free_task t w
           else Some w) }"

fun each_task :: "(nat \<Rightarrow> iscsi_world \<Rightarrow> iscsi_world option) \<Rightarrow> nat list \<Rightarrow> iscsi_world \<Rightarrow> iscsi_world option" where
  "each_task f [] w = Some w"
| "each_task f (t # ts) w = do { w' \<leftarrow> f t w; each_task f ts w' }"

definition close_pending_task :: "nat \<Rightarrow> nat \<Rightarrow> nat \<Rightarrow> iscsi_world \<Rightarrow> iscsi_world option" where
  "close_pending_task c s t w =
     do { task \<leftarrow> get_task t w;
          if tk_conn task \<noteq> c then Some w
          else iscsi_free_task t (upd_session s (\<lambda>ss. ss\<lparr>ss_pending_cmd_list := remove1 t (ss_pending_cmd_list ss)\<rparr>) w) }"

definition close_rest_task :: "nat \<Rightarrow> iscsi_world \<Rightarrow> iscsi_world option" where
  "close_rest_task t w = do { task \<leftarrow> get_task t w; if tk_in_scsi task then Some w else iscsi_free_task t w }"

text \<open>\<open>iscsi_tcp_close\<close>, the \<open>ep_close\<close> of the transport.\<close>

definition iscsi_tcp_close :: "nat \<Rightarrow> iscsi_world \<Rightarrow> iscsi_world" where
  "iscsi_tcp_close c w = upd_conn c (\<lambda>conn. conn\<lparr>cn_state := STATE_CLOSE, cn_nop_interval := 0\<rparr>) w"

definition conn_close :: "perform \<Rightarrow> nat \<Rightarrow> iscsi_world \<Rightarrow> iscsi_world option" where
  "conn_close perf c w =
     do { conn \<leftarrow> get_conn c w;
          if cn_closed conn then Some w
          else
            (let w1 = iscsi_tcp_close c (upd_conn c (\<lambda>conn. conn\<lparr>cn_closed := True\<rparr>) w) in
             case cn_session conn of
               None \<Rightarrow> conn_put c w1
             | Some s \<Rightarrow>
                 do { ss \<leftarrow> get_session s w1;
                      w2 \<leftarrow> each_task (close_pending_task c s) (ss_pending_cmd_list ss) w1;
                      (let tx = (case cn_tx_task conn of None \<Rightarrow> cn_tx_clist conn | Some t \<Rightarrow> t # cn_tx_clist conn) in
                       do { w3 \<leftarrow> each_task (close_tx_task perf) tx (upd_conn c (\<lambda>conn. conn\<lparr>cn_tx_task := None\<rparr>) w2);
                            w4 \<leftarrow> (case cn_rx_task conn of None \<Rightarrow> Some w3 | Some t \<Rightarrow> iscsi_free_task t w3);
                            (let w5 = upd_conn c (\<lambda>conn. conn\<lparr>cn_rx_task := None\<rparr>) w4 in
                             do { conn5 \<leftarrow> get_conn c w5;
                                  w6 \<leftarrow> each_task close_rest_task (cn_task_list conn5) w5;
                                  conn_put c w6 }) }) }) }"

text \<open>The loops over \<open>conn_list\<close> visit the connections in its order.\<close>

definition conn_find :: "iscsi_session \<Rightarrow> u32 \<Rightarrow> iscsi_world \<Rightarrow> nat option" where
  "conn_find ss cid w = find (\<lambda>c. map_option (\<lambda>conn. ucast (cn_cid conn)) (get_conn c w) = Some cid) (ss_conn_list ss)"

definition conn_take_fd :: "nat \<Rightarrow> iscsi_world \<Rightarrow> iscsi_world" where
  "conn_take_fd s w = upd_session s (\<lambda>ss. ss\<lparr>ss_conn_cnt := ss_conn_cnt ss + 1\<rparr>) w"

text \<open>\<open>ep_force_close\<close> of the TCP transport sets the state of the connection to \<open>STATE_CLOSE\<close>.\<close>

definition conn_close_admin :: "int \<Rightarrow> u64 \<Rightarrow> u32 \<Rightarrow> iscsi_world \<Rightarrow> tgtadm_err \<times> iscsi_world" where
  "conn_close_admin t sid cid w =
     (case target_find_by_id t w of
        None \<Rightarrow> (TGTADM_NO_TARGET, w)
      | Some it \<Rightarrow>
          let sss = filter (\<lambda>ss. ss_target ss = t \<and> ucast (ss_tsih ss) = sid) (iw_sessions w);
              cs = filter (\<lambda>c. map_option (\<lambda>conn. ucast (cn_cid conn)) (get_conn c w) = Some cid) (concat (map ss_conn_list sss))
          in (case cs of
                c # _ \<Rightarrow> (TGTADM_SUCCESS, upd_conn c (\<lambda>conn. conn\<lparr>cn_state := STATE_CLOSE\<rparr>) w)
              | [] \<Rightarrow> (if sss = [] then TGTADM_NO_SESSION else TGTADM_NO_CONNECTION, w)))"

fun close_conns :: "perform \<Rightarrow> nat list \<Rightarrow> iscsi_world \<Rightarrow> iscsi_world option" where
  "close_conns perf [] w = Some w"
| "close_conns perf (c # cs) w = do { w' \<leftarrow> conn_close perf c w; close_conns perf cs w' }"

text \<open>
  \<open>nr_sessions\<close> is never written, so the test for sessions in use never refuses. Sessions that
  remain because a command is still in the core make the code exit.
\<close>

definition iscsi_target_destroy :: "perform \<Rightarrow> int \<Rightarrow> iscsi_world \<Rightarrow> iscsi_world option" where
  "iscsi_target_destroy perf t w =
     (case target_find_by_id t w of
        None \<Rightarrow> Some w
      | Some it \<Rightarrow>
          do { w1 \<leftarrow> close_conns perf (concat (map ss_conn_list (filter (\<lambda>ss. ss_target ss = t) (iw_sessions w)))) w;
               if list_ex (\<lambda>ss. ss_target ss = t) (iw_sessions w1) then None
               else Some (w1\<lparr>iw_targets := lremove it_tid t (iw_targets w1)\<rparr>) })"


section \<open>Session handles\<close>

lemma next_tsih_Some:
  "next_tsih l t w = Some x \<Longrightarrow> x \<noteq> 0 \<and> x \<noteq> l \<and> session_lookup_by_tsih x w = None"
proof (induction l t w rule: next_tsih.induct)
  case (1 l t w)
  then show ?case
    by (subst (asm) (2) next_tsih.simps) (auto split: if_splits)
qed

lemma next_tsih_None:
  assumes "next_tsih l t w = None" "k < unat (l - t)"
  shows "t + of_nat k = 0 \<or> session_lookup_by_tsih (t + of_nat k) w \<noteq> None"
  using assms
proof (induction l t w arbitrary: k rule: next_tsih.induct)
  case (1 l t w)
  have ne: "t \<noteq> l"
    using 1(3) by auto
  have used: "\<not> (t \<noteq> 0 \<and> session_lookup_by_tsih t w = None)" and rest: "next_tsih l (t + 1) w = None"
    using 1(2) ne by (auto simp: next_tsih.simps [of l t] split: if_splits)
  show ?case
  proof (cases k)
    case 0
    then show ?thesis
      using used by auto
  next
    case (Suc j)
    have "unat (l - (t + 1)) = unat (l - t) - 1"
      using ne unat_minus_one [of "l - t"] by (simp add: algebra_simps)
    then have "j < unat (l - (t + 1))"
      using 1(3) Suc by simp
    then show ?thesis
      using 1(1) [OF ne used rest] Suc by (simp add: algebra_simps)
  qed
qed

lemma next_tsih_total:
  assumes "length (iw_sessions w) < 65534"
  shows "\<exists>x. next_tsih l (l + 1) w = Some x"
proof (rule ccontr)
  assume "\<not> ?thesis"
  then have none: "next_tsih l (l + 1) w = None"
    by simp
  have "UNIV - {0, l} \<subseteq> set (map ss_tsih (iw_sessions w))"
  proof
    fix x assume x: "x \<in> UNIV - {0, l}"
    define k where "k = unat (x - (l + 1))"
    have "l - (l + 1) = (- 1 :: u16)"
      by simp
    then have u: "unat (l - (l + 1)) = 65535"
      by (simp only: unsigned_minus_1_eq_mask) (simp add: mask_eq_exp_minus_1)
    have "x - (l + 1) \<noteq> - 1"
      using x by (auto simp: algebra_simps)
    then have "k \<noteq> 65535"
      unfolding k_def using u by (metis \<open>l - (l + 1) = - 1\<close> word_unat_eq_iff)
    moreover have "k < 2 ^ 16"
      unfolding k_def using unsigned_less [of "x - (l + 1)"] by simp
    ultimately have "k < unat (l - (l + 1))"
      using u by simp
    moreover have "l + 1 + of_nat k = x"
      by (simp add: k_def)
    ultimately have "session_lookup_by_tsih x w \<noteq> None"
      using next_tsih_None [OF none, of k] x by auto
    then show "x \<in> set (map ss_tsih (iw_sessions w))"
      unfolding session_lookup_by_tsih_def lfind_None_iff by auto
  qed
  then have "card (UNIV - {0, l} :: u16 set) \<le> length (iw_sessions w)"
    by (metis List.finite_set card_length card_mono length_map order_trans)
  moreover have "card (UNIV - {0, l} :: u16 set) \<ge> 65534"
  proof -
    have "card (UNIV :: u16 set) = 65536"
      by (simp add: card_word)
    moreover have "card {0, l} \<le> 2"
      by (simp add: card_insert_if)
    ultimately show ?thesis
      using card_Diff_subset [of "{0, l}" "UNIV :: u16 set"] by simp
  qed
  ultimately show False
    using assms by simp
qed

text \<open>
  The table of sessions: addresses are distinct and not beyond the next free one, handles
  are distinct and never 0.
\<close>

definition sessions_inv :: "iscsi_world \<Rightarrow> bool" where
  "sessions_inv w \<longleftrightarrow> distinct (map ss_id (iw_sessions w)) \<and> (\<forall>ss\<in>set (iw_sessions w). ss_id ss < iw_next w) \<and>
     distinct (map ss_tsih (iw_sessions w)) \<and> 0 \<notin> set (map ss_tsih (iw_sessions w))"

lemma lupdate_fresh: "k \<notin> key ` set xs \<Longrightarrow> lupdate key k f xs = xs"
  by (induction xs) (auto simp: lupdate_def)

lemma it_nexus_create_ok:
  assumes "target_lookup t ts = Some tg" "nid \<noteq> 0" "nid \<notin> itn_id ` set (it_nexus_list tg)"
  shows "\<exists>ts' tg'. it_nexus_create now t nid host info ts = Some (0, ts') \<and> target_lookup t ts' = Some tg' \<and>
    itn_id ` set (it_nexus_list tg') = insert nid (itn_id ` set (it_nexus_list tg))"
proof -
  have "it_nexus_lookup t nid ts = None"
    using assms(1,3) by (simp add: it_nexus_lookup_def lfind_None_iff)
  then show ?thesis
    using assms(1,2)
    by (auto simp: it_nexus_create_def Let_def target_lookup_def upd_target_def lfind_lupdate)
qed

text \<open>
  A login that passed every check gets its session: with a free handle (fewer than
  65534 sessions) and the nexuses of the core belonging to sessions, \<open>session_create\<close>
  returns 0, the new session has a handle that is not 0 and not in use, belongs to the
  connection and to a new nexus of the core with that handle, the other sessions are left
  as they are and the table stays well formed.
\<close>

theorem session_create_correct:
  assumes "sessions_inv w" "length (iw_sessions w) < 65534"
    and "target_find_by_id (cn_tid conn) w = Some it" "target_lookup (cn_tid conn) (adm_targets (iw_adm w)) = Some tg"
    and "itn_id ` set (it_nexus_list tg) \<subseteq> (\<lambda>ss. ucast (ss_tsih ss)) ` set (iw_sessions w)"
    and "cn_initiator conn = Some init" "cn_session conn = None"
  shows "\<exists>w' conn' ss tg'. session_create env w conn = Some (0, w', conn') \<and> iw_sessions w' = ss # iw_sessions w \<and>
    ss_tsih ss \<noteq> 0 \<and> ss_tsih ss \<notin> set (map ss_tsih (iw_sessions w)) \<and> cn_session conn' = Some (ss_id ss) \<and>
    ss_conn_list ss = [cn_id conn] \<and> ss_refcount ss = 1 \<and> ss_isid ss = cn_isid conn \<and> ss_initiator ss = init \<and> sessions_inv w' \<and>
    target_lookup (cn_tid conn) (adm_targets (iw_adm w')) = Some tg' \<and>
    itn_id ` set (it_nexus_list tg') = insert (ucast (ss_tsih ss)) (itn_id ` set (it_nexus_list tg))"
proof -
  have tid: "it_tid it = cn_tid conn"
    using assms(3) lfind_SomeD [of it_tid "cn_tid conn" "iw_targets w" it] by (simp add: target_find_by_id_def)
  obtain x where x: "next_tsih (iw_last_tsih w) (iw_last_tsih w + 1) w = Some x"
    using next_tsih_total [OF assms(2)] by blast
  then have fresh: "x \<noteq> 0" "x \<notin> ss_tsih ` set (iw_sessions w)"
    using next_tsih_Some by (auto simp: session_lookup_by_tsih_def lfind_None_iff)
  have inj: "ucast a = (ucast b :: u64) \<longleftrightarrow> a = b" for a b :: u16
    by transfer (simp add: min_def)
  have "(ucast x :: u64) \<noteq> 0" "(ucast x :: u64) \<notin> itn_id ` set (it_nexus_list tg)"
    using assms(5) fresh inj [of x 0] inj by auto
  then obtain ts tg' where core: "it_nexus_create (os_time env) (cn_tid conn) (ucast x) 0 (session_info env conn init) (adm_targets (iw_adm w)) = Some (0, ts)"
      "target_lookup (cn_tid conn) ts = Some tg'" "itn_id ` set (it_nexus_list tg') = insert (ucast x) (itn_id ` set (it_nexus_list tg))"
    using it_nexus_create_ok [OF assms(4)] by metis
  have s: "iw_next w \<notin> ss_id ` set (iw_sessions w)"
    using assms(1) by (auto simp: sessions_inv_def)
  show ?thesis
    using assms(1,3,6,7) x fresh core s
    by (simp add: session_create_def tid Let_def conn_add_to_session_def upd_session_def)
       (auto simp: sessions_inv_def lupdate_def lupdate_fresh [unfolded lupdate_def] less_Suc_eq)
qed


definition ex_world :: iscsi_world where
  "ex_world = iscsi_target_create 0 0 1
     \<lparr>iw_adm = ex_adm\<lparr>adm_targets := [(new_target 0 1 ''iqn.t'' ex_bst)\<lparr>acl_list := [''ALL''], target_state := SCSI_TARGET_READY\<rparr>]\<rparr>,
      iw_targets = [], iw_sessions = [], iw_conns = [], iw_tasks = [], iw_mreqs = Map.empty, iw_last_tsih = 0, iw_chap_id = 0,
      iw_nop_ttt = 0, iw_next = 0, iw_events = [], iw_use_isns = False, iw_use_isns_ac = False,
      iw_isns_addr = [], iw_isns_port = 3205, iw_portals = [], iw_default_nop_interval = 0, iw_default_nop_count = 0\<rparr>"

theorem session_create_correct_witness:
  "\<exists>w' conn'. session_create ex_env ex_world (ex_conn\<lparr>cn_tid := 1, cn_initiator := Some ''iqn.i''\<rparr>) = Some (0, w', conn') \<and>
     map ss_initiator (iw_sessions w') = [''iqn.i'']"
proof -
  let ?conn = "ex_conn\<lparr>cn_tid := 1, cn_initiator := Some ''iqn.i''\<rparr>"
  have "\<exists>w' conn' ss tg'. session_create ex_env ex_world ?conn = Some (0, w', conn') \<and> iw_sessions w' = ss # iw_sessions ex_world \<and>
    ss_tsih ss \<noteq> 0 \<and> ss_tsih ss \<notin> set (map ss_tsih (iw_sessions ex_world)) \<and> cn_session conn' = Some (ss_id ss) \<and>
    ss_conn_list ss = [cn_id ?conn] \<and> ss_refcount ss = 1 \<and> ss_isid ss = cn_isid ?conn \<and> ss_initiator ss = ''iqn.i'' \<and> sessions_inv w' \<and>
    target_lookup (cn_tid ?conn) (adm_targets (iw_adm w')) = Some tg' \<and>
    itn_id ` set (it_nexus_list tg') = insert (ucast (ss_tsih ss)) (itn_id ` set (it_nexus_list (hd (adm_targets (iw_adm ex_world)))))"
    by (rule session_create_correct [where it = "hd (iw_targets ex_world)"])
       (simp_all add: ex_world_def iscsi_target_create_def sessions_inv_def target_find_by_id_def target_lookup_def ex_conn_def new_target_def)
  then show ?thesis
    by (auto simp: ex_world_def iscsi_target_create_def)
qed

end
