(* ===== verification/Chap_Codec.thy ===== *)
theory Chap_Codec
  imports Tgt_Util "HOL-Library.Monad_Syntax"
begin

text \<open>
  The binary encodings of CHAP values (\<open>usr/iscsi/chap.c\<close>): hexadecimal and base64.
  A decoder works in a buffer whose contents and size are given; \<open>None\<close> is a write
  outside it. The encoded text is a \<open>string\<close> without a zero character.
\<close>

unbundle bit_operations_syntax

section \<open>Hexadecimal\<close>

definition decode_hex_digit :: "char \<Rightarrow> u8" where
  "decode_hex_digit c =
     (let n = of_char c :: nat in
      if 48 \<le> n \<and> n \<le> 57 then of_nat (n - 48)
      else if 97 \<le> n \<and> n \<le> 102 then of_nat (n - 97 + 10)
      else if 65 \<le> n \<and> n \<le> 70 then of_nat (n - 65 + 10)
      else 0)"

text \<open>
  The loop runs from the end of the text; \<open>rs\<close> are the characters still to read, last
  first, \<open>j\<close> is the number of bytes not yet written and \<open>acc\<close> those behind them. With
  an odd number of characters the last read takes the character before the text,
  \<open>pre\<close>. \<open>chap_check_encoding_format\<close> refuses an empty text, for which the code would read
  in front of it.
\<close>

fun decode_hex_loop :: "char \<Rightarrow> string \<Rightarrow> nat \<Rightarrow> bytes \<Rightarrow> bytes option" where
  "decode_hex_loop pre [] j acc = Some (replicate j 0 @ acc)"
| "decode_hex_loop pre [c] j acc =
     (if j = 0 then None
      else Some (replicate (j - 1) 0 @ (decode_hex_digit c OR push_bit 4 (decode_hex_digit pre)) # acc))"
| "decode_hex_loop pre (c # d # rs) j acc =
     (if j = 0 then None
      else decode_hex_loop pre rs (j - 1) ((decode_hex_digit c OR push_bit 4 (decode_hex_digit d)) # acc))"

definition decode_hex_string :: "char \<Rightarrow> string \<Rightarrow> nat \<Rightarrow> bytes option" where
  "decode_hex_string pre hex intlen = decode_hex_loop pre (rev hex) intlen []"

definition hex_digit :: "u8 \<Rightarrow> char" where
  "hex_digit d = ''0123456789abcdef'' ! unat d"

definition hex_byte :: "u8 \<Rightarrow> string" where
  "hex_byte b = [hex_digit (drop_bit 4 b), hex_digit (b AND 0xf)]"

definition encode_hex_string :: "bytes \<Rightarrow> string" where
  "encode_hex_string bs = concat (map hex_byte bs)"

section \<open>Base64\<close>

definition base64code :: string where
  "base64code = ''ABCDEFGHIJKLMNOPQRSTUVWXYZabcdefghijklmnopqrstuvwxyz0123456789+/=''"

definition decode_base64_digit :: "char \<Rightarrow> u8" where
  "decode_base64_digit c =
     (if c = CHR ''='' then 64 else if c = CHR ''/'' then 63 else if c = CHR ''+'' then 62
      else let n = of_char c :: nat in
        if 65 \<le> n \<and> n \<le> 90 then of_nat (n - 65)
        else if 97 \<le> n \<and> n \<le> 122 then of_nat (26 + (n - 97))
        else if 48 \<le> n \<and> n \<le> 57 then of_nat (52 + (n - 48))
        else - 1)"

definition octets :: "u8 \<Rightarrow> u8 \<Rightarrow> u8 \<Rightarrow> u8 \<Rightarrow> u32" where
  "octets a b c d = push_bit 18 (ucast a) OR push_bit 12 (ucast b) OR push_bit 6 (ucast c) OR ucast d"

definition octets_bytes :: "u32 \<Rightarrow> bytes" where
  "octets_bytes w = [ucast (drop_bit 16 (w AND 0xFF0000)), ucast (drop_bit 8 (w AND 0x00FF00)), ucast (w AND 0x0000FF)]"

text \<open>The last group of four; \<open>64\<close> is the padding character.\<close>

definition decode_base64_last :: "u8 \<Rightarrow> u8 \<Rightarrow> u8 \<Rightarrow> u8 \<Rightarrow> nat \<Rightarrow> bytes \<Rightarrow> bytes option" where
  "decode_base64_last a b c d intptr buf =
     (if a = 64 \<or> b = 64 then Some buf
      else if c = 64 then
        (if d \<noteq> 64 then Some buf else write_at buf intptr [push_bit 2 a OR drop_bit 4 b])
      else if d = 64 then write_at buf intptr [push_bit 2 a OR drop_bit 4 b, push_bit 4 b OR drop_bit 2 c]
      else write_at buf intptr (octets_bytes (octets a b c d)))"

fun decode_base64_loop :: "u8 list \<Rightarrow> nat \<Rightarrow> bytes \<Rightarrow> bytes option" where
  "decode_base64_loop [a, b, c, d] intptr buf = decode_base64_last a b c d intptr buf"
| "decode_base64_loop (a # b # c # d # e # rest) intptr buf =
     (if a = 65 \<or> b = 65 \<or> c = 65 \<or> d = 65 then Some buf
      else do { buf' \<leftarrow> write_at buf intptr (octets_bytes (octets a b c d));
                decode_base64_loop (e # rest) (intptr + 3) buf' })"
| "decode_base64_loop _ intptr buf = Some buf"

definition decode_base64_string :: "string \<Rightarrow> bytes \<Rightarrow> bytes option" where
  "decode_base64_string str buf =
     (if length str = 0 \<or> length str mod 4 \<noteq> 0 then Some buf
      else decode_base64_loop (map decode_base64_digit str) 0 buf)"

definition b64 :: "u32 \<Rightarrow> char" where
  "b64 i = base64code ! unat i"

fun encode_base64_loop :: "bytes \<Rightarrow> string" where
  "encode_base64_loop [] = ''''"
| "encode_base64_loop [x] =
     [b64 (drop_bit 2 (ucast x AND 0xfc)), b64 (push_bit 4 (ucast x AND 0x03)), CHR ''='', CHR ''='']"
| "encode_base64_loop [x, y] =
     [b64 (drop_bit 2 (ucast x AND 0xfc)),
      b64 (push_bit 4 (ucast x AND 0x03) OR drop_bit 4 (ucast y AND 0xf0)),
      b64 (push_bit 2 (ucast y AND 0x0f)), CHR ''='']"
| "encode_base64_loop (x # y # z # rest) =
     (let w = push_bit 16 (ucast x) OR push_bit 8 (ucast y) OR ucast z in
      [b64 (drop_bit 18 (w AND 0xfc0000)), b64 (drop_bit 12 (w AND 0x03f000)), b64 (drop_bit 6 (w AND 0x000fc0)),
       b64 (w AND 0x00003f)] @ encode_base64_loop rest)"

text \<open>Nothing is written for an empty input.\<close>

definition encode_base64_string :: "bytes \<Rightarrow> string" where
  "encode_base64_string bs = encode_base64_loop bs"

section \<open>Encoded values\<close>

datatype chap_format = HEX_FORMAT | BASE64_FORMAT

datatype chap_error = CHAP_INITIATOR_ERROR | CHAP_AUTH_ERROR | CHAP_TARGET_ERROR

definition chap_check_encoding_format :: "string \<Rightarrow> chap_format option" where
  "chap_check_encoding_format encoded =
     (if length encoded < 3 \<or> encoded ! 0 \<noteq> CHR ''0'' then None
      else if encoded ! 1 = CHR ''x'' \<or> encoded ! 1 = CHR ''X'' then Some HEX_FORMAT
      else if encoded ! 1 = CHR ''b'' \<or> encoded ! 1 = CHR ''B'' then Some BASE64_FORMAT
      else None)"

text \<open>The size of the buffer for a value of at least one character.\<close>

definition chap_alloc_decode_buffer :: "string \<Rightarrow> chap_format \<Rightarrow> chap_error + nat" where
  "chap_alloc_decode_buffer encoded fmt =
     (let i = length encoded - 2 in
      case fmt of
        HEX_FORMAT \<Rightarrow> Inr ((i - 1) div 2 + 1)
      | BASE64_FORMAT \<Rightarrow>
          if i mod 4 \<noteq> 0 then Inl CHAP_INITIATOR_ERROR
          else let n = i div 4 * 3;
                   n1 = (if encoded ! (i + 1) = CHR ''='' then n - 1 else n);
                   n2 = (if encoded ! i = CHR ''='' then n1 - 1 else n1)
               in if n2 = 0 then Inl CHAP_INITIATOR_ERROR else Inr n2)"

text \<open>The outer option is the memory access, the inner sum the result.\<close>

definition chap_decode_string :: "string \<Rightarrow> bytes \<Rightarrow> chap_format \<Rightarrow> (chap_error + bytes) option" where
  "chap_decode_string encoded buf fmt =
     (let n = length encoded - 2; len = length buf in
      case fmt of
        HEX_FORMAT \<Rightarrow>
          if 2 * len < n then Some (Inl CHAP_TARGET_ERROR)
          else map_option Inr (decode_hex_string (encoded ! 1) (drop 2 encoded) len)
      | BASE64_FORMAT \<Rightarrow>
          if ((len - 1) div 3 + 1) * 4 < n then Some (Inl CHAP_TARGET_ERROR)
          else map_option Inr (decode_base64_string (drop 2 encoded) buf))"

definition chap_encode_string :: "bytes \<Rightarrow> chap_format \<Rightarrow> string" where
  "chap_encode_string bs fmt =
     (case fmt of HEX_FORMAT \<Rightarrow> ''0x'' @ encode_hex_string bs | BASE64_FORMAT \<Rightarrow> ''0b'' @ encode_base64_string bs)"

section \<open>Bitwise equality\<close>

text \<open>Words of eight and of thirty-two bits, bit by bit.\<close>

lemma u8_bits_eqI: "(\<And>n. n \<in> set [0, 1, 2, 3, 4, 5, 6, 7] \<Longrightarrow> bit a n = bit b n) \<Longrightarrow> a = b" for a b :: u8
proof (rule bit_word_eqI)
  fix n
  assume eq: "\<And>n. n \<in> set [0, 1, 2, 3, 4, 5, 6, 7] \<Longrightarrow> bit a n = bit b n" and "n < LENGTH(8)"
  then have "n \<in> set [0..<8]"
    by simp
  moreover have "[0..<8] = [0, 1, 2, 3, 4, 5, 6, 7]"
    by (simp add: upt_rec)
  ultimately show "bit a n = bit b n"
    using eq by metis
qed

lemma u32_bits_eqI:
  "(\<And>n. n \<in> set [0, 1, 2, 3, 4, 5, 6, 7, 8, 9, 10, 11, 12, 13, 14, 15, 16, 17, 18, 19, 20, 21, 22, 23] \<Longrightarrow> bit a n = bit b n) \<Longrightarrow> (\<And>n. 24 \<le> n \<Longrightarrow> bit a n = bit b n) \<Longrightarrow> a = b" for a b :: u32
proof (rule bit_word_eqI)
  fix n :: nat
  assume low: "\<And>n. n \<in> set [0, 1, 2, 3, 4, 5, 6, 7, 8, 9, 10, 11, 12, 13, 14, 15, 16, 17, 18, 19, 20, 21, 22, 23] \<Longrightarrow> bit a n = bit b n" and high: "\<And>n. 24 \<le> n \<Longrightarrow> bit a n = bit b n"
  have "[0..<24] = [0, 1, 2, 3, 4, 5, 6, 7, 8, 9, 10, 11, 12, 13, 14, 15, 16, 17, 18, 19, 20, 21, 22, 23]"
    by (simp add: upt_rec)
  then have "n < 24 \<Longrightarrow> n \<in> set [0, 1, 2, 3, 4, 5, 6, 7, 8, 9, 10, 11, 12, 13, 14, 15, 16, 17, 18, 19, 20, 21, 22, 23]"
    by (metis atLeastLessThan_iff le0 set_upt)
  then show "bit a n = bit b n"
    using low high not_le by blast
qed

lemma u8_no_bit: "8 \<le> n \<Longrightarrow> \<not> bit w n" for w :: u8
  using bit_imp_le_length [of w n] by auto

section \<open>Hexadecimal round trip\<close>

lemma hex_digit_table: "map (\<lambda>i. decode_hex_digit (''0123456789abcdef'' ! i)) [0..<16] = map of_nat [0..<16]"
  by code_simp

lemma decode_hex_digit_hex: "d < 16 \<Longrightarrow> decode_hex_digit (hex_digit d) = d"
proof -
  assume "d < 16"
  then have "unat d < 16"
    by (simp add: word_less_nat_alt)
  then show ?thesis
    using arg_cong [OF hex_digit_table, of "\<lambda>l. l ! unat d"] by (simp add: hex_digit_def)
qed

lemma hex_join: "(b AND 0xf) OR push_bit 4 (drop_bit 4 b) = b" for b :: u8
proof -
  have m: "(0xf :: u8) = mask 4"
    by (simp add: mask_numeral)
  show ?thesis
    unfolding m by (rule u8_bits_eqI) (auto simp: bit_simps)
qed

lemma nibbles_less: "drop_bit 4 b < 16" "b AND 0xf < 16" for b :: u8
proof -
  have "unat (drop_bit 4 b) < 16"
    using unsigned_less [of b, where 'a = nat] by (simp add: drop_bit_eq_div unat_div_distrib)
  then show "drop_bit 4 b < 16"
    by (simp add: word_less_nat_alt)
  have "b AND 0xf \<le> 0xf"
    by (rule word_and_le1)
  then show "b AND 0xf < 16"
    by (rule le_less_trans) simp
qed

lemma decode_hex_encode:
  "length bs \<le> j \<Longrightarrow> decode_hex_loop pre (rev (encode_hex_string bs)) j acc = Some (replicate (j - length bs) 0 @ bs @ acc)"
proof (induction bs arbitrary: j acc rule: rev_induct)
  case (snoc b bs)
  have "decode_hex_digit (hex_digit (b AND 0xf)) OR push_bit 4 (decode_hex_digit (hex_digit (drop_bit 4 b))) = b"
    by (simp only: decode_hex_digit_hex nibbles_less hex_join)
  then show ?case
    using snoc.IH [of "j - 1" "b # acc"] snoc.prems by (simp add: encode_hex_string_def hex_byte_def)
qed (simp add: encode_hex_string_def)

text \<open>Decoding stays in its buffer whenever two characters per byte are enough.\<close>

lemma decode_hex_loop_total:
  "length rs \<le> 2 * j \<Longrightarrow> \<exists>out. decode_hex_loop pre rs j acc = Some out \<and> length out = j + length acc"
proof (induction pre rs j acc rule: decode_hex_loop.induct)
  case (3 pre c d rs j acc)
  then show ?case
    by (cases j) auto
qed auto

section \<open>Base64 round trip\<close>

lemma base64_table: "map (\<lambda>i. decode_base64_digit (base64code ! i)) [0..<64] = map of_nat [0..<64]"
  by code_simp

lemma decode_b64: "i < 64 \<Longrightarrow> decode_base64_digit (b64 i) = ucast i"
proof -
  assume "i < 64"
  then have "unat i < 64"
    by (simp add: word_less_nat_alt)
  then have "decode_base64_digit (b64 i) = of_nat (unat i)"
    using arg_cong [OF base64_table, of "\<lambda>l. l ! unat i"] by (simp add: b64_def)
  then show ?thesis
    by simp
qed

lemma decode_pad: "decode_base64_digit (CHR ''='') = 64"
  by (simp add: decode_base64_digit_def)

lemma base64_mask_eqs:
  "(0xfc0000 :: u32) = push_bit 18 (mask 6)" "(0x03f000 :: u32) = push_bit 12 (mask 6)" "(0x000fc0 :: u32) = push_bit 6 (mask 6)"
  "(0x00003f :: u32) = mask 6" "(0xFF0000 :: u32) = push_bit 16 (mask 8)" "(0x00FF00 :: u32) = push_bit 8 (mask 8)"
  "(0x0000FF :: u32) = mask 8" "(0xfc :: u32) = push_bit 2 (mask 6)" "(0x03 :: u32) = mask 2" "(0xf0 :: u32) = push_bit 4 (mask 4)"
  "(0x0f :: u32) = mask 4"
  by (simp_all add: mask_numeral)

lemma mask_piece: "drop_bit k (w AND push_bit k (mask m)) = take_bit m (drop_bit k w)" for w :: u32
  by (rule bit_word_eqI) (auto simp: bit_simps dest: bit_imp_le_length)

lemma take_6_less: "take_bit 6 i < 64" for i :: u32
proof -
  have "i AND 63 \<le> 63"
    by (rule word_and_le1)
  then show ?thesis
    by (simp add: take_bit_eq_mask mask_numeral) (rule le_less_trans, assumption, simp)
qed

lemma b64_group_less:
  "drop_bit 18 (w AND 0xfc0000) < 64" "drop_bit 12 (w AND 0x03f000) < 64" "drop_bit 6 (w AND 0x000fc0) < 64"
  "w AND 0x00003f < 64" for w :: u32
  unfolding base64_mask_eqs mask_piece take_bit_eq_mask [symmetric] by (rule take_6_less)+

lemma b64_group:
  fixes x y z :: u8
  defines "w \<equiv> push_bit 16 (ucast x) OR push_bit 8 (ucast y) OR ucast z :: u32"
  shows "octets_bytes (octets (ucast (drop_bit 18 (w AND 0xfc0000))) (ucast (drop_bit 12 (w AND 0x03f000)))
    (ucast (drop_bit 6 (w AND 0x000fc0))) (ucast (w AND 0x00003f))) = [x, y, z]"
proof -
  have w: "octets (ucast (drop_bit 18 (w AND 0xfc0000))) (ucast (drop_bit 12 (w AND 0x03f000)))
    (ucast (drop_bit 6 (w AND 0x000fc0))) (ucast (w AND 0x00003f)) = w"
    unfolding octets_def w_def base64_mask_eqs
  proof (rule u32_bits_eqI, goal_cases low high)
    case (low n)
    then show ?case
      unfolding list.set by (elim insertE emptyE; simp add: bit_simps u8_no_bit)
  next
    case (high n)
    then show ?case
      by (auto simp: bit_simps u8_no_bit)
  qed
  show ?thesis
    unfolding w unfolding octets_bytes_def w_def base64_mask_eqs
    by (simp, intro conjI; rule u8_bits_eqI; unfold list.set; elim insertE emptyE; simp add: bit_simps u8_no_bit)
qed

lemma u32_less_64I: "(\<And>n. 6 \<le> n \<Longrightarrow> \<not> bit i n) \<Longrightarrow> i < 64" for i :: u32
proof -
  assume "\<And>n. 6 \<le> n \<Longrightarrow> \<not> bit i n"
  then have "i = take_bit 6 i"
    by (intro bit_word_eqI) (metis bit_take_bit_iff not_le)
  then show ?thesis
    using take_6_less [of i] by simp
qed

lemma b64_tail_less:
  "drop_bit 2 (ucast x AND (0xfc :: u32)) < 64" "push_bit 4 (ucast x AND (0x03 :: u32)) < 64"
  "push_bit 4 (ucast x AND (0x03 :: u32)) OR drop_bit 4 (ucast y AND 0xf0) < 64" "push_bit 2 (ucast y AND (0x0f :: u32)) < 64"
  for x y :: u8
  unfolding base64_mask_eqs by (rule u32_less_64I, force simp: bit_simps)+

lemma b64_tail1:
  "push_bit 2 (ucast (drop_bit 2 (ucast x AND (0xfc :: u32)))) OR drop_bit 4 (ucast (push_bit 4 (ucast x AND (0x03 :: u32)))) = x"
  for x :: u8
  unfolding base64_mask_eqs
  by (rule u8_bits_eqI; unfold list.set; elim insertE emptyE; simp add: bit_simps u8_no_bit)

lemma b64_tail2:
  "push_bit 2 (ucast (drop_bit 2 (ucast x AND (0xfc :: u32)))) OR
     drop_bit 4 (ucast (push_bit 4 (ucast x AND (0x03 :: u32)) OR drop_bit 4 (ucast y AND 0xf0))) = x" for x y :: u8
  unfolding base64_mask_eqs
  by (rule u8_bits_eqI; unfold list.set; elim insertE emptyE; simp add: bit_simps u8_no_bit)

lemma b64_tail3:
  "push_bit 4 (ucast (push_bit 4 (ucast x AND (0x03 :: u32)) OR drop_bit 4 (ucast y AND 0xf0))) OR
     drop_bit 2 (ucast (push_bit 2 (ucast y AND (0x0f :: u32)))) = y" for x y :: u8
  unfolding base64_mask_eqs
  by (rule u8_bits_eqI; unfold list.set; elim insertE emptyE; simp add: bit_simps u8_no_bit)

lemma ucast_b64_less: "i < 64 \<Longrightarrow> (ucast i :: u8) \<noteq> 64 \<and> (ucast i :: u8) \<noteq> 65" for i :: u32
proof -
  assume "i < 64"
  then have "unat i < 64"
    by (simp add: word_less_nat_alt)
  then have "unat (ucast i :: u8) < 64"
    by (simp add: unsigned_ucast_eq take_bit_nat_eq_self)
  then show ?thesis
    by auto
qed

lemma length_encode_base64: "length (encode_base64_loop bs) = (if bs = [] then 0 else ((length bs - 1) div 3 + 1) * 4)"
proof (induction bs rule: encode_base64_loop.induct)
  case (4 x y z rest)
  have "(length rest + 2) div 3 = (length rest - 1) div 3 + 1" if "rest \<noteq> []"
    using that by (cases rest) simp_all
  then show ?case
    using "4.IH" by (auto simp: Let_def)
qed simp_all

lemma write_at_end: "length buf = ptr + length xs + n \<Longrightarrow> write_at buf ptr xs = Some (take ptr buf @ xs @ drop (ptr + length xs) buf)"
  by (simp add: write_at_def)

lemma encode_base64_Cons: "bs \<noteq> [] \<Longrightarrow> \<exists>e t. map decode_base64_digit (encode_base64_loop bs) = e # t"
  by (cases bs rule: encode_base64_loop.cases) (auto simp: Let_def)

lemma decode_base64_encode:
  assumes "length buf = ptr + length bs" "bs \<noteq> []"
  shows "decode_base64_loop (map decode_base64_digit (encode_base64_loop bs)) ptr buf = Some (take ptr buf @ bs)"
  using assms
proof (induction bs arbitrary: ptr buf rule: encode_base64_loop.induct)
  case (2 x)
  let ?a = "ucast (drop_bit 2 (ucast x AND (0xfc :: u32))) :: u8" and ?b = "ucast (push_bit 4 (ucast x AND (0x03 :: u32))) :: u8"
  have digits: "map decode_base64_digit (encode_base64_loop [x]) = [?a, ?b, 64, 64]"
    by (simp only: encode_base64_loop.simps list.map decode_b64 b64_tail_less decode_pad)
  have "?a \<noteq> 64" "?b \<noteq> 64"
    using ucast_b64_less b64_tail_less by blast+
  then have "decode_base64_last ?a ?b 64 64 ptr buf = write_at buf ptr [x]"
    unfolding decode_base64_last_def b64_tail1 by simp
  then show ?case
    using 2(1) unfolding digits by (simp add: write_at_def)
next
  case (3 x y)
  let ?a = "ucast (drop_bit 2 (ucast x AND (0xfc :: u32))) :: u8"
  let ?b = "ucast (push_bit 4 (ucast x AND (0x03 :: u32)) OR drop_bit 4 (ucast y AND 0xf0)) :: u8"
  let ?c = "ucast (push_bit 2 (ucast y AND (0x0f :: u32))) :: u8"
  have digits: "map decode_base64_digit (encode_base64_loop [x, y]) = [?a, ?b, ?c, 64]"
    by (simp only: encode_base64_loop.simps list.map decode_b64 b64_tail_less decode_pad)
  have "?a \<noteq> 64" "?b \<noteq> 64" "?c \<noteq> 64"
    using ucast_b64_less b64_tail_less by blast+
  then have "decode_base64_last ?a ?b ?c 64 ptr buf = write_at buf ptr [x, y]"
    unfolding decode_base64_last_def b64_tail2 b64_tail3 by simp
  then show ?case
    using 3(1) unfolding digits by (simp add: write_at_def)
next
  case (4 x y z rest)
  let ?w = "push_bit 16 (ucast x) OR push_bit 8 (ucast y) OR ucast z :: u32"
  let ?a = "ucast (drop_bit 18 (?w AND 0xfc0000)) :: u8" and ?b = "ucast (drop_bit 12 (?w AND 0x03f000)) :: u8"
  let ?c = "ucast (drop_bit 6 (?w AND 0x000fc0)) :: u8" and ?d = "ucast (?w AND 0x00003f) :: u8"
  have digits: "map decode_base64_digit (encode_base64_loop (x # y # z # rest)) =
      ?a # ?b # ?c # ?d # map decode_base64_digit (encode_base64_loop rest)"
    by (simp only: encode_base64_loop.simps Let_def list.map append.simps decode_b64 b64_group_less)
  have no: "?a \<noteq> 64" "?b \<noteq> 64" "?c \<noteq> 64" "?d \<noteq> 64" "?a \<noteq> 65" "?b \<noteq> 65" "?c \<noteq> 65" "?d \<noteq> 65"
    using ucast_b64_less b64_group_less by blast+
  note group = b64_group [of x y z]
  have wr: "write_at buf ptr [x, y, z] = Some (take ptr buf @ [x, y, z] @ drop (ptr + 3) buf)"
    using 4(2) by (simp add: write_at_def numeral_3_eq_3)
  show ?case
  proof (cases "rest = []")
    case True
    have "decode_base64_last ?a ?b ?c ?d ptr buf = write_at buf ptr [x, y, z]"
      unfolding decode_base64_last_def group using no by simp
    then show ?thesis
      using True 4(2) wr unfolding digits by simp
  next
    case False
    let ?buf = "take ptr buf @ [x, y, z] @ drop (ptr + 3) buf"
    obtain e t where et: "map decode_base64_digit (encode_base64_loop rest) = e # t"
      using encode_base64_Cons [OF False] by (elim exE)
    have "decode_base64_loop (?a # ?b # ?c # ?d # e # t) ptr buf = decode_base64_loop (e # t) (ptr + 3) ?buf"
      using no wr by (simp only: decode_base64_loop.simps group) simp
    moreover have "decode_base64_loop (e # t) (ptr + 3) ?buf = Some (take (ptr + 3) ?buf @ rest)"
      using "4.IH" [OF refl, of ?buf "ptr + 3"] 4(2) False et by simp
    moreover have "take (ptr + 3) ?buf = take ptr buf @ [x, y, z]"
      using 4(2) by simp
    ultimately show ?thesis
      unfolding digits et by simp
  qed
qed simp

lemma decode_encode_string:
  assumes "bs \<noteq> []" "length buf = length bs"
  shows "chap_check_encoding_format (chap_encode_string bs fmt) = Some fmt \<and>
    chap_decode_string (chap_encode_string bs fmt) buf fmt = Some (Inr bs)"
proof (cases fmt)
  case HEX_FORMAT
  have l: "length (encode_hex_string bs) = 2 * length bs"
    unfolding encode_hex_string_def by (induction bs) (simp_all add: hex_byte_def)
  have "0 < length bs"
    using assms(1) by simp
  then show ?thesis
    using HEX_FORMAT assms l decode_hex_encode [of bs "length bs" "CHR ''x''" "[]"]
    by (simp add: chap_check_encoding_format_def chap_encode_string_def chap_decode_string_def decode_hex_string_def Let_def)
next
  case BASE64_FORMAT
  have l: "length (encode_base64_loop bs) = ((length bs - 1) div 3 + 1) * 4"
    using assms(1) by (simp add: length_encode_base64)
  then show ?thesis
    using BASE64_FORMAT assms decode_base64_encode [of buf 0 bs]
    by (simp add: chap_check_encoding_format_def chap_encode_string_def chap_decode_string_def decode_base64_string_def
        encode_base64_string_def Let_def)
qed

text \<open>
  C33. What the target encodes, in either format, is recognised as that format and
  decodes into a buffer of the right size to the same bytes.
\<close>

theorem chap_codec_roundtrip:
  assumes "bs \<noteq> []" "length buf = length bs"
  shows "chap_check_encoding_format (chap_encode_string bs fmt) = Some fmt \<and>
    chap_decode_string (chap_encode_string bs fmt) buf fmt = Some (Inr bs)"
  by (rule decode_encode_string [OF assms])

theorem chap_codec_roundtrip_witness:
  "chap_decode_string (chap_encode_string [1, 2, 3, 4] BASE64_FORMAT) [0, 0, 0, 0] BASE64_FORMAT = Some (Inr [1, 2, 3, 4])"
  using chap_codec_roundtrip [of "[1, 2, 3, 4]" "[0, 0, 0, 0]" BASE64_FORMAT] by simp

section \<open>Buffer bounds\<close>

lemma decode_base64_overflow_loop:
  assumes "length ds = 4 * k" "0 < k" "\<forall>d\<in>set ds. d < 64" "length buf < ptr + 3 * k"
  shows "decode_base64_loop ds ptr buf = None"
  using assms
proof (induction k arbitrary: ds ptr buf)
  case (Suc k)
  have "length ds = Suc (Suc (Suc (Suc (4 * k))))"
    using Suc.prems(1) by simp
  then obtain a b c d r where ds: "ds = a # b # c # d # r" "length r = 4 * k"
    by (auto simp: length_Suc_conv)
  have no: "a \<noteq> 64" "b \<noteq> 64" "c \<noteq> 64" "d \<noteq> 64" "a \<noteq> 65" "b \<noteq> 65" "c \<noteq> 65" "d \<noteq> 65"
    using Suc.prems(3) ds(1) by auto
  have l: "length (octets_bytes w) = 3" for w
    by (simp add: octets_bytes_def)
  show ?case
  proof (cases "k = 0")
    case True
    then show ?thesis
      using ds no l Suc.prems(4) by (simp add: decode_base64_last_def write_at_def)
  next
    case False
    then obtain e t where e: "r = e # t"
      using ds(2) by (cases r) auto
    have "decode_base64_loop r (ptr + 3) buf' = None" if "length buf' = length buf" for buf'
      using Suc.IH [of r buf' "ptr + 3"] Suc.prems(3,4) ds False that by simp
    then show ?thesis
      using no l unfolding ds(1) e by (auto simp: bind_eq_None_conv write_at_def)
  qed
qed simp

text \<open>
  The length check in front of the base64 decoder lets the write run past the
  buffer: for a buffer whose size is not a multiple of three, such as the 16 bytes
  of an MD5 or the 20 bytes of a SHA-1 response, a text of unpadded base64
  characters of the largest accepted length writes behind its end.
\<close>

theorem chap_base64_overflow:
  assumes "0 < length buf" "length buf mod 3 \<noteq> 0" "length str = ((length buf - 1) div 3 + 1) * 4"
    and "\<forall>c\<in>set str. decode_base64_digit c < 64"
  shows "chap_decode_string (''0b'' @ str) buf BASE64_FORMAT = None"
proof -
  let ?k = "(length buf - 1) div 3 + 1"
  have "length buf < 3 * ?k"
    using assms(1,2) by presburger
  then have "decode_base64_loop (map decode_base64_digit str) 0 buf = None"
    using assms(3,4) by (intro decode_base64_overflow_loop [of _ ?k]) simp_all
  then show ?thesis
    using assms(3) by (simp add: chap_decode_string_def decode_base64_string_def Let_def)
qed

theorem chap_base64_overflow_witness:
  "chap_decode_string (''0b'' @ replicate 24 (CHR ''A'')) (replicate 16 0) BASE64_FORMAT = None"
  using chap_base64_overflow [of "replicate 16 0" "replicate 24 (CHR ''A'')"]
  by (simp add: decode_base64_digit_def)

text \<open>
  The hexadecimal decoder never leaves its buffer: whatever the text and the size
  of the buffer, decoding returns, and on success it has filled the whole buffer.
\<close>

theorem chap_hex_bounded:
  "\<exists>r. chap_decode_string encoded buf HEX_FORMAT = Some r \<and> (\<forall>out. r = Inr out \<longrightarrow> length out = length buf)"
proof (cases "2 * length buf < length encoded - 2")
  case False
  then show ?thesis
    using decode_hex_loop_total [of "rev (drop 2 encoded)" "length buf" "encoded ! 1" "[]"]
    by (auto simp: chap_decode_string_def decode_hex_string_def Let_def)
qed (simp add: chap_decode_string_def Let_def)

theorem chap_hex_bounded_witness:
  "\<exists>r. chap_decode_string ''0xff'' [0] HEX_FORMAT = Some r \<and> (\<forall>out. r = Inr out \<longrightarrow> length out = 1)"
  using chap_hex_bounded [of "''0xff''" "[0]"] by simp

end
