(* ===== verification/Iscsi_Chap.thy ===== *)
theory Iscsi_Chap
  imports Iscsi_Session Chap_Codec Sha1 Md5
begin

text \<open>
  CHAP authentication within a login (\<open>usr/iscsi/chap.c\<close>). A function returns the
  error of the code, or \<open>None\<close> for 0, and the connection; the outer option is a memory
  access outside an object. The content of fresh memory comes from the environment.
\<close>

unbundle bit_operations_syntax

section \<open>Digests\<close>

abbreviation (input) "CHAP_DIGEST_ALG_MD5 \<equiv> 5 :: int"
abbreviation (input) "CHAP_DIGEST_ALG_SHA1 \<equiv> 7 :: int"
abbreviation (input) "CHAP_AUTH_STATE_START \<equiv> 0 :: int"
abbreviation (input) "CHAP_AUTH_STATE_CHALLENGE \<equiv> 1 :: int"
abbreviation (input) "CHAP_AUTH_STATE_RESPONSE \<equiv> 2 :: int"
abbreviation (input) "CHAP_CHALLENGE_MAX \<equiv> 50 :: nat"

definition fresh_bytes :: "os_env \<Rightarrow> nat \<Rightarrow> bytes" where
  "fresh_bytes env n = replicate n (ucast (os_uninit env))"

definition chap_calc_digest_md5 :: "os_env \<Rightarrow> u8 \<Rightarrow> bytes \<Rightarrow> bytes \<Rightarrow> bytes" where
  "chap_calc_digest_md5 env chap_id secret challenge =
     MD5Final (MD5Update (MD5Update (MD5Update (MD5Init (fresh_bytes env 64)) [chap_id]) secret) challenge)"

definition chap_calc_digest_sha1 :: "u8 \<Rightarrow> bytes \<Rightarrow> bytes \<Rightarrow> bytes" where
  "chap_calc_digest_sha1 chap_id secret challenge =
     sha1_final (sha1_update (sha1_update (sha1_update sha1_init [chap_id]) secret) challenge)"

text \<open>The two \<open>switch\<close> statements over the algorithm: length of the digest and its value.\<close>

definition chap_digest_len :: "int \<Rightarrow> nat option" where
  "chap_digest_len alg =
     (if alg = CHAP_DIGEST_ALG_MD5 then Some 16 else if alg = CHAP_DIGEST_ALG_SHA1 then Some 20 else None)"

definition chap_digest :: "os_env \<Rightarrow> int \<Rightarrow> u8 \<Rightarrow> bytes \<Rightarrow> bytes \<Rightarrow> bytes" where
  "chap_digest env alg chap_id secret challenge =
     (if alg = CHAP_DIGEST_ALG_MD5 then chap_calc_digest_md5 env chap_id secret challenge
      else chap_calc_digest_sha1 chap_id secret challenge)"

section \<open>The target challenges the initiator\<close>

text \<open>The first algorithm of the list the initiator offers that the target knows.\<close>

definition chap_pick_alg :: "string \<Rightarrow> string option" where
  "chap_pick_alg value = find (\<lambda>p. p = ''5'' \<or> p = ''7'') (split_commas [] value)"

definition chap_initiator_auth_create_challenge ::
  "os_env \<Rightarrow> iscsi_world \<Rightarrow> iscsi_connection \<Rightarrow> chap_error option \<times> iscsi_world \<times> iscsi_connection" where
  "chap_initiator_auth_create_challenge env w conn =
     (case text_key_find conn ''CHAP_A'' of
        None \<Rightarrow> (Some CHAP_INITIATOR_ERROR, w, conn)
      | Some value \<Rightarrow>
          (case chap_pick_alg value of
             None \<Rightarrow> (Some CHAP_INITIATOR_ERROR, w, conn)
           | Some p \<Rightarrow>
               let conn1 = conn\<lparr>cn_digest_alg := (if p = ''5'' then CHAP_DIGEST_ALG_MD5 else CHAP_DIGEST_ALG_SHA1),
                                cn_auth_state := CHAP_AUTH_STATE_CHALLENGE\<rparr>;
                   i = iw_chap_id w + 1;
                   size = unat (os_rand env 0) mod (CHAP_CHALLENGE_MAX div 2) + CHAP_CHALLENGE_MAX div 2;
                   challenge = map (\<lambda>k. ucast (os_rand env (k + 1))) [0..<size];
                   conn2 = text_key_add ''CHAP_I'' (dec_str (unat (ucast i :: u8))) (text_key_add ''CHAP_A'' p conn1)
               in (None, w\<lparr>iw_chap_id := i\<rparr>,
                   text_key_add ''CHAP_C'' (''0x'' @ encode_hex_string challenge)
                     (conn2\<lparr>cn_chap_id := i, cn_challenge := challenge\<rparr>))))"

text \<open>
  On success the code stores \<open>CHAP_AUTH_STATE_RESPONSE\<close> in the state of the connection, where
  it has the meaning of \<open>STATE_SECURITY_AUTH\<close>.
\<close>

definition chap_initiator_auth_check_response ::
  "os_env \<Rightarrow> adm \<Rightarrow> iscsi_connection \<Rightarrow> (chap_error option \<times> iscsi_connection) option" where
  "chap_initiator_auth_check_response env st conn =
     (let fail = (\<lambda>e. Some (Some e, conn)) in
      if account_available (cn_tid conn) ACCOUNT_TYPE_INCOMING st = 0 then fail CHAP_TARGET_ERROR
      else case text_key_find conn ''CHAP_N'' of
        None \<Rightarrow> fail CHAP_INITIATOR_ERROR
      | Some user \<Rightarrow>
      (case account_lookup (cn_tid conn) ACCOUNT_TYPE_INCOMING user 0 ISCSI_NAME_LEN st of
        None \<Rightarrow> fail CHAP_AUTH_ERROR
      | Some (_, pass) \<Rightarrow>
      (case text_key_find conn ''CHAP_R'' of
        None \<Rightarrow> fail CHAP_INITIATOR_ERROR
      | Some value \<Rightarrow>
      (case chap_check_encoding_format value of
        None \<Rightarrow> fail CHAP_INITIATOR_ERROR
      | Some fmt \<Rightarrow>
      (case chap_digest_len (cn_digest_alg conn) of
        None \<Rightarrow> fail CHAP_TARGET_ERROR
      | Some len \<Rightarrow>
      (case chap_decode_string value (fresh_bytes env len) fmt of
        None \<Rightarrow> None
      | Some (Inl _) \<Rightarrow> fail CHAP_INITIATOR_ERROR
      | Some (Inr his) \<Rightarrow>
          if chap_digest env (cn_digest_alg conn) (ucast (cn_chap_id conn)) (str_bytes pass) (cn_challenge conn) \<noteq> his
          then fail CHAP_AUTH_ERROR
          else Some (None, conn\<lparr>cn_state := CHAP_AUTH_STATE_RESPONSE\<rparr>)))))))"

section \<open>The initiator challenges the target\<close>

definition chap_target_auth_create_response ::
  "os_env \<Rightarrow> adm \<Rightarrow> iscsi_connection \<Rightarrow> (chap_error option \<times> iscsi_connection) option" where
  "chap_target_auth_create_response env st conn =
     (let fail = (\<lambda>e. Some (Some e, conn)) in
      case text_key_find conn ''CHAP_I'' of
        None \<Rightarrow> Some (None, conn\<lparr>cn_state := STATE_SECURITY_DONE\<rparr>)
      | Some ivalue \<Rightarrow>
      (case account_lookup (cn_tid conn) ACCOUNT_TYPE_OUTGOING [] ISCSI_NAME_LEN ISCSI_NAME_LEN st of
        None \<Rightarrow> fail CHAP_AUTH_ERROR
      | Some (name, pass) \<Rightarrow>
      (case text_key_find conn ''CHAP_C'' of
        None \<Rightarrow> fail CHAP_INITIATOR_ERROR
      | Some value \<Rightarrow>
      (case chap_check_encoding_format value of
        None \<Rightarrow> fail CHAP_INITIATOR_ERROR
      | Some fmt \<Rightarrow>
      (case chap_alloc_decode_buffer value fmt of
        Inl e \<Rightarrow> fail e
      | Inr clen \<Rightarrow>
          if clen > 1024 then fail CHAP_INITIATOR_ERROR
          else case chap_digest_len (cn_digest_alg conn) of
            None \<Rightarrow> fail CHAP_TARGET_ERROR
          | Some len \<Rightarrow>
          (case chap_decode_string value (fresh_bytes env clen) fmt of
            None \<Rightarrow> None
          | Some (Inl _) \<Rightarrow> fail CHAP_INITIATOR_ERROR
          | Some (Inr challenge) \<Rightarrow>
              if challenge = cn_challenge conn then fail CHAP_INITIATOR_ERROR
              else
                (let digest = chap_digest env (cn_digest_alg conn) (of_int (strtol False ivalue)) (str_bytes pass) challenge in
                 Some (None, (text_key_add ''CHAP_R'' (chap_encode_string digest fmt)
                                (text_key_add ''CHAP_N'' name conn))\<lparr>cn_state := STATE_SECURITY_DONE\<rparr>))))))))"

definition cmnd_exec_auth_chap ::
  "os_env \<Rightarrow> iscsi_world \<Rightarrow> iscsi_connection \<Rightarrow> (chap_error option \<times> iscsi_world \<times> iscsi_connection) option" where
  "cmnd_exec_auth_chap env w conn =
     (if cn_auth_state conn = CHAP_AUTH_STATE_START then Some (chap_initiator_auth_create_challenge env w conn)
      else if cn_auth_state conn = CHAP_AUTH_STATE_CHALLENGE then
        do { (res, conn1) \<leftarrow> chap_initiator_auth_check_response env (iw_adm w) conn;
             if res \<noteq> None then Some (res, w, conn1)
             else do { (res2, conn2) \<leftarrow> chap_target_auth_create_response env (iw_adm w) conn1; Some (res2, w, conn2) } }
      else if cn_auth_state conn = CHAP_AUTH_STATE_RESPONSE then
        do { (res, conn1) \<leftarrow> chap_target_auth_create_response env (iw_adm w) conn; Some (res, w, conn1) }
      else Some (Some CHAP_TARGET_ERROR, w, conn))"

section \<open>The response is checked against the standard digests\<close>

text \<open>What RFC 1994 asks for: the digest of the identifier, the secret and the challenge.\<close>

definition chap_reference :: "int \<Rightarrow> u8 \<Rightarrow> bytes \<Rightarrow> bytes \<Rightarrow> bytes" where
  "chap_reference alg chap_id secret challenge =
     (if alg = CHAP_DIGEST_ALG_MD5 then rfc_md5 (chap_id # secret @ challenge) else fips_sha1 (chap_id # secret @ challenge))"

lemma chap_digest_reference:
  assumes "length secret < 2 ^ 29" "length challenge < 2 ^ 29"
  shows "chap_digest env alg chap_id secret challenge = chap_reference alg chap_id secret challenge"
  using md5_stream_digest [of "[[chap_id], secret, challenge]" "fresh_bytes env 64"]
    sha1_stream_digest [of "[[chap_id], secret, challenge]"] assms
  by (simp add: chap_digest_def chap_reference_def chap_calc_digest_md5_def chap_calc_digest_sha1_def fresh_bytes_def)

lemma account_lookup_password: "account_lookup t type user ulen plen st = Some (u, pass) \<Longrightarrow> length pass \<le> plen"
  by (auto simp: account_lookup_def split: option.splits account_type.splits)

text \<open>
  C35. The check of a CHAP response. For a user whose account is bound to the target and a
  response of the length of the digest, encoded in either format, the target accepts
  exactly the digest of the standard (MD5 of RFC 1321 or SHA-1 of FIPS 180) of the
  identifier, the password of that account and the challenge it sent; any other response
  is an authentication error that leaves the connection as it is.
\<close>

theorem chap_response_correct:
  assumes "account_available (cn_tid conn) ACCOUNT_TYPE_INCOMING st \<noteq> 0"
    and "text_key_find conn ''CHAP_N'' = Some user"
    and "account_lookup (cn_tid conn) ACCOUNT_TYPE_INCOMING user 0 ISCSI_NAME_LEN st = Some (u, pass)"
    and "text_key_find conn ''CHAP_R'' = Some (chap_encode_string resp fmt)"
    and "chap_digest_len (cn_digest_alg conn) = Some (length resp)" "length (cn_challenge conn) < 2 ^ 29"
  shows "chap_initiator_auth_check_response env st conn =
    (if resp = chap_reference (cn_digest_alg conn) (ucast (cn_chap_id conn)) (str_bytes pass) (cn_challenge conn)
     then Some (None, conn\<lparr>cn_state := STATE_SECURITY_AUTH\<rparr>) else Some (Some CHAP_AUTH_ERROR, conn))"
proof -
  have "resp \<noteq> []"
    using assms(5) by (auto simp: chap_digest_len_def split: if_splits)
  then have dec: "chap_check_encoding_format (chap_encode_string resp fmt) = Some fmt"
      "chap_decode_string (chap_encode_string resp fmt) (fresh_bytes env (length resp)) fmt = Some (Inr resp)"
    using decode_encode_string [of resp "fresh_bytes env (length resp)" fmt] by (simp_all add: fresh_bytes_def)
  have "length (str_bytes pass) < 2 ^ 29"
    using account_lookup_password [OF assms(3)] by (simp add: str_bytes_def)
  then show ?thesis
    using assms dec chap_digest_reference [of "str_bytes pass" "cn_challenge conn"]
    by (auto simp: chap_initiator_auth_check_response_def Let_def)
qed

definition ex_chap_adm :: adm where
  "ex_chap_adm = ex_adm\<lparr>adm_global := \<lparr>out_aid = 0, nr_inaccount = 1, max_inaccount = 16, in_aids = 2 # replicate 15 0\<rparr>\<rparr>"

definition ex_chap_conn :: "bytes \<Rightarrow> iscsi_connection" where
  "ex_chap_conn resp = ex_conn\<lparr>cn_tid := GLOBAL_TID, cn_digest_alg := CHAP_DIGEST_ALG_MD5, cn_chap_id := 1, cn_challenge := [1, 2],
     cn_req := \<lparr>pd_bhs = zero_hdr, pd_ahs = [],
       pd_data = str_bytes (pairs_text [(''CHAP_N'', ''bob''), (''CHAP_R'', chap_encode_string resp HEX_FORMAT)])\<rparr>\<rparr>"

lemma ex_chap_account:
  "account_available GLOBAL_TID ACCOUNT_TYPE_INCOMING ex_chap_adm \<noteq> 0"
  "account_lookup GLOBAL_TID ACCOUNT_TYPE_INCOMING ''bob'' 0 ISCSI_NAME_LEN ex_chap_adm = Some (''bob'', ''pw2'')"
  by (simp_all add: account_available_def get_account_def ex_chap_adm_def account_lookup_def ex_adm_def account_lookup_id_def find_incoming_def)

theorem chap_response_correct_witness:
  "chap_initiator_auth_check_response ex_env ex_chap_adm (ex_chap_conn (replicate 16 0)) =
     (if replicate 16 0 = chap_reference 5 1 (str_bytes ''pw2'') [1, 2]
      then Some (None, (ex_chap_conn (replicate 16 0))\<lparr>cn_state := STATE_SECURITY_AUTH\<rparr>)
      else Some (Some CHAP_AUTH_ERROR, ex_chap_conn (replicate 16 0)))"
proof -
  let ?conn = "ex_chap_conn (replicate 16 0)"
  have "chap_encode_string (replicate 16 0) HEX_FORMAT = ''0x'' @ replicate 32 (CHR ''0'')"
    by (simp add: chap_encode_string_def encode_hex_string_def hex_byte_def hex_digit_def numeral_eq_Suc)
  then have "list_all good_pair [(''CHAP_N'', ''bob''), (''CHAP_R'', chap_encode_string (replicate 16 0) HEX_FORMAT)]"
    by (simp add: good_pair_def)
  note find = text_find_pairs [OF this]
  have "text_key_find ?conn ''CHAP_N'' = Some ''bob''"
      "text_key_find ?conn ''CHAP_R'' = Some (chap_encode_string (replicate 16 0) HEX_FORMAT)"
    using find [of "''CHAP_N''"] find [of "''CHAP_R''"] by (simp_all add: text_key_find_def ex_chap_conn_def)
  then have "chap_initiator_auth_check_response ex_env ex_chap_adm ?conn =
    (if replicate 16 0 = chap_reference (cn_digest_alg ?conn) (ucast (cn_chap_id ?conn)) (str_bytes ''pw2'') (cn_challenge ?conn)
     then Some (None, ?conn\<lparr>cn_state := STATE_SECURITY_AUTH\<rparr>) else Some (Some CHAP_AUTH_ERROR, ?conn))"
    using ex_chap_account
    by (intro chap_response_correct [where user = "''bob''" and u = "''bob''" and fmt = HEX_FORMAT])
       (simp_all add: ex_chap_conn_def chap_digest_len_def)
  then show ?thesis
    by (simp add: ex_chap_conn_def)
qed

end
