(* ===== verification/Iscsi_Login.thy ===== *)
theory Iscsi_Login
  imports Iscsi_Chap
begin

text \<open>
  The login phase and the text and logout requests of a connection that is not in the
  full feature phase (\<open>usr/iscsi/iscsid.c\<close>). An operation gets the state of the transport
  and the connection it works on, which it returns beside it; \<open>None\<close> is a bad memory
  access or the \<open>exit\<close> of the code.
\<close>

unbundle bit_operations_syntax

abbreviation (input) "ISCSI_STATUS_CLS_REDIRECT \<equiv> 0x01 :: u8"
abbreviation (input) "ISCSI_STATUS_CLS_INITIATOR_ERR \<equiv> 0x02 :: u8"
abbreviation (input) "ISCSI_STATUS_CLS_TARGET_ERR \<equiv> 0x03 :: u8"
abbreviation (input) "ISCSI_LOGIN_STATUS_INIT_ERR \<equiv> 0x00 :: u8"
abbreviation (input) "ISCSI_LOGIN_STATUS_AUTH_FAILED \<equiv> 0x01 :: u8"
abbreviation (input) "ISCSI_LOGIN_STATUS_TGT_NOT_FOUND \<equiv> 0x03 :: u8"
abbreviation (input) "ISCSI_LOGIN_STATUS_NO_VERSION \<equiv> 0x05 :: u8"
abbreviation (input) "ISCSI_LOGIN_STATUS_MISSING_FIELDS \<equiv> 0x07 :: u8"
abbreviation (input) "ISCSI_LOGIN_STATUS_NO_SESSION_TYPE \<equiv> 0x09 :: u8"
abbreviation (input) "ISCSI_LOGIN_STATUS_NO_SESSION \<equiv> 0x0a :: u8"
abbreviation (input) "ISCSI_LOGIN_STATUS_INVALID_REQUEST \<equiv> 0x0b :: u8"
abbreviation (input) "ISCSI_LOGIN_STATUS_TARGET_ERROR \<equiv> 0x00 :: u8"
abbreviation (input) "ISCSI_LOGIN_STATUS_NO_RESOURCES \<equiv> 0x02 :: u8"
abbreviation (input) "ISCSI_SECURITY_NEGOTIATION_STAGE \<equiv> 0 :: u8"
abbreviation (input) "ISCSI_OP_PARMS_NEGOTIATION_STAGE \<equiv> 1 :: u8"
abbreviation (input) "ISCSI_FULL_FEATURE_PHASE \<equiv> 3 :: u8"
abbreviation (input) "ISCSI_FLAG_LOGIN_TRANSIT \<equiv> 0x80 :: u8"
abbreviation (input) "ISCSI_DRAFT20_VERSION \<equiv> 0 :: u8"
abbreviation (input) "ISCSI_REASON_CMD_NOT_SUPPORTED \<equiv> 5 :: u8"
abbreviation (input) "ISCSI_REASON_PROTOCOL_ERROR \<equiv> 4 :: u8"
abbreviation (input) "ISCSI_REASON_INVALID_PDU_FIELD \<equiv> 9 :: u8"

definition csg :: "iscsi_hdr \<Rightarrow> u8" where
  "csg h = drop_bit 2 (h_flags h AND 0x0C)"

definition nsg :: "iscsi_hdr \<Rightarrow> u8" where
  "nsg h = h_flags h AND 0x03"

text \<open>Setting the status of the response and giving the connection up.\<close>

definition login_fail :: "u8 \<Rightarrow> u8 \<Rightarrow> iscsi_connection \<Rightarrow> iscsi_connection" where
  "login_fail cls detail conn = (upd_rsp (set_login_status cls detail) conn)\<lparr>cn_state := STATE_EXIT\<rparr>"

text \<open>The labels \<open>init_err\<close>, \<open>auth_err\<close> and \<open>fail\<close>, which clear the flags too.\<close>

definition login_err :: "u8 \<Rightarrow> u8 \<Rightarrow> iscsi_connection \<Rightarrow> iscsi_connection" where
  "login_err cls detail conn = login_fail cls detail (upd_rsp (\<lambda>h. h\<lparr>h_flags := 0\<rparr>) conn)"

definition rsp_failed :: "iscsi_connection \<Rightarrow> bool" where
  "rsp_failed conn \<longleftrightarrow> status_class (pd_bhs (cn_rsp conn)) \<noteq> 0"

section \<open>Security negotiation\<close>

definition login_keys :: "string list" where
  "login_keys = [''InitiatorName'', ''InitiatorAlias'', ''SessionType'', ''TargetName'']"

definition is_login_key :: "string \<Rightarrow> bool" where
  "is_login_key key = list_ex (\<lambda>n. strcaseeq n key) login_keys"

text \<open>The loop over the methods of one \<open>AuthMethod\<close> key, up to the first that is taken.\<close>

fun auth_method_loop :: "bool \<Rightarrow> string \<Rightarrow> string list \<Rightarrow> iscsi_connection \<Rightarrow> iscsi_connection" where
  "auth_method_loop accounts key [] conn = conn"
| "auth_method_loop accounts key (v # vs) conn =
     (if v = ''None'' \<and> \<not> accounts then text_key_add key ''None'' (conn\<lparr>cn_auth_method := AUTH_NONE\<rparr>)
      else if v = ''CHAP'' \<and> accounts then text_key_add key ''CHAP'' (conn\<lparr>cn_auth_method := AUTH_CHAP\<rparr>)
      else auth_method_loop accounts key vs conn)"

definition scan_security_key :: "bool \<Rightarrow> string \<times> string \<Rightarrow> iscsi_connection \<Rightarrow> iscsi_connection" where
  "scan_security_key accounts kv conn =
     (let (key, value) = kv in
      if is_login_key key then conn
      else if key = ''AuthMethod'' then
        (let conn1 = auth_method_loop accounts key (split_commas [] value) conn in
         if cn_auth_method conn1 = AUTH_UNKNOWN then text_key_add_reject key conn1 else conn1)
      else text_key_add key ''NotUnderstood'' conn)"

definition text_scan_security :: "adm \<Rightarrow> iscsi_connection \<Rightarrow> iscsi_connection" where
  "text_scan_security st conn =
     (let accounts = (account_available (cn_tid conn) ACCOUNT_TYPE_INCOMING st \<noteq> 0);
          conn1 = fold (scan_security_key accounts) (req_keys conn) conn
      in if cn_auth_method conn1 = AUTH_UNKNOWN
         then login_fail ISCSI_STATUS_CLS_INITIATOR_ERR ISCSI_LOGIN_STATUS_AUTH_FAILED conn1 else conn1)"

text \<open>Session reinstatement closes the connections of the old session.\<close>

definition login_security_done ::
  "perform \<Rightarrow> iscsi_world \<Rightarrow> iscsi_connection \<Rightarrow> (iscsi_world \<times> iscsi_connection) option" where
  "login_security_done perf w conn =
     (let req = pd_bhs (cn_req conn) in
      if cn_tid conn = 0 then Some (w, conn)
      else do { init \<leftarrow> cn_initiator conn;
        (case session_find_name (cn_tid conn) init (login_isid req) w of
           Some ss \<Rightarrow>
             if login_tsih req = 0 then
               do { w1 \<leftarrow> close_conns perf (ss_conn_list ss) w; Some (w1, conn) }
             else if login_tsih req \<noteq> ss_tsih ss then
               Some (w, login_fail ISCSI_STATUS_CLS_INITIATOR_ERR ISCSI_LOGIN_STATUS_TGT_NOT_FOUND conn)
             else conn_add_to_session (ss_id ss) w conn
         | None \<Rightarrow>
             if login_tsih req \<noteq> 0
             then Some (w, login_fail ISCSI_STATUS_CLS_INITIATOR_ERR ISCSI_LOGIN_STATUS_NO_SESSION conn)
             else Some (w, conn)) })"

section \<open>Operational negotiation\<close>

definition set_param_state :: "nat \<Rightarrow> key_state \<Rightarrow> iscsi_connection \<Rightarrow> iscsi_connection" where
  "set_param_state i st conn =
     conn\<lparr>cn_session_param := (cn_session_param conn)[i := (cn_session_param conn ! i)\<lparr>p_state := st\<rparr>]\<rparr>"

definition set_param_value :: "nat \<Rightarrow> u32 \<Rightarrow> iscsi_connection \<Rightarrow> iscsi_connection" where
  "set_param_value i v conn = conn\<lparr>cn_session_param := set_p_val i v (cn_session_param conn)\<rparr>"

text \<open>The buffer of \<open>param_val_to_str\<close> is cleared before and stays empty when it fails.\<close>

definition param_text :: "nat \<Rightarrow> u32 \<Rightarrow> string" where
  "param_text i v = (case param_val_to_str session_keys i v of None \<Rightarrow> [] | Some s \<Rightarrow> s)"

text \<open>Storing the value: local parameters as they come, the others by negotiation.\<close>

definition assign_param :: "nat \<Rightarrow> u32 \<Rightarrow> iscsi_connection \<Rightarrow> iscsi_connection \<times> u32" where
  "assign_param idx v conn =
     (if idx \<ge> ISCSI_PARAM_FIRST_LOCAL then (set_param_value idx v conn, v)
      else let (ps, v') = param_set_val session_keys (cn_session_param conn) idx v in (conn\<lparr>cn_session_param := ps\<rparr>, v'))"

text \<open>One key of the scan; the flag says that the login failed (\<open>goto out\<close>).\<close>

definition scan_login_param :: "u32 \<Rightarrow> string \<Rightarrow> string \<Rightarrow> nat \<Rightarrow> iscsi_connection \<Rightarrow> bool \<times> iscsi_connection" where
  "scan_login_param uninit key value idx conn =
     (let init_err = login_fail ISCSI_STATUS_CLS_INITIATOR_ERR ISCSI_LOGIN_STATUS_INIT_ERR in
      case param_str_to_val session_keys idx value uninit of
        None \<Rightarrow> if p_state (cn_session_param conn ! idx) = KEY_STATE_START then (False, text_key_add_reject key conn)
                else (True, init_err conn)
      | Some v0 \<Rightarrow>
          (let (failed, v1) = param_check_val session_keys idx v0 in
           if failed then (False, text_key_add_reject key conn)
           else
             (let (conn1, v2) = assign_param idx v1 conn
              in case p_state (cn_session_param conn1 ! idx) of
                   KEY_STATE_START \<Rightarrow>
                     (False, set_param_state idx KEY_STATE_DONE
                        (if idx \<ge> ISCSI_PARAM_FIRST_LOCAL then conn1 else text_key_add key (param_text idx v2) conn1))
                 | KEY_STATE_REQUEST \<Rightarrow>
                     if v2 \<noteq> p_val (cn_session_param conn1 ! idx) then (True, init_err conn1)
                     else (False, set_param_state idx KEY_STATE_DONE conn1)
                 | KEY_STATE_DONE \<Rightarrow> (False, set_param_state idx KEY_STATE_DONE conn1))))"

fun scan_login_loop :: "u32 \<Rightarrow> bool \<Rightarrow> (string \<times> string) list \<Rightarrow> iscsi_connection \<Rightarrow> iscsi_connection" where
  "scan_login_loop uninit is_rdma [] conn =
     (if is_rdma then set_param_value ISCSI_PARAM_DATADGST_EN DIGEST_NONE (set_param_value ISCSI_PARAM_HDRDGST_EN DIGEST_NONE conn)
      else set_param_value ISCSI_PARAM_RDMA_EXTENSIONS 0 conn)"
| "scan_login_loop uninit is_rdma ((key, value) # kvs) conn =
     (if is_login_key key \<or> key = ''AuthMethod'' then scan_login_loop uninit is_rdma kvs conn
      else case param_index_by_name key session_keys of
        None \<Rightarrow> scan_login_loop uninit is_rdma kvs (text_key_add key ''NotUnderstood'' conn)
      | Some i \<Rightarrow>
          let idx = (if i = ISCSI_PARAM_MAX_RECV_DLENGTH then ISCSI_PARAM_MAX_XMIT_DLENGTH else i);
              rdma = (is_rdma \<or> idx = ISCSI_PARAM_RDMA_EXTENSIONS);
              (out, conn1) = scan_login_param uninit key value idx conn
          in if out then conn1 else scan_login_loop uninit rdma kvs conn1)"

definition text_scan_login :: "os_env \<Rightarrow> iscsi_connection \<Rightarrow> iscsi_connection" where
  "text_scan_login env conn = scan_login_loop (os_uninit env) False (req_keys conn) conn"

text \<open>The count of parameters that still have to be negotiated, and the offers that are sent for them.\<close>

definition check_one_param :: "nat \<Rightarrow> nat \<times> iscsi_connection \<Rightarrow> nat \<times> iscsi_connection" where
  "check_one_param i s =
     (let (cnt, conn) = s; p = cn_session_param conn ! i; k = session_keys ! i in
      if p_state p = KEY_STATE_START \<and> p_val p \<noteq> k_def k then
        (if cn_state conn = STATE_LOGIN then
           (if i \<ge> ISCSI_PARAM_FIRST_LOCAL then
              (cnt, set_param_state i KEY_STATE_DONE (if p_val p > k_def k then set_param_value i (k_def k) conn else conn))
            else if p_val (cn_session_param conn ! ISCSI_PARAM_RDMA_EXTENSIONS) = 1 \<and> i = ISCSI_PARAM_MAX_RECV_DLENGTH then (cnt, conn)
            else if p_val (cn_session_param conn ! ISCSI_PARAM_RDMA_EXTENSIONS) \<noteq> 1 \<and> i \<ge> ISCSI_PARAM_RDMA_EXTENSIONS then (cnt, conn)
            else (cnt + 1, set_param_state i KEY_STATE_REQUEST (text_key_add (k_name k) (param_text i (p_val p)) conn)))
         else (cnt + 1, conn))
      else (cnt, conn))"

definition text_check_param :: "iscsi_connection \<Rightarrow> nat \<times> iscsi_connection" where
  "text_check_param conn = fold check_one_param [0..<length session_keys] (0, conn)"

section \<open>Start and end of a login\<close>

text \<open>The checks of \<open>login_start\<close> once the target of a normal session is found.\<close>

definition login_target :: "os_env \<Rightarrow> iscsi_world \<Rightarrow> string \<Rightarrow> iscsi_target \<Rightarrow> iscsi_connection \<Rightarrow> iscsi_connection option" where
  "login_target env w name it conn =
     (let ts = adm_targets (iw_adm w);
          not_found = login_fail ISCSI_STATUS_CLS_INITIATOR_ERR ISCSI_LOGIN_STATUS_TGT_NOT_FOUND;
          target_error = login_fail ISCSI_STATUS_CLS_TARGET_ERR ISCSI_LOGIN_STATUS_TARGET_ERROR
      in if it_rdma it then Some (not_found conn)
         else let conn1 = conn\<lparr>cn_tid := it_tid it\<rparr> in
         do { redir \<leftarrow> target_redirected env it conn1 ts;
              (case redir of
                 Redirect_failed \<Rightarrow> Some (target_error conn1)
               | Redirect addr reason \<Rightarrow>
                   Some (login_fail ISCSI_STATUS_CLS_REDIRECT reason (text_key_add ''TargetAddress'' addr conn1))
               | No_redirect \<Rightarrow>
                   if tgt_get_target_state (it_tid it) ts \<noteq> Some SCSI_TARGET_READY then Some (target_error conn1)
                   else do { ip \<leftarrow> ip_acl env ts (cn_tid conn1) conn1;
                             if \<not> ip then Some (not_found conn1)
                             else do { iqn \<leftarrow> iqn_acl ts (cn_tid conn1) conn1;
                                       if \<not> iqn then Some (not_found conn1)
                                       else do { isns \<leftarrow> isns_scn_access (cn_tid conn1) (Some name) w;
                                                 Some (if \<not> isns then not_found conn1
                                                       else conn1\<lparr>cn_session_param := it_session_param it\<rparr>) } } }) })"

text \<open>The last lines of \<open>login_start\<close>, for a login that passed.\<close>

definition login_accept :: "iscsi_connection \<Rightarrow> iscsi_connection" where
  "login_accept conn =
     text_key_add ''TargetPortalGroupTag'' ''1''
       (conn\<lparr>cn_exp_cmd_sn := h_statsn (pd_bhs (cn_req conn)), cn_max_cmd_sn := h_statsn (pd_bhs (cn_req conn)) + 1\<rparr>)"

text \<open>A session of type Normal names its target.\<close>

definition login_normal :: "os_env \<Rightarrow> iscsi_world \<Rightarrow> string \<Rightarrow> iscsi_connection \<Rightarrow> iscsi_connection option" where
  "login_normal env w name conn =
     (case text_key_find conn ''TargetName'' of
        None \<Rightarrow> Some (login_fail ISCSI_STATUS_CLS_INITIATOR_ERR ISCSI_LOGIN_STATUS_MISSING_FIELDS conn)
      | Some target_name \<Rightarrow>
          (case target_find_by_name target_name w of
             None \<Rightarrow> Some (login_fail ISCSI_STATUS_CLS_INITIATOR_ERR ISCSI_LOGIN_STATUS_TGT_NOT_FOUND conn)
           | Some it \<Rightarrow>
               do { conn1 \<leftarrow> login_target env w name it conn;
                    Some (if rsp_failed conn1 then conn1 else login_accept conn1) }))"

definition login_start :: "os_env \<Rightarrow> iscsi_world \<Rightarrow> iscsi_connection \<Rightarrow> iscsi_connection option" where
  "login_start env w conn =
     (let req = pd_bhs (cn_req conn);
          missing = login_fail ISCSI_STATUS_CLS_INITIATOR_ERR ISCSI_LOGIN_STATUS_MISSING_FIELDS;
          conn1 = conn\<lparr>cn_cid := login_cid req, cn_isid := login_isid req, cn_tsih := login_tsih req\<rparr>
      in if list_all (\<lambda>b. b = 0) (login_isid req) \<and> login_tsih req = 0 then Some (missing conn1)
         else case text_key_find conn ''InitiatorName'' of
           None \<Rightarrow> Some (missing conn1)
         | Some name \<Rightarrow>
             let conn2 = conn1\<lparr>cn_initiator := Some name,
                               cn_initiator_alias := (case text_key_find conn ''InitiatorAlias'' of
                                  None \<Rightarrow> cn_initiator_alias conn1 | Some a \<Rightarrow> Some a),
                               cn_auth_method := AUTH_UNKNOWN, cn_session_type := SESSION_NORMAL\<rparr>
             in case text_key_find conn ''SessionType'' of
                  Some stype \<Rightarrow>
                    if stype = ''Discovery'' then
                      Some (login_accept (conn2\<lparr>cn_session_type := SESSION_DISCOVERY, cn_tid := GLOBAL_TID\<rparr>))
                    else if stype \<noteq> ''Normal'' then
                      Some (login_fail ISCSI_STATUS_CLS_INITIATOR_ERR ISCSI_LOGIN_STATUS_NO_SESSION_TYPE conn2)
                    else login_normal env w name conn2
                | None \<Rightarrow> login_normal env w name conn2)"

definition iscsi_tcp_conn_login_complete :: "iscsi_world \<Rightarrow> iscsi_connection \<Rightarrow> iscsi_connection" where
  "iscsi_tcp_conn_login_complete w conn =
     (case target_find_by_id (cn_tid conn) w of
        None \<Rightarrow> conn
      | Some it \<Rightarrow> conn\<lparr>cn_nop_count := it_nop_count it, cn_nop_interval := it_nop_interval it, cn_nop_tick := it_nop_interval it\<rparr>)"

text \<open>The TCP transport always completes and is not RDMA; a session with RDMA connections refuses it.\<close>

definition login_finish :: "os_env \<Rightarrow> iscsi_world \<Rightarrow> iscsi_connection \<Rightarrow> (iscsi_world \<times> iscsi_connection) option" where
  "login_finish env w conn =
     (if cn_session_type conn = SESSION_NORMAL then
        (let conn1 = iscsi_tcp_conn_login_complete w conn;
             take_ids = (\<lambda>w conn. do { s \<leftarrow> cn_session conn; ss \<leftarrow> get_session s w;
                                      Some (w, conn\<lparr>cn_isid := ss_isid ss, cn_tsih := ss_tsih ss\<rparr>) })
         in case cn_session conn1 of
              None \<Rightarrow>
                do { (err, w1, conn2) \<leftarrow> session_create env w conn1;
                     if err \<noteq> 0 then Some (w1, login_err ISCSI_STATUS_CLS_TARGET_ERR ISCSI_LOGIN_STATUS_TARGET_ERROR conn2)
                     else take_ids w1 conn2 }
            | Some s \<Rightarrow>
                do { ss \<leftarrow> get_session s w;
                     if ss_rdma ss then Some (w, login_err ISCSI_STATUS_CLS_INITIATOR_ERR ISCSI_LOGIN_STATUS_INVALID_REQUEST conn1)
                     else take_ids w conn1 })
      else if cn_session_type conn = SESSION_DISCOVERY then Some (w, conn\<lparr>cn_tsih := 1\<rparr>)
      else Some (w, conn))"


section \<open>Commands\<close>

text \<open>The results 0, -1, -2 and -3 of \<open>cmnd_exec_auth\<close> as an optional error.\<close>

definition cmnd_exec_auth ::
  "os_env \<Rightarrow> iscsi_world \<Rightarrow> iscsi_connection \<Rightarrow> (chap_error option \<times> iscsi_world \<times> iscsi_connection) option" where
  "cmnd_exec_auth env w conn =
     (if cn_auth_method conn = AUTH_CHAP then cmnd_exec_auth_chap env w conn
      else if cn_auth_method conn = AUTH_NONE then Some (None, w, conn)
      else Some (Some CHAP_TARGET_ERROR, w, conn))"

text \<open>The sequence numbers of a response; \<open>stat_sn++\<close>.\<close>

definition rsp_numbers :: "iscsi_connection \<Rightarrow> iscsi_connection" where
  "rsp_numbers conn =
     (upd_rsp (\<lambda>h. h\<lparr>h_statsn := cn_stat_sn conn, h_exp_statsn := cn_exp_cmd_sn conn, h_max_statsn := cn_max_cmd_sn conn\<rparr>) conn)
       \<lparr>cn_stat_sn := cn_stat_sn conn + 1\<rparr>"

definition cmnd_reject :: "u8 \<Rightarrow> iscsi_connection \<Rightarrow> iscsi_connection" where
  "cmnd_reject reason conn =
     (let h = zero_hdr\<lparr>h_opcode := ISCSI_OP_REJECT, h_rsvd2 := [reason, 0], h_itt := ISCSI_RESERVED_TAG, h_flags := ISCSI_FLAG_CMD_FINAL\<rparr>;
          conn1 = rsp_numbers (upd_rsp (\<lambda>_. h) conn)
      in conn1\<lparr>cn_rsp := (cn_rsp conn1)\<lparr>pd_data := hdr_bytes (pd_bhs (cn_req conn1))\<rparr>\<rparr>)"

abbreviation (input) "init_err \<equiv> login_err ISCSI_STATUS_CLS_INITIATOR_ERR ISCSI_LOGIN_STATUS_INIT_ERR"
abbreviation (input) "auth_err \<equiv> login_err ISCSI_STATUS_CLS_INITIATOR_ERR ISCSI_LOGIN_STATUS_AUTH_FAILED"

text \<open>
  The stage of the request: \<open>Inl\<close> where the code returns or jumps to an error label,
  \<open>Inr\<close> with the value of \<open>stay\<close> where it goes on.
\<close>

type_synonym login_step = "iscsi_world \<times> iscsi_connection + nat \<times> iscsi_world \<times> iscsi_connection"

definition security_scan :: "iscsi_world \<Rightarrow> iscsi_connection \<Rightarrow> login_step" where
  "security_scan w conn =
     (let conn1 = text_scan_security (iw_adm w) conn in
      if rsp_failed conn1 then Inl (w, conn1)
      else if cn_auth_method conn1 \<noteq> AUTH_NONE
      then Inr (0, w, conn1\<lparr>cn_state := STATE_SECURITY_AUTH, cn_auth_state := AUTH_STATE_START\<rparr>)
      else Inr (0, w, conn1))"

definition security_stage :: "os_env \<Rightarrow> iscsi_world \<Rightarrow> iscsi_connection \<Rightarrow> login_step option" where
  "security_stage env w conn0 =
     (let conn = upd_rsp (\<lambda>h. h\<lparr>h_flags := 0\<rparr>) conn0 in
      if cn_state conn = STATE_FREE then
        do { conn1 \<leftarrow> login_start env w (conn\<lparr>cn_state := STATE_SECURITY\<rparr>);
             Some (if rsp_failed conn1 then Inl (w, conn1) else security_scan w conn1) }
      else if cn_state conn = STATE_SECURITY then Some (security_scan w conn)
      else if cn_state conn = STATE_SECURITY_AUTH then
        do { (res, w1, conn1) \<leftarrow> cmnd_exec_auth env w conn;
             Some (case res of
                     None \<Rightarrow> Inr (0, w1, conn1)
                   | Some CHAP_AUTH_ERROR \<Rightarrow> Inl (w1, auth_err conn1)
                   | Some _ \<Rightarrow> Inl (w1, init_err conn1)) }
      else Some (Inl (w, init_err conn)))"

definition login_scan :: "os_env \<Rightarrow> iscsi_world \<Rightarrow> iscsi_connection \<Rightarrow> login_step" where
  "login_scan env w conn =
     (let conn1 = text_scan_login env conn in
      if rsp_failed conn1 then Inl (w, conn1)
      else let (stay, conn2) = text_check_param conn1 in Inr (stay, w, conn2))"

definition operational_stage :: "os_env \<Rightarrow> iscsi_world \<Rightarrow> iscsi_connection \<Rightarrow> login_step option" where
  "operational_stage env w conn0 =
     (let conn = upd_rsp (\<lambda>h. h\<lparr>h_flags := push_bit 2 ISCSI_OP_PARMS_NEGOTIATION_STAGE\<rparr>) conn0 in
      if cn_state conn = STATE_FREE then
        do { conn1 \<leftarrow> login_start env w (conn\<lparr>cn_state := STATE_LOGIN\<rparr>);
             Some (if account_available (cn_tid conn1) ACCOUNT_TYPE_INCOMING (iw_adm w) \<noteq> 0 then Inl (w, auth_err conn1)
                   else if rsp_failed conn1 then Inl (w, conn1)
                   else login_scan env w conn1) }
      else if cn_state conn = STATE_LOGIN then Some (login_scan env w conn)
      else Some (Inl (w, init_err conn)))"

text \<open>
  The transition to the stage the initiator asks for; \<open>Inl\<close> as above, \<open>Inr\<close> with the stage
  that is granted.
\<close>

definition finish_step ::
  "os_env \<Rightarrow> u8 \<Rightarrow> iscsi_world \<Rightarrow> iscsi_connection \<Rightarrow> (iscsi_world \<times> iscsi_connection + u8 \<times> iscsi_world \<times> iscsi_connection) option" where
  "finish_step env n w conn =
     do { (w1, conn1) \<leftarrow> login_finish env w conn;
          Some (if rsp_failed conn1 then Inl (w1, conn1) else Inr (n, w1, conn1)) }"

definition transit ::
  "perform \<Rightarrow> os_env \<Rightarrow> nat \<Rightarrow> iscsi_world \<Rightarrow> iscsi_connection \<Rightarrow> (iscsi_world \<times> iscsi_connection + u8 \<times> iscsi_world \<times> iscsi_connection) option" where
  "transit perf env stay w conn =
     (let n = nsg (pd_bhs (cn_req conn)); secure = (cn_state conn = STATE_SECURITY \<or> cn_state conn = STATE_SECURITY_DONE) in
      if n = ISCSI_OP_PARMS_NEGOTIATION_STAGE then
        (if secure then
           do { (w1, conn1) \<leftarrow> login_security_done perf w (conn\<lparr>cn_state := STATE_SECURITY_LOGIN\<rparr>); Some (Inr (n, w1, conn1)) }
         else Some (Inl (w, init_err conn)))
      else if n = ISCSI_FULL_FEATURE_PHASE then
        (if secure then
           (let (disagree, conn1) = text_check_param conn in
            if disagree \<noteq> 0 then Some (Inr (ISCSI_OP_PARMS_NEGOTIATION_STAGE, w, conn1\<lparr>cn_state := STATE_LOGIN\<rparr>))
            else do { (w1, conn2) \<leftarrow> login_security_done perf w (conn1\<lparr>cn_state := STATE_SECURITY_FULL\<rparr>);
                      finish_step env n w1 conn2 })
         else if cn_state conn = STATE_LOGIN then
           (if stay \<noteq> 0 then Some (Inr (ISCSI_OP_PARMS_NEGOTIATION_STAGE, w, conn))
            else finish_step env n w (conn\<lparr>cn_state := STATE_LOGIN_FULL\<rparr>))
         else Some (Inl (w, init_err conn)))
      else Some (Inl (w, init_err conn)))"

definition login_response :: "iscsi_connection \<Rightarrow> iscsi_connection" where
  "login_response conn = rsp_numbers (upd_rsp (set_login_isid (cn_isid conn) (cn_tsih conn)) conn)"

text \<open>The rest of a login request once its stage is done.\<close>

definition login_answer ::
  "perform \<Rightarrow> os_env \<Rightarrow> iscsi_hdr \<Rightarrow> login_step \<Rightarrow> (iscsi_world \<times> iscsi_connection) option" where
  "login_answer perf env req step =
     (case step of
        Inl r \<Rightarrow> Some r
      | Inr (stay, w, conn) \<Rightarrow>
          if rsp_failed conn then Some (w, conn)
          else if cn_state conn \<noteq> STATE_SECURITY_AUTH \<and> h_flags req AND ISCSI_FLAG_LOGIN_TRANSIT \<noteq> 0 then
            do { t \<leftarrow> transit perf env stay w conn;
                 Some (case t of
                         Inl r \<Rightarrow> r
                       | Inr (n, w1, conn1) \<Rightarrow>
                           (w1, login_response (upd_rsp (\<lambda>h. h\<lparr>h_flags := h_flags h OR n OR
                                  (if stay \<noteq> 0 then 0 else ISCSI_FLAG_LOGIN_TRANSIT)\<rparr>) conn1))) }
          else Some (w, login_response conn))"

definition cmnd_exec_login ::
  "perform \<Rightarrow> os_env \<Rightarrow> iscsi_world \<Rightarrow> iscsi_connection \<Rightarrow> (iscsi_world \<times> iscsi_connection) option" where
  "cmnd_exec_login perf env w conn =
     (let req = pd_bhs (cn_req conn) in
      if hdr_op req \<noteq> ISCSI_OP_LOGIN \<or> h_opcode req AND ISCSI_OP_IMMEDIATE = 0
      then Some (w, cmnd_reject ISCSI_REASON_PROTOCOL_ERROR (upd_rsp (\<lambda>_. zero_hdr) conn))
      else let conn1 = upd_rsp (\<lambda>_. zero_hdr\<lparr>h_opcode := ISCSI_OP_LOGIN_RSP, h_itt := h_itt req\<rparr>) conn in
      if byte_at (h_rsvd2 req) 1 > ISCSI_DRAFT20_VERSION
      then Some (w, login_fail ISCSI_STATUS_CLS_INITIATOR_ERR ISCSI_LOGIN_STATUS_NO_VERSION conn1)
      else do { step \<leftarrow>
             (if csg req = ISCSI_SECURITY_NEGOTIATION_STAGE then security_stage env w conn1
              else if csg req = ISCSI_OP_PARMS_NEGOTIATION_STAGE then operational_stage env w conn1
              else Some (Inl (w, init_err conn1)));
           login_answer perf env req step })"


text \<open>The address of the portal as \<open>text_scan_text\<close> prints it; a zone id is cut off.\<close>

definition portal_text :: "sockaddr \<Rightarrow> string \<Rightarrow> string" where
  "portal_text sa host =
     (let port = dec_str (unat (get_unaligned_be16 (sa_storage sa) 2)) in
      if sa_family sa = AF_INET6 then ''['' @ takeWhile (\<lambda>c. c \<noteq> CHR ''%'') host @ '']:'' @ port @ '',1''
      else host @ '':'' @ port @ '',1'')"

fun scan_text_loop :: "os_env \<Rightarrow> iscsi_world \<Rightarrow> (string \<times> string) list \<Rightarrow> iscsi_connection \<Rightarrow> iscsi_connection option" where
  "scan_text_loop env w [] conn = Some conn"
| "scan_text_loop env w ((key, value) # kvs) conn =
     (if key = ''SendTargets'' then
        (if value = [] then scan_text_loop env w kvs conn
         else case ep_getsockname env (cn_id conn) of
           None \<Rightarrow> scan_text_loop env w kvs conn
         | Some ss \<Rightarrow>
             (case os_getnameinfo env ss of
                None \<Rightarrow> scan_text_loop env w kvs conn
              | Some host \<Rightarrow>
                  do { conn1 \<leftarrow> target_list_build env w (portal_text ss host) (if value = ''All'' then None else Some value) conn;
                       scan_text_loop env w kvs conn1 }))
      else scan_text_loop env w kvs (text_key_add key ''NotUnderstood'' conn))"

definition text_scan_text :: "os_env \<Rightarrow> iscsi_world \<Rightarrow> iscsi_connection \<Rightarrow> iscsi_connection option" where
  "text_scan_text env w conn = scan_text_loop env w (req_keys conn) conn"

text \<open>The response to a text request, cut to the length the initiator takes; the rest waits for the next request.\<close>

definition cmd_sn_received :: "iscsi_connection \<Rightarrow> iscsi_connection" where
  "cmd_sn_received conn =
     (let req = pd_bhs (cn_req conn) in
      conn\<lparr>cn_exp_cmd_sn := (if h_opcode req AND ISCSI_OP_IMMEDIATE = 0 then h_statsn req + 1 else h_statsn req)\<rparr>)"

definition text_answer :: "iscsi_connection \<Rightarrow> iscsi_connection" where
  "text_answer conn =
     (let max_len = unat (p_val (cn_session_param conn ! ISCSI_PARAM_MAX_XMIT_DLENGTH));
          rest = cn_text_rsp conn;
          final = length rest \<le> max_len;
          ttt = (if final then ISCSI_RESERVED_TAG else cn_ttt conn);
          conn1 = conn\<lparr>cn_ttt := ttt, cn_text_rsp := drop max_len rest, cn_rsp := (cn_rsp conn)\<lparr>pd_data := take max_len rest\<rparr>\<rparr>
      in rsp_numbers (upd_rsp (\<lambda>h. h\<lparr>h_ttt := ttt, h_flags := (if final then ISCSI_FLAG_CMD_FINAL else h_flags h)\<rparr>) conn1))"

definition cmnd_exec_text :: "os_env \<Rightarrow> iscsi_world \<Rightarrow> iscsi_connection \<Rightarrow> iscsi_connection option" where
  "cmnd_exec_text env w conn =
     (let req = pd_bhs (cn_req conn);
          max_len = unat (p_val (cn_session_param conn ! ISCSI_PARAM_MAX_XMIT_DLENGTH));
          conn1 = cmd_sn_received (upd_rsp (\<lambda>_. zero_hdr\<lparr>h_opcode := ISCSI_OP_TEXT_RSP, h_itt := h_itt req\<rparr>) conn)
      in if h_ttt req = ISCSI_RESERVED_TAG then
           do { conn2 \<leftarrow> text_scan_text env w conn1;
                (let text = pd_data (cn_rsp conn2);
                     t1 = cn_ttt conn2 + 1;
                     ttt = (if length text > max_len then (if t1 = ISCSI_RESERVED_TAG then t1 + 1 else t1) else ISCSI_RESERVED_TAG)
                 in Some (text_answer (conn2\<lparr>cn_text_rsp := text, cn_ttt := ttt\<rparr>))) }
         else if cn_text_rsp conn1 = [] \<or> cn_ttt conn1 \<noteq> h_ttt req
         then Some (cmnd_reject ISCSI_REASON_INVALID_PDU_FIELD conn1)
         else Some (text_answer conn1))"

definition cmnd_exec_logout :: "iscsi_connection \<Rightarrow> iscsi_connection" where
  "cmnd_exec_logout conn =
     rsp_numbers (cmd_sn_received (upd_rsp (\<lambda>_. zero_hdr\<lparr>h_opcode := ISCSI_OP_LOGOUT_RSP, h_flags := ISCSI_FLAG_CMD_FINAL,
       h_itt := h_itt (pd_bhs (cn_req conn))\<rparr>) conn))"

definition rsp_lengths :: "iscsi_connection \<Rightarrow> iscsi_connection" where
  "rsp_lengths conn =
     upd_rsp (\<lambda>h. h\<lparr>h_hlength := of_nat (length (pd_ahs (cn_rsp conn)) div 4), h_dlength := hton24 (of_nat (rsp_datasize conn))\<rparr>) conn"

text \<open>The flag says that the request is not supported and the connection is to be closed.\<close>

definition cmnd_execute ::
  "perform \<Rightarrow> os_env \<Rightarrow> iscsi_world \<Rightarrow> iscsi_connection \<Rightarrow> (bool \<times> iscsi_world \<times> iscsi_connection) option" where
  "cmnd_execute perf env w conn =
     (let op = hdr_op (pd_bhs (cn_req conn)) in
      if op = ISCSI_OP_LOGIN then
        do { (w1, conn1) \<leftarrow> cmnd_exec_login perf env w conn; Some (False, w1, rsp_lengths conn1) }
      else if op = ISCSI_OP_TEXT then do { conn1 \<leftarrow> cmnd_exec_text env w conn; Some (False, w, rsp_lengths conn1) }
      else if op = ISCSI_OP_LOGOUT then Some (False, w, rsp_lengths (cmnd_exec_logout conn))
      else Some (True, w, cmnd_reject ISCSI_REASON_CMD_NOT_SUPPORTED conn))"

definition cmnd_finish :: "iscsi_connection \<Rightarrow> iscsi_connection" where
  "cmnd_finish conn =
     (let st = cn_state conn in
      if st = STATE_EXIT then conn\<lparr>cn_state := STATE_CLOSE\<rparr>
      else if st = STATE_SECURITY_LOGIN then conn\<lparr>cn_state := STATE_LOGIN\<rparr>
      else if st = STATE_SECURITY_FULL \<or> st = STATE_LOGIN_FULL then
        conn\<lparr>cn_state := (if cn_session_type conn = SESSION_NORMAL then STATE_KERNEL else STATE_FULL)\<rparr>
      else conn)"


end
