(* ===== verification/Iscsi_Login_Thms.thy ===== *)
theory Iscsi_Login_Thms
  imports Iscsi_Login
begin

text \<open>
  Safety of the login phase: a connection gets past the security stage only when no
  account guards the target or a CHAP response was accepted; what a text request reveals
  before a login; and the negotiation of text responses.
\<close>

unbundle bit_operations_syntax

section \<open>What the helpers leave alone\<close>

lemma text_key_add_frame [simp]:
  "cn_state (text_key_add k v c) = cn_state c" "cn_tid (text_key_add k v c) = cn_tid c"
  "cn_auth_method (text_key_add k v c) = cn_auth_method c" "cn_auth_state (text_key_add k v c) = cn_auth_state c"
  "cn_req (text_key_add k v c) = cn_req c" "pd_bhs (cn_rsp (text_key_add k v c)) = pd_bhs (cn_rsp c)"
  "cn_id (text_key_add k v c) = cn_id c" "cn_initiator (text_key_add k v c) = cn_initiator c"
  by (simp_all add: text_key_add_def Let_def)

lemma upd_rsp_frame [simp]:
  "cn_state (upd_rsp f c) = cn_state c" "cn_tid (upd_rsp f c) = cn_tid c" "cn_auth_method (upd_rsp f c) = cn_auth_method c"
  "cn_auth_state (upd_rsp f c) = cn_auth_state c" "cn_req (upd_rsp f c) = cn_req c" "pd_bhs (cn_rsp (upd_rsp f c)) = f (pd_bhs (cn_rsp c))"
  "cn_id (upd_rsp f c) = cn_id c" "cn_initiator (upd_rsp f c) = cn_initiator c"
  by (simp_all add: upd_rsp_def)

lemma reject_frame [simp]:
  "cn_state (text_key_add_reject k c) = cn_state c" "cn_tid (text_key_add_reject k c) = cn_tid c"
  "cn_auth_method (text_key_add_reject k c) = cn_auth_method c" "cn_auth_state (text_key_add_reject k c) = cn_auth_state c"
  "cn_req (text_key_add_reject k c) = cn_req c" "pd_bhs (cn_rsp (text_key_add_reject k c)) = pd_bhs (cn_rsp c)"
  by (simp_all add: text_key_add_reject_def)

lemma login_fail_frame [simp]:
  "cn_state (login_fail a b c) = STATE_EXIT" "cn_tid (login_fail a b c) = cn_tid c"
  "cn_auth_method (login_fail a b c) = cn_auth_method c" "cn_auth_state (login_fail a b c) = cn_auth_state c"
  "cn_req (login_fail a b c) = cn_req c" "rsp_failed (login_fail a b c) \<longleftrightarrow> a \<noteq> 0"
  by (simp_all add: login_fail_def rsp_failed_def set_login_status_def status_class_def put_bytes_def byte_at_def)

lemma login_err_frame [simp]:
  "cn_state (login_err a b c) = STATE_EXIT" "cn_tid (login_err a b c) = cn_tid c" "rsp_failed (login_err a b c) \<longleftrightarrow> a \<noteq> 0"
  by (simp_all add: login_err_def)

lemma rsp_numbers_frame [simp]:
  "cn_state (rsp_numbers c) = cn_state c" "cn_tid (rsp_numbers c) = cn_tid c" "cn_auth_state (rsp_numbers c) = cn_auth_state c"
  by (simp_all add: rsp_numbers_def)

lemma login_response_frame [simp]:
  "cn_state (login_response c) = cn_state c" "cn_tid (login_response c) = cn_tid c" "cn_auth_state (login_response c) = cn_auth_state c"
  by (simp_all add: login_response_def)

lemma rsp_lengths_frame [simp]:
  "cn_state (rsp_lengths c) = cn_state c" "cn_tid (rsp_lengths c) = cn_tid c" "cn_auth_state (rsp_lengths c) = cn_auth_state c"
  by (simp_all add: rsp_lengths_def)

lemma cmnd_reject_frame [simp]:
  "cn_state (cmnd_reject r c) = cn_state c" "cn_tid (cmnd_reject r c) = cn_tid c" "cn_auth_state (cmnd_reject r c) = cn_auth_state c"
  by (simp_all add: cmnd_reject_def Let_def)

lemma rsp_failed_updates [simp]:
  "rsp_failed (text_key_add k v c) = rsp_failed c" "rsp_failed (c\<lparr>cn_state := s\<rparr>) = rsp_failed c"
  "rsp_failed (c\<lparr>cn_auth_state := a\<rparr>) = rsp_failed c"
  by (simp_all add: rsp_failed_def)

lemma set_param_frame [simp]:
  "cn_state (set_param_state i st c) = cn_state c" "cn_tid (set_param_state i st c) = cn_tid c"
  "cn_state (set_param_value i v c) = cn_state c" "cn_tid (set_param_value i v c) = cn_tid c"
  by (simp_all add: set_param_state_def set_param_value_def)

lemma check_one_param_frame:
  "cn_state (snd (check_one_param i s)) = cn_state (snd s)" "cn_tid (snd (check_one_param i s)) = cn_tid (snd s)"
  by (auto simp: check_one_param_def Let_def split: prod.split)

lemma text_check_param_frame [simp]:
  "cn_state (snd (text_check_param c)) = cn_state c" "cn_tid (snd (text_check_param c)) = cn_tid c"
proof -
  have "cn_state (snd (fold check_one_param is s)) = cn_state (snd s) \<and> cn_tid (snd (fold check_one_param is s)) = cn_tid (snd s)" for "is" s
    by (induction "is" arbitrary: s) (simp_all add: check_one_param_frame)
  then show "cn_state (snd (text_check_param c)) = cn_state c" "cn_tid (snd (text_check_param c)) = cn_tid c"
    by (simp_all add: text_check_param_def)
qed

lemma assign_param_frame:
  "assign_param i v c = (c', v') \<Longrightarrow> cn_tid c' = cn_tid c \<and> cn_state c' = cn_state c"
  by (auto simp: assign_param_def Let_def split: if_splits prod.splits)

lemma scan_login_param_frame:
  "scan_login_param u k v i c = (out, c') \<Longrightarrow> cn_tid c' = cn_tid c \<and> cn_state c' \<in> {cn_state c, STATE_EXIT}"
  by (auto simp: scan_login_param_def Let_def dest!: assign_param_frame split: option.splits prod.splits if_splits key_state.splits)

lemma scan_login_loop_frame:
  "cn_tid (scan_login_loop u r kvs c) = cn_tid c \<and> cn_state (scan_login_loop u r kvs c) \<in> {cn_state c, STATE_EXIT}"
proof (induction u r kvs c rule: scan_login_loop.induct)
  case (2 u r k v kvs c)
  show ?case
  proof (cases "is_login_key k \<or> k = ''AuthMethod''")
    case True
    then show ?thesis
      using 2(1) by simp
  next
    case False
    show ?thesis
    proof (cases "param_index_by_name k session_keys")
      case None
      then show ?thesis
        using False 2(2) [OF False None] by simp
    next
      case (Some i)
      define idx where "idx = (if i = ISCSI_PARAM_MAX_RECV_DLENGTH then ISCSI_PARAM_MAX_XMIT_DLENGTH else i)"
      obtain out c1 where p: "scan_login_param u k v idx c = (out, c1)"
        by fastforce
      then have "\<not> out \<Longrightarrow> cn_tid (scan_login_loop u (r \<or> idx = ISCSI_PARAM_RDMA_EXTENSIONS) kvs c1) = cn_tid c1 \<and>
          cn_state (scan_login_loop u (r \<or> idx = ISCSI_PARAM_RDMA_EXTENSIONS) kvs c1) \<in> {cn_state c1, STATE_EXIT}"
        using 2(3) [OF False Some idx_def refl p [symmetric] refl] by simp
      then show ?thesis
        using False Some scan_login_param_frame [OF p] by (auto simp: Let_def p simp flip: idx_def)
    qed
  qed
qed simp

lemma text_scan_login_frame [simp]:
  "cn_tid (text_scan_login env c) = cn_tid c" "cn_state (text_scan_login env c) \<in> {cn_state c, STATE_EXIT}"
  using scan_login_loop_frame by (simp_all only: text_scan_login_def)

section \<open>The security stage\<close>

lemma auth_method_loop_frame [simp]:
  "cn_state (auth_method_loop a k vs c) = cn_state c" "cn_tid (auth_method_loop a k vs c) = cn_tid c"
  "cn_auth_state (auth_method_loop a k vs c) = cn_auth_state c" "cn_req (auth_method_loop a k vs c) = cn_req c"
  "pd_bhs (cn_rsp (auth_method_loop a k vs c)) = pd_bhs (cn_rsp c)"
  by (induction a k vs c rule: auth_method_loop.induct) simp_all

lemma auth_method_loop_none:
  "cn_auth_method (auth_method_loop a k vs c) = AUTH_NONE \<Longrightarrow> \<not> a \<or> cn_auth_method c = AUTH_NONE"
  by (induction a k vs c rule: auth_method_loop.induct) (auto split: if_splits)

lemma scan_security_frame:
  "cn_state (fold (scan_security_key a) kvs c) = cn_state c \<and> cn_tid (fold (scan_security_key a) kvs c) = cn_tid c \<and>
   cn_auth_state (fold (scan_security_key a) kvs c) = cn_auth_state c \<and>
   pd_bhs (cn_rsp (fold (scan_security_key a) kvs c)) = pd_bhs (cn_rsp c) \<and>
   (cn_auth_method (fold (scan_security_key a) kvs c) = AUTH_NONE \<longrightarrow> \<not> a \<or> cn_auth_method c = AUTH_NONE)"
proof (induction kvs arbitrary: c)
  case (Cons kv kvs)
  have step: "cn_state (scan_security_key a kv c) = cn_state c \<and> cn_tid (scan_security_key a kv c) = cn_tid c \<and>
      cn_auth_state (scan_security_key a kv c) = cn_auth_state c \<and> pd_bhs (cn_rsp (scan_security_key a kv c)) = pd_bhs (cn_rsp c) \<and>
      (cn_auth_method (scan_security_key a kv c) = AUTH_NONE \<longrightarrow> \<not> a \<or> cn_auth_method c = AUTH_NONE)"
    using auth_method_loop_none [of a _ _ c]
    by (cases kv) (auto simp: scan_security_key_def Let_def)
  show ?case
    using Cons [of "scan_security_key a kv c"] step by auto
qed simp

lemma text_scan_security_result:
  assumes "\<not> rsp_failed (text_scan_security st c)"
  shows "cn_state (text_scan_security st c) = cn_state c" "cn_tid (text_scan_security st c) = cn_tid c"
    "cn_auth_method (text_scan_security st c) = AUTH_NONE \<Longrightarrow>
       account_available (cn_tid c) ACCOUNT_TYPE_INCOMING st = 0 \<or> cn_auth_method c = AUTH_NONE"
  using assms scan_security_frame [of "account_available (cn_tid c) ACCOUNT_TYPE_INCOMING st \<noteq> 0" "req_keys c" c]
  by (auto simp: text_scan_security_def Let_def split: if_splits)

lemma text_scan_security_frame [simp]:
  "cn_tid (text_scan_security st c) = cn_tid c" "cn_state (text_scan_security st c) \<in> {cn_state c, STATE_EXIT}"
  "rsp_failed c \<or> cn_state (text_scan_security st c) = STATE_EXIT \<or> \<not> rsp_failed (text_scan_security st c)"
  using scan_security_frame [of "account_available (cn_tid c) ACCOUNT_TYPE_INCOMING st \<noteq> 0" "req_keys c" c]
  by (auto simp: text_scan_security_def Let_def rsp_failed_def)

lemma login_accept_frame [simp]:
  "cn_state (login_accept c) = cn_state c" "cn_tid (login_accept c) = cn_tid c" "cn_auth_method (login_accept c) = cn_auth_method c"
  "rsp_failed (login_accept c) = rsp_failed c"
  by (simp_all add: login_accept_def rsp_failed_def)

lemma login_target_frame:
  assumes "login_target env w name it c = Some c'" "\<not> rsp_failed c'"
  shows "cn_state c' = cn_state c \<and> cn_auth_method c' = cn_auth_method c"
  using assms by (auto simp: login_target_def Let_def split: if_splits redirection.splits option.splits bind_splits)

lemma login_normal_result:
  assumes "login_normal env w name c = Some c'" "\<not> rsp_failed c"
  shows "if rsp_failed c' then cn_state c' = STATE_EXIT else cn_state c' = cn_state c \<and> cn_auth_method c' = cn_auth_method c"
proof -
  have "rsp_failed c1 \<longrightarrow> cn_state c1 = STATE_EXIT" if "login_target env w name it c = Some c1" for it c1
    using that assms(2)
    by (auto simp: login_target_def Let_def rsp_failed_def split: if_splits redirection.splits option.splits bind_splits)
  then show ?thesis
    using assms login_target_frame [of env w name _ c]
    by (auto simp: login_normal_def split: option.splits if_splits bind_splits)
qed

lemma login_start_result:
  assumes "login_start env w c = Some c'" "\<not> rsp_failed c"
  shows "if rsp_failed c' then cn_state c' = STATE_EXIT else cn_state c' = cn_state c \<and> cn_auth_method c' = AUTH_UNKNOWN"
proof -
  consider (fail) d c1 where "c' = login_fail ISCSI_STATUS_CLS_INITIATOR_ERR d c1"
    | (discovery) c2 where "c' = login_accept c2" "rsp_failed c2 = rsp_failed c" "cn_state c2 = cn_state c" "cn_auth_method c2 = AUTH_UNKNOWN"
    | (normal) name c2 where "login_normal env w name c2 = Some c'" "rsp_failed c2 = rsp_failed c" "cn_state c2 = cn_state c"
        "cn_auth_method c2 = AUTH_UNKNOWN"
  proof -
    let ?thesis' = thesis
    show ?thesis'
    proof (cases "text_key_find c ''InitiatorName''")
      case None
      then have "\<exists>d c1. c' = login_fail ISCSI_STATUS_CLS_INITIATOR_ERR d c1"
        using assms(1) unfolding login_start_def Let_def by (simp split: if_splits) blast+
      then show ?thesis'
        using fail by blast
    next
      case (Some name)
      define c2 where "c2 = c\<lparr>cn_cid := login_cid (pd_bhs (cn_req c)), cn_isid := login_isid (pd_bhs (cn_req c)),
        cn_tsih := login_tsih (pd_bhs (cn_req c)), cn_initiator := Some name, cn_initiator_alias :=
          (case text_key_find c ''InitiatorAlias'' of None \<Rightarrow> cn_initiator_alias c | Some a \<Rightarrow> Some a),
        cn_auth_method := AUTH_UNKNOWN, cn_session_type := SESSION_NORMAL\<rparr>"
      have c2: "rsp_failed c2 = rsp_failed c" "cn_state c2 = cn_state c" "cn_auth_method c2 = AUTH_UNKNOWN"
        by (simp_all add: c2_def rsp_failed_def)
      have d: "rsp_failed (c2\<lparr>cn_session_type := a, cn_tid := b\<rparr>) = rsp_failed c2" for a b
        by (simp add: rsp_failed_def)
      have "(\<exists>d c1. c' = login_fail ISCSI_STATUS_CLS_INITIATOR_ERR d c1) \<or>
          c' = login_accept (c2\<lparr>cn_session_type := SESSION_DISCOVERY, cn_tid := GLOBAL_TID\<rparr>) \<or> login_normal env w name c2 = Some c'"
        using assms(1) Some unfolding login_start_def Let_def c2_def by (simp split: if_splits option.splits) blast+
      then show ?thesis'
        using fail discovery [of "c2\<lparr>cn_session_type := SESSION_DISCOVERY, cn_tid := GLOBAL_TID\<rparr>"] normal [of name c2] c2 d by auto
    qed
  qed
  then show ?thesis
    using assms(2) login_normal_result [of env w _ _ c'] by cases (auto split: if_splits)
qed

lemma check_response_frame:
  "chap_initiator_auth_check_response env st c = Some (res, c') \<Longrightarrow>
     cn_tid c' = cn_tid c \<and> (res \<noteq> None \<longrightarrow> c' = c)"
  by (auto simp: chap_initiator_auth_check_response_def Let_def split: if_splits option.splits sum.splits prod.splits)

lemma create_response_frame:
  "chap_target_auth_create_response env st c = Some (res, c') \<Longrightarrow>
     cn_tid c' = cn_tid c \<and> (res = None \<longrightarrow> cn_state c' = STATE_SECURITY_DONE)"
  by (auto simp: chap_target_auth_create_response_def Let_def split: if_splits option.splits sum.splits prod.splits)

lemma create_challenge_frame:
  "chap_initiator_auth_create_challenge env w c = (res, w', c') \<Longrightarrow>
     cn_tid c' = cn_tid c \<and> cn_state c' = cn_state c \<and> (res = None \<longrightarrow> cn_auth_state c' = CHAP_AUTH_STATE_CHALLENGE)"
  by (auto simp: chap_initiator_auth_create_challenge_def Let_def split: option.splits)

text \<open>The target accepts the response in the request of the connection.\<close>

definition chap_accepts :: "os_env \<Rightarrow> adm \<Rightarrow> iscsi_connection \<Rightarrow> bool" where
  "chap_accepts env st c \<longleftrightarrow> (\<exists>c'. chap_initiator_auth_check_response env st c = Some (None, c'))"

lemma chap_accepts_upd_rsp [simp]: "chap_accepts env st (upd_rsp f c) = chap_accepts env st c"
  by (simp add: chap_accepts_def chap_initiator_auth_check_response_def Let_def upd_rsp_def text_key_find_def
      split: option.split sum.split prod.split)

text \<open>
  What happened at a request that lets a connection to target \<open>t\<close> pass: the target has no
  account for incoming logins, or the response in the request was accepted.
\<close>

definition auth_event :: "int \<Rightarrow> os_env \<times> iscsi_world \<times> iscsi_connection \<Rightarrow> bool" where
  "auth_event t e \<longleftrightarrow> (case e of (env, w, c) \<Rightarrow> account_available t ACCOUNT_TYPE_INCOMING (iw_adm w) = 0 \<or>
     cn_tid c = t \<and> chap_accepts env (iw_adm w) c)"

lemma cmnd_exec_auth_result:
  assumes "cmnd_exec_auth env w c = Some (res, w', c')" "cn_auth_state c \<in> {0, 1}" "cn_state c = STATE_SECURITY_AUTH"
  shows "cn_tid c' = cn_tid c \<and> (res = None \<longrightarrow>
    chap_accepts env (iw_adm w) c \<or> cn_state c' = STATE_SECURITY_AUTH \<and> cn_auth_state c' \<in> {0, 1})"
proof (cases "cn_auth_method c = AUTH_CHAP")
  case True
  then consider (start) "chap_initiator_auth_create_challenge env w c = (res, w', c')"
    | (refused) "res \<noteq> None" "chap_initiator_auth_check_response env (iw_adm w) c = Some (res, c')"
    | (accepted) c1 where "chap_initiator_auth_check_response env (iw_adm w) c = Some (None, c1)"
        "chap_target_auth_create_response env (iw_adm w) c1 = Some (res, c')"
    using assms(1,2)
    by (auto simp: cmnd_exec_auth_def cmnd_exec_auth_chap_def split: if_splits bind_splits prod.splits)
  then show ?thesis
  proof cases
    case start
    then show ?thesis
      using create_challenge_frame [OF start] assms(3) by auto
  next
    case refused
    then show ?thesis
      using check_response_frame [OF refused(2)] by auto
  next
    case accepted
    then show ?thesis
      using check_response_frame [OF accepted(1)] create_response_frame [OF accepted(2)] by (auto simp: chap_accepts_def)
  qed
next
  case False
  then show ?thesis
    using assms by (auto simp: cmnd_exec_auth_def split: if_splits)
qed

section \<open>Transitions\<close>

lemma conn_add_to_session_frame: "conn_add_to_session s w c = Some (w', c') \<Longrightarrow> cn_tid c' = cn_tid c \<and> cn_state c' = cn_state c"
  by (auto simp: conn_add_to_session_def split: if_splits)

lemma login_security_done_frame: "login_security_done perf w c = Some (w', c') \<Longrightarrow> cn_tid c' = cn_tid c"
  by (auto simp: login_security_done_def Let_def dest: conn_add_to_session_frame split: if_splits option.splits bind_splits)

lemma session_create_frame: "session_create env w c = Some (err, w', c') \<Longrightarrow> cn_tid c' = cn_tid c"
  by (auto simp: session_create_def Let_def dest: conn_add_to_session_frame split: if_splits option.splits bind_splits)

lemma login_finish_frame: "login_finish env w c = Some (w', c') \<Longrightarrow> cn_tid c' = cn_tid c"
proof -
  have c: "cn_tid (iscsi_tcp_conn_login_complete w c) = cn_tid c"
    by (simp add: iscsi_tcp_conn_login_complete_def split: option.split)
  assume "login_finish env w c = Some (w', c')"
  then show ?thesis
    using c by (auto simp: login_finish_def Let_def dest!: session_create_frame split: if_splits option.splits bind_splits)
qed

definition step_conn :: "iscsi_world \<times> iscsi_connection + 'a \<times> iscsi_world \<times> iscsi_connection \<Rightarrow> iscsi_connection" where
  "step_conn s = (case s of Inl (w, c) \<Rightarrow> c | Inr (_, w, c) \<Rightarrow> c)"

lemma finish_step_frame: "finish_step env n w c = Some s \<Longrightarrow> cn_tid (step_conn s) = cn_tid c"
  by (auto simp: finish_step_def step_conn_def dest: login_finish_frame split: bind_splits if_splits)

lemma transit_result:
  assumes "transit perf env stay w c = Some s"
  shows "cn_tid (step_conn s) = cn_tid c \<and> (cn_state c \<notin> {STATE_SECURITY, STATE_SECURITY_DONE, STATE_LOGIN} \<longrightarrow> cn_state (step_conn s) = STATE_EXIT)"
proof -
  obtain d c1 where t: "text_check_param c = (d, c1)"
    by fastforce
  then have c1: "cn_tid c1 = cn_tid c"
    using text_check_param_frame(2) [of c] by simp
  show ?thesis
    using assms t c1
    by (auto simp: transit_def Let_def step_conn_def dest: login_security_done_frame finish_step_frame
        split: if_splits bind_splits prod.splits) (auto dest!: login_security_done_frame finish_step_frame simp: step_conn_def)
qed

section \<open>Runs of a login\<close>

definition auth_passed :: "(os_env \<times> iscsi_world \<times> iscsi_connection) list \<Rightarrow> int \<Rightarrow> bool" where
  "auth_passed tr t \<longleftrightarrow> list_ex (auth_event t) tr"

text \<open>A connection that is being authenticated, has given up, or has passed.\<close>

definition settled :: "(os_env \<times> iscsi_world \<times> iscsi_connection) list \<Rightarrow> iscsi_connection \<Rightarrow> bool" where
  "settled tr c \<longleftrightarrow> cn_state c = STATE_CLOSE \<or> cn_state c = STATE_EXIT \<or>
     cn_state c = STATE_SECURITY_AUTH \<and> cn_auth_state c \<in> {0, 1} \<or> auth_passed tr (cn_tid c)"

lemma auth_passed_snoc [simp]: "auth_passed (tr @ [e]) t \<longleftrightarrow> auth_passed tr t \<or> auth_event t e"
  by (simp add: auth_passed_def)

lemma security_scan_settled:
  assumes "\<not> rsp_failed c" "cn_auth_method c = AUTH_UNKNOWN \<or> auth_passed tr (cn_tid c)"
  shows "settled (tr @ [(env, w, c0)]) (step_conn (security_scan w c))"
proof (cases "rsp_failed (text_scan_security (iw_adm w) c)")
  case True
  then show ?thesis
    using assms(1) text_scan_security_frame(3) [of c "iw_adm w"] by (auto simp: security_scan_def Let_def step_conn_def settled_def)
next
  case False
  note r = text_scan_security_result [OF False]
  show ?thesis
    using False assms(2) r
    by (auto simp: security_scan_def Let_def step_conn_def settled_def auth_event_def)
qed

lemma security_stage_settled:
  assumes "security_stage env w c = Some s" "\<not> rsp_failed c" "cn_state c = STATE_FREE \<or> settled tr c"
    and "chap_accepts env (iw_adm w) c0 = chap_accepts env (iw_adm w) c" "cn_tid c0 = cn_tid c"
  shows "settled (tr @ [(env, w, c0)]) (step_conn s)"
proof -
  let ?c = "upd_rsp (\<lambda>h. h\<lparr>h_flags := 0\<rparr>) c"
  have nf: "\<not> rsp_failed ?c" "\<not> rsp_failed (?c\<lparr>cn_state := STATE_SECURITY\<rparr>)"
    using assms(2) by (simp_all add: rsp_failed_def status_class_def)
  consider (free) "cn_state c = STATE_FREE" | (security) "cn_state c = STATE_SECURITY" | (auth) "cn_state c = STATE_SECURITY_AUTH"
    | (other) "cn_state c \<notin> {STATE_FREE, STATE_SECURITY, STATE_SECURITY_AUTH}"
    by auto
  then show ?thesis
  proof cases
    case free
    then obtain c1 where c1: "login_start env w (?c\<lparr>cn_state := STATE_SECURITY\<rparr>) = Some c1"
        "s = (if rsp_failed c1 then Inl (w, c1) else security_scan w c1)"
      using assms(1) by (auto simp: security_stage_def Let_def split: bind_splits)
    then show ?thesis
      using login_start_result [OF c1(1) nf(2)] security_scan_settled [of c1 tr env w c0]
      by (auto simp: settled_def step_conn_def split: if_splits)
  next
    case security
    then have "auth_passed tr (cn_tid ?c)"
      using assms(3) by (simp add: settled_def)
    then show ?thesis
      using security assms(1) security_scan_settled [OF nf(1), of tr env w c0] by (simp add: security_stage_def Let_def)
  next
    case auth
    then obtain res w1 c1 where e: "cmnd_exec_auth env w ?c = Some (res, w1, c1)"
        "step_conn s = (case res of None \<Rightarrow> c1 | Some CHAP_AUTH_ERROR \<Rightarrow> auth_err c1 | Some _ \<Rightarrow> init_err c1)"
      using assms(1) by (auto simp: security_stage_def Let_def step_conn_def split: bind_splits option.splits chap_error.splits)
    have "cn_tid c1 = cn_tid c"
      using e(1) unfolding cmnd_exec_auth_def cmnd_exec_auth_chap_def
      by (auto dest: create_challenge_frame check_response_frame create_response_frame split: if_splits bind_splits)
        (metis check_response_frame create_response_frame create_challenge_frame upd_rsp_frame(2))+
    then show ?thesis
      using auth assms(3,4,5) e cmnd_exec_auth_result [OF e(1)]
      by (cases res) (auto simp: settled_def auth_event_def split: chap_error.splits)
  next
    case other
    then show ?thesis
      using assms(1) by (auto simp: security_stage_def Let_def step_conn_def settled_def)
  qed
qed

lemma login_scan_frame:
  "cn_tid (step_conn (login_scan env w c)) = cn_tid c"
  "cn_state (step_conn (login_scan env w c)) \<in> {cn_state c, STATE_EXIT}"
proof -
  obtain d c2 where t: "text_check_param (text_scan_login env c) = (d, c2)"
    by fastforce
  then have "cn_tid c2 = cn_tid c" "cn_state c2 \<in> {cn_state c, STATE_EXIT}"
    using text_check_param_frame [of "text_scan_login env c"] text_scan_login_frame [of env c] by simp_all
  then show "cn_tid (step_conn (login_scan env w c)) = cn_tid c" "cn_state (step_conn (login_scan env w c)) \<in> {cn_state c, STATE_EXIT}"
    using t text_scan_login_frame [of env c] by (simp_all add: login_scan_def Let_def step_conn_def)
qed

lemma operational_stage_settled:
  assumes "operational_stage env w c = Some s" "\<not> rsp_failed c" "cn_state c = STATE_FREE \<or> settled tr c"
  shows "settled (tr @ [(env, w, c0)]) (step_conn s)"
proof -
  let ?c = "upd_rsp (\<lambda>h. h\<lparr>h_flags := push_bit 2 ISCSI_OP_PARMS_NEGOTIATION_STAGE\<rparr>) c"
  have nf: "\<not> rsp_failed (?c\<lparr>cn_state := STATE_LOGIN\<rparr>)"
    using assms(2) by (simp add: rsp_failed_def status_class_def)
  consider (free) "cn_state c = STATE_FREE" | (login) "cn_state c = STATE_LOGIN" | (other) "cn_state c \<notin> {STATE_FREE, STATE_LOGIN}"
    by auto
  then show ?thesis
  proof cases
    case free
    then obtain c1 where c1: "login_start env w (?c\<lparr>cn_state := STATE_LOGIN\<rparr>) = Some c1"
        "s = (if account_available (cn_tid c1) ACCOUNT_TYPE_INCOMING (iw_adm w) \<noteq> 0 then Inl (w, auth_err c1)
              else if rsp_failed c1 then Inl (w, c1) else login_scan env w c1)"
      using assms(1) by (auto simp: operational_stage_def Let_def split: bind_splits)
    show ?thesis
    proof (cases "account_available (cn_tid c1) ACCOUNT_TYPE_INCOMING (iw_adm w) = 0")
      case True
      have "cn_tid (step_conn s) = cn_tid c1"
        using c1(2) True login_scan_frame(1) [of env w c1] by (auto simp: step_conn_def)
      then show ?thesis
        using True by (simp add: settled_def auth_event_def)
    next
      case False
      then show ?thesis
        using c1(2) by (simp add: step_conn_def settled_def)
    qed
  next
    case login
    then have "auth_passed tr (cn_tid c)" "s = login_scan env w ?c"
      using assms(1,3) by (auto simp: settled_def operational_stage_def Let_def)
    then show ?thesis
      using login_scan_frame(1) [of env w ?c] by (simp add: settled_def)
  next
    case other
    then show ?thesis
      using assms(1) by (auto simp: operational_stage_def Let_def step_conn_def settled_def)
  qed
qed

lemma login_answer_settled:
  assumes "settled tr (step_conn s)" "login_answer perf env req s = Some (w', c')"
  shows "settled tr c'"
proof (cases s)
  case (Inl r)
  then show ?thesis
    using assms by (cases r) (simp add: login_answer_def step_conn_def)
next
  case (Inr r)
  then obtain stay w c where s: "s = Inr (stay, w, c)"
    by (cases r) auto
  have c: "settled tr c"
    using assms(1) by (simp add: s step_conn_def)
  consider "c' = c" | "c' = login_response c"
    | t f where "transit perf env stay w c = Some t" "cn_state c \<noteq> STATE_SECURITY_AUTH"
        "c' = step_conn t \<or> c' = login_response (upd_rsp f (step_conn t))"
    using assms(2) unfolding s login_answer_def step_conn_def
    by (auto split: if_splits bind_splits sum.splits prod.splits) fastforce+
  then show ?thesis
  proof cases
    case 3
    then show ?thesis
      using c transit_result [OF 3(1)] by (auto simp: settled_def)
  qed (use c in \<open>simp_all add: settled_def\<close>)
qed

lemma cmnd_exec_login_settled:
  assumes "cmnd_exec_login perf env w c = Some (w', c')" "cn_state c = STATE_FREE \<or> settled tr c"
  shows "settled (tr @ [(env, w, c)]) c' \<or> cn_state c = STATE_FREE \<and> cn_state c' = STATE_FREE"
proof -
  let ?req = "pd_bhs (cn_req c)"
  define c1 where "c1 = upd_rsp (\<lambda>_. zero_hdr\<lparr>h_opcode := ISCSI_OP_LOGIN_RSP, h_itt := h_itt ?req\<rparr>) c"
  have nf: "\<not> rsp_failed c1"
    by (simp add: c1_def rsp_failed_def status_class_def zero_hdr_def byte_at_def)
  have c1: "cn_state c1 = STATE_FREE \<or> settled tr c1" "chap_accepts env (iw_adm w) c = chap_accepts env (iw_adm w) c1" "cn_tid c = cn_tid c1"
    using assms(2) by (simp_all add: c1_def settled_def)
  consider (reject) "c' = cmnd_reject ISCSI_REASON_PROTOCOL_ERROR (upd_rsp (\<lambda>_. zero_hdr) c)"
    | (version) d where "c' = login_fail ISCSI_STATUS_CLS_INITIATOR_ERR d c1"
    | (stage) "\<not> (hdr_op ?req \<noteq> ISCSI_OP_LOGIN \<or> h_opcode ?req AND ISCSI_OP_IMMEDIATE = 0)" "\<not> byte_at (h_rsvd2 ?req) 1 > ISCSI_DRAFT20_VERSION"
    using assms(1) unfolding cmnd_exec_login_def Let_def c1_def by (auto split: if_splits)
  then show ?thesis
  proof cases
    case reject
    then show ?thesis
      using assms(2) by (auto simp: settled_def)
  next
    case version
    then show ?thesis
      by (simp add: settled_def)
  next
    case stage
    obtain s where s: "(if csg ?req = ISCSI_SECURITY_NEGOTIATION_STAGE then security_stage env w c1
        else if csg ?req = ISCSI_OP_PARMS_NEGOTIATION_STAGE then operational_stage env w c1 else Some (Inl (w, init_err c1))) = Some s"
      using assms(1) stage unfolding cmnd_exec_login_def Let_def c1_def [symmetric] by (auto split: bind_splits)
    have st: "settled (tr @ [(env, w, c)]) (step_conn s)"
      using s security_stage_settled [OF _ nf c1(1) c1(2) c1(3)] operational_stage_settled [OF _ nf c1(1)]
      by (auto simp: settled_def step_conn_def split: if_splits)
    then show ?thesis
      using assms(1) stage s login_answer_settled [OF st]
      unfolding cmnd_exec_login_def Let_def c1_def [symmetric] by (auto split: bind_splits)
  qed
qed

lemma target_list_loop_frame:
  "target_list_loop env w addr name its c = Some c' \<Longrightarrow> cn_state c' = cn_state c \<and> cn_tid c' = cn_tid c \<and> cn_auth_state c' = cn_auth_state c"
  by (induction env w addr name its c rule: target_list_loop.induct) (auto split: bind_splits if_splits)

lemma scan_text_loop_frame:
  "scan_text_loop env w kvs c = Some c' \<Longrightarrow> cn_state c' = cn_state c \<and> cn_tid c' = cn_tid c \<and> cn_auth_state c' = cn_auth_state c"
  by (induction env w kvs c rule: scan_text_loop.induct)
     (auto simp: target_list_build_def dest!: target_list_loop_frame split: bind_splits if_splits option.splits)

lemma cmnd_exec_text_frame:
  "cmnd_exec_text env w c = Some c' \<Longrightarrow> cn_state c' = cn_state c \<and> cn_tid c' = cn_tid c \<and> cn_auth_state c' = cn_auth_state c"
  by (auto simp: cmnd_exec_text_def Let_def text_scan_text_def text_answer_def cmd_sn_received_def
      dest!: scan_text_loop_frame split: if_splits bind_splits)

text \<open>
  A request on a connection that is not in the full feature phase: it is executed, the
  response is sent and \<open>cmnd_finish\<close> runs; a request that is not supported closes the
  connection.
\<close>

definition zero_pdu :: iscsi_pdu where
  "zero_pdu = \<lparr>pd_bhs = zero_hdr, pd_ahs = [], pd_data = []\<rparr>"

definition login_pdu ::
  "perform \<Rightarrow> os_env \<Rightarrow> iscsi_world \<Rightarrow> iscsi_connection \<Rightarrow> (iscsi_world \<times> iscsi_connection) option" where
  "login_pdu perf env w conn =
     do { (bad, w', conn') \<leftarrow> cmnd_execute perf env w conn;
          Some (w', cmnd_finish (if bad then conn'\<lparr>cn_state := STATE_CLOSE\<rparr> else conn')) }"

text \<open>
  The life of a connection from its acceptance: each request comes with an environment and a
  state of the daemon of its own, since other connections and the administrator act in
  between. The trace holds these and the connection with the request it received.
\<close>

inductive login_run :: "perform \<Rightarrow> nat \<Rightarrow> (os_env \<times> iscsi_world \<times> iscsi_connection) list \<Rightarrow> iscsi_connection \<Rightarrow> bool" where
  start: "login_run perf c [] (conn_init c)"
| pdu: "login_run perf c tr conn \<Longrightarrow> cn_state conn \<notin> {STATE_CLOSE, STATE_EXIT, STATE_KERNEL, STATE_SCSI} \<Longrightarrow>
     req = conn\<lparr>cn_req := pdu, cn_rsp := zero_pdu\<rparr> \<Longrightarrow> login_pdu perf env w req = Some (w', conn') \<Longrightarrow>
     login_run perf c (tr @ [(env, w, req)]) conn'"

inductive_cases login_runE: "login_run perf c tr conn"

lemma cmnd_finish_settled: "settled tr c \<Longrightarrow> settled tr (cmnd_finish c)"
  by (auto simp: cmnd_finish_def settled_def Let_def)

lemma login_pdu_settled:
  assumes "login_pdu perf env w c = Some (w', c')" "cn_state c = STATE_FREE \<or> settled tr c"
  shows "cn_state c' = STATE_FREE \<or> settled (tr @ [(env, w, c)]) c'"
proof -
  obtain bad w1 c1 where e: "cmnd_execute perf env w c = Some (bad, w1, c1)" "c' = cmnd_finish (if bad then c1\<lparr>cn_state := STATE_CLOSE\<rparr> else c1)"
    using assms(1) by (auto simp: login_pdu_def split: bind_splits)
  have same: "settled (tr @ [x]) d" if "cn_state d = cn_state c" "cn_tid d = cn_tid c" "cn_auth_state d = cn_auth_state c" "settled tr c" for d x
    using that by (auto simp: settled_def)
  consider (login) c2 where "cmnd_exec_login perf env w c = Some (w1, c2)" "c1 = rsp_lengths c2"
    | (texts) c2 where "cmnd_exec_text env w c = Some c2" "c1 = rsp_lengths c2"
    | (logout) "c1 = rsp_lengths (cmnd_exec_logout c)"
    | (reject) "c1 = cmnd_reject ISCSI_REASON_CMD_NOT_SUPPORTED c"
    using e(1) by (auto simp: cmnd_execute_def Let_def split: if_splits bind_splits)
  then have c1: "cn_state c1 = STATE_FREE \<or> settled (tr @ [(env, w, c)]) c1"
  proof cases
    case login
    then show ?thesis
      using cmnd_exec_login_settled [OF login(1) assms(2)] by (auto simp: settled_def)
  next
    case texts
    then show ?thesis
      using assms(2) cmnd_exec_text_frame [OF texts(1)] same [of c1] by auto
  qed (use assms(2) same [of c1] in \<open>auto simp: cmnd_exec_logout_def cmd_sn_received_def Let_def\<close>)
  let ?d = "if bad then c1\<lparr>cn_state := STATE_CLOSE\<rparr> else c1"
  have "cn_state ?d = STATE_FREE \<or> settled (tr @ [(env, w, c)]) ?d"
    using c1 by (auto simp: settled_def)
  moreover have "cn_state ?d = STATE_FREE \<Longrightarrow> cn_state (cmnd_finish ?d) = STATE_FREE"
    by (simp add: cmnd_finish_def Let_def)
  ultimately show ?thesis
    unfolding e(2) using cmnd_finish_settled by blast
qed

lemma login_run_settled: "login_run perf c tr conn \<Longrightarrow> cn_state conn = STATE_FREE \<or> settled tr conn"
proof (induction rule: login_run.induct)
  case (start perf c)
  then show ?case
    by (simp add: conn_init_def)
next
  case (pdu perf c tr conn req pdu env w w' conn')
  then have "cn_state req = STATE_FREE \<or> settled tr req"
    by (simp add: settled_def)
  then show ?case
    using login_pdu_settled [OF pdu(4)] by simp
qed

text \<open>
  C18. No login without authentication. Whatever requests a connection sends, and whatever else
  happens in the daemon between them, it reaches the operational stage, the full feature phase
  or a discovery session only when one of its requests met a target without accounts for
  incoming logins, or carried a CHAP response that the target accepted for that target.
\<close>

theorem login_requires_auth:
  assumes "login_run perf c tr conn" "cn_state conn \<in> {STATE_SECURITY_DONE, STATE_LOGIN, STATE_FULL, STATE_KERNEL}"
  shows "\<exists>(env, w, req) \<in> set tr. account_available (cn_tid conn) ACCOUNT_TYPE_INCOMING (iw_adm w) = 0 \<or>
    cn_tid req = cn_tid conn \<and> (\<exists>c'. chap_initiator_auth_check_response env (iw_adm w) req = Some (None, c'))"
  using login_run_settled [OF assms(1)] assms(2)
  by (auto simp: settled_def auth_passed_def list_ex_iff auth_event_def chap_accepts_def split: prod.splits)

lemma text_check_param_default:
  assumes "\<forall>i < length session_keys. p_val (cn_session_param c ! i) = k_def (session_keys ! i)"
  shows "text_check_param c = (0, c)"
proof -
  have "fold check_one_param is (0, c) = (0, c)" if "set is \<subseteq> {..<length session_keys}" for "is"
    using that assms by (induction "is") (auto simp: check_one_param_def Let_def)
  moreover have "set [0..<length session_keys] \<subseteq> {..<length session_keys}"
    by auto
  ultimately show ?thesis
    unfolding text_check_param_def by blast
qed

definition ex_login_keys :: "(string \<times> string) list" where
  "ex_login_keys = [(''InitiatorName'', ''i''), (''SessionType'', ''Discovery'')]"

definition ex_login_req :: iscsi_connection where
  "ex_login_req = (conn_init 0)\<lparr>cn_req := \<lparr>pd_bhs = zero_hdr\<lparr>h_opcode := 0x43, h_flags := 0x04, h_lun := [1, 0, 0, 0, 0, 0, 0, 0]\<rparr>,
     pd_ahs = [], pd_data = str_bytes (pairs_text ex_login_keys)\<rparr>, cn_rsp := zero_pdu\<rparr>"

lemma ex_login_find: "cn_req c = cn_req ex_login_req \<Longrightarrow> text_key_find c k = map_of ex_login_keys k \<and> req_keys c = ex_login_keys"
proof -
  have "list_all good_pair ex_login_keys"
    by (simp add: ex_login_keys_def good_pair_def)
  then show "cn_req c = cn_req ex_login_req \<Longrightarrow> ?thesis"
    by (simp add: text_key_find_def req_keys_def ex_login_req_def text_find_pairs scan_keys_pairs)
qed

lemma ex_login_scan: "scan_login_loop u False ex_login_keys c = set_param_value ISCSI_PARAM_RDMA_EXTENSIONS 0 c"
  by (simp add: ex_login_keys_def is_login_key_def login_keys_def strcaseeq_def to_lower_def)

lemma ex_login_params: "cn_session_param (conn_init 0) = map (\<lambda>k. \<lparr>p_state = KEY_STATE_START, p_val = k_def k\<rparr>) session_keys"
proof -
  have "length session_keys = 24"
    by (simp add: session_keys_def)
  then show ?thesis
    by (intro nth_equalityI) (simp_all add: conn_init_def param_set_defaults_def ISCSI_PARAM_MAX_def)
qed

lemma ex_login_state:
  "\<exists>w' c'. login_pdu (\<lambda>_. None) ex_env ex_world ex_login_req = Some (w', c') \<and> cn_state c' = STATE_LOGIN"
proof -
  let ?r = ex_login_req
  define c1 where "c1 = upd_rsp (\<lambda>h. h\<lparr>h_flags := push_bit 2 1\<rparr>) (upd_rsp (\<lambda>_. zero_hdr\<lparr>h_opcode := ISCSI_OP_LOGIN_RSP, h_itt := h_itt (pd_bhs (cn_req ?r))\<rparr>) ?r)"
  have c1: "cn_req c1 = cn_req ?r" "cn_state c1 = STATE_FREE" "cn_session_param c1 = cn_session_param (conn_init 0)" "\<not> rsp_failed c1"
    by (simp_all add: c1_def ex_login_req_def upd_rsp_def conn_init_def rsp_failed_def status_class_def zero_hdr_def byte_at_def)
  have hdr: "pd_bhs (cn_req ?r) = zero_hdr\<lparr>h_opcode := 0x43, h_flags := 0x04, h_lun := [1, 0, 0, 0, 0, 0, 0, 0]\<rparr>"
    by (simp add: ex_login_req_def)
  have isid: "\<not> (list_all (\<lambda>b. b = 0) (login_isid (pd_bhs (cn_req ?r))) \<and> login_tsih (pd_bhs (cn_req ?r)) = 0)"
    by (simp add: hdr login_isid_def)
  obtain c2 where c2: "login_start ex_env ex_world (c1\<lparr>cn_state := STATE_LOGIN\<rparr>) = Some c2" "cn_tid c2 = GLOBAL_TID" "cn_state c2 = STATE_LOGIN"
      "cn_session_param c2 = cn_session_param (conn_init 0)" "cn_req c2 = cn_req ?r" "\<not> rsp_failed c2"
    using ex_login_find [of "c1\<lparr>cn_state := STATE_LOGIN\<rparr>"] c1 isid
    by (auto simp: login_start_def Let_def ex_login_keys_def login_accept_def text_key_add_def rsp_failed_def)
  have "account_available GLOBAL_TID ACCOUNT_TYPE_INCOMING (iw_adm ex_world) = 0"
    by (simp add: account_available_def get_account_def ex_world_def iscsi_target_create_def ex_adm_def)
  moreover have "text_check_param (text_scan_login ex_env c2) = (0, text_scan_login ex_env c2)"
  proof (rule text_check_param_default)
    show "\<forall>i<length session_keys. p_val (cn_session_param (text_scan_login ex_env c2) ! i) = k_def (session_keys ! i)"
    proof (intro allI impI)
      fix i assume "i < length session_keys"
      moreover have "k_def (session_keys ! 18) = 0" "length session_keys = 24"
        by (simp_all add: session_keys_def)
      ultimately show "p_val (cn_session_param (text_scan_login ex_env c2) ! i) = k_def (session_keys ! i)"
        using ex_login_find [OF c2(5)] c2(4)
        by (cases "i = 18") (simp_all add: text_scan_login_def ex_login_scan set_param_value_def set_p_val_def ex_login_params
            ISCSI_PARAM_RDMA_EXTENSIONS_def)
    qed
  qed
  moreover have "\<not> rsp_failed (text_scan_login ex_env c2)" "cn_state (text_scan_login ex_env c2) = STATE_LOGIN"
    using ex_login_find [OF c2(5)] c2(3,6) by (simp_all add: text_scan_login_def ex_login_scan set_param_value_def rsp_failed_def)
  ultimately have st: "operational_stage ex_env ex_world (upd_rsp (\<lambda>_. zero_hdr\<lparr>h_opcode := ISCSI_OP_LOGIN_RSP, h_itt := h_itt (pd_bhs (cn_req ?r))\<rparr>) ?r) =
      Some (Inr (0, ex_world, text_scan_login ex_env c2))"
    using c1(2) c2(1,2,6) unfolding operational_stage_def Let_def c1_def [symmetric] by (simp add: login_scan_def Let_def)
  then have "cmnd_exec_login (\<lambda>_. None) ex_env ex_world ?r = Some (ex_world, login_response (text_scan_login ex_env c2))"
    using \<open>\<not> rsp_failed (text_scan_login ex_env c2)\<close>
    by (simp add: cmnd_exec_login_def Let_def hdr hdr_op_def csg_def zero_hdr_def byte_at_def login_answer_def)
  then show ?thesis
    using \<open>cn_state (text_scan_login ex_env c2) = STATE_LOGIN\<close>
    by (simp add: login_pdu_def cmnd_execute_def hdr hdr_op_def cmnd_finish_def Let_def)
qed

theorem login_requires_auth_witness:
  "\<exists>conn :: iscsi_connection. cn_state conn = STATE_LOGIN \<and>
     (\<exists>(env, w, req) \<in> set [(ex_env, ex_world, ex_login_req)]. account_available (cn_tid conn) ACCOUNT_TYPE_INCOMING (iw_adm w) = 0 \<or>
      cn_tid req = cn_tid conn \<and> (\<exists>c'. chap_initiator_auth_check_response env (iw_adm w) req = Some (None, c')))"
proof -
  obtain w' c' where c': "login_pdu (\<lambda>_. None) ex_env ex_world ex_login_req = Some (w', c')" "cn_state c' = STATE_LOGIN"
    using ex_login_state by blast
  have "login_run (\<lambda>_. None) 0 ([] @ [(ex_env, ex_world, ex_login_req)]) c'"
    by (rule login_run.pdu [OF login_run.start _ _ c'(1)]) (simp_all add: conn_init_def ex_login_req_def)
  then have run: "login_run (\<lambda>_. None) 0 [(ex_env, ex_world, ex_login_req)] c'"
    by simp
  have st: "cn_state c' \<in> {STATE_SECURITY_DONE, STATE_LOGIN, STATE_FULL, STATE_KERNEL}"
    using c'(2) by simp
  show ?thesis
    by (rule exI [where x = c'], rule conjI, rule c'(2), rule login_requires_auth [OF run st])
qed

section \<open>Discovery before login\<close>

lemma text_key_add_text_op:
  assumes "hdr_op (pd_bhs (cn_req c)) = ISCSI_OP_TEXT"
  shows "pd_data (cn_rsp (text_key_add k v c)) = pd_data (cn_rsp c) @ str_bytes (pair_text k v)"
    "cn_session_param (text_key_add k v c) = cn_session_param c"
  using assms by (simp_all add: text_key_add_def Let_def)

definition target_pairs :: "iscsi_world \<Rightarrow> string \<Rightarrow> iscsi_target list \<Rightarrow> (string \<times> string) list" where
  "target_pairs w addr its =
     concat (map (\<lambda>it. [(''TargetName'', the (tgt_targetname (it_tid it) (adm_targets (iw_adm w)))), (''TargetAddress'', addr)]) its)"

text \<open>A target that the address list opens to the peer and that has no name list.\<close>

definition open_target :: "os_env \<Rightarrow> iscsi_world \<Rightarrow> iscsi_connection \<Rightarrow> iscsi_target \<Rightarrow> bool" where
  "open_target env w c it \<longleftrightarrow> tgt_targetname (it_tid it) (adm_targets (iw_adm w)) \<noteq> None \<and>
     ip_acl env (adm_targets (iw_adm w)) (it_tid it) c = Some True \<and> acl_entries iqn_acl_list (it_tid it) (adm_targets (iw_adm w)) = [] \<and>
     isns_scn_access (it_tid it) None w = Some True"

lemma ip_acl_cn_id: "cn_id c = cn_id d \<Longrightarrow> ip_acl env ts t c = ip_acl env ts t d"
  by (simp add: ip_acl_def ip_match_def fun_eq_iff cong: option.case_cong) (simp add: ip_match_def [abs_def])

lemma target_list_loop_open:
  assumes "hdr_op (pd_bhs (cn_req c)) = ISCSI_OP_TEXT" "\<forall>it\<in>set its. open_target env w c it" "cn_initiator c = None"
  shows "\<exists>c'. target_list_loop env w addr None its c = Some c' \<and> cn_state c' = cn_state c \<and> cn_session_param c' = cn_session_param c \<and>
    cn_ttt c' = cn_ttt c \<and> pd_data (cn_rsp c') = pd_data (cn_rsp c) @ str_bytes (pairs_text (target_pairs w addr its))"
  using assms
proof (induction its arbitrary: c)
  case Nil
  then show ?case
    by (simp add: target_pairs_def pairs_text_def str_bytes_def)
next
  case (Cons it its)
  obtain name where name: "tgt_targetname (it_tid it) (adm_targets (iw_adm w)) = Some name"
    using Cons.prems(2) by (auto simp: open_target_def)
  let ?c = "text_key_add ''TargetAddress'' addr (text_key_add ''TargetName'' name c)"
  have vis: "target_visible env w c None it = Some True"
    using Cons.prems name by (simp add: target_visible_def open_target_def iqn_acl_def)
  have "\<forall>it\<in>set its. open_target env w ?c it"
    using Cons.prems(2) ip_acl_cn_id [of ?c c] by (simp add: open_target_def)
  then obtain c' where c': "target_list_loop env w addr None its ?c = Some c'" "cn_state c' = cn_state c" "cn_session_param c' = cn_session_param ?c"
      "cn_ttt c' = cn_ttt ?c" "pd_data (cn_rsp c') = pd_data (cn_rsp ?c) @ str_bytes (pairs_text (target_pairs w addr its))"
    using Cons.IH [of ?c] Cons.prems(1,3) by auto
  moreover have "pd_data (cn_rsp ?c) = pd_data (cn_rsp c) @ str_bytes (pairs_text [(''TargetName'', name), (''TargetAddress'', addr)])"
    using Cons.prems(1) by (simp add: text_key_add_text_op pairs_text_def str_bytes_def)
  moreover have "cn_session_param ?c = cn_session_param c" "cn_ttt ?c = cn_ttt c"
    using Cons.prems(1) by (simp_all add: text_key_add_text_op) (simp add: text_key_add_def Let_def)
  ultimately show ?case
    using vis name by (auto simp: target_pairs_def pairs_text_def str_bytes_def)
qed

text \<open>The text request SendTargets=All on a connection that has just been accepted.\<close>

definition send_targets_req :: "nat \<Rightarrow> iscsi_hdr \<Rightarrow> iscsi_connection" where
  "send_targets_req c bhs = (conn_init c)\<lparr>cn_req := \<lparr>pd_bhs = bhs, pd_ahs = [],
     pd_data = str_bytes (pairs_text [(''SendTargets'', ''All'')])\<rparr>, cn_rsp := zero_pdu\<rparr>"

lemma send_targets_keys: "cn_req c = cn_req (send_targets_req i bhs) \<Longrightarrow> req_keys c = [(''SendTargets'', ''All'')]"
  by (simp add: req_keys_def send_targets_req_def scan_keys_pairs good_pair_def)

text \<open>
  C40. Text requests are answered before any login. A connection that has sent nothing but a
  text request SendTargets=All gets the names and the address of all targets that its address
  list opens, and stays in the state of a new connection: the accounts that guard discovery
  sessions are never looked at.
\<close>

theorem discovery_without_login:
  assumes "hdr_op bhs = ISCSI_OP_TEXT" "h_ttt bhs = ISCSI_RESERVED_TAG"
    and "ep_getsockname env c = Some ss" "os_getnameinfo env ss = Some host"
    and "\<forall>it\<in>set (iw_targets w). open_target env w (send_targets_req c bhs) it"
    and "length (pairs_text (target_pairs w (portal_text ss host) (iw_targets w))) \<le> 8192"
  shows "\<exists>conn. login_pdu perf env w (send_targets_req c bhs) = Some (w, conn) \<and> cn_state conn = STATE_FREE \<and>
    pd_data (cn_rsp conn) = str_bytes (pairs_text (target_pairs w (portal_text ss host) (iw_targets w)))"
proof -
  let ?r = "send_targets_req c bhs" and ?text = "str_bytes (pairs_text (target_pairs w (portal_text ss host) (iw_targets w)))"
  have param: "unat (p_val (cn_session_param ?r ! ISCSI_PARAM_MAX_XMIT_DLENGTH)) = 8192"
    by (simp add: send_targets_req_def conn_init_def ISCSI_PARAM_MAX_XMIT_DLENGTH_def param_set_defaults_def ISCSI_PARAM_MAX_def session_keys_def)
  define c1 where "c1 = cmd_sn_received (upd_rsp (\<lambda>_. zero_hdr\<lparr>h_opcode := ISCSI_OP_TEXT_RSP, h_itt := h_itt bhs\<rparr>) ?r)"
  have c1: "cn_req c1 = cn_req ?r" "cn_id c1 = c" "cn_state c1 = STATE_FREE" "cn_initiator c1 = None"
      "cn_session_param c1 = cn_session_param ?r" "pd_data (cn_rsp c1) = []" "cn_id c1 = cn_id ?r"
    by (simp_all add: c1_def cmd_sn_received_def Let_def send_targets_req_def conn_init_def upd_rsp_def zero_pdu_def)
  have op: "hdr_op (pd_bhs (cn_req ?r)) = ISCSI_OP_TEXT" "pd_bhs (cn_req ?r) = bhs"
    using assms(1) by (simp_all add: send_targets_req_def)
  have "\<forall>it\<in>set (iw_targets w). open_target env w c1 it"
    using assms(5) ip_acl_cn_id [OF c1(7)] by (simp add: open_target_def)
  then obtain c2 where "target_list_loop env w (portal_text ss host) None (iw_targets w) c1 = Some c2"
      and c2: "cn_state c2 = STATE_FREE" "cn_session_param c2 = cn_session_param ?r" "pd_data (cn_rsp c2) = ?text"
    using target_list_loop_open [of c1 "iw_targets w" env w "portal_text ss host"] c1 op by auto
  then have scan: "text_scan_text env w c1 = Some c2"
    using assms(3,4) c1(2) send_targets_keys [OF c1(1)]
    by (simp add: text_scan_text_def target_list_build_def)
  have len: "length ?text \<le> 8192"
    using assms(6) by (simp add: str_bytes_def)
  define c3 where "c3 = text_answer (c2\<lparr>cn_text_rsp := ?text, cn_ttt := ISCSI_RESERVED_TAG\<rparr>)"
  have exec: "cmnd_exec_text env w ?r = Some c3"
    using scan assms(2) c2(3) len param op(2) unfolding cmnd_exec_text_def Let_def c1_def c3_def
    by (simp del: unsigned_of_nat)
  have c3: "cn_state c3 = STATE_FREE" "pd_data (cn_rsp c3) = ?text"
    using c2 param len by (simp_all add: c3_def text_answer_def Let_def rsp_numbers_def upd_rsp_def)
  have "login_pdu perf env w ?r = Some (w, cmnd_finish (rsp_lengths c3))"
    using exec op(1) by (simp add: login_pdu_def cmnd_execute_def Let_def)
  moreover have "cmnd_finish (rsp_lengths c3) = rsp_lengths c3"
    using c3(1) by (simp add: cmnd_finish_def Let_def)
  ultimately show ?thesis
    using c3 by (auto simp: rsp_lengths_def upd_rsp_def)
qed

definition ex_discovery_env :: os_env where
  "ex_discovery_env = ex_env\<lparr>os_getnameinfo := \<lambda>_. Some ''10.0.0.1''\<rparr>"

definition ex_discovery_world :: iscsi_world where
  "ex_discovery_world = ex_world\<lparr>iw_adm := (iw_adm ex_world)\<lparr>adm_global := adm_global ex_chap_adm\<rparr>\<rparr>"

theorem discovery_without_login_witness:
  "account_available GLOBAL_TID ACCOUNT_TYPE_INCOMING (iw_adm ex_discovery_world) \<noteq> 0 \<and>
   (\<exists>conn. login_pdu (\<lambda>_. None) ex_discovery_env ex_discovery_world (send_targets_req 0 (zero_hdr\<lparr>h_opcode := 0x44, h_ttt := ISCSI_RESERVED_TAG\<rparr>)) =
      Some (ex_discovery_world, conn) \<and> cn_state conn = STATE_FREE \<and>
      pd_data (cn_rsp conn) = str_bytes (pairs_text [(''TargetName'', ''iqn.t''), (''TargetAddress'', ''10.0.0.1:0,1'')]))"
proof -
  let ?env = ex_discovery_env and ?w = ex_discovery_world and ?h = "zero_hdr\<lparr>h_opcode := 0x44, h_ttt := ISCSI_RESERVED_TAG\<rparr>"
  have acc: "account_available GLOBAL_TID ACCOUNT_TYPE_INCOMING (iw_adm ?w) \<noteq> 0"
    by (simp add: account_available_def get_account_def ex_discovery_world_def ex_chap_adm_def)
  have "dec_str 0 = ''0''"
    using char_of_char [where 'a = nat, of "CHR ''0''"] by (simp add: dec_str.simps)
  then have portal: "portal_text (ex_sockaddr 1) ''10.0.0.1'' = ''10.0.0.1:0,1''"
    by (simp add: portal_text_def ex_sockaddr_def get_unaligned_be16_def byte_at_def)
  have its: "iw_targets ?w = [hd (iw_targets ex_world)]" "it_tid (hd (iw_targets ex_world)) = 1"
      "target_lookup 1 (adm_targets (iw_adm ?w)) = Some ((new_target 0 1 ''iqn.t'' ex_bst)\<lparr>acl_list := [''ALL''], target_state := SCSI_TARGET_READY\<rparr>)"
      "\<not> iw_use_isns ?w"
    by (simp_all add: ex_discovery_world_def ex_world_def iscsi_target_create_def target_lookup_def new_target_def)
  then have pairs: "target_pairs ?w (portal_text (ex_sockaddr 1) ''10.0.0.1'') (iw_targets ?w) =
      [(''TargetName'', ''iqn.t''), (''TargetAddress'', ''10.0.0.1:0,1'')]"
    by (simp add: target_pairs_def tgt_targetname_def portal new_target_def)
  have "\<exists>conn. login_pdu (\<lambda>_. None) ?env ?w (send_targets_req 0 ?h) = Some (?w, conn) \<and> cn_state conn = STATE_FREE \<and>
      pd_data (cn_rsp conn) = str_bytes (pairs_text (target_pairs ?w (portal_text (ex_sockaddr 1) ''10.0.0.1'') (iw_targets ?w)))"
  proof (rule discovery_without_login)
    show "\<forall>it\<in>set (iw_targets ?w). open_target ?env ?w (send_targets_req 0 ?h) it"
      using its by (simp add: open_target_def tgt_targetname_def ip_acl_def acl_entries_def ip_match_def ex_discovery_env_def ex_env_def
          isns_scn_access_def new_target_def)
    show "length (pairs_text (target_pairs ?w (portal_text (ex_sockaddr 1) ''10.0.0.1'') (iw_targets ?w))) \<le> 8192"
      unfolding pairs by (simp add: pairs_text_def pair_text_def)
  qed (simp_all add: hdr_op_def ex_discovery_env_def ex_env_def)
  then show ?thesis
    using acc unfolding pairs by simp
qed

end
