(* ===== verification/Iscsi_Task.thy ===== *)
theory Iscsi_Task
  imports Iscsi_Login Crc32c
begin

text \<open>
  The tasks of the full feature phase (\<open>usr/iscsi/iscsid.c\<close>, from the residual counts to the
  transmission of a response): building responses, passing commands and task management
  requests to the core, its notifications, the order of command numbers, and the start and
  end of receiving and sending a PDU. The transport is TCP: \<open>rdma\<close> is 0 and \<open>data_padding\<close>
  is 4. \<open>None\<close> is a bad memory access, a reference to an object that does not exist, or a
  loop that does not end.
\<close>

unbundle bit_operations_syntax

section \<open>Fields of the headers\<close>

text \<open>
  The words of the last twelve bytes: \<open>exp_datasn\<close>, \<open>bi_residual_count\<close>, \<open>residual_count\<close> of a
  command response; \<open>datasn\<close>, \<open>offset\<close>, \<open>residual_count\<close> of data; \<open>r2tsn\<close>, \<open>data_offset\<close>,
  \<open>data_length\<close> of a ready-to-transfer.
\<close>

definition other_word :: "nat \<Rightarrow> iscsi_hdr \<Rightarrow> u32" where
  "other_word i h = get_unaligned_be32 (h_other h) (4 * i)"

definition set_other :: "nat \<Rightarrow> u32 \<Rightarrow> iscsi_hdr \<Rightarrow> iscsi_hdr" where
  "set_other i v h = h\<lparr>h_other := put_bytes (h_other h) (4 * i) (be32_bytes v)\<rparr>"

definition add_flags :: "u8 \<Rightarrow> iscsi_hdr \<Rightarrow> iscsi_hdr" where
  "add_flags f h = h\<lparr>h_flags := h_flags h OR f\<rparr>"

text \<open>\<open>data_length\<close> and \<open>cdb\<close> of a command, \<open>rtt\<close> of a task management request.\<close>

definition cmd_data_length :: "iscsi_hdr \<Rightarrow> u32" where
  "cmd_data_length h = h_ttt h"

definition cmd_cdb :: "iscsi_hdr \<Rightarrow> bytes" where
  "cmd_cdb h = be32_bytes (h_max_statsn h) @ h_other h"

definition tm_rtt :: "iscsi_hdr \<Rightarrow> u32" where
  "tm_rtt h = h_ttt h"

abbreviation (input) "ISCSI_FLAG_CMD_BIDI_OVERFLOW \<equiv> 0x10 :: u8"
abbreviation (input) "ISCSI_FLAG_CMD_BIDI_UNDERFLOW \<equiv> 0x08 :: u8"
abbreviation (input) "ISCSI_FLAG_CMD_OVERFLOW \<equiv> 0x04 :: u8"
abbreviation (input) "ISCSI_FLAG_CMD_UNDERFLOW \<equiv> 0x02 :: u8"
abbreviation (input) "ISCSI_FLAG_DATA_STATUS \<equiv> 0x01 :: u8"
abbreviation (input) "EPOLLIN \<equiv> 1 :: u32"
abbreviation (input) "EPOLLOUT \<equiv> 4 :: u32"
abbreviation (input) "EPOLLIN_OUT \<equiv> 5 :: u32"

definition roundup4 :: "u32 \<Rightarrow> u32" where
  "roundup4 x = (x + 3) div 4 * 4"

section \<open>Residual counts\<close>

definition iscsi_set_data_rsp_residual :: "scsi_cmd \<Rightarrow> iscsi_hdr \<Rightarrow> iscsi_hdr" where
  "iscsi_set_data_rsp_residual scmd h =
     (let resid = sdb_resid (in_sdb scmd) in
      if resid = 0 then set_other 2 0 h
      else if 0 < sint resid then set_other 2 resid (add_flags ISCSI_FLAG_CMD_UNDERFLOW h)
      else set_other 2 (- resid) (add_flags ISCSI_FLAG_CMD_OVERFLOW h))"

definition iscsi_rsp_set_resid :: "u32 \<Rightarrow> iscsi_hdr \<Rightarrow> iscsi_hdr" where
  "iscsi_rsp_set_resid resid h =
     (if resid = 0 then set_other 2 0 h
      else if 0 < sint resid then set_other 2 resid (add_flags ISCSI_FLAG_CMD_UNDERFLOW h)
      else set_other 2 (- resid) (add_flags ISCSI_FLAG_CMD_OVERFLOW h))"

definition iscsi_rsp_set_bidir_resid :: "u32 \<Rightarrow> iscsi_hdr \<Rightarrow> iscsi_hdr" where
  "iscsi_rsp_set_bidir_resid resid h =
     (if resid = 0 then set_other 1 0 h
      else if 0 < sint resid then set_other 1 resid (add_flags ISCSI_FLAG_CMD_BIDI_UNDERFLOW h)
      else set_other 1 (- resid) (add_flags ISCSI_FLAG_CMD_BIDI_OVERFLOW h))"

definition iscsi_rsp_set_residual :: "scsi_cmd \<Rightarrow> iscsi_hdr \<Rightarrow> iscsi_hdr" where
  "iscsi_rsp_set_residual scmd h =
     (let h1 = set_other 1 0 h in
      case data_dir scmd of
        DATA_READ \<Rightarrow> iscsi_rsp_set_resid (sdb_resid (in_sdb scmd)) h1
      | DATA_WRITE \<Rightarrow> iscsi_rsp_set_resid (sdb_resid (out_sdb scmd)) h1
      | DATA_BIDIRECTIONAL \<Rightarrow>
          iscsi_rsp_set_resid (sdb_resid (out_sdb scmd)) (iscsi_rsp_set_bidir_resid (sdb_resid (in_sdb scmd)) h1)
      | DATA_NONE \<Rightarrow> set_other 2 0 h1)"

section \<open>Responses\<close>

definition conn_session :: "iscsi_connection \<Rightarrow> iscsi_world \<Rightarrow> iscsi_session option" where
  "conn_session conn w = Option.bind (cn_session conn) (\<lambda>s. get_session s w)"

text \<open>\<open>exp_cmdsn\<close> and \<open>max_cmdsn\<close> of a response.\<close>

definition rsp_cmdsn :: "iscsi_session \<Rightarrow> iscsi_hdr \<Rightarrow> iscsi_hdr" where
  "rsp_cmdsn ss h = h\<lparr>h_exp_statsn := ss_exp_cmd_sn ss, h_max_statsn := ss_exp_cmd_sn ss + ss_max_queue_cmd ss\<rparr>"

definition set_rsp :: "iscsi_hdr \<Rightarrow> bytes \<Rightarrow> iscsi_connection \<Rightarrow> iscsi_connection" where
  "set_rsp h d conn = conn\<lparr>cn_rsp := (cn_rsp conn)\<lparr>pd_bhs := h, pd_data := d\<rparr>\<rparr>"

text \<open>The sense data is moved by two bytes within its buffer to make room for its length.\<close>

definition iscsi_cmd_rsp_build :: "nat \<Rightarrow> iscsi_world \<Rightarrow> iscsi_world option" where
  "iscsi_cmd_rsp_build t w =
     do { task \<leftarrow> get_task t w;
          conn \<leftarrow> get_conn (tk_conn task) w;
          ss \<leftarrow> conn_session conn w;
          (let scmd = tk_scmd task;
               h = iscsi_rsp_set_residual scmd (rsp_cmdsn ss (zero_hdr\<lparr>h_opcode := ISCSI_OP_SCSI_CMD_RSP, h_itt := tk_tag task,
                     h_flags := ISCSI_FLAG_CMD_FINAL, h_rsvd2 := [0, of_int (c_result scmd)], h_statsn := cn_stat_sn conn\<rparr>));
               len = sense_len scmd mod 256;
               conn1 = conn\<lparr>cn_stat_sn := cn_stat_sn conn + 1\<rparr>
           in if len = 0 then Some (upd_conn (tk_conn task) (\<lambda>_. set_rsp h (pd_data (cn_rsp conn)) conn1) w)
              else
                (let sense = be16_bytes (of_nat len) @ take len (sense_buffer scmd) in
                 do { buf \<leftarrow> write_at (sense_buffer scmd) 0 sense;
                      Some (upd_conn (tk_conn task) (\<lambda>_. set_rsp (h\<lparr>h_dlength := hton24 (of_nat (len + 2))\<rparr>) sense conn1)
                        (upd_task t (\<lambda>tk. tk\<lparr>tk_scmd := scmd\<lparr>sense_buffer := buf\<rparr>\<rparr>) w)) })) }"

text \<open>One Data-In PDU; its data is read from the command's buffer at the task's offset.\<close>

definition iscsi_data_rsp_build :: "nat \<Rightarrow> iscsi_world \<Rightarrow> iscsi_world option" where
  "iscsi_data_rsp_build t w =
     do { task \<leftarrow> get_task t w;
          conn \<leftarrow> get_conn (tk_conn task) w;
          ss \<leftarrow> conn_session conn w;
          (let scmd = tk_scmd task;
               rest = sdb_transfer_len (in_sdb scmd) - tk_offset task;
               maxdatalen = p_val (cn_session_param conn ! ISCSI_PARAM_MAX_XMIT_DLENGTH);
               last = (sint rest \<le> sint maxdatalen);
               datalen = (if last then rest else maxdatalen);
               status = (last \<and> c_result scmd = SAM_STAT_GOOD \<and> data_dir scmd \<noteq> DATA_BIDIRECTIONAL);
               h0 = set_other 1 (tk_offset task) (set_other 0 (tk_exp_r2tsn task)
                      (zero_hdr\<lparr>h_opcode := ISCSI_OP_SCSI_DATA_IN, h_itt := tk_tag task, h_ttt := ISCSI_RESERVED_TAG,
                                h_flags := (if last then ISCSI_FLAG_CMD_FINAL else 0)\<rparr>));
               h1 = (if status then iscsi_set_data_rsp_residual scmd ((add_flags ISCSI_FLAG_DATA_STATUS h0)
                       \<lparr>h_rsvd2 := [0, of_int (c_result scmd)], h_statsn := cn_stat_sn conn\<rparr>) else h0);
               h = (rsp_cmdsn ss h1)\<lparr>h_dlength := hton24 datalen\<rparr>;
               off = unat (tk_offset task)
           in if off + unat datalen > length (sdb_buffer (in_sdb scmd)) then None
              else Some (upd_conn (tk_conn task)
                     (\<lambda>_. set_rsp h (take (unat datalen) (drop off (sdb_buffer (in_sdb scmd))))
                        (if status then conn\<lparr>cn_stat_sn := cn_stat_sn conn + 1\<rparr> else conn))
                     (upd_task t (\<lambda>tk. tk\<lparr>tk_exp_r2tsn := tk_exp_r2tsn tk + 1, tk_offset := tk_offset tk + datalen\<rparr>) w))) }"

definition iscsi_r2t_build :: "nat \<Rightarrow> iscsi_world \<Rightarrow> iscsi_world option" where
  "iscsi_r2t_build t w =
     do { task \<leftarrow> get_task t w;
          conn \<leftarrow> get_conn (tk_conn task) w;
          ss \<leftarrow> conn_session conn w;
          (let len = min (tk_r2t_count task) (p_val (cn_session_param conn ! ISCSI_PARAM_MAX_BURST));
               h = set_other 2 len (set_other 1 (tk_offset task) (set_other 0 (tk_exp_r2tsn task)
                     (rsp_cmdsn ss (zero_hdr\<lparr>h_opcode := ISCSI_OP_R2T, h_flags := ISCSI_FLAG_CMD_FINAL, h_lun := h_lun (tk_req task),
                        h_itt := h_itt (tk_req task), h_statsn := cn_stat_sn conn, h_ttt := of_nat t\<rparr>))))
           in Some (upd_conn (tk_conn task) (set_rsp h (pd_data (cn_rsp conn)))
                (upd_task t (\<lambda>tk. tk\<lparr>tk_exp_r2tsn := tk_exp_r2tsn tk + 1\<rparr>) w))) }"

section \<open>New tasks\<close>

text \<open>The command of a task that \<open>memset\<close> cleared.\<close>

definition zero_scmd :: scsi_cmd where
  "zero_scmd = blank_cmd\<lparr>scb := [], scb_len := 0\<rparr>"

definition alloc_data_buf :: "os_env \<Rightarrow> nat \<Rightarrow> bytes" where
  "alloc_data_buf env n = map (os_heap env) [0..<n]"

text \<open>The task has the address \<open>iw_next\<close>; \<open>ahs_len\<close> is the part of \<open>extdata\<close> after the room for the CDB.\<close>

definition iscsi_alloc_task :: "os_env \<Rightarrow> nat \<Rightarrow> nat \<Rightarrow> nat \<Rightarrow> iscsi_world \<Rightarrow> (nat \<times> iscsi_world) option" where
  "iscsi_alloc_task env ahs_len data_len c w =
     do { conn \<leftarrow> get_conn c w;
          (let t = iw_next w;
               task = \<lparr>tk_id = t, tk_req = pd_bhs (cn_req conn), tk_tag = 0, tk_conn = c, tk_pending = False, tk_in_scsi = False,
                       tk_result = 0, tk_len = 0, tk_offset = 0, tk_r2t_count = 0, tk_unsol_count = False, tk_exp_r2tsn = 0,
                       tk_ahs = replicate ahs_len 0, tk_data = alloc_data_buf env data_len, tk_scmd = zero_scmd\<rparr>;
               w1 = w\<lparr>iw_tasks := task # iw_tasks w, iw_next := t + 1\<rparr>
           in Some (t, conn_get c (upd_conn c (\<lambda>conn. conn\<lparr>cn_task_list := t # cn_task_list conn\<rparr>) w1))) }"

section \<open>Notifications of the core\<close>

definition ep_event_modify :: "nat \<Rightarrow> u32 \<Rightarrow> iscsi_world \<Rightarrow> iscsi_world" where
  "ep_event_modify c ev w = upd_conn c (\<lambda>conn. conn\<lparr>cn_io := (cn_io conn)\<lparr>io_events := ev\<rparr>\<rparr>) w"

definition tx_clist_add_tail :: "nat \<Rightarrow> nat \<Rightarrow> iscsi_world \<Rightarrow> iscsi_world" where
  "tx_clist_add_tail c t w = upd_conn c (\<lambda>conn. conn\<lparr>cn_tx_clist := cn_tx_clist conn @ [t]\<rparr>) w"

definition iscsi_scsi_cmd_done :: "perform \<Rightarrow> nat \<Rightarrow> iscsi_world \<Rightarrow> iscsi_world option" where
  "iscsi_scsi_cmd_done perf t w =
     do { task \<leftarrow> get_task t w;
          conn \<leftarrow> get_conn (tk_conn task) w;
          if cn_state conn = STATE_CLOSE then iscsi_free_cmd_task perf t w
          else Some (ep_event_modify (tk_conn task) EPOLLIN_OUT (tx_clist_add_tail (tk_conn task) t w)) }"

abbreviation (input) "ISCSI_TMF_RSP_COMPLETE \<equiv> 0 :: int"
abbreviation (input) "ISCSI_TMF_RSP_NO_TASK \<equiv> 1 :: int"
abbreviation (input) "ISCSI_TMF_RSP_NOT_SUPPORTED \<equiv> 5 :: int"
abbreviation (input) "ISCSI_TMF_RSP_REJECTED \<equiv> 0xff :: int"

text \<open>The request that ends is the one of the task whose address it carries.\<close>

definition iscsi_tm_done :: "nat \<Rightarrow> int \<Rightarrow> iscsi_world \<Rightarrow> iscsi_world option" where
  "iscsi_tm_done t result w =
     do { task \<leftarrow> get_task t w;
          conn \<leftarrow> get_conn (tk_conn task) w;
          (let r = (if result = 0 then ISCSI_TMF_RSP_COMPLETE else if result = - EINVAL then ISCSI_TMF_RSP_NOT_SUPPORTED
                    else if result = - EEXIST then ISCSI_TMF_RSP_NO_TASK else ISCSI_TMF_RSP_REJECTED);
               w1 = upd_task t (\<lambda>tk. tk\<lparr>tk_result := r\<rparr>) w
           in if cn_state conn = STATE_CLOSE then iscsi_free_task t w1
              else Some (ep_event_modify (tk_conn task) EPOLLIN_OUT (tx_clist_add_tail (tk_conn task) t w1))) }"

definition notify_transport :: "perform \<Rightarrow> notify \<Rightarrow> iscsi_world \<Rightarrow> iscsi_world option" where
  "notify_transport perf e w =
     (case e of Cmd_end t _ \<Rightarrow> iscsi_scsi_cmd_done perf t w | Mgmt_end t result \<Rightarrow> iscsi_tm_done t result w)"

text \<open>The delivery of what the core has to say; freeing a task may let the core start other commands.\<close>

partial_function (option) deliver :: "perform \<Rightarrow> iscsi_world \<Rightarrow> iscsi_world option" where
  "deliver perf w =
     (case iw_events w of
        [] \<Rightarrow> Some w
      | e # es \<Rightarrow> do { w1 \<leftarrow> notify_transport perf e (w\<lparr>iw_events := es\<rparr>); deliver perf w1 })"

text \<open>A call into the core with the notifications it sends.\<close>

definition core_call :: "perform \<Rightarrow> int \<Rightarrow> (world \<Rightarrow> ('a \<times> world) option) \<Rightarrow> iscsi_world \<Rightarrow> ('a \<times> iscsi_world) option" where
  "core_call perf t f w = do { (r, w1) \<leftarrow> with_core t f w; w2 \<leftarrow> deliver perf w1; Some (r, w2) }"

section \<open>Passing a command to the core\<close>

definition cmd_attr :: "iscsi_task \<Rightarrow> int" where
  "cmd_attr task =
     (let a = h_flags (tk_req task) AND 0x07 in
      if a = 0 \<or> a = 1 then MSG_SIMPLE_TAG else if a = 3 then MSG_HEAD_TAG else MSG_ORDERED_TAG)"

abbreviation (input) "ISCSI_AHSTYPE_CDB \<equiv> 1 :: u8"
abbreviation (input) "ISCSI_AHSTYPE_RLENGTH \<equiv> 2 :: u8"

text \<open>
  The extended CDB of an additional header: the command block, the header bytes left over,
  and \<open>ahs\<close>, whose bytes \<open>memmove\<close> shifts. \<open>Inl\<close> is the error of the code. A header that
  gives its length as 0 makes the length of the move negative.
\<close>

definition extended_cdb :: "iscsi_task \<Rightarrow> (int + bytes \<times> bytes \<times> bytes) option" where
  "extended_cdb task =
     (let cdb = cmd_cdb (tk_req task);
          ahs = tk_ahs task;
          ahslen = unat (h_hlength (tk_req task)) * 4
      in if ahslen \<ge> 4 \<and> byte_at ahs 2 = ISCSI_AHSTYPE_CDB then
           (let n = unat (get_unaligned_be16 ahs 0) in
            if n + 3 > ahslen then Some (Inl (- EINVAL))
            else if n \<noteq> 0 \<and> n - 1 + 16 > 260 then Some (Inl (- EINVAL))
            else if n = 0 then None
            else Some (Inr (cdb @ take (n - 1) (drop 4 ahs), take (ahslen - (n + 3)) (drop (n + 3) ahs),
                            put_bytes ahs 0 (take (n - 1) (drop 4 ahs)))))
         else Some (Inr (cdb, take ahslen ahs, ahs)))"

text \<open>The buffers of the command: the task's data, and for a bidirectional command a new one for the input.\<close>

definition set_task_buffers :: "os_env \<Rightarrow> bytes \<Rightarrow> iscsi_task \<Rightarrow> scsi_cmd \<Rightarrow> scsi_cmd" where
  "set_task_buffers env ahs task scmd =
     (let data_len = cmd_data_length (tk_req task); in_length = get_unaligned_be32 ahs 4 in
      case data_dir scmd of
        DATA_NONE \<Rightarrow> scmd
      | DATA_READ \<Rightarrow> scmd\<lparr>in_sdb := (in_sdb scmd)\<lparr>sdb_length := data_len, sdb_buffer := tk_data task\<rparr>\<rparr>
      | DATA_WRITE \<Rightarrow> scmd\<lparr>out_sdb := (out_sdb scmd)\<lparr>sdb_length := data_len, sdb_buffer := tk_data task\<rparr>\<rparr>
      | DATA_BIDIRECTIONAL \<Rightarrow>
          let scmd1 = scmd\<lparr>out_sdb := (out_sdb scmd)\<lparr>sdb_length := data_len, sdb_buffer := tk_data task\<rparr>\<rparr> in
          if length ahs \<ge> 8 \<and> byte_at ahs 2 = ISCSI_AHSTYPE_RLENGTH \<and> in_length \<noteq> 0
          then scmd1\<lparr>in_sdb := (in_sdb scmd1)\<lparr>sdb_length := in_length,
                 sdb_buffer := alloc_data_buf env (unat (roundup4 in_length))\<rparr>\<rparr>
          else scmd1)"

definition iscsi_target_cmd_queue :: "os_env \<Rightarrow> perform \<Rightarrow> nat \<Rightarrow> iscsi_world \<Rightarrow> (int \<times> iscsi_world) option" where
  "iscsi_target_cmd_queue env perf t w =
     do { task \<leftarrow> get_task t w;
          conn \<leftarrow> get_conn (tk_conn task) w;
          ss \<leftarrow> conn_session conn w;
          ext \<leftarrow> extended_cdb task;
          (case ext of
             Inl err \<Rightarrow> Some (err, upd_task t (\<lambda>tk. tk\<lparr>tk_scmd := (tk_scmd tk)\<lparr>cmd_itn_id := ucast (ss_tsih ss),
                          scb := cmd_cdb (tk_req task), scb_len := 16\<rparr>\<rparr>) w)
           | Inr (block, ahs, ahs') \<Rightarrow>
               let scmd = (set_task_buffers env ahs task (tk_scmd task))\<lparr>cmd_itn_id := ucast (ss_tsih ss), scb := block,
                            scb_len := length block, c_lun := h_lun (tk_req task), attribute := cmd_attr task,
                            c_tag := ucast (h_itt (tk_req task))\<rparr>
               in do { (err, w2) \<leftarrow> core_call perf (ss_target ss) (target_cmd_queue None perf t)
                                      (upd_task t (\<lambda>tk. tk\<lparr>tk_scmd := scmd, tk_ahs := ahs', tk_in_scsi := True\<rparr>) w);
                       Some (err, if err \<noteq> 0 then upd_task t (\<lambda>tk. tk\<lparr>tk_in_scsi := False\<rparr>) w2 else w2) }) }"

definition iscsi_scsi_cmd_execute :: "os_env \<Rightarrow> perform \<Rightarrow> nat \<Rightarrow> iscsi_world \<Rightarrow> (int \<times> iscsi_world) option" where
  "iscsi_scsi_cmd_execute env perf t w =
     do { task \<leftarrow> get_task t w;
          (let c = tk_conn task in
           if h_flags (tk_req task) AND ISCSI_FLAG_CMD_WRITE \<noteq> 0 \<and> tk_r2t_count task \<noteq> 0
           then Some (0, ep_event_modify c EPOLLIN_OUT (if tk_unsol_count task then w else tx_clist_add_tail c t w))
           else do { (ret, w1) \<leftarrow> iscsi_target_cmd_queue env perf t (upd_task t (\<lambda>tk. tk\<lparr>tk_offset := 0\<rparr>) w);
                     Some (ret, ep_event_modify c EPOLLIN_OUT w1) }) }"

text \<open>
  The flag is set after the request was handed to the core, whose answer may already have ended the
  task; then there is no task whose flag could be set.
\<close>

definition iscsi_tm_execute :: "perform \<Rightarrow> nat \<Rightarrow> iscsi_world \<Rightarrow> (int \<times> iscsi_world) option" where
  "iscsi_tm_execute perf t w =
     do { task \<leftarrow> get_task t w;
          conn \<leftarrow> get_conn (tk_conn task) w;
          (let func = h_flags (tk_req task) AND 0x7F;
               fail = (\<lambda>err. Some (err, upd_task t (\<lambda>tk. tk\<lparr>tk_result := err\<rparr>) w));
               call = (\<lambda>fn.
                 do { ss \<leftarrow> conn_session conn w;
                      (ret, w2) \<leftarrow> core_call perf (ss_target ss)
                         (target_mgmt_request None perf t (ucast (ss_tsih ss)) (of_nat t) fn (h_lun (tk_req task)) (ucast (tm_rtt (tk_req task)))) w;
                      Some (0, upd_task t (\<lambda>tk. tk\<lparr>tk_in_scsi := (ret = MGMT_REQ_QUEUED)\<rparr>) w2) })
           in if func = 1 then call ABORT_TASK
              else if func = 2 then call ABORT_TASK_SET
              else if func = 5 then call LOGICAL_UNIT_RESET
              else if func \<in> {3, 4, 6, 7, 8} then fail ISCSI_TMF_RSP_NOT_SUPPORTED
              else fail ISCSI_TMF_RSP_REJECTED) }"

definition task_dir :: "u8 \<Rightarrow> data_direction" where
  "task_dir flags =
     (if flags AND ISCSI_FLAG_CMD_READ \<noteq> 0
      then (if flags AND ISCSI_FLAG_CMD_WRITE \<noteq> 0 then DATA_BIDIRECTIONAL else DATA_READ)
      else if flags AND ISCSI_FLAG_CMD_WRITE \<noteq> 0 then DATA_WRITE else DATA_NONE)"

text \<open>The result of the execution is dropped.\<close>

definition iscsi_task_execute :: "os_env \<Rightarrow> perform \<Rightarrow> nat \<Rightarrow> iscsi_world \<Rightarrow> iscsi_world option" where
  "iscsi_task_execute env perf t w =
     do { task \<leftarrow> get_task t w;
          (let op = hdr_op (tk_req task); c = tk_conn task in
           if op = ISCSI_OP_NOOP_OUT \<or> op = ISCSI_OP_LOGOUT then Some (ep_event_modify c EPOLLIN_OUT (tx_clist_add_tail c t w))
           else if op = ISCSI_OP_SCSI_CMD then
             map_option snd (iscsi_scsi_cmd_execute env perf t
               (upd_task t (\<lambda>tk. tk\<lparr>tk_scmd := (tk_scmd tk)\<lparr>data_dir := task_dir (h_flags (tk_req task))\<rparr>\<rparr>) w))
           else if op = ISCSI_OP_SCSI_TMFUNC then
             do { (err, w1) \<leftarrow> iscsi_tm_execute perf t w;
                  Some (if err \<noteq> 0 then ep_event_modify c EPOLLIN_OUT (tx_clist_add_tail c t w1) else w1) }
           else Some w) }"


section \<open>The order of commands\<close>

definition task_cmd_sn :: "iscsi_world \<Rightarrow> nat \<Rightarrow> u32" where
  "task_cmd_sn w t = (case get_task t w of None \<Rightarrow> 0 | Some task \<Rightarrow> h_statsn (tk_req task))"

text \<open>The loop from the label \<open>retry\<close>.\<close>

partial_function (option) run_in_order :: "os_env \<Rightarrow> perform \<Rightarrow> nat \<Rightarrow> nat \<Rightarrow> u32 \<Rightarrow> iscsi_world \<Rightarrow> iscsi_world option" where
  "run_in_order env perf s t cmd_sn w =
     do { w1 \<leftarrow> iscsi_task_execute env perf t (upd_session s (\<lambda>ss. ss\<lparr>ss_exp_cmd_sn := cmd_sn + 1\<rparr>) w);
          ss \<leftarrow> get_session s w1;
          (case ss_pending_cmd_list ss of
             [] \<Rightarrow> Some w1
           | p # ps \<Rightarrow>
               if task_cmd_sn w1 p \<noteq> cmd_sn + 1 then Some w1
               else run_in_order env perf s p (cmd_sn + 1)
                      (upd_task p (\<lambda>tk. tk\<lparr>tk_pending := False\<rparr>)
                        (upd_session s (\<lambda>ss. ss\<lparr>ss_pending_cmd_list := ps\<rparr>) w1))) }"

text \<open>A task goes before the first task of the list with a later number.\<close>

fun pending_insert :: "(nat \<Rightarrow> u32) \<Rightarrow> nat \<Rightarrow> nat list \<Rightarrow> nat list" where
  "pending_insert sn t [] = [t]"
| "pending_insert sn t (p # ps) = (if before (sn t) (sn p) then t # p # ps else p # pending_insert sn t ps)"

definition iscsi_task_queue :: "os_env \<Rightarrow> perform \<Rightarrow> nat \<Rightarrow> iscsi_world \<Rightarrow> (int \<times> iscsi_world) option" where
  "iscsi_task_queue env perf t w =
     do { task \<leftarrow> get_task t w;
          conn \<leftarrow> get_conn (tk_conn task) w;
          s \<leftarrow> cn_session conn;
          ss \<leftarrow> get_session s w;
          (let cmd_sn = h_statsn (tk_req task) in
           if h_opcode (tk_req task) AND ISCSI_OP_IMMEDIATE \<noteq> 0
           then do { w1 \<leftarrow> iscsi_task_execute env perf t w; Some (0, w1) }
           else if cmd_sn = ss_exp_cmd_sn ss then do { w1 \<leftarrow> run_in_order env perf s t cmd_sn w; Some (0, w1) }
           else if before cmd_sn (ss_exp_cmd_sn ss) then Some (- EINVAL, w)
           else Some (0, upd_task t (\<lambda>tk. tk\<lparr>tk_pending := True\<rparr>)
                  (upd_session s (\<lambda>ss. ss\<lparr>ss_pending_cmd_list := pending_insert (task_cmd_sn w) t (ss_pending_cmd_list ss)\<rparr>) w))) }"

section \<open>Receiving a request\<close>

definition upd_io :: "nat \<Rightarrow> (conn_io \<Rightarrow> conn_io) \<Rightarrow> iscsi_world \<Rightarrow> iscsi_world" where
  "upd_io c f w = upd_conn c (\<lambda>conn. conn\<lparr>cn_io := f (cn_io conn)\<rparr>) w"

definition set_rx_task :: "nat \<Rightarrow> nat option \<Rightarrow> iscsi_world \<Rightarrow> iscsi_world" where
  "set_rx_task c t w = upd_conn c (\<lambda>conn. conn\<lparr>cn_rx_task := t\<rparr>) w"

definition iscsi_data_out_rx_done :: "os_env \<Rightarrow> perform \<Rightarrow> nat \<Rightarrow> iscsi_world \<Rightarrow> (int \<times> iscsi_world) option" where
  "iscsi_data_out_rx_done env perf t w =
     do { task \<leftarrow> get_task t w;
          conn \<leftarrow> get_conn (tk_conn task) w;
          (let hdr = pd_bhs (cn_req conn); final = (h_flags hdr AND ISCSI_FLAG_CMD_FINAL \<noteq> 0) in
           if h_ttt hdr = ISCSI_RESERVED_TAG then
             (if final then
                (let w1 = upd_task t (\<lambda>tk. tk\<lparr>tk_unsol_count := False\<rparr>) w in
                 if tk_pending task then Some (0, w1) else iscsi_scsi_cmd_execute env perf t w1)
              else Some (0, w))
           else if \<not> final then Some (0, w)
           else iscsi_scsi_cmd_execute env perf t w) }"

text \<open>The offset of the request is not checked against the size of the buffer.\<close>

definition iscsi_data_out_rx_start :: "nat \<Rightarrow> iscsi_world \<Rightarrow> (int \<times> iscsi_world) option" where
  "iscsi_data_out_rx_start c w =
     do { conn \<leftarrow> get_conn c w;
          ss \<leftarrow> conn_session conn w;
          (let req = pd_bhs (cn_req conn); len = ntoh24 (h_dlength req) in
           case find (\<lambda>t. map_option tk_tag (get_task t w) = Some (h_itt req)) (ss_cmd_list ss) of
             None \<Rightarrow> Some (- EINVAL, w)
           | Some t \<Rightarrow>
               Some (0, set_rx_task c (Some t)
                 (upd_task t (\<lambda>tk. tk\<lparr>tk_offset := tk_offset tk + len, tk_r2t_count := tk_r2t_count tk - len\<rparr>)
                   (upd_io c (\<lambda>io. io\<lparr>io_req_data := Rx_task_data t (unat (other_word 1 req))\<rparr>) w)))) }"

text \<open>
  The lengths are 32-bit integers with a sign, so that a data length of 2 GB or more gets no
  room beyond the immediate data.
\<close>

definition task_buf_len :: "u32 \<Rightarrow> u32 \<Rightarrow> nat" where
  "task_buf_len imm_len data_len = nat (max (sint imm_len) (sint data_len))"

definition iscsi_scsi_cmd_rx_start :: "os_env \<Rightarrow> nat \<Rightarrow> iscsi_world \<Rightarrow> (int \<times> iscsi_world) option" where
  "iscsi_scsi_cmd_rx_start env c w =
     do { conn \<leftarrow> get_conn c w;
          s \<leftarrow> cn_session conn;
          (let req = pd_bhs (cn_req conn);
               ahs_len = unat (h_hlength req) * 4;
               dlen = ntoh24 (h_dlength req);
               imm_len = roundup4 dlen;
               data_len = roundup4 (cmd_data_length req)
           in do { (t, w1) \<leftarrow> iscsi_alloc_task env ahs_len (task_buf_len imm_len data_len) c w;
                   (let w2 = upd_io c (\<lambda>io.
                          if ahs_len \<noteq> 0 then io\<lparr>io_req_ahs := Rx_task_ahs t 0, io_req_data := Rx_task_data t 0\<rparr>
                          else if data_len \<noteq> 0 then io\<lparr>io_req_data := Rx_task_data t 0\<rparr>
                          else io) (set_rx_task c (Some t) w1);
                        w3 = upd_task t (\<lambda>tk.
                          let tk1 = tk\<lparr>tk_tag := h_itt req\<rparr> in
                          if h_flags req AND ISCSI_FLAG_CMD_WRITE \<noteq> 0
                          then tk1\<lparr>tk_offset := dlen, tk_r2t_count := cmd_data_length req - dlen,
                                   tk_unsol_count := (h_flags req AND ISCSI_FLAG_CMD_FINAL = 0)\<rparr>
                          else tk1) w2
                    in Some (0, upd_session s (\<lambda>ss. ss\<lparr>ss_cmd_list := t # ss_cmd_list ss\<rparr>) w3)) }) }"

definition iscsi_noop_out_rx_start :: "os_env \<Rightarrow> nat \<Rightarrow> iscsi_world \<Rightarrow> (int \<times> iscsi_world) option" where
  "iscsi_noop_out_rx_start env c w =
     do { conn \<leftarrow> get_conn c w;
          (let req = pd_bhs (cn_req conn); len = ntoh24 (h_dlength req) in
           if \<not> (h_ttt req \<noteq> ISCSI_RESERVED_TAG \<and> hdr_op req = ISCSI_OP_NOOP_OUT) \<and>
              h_itt req = ISCSI_RESERVED_TAG \<and> h_opcode req AND ISCSI_OP_IMMEDIATE = 0
           then Some (- int (unat ISCSI_REASON_PROTOCOL_ERROR), w)
           else
             do { (t, w1) \<leftarrow> iscsi_alloc_task env 0 (unat len) c
                               (upd_conn c (\<lambda>conn. conn\<lparr>cn_exp_stat_sn := h_exp_statsn req\<rparr>) w);
                  (let w2 = set_rx_task c (Some t) w1 in
                   Some (0, if len \<noteq> 0
                     then upd_io c (\<lambda>io. io\<lparr>io_req_data := Rx_task_data t 0\<rparr>) (upd_task t (\<lambda>tk. tk\<lparr>tk_len := len\<rparr>) w2)
                     else w2)) }) }"

definition iscsi_task_rx_done :: "os_env \<Rightarrow> perform \<Rightarrow> nat \<Rightarrow> iscsi_world \<Rightarrow> (int \<times> iscsi_world) option" where
  "iscsi_task_rx_done env perf c w =
     do { conn \<leftarrow> get_conn c w;
          (let op = hdr_op (pd_bhs (cn_req conn)) in
           do { (err, w1) \<leftarrow>
                  (if op \<in> {ISCSI_OP_SCSI_CMD, ISCSI_OP_NOOP_OUT, ISCSI_OP_SCSI_TMFUNC, ISCSI_OP_LOGOUT}
                   then do { t \<leftarrow> cn_rx_task conn; iscsi_task_queue env perf t w }
                   else if op = ISCSI_OP_SCSI_DATA_OUT then do { t \<leftarrow> cn_rx_task conn; iscsi_data_out_rx_done env perf t w }
                   else Some (0, w));
                Some (err, set_rx_task c None w1) }) }"

definition iscsi_task_rx_start :: "os_env \<Rightarrow> nat \<Rightarrow> iscsi_world \<Rightarrow> (int \<times> iscsi_world) option" where
  "iscsi_task_rx_start env c w =
     do { conn \<leftarrow> get_conn c w;
          (let hdr = pd_bhs (cn_req conn);
               op = hdr_op hdr;
               stat = (\<lambda>(err, w'). (err, if err = 0 then upd_conn c (\<lambda>conn. conn\<lparr>cn_exp_stat_sn := h_exp_statsn hdr\<rparr>) w' else w'))
           in if op = ISCSI_OP_SCSI_CMD then map_option stat (iscsi_scsi_cmd_rx_start env c w)
              else if op = ISCSI_OP_SCSI_DATA_OUT then map_option stat (iscsi_data_out_rx_start c w)
              else if op = ISCSI_OP_NOOP_OUT then iscsi_noop_out_rx_start env c w
              else if op = ISCSI_OP_SCSI_TMFUNC \<or> op = ISCSI_OP_LOGOUT then
                do { (t, w1) \<leftarrow> iscsi_alloc_task env 0 0 c w; Some (0, set_rx_task c (Some t) w1) }
              else Some (- EINVAL, w)) }"

section \<open>Sending a response\<close>

definition iscsi_scsi_cmd_tx_start :: "nat \<Rightarrow> iscsi_world \<Rightarrow> iscsi_world option" where
  "iscsi_scsi_cmd_tx_start t w =
     do { task \<leftarrow> get_task t w;
          (let more = (tk_offset task < sdb_transfer_len (in_sdb (tk_scmd task))); r2t = (tk_r2t_count task \<noteq> 0) in
           case data_dir (tk_scmd task) of
             DATA_NONE \<Rightarrow> iscsi_cmd_rsp_build t w
           | DATA_READ \<Rightarrow> if more then iscsi_data_rsp_build t w else iscsi_cmd_rsp_build t w
           | DATA_WRITE \<Rightarrow> if r2t then iscsi_r2t_build t w else iscsi_cmd_rsp_build t w
           | DATA_BIDIRECTIONAL \<Rightarrow>
               if r2t then iscsi_r2t_build t w else if more then iscsi_data_rsp_build t w else iscsi_cmd_rsp_build t w) }"

text \<open>A response that takes the next status number; \<open>f\<close> writes the rest of its header.\<close>

definition status_rsp :: "nat \<Rightarrow> (iscsi_task \<Rightarrow> iscsi_hdr \<Rightarrow> iscsi_hdr) \<Rightarrow> bool \<Rightarrow> (iscsi_task \<Rightarrow> bytes) \<Rightarrow> iscsi_world \<Rightarrow> iscsi_world option" where
  "status_rsp t f next data w =
     do { task \<leftarrow> get_task t w;
          conn \<leftarrow> get_conn (tk_conn task) w;
          ss \<leftarrow> conn_session conn w;
          (let h = f task (rsp_cmdsn ss (zero_hdr\<lparr>h_flags := ISCSI_FLAG_CMD_FINAL, h_itt := h_itt (tk_req task), h_statsn := cn_stat_sn conn\<rparr>)) in
           Some (upd_conn (tk_conn task) (\<lambda>_. set_rsp h (data task)
             (if next then conn\<lparr>cn_stat_sn := cn_stat_sn conn + 1\<rparr> else conn)) w)) }"

definition iscsi_logout_tx_start :: "nat \<Rightarrow> iscsi_world \<Rightarrow> iscsi_world option" where
  "iscsi_logout_tx_start t w = status_rsp t (\<lambda>_ h. h\<lparr>h_opcode := ISCSI_OP_LOGOUT_RSP\<rparr>) True (\<lambda>_. []) w"

text \<open>The data of a ping is that of the task.\<close>

definition ping_data :: "iscsi_task \<Rightarrow> bytes" where
  "ping_data task = take (unat (tk_len task)) (tk_data task)"

definition iscsi_noop_in_tx_start :: "nat \<Rightarrow> iscsi_world \<Rightarrow> iscsi_world option" where
  "iscsi_noop_in_tx_start t w =
     status_rsp t (\<lambda>task h. h\<lparr>h_opcode := ISCSI_OP_NOOP_IN, h_ttt := h_ttt (tk_req task), h_dlength := hton24 (tk_len task)\<rparr>)
       False ping_data w"

text \<open>\<open>iscsi_tcp_nop_reply\<close>: the answer to a ping, by the tag the ping carried.\<close>

definition iscsi_tcp_nop_reply :: "u32 \<Rightarrow> iscsi_world \<Rightarrow> iscsi_world" where
  "iscsi_tcp_nop_reply ttt w =
     w\<lparr>iw_conns := map (\<lambda>conn. if cn_nop_ttt conn = ttt then conn\<lparr>cn_nop_inflight_count := 0\<rparr> else conn) (iw_conns w)\<rparr>"

text \<open>The flag says that there is a response to send.\<close>

definition iscsi_noop_out_tx_start :: "nat \<Rightarrow> iscsi_world \<Rightarrow> (bool \<times> iscsi_world) option" where
  "iscsi_noop_out_tx_start t w =
     do { task \<leftarrow> get_task t w;
          if h_itt (tk_req task) = ISCSI_RESERVED_TAG
          then do { w1 \<leftarrow> iscsi_free_task t (iscsi_tcp_nop_reply (h_ttt (tk_req task)) w); Some (False, w1) }
          else do { w1 \<leftarrow> status_rsp t (\<lambda>task h. h\<lparr>h_opcode := ISCSI_OP_NOOP_IN, h_ttt := ISCSI_RESERVED_TAG,
                             h_dlength := hton24 (tk_len task)\<rparr>) True ping_data w;
                    Some (True, w1) } }"

definition iscsi_tm_tx_start :: "nat \<Rightarrow> iscsi_world \<Rightarrow> iscsi_world option" where
  "iscsi_tm_tx_start t w =
     status_rsp t (\<lambda>task h. h\<lparr>h_opcode := ISCSI_OP_SCSI_TMFUNC_RSP, h_rsvd2 := [of_int (tk_result task), 0]\<rparr>) True (\<lambda>_. []) w"

definition conn_write_pdu :: "iscsi_connection \<Rightarrow> iscsi_connection" where
  "conn_write_pdu conn = conn\<lparr>cn_tx_iostate := IOSTATE_TX_BHS, cn_rsp := \<lparr>pd_bhs = zero_hdr, pd_ahs = [], pd_data = []\<rparr>\<rparr>"

text \<open>The flag says that a PDU is ready; without one the code returns \<open>-EAGAIN\<close>.\<close>

definition iscsi_task_tx_start :: "nat \<Rightarrow> iscsi_world \<Rightarrow> (bool \<times> iscsi_world) option" where
  "iscsi_task_tx_start c w =
     do { conn \<leftarrow> get_conn c w;
          (case cn_tx_clist conn of
             [] \<Rightarrow> Some (False, ep_event_modify c EPOLLIN w)
           | t # ts \<Rightarrow>
               do { task \<leftarrow> get_task t w;
                    (let w1 = upd_conn c (\<lambda>conn. conn_write_pdu (conn\<lparr>cn_tx_clist := ts\<rparr>)) w;
                         op = hdr_op (tk_req task);
                         ready = (\<lambda>w'. (True, upd_conn c (\<lambda>conn. conn\<lparr>cn_tx_task := Some t\<rparr>) w'))
                     in if op = ISCSI_OP_SCSI_CMD then map_option ready (iscsi_scsi_cmd_tx_start t w1)
                        else if op = ISCSI_OP_NOOP_IN then map_option ready (iscsi_noop_in_tx_start t w1)
                        else if op = ISCSI_OP_NOOP_OUT then
                          do { (is_rsp, w2) \<leftarrow> iscsi_noop_out_tx_start t w1;
                               Some (if is_rsp then ready w2 else (False, ep_event_modify c EPOLLIN w2)) }
                        else if op = ISCSI_OP_LOGOUT then map_option ready (iscsi_logout_tx_start t w1)
                        else if op = ISCSI_OP_SCSI_TMFUNC then map_option ready (iscsi_tm_tx_start t w1)
                        else Some (ready w1)) }) }"

definition iscsi_scsi_cmd_tx_done :: "perform \<Rightarrow> nat \<Rightarrow> iscsi_world \<Rightarrow> iscsi_world option" where
  "iscsi_scsi_cmd_tx_done perf c w =
     do { conn \<leftarrow> get_conn c w;
          t \<leftarrow> cn_tx_task conn;
          task \<leftarrow> get_task t w;
          (let op = hdr_op (pd_bhs (cn_rsp conn)); scmd = tk_scmd task;
               free = do { w1 \<leftarrow> iscsi_free_cmd_task perf t w; deliver perf w1 }
           in if op = ISCSI_OP_SCSI_DATA_IN then
                (if tk_offset task < sdb_transfer_len (in_sdb scmd) \<or> c_result scmd \<noteq> SAM_STAT_GOOD \<or> data_dir scmd = DATA_BIDIRECTIONAL
                 then Some (upd_conn c (\<lambda>conn. conn\<lparr>cn_tx_clist := t # cn_tx_clist conn\<rparr>) w)
                 else free)
              else if op = ISCSI_OP_SCSI_CMD_RSP then free
              else Some w) }"

definition iscsi_task_tx_done :: "perform \<Rightarrow> nat \<Rightarrow> iscsi_world \<Rightarrow> iscsi_world option" where
  "iscsi_task_tx_done perf c w =
     do { conn \<leftarrow> get_conn c w;
          t \<leftarrow> cn_tx_task conn;
          task \<leftarrow> get_task t w;
          (let op = hdr_op (tk_req task) in
           do { w1 \<leftarrow> (if op = ISCSI_OP_SCSI_CMD then iscsi_scsi_cmd_tx_done perf c w
                        else if op = ISCSI_OP_NOOP_IN then Some (w\<lparr>iw_tasks := lremove tk_id t (iw_tasks w)\<rparr>)
                        else if op \<in> {ISCSI_OP_NOOP_OUT, ISCSI_OP_LOGOUT, ISCSI_OP_SCSI_TMFUNC} then
                          map_option (\<lambda>w'. if op = ISCSI_OP_LOGOUT then upd_conn c (\<lambda>conn. conn\<lparr>cn_state := STATE_CLOSE\<rparr>) w' else w')
                            (iscsi_free_task t w)
                        else Some w);
                Some (upd_conn c (\<lambda>conn. conn\<lparr>cn_tx_task := None\<rparr>) w1) }) }"


end
