(* ===== verification/Iscsi_Order_Thms.thy ===== *)
theory Iscsi_Order_Thms
  imports Iscsi_Task
begin

text \<open>
  The order of commands of a session: what executing a task leaves alone, the invariant of
  the list of commands that came too early, and the theorem that a session executes its
  commands in the order of their numbers.
\<close>

unbundle bit_operations_syntax

section \<open>What executing a task leaves alone\<close>

text \<open>
  While no connection is closed, executing a task changes neither the sessions nor the
  requests of the tasks, nor the state of a connection.
\<close>

definition task_ident :: "iscsi_task \<Rightarrow> nat \<times> iscsi_hdr \<times> nat \<times> bool" where
  "task_ident tk = (tk_id tk, tk_req tk, tk_conn tk, tk_pending tk)"

definition conn_ident :: "iscsi_connection \<Rightarrow> nat \<times> int \<times> nat option" where
  "conn_ident conn = (cn_id conn, cn_state conn, cn_session conn)"

definition exec_frame :: "iscsi_world \<Rightarrow> iscsi_world \<Rightarrow> bool" where
  "exec_frame w w' \<longleftrightarrow> iw_sessions w' = iw_sessions w \<and> map task_ident (iw_tasks w') = map task_ident (iw_tasks w) \<and>
     map conn_ident (iw_conns w') = map conn_ident (iw_conns w)"

definition conns_open :: "iscsi_world \<Rightarrow> bool" where
  "conns_open w \<longleftrightarrow> (\<forall>conn\<in>set (iw_conns w). cn_state conn \<noteq> STATE_CLOSE)"

named_theorems frames "rules that a change keeps the frame of executing tasks"

lemma exec_frame_refl [simp, frames]: "exec_frame w w"
  by (simp add: exec_frame_def)

lemma exec_frame_trans: "exec_frame w1 w2 \<Longrightarrow> exec_frame w2 w3 \<Longrightarrow> exec_frame w1 w3"
  by (simp add: exec_frame_def)

lemma map_lupdate_same: "(\<And>x. g (f x) = g x) \<Longrightarrow> map g (lupdate key k f xs) = map g xs"
  by (simp add: lupdate_def)

lemma frame_upd_task [frames]:
  assumes "exec_frame w w1" "\<And>tk. task_ident (f tk) = task_ident tk"
  shows "exec_frame w (upd_task t f w1)"
  using assms(1) map_lupdate_same [of task_ident f tk_id t, OF assms(2)] by (simp add: exec_frame_def upd_task_def)

lemma frame_upd_conn [frames]:
  assumes "exec_frame w w1" "\<And>conn. conn_ident (f conn) = conn_ident conn"
  shows "exec_frame w (upd_conn c f w1)"
  using assms(1) map_lupdate_same [of conn_ident f cn_id c, OF assms(2)] by (simp add: exec_frame_def upd_conn_def)

lemma frame_core [frames]: "exec_frame w w1 \<Longrightarrow> exec_frame w (core_result t cw w1)"
proof -
  have "task_ident (case m of None \<Rightarrow> tk | Some c \<Rightarrow> tk\<lparr>tk_scmd := c\<rparr>) = task_ident tk" for m tk
    by (cases m) (simp_all add: task_ident_def)
  then show "exec_frame w w1 \<Longrightarrow> ?thesis"
    by (simp add: exec_frame_def core_result_def comp_def)
qed

lemma frame_event_modify [frames]: "exec_frame w w1 \<Longrightarrow> exec_frame w (ep_event_modify c ev w1)"
  unfolding ep_event_modify_def by (rule frame_upd_conn) (simp_all add: conn_ident_def)

lemma frame_tx_add [frames]: "exec_frame w w1 \<Longrightarrow> exec_frame w (tx_clist_add_tail c t w1)"
  unfolding tx_clist_add_tail_def by (rule frame_upd_conn) (simp_all add: conn_ident_def)

lemma conns_open_iff: "conns_open w \<longleftrightarrow> (\<forall>x\<in>set (map conn_ident (iw_conns w)). fst (snd x) \<noteq> STATE_CLOSE)"
  by (auto simp: conns_open_def conn_ident_def)

lemma exec_frame_open: "exec_frame w w' \<Longrightarrow> conns_open w \<Longrightarrow> conns_open w'"
  by (simp add: conns_open_iff exec_frame_def)

lemma get_conn_open: "get_conn c w = Some conn \<Longrightarrow> conns_open w \<Longrightarrow> cn_state conn \<noteq> STATE_CLOSE"
  using lfind_SomeD by (fastforce simp: get_conn_def conns_open_def)

lemma task_ident_updates [simp]:
  "task_ident (tk\<lparr>tk_scmd := x\<rparr>) = task_ident tk" "task_ident (tk\<lparr>tk_ahs := a\<rparr>) = task_ident tk"
  "task_ident (tk\<lparr>tk_in_scsi := b\<rparr>) = task_ident tk" "task_ident (tk\<lparr>tk_offset := o'\<rparr>) = task_ident tk"
  "task_ident (tk\<lparr>tk_result := r\<rparr>) = task_ident tk"
  by (simp_all add: task_ident_def)

lemma notify_transport_frame:
  assumes "notify_transport perf e w = Some w'" "conns_open w"
  shows "exec_frame w w'"
  using assms
  by (cases e) (auto intro!: frames simp: notify_transport_def iscsi_scsi_cmd_done_def iscsi_tm_done_def Let_def
      dest: get_conn_open split: Option.bind_splits if_splits)

lemma deliver_frame:
  assumes "deliver perf w = Some w'"
  shows "conns_open w \<longrightarrow> exec_frame w w'"
proof (rule deliver.raw_induct [OF _ assms])
  fix del :: "perform \<Rightarrow> iscsi_world \<Rightarrow> iscsi_world option" and perf w w'
  assume 1: "\<And>perf w w'. del perf w = Some w' \<Longrightarrow> conns_open w \<longrightarrow> exec_frame w w'"
    "(case iw_events w of [] \<Rightarrow> Some w | e # es \<Rightarrow> do { w1 \<leftarrow> notify_transport perf e (w\<lparr>iw_events := es\<rparr>); del perf w1 }) = Some w'"
  show "conns_open w \<longrightarrow> exec_frame w w'"
  proof (cases "iw_events w")
    case Nil
    then show ?thesis
      using 1(2) by simp
  next
    case (Cons e es)
    then obtain w1 where w1: "notify_transport perf e (w\<lparr>iw_events := es\<rparr>) = Some w1" "del perf w1 = Some w'"
      using 1(2) by (auto split: Option.bind_splits)
    show ?thesis
    proof
      assume open': "conns_open w"
      then have "exec_frame (w\<lparr>iw_events := es\<rparr>) w1"
        using notify_transport_frame [OF w1(1)] by (simp add: conns_open_def)
      then have "exec_frame w w1"
        by (simp add: exec_frame_def)
      then show "exec_frame w w'"
        using 1(1) [OF w1(2)] exec_frame_open open' exec_frame_trans by blast
    qed
  qed
qed

lemma frame_deliver:
  "deliver perf w1 = Some w2 \<Longrightarrow> exec_frame w w1 \<Longrightarrow> conns_open w \<Longrightarrow> exec_frame w w2"
  using deliver_frame exec_frame_open exec_frame_trans by blast

lemma frame_with_core:
  "with_core t f w1 = Some (r, w2) \<Longrightarrow> exec_frame w w1 \<Longrightarrow> exec_frame w w2"
  by (auto intro!: frames simp: with_core_def split: Option.bind_splits)

lemma frame_core_call:
  "core_call perf t f w1 = Some (r, w2) \<Longrightarrow> exec_frame w w1 \<Longrightarrow> conns_open w \<Longrightarrow> exec_frame w w2"
  by (auto simp: core_call_def intro: frame_deliver frame_with_core split: Option.bind_splits)

lemma cmd_queue_frame:
  assumes "iscsi_target_cmd_queue env perf t w1 = Some (err, w2)" "exec_frame w w1" "conns_open w"
  shows "exec_frame w w2"
  using assms
  by (auto intro!: frames elim!: frame_core_call simp: iscsi_target_cmd_queue_def Let_def
      split: Option.bind_splits sum.splits if_splits)

lemma task_execute_frame:
  assumes "iscsi_task_execute env perf t w = Some w'" "conns_open w"
  shows "exec_frame w w'"
proof -
  obtain task where task: "get_task t w = Some task"
    using assms(1) by (auto simp: iscsi_task_execute_def split: Option.bind_splits)
  have exec: "exec_frame w w2"
    if "iscsi_scsi_cmd_execute env perf t w1 = Some (ret, w2)" "exec_frame w w1" for ret w1 w2
    using that assms(2)
    by (auto intro!: frames elim!: cmd_queue_frame simp: iscsi_scsi_cmd_execute_def Let_def
        split: Option.bind_splits if_splits)
  have tm: "exec_frame w w2" if "iscsi_tm_execute perf t w = Some (err, w2)" for err w2
    using that assms(2)
    by (auto intro!: frames elim!: frame_core_call simp: iscsi_tm_execute_def Let_def
        split: Option.bind_splits if_splits)
  show ?thesis
    using assms(1) task
    by (auto intro!: frames elim!: exec dest!: tm simp: iscsi_task_execute_def Let_def split: Option.bind_splits if_splits)
qed

lemma frame_get_session: "exec_frame w w' \<Longrightarrow> get_session s w' = get_session s w"
  by (simp add: exec_frame_def get_session_def)

lemma lfind_map_fst: "(\<And>x. fst (g x) = key x) \<Longrightarrow> lfind fst k (map g xs) = map_option g (lfind key k xs)"
  by (induction xs) simp_all

lemma frame_get_task:
  assumes "exec_frame w w'"
  shows "map_option task_ident (get_task t w') = map_option task_ident (get_task t w)"
proof -
  have "map_option task_ident (get_task t v) = lfind fst t (map task_ident (iw_tasks v))" for v
    by (simp add: get_task_def lfind_map_fst [of task_ident tk_id] task_ident_def)
  then show ?thesis
    using assms by (simp only: exec_frame_def)
qed

text \<open>What the list of waiting commands depends on: the number of a task and that it exists.\<close>

definition task_numbers :: "iscsi_world \<Rightarrow> nat \<Rightarrow> u32 option" where
  "task_numbers w t = map_option (\<lambda>tk. h_statsn (tk_req tk)) (get_task t w)"

lemma task_cmd_sn_numbers: "task_cmd_sn w t = (case task_numbers w t of None \<Rightarrow> 0 | Some sn \<Rightarrow> sn)"
  by (simp add: task_cmd_sn_def task_numbers_def split: option.splits)

lemma task_cmd_sn_eq: "task_numbers w = task_numbers w' \<Longrightarrow> task_cmd_sn w = task_cmd_sn w'"
  by (simp add: fun_eq_iff task_cmd_sn_numbers)

lemma frame_task_numbers: "exec_frame w w' \<Longrightarrow> task_numbers w' = task_numbers w"
proof
  fix t
  assume "exec_frame w w'"
  from frame_get_task [OF this, of t] show "task_numbers w' t = task_numbers w t"
    by (cases "get_task t w"; cases "get_task t w'") (simp_all add: task_numbers_def task_ident_def)
qed

lemma task_numbers_upd_session [simp]: "task_numbers (upd_session s f w) = task_numbers w"
  by (simp add: fun_eq_iff task_numbers_def get_task_def upd_session_def)

lemma task_numbers_pending [simp]: "task_numbers (upd_task p (tk_pending_update f) w) = task_numbers w"
  by (rule ext) (simp add: task_numbers_def get_task_def upd_task_def lfind_lupdate option.map_comp comp_def if_distrib cong: if_cong)

lemma conns_open_upd [simp]: "conns_open (upd_session s f w) = conns_open w" "conns_open (upd_task t g w) = conns_open w"
  by (simp_all add: conns_open_def upd_session_def upd_task_def)

lemma get_session_upd [simp]:
  "get_session s (upd_task t g w) = get_session s w"
  "(\<And>ss. ss_id (f ss) = ss_id ss) \<Longrightarrow> get_session s (upd_session s f w) = map_option f (get_session s w)"
  by (simp_all add: get_session_def upd_task_def upd_session_def lfind_lupdate)

section \<open>Numbers within the window\<close>

text \<open>The distance of a command number from the expected one.\<close>

definition sn_dist :: "u32 \<Rightarrow> u32 \<Rightarrow> nat" where
  "sn_dist e sn = unat (sn - e)"

lemma before_dist:
  "sn_dist e x < 2 ^ 31 \<Longrightarrow> sn_dist e y < 2 ^ 31 \<Longrightarrow> before x y \<longleftrightarrow> sn_dist e x < sn_dist e y"
  unfolding sn_dist_def by (rule before_window)

lemma ahead_dist: "sn \<noteq> e \<Longrightarrow> \<not> before sn e \<Longrightarrow> 0 < sn_dist e sn \<and> sn_dist e sn < 2 ^ 31"
proof
  assume "sn \<noteq> e" "\<not> before sn e"
  then show "0 < sn_dist e sn"
    by (simp add: sn_dist_def unat_gt_0)
  show "sn_dist e sn < 2 ^ 31"
    using \<open>\<not> before sn e\<close> by (simp add: sn_dist_def before_iff not_le nat_less_iff flip: nat_uint_eq)
qed

lemma dist_next: "0 < sn_dist e sn \<Longrightarrow> sn_dist (e + 1) sn = sn_dist e sn - 1"
proof -
  assume "0 < sn_dist e sn"
  then have "sn - e \<noteq> 0"
    by (auto simp: sn_dist_def)
  then have "unat (sn - e - 1) = unat (sn - e) - 1"
    by (rule unat_minus_one)
  then show ?thesis
    by (simp only: sn_dist_def diff_diff_eq)
qed

lemma dist_eq_iff: "sn_dist e x = sn_dist e y \<longleftrightarrow> x = y"
  by (simp add: sn_dist_def word_unat_eq_iff [symmetric])


section \<open>Commands that came too early\<close>

text \<open>
  The commands that wait are sorted by their distance from the expected number, each with
  its own number, all of them ahead of it.
\<close>

definition pending_sorted :: "(nat \<Rightarrow> u32) \<Rightarrow> u32 \<Rightarrow> nat list \<Rightarrow> bool" where
  "pending_sorted sn e ps \<longleftrightarrow> sorted_wrt (\<lambda>p q. sn_dist e (sn p) < sn_dist e (sn q)) ps \<and>
     (\<forall>p\<in>set ps. 0 < sn_dist e (sn p) \<and> sn_dist e (sn p) < 2 ^ 31)"

definition order_inv :: "nat \<Rightarrow> iscsi_world \<Rightarrow> bool" where
  "order_inv s w \<longleftrightarrow> (case get_session s w of None \<Rightarrow> False | Some ss \<Rightarrow>
     pending_sorted (task_cmd_sn w) (ss_exp_cmd_sn ss) (ss_pending_cmd_list ss) \<and>
     (\<forall>p\<in>set (ss_pending_cmd_list ss). get_task p w \<noteq> None))"

lemma set_pending_insert [simp]: "set (pending_insert sn t ps) = insert t (set ps)"
  by (induction ps) auto

lemma pending_sorted_insert:
  assumes "pending_sorted sn e ps" "0 < sn_dist e (sn t)" "sn_dist e (sn t) < 2 ^ 31" "sn t \<notin> sn ` set ps"
  shows "pending_sorted sn e (pending_insert sn t ps)"
  using assms
proof (induction ps)
  case Nil
  then show ?case
    by (simp add: pending_sorted_def)
next
  case (Cons p ps)
  have p: "sn_dist e (sn p) < 2 ^ 31" and ne: "sn_dist e (sn t) \<noteq> sn_dist e (sn p)"
    using Cons.prems(1,4) by (auto simp: pending_sorted_def dist_eq_iff)
  show ?case
  proof (cases "before (sn t) (sn p)")
    case True
    then have "sn_dist e (sn t) < sn_dist e (sn p)"
      using before_dist Cons.prems(3) p by blast
    then show ?thesis
      using True Cons.prems by (auto simp: pending_sorted_def)
  next
    case False
    then have "sn_dist e (sn p) < sn_dist e (sn t)"
      using before_dist [OF Cons.prems(3) p] ne by simp
    moreover have "pending_sorted sn e (pending_insert sn t ps)"
      using Cons by (simp add: pending_sorted_def)
    ultimately show ?thesis
      using False Cons.prems(1) by (auto simp: pending_sorted_def)
  qed
qed

text \<open>The commands that follow a number without a gap.\<close>

fun due_run :: "(nat \<Rightarrow> u32) \<Rightarrow> u32 \<Rightarrow> nat list \<Rightarrow> nat" where
  "due_run sn n [] = 0"
| "due_run sn n (p # ps) = (if sn p = n then Suc (due_run sn (n + 1) ps) else 0)"

lemma pending_sorted_next:
  assumes "pending_sorted sn e (p # ps)"
  shows "pending_sorted sn (e + 1) (if sn p = e + 1 then ps else p # ps)"
proof -
  have pos: "0 < sn_dist e (sn q)" if "q \<in> set (p # ps)" for q
    using assms that by (auto simp: pending_sorted_def)
  have step: "sn_dist (e + 1) (sn q) = sn_dist e (sn q) - 1" if "q \<in> set (p # ps)" for q
    using dist_next pos that by blast
  have head: "sn_dist e (sn p) = 1 \<longleftrightarrow> sn p = e + 1"
    using dist_eq_iff [of e "sn p" "e + 1"] by (simp add: sn_dist_def)
  have rest: "sn_dist e (sn p) < sn_dist e (sn q)" if "q \<in> set ps" for q
    using assms that by (simp add: pending_sorted_def)
  have sorted: "sorted_wrt (\<lambda>p q. sn_dist (e + 1) (sn p) < sn_dist (e + 1) (sn q)) (p # ps)"
  proof (rule sorted_wrt_mono_rel)
    show "sorted_wrt (\<lambda>p q. sn_dist e (sn p) < sn_dist e (sn q)) (p # ps)"
      using assms by (simp add: pending_sorted_def)
  next
    fix x y
    assume "x \<in> set (p # ps)" "y \<in> set (p # ps)" "sn_dist e (sn x) < sn_dist e (sn y)"
    then show "sn_dist (e + 1) (sn x) < sn_dist (e + 1) (sn y)"
      using pos [of x] step by simp
  qed
  moreover have "sn_dist (e + 1) (sn q) < 2 ^ 31" if "q \<in> set (p # ps)" for q
    using assms that step [OF that] by (auto simp: pending_sorted_def)
  moreover have "0 < sn_dist (e + 1) (sn q)" if "q \<in> set (if sn p = e + 1 then ps else p # ps)" for q
  proof (cases "q \<in> set ps")
    case True
    then show ?thesis
      using rest step pos [of p] by fastforce
  next
    case False
    then show ?thesis
      using that step [of p] pos [of p] head by (simp split: if_splits)
  qed
  ultimately show ?thesis
    by (simp add: pending_sorted_def)
qed

lemma due_run_rest:
  assumes "pending_sorted sn e ps"
  defines "k \<equiv> due_run sn (e + 1) ps"
  shows "pending_sorted sn (e + 1 + of_nat k) (drop k ps)"
  using assms(1) unfolding k_def
proof (induction ps arbitrary: e)
  case Nil
  then show ?case
    by (simp add: pending_sorted_def)
next
  case (Cons p ps)
  show ?case
  proof (cases "sn p = e + 1")
    case True
    then have "pending_sorted sn (e + 1) ps"
      using pending_sorted_next [OF Cons.prems] by simp
    from Cons.IH [OF this] show ?thesis
      using True by (simp add: ac_simps)
  next
    case False
    then show ?thesis
      using pending_sorted_next [OF Cons.prems] by simp
  qed
qed

text \<open>Sorted ahead of the expected number, no command is the expected one.\<close>

lemma pending_none_due: "pending_sorted sn e ps \<Longrightarrow> e \<notin> sn ` set ps"
  by (auto simp: pending_sorted_def sn_dist_def)

section \<open>Commands are executed in the order of their numbers\<close>

text \<open>The reference: task \<open>t\<close> and then the first \<open>k\<close> of the tasks that wait, one after the other.\<close>

fun run_all :: "os_env \<Rightarrow> perform \<Rightarrow> nat \<Rightarrow> u32 \<Rightarrow> nat \<Rightarrow> nat list \<Rightarrow> nat \<Rightarrow> iscsi_world \<Rightarrow> iscsi_world option" where
  "run_all env perf s sn t ps 0 w = iscsi_task_execute env perf t (upd_session s (\<lambda>ss. ss\<lparr>ss_exp_cmd_sn := sn + 1\<rparr>) w)"
| "run_all env perf s sn t (p # ps) (Suc k) w =
     do { w1 \<leftarrow> iscsi_task_execute env perf t (upd_session s (\<lambda>ss. ss\<lparr>ss_exp_cmd_sn := sn + 1\<rparr>) w);
          run_all env perf s (sn + 1) p ps k
            (upd_task p (\<lambda>tk. tk\<lparr>tk_pending := False\<rparr>) (upd_session s (\<lambda>ss. ss\<lparr>ss_pending_cmd_list := ps\<rparr>) w1)) }"
| "run_all env perf s sn t [] (Suc k) w = None"

text \<open>One execution with its bookkeeping.\<close>

lemma execute_next:
  assumes "iscsi_task_execute env perf t (upd_session s (\<lambda>ss. ss\<lparr>ss_exp_cmd_sn := n\<rparr>) w) = Some w1"
    and "conns_open w" "get_session s w = Some ss"
  shows "get_session s w1 = Some (ss\<lparr>ss_exp_cmd_sn := n\<rparr>)" "task_numbers w1 = task_numbers w" "conns_open w1"
proof -
  have f: "exec_frame (upd_session s (\<lambda>ss. ss\<lparr>ss_exp_cmd_sn := n\<rparr>) w) w1"
    using task_execute_frame [OF assms(1)] assms(2) by simp
  show "get_session s w1 = Some (ss\<lparr>ss_exp_cmd_sn := n\<rparr>)"
    using frame_get_session [OF f, of s] assms(3) by simp
  show "task_numbers w1 = task_numbers w"
    using frame_task_numbers [OF f] by simp
  show "conns_open w1"
    using exec_frame_open [OF f] assms(2) by simp
qed

lemma run_in_order_run_all:
  assumes "conns_open w" "get_session s w = Some ss"
  shows "run_in_order env perf s t n w =
    run_all env perf s n t (ss_pending_cmd_list ss) (due_run (task_cmd_sn w) (n + 1) (ss_pending_cmd_list ss)) w"
  using assms
proof (induction "ss_pending_cmd_list ss" arbitrary: t n w ss)
  case Nil
  show ?case
    by (subst run_in_order.simps)
      (auto simp: execute_next(1) [OF _ Nil.prems] simp flip: Nil.hyps split: Option.bind_splits)
next
  case (Cons p ps)
  let ?exec = "iscsi_task_execute env perf t (upd_session s (\<lambda>ss. ss\<lparr>ss_exp_cmd_sn := n + 1\<rparr>) w)"
  show ?case
  proof (cases ?exec)
    case None
    then show ?thesis
      by (subst run_in_order.simps) (simp flip: Cons.hyps(2))
  next
    case (Some w1)
    note nx = execute_next [OF Some Cons.prems]
    have sn: "task_cmd_sn w1 = task_cmd_sn w"
      by (rule task_cmd_sn_eq) (rule nx(2))
    let ?w2 = "upd_task p (\<lambda>tk. tk\<lparr>tk_pending := False\<rparr>) (upd_session s (\<lambda>ss. ss\<lparr>ss_pending_cmd_list := ps\<rparr>) w1)"
    have "run_in_order env perf s p (n + 1) ?w2 = run_all env perf s (n + 1) p ps (due_run (task_cmd_sn ?w2) (n + 1 + 1) ps) ?w2"
      using Cons.hyps(1) [of "ss\<lparr>ss_exp_cmd_sn := n + 1, ss_pending_cmd_list := ps\<rparr>" ?w2] nx by simp
    moreover have "task_cmd_sn ?w2 = task_cmd_sn w"
      by (rule task_cmd_sn_eq) (simp add: nx(2))
    ultimately show ?thesis
      by (subst run_in_order.simps) (simp add: Some nx(1) sn flip: Cons.hyps(2))
  qed
qed

lemma run_all_result:
  assumes "run_all env perf s n t ps k w = Some w'" "conns_open w" "get_session s w = Some ss" "ss_pending_cmd_list ss = ps"
  shows "\<exists>ss'. get_session s w' = Some ss' \<and> ss_exp_cmd_sn ss' = n + 1 + of_nat k \<and> ss_pending_cmd_list ss' = drop k ps \<and>
    task_numbers w' = task_numbers w"
  using assms
proof (induction env perf s n t ps k w arbitrary: ss rule: run_all.induct)
  case (1 env perf s n t ps w)
  then show ?case
    using execute_next [of env perf t s "n + 1" w w' ss] by simp
next
  case (2 env perf s n t p ps k w)
  obtain w1 where w1: "iscsi_task_execute env perf t (upd_session s (\<lambda>ss. ss\<lparr>ss_exp_cmd_sn := n + 1\<rparr>) w) = Some w1"
    using 2(2) by (auto split: Option.bind_splits)
  note nx = execute_next [OF w1 2(3,4)]
  show ?case
    using 2(1) [OF w1, of "ss\<lparr>ss_exp_cmd_sn := n + 1, ss_pending_cmd_list := ps\<rparr>"] 2(2) w1 nx by (simp add: ac_simps)
qed simp


lemma task_numbers_some: "task_numbers w p \<noteq> None \<longleftrightarrow> get_task p w \<noteq> None"
  by (simp add: task_numbers_def)

lemma order_inv_iff:
  assumes "get_session s w = Some ss"
  shows "order_inv s w \<longleftrightarrow> pending_sorted (task_cmd_sn w) (ss_exp_cmd_sn ss) (ss_pending_cmd_list ss) \<and>
    (\<forall>p\<in>set (ss_pending_cmd_list ss). task_numbers w p \<noteq> None)"
  unfolding order_inv_def assms using task_numbers_some by auto

text \<open>The session after a run of commands, and after a command was put on the list.\<close>

definition order_kept :: "nat \<Rightarrow> iscsi_world \<Rightarrow> u32 \<Rightarrow> bool" where
  "order_kept s w' e \<longleftrightarrow> order_inv s w' \<and>
     (\<exists>ss'. get_session s w' = Some ss' \<and> ss_exp_cmd_sn ss' = e \<and> e \<notin> task_cmd_sn w' ` set (ss_pending_cmd_list ss'))"

lemma order_kept_sorted:
  assumes "get_session s w' = Some ss'" "task_numbers w' = task_numbers w"
    and "pending_sorted (task_cmd_sn w) (ss_exp_cmd_sn ss') (ss_pending_cmd_list ss')"
    and "\<And>p. p \<in> set (ss_pending_cmd_list ss') \<Longrightarrow> task_numbers w p \<noteq> None"
  shows "order_kept s w' (ss_exp_cmd_sn ss')"
proof -
  have "task_cmd_sn w' = task_cmd_sn w"
    by (rule task_cmd_sn_eq) (rule assms(2))
  then show ?thesis
    using assms pending_none_due by (auto simp: order_kept_def order_inv_iff [OF assms(1)])
qed

lemma run_all_order_kept:
  assumes "run_all env perf s e t ps (due_run (task_cmd_sn w) (e + 1) ps) w = Some w'" "conns_open w"
    and "get_session s w = Some ss" "ss_pending_cmd_list ss = ps" "pending_sorted (task_cmd_sn w) e ps"
    and "\<And>p. p \<in> set ps \<Longrightarrow> task_numbers w p \<noteq> None"
  shows "order_kept s w' (e + 1 + of_nat (due_run (task_cmd_sn w) (e + 1) ps))"
proof -
  obtain ss' where ss': "get_session s w' = Some ss'" "ss_exp_cmd_sn ss' = e + 1 + of_nat (due_run (task_cmd_sn w) (e + 1) ps)"
      "ss_pending_cmd_list ss' = drop (due_run (task_cmd_sn w) (e + 1) ps) ps" "task_numbers w' = task_numbers w"
    using run_all_result [OF assms(1-4)] by auto
  show ?thesis
    unfolding ss'(2) [symmetric]
    by (rule order_kept_sorted [OF ss'(1,4)])
      (use due_run_rest [OF assms(5)] assms(6) in \<open>auto simp: ss'(2,3) dest: in_set_dropD\<close>)
qed

lemma insert_order_kept:
  assumes "get_session s w = Some ss" "pending_sorted (task_cmd_sn w) (ss_exp_cmd_sn ss) (ss_pending_cmd_list ss)"
    and "\<And>p. p \<in> set (ss_pending_cmd_list ss) \<Longrightarrow> task_numbers w p \<noteq> None" "task_numbers w t \<noteq> None"
    and "task_cmd_sn w t \<noteq> ss_exp_cmd_sn ss" "\<not> before (task_cmd_sn w t) (ss_exp_cmd_sn ss)"
    and "task_cmd_sn w t \<notin> task_cmd_sn w ` set (ss_pending_cmd_list ss)"
  defines "w' \<equiv> upd_task t (\<lambda>tk. tk\<lparr>tk_pending := True\<rparr>)
    (upd_session s (\<lambda>ss. ss\<lparr>ss_pending_cmd_list := pending_insert (task_cmd_sn w) t (ss_pending_cmd_list ss)\<rparr>) w)"
  shows "order_kept s w' (ss_exp_cmd_sn ss)"
proof -
  have "get_session s w' = Some (ss\<lparr>ss_pending_cmd_list := pending_insert (task_cmd_sn w) t (ss_pending_cmd_list ss)\<rparr>)"
    and "task_numbers w' = task_numbers w"
    using assms(1) by (simp_all add: w'_def)
  from order_kept_sorted [OF this] show ?thesis
    using pending_sorted_insert [OF assms(2)] ahead_dist [OF assms(5,6)] assms(3,4,7) by auto
qed

text \<open>
  C8. A session executes its commands in the order of their numbers, however they arrive. A
  command (not an immediate one) with the expected number is executed, followed by exactly
  those waiting commands whose numbers continue it without a gap, in that order; the
  expected number is then the one after the last of them, and no command with that number
  is left waiting. A command before the expected number is refused. Any other command
  waits. In every case the commands that wait stay sorted by their distance from
  the expected number, across the wrap-around of the 32-bit numbers. Numbers of waiting
  commands have to be different and all connections open.
\<close>

theorem commands_in_order:
  assumes "order_inv s w" "conns_open w" "get_session s w = Some ss"
    and "get_task t w = Some task" "get_conn (tk_conn task) w = Some conn" "cn_session conn = Some s"
    and "h_opcode (tk_req task) AND ISCSI_OP_IMMEDIATE = 0"
    and "h_statsn (tk_req task) \<notin> task_cmd_sn w ` set (ss_pending_cmd_list ss)"
  defines "sn \<equiv> h_statsn (tk_req task)" and "ps \<equiv> ss_pending_cmd_list ss" and "e \<equiv> ss_exp_cmd_sn ss"
  shows "(sn = e \<longrightarrow> iscsi_task_queue env perf t w =
        map_option (\<lambda>w'. (0, w')) (run_all env perf s sn t ps (due_run (task_cmd_sn w) (sn + 1) ps) w)) \<and>
    (before sn e \<longrightarrow> iscsi_task_queue env perf t w = Some (- EINVAL, w)) \<and>
    (sn \<noteq> e \<and> \<not> before sn e \<longrightarrow> (\<exists>w' ss'. iscsi_task_queue env perf t w = Some (0, w') \<and>
       get_session s w' = Some ss' \<and> set (ss_pending_cmd_list ss') = insert t (set ps))) \<and>
    (\<forall>err w'. iscsi_task_queue env perf t w = Some (err, w') \<longrightarrow>
       order_kept s w' (if sn = e then e + 1 + of_nat (due_run (task_cmd_sn w) (e + 1) ps) else e) \<and>
       (err = 0 \<longleftrightarrow> \<not> before sn e))"
proof -
  have sorted: "pending_sorted (task_cmd_sn w) e ps" and alive: "\<And>p. p \<in> set ps \<Longrightarrow> task_numbers w p \<noteq> None"
    using assms(1) order_inv_iff [OF assms(3)] by (auto simp: ps_def e_def)
  have snt: "task_cmd_sn w t = sn" and t: "task_numbers w t \<noteq> None"
    using assms(4) by (simp_all add: task_cmd_sn_def task_numbers_def sn_def)
  have queue: "iscsi_task_queue env perf t w =
      (if sn = e then do { w1 \<leftarrow> run_in_order env perf s t sn w; Some (0, w1) }
       else if before sn e then Some (- EINVAL, w)
       else Some (0, upd_task t (\<lambda>tk. tk\<lparr>tk_pending := True\<rparr>)
              (upd_session s (\<lambda>ss. ss\<lparr>ss_pending_cmd_list := pending_insert (task_cmd_sn w) t (ss_pending_cmd_list ss)\<rparr>) w)))"
    using assms(3-7) by (simp add: iscsi_task_queue_def sn_def e_def)
  have run: "iscsi_task_queue env perf t w =
      map_option (\<lambda>w'. (0, w')) (run_all env perf s sn t ps (due_run (task_cmd_sn w) (sn + 1) ps) w)" if "sn = e"
    using queue that run_in_order_run_all [OF assms(2,3)] by (simp add: ps_def map_option_case split: Option.bind_splits option.splits)
  have "order_kept s w' (if sn = e then e + 1 + of_nat (due_run (task_cmd_sn w) (e + 1) ps) else e) \<and> (err = 0 \<longleftrightarrow> \<not> before sn e)"
    if q: "iscsi_task_queue env perf t w = Some (err, w')" for err w'
  proof (cases "sn = e")
    case True
    then show ?thesis
      using q run run_all_order_kept [OF _ assms(2,3) ps_def [symmetric, THEN meta_eq_to_obj_eq] sorted alive] by auto
  next
    case False
    then show ?thesis
      using q queue order_kept_sorted [OF assms(3) refl] insert_order_kept [OF assms(3), of t] sorted alive snt t assms(8)
      by (auto simp: ps_def e_def sn_def split: if_splits)
  qed
  then show ?thesis
    using run queue assms(3) by (auto simp: ps_def)
qed

text \<open>A session that expects number 5, with 5 just received and 6 and 8 waiting.\<close>

definition ex_order_task :: "nat \<Rightarrow> u32 \<Rightarrow> iscsi_task" where
  "ex_order_task t sn = \<lparr>tk_id = t, tk_req = zero_hdr\<lparr>h_statsn := sn, h_itt := sn\<rparr>, tk_tag = sn, tk_conn = 3, tk_pending = (sn \<noteq> 5),
     tk_in_scsi = False, tk_result = 0, tk_len = 0, tk_offset = 0, tk_r2t_count = 0, tk_unsol_count = False, tk_exp_r2tsn = 0,
     tk_ahs = [], tk_data = [], tk_scmd = zero_scmd\<rparr>"

definition ex_order_session :: iscsi_session where
  "ex_order_session = \<lparr>ss_id = 4, ss_refcount = 1, ss_initiator = ''i'', ss_initiator_alias = None, ss_target = 1, ss_isid = replicate 6 0,
     ss_tsih = 1, ss_conn_list = [3], ss_conn_cnt = 1, ss_cmd_list = [], ss_pending_cmd_list = [11, 12], ss_exp_cmd_sn = 5,
     ss_max_queue_cmd = 128, ss_session_param = [], ss_info = [], ss_rdma = False\<rparr>"

definition ex_order_conn :: iscsi_connection where
  "ex_order_conn = (conn_init 3)\<lparr>cn_state := STATE_SCSI, cn_session := Some 4\<rparr>"

definition ex_order :: iscsi_world where
  "ex_order = ex_world\<lparr>iw_sessions := [ex_order_session], iw_conns := [ex_order_conn],
     iw_tasks := [ex_order_task 10 5, ex_order_task 11 6, ex_order_task 12 8], iw_events := []\<rparr>"

lemma ex_order_facts:
  "get_session 4 ex_order = Some ex_order_session" "get_task 10 ex_order = Some (ex_order_task 10 5)"
  "get_task 11 ex_order = Some (ex_order_task 11 6)" "get_task 12 ex_order = Some (ex_order_task 12 8)"
  "get_conn 3 ex_order = Some ex_order_conn" "conns_open ex_order"
  "cn_session ex_order_conn = Some 4" "ss_pending_cmd_list ex_order_session = [11, 12]" "ss_exp_cmd_sn ex_order_session = 5"
  by (simp_all add: ex_order_def ex_order_session_def ex_order_task_def ex_order_conn_def get_session_def get_task_def get_conn_def
      conns_open_def conn_init_def)

lemma ex_order_task_facts [simp]: "h_statsn (tk_req (ex_order_task t sn)) = sn" "h_opcode (tk_req (ex_order_task t sn)) = 0"
  "tk_conn (ex_order_task t sn) = 3"
  by (simp_all add: ex_order_task_def zero_hdr_def)

theorem commands_in_order_witness:
  "order_inv 4 ex_order \<and> conns_open ex_order \<and>
   iscsi_task_queue ex_env (\<lambda>_. None) 10 ex_order =
     map_option (\<lambda>w'. (0, w')) (run_all ex_env (\<lambda>_. None) 4 5 10 [11, 12] 1 ex_order)"
proof -
  have inv: "order_inv 4 ex_order"
    by (simp add: order_inv_def ex_order_facts pending_sorted_def task_cmd_sn_def sn_dist_def)
  have "due_run (task_cmd_sn ex_order) (5 + 1) [11, 12] = 1"
    by (simp add: task_cmd_sn_def ex_order_facts)
  moreover have "5 \<notin> task_cmd_sn ex_order ` set [11, 12]"
    by (simp add: task_cmd_sn_def ex_order_facts)
  ultimately show ?thesis
    using commands_in_order [OF inv, of ex_order_session 10 "ex_order_task 10 5" ex_order_conn ex_env "\<lambda>_. None"] inv
    by (simp add: ex_order_facts)
qed

end
