(* ===== verification/Iscsi_Io.thy ===== *)
theory Iscsi_Io
  imports Iscsi_Task
begin

text \<open>
  The byte transfer of the iSCSI daemon (\<open>do_recv\<close>, \<open>iscsi_rx_handler\<close>, \<open>do_send\<close> and
  \<open>iscsi_tx_handler\<close> of \<open>usr/iscsi/iscsid.c\<close>, the statistics of \<open>usr/iscsi/conn.c\<close>) and the TCP
  transport around it (\<open>usr/iscsi/iscsi_tcp.c\<close>): the event handler of a connection, accepting a
  connection and the pings of idle connections.

  The cases of the two \<open>switch\<close> statements are one definition each. A case falls through to
  the next, or jumps back to the \<open>switch\<close>, only when \<open>rx_iostate\<close> (\<open>tx_iostate\<close>) names the case
  it goes to, so a case says whether the statement goes on and the loop dispatches on the
  state again. A call of \<open>read\<close> or \<open>write\<close> takes the next answer of the socket.
\<close>

unbundle bit_operations_syntax

section \<open>The socket\<close>

text \<open>\<open>Recv_data []\<close> is the end of the stream; without an answer \<open>read\<close> says \<open>EAGAIN\<close>.\<close>

datatype recv = Recv_data bytes | Recv_again | Recv_fail
datatype send = Send_bytes nat | Send_again | Send_fail

record sock =
  sk_reads :: "recv list"
  sk_writes :: "send list"
  sk_sent :: bytes

definition next_read :: "sock \<Rightarrow> recv \<times> sock" where
  "next_read sk = (case sk_reads sk of [] \<Rightarrow> (Recv_again, sk) | r # rs \<Rightarrow> (r, sk\<lparr>sk_reads := rs\<rparr>))"

section \<open>Statistics\<close>

definition iscsi_update_conn_stats_rx :: "nat \<Rightarrow> u8 option \<Rightarrow> iscsi_stats \<Rightarrow> iscsi_stats" where
  "iscsi_update_conn_stats_rx sz opcode st =
     (let st1 = st\<lparr>rxdata_octets := rxdata_octets st + of_nat sz\<rparr> in
      if opcode = Some ISCSI_OP_SCSI_CMD then st1\<lparr>scsicmd_pdus := scsicmd_pdus st1 + 1\<rparr>
      else if opcode = Some ISCSI_OP_SCSI_DATA_OUT then st1\<lparr>dataout_pdus := dataout_pdus st1 + 1\<rparr>
      else st1)"

definition iscsi_update_conn_stats_tx :: "nat \<Rightarrow> u8 option \<Rightarrow> iscsi_stats \<Rightarrow> iscsi_stats" where
  "iscsi_update_conn_stats_tx sz opcode st =
     (let st1 = st\<lparr>txdata_octets := txdata_octets st + of_nat sz\<rparr> in
      if opcode = Some ISCSI_OP_SCSI_DATA_IN then st1\<lparr>datain_pdus := datain_pdus st1 + 1\<rparr>
      else if opcode = Some ISCSI_OP_SCSI_CMD_RSP then st1\<lparr>scsirsp_pdus := scsirsp_pdus st1 + 1\<rparr>
      else st1)"

definition upd_stats :: "nat \<Rightarrow> (iscsi_stats \<Rightarrow> iscsi_stats) \<Rightarrow> iscsi_world \<Rightarrow> iscsi_world" where
  "upd_stats c f w = upd_io c (\<lambda>io. io\<lparr>io_stats := f (io_stats io)\<rparr>) w"

section \<open>Memory that incoming bytes go to\<close>

definition write_ptr :: "nat \<Rightarrow> rx_ptr \<Rightarrow> bytes \<Rightarrow> iscsi_world \<Rightarrow> iscsi_world option" where
  "write_ptr c p bs w =
     do { conn \<leftarrow> get_conn c w;
          (let io = cn_io conn in
           case p of
             Rx_null \<Rightarrow> None
           | Rx_bhs n \<Rightarrow> map_option (\<lambda>b. upd_io c (\<lambda>io. io\<lparr>io_bhs := b\<rparr>) w) (write_at (io_bhs io) n bs)
           | Rx_req_buffer n \<Rightarrow> map_option (\<lambda>b. upd_io c (\<lambda>io. io\<lparr>io_req_buffer := b\<rparr>) w) (write_at (io_req_buffer io) n bs)
           | Rx_digest n \<Rightarrow> map_option (\<lambda>b. upd_io c (\<lambda>io. io\<lparr>io_rx_digest := b\<rparr>) w) (write_at (io_rx_digest io) n bs)
           | Rx_task_ahs t n \<Rightarrow>
               do { task \<leftarrow> get_task t w; b \<leftarrow> write_at (tk_ahs task) n bs; Some (upd_task t (\<lambda>tk. tk\<lparr>tk_ahs := b\<rparr>) w) }
           | Rx_task_data t n \<Rightarrow>
               do { task \<leftarrow> get_task t w; b \<leftarrow> write_at (tk_data task) n bs; Some (upd_task t (\<lambda>tk. tk\<lparr>tk_data := b\<rparr>) w) }) }"

definition read_buf :: "bytes \<Rightarrow> nat \<Rightarrow> nat \<Rightarrow> bytes option" where
  "read_buf b n len = (if n + len \<le> length b then Some (take len (drop n b)) else None)"

definition read_ptr :: "nat \<Rightarrow> rx_ptr \<Rightarrow> nat \<Rightarrow> iscsi_world \<Rightarrow> bytes option" where
  "read_ptr c p len w =
     do { conn \<leftarrow> get_conn c w;
          (let io = cn_io conn in
           case p of
             Rx_null \<Rightarrow> None
           | Rx_bhs n \<Rightarrow> read_buf (io_bhs io) n len
           | Rx_req_buffer n \<Rightarrow> read_buf (io_req_buffer io) n len
           | Rx_digest n \<Rightarrow> read_buf (io_rx_digest io) n len
           | Rx_task_ahs t n \<Rightarrow> do { task \<leftarrow> get_task t w; read_buf (tk_ahs task) n len }
           | Rx_task_data t n \<Rightarrow> do { task \<leftarrow> get_task t w; read_buf (tk_data task) n len }) }"

fun ptr_add :: "nat \<Rightarrow> rx_ptr \<Rightarrow> rx_ptr" where
  "ptr_add k Rx_null = Rx_null"
| "ptr_add k (Rx_bhs n) = Rx_bhs (n + k)"
| "ptr_add k (Rx_req_buffer n) = Rx_req_buffer (n + k)"
| "ptr_add k (Rx_digest n) = Rx_digest (n + k)"
| "ptr_add k (Rx_task_ahs t n) = Rx_task_ahs t (n + k)"
| "ptr_add k (Rx_task_data t n) = Rx_task_data t (n + k)"

section \<open>Receiving\<close>

definition set_state :: "nat \<Rightarrow> int \<Rightarrow> iscsi_world \<Rightarrow> iscsi_world" where
  "set_state c st w = upd_conn c (\<lambda>conn. conn\<lparr>cn_state := st\<rparr>) w"

definition set_rx :: "nat \<Rightarrow> iostate \<Rightarrow> iscsi_world \<Rightarrow> iscsi_world" where
  "set_rx c st w = upd_conn c (\<lambda>conn. conn\<lparr>cn_rx_iostate := st\<rparr>) w"

definition conn_read_pdu :: "nat \<Rightarrow> iscsi_world \<Rightarrow> iscsi_world" where
  "conn_read_pdu c w = upd_io c (\<lambda>io. io\<lparr>io_rx_buffer := Rx_bhs 0, io_rx_size := BHS_SIZE\<rparr>) (set_rx c IOSTATE_RX_BHS w)"

abbreviation (input) "EIO \<equiv> 5 :: int"

text \<open>The result is what the code returns: the number of bytes, 0 or \<open>-EIO\<close>.\<close>

definition do_recv :: "nat \<Rightarrow> iostate \<Rightarrow> sock \<Rightarrow> iscsi_world \<Rightarrow> (int \<times> sock \<times> iscsi_world) option" where
  "do_recv c next_state sk w =
     do { conn \<leftarrow> get_conn c w;
          (let io = cn_io conn; (r, sk1) = next_read sk in
           case r of
             Recv_again \<Rightarrow> Some (0, sk1, w)
           | Recv_fail \<Rightarrow> Some (- EIO, sk1, w)
           | Recv_data bs0 \<Rightarrow>
               let bs = take (io_rx_size io) bs0 in
               if bs = [] then Some (0, sk1, set_state c STATE_CLOSE w)
               else
                 do { w1 \<leftarrow> write_ptr c (io_rx_buffer io) bs w;
                      conn1 \<leftarrow> get_conn c w1;
                      (let opcode = (if cn_rx_iostate conn = IOSTATE_RX_BHS
                                     then Some (byte_at (io_bhs (cn_io conn1)) 0 AND ISCSI_OPCODE_MASK) else None);
                           left = io_rx_size io - length bs;
                           w2 = upd_stats c (iscsi_update_conn_stats_rx (length bs) opcode)
                                  (upd_io c (\<lambda>io. io\<lparr>io_rx_size := left, io_rx_buffer := ptr_add (length bs) (io_rx_buffer io)\<rparr>) w1)
                       in Some (int (length bs), sk1, if left = 0 then set_rx c next_state w2 else w2)) }) }"

text \<open>What a case of the \<open>switch\<close> does next: the following case, the end of the statement with \<open>ret\<close>, or \<open>return\<close>.\<close>

datatype rx_next = Rx_fall | Rx_break int | Rx_return

type_synonym rx_step = "sock \<Rightarrow> iscsi_world \<Rightarrow> (rx_next \<times> sock \<times> iscsi_world) option"

text \<open>A case that receives bytes and goes on when all of them, and then the state \<open>next_state\<close>, are there.\<close>

definition rx_receive :: "nat \<Rightarrow> iostate \<Rightarrow> (iostate \<Rightarrow> bool) \<Rightarrow> rx_step" where
  "rx_receive c next_state goes_on sk w =
     do { (ret, sk1, w1) \<leftarrow> do_recv c next_state sk w;
          conn \<leftarrow> get_conn c w1;
          Some (if ret \<le> 0 \<or> \<not> goes_on (cn_rx_iostate conn) then Rx_break ret else Rx_fall, sk1, w1) }"

text \<open>The header is complete: \<open>req.bhs\<close> has its value.\<close>

definition parse_req :: "nat \<Rightarrow> iscsi_world \<Rightarrow> iscsi_world" where
  "parse_req c w = upd_conn c (\<lambda>conn. conn\<lparr>cn_req := (cn_req conn)\<lparr>pd_bhs := parse_hdr (io_bhs (cn_io conn))\<rparr>\<rparr>) w"

definition rx_init_ahs :: "os_env \<Rightarrow> nat \<Rightarrow> bool \<Rightarrow> rx_step" where
  "rx_init_ahs env c hdigest sk w0 =
     (let w = parse_req c w0 in
      do { conn \<leftarrow> get_conn c w;
           (let bhs = pd_bhs (cn_req conn); ahssize = unat (h_hlength bhs) * 4; scsi = (cn_state conn = STATE_SCSI) in
            do { (ret, w1) \<leftarrow>
                   (if scsi then iscsi_task_rx_start env c w
                    else Some (0, upd_io c (\<lambda>io. io\<lparr>io_rx_buffer := Rx_req_buffer 0, io_req_ahs := Rx_req_buffer 0,
                                                   io_req_data := Rx_req_buffer ahssize\<rparr>) w));
                 if ret \<noteq> 0 then Some (Rx_break ret, sk, set_state c STATE_CLOSE w1)
                 else
                   (let w2 = upd_io c (\<lambda>io. io\<lparr>io_ahssize := ahssize, io_datasize := unat (ntoh24 (h_dlength bhs)), io_rx_size := ahssize\<rparr>) w1 in
                    if \<not> scsi \<and> ahssize > INCOMING_BUFSIZE then Some (Rx_return, sk, set_state c STATE_CLOSE w2)
                    else if ahssize \<noteq> 0 then
                      Some (Rx_fall, sk, set_rx c IOSTATE_RX_AHS (upd_io c (\<lambda>io. io\<lparr>io_rx_buffer := io_req_ahs io\<rparr>) w2))
                    else if hdigest then Some (Rx_break ret, sk, set_rx c IOSTATE_RX_INIT_HDIGEST w2)
                    else Some (Rx_fall, sk, set_rx c IOSTATE_RX_INIT_DATA w2)) }) })"

definition rx_init_digest :: "nat \<Rightarrow> iostate \<Rightarrow> rx_step" where
  "rx_init_digest c st sk w =
     Some (Rx_fall, sk, set_rx c st (upd_io c (\<lambda>io. io\<lparr>io_rx_buffer := Rx_digest 0, io_rx_size := 4\<rparr>) w))"

definition le32_at :: "bytes \<Rightarrow> u32" where
  "le32_at b = ucast (byte_at b 0) OR push_bit 8 (ucast (byte_at b 1)) OR push_bit 16 (ucast (byte_at b 2)) OR push_bit 24 (ucast (byte_at b 3))"

definition le32_bytes :: "u32 \<Rightarrow> bytes" where
  "le32_bytes v = [ucast v, ucast (drop_bit 8 v), ucast (drop_bit 16 v), ucast (drop_bit 24 v)]"

definition pdu_digest :: "bytes \<Rightarrow> u32" where
  "pdu_digest bs = NOT (crc32c_le (NOT 0) bs)"

definition rx_check_hdigest :: "nat \<Rightarrow> rx_step" where
  "rx_check_hdigest c sk w =
     do { conn \<leftarrow> get_conn c w;
          (let io = cn_io conn in
           do { ahs \<leftarrow> (if io_ahssize io = 0 then Some [] else read_ptr c (io_req_ahs io) (io_ahssize io) w);
                Some (Rx_fall, sk, set_rx c IOSTATE_RX_INIT_DATA
                  (if le32_at (io_rx_digest io) \<noteq> pdu_digest (io_bhs io @ ahs) then set_state c STATE_CLOSE w else w)) }) }"

definition roundup_pad :: "nat \<Rightarrow> nat" where
  "roundup_pad n = (n + 3) div 4 * 4"

definition rx_init_data :: "nat \<Rightarrow> rx_step" where
  "rx_init_data c sk w =
     do { conn \<leftarrow> get_conn c w;
          (let io = cn_io conn;
               sz = roundup_pad (io_datasize io);
               w1 = upd_io c (\<lambda>io. io\<lparr>io_rx_size := sz\<rparr>) w
           in if sz = 0 then Some (Rx_break 0, sk, set_rx c IOSTATE_RX_END w1)
              else
                (let w2 = set_rx c IOSTATE_RX_DATA (upd_io c (\<lambda>io. io\<lparr>io_rx_buffer := io_req_data io\<rparr>) w1) in
                 if cn_state conn \<noteq> STATE_SCSI \<and> io_ahssize io + sz > INCOMING_BUFSIZE
                 then Some (Rx_return, sk, set_state c STATE_CLOSE w2)
                 else Some (Rx_fall, sk, w2))) }"

definition rx_check_ddigest :: "nat \<Rightarrow> rx_step" where
  "rx_check_ddigest c sk w =
     do { conn \<leftarrow> get_conn c w;
          (let io = cn_io conn; w1 = set_rx c IOSTATE_RX_END w in
           do { d \<leftarrow> read_ptr c (io_req_data io) (roundup_pad (io_datasize io)) w;
                Some (Rx_break 0, sk, if le32_at (io_rx_digest io) \<noteq> pdu_digest d then set_state c STATE_CLOSE w1 else w1) }) }"

definition rx_case :: "os_env \<Rightarrow> nat \<Rightarrow> bool \<Rightarrow> bool \<Rightarrow> iostate \<Rightarrow> rx_step" where
  "rx_case env c hdigest ddigest st sk w =
     (let after_hdr = (if hdigest then IOSTATE_RX_INIT_HDIGEST else IOSTATE_RX_INIT_DATA);
          after_data = (if ddigest then IOSTATE_RX_INIT_DDIGEST else IOSTATE_RX_END)
      in case st of
        IOSTATE_RX_BHS \<Rightarrow> rx_receive c IOSTATE_RX_INIT_AHS (\<lambda>s. s = IOSTATE_RX_INIT_AHS) sk w
      | IOSTATE_RX_INIT_AHS \<Rightarrow> rx_init_ahs env c hdigest sk w
      | IOSTATE_RX_AHS \<Rightarrow> rx_receive c after_hdr (\<lambda>s. s = IOSTATE_RX_INIT_DATA \<or> s = IOSTATE_RX_INIT_HDIGEST) sk w
      | IOSTATE_RX_INIT_HDIGEST \<Rightarrow> rx_init_digest c IOSTATE_RX_HDIGEST sk w
      | IOSTATE_RX_HDIGEST \<Rightarrow> rx_receive c IOSTATE_RX_CHECK_HDIGEST (\<lambda>s. s = IOSTATE_RX_CHECK_HDIGEST) sk w
      | IOSTATE_RX_CHECK_HDIGEST \<Rightarrow> rx_check_hdigest c sk w
      | IOSTATE_RX_INIT_DATA \<Rightarrow> rx_init_data c sk w
      | IOSTATE_RX_DATA \<Rightarrow> rx_receive c after_data (\<lambda>s. s = IOSTATE_RX_INIT_DDIGEST) sk w
      | IOSTATE_RX_INIT_DDIGEST \<Rightarrow> rx_init_digest c IOSTATE_RX_DDIGEST sk w
      | IOSTATE_RX_DDIGEST \<Rightarrow> rx_receive c IOSTATE_RX_CHECK_DDIGEST (\<lambda>s. s = IOSTATE_RX_CHECK_DDIGEST) sk w
      | IOSTATE_RX_CHECK_DDIGEST \<Rightarrow> rx_check_ddigest c sk w
      | _ \<Rightarrow> None)"

text \<open>The result is \<open>ret\<close> at the end of the \<open>switch\<close>, or \<open>None\<close> inside when the handler returned.\<close>

partial_function (option) rx_switch ::
  "os_env \<Rightarrow> nat \<Rightarrow> bool \<Rightarrow> bool \<Rightarrow> sock \<Rightarrow> iscsi_world \<Rightarrow> (int option \<times> sock \<times> iscsi_world) option" where
  "rx_switch env c hdigest ddigest sk w =
     do { conn \<leftarrow> get_conn c w;
          (nx, sk1, w1) \<leftarrow> rx_case env c hdigest ddigest (cn_rx_iostate conn) sk w;
          (case nx of
             Rx_fall \<Rightarrow> rx_switch env c hdigest ddigest sk1 w1
           | Rx_break ret \<Rightarrow> Some (Some ret, sk1, w1)
           | Rx_return \<Rightarrow> Some (None, sk1, w1)) }"

definition conn_digest :: "nat \<Rightarrow> iscsi_connection \<Rightarrow> bool" where
  "conn_digest i conn \<longleftrightarrow> cn_state conn = STATE_SCSI \<and> p_val (cn_session_param conn ! i) AND 2 \<noteq> 0"

text \<open>The text of a request is what the buffer holds after its additional headers.\<close>

definition login_req :: "iscsi_connection \<Rightarrow> iscsi_connection" where
  "login_req conn =
     (let io = cn_io conn in
      conn\<lparr>cn_req := (cn_req conn)\<lparr>pd_ahs := take (io_ahssize io) (io_req_buffer io),
                        pd_data := take (io_datasize io) (drop (io_ahssize io) (io_req_buffer io))\<rparr>\<rparr>)"

text \<open>What the handler does with a complete PDU.\<close>

definition rx_pdu_done :: "os_env \<Rightarrow> perform \<Rightarrow> nat \<Rightarrow> iscsi_world \<Rightarrow> iscsi_world option" where
  "rx_pdu_done env perf c w =
     do { conn \<leftarrow> get_conn c w;
          if cn_state conn = STATE_SCSI then
            do { (ret, w1) \<leftarrow> iscsi_task_rx_done env perf c w;
                 Some (if ret \<noteq> 0 then set_state c STATE_CLOSE w1 else conn_read_pdu c w1) }
          else
            (let w1 = ep_event_modify c EPOLLOUT (upd_conn c (\<lambda>conn. conn_write_pdu (login_req conn)) w) in
             do { conn1 \<leftarrow> get_conn c w1;
                  (unsupported, w2, conn2) \<leftarrow> cmnd_execute perf env w1 conn1;
                  Some (upd_conn c (\<lambda>_. if unsupported then conn2\<lparr>cn_state := STATE_CLOSE\<rparr> else conn2) w2) }) }"

definition iscsi_rx_handler :: "os_env \<Rightarrow> perform \<Rightarrow> nat \<Rightarrow> sock \<Rightarrow> iscsi_world \<Rightarrow> (sock \<times> iscsi_world) option" where
  "iscsi_rx_handler env perf c sk w =
     do { conn \<leftarrow> get_conn c w;
          (res, sk1, w1) \<leftarrow> rx_switch env c (conn_digest ISCSI_PARAM_HDRDGST_EN conn) (conn_digest ISCSI_PARAM_DATADGST_EN conn) sk w;
          conn1 \<leftarrow> get_conn c w1;
          (case res of
             None \<Rightarrow> Some (sk1, w1)
           | Some ret \<Rightarrow>
               if ret < 0 \<or> cn_rx_iostate conn1 \<noteq> IOSTATE_RX_END \<or> cn_state conn1 = STATE_CLOSE then Some (sk1, w1)
               else if io_rx_size (cn_io conn1) \<noteq> 0 then None
               else do { w2 \<leftarrow> rx_pdu_done env perf c w1; Some (sk1, w2) }) }"

section \<open>Sending\<close>

definition set_tx :: "nat \<Rightarrow> iostate \<Rightarrow> iscsi_world \<Rightarrow> iscsi_world" where
  "set_tx c st w = upd_conn c (\<lambda>conn. conn\<lparr>cn_tx_iostate := st\<rparr>) w"

text \<open>
  \<open>write\<close> is called until everything is sent: a socket that takes nothing (\<open>EAGAIN\<close>) is asked
  again at once. The result is the number of bytes sent with each successful call, and
  whether all were sent; \<open>None\<close> when the answers of the socket end before.
\<close>

fun send_loop :: "send list \<Rightarrow> nat \<Rightarrow> (nat list \<times> bool \<times> send list) option" where
  "send_loop [] n = None"
| "send_loop (Send_again # ws) n = send_loop ws n"
| "send_loop (Send_fail # ws) n = Some ([], False, ws)"
| "send_loop (Send_bytes k # ws) n =
     (if n \<le> k then Some ([n], True, ws)
      else do { (ks, done, ws') \<leftarrow> send_loop ws (n - k); Some (k # ks, done, ws') })"

text \<open>The opcode that the statistics are given is that of the request.\<close>

definition do_send :: "nat \<Rightarrow> bytes \<Rightarrow> iostate \<Rightarrow> sock \<Rightarrow> iscsi_world \<Rightarrow> (bool \<times> sock \<times> iscsi_world) option" where
  "do_send c buf next_state sk w =
     do { conn \<leftarrow> get_conn c w;
          (ks, done, ws) \<leftarrow> send_loop (sk_writes sk) (length buf);
          (let opcode = (if cn_tx_iostate conn = IOSTATE_TX_BHS then Some (byte_at (io_bhs (cn_io conn)) 0 AND ISCSI_OPCODE_MASK) else None);
               sk1 = sk\<lparr>sk_writes := ws, sk_sent := sk_sent sk @ take (sum_list ks) buf\<rparr>;
               w1 = upd_stats c (\<lambda>st. fold (\<lambda>k. iscsi_update_conn_stats_tx k opcode) ks st)
                      (upd_io c (\<lambda>io. io\<lparr>io_tx_buffer := drop (sum_list ks) buf\<rparr>) w)
           in Some (done, sk1, if done then set_tx c next_state w1 else set_state c STATE_CLOSE w1)) }"

text \<open>
  The padding: \<open>memset\<close> clears the bytes after the data in the buffer that the data is in,
  which for Data-In is the buffer of the command, for a status its sense buffer and for a
  ping the data of the task. The buffer of a text response has the room.
\<close>

definition pad_len :: "nat \<Rightarrow> nat" where
  "pad_len n = (if n mod 4 = 0 then 0 else 4 - n mod 4)"

definition tx_pad :: "nat \<Rightarrow> iscsi_world \<Rightarrow> iscsi_world option" where
  "tx_pad c w =
     do { conn \<leftarrow> get_conn c w;
          (let n = length (pd_data (cn_rsp conn)); zeros = replicate (pad_len n) 0; op = hdr_op (pd_bhs (cn_rsp conn)) in
           if zeros = [] then Some w
           else (case cn_tx_task conn of
                   None \<Rightarrow> Some w
                 | Some t \<Rightarrow>
                     do { task \<leftarrow> get_task t w;
                          (let scmd = tk_scmd task in
                           if op = ISCSI_OP_SCSI_DATA_IN then
                             map_option (\<lambda>b. upd_task t (\<lambda>tk. tk\<lparr>tk_scmd := set_in_buffer b scmd\<rparr>) w)
                               (write_at (sdb_buffer (in_sdb scmd)) (unat (tk_offset task)) zeros)
                           else if op = ISCSI_OP_SCSI_CMD_RSP then
                             map_option (\<lambda>b. upd_task t (\<lambda>tk. tk\<lparr>tk_scmd := scmd\<lparr>sense_buffer := b\<rparr>\<rparr>) w)
                               (write_at (sense_buffer scmd) n zeros)
                           else map_option (\<lambda>b. upd_task t (\<lambda>tk. tk\<lparr>tk_data := b\<rparr>) w) (write_at (tk_data task) n zeros)) })) }"

definition padded_data :: "iscsi_connection \<Rightarrow> bytes" where
  "padded_data conn = (let d = pd_data (cn_rsp conn) in d @ replicate (pad_len (length d)) 0)"

text \<open>The flag \<open>Tx_break\<close> carries is \<open>ret \<ge> 0\<close>; \<open>Tx_out\<close> is the jump to \<open>out\<close>.\<close>

datatype tx_next = Tx_fall | Tx_break bool | Tx_out

type_synonym tx_step = "sock \<Rightarrow> iscsi_world \<Rightarrow> (tx_next \<times> sock \<times> iscsi_world) option"

definition tx_init_ahs :: "nat \<Rightarrow> iostate \<Rightarrow> tx_step" where
  "tx_init_ahs c after_hdr sk w =
     do { conn \<leftarrow> get_conn c w;
          if pd_ahs (cn_rsp conn) \<noteq> [] then Some (Tx_fall, sk, set_tx c IOSTATE_TX_AHS w)
          else Some (Tx_break True, sk, set_tx c after_hdr w) }"

text \<open>The additional headers themselves are not sent.\<close>

definition tx_ahs :: "nat \<Rightarrow> iostate \<Rightarrow> tx_step" where
  "tx_ahs c after_hdr sk w =
     Some (if after_hdr = IOSTATE_TX_INIT_HDIGEST then Tx_fall else Tx_break True, sk, set_tx c after_hdr w)"

definition tx_init_digest :: "nat \<Rightarrow> (iscsi_connection \<Rightarrow> bytes) \<Rightarrow> iostate \<Rightarrow> tx_step" where
  "tx_init_digest c covered st sk w =
     do { conn \<leftarrow> get_conn c w;
          Some (Tx_fall, sk, set_tx c st (upd_io c (\<lambda>io. io\<lparr>io_tx_digest := le32_bytes (pdu_digest (covered conn))\<rparr>) w)) }"

definition tx_init_data :: "nat \<Rightarrow> tx_step" where
  "tx_init_data c sk w =
     do { conn \<leftarrow> get_conn c w;
          if pd_data (cn_rsp conn) = [] then Some (Tx_break True, sk, set_tx c IOSTATE_TX_END w)
          else do { w1 \<leftarrow> tx_pad c w; Some (Tx_fall, sk, set_tx c IOSTATE_TX_DATA w1) } }"

definition tx_send :: "nat \<Rightarrow> bytes \<Rightarrow> iostate \<Rightarrow> tx_next \<Rightarrow> tx_next \<Rightarrow> tx_step" where
  "tx_send c buf next_state sent failed sk w =
     do { (done, sk1, w1) \<leftarrow> do_send c buf next_state sk w;
          Some (if done then sent else failed, sk1, w1) }"

definition tx_case :: "nat \<Rightarrow> bool \<Rightarrow> bool \<Rightarrow> iscsi_connection \<Rightarrow> tx_step" where
  "tx_case c hdigest ddigest conn sk w =
     (let after_hdr = (if hdigest then IOSTATE_TX_INIT_HDIGEST else IOSTATE_TX_INIT_DATA) in
      case cn_tx_iostate conn of
        IOSTATE_TX_BHS \<Rightarrow> tx_send c (hdr_bytes (pd_bhs (cn_rsp conn))) IOSTATE_TX_INIT_AHS Tx_fall (Tx_break False) sk w
      | IOSTATE_TX_INIT_AHS \<Rightarrow> tx_init_ahs c after_hdr sk w
      | IOSTATE_TX_AHS \<Rightarrow> tx_ahs c after_hdr sk w
      | IOSTATE_TX_INIT_HDIGEST \<Rightarrow> tx_init_digest c (\<lambda>conn. hdr_bytes (pd_bhs (cn_rsp conn))) IOSTATE_TX_HDIGEST sk w
      | IOSTATE_TX_HDIGEST \<Rightarrow> tx_send c (io_tx_digest (cn_io conn)) IOSTATE_TX_INIT_DATA Tx_fall (Tx_break False) sk w
      | IOSTATE_TX_INIT_DATA \<Rightarrow> tx_init_data c sk w
      | IOSTATE_TX_DATA \<Rightarrow>
          if ddigest then tx_send c (padded_data conn) IOSTATE_TX_INIT_DDIGEST Tx_fall Tx_out sk w
          else tx_send c (padded_data conn) IOSTATE_TX_END (Tx_break True) Tx_out sk w
      | IOSTATE_TX_INIT_DDIGEST \<Rightarrow> tx_init_digest c padded_data IOSTATE_TX_DDIGEST sk w
      | IOSTATE_TX_DDIGEST \<Rightarrow> tx_send c (io_tx_digest (cn_io conn)) IOSTATE_TX_END (Tx_break True) (Tx_break False) sk w
      | _ \<Rightarrow> None)"

partial_function (option) tx_switch :: "nat \<Rightarrow> bool \<Rightarrow> bool \<Rightarrow> sock \<Rightarrow> iscsi_world \<Rightarrow> (bool \<times> sock \<times> iscsi_world) option" where
  "tx_switch c hdigest ddigest sk w =
     do { conn \<leftarrow> get_conn c w;
          (nx, sk1, w1) \<leftarrow> tx_case c hdigest ddigest conn sk w;
          (case nx of
             Tx_fall \<Rightarrow> tx_switch c hdigest ddigest sk1 w1
           | Tx_break ok \<Rightarrow> Some (ok, sk1, w1)
           | Tx_out \<Rightarrow> Some (False, sk1, w1)) }"

text \<open>From the label \<open>finish\<close>.\<close>

definition tx_pdu_done :: "perform \<Rightarrow> nat \<Rightarrow> iscsi_world \<Rightarrow> iscsi_world option" where
  "tx_pdu_done perf c w =
     (let w1 = upd_conn c cmnd_finish w in
      do { conn \<leftarrow> get_conn c w1;
           (let st = cn_state conn; next_req = (\<lambda>w'. ep_event_modify c EPOLLIN (conn_read_pdu c w')) in
            if st = STATE_KERNEL then
              do { s \<leftarrow> cn_session conn; Some (next_req (set_state c STATE_SCSI (conn_take_fd s w1))) }
            else if st = STATE_EXIT \<or> st = STATE_CLOSE then Some w1
            else if st = STATE_SCSI then iscsi_task_tx_done perf c w1
            else Some (next_req w1)) })"

definition iscsi_tx_handler :: "perform \<Rightarrow> nat \<Rightarrow> sock \<Rightarrow> iscsi_world \<Rightarrow> (sock \<times> iscsi_world) option" where
  "iscsi_tx_handler perf c sk w =
     do { conn \<leftarrow> get_conn c w;
          (let hdigest = conn_digest ISCSI_PARAM_HDRDGST_EN conn; ddigest = conn_digest ISCSI_PARAM_DATADGST_EN conn in
           do { (ready, w1) \<leftarrow> (if cn_state conn = STATE_SCSI \<and> cn_tx_task conn = None then iscsi_task_tx_start c w else Some (True, w));
                if \<not> ready then Some (sk, w1)
                else
                  do { (ok, sk1, w2) \<leftarrow> tx_switch c hdigest ddigest sk w1;
                       conn2 \<leftarrow> get_conn c w2;
                       if \<not> ok \<or> cn_state conn2 = STATE_CLOSE \<or> cn_tx_iostate conn2 \<noteq> IOSTATE_TX_END then Some (sk1, w2)
                       else do { w3 \<leftarrow> tx_pdu_done perf c w2; Some (sk1, w3) } } }) }"

section \<open>The TCP transport\<close>

text \<open>A connection that came in: it is refused while there is no target.\<close>

definition accept_connection :: "bool \<Rightarrow> iscsi_world \<Rightarrow> iscsi_world" where
  "accept_connection system_available w =
     (if \<not> system_available \<or> iw_targets w = [] then w
      else (let c = iw_next w in
            ep_event_modify c EPOLLIN (conn_read_pdu c (w\<lparr>iw_conns := conn_init c # iw_conns w, iw_next := c + 1\<rparr>))))"

text \<open>What the core says while the connection is closed is delivered afterwards.\<close>

definition close_conn :: "perform \<Rightarrow> nat \<Rightarrow> iscsi_world \<Rightarrow> iscsi_world option" where
  "close_conn perf c w = do { w1 \<leftarrow> conn_close perf c w; deliver perf w1 }"

text \<open>\<open>None\<close> also when a handler freed the connection, whose state is read after it.\<close>

definition iscsi_tcp_event_handler :: "os_env \<Rightarrow> perform \<Rightarrow> nat \<Rightarrow> u32 \<Rightarrow> sock \<Rightarrow> iscsi_world \<Rightarrow> (sock \<times> iscsi_world) option" where
  "iscsi_tcp_event_handler env perf c events sk w =
     do { (sk1, w1) \<leftarrow> (if events AND EPOLLIN \<noteq> 0 then iscsi_rx_handler env perf c sk w else Some (sk, w));
          conn1 \<leftarrow> get_conn c w1;
          (sk2, w2) \<leftarrow> (if cn_state conn1 \<noteq> STATE_CLOSE \<and> events AND EPOLLOUT \<noteq> 0 then iscsi_tx_handler perf c sk1 w1 else Some (sk1, w1));
          conn2 \<leftarrow> get_conn c w2;
          if cn_state conn2 = STATE_CLOSE then do { w3 \<leftarrow> close_conn perf c w2; Some (sk2, w3) } else Some (sk2, w2) }"

text \<open>A ping is a task that is in no list but the one of what is to be sent.\<close>

definition iscsi_send_ping_nop_in :: "nat \<Rightarrow> u32 \<Rightarrow> iscsi_world \<Rightarrow> iscsi_world" where
  "iscsi_send_ping_nop_in c ttt w =
     (let t = iw_next w;
          task = \<lparr>tk_id = t, tk_req = zero_hdr\<lparr>h_opcode := ISCSI_OP_NOOP_IN, h_itt := ISCSI_RESERVED_TAG, h_ttt := ttt\<rparr>,
                  tk_tag = ISCSI_RESERVED_TAG, tk_conn = c, tk_pending = False, tk_in_scsi = False, tk_result = 0, tk_len = 0,
                  tk_offset = 0, tk_r2t_count = 0, tk_unsol_count = False, tk_exp_r2tsn = 0, tk_ahs = [], tk_data = [], tk_scmd = zero_scmd\<rparr>
      in ep_event_modify c EPOLLIN_OUT (tx_clist_add_tail c t (w\<lparr>iw_tasks := task # iw_tasks w, iw_next := t + 1\<rparr>)))"

text \<open>The loop over the connections; the first that does not answer is closed and ends it.\<close>

fun nop_loop :: "perform \<Rightarrow> nat list \<Rightarrow> iscsi_world \<Rightarrow> iscsi_world option" where
  "nop_loop perf [] w = Some w"
| "nop_loop perf (c # cs) w =
     do { conn \<leftarrow> get_conn c w;
          if cn_nop_interval conn = 0 then nop_loop perf cs w
          else if cn_nop_tick conn - 1 > 0
          then nop_loop perf cs (upd_conn c (\<lambda>conn. conn\<lparr>cn_nop_tick := cn_nop_tick conn - 1\<rparr>) w)
          else
            (let n = cn_nop_inflight_count conn + 1;
                 w1 = upd_conn c (\<lambda>conn. conn\<lparr>cn_nop_tick := cn_nop_interval conn, cn_nop_inflight_count := n\<rparr>) w
             in if n > cn_nop_count conn then close_conn perf c w1
                else
                  (let ttt = (if iw_nop_ttt w + 1 = ISCSI_RESERVED_TAG then 1 else iw_nop_ttt w + 1) in
                   nop_loop perf cs (iscsi_send_ping_nop_in c ttt
                     (upd_conn c (\<lambda>conn. conn\<lparr>cn_nop_ttt := ttt\<rparr>) (w1\<lparr>iw_nop_ttt := ttt\<rparr>))))) }"

definition iscsi_tcp_nop_work_handler :: "perform \<Rightarrow> iscsi_world \<Rightarrow> iscsi_world option" where
  "iscsi_tcp_nop_work_handler perf w = nop_loop perf (map cn_id (iw_conns w)) w"

definition upd_iscsi_target :: "int \<Rightarrow> (iscsi_target \<Rightarrow> iscsi_target) \<Rightarrow> iscsi_world \<Rightarrow> int \<times> iscsi_world" where
  "upd_iscsi_target t f w =
     (if t \<in> it_tid ` set (iw_targets w) then (0, w\<lparr>iw_targets := lupdate it_tid t f (iw_targets w)\<rparr>) else (- 1, w))"

definition iscsi_update_target_nop_count :: "int \<Rightarrow> int \<Rightarrow> iscsi_world \<Rightarrow> int \<times> iscsi_world" where
  "iscsi_update_target_nop_count t count = upd_iscsi_target t (\<lambda>it. it\<lparr>it_nop_count := count\<rparr>)"

definition iscsi_update_target_nop_interval :: "int \<Rightarrow> int \<Rightarrow> iscsi_world \<Rightarrow> int \<times> iscsi_world" where
  "iscsi_update_target_nop_interval t interval = upd_iscsi_target t (\<lambda>it. it\<lparr>it_nop_interval := interval\<rparr>)"

section \<open>Transport identifiers\<close>

text \<open>
  The name of the initiator port for persistent reservations: the length it needs, and the
  buffer, which is written only when it has that size.
\<close>

definition iscsi_transportid :: "u64 \<Rightarrow> nat \<Rightarrow> iscsi_world \<Rightarrow> nat \<times> bytes option" where
  "iscsi_transportid nid sz w =
     (case session_lookup_by_tsih (ucast nid) w of
        None \<Rightarrow> (0, None)
      | Some ss \<Rightarrow>
          let len = roundup_pad ((4 + length (ss_initiator ss) + 1 + 5 + 7) mod 65536) mod 65536 in
          if len > sz then (len, None)
          else (len, Some (put_bytes (put_bytes (replicate sz 0) 0 ([0x45, 0] @ be16_bytes (of_nat (len - 4)) @ str_bytes (ss_initiator ss) @ [0]))
                  (4 + length (ss_initiator ss) + 1) (str_bytes '',i,0x'' @ ss_isid ss))))"


end
