(* ===== verification/Iscsi_Data_Thms.thy ===== *)
theory Iscsi_Data_Thms
  imports Iscsi_Io
begin

text \<open>
  The data a read command sends back: the Data-In PDUs of a task, built and padded one after
  the other, carry the command's buffer piece by piece; and what goes wrong when the length
  the initiator takes is not a multiple of four.
\<close>

unbundle bit_operations_syntax

section \<open>Tasks, connections and header words\<close>

lemma lfind_lupdate_at:
  "(\<And>x. key x = k \<Longrightarrow> key (f x) = k) \<Longrightarrow> lfind key k (lupdate key k f xs) = map_option f (lfind key k xs)"
  by (induction xs) (auto simp: lupdate_def)

lemma get_upd_simps [simp]:
  "get_task t (upd_conn c g w) = get_task t w" "get_conn c (upd_task t h w) = get_conn c w"
  "get_session s (upd_conn c g w) = get_session s w" "get_session s (upd_task t h w) = get_session s w"
  by (simp_all add: get_task_def get_conn_def get_session_def upd_conn_def upd_task_def)

lemma get_upd_same:
  "(\<And>x. tk_id x = t \<Longrightarrow> tk_id (h x) = t) \<Longrightarrow> get_task t (upd_task t h w) = map_option h (get_task t w)"
  "(\<And>x. cn_id x = c \<Longrightarrow> cn_id (g x) = c) \<Longrightarrow> get_conn c (upd_conn c g w) = map_option g (get_conn c w)"
  by (simp_all add: get_task_def get_conn_def upd_conn_def upd_task_def lfind_lupdate_at)

lemma get_conn_id: "get_conn c w = Some conn \<Longrightarrow> cn_id conn = c"
  using lfind_SomeD by (fastforce simp: get_conn_def)

lemma get_task_id: "get_task t w = Some task \<Longrightarrow> tk_id task = t"
  using lfind_SomeD by (fastforce simp: get_task_def)

lemma length_zero_other [simp]: "length (h_other zero_hdr) = 12"
  by (simp add: zero_hdr_def)

lemma length_set_other [simp]: "i < 3 \<Longrightarrow> length (h_other h) = 12 \<Longrightarrow> length (h_other (set_other i v h)) = 12"
  by (simp add: set_other_def)

lemma other_word_set_other [simp]:
  assumes "i < 3" "j < 3" "length (h_other h) = 12"
  shows "other_word i (set_other j v h) = (if i = j then v else other_word i h)"
proof (cases "i = j")
  case True
  then show ?thesis
    using assms be32.get_put [of "4 * j" "h_other h" v] by (simp add: other_word_def set_other_def be32.put_enc)
next
  case False
  then have "4 * i + 4 \<le> 4 * j \<or> 4 * j + 4 \<le> 4 * i"
    by linarith
  then show ?thesis
    using False assms be32.get_put_disjoint [of "4 * j" "h_other h" "4 * i" v]
    by (simp add: other_word_def set_other_def be32.put_enc)
qed

lemma set_other_fields [simp]:
  "h_opcode (set_other i v h) = h_opcode h" "h_flags (set_other i v h) = h_flags h" "h_itt (set_other i v h) = h_itt h"
  "h_dlength (set_other i v h) = h_dlength h"
  by (simp_all add: set_other_def)

lemma other_word_updates [simp]:
  "other_word i (h\<lparr>h_flags := a\<rparr>) = other_word i h" "other_word i (h\<lparr>h_dlength := b\<rparr>) = other_word i h"
  "other_word i (h\<lparr>h_rsvd2 := b\<rparr>) = other_word i h" "other_word i (h\<lparr>h_statsn := d\<rparr>) = other_word i h"
  "other_word i (rsp_cmdsn ss h) = other_word i h" "other_word i (add_flags f h) = other_word i h"
  by (simp_all add: other_word_def rsp_cmdsn_def add_flags_def)

lemma ntoh24_hton24: "v < 2 ^ 24 \<Longrightarrow> ntoh24 (hton24 v) = v"
  using be24.get_put [of 0 "replicate 3 0" v]
  by (simp add: ntoh24_def hton24_def get_unaligned_be24_def put_unaligned_be24_def put_bytes_def be24_bytes_def)

section \<open>The PDUs of a read command\<close>

text \<open>
  The Data-In PDUs of task \<open>t\<close>: as long as data is left, what \<open>iscsi_scsi_cmd_tx_start\<close> builds and
  \<open>iscsi_tx_handler\<close> pads. \<open>n\<close> bounds the number of PDUs.
\<close>

fun data_in_pdus :: "nat \<Rightarrow> nat \<Rightarrow> nat \<Rightarrow> iscsi_world \<Rightarrow> (iscsi_pdu list \<times> iscsi_world) option" where
  "data_in_pdus 0 c t w = None"
| "data_in_pdus (Suc n) c t w =
     do { task \<leftarrow> get_task t w;
          if tk_offset task < sdb_transfer_len (in_sdb (tk_scmd task)) then
            do { w1 \<leftarrow> iscsi_scsi_cmd_tx_start t w;
                 w2 \<leftarrow> tx_pad c w1;
                 conn \<leftarrow> get_conn c w2;
                 (ps, w3) \<leftarrow> data_in_pdus n c t w2;
                 Some (cn_rsp conn # ps, w3) }
          else Some ([], w) }"

text \<open>The \<open>k\<close>-th PDU of a transfer of \<open>len\<close> bytes in pieces of \<open>m\<close>; \<open>good\<close> says that the command succeeded.\<close>

definition data_in_ok :: "u32 \<Rightarrow> nat \<Rightarrow> bool \<Rightarrow> bytes \<Rightarrow> nat \<Rightarrow> bool \<Rightarrow> iscsi_pdu \<Rightarrow> bool" where
  "data_in_ok itt m good buf k is_last p \<longleftrightarrow>
     (let h = pd_bhs p in
      h_opcode h = ISCSI_OP_SCSI_DATA_IN \<and> h_itt h = itt \<and> other_word 0 h = of_nat k \<and> other_word 1 h = of_nat (k * m) \<and>
      pd_data p = take m (drop (k * m) buf) \<and> ntoh24 (h_dlength h) = of_nat (length (pd_data p)) \<and>
      (bit (h_flags h) 7 \<longleftrightarrow> is_last) \<and> (bit (h_flags h) 0 \<longleftrightarrow> is_last \<and> good))"

fun data_in_seq :: "u32 \<Rightarrow> nat \<Rightarrow> bool \<Rightarrow> bytes \<Rightarrow> nat \<Rightarrow> iscsi_pdu list \<Rightarrow> bool" where
  "data_in_seq itt m good buf k [] \<longleftrightarrow> length buf \<le> k * m"
| "data_in_seq itt m good buf k (p # ps) \<longleftrightarrow>
     k * m < length buf \<and> data_in_ok itt m good buf k (ps = []) p \<and> data_in_seq itt m good buf (Suc k) ps"

lemma data_in_seq_concat:
  "data_in_seq itt m good buf k ps \<Longrightarrow> concat (map pd_data ps) = drop (k * m) buf"
proof (induction ps arbitrary: k)
  case (Cons p ps)
  have "concat (map pd_data ps) = drop m (drop (k * m) buf)"
    using Cons.IH [of "Suc k"] Cons.prems by simp
  moreover have "pd_data p = take m (drop (k * m) buf)"
    using Cons.prems by (simp add: data_in_ok_def Let_def)
  ultimately show ?case
    by (simp add: append_take_drop_id del: drop_drop)
qed simp

lemma sint_small: "unat (x :: u32) < 2 ^ 31 \<Longrightarrow> sint x = int (unat x)"
proof -
  assume "unat x < 2 ^ 31"
  then have "uint x < 2 ^ 31"
    by (simp add: nat_less_iff flip: nat_uint_eq)
  moreover have "- (2 ^ 31) \<le> uint x"
    using uint_ge_0 [of x] by (rule order_trans [rotated]) simp
  ultimately show ?thesis
    by (simp add: sint_uint signed_take_bit_int_eq_self)
qed

text \<open>A task that sends the data of a read command over its connection.\<close>

definition reading :: "nat \<Rightarrow> nat \<Rightarrow> u32 \<Rightarrow> u32 \<Rightarrow> bool \<Rightarrow> nat \<Rightarrow> bytes \<Rightarrow> nat \<Rightarrow> nat \<Rightarrow> iscsi_world \<Rightarrow> bool" where
  "reading c t itt m good len buf off k w \<longleftrightarrow>
     (\<exists>task conn ss. get_task t w = Some task \<and> tk_conn task = c \<and> tk_tag task = itt \<and> tk_offset task = of_nat off \<and>
        tk_exp_r2tsn task = of_nat k \<and> data_dir (tk_scmd task) = DATA_READ \<and> (c_result (tk_scmd task) = SAM_STAT_GOOD \<longleftrightarrow> good) \<and>
        unat (sdb_transfer_len (in_sdb (tk_scmd task))) = len \<and> roundup_pad len \<le> length (sdb_buffer (in_sdb (tk_scmd task))) \<and>
        take len (sdb_buffer (in_sdb (tk_scmd task))) = buf \<and>
        get_conn c w = Some conn \<and> cn_tx_task conn = Some t \<and> conn_session conn w = Some ss \<and>
        p_val (cn_session_param conn ! ISCSI_PARAM_MAX_XMIT_DLENGTH) = m)"

lemma rsp_cmdsn_fields [simp]:
  "h_opcode (rsp_cmdsn ss h) = h_opcode h" "h_flags (rsp_cmdsn ss h) = h_flags h" "h_itt (rsp_cmdsn ss h) = h_itt h"
  "h_other (rsp_cmdsn ss h) = h_other h"
  by (simp_all add: rsp_cmdsn_def)

lemma data_rsp_residual_fields [simp]:
  "h_opcode (iscsi_set_data_rsp_residual scmd h) = h_opcode h" "h_itt (iscsi_set_data_rsp_residual scmd h) = h_itt h"
  "bit (h_flags (iscsi_set_data_rsp_residual scmd h)) 7 = bit (h_flags h) 7"
  "bit (h_flags (iscsi_set_data_rsp_residual scmd h)) 0 = bit (h_flags h) 0"
  "i < 2 \<Longrightarrow> length (h_other h) = 12 \<Longrightarrow> other_word i (iscsi_set_data_rsp_residual scmd h) = other_word i h"
  by (simp_all add: iscsi_set_data_rsp_residual_def Let_def add_flags_def bit_or_iff bit_simps)

lemma roundup_pad_props: "n \<le> roundup_pad n" "roundup_pad n = n + pad_len n"
  by (auto simp: roundup_pad_def pad_len_def) presburger+

text \<open>What \<open>iscsi_data_rsp_build\<close> does to a task that has sent \<open>off\<close> bytes.\<close>

lemma data_rsp_build_result:
  assumes r: "get_task t w = Some task" "get_conn (tk_conn task) w = Some conn" "conn_session conn w = Some ss"
    and off: "tk_offset task = of_nat off" "off < len" "unat (sdb_transfer_len (in_sdb (tk_scmd task))) = len" "len < 2 ^ 31"
    and buf: "len \<le> length (sdb_buffer (in_sdb (tk_scmd task)))" "data_dir (tk_scmd task) = DATA_READ"
    and m: "p_val (cn_session_param conn ! ISCSI_PARAM_MAX_XMIT_DLENGTH) = m" "unat m < 2 ^ 24"
  defines "d \<equiv> min (unat m) (len - off)"
  shows "\<exists>h sn. iscsi_data_rsp_build t w = Some (upd_conn (tk_conn task)
      (\<lambda>_. set_rsp h (take d (drop off (sdb_buffer (in_sdb (tk_scmd task))))) (conn\<lparr>cn_stat_sn := sn\<rparr>))
      (upd_task t (\<lambda>tk. tk\<lparr>tk_exp_r2tsn := tk_exp_r2tsn tk + 1, tk_offset := tk_offset tk + of_nat d\<rparr>) w)) \<and>
    h_opcode h = ISCSI_OP_SCSI_DATA_IN \<and> h_itt h = tk_tag task \<and> other_word 0 h = tk_exp_r2tsn task \<and> other_word 1 h = of_nat off \<and>
    ntoh24 (h_dlength h) = of_nat d \<and> (bit (h_flags h) 7 \<longleftrightarrow> len \<le> off + unat m) \<and>
    (bit (h_flags h) 0 \<longleftrightarrow> len \<le> off + unat m \<and> c_result (tk_scmd task) = SAM_STAT_GOOD)"
proof -
  let ?scmd = "tk_scmd task"
  define rest where "rest = sdb_transfer_len (in_sdb ?scmd) - (of_nat off :: u32)"
  have o: "unat (of_nat off :: u32) = off"
    using off by (simp add: unat_of_nat)
  then have rest: "unat rest = len - off"
    using off by (simp add: rest_def unat_sub_if')
  then have le: "sint rest \<le> sint m \<longleftrightarrow> len \<le> off + unat m"
  proof -
    have "sint rest = int (len - off)" "sint m = int (unat m)"
      using rest off(4) m(2) by (simp_all add: sint_small)
    then have "sint rest \<le> sint m \<longleftrightarrow> len - off \<le> unat m"
      by (simp only: of_nat_le_iff)
    then show ?thesis
      by (simp only: le_diff_conv add.commute)
  qed
  have d: "d = (if len \<le> off + unat m then unat rest else unat m)"
    using rest by (auto simp: d_def)
  have ud: "unat (of_nat d :: u32) = d"
    using m by (simp add: d_def unat_of_nat)
  have d24: "(of_nat d :: u32) < 2 ^ 24"
    using m ud by (simp add: word_less_nat_alt d_def)
  have room: "\<not> off + d > length (sdb_buffer (in_sdb ?scmd))"
    using buf off by (simp add: d_def)
  define status where "status \<longleftrightarrow> len \<le> off + unat m \<and> c_result ?scmd = SAM_STAT_GOOD"
  define h0 where "h0 = set_other 1 (of_nat off) (set_other 0 (tk_exp_r2tsn task)
    (zero_hdr\<lparr>h_opcode := ISCSI_OP_SCSI_DATA_IN, h_itt := tk_tag task, h_ttt := ISCSI_RESERVED_TAG,
       h_flags := (if len \<le> off + unat m then ISCSI_FLAG_CMD_FINAL else 0)\<rparr>))"
  define h1 where "h1 = (if status then iscsi_set_data_rsp_residual ?scmd ((add_flags ISCSI_FLAG_DATA_STATUS h0)
    \<lparr>h_rsvd2 := [0, of_int (c_result ?scmd)], h_statsn := cn_stat_sn conn\<rparr>) else h0)"
  define h where "h = (rsp_cmdsn ss h1)\<lparr>h_dlength := hton24 (of_nat d)\<rparr>"
  define sn where "sn = (if status then cn_stat_sn conn + 1 else cn_stat_sn conn)"
  have "iscsi_data_rsp_build t w = Some (upd_conn (tk_conn task)
      (\<lambda>_. set_rsp h (take d (drop off (sdb_buffer (in_sdb (tk_scmd task))))) (conn\<lparr>cn_stat_sn := sn\<rparr>))
      (upd_task t (\<lambda>tk. tk\<lparr>tk_exp_r2tsn := tk_exp_r2tsn tk + 1, tk_offset := tk_offset tk + of_nat d\<rparr>) w))"
    using r m(1) buf(2) room
    by (cases "len \<le> off + unat m")
       (simp_all add: iscsi_data_rsp_build_def Let_def off(1) rest_def [symmetric] le o d h_def h1_def h0_def sn_def status_def)
  moreover have "h_opcode h = ISCSI_OP_SCSI_DATA_IN \<and> h_itt h = tk_tag task \<and> other_word 0 h = tk_exp_r2tsn task \<and>
      other_word 1 h = of_nat off \<and> ntoh24 (h_dlength h) = of_nat d"
    using d24 by (simp add: h_def h1_def h0_def add_flags_def ntoh24_hton24)
  moreover have "(bit (h_flags h) 7 \<longleftrightarrow> len \<le> off + unat m) \<and> (bit (h_flags h) 0 \<longleftrightarrow> status)"
    by (auto simp: h_def h1_def h0_def add_flags_def bit_or_iff bit_simps status_def)
  ultimately show ?thesis
    unfolding status_def by blast
qed

lemma upd_task_id: "upd_task t (\<lambda>x. x) w = w"
  by (simp add: upd_task_def lupdate_def)

lemma set_in_buffer_same [simp]: "set_in_buffer (sdb_buffer (in_sdb scmd)) scmd = scmd"
  by (simp add: set_in_buffer_def)

text \<open>The padding of a Data-In PDU lands in the command's buffer after the data sent so far.\<close>

lemma tx_pad_data_in:
  assumes "get_conn c w = Some conn" "h_opcode (pd_bhs (cn_rsp conn)) = ISCSI_OP_SCSI_DATA_IN" "cn_tx_task conn = Some t"
    and "get_task t w = Some task" "unat (tk_offset task) = e"
    and "e + pad_len (length (pd_data (cn_rsp conn))) \<le> length (sdb_buffer (in_sdb (tk_scmd task)))"
  shows "\<exists>f. tx_pad c w = Some (upd_task t f w) \<and> (\<forall>x. tk_id (f x) = tk_id x) \<and>
    f task = task\<lparr>tk_scmd := set_in_buffer (put_bytes (sdb_buffer (in_sdb (tk_scmd task))) e
      (replicate (pad_len (length (pd_data (cn_rsp conn)))) 0)) (tk_scmd task)\<rparr>"
proof (cases "pad_len (length (pd_data (cn_rsp conn)))")
  case 0
  then have "tx_pad c w = Some (upd_task t (\<lambda>x. x) w)"
    using assms(1) by (simp add: tx_pad_def upd_task_id)
  then show ?thesis
    using 0 by (intro exI [of _ "\<lambda>x. x"]) simp
next
  case (Suc j)
  have op: "hdr_op (pd_bhs (cn_rsp conn)) = ISCSI_OP_SCSI_DATA_IN"
    by (simp add: hdr_op_def assms(2))
  let ?b = "put_bytes (sdb_buffer (in_sdb (tk_scmd task))) e (replicate (Suc j) 0)"
  have "write_at (sdb_buffer (in_sdb (tk_scmd task))) e (replicate (Suc j) 0) = Some ?b"
    using assms(6) Suc by (simp add: write_at_Some)
  then have "tx_pad c w = Some (upd_task t (\<lambda>tk. tk\<lparr>tk_scmd := set_in_buffer ?b (tk_scmd task)\<rparr>) w)"
    using assms Suc op by (simp add: tx_pad_def Let_def)
  then show ?thesis
    using Suc by (intro exI [of _ "\<lambda>tk. tk\<lparr>tk_scmd := set_in_buffer ?b (tk_scmd task)\<rparr>"]) simp
qed

text \<open>One PDU of a task that sends read data, when its padding stays within the buffer.\<close>

lemma reading_send:
  assumes rd: "reading c t itt m good len buf off k w" and task: "get_task t w = Some task"
    and off: "off < len" and m: "unat m < 2 ^ 24" and len: "len < 2 ^ 31"
  defines "d \<equiv> min (unat m) (len - off)" and "b \<equiv> sdb_buffer (in_sdb (tk_scmd task))"
  assumes fits: "off + d + pad_len d \<le> length b"
  obtains h w1 w2 conn where "iscsi_scsi_cmd_tx_start t w = Some w1" "tx_pad c w1 = Some w2"
    "get_conn c w2 = Some (conn\<lparr>cn_rsp := (cn_rsp conn)\<lparr>pd_bhs := h, pd_data := take d (drop off b)\<rparr>\<rparr>)"
    "cn_tx_task conn = Some t" "conn_session conn w2 \<noteq> None" "p_val (cn_session_param conn ! ISCSI_PARAM_MAX_XMIT_DLENGTH) = m"
    "get_task t w2 = Some (task\<lparr>tk_exp_r2tsn := of_nat (Suc k), tk_offset := of_nat (off + d),
       tk_scmd := set_in_buffer (put_bytes b (off + d) (replicate (pad_len d) 0)) (tk_scmd task)\<rparr>)"
    "h_opcode h = ISCSI_OP_SCSI_DATA_IN" "h_itt h = itt" "other_word 0 h = of_nat k" "other_word 1 h = of_nat off"
    "ntoh24 (h_dlength h) = of_nat d" "bit (h_flags h) 7 \<longleftrightarrow> len \<le> off + unat m"
    "bit (h_flags h) 0 \<longleftrightarrow> len \<le> off + unat m \<and> good"
proof -
  obtain conn ss where r: "tk_conn task = c" "tk_tag task = itt" "tk_offset task = of_nat off" "tk_exp_r2tsn task = of_nat k"
      "data_dir (tk_scmd task) = DATA_READ" "c_result (tk_scmd task) = SAM_STAT_GOOD \<longleftrightarrow> good"
      "unat (sdb_transfer_len (in_sdb (tk_scmd task))) = len" "roundup_pad len \<le> length b"
      "get_conn c w = Some conn" "cn_tx_task conn = Some t" "conn_session conn w = Some ss"
      "p_val (cn_session_param conn ! ISCSI_PARAM_MAX_XMIT_DLENGTH) = m"
    using rd task by (auto simp: reading_def b_def)
  have room: "len \<le> length b"
    using r(8) roundup_pad_props(1) [of len] by simp
  obtain h sn where build: "iscsi_data_rsp_build t w = Some (upd_conn c (\<lambda>_. set_rsp h (take d (drop off b)) (conn\<lparr>cn_stat_sn := sn\<rparr>))
        (upd_task t (\<lambda>tk. tk\<lparr>tk_exp_r2tsn := tk_exp_r2tsn tk + 1, tk_offset := tk_offset tk + of_nat d\<rparr>) w))"
      and h: "h_opcode h = ISCSI_OP_SCSI_DATA_IN" "h_itt h = itt" "other_word 0 h = of_nat k" "other_word 1 h = of_nat off"
        "ntoh24 (h_dlength h) = of_nat d" "bit (h_flags h) 7 \<longleftrightarrow> len \<le> off + unat m"
        "bit (h_flags h) 0 \<longleftrightarrow> len \<le> off + unat m \<and> good"
    using data_rsp_build_result [of t w task conn ss off len m] task r off len room m unfolding d_def b_def by auto
  define conn1 where "conn1 = set_rsp h (take d (drop off b)) (conn\<lparr>cn_stat_sn := sn\<rparr>)"
  define w1 where "w1 = upd_conn c (\<lambda>_. conn1)
        (upd_task t (\<lambda>tk. tk\<lparr>tk_exp_r2tsn := tk_exp_r2tsn tk + 1, tk_offset := tk_offset tk + of_nat d\<rparr>) w)"
  define task1 where "task1 = task\<lparr>tk_exp_r2tsn := of_nat (Suc k), tk_offset := of_nat (off + d)\<rparr>"
  have start: "iscsi_scsi_cmd_tx_start t w = Some w1"
    using task r(3,5,7) off len build
    by (simp add: iscsi_scsi_cmd_tx_start_def w1_def conn1_def word_less_nat_alt unat_of_nat)
  have c1: "get_conn c w1 = Some conn1" and t1: "get_task t w1 = Some task1"
    using task r(3,4,9) get_conn_id [OF r(9)] get_task_id [OF task]
    by (simp_all add: w1_def get_upd_same conn1_def task1_def set_rsp_def ac_simps)
  have "off + d \<le> len"
    using off by (simp add: d_def)
  then have "length (take d (drop off b)) = d" "unat (of_nat (off + d) :: u32) = off + d"
    using room len by (simp_all add: unat_of_nat del: of_nat_add)
  then obtain f where pad: "tx_pad c w1 = Some (upd_task t f w1)" "\<And>x. tk_id (f x) = tk_id x"
      "f task1 = task1\<lparr>tk_scmd := set_in_buffer (put_bytes b (off + d) (replicate (pad_len d) 0)) (tk_scmd task)\<rparr>"
    using tx_pad_data_in [OF c1 _ _ t1, of "off + d"] h(1) r(10) fits
    by (auto simp: conn1_def set_rsp_def task1_def b_def simp del: of_nat_add)
  show thesis
  proof (rule that [where conn = "conn\<lparr>cn_stat_sn := sn\<rparr>"])
    show "iscsi_scsi_cmd_tx_start t w = Some w1" "tx_pad c w1 = Some (upd_task t f w1)"
      by (rule start, rule pad(1))
    show "get_conn c (upd_task t f w1) = Some ((conn\<lparr>cn_stat_sn := sn\<rparr>)\<lparr>cn_rsp := (cn_rsp (conn\<lparr>cn_stat_sn := sn\<rparr>))\<lparr>pd_bhs := h, pd_data := take d (drop off b)\<rparr>\<rparr>)"
      using c1 by (simp add: conn1_def set_rsp_def)
    show "conn_session (conn\<lparr>cn_stat_sn := sn\<rparr>) (upd_task t f w1) \<noteq> None"
      using r(11) by (simp add: conn_session_def w1_def)
  qed (use pad c1 t1 h r(10,12) in \<open>simp_all add: get_upd_same conn1_def set_rsp_def task1_def\<close>)
qed

lemma reading_step:
  assumes rd: "reading c t itt m good len buf off k w" and off: "off = k * unat m" "off < len"
    and m: "unat m < 2 ^ 24" "4 dvd unat m" and len: "len < 2 ^ 31"
  obtains w1 w2 conn where "iscsi_scsi_cmd_tx_start t w = Some w1" "tx_pad c w1 = Some w2" "get_conn c w2 = Some conn"
    "data_in_ok itt (unat m) good buf k (len \<le> off + unat m) (cn_rsp conn)"
    "reading c t itt m good len buf (min (off + unat m) len) (Suc k) w2"
proof -
  obtain task where task: "get_task t w = Some task"
    using rd by (auto simp: reading_def)
  define d where "d = min (unat m) (len - off)"
  define b where "b = sdb_buffer (in_sdb (tk_scmd task))"
  have b: "roundup_pad len \<le> length b" "take len b = buf"
    using rd task by (auto simp: reading_def b_def)
  have stop: "off + d = min (off + unat m) len" "off + d \<le> len"
    using off(2) by (auto simp: d_def)
  have whole: "pad_len d = 0 \<or> off + d = len"
    using m(2) off(2) by (auto simp: d_def min_def pad_len_def)
  have fits: "off + d + pad_len d \<le> length b"
  proof (cases "off + d = len")
    case True
    have "4 dvd off"
      using m(2) off(1) by simp
    then have "len mod 4 = d mod 4"
      unfolding True [symmetric] by (auto elim!: dvdE)
    then have "pad_len d = pad_len len"
      by (simp add: pad_len_def)
    then show ?thesis
      using True b(1) roundup_pad_props(2) [of len] by simp
  qed (use whole stop(2) b(1) roundup_pad_props(1) [of len] in simp)
  let ?b' = "put_bytes b (off + d) (replicate (pad_len d) 0)"
  have "len \<le> length b"
    using b(1) roundup_pad_props(1) [of len] by simp
  with whole have "take len ?b' = take len b"
    by (elim disjE) (simp, simp add: put_bytes_def)
  then have same: "take len ?b' = buf" "length ?b' = length b"
    using b(2) fits by simp_all
  obtain h w1 w2 conn where s: "iscsi_scsi_cmd_tx_start t w = Some w1" "tx_pad c w1 = Some w2"
    "get_conn c w2 = Some (conn\<lparr>cn_rsp := (cn_rsp conn)\<lparr>pd_bhs := h, pd_data := take d (drop off b)\<rparr>\<rparr>)"
    "cn_tx_task conn = Some t" "conn_session conn w2 \<noteq> None" "p_val (cn_session_param conn ! ISCSI_PARAM_MAX_XMIT_DLENGTH) = m"
    "get_task t w2 = Some (task\<lparr>tk_exp_r2tsn := of_nat (Suc k), tk_offset := of_nat (off + d),
       tk_scmd := set_in_buffer ?b' (tk_scmd task)\<rparr>)"
    "h_opcode h = ISCSI_OP_SCSI_DATA_IN" "h_itt h = itt" "other_word 0 h = of_nat k" "other_word 1 h = of_nat off"
    "ntoh24 (h_dlength h) = of_nat d" "bit (h_flags h) 7 \<longleftrightarrow> len \<le> off + unat m"
    "bit (h_flags h) 0 \<longleftrightarrow> len \<le> off + unat m \<and> good"
    using reading_send [OF rd task off(2) m(1) len] fits unfolding d_def b_def by metis
  show thesis
  proof (rule that [OF s(1-3)])
    show "data_in_ok itt (unat m) good buf k (len \<le> off + unat m) (cn_rsp (conn\<lparr>cn_rsp := (cn_rsp conn)\<lparr>pd_bhs := h, pd_data := take d (drop off b)\<rparr>\<rparr>))"
      using s(8-14) b off(1) stop(2) roundup_pad_props(1) [of len]
      by (auto simp: data_in_ok_def d_def drop_take min.commute)
    show "reading c t itt m good len buf (min (off + unat m) len) (Suc k) w2"
      unfolding stop(1) [symmetric] using rd task s(3-7) same b(1)
      by (auto simp: reading_def b_def set_in_buffer_def conn_session_def)
  qed
qed

lemma data_in_pdus_seq:
  assumes "reading c t itt m good len buf off k w" "off = k * unat m" "off < len" "len - off < n"
    and "0 < unat m" "unat m < 2 ^ 24" "4 dvd unat m" "len < 2 ^ 31"
  shows "\<exists>ps w'. data_in_pdus n c t w = Some (ps, w') \<and> ps \<noteq> [] \<and> data_in_seq itt (unat m) good buf k ps"
  using assms
proof (induction n arbitrary: off k w)
  case (Suc n)
  note m = Suc.prems(6,7) and len = Suc.prems(8)
  obtain w1 w2 conn where step: "iscsi_scsi_cmd_tx_start t w = Some w1" "tx_pad c w1 = Some w2" "get_conn c w2 = Some conn"
      "data_in_ok itt (unat m) good buf k (len \<le> off + unat m) (cn_rsp conn)"
      "reading c t itt m good len buf (min (off + unat m) len) (Suc k) w2"
    by (rule reading_step [OF Suc.prems(1-3) m len])
  have buf: "length buf = len"
    using Suc.prems(1) roundup_pad_props(1) [of len] by (auto simp: reading_def)
  obtain task where task: "get_task t w = Some task" "tk_offset task < sdb_transfer_len (in_sdb (tk_scmd task))"
    using Suc.prems(1,3) len by (auto simp: reading_def word_less_nat_alt unat_of_nat)
  have rest: "\<exists>ps w'. data_in_pdus n c t w2 = Some (ps, w') \<and> (ps = [] \<longleftrightarrow> len \<le> off + unat m) \<and>
    data_in_seq itt (unat m) good buf (Suc k) ps"
  proof (cases "len \<le> off + unat m")
    case True
    then obtain task2 where "get_task t w2 = Some task2" "\<not> tk_offset task2 < sdb_transfer_len (in_sdb (tk_scmd task2))"
      using step(5) len by (auto simp: reading_def word_less_nat_alt unat_of_nat)
    moreover obtain n' where "n = Suc n'"
      using Suc.prems(3,4) by (cases n) auto
    ultimately show ?thesis
      using True Suc.prems(2) buf by (simp add: ac_simps)
  next
    case False
    then have "\<exists>ps w'. data_in_pdus n c t w2 = Some (ps, w') \<and> ps \<noteq> [] \<and> data_in_seq itt (unat m) good buf (Suc k) ps"
      using Suc.IH [of "off + unat m" "Suc k" w2] step(5) Suc.prems by (simp add: min_def)
    then show ?thesis
      using False by auto
  qed
  then obtain ps w' where "data_in_pdus n c t w2 = Some (ps, w')" "ps = [] \<longleftrightarrow> len \<le> off + unat m"
      "data_in_seq itt (unat m) good buf (Suc k) ps"
    by blast
  then show ?case
    using task step(1-4) Suc.prems(2,3) buf by simp
qed simp

text \<open>
  C9. The data of a read command reaches the initiator whole and in order. Let the length
  of a PDU that the initiator takes be a multiple of four. Then building and padding the
  Data-In PDUs of the task ends, and the PDUs carry the first \<open>transfer_len\<close> bytes of the
  command's buffer, cut into pieces of that length: the \<open>k\<close>-th PDU has the data number \<open>k\<close>,
  the offset of its piece and its length, only the last one has the final bit, and only
  the last one of a command that succeeded carries the status.
\<close>

theorem read_data_delivered:
  assumes "reading c t itt m good len buf 0 0 w" "0 < len" "len < 2 ^ 31" "len < n"
    and "0 < unat m" "unat m < 2 ^ 24" "4 dvd unat m"
  shows "\<exists>ps w'. data_in_pdus n c t w = Some (ps, w') \<and> data_in_seq itt (unat m) good buf 0 ps \<and> concat (map pd_data ps) = buf"
proof -
  obtain ps w' where "data_in_pdus n c t w = Some (ps, w')" "data_in_seq itt (unat m) good buf 0 ps"
    using data_in_pdus_seq [OF assms(1), of n] assms(2-) by auto
  then show ?thesis
    using data_in_seq_concat [of itt "unat m" good buf 0 ps] by auto
qed


text \<open>Ten bytes for an initiator that takes eight (or five) at a time.\<close>

definition ex_read_task :: iscsi_task where
  "ex_read_task = \<lparr>tk_id = 10, tk_req = zero_hdr, tk_tag = 7, tk_conn = 3, tk_pending = False, tk_in_scsi = True, tk_result = 0,
     tk_len = 0, tk_offset = 0, tk_r2t_count = 0, tk_unsol_count = False, tk_exp_r2tsn = 0, tk_ahs = [], tk_data = [],
     tk_scmd = zero_scmd\<lparr>data_dir := DATA_READ, in_sdb := \<lparr>sdb_buffer = [1, 2, 3, 4, 5, 6, 7, 8, 9, 10, 0, 0], sdb_length = 10,
       sdb_transfer_len = 10, sdb_resid = 0\<rparr>\<rparr>\<rparr>"

definition ex_read_session :: iscsi_session where
  "ex_read_session = \<lparr>ss_id = 4, ss_refcount = 1, ss_initiator = ''i'', ss_initiator_alias = None, ss_target = 1, ss_isid = replicate 6 0,
     ss_tsih = 1, ss_conn_list = [3], ss_conn_cnt = 1, ss_cmd_list = [10], ss_pending_cmd_list = [], ss_exp_cmd_sn = 5,
     ss_max_queue_cmd = 128, ss_session_param = [], ss_info = [], ss_rdma = False\<rparr>"

definition ex_read_conn :: "u32 \<Rightarrow> iscsi_connection" where
  "ex_read_conn m = (conn_init 3)\<lparr>cn_state := STATE_SCSI, cn_session := Some 4, cn_tx_task := Some 10,
     cn_session_param := replicate ISCSI_PARAM_MAX \<lparr>p_state = KEY_STATE_DONE, p_val = m\<rparr>\<rparr>"

definition ex_read :: "u32 \<Rightarrow> iscsi_world" where
  "ex_read m = ex_world\<lparr>iw_sessions := [ex_read_session], iw_conns := [ex_read_conn m], iw_tasks := [ex_read_task]\<rparr>"

lemma ex_read_reading: "reading 3 10 7 m True 10 [1, 2, 3, 4, 5, 6, 7, 8, 9, 10] 0 0 (ex_read m)"
  unfolding reading_def
  by (intro exI [of _ ex_read_task] exI [of _ "ex_read_conn m"] exI [of _ ex_read_session])
     (simp add: ex_read_def ex_read_task_def ex_read_conn_def ex_read_session_def get_task_def get_conn_def conn_session_def
        get_session_def zero_scmd_def blank_cmd_def roundup_pad_def conn_init_def ISCSI_PARAM_MAX_XMIT_DLENGTH_def ISCSI_PARAM_MAX_def)

theorem read_data_delivered_witness:
  "\<exists>ps w'. data_in_pdus 11 3 10 (ex_read 8) = Some (ps, w') \<and> concat (map pd_data ps) = [1, 2, 3, 4, 5, 6, 7, 8, 9, 10]"
  using read_data_delivered [OF ex_read_reading, of 11 8] by auto

text \<open>
  C10. The padding destroys data that is still to be sent. When the length the initiator takes
  is not a multiple of four, sending a Data-In PDU that is not the last one clears up to three
  bytes of the command's buffer behind the data it sent, whatever they were; the next
  PDU carries the zeros.
\<close>

theorem padding_clears_read_data:
  assumes "reading c t itt m good len buf 0 0 w" "unat m < len" "len < 2 ^ 31" "unat m < 2 ^ 24"
    and "unat m \<le> i" "i < unat m + pad_len (unat m)" "i < len"
  shows "\<exists>w1 w2 task. iscsi_scsi_cmd_tx_start t w = Some w1 \<and> tx_pad c w1 = Some w2 \<and> get_task t w2 = Some task \<and>
    tk_offset task = m \<and> sdb_buffer (in_sdb (tk_scmd task)) ! i = 0"
proof -
  obtain task where task: "get_task t w = Some task" "roundup_pad len \<le> length (sdb_buffer (in_sdb (tk_scmd task)))"
    using assms(1) by (auto simp: reading_def)
  have "unat m + pad_len (unat m) \<le> roundup_pad len"
    using assms(2) unfolding roundup_pad_props(2) [symmetric] roundup_pad_def by (intro mult_right_mono div_le_mono) auto
  then have fits: "0 + min (unat m) (len - 0) + pad_len (min (unat m) (len - 0)) \<le> length (sdb_buffer (in_sdb (tk_scmd task)))"
    using task(2) assms(2) by (simp add: min_def)
  obtain w1 w2 where "iscsi_scsi_cmd_tx_start t w = Some w1" "tx_pad c w1 = Some w2"
    "get_task t w2 = Some (task\<lparr>tk_exp_r2tsn := of_nat (Suc 0), tk_offset := of_nat (0 + min (unat m) (len - 0)),
       tk_scmd := set_in_buffer (put_bytes (sdb_buffer (in_sdb (tk_scmd task))) (0 + min (unat m) (len - 0))
         (replicate (pad_len (min (unat m) (len - 0))) 0)) (tk_scmd task)\<rparr>)"
    by (rule reading_send [OF assms(1) task(1) _ assms(4,3) fits]) (use assms(2) in auto)
  then show ?thesis
    using assms(2,5-7) fits by (simp add: min_def set_in_buffer_def nth_put_bytes)
qed

theorem padding_clears_read_data_witness:
  "\<exists>w1 w2 task. iscsi_scsi_cmd_tx_start 10 (ex_read 5) = Some w1 \<and> tx_pad 3 w1 = Some w2 \<and> get_task 10 w2 = Some task \<and>
    tk_offset task = 5 \<and> sdb_buffer (in_sdb (tk_scmd task)) ! 5 = 0"
  using padding_clears_read_data [OF ex_read_reading, of 5 5] by (simp add: pad_len_def)

end
