(* ===== verification/Smc.thy ===== *)
theory Smc
  imports Scsi_Perform Device_Types
begin

text \<open>
  The medium changer (\<open>usr/smc.c\<close>, \<open>usr/smc.h\<close>): the slots of a virtual
  library, READ ELEMENT STATUS, MOVE MEDIUM, and the configuration of slots.
  A drive slot names a unit of some target by its ids; loading it opens the
  medium's file on that unit, so the handlers work on the target list as well.
  \<open>bsops\<close> and \<open>dt_of\<close> give the backing store operations and the device type
  of a unit. \<open>None\<close> is an access outside an object.
\<close>

unbundle bit_operations_syntax

section \<open>Slots\<close>

abbreviation (input) "ELEMENT_ANY \<equiv> 0 :: u8"
abbreviation (input) "ELEMENT_MEDIUM_TRANSPORT \<equiv> 1 :: u8"
abbreviation (input) "ELEMENT_STORAGE \<equiv> 2 :: u8"
abbreviation (input) "ELEMENT_MAP \<equiv> 3 :: u8"
abbreviation (input) "ELEMENT_DATA_TRANSFER \<equiv> 4 :: u8"

abbreviation (input) "ASC_INITIALIZING_REQUIRED \<equiv> 0x0402 :: u16"
abbreviation (input) "ASC_MECHANICAL_POSITIONING_ERROR \<equiv> 0x1501 :: u16"
abbreviation (input) "ASC_MEDIUM_DEST_FULL \<equiv> 0x3b0d :: u16"
abbreviation (input) "ASC_MEDIUM_SRC_EMPTY \<equiv> 0x3b0e :: u16"

record slot =
  slot_addr :: u16
  last_addr :: u16
  slot_asc :: u16
  element_type :: u8
  cart_type :: u8
  slot_status :: u8
  slot_sides :: u8
  barcode :: bytes
  drive_tid :: u8
  drive_lun :: u64
  volume_tag :: bytes

record smc_info =
  media_home :: "string option"
  slots :: "slot list"

text \<open>What a changer command reaches: the command and its unit, the library, all targets.\<close>

record smc_st =
  sm_hst :: hst
  sm_smc :: smc_info
  sm_ts :: "target list"

text \<open>
  \<open>dtd_load_unload\<close> on the unit a slot names, with the store and the type of
  that unit.
\<close>

definition drive_load_unload ::
  "(backingstore_template \<Rightarrow> bs_ops) \<Rightarrow> (scsi_lu \<Rightarrow> device_type_template) \<Rightarrow> slot \<Rightarrow> bool \<Rightarrow> string \<Rightarrow>
   target list \<Rightarrow> tgtadm_err \<times> target list" where
  "drive_load_unload bsops dt_of s load file ts =
     (let t = uint (drive_tid s); l = drive_lun s in
      case device_lookup_tid t l ts of
        None \<Rightarrow> (TGTADM_NO_LUN, ts)
      | Some (_, lu) \<Rightarrow> dtd_load_unload (bsops (lu_bst lu)) (dt_of lu) t l load file ts)"

definition check_slot_removable :: "slot \<Rightarrow> target list \<Rightarrow> int" where
  "check_slot_removable s ts =
     (if dtd_check_removable (uint (drive_tid s)) (drive_lun s) ts = TGTADM_SUCCESS then 0 else - EINVAL)"

definition set_slot_full ::
  "(backingstore_template \<Rightarrow> bs_ops) \<Rightarrow> (scsi_lu \<Rightarrow> device_type_template) \<Rightarrow> u16 \<Rightarrow> string option \<Rightarrow>
   slot \<Rightarrow> target list \<Rightarrow> tgtadm_err \<times> slot \<times> target list" where
  "set_slot_full bsops dt_of src path s ts =
     (let (err, ts1) = (case path of None \<Rightarrow> (TGTADM_SUCCESS, ts)
                        | Some file \<Rightarrow> drive_load_unload bsops dt_of s True file ts)
      in if err \<noteq> TGTADM_SUCCESS then (err, s, ts1)
         else (err, s\<lparr>slot_status := slot_status s OR 1, last_addr := src\<rparr>, ts1))"

definition set_slot_empty ::
  "(backingstore_template \<Rightarrow> bs_ops) \<Rightarrow> (scsi_lu \<Rightarrow> device_type_template) \<Rightarrow> slot \<Rightarrow> target list \<Rightarrow>
   slot \<times> target list" where
  "set_slot_empty bsops dt_of s ts =
     (s\<lparr>slot_status := slot_status s AND 0xfe, last_addr := 0, barcode := replicate 11 0x20,
        volume_tag := replicate 32 0x20\<rparr>,
      if element_type s = ELEMENT_DATA_TRANSFER then snd (drive_load_unload bsops dt_of s False [] ts) else ts)"

definition test_slot_full :: "slot \<Rightarrow> bool" where
  "test_slot_full s \<longleftrightarrow> slot_status s AND 1 \<noteq> 0"

section \<open>READ ELEMENT STATUS\<close>

definition determine_element_sz :: "bool \<Rightarrow> bool \<Rightarrow> nat" where
  "determine_element_sz dvcid voltag =
     (if voltag then if dvcid then 86 else 52 else if dvcid then 50 else 16)"

text \<open>The status header over the start of \<open>data\<close>, and the length it reports.\<close>

definition element_status_data_hdr :: "bytes \<Rightarrow> bool \<Rightarrow> bool \<Rightarrow> u16 \<Rightarrow> u16 \<Rightarrow> (bytes \<times> nat) option" where
  "element_status_data_hdr data dvcid voltag start count =
     (let sz = (8 + unat count * determine_element_sz dvcid voltag) mod 0x1000000 in
      do { d \<leftarrow> write_at data 0 (be16_bytes start @ be16_bytes count @ be32_bytes (of_nat sz));
           Some (d, sz) })"

text \<open>
  A string read from an array: \<open>None\<close> runs over its end. The bytes behind a
  barcode are the drive's target id and the zero padding before \<open>drive_lun\<close>,
  so reading one always ends.
\<close>

definition c_string :: "bytes \<Rightarrow> bytes option" where
  "c_string b = (if 0 \<in> set b then Some (cstr b) else None)"

definition barcode_str :: "slot \<Rightarrow> bytes" where
  "barcode_str s = cstr (barcode s @ [drive_tid s, 0, 0])"

text \<open>\<open>snprintf(p, n, "%-ws", str)\<close>: the bytes stored.\<close>

definition pad_field :: "nat \<Rightarrow> nat \<Rightarrow> bytes \<Rightarrow> bytes" where
  "pad_field n w str = take (n - 1) (str @ replicate (w - length str) 0x20) @ [0]"

definition printable_tag :: "bytes \<Rightarrow> bool" where
  "printable_tag b \<longleftrightarrow> byte_at b 0 \<noteq> 0x20 \<and> byte_at b 0 \<noteq> 0"

definition volume_field :: "slot \<Rightarrow> bytes option" where
  "volume_field s =
     (if printable_tag (volume_tag s) then map_option (pad_field 32 32) (c_string (volume_tag s))
      else if printable_tag (barcode s) then Some (pad_field 32 32 (barcode_str s))
      else Some (replicate 32 0x20))"

definition device_id_field :: "bytes \<Rightarrow> nat \<Rightarrow> lu_phy_attr \<Rightarrow> bytes option" where
  "device_id_field data i a =
     do { ven \<leftarrow> c_string (vendor_id a);
          prod \<leftarrow> c_string (product_id a);
          sn \<leftarrow> c_string (scsi_sn a);
          d1 \<leftarrow> write_at data i [2, device_type a, 0, 34];
          d2 \<leftarrow> write_at d1 (i + 4) (pad_field 9 8 ven);
          d3 \<leftarrow> write_at d2 (i + 12) (pad_field 17 16 prod);
          write_at d3 (i + 28) (pad_field 11 10 sn) }"

definition add_element_descriptor ::
  "target list \<Rightarrow> bytes \<Rightarrow> nat \<Rightarrow> slot \<Rightarrow> u8 \<Rightarrow> bool \<Rightarrow> bool \<Rightarrow> bytes option" where
  "add_element_descriptor ts data off s et dvcid voltag =
     (let valid = last_addr s \<noteq> 0;
          attr = (if et = ELEMENT_DATA_TRANSFER then lu_attr_lookup (uint (drive_tid s)) (drive_lun s) ts else None);
          i = off + 12 + (if voltag then if dvcid then 36 else 32 else 0)
      in do { d1 \<leftarrow> write_at data off (be16_bytes (slot_addr s) @ [slot_status s, 0] @ be16_bytes (slot_asc s));
              d2 \<leftarrow> write_at d1 (off + 9) [cart_type s AND 0xf OR (if valid then 0x80 else 0)];
              d3 \<leftarrow> (if valid then write_at d2 (off + 10) (be16_bytes (last_addr s)) else Some d2);
              d4 \<leftarrow> (if voltag then do { f \<leftarrow> volume_field s; write_at d3 (off + 12) f } else Some d3);
              (case attr of None \<Rightarrow> Some d4
               | Some a \<Rightarrow> if dvcid then device_id_field d4 i a else Some d4) })"

text \<open>
  The loop over the slots: the buffer, the offset of the next descriptor, the
  number of descriptors and the address reported as the first.
\<close>

fun element_loop ::
  "target list \<Rightarrow> u8 \<Rightarrow> u16 \<Rightarrow> bool \<Rightarrow> bool \<Rightarrow> slot list \<Rightarrow> bytes \<Rightarrow> nat \<Rightarrow> nat \<Rightarrow> u16 \<Rightarrow> (bytes \<times> nat \<times> u16) option" where
  "element_loop ts et start dvcid voltag [] data off count first = Some (data, count, first)"
| "element_loop ts et start dvcid voltag (s # ss) data off count first =
     (if element_type s = et \<and> start \<le> slot_addr s
      then do { d \<leftarrow> add_element_descriptor ts data off s et dvcid voltag;
                element_loop ts et start dvcid voltag ss d (off + determine_element_sz dvcid voltag) (Suc count)
                  (if Suc count = 1 then slot_addr s else first) }
      else element_loop ts et start dvcid voltag ss data off count (if count = 1 then slot_addr s else first))"

definition build_element_descriptors ::
  "target list \<Rightarrow> slot list \<Rightarrow> u8 \<Rightarrow> u16 \<Rightarrow> bool \<Rightarrow> bool \<Rightarrow> bytes \<Rightarrow> nat \<Rightarrow> u16 \<Rightarrow> (bytes \<times> nat \<times> u16) option" where
  "build_element_descriptors ts ss et start dvcid voltag data base first =
     (let sz = determine_element_sz dvcid voltag in
      do { (d, count, first') \<leftarrow> element_loop ts et start dvcid voltag ss data (base + 8) 0 first;
           d' \<leftarrow> write_at d base ([et, if voltag then 0x80 else 0] @ be16_bytes (of_nat sz) @
                   be32_bytes (of_nat ((sz * count) mod 0x1000000)));
           Some (d', count, first') })"

definition nr_slots :: "smc_info \<Rightarrow> nat" where
  "nr_slots smc = length (slots smc)"

text \<open>The four pages in type order, at the offsets the code computes.\<close>

definition build_all_elements ::
  "target list \<Rightarrow> slot list \<Rightarrow> u16 \<Rightarrow> bool \<Rightarrow> bool \<Rightarrow> bytes \<Rightarrow> (bytes \<times> u16 \<times> u16) option" where
  "build_all_elements ts ss start dvcid voltag data =
     (let sz = determine_element_sz dvcid voltag; build = build_element_descriptors ts ss in
      do { (d1, n1, f1) \<leftarrow> build ELEMENT_MEDIUM_TRANSPORT start dvcid voltag data 8 0;
           let c1 = (of_nat n1 :: u16); let len1 = unat c1 * sz;
           (d2, n2, f2) \<leftarrow> build ELEMENT_STORAGE start dvcid voltag d1 len1 f1;
           let c2 = c1 + of_nat n2; let len2 = len1 + unat c2 * sz;
           (d3, n3, f3) \<leftarrow> build ELEMENT_MAP start dvcid voltag d2 len2 f2;
           let c3 = c2 + of_nat n3; let len3 = len2 + unat c3 * sz;
           (d4, n4, f4) \<leftarrow> build ELEMENT_DATA_TRANSFER start dvcid voltag d3 len3 f3;
           Some (d4, c3 + of_nat n4, f4) })"

definition upd_hst :: "(hst \<Rightarrow> hst) \<Rightarrow> smc_st \<Rightarrow> smc_st" where
  "upd_hst f st = st\<lparr>sm_hst := f (sm_hst st)\<rparr>"

definition smc_sense :: "u8 \<Rightarrow> u16 \<Rightarrow> smc_st \<Rightarrow> (int \<times> smc_st) option" where
  "smc_sense key asc st = (let (r, h) = sense_exit key asc (sm_hst st) in Some (r, st\<lparr>sm_hst := h\<rparr>))"

definition smc_good :: "u32 \<Rightarrow> smc_st \<Rightarrow> (int \<times> smc_st) option" where
  "smc_good n st = Some (SAM_STAT_GOOD, upd_hst (upd_cmd (scsi_set_in_resid_by_actual n)) st)"

text \<open>The header is filled in last and the data copied out.\<close>

definition return_elements ::
  "bool \<Rightarrow> bool \<Rightarrow> nat \<Rightarrow> (bytes \<times> u16 \<times> u16) option \<Rightarrow> smc_st \<Rightarrow> (int \<times> smc_st) option" where
  "return_elements dvcid voltag alloc_len built st =
     do { (d, count, first) \<leftarrow> built;
          (d', len) \<leftarrow> element_status_data_hdr d dvcid voltag first count;
          buf \<leftarrow> write_at (scsi_get_in_buffer (hs_cmd (sm_hst st))) 0 (take (min len alloc_len) d');
          if length d' < min len alloc_len then None
          else smc_good (of_nat len) (upd_hst (upd_cmd (set_in_buffer buf)) st) }"

definition smc_read_element_status :: "smc_st \<Rightarrow> (int \<times> smc_st) option" where
  "smc_read_element_status st0 =
     (let cmd = hs_cmd (sm_hst st0); b = byte_at (scb cmd); et = b 1 AND 0x0f; voltag = (b 1 AND 0x10 \<noteq> 0);
          dvcid = (b 6 AND 1 \<noteq> 0); start = get_unaligned_be16 (scb cmd) 2;
          alloc_len = 0xffffff AND get_unaligned_be32 (scb cmd) 6;
          st = upd_hst (upd_cmd (scsi_set_in_resid_by_actual 0)) st0;
          ss = slots (sm_smc st); ts = sm_ts st;
          data = replicate (8 + determine_element_sz dvcid voltag * nr_slots (sm_smc st)) 0;
          one = map_option (\<lambda>(d, n, f). (d, of_nat n, f)) (build_element_descriptors ts ss et start dvcid voltag data 8 0)
      in if scsi_get_in_length cmd < alloc_len then smc_sense ILLEGAL_REQUEST ASC_INVALID_FIELD_IN_CDB st0
         else if hs_reserved (sm_hst st) then Some (SAM_STAT_RESERVATION_CONFLICT, st)
         else if b 11 \<noteq> 0 then smc_sense ILLEGAL_REQUEST ASC_INVALID_FIELD_IN_CDB st
         else if et = ELEMENT_ANY
           then return_elements dvcid voltag (unat alloc_len) (build_all_elements ts ss start dvcid voltag data) st
         else if et \<le> ELEMENT_DATA_TRANSFER then return_elements dvcid voltag (unat alloc_len) one st
         else smc_sense ILLEGAL_REQUEST ASC_INVALID_FIELD_IN_CDB st)"

definition smc_initialize_element_status :: "smc_st \<Rightarrow> (int \<times> smc_st) option" where
  "smc_initialize_element_status st0 =
     (let st = upd_hst (upd_cmd (scsi_set_in_resid_by_actual 0)) st0 in
      Some (if hs_reserved (sm_hst st) then SAM_STAT_RESERVATION_CONFLICT else SAM_STAT_GOOD, st))"

definition smc_initialize_element_status_range :: "smc_st \<Rightarrow> (int \<times> smc_st) option" where
  "smc_initialize_element_status_range st0 =
     (let st = upd_hst (upd_cmd (scsi_set_in_resid_by_actual 0)) st0 in
      Some (if hs_reserved (sm_hst st) then SAM_STAT_RESERVATION_CONFLICT else SAM_STAT_GOOD, st))"

section \<open>MOVE MEDIUM\<close>

text \<open>The scan for an address keeps the last slot that has it.\<close>

fun last_slot :: "u16 \<Rightarrow> nat \<Rightarrow> slot list \<Rightarrow> nat option \<Rightarrow> nat option" where
  "last_slot a i [] found = found"
| "last_slot a i (s # ss) found = last_slot a (Suc i) ss (if slot_addr s = a then Some i else found)"

definition upd_slot :: "nat \<Rightarrow> slot \<Rightarrow> smc_st \<Rightarrow> smc_st" where
  "upd_slot i s st = st\<lparr>sm_smc := (sm_smc st)\<lparr>slots := (slots (sm_smc st))[i := s]\<rparr>\<rparr>"

definition media_path :: "smc_info \<Rightarrow> slot \<Rightarrow> string" where
  "media_path smc s =
     (case media_home smc of None \<Rightarrow> ''(null)'' | Some h \<Rightarrow> h) @ ''/'' @ map (\<lambda>b. char_of (unat b)) (barcode_str s)"

text \<open>The transfer between two slots, once the request is known to be valid.\<close>

definition move_slots ::
  "(backingstore_template \<Rightarrow> bs_ops) \<Rightarrow> (scsi_lu \<Rightarrow> device_type_template) \<Rightarrow> u16 \<Rightarrow> nat \<Rightarrow> nat \<Rightarrow> smc_st \<Rightarrow>
   (int \<times> smc_st) option" where
  "move_slots bsops dt_of src si di st =
     (let ss = slots (sm_smc st); s = ss ! si;
          d = (ss ! di)\<lparr>barcode := barcode s, volume_tag := volume_tag s\<rparr>;
          path = media_path (sm_smc st) d; drive = (element_type d = ELEMENT_DATA_TRANSFER)
      in if drive \<and> 128 \<le> length path
         then smc_sense ILLEGAL_REQUEST ASC_INTERNAL_TGT_FAILURE
                (upd_slot di (d\<lparr>barcode := replicate 11 0x20, volume_tag := replicate 32 0x20\<rparr>) st)
         else
           let (err, d', ts1) = set_slot_full bsops dt_of src (if drive then Some path else None) d (sm_ts st);
               st1 = (upd_slot di d' st)\<lparr>sm_ts := ts1\<rparr>
           in if drive \<and> err \<noteq> TGTADM_SUCCESS
              then smc_sense HARDWARE_ERROR ASC_MECHANICAL_POSITIONING_ERROR st1
              else let (s', ts2) = set_slot_empty bsops dt_of s ts1
                   in smc_good 0 ((upd_slot si s' st1)\<lparr>sm_ts := ts2\<rparr>))"

text \<open>
  After the scan the loop variable points at the list head inside \<open>smc_info\<close>,
  and its \<open>sides\<close>, read when the medium is to be inverted, lies behind that
  object.
\<close>

definition smc_move_medium ::
  "(backingstore_template \<Rightarrow> bs_ops) \<Rightarrow> (scsi_lu \<Rightarrow> device_type_template) \<Rightarrow> smc_st \<Rightarrow> (int \<times> smc_st) option" where
  "smc_move_medium bsops dt_of st =
     (let cmd = hs_cmd (sm_hst st); src = get_unaligned_be16 (scb cmd) 4; dest = get_unaligned_be16 (scb cmd) 6;
          invert = (byte_at (scb cmd) 10 AND 1 \<noteq> 0); ss = slots (sm_smc st)
      in case last_slot src 0 ss None of
           None \<Rightarrow> smc_sense ILLEGAL_REQUEST ASC_INVALID_FIELD_IN_CDB st
         | Some si \<Rightarrow>
             if \<not> test_slot_full (ss ! si) then smc_sense ILLEGAL_REQUEST ASC_MEDIUM_SRC_EMPTY st
             else case last_slot dest 0 ss None of
               None \<Rightarrow> smc_sense ILLEGAL_REQUEST ASC_INVALID_FIELD_IN_CDB st
             | Some di \<Rightarrow>
                 if test_slot_full (ss ! di) then smc_sense ILLEGAL_REQUEST ASC_MEDIUM_DEST_FULL st
                 else if invert then None
                 else if element_type (ss ! si) = ELEMENT_DATA_TRANSFER \<and> check_slot_removable (ss ! si) (sm_ts st) \<noteq> 0
                 then smc_sense ILLEGAL_REQUEST ASC_MEDIUM_REMOVAL_PREVENTED st
                 else move_slots bsops dt_of src si di st)"

section \<open>Set-up\<close>

definition smc_mode_pages :: "scsi_lu \<Rightarrow> scsi_lu" where
  "smc_mode_pages lu =
     fold (\<lambda>p lu. snd (add_mode_page lu p))
       [''0:0:0'', ''0x0a:0:10:2:0:0:0:0:0:0:0:2:0'', ''0x0a:1:0x1c:0x04:0x00:0x00'',
        ''0x1a:0:10:8:0:0:0:0:0:0:0:0:0'', ''0x1c:0:10:8:0:0:0:0:0:0:0:0:0'',
        ''0x1d:0:0x12:0:0:0:0:0:0:0:0:0:0:0:0:0:0:0:0:0:0'', ''0x1e:0:2:0:0'',
        ''0x1f:0:0x12:15:7:15:15:15:15:0:0:0:0:15:15:15:15:0:0:0:0''] lu"

text \<open>\<open>find_bst\<close> is \<open>get_backingstore_template\<close>.\<close>

definition smc_lu_init ::
  "(string \<Rightarrow> backingstore_template option) \<Rightarrow> target \<Rightarrow> scsi_lu \<Rightarrow> tgtadm_err \<times> scsi_lu \<times> smc_info" where
  "smc_lu_init find_bst tgt lu0 =
     (let smc = \<lparr>media_home = None, slots = []\<rparr>; (err, lu1) = spc_lu_init TYPE_MEDIUM_CHANGER off_cb tgt lu0 in
      if err \<noteq> TGTADM_SUCCESS then (TGTADM_NOMEM, lu1, smc)
      else case find_bst ''smc'' of
        None \<Rightarrow> (TGTADM_INVALID_REQUEST, lu1, smc)
      | Some bst \<Rightarrow>
          let lu2 = upd_attrs (\<lambda>a. a\<lparr>product_id := strncpy_bytes (PRODUCT_ID_LEN + 1) (str_bytes ''VIRTUAL-CHANGER''),
                      version_desc := (version_desc a)[0 := 0x0480, 1 := 0x0960, 2 := 0x0300]\<rparr>) (lu1\<lparr>lu_bst := bst\<rparr>);
              (err2, lu3) = spc_lu_online (smc_mode_pages lu2)
          in (err2, upd_attrs (\<lambda>a. a\<lparr>removable := 1\<rparr>) lu3, smc))"

definition slot_insert :: "int \<Rightarrow> int \<Rightarrow> slot list \<Rightarrow> slot list" where
  "slot_insert et address ss =
     ss @ [\<lparr>slot_addr = of_int address, last_addr = 0,
            slot_asc = (if et = 4 then ASC_INITIALIZING_REQUIRED else 0),
            element_type = of_int et, cart_type = 0, slot_status = 0, slot_sides = 1,
            barcode = replicate 11 0, drive_tid = 0, drive_lun = 0, volume_tag = replicate 32 0\<rparr>]"

text \<open>The test \<open>slot_lookup\<close> stops at; zero is a wildcard, but one of the two must be given.\<close>

definition slot_match :: "int \<Rightarrow> int \<Rightarrow> slot \<Rightarrow> bool" where
  "slot_match et address s \<longleftrightarrow>
     (if et \<noteq> 0 \<and> address \<noteq> 0 then uint (slot_addr s) = address \<and> uint (element_type s) = et
      else if et \<noteq> 0 then uint (element_type s) = et
      else address \<noteq> 0 \<and> uint (slot_addr s) = address)"

definition slot_lookup :: "slot list \<Rightarrow> int \<Rightarrow> int \<Rightarrow> slot option" where
  "slot_lookup ss et address = List.find (slot_match et address) ss"

record tmp_param =
  p_operation :: nat
  p_element_type :: int
  p_start_addr :: int
  p_quantity :: int
  p_address :: int
  p_tid :: int
  p_lun :: u64
  p_barcode :: string
  p_sides :: int
  p_clear_slot :: int
  p_volume_tag :: string

definition no_param :: tmp_param where
  "no_param = \<lparr>p_operation = 0, p_element_type = 0, p_start_addr = 0, p_quantity = 0, p_address = 0, p_tid = 0,
     p_lun = 0, p_barcode = [], p_sides = 0, p_clear_slot = 0, p_volume_tag = []\<rparr>"

text \<open>The offset of an element type's pair in the Element Address Assignment page.\<close>

definition element_offset :: "int \<Rightarrow> nat option" where
  "element_offset et =
     (if et = 1 then Some 0 else if et = 3 then Some 8 else if et = 2 then Some 4
      else if et = 4 then Some 12 else None)"

definition assign_elements :: "nat \<Rightarrow> tmp_param \<Rightarrow> bytes \<Rightarrow> bytes option" where
  "assign_elements off tmp md =
     (let sv_addr = uint (get_unaligned_be16 md off); qnty_save = uint (get_unaligned_be16 md (off + 2));
          a = (if sv_addr \<noteq> 0 then min (p_start_addr tmp) sv_addr else p_start_addr tmp)
      in write_at md off (be16_bytes (of_int a) @ be16_bytes (of_int (p_quantity tmp + qnty_save))))"

text \<open>
  Allocation succeeds, so the removal of the slots inserted before a failure is
  not reached. The page is changed before the address is looked up.
\<close>

definition add_slt :: "tmp_param \<Rightarrow> scsi_lu \<times> smc_info \<Rightarrow> (tgtadm_err \<times> scsi_lu \<times> smc_info) option" where
  "add_slt tmp ls =
     (let (lu, smc) = ls in
      case find_mode_page lu 0x1d 0 of
        None \<Rightarrow> Some (TGTADM_UNKNOWN_ERR, lu, smc)
      | Some pg \<Rightarrow>
          if p_element_type tmp = 0 \<or> p_start_addr tmp = 0 \<or> p_quantity tmp = 0
          then Some (TGTADM_INVALID_REQUEST, lu, smc)
          else case element_offset (p_element_type tmp) of
            None \<Rightarrow> Some (TGTADM_INVALID_REQUEST, lu, smc)
          | Some off \<Rightarrow>
              do { md \<leftarrow> assign_elements off tmp (mode_data pg);
                   let lu1 = upd_mode_page 0x1d 0 (\<lambda>pg. pg\<lparr>mode_data := md\<rparr>) lu;
                   Some (case slot_lookup (slots smc) (p_element_type tmp) (p_start_addr tmp) of
                     Some _ \<Rightarrow> (TGTADM_INVALID_REQUEST, lu1, smc)
                   | None \<Rightarrow>
                       (TGTADM_SUCCESS, lu1,
                        smc\<lparr>slots := fold (slot_insert (p_element_type tmp))
                          [p_start_addr tmp..p_start_addr tmp + p_quantity tmp - 1] (slots smc)\<rparr>)) })"

text \<open>What configuring a found slot does to it; clearing a storage slot unloads no drive.\<close>

definition fill_slot :: "tmp_param \<Rightarrow> slot \<Rightarrow> slot" where
  "fill_slot tmp s =
     (if p_clear_slot tmp \<noteq> 0
      then s\<lparr>slot_status := slot_status s AND 0xfe, last_addr := 0, barcode := replicate 11 0x20,
             volume_tag := replicate 32 0x20\<rparr>
      else s\<lparr>barcode := strncpy_bytes 11 (str_bytes (p_barcode tmp)),
             volume_tag := strncpy_bytes 32 (str_bytes (p_volume_tag tmp)),
             slot_status := slot_status s OR 1, last_addr := 0\<rparr>)"

definition config_slot :: "tmp_param \<Rightarrow> scsi_lu \<times> smc_info \<Rightarrow> (tgtadm_err \<times> scsi_lu \<times> smc_info) option" where
  "config_slot tmp ls =
     (let (lu, smc) = ls; et = p_element_type tmp;
          change = (\<lambda>f. case slot_lookup (slots smc) et (p_address tmp) of
                None \<Rightarrow> Some (TGTADM_INVALID_REQUEST, lu, smc)
              | Some _ \<Rightarrow> Some (TGTADM_SUCCESS, lu,
                            smc\<lparr>slots := upd_first (slot_match et (p_address tmp)) f (slots smc)\<rparr>))
      in if et = 1 then
           (case find_mode_page lu 0x1e 0 of
              None \<Rightarrow> Some (TGTADM_INVALID_REQUEST, lu, smc)
            | Some m \<Rightarrow>
                do { md \<leftarrow> write_at (mode_data m) 0 [if 1 < p_sides tmp then 1 else 0];
                     Some (TGTADM_SUCCESS, upd_mode_page 0x1e 0 (\<lambda>m. m\<lparr>mode_data := md\<rparr>) lu, smc) })
         else if et = 2 \<or> et = 3 then change (fill_slot tmp)
         else if et = 4 \<and> p_tid tmp \<noteq> 0 then
           change (\<lambda>s. s\<lparr>slot_asc := NO_ADDITIONAL_SENSE, drive_tid := of_int (p_tid tmp), drive_lun := p_lun tmp\<rparr>)
         else Some (TGTADM_INVALID_REQUEST, lu, smc))"

section \<open>Parameters\<close>

datatype smc_opt =
    Opt_element_type | Opt_start_address | Opt_quantity | Opt_sides | Opt_clear_slot | Opt_address
  | Opt_barcode | Opt_tid | Opt_lun | Opt_type | Opt_dump | Opt_media_home | Opt_volumetag

definition smc_tokens :: "(smc_opt \<times> string) list" where
  "smc_tokens =
     [(Opt_element_type, ''element_type=''), (Opt_start_address, ''start_address=''), (Opt_quantity, ''quantity=''),
      (Opt_sides, ''sides=''), (Opt_clear_slot, ''clear_slot=''), (Opt_address, ''address=''),
      (Opt_barcode, ''barcode=''), (Opt_tid, ''tid=''), (Opt_lun, ''lun=''), (Opt_type, ''type=''),
      (Opt_dump, ''dump=''), (Opt_media_home, ''media_home=''), (Opt_volumetag, ''volume_tag='')]"

fun smc_match_token :: "string \<Rightarrow> (smc_opt \<times> string) list \<Rightarrow> (smc_opt \<times> string) option" where
  "smc_match_token p [] = None"
| "smc_match_token p ((opt, pat) # ts) =
     (case match_prefix pat p of Some v \<Rightarrow> Some (opt, v) | None \<Rightarrow> smc_match_token p ts)"

abbreviation (input) "SMC_ADD \<equiv> 1 :: nat"
abbreviation (input) "SMC_CONFIGURE \<equiv> 2 :: nat"

text \<open>One parameter: the temporary holder and the library; \<open>type\<close> has no case of its own.\<close>

definition smc_lu_config_opt :: "string \<Rightarrow> tmp_param \<times> smc_info \<Rightarrow> tgtadm_err \<times> tmp_param \<times> smc_info" where
  "smc_lu_config_opt p ps =
     (let (tmp, smc) = ps in
      case smc_match_token p smc_tokens of
        None \<Rightarrow> (TGTADM_UNKNOWN_PARAM, tmp, smc)
      | Some (opt, v) \<Rightarrow>
          let num = sint (atoi (take 255 v)); ok = (\<lambda>tmp'. (TGTADM_SUCCESS, tmp', smc)) in
          (case opt of
             Opt_element_type \<Rightarrow> ok (tmp\<lparr>p_element_type := num\<rparr>)
           | Opt_start_address \<Rightarrow> ok (tmp\<lparr>p_start_addr := num, p_operation := SMC_ADD\<rparr>)
           | Opt_quantity \<Rightarrow> ok (tmp\<lparr>p_quantity := num\<rparr>)
           | Opt_sides \<Rightarrow> ok (tmp\<lparr>p_sides := num\<rparr>)
           | Opt_clear_slot \<Rightarrow> ok (tmp\<lparr>p_clear_slot := num\<rparr>)
           | Opt_address \<Rightarrow> ok (tmp\<lparr>p_address := num, p_operation := SMC_CONFIGURE\<rparr>)
           | Opt_barcode \<Rightarrow> ok (tmp\<lparr>p_barcode := take 19 v\<rparr>)
           | Opt_volumetag \<Rightarrow> ok (tmp\<lparr>p_volume_tag := take 31 v\<rparr>)
           | Opt_tid \<Rightarrow> ok (tmp\<lparr>p_tid := num\<rparr>)
           | Opt_lun \<Rightarrow> ok (tmp\<lparr>p_lun := of_int num\<rparr>)
           | Opt_dump \<Rightarrow> ok tmp
           | Opt_media_home \<Rightarrow> (TGTADM_SUCCESS, tmp, smc\<lparr>media_home := Some (take 255 v)\<rparr>)
           | Opt_type \<Rightarrow> (TGTADM_UNKNOWN_PARAM, tmp, smc)))"

fun smc_lu_config_loop :: "string list \<Rightarrow> tmp_param \<times> smc_info \<Rightarrow> tgtadm_err \<times> tmp_param \<times> smc_info" where
  "smc_lu_config_loop [] ps = (TGTADM_SUCCESS, ps)"
| "smc_lu_config_loop (p # rest) ps =
     (let (err, ps1) = smc_lu_config_opt p ps in
      if err \<noteq> TGTADM_SUCCESS then (err, ps1) else smc_lu_config_loop rest ps1)"

text \<open>
  \<open>lu_config\<close> with the changer's callback: a parameter the generic table handles
  changes the unit, any other goes to \<open>__smc_lu_config\<close>.
\<close>

definition smc_config_param ::
  "bs_ops \<Rightarrow> device_type_template \<Rightarrow> target \<Rightarrow> string \<Rightarrow> tgtadm_err \<times> scsi_lu \<times> tmp_param \<times> smc_info \<Rightarrow>
   tgtadm_err \<times> scsi_lu \<times> tmp_param \<times> smc_info" where
  "smc_config_param bs dt tgt p r =
     (let (err, lu, ps) = r in
      if (case match_token p tokens of None \<Rightarrow> True | Some (opt, _) \<Rightarrow> opt \<in> {Opt_bsopts, Opt_bsoflags})
      then let (err1, ps1) = smc_lu_config_loop (strtok_all (CHR '','') [] p) ps in (err1, lu, ps1)
      else let (err1, lu1) = lu_config_opt bs dt tgt None p (err, lu) in (err1, lu1, ps))"

definition smc_lu_config ::
  "bs_ops \<Rightarrow> device_type_template \<Rightarrow> target \<Rightarrow> string \<Rightarrow> scsi_lu \<times> smc_info \<Rightarrow>
   (tgtadm_err \<times> scsi_lu \<times> smc_info) option" where
  "smc_lu_config bs dt tgt params ls =
     (let (lu, smc) = ls; params1 = (if take 9 params = ''targetOps'' then drop 10 params else params);
          (err, lu1, tmp, smc1) = fold (smc_config_param bs dt tgt) (strtok_all (CHR '','') [] params1)
                                    (TGTADM_SUCCESS, lu, no_param, smc)
      in if err \<noteq> TGTADM_SUCCESS then Some (err, lu1, smc1)
         else if p_operation tmp = SMC_ADD then add_slt tmp (lu1, smc1)
         else if p_operation tmp = SMC_CONFIGURE then config_slot tmp (lu1, smc1)
         else Some (err, lu1, smc1))"

section \<open>The operation table\<close>

datatype smc_fn =
    Smc_spc perform_fn | Smc_initialize_element_status | Smc_initialize_element_status_range
  | Smc_move_medium | Smc_read_element_status

definition smc_ops :: "u8 \<Rightarrow> smc_fn \<times> (u32 \<times> perform_fn) list" where
  "smc_ops op =
     (case map_of
        [(0x00, Smc_spc Spc_test_unit), (0x03, Smc_spc Spc_request_sense), (0x07, Smc_initialize_element_status),
         (0x12, Smc_spc Spc_inquiry), (0x1a, Smc_spc Spc_mode_sense), (0x37, Smc_initialize_element_status_range),
         (0x5a, Smc_spc Spc_mode_sense), (0xa0, Smc_spc Spc_report_luns), (0xa3, Smc_spc Spc_service_action),
         (0xa5, Smc_move_medium), (0xaf, Smc_spc Spc_test_unit), (0xb8, Smc_read_element_status)] op of
        None \<Rightarrow> (Smc_spc Spc_illegal_op, [])
      | Some fn \<Rightarrow> (fn, if op = 0xa3 then maint_in_service_actions else []))"

text \<open>The handler an opcode selects; the generic ones work on the command and its unit.\<close>

definition smc_perform ::
  "env \<Rightarrow> (backingstore_template \<Rightarrow> bs_ops) \<Rightarrow> (scsi_lu \<Rightarrow> device_type_template) \<Rightarrow> smc_st \<Rightarrow> (int \<times> smc_st) option" where
  "smc_perform e bsops dt_of st =
     (case fst (smc_ops (byte_at (scb (hs_cmd (sm_hst st))) 0)) of
        Smc_spc fn \<Rightarrow> map_option (\<lambda>(r, h). (r, st\<lparr>sm_hst := h\<rparr>)) (run_fn e fn (sm_hst st))
      | Smc_initialize_element_status \<Rightarrow> smc_initialize_element_status st
      | Smc_initialize_element_status_range \<Rightarrow> smc_initialize_element_status_range st
      | Smc_move_medium \<Rightarrow> smc_move_medium bsops dt_of st
      | Smc_read_element_status \<Rightarrow> smc_read_element_status st)"

end
