(* ===== verification/Smc_Thms.thy ===== *)
theory Smc_Thms
  imports Smc "HOL-Library.Multiset"
begin

text \<open>
  The media of a library: moving one neither loses nor duplicates any. READ
  ELEMENT STATUS for all element types writes outside its buffer in every
  library with more storage slots than drives.
\<close>

unbundle bit_operations_syntax

section \<open>Media\<close>

definition slot_media :: "slot \<Rightarrow> (bytes \<times> bytes) multiset" where
  "slot_media s = (if test_slot_full s then {#(barcode s, volume_tag s)#} else {#})"

definition library_media :: "slot list \<Rightarrow> (bytes \<times> bytes) multiset" where
  "library_media ss = (\<Sum>s\<leftarrow>ss. slot_media s)"

lemma library_media_update:
  "i < length ss \<Longrightarrow> library_media (ss[i := s]) + slot_media (ss ! i) = library_media ss + slot_media s"
proof (induction ss arbitrary: i)
  case (Cons x xs)
  then show ?case
    by (cases i) (auto simp: library_media_def ac_simps)
qed simp

lemma library_media_same:
  "i < length ss \<Longrightarrow> slot_media s = slot_media (ss ! i) \<Longrightarrow> library_media (ss[i := s]) = library_media ss"
  using library_media_update [of i ss s] by simp

lemma byte_bit0_set: "(x OR 1 :: u8) AND 1 \<noteq> 0"
proof -
  have "bit ((x OR 1) AND 1) 0"
    by (simp add: bit_simps)
  then show ?thesis
    by force
qed

lemma byte_bit0_clear: "(x AND 0xfe :: u8) AND 1 = 0"
  by (simp add: and.assoc)

lemma test_slot_full_simps [simp]:
  "test_slot_full (s\<lparr>slot_status := slot_status s OR 1, last_addr := a\<rparr>)"
  "test_slot_full (s\<lparr>barcode := b, volume_tag := v\<rparr>) = test_slot_full s"
  "\<not> test_slot_full (fst (set_slot_empty bsops dt_of s ts))"
  by (simp_all add: test_slot_full_def byte_bit0_set byte_bit0_clear set_slot_empty_def)

lemma slot_media_simps [simp]:
  "slot_media (fst (set_slot_empty bsops dt_of s ts)) = {#}"
  "\<not> test_slot_full s \<Longrightarrow> slot_media s = {#}"
  by (simp_all add: slot_media_def)

lemma last_slot_range:
  "last_slot a i ss found = Some k \<Longrightarrow>
   found = Some k \<or> (i \<le> k \<and> k < i + length ss \<and> slot_addr (ss ! (k - i)) = a)"
proof (induction ss arbitrary: i found)
  case (Cons s ss)
  then show ?case
    by (fastforce simp: nth_Cons' split: if_splits dest!: Cons.IH)
qed simp

lemma last_slot_found:
  "last_slot a 0 ss None = Some k \<Longrightarrow> k < length ss \<and> slot_addr (ss ! k) = a"
  using last_slot_range [of a 0 ss None k] by simp

text \<open>The filled destination: its medium is the one of the source, whatever a load answered.\<close>

lemma set_slot_full_media:
  assumes "set_slot_full bsops dt_of src path d ts = (err, d', ts')"
  shows "err = TGTADM_SUCCESS \<Longrightarrow> d' = d\<lparr>slot_status := slot_status d OR 1, last_addr := src\<rparr>"
    and "err \<noteq> TGTADM_SUCCESS \<Longrightarrow> d' = d"
    and "path = None \<Longrightarrow> err = TGTADM_SUCCESS \<and> ts' = ts"
  using assms by (auto simp: set_slot_full_def split: prod.splits option.splits if_splits)

lemma slots_simps [simp]:
  "slots (sm_smc (upd_slot i s st)) = (slots (sm_smc st))[i := s]"
  "slots (sm_smc (upd_hst f st)) = slots (sm_smc st)"
  by (simp_all add: upd_slot_def upd_hst_def)

lemma smc_sense_Some: "smc_sense key asc st = Some (r, st') \<longleftrightarrow>
  r = SAM_STAT_CHECK_CONDITION \<and> st' = st\<lparr>sm_hst := snd (sense_exit key asc (sm_hst st))\<rparr>"
  by (auto simp: smc_sense_def sense_exit_def)

lemma smc_good_Some: "smc_good n st = Some (r, st') \<longleftrightarrow>
  r = SAM_STAT_GOOD \<and> st' = upd_hst (upd_cmd (scsi_set_in_resid_by_actual n)) st"
  by (auto simp: smc_good_def)

lemmas smc_exits = smc_sense_Some smc_good_Some

lemma set_slot_empty_fields:
  "slot_addr (fst (set_slot_empty bsops dt_of s ts)) = slot_addr s"
  "element_type (fst (set_slot_empty bsops dt_of s ts)) = element_type s"
  by (simp_all add: set_slot_empty_def)

text \<open>A transfer from a full to an empty slot, in the three ways it can end.\<close>

lemma move_slots_cases:
  assumes "move_slots bsops dt_of src si di st = Some (r, st')"
    and "si < length (slots (sm_smc st))" "di < length (slots (sm_smc st))" "si \<noteq> di"
  obtains (refused) d' where "r = SAM_STAT_CHECK_CONDITION" "slots (sm_smc st') = (slots (sm_smc st))[di := d']"
      "test_slot_full d' = test_slot_full (slots (sm_smc st) ! di)"
      "slot_addr d' = slot_addr (slots (sm_smc st) ! di)"
  | (moved) d' s' ts1 where "r = SAM_STAT_GOOD" "slots (sm_smc st') = (slots (sm_smc st))[di := d', si := s']"
      "test_slot_full d'" "barcode d' = barcode (slots (sm_smc st) ! si)"
      "volume_tag d' = volume_tag (slots (sm_smc st) ! si)" "last_addr d' = src"
      "slot_addr d' = slot_addr (slots (sm_smc st) ! di)"
      "s' = fst (set_slot_empty bsops dt_of (slots (sm_smc st) ! si) ts1)"
proof -
  define d where "d = (slots (sm_smc st) ! di)
    \<lparr>barcode := barcode (slots (sm_smc st) ! si), volume_tag := volume_tag (slots (sm_smc st) ! si)\<rparr>"
  define path where "path = (if element_type d = ELEMENT_DATA_TRANSFER then Some (media_path (sm_smc st) d) else None)"
  obtain err d' ts1 where full: "set_slot_full bsops dt_of src path d (sm_ts st) = (err, d', ts1)"
    by (metis prod_cases3)
  note eff = set_slot_full_media [OF full]
  have r: "(element_type d = ELEMENT_DATA_TRANSFER \<and> 128 \<le> length (media_path (sm_smc st) d) \<and>
      smc_sense ILLEGAL_REQUEST ASC_INTERNAL_TGT_FAILURE
        (upd_slot di (d\<lparr>barcode := replicate 11 0x20, volume_tag := replicate 32 0x20\<rparr>) st) = Some (r, st')) \<or>
    (err \<noteq> TGTADM_SUCCESS \<and> smc_sense HARDWARE_ERROR ASC_MECHANICAL_POSITIONING_ERROR
        ((upd_slot di d' st)\<lparr>sm_ts := ts1\<rparr>) = Some (r, st')) \<or>
    (err = TGTADM_SUCCESS \<and> (\<exists>s' ts2. set_slot_empty bsops dt_of (slots (sm_smc st) ! si) ts1 = (s', ts2) \<and>
        smc_good 0 ((upd_slot si s' ((upd_slot di d' st)\<lparr>sm_ts := ts1\<rparr>))\<lparr>sm_ts := ts2\<rparr>) = Some (r, st')))"
    using assms(1) full eff
    by (auto simp: move_slots_def Let_def path_def d_def split: prod.splits if_splits)
  then consider "r = SAM_STAT_CHECK_CONDITION"
      "\<exists>b v. slots (sm_smc st') = (slots (sm_smc st))[di := d\<lparr>barcode := b, volume_tag := v\<rparr>]"
    | "err \<noteq> TGTADM_SUCCESS" "r = SAM_STAT_CHECK_CONDITION" "slots (sm_smc st') = (slots (sm_smc st))[di := d']"
    | "err = TGTADM_SUCCESS" "r = SAM_STAT_GOOD"
      "slots (sm_smc st') = (slots (sm_smc st))[di := d', si := fst (set_slot_empty bsops dt_of (slots (sm_smc st) ! si) ts1)]"
    by (elim disjE conjE exE) (auto simp: smc_exits)
  then show thesis
  proof cases
    case 1
    then obtain b v where "slots (sm_smc st') = (slots (sm_smc st))[di := d\<lparr>barcode := b, volume_tag := v\<rparr>]"
      by blast
    with 1(1) show thesis
      by (rule refused) (simp_all add: d_def)
  next
    case 2
    then show thesis
      by (intro refused [of d']) (auto simp: eff d_def)
  next
    case 3
    then have "test_slot_full d'"
      by (simp only: eff test_slot_full_simps)
    with 3 show thesis
      by (intro moved [of d' _ ts1]) (simp_all add: eff d_def)
  qed
qed

text \<open>What MOVE MEDIUM checks before it transfers.\<close>

lemma move_medium_cases:
  assumes "smc_move_medium bsops dt_of st = Some (r, st')"
  obtains (refused) "r = SAM_STAT_CHECK_CONDITION" "sm_smc st' = sm_smc st" "sm_ts st' = sm_ts st"
  | (transfer) si di where
      "last_slot (get_unaligned_be16 (scb (hs_cmd (sm_hst st))) 4) 0 (slots (sm_smc st)) None = Some si"
      "last_slot (get_unaligned_be16 (scb (hs_cmd (sm_hst st))) 6) 0 (slots (sm_smc st)) None = Some di"
      "test_slot_full (slots (sm_smc st) ! si)" "\<not> test_slot_full (slots (sm_smc st) ! di)"
      "move_slots bsops dt_of (get_unaligned_be16 (scb (hs_cmd (sm_hst st))) 4) si di st = Some (r, st')"
  using assms
  by (auto simp: smc_move_medium_def Let_def smc_exits split: option.splits if_splits)

lemma moved_media:
  assumes "si < length ss" "di < length ss" "si \<noteq> di" "test_slot_full (ss ! si)" "\<not> test_slot_full (ss ! di)"
    and "slot_media d' = slot_media (ss ! si)" "slot_media s' = {#}"
  shows "library_media (ss[di := d', si := s']) = library_media ss"
proof -
  have "library_media (ss[di := d']) = library_media ss + slot_media (ss ! si)"
    using library_media_update [of di ss d'] assms by simp
  moreover have "library_media (ss[di := d', si := s']) + slot_media (ss ! si) = library_media (ss[di := d'])"
    using library_media_update [of si "ss[di := d']" s'] assms by simp
  ultimately show ?thesis
    by simp
qed

text \<open>
  The medium of the slot at address \<open>src\<close> is in the slot at address \<open>dest\<close>, which
  records its origin; the first slot is empty and all others are as before.
\<close>

definition medium_moved :: "u16 \<Rightarrow> u16 \<Rightarrow> slot list \<Rightarrow> slot list \<Rightarrow> bool" where
  "medium_moved src dest ss ss' \<longleftrightarrow>
     (\<exists>si < length ss. \<exists>di < length ss. \<exists>d' s'. si \<noteq> di \<and> slot_addr (ss ! si) = src \<and> slot_addr (ss ! di) = dest \<and>
        ss' = ss[di := d', si := s'] \<and> \<not> test_slot_full s' \<and> test_slot_full d' \<and>
        barcode d' = barcode (ss ! si) \<and> volume_tag d' = volume_tag (ss ! si) \<and> last_addr d' = src)"

lemma move_slots_effect:
  assumes run: "move_slots bsops dt_of src si di st = Some (r, st')"
    and i: "si < length (slots (sm_smc st))" "di < length (slots (sm_smc st))"
    and full: "test_slot_full (slots (sm_smc st) ! si)" "\<not> test_slot_full (slots (sm_smc st) ! di)"
    and addr: "slot_addr (slots (sm_smc st) ! si) = src" "slot_addr (slots (sm_smc st) ! di) = dest"
  shows "library_media (slots (sm_smc st')) = library_media (slots (sm_smc st)) \<and>
    (r = SAM_STAT_GOOD \<longrightarrow> medium_moved src dest (slots (sm_smc st)) (slots (sm_smc st')))"
proof -
  let ?ss = "slots (sm_smc st)"
  have ne: "si \<noteq> di"
    using full by auto
  from run i ne show ?thesis
  proof (cases rule: move_slots_cases)
    case (refused d')
    then show ?thesis
      using i full(2) by (simp add: library_media_same)
  next
    case (moved d' s' ts1)
    then have "slot_media d' = slot_media (?ss ! si)" "slot_media s' = {#}" "\<not> test_slot_full s'"
      using full(1) by (simp_all add: slot_media_def)
    then have "library_media (?ss[di := d', si := s']) = library_media ?ss"
      using i ne full by (intro moved_media)
    moreover have "medium_moved src dest ?ss (slots (sm_smc st'))"
      unfolding medium_moved_def
      by (rule exI [of _ si], rule conjI [OF i(1)], rule exI [of _ di], rule conjI [OF i(2)],
          rule exI [of _ d'], rule exI [of _ s']) (use ne addr moved \<open>\<not> test_slot_full s'\<close> in simp)
    ultimately show ?thesis
      using moved(2) by simp
  qed
qed

text \<open>
  C14. MOVE MEDIUM keeps the media of the library, whatever its outcome: the
  barcodes and volume tags of the full slots are the same multiset before and
  after. When it succeeds the medium of the slot the command names as the source
  is in the slot it names as the destination, and no other slot has changed.
\<close>

theorem move_medium_conserves:
  assumes run: "smc_move_medium bsops dt_of st = Some (r, st')"
  shows "library_media (slots (sm_smc st')) = library_media (slots (sm_smc st)) \<and>
    (r = SAM_STAT_GOOD \<longrightarrow>
       medium_moved (get_unaligned_be16 (scb (hs_cmd (sm_hst st))) 4) (get_unaligned_be16 (scb (hs_cmd (sm_hst st))) 6)
         (slots (sm_smc st)) (slots (sm_smc st')))"
  using run
proof (cases rule: move_medium_cases)
  case (transfer si di)
  then show ?thesis
    using last_slot_found by (intro move_slots_effect) auto
qed simp

text \<open>A library with a full storage slot at address 1 and a drive at address 2, the unit 1 of target 1.\<close>

definition ex_slot :: "u16 \<Rightarrow> u8 \<Rightarrow> slot" where
  "ex_slot a et = \<lparr>slot_addr = a, last_addr = 0, slot_asc = 0, element_type = et, cart_type = 0, slot_status = 0,
     slot_sides = 1, barcode = replicate 11 0, drive_tid = 1, drive_lun = 1, volume_tag = replicate 32 0\<rparr>"

definition ex_library :: "slot list" where
  "ex_library = [(ex_slot 1 ELEMENT_STORAGE)\<lparr>slot_status := 1, barcode := str_bytes ''A1'' @ replicate 9 0\<rparr>,
                 ex_slot 2 ELEMENT_DATA_TRANSFER]"

definition ex_drives :: "target list" where
  "ex_drives = [\<lparr>tgt_name = ''t'', tid = 1, lid = 0, target_state = SCSI_TARGET_READY,
     device_list = [(blank_lu 1)\<lparr>attrs := blank_attrs\<lparr>removable := 1\<rparr>, lu_bst := null_bst\<rparr>],
     it_nexus_list = [], tgt_bst = null_bst, acl_list = [], iqn_acl_list = [],
     account = \<lparr>out_aid = 0, nr_inaccount = 0, max_inaccount = 0, in_aids = []\<rparr>\<rparr>]"

definition ex_move :: smc_st where
  "ex_move = \<lparr>sm_hst = blank_hst\<lparr>hs_cmd := blank_cmd\<lparr>scb := [0xa5, 0, 0, 0, 0, 1, 0, 2, 0, 0, 0, 0]\<rparr>\<rparr>,
     sm_smc = \<lparr>media_home = Some ''/m'', slots = ex_library\<rparr>, sm_ts = ex_drives\<rparr>"

abbreviation (input) "ex_bsops \<equiv> model_bsops no_files"
abbreviation (input) "ex_dt \<equiv> \<lambda>_ :: scsi_lu. sbc_template (model_bsops no_files)"

lemma ex_move_runs: "map_option fst (smc_move_medium ex_bsops ex_dt ex_move) = Some SAM_STAT_GOOD"
  by code_simp

theorem move_medium_conserves_witness:
  "\<exists>st'. smc_move_medium ex_bsops ex_dt ex_move = Some (SAM_STAT_GOOD, st') \<and>
     library_media (slots (sm_smc st')) = library_media ex_library \<and> medium_moved 1 2 ex_library (slots (sm_smc st'))"
proof -
  obtain st' where r: "smc_move_medium ex_bsops ex_dt ex_move = Some (SAM_STAT_GOOD, st')"
    using ex_move_runs by (auto simp: map_option_case split: option.splits prod.splits)
  have "slots (sm_smc ex_move) = ex_library" "get_unaligned_be16 (scb (hs_cmd (sm_hst ex_move))) 4 = 1"
    "get_unaligned_be16 (scb (hs_cmd (sm_hst ex_move))) 6 = 2"
    by (simp add: ex_move_def) code_simp+
  then show ?thesis
    using r move_medium_conserves [OF r] by simp
qed

section \<open>READ ELEMENT STATUS\<close>

definition count_elements :: "u8 \<Rightarrow> u16 \<Rightarrow> slot list \<Rightarrow> nat" where
  "count_elements et start ss = length (filter (\<lambda>s. element_type s = et \<and> start \<le> slot_addr s) ss)"

lemma device_id_field_length: "device_id_field data i a = Some d \<Longrightarrow> length d = length data"
  by (auto simp: device_id_field_def bind_eq_Some_conv dest!: write_at_length)

lemma add_element_descriptor_length:
  "add_element_descriptor ts data off s et dvcid voltag = Some d \<Longrightarrow> length d = length data"
  by (auto simp: add_element_descriptor_def Let_def bind_eq_Some_conv split: option.splits if_splits
      dest!: write_at_length device_id_field_length)

lemma element_loop_count:
  "element_loop ts et start dvcid voltag ss data off n first = Some (d, n', first') \<Longrightarrow>
   n' = n + count_elements et start ss \<and> length d = length data"
proof (induction ss arbitrary: data off n first)
  case (Cons s ss)
  show ?case
  proof (cases "element_type s = et \<and> start \<le> slot_addr s")
    case True
    then obtain d1 where "add_element_descriptor ts data off s et dvcid voltag = Some d1"
      "element_loop ts et start dvcid voltag ss d1 (off + determine_element_sz dvcid voltag) (Suc n)
         (if Suc n = 1 then slot_addr s else first) = Some (d, n', first')"
      using Cons.prems by (auto simp: bind_eq_Some_conv)
    then show ?thesis
      using Cons.IH True by (force simp: count_elements_def dest: add_element_descriptor_length)
  next
    case False
    then show ?thesis
      using Cons.prems Cons.IH by (auto simp: count_elements_def split: if_splits)
  qed
qed (auto simp: count_elements_def)

lemma build_element_descriptors_count:
  "build_element_descriptors ts ss et start dvcid voltag data base first = Some (d, n, f) \<Longrightarrow>
   n = count_elements et start ss \<and> length d = length data"
  by (auto simp: build_element_descriptors_def Let_def bind_eq_Some_conv dest!: element_loop_count write_at_length)

text \<open>The page header has to fit, whatever the page holds.\<close>

lemma build_element_descriptors_fits:
  "build_element_descriptors ts ss et start dvcid voltag data base first = Some (d, n, f) \<Longrightarrow> base + 8 \<le> length data"
  by (auto simp: build_element_descriptors_def Let_def bind_eq_Some_conv write_at_def be16_bytes_def be32_bytes_def
      split: if_splits dest!: element_loop_count)

lemma count_elements_le: "count_elements et start ss \<le> length ss"
  by (simp add: count_elements_def)

lemma count_elements_total:
  "\<forall>s\<in>set ss. element_type s \<in> {1, 2, 3, 4} \<Longrightarrow>
   count_elements 1 0 ss + count_elements 2 0 ss + count_elements 3 0 ss + count_elements 4 0 ss = length ss"
  by (induction ss) (auto simp: count_elements_def)

lemma build_all_elements_offset:
  assumes "build_all_elements ts ss start dvcid voltag data = Some r" "length ss < 65536"
    and "count_elements 1 start ss + count_elements 2 start ss + count_elements 3 start ss \<le> length ss"
  shows "(3 * count_elements 1 start ss + 2 * count_elements 2 start ss + count_elements 3 start ss) *
    determine_element_sz dvcid voltag + 8 \<le> length data"
proof -
  let ?c = "\<lambda>k. count_elements k start ss" and ?sz = "determine_element_sz dvcid voltag"
  obtain d1 n1 f1 d2 n2 f2 d3 n3 f3 d4 n4 f4 where
    b1: "build_element_descriptors ts ss 1 start dvcid voltag data 8 0 = Some (d1, n1, f1)" and
    b2: "build_element_descriptors ts ss 2 start dvcid voltag d1 (unat (of_nat n1 :: u16) * ?sz) f1 = Some (d2, n2, f2)" and
    b3: "build_element_descriptors ts ss 3 start dvcid voltag d2
      (unat (of_nat n1 :: u16) * ?sz + unat (of_nat n1 + of_nat n2 :: u16) * ?sz) f2 = Some (d3, n3, f3)" and
    b4: "build_element_descriptors ts ss 4 start dvcid voltag d3
      (unat (of_nat n1 :: u16) * ?sz + unat (of_nat n1 + of_nat n2 :: u16) * ?sz +
       unat (of_nat n1 + of_nat n2 + of_nat n3 :: u16) * ?sz) f3 = Some (d4, n4, f4)"
    using assms(1) by (auto simp: build_all_elements_def Let_def bind_eq_Some_conv)
  have n: "n1 = ?c 1" "n2 = ?c 2" "n3 = ?c 3" "length d3 = length data"
    using build_element_descriptors_count [OF b1] build_element_descriptors_count [OF b2]
      build_element_descriptors_count [OF b3] by simp_all
  have u: "unat (of_nat k :: u16) = k" if "k \<le> length ss" for k
    using that assms(2) by (simp add: unat_of_nat take_bit_nat_eq_self)
  have "(of_nat n1 + of_nat n2 :: u16) = of_nat (n1 + n2)" "(of_nat n1 + of_nat n2 + of_nat n3 :: u16) = of_nat (n1 + n2 + n3)"
    by simp_all
  then show ?thesis
    using build_element_descriptors_fits [OF b4] u [of n1] u [of "n1 + n2"] u [of "n1 + n2 + n3"] n assms(3)
    by (simp add: algebra_simps del: of_nat_add)
qed

text \<open>
  C17. A READ ELEMENT STATUS of all element types, from address 0, writes outside
  the buffer it allocates (the handler has no result) whenever the storage
  elements and twice the medium transports outnumber the drives: the offset of
  each page after the first counts the earlier elements again.
\<close>

theorem read_all_elements_overflows:
  assumes "byte_at (scb (hs_cmd (sm_hst st))) 1 AND 0x0f = ELEMENT_ANY"
    and "get_unaligned_be16 (scb (hs_cmd (sm_hst st))) 2 = 0" "byte_at (scb (hs_cmd (sm_hst st))) 11 = 0"
    and "0xffffff AND get_unaligned_be32 (scb (hs_cmd (sm_hst st))) 6 \<le> scsi_get_in_length (hs_cmd (sm_hst st))"
    and "\<not> hs_reserved (sm_hst st)" "length (slots (sm_smc st)) < 65536"
    and types: "\<forall>s\<in>set (slots (sm_smc st)). element_type s \<in> {1, 2, 3, 4}"
    and many: "count_elements ELEMENT_DATA_TRANSFER 0 (slots (sm_smc st)) <
      2 * count_elements ELEMENT_MEDIUM_TRANSPORT 0 (slots (sm_smc st)) + count_elements ELEMENT_STORAGE 0 (slots (sm_smc st))"
  shows "smc_read_element_status st = None"
proof -
  let ?ss = "slots (sm_smc st)" and ?c = "\<lambda>k. count_elements k 0 (slots (sm_smc st))"
  have none: "build_all_elements (sm_ts st) ?ss 0 dvcid voltag (replicate (8 + determine_element_sz dvcid voltag * length ?ss) 0) = None"
    for dvcid voltag
  proof (rule ccontr)
    let ?sz = "determine_element_sz dvcid voltag"
    assume "build_all_elements (sm_ts st) ?ss 0 dvcid voltag (replicate (8 + ?sz * length ?ss) 0) \<noteq> None"
    then have "(3 * ?c 1 + 2 * ?c 2 + ?c 3) * ?sz + 8 \<le> 8 + ?sz * length ?ss"
      using build_all_elements_offset [of "sm_ts st" ?ss 0 dvcid voltag "replicate (8 + ?sz * length ?ss) 0"]
        assms(6) count_elements_total [OF types] by auto
    moreover have "0 < ?sz"
      by (simp add: determine_element_sz_def)
    ultimately have "3 * ?c 1 + 2 * ?c 2 + ?c 3 \<le> length ?ss"
      by (simp add: mult.commute)
    then show False
      using many count_elements_total [OF types] by simp
  qed
  have "hs_reserved (sm_hst (upd_hst (upd_cmd (scsi_set_in_resid_by_actual 0)) st)) = hs_reserved (sm_hst st)"
    by (simp add: upd_hst_def hs_reserved_def scsi_set_in_resid_by_actual_def)
  moreover have "\<not> scsi_get_in_length (hs_cmd (sm_hst st)) < 0xffffff AND get_unaligned_be32 (scb (hs_cmd (sm_hst st))) 6"
    using assms(4) by (rule leD)
  ultimately show ?thesis
    using assms(1-3, 5) none
    by (simp add: smc_read_element_status_def Let_def return_elements_def nr_slots_def upd_hst_def)
qed

definition ex_read_elements :: smc_st where
  "ex_read_elements = ex_move\<lparr>sm_hst := blank_hst\<lparr>hs_cmd :=
       blank_cmd\<lparr>scb := [0xb8, 0, 0, 0, 0xff, 0xff, 0, 0, 1, 0, 0, 0], in_sdb := blank_sdb\<lparr>sdb_length := 256\<rparr>\<rparr>\<rparr>,
     sm_smc := \<lparr>media_home = None,
       slots = [ex_slot 1 ELEMENT_MEDIUM_TRANSPORT, ex_slot 2 ELEMENT_STORAGE, ex_slot 3 ELEMENT_STORAGE,
                ex_slot 4 ELEMENT_DATA_TRANSFER]\<rparr>\<rparr>"

theorem read_all_elements_overflows_witness: "smc_read_element_status ex_read_elements = None"
proof (rule read_all_elements_overflows)
  have ss: "slots (sm_smc ex_read_elements) =
    [ex_slot 1 ELEMENT_MEDIUM_TRANSPORT, ex_slot 2 ELEMENT_STORAGE, ex_slot 3 ELEMENT_STORAGE,
     ex_slot 4 ELEMENT_DATA_TRANSFER]"
    by (simp add: ex_read_elements_def)
  show "length (slots (sm_smc ex_read_elements)) < 65536"
    by (simp add: ss)
  show "\<forall>s\<in>set (slots (sm_smc ex_read_elements)). element_type s \<in> {1, 2, 3, 4}"
    by (simp add: ss ex_slot_def)
  show "count_elements ELEMENT_DATA_TRANSFER 0 (slots (sm_smc ex_read_elements)) <
    2 * count_elements ELEMENT_MEDIUM_TRANSPORT 0 (slots (sm_smc ex_read_elements)) +
    count_elements ELEMENT_STORAGE 0 (slots (sm_smc ex_read_elements))"
    by (simp add: ss count_elements_def ex_slot_def)
qed (simp_all add: ex_read_elements_def blank_defs blank_hst_def blank_cmd_def blank_lu_def hs_reserved_def byte_at_def
       get_unaligned_be16_def get_unaligned_be32_def)

end
