(* ===== verification/Ssc_Media.thy ===== *)
theory Ssc_Media
  imports Bs_Rdwr Crc32c
begin

text \<open>
  The on-disk structures of a virtual tape (\<open>usr/libssc.c\<close>, \<open>usr/ssc.h\<close>,
  \<open>usr/bs_ssc.h\<close>): the header in front of every block, a doubly linked list on
  the file, and the medium's auxiliary memory (MAM). All multi-byte fields are
  big endian on disk; the checksum is stored in the byte order of the machine,
  little endian here. The file is reached through system calls only.
\<close>

unbundle bit_operations_syntax

section \<open>Structures\<close>

record blk_header_info =
  ondisk_sz :: u32
  blk_sz :: u32
  blk_type :: u32
  blk_num :: u64
  h_prev :: u64
  h_curr :: u64
  h_next :: u64

record MAM_info =
  tape_fmt_version :: u32
  remaining_capacity :: u64
  max_capacity :: u64
  TapeAlert :: u64
  load_count :: u64
  MAM_space_remaining :: u64
  assigning_organization_1 :: bytes
  formatted_density_code :: u8
  initialization_count :: bytes
  dev_make_serial_last_load :: bytes
  written_in_medium_life :: u64
  read_in_medium_life :: u64
  written_in_last_load :: u64
  read_in_last_load :: u64
  medium_manufacturer :: bytes
  medium_serial_number :: bytes
  medium_length :: u32
  medium_width :: u32
  assigning_organization_2 :: bytes
  medium_density_code :: u8
  medium_manufacture_date :: bytes
  MAM_capacity :: u64
  medium_type :: u8
  medium_type_information :: u16
  application_vendor :: bytes
  application_name :: bytes
  application_version :: bytes
  user_medium_text_label :: bytes
  date_time_last_written :: bytes
  localization_identifier :: u8
  mam_barcode :: bytes
  owning_host_textual_name :: bytes
  media_pool :: bytes
  vendor_unique :: bytes
  mam_dirty :: u8

abbreviation (input) "BLK_NOOP \<equiv> 0 :: u32"
abbreviation (input) "BLK_UNCOMPRESS_DATA \<equiv> 2 :: u32"
abbreviation (input) "BLK_BOT \<equiv> 0x10 :: u32"
abbreviation (input) "BLK_EOD \<equiv> 0x20 :: u32"
abbreviation (input) "BLK_FILEMARK \<equiv> 0x40 :: u32"
abbreviation (input) "TGT_TAPE_VERSION \<equiv> 2 :: u32"

text \<open>The sizes of \<open>struct blk_header\<close> and \<open>struct MAM\<close>.\<close>

abbreviation (input) "SSC_BLK_HDR_SIZE \<equiv> 48 :: nat"
abbreviation (input) "MAM_SIZE \<equiv> 1104 :: nat"
abbreviation (input) "SSC_1ST_HDR_OFFSET \<equiv> 1152 :: nat"

text \<open>The system calls on the medium's file beyond those of a disk.\<close>

record 'f tape_ops = "'f file_ops" +
  to_fsync :: "'f \<Rightarrow> 'f"
  to_lseek :: "'f \<Rightarrow> nat \<Rightarrow> bool"

section \<open>Encodings\<close>

definition le32_store :: "u32 \<Rightarrow> bytes" where
  "le32_store v = [ucast v, ucast (drop_bit 8 v), ucast (drop_bit 16 v), ucast (drop_bit 24 v)]"

definition blk_header_fields :: "blk_header_info \<Rightarrow> bytes" where
  "blk_header_fields i =
     be32_bytes (ondisk_sz i) @ be32_bytes (blk_sz i) @ be32_bytes (blk_type i) @ be64_bytes (blk_num i) @
     be64_bytes (h_prev i) @ be64_bytes (h_curr i) @ be64_bytes (h_next i)"

definition blk_header_bytes :: "blk_header_info \<Rightarrow> bytes" where
  "blk_header_bytes i = le32_store (NOT (crc32c_le (- 1) (blk_header_fields i))) @ blk_header_fields i"

definition blk_header_of :: "bytes \<Rightarrow> blk_header_info" where
  "blk_header_of m =
     \<lparr>ondisk_sz = get_unaligned_be32 m 4, blk_sz = get_unaligned_be32 m 8, blk_type = get_unaligned_be32 m 12,
      blk_num = get_unaligned_be64 m 16, h_prev = get_unaligned_be64 m 24, h_curr = get_unaligned_be64 m 32,
      h_next = get_unaligned_be64 m 40\<rparr>"

text \<open>A member array of \<open>n\<close> bytes at offset \<open>i\<close>.\<close>

definition member_array :: "nat \<Rightarrow> nat \<Rightarrow> bytes \<Rightarrow> bytes" where
  "member_array n i m = take n (drop i m)"

definition mam_bytes :: "MAM_info \<Rightarrow> bytes" where
  "mam_bytes i =
     be32_bytes (tape_fmt_version i) @ replicate 4 0 @
     be64_bytes (remaining_capacity i) @ be64_bytes (max_capacity i) @ be64_bytes (TapeAlert i) @
     be64_bytes (load_count i) @ be64_bytes (MAM_space_remaining i) @
     assigning_organization_1 i @ [formatted_density_code i] @ replicate 5 0 @ initialization_count i @
     dev_make_serial_last_load i @
     be64_bytes (written_in_medium_life i) @ be64_bytes (read_in_medium_life i) @
     be64_bytes (written_in_last_load i) @ be64_bytes (read_in_last_load i) @
     medium_manufacturer i @ medium_serial_number i @ be32_bytes (medium_length i) @ be32_bytes (medium_width i) @
     assigning_organization_2 i @ [medium_density_code i] @ replicate 7 0 @ medium_manufacture_date i @
     be64_bytes (MAM_capacity i) @ [medium_type i] @ [0] @ be16_bytes (medium_type_information i) @ replicate 4 0 @
     application_vendor i @ application_name i @ application_version i @ user_medium_text_label i @
     date_time_last_written i @ replicate 3 0 @ [localization_identifier i] @
     mam_barcode i @ owning_host_textual_name i @ media_pool i @ vendor_unique i @ [mam_dirty i] @ replicate 7 0"

definition mam_of :: "bytes \<Rightarrow> MAM_info" where
  "mam_of m =
     \<lparr>tape_fmt_version = get_unaligned_be32 m 0, remaining_capacity = get_unaligned_be64 m 8,
      max_capacity = get_unaligned_be64 m 16, TapeAlert = get_unaligned_be64 m 24,
      load_count = get_unaligned_be64 m 32, MAM_space_remaining = get_unaligned_be64 m 40,
      assigning_organization_1 = member_array 8 48 m, formatted_density_code = byte_at m 56,
      initialization_count = member_array 2 62 m, dev_make_serial_last_load = member_array 160 64 m,
      written_in_medium_life = get_unaligned_be64 m 224, read_in_medium_life = get_unaligned_be64 m 232,
      written_in_last_load = get_unaligned_be64 m 240, read_in_last_load = get_unaligned_be64 m 248,
      medium_manufacturer = member_array 8 256 m, medium_serial_number = member_array 32 264 m,
      medium_length = get_unaligned_be32 m 296, medium_width = get_unaligned_be32 m 300,
      assigning_organization_2 = member_array 8 304 m, medium_density_code = byte_at m 312,
      medium_manufacture_date = member_array 8 320 m, MAM_capacity = get_unaligned_be64 m 328,
      medium_type = byte_at m 336, medium_type_information = get_unaligned_be16 m 338,
      application_vendor = member_array 8 344 m, application_name = member_array 32 352 m,
      application_version = member_array 8 384 m, user_medium_text_label = member_array 160 392 m,
      date_time_last_written = member_array 12 552 m, localization_identifier = byte_at m 567,
      mam_barcode = member_array 32 568 m, owning_host_textual_name = member_array 80 600 m,
      media_pool = member_array 160 680 m, vendor_unique = member_array 256 840 m, mam_dirty = byte_at m 1096\<rparr>"

section \<open>Access to the file\<close>

text \<open>\<open>None\<close> is the result 1 of the code; a checksum that does not match is only reported.\<close>

definition ssc_read_blkhdr :: "('f, 'x) tape_ops_scheme \<Rightarrow> 'f \<Rightarrow> nat \<Rightarrow> blk_header_info option" where
  "ssc_read_blkhdr fo f off =
     (case pread_full (file_ops.truncate fo) f SSC_BLK_HDR_SIZE off of
        None \<Rightarrow> None | Some m \<Rightarrow> Some (blk_header_of m))"

text \<open>The flag tells whether all of the structure was written.\<close>

definition ssc_write_blkhdr :: "('f, 'x) tape_ops_scheme \<Rightarrow> 'f \<Rightarrow> blk_header_info \<Rightarrow> nat \<Rightarrow> bool \<times> 'f" where
  "ssc_write_blkhdr fo f i off =
     (let (n, f1) = fo_pwrite fo f (blk_header_bytes i) off in (n = Some SSC_BLK_HDR_SIZE, f1))"

definition ssc_read_mam_info :: "('f, 'x) tape_ops_scheme \<Rightarrow> 'f \<Rightarrow> MAM_info option" where
  "ssc_read_mam_info fo f =
     (case pread_full (file_ops.truncate fo) f MAM_SIZE SSC_BLK_HDR_SIZE of
        None \<Rightarrow> None
      | Some m \<Rightarrow> if to_lseek fo f SSC_1ST_HDR_OFFSET then Some (mam_of m) else None)"

definition ssc_write_mam_info :: "('f, 'x) tape_ops_scheme \<Rightarrow> 'f \<Rightarrow> MAM_info \<Rightarrow> bool \<times> 'f" where
  "ssc_write_mam_info fo f i =
     (let (n, f1) = fo_pwrite fo f (mam_bytes i) SSC_BLK_HDR_SIZE in
      (n = Some MAM_SIZE \<and> to_lseek fo f1 SSC_1ST_HDR_OFFSET, f1))"

section \<open>The encodings are inverse\<close>

lemma length_blk_header_fields [simp]: "length (blk_header_fields i) = 44"
  by (simp add: blk_header_fields_def)

lemma length_blk_header_bytes [simp]: "length (blk_header_bytes i) = SSC_BLK_HDR_SIZE"
  by (simp add: blk_header_bytes_def le32_store_def)

definition mam_wf :: "MAM_info \<Rightarrow> bool" where
  "mam_wf i \<longleftrightarrow>
     length (assigning_organization_1 i) = 8 \<and> length (initialization_count i) = 2 \<and>
     length (dev_make_serial_last_load i) = 160 \<and> length (medium_manufacturer i) = 8 \<and>
     length (medium_serial_number i) = 32 \<and> length (assigning_organization_2 i) = 8 \<and>
     length (medium_manufacture_date i) = 8 \<and> length (application_vendor i) = 8 \<and>
     length (application_name i) = 32 \<and> length (application_version i) = 8 \<and>
     length (user_medium_text_label i) = 160 \<and> length (date_time_last_written i) = 12 \<and>
     length (mam_barcode i) = 32 \<and> length (owning_host_textual_name i) = 80 \<and> length (media_pool i) = 160 \<and>
     length (vendor_unique i) = 256"

lemma length_mam_bytes: "mam_wf i \<Longrightarrow> length (mam_bytes i) = MAM_SIZE"
  by (simp add: mam_bytes_def mam_wf_def)

text \<open>A field is found by skipping the fields in front of it.\<close>

lemma skip_field:
  assumes "length a \<le> i"
  shows "get_unaligned_be16 (a @ m) i = get_unaligned_be16 m (i - length a)"
    and "get_unaligned_be32 (a @ m) i = get_unaligned_be32 m (i - length a)"
    and "get_unaligned_be64 (a @ m) i = get_unaligned_be64 m (i - length a)"
    and "byte_at (a @ m) i = byte_at m (i - length a)"
    and "member_array n i (a @ m) = member_array n (i - length a) m"
proof -
  have b: "byte_at (a @ m) (i + j) = byte_at m (i - length a + j)" for j
    using assms by (simp add: byte_at_def nth_append less_diff_conv2 add.commute)
  show "get_unaligned_be16 (a @ m) i = get_unaligned_be16 m (i - length a)"
    by (rule be16.get_local) (rule b)
  show "get_unaligned_be32 (a @ m) i = get_unaligned_be32 m (i - length a)"
    by (rule be32.get_local) (rule b)
  show "get_unaligned_be64 (a @ m) i = get_unaligned_be64 m (i - length a)"
    by (rule be64.get_local) (rule b)
  show "byte_at (a @ m) i = byte_at m (i - length a)"
    using b [of 0] by simp
  show "member_array n i (a @ m) = member_array n (i - length a) m"
    using assms by (simp add: member_array_def)
qed

lemma first_field:
  "get_unaligned_be16 (be16_bytes v @ m) 0 = v"
  "get_unaligned_be32 (be32_bytes w @ m) 0 = w"
  "get_unaligned_be64 (be64_bytes x @ m) 0 = x"
  "byte_at ([b] @ m) 0 = b"
  "length a = n \<Longrightarrow> member_array n 0 (a @ m) = a"
  using be16.get_put [of 0 "replicate 2 0 @ m" v] be32.get_put [of 0 "replicate 4 0 @ m" w]
    be64.get_put [of 0 "replicate 8 0 @ m" x]
  by (simp_all add: put_unaligned_be16_def put_unaligned_be32_def put_unaligned_be64_def put_bytes_def
      member_array_def byte_at_def)

lemma last_field: "get_unaligned_be64 (be64_bytes x) 0 = x"
  using first_field(3) [of x "[]"] by simp

lemmas field_simps_ssc = skip_field first_field last_field

lemma blk_header_of_bytes [simp]: "blk_header_of (blk_header_bytes i) = i"
  by (cases i) (simp add: blk_header_of_def blk_header_bytes_def blk_header_fields_def le32_store_def field_simps_ssc
      del: append.simps)

lemma mam_of_bytes: "mam_wf i \<Longrightarrow> mam_of (mam_bytes i) = i"
  unfolding mam_wf_def
  by (cases i) (simp add: mam_of_def mam_bytes_def field_simps_ssc del: append.simps)

end
