(* ===== verification/Bs_Ssc.thy ===== *)
theory Bs_Ssc
  imports Ssc_Media
begin

text \<open>
  The tape backing store (\<open>usr/bs_ssc.c\<close>): positioning on the list of block
  headers, reading and appending blocks, and the request function of the worker
  thread. The position is the header \<open>c_blk\<close> the unit holds in memory. \<open>None\<close>
  is an access outside a data buffer, or a walk along the headers that does not
  end.
\<close>

unbundle bit_operations_syntax

section \<open>State\<close>

abbreviation (input) "REZERO_UNIT \<equiv> 0x01 :: u8"
abbreviation (input) "WRITE_FILEMARKS \<equiv> 0x10 :: u8"
abbreviation (input) "SPACE \<equiv> 0x11 :: u8"
abbreviation (input) "ERASE \<equiv> 0x19 :: u8"
abbreviation (input) "READ_POSITION \<equiv> 0x34 :: u8"

abbreviation (input) "BLANK_CHECK \<equiv> 0x08 :: u8"
abbreviation (input) "SENSE_FILEMARK \<equiv> 0x80 :: u8"
abbreviation (input) "SENSE_EOM \<equiv> 0x40 :: u8"
abbreviation (input) "SENSE_ILI \<equiv> 0x20 :: u8"

abbreviation (input) "ASC_MARK \<equiv> 0x0001 :: u16"
abbreviation (input) "ASC_BOM \<equiv> 0x0004 :: u16"
abbreviation (input) "ASC_END_OF_DATA \<equiv> 0x0005 :: u16"
abbreviation (input) "ASC_MEDIUM_FORMAT_CORRUPT \<equiv> 0x3100 :: u16"
abbreviation (input) "ASC_SEQUENTIAL_POSITION_ERR \<equiv> 0x3b00 :: u16"

record ssc_info =
  bytes_read :: u64
  bytes_written :: u64
  mam :: MAM_info
  c_blk :: blk_header_info

text \<open>The command, its unit, the unit's tape data and the medium's file.\<close>

record 'f tape_st =
  tp_cmd :: scsi_cmd
  tp_lu :: scsi_lu
  tp_ssc :: ssc_info
  tp_file :: 'f

definition set_blk :: "blk_header_info \<Rightarrow> 'f tape_st \<Rightarrow> 'f tape_st" where
  "set_blk h st = st\<lparr>tp_ssc := (tp_ssc st)\<lparr>c_blk := h\<rparr>\<rparr>"

definition tape_cmd :: "(scsi_cmd \<Rightarrow> scsi_cmd) \<Rightarrow> 'f tape_st \<Rightarrow> 'f tape_st" where
  "tape_cmd f st = st\<lparr>tp_cmd := f (tp_cmd st)\<rparr>"

definition tape_sense :: "u8 \<Rightarrow> u16 \<Rightarrow> 'f tape_st \<Rightarrow> int \<times> 'f tape_st" where
  "tape_sense key asc st = (SAM_STAT_CHECK_CONDITION, tape_cmd (sense_data_build (tp_lu st) key asc) st)"

text \<open>Sense data with the information field; callers always pass four bytes.\<close>

definition ssc_sense_data_build :: "u8 \<Rightarrow> u16 \<Rightarrow> bytes \<Rightarrow> 'f tape_st \<Rightarrow> 'f tape_st" where
  "ssc_sense_data_build key asc info st =
     (let st1 = snd (tape_sense key asc st) in
      if info = [] then st1
      else tape_cmd (\<lambda>c. let b = put_bytes (sense_buffer c) 3 (take 4 info)
                         in c\<lparr>sense_buffer := b[0 := byte_at b 0 OR 0x80]\<rparr>) st1)"

definition ssc_get_block_length :: "scsi_lu \<Rightarrow> u32" where
  "ssc_get_block_length lu = get_unaligned_be24 (mode_block_descriptor lu) 5"

definition be24_to_2comp :: "bytes \<Rightarrow> nat \<Rightarrow> int" where
  "be24_to_2comp b i =
     (let n = get_unaligned_be24 b i in sint (if byte_at b i AND 0x80 \<noteq> 0 then n + 0xff000000 else n))"

section \<open>Positioning\<close>

text \<open>The flag tells whether the header could be read; the position is kept otherwise.\<close>

definition skip_to :: "'f tape_ops \<Rightarrow> nat \<Rightarrow> 'f tape_st \<Rightarrow> bool \<times> 'f tape_st" where
  "skip_to fo off st =
     (case ssc_read_blkhdr fo (tp_file st) off of None \<Rightarrow> (False, st) | Some h \<Rightarrow> (True, set_blk h st))"

definition skip_next_header :: "'f tape_ops \<Rightarrow> 'f tape_st \<Rightarrow> bool \<times> 'f tape_st" where
  "skip_next_header fo st = skip_to fo (unat (h_next (c_blk (tp_ssc st)))) st"

definition skip_prev_header :: "'f tape_ops \<Rightarrow> 'f tape_st \<Rightarrow> bool \<times> 'f tape_st" where
  "skip_prev_header fo st =
     (let (ok, st1) = skip_to fo (unat (h_prev (c_blk (tp_ssc st)))) st in
      if \<not> ok then (False, st1)
      else if blk_type (c_blk (tp_ssc st1)) = BLK_BOT then skip_next_header fo st1
      else (True, st1))"

definition resp_rewind :: "'f tape_ops \<Rightarrow> 'f tape_st \<Rightarrow> bool \<times> 'f tape_st" where
  "resp_rewind fo st =
     (let (ok, st1) = skip_to fo 0 st in if ok then skip_next_header fo st1 else (False, st1))"

definition current_size :: "'f tape_st \<Rightarrow> u64" where
  "current_size st = h_curr (c_blk (tp_ssc st))"

section \<open>Writing\<close>

text \<open>The two headers \<open>append_blk\<close> writes: the block at the position, and the new end.\<close>

definition new_blk :: "u32 \<Rightarrow> u32 \<Rightarrow> u32 \<Rightarrow> blk_header_info \<Rightarrow> blk_header_info" where
  "new_blk sz orig_sz ty c =
     c\<lparr>h_next := h_curr c + scast sz + of_nat SSC_BLK_HDR_SIZE, blk_type := ty, ondisk_sz := sz, blk_sz := orig_sz\<rparr>"

definition new_eod :: "blk_header_info \<Rightarrow> blk_header_info" where
  "new_eod c =
     \<lparr>ondisk_sz = 0, blk_sz = 0, blk_type = BLK_EOD, blk_num = blk_num c + 1, h_prev = h_curr c,
      h_curr = h_next c, h_next = h_next c\<rparr>"

text \<open>\<open>boff\<close> is the offset of the data in the data-out buffer.\<close>

definition append_blk ::
  "'f tape_ops \<Rightarrow> nat \<Rightarrow> u32 \<Rightarrow> u32 \<Rightarrow> u32 \<Rightarrow> 'f tape_st \<Rightarrow> (int \<times> 'f tape_st) option" where
  "append_blk fo boff sz orig_sz ty st =
     (let curr = new_blk sz orig_sz ty (c_blk (tp_ssc st)); eod = new_eod curr;
          st1 = set_blk eod st;
          fail = tape_sense MEDIUM_ERROR ASC_WRITE_ERROR;
          n = unat (scast sz :: u64); buf = scsi_get_out_buffer (tp_cmd st);
          (ok1, f1) = ssc_write_blkhdr fo (tp_file st1) curr (unat (h_curr curr))
      in if \<not> ok1 then Some (fail (st1\<lparr>tp_file := f1\<rparr>))
         else
           let (ok2, f2) = ssc_write_blkhdr fo f1 eod (unat (h_curr eod)) in
           if \<not> ok2 then Some (fail (st1\<lparr>tp_file := f2\<rparr>))
           else if sz = 0 then Some (SAM_STAT_GOOD, st1\<lparr>tp_file := f2\<rparr>)
           else if length buf < boff + n then None
           else
             let (w, f3) = fo_pwrite fo f2 (take n (drop boff buf)) (unat (h_curr curr + of_nat SSC_BLK_HDR_SIZE))
             in Some (if w = Some n then (SAM_STAT_GOOD, st1\<lparr>tp_file := f3\<rparr>) else fail (st1\<lparr>tp_file := f3\<rparr>)))"

section \<open>Spacing\<close>

partial_function (option) space_filemark_reverse ::
  "'f tape_ops \<Rightarrow> int \<Rightarrow> 'f tape_st \<Rightarrow> (int \<times> 'f tape_st) option" where
  "space_filemark_reverse fo n st =
     (let h = c_blk (tp_ssc st) in
      if h_prev h = 0 then Some (tape_sense NO_SENSE ASC_BOM st)
      else
        let n1 = (if blk_type h = BLK_FILEMARK then n - 1 else n); (ok, st1) = skip_prev_header fo st in
        if \<not> ok then Some (tape_sense MEDIUM_ERROR ASC_MEDIUM_FORMAT_CORRUPT st1)
        else if n1 > 0 then space_filemark_reverse fo n1 st1
        else Some (SAM_STAT_GOOD, st1))"

partial_function (option) space_filemark_forward ::
  "'f tape_ops \<Rightarrow> int \<Rightarrow> 'f tape_st \<Rightarrow> (int \<times> 'f tape_st) option" where
  "space_filemark_forward fo n st =
     (let h = c_blk (tp_ssc st) in
      if blk_type h = BLK_EOD then Some (tape_sense NO_SENSE ASC_END_OF_DATA st)
      else
        let n1 = (if blk_type h = BLK_FILEMARK then n - 1 else n); (ok, st1) = skip_next_header fo st in
        if \<not> ok then Some (tape_sense MEDIUM_ERROR ASC_MEDIUM_FORMAT_CORRUPT st1)
        else if n1 > 0 then space_filemark_forward fo n1 st1
        else Some (SAM_STAT_GOOD, st1))"

text \<open>The negated count is passed to the reverse walk.\<close>

definition space_filemark :: "'f tape_ops \<Rightarrow> int \<Rightarrow> 'f tape_st \<Rightarrow> (int \<times> 'f tape_st) option" where
  "space_filemark fo n st =
     (if n > 0 then space_filemark_forward fo n st
      else if n < 0 then space_filemark_reverse fo (- n) st
      else Some (SAM_STAT_GOOD, st))"

text \<open>
  One header forwards or backwards per round; the count is a 24 bit number, so
  the loop ends.
\<close>

function space_blocks :: "'f tape_ops \<Rightarrow> int \<Rightarrow> 'f tape_st \<Rightarrow> int \<times> 'f tape_st" where
  "space_blocks fo n st =
     (if n = 0 then (SAM_STAT_GOOD, st)
      else if n > 0 then
        let (ok, st1) = skip_next_header fo st in
        if \<not> ok then tape_sense MEDIUM_ERROR ASC_MEDIUM_FORMAT_CORRUPT st1
        else if blk_type (c_blk (tp_ssc st1)) = BLK_EOD then tape_sense NO_SENSE ASC_END_OF_DATA st1
        else space_blocks fo (n - 1) st1
      else
        let (ok, st1) = skip_prev_header fo st in
        if \<not> ok then tape_sense MEDIUM_ERROR ASC_MEDIUM_FORMAT_CORRUPT st1
        else if blk_type (c_blk (tp_ssc st1)) = BLK_BOT
        then tape_sense NO_SENSE ASC_BOM (snd (skip_next_header fo st1))
        else space_blocks fo (n + 1) st1)"
  by auto
termination
  by (relation "measure (\<lambda>(fo, n, st). nat \<bar>n\<bar>)") auto

declare space_blocks.simps [simp del]

partial_function (option) space_eod :: "'f tape_ops \<Rightarrow> 'f tape_st \<Rightarrow> (int \<times> 'f tape_st) option" where
  "space_eod fo st =
     (if blk_type (c_blk (tp_ssc st)) = BLK_EOD then Some (SAM_STAT_GOOD, st)
      else
        let (ok, st1) = skip_next_header fo st in
        if ok then space_eod fo st1 else Some (tape_sense MEDIUM_ERROR ASC_MEDIUM_FORMAT_CORRUPT st1))"

section \<open>Reading\<close>

text \<open>\<open>pread64\<close> of \<open>n\<close> bytes to offset \<open>boff\<close> of the data-in buffer; the flag tells a full read.\<close>

definition read_data :: "'f tape_ops \<Rightarrow> nat \<Rightarrow> nat \<Rightarrow> nat \<Rightarrow> 'f tape_st \<Rightarrow> (bool \<times> 'f tape_st) option" where
  "read_data fo boff n off st =
     (let buf = scsi_get_in_buffer (tp_cmd st) in
      case fo_pread fo (tp_file st) n off of
        None \<Rightarrow> Some (False, st)
      | Some d \<Rightarrow> do { buf' \<leftarrow> write_at buf boff d; Some (length d = n, tape_cmd (set_in_buffer buf') st) })"

text \<open>The sense data of a READ whose length differs from the block's.\<close>

definition length_mismatch :: "u32 \<Rightarrow> 'f tape_st \<Rightarrow> 'f tape_st" where
  "length_mismatch len st =
     (let h = c_blk (tp_ssc st); info = be32_bytes (len - blk_sz h);
          st1 = (if blk_type h = BLK_EOD then snd (tape_sense (SENSE_EOM OR BLANK_CHECK) NO_ADDITIONAL_SENSE st)
                 else if blk_type h = BLK_FILEMARK
                 then ssc_sense_data_build (NO_SENSE OR SENSE_FILEMARK) ASC_MARK info st
                 else ssc_sense_data_build (NO_SENSE OR SENSE_ILI) NO_ADDITIONAL_SENSE info st)
      in tape_cmd (scsi_set_in_resid_by_actual (if len > blk_sz h then len - blk_sz h else 0)) st1)"

definition read_skip :: "'f tape_ops \<Rightarrow> int \<Rightarrow> 'f tape_st \<Rightarrow> int \<times> 'f tape_st" where
  "read_skip fo result st =
     (let (ok, st1) = skip_next_header fo st in
      if ok then (result, st1) else tape_sense MEDIUM_ERROR ASC_MEDIUM_FORMAT_CORRUPT st1)"

definition resp_var_read :: "'f tape_ops \<Rightarrow> u32 \<Rightarrow> 'f tape_st \<Rightarrow> (int \<times> 'f tape_st) option" where
  "resp_var_read fo length0 st =
     (let h = c_blk (tp_ssc st); len = min length0 (get_unaligned_be24 (scb (tp_cmd st)) 2);
          differs = (len \<noteq> blk_sz h);
          st1 = (if differs then length_mismatch len st else st);
          result = (if differs then SAM_STAT_CHECK_CONDITION else SAM_STAT_GOOD);
          len1 = (if differs then min len (blk_sz h) else len)
      in if differs \<and> len1 = 0
         then Some (if blk_type h = BLK_FILEMARK then read_skip fo result st1 else (result, st1))
         else do { (ok, st2) \<leftarrow> read_data fo 0 (unat len1) (unat (h_curr h + of_nat SSC_BLK_HDR_SIZE)) st1;
                   Some (if ok then read_skip fo result st2 else tape_sense MEDIUM_ERROR ASC_READ_ERROR st2) })"

text \<open>The loop over the blocks of a READ in fixed block mode; \<open>n\<close> blocks are left.\<close>

fun fixed_read_loop :: "'f tape_ops \<Rightarrow> u32 \<Rightarrow> nat \<Rightarrow> nat \<Rightarrow> 'f tape_st \<Rightarrow> (int \<times> 'f tape_st) option" where
  "fixed_read_loop fo block_length 0 boff st = Some (SAM_STAT_GOOD, st)"
| "fixed_read_loop fo block_length (Suc n) boff st =
     (let h = c_blk (tp_ssc st) in
      if blk_type h = BLK_FILEMARK then
        Some (SAM_STAT_CHECK_CONDITION,
          snd (skip_next_header fo
            (ssc_sense_data_build (NO_SENSE OR SENSE_FILEMARK) ASC_MARK (be32_bytes (of_nat (Suc n))) st)))
      else if block_length \<noteq> blk_sz h then Some (tape_sense MEDIUM_ERROR ASC_MEDIUM_FORMAT_CORRUPT st)
      else do { (ok, st1) \<leftarrow> read_data fo boff (unat block_length) (unat (h_curr h + of_nat SSC_BLK_HDR_SIZE)) st;
                if \<not> ok then Some (tape_sense MEDIUM_ERROR ASC_READ_ERROR st1)
                else
                  let (ok2, st2) = skip_next_header fo st1 in
                  if \<not> ok2 then Some (tape_sense MEDIUM_ERROR ASC_MEDIUM_FORMAT_CORRUPT st2)
                  else fixed_read_loop fo block_length n (boff + unat block_length) st2 })"

definition resp_fixed_read :: "'f tape_ops \<Rightarrow> 'f tape_st \<Rightarrow> (int \<times> 'f tape_st) option" where
  "resp_fixed_read fo st =
     fixed_read_loop fo (ssc_get_block_length (tp_lu st)) (unat (get_unaligned_be24 (scb (tp_cmd st)) 2)) 0 st"

section \<open>\<open>tape_rdwr_request\<close>\<close>

definition tape_rewind :: "'f tape_ops \<Rightarrow> 'f tape_st \<Rightarrow> int \<times> 'f tape_st" where
  "tape_rewind fo st =
     (let (ok, st1) = resp_rewind fo st in
      if ok then (SAM_STAT_GOOD, st1) else tape_sense MEDIUM_ERROR ASC_SEQUENTIAL_POSITION_ERR st1)"

text \<open>The result of each append is dropped.\<close>

fun filemark_loop :: "'f tape_ops \<Rightarrow> nat \<Rightarrow> 'f tape_st \<Rightarrow> 'f tape_st option" where
  "filemark_loop fo 0 st = Some st"
| "filemark_loop fo (Suc n) st =
     do { (_, st1) \<leftarrow> append_blk fo 0 0 0 BLK_FILEMARK st; filemark_loop fo n st1 }"

definition tape_write_filemarks :: "'f tape_ops \<Rightarrow> 'f tape_st \<Rightarrow> (int \<times> 'f tape_st) option" where
  "tape_write_filemarks fo st =
     do { st1 \<leftarrow> filemark_loop fo (unat (get_unaligned_be24 (scb (tp_cmd st)) 2)) st;
          Some (SAM_STAT_GOOD, st1\<lparr>tp_file := to_fsync fo (tp_file st1)\<rparr>) }"

definition tape_read :: "'f tape_ops \<Rightarrow> 'f tape_st \<Rightarrow> (int \<times> 'f tape_st) option" where
  "tape_read fo st =
     (let b1 = byte_at (scb (tp_cmd st)) 1; fixed = (b1 AND 1 \<noteq> 0) in
      if fixed \<and> b1 AND 2 \<noteq> 0 then Some (tape_sense ILLEGAL_REQUEST ASC_INVALID_FIELD_IN_CDB st)
      else if fixed then resp_fixed_read fo st
      else resp_var_read fo (scsi_get_in_length (tp_cmd st)) st)"

text \<open>The loop over the blocks of a WRITE: the bytes written, and whether an append failed.\<close>

fun write_loop ::
  "'f tape_ops \<Rightarrow> u32 \<Rightarrow> nat \<Rightarrow> nat \<Rightarrow> u32 \<Rightarrow> 'f tape_st \<Rightarrow> (int \<times> u32 \<times> 'f tape_st) option" where
  "write_loop fo block_length 0 boff ret st = Some (SAM_STAT_GOOD, ret, st)"
| "write_loop fo block_length (Suc n) boff ret st =
     do { (r, st1) \<leftarrow> append_blk fo boff block_length block_length BLK_UNCOMPRESS_DATA st;
          if r \<noteq> 0 then (let (res, st2) = tape_sense MEDIUM_ERROR ASC_WRITE_ERROR st1 in Some (res, ret, st2))
          else write_loop fo block_length n (boff + unat block_length) (ret + block_length) st1 }"

definition tape_write :: "'f tape_ops \<Rightarrow> 'f tape_st \<Rightarrow> (int \<times> 'f tape_st) option" where
  "tape_write fo st =
     (let cmd = tp_cmd st; fixed = (byte_at (scb cmd) 1 AND 1 \<noteq> 0); len = scsi_get_out_length cmd;
          block_length = (if fixed then ssc_get_block_length (tp_lu st) else len);
          n = (if fixed then unat (get_unaligned_be24 (scb cmd) 2) else 1)
      in do { (result, ret, st1) \<leftarrow> write_loop fo block_length n 0 0 st;
              Some (if current_size st1 > max_capacity (mam (tp_ssc st1))
                    then tape_sense (NO_SENSE OR SENSE_EOM) NO_ADDITIONAL_SENSE st1
                    else if ret \<noteq> len then tape_sense MEDIUM_ERROR ASC_WRITE_ERROR st1
                    else (result, st1)) })"

definition tape_space :: "'f tape_ops \<Rightarrow> 'f tape_st \<Rightarrow> (int \<times> 'f tape_st) option" where
  "tape_space fo st =
     (let code = byte_at (scb (tp_cmd st)) 1 AND 0xf; n = be24_to_2comp (scb (tp_cmd st)) 2 in
      if code = 0 then Some (space_blocks fo n st)
      else if code = 1 then space_filemark fo n st
      else if code = 3 then space_eod fo st
      else Some (tape_sense ILLEGAL_REQUEST ASC_INVALID_FIELD_IN_CDB st))"

definition tape_read_position :: "'f tape_st \<Rightarrow> (int \<times> 'f tape_st) option" where
  "tape_read_position st =
     (let action = byte_at (scb (tp_cmd st)) 1 AND 0x1f;
          answer = (\<lambda>n. do { buf \<leftarrow> write_at (scsi_get_in_buffer (tp_cmd st)) 0 ((replicate n 0)[0 := of_nat n]);
                             Some (SAM_STAT_GOOD, tape_cmd (set_in_buffer buf) st) })
      in if action = 0 \<or> action = 1 then answer 20
         else if action = 6 then answer 32
         else Some (tape_sense ILLEGAL_REQUEST ASC_INVALID_FIELD_IN_CDB st))"

definition tape_dispatch :: "'f tape_ops \<Rightarrow> 'f tape_st \<Rightarrow> (int \<times> 'f tape_st) option" where
  "tape_dispatch fo st =
     (let op = byte_at (scb (tp_cmd st)) 0 in
      if op = REZERO_UNIT then Some (tape_rewind fo st)
      else if op = WRITE_FILEMARKS then tape_write_filemarks fo st
      else if op = READ_6 then tape_read fo st
      else if op = WRITE_6 then tape_write fo st
      else if op = SPACE then tape_space fo st
      else if op = READ_POSITION then tape_read_position st
      else Some (tape_sense ILLEGAL_REQUEST ASC_INVALID_OP_CODE st))"

definition tape_rdwr_request :: "'f tape_ops \<Rightarrow> 'f tape_st \<Rightarrow> 'f tape_st option" where
  "tape_rdwr_request fo st =
     do { (result, st1) \<leftarrow> tape_dispatch fo st; Some (tape_cmd (\<lambda>c. c\<lparr>c_result := result\<rparr>) st1) }"

section \<open>Opening a medium\<close>

text \<open>
  \<open>opened\<close> is what \<open>backed_file_open\<close> returned: the descriptor, the size and the
  file. On a failure after that the headers read so far stay in memory.
\<close>

definition bs_ssc_open ::
  "'f tape_ops \<Rightarrow> (int \<times> u64 \<times> 'f) option \<Rightarrow> ssc_info \<Rightarrow> (int \<times> u64) option \<times> ssc_info" where
  "bs_ssc_open fo opened ssc =
     (case opened of
        None \<Rightarrow> (None, ssc)
      | Some (fd, sz, f) \<Rightarrow>
          if sz < of_nat (SSC_BLK_HDR_SIZE + MAM_SIZE) then (None, ssc)
          else case ssc_read_blkhdr fo f 0 of
            None \<Rightarrow> (None, ssc)
          | Some h \<Rightarrow>
              (case ssc_read_mam_info fo f of
                 None \<Rightarrow> (None, ssc\<lparr>c_blk := h\<rparr>)
               | Some m \<Rightarrow>
                   (case ssc_read_blkhdr fo f (unat (h_next h)) of
                      None \<Rightarrow> (None, ssc\<lparr>c_blk := h, mam := m\<rparr>)
                    | Some h' \<Rightarrow> (Some (fd, sz), ssc\<lparr>c_blk := h', mam := m\<rparr>))))"

definition ssc_bst :: backingstore_template where
  "ssc_bst = \<lparr>bs_name = ''ssc'', bs_oflags_supported = 0, bs_supported_ops = replicate 4 0\<rparr>"

end
