(* ===== verification/Ssc.thy ===== *)
theory Ssc
  imports Bs_Ssc
begin

text \<open>
  The stream device type (\<open>usr/ssc.c\<close>): the checks in front of the tape store,
  the block limits, the set-up of a tape drive and its operation table.
\<close>

unbundle bit_operations_syntax

abbreviation (input) "GRANULARITY \<equiv> 9 :: u8"
abbreviation (input) "MAX_BLK_SIZE \<equiv> 1048576 :: u32"
abbreviation (input) "MIN_BLK_SIZE \<equiv> 4 :: u16"

text \<open>No page can be changed.\<close>

definition ssc_mode_page_update :: mode_update where
  "ssc_mode_page_update data lu = (True, lu, False)"

definition ssc_mode_select :: "hst \<Rightarrow> (int \<times> hst) option" where
  "ssc_mode_select s = spc_mode_select ssc_mode_page_update s"

definition ssc_mode_sense :: "hst \<Rightarrow> (int \<times> hst) option" where
  "ssc_mode_sense s =
     do { (ret, s1) \<leftarrow> spc_mode_sense s;
          if ret \<noteq> SAM_STAT_GOOD then Some (ret, s1)
          else
            let buf = scsi_get_in_buffer (hs_cmd s1); i = (if byte_at (scb (hs_cmd s1)) 0 = 0x1a then 2 else 3);
                v = (if readonly (attrs (hs_lu s1)) \<noteq> 0 then byte_at buf i OR 0x80 else byte_at buf i)
            in do { buf' \<leftarrow> write_at buf i [v OR 0x10];
                    Some (ret, upd_cmd (set_in_buffer buf') s1) } }"

definition ssc_rw :: "submit_fn \<Rightarrow> hst \<Rightarrow> (int \<times> hst) option" where
  "ssc_rw submit s =
     (let a = attrs (hs_lu s); op = byte_at (scb (hs_cmd s)) 0 in
      if hs_reserved s then Some (SAM_STAT_RESERVATION_CONFLICT, s)
      else if removable a \<noteq> 0 \<and> online a = 0 then Some (sense_reset NOT_READY ASC_MEDIUM_NOT_PRESENT s)
      else if readonly a \<noteq> 0 \<and> op \<in> {ERASE, SPACE, WRITE_6, WRITE_FILEMARKS}
      then Some (sense_reset DATA_PROTECT ASC_WRITE_PROTECT s)
      else do { (ret, s1) \<leftarrow> submit s;
                Some (if ret \<noteq> 0 then sense_reset HARDWARE_ERROR ASC_INTERNAL_TGT_FAILURE s1
                      else (SAM_STAT_GOOD, s1)) })"

text \<open>The block length is kept in a byte here.\<close>

definition block_limit_bytes :: "u8 \<Rightarrow> bytes" where
  "block_limit_bytes block_length =
     (if block_length \<noteq> 0 then [GRANULARITY] @ be24_bytes (ucast block_length) @ be16_bytes (ucast block_length)
      else [GRANULARITY] @ be24_bytes MAX_BLK_SIZE @ be16_bytes MIN_BLK_SIZE)"

definition ssc_read_block_limit :: "hst \<Rightarrow> (int \<times> hst) option" where
  "ssc_read_block_limit s =
     do { buf \<leftarrow> write_at (scsi_get_in_buffer (hs_cmd s)) 0 (block_limit_bytes (ucast (ssc_get_block_length (hs_lu s))));
          Some (SAM_STAT_GOOD, upd_cmd (set_in_buffer buf) s) }"

definition ssc_mode_pages :: "scsi_lu \<Rightarrow> scsi_lu" where
  "ssc_mode_pages lu =
     fold (\<lambda>p lu. snd (add_mode_page lu p))
       [''0:0:0'', ''1:0:10:0:8:0:0:0:0:8:0:0:0'', ''2:0:14:0x80:0x80:0:0xa:0:0:0:0:0:0:0:0:0:0'',
        ''0x0a:0:10:2:0:0:0:0:0:0:0:2:0'', ''0x0a:1:0x1c:0x04:0x00:0x00'',
        ''15:0:14:0:0:0:0:0:0:0:0:0:0:0:0:0:0'', ''16:0:14:0:0:0:128:128:0:0:0:0:0:0:0:0:0'',
        ''0x1c:0:10:8:0:0:0:0:0:0:0:0:0'',
        ''0x1d:0:0x1e:1:0:0:0:0:0:0:0:0:0:0:0:0:0:0:0:0:0:0:0:0:0:0:0:0:0:0:0:0:0''] lu"

definition ssc_lu_init :: "(target \<Rightarrow> scsi_lu \<Rightarrow> tgtadm_err \<times> scsi_lu) \<Rightarrow> target \<Rightarrow> scsi_lu \<Rightarrow> tgtadm_err \<times> scsi_lu" where
  "ssc_lu_init lu_off tgt lu0 =
     (let (err, lu1) = spc_lu_init TYPE_TAPE lu_off tgt lu0 in
      if err \<noteq> TGTADM_SUCCESS then (TGTADM_NOMEM, lu1)
      else
        let lu2 = upd_attrs (\<lambda>a. a\<lparr>product_id := strncpy_bytes (PRODUCT_ID_LEN + 1) (str_bytes ''VIRTUAL-TAPE''),
                    sense_format := 0, version_desc := (version_desc a)[0 := 0x0200, 1 := 0x0960, 2 := 0x0300],
                    removable := 1\<rparr>) lu1;
            md = mode_block_descriptor lu2
        in (TGTADM_SUCCESS,
            ssc_mode_pages (lu2\<lparr>mode_block_descriptor := put_unaligned_be24 0 (put_unaligned_be24 0 md 1) 5\<rparr>)))"

section \<open>The operation table\<close>

datatype ssc_fn =
    Ssc_spc perform_fn | Ssc_rw | Ssc_read_block_limit | Ssc_mode_select | Ssc_mode_sense

definition ssc_ops :: "u8 \<Rightarrow> ssc_fn \<times> (u32 \<times> perform_fn) list" where
  "ssc_ops op =
     (case map_of
        [(0x00, Ssc_spc Spc_test_unit), (0x01, Ssc_rw), (0x03, Ssc_spc Spc_request_sense), (0x05, Ssc_read_block_limit),
         (0x08, Ssc_rw), (0x0a, Ssc_rw), (0x0b, Ssc_rw), (0x10, Ssc_rw), (0x11, Ssc_rw), (0x12, Ssc_spc Spc_inquiry),
         (0x15, Ssc_mode_select), (0x1a, Ssc_mode_sense), (0x1b, Ssc_spc Spc_start_stop),
         (0x1d, Ssc_spc Spc_send_diagnostics), (0x1e, Ssc_spc Spc_prevent_allow), (0x34, Ssc_rw),
         (0x5a, Ssc_mode_sense), (0xa0, Ssc_spc Spc_report_luns), (0xa3, Ssc_spc Spc_service_action)] op of
        None \<Rightarrow> (Ssc_spc Spc_illegal_op, [])
      | Some fn \<Rightarrow> (fn, if op = 0xa3 then maint_in_service_actions else []))"

definition ssc_perform :: "env \<Rightarrow> hst \<Rightarrow> (int \<times> hst) option" where
  "ssc_perform e s =
     (case fst (ssc_ops (byte_at (scb (hs_cmd s)) 0)) of
        Ssc_spc fn \<Rightarrow> run_fn e fn s
      | Ssc_rw \<Rightarrow> ssc_rw (e_submit e) s
      | Ssc_read_block_limit \<Rightarrow> ssc_read_block_limit s
      | Ssc_mode_select \<Rightarrow> ssc_mode_select s
      | Ssc_mode_sense \<Rightarrow> ssc_mode_sense s)"

end
