(* ===== verification/Tape_Image.thy ===== *)
theory Tape_Image
  imports Ssc
begin

text \<open>
  A tape as a list of records and marks, and the file image that stores it: the
  contract of the medium's file as a locale, the layout of the image, and what
  walking, reading and appending do to it.
\<close>

unbundle bit_operations_syntax

section \<open>The medium's file\<close>

text \<open>A write into a file: a gap in front of it is filled with zeros.\<close>

definition file_write :: "bytes \<Rightarrow> nat \<Rightarrow> bytes \<Rightarrow> bytes" where
  "file_write b off d = take off (b @ replicate (off - length b) 0) @ d @ drop (off + length d) b"

lemma file_write_inside: "take (length d) (drop off (file_write b off d)) = d"
  by (simp add: file_write_def min_def)

lemma file_write_outside:
  assumes "i + n \<le> length b" "i + n \<le> off \<or> off + length d \<le> i"
  shows "take n (drop i (file_write b off d)) = take n (drop i b)"
proof (rule nth_equalityI)
  show "length (take n (drop i (file_write b off d))) = length (take n (drop i b))"
    using assms by (auto simp: file_write_def)
  fix k assume "k < length (take n (drop i (file_write b off d)))"
  then have k: "k < n"
    by simp
  show "take n (drop i (file_write b off d)) ! k = take n (drop i b) ! k"
  proof (cases "i + n \<le> off")
    case True
    then show ?thesis
      using assms k by (simp add: file_write_def nth_append)
  next
    case False
    then have "off + length d \<le> i" "off \<le> length b"
      using assms by auto
    then show ?thesis
      using assms(1) k by (simp add: file_write_def nth_append min_def)
  qed
qed

lemma length_file_write: "length (file_write b off d) = max (length b) (off + length d)"
  by (simp add: file_write_def)

text \<open>
  What the store relies on: a read returns what the file holds up to its end, a
  write stores everything, and synchronising changes nothing.
\<close>

locale tape_file =
  fixes fo :: "'f tape_ops" and contents :: "'f \<Rightarrow> bytes"
  assumes pread: "fo_pread fo f n off = Some (take n (drop off (contents f)))"
    and pwrite_all: "fst (fo_pwrite fo f d off) = Some (length d)"
    and pwrite_contents: "contents (snd (fo_pwrite fo f d off)) = file_write (contents f) off d"
    and fsync_contents: "contents (to_fsync fo f) = contents f"
    and lseek_ok: "to_lseek fo f off"
begin

lemma read_blkhdr:
  assumes "take SSC_BLK_HDR_SIZE (drop off (contents f)) = blk_header_bytes h"
  shows "ssc_read_blkhdr fo f off = Some h"
  by (simp add: ssc_read_blkhdr_def pread_full_def file_ops.truncate_def pread assms)

lemma write_blkhdr:
  "ssc_write_blkhdr fo f h off = (True, snd (fo_pwrite fo f (blk_header_bytes h) off))"
  using pwrite_all [of f "blk_header_bytes h" off]
  by (simp add: ssc_write_blkhdr_def case_prod_beta)

lemma read_mam_info:
  assumes "take MAM_SIZE (drop SSC_BLK_HDR_SIZE (contents f)) = mam_bytes m" "mam_wf m"
  shows "ssc_read_mam_info fo f = Some m"
  by (simp add: ssc_read_mam_info_def pread_full_def file_ops.truncate_def pread assms(1) length_mam_bytes [OF assms(2)]
      mam_of_bytes [OF assms(2)] lseek_ok)

end

section \<open>Tapes and their images\<close>

datatype tape_rec = Rec_data bytes | Rec_mark

primrec rec_data :: "tape_rec \<Rightarrow> bytes" where
  "rec_data (Rec_data d) = d"
| "rec_data Rec_mark = []"

definition rec_type :: "tape_rec \<Rightarrow> u32" where
  "rec_type r = (case r of Rec_data _ \<Rightarrow> BLK_UNCOMPRESS_DATA | Rec_mark \<Rightarrow> BLK_FILEMARK)"

definition blk_addr :: "tape_rec list \<Rightarrow> nat \<Rightarrow> nat" where
  "blk_addr recs k = SSC_1ST_HDR_OFFSET + (\<Sum>r\<leftarrow>take k recs. SSC_BLK_HDR_SIZE + length (rec_data r))"

definition prev_addr :: "tape_rec list \<Rightarrow> nat \<Rightarrow> nat" where
  "prev_addr recs k = (if k = 0 then 0 else blk_addr recs (k - 1))"

text \<open>The header of block \<open>k\<close>; behind the last block it is the end of data.\<close>

definition rec_header :: "tape_rec list \<Rightarrow> nat \<Rightarrow> blk_header_info" where
  "rec_header recs k =
     (let n = (if k < length recs then length (rec_data (recs ! k)) else 0) in
      \<lparr>ondisk_sz = of_nat n, blk_sz = of_nat n,
       blk_type = (if k < length recs then rec_type (recs ! k) else BLK_EOD),
       blk_num = of_nat (k + 1), h_prev = of_nat (prev_addr recs k), h_curr = of_nat (blk_addr recs k),
       h_next = of_nat (blk_addr recs (k + 1))\<rparr>)"

text \<open>The image of a tape: the start of tape, the MAM, and the blocks one after the other.\<close>

definition tape_image :: "MAM_info \<Rightarrow> tape_rec list \<Rightarrow> bytes \<Rightarrow> bool" where
  "tape_image m recs b \<longleftrightarrow>
     (\<exists>h. take SSC_BLK_HDR_SIZE b = blk_header_bytes h \<and> blk_type h = BLK_BOT \<and>
          h_next h = of_nat SSC_1ST_HDR_OFFSET) \<and>
     mam_wf m \<and> take MAM_SIZE (drop SSC_BLK_HDR_SIZE b) = mam_bytes m \<and>
     (\<forall>k \<le> length recs. take SSC_BLK_HDR_SIZE (drop (blk_addr recs k) b) = blk_header_bytes (rec_header recs k)) \<and>
     (\<forall>k < length recs. take (length (rec_data (recs ! k))) (drop (blk_addr recs k + SSC_BLK_HDR_SIZE) b) = rec_data (recs ! k))"

text \<open>Records of a size the 24 bit count of a command can ask for, on an image addresses can reach.\<close>

definition rec_ok :: "tape_rec \<Rightarrow> bool" where
  "rec_ok r \<longleftrightarrow> (case r of Rec_data d \<Rightarrow> d \<noteq> [] \<and> length d < 2 ^ 24 | Rec_mark \<Rightarrow> True)"

definition tape_ok :: "tape_rec list \<Rightarrow> bool" where
  "tape_ok recs \<longleftrightarrow> list_all rec_ok recs \<and> blk_addr recs (length recs) + SSC_BLK_HDR_SIZE < 2 ^ 63"

subsection \<open>Addresses\<close>

lemma blk_addr_0 [simp]: "blk_addr recs 0 = SSC_1ST_HDR_OFFSET"
  by (simp add: blk_addr_def)

lemma blk_addr_Suc:
  "k < length recs \<Longrightarrow> blk_addr recs (Suc k) = blk_addr recs k + SSC_BLK_HDR_SIZE + length (rec_data (recs ! k))"
  by (simp add: blk_addr_def take_Suc_conv_app_nth)

lemma blk_addr_beyond: "length recs \<le> k \<Longrightarrow> blk_addr recs k = blk_addr recs (length recs)"
  by (simp add: blk_addr_def)

lemma blk_addr_mono: "j \<le> k \<Longrightarrow> blk_addr recs j \<le> blk_addr recs k"
proof (induction k rule: dec_induct)
  case (step k)
  then show ?case
    using blk_addr_Suc [of k recs] blk_addr_beyond [of recs k] blk_addr_beyond [of recs "Suc k"]
    by (cases "k < length recs") auto
qed simp

lemma blk_addr_append: "k \<le> length recs \<Longrightarrow> blk_addr (recs @ rs) k = blk_addr recs k"
  by (simp add: blk_addr_def)

lemma blk_addr_take: "j \<le> k \<Longrightarrow> blk_addr (take k recs) j = blk_addr recs j"
  by (simp add: blk_addr_def min_def)

lemma blk_addr_ge: "SSC_1ST_HDR_OFFSET \<le> blk_addr recs k"
  by (simp add: blk_addr_def)

lemma unat_addr:
  "tape_ok recs \<Longrightarrow> unat (of_nat (blk_addr recs k) :: u64) = blk_addr recs k"
proof -
  assume "tape_ok recs"
  moreover have "blk_addr recs k \<le> blk_addr recs (length recs)"
    using blk_addr_mono [of k "length recs" recs] blk_addr_beyond [of recs k] by (cases "k \<le> length recs") auto
  ultimately show ?thesis
    by (simp add: tape_ok_def unat_of_nat take_bit_nat_eq_self)
qed

section \<open>Units at a position of a tape\<close>

definition tape_rel :: "('f \<Rightarrow> bytes) \<Rightarrow> 'f tape_st \<Rightarrow> tape_rec list \<Rightarrow> nat \<Rightarrow> bool" where
  "tape_rel contents st recs pos \<longleftrightarrow>
     tape_ok recs \<and> pos \<le> length recs \<and> tape_image (mam (tp_ssc st)) recs (contents (tp_file st)) \<and>
     c_blk (tp_ssc st) = rec_header recs pos"

lemma tape_imageD:
  assumes "tape_image m recs b"
  shows "\<exists>h. take SSC_BLK_HDR_SIZE b = blk_header_bytes h \<and> blk_type h = BLK_BOT \<and> h_next h = of_nat SSC_1ST_HDR_OFFSET"
    and "k \<le> length recs \<Longrightarrow> take SSC_BLK_HDR_SIZE (drop (blk_addr recs k) b) = blk_header_bytes (rec_header recs k)"
    and "k < length recs \<Longrightarrow>
      take (length (rec_data (recs ! k))) (drop (blk_addr recs k + SSC_BLK_HDR_SIZE) b) = rec_data (recs ! k)"
    and "mam_wf m" and "take MAM_SIZE (drop SSC_BLK_HDR_SIZE b) = mam_bytes m"
  using assms by (auto simp: tape_image_def)

lemma set_blk_simps [simp]:
  "tp_file (set_blk h st) = tp_file st" "tp_cmd (set_blk h st) = tp_cmd st" "tp_lu (set_blk h st) = tp_lu st"
  "c_blk (tp_ssc (set_blk h st)) = h" "mam (tp_ssc (set_blk h st)) = mam (tp_ssc st)"
  "set_blk h' (set_blk h st) = set_blk h' st"
  by (simp_all add: set_blk_def)

lemma tape_cmd_simps [simp]:
  "tp_file (tape_cmd f st) = tp_file st" "tp_ssc (tape_cmd f st) = tp_ssc st" "tp_lu (tape_cmd f st) = tp_lu st"
  "tp_cmd (tape_cmd f st) = f (tp_cmd st)"
  by (simp_all add: tape_cmd_def)

lemma tape_rel_set_blk:
  "tape_rel contents st recs pos \<Longrightarrow> k \<le> length recs \<Longrightarrow> tape_rel contents (set_blk (rec_header recs k) st) recs k"
  by (simp add: tape_rel_def)

lemma tape_rel_tape_cmd [simp]: "tape_rel contents (tape_cmd f st) recs pos = tape_rel contents st recs pos"
  by (simp add: tape_rel_def)

lemma rec_header_types:
  "blk_type (rec_header recs k) = BLK_EOD \<longleftrightarrow> length recs \<le> k"
  "blk_type (rec_header recs k) \<noteq> BLK_BOT"
  "k < length recs \<Longrightarrow> blk_type (rec_header recs k) = BLK_FILEMARK \<longleftrightarrow> recs ! k = Rec_mark"
  by (auto simp: rec_header_def rec_type_def Let_def split: tape_rec.splits)

subsection \<open>The image after an append\<close>

lemma rec_header_before: "k < pos \<Longrightarrow> pos \<le> length recs \<Longrightarrow> rec_header (take pos recs @ [r]) k = rec_header recs k"
  by (simp add: rec_header_def Let_def prev_addr_def nth_append blk_addr_append blk_addr_take)

lemma blk_addr_new:
  assumes "pos \<le> length recs"
  shows "k \<le> pos \<Longrightarrow> blk_addr (take pos recs @ [r]) k = blk_addr recs k"
    and "blk_addr (take pos recs @ [r]) (Suc pos) = blk_addr recs pos + SSC_BLK_HDR_SIZE + length (rec_data r)"
  using assms blk_addr_Suc [of pos "take pos recs @ [r]"]
  by (simp_all add: blk_addr_append blk_addr_take nth_append)

lemma image_append:
  fixes recs :: "tape_rec list" and r :: tape_rec and b :: bytes and pos :: nat
  defines "a \<equiv> blk_addr recs pos" and "d \<equiv> rec_data r" and "recs' \<equiv> take pos recs @ [r]"
  assumes img: "tape_image m recs b" and pos: "pos \<le> length recs"
  shows "tape_image m recs'
    (file_write (file_write (file_write b a (blk_header_bytes (rec_header recs' pos)))
       (a + SSC_BLK_HDR_SIZE + length d) (blk_header_bytes (rec_header recs' (Suc pos)))) (a + SSC_BLK_HDR_SIZE) d)"
    (is "tape_image m recs' ?b3")
proof -
  let ?b1 = "file_write b a (blk_header_bytes (rec_header recs' pos))"
  let ?b2 = "file_write ?b1 (a + SSC_BLK_HDR_SIZE + length d) (blk_header_bytes (rec_header recs' (Suc pos)))"
  have len: "length recs' = Suc pos"
    using pos by (simp add: recs'_def)
  have "length (take SSC_BLK_HDR_SIZE (drop a b)) = SSC_BLK_HDR_SIZE"
    using tape_imageD(2) [OF img pos] by (simp add: a_def)
  then have room: "a + SSC_BLK_HDR_SIZE \<le> length b"
    by simp
  have keep: "take n (drop i ?b3) = take n (drop i b)" if "i + n \<le> a" for i n
    using that room by (simp add: file_write_outside length_file_write)
  have low: "SSC_1ST_HDR_OFFSET \<le> a"
    by (simp add: a_def blk_addr_ge)
  have start: "take SSC_BLK_HDR_SIZE ?b3 = take SSC_BLK_HDR_SIZE b"
    using keep [of 0 SSC_BLK_HDR_SIZE] low by simp
  have addr: "blk_addr recs' k = blk_addr recs k" if "k \<le> pos" for k
    using blk_addr_new(1) [OF pos that] by (simp add: recs'_def)
  have addr_end: "blk_addr recs' (Suc pos) = a + SSC_BLK_HDR_SIZE + length d"
    using blk_addr_new(2) [OF pos] by (simp add: recs'_def a_def d_def)
  have below: "blk_addr recs k + SSC_BLK_HDR_SIZE + length (rec_data (recs ! k)) \<le> a" if "k < pos" for k
    using blk_addr_Suc [of k recs] blk_addr_mono [of "Suc k" pos recs] that pos by (simp add: a_def)
  have h_new: "take SSC_BLK_HDR_SIZE (drop a ?b3) = blk_header_bytes (rec_header recs' pos)"
    using room file_write_inside [of "blk_header_bytes (rec_header recs' pos)" a b]
    by (simp add: file_write_outside length_file_write)
  have h_eod: "take SSC_BLK_HDR_SIZE (drop (a + SSC_BLK_HDR_SIZE + length d) ?b3) = blk_header_bytes (rec_header recs' (Suc pos))"
    using file_write_inside [of "blk_header_bytes (rec_header recs' (Suc pos))" "a + SSC_BLK_HDR_SIZE + length d" ?b1]
    by (simp add: file_write_outside length_file_write)
  have headers: "take SSC_BLK_HDR_SIZE (drop (blk_addr recs' k) ?b3) = blk_header_bytes (rec_header recs' k)"
    if "k \<le> length recs'" for k
  proof -
    consider "k < pos" | "k = pos" | "k = Suc pos"
      using \<open>k \<le> length recs'\<close> len by linarith
    then show ?thesis
    proof cases
      case 1
      then show ?thesis
        using keep [of "blk_addr recs k" SSC_BLK_HDR_SIZE] below [of k] addr [of k] tape_imageD(2) [OF img, of k] pos
          rec_header_before [of k pos recs r] by (simp add: recs'_def)
    next
      case 2
      then show ?thesis
        using h_new addr [of pos] by (simp add: a_def)
    next
      case 3
      then show ?thesis
        using h_eod addr_end by simp
    qed
  qed
  have data: "take (length (rec_data (recs' ! k))) (drop (blk_addr recs' k + SSC_BLK_HDR_SIZE) ?b3) = rec_data (recs' ! k)"
    if "k < length recs'" for k
  proof (cases "k = pos")
    case True
    then show ?thesis
      using file_write_inside [of d "a + SSC_BLK_HDR_SIZE" ?b2] addr [of pos] pos
      by (simp add: recs'_def a_def d_def nth_append)
  next
    case False
    then have k: "k < pos"
      using that len by simp
    then show ?thesis
      using keep [of "blk_addr recs k + SSC_BLK_HDR_SIZE" "length (rec_data (recs ! k))"] below [of k] addr [of k]
        tape_imageD(3) [OF img, of k] pos by (simp add: recs'_def nth_append)
  qed
  show ?thesis
    unfolding tape_image_def start
    using tape_imageD(1, 4, 5) [OF img] keep [of SSC_BLK_HDR_SIZE MAM_SIZE] low headers data by simp
qed

context tape_file
begin

lemma skip_to_block:
  assumes "tape_rel contents st recs pos" "k \<le> length recs"
  shows "skip_to fo (blk_addr recs k) st = (True, set_blk (rec_header recs k) st)"
proof -
  have "ssc_read_blkhdr fo (tp_file st) (blk_addr recs k) = Some (rec_header recs k)"
    using assms tape_imageD(2) by (intro read_blkhdr) (auto simp: tape_rel_def)
  then show ?thesis
    by (simp add: skip_to_def)
qed

lemma skip_next:
  assumes "tape_rel contents st recs pos"
  shows "skip_next_header fo st = (True, set_blk (rec_header recs (min (Suc pos) (length recs))) st)"
proof -
  have "unat (h_next (c_blk (tp_ssc st))) = blk_addr recs (min (Suc pos) (length recs))"
    using assms unat_addr [of recs "Suc pos"] blk_addr_beyond [of recs "Suc pos"]
    by (auto simp: tape_rel_def rec_header_def Let_def min_def)
  then show ?thesis
    using skip_to_block [OF assms, of "min (Suc pos) (length recs)"] by (simp add: skip_next_header_def)
qed

lemma skip_to_start:
  assumes "tape_rel contents st recs pos"
  obtains h where "skip_to fo 0 st = (True, set_blk h st)" "blk_type h = BLK_BOT"
    "skip_next_header fo (set_blk h st) = (True, set_blk (rec_header recs 0) st)"
proof -
  obtain h where h: "take SSC_BLK_HDR_SIZE (contents (tp_file st)) = blk_header_bytes h" "blk_type h = BLK_BOT"
    "h_next h = of_nat SSC_1ST_HDR_OFFSET"
    using assms tape_imageD(1) by (force simp: tape_rel_def)
  show thesis
  proof (rule that)
    show "skip_to fo 0 st = (True, set_blk h st)"
      using read_blkhdr [of 0 "tp_file st" h] h(1) by (simp add: skip_to_def)
    show "skip_next_header fo (set_blk h st) = (True, set_blk (rec_header recs 0) st)"
      using skip_to_block [OF assms, of 0] h(3) by (simp add: skip_next_header_def skip_to_def split: option.splits)
  qed (rule h(2))
qed

lemma rewind:
  assumes "tape_rel contents st recs pos"
  shows "resp_rewind fo st = (True, set_blk (rec_header recs 0) st)"
proof -
  obtain h where "skip_to fo 0 st = (True, set_blk h st)"
    "skip_next_header fo (set_blk h st) = (True, set_blk (rec_header recs 0) st)"
    using skip_to_start [OF assms] by metis
  then show ?thesis
    by (simp add: resp_rewind_def)
qed

lemma skip_prev:
  assumes "tape_rel contents st recs pos"
  shows "skip_prev_header fo st = (True, set_blk (rec_header recs (pos - 1)) st)"
proof (cases pos)
  case 0
  obtain h where h: "skip_to fo 0 st = (True, set_blk h st)" "blk_type h = BLK_BOT"
    "skip_next_header fo (set_blk h st) = (True, set_blk (rec_header recs 0) st)"
    using skip_to_start [OF assms] by metis
  moreover have "unat (h_prev (c_blk (tp_ssc st))) = 0"
    using assms 0 by (simp add: tape_rel_def rec_header_def Let_def prev_addr_def)
  ultimately show ?thesis
    using 0 by (simp add: skip_prev_header_def)
next
  case (Suc p)
  have "unat (h_prev (c_blk (tp_ssc st))) = blk_addr recs p"
    using assms Suc unat_addr [of recs p] by (simp add: tape_rel_def rec_header_def Let_def prev_addr_def)
  then show ?thesis
    using skip_to_block [OF assms, of p] assms Suc by (simp add: skip_prev_header_def rec_header_types tape_rel_def)
qed

end

subsection \<open>Appending\<close>

lemma scast_small:
  assumes "n < 2 ^ 31"
  shows "(scast (of_nat n :: u32) :: u64) = of_nat n"
proof -
  have "sint (of_nat n :: u32) = int n"
    using assms by (simp add: sint_word_ariths sint_uint unsigned_of_nat take_bit_nat_eq_self signed_take_bit_int_eq_self)
  then show ?thesis
    by (simp add: scast_eq)
qed

lemma rec_data_small: "rec_ok r \<Longrightarrow> length (rec_data r) < 2 ^ 24"
  by (cases r) (simp_all add: rec_ok_def)

lemma rec_header_at:
  "pos \<le> length recs \<Longrightarrow> rec_header (take pos recs @ [r]) pos =
     \<lparr>ondisk_sz = of_nat (length (rec_data r)), blk_sz = of_nat (length (rec_data r)), blk_type = rec_type r,
      blk_num = of_nat (pos + 1), h_prev = of_nat (prev_addr recs pos), h_curr = of_nat (blk_addr recs pos),
      h_next = of_nat (blk_addr recs pos + SSC_BLK_HDR_SIZE + length (rec_data r))\<rparr>"
  using blk_addr_new [of pos recs, where r = r]
  by (simp add: rec_header_def Let_def prev_addr_def nth_append del: of_nat_add of_nat_Suc)

lemma new_headers:
  assumes "pos \<le> length recs" "rec_ok r"
  shows "new_blk (of_nat (length (rec_data r))) (of_nat (length (rec_data r))) (rec_type r) (rec_header recs pos) =
      rec_header (take pos recs @ [r]) pos"
    and "new_eod (rec_header (take pos recs @ [r]) pos) = rec_header (take pos recs @ [r]) (Suc pos)"
proof -
  have "(scast (of_nat (length (rec_data r)) :: u32) :: u64) = of_nat (length (rec_data r))"
    using rec_data_small [OF assms(2)] by (intro scast_small) simp
  then show "new_blk (of_nat (length (rec_data r))) (of_nat (length (rec_data r))) (rec_type r) (rec_header recs pos) =
      rec_header (take pos recs @ [r]) pos"
    unfolding rec_header_at [OF assms(1)] by (simp add: new_blk_def rec_header_def Let_def add_ac)
  have "rec_header (take pos recs @ [r]) (Suc pos) =
      \<lparr>ondisk_sz = 0, blk_sz = 0, blk_type = BLK_EOD, blk_num = of_nat (pos + 2),
       h_prev = of_nat (blk_addr recs pos), h_curr = of_nat (blk_addr recs pos + SSC_BLK_HDR_SIZE + length (rec_data r)),
       h_next = of_nat (blk_addr recs pos + SSC_BLK_HDR_SIZE + length (rec_data r))\<rparr>"
    using assms(1) blk_addr_new [OF assms(1), where r = r] blk_addr_beyond [of "take pos recs @ [r]" "Suc (Suc pos)"]
    by (simp add: rec_header_def Let_def prev_addr_def del: of_nat_add of_nat_Suc)
  then show "new_eod (rec_header (take pos recs @ [r]) pos) = rec_header (take pos recs @ [r]) (Suc pos)"
    unfolding rec_header_at [OF assms(1)] by (simp add: new_eod_def del: of_nat_add of_nat_Suc) simp
qed

lemma file_write_nil: "off \<le> length b \<Longrightarrow> file_write b off [] = b"
  by (simp add: file_write_def)

text \<open>What an operation on the tape leaves alone.\<close>

definition same_unit :: "'f tape_st \<Rightarrow> 'f tape_st \<Rightarrow> bool" where
  "same_unit st st' \<longleftrightarrow> tp_lu st' = tp_lu st \<and> mam (tp_ssc st') = mam (tp_ssc st)"

lemma same_unit_trans: "same_unit st st1 \<Longrightarrow> same_unit st1 st2 \<Longrightarrow> same_unit st st2"
  by (simp add: same_unit_def)

lemma same_unit_simps [simp]: "same_unit st st" "same_unit st (tape_cmd f st')  = same_unit st st'"
    "same_unit st (set_blk h st') = same_unit st st'" "same_unit (tape_cmd f st) st' = same_unit st st'"
    "same_unit st (st'\<lparr>tp_file := x\<rparr>) = same_unit st st'"
  by (simp_all add: same_unit_def)

context tape_file
begin

lemma append_blk_ok:
  assumes rel: "tape_rel contents st recs pos" and r: "rec_ok r" and ok: "tape_ok (take pos recs @ [r])"
    and buf: "boff + length (rec_data r) \<le> length (scsi_get_out_buffer (tp_cmd st))"
      "take (length (rec_data r)) (drop boff (scsi_get_out_buffer (tp_cmd st))) = rec_data r"
  obtains st' where "append_blk fo boff (of_nat (length (rec_data r))) (of_nat (length (rec_data r))) (rec_type r) st =
      Some (SAM_STAT_GOOD, st')" "tape_rel contents st' (take pos recs @ [r]) (Suc pos)" "tp_cmd st' = tp_cmd st"
    "same_unit st st'"
proof -
  let ?d = "rec_data r" and ?sz = "of_nat (length (rec_data r)) :: u32" and ?a = "blk_addr recs pos"
  let ?recs = "take pos recs @ [r]"
  define f1 where "f1 = snd (fo_pwrite fo (tp_file st) (blk_header_bytes (rec_header ?recs pos)) ?a)"
  define f2 where "f2 = snd (fo_pwrite fo f1 (blk_header_bytes (rec_header ?recs (Suc pos))) (?a + SSC_BLK_HDR_SIZE + length ?d))"
  define f3 where "f3 = (if ?d = [] then f2 else snd (fo_pwrite fo f2 ?d (?a + SSC_BLK_HDR_SIZE)))"
  have pos: "pos \<le> length recs" and blk: "c_blk (tp_ssc st) = rec_header recs pos"
    and img: "tape_image (mam (tp_ssc st)) recs (contents (tp_file st))" and ok0: "tape_ok recs"
    using rel by (simp_all add: tape_rel_def)
  have n: "length ?d < 2 ^ 24"
    using r by (rule rec_data_small)
  have addr: "unat (h_curr (rec_header ?recs pos)) = ?a"
    "unat (h_curr (rec_header ?recs (Suc pos))) = ?a + SSC_BLK_HDR_SIZE + length ?d"
    using unat_addr [OF ok, of pos] unat_addr [OF ok, of "Suc pos"] blk_addr_new [OF pos, where r = r]
    by (simp_all add: rec_header_def Let_def del: of_nat_add)
  have "?a + SSC_BLK_HDR_SIZE \<le> blk_addr ?recs (Suc pos)"
    using blk_addr_new(2) [OF pos, of r] by simp
  then have "unat (of_nat (?a + SSC_BLK_HDR_SIZE) :: u64) = ?a + SSC_BLK_HDR_SIZE"
    using ok pos by (simp add: tape_ok_def unat_of_nat take_bit_nat_eq_self del: of_nat_add)
  moreover have "h_curr (rec_header ?recs pos) + of_nat SSC_BLK_HDR_SIZE = of_nat (?a + SSC_BLK_HDR_SIZE)"
    unfolding rec_header_at [OF pos] by simp
  ultimately have data_at: "unat (h_curr (rec_header ?recs pos) + 48) = ?a + SSC_BLK_HDR_SIZE"
    by simp
  have size0: "?sz = 0 \<longleftrightarrow> ?d = []" and usz: "unat (scast ?sz :: u64) = length ?d"
    using n scast_small [of "length ?d"] by (simp_all add: word_of_nat_eq_0_iff nat_dvd_not_less unat_of_nat take_bit_nat_eq_self)
       (use n nat_dvd_not_less in force)
  let ?st' = "(set_blk (rec_header ?recs (Suc pos)) st)\<lparr>tp_file := f3\<rparr>"
  have "append_blk fo boff ?sz ?sz (rec_type r) st = Some (SAM_STAT_GOOD, ?st')"
  proof (cases "?d = []")
    case True
    then have "new_blk 0 0 (rec_type r) (rec_header recs pos) = rec_header ?recs pos"
      "unat (h_curr (rec_header ?recs (Suc pos))) = ?a + SSC_BLK_HDR_SIZE"
      using new_headers(1) [OF pos r] addr(2) by simp_all
    then show ?thesis
      using True by (simp add: append_blk_def Let_def blk new_headers(2) [OF pos r] write_blkhdr addr(1) f1_def f2_def f3_def)
  next
    case False
    then show ?thesis
      using buf size0 usz
      by (simp add: append_blk_def Let_def blk new_headers [OF pos r] write_blkhdr addr data_at f1_def [symmetric]
          f2_def [symmetric] f3_def case_prod_beta pwrite_all)
  qed
  moreover have "contents f3 = file_write (contents f2) (?a + SSC_BLK_HDR_SIZE) ?d"
    by (simp add: f3_def pwrite_contents file_write_nil f2_def length_file_write)
  then have "tape_image (mam (tp_ssc st)) ?recs (contents f3)"
    using image_append [OF img pos, of r] by (simp add: f2_def f1_def pwrite_contents)
  then have "tape_rel contents ?st' ?recs (Suc pos)"
    using ok pos by (simp add: tape_rel_def)
  ultimately show thesis
    by (rule that) simp_all
qed

end

end
