(* ===== verification/Tgtimg.thy ===== *)
theory Tgtimg
  imports Ssc Iscsi_Param
begin

text \<open>
  The image file utility (\<open>usr/tgtimg.c\<close>): creation of tape, DVD and disk image
  files and the listing of a tape image. The options arrive as \<open>getopt_long\<close>
  returns them. A result is the exit status and the created file; \<open>None\<close> is an
  overrun of a fixed array, a number that was never read, or a listing that
  does not end.
\<close>

unbundle bit_operations_syntax

section \<open>Environment\<close>

text \<open>The system calls: \<open>creat\<close> gives an empty file, \<open>ftruncate\<close> and its relatives set its size.\<close>

record 'f img_env =
  ie_ops :: "'f tape_ops"
  ie_creat :: "string \<Rightarrow> 'f option"
  ie_open :: "string \<Rightarrow> 'f option"
  ie_time :: int
  ie_malloc :: bool
  ie_ftruncate :: "'f \<Rightarrow> int \<Rightarrow> bool \<times> 'f"
  ie_unmap :: "'f \<Rightarrow> int \<Rightarrow> bool \<times> 'f"
  ie_fallocate :: "'f \<Rightarrow> int \<Rightarrow> int \<times> 'f"

type_synonym 'f img_res = "(int \<times> 'f option) option"

datatype img_op = OP_NEW | OP_SHOW

definition img_usage :: "int \<Rightarrow> 'f img_res" where
  "img_usage status = Some (if status = 0 then 0 else EINVAL, None)"

text \<open>\<open>strncasecmp\<close> of a word with the start of a string.\<close>

definition ci_prefix :: "string \<Rightarrow> string \<Rightarrow> bool" where
  "ci_prefix w s \<longleftrightarrow> map to_lower (take (length w) s) = map to_lower w"

text \<open>\<open>sscanf\<close> with \<open>%lu\<close> and \<open>%d\<close>; \<open>None\<close> when there is no number.\<close>

definition scan_num :: "string \<Rightarrow> int option" where
  "scan_num str =
     (let s1 = dropWhile is_cspace str; neg = (take 1 s1 = ''-'');
          s2 = (if neg \<or> take 1 s1 = ''+'' then drop 1 s1 else s1); (v, some) = digits_val 10 0 s2
      in if some then Some (if neg then - int v else int v) else None)"

definition scan_u64 :: "string \<Rightarrow> u64 option" where
  "scan_u64 str = map_option (\<lambda>v. if \<bar>v\<bar> < 2 ^ 64 then of_int v else - 1) (scan_num str)"

definition scan_int :: "string \<Rightarrow> u32 option" where
  "scan_int str = map_option (\<lambda>v. of_int (max (- (2 ^ 63)) (min (2 ^ 63 - 1) v))) (scan_num str)"

section \<open>Tapes\<close>

definition cart_type_of :: "string \<Rightarrow> u8 \<times> u16" where
  "cart_type_of media_type =
     (if ci_prefix ''clean'' media_type then (2, 20)
      else if ci_prefix ''WORM'' media_type then (4, 0) else (1, 0))"

text \<open>\<open>sprintf\<close> into a zeroed array of \<open>n\<close> bytes.\<close>

definition sprintf_array :: "nat \<Rightarrow> string \<Rightarrow> bytes option" where
  "sprintf_array n s = (if length s < n then Some (str_bytes s @ replicate (n - length s) 0) else None)"

definition new_mam :: "int \<Rightarrow> u64 \<Rightarrow> string \<Rightarrow> string \<Rightarrow> MAM_info option" where
  "new_mam now sz barcode media_type =
     do { serial \<leftarrow> sprintf_array 32 (barcode @ ''_'' @ print_int now);
          code \<leftarrow> sprintf_array 32 (barcode @ replicate (31 - length barcode) (CHR '' ''));
          (let (ty, info) = cart_type_of media_type in
           Some \<lparr>tape_fmt_version = TGT_TAPE_VERSION, remaining_capacity = sz * 1048576, max_capacity = sz * 1048576,
             TapeAlert = 0, load_count = 0, MAM_space_remaining = 256, assigning_organization_1 = replicate 8 0,
             formatted_density_code = 0, initialization_count = replicate 2 0,
             dev_make_serial_last_load = replicate 160 0, written_in_medium_life = 0, read_in_medium_life = 0,
             written_in_last_load = 0, read_in_last_load = 0, medium_manufacturer = str_bytes ''Foo     '',
             medium_serial_number = serial, medium_length = 384, medium_width = 127,
             assigning_organization_2 = replicate 8 0, medium_density_code = 0, medium_manufacture_date = replicate 8 0,
             MAM_capacity = 0, medium_type = ty, medium_type_information = info,
             application_vendor = str_bytes ''Bar     '', application_name = replicate 32 0,
             application_version = replicate 8 0, user_medium_text_label = replicate 160 0,
             date_time_last_written = replicate 12 0, localization_identifier = 0, mam_barcode = code,
             owning_host_textual_name = replicate 80 0, media_pool = replicate 160 0, vendor_unique = replicate 256 0,
             mam_dirty = 0\<rparr>) }"

definition bot_header :: "u64 \<Rightarrow> blk_header_info" where
  "bot_header sz =
     \<lparr>ondisk_sz = 0, blk_sz = ucast sz, blk_type = BLK_BOT, blk_num = 0, h_prev = 0, h_curr = 0,
      h_next = of_nat SSC_1ST_HDR_OFFSET\<rparr>"

text \<open>The current position behind the MAM is where \<open>ssc_write_mam_info\<close> left it.\<close>

definition eod_header :: blk_header_info where
  "eod_header =
     \<lparr>ondisk_sz = 0, blk_sz = 0, blk_type = BLK_EOD, blk_num = 1, h_prev = 0,
      h_curr = of_nat SSC_1ST_HDR_OFFSET, h_next = of_nat SSC_1ST_HDR_OFFSET\<rparr>"

definition ssc_new :: "'f img_env \<Rightarrow> string \<Rightarrow> string \<Rightarrow> string \<Rightarrow> string \<Rightarrow> 'f img_res" where
  "ssc_new e path barcode capacity media_type =
     do { sz0 \<leftarrow> scan_u64 capacity;
          let sz = (if sz0 = 0 then 8000 else sz0);
          mi \<leftarrow> new_mam (ie_time e) sz barcode media_type;
          Some (case ie_creat e path of
             None \<Rightarrow> (2, None)
           | Some f0 \<Rightarrow>
               let (ok1, f1) = ssc_write_blkhdr (ie_ops e) f0 (bot_header sz) 0 in
               if \<not> ok1 then (1, Some f1)
               else
                 let (ok2, f2) = ssc_write_mam_info (ie_ops e) f1 mi in
                 if \<not> ok2 then (1, Some f2)
                 else
                   let (ok3, f3) = ssc_write_blkhdr (ie_ops e) f2 eod_header SSC_1ST_HDR_OFFSET in
                   (if ok3 then 0 else 1, Some f3)) }"

text \<open>The headers \<open>ssc_show\<close> prints, from the one it holds.\<close>

partial_function (option) show_loop :: "'f tape_ops \<Rightarrow> 'f \<Rightarrow> blk_header_info \<Rightarrow> blk_header_info list option" where
  "show_loop fo f pos =
     (if blk_type pos = BLK_EOD then Some [pos]
      else case ssc_read_blkhdr fo f (unat (h_next pos)) of
        None \<Rightarrow> Some [pos]
      | Some pos' \<Rightarrow> do { rest \<leftarrow> show_loop fo f pos'; Some (pos # rest) })"

definition ssc_show :: "'f img_env \<Rightarrow> string \<Rightarrow> (int \<times> blk_header_info list) option" where
  "ssc_show e path =
     (case ie_open e path of
        None \<Rightarrow> Some (1, [])
      | Some f \<Rightarrow>
          (case ssc_read_blkhdr (ie_ops e) f 0 of
             None \<Rightarrow> Some (1, [])
           | Some h \<Rightarrow>
               (case ssc_read_mam_info (ie_ops e) f of
                  None \<Rightarrow> Some (1, [])
                | Some m \<Rightarrow>
                    if tape_fmt_version m \<noteq> TGT_TAPE_VERSION then Some (1, [])
                    else do { hs \<leftarrow> show_loop (ie_ops e) f h; Some (0, hs) })))"

definition ssc_ops_img ::
  "'f img_env \<Rightarrow> img_op \<Rightarrow> string \<Rightarrow> string option \<Rightarrow> string option \<Rightarrow> string option \<Rightarrow> 'f img_res" where
  "ssc_ops_img e x path barcode capacity media_type =
     (case x of
        OP_NEW \<Rightarrow>
          (case media_type of
             None \<Rightarrow> img_usage 1
           | Some ty \<Rightarrow>
               if \<not> ci_prefix ''data'' ty \<and> \<not> ci_prefix ''clean'' ty \<and> \<not> ci_prefix ''worm'' ty then img_usage 1
               else case (barcode, capacity) of
                 (Some bc, Some cap) \<Rightarrow> ssc_new e path bc cap ty
               | _ \<Rightarrow> img_usage 1)
      | OP_SHOW \<Rightarrow> map_option (\<lambda>(r, _). (r, None)) (ssc_show e path))"

section \<open>Other images\<close>

definition mmc_new :: "'f img_env \<Rightarrow> string \<Rightarrow> string \<Rightarrow> 'f img_res" where
  "mmc_new e path media_type =
     (if ci_prefix ''dvd+r'' media_type
      then Some (case ie_creat e path of None \<Rightarrow> (2, None) | Some f \<Rightarrow> (0, Some f))
      else img_usage 1)"

definition mmc_ops :: "'f img_env \<Rightarrow> img_op \<Rightarrow> string \<Rightarrow> string option \<Rightarrow> 'f img_res" where
  "mmc_ops e x path media_type =
     (case (x, media_type) of
        (OP_NEW, Some ty) \<Rightarrow> if ci_prefix ''dvd+r'' ty then mmc_new e path ty else img_usage 1
      | _ \<Rightarrow> img_usage 1)"

text \<open>
  The size is in megabytes; its first product is 32 bits wide. \<open>posix_fallocate\<close> returns an error number, which is
  compared with \<open>-1\<close>.
\<close>

definition sbc_new :: "'f img_env \<Rightarrow> string \<Rightarrow> string \<Rightarrow> string \<Rightarrow> bool \<Rightarrow> 'f img_res" where
  "sbc_new e path capacity media_type thin =
     (if \<not> ci_prefix ''disk'' media_type then img_usage 1
      else do { sz \<leftarrow> scan_int capacity;
                let n = uint (sz * 1024) * 1024;
                Some (if sz = 0 then (3, None)
                  else if \<not> ie_malloc e then (4, None)
                  else case ie_creat e path of
                    None \<Rightarrow> (2, None)
                  | Some f0 \<Rightarrow>
                      if thin then
                        let (ok1, f1) = ie_ftruncate e f0 n in
                        if \<not> ok1 then (6, Some f1)
                        else let (ok2, f2) = ie_unmap e f1 n in (if ok2 then 0 else 5, Some f2)
                      else let (r, f1) = ie_fallocate e f0 n in (if r = - 1 then 3 else 0, Some f1)) })"

definition sbc_ops_img :: "'f img_env \<Rightarrow> img_op \<Rightarrow> string \<Rightarrow> string option \<Rightarrow> string option \<Rightarrow> bool \<Rightarrow> 'f img_res" where
  "sbc_ops_img e x path capacity media_type thin =
     (case (x, media_type, capacity) of
        (OP_NEW, Some ty, Some cap) \<Rightarrow> if ci_prefix ''disk'' ty then sbc_new e path cap ty thin else img_usage 1
      | _ \<Rightarrow> img_usage 1)"

section \<open>\<open>main\<close>\<close>

definition str_to_op :: "string \<Rightarrow> img_op option" where
  "str_to_op str = (if str = ''new'' then Some OP_NEW else if str = ''show'' then Some OP_SHOW else None)"

definition str_to_device_type :: "string \<Rightarrow> u8 option" where
  "str_to_device_type str =
     (if str = ''tape'' then Some TYPE_TAPE else if str = ''cd'' then Some TYPE_MMC
      else if str = ''disk'' then Some TYPE_DISK else None)"

record img_args =
  ia_op :: "img_op option"
  ia_type :: u8
  ia_barcode :: "string option"
  ia_capacity :: "string option"
  ia_media :: "string option"
  ia_path :: "string option"
  ia_thin :: bool

text \<open>One option; \<open>Inl\<close> leaves the program with that status.\<close>

definition img_option :: "char \<times> string \<Rightarrow> img_args \<Rightarrow> int + img_args" where
  "img_option p a =
     (let (ch, arg) = p in
      if ch = CHR ''o'' then (case str_to_op arg of None \<Rightarrow> Inl 1 | Some x \<Rightarrow> Inr (a\<lparr>ia_op := Some x\<rparr>))
      else if ch = CHR ''Y'' then
        (case str_to_device_type arg of None \<Rightarrow> Inl EINVAL | Some ty \<Rightarrow> Inr (a\<lparr>ia_type := ty\<rparr>))
      else if ch = CHR ''b'' then Inr (a\<lparr>ia_barcode := Some arg\<rparr>)
      else if ch = CHR ''s'' then Inr (a\<lparr>ia_capacity := Some arg\<rparr>)
      else if ch = CHR ''t'' then Inr (a\<lparr>ia_media := Some arg\<rparr>)
      else if ch = CHR ''f'' then Inr (a\<lparr>ia_path := Some arg\<rparr>)
      else if ch = CHR ''h'' then Inl 0
      else if ch = CHR ''T'' then Inr (a\<lparr>ia_thin := True\<rparr>)
      else Inl EINVAL)"

fun img_options :: "(char \<times> string) list \<Rightarrow> img_args \<Rightarrow> int + img_args" where
  "img_options [] a = Inr a"
| "img_options (p # ps) a = (case img_option p a of Inl r \<Rightarrow> Inl r | Inr a' \<Rightarrow> img_options ps a')"

text \<open>\<open>extra\<close> tells whether arguments are left after the options; the results of the operations are dropped.\<close>

definition img_main :: "'f img_env \<Rightarrow> (char \<times> string) list \<Rightarrow> bool \<Rightarrow> 'f img_res" where
  "img_main e opts extra =
     (case img_options opts \<lparr>ia_op = None, ia_type = TYPE_TAPE, ia_barcode = None, ia_capacity = None,
             ia_media = None, ia_path = None, ia_thin = False\<rparr> of
        Inl r \<Rightarrow> Some (r, None)
      | Inr a \<Rightarrow>
          if extra then img_usage 1
          else case (ia_op a, ia_path a) of
            (Some x, Some path) \<Rightarrow>
              if ia_type a = TYPE_TAPE then ssc_ops_img e x path (ia_barcode a) (ia_capacity a) (ia_media a)
              else if ia_type a = TYPE_MMC then mmc_ops e x path (ia_media a)
              else sbc_ops_img e x path (ia_capacity a) (ia_media a) (ia_thin a)
          | _ \<Rightarrow> img_usage 1)"

end
