(* ===== verification/Tape_Thms.thy ===== *)
theory Tape_Thms
  imports Tape_Image Tgtimg
begin

text \<open>
  The tape store refines an abstract tape: a list of records and marks with a
  position. \<open>ssc_tape\<close> is the tape of the SCSI stream commands standard; \<open>drive_spec\<close> says what the
  store does on every operation, also where it departs from the standard, and
  \<open>op_conforms\<close> where it does not.
\<close>

unbundle bit_operations_syntax

section \<open>The abstract tape\<close>

text \<open>The commands in variable block mode; SPACE goes over blocks, over filemarks or to the end of data.\<close>

datatype tape_op =
  T_rewind | T_write bytes | T_marks nat | T_read nat | T_space int | T_space_marks int | T_eod

text \<open>How a command ends; the bytes are those of the data-in buffer.\<close>

datatype tape_outcome =
  Done bytes | Mark_found bytes | Wrong_length bytes | End_of_data bytes | Early_warning | Start_of_tape

text \<open>A buffer of \<open>n\<close> zeros with the bytes that fit of \<open>d\<close> in front.\<close>

definition in_front :: "nat \<Rightarrow> bytes \<Rightarrow> bytes" where
  "in_front n d = take n d @ replicate (n - length d) 0"

text \<open>How many records lead just behind the \<open>n\<close>th mark.\<close>

fun after_marks :: "nat \<Rightarrow> tape_rec list \<Rightarrow> nat option" where
  "after_marks 0 rs = Some 0"
| "after_marks (Suc n) [] = None"
| "after_marks (Suc n) (r # rs) = map_option Suc (after_marks (if r = Rec_mark then n else Suc n) rs)"

text \<open>
  The tape of the standard. Writing cuts the tape behind what is written; \<open>cap\<close> is the capacity of
  the medium, and a write beyond it succeeds with a warning. SPACE over blocks stops behind a mark
  it meets, in the direction of the movement, and at the ends. SPACE over marks forwards stops behind
  the last of them, backwards in front of it.
\<close>

fun ssc_tape :: "nat \<Rightarrow> tape_op \<Rightarrow> tape_rec list \<times> nat \<Rightarrow> tape_outcome \<times> tape_rec list \<times> nat" where
  "ssc_tape cap T_rewind (recs, pos) = (Done [], recs, 0)"
| "ssc_tape cap (T_write d) (recs, pos) =
     (let recs' = take pos recs @ [Rec_data d] in
      (if cap < blk_addr recs' (length recs') then Early_warning else Done [], recs', length recs'))"
| "ssc_tape cap (T_marks n) (recs, pos) =
     (let recs' = take pos recs @ replicate n Rec_mark in
      if n = 0 then (Done [], recs, pos)
      else (if cap < blk_addr recs' (length recs') then Early_warning else Done [], recs', length recs'))"
| "ssc_tape cap (T_read n) (recs, pos) =
     (case drop pos recs of
        [] \<Rightarrow> (End_of_data (in_front n []), recs, pos)
      | Rec_mark # _ \<Rightarrow> (Mark_found (in_front n []), recs, pos + 1)
      | Rec_data d # _ \<Rightarrow> (if length d = n then Done d else Wrong_length (in_front n d), recs, pos + 1))"
| "ssc_tape cap (T_space n) (recs, pos) =
     (if 0 \<le> n then
        let k = length (takeWhile (\<lambda>r. r \<noteq> Rec_mark) (drop pos recs)) in
        if nat n \<le> k then (Done [], recs, pos + nat n)
        else if pos + k < length recs then (Mark_found [], recs, pos + k + 1)
        else (End_of_data [], recs, length recs)
      else
        let k = length (takeWhile (\<lambda>r. r \<noteq> Rec_mark) (rev (take pos recs))) in
        if nat (- n) \<le> k then (Done [], recs, pos - nat (- n))
        else if k < pos then (Mark_found [], recs, pos - k - 1)
        else (Start_of_tape, recs, 0))"
| "ssc_tape cap (T_space_marks n) (recs, pos) =
     (if 0 \<le> n then
        (case after_marks (nat n) (drop pos recs) of
           Some k \<Rightarrow> (Done [], recs, pos + k) | None \<Rightarrow> (End_of_data [], recs, length recs))
      else
        (case after_marks (nat (- n)) (rev (take pos recs)) of
           Some k \<Rightarrow> (Done [], recs, pos - k) | None \<Rightarrow> (Start_of_tape, recs, 0)))"
| "ssc_tape cap T_eod (recs, pos) = (Done [], recs, length recs)"




section \<open>The drive\<close>

text \<open>The status, sense key byte and sense code of an answer, and the bytes of the data-in buffer.\<close>

type_synonym tape_out = "int \<times> u8 \<times> u16 \<times> bytes"

definition t_good :: "bytes \<Rightarrow> tape_out" where
  "t_good d = (SAM_STAT_GOOD, 0, 0, d)"

definition t_check :: "u8 \<Rightarrow> u16 \<Rightarrow> bytes \<Rightarrow> tape_out" where
  "t_check key asc d = (SAM_STAT_CHECK_CONDITION, key, asc, d)"

text \<open>
  The sense bytes the drive has for an outcome. For the end of data the standard asks for BLANK
  CHECK and the additional code; READ has the one and SPACE the other.
\<close>

definition tape_signal :: "tape_op \<Rightarrow> tape_outcome \<Rightarrow> tape_out" where
  "tape_signal x oc =
     (case oc of
        Done d \<Rightarrow> t_good d
      | Mark_found d \<Rightarrow> t_check SENSE_FILEMARK ASC_MARK d
      | Wrong_length d \<Rightarrow> t_check SENSE_ILI 0 d
      | End_of_data d \<Rightarrow> (case x of T_read _ \<Rightarrow> t_check (SENSE_EOM OR BLANK_CHECK) 0 d | _ \<Rightarrow> t_check NO_SENSE ASC_END_OF_DATA d)
      | Early_warning \<Rightarrow> t_check SENSE_EOM 0 []
      | Start_of_tape \<Rightarrow> t_check NO_SENSE ASC_BOM [])"

text \<open>
  Spacing back over \<open>m\<close> marks: the block behind the position is looked at before each step back.
  The flag tells whether the marks were found.
\<close>

fun drive_back :: "tape_rec list \<Rightarrow> nat \<Rightarrow> nat \<Rightarrow> bool \<times> nat" where
  "drive_back recs m 0 = (False, 0)"
| "drive_back recs m (Suc p) =
     (let m1 = (if Suc p < length recs \<and> recs ! Suc p = Rec_mark then m - 1 else m) in
      if 0 < m1 then drive_back recs m1 p else (True, p))"

text \<open>What the store does on every operation.\<close>

fun drive_spec :: "nat \<Rightarrow> tape_op \<Rightarrow> tape_rec list \<times> nat \<Rightarrow> tape_out \<times> tape_rec list \<times> nat" where
  "drive_spec cap T_rewind (recs, pos) = (t_good [], recs, 0)"
| "drive_spec cap (T_write d) (recs, pos) =
     (let recs' = take pos recs @ [Rec_data d] in
      (if cap < blk_addr recs' (Suc pos) then t_check SENSE_EOM 0 [] else t_good [], recs', Suc pos))"
| "drive_spec cap (T_marks n) (recs, pos) =
     (t_good [], if n = 0 then recs else take pos recs @ replicate n Rec_mark, pos + n)"
| "drive_spec cap (T_read n) (recs, pos) =
     (if length recs \<le> pos then (t_check (SENSE_EOM OR BLANK_CHECK) 0 (in_front n []), recs, pos)
      else case recs ! pos of
        Rec_mark \<Rightarrow> (t_check SENSE_FILEMARK ASC_MARK (in_front n []), recs, Suc pos)
      | Rec_data d \<Rightarrow> (if length d = n then t_good d else t_check SENSE_ILI 0 (in_front n d), recs, Suc pos))"
| "drive_spec cap (T_space n) (recs, pos) =
     (if n \<le> 0 then (t_good [], recs, pos - nat (- n))
      else if pos + nat n < length recs then (t_good [], recs, pos + nat n)
      else (t_check NO_SENSE ASC_END_OF_DATA [], recs, length recs))"
| "drive_spec cap (T_space_marks n) (recs, pos) =
     (if 0 \<le> n then
        (case after_marks (nat n) (drop pos recs) of
           Some k \<Rightarrow> (t_good [], recs, pos + k) | None \<Rightarrow> (t_check NO_SENSE ASC_END_OF_DATA [], recs, length recs))
      else let (found, p) = drive_back recs (nat (- n)) pos in (if found then t_good [] else t_check NO_SENSE ASC_BOM [], recs, p))"
| "drive_spec cap T_eod (recs, pos) = (t_good [], recs, length recs)"

fun drive_run :: "nat \<Rightarrow> tape_op list \<Rightarrow> tape_rec list \<times> nat \<Rightarrow> tape_out list \<times> tape_rec list \<times> nat" where
  "drive_run cap [] t = ([], t)"
| "drive_run cap (x # xs) t =
     (let (a, t1) = drive_spec cap x t; (as, t2) = drive_run cap xs t1 in (a # as, t2))"

section \<open>The commands\<close>

definition in_buf :: "bytes \<Rightarrow> scsi_data_buffer" where
  "in_buf d = \<lparr>sdb_buffer = d, sdb_length = of_nat (length d), sdb_transfer_len = of_nat (length d), sdb_resid = 0\<rparr>"

fun tape_command :: "tape_op \<Rightarrow> scsi_cmd" where
  "tape_command T_rewind = blank_cmd\<lparr>scb := [REZERO_UNIT, 0, 0, 0, 0, 0]\<rparr>"
| "tape_command (T_write d) =
     blank_cmd\<lparr>scb := [WRITE_6, 0] @ be24_bytes (of_nat (length d)) @ [0], out_sdb := in_buf d\<rparr>"
| "tape_command (T_marks n) = blank_cmd\<lparr>scb := [WRITE_FILEMARKS, 0] @ be24_bytes (of_nat n) @ [0]\<rparr>"
| "tape_command (T_read n) =
     blank_cmd\<lparr>scb := [READ_6, 0] @ be24_bytes (of_nat n) @ [0], in_sdb := in_buf (replicate n 0)\<rparr>"
| "tape_command (T_space n) = blank_cmd\<lparr>scb := [SPACE, 0] @ be24_bytes (of_int n) @ [0]\<rparr>"
| "tape_command (T_space_marks n) = blank_cmd\<lparr>scb := [SPACE, 1] @ be24_bytes (of_int n) @ [0]\<rparr>"
| "tape_command T_eod = blank_cmd\<lparr>scb := [SPACE, 3, 0, 0, 0, 0]\<rparr>"

text \<open>What the initiator sees of a completed command.\<close>

definition tape_answer :: "scsi_cmd \<Rightarrow> tape_out" where
  "tape_answer c =
     (if c_result c = SAM_STAT_GOOD then t_good (scsi_get_in_buffer c)
      else (c_result c, byte_at (sense_buffer c) 2, get_unaligned_be16 (sense_buffer c) 12, scsi_get_in_buffer c))"

definition tape_step :: "'f tape_ops \<Rightarrow> tape_op \<Rightarrow> 'f tape_st \<Rightarrow> (tape_out \<times> 'f tape_st) option" where
  "tape_step fo x st =
     do { st' \<leftarrow> tape_rdwr_request fo (st\<lparr>tp_cmd := tape_command x\<rparr>); Some (tape_answer (tp_cmd st'), st') }"

fun tape_run :: "'f tape_ops \<Rightarrow> tape_op list \<Rightarrow> 'f tape_st \<Rightarrow> (tape_out list \<times> 'f tape_st) option" where
  "tape_run fo [] st = Some ([], st)"
| "tape_run fo (x # xs) st =
     do { (a, st1) \<leftarrow> tape_step fo x st; (as, st2) \<leftarrow> tape_run fo xs st1; Some (a # as, st2) }"

text \<open>Operations a six byte command can carry, and the room they take on the medium.\<close>

fun op_ok :: "tape_op \<Rightarrow> bool" where
  "op_ok (T_write d) \<longleftrightarrow> d \<noteq> [] \<and> length d < 2 ^ 24"
| "op_ok (T_marks n) \<longleftrightarrow> n < 2 ^ 24"
| "op_ok (T_read n) \<longleftrightarrow> 0 < n \<and> n < 2 ^ 24"
| "op_ok (T_space n) \<longleftrightarrow> - (2 ^ 23) \<le> n \<and> n < 2 ^ 23"
| "op_ok (T_space_marks n) \<longleftrightarrow> - (2 ^ 23) \<le> n \<and> n < 2 ^ 23"
| "op_ok _ \<longleftrightarrow> True"

fun op_room :: "tape_op \<Rightarrow> nat" where
  "op_room (T_write d) = SSC_BLK_HDR_SIZE + length d"
| "op_room (T_marks n) = SSC_BLK_HDR_SIZE * n"
| "op_room _ = 0"

lemma after_marks_le: "after_marks n rs = Some k \<Longrightarrow> k \<le> length rs"
  by (induction n rs arbitrary: k rule: after_marks.induct) (auto split: if_splits)

lemma drive_back_le: "drive_back recs m pos = (found, p) \<Longrightarrow> p \<le> pos \<and> (\<not> found \<longrightarrow> p = 0)"
  by (induction recs m pos rule: drive_back.induct) (auto simp: Let_def split: if_splits)

section \<open>Walking\<close>

lemma tape_rel_cmd [simp]: "tape_rel contents (st\<lparr>tp_cmd := c\<rparr>) recs pos = tape_rel contents st recs pos"
  by (simp add: tape_rel_def)

lemma same_unit_cmd [simp]: "same_unit (st\<lparr>tp_cmd := c\<rparr>) st' = same_unit st st'"
  by (simp add: same_unit_def)

lemma set_blk_here: "tape_rel contents st recs pos \<Longrightarrow> set_blk (rec_header recs pos) st = st"
  by (simp add: tape_rel_def set_blk_def)

context tape_file
begin

lemma space_forward:
  assumes "tape_rel contents st recs pos"
  shows "space_blocks fo (int n) st =
    (if n = 0 \<or> pos + n < length recs then (SAM_STAT_GOOD, set_blk (rec_header recs (pos + n)) st)
     else tape_sense NO_SENSE ASC_END_OF_DATA (set_blk (rec_header recs (length recs)) st))"
  using assms
proof (induction n arbitrary: st pos)
  case 0
  then show ?case
    by (simp add: space_blocks.simps set_blk_here)
next
  case (Suc n)
  let ?k = "min (Suc pos) (length recs)"
  have rel: "tape_rel contents (set_blk (rec_header recs ?k) st) recs ?k"
    using Suc.prems by (rule tape_rel_set_blk) simp
  show ?case
  proof (cases "Suc pos < length recs")
    case True
    then have "space_blocks fo (int (Suc n)) st = space_blocks fo (int n) (set_blk (rec_header recs (Suc pos)) st)"
      using skip_next [OF Suc.prems] by (subst space_blocks.simps) (simp add: rec_header_types)
    then show ?thesis
      using Suc.IH [OF rel] True by simp
  next
    case False
    then have "?k = length recs"
      by simp
    then show ?thesis
      using skip_next [OF Suc.prems] False by (subst space_blocks.simps) (simp add: rec_header_types)
  qed
qed

lemma space_backward:
  assumes "tape_rel contents st recs pos"
  shows "space_blocks fo (- int n) st = (SAM_STAT_GOOD, set_blk (rec_header recs (pos - n)) st)"
  using assms
proof (induction n arbitrary: st pos)
  case 0
  then show ?case
    by (simp add: space_blocks.simps set_blk_here)
next
  case (Suc n)
  have rel: "tape_rel contents (set_blk (rec_header recs (pos - 1)) st) recs (pos - 1)"
    using Suc.prems by (rule tape_rel_set_blk) (use Suc.prems in \<open>auto simp: tape_rel_def\<close>)
  have "space_blocks fo (- int (Suc n)) st = space_blocks fo (- int n) (set_blk (rec_header recs (pos - 1)) st)"
    using skip_prev [OF Suc.prems] by (subst space_blocks.simps) (simp add: rec_header_types)
  then show ?case
    using Suc.IH [OF rel] by simp
qed

lemma space_to_end:
  assumes "tape_rel contents st recs pos"
  shows "space_eod fo st = Some (SAM_STAT_GOOD, set_blk (rec_header recs (length recs)) st)"
  using assms
proof (induction "length recs - pos" arbitrary: st pos)
  case 0
  then have "pos = length recs"
    by (simp add: tape_rel_def)
  then show ?case
    using 0(2) set_blk_here [OF 0(2)] by (subst space_eod.simps) (simp add: tape_rel_def rec_header_types)
next
  case (Suc n)
  then have pos: "pos < length recs"
    by simp
  have rel: "tape_rel contents (set_blk (rec_header recs (Suc pos)) st) recs (Suc pos)"
    using Suc.prems by (rule tape_rel_set_blk) (use pos in simp)
  have "space_eod fo st = space_eod fo (set_blk (rec_header recs (Suc pos)) st)"
    using skip_next [OF Suc.prems] Suc.prems pos
    by (subst space_eod.simps) (simp add: tape_rel_def rec_header_types min_def)
  then show ?case
    using Suc.hyps(1) [OF _ rel] Suc.hyps(2) by simp
qed

lemma marks_forward:
  assumes "tape_rel contents st recs pos" "0 < n"
  shows "space_filemark_forward fo (int n) st = Some
    (case after_marks n (drop pos recs) of
       Some k \<Rightarrow> (SAM_STAT_GOOD, set_blk (rec_header recs (pos + k)) st)
     | None \<Rightarrow> tape_sense NO_SENSE ASC_END_OF_DATA (set_blk (rec_header recs (length recs)) st))"
  using assms
proof (induction "length recs - pos" arbitrary: st pos n)
  case 0
  then have "pos = length recs"
    by (simp add: tape_rel_def)
  moreover obtain m where "n = Suc m"
    using 0(3) gr0_implies_Suc by blast
  ultimately show ?case
    using 0(2) set_blk_here [OF 0(2)] by (subst space_filemark_forward.simps) (simp add: tape_rel_def rec_header_types Let_def)
next
  case (Suc l)
  then have pos: "pos < length recs" and h: "c_blk (tp_ssc st) = rec_header recs pos"
    by (simp_all add: tape_rel_def)
  define n1 where "n1 = (if recs ! pos = Rec_mark then n - 1 else n)"
  let ?st = "set_blk (rec_header recs (Suc pos)) st"
  have rel: "tape_rel contents ?st recs (Suc pos)"
    using Suc.prems(1) by (rule tape_rel_set_blk) (use pos in simp)
  have am: "after_marks n (drop pos recs) = map_option Suc (after_marks n1 (drop (Suc pos) recs))"
    using Suc.prems(2) pos by (cases n) (auto simp: n1_def simp flip: Cons_nth_drop_Suc)
  have step: "space_filemark_forward fo (int n) st =
      (if 0 < n1 then space_filemark_forward fo (int n1) ?st else Some (SAM_STAT_GOOD, ?st))"
    using skip_next [OF Suc.prems(1)] Suc.prems(2) pos
    by (subst space_filemark_forward.simps) (auto simp: h rec_header_types Let_def n1_def min_def of_nat_diff)
  show ?case
  proof (cases "0 < n1")
    case True
    then have "space_filemark_forward fo (int n1) ?st = Some
        (case after_marks n1 (drop (Suc pos) recs) of
           Some k \<Rightarrow> (SAM_STAT_GOOD, set_blk (rec_header recs (Suc pos + k)) ?st)
         | None \<Rightarrow> tape_sense NO_SENSE ASC_END_OF_DATA (set_blk (rec_header recs (length recs)) ?st))"
      using Suc.hyps(2) rel by (intro Suc.hyps(1)) simp_all
    then show ?thesis
      using True step am by (simp split: option.splits)
  qed (use step am in simp)
qed

lemma marks_backward:
  assumes "tape_rel contents st recs pos" "0 < n"
  shows "space_filemark_reverse fo (int n) st = Some
    (case drive_back recs n pos of (found, p) \<Rightarrow>
       if found then (SAM_STAT_GOOD, set_blk (rec_header recs p) st)
       else tape_sense NO_SENSE ASC_BOM (set_blk (rec_header recs 0) st))"
  using assms
proof (induction pos arbitrary: st n)
  case 0
  then show ?case
    using set_blk_here [OF 0(1)]
    by (subst space_filemark_reverse.simps) (simp add: tape_rel_def rec_header_def prev_addr_def Let_def)
next
  case (Suc p)
  have pos: "Suc p \<le> length recs" and h: "c_blk (tp_ssc st) = rec_header recs (Suc p)" and ok: "tape_ok recs"
    using Suc.prems(1) by (simp_all add: tape_rel_def)
  have prev: "h_prev (rec_header recs (Suc p)) \<noteq> 0"
  proof
    assume "h_prev (rec_header recs (Suc p)) = 0"
    then have "unat (of_nat (blk_addr recs p) :: u64) = 0"
      by (simp add: rec_header_def prev_addr_def Let_def)
    then show False
      using unat_addr [OF ok, of p] blk_addr_ge [of recs p] by simp
  qed
  define m1 where "m1 = (if Suc p < length recs \<and> recs ! Suc p = Rec_mark then n - 1 else n)"
  have mark: "blk_type (rec_header recs (Suc p)) = BLK_FILEMARK \<longleftrightarrow> Suc p < length recs \<and> recs ! Suc p = Rec_mark"
    using rec_header_types [where recs = recs and k = "Suc p"] by (cases "Suc p < length recs") auto
  let ?st = "set_blk (rec_header recs p) st"
  have rel: "tape_rel contents ?st recs p"
    using Suc.prems(1) by (rule tape_rel_set_blk) (use pos in simp)
  have step: "space_filemark_reverse fo (int n) st =
      (if 0 < m1 then space_filemark_reverse fo (int m1) ?st else Some (SAM_STAT_GOOD, ?st))"
    using skip_prev [OF Suc.prems(1)] Suc.prems(2) prev
    by (subst space_filemark_reverse.simps) (auto simp: h mark Let_def m1_def of_nat_diff)
  show ?case
    using step Suc.IH [OF rel, of m1] by (auto simp: m1_def Let_def split: prod.splits)
qed

lemma marks_written:
  assumes "tape_rel contents st recs pos" "n > 0"
    and "blk_addr recs (length recs) + SSC_BLK_HDR_SIZE * n + SSC_BLK_HDR_SIZE < 2 ^ 63"
  obtains st' where "filemark_loop fo n st = Some st'" "tape_rel contents st' (take pos recs @ replicate n Rec_mark) (pos + n)"
    "tp_cmd st' = tp_cmd st" "same_unit st st'"
  using assms
proof (induction n arbitrary: st recs pos thesis)
  case (Suc n)
  let ?recs = "take pos recs @ [Rec_mark]"
  have pos: "pos \<le> length recs" and ok0: "tape_ok recs"
    using Suc.prems(2) by (simp_all add: tape_rel_def)
  have addr: "blk_addr ?recs (Suc pos) = blk_addr recs pos + SSC_BLK_HDR_SIZE" "blk_addr recs pos \<le> blk_addr recs (length recs)"
    using blk_addr_new(2) [OF pos, of Rec_mark] blk_addr_mono [OF pos] by simp_all
  then have ok: "tape_ok ?recs"
    using ok0 Suc.prems(4) pos by (auto simp: tape_ok_def rec_ok_def list_all_iff dest: in_set_takeD)
  have r: "rec_ok Rec_mark"
    by (simp add: rec_ok_def)
  obtain st1 where st1: "append_blk fo 0 0 0 BLK_FILEMARK st = Some (SAM_STAT_GOOD, st1)"
    "tape_rel contents st1 ?recs (Suc pos)" "tp_cmd st1 = tp_cmd st" "same_unit st st1"
    using append_blk_ok [OF Suc.prems(2) r ok, of 0] by (auto simp: rec_type_def)
  show ?case
  proof (cases "n = 0")
    case True
    then show ?thesis
      using st1 by (intro Suc.prems(1) [of st1]) simp_all
  next
    case False
    have "blk_addr ?recs (length ?recs) + SSC_BLK_HDR_SIZE * n + SSC_BLK_HDR_SIZE < 2 ^ 63"
      using addr Suc.prems(4) pos by simp
    then obtain st2 where st2: "filemark_loop fo n st1 = Some st2"
      "tape_rel contents st2 (take (Suc pos) ?recs @ replicate n Rec_mark) (Suc pos + n)" "tp_cmd st2 = tp_cmd st1"
      "same_unit st1 st2"
      using Suc.IH [OF _ st1(2)] False by blast
    have "take (Suc pos) ?recs @ replicate n Rec_mark = take pos recs @ replicate (Suc n) Rec_mark"
      using pos by simp
    then show ?thesis
      using st1 st2 same_unit_trans [OF st1(4) st2(4)] by (intro Suc.prems(1) [of st2]) simp_all
  qed
qed simp

end

section \<open>Answers\<close>

lemma cdb_count:
  assumes "v < 2 ^ 24"
  shows "get_unaligned_be24 (a # b # be24_bytes v @ c) 2 = v"
  using be24.get_put [of 2 "a # b # replicate 3 0 @ c" v] assms
  by (simp add: put_unaligned_be24_def put_bytes_def numeral_2_eq_2)

lemma answer_good: "tape_answer (c\<lparr>c_result := SAM_STAT_GOOD\<rparr>) = t_good (scsi_get_in_buffer c)"
  by (simp add: tape_answer_def)

lemma fixed_sense:
  assumes "sense_format (attrs lu) = 0" "14 \<le> length (sense_buffer c)"
  shows "byte_at (sense_buffer (sense_data_build lu key asc c)) 2 = key"
    and "get_unaligned_be16 (sense_buffer (sense_data_build lu key asc c)) 12 = asc"
    and "length (sense_buffer (sense_data_build lu key asc c)) = length (sense_buffer c)"
  using assms be16_join [of asc]
  by (auto simp: sense_data_build_def Let_def sense_bytes_def get_unaligned_be16_def byte_at_list_update ucast_and_0xff_16)

lemma answer_sense:
  assumes "sense_format (attrs (tp_lu st)) = 0" "14 \<le> length (sense_buffer (tp_cmd st))"
  shows "tape_answer ((tp_cmd (snd (tape_sense key asc st)))\<lparr>c_result := SAM_STAT_CHECK_CONDITION\<rparr>) =
    t_check key asc (scsi_get_in_buffer (tp_cmd st))"
  using fixed_sense [OF assms, of key asc]
  by (simp add: tape_answer_def tape_sense_def t_check_def) (simp add: sense_data_build_def Let_def)

lemma info_bytes:
  assumes "14 \<le> length b" "length i = 4"
  shows "byte_at ((put_bytes b 3 i)[0 := x]) 2 = byte_at b 2"
    and "get_unaligned_be16 ((put_bytes b 3 i)[0 := x]) 12 = get_unaligned_be16 b 12"
  using assms by (simp_all add: byte_at_list_update byte_at_put_bytes get_unaligned_be16_def)

lemma answer_info:
  assumes "sense_format (attrs (tp_lu st)) = 0" "14 \<le> length (sense_buffer (tp_cmd st))" "length i = 4"
  shows "byte_at (sense_buffer (tp_cmd (ssc_sense_data_build key asc i st))) 2 = key"
    and "get_unaligned_be16 (sense_buffer (tp_cmd (ssc_sense_data_build key asc i st))) 12 = asc"
    and "scsi_get_in_buffer (tp_cmd (ssc_sense_data_build key asc i st)) = scsi_get_in_buffer (tp_cmd st)"
  using fixed_sense [OF assms(1, 2), of key asc] info_bytes assms(2, 3)
  by (auto simp: ssc_sense_data_build_def Let_def tape_sense_def sense_data_build_def)

lemma tape_sense_simps [simp]:
  "fst (tape_sense key asc st) = SAM_STAT_CHECK_CONDITION"
  "tp_lu (snd (tape_sense key asc st)) = tp_lu st" "tp_ssc (snd (tape_sense key asc st)) = tp_ssc st"
  "tape_rel contents (snd (tape_sense key asc st)) recs pos = tape_rel contents st recs pos"
  "same_unit st0 (snd (tape_sense key asc st)) = same_unit st0 st"
  by (simp_all add: tape_sense_def)

lemma sense_info_simps [simp]:
  "tape_rel contents (ssc_sense_data_build key asc i st) recs pos = tape_rel contents st recs pos"
  "same_unit st0 (ssc_sense_data_build key asc i st) = same_unit st0 st"
  "tp_ssc (ssc_sense_data_build key asc i st) = tp_ssc st" "tp_file (ssc_sense_data_build key asc i st) = tp_file st"
  by (simp_all add: ssc_sense_data_build_def Let_def tape_sense_def)

lemma tape_step_dispatch:
  "tape_dispatch fo (st\<lparr>tp_cmd := tape_command x\<rparr>) = Some (r, st1) \<Longrightarrow>
   tape_step fo x st = Some (tape_answer ((tp_cmd st1)\<lparr>c_result := r\<rparr>), tape_cmd (\<lambda>c. c\<lparr>c_result := r\<rparr>) st1)"
  by (simp add: tape_step_def tape_rdwr_request_def)

text \<open>One command follows the abstract tape.\<close>

definition step_refines :: "'f tape_ops \<Rightarrow> ('f \<Rightarrow> bytes) \<Rightarrow> tape_op \<Rightarrow> 'f tape_st \<Rightarrow> tape_rec list \<Rightarrow> nat \<Rightarrow> bool" where
  "step_refines fo contents x st recs pos \<longleftrightarrow>
     (case drive_spec (unat (max_capacity (mam (tp_ssc st)))) x (recs, pos) of (a, recs', pos') \<Rightarrow>
        \<exists>st'. tape_step fo x st = Some (a, st') \<and> tape_rel contents st' recs' pos' \<and> same_unit st st')"

lemma step_refinesI:
  assumes "tape_dispatch fo (st\<lparr>tp_cmd := tape_command x\<rparr>) = Some (r, st1)"
    and "drive_spec (unat (max_capacity (mam (tp_ssc st)))) x (recs, pos) = (tape_answer ((tp_cmd st1)\<lparr>c_result := r\<rparr>), recs', pos')"
    and "tape_rel contents st1 recs' pos'" "same_unit st st1"
  shows "step_refines fo contents x st recs pos"
  using tape_step_dispatch [OF assms(1)] assms(2-4) by (auto simp: step_refines_def)

lemma blank_cmd_simps [simp]:
  "sense_buffer blank_cmd = replicate SCSI_SENSE_BUFFERSIZE 0" "scsi_get_in_buffer blank_cmd = []"
  by (simp_all add: blank_cmd_def blank_sdb_def)

context tape_file
begin

lemma step_rewind:
  assumes "tape_rel contents st recs pos"
  shows "step_refines fo contents T_rewind st recs pos"
proof (rule step_refinesI)
  have rel: "tape_rel contents (st\<lparr>tp_cmd := tape_command T_rewind\<rparr>) recs pos"
    using assms by simp
  show "tape_dispatch fo (st\<lparr>tp_cmd := tape_command T_rewind\<rparr>) =
    Some (SAM_STAT_GOOD, set_blk (rec_header recs 0) (st\<lparr>tp_cmd := tape_command T_rewind\<rparr>))"
    using rewind [OF rel] by (simp add: tape_dispatch_def tape_rewind_def byte_at_def)
  show "tape_rel contents (set_blk (rec_header recs 0) (st\<lparr>tp_cmd := tape_command T_rewind\<rparr>)) recs 0"
    using tape_rel_set_blk [OF rel] by simp
qed (simp_all add: answer_good same_unit_def)

lemma step_eod:
  assumes "tape_rel contents st recs pos"
  shows "step_refines fo contents T_eod st recs pos"
proof (rule step_refinesI)
  have rel: "tape_rel contents (st\<lparr>tp_cmd := tape_command T_eod\<rparr>) recs pos"
    using assms by simp
  show "tape_dispatch fo (st\<lparr>tp_cmd := tape_command T_eod\<rparr>) =
    Some (SAM_STAT_GOOD, set_blk (rec_header recs (length recs)) (st\<lparr>tp_cmd := tape_command T_eod\<rparr>))"
    using space_to_end [OF rel] by (simp add: tape_dispatch_def tape_space_def byte_at_def)
  show "tape_rel contents (set_blk (rec_header recs (length recs)) (st\<lparr>tp_cmd := tape_command T_eod\<rparr>)) recs (length recs)"
    using tape_rel_set_blk [OF rel] by simp
qed (simp_all add: answer_good same_unit_def)

end

lemma cdb_count_mod: "get_unaligned_be24 (a # b # be24_bytes v @ c) 2 = take_bit 24 v"
  using get_put_be24 [of 2 "a # b # replicate 3 0 @ c" v]
  by (simp add: put_unaligned_be24_def put_bytes_def numeral_2_eq_2)

lemma cdb_sign: "byte_at (a # b # be24_bytes v @ c) 2 AND 0x80 \<noteq> 0 \<longleftrightarrow> bit v 23"
proof -
  have "byte_at (a # b # be24_bytes v @ c) 2 = ucast (drop_bit 16 v)"
    by (simp add: byte_at_def be24_bytes_def ucast_and_0xff)
  moreover have "(ucast (drop_bit 16 v) :: u8) AND 0x80 \<noteq> 0 \<longleftrightarrow> bit (ucast (drop_bit 16 v) :: u8) 7"
    using and_exp_eq_0_iff_not_bit [of "ucast (drop_bit 16 v) :: u8" 7] by simp
  ultimately show ?thesis
    by (simp add: bit_simps)
qed

lemma cdb_count_signed:
  assumes "- (2 ^ 23) \<le> n" "n < 2 ^ 23"
  shows "be24_to_2comp (a # b # be24_bytes (of_int n) @ c) 2 = n"
proof -
  have t: "take_bit 24 (of_int n :: u32) = of_int (take_bit 24 n)"
    by (rule bit_word_eqI) (simp add: bit_simps)
  have s: "sint (of_int n :: u32) = n"
    using assms by (simp add: signed_of_int signed_take_bit_int_eq_self)
  have sign: "bit (of_int n :: u32) 23 \<longleftrightarrow> n < 0"
  proof -
    have "n div 2 ^ 23 = (if n < 0 then - 1 else 0)"
      using assms by auto
    then have "bit n 23 \<longleftrightarrow> n < 0"
      by (simp add: bit_iff_odd)
    then show ?thesis
      by (simp add: bit_simps)
  qed
  have "of_int (take_bit 24 n) + (if n < 0 then 0xff000000 else 0) = (of_int n :: u32)"
  proof (cases "n < 0")
    case True
    have "take_bit 24 n = (n + 2 ^ 24) mod 2 ^ 24"
      by (simp add: take_bit_eq_mod)
    also have "\<dots> = n + 2 ^ 24"
      by (rule mod_pos_pos_trivial) (use assms True in simp_all)
    finally show ?thesis
      using True by simp
  next
    case False
    then show ?thesis
      using assms by (simp add: take_bit_int_eq_self)
  qed
  then show ?thesis
    using s sign cdb_sign [of a b "of_int n" c] by (auto simp: be24_to_2comp_def Let_def cdb_count_mod t)
qed

section \<open>Each command follows the abstract tape\<close>

context tape_file
begin

lemma step_space:
  assumes rel: "tape_rel contents st recs pos" and ok: "op_ok (T_space n)" and lu: "sense_format (attrs (tp_lu st)) = 0"
  shows "step_refines fo contents (T_space n) st recs pos"
proof -
  let ?st = "st\<lparr>tp_cmd := tape_command (T_space n)\<rparr>"
  have rel0: "tape_rel contents ?st recs pos" and pos: "pos \<le> length recs"
    using rel by (simp_all add: tape_rel_def)
  have d: "tape_dispatch fo ?st = Some (space_blocks fo n ?st)"
    using ok by (simp add: tape_dispatch_def tape_space_def byte_at_def cdb_count_signed)
  consider "n \<le> 0" | "0 < n" "pos + nat n < length recs" | "0 < n" "\<not> pos + nat n < length recs"
    by linarith
  then show ?thesis
  proof cases
    case 1
    then have "space_blocks fo n ?st = (SAM_STAT_GOOD, set_blk (rec_header recs (pos - nat (- n))) ?st)"
      using space_backward [OF rel0, of "nat (- n)"] by simp
    then show ?thesis
      using d 1 tape_rel_set_blk [OF rel0, of "pos - nat (- n)"] pos
      by (intro step_refinesI [of _ _ _ SAM_STAT_GOOD "set_blk (rec_header recs (pos - nat (- n))) ?st"])
        (auto simp: answer_good same_unit_def)
  next
    case 2
    then have "space_blocks fo n ?st = (SAM_STAT_GOOD, set_blk (rec_header recs (pos + nat n)) ?st)"
      using space_forward [OF rel0, of "nat n"] by simp
    then show ?thesis
      using d 2 tape_rel_set_blk [OF rel0, of "pos + nat n"]
      by (intro step_refinesI [of _ _ _ SAM_STAT_GOOD "set_blk (rec_header recs (pos + nat n)) ?st"])
        (auto simp: answer_good same_unit_def)
  next
    case 3
    let ?st1 = "set_blk (rec_header recs (length recs)) ?st"
    have "space_blocks fo n ?st = tape_sense NO_SENSE ASC_END_OF_DATA ?st1"
      using space_forward [OF rel0, of "nat n"] 3 by simp
    then have "tape_dispatch fo ?st = Some (SAM_STAT_CHECK_CONDITION, snd (tape_sense NO_SENSE ASC_END_OF_DATA ?st1))"
      using d by (simp add: tape_sense_def)
    then show ?thesis
      by (rule step_refinesI)
        (use 3 tape_rel_set_blk [OF rel0, of "length recs"] answer_sense [of ?st1 NO_SENSE ASC_END_OF_DATA] lu
         in \<open>simp_all add: same_unit_def\<close>)
  qed
qed

lemma step_space_marks:
  assumes rel: "tape_rel contents st recs pos" and ok: "op_ok (T_space_marks n)" and lu: "sense_format (attrs (tp_lu st)) = 0"
  shows "step_refines fo contents (T_space_marks n) st recs pos"
proof -
  let ?st = "st\<lparr>tp_cmd := tape_command (T_space_marks n)\<rparr>"
  have rel0: "tape_rel contents ?st recs pos" and pos: "pos \<le> length recs"
    using rel by (simp_all add: tape_rel_def)
  have d: "tape_dispatch fo ?st = space_filemark fo n ?st"
    using ok by (simp add: tape_dispatch_def tape_space_def byte_at_def cdb_count_signed)
  have good: "step_refines fo contents (T_space_marks n) st recs pos"
    if "space_filemark fo n ?st = Some (SAM_STAT_GOOD, set_blk (rec_header recs k) ?st)"
      "drive_spec (unat (max_capacity (mam (tp_ssc st)))) (T_space_marks n) (recs, pos) = (t_good [], recs, k)" "k \<le> length recs" for k
    using d that tape_rel_set_blk [OF rel0 that(3)]
    by (intro step_refinesI [of _ _ _ SAM_STAT_GOOD "set_blk (rec_header recs k) ?st"]) (simp_all add: answer_good same_unit_def)
  have check: "step_refines fo contents (T_space_marks n) st recs pos"
    if "space_filemark fo n ?st = Some (tape_sense NO_SENSE asc (set_blk (rec_header recs k) ?st))"
      "drive_spec (unat (max_capacity (mam (tp_ssc st)))) (T_space_marks n) (recs, pos) = (t_check NO_SENSE asc [], recs, k)"
      "k \<le> length recs" for k asc
  proof -
    let ?st1 = "set_blk (rec_header recs k) ?st"
    have "tape_dispatch fo ?st = Some (SAM_STAT_CHECK_CONDITION, snd (tape_sense NO_SENSE asc ?st1))"
      using d that(1) by (simp add: tape_sense_def)
    then show ?thesis
      by (rule step_refinesI)
        (use that(2) tape_rel_set_blk [OF rel0 that(3)] answer_sense [of ?st1 NO_SENSE asc] lu in \<open>simp_all add: same_unit_def\<close>)
  qed
  consider "n = 0" | "0 < n" | "n < 0"
    by linarith
  then show ?thesis
  proof cases
    case 1
    then show ?thesis
      using good [of pos] pos set_blk_here [OF rel0] by (simp add: space_filemark_def)
  next
    case 2
    then have f: "space_filemark fo n ?st = Some
        (case after_marks (nat n) (drop pos recs) of
           Some k \<Rightarrow> (SAM_STAT_GOOD, set_blk (rec_header recs (pos + k)) ?st)
         | None \<Rightarrow> tape_sense NO_SENSE ASC_END_OF_DATA (set_blk (rec_header recs (length recs)) ?st))"
      using marks_forward [OF rel0, of "nat n"] by (simp add: space_filemark_def)
    show ?thesis
    proof (cases "after_marks (nat n) (drop pos recs)")
      case None
      then show ?thesis
        using check [of ASC_END_OF_DATA "length recs"] f 2 by simp
    next
      case (Some k)
      then show ?thesis
        using good [of "pos + k"] f 2 after_marks_le [OF Some] pos by simp
    qed
  next
    case 3
    then have "space_filemark fo n ?st = Some
        (case drive_back recs (nat (- n)) pos of (found, p) \<Rightarrow>
           if found then (SAM_STAT_GOOD, set_blk (rec_header recs p) ?st)
           else tape_sense NO_SENSE ASC_BOM (set_blk (rec_header recs 0) ?st))"
      using marks_backward [OF rel0, of "nat (- n)"] by (simp add: space_filemark_def)
    moreover obtain found p where b: "drive_back recs (nat (- n)) pos = (found, p)"
      by fastforce
    ultimately show ?thesis
      using good [of p] check [of ASC_BOM 0] 3 drive_back_le [OF b] pos by (cases found) simp_all
  qed
qed

lemma step_marks:
  assumes rel: "tape_rel contents st recs pos" and ok: "op_ok (T_marks n)"
    and room: "blk_addr recs (length recs) + op_room (T_marks n) + SSC_BLK_HDR_SIZE < 2 ^ 63"
  shows "step_refines fo contents (T_marks n) st recs pos"
proof -
  let ?st = "st\<lparr>tp_cmd := tape_command (T_marks n)\<rparr>"
  have rel0: "tape_rel contents ?st recs pos"
    using rel by simp
  have "(of_nat n :: u32) < 2 ^ 24" "unat (of_nat n :: u32) = n"
    using ok by (simp_all add: word_less_nat_alt unat_of_nat take_bit_nat_eq_self)
  then have d: "tape_dispatch fo ?st = map_option (\<lambda>st1. (SAM_STAT_GOOD, st1\<lparr>tp_file := to_fsync fo (tp_file st1)\<rparr>))
      (filemark_loop fo n ?st)"
    by (cases "filemark_loop fo n ?st")
      (simp_all add: tape_dispatch_def tape_write_filemarks_def byte_at_def cdb_count)
  have sync: "tape_rel contents (st1\<lparr>tp_file := to_fsync fo (tp_file st1)\<rparr>) rs k = tape_rel contents st1 rs k" for st1 rs k
    by (simp add: tape_rel_def fsync_contents)
  show ?thesis
  proof (cases "n = 0")
    case True
    then show ?thesis
      using d sync [of ?st] rel
      by (intro step_refinesI [of _ _ _ SAM_STAT_GOOD "?st\<lparr>tp_file := to_fsync fo (tp_file ?st)\<rparr>"])
        (simp_all add: answer_good same_unit_def)
  next
    case False
    then obtain st1 where "filemark_loop fo n ?st = Some st1"
      "tape_rel contents st1 (take pos recs @ replicate n Rec_mark) (pos + n)" "tp_cmd st1 = tp_cmd ?st" "same_unit ?st st1"
      using marks_written [OF rel0, of n] room by auto
    then show ?thesis
      using d sync False
      by (intro step_refinesI [of _ _ _ SAM_STAT_GOOD "st1\<lparr>tp_file := to_fsync fo (tp_file st1)\<rparr>"])
        (simp_all add: answer_good same_unit_def)
  qed
qed

lemma step_write:
  assumes rel: "tape_rel contents st recs pos" and ok: "op_ok (T_write d)" and lu: "sense_format (attrs (tp_lu st)) = 0"
    and room: "blk_addr recs (length recs) + op_room (T_write d) + SSC_BLK_HDR_SIZE < 2 ^ 63"
  shows "step_refines fo contents (T_write d) st recs pos"
proof -
  let ?st = "st\<lparr>tp_cmd := tape_command (T_write d)\<rparr>" and ?recs = "take pos recs @ [Rec_data d]"
  have rel0: "tape_rel contents ?st recs pos" and pos: "pos \<le> length recs" and ok0: "tape_ok recs"
    using rel by (simp_all add: tape_rel_def)
  have r: "rec_ok (Rec_data d)"
    using ok by (simp add: rec_ok_def)
  have "blk_addr ?recs (Suc pos) = blk_addr recs pos + SSC_BLK_HDR_SIZE + length d"
    "blk_addr recs pos \<le> blk_addr recs (length recs)"
    using blk_addr_new(2) [OF pos, of "Rec_data d"] blk_addr_mono [OF pos] by simp_all
  then have ok1: "tape_ok ?recs"
    using ok0 room pos r by (auto simp: tape_ok_def list_all_iff dest: in_set_takeD)
  obtain st1 where st1: "append_blk fo 0 (of_nat (length d)) (of_nat (length d)) BLK_UNCOMPRESS_DATA ?st =
      Some (SAM_STAT_GOOD, st1)" "tape_rel contents st1 ?recs (Suc pos)" "tp_cmd st1 = tp_cmd ?st" "same_unit ?st st1"
    using append_blk_ok [OF rel0 r ok1, of 0] by (auto simp: rec_type_def in_buf_def)
  have "current_size st1 = of_nat (blk_addr ?recs (Suc pos))"
    using st1(2) by (simp add: current_size_def tape_rel_def rec_header_def Let_def)
  then have full: "current_size st1 > max_capacity (mam (tp_ssc st1)) \<longleftrightarrow>
      unat (max_capacity (mam (tp_ssc st))) < blk_addr ?recs (Suc pos)"
    using unat_addr [OF ok1, of "Suc pos"] st1(4) by (simp add: word_less_nat_alt same_unit_def)
  have d: "tape_dispatch fo ?st =
      Some (if current_size st1 > max_capacity (mam (tp_ssc st1)) then tape_sense SENSE_EOM NO_ADDITIONAL_SENSE st1
            else (SAM_STAT_GOOD, st1))"
    using st1(1) by (simp add: tape_dispatch_def tape_write_def byte_at_def in_buf_def)
  have b: "scsi_get_in_buffer (tp_cmd st1) = []" "14 \<le> length (sense_buffer (tp_cmd st1))"
    "sense_format (attrs (tp_lu st1)) = 0"
    using st1(3, 4) lu by (simp_all add: same_unit_def)
  show ?thesis
  proof (cases "current_size st1 > max_capacity (mam (tp_ssc st1))")
    case True
    then have "tape_dispatch fo ?st = Some (SAM_STAT_CHECK_CONDITION, snd (tape_sense SENSE_EOM NO_ADDITIONAL_SENSE st1))"
      using d by (simp add: tape_sense_def)
    then show ?thesis
      by (rule step_refinesI)
        (use True full st1(2, 4) answer_sense [OF b(3, 2), of SENSE_EOM NO_ADDITIONAL_SENSE] b(1) in \<open>simp_all add: Let_def\<close>)
  next
    case False
    then show ?thesis
      using d full st1(2, 4) b(1) by (intro step_refinesI [of _ _ _ SAM_STAT_GOOD st1]) (simp_all add: Let_def answer_good)
  qed
qed

end

section \<open>Reading\<close>

lemma word_min_of_nat: "m < 2 ^ 32 \<Longrightarrow> n < 2 ^ 32 \<Longrightarrow> min (of_nat m :: u32) (of_nat n) = of_nat (min m n)"
  by (simp add: min_def word_le_nat_alt unat_of_nat take_bit_nat_eq_self)

lemma in_front_put: "length d \<le> n \<Longrightarrow> put_bytes (replicate n 0) 0 d = in_front n d"
  by (simp add: put_bytes_def in_front_def)

lemma in_front_take: "in_front n (take (min n (length d)) d) = in_front n d"
  by (simp add: in_front_def min_def)

lemma in_front_nil: "in_front n [] = replicate n 0"
  by (simp add: in_front_def)

lemma in_front_all: "length d = n \<Longrightarrow> in_front n d = d"
  by (simp add: in_front_def)

text \<open>What the sense data and the residue of a mismatch leave alone.\<close>

lemma length_mismatch_simps [simp]:
  "tape_rel contents (length_mismatch len st) recs pos = tape_rel contents st recs pos"
  "same_unit st0 (length_mismatch len st) = same_unit st0 st" "tp_ssc (length_mismatch len st) = tp_ssc st"
  "scsi_get_in_buffer (tp_cmd (length_mismatch len st)) = scsi_get_in_buffer (tp_cmd st)"
  by (auto simp: length_mismatch_def Let_def scsi_set_in_resid_by_actual_def sdb_set_resid_by_actual_def
      tape_sense_def sense_data_build_def ssc_sense_data_build_def)

lemma mismatch_sense:
  assumes "sense_format (attrs (tp_lu st)) = 0" "14 \<le> length (sense_buffer (tp_cmd st))"
    and "c_blk (tp_ssc st) = rec_header recs pos"
  shows "(byte_at (sense_buffer (tp_cmd (length_mismatch len st))) 2,
          get_unaligned_be16 (sense_buffer (tp_cmd (length_mismatch len st))) 12) =
    (if length recs \<le> pos then (SENSE_EOM OR BLANK_CHECK, 0)
     else if recs ! pos = Rec_mark then (SENSE_FILEMARK, ASC_MARK) else (SENSE_ILI, 0))"
  using assms fixed_sense [OF assms(1, 2)] answer_info [OF assms(1, 2), where i = "be32_bytes (len - blk_sz (c_blk (tp_ssc st)))"]
    rec_header_types [where recs = recs and k = pos]
  by (auto simp: length_mismatch_def Let_def scsi_set_in_resid_by_actual_def tape_sense_def)

context tape_file
begin

lemma read_data_at:
  assumes rel: "tape_rel contents st recs pos" and pos: "pos < length recs" and m: "m \<le> length (rec_data (recs ! pos))"
    and buf: "scsi_get_in_buffer (tp_cmd st) = replicate n 0" "m \<le> n"
  shows "read_data fo 0 m (unat (h_curr (c_blk (tp_ssc st)) + 48)) st =
    Some (True, tape_cmd (set_in_buffer (in_front n (take m (rec_data (recs ! pos))))) st)"
proof -
  have ok: "tape_ok recs" and img: "tape_image (mam (tp_ssc st)) recs (contents (tp_file st))"
    and blk: "c_blk (tp_ssc st) = rec_header recs pos"
    using rel by (simp_all add: tape_rel_def)
  have "blk_addr recs pos + SSC_BLK_HDR_SIZE \<le> blk_addr recs (length recs)"
    using blk_addr_Suc [OF pos] blk_addr_mono [of "Suc pos" "length recs" recs] pos by simp
  then have "unat (of_nat (blk_addr recs pos + SSC_BLK_HDR_SIZE) :: u64) = blk_addr recs pos + SSC_BLK_HDR_SIZE"
    using ok by (simp add: tape_ok_def unat_of_nat take_bit_nat_eq_self del: of_nat_add)
  then have at: "unat (h_curr (c_blk (tp_ssc st)) + 48) = blk_addr recs pos + SSC_BLK_HDR_SIZE"
    by (simp add: blk rec_header_def Let_def)
  have "take m (drop (blk_addr recs pos + SSC_BLK_HDR_SIZE) (contents (tp_file st))) = take m (rec_data (recs ! pos))"
    using arg_cong [OF tape_imageD(3) [OF img pos], of "take m"] m by (simp add: min_def)
  then show ?thesis
    using buf m at in_front_put [of "take m (rec_data (recs ! pos))" n]
    by (simp add: read_data_def Let_def pread write_at_Some)
qed

lemma read_on:
  assumes "tape_rel contents st recs pos" "pos < length recs"
  shows "read_skip fo r st = (r, set_blk (rec_header recs (Suc pos)) st)"
  using skip_next [OF assms(1)] assms(2) by (simp add: read_skip_def min_def)

lemma step_read:
  assumes rel: "tape_rel contents st recs pos" and ok: "op_ok (T_read n)" and lu: "sense_format (attrs (tp_lu st)) = 0"
  shows "step_refines fo contents (T_read n) st recs pos"
proof -
  define s0 where "s0 = st\<lparr>tp_cmd := tape_command (T_read n)\<rparr>"
  let ?n = "of_nat n :: u32"
  note start = step_refinesI [where st = st and x = "T_read n", folded s0_def]
  define sz where "sz = (if pos < length recs then length (rec_data (recs ! pos)) else 0)"
  have rel0: "tape_rel contents s0 recs pos" and rels: "list_all rec_ok recs" and pos: "pos \<le> length recs"
    and blk: "c_blk (tp_ssc st) = rec_header recs pos"
    using rel by (simp_all add: s0_def) (simp_all add: tape_rel_def tape_ok_def)
  have cmd: "scb (tp_cmd s0) = [READ_6, 0] @ be24_bytes ?n @ [0]" "scsi_get_in_length (tp_cmd s0) = ?n"
    "sense_buffer (tp_cmd s0) = replicate SCSI_SENSE_BUFFERSIZE 0" "tp_ssc s0 = tp_ssc st" "tp_lu s0 = tp_lu st"
    "same_unit st s0"
    by (simp_all add: s0_def in_buf_def same_unit_def)
  have buf: "scsi_get_in_buffer (tp_cmd s0) = replicate n 0"
    by (simp add: s0_def in_buf_def)
  have sz: "sz < 2 ^ 24" "blk_sz (c_blk (tp_ssc s0)) = of_nat sz"
    using rels rec_data_small by (auto simp: sz_def cmd blk rec_header_def Let_def list_all_length)
  have n: "0 < n" "n < 2 ^ 24" "?n < 2 ^ 24" "unat ?n = n"
    using ok by (simp_all add: word_less_nat_alt unat_of_nat take_bit_nat_eq_self)
  have n0: "?n \<noteq> 0"
    using n(1, 4) by force
  have differs: "?n \<noteq> of_nat sz \<longleftrightarrow> n \<noteq> sz" and mn: "min ?n (of_nat sz) = of_nat (min n sz)"
    "unat (of_nat (min n sz) :: u32) = min n sz" "(of_nat (min n sz) :: u32) = 0 \<longleftrightarrow> sz = 0"
    using n sz(1) word_min_of_nat [of n sz] by (auto simp: word_unat_eq_iff unat_of_nat take_bit_nat_eq_self)
  have disp: "tape_dispatch fo s0 = resp_var_read fo ?n s0" and count: "get_unaligned_be24 (scb (tp_cmd s0)) 2 = ?n"
    using n(3) by (simp_all add: tape_dispatch_def tape_read_def byte_at_def cmd cdb_count)
  have sense: "sense_format (attrs (tp_lu s0)) = 0" "14 \<le> length (sense_buffer (tp_cmd s0))"
    "c_blk (tp_ssc s0) = rec_header recs pos"
    using lu blk by (simp_all add: cmd)
  note mm = mismatch_sense [OF sense, of ?n]
  let ?m = "length_mismatch ?n s0"
  consider "sz = 0" "length recs \<le> pos" | "sz = 0" "pos < length recs" "recs ! pos = Rec_mark"
    | d where "pos < length recs" "recs ! pos = Rec_data d" "sz = length d" "0 < sz"
    using rels by (cases "pos < length recs"; cases "recs ! pos") (auto simp: sz_def list_all_length rec_ok_def)
  then show ?thesis
  proof cases
    case 1
    then have "blk_type (rec_header recs pos) = BLK_EOD"
      by (simp add: rec_header_types)
    then have "tape_dispatch fo s0 = Some (SAM_STAT_CHECK_CONDITION, ?m)"
      using 1 n0 sz(2) by (simp add: disp resp_var_read_def Let_def count differs sense(3))
    then show ?thesis
      by (rule start) (use 1 mm rel0 buf cmd(6) in \<open>simp_all add: tape_answer_def t_check_def in_front_nil\<close>)
  next
    case 2
    then have "tape_dispatch fo s0 = Some (SAM_STAT_CHECK_CONDITION, set_blk (rec_header recs (Suc pos)) ?m)"
      using n0 sz(2) read_on [of ?m recs pos] rel0
      by (simp add: disp resp_var_read_def Let_def count differs sense(3) rec_header_types)
    then show ?thesis
      by (rule start) (use 2 mm rel0 buf cmd(6) tape_rel_set_blk [of contents ?m recs pos "Suc pos"] in
          \<open>simp_all add: tape_answer_def t_check_def in_front_nil\<close>)
  next
    case (3 d)
    define st1 where "st1 = (if n = sz then s0 else ?m)"
    define r where "r = (if n = sz then SAM_STAT_GOOD else SAM_STAT_CHECK_CONDITION)"
    let ?st2 = "tape_cmd (set_in_buffer (in_front n (take (min n sz) d))) st1"
    have rel1: "tape_rel contents st1 recs pos" "scsi_get_in_buffer (tp_cmd st1) = replicate n 0" "same_unit st st1"
      "c_blk (tp_ssc st1) = c_blk (tp_ssc s0)"
      using rel0 buf cmd(6) by (simp_all add: st1_def)
    have "read_data fo 0 (min n sz) (unat (h_curr (c_blk (tp_ssc s0)) + 48)) st1 = Some (True, ?st2)"
      using read_data_at [OF rel1(1) 3(1) _ rel1(2), of "min n sz"] 3 rel1(4) by simp
    then have "tape_dispatch fo s0 = Some (r, set_blk (rec_header recs (Suc pos)) ?st2)"
      using 3 n sz(2) mn differs read_on [of ?st2 recs pos r] rel1(1)
      by (auto simp: disp resp_var_read_def Let_def count st1_def r_def)
    then show ?thesis
      by (rule start) (use 3 mm rel1 buf tape_rel_set_blk [of contents ?st2 recs pos "Suc pos"] in
          \<open>auto simp: tape_answer_def t_check_def t_good_def st1_def r_def in_front_take in_front_all set_in_buffer_def\<close>)
  qed
qed

end

section \<open>Sequences of commands\<close>

lemma drive_spec_end:
  assumes "drive_spec cap x (recs, pos) = (a, recs', pos')" "pos \<le> length recs"
  shows "blk_addr recs' (length recs') \<le> blk_addr recs (length recs) + op_room x"
proof -
  have cut: "blk_addr (take pos recs @ rs) (length (take pos recs @ rs)) \<le>
      blk_addr recs (length recs) + (\<Sum>r\<leftarrow>rs. SSC_BLK_HDR_SIZE + length (rec_data r))" for rs
    using blk_addr_mono [OF assms(2), of recs] assms(2) by (simp add: blk_addr_def min_def)
  show ?thesis
  proof (cases x)
    case (T_write d)
    then show ?thesis
      using assms cut [of "[Rec_data d]"] by (simp add: Let_def)
  next
    case (T_marks n)
    then show ?thesis
      using assms cut [of "replicate n Rec_mark"] by (auto simp: sum_list_replicate split: if_splits)
  qed (use assms in \<open>auto split: if_splits tape_rec.splits option.splits prod.splits\<close>)
qed

context tape_file
begin

lemma step_ok:
  assumes "tape_rel contents st recs pos" "op_ok x" "sense_format (attrs (tp_lu st)) = 0"
    and "blk_addr recs (length recs) + op_room x + SSC_BLK_HDR_SIZE < 2 ^ 63"
  shows "step_refines fo contents x st recs pos"
  using assms
  by (cases x) (auto intro!: step_rewind step_write step_marks step_read step_space step_space_marks step_eod simp del: op_ok.simps op_room.simps)

lemma run_ok:
  assumes "tape_rel contents st recs pos" "list_all op_ok xs" "sense_format (attrs (tp_lu st)) = 0"
    and "blk_addr recs (length recs) + (\<Sum>x\<leftarrow>xs. op_room x) + SSC_BLK_HDR_SIZE < 2 ^ 63"
    and "drive_run (unat (max_capacity (mam (tp_ssc st)))) xs (recs, pos) = (as, recs', pos')"
  shows "\<exists>st'. tape_run fo xs st = Some (as, st') \<and> tape_rel contents st' recs' pos'"
  using assms
proof (induction xs arbitrary: st recs pos as)
  case (Cons x xs)
  let ?cap = "unat (max_capacity (mam (tp_ssc st)))"
  obtain a recs1 pos1 as1 where
    a: "drive_spec ?cap x (recs, pos) = (a, recs1, pos1)" "drive_run ?cap xs (recs1, pos1) = (as1, recs', pos')" "as = a # as1"
    using Cons.prems(5) by (auto split: prod.splits)
  have "step_refines fo contents x st recs pos"
    using Cons.prems(1-4) by (intro step_ok) simp_all
  then obtain st1 where st1: "tape_step fo x st = Some (a, st1)" "tape_rel contents st1 recs1 pos1" "same_unit st st1"
    by (auto simp: step_refines_def a(1))
  have "pos \<le> length recs"
    using Cons.prems(1) by (simp add: tape_rel_def)
  then have "blk_addr recs1 (length recs1) \<le> blk_addr recs (length recs) + op_room x"
    using drive_spec_end [OF a(1)] by simp
  then have "\<exists>st'. tape_run fo xs st1 = Some (as1, st') \<and> tape_rel contents st' recs' pos'"
    using Cons.prems(2-4) st1 a(2) by (intro Cons.IH [where recs = recs1 and pos = pos1]) (simp_all add: same_unit_def)
  then show ?case
    using st1(1) a(3) by auto
qed simp

end

section \<open>The drive and the standard\<close>





text \<open>Spacing back over a mark: the standard stops in front of the mark, the drive one block earlier.\<close>

lemma marks_back_overshoot:
  "ssc_tape cap (T_space_marks (- 1)) ([Rec_data a, Rec_data b, Rec_mark, Rec_data c], 3) =
     (Done [], [Rec_data a, Rec_data b, Rec_mark, Rec_data c], 2)"
  "drive_spec cap (T_space_marks (- 1)) ([Rec_data a, Rec_data b, Rec_mark, Rec_data c], 3) =
     (t_good [], [Rec_data a, Rec_data b, Rec_mark, Rec_data c], 1)"
  by (simp_all add: numeral_3_eq_3 numeral_2_eq_2)


section \<open>New media\<close>

lemma sprintf_array_length: "sprintf_array n s = Some b \<Longrightarrow> length b = n"
  by (auto simp: sprintf_array_def str_bytes_def split: if_splits)

lemma new_mam_wf: "new_mam now sz bc ty = Some m \<Longrightarrow> mam_wf m"
  by (cases "cart_type_of ty") (auto simp: new_mam_def bind_eq_Some_conv mam_wf_def str_bytes_def dest!: sprintf_array_length)



lemma eod_header_empty: "eod_header = rec_header [] 0"
  by (simp add: eod_header_def rec_header_def Let_def prev_addr_def)
     (simp add: blk_addr_def)

lemma tape_ok_empty [simp]: "tape_ok []"
  by (simp add: tape_ok_def blk_addr_def)

context tape_file
begin

text \<open>Loading an image places the unit in front of the first record.\<close>

lemma load_image:
  assumes img: "tape_image m recs (contents f)" and ok: "tape_ok recs"
    and sz: "length (contents f) < 2 ^ 64"
  shows "bs_ssc_open fo (Some (fd, of_nat (length (contents f)), f)) ssc =
    (Some (fd, of_nat (length (contents f))), ssc\<lparr>c_blk := rec_header recs 0, mam := m\<rparr>)"
proof -
  obtain h where h: "take SSC_BLK_HDR_SIZE (contents f) = blk_header_bytes h" "h_next h = of_nat SSC_1ST_HDR_OFFSET"
    using tape_imageD(1) [OF img] by blast
  have r0: "ssc_read_blkhdr fo f 0 = Some h"
    using h(1) by (intro read_blkhdr) simp
  have r1: "ssc_read_blkhdr fo f SSC_1ST_HDR_OFFSET = Some (rec_header recs 0)"
    using tape_imageD(2) [OF img, of 0] by (intro read_blkhdr) simp
  have rm: "ssc_read_mam_info fo f = Some m"
    using tape_imageD(4, 5) [OF img] by (intro read_mam_info)
  have "length (take SSC_BLK_HDR_SIZE (drop SSC_1ST_HDR_OFFSET (contents f))) = SSC_BLK_HDR_SIZE"
    using tape_imageD(2) [OF img, of 0] by simp
  then have "\<not> (of_nat (length (contents f)) :: u64) < of_nat (SSC_BLK_HDR_SIZE + MAM_SIZE)"
    using sz by (simp add: word_less_nat_alt unat_of_nat take_bit_nat_eq_self)
  then show ?thesis
    using r1 by (simp add: bs_ssc_open_def r0 rm h(2))
qed

lemma new_image:
  assumes m: "new_mam now sz bc ty = Some m" and f: "contents f0 = []"
    and w: "ssc_write_blkhdr fo f0 (bot_header sz) 0 = (ok1, f1)" "ssc_write_mam_info fo f1 m = (ok2, f2)"
      "ssc_write_blkhdr fo f2 eod_header SSC_1ST_HDR_OFFSET = (ok3, f3)"
  shows "ok1 \<and> ok2 \<and> ok3" and "tape_image m [] (contents f3)"
    and "length (contents f3) = SSC_1ST_HDR_OFFSET + SSC_BLK_HDR_SIZE"
proof -
  note wf = new_mam_wf [OF m]
  have f1: "f1 = snd (fo_pwrite fo f0 (blk_header_bytes (bot_header sz)) 0)" "ok1"
    and f3: "f3 = snd (fo_pwrite fo f2 (blk_header_bytes eod_header) SSC_1ST_HDR_OFFSET)" "ok3"
    using w(1, 3) write_blkhdr by simp_all
  have f2: "f2 = snd (fo_pwrite fo f1 (mam_bytes m) SSC_BLK_HDR_SIZE)" "ok2"
    using w(2) pwrite_all [of f1 "mam_bytes m" SSC_BLK_HDR_SIZE] length_mam_bytes [OF wf]
    by (auto simp: ssc_write_mam_info_def Let_def lseek_ok case_prod_beta)
  show "ok1 \<and> ok2 \<and> ok3"
    using f1(2) f2(2) f3(2) by simp
  have c: "contents f3 = blk_header_bytes (bot_header sz) @ mam_bytes m @ blk_header_bytes eod_header"
    using length_mam_bytes [OF wf] by (simp add: f1(1) f2(1) f3(1) pwrite_contents f file_write_def)
  then show "length (contents f3) = SSC_1ST_HDR_OFFSET + SSC_BLK_HDR_SIZE"
    using length_mam_bytes [OF wf] by simp
  have "blk_type (bot_header sz) = BLK_BOT" "h_next (bot_header sz) = of_nat SSC_1ST_HDR_OFFSET"
    by (simp_all add: bot_header_def)
  then show "tape_image m [] (contents f3)"
    using wf length_mam_bytes [OF wf] by (auto simp: tape_image_def c eod_header_empty)
qed

end


section \<open>A file in memory\<close>

definition ram_ops :: "bytes tape_ops" where
  "ram_ops = \<lparr>fo_pread = (\<lambda>f n off. Some (take n (drop off f))),
     fo_pwrite = (\<lambda>f d off. (Some (length d), file_write f off d)), fo_fdatasync = (\<lambda>f. (True, f)),
     fo_willneed = (\<lambda>_ _ _. True), fo_punch = (\<lambda>f _ _. (True, f)), fo_malloc = True,
     to_fsync = (\<lambda>f. f), to_lseek = (\<lambda>_ _. True)\<rparr>"

interpretation ram: tape_file ram_ops "\<lambda>b. b"
  by unfold_locales (simp_all add: ram_ops_def)


definition ex_session :: "tape_op list" where
  "ex_session = [T_write [1, 2], T_marks 1, T_write [3], T_rewind, T_space_marks 1, T_read 1, T_space (- 1), T_space 5,
     T_rewind, T_read 2, T_read 2, T_read 2, T_read 2]"

text \<open>
  The outcomes: written, then behind the mark the third record, back and too far forwards; then
  the record, the mark, the shorter record, and the end of the data.
\<close>

definition ex_outcomes :: "tape_outcome list" where
  "ex_outcomes = [Done [], Done [], Done [], Done [], Done [], Done [3], Done [], End_of_data [],
     Done [], Done [1, 2], Mark_found [0, 0], Wrong_length [3, 0], End_of_data [0, 0]]"


abbreviation "ex_answers \<equiv> map2 tape_signal ex_session ex_outcomes"

lemma ex_answers_eq:
  "ex_answers = [t_good [], t_good [], t_good [], t_good [], t_good [], t_good [3], t_good [], t_check 0 ASC_END_OF_DATA [],
     t_good [], t_good [1, 2], t_check SENSE_FILEMARK ASC_MARK [0, 0], t_check SENSE_ILI 0 [3, 0], t_check 0x48 0 [0, 0]]"
  by (simp add: ex_session_def ex_outcomes_def tape_signal_def)

definition ex_mam :: MAM_info where
  "ex_mam = the (new_mam 7 1 ''A'' ''data'')"

lemma print_7: "print_int 7 = ''7''"
  by (simp add: print_int_def print_digits.simps) code_simp

lemma ex_mam_new: "new_mam 7 1 ''A'' ''data'' = Some ex_mam" and ex_mam_capacity: "max_capacity ex_mam = 1048576"
proof -
  have "ci_prefix ''clean'' ''data'' = False" "ci_prefix ''WORM'' ''data'' = False"
    by code_simp+
  then show "new_mam 7 1 ''A'' ''data'' = Some ex_mam" "max_capacity ex_mam = 1048576"
    by (simp_all add: ex_mam_def new_mam_def sprintf_array_def print_7 cart_type_of_def)
qed

definition ex_tape_st :: "bytes tape_st" where
  "ex_tape_st = \<lparr>tp_cmd = blank_cmd, tp_lu = blank_lu 1,
     tp_ssc = \<lparr>bytes_read = 0, bytes_written = 0, mam = ex_mam, c_blk = rec_header [] 0\<rparr>,
     tp_file = blk_header_bytes (bot_header 1) @ mam_bytes ex_mam @ blk_header_bytes eod_header\<rparr>"

lemma ex_tape_rel: "tape_rel (\<lambda>b. b) ex_tape_st [] 0"
proof -
  note wf = new_mam_wf [OF ex_mam_new]
  have "blk_type (bot_header 1) = BLK_BOT" "h_next (bot_header 1) = of_nat SSC_1ST_HDR_OFFSET"
    by (simp_all add: bot_header_def)
  then show ?thesis
    using wf length_mam_bytes [OF wf] by (auto simp: tape_rel_def ex_tape_st_def tape_image_def eod_header_empty)
qed



section \<open>Fixed blocks\<close>

context tape_file
begin

lemma fixed_read_overrun:
  assumes "tape_rel contents st recs pos" "pos + n \<le> length recs" "0 < bl" "bl < 2 ^ 24"
    and "\<forall>k < n. \<exists>d. recs ! (pos + k) = Rec_data d \<and> length d = bl"
    and "boff \<le> length (scsi_get_in_buffer (tp_cmd st))" "length (scsi_get_in_buffer (tp_cmd st)) < boff + n * bl"
  shows "fixed_read_loop fo (of_nat bl) n boff st = None"
  using assms
proof (induction n arbitrary: st pos boff)
  case (Suc n)
  let ?h = "c_blk (tp_ssc st)" and ?buf = "scsi_get_in_buffer (tp_cmd st)"
  obtain d where d: "recs ! pos = Rec_data d" "length d = bl"
    using Suc.prems(5) by force
  have pos: "pos < length recs" and u: "unat (of_nat bl :: u32) = bl"
    using Suc.prems(2, 4) by (simp_all add: unat_of_nat take_bit_nat_eq_self)
  have h: "blk_type ?h \<noteq> BLK_FILEMARK" "blk_sz ?h = of_nat bl"
    using Suc.prems(1) d pos by (simp_all add: tape_rel_def rec_header_types) (simp add: rec_header_def)
  define off where "off = unat (h_curr ?h + 48)"
  have off: "off = blk_addr recs pos + SSC_BLK_HDR_SIZE"
  proof -
    have "blk_addr recs pos + SSC_BLK_HDR_SIZE \<le> blk_addr recs (length recs)"
      using blk_addr_Suc [OF pos] blk_addr_mono [of "Suc pos" "length recs" recs] pos by simp
    then have "unat (of_nat (blk_addr recs pos + SSC_BLK_HDR_SIZE) :: u64) = blk_addr recs pos + SSC_BLK_HDR_SIZE"
      using Suc.prems(1) by (simp add: tape_rel_def tape_ok_def unat_of_nat take_bit_nat_eq_self del: of_nat_add)
    then show ?thesis
      using Suc.prems(1) by (simp add: off_def tape_rel_def rec_header_def Let_def)
  qed
  have data: "take bl (drop off (contents (tp_file st))) = d"
    using tape_imageD(3) [of "mam (tp_ssc st)" recs "contents (tp_file st)" pos] Suc.prems(1) pos d
    by (simp add: tape_rel_def off)
  show ?case
  proof (cases "boff + bl \<le> length ?buf")
    case False
    then have "read_data fo boff bl off st = None"
      using d(2) by (simp add: read_data_def Let_def pread data write_at_def)
    then show ?thesis
      using h u by (simp add: off_def)
  next
    case True
    define st1 where "st1 = tape_cmd (set_in_buffer (put_bytes ?buf boff d)) st"
    have r: "read_data fo boff bl off st = Some (True, st1)"
      using d(2) True by (simp add: read_data_def Let_def pread data write_at_Some st1_def)
    have rel1: "tape_rel contents st1 recs pos"
      using Suc.prems(1) by (simp add: st1_def)
    let ?st2 = "set_blk (rec_header recs (Suc pos)) st1"
    have next1: "skip_next_header fo st1 = (True, ?st2)"
      using skip_next [OF rel1] pos by (simp add: min_def)
    have "length (scsi_get_in_buffer (tp_cmd ?st2)) = length ?buf"
      using True d(2) by (simp add: st1_def set_in_buffer_def put_bytes_def)
    then have "fixed_read_loop fo (of_nat bl) n (boff + bl) ?st2 = None"
      using Suc.prems(2-5, 7) True tape_rel_set_blk [OF rel1, of "Suc pos"] pos
      by (intro Suc.IH [of _ "Suc pos"]) (auto simp: add.assoc)
    then show ?thesis
      using h u r next1 by (simp add: off_def)
  qed
qed simp

end

text \<open>
  C16. A READ in fixed block mode that asks for more than the data-in buffer holds
  writes outside the buffer: on a tape whose next blocks all have the block
  length of the unit, the request has no result as soon as the number of blocks
  times their length exceeds the size of the buffer. Nothing compares the two.
\<close>

theorem fixed_read_overruns:
  fixes recs :: "tape_rec list" and pos :: nat
  assumes "tape_file fo contents" "tape_rel contents st recs pos"
    and "byte_at (scb (tp_cmd st)) 0 = READ_6" "byte_at (scb (tp_cmd st)) 1 AND 1 \<noteq> 0" "byte_at (scb (tp_cmd st)) 1 AND 2 = 0"
    and "pos + unat (get_unaligned_be24 (scb (tp_cmd st)) 2) \<le> length recs"
    and bl: "0 < unat (ssc_get_block_length (tp_lu st))" "unat (ssc_get_block_length (tp_lu st)) < 2 ^ 24"
    and "\<forall>k < unat (get_unaligned_be24 (scb (tp_cmd st)) 2).
      \<exists>d. recs ! (pos + k) = Rec_data d \<and> length d = unat (ssc_get_block_length (tp_lu st))"
    and "length (scsi_get_in_buffer (tp_cmd st)) <
      unat (get_unaligned_be24 (scb (tp_cmd st)) 2) * unat (ssc_get_block_length (tp_lu st))"
  shows "tape_rdwr_request fo st = None"
proof -
  let ?n = "unat (get_unaligned_be24 (scb (tp_cmd st)) 2)" and ?bl = "unat (ssc_get_block_length (tp_lu st))"
  have "fixed_read_loop fo (of_nat ?bl) ?n 0 st = None"
    using tape_file.fixed_read_overrun [OF assms(1, 2, 6) bl assms(9), of 0] assms(10) by simp
  then have "resp_fixed_read fo st = None"
    by (simp add: resp_fixed_read_def)
  then show ?thesis
    using assms(3-5) by (simp add: tape_rdwr_request_def tape_dispatch_def tape_read_def)
qed

definition ex_fixed_cmd :: scsi_cmd where
  "ex_fixed_cmd = blank_cmd\<lparr>scb := [READ_6, 1, 0, 0, 2, 0], in_sdb := in_buf [0, 0]\<rparr>"

definition ex_fixed_lu :: scsi_lu where
  "ex_fixed_lu = (blank_lu 1)\<lparr>mode_block_descriptor := [0, 0, 0, 0, 0, 0, 0, 2]\<rparr>"

theorem fixed_read_overruns_witness:
  "\<exists>st. tape_rel (\<lambda>b. b) st [Rec_data [1, 2], Rec_data [3, 4]] 0 \<and> tp_cmd st = ex_fixed_cmd \<and> tp_lu st = ex_fixed_lu \<and>
     tape_rdwr_request ram_ops st = None"
proof -
  let ?recs = "[Rec_data [1, 2], Rec_data [3, 4]]" and ?xs = "[T_write [1, 2], T_write [3, 4], T_rewind]"
  have "drive_run (unat (max_capacity (mam (tp_ssc ex_tape_st)))) ?xs ([], 0) = ([t_good [], t_good [], t_good []], ?recs, 0)"
    by (simp add: ex_tape_st_def ex_mam_capacity blk_addr_def)
  then obtain st0 where rel0: "tape_rel (\<lambda>b. b) st0 ?recs 0"
    using ram.run_ok [OF ex_tape_rel, of ?xs] by (auto simp: ex_tape_st_def blank_lu_def blank_attrs_def)
  define st where "st = st0\<lparr>tp_cmd := ex_fixed_cmd, tp_lu := ex_fixed_lu\<rparr>"
  have st: "tape_rel (\<lambda>b. b) st ?recs 0" "tp_cmd st = ex_fixed_cmd" "tp_lu st = ex_fixed_lu"
    using rel0 by (simp_all add: st_def tape_rel_def)
  have cdb: "byte_at (scb ex_fixed_cmd) 0 = READ_6" "byte_at (scb ex_fixed_cmd) (Suc 0) = 1"
    "get_unaligned_be24 (scb ex_fixed_cmd) 2 = 2" "ssc_get_block_length ex_fixed_lu = 2"
    "length (scsi_get_in_buffer ex_fixed_cmd) = 2"
    by code_simp+
  have "tape_rdwr_request ram_ops st = None"
    by (rule fixed_read_overruns [OF ram.tape_file_axioms st(1)])
      (auto simp: st cdb less_2_cases_iff)
  then show ?thesis
    using st by blast
qed

end
