(* ===== verification/Tgt_Log.thy ===== *)
theory Tgt_Log
  imports Byteshift "HOL-Library.Monad_Syntax"
begin

text \<open>
  The logger (\<open>usr/log.c\<close>): a ring of variable-length messages in shared memory,
  filled by the daemon and drained by the logger process. The area is the bytes
  between \<open>start\<close> and \<open>end\<close>; the pointers \<open>head\<close>, \<open>tail\<close> and the \<open>next\<close> fields
  stored in the area are offsets from \<open>start\<close>. A message occupies a
  \<open>struct logmsg\<close> of 24 bytes (\<open>prio\<close> at 0, \<open>next\<close> at 8), and its text overlays
  the field \<open>str\<close> at 16. The code never looks at the bytes of an integer, so
  their order in memory is immaterial. \<open>None\<close> is an access outside the area.
\<close>

section \<open>State\<close>

abbreviation (input) "MAX_MSG_SIZE \<equiv> 256 :: nat"
abbreviation (input) "LOG_SPACE_SIZE \<equiv> 16384 :: nat"
abbreviation (input) "SIZEOF_LOGMSG \<equiv> 24 :: nat"
abbreviation (input) "LOG_ERR \<equiv> 3 :: u16"
abbreviation (input) "LOG_WARNING \<equiv> 4 :: u16"
abbreviation (input) "LOG_DEBUG \<equiv> 7 :: u16"

record logarea =
  la_empty :: bool
  la_active :: bool
  la_head :: nat
  la_tail :: nat
  la_mem :: bytes
  la_buff :: bytes

type_synonym log_line = "u16 \<times> bytes"

record log_state =
  log_la :: "logarea option"
  log_name :: bytes
  log_stderr :: bytes
  log_out :: "log_line list"

section \<open>The area\<close>

text \<open>
  \<open>ok k\<close> tells whether the \<open>k\<close>-th system call of \<open>logarea_init\<close> succeeds. The
  inner \<open>None\<close> is the return value 1. The code compares the result of \<open>shmat\<close>
  with the null pointer, which \<open>shmat\<close> does not return; after a failing \<open>shmat\<close>
  it goes on with the address \<open>-1\<close>, the outer \<open>None\<close>.
\<close>

definition logarea_init :: "(nat \<Rightarrow> bool) \<Rightarrow> nat \<Rightarrow> logarea option option" where
  "logarea_init ok sz =
     (let n = (if sz < MAX_MSG_SIZE then LOG_SPACE_SIZE else sz) in
      if \<not> ok 0 then Some None
      else if \<not> ok 1 then None
      else if \<not> ok 2 then Some None
      else if \<not> ok 3 then None
      else if \<not> ok 4 then Some None
      else if \<not> ok 5 then None
      else if \<not> ok 6 \<or> \<not> ok 7 \<or> \<not> ok 8 then Some None
      else Some (Some \<lparr>la_empty = True, la_active = False, la_head = 0, la_tail = 0,
                       la_mem = replicate n 0,
                       la_buff = replicate (MAX_MSG_SIZE + SIZEOF_LOGMSG) 0\<rparr>))"

definition free_logarea :: "log_state \<Rightarrow> log_state" where
  "free_logarea s = s\<lparr>log_la := None\<rparr>"

section \<open>Operations on the area\<close>

definition strlen_at :: "bytes \<Rightarrow> nat \<Rightarrow> nat option" where
  "strlen_at mem i =
     (let n = length (takeWhile (\<lambda>c. c \<noteq> 0) (drop i mem)) in
      if i + n < length mem then Some n else None)"

text \<open>What \<open>vsnprintf\<close> leaves in the stack buffer, up to the first zero byte.\<close>

definition log_text :: "bytes \<Rightarrow> bytes" where
  "log_text msg = takeWhile (\<lambda>c. c \<noteq> 0) (take (MAX_MSG_SIZE - 1) msg)"

text \<open>The place behind the last message.\<close>

definition log_tail_end :: "logarea \<Rightarrow> nat option" where
  "log_tail_end la =
     (if la_empty la then Some (la_tail la)
      else do { n \<leftarrow> strlen_at (la_mem la) (la_tail la + 16);
                Some (la_tail la + (SIZEOF_LOGMSG + n + 1)) })"

text \<open>The rewind to \<open>start\<close> when the new message does not fit behind the tail.\<close>

definition log_rewind :: "nat \<Rightarrow> logarea \<Rightarrow> nat \<Rightarrow> nat" where
  "log_rewind len la tp =
     (if la_head la \<le> tp \<and> length (la_mem la) - tp < len + SIZEOF_LOGMSG then 0 else tp)"

definition log_stage :: "u16 \<Rightarrow> bytes \<Rightarrow> nat \<Rightarrow> nat \<Rightarrow> nat \<Rightarrow> bytes \<Rightarrow> bytes option" where
  "log_stage prio str lastmsg head tp mem =
     do { m1 \<leftarrow> write_at mem tp (be16_bytes prio);
          m2 \<leftarrow> write_at m1 (tp + 16) (str @ [0]);
          m3 \<leftarrow> write_at m2 (lastmsg + 8) (be64_bytes (of_nat tp));
          write_at m3 (tp + 8) (be64_bytes (of_nat head)) }"

definition log_enqueue :: "u16 \<Rightarrow> bytes \<Rightarrow> logarea \<Rightarrow> (int \<times> logarea) option" where
  "log_enqueue prio msg la =
     do { tp0 \<leftarrow> log_tail_end la;
          if length (la_mem la) < tp0 then None
          else let len = length (log_text msg) + 1;
                   tp = log_rewind len la tp0
               in if tp < la_head la \<and> la_head la - tp < len + SIZEOF_LOGMSG
                  then Some (1, la\<lparr>la_tail := (if la_empty la then tp else la_tail la)\<rparr>)
                  else do { mem \<leftarrow> log_stage prio (log_text msg) (la_tail la) (la_head la) tp (la_mem la);
                            Some (0, la\<lparr>la_empty := False, la_tail := tp, la_mem := mem\<rparr>) } }"

definition log_dequeue :: "logarea \<Rightarrow> (bool \<times> logarea) option" where
  "log_dequeue la =
     (if la_empty la then Some (True, la)
      else do { n \<leftarrow> strlen_at (la_mem la) (la_head la + 16);
                let len = n + SIZEOF_LOGMSG + 1;
                if length (la_mem la) < la_head la + len then None
                else do { buff \<leftarrow> write_at (la_buff la) 0 (take len (drop (la_head la) (la_mem la)));
                          let nxt = unat (get_unaligned_be64 (la_mem la) (la_head la + 8));
                          mem \<leftarrow> (if la_tail la = la_head la then Some (la_mem la)
                                  else write_at (la_mem la) (la_tail la + 8) (be64_bytes (of_nat nxt)));
                          mem' \<leftarrow> write_at mem (la_head la) (replicate len 0);
                          Some (la_tail la = la_head la,
                                la\<lparr>la_empty := (la_tail la = la_head la),
                                   la_head := (if la_tail la = la_head la then la_head la else nxt),
                                   la_mem := mem', la_buff := buff\<rparr>) } })"

definition log_syslog :: "logarea \<Rightarrow> log_line option" where
  "log_syslog la =
     do { n \<leftarrow> strlen_at (la_buff la) 16;
          Some (get_unaligned_be16 (la_buff la) 0, take n (drop 16 (la_buff la))) }"

section \<open>Logging and flushing\<close>

text \<open>
  \<open>down\<close> and \<open>up\<close> tell whether the two semaphore operations succeed; the text of
  the message is the formatted one.
\<close>

definition semop_failed :: "bool \<Rightarrow> bytes" where
  "semop_failed first = map (\<lambda>c. of_nat (of_char c)) (if first then ''semop up failed'' else ''semop down failed'')"

definition dolog :: "bool \<Rightarrow> bool \<Rightarrow> u16 \<Rightarrow> bytes \<Rightarrow> log_state \<Rightarrow> log_state option" where
  "dolog down up prio msg s =
     (case log_la s of
        None \<Rightarrow> Some (s\<lparr>log_stderr := log_stderr s @ log_name s @ [0x3a, 0x20] @ msg\<rparr>)
      | Some la \<Rightarrow>
          if \<not> down then Some (s\<lparr>log_out := log_out s @ [(LOG_ERR, semop_failed True)]\<rparr>)
          else do { (_, la') \<leftarrow> log_enqueue prio msg la;
                    Some (s\<lparr>log_la := Some la',
                            log_out := log_out s @ (if up then [] else [(LOG_ERR, semop_failed False)])\<rparr>) })"

definition log_warning :: "bool \<Rightarrow> bool \<Rightarrow> bytes \<Rightarrow> log_state \<Rightarrow> log_state option" where
  "log_warning down up = dolog down up LOG_WARNING"

definition log_error :: "bool \<Rightarrow> bool \<Rightarrow> bytes \<Rightarrow> log_state \<Rightarrow> log_state option" where
  "log_error down up = dolog down up LOG_ERR"

definition log_debug :: "bool \<Rightarrow> bool \<Rightarrow> bytes \<Rightarrow> log_state \<Rightarrow> log_state option" where
  "log_debug down up = dolog down up LOG_DEBUG"

text \<open>
  One round of the loop of \<open>log_flush\<close>, with semaphore operations that succeed
  (otherwise the process exits); then the loop itself, which is left when the
  area is empty. \<open>None\<close> is also a loop that does not end.
\<close>

definition log_flush_one :: "log_state \<Rightarrow> logarea \<Rightarrow> log_state option" where
  "log_flush_one s la =
     do { (_, la') \<leftarrow> log_dequeue la;
          line \<leftarrow> log_syslog la';
          Some (s\<lparr>log_la := Some la', log_out := log_out s @ [line]\<rparr>) }"

partial_function (option) log_flush :: "log_state \<Rightarrow> log_state option" where
  [code]: "log_flush s =
     (case log_la s of
        None \<Rightarrow> Some s
      | Some la \<Rightarrow> if la_empty la then Some s
                  else do { s' \<leftarrow> log_flush_one s la; log_flush s' })"

text \<open>
  The start: \<open>fork_ok\<close> tells whether the logger process could be forked, \<open>started\<close>
  are the two formatted start-up messages of the daemon. The messages about failures
  and about the semaphore key are not recorded.
\<close>

definition log_init ::
  "(nat \<Rightarrow> bool) \<Rightarrow> bool \<Rightarrow> bytes \<times> bytes \<Rightarrow> bytes \<Rightarrow> nat \<Rightarrow> bool \<Rightarrow> log_state \<Rightarrow> (int \<times> log_state) option" where
  "log_init ok fork_ok started program_name sz daemon s =
     (let s0 = s\<lparr>log_name := program_name\<rparr> in
      if \<not> daemon then Some (0, s0)
      else case logarea_init ok sz of
             None \<Rightarrow> None
           | Some None \<Rightarrow> Some (1, s0)
           | Some (Some la) \<Rightarrow>
               let s1 = s0\<lparr>log_la := Some (la\<lparr>la_active := True\<rparr>)\<rparr> in
               if \<not> fork_ok then Some (1, s1)
               else Some (0, s1\<lparr>log_out := log_out s1 @ [(LOG_WARNING, fst started), (LOG_WARNING, snd started)]\<rparr>))"

text \<open>
  The end of the logger: the daemon has cleared \<open>active\<close> and waited for the logger
  process; \<open>bye\<close> is the formatted farewell.
\<close>

definition log_close :: "bytes \<Rightarrow> log_state \<Rightarrow> log_state option" where
  "log_close bye s =
     (case log_la s of
        None \<Rightarrow> Some s
      | Some la \<Rightarrow> do { s1 \<leftarrow> log_warning True True bye (s\<lparr>log_la := Some (la\<lparr>la_active := False\<rparr>)\<rparr>);
                       s2 \<leftarrow> log_flush s1;
                       Some (free_logarea s2) })"

section \<open>Runs of the daemon and the logger\<close>

text \<open>
  The semaphore makes \<open>log_enqueue\<close> and \<open>log_dequeue\<close> atomic, and only the logger
  uses \<open>la_buff\<close>: a run of the two processes is a sequence of messages from the
  daemon and rounds of \<open>log_flush\<close>. \<open>log_run\<close> returns the state and the messages
  \<open>log_enqueue\<close> took.
\<close>

datatype log_op = Log u16 bytes | Drain

fun log_op_step :: "log_op \<Rightarrow> log_state \<Rightarrow> (log_line list \<times> log_state) option" where
  "log_op_step (Log prio msg) s =
     (case log_la s of
        None \<Rightarrow> None
      | Some la \<Rightarrow> do { (err, la') \<leftarrow> log_enqueue prio msg la;
                       Some (if err = 0 then [(prio, log_text msg)] else [], s\<lparr>log_la := Some la'\<rparr>) })"
| "log_op_step Drain s =
     (case log_la s of
        None \<Rightarrow> None
      | Some la \<Rightarrow> if la_empty la then Some ([], s)
                  else do { s' \<leftarrow> log_flush_one s la; Some ([], s') })"

fun log_run :: "log_op list \<Rightarrow> log_state \<Rightarrow> (log_line list \<times> log_state) option" where
  "log_run [] s = Some ([], s)"
| "log_run (x # xs) s =
     do { (taken, s1) \<leftarrow> log_op_step x s;
          (rest, s2) \<leftarrow> log_run xs s1;
          Some (taken @ rest, s2) }"

end
