(* ===== verification/Tgt_Log_Thms.thy ===== *)
theory Tgt_Log_Thms
  imports Tgt_Log
begin

text \<open>
  What the logger keeps of the messages: the layout of the area as two runs of
  messages, the effect of every operation on the queue it holds, and the order
  and completeness of the lines that reach the system log.
\<close>

section \<open>Messages in the area\<close>

definition lsize :: "log_line \<Rightarrow> nat" where
  "lsize m = SIZEOF_LOGMSG + length (snd m) + 1"

definition log_slot :: "bytes \<Rightarrow> nat \<Rightarrow> log_line \<Rightarrow> bool" where
  "log_slot mem p m \<longleftrightarrow>
     p + lsize m \<le> length mem \<and> 0 \<notin> set (snd m) \<and> length (snd m) < MAX_MSG_SIZE
     \<and> get_unaligned_be16 mem p = fst m
     \<and> (\<forall>j \<le> length (snd m). byte_at mem (p + 16 + j) = (snd m @ [0]) ! j)"

definition log_link :: "bytes \<Rightarrow> nat \<Rightarrow> nat \<Rightarrow> bool" where
  "log_link mem p q \<longleftrightarrow> get_unaligned_be64 mem (p + 8) = of_nat q"

lemma lsize_ge: "25 \<le> lsize m"
  by (simp add: lsize_def)

lemma slot_frame:
  assumes "log_slot mem p m" "length mem' = length mem"
    and "\<And>i. p \<le> i \<Longrightarrow> i < p + lsize m \<Longrightarrow> i < p + 8 \<or> p + 16 \<le> i \<Longrightarrow> byte_at mem' i = byte_at mem i"
  shows "log_slot mem' p m"
proof -
  have "get_unaligned_be16 mem' p = get_unaligned_be16 mem p"
    by (rule be16.get_local) (auto intro!: assms(3) simp: lsize_def)
  moreover have "byte_at mem' (p + 16 + j) = byte_at mem (p + 16 + j)" if "j \<le> length (snd m)" for j
    using that by (intro assms(3)) (auto simp: lsize_def)
  ultimately show ?thesis
    using assms(1,2) by (auto simp: log_slot_def)
qed

lemma link_frame:
  assumes "log_link mem p q" "\<And>i. p + 8 \<le> i \<Longrightarrow> i < p + 16 \<Longrightarrow> byte_at mem' i = byte_at mem i"
  shows "log_link mem' p q"
proof -
  have "get_unaligned_be64 mem' (p + 8) = get_unaligned_be64 mem (p + 8)"
    by (rule be64.get_local) (auto intro!: assms(2))
  then show ?thesis using assms(1) by (simp add: log_link_def)
qed

lemma takeWhile_text:
  assumes "0 \<notin> set (s :: bytes)" "i + length s < length mem"
    and "\<And>j. j \<le> length s \<Longrightarrow> byte_at mem (i + j) = (s @ [0]) ! j"
  shows "takeWhile (\<lambda>c. c \<noteq> 0) (drop i mem) = s"
proof -
  have nth: "drop i mem ! j = (s @ [0]) ! j" if "j \<le> length s" for j
    using assms(2) assms(3) [OF that] that by (simp add: byte_at_def)
  have "takeWhile (\<lambda>c. c \<noteq> 0) (drop i mem) = take (length s) (drop i mem)"
    by (rule takeWhile_eq_take_P_nth)
       (use nth [of "length s"] nth assms(1) in \<open>auto simp: nth_append dest: nth_mem\<close>)
  also have "\<dots> = s"
    by (rule nth_equalityI) (use nth assms(2) in \<open>auto simp: nth_append\<close>)
  finally show ?thesis .
qed

lemma slot_strlen: "log_slot mem p m \<Longrightarrow> strlen_at mem (p + 16) = Some (length (snd m))"
  using takeWhile_text [of "snd m" "p + 16" mem]
  by (auto simp: log_slot_def strlen_at_def lsize_def)

lemma log_text_wf: "0 \<notin> set (log_text msg)" "length (log_text msg) < MAX_MSG_SIZE"
proof -
  show "0 \<notin> set (log_text msg)"
    by (auto simp: log_text_def dest: set_takeWhileD)
  have "length (log_text msg) \<le> length (take 255 msg)"
    unfolding log_text_def by (rule order_trans [OF length_takeWhile_le]) simp
  then show "length (log_text msg) < MAX_MSG_SIZE" by simp
qed

lemma log_stage_effect:
  assumes "tp + lsize (prio, str) \<le> length mem" "l + 25 \<le> length mem"
    and "0 \<notin> set str" "length str < MAX_MSG_SIZE"
    and apart: "l = tp \<or> l + 25 \<le> tp \<or> tp + lsize (prio, str) \<le> l"
  obtains mem' where "log_stage prio str l hp tp mem = Some mem'" "length mem' = length mem"
    and "log_slot mem' tp (prio, str)" "l \<noteq> tp \<Longrightarrow> log_link mem' l tp"
    and "\<And>i. i < tp \<or> tp + lsize (prio, str) \<le> i \<Longrightarrow> i < l + 8 \<or> l + 16 \<le> i \<Longrightarrow>
          byte_at mem' i = byte_at mem i"
proof -
  let ?m1 = "put_bytes mem tp (be16_bytes prio)"
  let ?m2 = "put_bytes ?m1 (tp + 16) (str @ [0])"
  let ?m3 = "put_bytes ?m2 (l + 8) (be64_bytes (of_nat tp))"
  let ?m4 = "put_bytes ?m3 (tp + 8) (be64_bytes (of_nat hp))"
  have len: "tp + 25 + length str \<le> length mem" using assms(1) by (simp add: lsize_def)
  have st: "log_stage prio str l hp tp mem = Some ?m4"
    using len assms(2) by (simp add: log_stage_def write_at_Some)
  have byte: "byte_at ?m4 i =
      (if tp + 8 \<le> i \<and> i < tp + 16 then be64_bytes (of_nat hp) ! (i - (tp + 8))
       else if l + 8 \<le> i \<and> i < l + 16 then be64_bytes (of_nat tp) ! (i - (l + 8))
       else if tp + 16 \<le> i \<and> i < tp + 17 + length str then (str @ [0]) ! (i - (tp + 16))
       else if tp \<le> i \<and> i < tp + 2 then be16_bytes prio ! (i - tp) else byte_at mem i)" for i
    using len assms(2) by (simp add: byte_at_put_bytes) auto
  have "get_unaligned_be16 ?m4 tp = get_unaligned_be16 (put_unaligned_be16 prio mem tp) tp"
    by (rule be16.get_local)
       (use len apart in \<open>auto simp: byte put_unaligned_be16_def byte_at_put_bytes lsize_def\<close>)
  then have "get_unaligned_be16 ?m4 tp = prio"
    using len by (simp add: get_put_be16)
  moreover have "byte_at ?m4 (tp + 16 + j) = (str @ [0]) ! j" if "j \<le> length str" for j
    using that apart by (auto simp: byte lsize_def)
  ultimately have log_slot: "log_slot ?m4 tp (prio, str)"
    using len assms(2-4) by (simp add: log_slot_def lsize_def)
  have "log_link ?m4 l tp" if "l \<noteq> tp"
  proof -
    have "get_unaligned_be64 ?m4 (l + 8) = get_unaligned_be64 (put_unaligned_be64 (of_nat tp) mem (l + 8)) (l + 8)"
      by (rule be64.get_local)
         (use that apart assms(2) in \<open>auto simp: byte put_unaligned_be64_def byte_at_put_bytes lsize_def\<close>)
    then show ?thesis using assms(2) by (simp add: log_link_def get_put_be64)
  qed
  moreover have "length ?m4 = length mem" using len assms(2) by simp
  moreover have "byte_at ?m4 i = byte_at mem i"
    if "i < tp \<or> tp + lsize (prio, str) \<le> i" "i < l + 8 \<or> l + 16 \<le> i" for i
    using that by (auto simp: byte lsize_def)
  ultimately show thesis
    using that st log_slot by blast
qed

section \<open>The ring\<close>

text \<open>
  \<open>laid lo xs hi\<close>: the messages \<open>xs\<close>, with their places, lie in this order between
  \<open>lo\<close> and \<open>hi\<close>. The area holds two such runs: from the head upwards, and after a
  rewind from the start up to the head.
\<close>

fun laid :: "nat \<Rightarrow> (nat \<times> log_line) list \<Rightarrow> nat \<Rightarrow> bool" where
  "laid lo [] hi \<longleftrightarrow> lo \<le> hi"
| "laid lo ((p, m) # xs) hi \<longleftrightarrow> lo \<le> p \<and> laid (p + lsize m) xs hi"

definition apart :: "nat \<times> log_line \<Rightarrow> nat \<times> log_line \<Rightarrow> bool" where
  "apart x y \<longleftrightarrow> fst x + lsize (snd x) \<le> fst y \<or> fst y + lsize (snd y) \<le> fst x"

definition linked :: "bytes \<Rightarrow> (nat \<times> log_line) list \<Rightarrow> bool" where
  "linked mem xs \<longleftrightarrow> (\<forall>i. Suc i < length xs \<longrightarrow> log_link mem (fst (xs ! i)) (fst (xs ! Suc i)))"

definition ring :: "(nat \<times> log_line) list \<Rightarrow> (nat \<times> log_line) list \<Rightarrow> logarea \<Rightarrow> bool" where
  "ring up low la \<longleftrightarrow>
     up \<noteq> [] \<and> fst (hd up) = la_head la \<and> fst (last (up @ low)) = la_tail la
     \<and> laid (la_head la) up (length (la_mem la)) \<and> laid 0 low (la_head la)
     \<and> (\<forall>x \<in> set (up @ low). log_slot (la_mem la) (fst x) (snd x))
     \<and> linked (la_mem la) (up @ low)
     \<and> length (la_buff la) = MAX_MSG_SIZE + SIZEOF_LOGMSG \<and> 1024 \<le> length (la_mem la) \<and> length (la_mem la) < 2 ^ 63"

text \<open>
  An area that is empty is a ring of one blank message, the zeroed place of the
  message that was read last.
\<close>

abbreviation "blank \<equiv> (0, []) :: log_line"

definition log_rel :: "log_line list \<Rightarrow> logarea \<Rightarrow> bool" where
  "log_rel q la \<longleftrightarrow>
     (\<exists>up low. ring up low la \<and>
        (if la_empty la then q = [] \<and> up @ low = [(la_head la, blank)] else q = map snd (up @ low)))"

lemma laid_le: "laid lo xs hi \<Longrightarrow> lo \<le> hi"
  by (induction lo xs hi rule: laid.induct) auto

lemma laid_mem: "laid lo xs hi \<Longrightarrow> x \<in> set xs \<Longrightarrow> lo \<le> fst x \<and> fst x + lsize (snd x) \<le> hi"
  by (induction lo xs hi rule: laid.induct) (auto dest: laid_le)

lemma laid_snoc:
  "laid lo (xs @ [(p, m)]) hi \<longleftrightarrow> laid lo xs p \<and> p + lsize m \<le> hi"
  by (induction lo xs hi rule: laid.induct) auto

lemma laid_last: "xs \<noteq> [] \<Longrightarrow> laid lo xs hi \<Longrightarrow> laid lo xs (fst (last xs) + lsize (snd (last xs)))"
  by (induction lo xs hi rule: laid.induct) (auto dest: laid_mem)

lemma laid_weaken: "laid lo xs hi \<Longrightarrow> hi \<le> hi' \<Longrightarrow> laid lo xs hi'"
  by (induction lo xs hi rule: laid.induct) auto

lemma laid_hd: "laid lo xs hi \<Longrightarrow> xs \<noteq> [] \<Longrightarrow> laid (fst (hd xs)) xs hi"
  by (cases xs) auto

lemma laid_apart: "laid lo xs hi \<Longrightarrow> sorted_wrt apart xs"
  by (induction lo xs hi rule: laid.induct) (auto simp: apart_def dest: laid_mem)

lemma ring_apart: "ring up low la \<Longrightarrow> sorted_wrt apart (up @ low)"
  by (auto simp: ring_def sorted_wrt_append dest: laid_apart)
     (meson apart_def laid_mem order_trans)

lemma apart_sym: "apart x y \<Longrightarrow> apart y x"
  by (auto simp: apart_def)

lemma apart_nth: "sorted_wrt apart xs \<Longrightarrow> i < length xs \<Longrightarrow> j < length xs \<Longrightarrow> i \<noteq> j \<Longrightarrow> apart (xs ! i) (xs ! j)"
  by (metis apart_sym nat_neq_iff sorted_wrt_nth_less)

lemma stage_contents:
  assumes xs: "sorted_wrt apart xs" "xs \<noteq> []" "\<forall>x \<in> set xs. log_slot mem (fst x) (snd x)" "linked mem xs"
    and new: "\<forall>x \<in> set xs. apart x (tp, (prio, str))" "tp + lsize (prio, str) \<le> length mem"
      "0 \<notin> set str" "length str < MAX_MSG_SIZE"
  obtains mem' where "log_stage prio str (fst (last xs)) hp tp mem = Some mem'" "length mem' = length mem"
    and "\<forall>x \<in> set (xs @ [(tp, (prio, str))]). log_slot mem' (fst x) (snd x)"
    and "linked mem' (xs @ [(tp, (prio, str))])"
proof -
  let ?l = "fst (last xs)" and ?m = "(prio, str)" and ?n = "length xs - 1"
  have l: "last xs = xs ! ?n" "?n < length xs" using xs(2) by (simp_all add: last_conv_nth)
  have ls: "log_slot mem ?l (snd (last xs))" using xs(2,3) by simp
  have la: "apart (last xs) (tp, ?m)" using xs(2) new(1) by simp
  have l25: "?l + 25 \<le> length mem" using ls lsize_ge [of "snd (last xs)"] by (auto simp: log_slot_def)
  have ne: "?l \<noteq> tp" and ap: "?l = tp \<or> ?l + 25 \<le> tp \<or> tp + lsize ?m \<le> ?l"
    using la lsize_ge [of "snd (last xs)"] lsize_ge [of ?m] by (auto simp: apart_def)
  obtain mem' where st: "log_stage prio str ?l hp tp mem = Some mem'" and len: "length mem' = length mem"
    and sl: "log_slot mem' tp ?m" and lk: "log_link mem' ?l tp"
    and fr: "\<And>i. i < tp \<or> tp + lsize ?m \<le> i \<Longrightarrow> i < ?l + 8 \<or> ?l + 16 \<le> i \<Longrightarrow> byte_at mem' i = byte_at mem i"
    using log_stage_effect [OF new(2) l25 new(3,4) ap, of hp] ne by metis
  have old: "byte_at mem' i = byte_at mem i"
    if k: "k < length xs" and i: "fst (xs ! k) \<le> i" "i < fst (xs ! k) + lsize (snd (xs ! k))"
      and "k \<noteq> ?n \<or> i < fst (xs ! k) + 8 \<or> fst (xs ! k) + 16 \<le> i" for k i
  proof (rule fr)
    have "apart (xs ! k) (tp, ?m)" using new(1) k by simp
    then show "i < tp \<or> tp + lsize ?m \<le> i" using i by (auto simp: apart_def)
    show "i < ?l + 8 \<or> ?l + 16 \<le> i"
    proof (cases "k = ?n")
      case False
      then have "apart (xs ! k) (last xs)" using apart_nth [OF xs(1) k l(2)] by (simp add: l(1))
      then show ?thesis using i lsize_ge [of "snd (last xs)"] by (auto simp: apart_def)
    qed (use that(4) l(1) in auto)
  qed
  have slots: "log_slot mem' (fst (xs ! k)) (snd (xs ! k))" if k: "k < length xs" for k
  proof (rule slot_frame [OF _ len])
    show "log_slot mem (fst (xs ! k)) (snd (xs ! k))" using k xs(3) by simp
  qed (use old [OF k] in blast)
  have "log_link mem' (fst (xs ! i)) (fst (xs ! Suc i))" if i: "Suc i < length xs" for i
  proof (rule link_frame)
    show "log_link mem (fst (xs ! i)) (fst (xs ! Suc i))" using i xs(4) by (simp add: linked_def)
  next
    fix j assume "fst (xs ! i) + 8 \<le> j" "j < fst (xs ! i) + 16"
    then show "byte_at mem' j = byte_at mem j"
      using i old [of i j] lsize_ge [of "snd (xs ! i)"] by auto
  qed
  moreover have "log_link mem' (fst (xs ! i)) tp" if "Suc i = length xs" for i
    using that lk l(1) by (metis diff_Suc_1)
  ultimately have "linked mem' (xs @ [(tp, ?m)])"
    by (auto simp: linked_def nth_append less_Suc_eq)
  moreover have "\<forall>x \<in> set (xs @ [(tp, ?m)]). log_slot mem' (fst x) (snd x)"
    using slots sl by (simp add: all_set_conv_all_nth)
  ultimately show thesis using that st len by blast
qed

lemma ringD:
  assumes "ring up low la"
  shows "up @ low \<noteq> []" "sorted_wrt apart (up @ low)" "linked (la_mem la) (up @ low)"
    and "\<forall>x \<in> set (up @ low). log_slot (la_mem la) (fst x) (snd x)" "fst (last (up @ low)) = la_tail la"
  using assms ring_apart [OF assms] by (auto simp: ring_def)

lemma ring_append_up:
  assumes r: "ring up [] la" and "fst (last up) + lsize (snd (last up)) \<le> tp"
    and "tp + lsize (prio, str) \<le> length (la_mem la)" "0 \<notin> set str" "length str < MAX_MSG_SIZE"
  obtains mem where "log_stage prio str (la_tail la) (la_head la) tp (la_mem la) = Some mem"
    and "length mem = length (la_mem la)"
    and "ring (up @ [(tp, (prio, str))]) [] (la\<lparr>la_empty := False, la_tail := tp, la_mem := mem\<rparr>)"
proof -
  have up: "laid (la_head la) up tp"
    using r assms(2) laid_last laid_weaken unfolding ring_def by blast
  have "\<forall>x \<in> set (up @ []). apart x (tp, (prio, str))"
    using laid_mem [OF up] by (auto simp: apart_def)
  from stage_contents [OF ringD(2,1,4,3) [OF r] this assms(3-5), of "la_head la"] obtain mem where
    "log_stage prio str (la_tail la) (la_head la) tp (la_mem la) = Some mem" "length mem = length (la_mem la)"
    "\<forall>x \<in> set (up @ [(tp, (prio, str))]). log_slot mem (fst x) (snd x)"
    "linked mem (up @ [(tp, (prio, str))])"
    using ringD(5) [OF r] by auto
  with r up assms(3) show thesis
    by (intro that [of mem]) (auto simp: ring_def laid_snoc)
qed

lemma ring_append_low:
  assumes r: "ring up low la" and low: "laid 0 low tp"
    and "tp + lsize (prio, str) \<le> la_head la" "0 \<notin> set str" "length str < MAX_MSG_SIZE"
  obtains mem where "log_stage prio str (la_tail la) (la_head la) tp (la_mem la) = Some mem"
    and "ring up (low @ [(tp, (prio, str))]) (la\<lparr>la_empty := False, la_tail := tp, la_mem := mem\<rparr>)"
proof -
  have up: "laid (la_head la) up (length (la_mem la))" using r by (simp add: ring_def)
  have "\<forall>x \<in> set (up @ low). apart x (tp, (prio, str))"
    using laid_mem [OF up] laid_mem [OF low] assms(3) by (force simp: apart_def)
  moreover have "tp + lsize (prio, str) \<le> length (la_mem la)"
    using assms(3) laid_le [OF up] by simp
  ultimately obtain mem where
    "log_stage prio str (la_tail la) (la_head la) tp (la_mem la) = Some mem" "length mem = length (la_mem la)"
    "\<forall>x \<in> set ((up @ low) @ [(tp, (prio, str))]). log_slot mem (fst x) (snd x)"
    "linked mem ((up @ low) @ [(tp, (prio, str))])"
    using stage_contents [OF ringD(2,1,4,3) [OF r] _ _ assms(4,5), of tp prio "la_head la"] ringD(5) [OF r]
    by metis
  with r low assms(3) show thesis
    by (intro that [of mem]) (auto simp: ring_def laid_snoc)
qed

section \<open>Reading the oldest message\<close>

lemma ring_split:
  assumes "ring up low la" "up @ low = x # xs" "xs \<noteq> []"
  obtains up' low' where "up' @ low' = xs" "up' \<noteq> []" "fst (hd up') = fst (hd xs)"
    and "laid (fst (hd xs)) up' (length (la_mem la))" "laid 0 low' (fst (hd xs))"
proof (cases "tl up")
  case Nil
  with assms have up: "up = [x]" "low = xs" by (cases up; simp add: ring_def)+
  have low: "laid 0 low (length (la_mem la))"
    using assms(1) laid_weaken laid_le unfolding ring_def by blast
  show thesis
    by (rule that [of low "[]"]) (use low up assms(3) laid_hd in auto)
next
  case (Cons y ys)
  with assms have up: "up = x # y # ys" "xs = y # ys @ low" by (cases up; simp add: ring_def)+
  have "laid (fst x + lsize (snd x)) (y # ys) (length (la_mem la))" "la_head la = fst x" "laid 0 low (la_head la)"
    using assms(1) up by (cases x; simp add: ring_def)+
  then have "laid (fst y) (y # ys) (length (la_mem la))" "laid 0 low (fst y)"
    using laid_hd [of _ "y # ys"] laid_weaken [of 0 low] by (cases y; force)+
  then show thesis
    by (intro that [of "y # ys" low]) (use up in auto)
qed

lemma slot_bytes:
  assumes "log_slot mem p m"
  shows "get_unaligned_be16 (take (lsize m) (drop p mem) @ ys) 0 = fst m"
    and "strlen_at (take (lsize m) (drop p mem) @ ys) 16 = Some (length (snd m))"
    and "take (length (snd m)) (drop 16 (take (lsize m) (drop p mem) @ ys)) = snd m"
proof -
  let ?b = "take (lsize m) (drop p mem) @ ys"
  have byte: "byte_at ?b i = byte_at mem (p + i)" if "i < lsize m" for i
  proof -
    have "i < length mem - p" using that assms by (auto simp: log_slot_def)
    then show ?thesis using that by (auto simp: byte_at_def nth_append)
  qed
  have "get_unaligned_be16 ?b 0 = get_unaligned_be16 mem p"
    by (rule be16.get_local) (use lsize_ge [of m] in \<open>auto simp: byte\<close>)
  then have sl: "log_slot ?b 0 m"
    using assms byte by (auto simp: log_slot_def lsize_def add.assoc)
  then show "get_unaligned_be16 ?b 0 = fst m" "strlen_at ?b 16 = Some (length (snd m))"
    using slot_strlen [OF sl] by (auto simp: log_slot_def)
  have "takeWhile (\<lambda>c. c \<noteq> 0) (drop 16 ?b) = snd m"
    by (rule takeWhile_text) (use sl in \<open>auto simp: log_slot_def lsize_def\<close>)
  then show "take (length (snd m)) (drop 16 ?b) = snd m"
    by (metis takeWhile_eq_take)
qed

lemma dequeue_first:
  assumes "ring up low la" "\<not> la_empty la" "up @ low = (h, m) # xs"
  obtains buff mem where "log_dequeue la =
      Some (xs = [], la\<lparr>la_empty := (xs = []), la_head := (if xs = [] then h else fst (hd xs)),
                         la_mem := mem, la_buff := buff\<rparr>)"
    and "\<And>la'. la_buff la' = buff \<Longrightarrow> log_syslog la' = Some m" "length buff = length (la_buff la)"
    and "length mem = length (la_mem la)"
    and "\<And>i. byte_at mem i = (if h \<le> i \<and> i < h + lsize m then 0
          else if xs \<noteq> [] \<and> la_tail la + 8 \<le> i \<and> i < la_tail la + 16
            then be64_bytes (of_nat (fst (hd xs))) ! (i - (la_tail la + 8)) else byte_at (la_mem la) i)"
proof -
  let ?mem = "la_mem la"
  have h: "la_head la = h" using assms(1,3) by (cases up) (auto simp: ring_def)
  have sl: "log_slot ?mem h m" using ringD(4) [OF assms(1)] assms(3) by simp
  have tl: "log_slot ?mem (la_tail la) (snd (last ((h, m) # xs)))" "la_tail la = fst (last ((h, m) # xs))"
    using ringD(4,5) [OF assms(1)] unfolding assms(3) by (metis last_in_set list.distinct(1))+
  have single: "la_tail la = h \<longleftrightarrow> xs = []"
  proof (cases "xs = []")
    case False
    then have "apart (h, m) (last xs)"
      using ringD(2) [OF assms(1)] assms(3) by simp
    then show ?thesis using False tl(2) lsize_ge [of m] lsize_ge [of "snd (last xs)"]
      by (auto simp: apart_def)
  qed (use tl in simp)
  have nxt: "unat (get_unaligned_be64 ?mem (h + 8)) = fst (hd xs)" if "xs \<noteq> []"
  proof -
    have "log_link ?mem h (fst (hd xs))"
      using ringD(3) [OF assms(1)] that unfolding assms(3) linked_def
      by (auto simp: hd_conv_nth dest: spec [of _ 0])
    moreover have "log_slot ?mem (fst (hd xs)) (snd (hd xs))" "length ?mem < 2 ^ 63"
      using ringD(4) [OF assms(1)] that assms(1) unfolding assms(3) by (auto simp: ring_def)
    then have "fst (hd xs) < 2 ^ 63" by (auto simp: log_slot_def)
    ultimately show ?thesis
      by (simp add: log_link_def unsigned_of_nat take_bit_nat_eq_self)
  qed
  let ?b = "take (lsize m) (drop h ?mem)"
  let ?buff = "?b @ drop (lsize m) (la_buff la)"
  have lb: "length ?b = lsize m" "lsize m \<le> length (la_buff la)"
    using sl assms(1) by (auto simp: log_slot_def ring_def lsize_def)
  then have buff: "write_at (la_buff la) 0 ?b = Some ?buff" "length ?buff = length (la_buff la)"
    by (auto simp: write_at_def)
  have t16: "la_tail la + 16 \<le> length ?mem" "h + lsize m \<le> length ?mem"
    using tl sl lsize_ge [of "snd (last ((h, m) # xs))"] by (auto simp: log_slot_def)
  define m1 where "m1 = (if xs = [] then ?mem else put_bytes ?mem (la_tail la + 8) (be64_bytes (of_nat (fst (hd xs)))))"
  have m1: "length m1 = length ?mem" using t16 by (simp add: m1_def)
  let ?m2 = "put_bytes m1 h (replicate (lsize m) 0)"
  have "log_dequeue la =
      Some (xs = [], la\<lparr>la_empty := (xs = []), la_head := (if xs = [] then h else fst (hd xs)),
                         la_mem := ?m2, la_buff := ?buff\<rparr>)"
  proof (cases "xs = []")
    case True
    then show ?thesis
      using assms(2) slot_strlen [OF sl] buff t16 single m1
      by (simp add: log_dequeue_def h lsize_def m1_def write_at_Some Let_def)
  next
    case False
    then show ?thesis
      using assms(2) slot_strlen [OF sl] buff t16 single m1 nxt
      by (simp add: log_dequeue_def h lsize_def m1_def write_at_Some Let_def)
  qed
  moreover have "log_syslog la' = Some m" if "la_buff la' = ?buff" for la'
    using that slot_bytes [OF sl, of "drop (lsize m) (la_buff la)"] by (simp add: log_syslog_def)
  moreover have "byte_at ?m2 i = (if h \<le> i \<and> i < h + lsize m then 0
          else if xs \<noteq> [] \<and> la_tail la + 8 \<le> i \<and> i < la_tail la + 16
            then be64_bytes (of_nat (fst (hd xs))) ! (i - (la_tail la + 8)) else byte_at ?mem i)" for i
    using t16 m1 by (auto simp: byte_at_put_bytes m1_def)
  ultimately show thesis
    using that buff(2) t16 m1 by simp
qed

lemma zeroed_slot:
  assumes "h + 25 \<le> length mem" "\<And>i. h \<le> i \<Longrightarrow> i < h + 25 \<Longrightarrow> byte_at mem i = 0"
  shows "log_slot mem h blank"
proof -
  have "get_unaligned_be16 mem h = get_unaligned_be16 [0, 0] 0"
    by (rule be16.get_local) (auto simp: assms(2) byte_at_Cons)
  then show ?thesis
    using assms by (simp add: log_slot_def lsize_def get_unaligned_be16_def)
qed

lemma ring_single:
  assumes "log_slot (la_mem la) (la_head la) m" "la_tail la = la_head la"
    and "length (la_buff la) = MAX_MSG_SIZE + SIZEOF_LOGMSG" "1024 \<le> length (la_mem la)" "length (la_mem la) < 2 ^ 63"
  shows "ring [(la_head la, m)] [] la"
  using assms by (simp add: ring_def linked_def log_slot_def)

lemma dequeue_rel:
  assumes "log_rel (m # q) la"
  obtains la' where "log_dequeue la = Some (q = [], la')" "log_rel q la'" "log_syslog la' = Some m"
proof -
  obtain up low where r: "ring up low la" and ne: "\<not> la_empty la" and q: "m # q = map snd (up @ low)"
    using assms by (auto simp: log_rel_def split: if_splits)
  then obtain h xs where x: "up @ low = (h, m) # xs" "q = map snd xs"
    by (cases "up @ low") auto
  obtain buff mem where
    d: "log_dequeue la = Some (xs = [], la\<lparr>la_empty := (xs = []), la_head := (if xs = [] then h else fst (hd xs)),
                                  la_mem := mem, la_buff := buff\<rparr>)"
    and out: "\<And>la'. la_buff la' = buff \<Longrightarrow> log_syslog la' = Some m"
    and len: "length buff = length (la_buff la)" "length mem = length (la_mem la)"
    and byte: "\<And>i. byte_at mem i = (if h \<le> i \<and> i < h + lsize m then 0
          else if xs \<noteq> [] \<and> la_tail la + 8 \<le> i \<and> i < la_tail la + 16
            then be64_bytes (of_nat (fst (hd xs))) ! (i - (la_tail la + 8)) else byte_at (la_mem la) i)"
    by (rule dequeue_first [OF r ne x(1)]) blast
  let ?la = "la\<lparr>la_empty := (xs = []), la_head := (if xs = [] then h else fst (hd xs)), la_mem := mem, la_buff := buff\<rparr>"
  have sl: "log_slot (la_mem la) h m" and tail: "la_tail la = fst (last ((h, m) # xs))"
    using ringD(4,5) [OF r] unfolding x(1) by auto
  have size: "length (la_buff la) = MAX_MSG_SIZE + SIZEOF_LOGMSG" "1024 \<le> length (la_mem la)" "length (la_mem la) < 2 ^ 63"
    using r by (simp_all add: ring_def)
  have "log_rel q ?la"
  proof (cases "xs = []")
    case True
    have "log_slot mem h blank"
      by (rule zeroed_slot) (use sl len lsize_ge [of m] in \<open>auto simp: byte log_slot_def\<close>)
    then have "ring [(la_head ?la, blank)] [] ?la"
      by (intro ring_single) (use True tail len size in simp_all)
    then show ?thesis
      using True x(2) by (force simp: log_rel_def)
  next
    case False
    obtain up' low' where s: "up' @ low' = xs" "up' \<noteq> []" "fst (hd up') = fst (hd xs)"
        "laid (fst (hd xs)) up' (length (la_mem la))" "laid 0 low' (fst (hd xs))"
      using ring_split [OF r x(1) False] .
    have srt: "sorted_wrt apart xs" "\<And>y. y \<in> set xs \<Longrightarrow> apart (h, m) y"
      using ringD(2) [OF r] x(1) by auto
    let ?n = "length xs - 1"
    have l: "la_tail la = fst (xs ! ?n)" "?n < length xs"
      using False tail by (simp_all add: last_conv_nth)
    have same: "byte_at mem i = byte_at (la_mem la) i"
      if k: "k < length xs" and i: "fst (xs ! k) \<le> i" "i < fst (xs ! k) + lsize (snd (xs ! k))"
        and "k \<noteq> ?n \<or> i < fst (xs ! k) + 8 \<or> fst (xs ! k) + 16 \<le> i" for k i
    proof -
      have "apart (h, m) (xs ! k)" using srt(2) k by simp
      moreover have "i < la_tail la + 8 \<or> la_tail la + 16 \<le> i"
      proof (cases "k = ?n")
        case False
        then have "apart (xs ! k) (xs ! ?n)" by (rule apart_nth [OF srt(1) k l(2)])
        then show ?thesis using i l(1) lsize_ge [of "snd (xs ! ?n)"] by (auto simp: apart_def)
      qed (use that(4) l(1) in auto)
      ultimately show ?thesis using i by (auto simp: byte apart_def)
    qed
    have "log_slot mem (fst (xs ! k)) (snd (xs ! k))" if k: "k < length xs" for k
    proof (rule slot_frame [OF _ len(2)])
      show "log_slot (la_mem la) (fst (xs ! k)) (snd (xs ! k))" using ringD(4) [OF r] x(1) k by simp
    qed (use same [OF k] in blast)
    moreover have "log_link mem (fst (xs ! i)) (fst (xs ! Suc i))" if i: "Suc i < length xs" for i
    proof (rule link_frame)
      have "Suc (Suc i) < length (up @ low)" using x(1) i by simp
      then show "log_link (la_mem la) (fst (xs ! i)) (fst (xs ! Suc i))"
        using ringD(3) [OF r] unfolding x(1) linked_def by (metis nth_Cons_Suc)
    next
      fix j assume "fst (xs ! i) + 8 \<le> j" "j < fst (xs ! i) + 16"
      then show "byte_at mem j = byte_at (la_mem la) j"
        using i same [of i j] lsize_ge [of "snd (xs ! i)"] by auto
    qed
    ultimately have "ring up' low' ?la"
      using False s tail len size by (simp add: ring_def linked_def all_set_conv_all_nth)
    then show ?thesis
      unfolding log_rel_def by (intro exI [of _ up'] exI [of _ low']) (use False s(1) x(2) in auto)
  qed
  then show thesis
    using that d out x(2) by simp
qed

section \<open>Adding a message\<close>

text \<open>
  The area cannot tell a full ring from an empty place at the head: a new message
  collides when its place, before or after the rewind, is the head of a ring that
  is not empty.
\<close>

definition log_collides :: "bytes \<Rightarrow> logarea \<Rightarrow> bool" where
  "log_collides msg la \<longleftrightarrow>
     \<not> la_empty la \<and>
     (case log_tail_end la of
        None \<Rightarrow> False
      | Some t \<Rightarrow> t = la_head la \<or> log_rewind (length (log_text msg) + 1) la t = la_head la)"

lemma lsize_less: "log_slot mem p m \<Longrightarrow> lsize m \<le> 280"
  by (simp add: log_slot_def lsize_def)

lemma tail_end_ring:
  assumes "ring up low la" "\<not> la_empty la"
  shows "log_tail_end la = Some (la_tail la + lsize (snd (last (up @ low))))"
    and "la_tail la + lsize (snd (last (up @ low))) \<le> length (la_mem la)"
proof -
  have "log_slot (la_mem la) (la_tail la) (snd (last (up @ low)))"
    using ringD(1,4,5) [OF assms(1)] by (metis last_in_set)
  then show "log_tail_end la = Some (la_tail la + lsize (snd (last (up @ low))))"
    "la_tail la + lsize (snd (last (up @ low))) \<le> length (la_mem la)"
    using assms(2) slot_strlen by (auto simp: log_tail_end_def lsize_def log_slot_def)
qed

lemma enqueue_at:
  assumes "log_tail_end la = Some t0" "t0 \<le> length (la_mem la)"
  shows "log_enqueue prio msg la =
     (let n = lsize (prio, log_text msg); t = (if la_head la \<le> t0 \<and> length (la_mem la) - t0 < n then 0 else t0)
      in if t < la_head la \<and> la_head la - t < n
         then Some (1, la\<lparr>la_tail := (if la_empty la then t else la_tail la)\<rparr>)
         else map_option (\<lambda>mem. (0, la\<lparr>la_empty := False, la_tail := t, la_mem := mem\<rparr>))
                (log_stage prio (log_text msg) (la_tail la) (la_head la) t (la_mem la)))"
  using assms by (simp add: log_enqueue_def log_rewind_def lsize_def Let_def map_option_case bind_split split: option.split)


lemma enqueue_at_end:
  assumes "log_tail_end la = Some t" "la_head la \<le> t" "t + lsize (prio, log_text msg) \<le> length (la_mem la)"
  shows "log_enqueue prio msg la =
     map_option (\<lambda>mem. (0, la\<lparr>la_empty := False, la_tail := t, la_mem := mem\<rparr>))
       (log_stage prio (log_text msg) (la_tail la) (la_head la) t (la_mem la))"
proof -
  have "\<not> length (la_mem la) - t < lsize (prio, log_text msg)" "t \<le> length (la_mem la)" "\<not> t < la_head la"
    using assms by auto
  then show ?thesis
    unfolding enqueue_at [OF assms(1) \<open>t \<le> length (la_mem la)\<close>] by (simp only: Let_def simp_thms if_False)
qed

lemma enqueue_up:
  assumes r: "ring up [] la" "\<not> la_empty la"
    and t: "log_tail_end la = Some t" "t + lsize (prio, log_text msg) \<le> length (la_mem la)"
  obtains mem where
    "log_enqueue prio msg la = Some (0, la\<lparr>la_empty := False, la_tail := t, la_mem := mem\<rparr>)"
    "length mem = length (la_mem la)"
    "ring (up @ [(t, (prio, log_text msg))]) [] (la\<lparr>la_empty := False, la_tail := t, la_mem := mem\<rparr>)"
proof -
  have te: "t = la_tail la + lsize (snd (last up))" using tail_end_ring(1) [OF r] t(1) by simp
  have last: "la_tail la = fst (last up)" "last up \<in> set up" using r(1) by (auto simp: ring_def)
  have up: "laid (la_head la) up (length (la_mem la))" using r(1) by (simp add: ring_def)
  have "la_head la < t"
    using laid_mem [OF up last(2)] last(1) te lsize_ge [of "snd (last up)"] by simp
  moreover obtain mem where
    "log_stage prio (log_text msg) (la_tail la) (la_head la) t (la_mem la) = Some mem" "length mem = length (la_mem la)"
    "ring (up @ [(t, (prio, log_text msg))]) [] (la\<lparr>la_empty := False, la_tail := t, la_mem := mem\<rparr>)"
    by (rule ring_append_up [OF r(1) _ t(2) log_text_wf]) (use te last in simp)
  ultimately show thesis
    using that enqueue_at_end [OF t(1) _ t(2)] by simp
qed

lemma enqueue_busy:
  fixes prio :: u16 and msg :: bytes
  assumes r: "ring up low la" "\<not> la_empty la" and nc: "\<not> log_collides msg la"
  defines "m \<equiv> (prio, log_text msg)"
  shows "log_enqueue prio msg la = Some (1, la) \<or>
     (\<exists>la'. log_enqueue prio msg la = Some (0, la') \<and> log_rel (map snd (up @ low) @ [m]) la')"
proof -
  let ?n = "lsize m" and ?t = "la_tail la + lsize (snd (last (up @ low)))" and ?h = "la_head la"
  note te = tail_end_ring [OF r]
  have ap: "?t \<noteq> ?h" "\<not> (?h \<le> ?t \<and> length (la_mem la) - ?t < ?n \<and> ?h = 0)"
    using nc r(2) by (auto simp: log_collides_def te(1) log_rewind_def lsize_def m_def)
  have enq: "log_enqueue prio msg la =
     (let t = (if ?h \<le> ?t \<and> length (la_mem la) - ?t < ?n then 0 else ?t)
      in if t < ?h \<and> ?h - t < ?n then Some (1, la)
         else map_option (\<lambda>mem. (0, la\<lparr>la_empty := False, la_tail := t, la_mem := mem\<rparr>))
                (log_stage prio (log_text msg) (la_tail la) ?h t (la_mem la)))"
    unfolding enqueue_at [OF te] m_def using r(2) by (simp add: Let_def)
  have rel: "log_rel (map snd (up @ low) @ [m]) la'"
    if "ring up' low' la'" "\<not> la_empty la'" "up' @ low' = up @ low @ [(t, m)]" for up' low' la' t
    unfolding log_rel_def by (intro exI [of _ up'] exI [of _ low']) (use that in simp)
  have low_case: "log_enqueue prio msg la = Some (1, la) \<or>
     (\<exists>la'. log_enqueue prio msg la = Some (0, la') \<and> log_rel (map snd (up @ low) @ [m]) la')"
    if t: "t = (if ?h \<le> ?t \<and> length (la_mem la) - ?t < ?n then 0 else ?t)" "t < ?h" "laid 0 low t" for t
  proof (cases "?h - t < ?n")
    case True
    then show ?thesis using enq t by (simp add: Let_def)
  next
    case False
    then have fits: "t + lsize (prio, log_text msg) \<le> ?h" using t(2) by (simp add: m_def)
    obtain mem where
      "log_stage prio (log_text msg) (la_tail la) ?h t (la_mem la) = Some mem"
      "ring up (low @ [(t, m)]) (la\<lparr>la_empty := False, la_tail := t, la_mem := mem\<rparr>)"
      unfolding m_def by (rule ring_append_low [OF r(1) t(3) fits log_text_wf])
    then show ?thesis
      using enq False t rel by (simp add: Let_def)
  qed
  have laid: "laid ?h up (length (la_mem la))" "laid 0 low ?h" using r(1) by (simp_all add: ring_def)
  show ?thesis
  proof (cases "low = []")
    case True
    then have last: "la_tail la = fst (last up)" "last up \<in> set up" using r(1) by (auto simp: ring_def)
    then have ht: "?h < ?t"
      using laid_mem [OF laid(1) last(2)] lsize_ge [of "snd (last (up @ low))"] by simp
    show ?thesis
    proof (cases "length (la_mem la) - ?t < ?n")
      case no_room: True
      with ht ap show ?thesis by (intro low_case [of 0]) (use True in simp_all)
    next
      case room: False
      then have "?t + lsize (prio, log_text msg) \<le> length (la_mem la)"
        using te(2) by (simp add: m_def)
      then obtain mem where
        "log_enqueue prio msg la = Some (0, la\<lparr>la_empty := False, la_tail := ?t, la_mem := mem\<rparr>)"
        "ring (up @ [(?t, m)]) [] (la\<lparr>la_empty := False, la_tail := ?t, la_mem := mem\<rparr>)"
        unfolding m_def using enqueue_up [OF r(1) [unfolded True] r(2) te(1)] by blast
      then show ?thesis
        using True rel by simp
    qed
  next
    case False
    then have last: "la_tail la = fst (last low)" "last (up @ low) = last low" "last low \<in> set low"
      using r(1) by (auto simp: ring_def)
    then have th: "?t < ?h" using laid_mem [OF laid(2) last(3)] ap by simp
    moreover have "laid 0 low ?t" using laid_last [OF False laid(2)] last by simp
    ultimately show ?thesis by (intro low_case [of ?t]) simp_all
  qed
qed

lemma enqueue_first:
  assumes r: "ring [(la_head la, blank)] [] la" "la_empty la"
    and fits: "la_head la + lsize (prio, log_text msg) \<le> length (la_mem la)"
  obtains mem where
    "log_enqueue prio msg la = Some (0, la\<lparr>la_empty := False, la_mem := mem\<rparr>)"
    "length mem = length (la_mem la)"
    "ring [(la_head la, (prio, log_text msg))] [] (la\<lparr>la_empty := False, la_mem := mem\<rparr>)"
proof -
  let ?h = "la_head la"
  have tail: "la_tail la = ?h" and size: "1024 \<le> length (la_mem la)" "length (la_mem la) < 2 ^ 63"
      "length (la_buff la) = MAX_MSG_SIZE + SIZEOF_LOGMSG" "?h + 25 \<le> length (la_mem la)"
    using r(1) by (simp_all add: ring_def log_slot_def lsize_def)
  have te: "log_tail_end la = Some ?h" using r(2) tail by (simp add: log_tail_end_def)
  obtain mem where mem:
    "log_stage prio (log_text msg) ?h ?h ?h (la_mem la) = Some mem" "length mem = length (la_mem la)"
    "log_slot mem ?h (prio, log_text msg)"
    by (rule log_stage_effect [OF fits _ log_text_wf, of ?h ?h]) (use size in auto)
  let ?la = "la\<lparr>la_empty := False, la_mem := mem\<rparr>"
  have eq: "la\<lparr>la_empty := False, la_tail := ?h, la_mem := mem\<rparr> = ?la" using tail by simp
  have "ring [(la_head ?la, (prio, log_text msg))] [] ?la"
    by (rule ring_single) (use mem size tail in simp_all)
  then show thesis
    using that enqueue_at_end [OF te _ fits] mem(1,2) tail eq by simp
qed

lemma enqueue_idle:
  fixes prio :: u16 and msg :: bytes
  assumes r: "ring [(la_head la, blank)] [] la" "la_empty la"
  defines "m \<equiv> (prio, log_text msg)"
  shows "\<exists>la' pad. log_enqueue prio msg la = Some (0, la') \<and> log_rel (pad @ [m]) la' \<and> (pad = [] \<or> pad = [blank])"
proof -
  let ?h = "la_head la"
  have tail: "la_tail la = ?h" and size: "1024 \<le> length (la_mem la)" "length (la_mem la) < 2 ^ 63"
      "length (la_buff la) = MAX_MSG_SIZE + SIZEOF_LOGMSG"
    using r(1) by (simp_all add: ring_def)
  have h: "?h + 25 \<le> length (la_mem la)" using r(1) by (simp add: ring_def log_slot_def lsize_def)
  have small: "lsize m \<le> 280" using log_text_wf(2) [of msg] by (simp add: lsize_def m_def)
  have te: "log_tail_end la = Some ?h" using r(2) tail by (simp add: log_tail_end_def)
  show ?thesis
  proof (cases "length (la_mem la) - ?h < lsize m")
    case True
    then have fits: "0 + lsize (prio, log_text msg) \<le> ?h" using size small by (simp add: m_def)
    then have "\<not> ?h < lsize m" "\<not> (0 < ?h \<and> ?h - 0 < lsize m)" by (simp_all add: m_def)
    then have enq: "log_enqueue prio msg la =
        map_option (\<lambda>mem. (0, la\<lparr>la_empty := False, la_tail := 0, la_mem := mem\<rparr>))
          (log_stage prio (log_text msg) (la_tail la) ?h 0 (la_mem la))"
      using True r(2) h enqueue_at [OF te, of prio msg, folded m_def] by (simp add: Let_def)
    obtain mem where
      "log_stage prio (log_text msg) (la_tail la) ?h 0 (la_mem la) = Some mem"
      "ring [(?h, blank)] ([] @ [(0, m)]) (la\<lparr>la_empty := False, la_tail := 0, la_mem := mem\<rparr>)"
      unfolding m_def by (rule ring_append_low [OF r(1) _ fits log_text_wf]) simp
    then show ?thesis
      using enq by (intro exI [of _ "la\<lparr>la_empty := False, la_tail := 0, la_mem := mem\<rparr>"] exI [of _ "[blank]"])
        (force simp: log_rel_def)
  next
    case False
    then have "?h + lsize (prio, log_text msg) \<le> length (la_mem la)" using h by (simp add: m_def)
    then obtain mem where
      "log_enqueue prio msg la = Some (0, la\<lparr>la_empty := False, la_mem := mem\<rparr>)"
      "ring [(?h, m)] [] (la\<lparr>la_empty := False, la_mem := mem\<rparr>)"
      using enqueue_first [OF r] unfolding m_def by blast
    then show ?thesis
      by (intro exI [of _ "la\<lparr>la_empty := False, la_mem := mem\<rparr>"] exI [of _ "[]"]) (force simp: log_rel_def)
  qed
qed

lemma enqueue_rel:
  assumes "log_rel q la" "\<not> log_collides msg la"
  obtains "log_enqueue prio msg la = Some (1, la)"
  | la' pad where "log_enqueue prio msg la = Some (0, la')" "log_rel (q @ pad @ [(prio, log_text msg)]) la'"
      "pad = [] \<or> pad = [blank]"
proof -
  obtain up low where r: "ring up low la"
    and q: "if la_empty la then q = [] \<and> up @ low = [(la_head la, blank)] else q = map snd (up @ low)"
    using assms(1) by (auto simp: log_rel_def)
  show thesis
  proof (cases "la_empty la")
    case True
    then have "up = [(la_head la, blank)]" "low = []"
      using q r by (auto simp: ring_def append_eq_Cons_conv)
    then obtain la' pad where "log_enqueue prio msg la = Some (0, la')"
        "log_rel (pad @ [(prio, log_text msg)]) la'" "pad = [] \<or> pad = [blank]"
      using enqueue_idle [of la prio msg] r True by blast
    then show thesis
      using that(2) q True by simp
  next
    case False
    then show thesis
      using enqueue_busy [OF r False assms(2), of prio] q that(1) that(2) [of _ "[]"] by auto
  qed
qed


lemma enqueue_collide:
  assumes r: "ring up low la" "\<not> la_empty la"
    and t: "log_tail_end la = Some t" "log_rewind (length (log_text msg) + 1) la t = la_head la"
  obtains la' where "log_enqueue prio msg la = Some (0, la')" "log_rel [(prio, log_text msg)] la'"
proof -
  let ?m = "(prio, log_text msg)" and ?h = "la_head la" and ?l = "last (up @ low)"
  have te: "t = la_tail la + lsize (snd ?l)" "t \<le> length (la_mem la)"
    using tail_end_ring [OF r] t(1) by auto
  have rew: "(if ?h \<le> t \<and> length (la_mem la) - t < lsize ?m then 0 else t) = ?h"
    using t(2) by (simp add: log_rewind_def lsize_def)
  have size: "1024 \<le> length (la_mem la)" "length (la_mem la) < 2 ^ 63"
      "length (la_buff la) = MAX_MSG_SIZE + SIZEOF_LOGMSG"
    using r(1) by (simp_all add: ring_def)
  have sl: "log_slot (la_mem la) (la_tail la) (snd ?l)"
    using ringD(1,4,5) [OF r(1)] by (metis last_in_set)
  have small: "lsize ?m \<le> 280" "lsize (snd ?l) \<le> 280" "25 \<le> lsize (snd ?l)"
    using log_text_wf(2) [of msg] lsize_less [OF sl] lsize_ge by (auto simp: lsize_def)
  have fits: "?h + lsize ?m \<le> length (la_mem la)" and apart: "la_tail la = ?h \<or> la_tail la + 25 \<le> ?h \<or> ?h + lsize ?m \<le> la_tail la"
    using rew te size small by (auto split: if_splits)
  have l25: "la_tail la + 25 \<le> length (la_mem la)" using sl small(3) by (simp add: log_slot_def)
  obtain mem where mem: "log_stage prio (log_text msg) (la_tail la) ?h ?h (la_mem la) = Some mem"
      "length mem = length (la_mem la)" "log_slot mem ?h ?m"
    by (rule log_stage_effect [OF fits l25 log_text_wf apart]) blast
  let ?la = "la\<lparr>la_empty := False, la_tail := ?h, la_mem := mem\<rparr>"
  have "ring [(la_head ?la, ?m)] [] ?la"
    by (rule ring_single) (use mem size in simp_all)
  then have "log_rel [?m] ?la" by (force simp: log_rel_def)
  then show thesis
    using that enqueue_at [OF t(1) te(2), of prio msg] mem(1) unfolding rew Let_def by simp
qed

section \<open>Runs\<close>

lemma log_rel_empty: "log_rel q la \<Longrightarrow> la_empty la \<longleftrightarrow> q = []"
  by (auto simp: log_rel_def ring_def split: if_splits)

lemma flush_one_rel:
  assumes "log_rel (m # q) la"
  obtains la' where "log_flush_one s la = Some (s\<lparr>log_la := Some la', log_out := log_out s @ [m]\<rparr>)" "log_rel q la'"
  by (rule dequeue_rel [OF assms]) (use that in \<open>simp add: log_flush_one_def\<close>)

lemma flush_rel:
  assumes "log_la s = Some la" "log_rel q la"
  shows "\<exists>s' la'. log_flush s = Some s' \<and> log_la s' = Some la' \<and> la_empty la' \<and> log_out s' = log_out s @ q"
  using assms
proof (induction q arbitrary: s la)
  case Nil
  then show ?case using log_rel_empty by (subst log_flush.simps) simp
next
  case (Cons m q)
  obtain la' where la': "log_flush_one s la = Some (s\<lparr>log_la := Some la', log_out := log_out s @ [m]\<rparr>)" "log_rel q la'"
    by (rule flush_one_rel [OF Cons.prems(2)])
  then show ?case
    using Cons.IH [OF _ la'(2), of "s\<lparr>log_la := Some la', log_out := log_out s @ [m]\<rparr>"] Cons.prems log_rel_empty
    by (subst log_flush.simps) simp
qed

text \<open>
  No message of the run collides. Nothing is required of an operation that leaves the
  area (\<open>None\<close>): that there is none is part of what is proved.
\<close>

fun log_uncollided :: "log_op list \<Rightarrow> log_state \<Rightarrow> bool" where
  "log_uncollided [] s = True"
| "log_uncollided (x # xs) s =
     ((case (x, log_la s) of (Log prio msg, Some la) \<Rightarrow> \<not> log_collides msg la | _ \<Rightarrow> True)
      \<and> (case log_op_step x s of None \<Rightarrow> True | Some (taken, s') \<Rightarrow> log_uncollided xs s'))"

abbreviation "lines \<equiv> filter (\<lambda>l. l \<noteq> blank)"

lemma op_step_rel:
  assumes "log_la s = Some la" "log_rel q la" "log_uncollided (x # xs) s"
  obtains taken s' la' q' where "log_op_step x s = Some (taken, s')" "log_uncollided xs s'" "log_la s' = Some la'"
    "log_rel q' la'" "lines (log_out s' @ q') = lines (log_out s @ q @ taken)"
proof (cases x)
  case (Log prio msg)
  then have nc: "\<not> log_collides msg la" using assms(1,3) by simp
  show thesis
  proof (rule enqueue_rel [OF assms(2) nc, of prio])
    assume "log_enqueue prio msg la = Some (1, la)"
    then have "log_op_step x s = Some ([], s\<lparr>log_la := Some la\<rparr>)" using Log assms(1) by simp
    then show thesis
      by (rule that [OF _ _ _ assms(2)]) (use assms(3) \<open>log_op_step x s = _\<close> in auto)
  next
    fix la' pad
    assume la': "log_enqueue prio msg la = Some (0, la')"
        "log_rel (q @ pad @ [(prio, log_text msg)]) la'" "pad = [] \<or> pad = [blank]"
    have "log_op_step x s = Some ([(prio, log_text msg)], s\<lparr>log_la := Some la'\<rparr>)"
      using Log assms(1) la'(1) by simp
    then show thesis
      by (rule that [OF _ _ _ la'(2)]) (use assms(3) la'(3) \<open>log_op_step x s = _\<close> in auto)
  qed
next
  case Drain
  show thesis
  proof (cases q)
    case Nil
    then have "log_op_step x s = Some ([], s)" using Drain assms(1,2) log_rel_empty by simp
    then show thesis using that assms Nil by simp
  next
    case (Cons m q')
    obtain la' where la': "log_flush_one s la = Some (s\<lparr>log_la := Some la', log_out := log_out s @ [m]\<rparr>)" "log_rel q' la'"
      using flush_one_rel assms(2) Cons by blast
    then have "log_op_step x s = Some ([], s\<lparr>log_la := Some la', log_out := log_out s @ [m]\<rparr>)"
      using Drain assms(1,2) Cons log_rel_empty by simp
    then show thesis
      by (rule that [OF _ _ _ la'(2)]) (use assms(3) Cons \<open>log_op_step x s = _\<close> in auto)
  qed
qed

lemma log_run_rel:
  assumes "log_la s = Some la" "log_rel q la" "log_uncollided ops s"
  shows "\<exists>taken s' la' q'. log_run ops s = Some (taken, s') \<and> log_la s' = Some la' \<and> log_rel q' la'
     \<and> lines (log_out s' @ q') = lines (log_out s @ q @ taken)"
  using assms
proof (induction ops arbitrary: s la q)
  case (Cons x xs)
  obtain taken s1 la1 q1 where 1: "log_op_step x s = Some (taken, s1)" "log_uncollided xs s1" "log_la s1 = Some la1"
      "log_rel q1 la1" "lines (log_out s1 @ q1) = lines (log_out s @ q @ taken)"
    by (rule op_step_rel [OF Cons.prems])
  obtain rest s2 la2 q2 where 2: "log_run xs s1 = Some (rest, s2)" "log_la s2 = Some la2" "log_rel q2 la2"
      "lines (log_out s2 @ q2) = lines (log_out s1 @ q1 @ rest)"
    using Cons.IH [OF 1(3,4,2)] by blast
  show ?case
    using 1 2 by auto
qed auto

lemma init_ring:
  assumes "log_init ok fork_ok started nm n True s0 = Some (0, s)" "1024 \<le> n" "n < 2 ^ 63"
  obtains la where "log_la s = Some la" "ring [(la_head la, blank)] [] la" "la_empty la" "la_head la = 0" "la_tail la = 0"
    "length (la_mem la) = n" "log_rel [] la"
proof -
  define la where "la = \<lparr>la_empty = True, la_active = True, la_head = 0, la_tail = 0,
                  la_mem = replicate n 0, la_buff = replicate (MAX_MSG_SIZE + SIZEOF_LOGMSG) 0\<rparr>"
  have s: "log_la s = Some la"
    using assms(1,2) by (auto simp: log_init_def logarea_init_def Let_def la_def split: if_splits option.splits)
  have r: "ring [(la_head la, blank)] [] la"
    by (rule ring_single) (use assms(2,3) in \<open>auto simp: la_def intro!: zeroed_slot\<close>)
  then have "log_rel [] la" unfolding log_rel_def by (force simp: la_def)
  with that [OF s r] show thesis by (simp add: la_def)
qed


section \<open>The properties\<close>

text \<open>
  C5. The logger loses no accepted message and keeps their order. After a successful start with
  an area of at least 1024 bytes, let the daemon log and the logger drain in any order, as long as
  no message collides with a full ring, that is, gets the place of the head of a ring that is not
  empty (\<open>log_collides\<close>; the next property shows what happens then). Then no operation leaves the area, the final flush ends,
  the area is empty, and apart from blank lines the lines that reached the system log are exactly
  the messages \<open>log_enqueue\<close> took, each cut to 255 bytes, in the order they were logged.
\<close>

theorem log_in_order:
  assumes "log_init ok fork_ok started program_name n True s0 = Some (0, s)" "1024 \<le> n" "n < 2 ^ 63"
    and "log_uncollided ops s"
  shows "\<exists>taken s1 s2 la. log_run ops s = Some (taken, s1) \<and> log_flush s1 = Some s2
     \<and> log_la s2 = Some la \<and> la_empty la
     \<and> lines (log_out s2) = lines (log_out s @ taken)"
proof -
  obtain la where la: "log_la s = Some la" "log_rel [] la"
    by (rule init_ring [OF assms(1-3)])
  obtain taken s1 la1 q1 where 1: "log_run ops s = Some (taken, s1)" "log_la s1 = Some la1" "log_rel q1 la1"
      "lines (log_out s1 @ q1) = lines (log_out s @ [] @ taken)"
    using log_run_rel [OF la assms(4)] by blast
  then show ?thesis
    using flush_rel [OF 1(2,3)] by auto
qed

definition ex_log :: log_state where
  "ex_log = \<lparr>log_la = None, log_name = [], log_stderr = [], log_out = []\<rparr>"

definition ex_log_started :: "nat \<Rightarrow> log_state" where
  "ex_log_started n = snd (the (log_init (\<lambda>_. True) True ([1], [2]) [3] n True ex_log))"

lemma ex_log_init: "log_init (\<lambda>_. True) True ([1], [2]) [3] n True ex_log = Some (0, ex_log_started n)"
  by (simp add: ex_log_started_def log_init_def logarea_init_def Let_def)

lemma ex_log_out: "log_out (ex_log_started n) = [(LOG_WARNING, [1]), (LOG_WARNING, [2])]"
  by (simp add: ex_log_started_def log_init_def logarea_init_def Let_def ex_log_def)

lemma drains_uncollided:
  assumes "log_la s = Some la" "log_rel q la"
  shows "log_uncollided (replicate k Drain) s"
  using assms
proof (induction k arbitrary: s la q)
  case (Suc k)
  show ?case
  proof (cases q)
    case Nil
    then show ?thesis using Suc log_rel_empty by simp
  next
    case (Cons m q')
    obtain la' where la': "log_flush_one s la = Some (s\<lparr>log_la := Some la', log_out := log_out s @ [m]\<rparr>)" "log_rel q' la'"
      using flush_one_rel Suc.prems(2) Cons by blast
    then show ?thesis
      using Suc.prems Suc.IH [OF _ la'(2)] Cons log_rel_empty [OF Suc.prems(2)] by simp
  qed
qed simp

lemma ex_log_uncollided: "log_uncollided (Log 3 [65] # replicate 2 Drain) (ex_log_started 1024)"
proof -
  obtain la where la: "log_la (ex_log_started 1024) = Some la" "la_empty la" "log_rel [] la"
    by (rule init_ring [OF ex_log_init [of 1024]]) auto
  have nc: "\<not> log_collides [65] la" using la(2) by (simp add: log_collides_def)
  obtain e la1 q1 where e: "log_enqueue 3 [65] la = Some (e, la1)" "log_rel q1 la1"
    by (rule enqueue_rel [OF la(3) nc, of 3]) (use la(3) in auto)
  have "log_uncollided (replicate 2 Drain) (ex_log_started 1024\<lparr>log_la := Some la1\<rparr>)"
    by (rule drains_uncollided [OF _ e(2)]) simp
  then show ?thesis
    using la(1) nc e(1) by simp
qed

theorem log_in_order_witness:
  "\<exists>taken s1 s2 la. log_run (Log 3 [65] # replicate 2 Drain) (ex_log_started 1024) = Some (taken, s1)
     \<and> log_flush s1 = Some s2 \<and> log_la s2 = Some la \<and> la_empty la
     \<and> lines (log_out s2) = lines (log_out (ex_log_started 1024) @ taken)"
  by (rule log_in_order [OF ex_log_init _ _ ex_log_uncollided]) simp_all


text \<open>Messages logged from the start of the area, without a drain, while they fit.\<close>

abbreviation "log_total ms \<equiv> sum_list (map (\<lambda>m. lsize (fst m, log_text (snd m))) ms)"
abbreviation "log_lines ms \<equiv> map (\<lambda>m. (fst m, log_text (snd m))) ms"
abbreviation "log_all ms \<equiv> map (\<lambda>m. Log (fst m) (snd m)) ms"

lemma fill_up:
  assumes "ring up [] la" "\<not> la_empty la" "la_head la = 0" "log_tail_end la = Some t" "log_la s = Some la"
    and "t + log_total ms \<le> length (la_mem la)"
  shows "\<exists>s' la' up'. log_run (log_all ms) s = Some (log_lines ms, s')
     \<and> log_la s' = Some la' \<and> ring up' [] la' \<and> \<not> la_empty la' \<and> la_head la' = 0
     \<and> log_tail_end la' = Some (t + log_total ms)
     \<and> length (la_mem la') = length (la_mem la) \<and> log_out s' = log_out s"
  using assms
proof (induction ms arbitrary: s la up t)
  case (Cons m ms)
  let ?l = "(fst m, log_text (snd m))"
  have fits: "t + lsize ?l \<le> length (la_mem la)" using Cons.prems(6) by simp
  obtain mem where mem:
    "log_enqueue (fst m) (snd m) la = Some (0, la\<lparr>la_empty := False, la_tail := t, la_mem := mem\<rparr>)"
    "length mem = length (la_mem la)"
    "ring (up @ [(t, ?l)]) [] (la\<lparr>la_empty := False, la_tail := t, la_mem := mem\<rparr>)"
    by (rule enqueue_up [OF Cons.prems(1,2,4) fits])
  let ?la = "la\<lparr>la_empty := False, la_tail := t, la_mem := mem\<rparr>"
  have "log_tail_end ?la = Some (t + lsize ?l)"
    using tail_end_ring(1) [OF mem(3)] by simp
  then obtain s' la' up' where "log_run (log_all ms) (s\<lparr>log_la := Some ?la\<rparr>) = Some (log_lines ms, s')"
      "log_la s' = Some la'" "ring up' [] la'" "\<not> la_empty la'" "la_head la' = 0"
      "log_tail_end la' = Some (t + lsize ?l + log_total ms)"
      "length (la_mem la') = length (la_mem la)" "log_out s' = log_out s"
    using Cons.IH [OF mem(3), of "t + lsize ?l" "s\<lparr>log_la := Some ?la\<rparr>"] Cons.prems(3,6) mem(2)
    by (auto simp: add.assoc)
  then show ?case
    using Cons.prems(5) mem(1) by (auto simp: add.assoc)
qed auto

lemma log_run_snoc:
  "log_run xs s = Some (taken, s1) \<Longrightarrow> log_op_step x s1 = Some (t, s2) \<Longrightarrow>
   log_run (xs @ [x]) s = Some (taken @ t, s2)"
  by (induction xs arbitrary: s taken) (fastforce simp: bind_eq_Some_conv)+

text \<open>
  C6. An overrun of the log area loses everything that was waiting. When the messages logged
  since the start fill the area, so that a further message does not fit behind them, that
  message is not dropped, as the comment in \<open>log_enqueue\<close> says: the tail is rewound to the start,
  where the head is, and the test for a lack of space does not hold for equal pointers. The
  message overwrites the oldest one and the ring then ends at its head. Every message was
  accepted, and only the last reaches the system log.
\<close>

theorem log_overrun_forgets:
  assumes "log_init ok fork_ok started program_name n True s0 = Some (0, s)" "1024 \<le> n" "n < 2 ^ 63"
    and "ms \<noteq> []" "log_total ms \<le> n" "n < log_total (ms @ [m])"
  shows "\<exists>s1 s2. log_run (log_all (ms @ [m])) s = Some (log_lines (ms @ [m]), s1)
     \<and> log_flush s1 = Some s2 \<and> log_out s2 = log_out s @ log_lines [m]"
proof -
  obtain la where la: "log_la s = Some la" "ring [(la_head la, blank)] [] la" "la_empty la"
      "la_head la = 0" "la_tail la = 0" "length (la_mem la) = n"
    by (rule init_ring [OF assms(1-3)]) blast
  obtain m0 ms' where ms: "ms = m0 # ms'" using assms(4) by (cases ms) auto
  let ?l = "(fst m0, log_text (snd m0))"
  have "la_head la + lsize ?l \<le> length (la_mem la)" using assms(5) la(4,6) ms by simp
  then obtain mem where mem:
    "log_enqueue (fst m0) (snd m0) la = Some (0, la\<lparr>la_empty := False, la_mem := mem\<rparr>)"
    "length mem = n" "ring [(la_head la, ?l)] [] (la\<lparr>la_empty := False, la_mem := mem\<rparr>)"
    using enqueue_first [OF la(2,3)] la(6) by metis
  let ?la = "la\<lparr>la_empty := False, la_mem := mem\<rparr>"
  have "log_tail_end ?la = Some (lsize ?l)"
    using tail_end_ring(1) [OF mem(3)] la(5) by simp
  then obtain s1 la1 up1 where 1: "log_run (log_all ms') (s\<lparr>log_la := Some ?la\<rparr>) = Some (log_lines ms', s1)"
      "log_la s1 = Some la1" "ring up1 [] la1" "\<not> la_empty la1" "la_head la1 = 0"
      "log_tail_end la1 = Some (log_total ms)" "length (la_mem la1) = n" "log_out s1 = log_out s"
    using fill_up [OF mem(3), of "lsize ?l" "s\<lparr>log_la := Some ?la\<rparr>" ms'] la(4) mem(2) assms(5) ms by auto
  have "log_rewind (length (log_text (snd m)) + 1) la1 (log_total ms) = la_head la1"
  proof -
    have "n - log_total ms < length (log_text (snd m)) + 1 + SIZEOF_LOGMSG"
      using assms(5,6) by (simp add: lsize_def [of "(fst m, log_text (snd m))"])
    then show ?thesis using 1(5,7) by (simp add: log_rewind_def)
  qed
  then obtain la2 where 2: "log_enqueue (fst m) (snd m) la1 = Some (0, la2)" "log_rel (log_lines [m]) la2"
    using enqueue_collide [OF 1(3,4,6)] by auto
  have "log_run (log_all ms) s = Some (log_lines ms, s1)"
    using la(1) mem(1) 1(1) ms by simp
  then have "log_run (log_all (ms @ [m])) s = Some (log_lines (ms @ [m]), s1\<lparr>log_la := Some la2\<rparr>)"
    using log_run_snoc [of "log_all ms" s "log_lines ms" s1 "Log (fst m) (snd m)" "log_lines [m]"] 1(2) 2(1) by simp
  moreover have "\<exists>s2. log_flush (s1\<lparr>log_la := Some la2\<rparr>) = Some s2 \<and> log_out s2 = log_out s @ log_lines [m]"
    using flush_rel [OF _ 2(2), of "s1\<lparr>log_la := Some la2\<rparr>"] 1(8) by auto
  ultimately show ?thesis by blast
qed

lemma ex_log_size: "lsize (3, log_text (replicate 255 65)) = 280"
  by (simp add: lsize_def log_text_def takeWhile_replicate)

theorem log_overrun_forgets_witness:
  "\<exists>s1 s2. log_run (log_all (replicate 3 (3, replicate 255 65) @ [(3, replicate 255 65)])) (ex_log_started 1024)
       = Some (log_lines (replicate 3 (3, replicate 255 65) @ [(3, replicate 255 65)]), s1)
     \<and> log_flush s1 = Some s2
     \<and> log_out s2 = log_out (ex_log_started 1024) @ log_lines [(3, replicate 255 65)]"
  by (rule log_overrun_forgets [OF ex_log_init]) (simp_all add: ex_log_size sum_list_replicate)

end
