(* ===== verification/Tgt_Work.thy ===== *)
theory Tgt_Work
  imports Tgt_Util "HOL-Library.Monad_Syntax"
begin

text \<open>
  The work scheduler (\<open>usr/work.c\<close>): delayed works on a list ordered by their time
  of execution, immediate works on a queue, and the timer that runs the works that
  are due. Times are milliseconds in 32 bits and wrap around. A work is named by a
  number, the address of its \<open>struct tgt_work\<close>. \<open>None\<close> is an exit of the daemon, the
  insertion of a work that is on a list already, or a loop that does not end.
\<close>

section \<open>State\<close>

abbreviation (input) "WORK_TIMER_INT_MSEC \<equiv> 500 :: u32"

record 'g work_state =
  ws_elapsed :: u32
  ws_pending :: bool
  ws_fd0 :: int
  ws_fd1 :: int
  ws_first :: bool
  ws_active :: "nat list"
  ws_inactive :: "nat list"
  ws_when :: "nat \<Rightarrow> u32"
  ws_env :: 'g

text \<open>A \<open>struct timeval\<close>: seconds and microseconds.\<close>

type_synonym timeval = "nat \<times> nat"

definition timeval_to_msecs :: "timeval \<Rightarrow> u32" where
  "timeval_to_msecs t = of_nat (fst t * 1000 + snd t div 1000)"

section \<open>Adding and removing works\<close>

definition work_timer_schedule_evt :: "'g work_state \<Rightarrow> 'g work_state" where
  "work_timer_schedule_evt s =
     (if ws_pending s \<or> ws_fd1 s < 0 then s else s\<lparr>ws_pending := True\<rparr>)"

text \<open>The place in front of the first work with a later time.\<close>

fun insert_work :: "(nat \<Rightarrow> u32) \<Rightarrow> nat \<Rightarrow> nat list \<Rightarrow> nat list" where
  "insert_work tm w [] = [w]"
| "insert_work tm w (e # es) = (if before (tm w) (tm e) then w # e # es else e # insert_work tm w es)"

text \<open>\<open>now\<close> is the answer of \<open>gettimeofday\<close>.\<close>

definition add_work :: "timeval option \<Rightarrow> nat \<Rightarrow> u32 \<Rightarrow> 'g work_state \<Rightarrow> 'g work_state option" where
  "add_work now w second s =
     (if w \<in> set (ws_active s) \<union> set (ws_inactive s) then None
      else if second \<noteq> 0
      then do { t \<leftarrow> now;
                let tm = (ws_when s)(w := timeval_to_msecs t + second * 1000);
                Some (s\<lparr>ws_when := tm, ws_inactive := insert_work tm w (ws_inactive s)\<rparr>) }
      else Some (work_timer_schedule_evt (s\<lparr>ws_active := ws_active s @ [w]\<rparr>)))"

definition del_work :: "nat \<Rightarrow> 'g work_state \<Rightarrow> 'g work_state" where
  "del_work w s = s\<lparr>ws_active := removeAll w (ws_active s), ws_inactive := removeAll w (ws_inactive s)\<rparr>"

section \<open>Running the works\<close>

text \<open>
  The callbacks \<open>func\<close> of the works get the whole state: they may add and remove
  works.
\<close>

fun collect_due :: "'g work_state \<Rightarrow> nat list \<Rightarrow> 'g work_state" where
  "collect_due s [] = s"
| "collect_due s (w # ws) =
     (if before (ws_elapsed s) (ws_when s w) then s
      else collect_due (s\<lparr>ws_inactive := removeAll w (ws_inactive s), ws_active := ws_active s @ [w]\<rparr>) ws)"

partial_function (option) run_active ::
  "(nat \<Rightarrow> 'g work_state \<Rightarrow> 'g work_state option) \<Rightarrow> 'g work_state \<Rightarrow> 'g work_state option" where
  [code]: "run_active func s =
     (case ws_active s of
        [] \<Rightarrow> Some s
      | w # ws \<Rightarrow> do { s1 \<leftarrow> func w (s\<lparr>ws_active := ws\<rparr>); run_active func s1 })"

definition execute_work ::
  "(nat \<Rightarrow> 'g work_state \<Rightarrow> 'g work_state option) \<Rightarrow> 'g work_state \<Rightarrow> 'g work_state option" where
  "execute_work func s = run_active func (collect_due s (ws_inactive s))"

section \<open>The timer\<close>

text \<open>
  The handler of the timer event: \<open>rd\<close> is the result of \<open>read\<close> and \<open>n\<close> the count of
  expirations read from a timer descriptor.
\<close>

definition work_timer_evt_handler ::
  "(nat \<Rightarrow> 'g work_state \<Rightarrow> 'g work_state option) \<Rightarrow> int \<Rightarrow> u64 \<Rightarrow> timeval option \<Rightarrow> 'g work_state
     \<Rightarrow> 'g work_state option" where
  "work_timer_evt_handler func rd n now s =
     (if ws_fd1 s = - 1
      then if rd < 0 then Some s
           else if ws_first s
           then do { t \<leftarrow> now; Some (s\<lparr>ws_first := False, ws_elapsed := timeval_to_msecs t\<rparr>) }
           else execute_work func (s\<lparr>ws_elapsed := ws_elapsed s + ucast n * WORK_TIMER_INT_MSEC\<rparr>)
      else if rd < 0 then Some s
      else do { t \<leftarrow> now;
                execute_work func (s\<lparr>ws_pending := False, ws_elapsed := timeval_to_msecs t\<rparr>) })"

definition work_timer_stop :: "'g work_state \<Rightarrow> 'g work_state" where
  "work_timer_stop s = (if ws_elapsed s = 0 then s else s\<lparr>ws_elapsed := 0\<rparr>)"

text \<open>
  The answers of the system to \<open>work_timer_start\<close>: the clock, the timer descriptor,
  the errors of \<open>sigaction\<close> and \<open>setitimer\<close>, the pipe, and the error of the event
  registration.
\<close>

record timer_env =
  te_now :: "timeval option"
  te_timerfd :: int
  te_sigaction :: int
  te_setitimer :: int
  te_pipe :: "int + int \<times> int"
  te_event_add :: int

definition work_timer_start :: "timer_env \<Rightarrow> 'g work_state \<Rightarrow> (int \<times> 'g work_state) option" where
  "work_timer_start env s =
     (if ws_elapsed s \<noteq> 0 then Some (0, s)
      else do { t \<leftarrow> te_now env;
                let s1 = s\<lparr>ws_elapsed := timeval_to_msecs t, ws_fd0 := te_timerfd env\<rparr>;
                let (err, s2) =
                  (if 0 \<le> te_timerfd env then (0, s1)
                   else if te_sigaction env \<noteq> 0 then (te_sigaction env, s1)
                   else if te_setitimer env \<noteq> 0 then (te_setitimer env, s1)
                   else case te_pipe env of
                          Inl e \<Rightarrow> (e, s1)
                        | Inr fds \<Rightarrow> (0, s1\<lparr>ws_fd0 := fst fds, ws_fd1 := snd fds\<rparr>));
                let err' = (if err \<noteq> 0 then err else te_event_add env);
                Some (err', if err' \<noteq> 0 then work_timer_stop s2 else s2) })"

section \<open>The order of the works\<close>

text \<open>
  Times that lie within half the range of the counter after a base \<open>b\<close> are compared by
  their distance from it.
\<close>

definition ms_dist :: "u32 \<Rightarrow> u32 \<Rightarrow> nat" where
  "ms_dist b t = unat (t - b)"

definition works_sorted :: "u32 \<Rightarrow> 'g work_state \<Rightarrow> bool" where
  "works_sorted b s \<longleftrightarrow>
     sorted (map (\<lambda>w. ms_dist b (ws_when s w)) (ws_inactive s))
     \<and> (\<forall>w \<in> set (ws_inactive s). ms_dist b (ws_when s w) < 2 ^ 31)
     \<and> distinct (ws_active s @ ws_inactive s)"

end
