(* ===== verification/Tgt_Work_Thms.thy ===== *)
theory Tgt_Work_Thms
  imports Tgt_Work Iscsi_Io
begin

text \<open>
  When works run: the list of delayed works stays in the order of their times, a
  pass of the scheduler takes exactly the works that are due, and callbacks that do
  not queue immediate works run once each, in order.
\<close>

section \<open>The list of delayed works\<close>

lemma before_ms_dist:
  "ms_dist b x < 2 ^ 31 \<Longrightarrow> ms_dist b y < 2 ^ 31 \<Longrightarrow> before x y \<longleftrightarrow> ms_dist b x < ms_dist b y"
  unfolding ms_dist_def by (rule before_window)

lemma set_insert_work [simp]: "set (insert_work tm w ws) = insert w (set ws)"
  by (induction ws) auto

lemma distinct_insert_work [simp]: "distinct (insert_work tm w ws) \<longleftrightarrow> w \<notin> set ws \<and> distinct ws"
  by (induction ws) auto

lemma sorted_insert_work:
  assumes "sorted (map (\<lambda>w. ms_dist b (tm w)) ws)" "\<forall>x \<in> insert w (set ws). ms_dist b (tm x) < 2 ^ 31"
  shows "sorted (map (\<lambda>w. ms_dist b (tm w)) (insert_work tm w ws))"
  using assms
proof (induction ws)
  case (Cons e es)
  have "before (tm w) (tm e) \<longleftrightarrow> ms_dist b (tm w) < ms_dist b (tm e)"
    using Cons.prems by (intro before_ms_dist) auto
  then show ?case
    using Cons by (auto simp: not_less)
qed simp

lemma works_sorted_add:
  assumes "works_sorted b s" "add_work now w second s = Some s'"
    and "\<And>t. now = Some t \<Longrightarrow> ms_dist b (timeval_to_msecs t + second * 1000) < 2 ^ 31"
  shows "works_sorted b s'"
proof -
  have w: "w \<notin> set (ws_active s)" "w \<notin> set (ws_inactive s)"
    using assms(2) by (auto simp: add_work_def split: if_splits)
  show ?thesis
  proof (cases "second = 0")
    case True
    then show ?thesis
      using assms w by (auto simp: add_work_def works_sorted_def work_timer_schedule_evt_def split: if_splits)
  next
    case False
    then obtain t where t: "now = Some t"
      "s' = s\<lparr>ws_when := (ws_when s)(w := timeval_to_msecs t + second * 1000),
              ws_inactive := insert_work ((ws_when s)(w := timeval_to_msecs t + second * 1000)) w (ws_inactive s)\<rparr>"
      using assms(2) w by (auto simp: add_work_def bind_eq_Some_conv Let_def)
    let ?tm = "(ws_when s)(w := timeval_to_msecs t + second * 1000)"
    have same: "map (\<lambda>x. ms_dist b (?tm x)) (ws_inactive s) = map (\<lambda>x. ms_dist b (ws_when s x)) (ws_inactive s)"
      using w(2) by (auto intro!: map_cong)
    have "sorted (map (\<lambda>x. ms_dist b (?tm x)) (insert_work ?tm w (ws_inactive s)))"
    proof (rule sorted_insert_work)
      show "sorted (map (\<lambda>x. ms_dist b (?tm x)) (ws_inactive s))"
        unfolding same using assms(1) by (simp add: works_sorted_def)
    qed (use assms(1,3) t(1) in \<open>auto simp: works_sorted_def\<close>)
    then show ?thesis
      using assms(1,3) t w by (auto simp: works_sorted_def)
  qed
qed

lemma works_sorted_del: "works_sorted b s \<Longrightarrow> works_sorted b (del_work w s)"
  by (auto simp: works_sorted_def del_work_def removeAll_filter_not_eq sorted_filter distinct_filter)

section \<open>A pass of the scheduler\<close>

abbreviation work_due :: "'g work_state \<Rightarrow> nat \<Rightarrow> bool" where
  "work_due s w \<equiv> \<not> before (ws_elapsed s) (ws_when s w)"

lemma collect_due_eq:
  assumes "distinct (done @ ws)" "ws_inactive s = ws"
  shows "collect_due s ws =
     s\<lparr>ws_active := ws_active s @ takeWhile (work_due s) ws, ws_inactive := dropWhile (work_due s) ws\<rparr>"
  using assms
proof (induction ws arbitrary: s "done")
  case (Cons w ws)
  show ?case
  proof (cases "work_due s w")
    case True
    let ?s = "s\<lparr>ws_inactive := ws, ws_active := ws_active s @ [w]\<rparr>"
    have "removeAll w (ws_inactive s) = ws" using Cons.prems by simp
    then have "collect_due s (w # ws) = collect_due ?s ws" using True by simp
    also have "\<dots> = ?s\<lparr>ws_active := ws_active ?s @ takeWhile (work_due ?s) ws, ws_inactive := dropWhile (work_due ?s) ws\<rparr>"
      by (rule Cons.IH [of "done"]) (use Cons.prems in auto)
    finally show ?thesis using True by simp
  qed (use Cons.prems in simp)
qed simp

lemma takeWhile_sorted_key:
  assumes "sorted (map f xs)" "\<And>x. x \<in> set xs \<Longrightarrow> P x \<longleftrightarrow> f x \<le> (n :: nat)"
  shows "takeWhile P xs = filter P xs" "dropWhile P xs = filter (\<lambda>x. \<not> P x) xs"
proof -
  have "takeWhile P xs = filter P xs \<and> dropWhile P xs = filter (\<lambda>x. \<not> P x) xs"
    using assms
  proof (induction xs)
    case (Cons x xs)
    show ?case
    proof (cases "P x")
      case False
      then have "\<forall>y \<in> set xs. \<not> P y" using Cons.prems by fastforce
      then show ?thesis using False by (simp add: filter_empty_conv)
    qed (use Cons in simp)
  qed simp
  then show "takeWhile P xs = filter P xs" "dropWhile P xs = filter (\<lambda>x. \<not> P x) xs" by auto
qed

lemma collect_due_sorted:
  assumes "works_sorted b s" "ms_dist b (ws_elapsed s) < 2 ^ 31"
  shows "collect_due s (ws_inactive s) =
     s\<lparr>ws_active := ws_active s @ filter (work_due s) (ws_inactive s),
       ws_inactive := filter (\<lambda>w. \<not> work_due s w) (ws_inactive s)\<rparr>"
proof -
  have "work_due s w \<longleftrightarrow> ms_dist b (ws_when s w) \<le> ms_dist b (ws_elapsed s)" if "w \<in> set (ws_inactive s)" for w
    using before_ms_dist [of b "ws_elapsed s" "ws_when s w"] assms that by (auto simp: works_sorted_def)
  then have "takeWhile (work_due s) (ws_inactive s) = filter (work_due s) (ws_inactive s)"
      "dropWhile (work_due s) (ws_inactive s) = filter (\<lambda>w. \<not> work_due s w) (ws_inactive s)"
    using assms(1) takeWhile_sorted_key [of "\<lambda>w. ms_dist b (ws_when s w)" "ws_inactive s" "work_due s" "ms_dist b (ws_elapsed s)"]
    by (auto simp: works_sorted_def)
  moreover have "distinct ([] @ ws_inactive s)" using assms(1) by (simp add: works_sorted_def)
  ultimately show ?thesis
    using collect_due_eq [of "[]" "ws_inactive s" s] by simp
qed

section \<open>Callbacks that only rearm\<close>

text \<open>
  The works of the daemon do not queue immediate works: a callback leaves the active
  list alone. Under that contract a pass runs every active work once.
\<close>

fun run_works ::
  "(nat \<Rightarrow> 'g work_state \<Rightarrow> 'g work_state option) \<Rightarrow> nat list \<Rightarrow> 'g work_state \<Rightarrow> 'g work_state option" where
  "run_works func [] s = Some s"
| "run_works func (w # ws) s = do { s1 \<leftarrow> func w (s\<lparr>ws_active := ws\<rparr>); run_works func ws s1 }"

locale rearming_callbacks =
  fixes func :: "nat \<Rightarrow> 'g work_state \<Rightarrow> 'g work_state option"
  assumes keeps_active: "func w s = Some s' \<Longrightarrow> ws_active s' = ws_active s"
begin

lemma run_active_once: "run_active func s = run_works func (ws_active s) s"
proof (induction "ws_active s" arbitrary: s)
  case Nil
  then show ?case by (subst run_active.simps) simp
next
  case (Cons w ws)
  have "run_active func s1 = run_works func ws s1" if "func w (s\<lparr>ws_active := ws\<rparr>) = Some s1" for s1
    using Cons.hyps(1) [of s1] keeps_active [OF that] by simp
  then have "func w (s\<lparr>ws_active := ws\<rparr>) \<bind> run_active func = func w (s\<lparr>ws_active := ws\<rparr>) \<bind> run_works func ws"
    by (cases "func w (s\<lparr>ws_active := ws\<rparr>)") auto
  then show ?case
    using Cons.hyps(2) by (subst run_active.simps) (simp flip: Cons.hyps(2))
qed

lemma execute_due:
  assumes "works_sorted b s" "ms_dist b (ws_elapsed s) < 2 ^ 31"
  shows "execute_work func s =
     run_works func (ws_active s @ filter (work_due s) (ws_inactive s))
       (s\<lparr>ws_active := ws_active s @ filter (work_due s) (ws_inactive s),
          ws_inactive := filter (\<lambda>w. \<not> work_due s w) (ws_inactive s)\<rparr>)"
  by (simp add: execute_work_def run_active_once collect_due_sorted [OF assms])

end


section \<open>The works of the daemon\<close>

text \<open>
  The callback of the iSCSI ping timer: the handler of \<open>iscsi_tcp.c\<close> on the state of
  the iSCSI driver, then the work is queued again for the next second. \<open>now\<close> is the
  clock the callback reads.
\<close>

abbreviation (input) "NOP_WORK \<equiv> 0 :: nat"

definition nop_callback ::
  "perform \<Rightarrow> timeval option \<Rightarrow> nat \<Rightarrow> iscsi_world work_state \<Rightarrow> iscsi_world work_state option" where
  "nop_callback perf now w s =
     (if w = NOP_WORK
      then do { g \<leftarrow> iscsi_tcp_nop_work_handler perf (ws_env s);
                add_work now NOP_WORK 1 (s\<lparr>ws_env := g\<rparr>) }
      else None)"

lemma add_work_active: "add_work now w second s = Some s' \<Longrightarrow> second \<noteq> 0 \<Longrightarrow> ws_active s' = ws_active s"
  by (auto simp: add_work_def bind_eq_Some_conv Let_def split: if_splits)

interpretation nop: rearming_callbacks "nop_callback perf now"
  by unfold_locales (auto simp: nop_callback_def bind_eq_Some_conv dest!: add_work_active split: if_splits)

section \<open>The properties\<close>

lemma ms_dist_of_nat: "m \<le> n \<Longrightarrow> n < m + 2 ^ 32 \<Longrightarrow> ms_dist (of_nat m) (of_nat n) = n - m"
  by (simp add: ms_dist_def unsigned_of_nat take_bit_nat_eq_self flip: of_nat_diff)

abbreviation msecs :: "timeval \<Rightarrow> nat" where
  "msecs t \<equiv> fst t * 1000 + snd t div 1000"

text \<open>
  C7. A delayed work runs at the first pass of the scheduler at or after its time, and not
  before. Let all times lie within half the range of the counter, 2147483648 milliseconds, after some base, across any number of
  wrap-arounds of the 32-bit clock, and let the callbacks queue no immediate work. After
  \<open>add_work\<close> of \<open>w\<close> for \<open>second\<close> seconds, a pass at time \<open>e\<close> runs the works that were active,
  then those whose time has come, in the order of their times, each once; the other works
  stay. The work \<open>w\<close> is among those run exactly when its delay has elapsed.
\<close>

theorem work_fires_on_time:
  assumes "rearming_callbacks func" "works_sorted (of_nat base) s" "second \<noteq> 0"
    and "add_work (Some t) w second s = Some s1"
    and "base \<le> msecs t" "msecs t + unat second * 1000 < base + 2 ^ 31" "base \<le> e" "e < base + 2 ^ 31"
  shows "\<exists>due rest. execute_work func (s1\<lparr>ws_elapsed := of_nat e\<rparr>) =
       run_works func (ws_active s @ due)
         (s1\<lparr>ws_elapsed := of_nat e, ws_active := ws_active s @ due, ws_inactive := rest\<rparr>)
     \<and> distinct (due @ rest) \<and> set (due @ rest) = insert w (set (ws_inactive s))
     \<and> (\<forall>x \<in> set due. ms_dist (of_nat base) (ws_when s1 x) \<le> e - base)
     \<and> (\<forall>x \<in> set rest. e - base < ms_dist (of_nat base) (ws_when s1 x))
     \<and> sorted (map (\<lambda>x. ms_dist (of_nat base) (ws_when s1 x)) due)
     \<and> (w \<in> set due \<longleftrightarrow> msecs t + unat second * 1000 \<le> e)"
proof -
  let ?b = "of_nat base :: u32" and ?s = "s1\<lparr>ws_elapsed := of_nat e\<rparr>"
  have tm: "timeval_to_msecs t + second * 1000 = of_nat (msecs t + unat second * 1000)"
    by (simp add: timeval_to_msecs_def)
  then have dw: "ms_dist ?b (timeval_to_msecs t + second * 1000) = msecs t + unat second * 1000 - base"
    using assms(5,6) ms_dist_of_nat [of base "msecs t + unat second * 1000"] by simp
  have de: "ms_dist ?b (of_nat e) = e - base"
    using assms(7,8) by (intro ms_dist_of_nat) simp_all
  have s1: "works_sorted ?b s1"
    by (rule works_sorted_add [OF assms(2,4)]) (use dw assms(5,6) in simp)
  then have srt: "works_sorted ?b ?s" by (simp add: works_sorted_def)
  have fields: "ws_active s1 = ws_active s" "set (ws_inactive s1) = insert w (set (ws_inactive s))"
      "ws_when s1 w = timeval_to_msecs t + second * 1000"
    using assms(3,4) by (auto simp: add_work_def Let_def split: if_splits)
  have due: "work_due ?s x \<longleftrightarrow> ms_dist ?b (ws_when s1 x) \<le> e - base" if "x \<in> set (ws_inactive s1)" for x
    using before_ms_dist [of ?b "of_nat e" "ws_when s1 x"] s1 that de assms(7,8) by (auto simp: works_sorted_def)
  let ?due = "filter (work_due ?s) (ws_inactive s1)" and ?rest = "filter (\<lambda>x. \<not> work_due ?s x) (ws_inactive s1)"
  have "execute_work func ?s = run_works func (ws_active s @ ?due)
      (s1\<lparr>ws_elapsed := of_nat e, ws_active := ws_active s @ ?due, ws_inactive := ?rest\<rparr>)"
    using rearming_callbacks.execute_due [OF assms(1) srt] de assms(7,8) fields(1) by simp
  moreover have "distinct (?due @ ?rest)" "set (?due @ ?rest) = insert w (set (ws_inactive s))"
    using s1 fields(2) by (auto simp: works_sorted_def)
  moreover have "sorted (map (\<lambda>x. ms_dist ?b (ws_when s1 x)) ?due)"
    using s1 by (simp add: works_sorted_def sorted_filter)
  moreover have "w \<in> set ?due \<longleftrightarrow> msecs t + unat second * 1000 \<le> e"
    using due [of w] dw fields assms(5,7) by auto
  moreover have "\<forall>x \<in> set ?due. ms_dist ?b (ws_when s1 x) \<le> e - base" "\<forall>x \<in> set ?rest. e - base < ms_dist ?b (ws_when s1 x)"
    using due by (auto simp: not_le [symmetric])
  ultimately show ?thesis
    by (intro exI [of _ ?due] exI [of _ ?rest] conjI)
qed

text \<open>
  The ping timer of the iSCSI driver keeps running. When only the ping work is pending
  and its time has come, a pass of the scheduler runs the ping handler exactly once on the
  state of the driver and queues the work again, one second after the time the callback
  reads; nothing is left on the active list. Before its time the pass changes nothing.
\<close>

lemma nop_timer_rearms:
  assumes "ws_active s = []" "ws_inactive s = [NOP_WORK]"
    and "iscsi_tcp_nop_work_handler perf (ws_env s) = Some g"
  shows "execute_work (nop_callback perf (Some now)) s =
     Some (if before (ws_elapsed s) (ws_when s NOP_WORK) then s
           else s\<lparr>ws_env := g, ws_when := (ws_when s)(NOP_WORK := timeval_to_msecs now + 1000)\<rparr>)"
proof -
  have "collect_due s (ws_inactive s) =
      (if before (ws_elapsed s) (ws_when s NOP_WORK) then s else s\<lparr>ws_active := [NOP_WORK], ws_inactive := []\<rparr>)"
    using assms(1,2) by simp
  then show ?thesis
    using assms by (auto simp: execute_work_def nop.run_active_once nop_callback_def add_work_def Let_def)
qed


definition ex_works :: "iscsi_world work_state" where
  "ex_works = \<lparr>ws_elapsed = 0, ws_pending = False, ws_fd0 = 5, ws_fd1 = - 1, ws_first = False,
     ws_active = [], ws_inactive = [NOP_WORK], ws_when = (\<lambda>_. 500),
     ws_env = ex_world\<lparr>iw_conns := [(conn_init 3)\<lparr>cn_nop_interval := 5, cn_nop_tick := 3\<rparr>]\<rparr>\<rparr>"

lemma nop_timer_rearms_witness:
  "\<exists>g. execute_work (nop_callback (\<lambda>_. None) (Some (7, 0))) ex_works =
     Some (if before (ws_elapsed ex_works) (ws_when ex_works NOP_WORK) then ex_works
           else ex_works\<lparr>ws_env := g, ws_when := (ws_when ex_works)(NOP_WORK := timeval_to_msecs (7, 0) + 1000)\<rparr>)"
proof -
  obtain g where g: "iscsi_tcp_nop_work_handler (\<lambda>_. None) (ws_env ex_works) = Some g"
    by (simp add: ex_works_def iscsi_tcp_nop_work_handler_def get_conn_def lfind_def)
  show ?thesis
    by (rule exI, rule nop_timer_rearms [OF _ _ g]) (simp_all add: ex_works_def)
qed

theorem work_fires_on_time_witness:
  "\<exists>s1. add_work (Some (1, 0)) 1 2 ex_works = Some s1 \<and>
   (\<exists>due rest. execute_work (nop_callback (\<lambda>_. None) (Some (7, 0))) (s1\<lparr>ws_elapsed := of_nat 3000\<rparr>) =
       run_works (nop_callback (\<lambda>_. None) (Some (7, 0))) (ws_active ex_works @ due)
         (s1\<lparr>ws_elapsed := of_nat 3000, ws_active := ws_active ex_works @ due, ws_inactive := rest\<rparr>)
     \<and> distinct (due @ rest) \<and> set (due @ rest) = insert 1 (set (ws_inactive ex_works))
     \<and> (\<forall>x \<in> set due. ms_dist (of_nat 0) (ws_when s1 x) \<le> 3000 - 0)
     \<and> (\<forall>x \<in> set rest. 3000 - 0 < ms_dist (of_nat 0) (ws_when s1 x))
     \<and> sorted (map (\<lambda>x. ms_dist (of_nat 0) (ws_when s1 x)) due)
     \<and> (1 \<in> set due \<longleftrightarrow> msecs (1, 0) + unat (2 :: u32) * 1000 \<le> 3000))"
proof -
  obtain s1 where s1: "add_work (Some (1, 0)) 1 2 ex_works = Some s1"
    by (simp add: add_work_def ex_works_def Let_def)
  have "works_sorted (of_nat 0) ex_works" by (simp add: works_sorted_def ex_works_def ms_dist_def)
  then show ?thesis
    using s1 work_fires_on_time [OF nop.rearming_callbacks_axioms _ _ s1, of 0 3000] by auto
qed

end
