(* ===== verification/Mgmt_Show.thy ===== *)
theory Mgmt_Show
  imports Iscsi_Io
begin

text \<open>
  The low level drivers (\<open>usr/driver.c\<close>, \<open>usr/driver.h\<close>), the buffer the answers of
  the management channel are printed into (\<open>usr/concat_buf.c\<close>), and what the core
  prints there (\<open>usr/target.c\<close>). Texts are built by appending; the stream in memory
  does not fail. \<open>None\<close> is the use of a null pointer.
\<close>

section \<open>Drivers\<close>

datatype tgt_driver_state = DRIVER_REGD | DRIVER_INIT | DRIVER_ERR | DRIVER_EXIT

text \<open>
  The callbacks of a driver work on the state of the daemon. Those the core does not
  call from the management channel are left out.
\<close>

record tgt_driver =
  drv_name :: string
  drv_state :: tgt_driver_state
  drv_init :: "(iscsi_world \<Rightarrow> (int \<times> iscsi_world) option) option"
  drv_exit :: "(iscsi_world \<Rightarrow> iscsi_world) option"
  drv_target_create :: "(int \<Rightarrow> iscsi_world \<Rightarrow> iscsi_world) option"
  drv_target_destroy :: "(int \<Rightarrow> bool \<Rightarrow> iscsi_world \<Rightarrow> iscsi_world option) option"
  drv_portal_create :: "(string \<Rightarrow> iscsi_world \<Rightarrow> (int \<times> iscsi_world) option) option"
  drv_portal_destroy :: "(string \<Rightarrow> iscsi_world \<Rightarrow> (int \<times> iscsi_world) option) option"
  drv_update :: "(u32 \<Rightarrow> u32 \<Rightarrow> int \<Rightarrow> u64 \<Rightarrow> u64 \<Rightarrow> u32 \<Rightarrow> string option \<Rightarrow> iscsi_world \<Rightarrow> (tgtadm_err \<times> iscsi_world) option) option"
  drv_show :: "(u32 \<Rightarrow> int \<Rightarrow> u64 \<Rightarrow> u32 \<Rightarrow> u64 \<Rightarrow> iscsi_world \<Rightarrow> tgtadm_err \<times> string) option"
  drv_stat :: "(u32 \<Rightarrow> int \<Rightarrow> u64 \<Rightarrow> u32 \<Rightarrow> u64 \<Rightarrow> iscsi_world \<Rightarrow> tgtadm_err \<times> string) option"
  drv_default_bst :: string
  drv_target_list :: "int list"

fun driver_index :: "string \<Rightarrow> nat \<Rightarrow> tgt_driver list \<Rightarrow> int" where
  "driver_index nm i [] = - 2"
| "driver_index nm i (d # ds) = (if drv_name d = nm then int i else driver_index nm (i + 1) ds)"

definition get_driver_index :: "string \<Rightarrow> tgt_driver list \<Rightarrow> int" where
  "get_driver_index nm ds = driver_index nm 0 ds"

abbreviation (input) "MAX_NR_DRIVERS \<equiv> 32 :: nat"

definition register_driver :: "tgt_driver \<Rightarrow> tgt_driver list \<Rightarrow> int \<times> tgt_driver list" where
  "register_driver d ds =
     (if length ds < MAX_NR_DRIVERS then (0, ds @ [d\<lparr>drv_state := DRIVER_REGD\<rparr>]) else (- 1, ds))"

fun driver_state_name :: "tgt_driver_state \<Rightarrow> string" where
  "driver_state_name DRIVER_REGD = ''uninitialized''"
| "driver_state_name DRIVER_INIT = ''ready''"
| "driver_state_name DRIVER_ERR = ''error''"
| "driver_state_name DRIVER_EXIT = ''stopped''"

section \<open>The buffer of a text\<close>

text \<open>
  A \<open>concat_buf\<close> whose stream was opened: the text, and whether it is finished, so
  that its size counts the terminating zero byte.
\<close>

record concat_buf =
  cb_text :: string
  cb_finished :: bool

definition concat_buf_init :: concat_buf where
  "concat_buf_init = \<lparr>cb_text = [], cb_finished = False\<rparr>"

definition concat_printf :: "string \<Rightarrow> concat_buf \<Rightarrow> concat_buf" where
  "concat_printf s b = b\<lparr>cb_text := cb_text b @ s\<rparr>"

definition concat_delim :: "concat_buf \<Rightarrow> string \<Rightarrow> string" where
  "concat_delim b delim = (if cb_text b = [] then [] else delim)"

definition concat_buf_finish :: "concat_buf \<Rightarrow> concat_buf" where
  "concat_buf_finish b = b\<lparr>cb_finished := True\<rparr>"

text \<open>The bytes of a finished buffer; an empty text has no terminator either.\<close>

definition concat_bytes :: "concat_buf \<Rightarrow> bytes" where
  "concat_bytes b =
     map (\<lambda>c. of_nat (of_char c)) (cb_text b) @ (if cb_finished b \<and> cb_text b \<noteq> [] then [0] else [])"

section \<open>Numbers and names\<close>

abbreviation (input) "TAB1 \<equiv> ''    ''"
abbreviation (input) "TAB2 \<equiv> ''        ''"
abbreviation (input) "TAB3 \<equiv> ''            ''"
abbreviation (input) "NL \<equiv> [CHR 0x0A]"

definition int_str :: "int \<Rightarrow> string" where
  "int_str n = (if n < 0 then CHR ''-'' # dec_str (nat (- n)) else dec_str (nat n))"

definition pad_left :: "nat \<Rightarrow> string \<Rightarrow> string" where
  "pad_left n s = replicate (n - length s) (CHR '' '') @ s"

definition yes_no :: "bool \<Rightarrow> string" where
  "yes_no b = (if b then ''Yes'' else ''No'')"

text \<open>What \<open>%s\<close> prints of a byte array.\<close>

definition cstr :: "bytes \<Rightarrow> string" where
  "cstr b = bytes_str (takeWhile (\<lambda>x. x \<noteq> 0) b)"

definition null_str :: "string option \<Rightarrow> string" where
  "null_str s = (case s of None \<Rightarrow> ''(null)'' | Some x \<Rightarrow> x)"

section \<open>Statistics\<close>

definition tgt_stat_header :: string where
  "tgt_stat_header =
     ''tgt lun sid '' @ ''rd_subm(bytes,cmds) rd_done(bytes,cmds) '' @
     ''wr_subm(bytes,cmds) wr_done(bytes,cmds) '' @ ''errs'' @ NL"

definition tgt_stat_line :: "int \<Rightarrow> u64 \<Rightarrow> u64 \<Rightarrow> lu_stat \<Rightarrow> string" where
  "tgt_stat_line t l sid st =
     (let col = (\<lambda>bs cs. pad_left 12 (dec_str (unat (bs :: u64))) @ '' '' @ pad_left 6 (dec_str (unat (cs :: u32))) @ '' '') in
      pad_left 3 (int_str t) @ '' '' @ pad_left 3 (dec_str (unat l)) @ '' '' @ pad_left 3 (dec_str (unat sid)) @ '' '' @
      col (rd_subm_bytes st) (rd_subm_cmds st) @ col (rd_done_bytes st) (rd_done_cmds st) @
      col (wr_subm_bytes st) (wr_subm_cmds st) @ col (wr_done_bytes st) (wr_done_cmds st) @
      pad_left 4 (dec_str (unat (err_num st))) @ NL)"

definition unit_infos :: "target \<Rightarrow> scsi_lu \<Rightarrow> it_nexus_lu_info list" where
  "unit_infos target lu =
     List.map_filter (\<lambda>n. do { itn \<leftarrow> lfind itn_id n (it_nexus_list target); lfind itl_lu (lun lu) (itn_itl_info_list itn) })
       (lu_itl_info_list lu)"

definition tgt_stat_device :: "target \<Rightarrow> scsi_lu \<Rightarrow> string" where
  "tgt_stat_device target lu =
     concat (map (\<lambda>i. tgt_stat_line (tid target) (lun lu) (itl_itn_id i) (itl_stat i)) (unit_infos target lu))"

definition tgt_stat_device_by_id :: "int \<Rightarrow> u64 \<Rightarrow> target list \<Rightarrow> tgtadm_err \<times> string" where
  "tgt_stat_device_by_id t l ts =
     (case target_lookup t ts of
        None \<Rightarrow> (TGTADM_NO_TARGET, [])
      | Some target \<Rightarrow>
          (case device_lookup target l of
             None \<Rightarrow> (TGTADM_NO_LUN, [])
           | Some lu \<Rightarrow> (TGTADM_SUCCESS, tgt_stat_header @ tgt_stat_device target lu)))"

definition tgt_stat_target :: "target \<Rightarrow> string" where
  "tgt_stat_target target = concat (map (tgt_stat_device target) (device_list target))"

definition tgt_stat_target_by_id :: "int \<Rightarrow> target list \<Rightarrow> tgtadm_err \<times> string" where
  "tgt_stat_target_by_id t ts =
     (case target_lookup t ts of
        None \<Rightarrow> (TGTADM_NO_TARGET, [])
      | Some target \<Rightarrow> (TGTADM_SUCCESS, tgt_stat_header @ tgt_stat_target target))"

definition tgt_stat_system :: "target list \<Rightarrow> tgtadm_err \<times> string" where
  "tgt_stat_system ts = (TGTADM_SUCCESS, tgt_stat_header @ concat (map tgt_stat_target ts))"

section \<open>Listings\<close>

definition print_disksize :: "u64 \<Rightarrow> string" where
  "print_disksize sz =
     dec_str (unat ((sz div 512 - (sz div 512 div 625 - 974)) div 1950)) @ '' MB''"

definition disk_type_names :: "(int \<times> string) list" where
  "disk_type_names =
     [(0x00, ''disk''), (0x01, ''tape''), (0x02, ''printer''), (0x03, ''processor''), (0x04, ''worm''),
      (0x05, ''cd/dvd''), (0x06, ''scanner''), (0x07, ''optical''), (0x08, ''changer''),
      (0x09, ''communication''), (0x0c, ''controller''), (0x0d, ''enclosure''), (0x0e, ''rbc''),
      (0x11, ''osd''), (0x7f, ''No LUN''), (0xff, ''passthrough'')]"

definition print_type :: "int \<Rightarrow> string option" where
  "print_type ty = map_option snd (lfind fst ty disk_type_names)"

definition iscsi_print_nop_settings :: "int \<Rightarrow> iscsi_world \<Rightarrow> string" where
  "iscsi_print_nop_settings t w =
     (case find (\<lambda>it. it_tid it = t \<and> it_nop_interval it \<noteq> 0) (iw_targets w) of
        None \<Rightarrow> []
      | Some it \<Rightarrow> TAB2 @ ''Nop interval: '' @ int_str (it_nop_interval it) @ NL @
                   TAB2 @ ''Nop count: '' @ int_str (it_nop_count it) @ NL)"

definition show_nexus :: "it_nexus \<Rightarrow> string" where
  "show_nexus itn = TAB2 @ ''I_T nexus: '' @ dec_str (unat (itn_id itn)) @ NL @ itn_info itn"

definition show_lu :: "target \<Rightarrow> scsi_lu \<Rightarrow> string" where
  "show_lu target lu =
     TAB2 @ ''LUN: '' @ dec_str (unat (lun lu)) @ NL @
     TAB3 @ ''Type: '' @ null_str (print_type (int (unat (device_type (attrs lu))))) @ NL @
     TAB3 @ ''SCSI ID: '' @ cstr (scsi_id (attrs lu)) @ NL @
     TAB3 @ ''SCSI SN: '' @ cstr (scsi_sn (attrs lu)) @ NL @
     TAB3 @ ''Size: '' @ print_disksize (lu_size lu) @ '', Block size: '' @ int_str (sint (push_bit (blk_shift lu) 1 :: u32)) @ NL @
     TAB3 @ ''Online: '' @ yes_no (online (attrs lu) \<noteq> 0) @ NL @
     TAB3 @ ''Removable media: '' @ yes_no (removable (attrs lu) \<noteq> 0) @ NL @
     TAB3 @ ''Prevent removal: '' @ yes_no (lu_prevent_removal lu (it_nexus_list target)) @ NL @
     TAB3 @ ''Readonly: '' @ yes_no (readonly (attrs lu) \<noteq> 0) @ NL @
     TAB3 @ ''SWP: '' @ yes_no (swp (attrs lu) \<noteq> 0) @ NL @
     TAB3 @ ''Thin-provisioning: '' @ yes_no (thinprovisioning (attrs lu) \<noteq> 0) @ NL @
     TAB3 @ ''Backing store type: '' @ bs_name (lu_bst lu) @ NL @
     TAB3 @ ''Backing store path: '' @ (case lu_path lu of None \<Rightarrow> ''None'' | Some p \<Rightarrow> p) @ NL @
     TAB3 @ ''Backing store flags: '' @ open_flags_to_str (bsoflags lu) @ NL"

text \<open>
  The accounts of a target. The loop reads the first \<open>nr_inaccount\<close> entries and uses
  the account each of them names without looking whether there is one.
\<close>

fun show_users :: "string \<Rightarrow> adm \<Rightarrow> int list \<Rightarrow> string option" where
  "show_users tab st [] = Some []"
| "show_users tab st (a # as) =
     do { ac \<leftarrow> account_lookup_id a st;
          rest \<leftarrow> show_users tab st as;
          Some (tab @ ac_user ac @ NL @ rest) }"

definition show_accounts :: "string \<Rightarrow> adm \<Rightarrow> tgt_account \<Rightarrow> string option" where
  "show_accounts tab st a =
     do { ins \<leftarrow> show_users tab st (take (nr_inaccount a) (in_aids a));
          if out_aid a = 0 then Some ins
          else do { ac \<leftarrow> account_lookup_id (out_aid a) st;
                    Some (ins @ tab @ ac_user ac @ '' (outgoing)'' @ NL) } }"

definition show_target :: "tgt_driver list \<Rightarrow> iscsi_world \<Rightarrow> target \<Rightarrow> string option" where
  "show_target ds w target =
     (let st = iw_adm w; nm = drv_name (ds ! nat (lid target)) in
      do { acc \<leftarrow> (if nm = ''iscsi'' \<or> nm = ''iser''
                   then map_option (\<lambda>x. TAB1 @ ''Account information:'' @ NL @ x) (show_accounts TAB2 st (account target))
                   else Some []);
           Some (''Target '' @ int_str (tid target) @ '': '' @ tgt_name target @ NL @
                 TAB1 @ ''System information:'' @ NL @
                 TAB2 @ ''Driver: '' @ nm @ NL @
                 TAB2 @ ''State: '' @ null_str (target_state_name (target_state target)) @ NL @
                 (if nm = ''iscsi'' then iscsi_print_nop_settings (tid target) w else []) @
                 TAB1 @ ''I_T nexus information:'' @ NL @ concat (map show_nexus (it_nexus_list target)) @
                 TAB1 @ ''LUN information:'' @ NL @ concat (map (show_lu target) (device_list target)) @
                 acc @
                 TAB1 @ ''ACL information:'' @ NL @
                 concat (map (\<lambda>a. TAB2 @ a @ NL) (acl_list target)) @
                 concat (map (\<lambda>a. TAB2 @ a @ NL) (iqn_acl_list target))) })"

fun show_targets :: "tgt_driver list \<Rightarrow> iscsi_world \<Rightarrow> target list \<Rightarrow> string option" where
  "show_targets ds w [] = Some []"
| "show_targets ds w (t # ts) = do { x \<leftarrow> show_target ds w t; y \<leftarrow> show_targets ds w ts; Some (x @ y) }"

definition tgt_target_show_all :: "tgt_driver list \<Rightarrow> iscsi_world \<Rightarrow> (tgtadm_err \<times> string) option" where
  "tgt_target_show_all ds w =
     map_option (\<lambda>s. (TGTADM_SUCCESS, s)) (show_targets ds w (adm_targets (iw_adm w)))"

definition account_show :: "adm \<Rightarrow> tgtadm_err \<times> string" where
  "account_show st =
     (TGTADM_SUCCESS,
      (if adm_accounts st \<noteq> [] then ''Account list:'' @ NL else []) @
      concat (map (\<lambda>ac. TAB1 @ ac_user ac @ NL) (adm_accounts st)))"

definition lld_show :: "tgt_driver list \<Rightarrow> adm \<Rightarrow> tgtadm_err \<times> string" where
  "lld_show ds st =
     (TGTADM_SUCCESS,
      ''LLDs:'' @ NL @
      concat (map (\<lambda>d. TAB1 @ drv_name d @ '': '' @ driver_state_name (drv_state d) @ NL @
        concat (map (\<lambda>t. case target_lookup t (adm_targets st) of
             None \<Rightarrow> []
           | Some target \<Rightarrow> TAB2 @ ''Target '' @ int_str t @ '': '' @ tgt_name target @ NL) (drv_target_list d))) ds))"

definition system_show ::
  "backingstore_template list \<Rightarrow> device_type_template list \<Rightarrow> tgt_driver list \<Rightarrow> bool \<Rightarrow> bool \<Rightarrow> adm
     \<Rightarrow> (tgtadm_err \<times> string) option" where
  "system_show bsts dtypes ds is_debug system_mode st =
     (if \<not> system_mode then Some (TGTADM_SUCCESS, [])
      else do { acc \<leftarrow> (if nr_inaccount (adm_global st) = 0 then Some []
                        else map_option (\<lambda>x. TAB1 @ ''Account information:'' @ NL @ NL @ x)
                               (show_accounts TAB1 st (adm_global st)));
                Some (TGTADM_SUCCESS,
                  ''System:'' @ NL @ TAB1 @ ''State: '' @ null_str (system_state_name (adm_state st)) @ NL @
                  TAB1 @ ''debug: '' @ (if is_debug then ''on'' else ''off'') @ NL @
                  ''LLDs:'' @ NL @
                  concat (map (\<lambda>d. TAB1 @ drv_name d @ '': '' @ driver_state_name (drv_state d) @ NL) ds) @
                  ''Backing stores:'' @ NL @
                  concat (map (\<lambda>b. TAB1 @ bs_name b @
                    (if bs_oflags_supported b = 0 then []
                     else '' (bsoflags '' @ open_flags_to_str (bs_oflags_supported b) @ '')'') @ NL) bsts) @
                  ''Device types:'' @ NL @
                  concat (map (\<lambda>d. TAB1 @ null_str (print_type (dt_type d)) @ NL) dtypes) @ acc) })"

end
