(* ===== verification/Mgmt.thy ===== *)
theory Mgmt
  imports Mgmt_Show Device_Types
begin

text \<open>
  The management channel of the daemon (\<open>usr/mgmt.c\<close>): the execution of a request on
  the state of the core and of the drivers, and the state machine that receives a
  request and sends its response over a socket, in whatever pieces the socket gives
  and takes. \<open>None\<close> is the use of a null pointer or of a text without end.
\<close>

section \<open>Requests\<close>

abbreviation (input) "OP_NEW \<equiv> 0 :: u32"
abbreviation (input) "OP_DELETE \<equiv> 1 :: u32"
abbreviation (input) "OP_SHOW \<equiv> 2 :: u32"
abbreviation (input) "OP_BIND \<equiv> 3 :: u32"
abbreviation (input) "OP_UNBIND \<equiv> 4 :: u32"
abbreviation (input) "OP_UPDATE \<equiv> 5 :: u32"
abbreviation (input) "OP_STATS \<equiv> 6 :: u32"
abbreviation (input) "OP_START \<equiv> 7 :: u32"
abbreviation (input) "OP_STOP \<equiv> 8 :: u32"

abbreviation (input) "ADM_SYSTEM \<equiv> 0 :: u32"
abbreviation (input) "ADM_TARGET \<equiv> 1 :: u32"
abbreviation (input) "ADM_DEVICE \<equiv> 2 :: u32"
abbreviation (input) "ADM_PORTAL \<equiv> 3 :: u32"
abbreviation (input) "ADM_LLD \<equiv> 4 :: u32"
abbreviation (input) "ADM_SESSION \<equiv> 5 :: u32"
abbreviation (input) "ADM_CONNECTION \<equiv> 6 :: u32"
abbreviation (input) "ADM_ACCOUNT \<equiv> 7 :: u32"

abbreviation (input) "SIZEOF_REQ \<equiv> 120 :: nat"
abbreviation (input) "SIZEOF_RSP \<equiv> 8 :: nat"
abbreviation (input) "MAX_MGT_BUFSIZE \<equiv> 8192 :: int"

record tgtadm_req =
  rq_mode :: u32
  rq_op :: u32
  rq_lld :: bytes
  rq_len :: u32
  rq_tid :: u32
  rq_sid :: u64
  rq_lun :: u64
  rq_cid :: u32
  rq_host_no :: u32
  rq_device_type :: u32
  rq_ac_dir :: u32
  rq_pack :: u32
  rq_force :: u32

text \<open>
  The request as the bytes of the structure. Client and daemon run on one machine, so
  the order of the bytes of an integer is immaterial.
\<close>

definition req_bytes :: "tgtadm_req \<Rightarrow> bytes" where
  "req_bytes r =
     be32_bytes (rq_mode r) @ be32_bytes (rq_op r) @ rq_lld r @ be32_bytes (rq_len r) @ be32_bytes (rq_tid r) @
     be64_bytes (rq_sid r) @ be64_bytes (rq_lun r) @ be32_bytes (rq_cid r) @ be32_bytes (rq_host_no r) @
     be32_bytes (rq_device_type r) @ be32_bytes (rq_ac_dir r) @ be32_bytes (rq_pack r) @ be32_bytes (rq_force r)"

definition req_of :: "bytes \<Rightarrow> tgtadm_req" where
  "req_of b = \<lparr>rq_mode = get_unaligned_be32 b 0, rq_op = get_unaligned_be32 b 4, rq_lld = take 64 (drop 8 b),
     rq_len = get_unaligned_be32 b 72, rq_tid = get_unaligned_be32 b 76, rq_sid = get_unaligned_be64 b 80,
     rq_lun = get_unaligned_be64 b 88, rq_cid = get_unaligned_be32 b 96, rq_host_no = get_unaligned_be32 b 100,
     rq_device_type = get_unaligned_be32 b 104, rq_ac_dir = get_unaligned_be32 b 108,
     rq_pack = get_unaligned_be32 b 112, rq_force = get_unaligned_be32 b 116\<rparr>"

abbreviation req_tid :: "tgtadm_req \<Rightarrow> int" where
  "req_tid r \<equiv> sint (rq_tid r)"

section \<open>State\<close>

text \<open>
  What the registration of backing stores and device types left, and the world the
  requests work on.
\<close>

record mgmt_env =
  me_bsts :: "backingstore_template list"
  me_bsops :: "backingstore_template \<Rightarrow> bs_ops"
  me_dtypes :: "device_type_template list"
  me_lu_template :: "scsi_lu \<Rightarrow> device_type_template"

record mgmt_world =
  mw_iw :: iscsi_world
  mw_drivers :: "tgt_driver list"
  mw_system_active :: bool
  mw_is_debug :: bool

abbreviation "mw_adm m \<equiv> iw_adm (mw_iw m)"

definition set_adm :: "adm \<Rightarrow> mgmt_world \<Rightarrow> mgmt_world" where
  "set_adm st m = m\<lparr>mw_iw := (mw_iw m)\<lparr>iw_adm := st\<rparr>\<rparr>"

definition set_targets :: "target list \<Rightarrow> mgmt_world \<Rightarrow> mgmt_world" where
  "set_targets ts m = set_adm ((mw_adm m)\<lparr>adm_targets := ts\<rparr>) m"

definition mw_driver :: "nat \<Rightarrow> mgmt_world \<Rightarrow> tgt_driver" where
  "mw_driver i m = mw_drivers m ! i"

definition upd_driver :: "nat \<Rightarrow> (tgt_driver \<Rightarrow> tgt_driver) \<Rightarrow> mgmt_world \<Rightarrow> mgmt_world" where
  "upd_driver i f m = m\<lparr>mw_drivers := (mw_drivers m)[i := f (mw_drivers m ! i)]\<rparr>"

text \<open>The result of an operation: the error, the text for the response, the new world.\<close>

type_synonym mgmt_result = "tgtadm_err \<times> string \<times> mgmt_world"

definition adm_result :: "(tgtadm_err \<times> adm) \<Rightarrow> mgmt_world \<Rightarrow> mgmt_result" where
  "adm_result r m = (fst r, [], set_adm (snd r) m)"

definition targets_result :: "(tgtadm_err \<times> target list) \<Rightarrow> mgmt_world \<Rightarrow> mgmt_result" where
  "targets_result r m = (fst r, [], set_targets (snd r) m)"

definition text_result :: "(tgtadm_err \<times> string) \<Rightarrow> mgmt_world \<Rightarrow> mgmt_result" where
  "text_result r m = (fst r, snd r, m)"

section \<open>Strings\<close>

text \<open>\<open>strstr\<close> for a pattern that is not empty: the text behind its first occurrence.\<close>

fun strstr_after :: "string \<Rightarrow> string \<Rightarrow> string option" where
  "strstr_after pat [] = None"
| "strstr_after pat (c # cs) =
     (if take (length pat) (c # cs) = pat then Some (drop (length pat) (c # cs)) else strstr_after pat cs)"

text \<open>The text in the buffer of a request: \<open>None\<close> without a buffer or without a zero byte.\<close>

definition buf_text :: "bytes option \<Rightarrow> string option" where
  "buf_text b = (case b of None \<Rightarrow> None | Some x \<Rightarrow> if 0 \<in> set x then Some (cstr x) else None)"

section \<open>Drivers\<close>

definition drv_update_call :: "nat \<Rightarrow> tgtadm_req \<Rightarrow> string option \<Rightarrow> tgtadm_err \<Rightarrow> mgmt_world \<Rightarrow> mgmt_result option" where
  "drv_update_call lld r buf dflt m =
     (case drv_update (mw_driver lld m) of
        None \<Rightarrow> Some (dflt, [], m)
      | Some f \<Rightarrow> do { (err, w) \<leftarrow> f (rq_mode r) (rq_op r) (req_tid r) (rq_sid r) (rq_lun r) (rq_cid r) buf (mw_iw m);
                      Some (err, [], m\<lparr>mw_iw := w\<rparr>) })"

definition drv_show_call :: "nat \<Rightarrow> tgtadm_req \<Rightarrow> tgtadm_err \<times> string \<Rightarrow> mgmt_world \<Rightarrow> mgmt_result" where
  "drv_show_call lld r dflt m =
     (case drv_show (mw_driver lld m) of
        None \<Rightarrow> text_result dflt m
      | Some f \<Rightarrow> let (err, s) = f (rq_mode r) (req_tid r) (rq_sid r) (rq_cid r) (rq_lun r) (mw_iw m)
                  in (err, snd dflt @ s, m))"

definition drv_stat_call :: "nat \<Rightarrow> tgtadm_req \<Rightarrow> tgtadm_err \<Rightarrow> mgmt_world \<Rightarrow> mgmt_result" where
  "drv_stat_call lld r dflt m =
     (case drv_stat (mw_driver lld m) of
        None \<Rightarrow> (dflt, [], m)
      | Some f \<Rightarrow> text_result (f (rq_mode r) (req_tid r) (rq_sid r) (rq_cid r) (rq_lun r) (mw_iw m)) m)"

definition lld_init_one :: "nat \<Rightarrow> mgmt_world \<Rightarrow> (int \<times> mgmt_world) option" where
  "lld_init_one i m =
     (let m0 = upd_driver i (\<lambda>d. d\<lparr>drv_target_list := []\<rparr>) m in
      case drv_init (mw_driver i m0) of
        None \<Rightarrow> Some (0, m0)
      | Some f \<Rightarrow>
          do { (err, w) \<leftarrow> f (mw_iw m0);
               Some (if err \<noteq> 0 then (err, upd_driver i (\<lambda>d. d\<lparr>drv_state := DRIVER_ERR\<rparr>) (m0\<lparr>mw_iw := w\<rparr>))
                     else (0, upd_driver i (\<lambda>d. d\<lparr>drv_state := DRIVER_INIT\<rparr>) (m0\<lparr>mw_iw := w\<rparr>))) })"

section \<open>The modes\<close>

text \<open>The creation and destruction of a target with the callbacks of its driver.\<close>

definition target_new :: "mgmt_env \<Rightarrow> nat \<Rightarrow> int \<Rightarrow> string \<Rightarrow> mgmt_world \<Rightarrow> mgmt_result option" where
  "target_new env lld t args m =
     do { (err, ts) \<leftarrow> tgt_target_create (get_backingstore_template (me_bsts env)) (me_bsops env) (me_dtypes env)
                        (drv_default_bst (mw_driver lld m)) (int lld) t args (adm_targets (mw_adm m));
          let m1 = set_targets ts m;
          Some (err, [],
            if err \<noteq> TGTADM_SUCCESS then m1
            else upd_driver lld (\<lambda>d. d\<lparr>drv_target_list := drv_target_list d @ [t]\<rparr>)
                   (case drv_target_create (mw_driver lld m1) of
                      None \<Rightarrow> m1 | Some f \<Rightarrow> m1\<lparr>mw_iw := f t (mw_iw m1)\<rparr>)) }"

definition target_delete :: "nat \<Rightarrow> int \<Rightarrow> bool \<Rightarrow> mgmt_world \<Rightarrow> mgmt_result option" where
  "target_delete lld t force m =
     (case target_lookup t (adm_targets (mw_adm m)) of
        None \<Rightarrow> Some (TGTADM_NO_TARGET, [], m)
      | Some target \<Rightarrow>
          if \<not> force \<and> it_nexus_list target \<noteq> [] then Some (TGTADM_TARGET_ACTIVE, [], m)
          else
            let (err, ts) = destroy_devices t (adm_targets (mw_adm m)); m1 = set_targets ts m in
            if err \<noteq> TGTADM_SUCCESS then Some (err, [], m1)
            else do { w \<leftarrow> (case drv_target_destroy (mw_driver lld m) of
                             None \<Rightarrow> Some (mw_iw m1) | Some f \<Rightarrow> f t force (mw_iw m1));
                      Some (TGTADM_SUCCESS, [],
                        set_targets (lremove tid t (adm_targets (iw_adm w)))
                          (m1\<lparr>mw_iw := w,
                              mw_drivers := map (\<lambda>d. d\<lparr>drv_target_list := removeAll t (drv_target_list d)\<rparr>) (mw_drivers m1)\<rparr>)) })"

text \<open>
  Binding and unbinding of an initiator. The address and the name are each what follows
  their keyword up to the end of the text, not up to a comma.
\<close>

definition acl_ops ::
  "(int \<Rightarrow> string \<Rightarrow> target list \<Rightarrow> tgtadm_err \<times> target list) \<Rightarrow>
   (int \<Rightarrow> string \<Rightarrow> target list \<Rightarrow> tgtadm_err \<times> target list) \<Rightarrow> int \<Rightarrow> string \<Rightarrow> target list
     \<Rightarrow> tgtadm_err \<times> target list" where
  "acl_ops by_addr by_name t buf ts =
     (let (err, ts1) = (case strstr_after ''initiator-address='' buf of
                          None \<Rightarrow> (TGTADM_INVALID_REQUEST, ts) | Some p \<Rightarrow> by_addr t p ts)
      in if strstr_after ''initiator-address='' buf \<noteq> None \<and> err \<noteq> TGTADM_SUCCESS then (err, ts1)
         else case strstr_after ''initiator-name='' buf of
                None \<Rightarrow> (err, ts1) | Some p \<Rightarrow> by_name t p ts1)"

definition target_bind :: "tgtadm_req \<Rightarrow> bytes option \<Rightarrow> mgmt_world \<Rightarrow> mgmt_result option" where
  "target_bind r buf m =
     (if rq_len r = of_nat SIZEOF_REQ
      then Some (adm_result (tgt_bind_host_to_target (req_tid r) (sint (rq_host_no r)) (mw_adm m)) m)
      else do { s \<leftarrow> buf_text buf;
                Some (targets_result (acl_ops acl_add iqn_acl_add (req_tid r) s (adm_targets (mw_adm m))) m) })"

definition target_unbind :: "tgtadm_req \<Rightarrow> bytes option \<Rightarrow> mgmt_world \<Rightarrow> mgmt_result option" where
  "target_unbind r buf m =
     (if rq_len r = of_nat SIZEOF_REQ
      then do { res \<leftarrow> tgt_unbind_host_to_target (sint (rq_host_no r)) (mw_adm m); Some (adm_result res m) }
      else do { s \<leftarrow> buf_text buf;
                Some (targets_result (acl_ops acl_del iqn_acl_del (req_tid r) s (adm_targets (mw_adm m))) m) })"

definition target_update :: "nat \<Rightarrow> tgtadm_req \<Rightarrow> bytes option \<Rightarrow> mgmt_world \<Rightarrow> mgmt_result option" where
  "target_update lld r buf m =
     do { s \<leftarrow> buf_text buf;
          let name = takeWhile (\<lambda>c. c \<noteq> CHR ''='') s;
          let val = drop (length name + 1) s;
          if CHR ''='' \<notin> set s then Some (TGTADM_UNSUPPORTED_OPERATION, [], m)
          else if name = ''state''
          then Some (targets_result (tgt_set_target_state (req_tid r) val (adm_targets (mw_adm m))) m)
          else drv_update_call lld r (Some (name @ [NUL] @ val)) TGTADM_UNSUPPORTED_OPERATION m }"

definition target_show :: "nat \<Rightarrow> tgtadm_req \<Rightarrow> mgmt_world \<Rightarrow> mgmt_result option" where
  "target_show lld r m =
     (if req_tid r < 0
      then map_option (\<lambda>x. text_result x m) (tgt_target_show_all (mw_drivers m) (mw_iw m))
      else Some (drv_show_call lld r (TGTADM_INVALID_REQUEST, []) m))"

definition target_mgmt :: "mgmt_env \<Rightarrow> nat \<Rightarrow> tgtadm_req \<Rightarrow> bytes option \<Rightarrow> mgmt_world \<Rightarrow> mgmt_result option" where
  "target_mgmt env lld r buf m =
     (if rq_op r = OP_NEW then do { s \<leftarrow> buf_text buf; target_new env lld (req_tid r) s m }
      else if rq_op r = OP_DELETE then target_delete lld (req_tid r) (rq_force r \<noteq> 0) m
      else if rq_op r = OP_BIND then target_bind r buf m
      else if rq_op r = OP_UNBIND then target_unbind r buf m
      else if rq_op r = OP_UPDATE then target_update lld r buf m
      else if rq_op r = OP_SHOW then target_show lld r m
      else if rq_op r = OP_STATS
      then Some (text_result (tgt_stat_target_by_id (req_tid r) (adm_targets (mw_adm m))) m)
      else Some (TGTADM_INVALID_REQUEST, [], m))"

text \<open>\<open>tgt_portal_create\<close> and \<open>tgt_portal_destroy\<close>; the driver gets the text from \<open>portal=\<close> on.\<close>

definition tgt_portal_op ::
  "(string \<Rightarrow> iscsi_world \<Rightarrow> (int \<times> iscsi_world) option) option \<Rightarrow> string \<Rightarrow> mgmt_world \<Rightarrow> mgmt_result option" where
  "tgt_portal_op f args m =
     (case strstr_after ''portal='' args of
        None \<Rightarrow> Some (TGTADM_INVALID_REQUEST, [], m)
      | Some p \<Rightarrow>
          (case f of
             None \<Rightarrow> Some (TGTADM_INVALID_REQUEST, [], m)
           | Some g \<Rightarrow> do { (err, w) \<leftarrow> g (''portal='' @ p) (mw_iw m);
                            Some (if err \<noteq> 0 then TGTADM_INVALID_REQUEST else TGTADM_SUCCESS, [], m\<lparr>mw_iw := w\<rparr>) }))"

definition portal_mgmt :: "nat \<Rightarrow> tgtadm_req \<Rightarrow> bytes option \<Rightarrow> mgmt_world \<Rightarrow> mgmt_result option" where
  "portal_mgmt lld r buf m =
     (if rq_op r = OP_SHOW then Some (drv_show_call lld r (TGTADM_INVALID_REQUEST, []) m)
      else if rq_op r = OP_NEW
      then do { s \<leftarrow> buf_text buf; tgt_portal_op (drv_portal_create (mw_driver lld m)) s m }
      else if rq_op r = OP_DELETE
      then do { s \<leftarrow> buf_text buf; tgt_portal_op (drv_portal_destroy (mw_driver lld m)) s m }
      else Some (TGTADM_INVALID_REQUEST, [], m))"

text \<open>
  The configuration callback is the one of the device type the unit was made with; it
  takes a null pointer for an empty list of parameters.
\<close>

definition device_mgmt :: "mgmt_env \<Rightarrow> nat \<Rightarrow> tgtadm_req \<Rightarrow> bytes option \<Rightarrow> mgmt_world \<Rightarrow> mgmt_result option" where
  "device_mgmt env lld r buf m =
     (let ts = adm_targets (mw_adm m); t = req_tid r; l = rq_lun r in
      if rq_op r = OP_NEW
      then do { params \<leftarrow> (case buf of None \<Rightarrow> Some None | Some _ \<Rightarrow> map_option Some (buf_text buf));
                Some (targets_result (tgt_device_create (get_backingstore_template (me_bsts env)) (me_bsops env) (me_dtypes env)
                  t (int (unat (rq_device_type r))) l params True ts) m) }
      else if rq_op r = OP_DELETE then Some (targets_result (tgt_device_destroy t l False ts) m)
      else if rq_op r = OP_UPDATE
      then (case device_lookup_tid t l ts of
              None \<Rightarrow> Some (if target_lookup t ts = None then TGTADM_NO_TARGET else TGTADM_NO_LUN, [], m)
            | Some (target, lu) \<Rightarrow>
                do { s \<leftarrow> (if dt_lu_config (me_lu_template env lu) = None \<or> buf = None then Some [] else buf_text buf);
                     Some (targets_result (tgt_device_update (me_lu_template env lu) t l s ts) m) })
      else if rq_op r = OP_STATS
      then Some (if rq_sid r = 0 then text_result (tgt_stat_device_by_id t l ts) m
                 else drv_stat_call lld r TGTADM_UNSUPPORTED_OPERATION m)
      else Some (TGTADM_UNSUPPORTED_OPERATION, [], m))"

text \<open>
  The user of an account request is what follows \<open>user=\<close>; in a new account the password
  starts nine characters (\<open>password=\<close>) behind the first comma, unseen.
\<close>

definition account_mgmt :: "tgtadm_req \<Rightarrow> bytes option \<Rightarrow> mgmt_world \<Rightarrow> mgmt_result option" where
  "account_mgmt r buf m =
     (let st = mw_adm m in
      if rq_op r \<in> {OP_NEW, OP_DELETE, OP_BIND, OP_UNBIND}
      then do { s \<leftarrow> buf_text buf;
                case strstr_after ''user='' s of
                  None \<Rightarrow> Some (TGTADM_INVALID_REQUEST, [], m)
                | Some user \<Rightarrow>
                    if rq_op r = OP_NEW
                    then (let name = takeWhile (\<lambda>c. c \<noteq> CHR '','') user; rest = drop (length name + 1) user in
                          if CHR '','' \<notin> set user then Some (TGTADM_INVALID_REQUEST, [], m)
                          else if length rest < 9 then None
                          else Some (adm_result (account_add name (drop 9 rest) st) m))
                    else if rq_op r = OP_DELETE then Some (adm_result (account_del user st) m)
                    else Some (adm_result (account_ctl (req_tid r)
                           (if rq_ac_dir r = 0 then ACCOUNT_TYPE_INCOMING else ACCOUNT_TYPE_OUTGOING)
                           user (rq_op r = OP_BIND) st) m) }
      else if rq_op r = OP_SHOW then Some (text_result (account_show st) m)
      else Some (TGTADM_UNSUPPORTED_OPERATION, [], m))"

text \<open>
  The text of a system update: the comparisons with \<open>debug=on\<close> and \<open>debug=off\<close> need no
  zero byte when enough bytes are there, the driver needs a text.
\<close>

definition sys_text :: "bytes option \<Rightarrow> string option" where
  "sys_text buf =
     (case buf of
        None \<Rightarrow> None
      | Some b \<Rightarrow>
          if take 6 (cstr b) = ''debug='' \<and> (9 \<le> length b \<or> take 8 (cstr b) = ''debug=on'') then Some (cstr b)
          else buf_text buf)"

definition sys_mgmt :: "mgmt_env \<Rightarrow> nat \<Rightarrow> tgtadm_req \<Rightarrow> bytes option \<Rightarrow> mgmt_world \<Rightarrow> mgmt_result option" where
  "sys_mgmt env lld r buf m =
     (if rq_op r = OP_UPDATE
      then do { s \<leftarrow> sys_text buf;
                if take 6 s = ''debug=''
                then Some (if take 2 (drop 6 s) = ''on'' then (TGTADM_SUCCESS, [], m\<lparr>mw_is_debug := True\<rparr>)
                           else if take 3 (drop 6 s) = ''off'' then (TGTADM_SUCCESS, [], m\<lparr>mw_is_debug := False\<rparr>)
                           else (TGTADM_INVALID_REQUEST, [], m))
                else drv_update_call lld r (Some s) TGTADM_INVALID_REQUEST m }
      else if rq_op r = OP_SHOW
      then do { res \<leftarrow> system_show (me_bsts env) (me_dtypes env) (mw_drivers m) (mw_is_debug m) (rq_mode r = ADM_SYSTEM) (mw_adm m);
                Some (drv_show_call lld r res m) }
      else if rq_op r = OP_STATS then Some (text_result (tgt_stat_system (adm_targets (mw_adm m))) m)
      else if rq_op r = OP_DELETE
      then Some (if is_system_inactive (mw_adm m) then TGTADM_SUCCESS else TGTADM_INVALID_REQUEST, [], m)
      else Some (TGTADM_INVALID_REQUEST, [], m))"

definition raw_text :: "bytes option \<Rightarrow> string option" where
  "raw_text buf = map_option cstr buf"

definition session_mgmt :: "nat \<Rightarrow> tgtadm_req \<Rightarrow> bytes option \<Rightarrow> mgmt_world \<Rightarrow> mgmt_result option" where
  "session_mgmt lld r buf m =
     (if rq_op r = OP_STATS then Some (drv_stat_call lld r TGTADM_INVALID_REQUEST m)
      else drv_update_call lld r (raw_text buf) TGTADM_INVALID_REQUEST m)"

definition connection_mgmt :: "nat \<Rightarrow> tgtadm_req \<Rightarrow> bytes option \<Rightarrow> mgmt_world \<Rightarrow> mgmt_result option" where
  "connection_mgmt lld r buf m =
     (if rq_op r = OP_SHOW then Some (drv_show_call lld r (TGTADM_INVALID_REQUEST, []) m)
      else if rq_op r = OP_STATS then Some (drv_stat_call lld r TGTADM_INVALID_REQUEST m)
      else drv_update_call lld r (raw_text buf) TGTADM_INVALID_REQUEST m)"

definition lld_mgmt :: "nat \<Rightarrow> tgtadm_req \<Rightarrow> mgmt_world \<Rightarrow> mgmt_result option" where
  "lld_mgmt lld r m =
     (let d = mw_driver lld m in
      if rq_op r = OP_START
      then if drv_state d \<noteq> DRIVER_INIT
           then do { (err, m1) \<leftarrow> lld_init_one lld m; Some (if err = 0 then TGTADM_SUCCESS else TGTADM_UNKNOWN_ERR, [], m1) }
           else Some (TGTADM_SUCCESS, [], m)
      else if rq_op r = OP_STOP
      then if drv_state d = DRIVER_INIT
           then if drv_target_list d = []
                then Some (TGTADM_SUCCESS, [],
                      case drv_exit d of
                        None \<Rightarrow> m
                      | Some f \<Rightarrow> upd_driver lld (\<lambda>d. d\<lparr>drv_state := DRIVER_EXIT\<rparr>) (m\<lparr>mw_iw := f (mw_iw m)\<rparr>))
                else Some (TGTADM_DRIVER_ACTIVE, [], m)
           else Some (TGTADM_SUCCESS, [], m)
      else if rq_op r = OP_SHOW then Some (text_result (lld_show (mw_drivers m) (mw_adm m)) m)
      else Some (TGTADM_INVALID_REQUEST, [], m))"

section \<open>Execution\<close>

text \<open>
  The driver a request names: the name is cut at 63 bytes, an empty name is driver 0.
  \<open>None\<close> is \<open>TGTADM_NO_DRIVER\<close>.
\<close>

definition req_driver :: "tgtadm_req \<Rightarrow> mgmt_world \<Rightarrow> nat option" where
  "req_driver r m =
     (let nm = cstr (take 63 (rq_lld r)); i = get_driver_index nm (mw_drivers m) in
      if nm = [] then Some 0
      else if i < 0 \<or> (drv_state (mw_driver (nat i) m) \<noteq> DRIVER_INIT \<and> rq_mode r \<noteq> ADM_LLD) then None
      else Some (nat i))"

definition mtask_execute :: "mgmt_env \<Rightarrow> tgtadm_req \<Rightarrow> bytes option \<Rightarrow> mgmt_world \<Rightarrow> mgmt_result option" where
  "mtask_execute env r buf m =
     (case req_driver r m of
        None \<Rightarrow> Some (TGTADM_NO_DRIVER, [], m)
      | Some lld \<Rightarrow>
          if rq_mode r = ADM_SYSTEM then sys_mgmt env lld r buf m
          else if rq_mode r = ADM_TARGET then target_mgmt env lld r buf m
          else if rq_mode r = ADM_PORTAL then portal_mgmt lld r buf m
          else if rq_mode r = ADM_DEVICE then device_mgmt env lld r buf m
          else if rq_mode r = ADM_ACCOUNT then account_mgmt r buf m
          else if rq_mode r = ADM_SESSION then session_mgmt lld r buf m
          else if rq_mode r = ADM_CONNECTION then connection_mgmt lld r buf m
          else if rq_mode r = ADM_LLD then lld_mgmt lld r m
          else Some (if rq_op r = OP_SHOW then drv_show_call lld r (TGTADM_INVALID_REQUEST, []) m
                     else (TGTADM_INVALID_REQUEST, [], m)))"

section \<open>The response\<close>

text \<open>The errors of \<open>tgtadm_error.h\<close> in their order; an error is sent as its number.\<close>

definition tgtadm_errors :: "tgtadm_err list" where
  "tgtadm_errors =
     [TGTADM_SUCCESS, TGTADM_UNKNOWN_ERR, TGTADM_NOMEM, TGTADM_NO_DRIVER, TGTADM_NO_TARGET, TGTADM_NO_LUN,
      TGTADM_NO_SESSION, TGTADM_NO_CONNECTION, TGTADM_NO_BINDING, TGTADM_TARGET_EXIST, TGTADM_LUN_EXIST,
      TGTADM_BINDING_EXIST, TGTADM_ACL_EXIST, TGTADM_ACL_NOEXIST, TGTADM_USER_EXIST, TGTADM_NO_USER,
      TGTADM_TOO_MANY_USER, TGTADM_INVALID_REQUEST, TGTADM_OUTACCOUNT_EXIST, TGTADM_TARGET_ACTIVE,
      TGTADM_LUN_ACTIVE, TGTADM_DRIVER_ACTIVE, TGTADM_UNSUPPORTED_OPERATION, TGTADM_UNKNOWN_PARAM,
      TGTADM_PREVENT_REMOVAL]"

definition err_code :: "tgtadm_err \<Rightarrow> u32" where
  "err_code e = of_nat (length (takeWhile (\<lambda>x. x \<noteq> e) tgtadm_errors))"

definition text_bytes :: "string \<Rightarrow> bytes" where
  "text_bytes s = concat_bytes (concat_buf_finish (concat_printf s concat_buf_init))"

section \<open>The connection\<close>

datatype mgmt_task_state =
  MTASK_STATE_HDR_RECV | MTASK_STATE_PDU_RECV | MTASK_STATE_HDR_SEND | MTASK_STATE_PDU_SEND

text \<open>\<open>mt_hdr\<close> are the bytes of the request structure, zero until they are received.\<close>

record mgmt_task =
  mt_state :: mgmt_task_state
  mt_done :: nat
  mt_hdr :: bytes
  mt_req_buf :: "bytes option"
  mt_bsize :: int
  mt_rsp_err :: u32
  mt_rsp_len :: u32
  mt_text :: bytes

definition mtask_alloc :: mgmt_task where
  "mtask_alloc = \<lparr>mt_state = MTASK_STATE_HDR_RECV, mt_done = 0, mt_hdr = replicate SIZEOF_REQ 0, mt_req_buf = None,
     mt_bsize = 0, mt_rsp_err = 0, mt_rsp_len = 0, mt_text = []\<rparr>"

abbreviation "mt_req mt \<equiv> req_of (mt_hdr mt)"

text \<open>The text is complete: an allocation that fails while it is built (\<open>rsp_concat.err\<close>) is left out.\<close>

definition set_mtask_result :: "tgtadm_err \<Rightarrow> string \<Rightarrow> mgmt_task \<Rightarrow> mgmt_task" where
  "set_mtask_result err s mt =
     mt\<lparr>mt_text := text_bytes s, mt_rsp_err := err_code err,
        mt_rsp_len := (if err = TGTADM_SUCCESS then of_nat (SIZEOF_RSP + length (text_bytes s)) else of_nat SIZEOF_RSP)\<rparr>"

definition rsp_bytes :: "mgmt_task \<Rightarrow> bytes" where
  "rsp_bytes mt = be32_bytes (mt_rsp_err mt) @ be32_bytes (mt_rsp_len mt)"

text \<open>
  What a system call on the socket answers: bytes read, the number of bytes written,
  nothing for now, or the end of the connection (also an error).
\<close>

datatype sock_answer = Got bytes | Put nat | Again | Failed

datatype mgmt_step = Open mgmt_task mgmt_world | Closed mgmt_world

text \<open>The label \<open>out\<close> of the handler: the daemon stops after a system deletion without error.\<close>

definition mtask_out :: "mgmt_task \<Rightarrow> mgmt_world \<Rightarrow> mgmt_step" where
  "mtask_out mt m =
     Closed (if rq_mode (mt_req mt) = ADM_SYSTEM \<and> rq_op (mt_req mt) = OP_DELETE \<and> mt_rsp_err mt = 0
             then m\<lparr>mw_system_active := False\<rparr> else m)"

text \<open>\<open>ev_ok\<close>: the event loop accepts the change to output.\<close>

definition mtask_received :: "mgmt_env \<Rightarrow> bool \<Rightarrow> mgmt_task \<Rightarrow> mgmt_world \<Rightarrow> mgmt_step option" where
  "mtask_received env ev_ok mt m =
     do { (err, s, m1) \<leftarrow> mtask_execute env (mt_req mt) (mt_req_buf mt) m;
          let mt1 = (set_mtask_result err s mt)\<lparr>mt_state := MTASK_STATE_HDR_SEND, mt_done := 0\<rparr>;
          Some (if ev_ok then Open mt1 m1 else mtask_out mt1 m1) }"

text \<open>
  A negative size ends at the label \<open>out\<close> too: it passes the test of the limit, and the allocation of
  that many bytes fails.
\<close>

definition mtask_hdr_recv :: "mgmt_env \<Rightarrow> bool \<Rightarrow> sock_answer \<Rightarrow> mgmt_task \<Rightarrow> mgmt_world \<Rightarrow> mgmt_step option" where
  "mtask_hdr_recv env ev_ok a mt m =
     (case a of
        Got bs \<Rightarrow>
          let mt1 = mt\<lparr>mt_hdr := put_bytes (mt_hdr mt) (mt_done mt) bs, mt_done := mt_done mt + length bs\<rparr> in
          if mt_done mt1 \<noteq> SIZEOF_REQ then Some (Open mt1 m)
          else
            let bsize = sint (rq_len (mt_req mt1) - of_nat SIZEOF_REQ) in
            if bsize = 0 then mtask_received env ev_ok (mt1\<lparr>mt_bsize := bsize\<rparr>) m
            else if bsize > MAX_MGT_BUFSIZE \<or> bsize < 0 then Some (mtask_out (mt1\<lparr>mt_bsize := 0\<rparr>) m)
            else Some (Open (mt1\<lparr>mt_bsize := bsize, mt_req_buf := Some (replicate (nat bsize) 0),
                                 mt_state := MTASK_STATE_PDU_RECV, mt_done := 0\<rparr>) m)
      | Failed \<Rightarrow> Some (mtask_out mt m)
      | _ \<Rightarrow> Some (Open mt m))"

definition mtask_pdu_recv :: "mgmt_env \<Rightarrow> bool \<Rightarrow> sock_answer \<Rightarrow> mgmt_task \<Rightarrow> mgmt_world \<Rightarrow> mgmt_step option" where
  "mtask_pdu_recv env ev_ok a mt m =
     (case a of
        Got bs \<Rightarrow>
          let mt1 = mt\<lparr>mt_req_buf := map_option (\<lambda>b. put_bytes b (mt_done mt) bs) (mt_req_buf mt),
                       mt_done := mt_done mt + length bs\<rparr> in
          if int (mt_done mt1) = mt_bsize mt then mtask_received env ev_ok mt1 m else Some (Open mt1 m)
      | Failed \<Rightarrow> Some (mtask_out mt m)
      | _ \<Rightarrow> Some (Open mt m))"

definition mtask_hdr_send :: "sock_answer \<Rightarrow> mgmt_task \<Rightarrow> mgmt_world \<Rightarrow> mgmt_step" where
  "mtask_hdr_send a mt m =
     (case a of
        Put n \<Rightarrow>
          let mt1 = mt\<lparr>mt_done := mt_done mt + n\<rparr> in
          if mt_done mt1 \<noteq> SIZEOF_RSP then Open mt1 m
          else if mt_rsp_len mt = of_nat SIZEOF_RSP then mtask_out mt1 m
          else Open (mt1\<lparr>mt_done := 0, mt_state := MTASK_STATE_PDU_SEND\<rparr>) m
      | Failed \<Rightarrow> mtask_out mt m
      | _ \<Rightarrow> Open mt m)"

definition mtask_pdu_send :: "sock_answer \<Rightarrow> mgmt_task \<Rightarrow> mgmt_world \<Rightarrow> mgmt_step" where
  "mtask_pdu_send a mt m =
     (case a of
        Put n \<Rightarrow>
          let mt1 = mt\<lparr>mt_done := mt_done mt + n\<rparr> in
          if of_nat (mt_done mt1) = mt_rsp_len mt - of_nat SIZEOF_RSP then mtask_out mt1 m else Open mt1 m
      | Failed \<Rightarrow> mtask_out mt m
      | _ \<Rightarrow> Open mt m)"

definition mtask_recv_send_handler ::
  "mgmt_env \<Rightarrow> bool \<Rightarrow> sock_answer \<Rightarrow> mgmt_task \<Rightarrow> mgmt_world \<Rightarrow> mgmt_step option" where
  "mtask_recv_send_handler env ev_ok a mt m =
     (case mt_state mt of
        MTASK_STATE_HDR_RECV \<Rightarrow> mtask_hdr_recv env ev_ok a mt m
      | MTASK_STATE_PDU_RECV \<Rightarrow> mtask_pdu_recv env ev_ok a mt m
      | MTASK_STATE_HDR_SEND \<Rightarrow> Some (mtask_hdr_send a mt m)
      | MTASK_STATE_PDU_SEND \<Rightarrow> Some (mtask_pdu_send a mt m))"

text \<open>
  A new connection: \<open>peer\<close> is the answer of the socket about the user at the other end,
  \<open>None\<close> an error; \<open>own\<close> the user and group of the daemon.
\<close>

definition ipc_perm :: "int \<times> int \<Rightarrow> (int \<times> int) option \<Rightarrow> int" where
  "ipc_perm own peer =
     (case peer of None \<Rightarrow> - 1 | Some cred \<Rightarrow> if fst cred \<noteq> fst own \<or> snd cred \<noteq> snd own then - 1 else 0)"

definition mgmt_event_handler :: "int \<times> int \<Rightarrow> int \<Rightarrow> (int \<times> int) option \<Rightarrow> bool \<Rightarrow> bool \<Rightarrow> mgmt_task option" where
  "mgmt_event_handler own fd peer nonblock_ok add_ok =
     (if fd < 0 then None
      else if ipc_perm own peer < 0 then None
      else if \<not> nonblock_ok \<or> \<not> add_ok then None
      else Some mtask_alloc)"

section \<open>A run of the connection\<close>

text \<open>
  The client has written \<open>mc_in\<close> and reads \<open>mc_sent\<close>. At each event the socket lets the
  handler move at most \<open>n\<close> bytes.
\<close>

record mgmt_conn =
  mc_step :: mgmt_step
  mc_in :: bytes
  mc_sent :: bytes

definition mgmt_wanted :: "mgmt_task \<Rightarrow> nat" where
  "mgmt_wanted mt =
     (case mt_state mt of
        MTASK_STATE_HDR_RECV \<Rightarrow> SIZEOF_REQ - mt_done mt
      | MTASK_STATE_PDU_RECV \<Rightarrow> nat (mt_bsize mt) - mt_done mt
      | MTASK_STATE_HDR_SEND \<Rightarrow> SIZEOF_RSP - mt_done mt
      | MTASK_STATE_PDU_SEND \<Rightarrow> length (mt_text mt) - mt_done mt)"

definition mgmt_outgoing :: "mgmt_task \<Rightarrow> bytes" where
  "mgmt_outgoing mt = (if mt_state mt = MTASK_STATE_HDR_SEND then rsp_bytes mt else mt_text mt)"

definition mgmt_conn_event :: "mgmt_env \<Rightarrow> nat \<Rightarrow> mgmt_conn \<Rightarrow> mgmt_conn option" where
  "mgmt_conn_event env n c =
     (case mc_step c of
        Closed m \<Rightarrow> Some c
      | Open mt m \<Rightarrow>
          if mt_state mt = MTASK_STATE_HDR_RECV \<or> mt_state mt = MTASK_STATE_PDU_RECV
          then
            let bs = take (min n (mgmt_wanted mt)) (mc_in c) in
            do { st \<leftarrow> mtask_recv_send_handler env True (if bs = [] then Again else Got bs) mt m;
                 Some (c\<lparr>mc_step := st, mc_in := drop (length bs) (mc_in c)\<rparr>) }
          else
            let bs = take (min n (mgmt_wanted mt)) (drop (mt_done mt) (mgmt_outgoing mt)) in
            do { st \<leftarrow> mtask_recv_send_handler env True (if bs = [] then Again else Put (length bs)) mt m;
                 Some (c\<lparr>mc_step := st, mc_sent := mc_sent c @ bs\<rparr>) })"

fun mgmt_run :: "mgmt_env \<Rightarrow> nat list \<Rightarrow> mgmt_conn \<Rightarrow> mgmt_conn option" where
  "mgmt_run env [] c = Some c"
| "mgmt_run env (n # ns) c = do { c1 \<leftarrow> mgmt_conn_event env n c; mgmt_run env ns c1 }"

end
