(* ===== verification/Mgmt_Thms.thy ===== *)
theory Mgmt_Thms
  imports Mgmt Ssc_Media
begin

text \<open>
  What the management channel does with a request: it is executed once, as the client
  sent it, and answered completely, in whatever pieces it arrives; the state of the
  core keeps its invariant; and where a request harms the daemon.
\<close>

section \<open>Requests and responses as bytes\<close>

lemma length_req_bytes: "length (rq_lld r) = 64 \<Longrightarrow> length (req_bytes r) = SIZEOF_REQ"
  by (simp add: req_bytes_def)

lemma last_field32: "get_unaligned_be32 (be32_bytes x) 0 = x"
  using first_field(2) [of x "[]"] by simp

lemma req_of_bytes: "length (rq_lld r) = 64 \<Longrightarrow> req_of (req_bytes r) = r"
  by (cases r) (simp add: req_of_def req_bytes_def skip_field first_field last_field32)

lemma put_rest:
  assumes "k \<le> n" "length full = N" "n \<le> N"
  shows "put_bytes (take k full @ replicate (N - k) 0) k (take (n - k) (drop k full)) =
         take n full @ replicate (N - n) 0"
proof -
  have "take k full @ take (n - k) (drop k full) = take n full"
    using assms(1) by (metis le_add_diff_inverse take_add)
  then show ?thesis
    using assms by (simp add: put_bytes_def flip: append_assoc)
qed

section \<open>A request served\<close>

text \<open>The states a connection goes through between the request and the end of its answer.\<close>

definition served :: "tgtadm_req \<Rightarrow> tgtadm_err \<Rightarrow> mgmt_world \<Rightarrow> mgmt_world" where
  "served r err m =
     (if rq_mode r = ADM_SYSTEM \<and> rq_op r = OP_DELETE \<and> err = TGTADM_SUCCESS then m\<lparr>mw_system_active := False\<rparr> else m)"

definition answer_text :: "tgtadm_err \<Rightarrow> string \<Rightarrow> bytes" where
  "answer_text err s = (if err = TGTADM_SUCCESS then text_bytes s else [])"

definition answer :: "tgtadm_err \<Rightarrow> string \<Rightarrow> bytes" where
  "answer err s =
     be32_bytes (err_code err) @ be32_bytes (of_nat (SIZEOF_RSP + length (answer_text err s))) @ answer_text err s"

lemma err_code_0: "err_code e = 0 \<longleftrightarrow> e = TGTADM_SUCCESS"
  by (cases e) (simp_all add: err_code_def tgtadm_errors_def)

abbreviation "body_of buf \<equiv> (if buf = [] then None else Some buf)"

datatype serving = Recv_hdr nat | Recv_pdu nat | Send_hdr nat | Send_pdu nat | Finished

fun serving_left :: "nat \<Rightarrow> nat \<Rightarrow> serving \<Rightarrow> nat" where
  "serving_left b t (Recv_hdr k) = (SIZEOF_REQ - k) + b + SIZEOF_RSP + t"
| "serving_left b t (Recv_pdu k) = (b - k) + SIZEOF_RSP + t"
| "serving_left b t (Send_hdr k) = (SIZEOF_RSP - k) + t"
| "serving_left b t (Send_pdu k) = t - k"
| "serving_left b t Finished = 0"

fun serving_ok :: "tgtadm_req \<Rightarrow> bytes \<Rightarrow> mgmt_world \<Rightarrow> tgtadm_err \<Rightarrow> string \<Rightarrow> mgmt_world \<Rightarrow> serving \<Rightarrow> mgmt_conn \<Rightarrow> bool" where
  "serving_ok r buf m err s m' (Recv_hdr k) c \<longleftrightarrow>
     k < SIZEOF_REQ \<and> mc_in c = drop k (req_bytes r) @ buf \<and> mc_sent c = [] \<and>
     (\<exists>mt. mc_step c = Open mt m \<and> mt_state mt = MTASK_STATE_HDR_RECV \<and> mt_done mt = k \<and>
        mt_hdr mt = take k (req_bytes r) @ replicate (SIZEOF_REQ - k) 0 \<and> mt_req_buf mt = None \<and> mt_rsp_err mt = 0)"
| "serving_ok r buf m err s m' (Recv_pdu k) c \<longleftrightarrow>
     k < length buf \<and> mc_in c = drop k buf \<and> mc_sent c = [] \<and>
     (\<exists>mt. mc_step c = Open mt m \<and> mt_state mt = MTASK_STATE_PDU_RECV \<and> mt_done mt = k \<and> mt_hdr mt = req_bytes r \<and>
        mt_bsize mt = int (length buf) \<and> mt_req_buf mt = Some (take k buf @ replicate (length buf - k) 0))"
| "serving_ok r buf m err s m' (Send_hdr k) c \<longleftrightarrow>
     k < SIZEOF_RSP \<and> mc_sent c = take k (answer err s) \<and>
     (\<exists>mt. mc_step c = Open mt m' \<and> mt_state mt = MTASK_STATE_HDR_SEND \<and> mt_done mt = k \<and> mt_hdr mt = req_bytes r \<and>
        mt_text mt = text_bytes s \<and> mt_rsp_err mt = err_code err \<and>
        mt_rsp_len mt = of_nat (SIZEOF_RSP + length (answer_text err s)))"
| "serving_ok r buf m err s m' (Send_pdu k) c \<longleftrightarrow>
     k < length (answer_text err s) \<and> mc_sent c = take (SIZEOF_RSP + k) (answer err s) \<and> err = TGTADM_SUCCESS \<and>
     (\<exists>mt. mc_step c = Open mt m' \<and> mt_state mt = MTASK_STATE_PDU_SEND \<and> mt_done mt = k \<and> mt_hdr mt = req_bytes r \<and>
        mt_text mt = text_bytes s \<and> mt_rsp_err mt = 0 \<and> mt_rsp_len mt = of_nat (SIZEOF_RSP + length (answer_text err s)))"
| "serving_ok r buf m err s m' Finished c \<longleftrightarrow> mc_sent c = answer err s \<and> mc_step c = Closed (served r err m')"

lemma answer_rsp:
  "mt_rsp_err mt = err_code err \<Longrightarrow> mt_rsp_len mt = of_nat (SIZEOF_RSP + length (answer_text err s)) \<Longrightarrow>
   answer err s = rsp_bytes mt @ answer_text err s"
  by (simp add: answer_def rsp_bytes_def)

lemma length_rsp_bytes [simp]: "length (rsp_bytes mt) = SIZEOF_RSP"
  by (simp add: rsp_bytes_def)


lemma received_answers:
  assumes "length (rq_lld r) = 64" "mt_hdr mt = req_bytes r" "mt_req_buf mt = body_of buf"
    and "mtask_execute env r (body_of buf) m = Some (err, s, m')"
  obtains mt' where "mtask_received env True mt m = Some (Open mt' m')"
    "mt_state mt' = MTASK_STATE_HDR_SEND" "mt_done mt' = 0" "mt_hdr mt' = req_bytes r" "mt_text mt' = text_bytes s"
    "mt_rsp_err mt' = err_code err" "mt_rsp_len mt' = of_nat (SIZEOF_RSP + length (answer_text err s))"
  using that assms by (simp add: mtask_received_def req_of_bytes set_mtask_result_def answer_text_def)

text \<open>A request the client may send: a name field of 64 bytes and a length that counts the body.\<close>

definition req_ok :: "tgtadm_req \<Rightarrow> bytes \<Rightarrow> bool" where
  "req_ok r buf \<longleftrightarrow>
     length (rq_lld r) = 64 \<and> rq_len r = of_nat (SIZEOF_REQ + length buf) \<and> int (length buf) \<le> MAX_MGT_BUFSIZE"

lemma req_ok_bsize:
  assumes "req_ok r buf"
  shows "sint (rq_len r - of_nat SIZEOF_REQ) = int (length buf)"
proof -
  have "rq_len r - of_nat SIZEOF_REQ = of_nat (length buf)" using assms by (simp add: req_ok_def)
  moreover have "length buf < 2 ^ 31" using assms by (simp add: req_ok_def)
  ultimately show ?thesis by (simp add: signed_of_nat signed_take_bit_int_eq_self)
qed

lemma min_left: "0 < n \<Longrightarrow> k < N \<Longrightarrow> 0 < min n (N - k) \<and> k + min n (N - k) \<le> (N :: nat)"
  by auto

lemma recv_hdr_progress:
  assumes ok: "req_ok r buf" and ex: "mtask_execute env r (body_of buf) m = Some (err, s, m')"
    and c: "serving_ok r buf m err s m' (Recv_hdr k) c" and n: "0 < n"
  shows "\<exists>p c'. mgmt_conn_event env n c = Some c' \<and> serving_ok r buf m err s m' p c' \<and>
     serving_left (length buf) t p < serving_left (length buf) t (Recv_hdr k)"
proof -
  obtain mt where mt: "mc_step c = Open mt m" "mt_state mt = MTASK_STATE_HDR_RECV" "mt_done mt = k"
      "mt_hdr mt = take k (req_bytes r) @ replicate (SIZEOF_REQ - k) 0" "mt_req_buf mt = None" "mt_rsp_err mt = 0"
    and k: "k < SIZEOF_REQ" and inp: "mc_in c = drop k (req_bytes r) @ buf" and sent: "mc_sent c = []"
    using c by auto
  define j where "j = min n (SIZEOF_REQ - k)"
  have j: "0 < j" "k + j \<le> SIZEOF_REQ" using min_left [OF n k] by (auto simp: j_def)
  have lr: "length (req_bytes r) = SIZEOF_REQ" using ok length_req_bytes by (simp add: req_ok_def)
  let ?bs = "take j (drop k (req_bytes r))"
  have bs: "take (min n (mgmt_wanted mt)) (mc_in c) = ?bs" "?bs \<noteq> []" "length ?bs = j"
    using mt inp j lr by (auto simp: mgmt_wanted_def j_def)
  define mt1 where "mt1 = mt\<lparr>mt_hdr := take (k + j) (req_bytes r) @ replicate (SIZEOF_REQ - (k + j)) 0, mt_done := k + j\<rparr>"
  have put: "put_bytes (mt_hdr mt) k ?bs = mt_hdr mt1"
    using put_rest [of k "k + j" "req_bytes r" SIZEOF_REQ] j lr mt by (simp add: mt1_def)
  have ev: "mgmt_conn_event env n c =
      map_option (\<lambda>st. c\<lparr>mc_step := st, mc_in := drop j (mc_in c)\<rparr>)
        (if k + j \<noteq> SIZEOF_REQ then Some (Open mt1 m)
         else let bsize = sint (rq_len (mt_req mt1) - of_nat SIZEOF_REQ) in
            if bsize = 0 then mtask_received env True (mt1\<lparr>mt_bsize := bsize\<rparr>) m
            else if bsize > MAX_MGT_BUFSIZE \<or> bsize < 0 then Some (mtask_out (mt1\<lparr>mt_bsize := 0\<rparr>) m)
            else Some (Open (mt1\<lparr>mt_bsize := bsize, mt_req_buf := Some (replicate (nat bsize) 0),
                                 mt_state := MTASK_STATE_PDU_RECV, mt_done := 0\<rparr>) m))"
    using mt bs put
    by (simp add: mgmt_conn_event_def mtask_recv_send_handler_def mtask_hdr_recv_def Let_def mt1_def map_option_case bind_split
        split: option.split)
  have inp': "drop j (mc_in c) = drop (k + j) (req_bytes r) @ buf"
    using inp j lr by (simp add: add.commute)
  show ?thesis
  proof (cases "k + j = SIZEOF_REQ")
    case False
    then show ?thesis
      using ev inp' j sent mt
      by (intro exI [of _ "Recv_hdr (k + j)"] exI [of _ "c\<lparr>mc_step := Open mt1 m, mc_in := drop j (mc_in c)\<rparr>"])
         (auto simp: mt1_def)
  next
    case True
    then have hdr: "mt_hdr mt1 = req_bytes r" "mt_req mt1 = r"
      using lr ok by (auto simp: mt1_def req_of_bytes req_ok_def)
    have in0: "drop j (mc_in c) = buf" using inp' True lr by simp
    show ?thesis
    proof (cases "buf = []")
      case empty: True
      obtain mt' where mt': "mtask_received env True (mt1\<lparr>mt_bsize := 0\<rparr>) m = Some (Open mt' m')"
          "mt_state mt' = MTASK_STATE_HDR_SEND" "mt_done mt' = 0" "mt_hdr mt' = req_bytes r" "mt_text mt' = text_bytes s"
          "mt_rsp_err mt' = err_code err" "mt_rsp_len mt' = of_nat (SIZEOF_RSP + length (answer_text err s))"
        by (rule received_answers [OF _ _ _ ex, of "mt1\<lparr>mt_bsize := 0\<rparr>"])
           (use ok hdr mt empty in \<open>auto simp: req_ok_def mt1_def\<close>)
      then show ?thesis
        using ev True hdr req_ok_bsize [OF ok] empty sent k
        by (intro exI [of _ "Send_hdr 0"] exI [of _ "c\<lparr>mc_step := Open mt' m', mc_in := drop j (mc_in c)\<rparr>"]) simp
    next
      case False
      let ?mt = "mt1\<lparr>mt_bsize := int (length buf), mt_req_buf := Some (replicate (length buf) 0),
                     mt_state := MTASK_STATE_PDU_RECV, mt_done := 0\<rparr>"
      have "mgmt_conn_event env n c = Some (c\<lparr>mc_step := Open ?mt m, mc_in := drop j (mc_in c)\<rparr>)"
        using ev True hdr req_ok_bsize [OF ok] False ok by (simp add: req_ok_def)
      then show ?thesis
        using in0 sent hdr False k
        by (intro exI [of _ "Recv_pdu 0"] exI [of _ "c\<lparr>mc_step := Open ?mt m, mc_in := drop j (mc_in c)\<rparr>"]) simp
    qed
  qed
qed


lemma recv_pdu_progress:
  assumes ok: "req_ok r buf" and ex: "mtask_execute env r (body_of buf) m = Some (err, s, m')"
    and c: "serving_ok r buf m err s m' (Recv_pdu k) c" and n: "0 < n"
  shows "\<exists>p c'. mgmt_conn_event env n c = Some c' \<and> serving_ok r buf m err s m' p c' \<and>
     serving_left (length buf) t p < serving_left (length buf) t (Recv_pdu k)"
proof -
  obtain mt where mt: "mc_step c = Open mt m" "mt_state mt = MTASK_STATE_PDU_RECV" "mt_done mt = k" "mt_hdr mt = req_bytes r"
      "mt_bsize mt = int (length buf)" "mt_req_buf mt = Some (take k buf @ replicate (length buf - k) 0)"
    and k: "k < length buf" and inp: "mc_in c = drop k buf" and sent: "mc_sent c = []"
    using c by auto
  define j where "j = min n (length buf - k)"
  have j: "0 < j" "k + j \<le> length buf" using min_left [OF n k] by (auto simp: j_def)
  let ?bs = "take j (drop k buf)"
  have bs: "take (min n (mgmt_wanted mt)) (mc_in c) = ?bs" "?bs \<noteq> []" "length ?bs = j"
    using mt inp j by (auto simp: mgmt_wanted_def j_def)
  define mt1 where "mt1 = mt\<lparr>mt_req_buf := Some (take (k + j) buf @ replicate (length buf - (k + j)) 0), mt_done := k + j\<rparr>"
  have put: "put_bytes (take k buf @ replicate (length buf - k) 0) k ?bs = take (k + j) buf @ replicate (length buf - (k + j)) 0"
    using put_rest [of k "k + j" buf "length buf"] j by simp
  have ev: "mgmt_conn_event env n c =
      map_option (\<lambda>st. c\<lparr>mc_step := st, mc_in := drop j (mc_in c)\<rparr>)
        (if k + j = length buf then mtask_received env True mt1 m else Some (Open mt1 m))"
    using mt bs put
    by (simp add: mgmt_conn_event_def mtask_recv_send_handler_def mtask_pdu_recv_def Let_def mt1_def map_option_case bind_split
        split: option.split)
  have inp': "drop j (mc_in c) = drop (k + j) buf" using inp by (simp add: add.commute)
  show ?thesis
  proof (cases "k + j = length buf")
    case False
    then show ?thesis
      using ev inp' j sent mt
      by (intro exI [of _ "Recv_pdu (k + j)"] exI [of _ "c\<lparr>mc_step := Open mt1 m, mc_in := drop j (mc_in c)\<rparr>"])
         (auto simp: mt1_def)
  next
    case True
    obtain mt' where mt': "mtask_received env True mt1 m = Some (Open mt' m')"
        "mt_state mt' = MTASK_STATE_HDR_SEND" "mt_done mt' = 0" "mt_hdr mt' = req_bytes r" "mt_text mt' = text_bytes s"
        "mt_rsp_err mt' = err_code err" "mt_rsp_len mt' = of_nat (SIZEOF_RSP + length (answer_text err s))"
      by (rule received_answers [OF _ _ _ ex, of mt1]) (use ok mt True k in \<open>auto simp: req_ok_def mt1_def\<close>)
    then show ?thesis
      using ev True sent k
      by (intro exI [of _ "Send_hdr 0"] exI [of _ "c\<lparr>mc_step := Open mt' m', mc_in := drop j (mc_in c)\<rparr>"]) simp
  qed
qed

lemma text_bytes_Nil: "text_bytes s = [] \<longleftrightarrow> s = []"
  by (simp add: text_bytes_def concat_bytes_def concat_buf_finish_def concat_printf_def concat_buf_init_def)

lemma out_served:
  assumes "length (rq_lld r) = 64" "mt_hdr mt = req_bytes r" "mt_rsp_err mt = err_code err"
  shows "mtask_out mt m = Closed (served r err m)"
  using assms by (simp add: mtask_out_def req_of_bytes served_def err_code_0)

lemma send_hdr_progress:
  assumes ok: "req_ok r buf" and t: "t = length (answer_text err s)" "t < 2 ^ 31"
    and c: "serving_ok r buf m err s m' (Send_hdr k) c" and n: "0 < n"
  shows "\<exists>p c'. mgmt_conn_event env n c = Some c' \<and> serving_ok r buf m err s m' p c' \<and>
     serving_left (length buf) t p < serving_left (length buf) t (Send_hdr k)"
proof -
  obtain mt where mt: "mc_step c = Open mt m'" "mt_state mt = MTASK_STATE_HDR_SEND" "mt_done mt = k" "mt_hdr mt = req_bytes r"
      "mt_text mt = text_bytes s" "mt_rsp_err mt = err_code err" "mt_rsp_len mt = of_nat (SIZEOF_RSP + length (answer_text err s))"
    and k: "k < SIZEOF_RSP" and sent: "mc_sent c = take k (answer err s)"
    using c by auto
  define j where "j = min n (SIZEOF_RSP - k)"
  have j: "0 < j" "k + j \<le> SIZEOF_RSP" using min_left [OF n k] by (auto simp: j_def)
  have ans: "answer err s = rsp_bytes mt @ answer_text err s" by (rule answer_rsp [OF mt(6,7)])
  let ?bs = "take j (drop k (rsp_bytes mt))"
  have bs: "take (min n (mgmt_wanted mt)) (drop (mt_done mt) (mgmt_outgoing mt)) = ?bs" "?bs \<noteq> []" "length ?bs = j"
    using mt j by (auto simp: mgmt_wanted_def mgmt_outgoing_def j_def)
  have sent': "mc_sent c @ ?bs = take (k + j) (answer err s)"
    using sent ans j by (simp add: take_add)
  define mt1 where "mt1 = mt\<lparr>mt_done := k + j\<rparr>"
  have ev: "mgmt_conn_event env n c = Some (c\<lparr>mc_sent := mc_sent c @ ?bs, mc_step :=
      (if k + j \<noteq> SIZEOF_RSP then Open mt1 m' else if mt_rsp_len mt = of_nat SIZEOF_RSP then mtask_out mt1 m'
       else Open (mt1\<lparr>mt_done := 0, mt_state := MTASK_STATE_PDU_SEND\<rparr>) m')\<rparr>)"
    using mt bs by (simp add: mgmt_conn_event_def mtask_recv_send_handler_def mtask_hdr_send_def Let_def mt1_def)
  show ?thesis
  proof (cases "k + j = SIZEOF_RSP")
    case False
    then show ?thesis
      using ev sent' j mt
      by (intro exI [of _ "Send_hdr (k + j)"] exI [of _ "c\<lparr>mc_sent := mc_sent c @ ?bs, mc_step := Open mt1 m'\<rparr>"])
         (auto simp: mt1_def)
  next
    case full: True
    have out: "mtask_out mt1 m' = Closed (served r err m')"
      by (rule out_served) (use ok mt in \<open>auto simp: mt1_def req_ok_def\<close>)
    have zero: "mt_rsp_len mt = of_nat SIZEOF_RSP \<longleftrightarrow> t = 0"
    proof -
      have "unat (of_nat (SIZEOF_RSP + t) :: u32) = SIZEOF_RSP + t"
        using t(2) by (simp add: unsigned_of_nat take_bit_nat_eq_self del: of_nat_add)
      moreover have "unat (of_nat SIZEOF_RSP :: u32) = SIZEOF_RSP" by simp
      ultimately show ?thesis using mt(7) t(1) by (metis add.right_neutral add_left_cancel)
    qed
    show ?thesis
    proof (cases "t = 0")
      case True
      then have "mc_sent c @ ?bs = answer err s" using sent' full ans t(1) by simp
      then show ?thesis
        using ev full zero True out k
        by (intro exI [of _ Finished] exI [of _ "c\<lparr>mc_sent := mc_sent c @ ?bs, mc_step := Closed (served r err m')\<rparr>"]) simp
    next
      case False
      then have "err = TGTADM_SUCCESS" using t(1) by (auto simp: answer_text_def split: if_splits)
      then show ?thesis
        using ev full zero False sent' mt t(1) k err_code_0 [of err]
        by (intro exI [of _ "Send_pdu 0"] exI [of _ "c\<lparr>mc_sent := mc_sent c @ ?bs,
              mc_step := Open (mt1\<lparr>mt_done := 0, mt_state := MTASK_STATE_PDU_SEND\<rparr>) m'\<rparr>"])
           (auto simp: mt1_def)
    qed
  qed
qed

lemma send_pdu_progress:
  assumes ok: "req_ok r buf" and t: "t = length (answer_text err s)" "t < 2 ^ 31"
    and c: "serving_ok r buf m err s m' (Send_pdu k) c" and n: "0 < n"
  shows "\<exists>p c'. mgmt_conn_event env n c = Some c' \<and> serving_ok r buf m err s m' p c' \<and>
     serving_left (length buf) t p < serving_left (length buf) t (Send_pdu k)"
proof -
  obtain mt where mt: "mc_step c = Open mt m'" "mt_state mt = MTASK_STATE_PDU_SEND" "mt_done mt = k" "mt_hdr mt = req_bytes r"
      "mt_text mt = text_bytes s" "mt_rsp_err mt = 0" "mt_rsp_len mt = of_nat (SIZEOF_RSP + length (answer_text err s))"
    and k: "k < length (answer_text err s)" and sent: "mc_sent c = take (SIZEOF_RSP + k) (answer err s)"
    and err: "err = TGTADM_SUCCESS"
    using c by auto
  have tbs: "answer_text err s = text_bytes s" using err by (simp add: answer_text_def)
  define j where "j = min n (t - k)"
  have j: "0 < j" "k + j \<le> t" using min_left [OF n k] t(1) by (auto simp: j_def)
  let ?bs = "take j (drop k (text_bytes s))"
  have bs: "take (min n (mgmt_wanted mt)) (drop (mt_done mt) (mgmt_outgoing mt)) = ?bs" "?bs \<noteq> []" "length ?bs = j"
    using mt j t(1) tbs by (auto simp: mgmt_wanted_def mgmt_outgoing_def j_def)
  have ans: "answer err s = rsp_bytes mt @ text_bytes s"
    using answer_rsp [of mt err s] mt(6,7) tbs err_code_0 [of err] err by simp
  have sent': "mc_sent c @ ?bs = take (SIZEOF_RSP + (k + j)) (answer err s)"
    using sent ans by (simp add: take_add)
  define mt1 where "mt1 = mt\<lparr>mt_done := k + j\<rparr>"
  have full: "of_nat (k + j) = mt_rsp_len mt - of_nat SIZEOF_RSP \<longleftrightarrow> k + j = t"
  proof -
    have "mt_rsp_len mt - of_nat SIZEOF_RSP = of_nat t" using mt(7) t(1) by simp
    moreover have "unat (of_nat (k + j) :: u32) = k + j" "unat (of_nat t :: u32) = t"
      using t(2) j by (simp_all add: unsigned_of_nat take_bit_nat_eq_self del: of_nat_add)
    ultimately show ?thesis by metis
  qed
  have ev: "mgmt_conn_event env n c = Some (c\<lparr>mc_sent := mc_sent c @ ?bs, mc_step :=
      (if k + j = t then mtask_out mt1 m' else Open mt1 m')\<rparr>)"
    using mt bs full by (simp add: mgmt_conn_event_def mtask_recv_send_handler_def mtask_pdu_send_def Let_def mt1_def del: of_nat_add)
  show ?thesis
  proof (cases "k + j = t")
    case False
    then show ?thesis
      using ev sent' j mt err t(1)
      by (intro exI [of _ "Send_pdu (k + j)"] exI [of _ "c\<lparr>mc_sent := mc_sent c @ ?bs, mc_step := Open mt1 m'\<rparr>"])
         (auto simp: mt1_def)
  next
    case True
    have "mtask_out mt1 m' = Closed (served r err m')"
      by (rule out_served) (use ok mt err err_code_0 [of err] in \<open>auto simp: mt1_def req_ok_def\<close>)
    moreover have "mc_sent c @ ?bs = answer err s" using sent' True ans t(1) tbs by simp
    ultimately show ?thesis
      using ev True k t(1)
      by (intro exI [of _ Finished] exI [of _ "c\<lparr>mc_sent := mc_sent c @ ?bs, mc_step := Closed (served r err m')\<rparr>"]) simp
  qed
qed


lemma idle_event: "mgmt_conn_event env 0 c = Some c"
proof (cases "mc_step c")
  case (Open mt m)
  then have "c\<lparr>mc_step := Open mt m\<rparr> = c" by (cases c) simp
  then show ?thesis
    using Open by (cases "mt_state mt") (simp_all add: mgmt_conn_event_def mtask_recv_send_handler_def mtask_hdr_recv_def
        mtask_pdu_recv_def mtask_hdr_send_def mtask_pdu_send_def)
qed (simp add: mgmt_conn_event_def)

lemma run_serves:
  assumes ok: "req_ok r buf" and ex: "mtask_execute env r (body_of buf) m = Some (err, s, m')"
    and t: "t = length (answer_text err s)" "t < 2 ^ 31"
    and "serving_ok r buf m err s m' p c" "serving_left (length buf) t p \<le> length (filter (\<lambda>n. 0 < n) ns)"
  shows "\<exists>c'. mgmt_run env ns c = Some c' \<and> serving_ok r buf m err s m' Finished c'"
  using assms(5,6)
proof (induction ns arbitrary: p c)
  case Nil
  then have "p = Finished" using t(1) by (cases p) auto
  then show ?case using Nil by simp
next
  case (Cons n ns)
  show ?case
  proof (cases "n = 0")
    case True
    then show ?thesis using Cons.IH [OF Cons.prems(1)] Cons.prems(2) idle_event by simp
  next
    case False
    then have n: "0 < n" by simp
    show ?thesis
    proof (cases "p = Finished")
      case True
      then have "mgmt_conn_event env n c = Some c" using Cons.prems(1) by (auto simp: mgmt_conn_event_def)
      then show ?thesis using Cons.IH [of Finished c] Cons.prems(1) True by simp
    next
      case False
      then obtain p' c' where step: "mgmt_conn_event env n c = Some c'" "serving_ok r buf m err s m' p' c'"
          "serving_left (length buf) t p' < serving_left (length buf) t p"
        using recv_hdr_progress [OF ok ex _ n] recv_pdu_progress [OF ok ex _ n] send_hdr_progress [OF ok t _ n]
          send_pdu_progress [OF ok t _ n] Cons.prems(1) by (cases p) blast+
      then show ?thesis using Cons.IH [OF step(2)] Cons.prems(2) n by simp
    qed
  qed
qed

text \<open>
  C3. The management channel executes a request exactly once, as the client sent it, and sends
  its whole answer. A connection opened with the request and its body written to it ends after
  any schedule of socket events that lets at least one byte through at each of sufficiently many
  events, whatever the sizes of the pieces and however many empty events lie between. The daemon
  has then executed the decoded request once on the body, the client has received the code of
  the error, the length and on success the text of the answer, and the daemon stops only after
  a successful system deletion.
\<close>

theorem mgmt_request_served:
  assumes "req_ok r buf" "mtask_execute env r (if buf = [] then None else Some buf) m = Some (err, s, m')"
    and "length (answer_text err s) < 2 ^ 31"
    and "SIZEOF_REQ + length buf + length (answer err s) \<le> length (filter (\<lambda>n. 0 < n) ns)"
  shows "\<exists>c. mgmt_run env ns \<lparr>mc_step = Open mtask_alloc m, mc_in = req_bytes r @ buf, mc_sent = []\<rparr> = Some c
     \<and> mc_step c = Closed (served r err m') \<and> mc_sent c = answer err s"
proof -
  let ?c = "\<lparr>mc_step = Open mtask_alloc m, mc_in = req_bytes r @ buf, mc_sent = []\<rparr>"
  have "serving_ok r buf m err s m' (Recv_hdr 0) ?c" by (simp add: mtask_alloc_def)
  moreover have "serving_left (length buf) (length (answer_text err s)) (Recv_hdr 0) \<le> length (filter (\<lambda>n. 0 < n) ns)"
    using assms(4) by (simp add: answer_def)
  ultimately show ?thesis
    using run_serves [OF assms(1,2) refl assms(3)] by fastforce
qed

definition ex_mgmt_env :: mgmt_env where
  "ex_mgmt_env = \<lparr>me_bsts = [], me_bsops = (\<lambda>_. null_bs_ops), me_dtypes = [], me_lu_template = (\<lambda>_. undefined)\<rparr>"

definition ex_driver :: tgt_driver where
  "ex_driver = \<lparr>drv_name = ''iscsi'', drv_state = DRIVER_INIT, drv_init = None, drv_exit = None,
     drv_target_create = None, drv_target_destroy = None, drv_portal_create = None, drv_portal_destroy = None,
     drv_update = None, drv_show = None, drv_stat = None, drv_default_bst = ''rdwr'', drv_target_list = []\<rparr>"

definition ex_mgmt :: mgmt_world where
  "ex_mgmt = \<lparr>mw_iw = ex_world, mw_drivers = [ex_driver], mw_system_active = True, mw_is_debug = False\<rparr>"

definition ex_req :: "u32 \<Rightarrow> u32 \<Rightarrow> nat \<Rightarrow> tgtadm_req" where
  "ex_req mode op n = \<lparr>rq_mode = mode, rq_op = op, rq_lld = replicate 64 0, rq_len = of_nat (SIZEOF_REQ + n),
     rq_tid = 1, rq_sid = 0, rq_lun = 0, rq_cid = 0, rq_host_no = 0, rq_device_type = 0, rq_ac_dir = 0,
     rq_pack = 0, rq_force = 0\<rparr>"

theorem mgmt_request_served_witness:
  "\<exists>c. mgmt_run ex_mgmt_env (replicate 150 1)
       \<lparr>mc_step = Open mtask_alloc ex_mgmt, mc_in = req_bytes (ex_req ADM_SYSTEM OP_DELETE 3) @ [97, 98, 0], mc_sent = []\<rparr> = Some c
     \<and> mc_step c = Closed (served (ex_req ADM_SYSTEM OP_DELETE 3) TGTADM_INVALID_REQUEST ex_mgmt)
     \<and> mc_sent c = answer TGTADM_INVALID_REQUEST []"
proof (rule mgmt_request_served)
  show "req_ok (ex_req ADM_SYSTEM OP_DELETE 3) [97, 98, 0]"
    by (simp add: req_ok_def ex_req_def)
  have ne: "adm_targets (iw_adm ex_world) \<noteq> []" by (simp add: ex_world_def iscsi_target_create_def)
  show "mtask_execute ex_mgmt_env (ex_req ADM_SYSTEM OP_DELETE 3) (if [97, 98, 0] = [] then None else Some [97, 98, 0]) ex_mgmt
      = Some (TGTADM_INVALID_REQUEST, [], ex_mgmt)"
    using ne by (simp add: mtask_execute_def req_driver_def ex_req_def cstr_def bytes_str_def sys_mgmt_def
        is_system_inactive_def ex_mgmt_def takeWhile_replicate)
qed (simp_all add: answer_def answer_text_def)

text \<open>
  C4. A system deletion stops the daemon without being executed. When the header of such a
  request announces a body of more than 8192 bytes, or a length below that of the header, the
  connection is closed at once; the code at its end takes the zero in the unused response for
  success and clears \<open>system_active\<close>, whether or not there are targets.
\<close>

theorem mgmt_shutdown_unchecked:
  assumes "length (rq_lld r) = 64" "rq_mode r = ADM_SYSTEM" "rq_op r = OP_DELETE"
    and "sint (rq_len r - of_nat SIZEOF_REQ) > MAX_MGT_BUFSIZE \<or> sint (rq_len r - of_nat SIZEOF_REQ) < 0"
  shows "mtask_recv_send_handler env ev_ok (Got (req_bytes r)) mtask_alloc m = Some (Closed (m\<lparr>mw_system_active := False\<rparr>))"
proof -
  have "put_bytes (replicate SIZEOF_REQ 0) 0 (req_bytes r) = req_bytes r"
    using length_req_bytes [OF assms(1)] by (simp add: put_bytes_def)
  moreover have "sint (rq_len r - of_nat SIZEOF_REQ) \<noteq> 0" using assms(4) by auto
  ultimately show ?thesis
    using assms length_req_bytes [OF assms(1)] req_of_bytes [OF assms(1)]
    by (simp add: mtask_recv_send_handler_def mtask_hdr_recv_def mtask_alloc_def mtask_out_def Let_def)
qed

theorem mgmt_shutdown_unchecked_witness:
  "mtask_recv_send_handler ex_mgmt_env True (Got (req_bytes (ex_req ADM_SYSTEM OP_DELETE 10000))) mtask_alloc ex_mgmt
     = Some (Closed (ex_mgmt\<lparr>mw_system_active := False\<rparr>)) \<and> adm_targets (mw_adm ex_mgmt) \<noteq> []"
proof
  show "mtask_recv_send_handler ex_mgmt_env True (Got (req_bytes (ex_req ADM_SYSTEM OP_DELETE 10000))) mtask_alloc ex_mgmt
     = Some (Closed (ex_mgmt\<lparr>mw_system_active := False\<rparr>))"
    by (rule mgmt_shutdown_unchecked) (simp_all add: ex_req_def)
qed (simp add: ex_mgmt_def ex_world_def iscsi_target_create_def)

end
