(* ===== verification/Iscsi_Driver.thy ===== *)
theory Iscsi_Driver
  imports Mgmt_Show
begin

text \<open>
  The iSCSI driver as the management channel sees it: portals (\<open>usr/iscsi/iscsi_tcp.c\<close>,
  \<open>usr/iscsi/iscsid.c\<close>), the settings of the iSNS client (\<open>usr/iscsi/isns.c\<close>), the
  texts about targets, sessions, connections and portals and the statistics
  (\<open>usr/iscsi/target.c\<close>), and the table of callbacks. \<open>None\<close> is a read or a write
  outside of an array.
\<close>

section \<open>The environment\<close>

text \<open>
  One address of the list \<open>getaddrinfo\<close> gives, with its numeric text, and what the calls
  for its socket return: \<open>socket\<close>, the option for IPv6 only, \<open>bind\<close>, \<open>listen\<close> and the
  registration with the event loop.
\<close>

record addrinfo =
  ai_family :: nat
  ai_addr :: string
  ai_socket :: int
  ai_v6only :: int
  ai_bind :: int
  ai_listen :: int
  ai_event_add :: int

text \<open>
  \<open>le_getaddrinfo\<close> gives \<open>errno\<close> or the list, for an address, a service and the portals
  that are open. \<open>le_stack\<close> is what the buffer for a value holds before it is written,
  \<open>le_isns_reach\<close> tells whether the address of the iSNS server resolves, and
  \<open>le_isns_registered\<close> whether targets are registered there.
\<close>

record lld_env =
  le_os :: os_env
  le_getaddrinfo :: "string option \<Rightarrow> string \<Rightarrow> iscsi_portal list \<Rightarrow> int + addrinfo list"
  le_portal_arguments :: "string option"
  le_stack :: string
  le_isns_reach :: "string \<Rightarrow> int \<Rightarrow> bool"
  le_isns_registered :: bool

section \<open>Portals\<close>

abbreviation (input) "ISCSI_LISTEN_PORT \<equiv> 3260 :: int"
abbreviation (input) "NR_LISTEN_FDS \<equiv> 8 :: nat"

text \<open>
  The body of the loop over the addresses, with the number of sockets so far. The portal
  is listed even when the event loop refuses its socket, which is closed then.
\<close>

definition portal_addr :: "int \<Rightarrow> int \<Rightarrow> addrinfo \<Rightarrow> nat \<times> iscsi_portal list \<Rightarrow> (nat \<times> iscsi_portal list) option" where
  "portal_addr port tpgt ai st =
     (let (nr_sock, ps) = st in
      if ai_socket ai < 0 then Some st
      else if ai_family ai = AF_INET6 \<and> ai_v6only ai \<noteq> 0 then Some st
      else if ai_bind ai \<noteq> 0 then Some st
      else if ai_listen ai \<noteq> 0 then Some st
      else if ai_event_add ai = 0 \<and> NR_LISTEN_FDS \<le> nr_sock then None
      else Some (if ai_event_add ai \<noteq> 0 then nr_sock else nr_sock + 1,
                 \<lparr>po_addr = ai_addr ai, po_port = port, po_tpgt = tpgt, po_fd = ai_socket ai, po_af = ai_family ai\<rparr> # ps))"

fun portal_addrs :: "int \<Rightarrow> int \<Rightarrow> addrinfo list \<Rightarrow> nat \<times> iscsi_portal list \<Rightarrow> (nat \<times> iscsi_portal list) option" where
  "portal_addrs port tpgt [] st = Some st"
| "portal_addrs port tpgt (ai # ais) st = do { st1 \<leftarrow> portal_addr port tpgt ai st; portal_addrs port tpgt ais st1 }"

definition iscsi_tcp_init_portal ::
  "lld_env \<Rightarrow> string option \<Rightarrow> int \<Rightarrow> int \<Rightarrow> iscsi_world \<Rightarrow> (int \<times> iscsi_world) option" where
  "iscsi_tcp_init_portal e addr port0 tpgt w =
     (let port = (if port0 \<noteq> 0 then port0 else ISCSI_LISTEN_PORT) in
      case le_getaddrinfo e addr (int_str port) (iw_portals w) of
        Inl errno \<Rightarrow> Some (- errno, w)
      | Inr res \<Rightarrow>
          do { (nr_sock, ps) \<leftarrow> portal_addrs port tpgt res (0, iw_portals w);
               Some (if nr_sock = 0 then 1 else 0, w\<lparr>iw_portals := ps\<rparr>) })"

definition iscsi_add_portal :: "lld_env \<Rightarrow> string option \<Rightarrow> int \<Rightarrow> int \<Rightarrow> iscsi_world \<Rightarrow> (int \<times> iscsi_world) option" where
  "iscsi_add_portal e addr port tpgt w =
     do { (ret, w1) \<leftarrow> iscsi_tcp_init_portal e addr port tpgt w; Some (if ret \<noteq> 0 then - 1 else 0, w1) }"

fun delete_first :: "('a \<Rightarrow> bool) \<Rightarrow> 'a list \<Rightarrow> 'a list" where
  "delete_first P [] = []"
| "delete_first P (x # xs) = (if P x then xs else x # delete_first P xs)"

definition iscsi_delete_portal :: "string \<Rightarrow> int \<Rightarrow> iscsi_world \<Rightarrow> int \<times> iscsi_world" where
  "iscsi_delete_portal addr port w =
     (let here = (\<lambda>p. addr = po_addr p \<and> port = po_port p) in
      if list_ex here (iw_portals w) then (0, w\<lparr>iw_portals := delete_first here (iw_portals w)\<rparr>) else (- 1, w))"

text \<open>\<open>strchr\<close>: the index of the first occurrence.\<close>

definition strchr_idx :: "char \<Rightarrow> string \<Rightarrow> nat option" where
  "strchr_idx c s = (if c \<in> set s then Some (length (takeWhile (\<lambda>x. x \<noteq> c) s)) else None)"

text \<open>
  The address and the port behind \<open>portal=\<close>; \<open>None\<close> when the bracket of an IPv6 address
  is not closed. The colon is searched in the whole rest of the text.
\<close>

definition parse_portal :: "string \<Rightarrow> (string \<times> int) option" where
  "parse_portal rest =
     (let bracket = (take 1 rest = ''[''); addr = (if bracket then drop 1 rest else rest) in
      if bracket \<and> strchr_idx (CHR '']'') addr = None then None
      else
        let q0 = (if bracket
                  then case strchr_idx (CHR '']'') addr of
                         None \<Rightarrow> None
                       | Some k \<Rightarrow> if take 1 (drop (k + 1) addr) = '':'' then Some (k + 1) else None
                  else strchr_idx (CHR '':'') addr);
            port = (case q0 of None \<Rightarrow> 0 | Some k \<Rightarrow> sint (atoi (drop (k + 1) addr)));
            q1 = (case q0 of None \<Rightarrow> strchr_idx (CHR '','') addr | Some k \<Rightarrow> Some k);
            len0 = (if bracket then case strchr_idx (CHR '']'') addr of None \<Rightarrow> 0 | Some k \<Rightarrow> k else 0);
            len = (if len0 \<noteq> 0 then len0 else case q1 of None \<Rightarrow> length addr | Some k \<Rightarrow> k)
        in Some (take len addr, port))"

definition portal_request ::
  "lld_env \<Rightarrow> bool \<Rightarrow> bool \<Rightarrow> string \<Rightarrow> int \<Rightarrow> iscsi_world \<Rightarrow> (int \<times> iscsi_world) option" where
  "portal_request e do_add do_delete addr port w =
     (if addr = [] then Some (0, w)
      else do { (ret, w1) \<leftarrow> (if do_add then iscsi_add_portal e (Some addr) port 1 w else Some (0, w));
                Some (if ret \<noteq> 0 then (- 1, w1)
                      else if do_delete
                      then let (ret2, w2) = iscsi_delete_portal addr port w1 in (if ret2 \<noteq> 0 then - 1 else 0, w2)
                      else (0, w1)) })"

text \<open>One item of the list of parameters; \<open>p\<close> is the text from its start on.\<close>

definition portal_param :: "lld_env \<Rightarrow> bool \<Rightarrow> bool \<Rightarrow> string \<Rightarrow> iscsi_world \<Rightarrow> (int \<times> iscsi_world) option" where
  "portal_param e do_add do_delete p w =
     (if take 6 p = ''portal''
      then if length p < 7 then None
           else case parse_portal (drop 7 p) of
                  None \<Rightarrow> Some (- 1, w)
                | Some (addr, port) \<Rightarrow> portal_request e do_add do_delete addr port w
      else if take 12 p = ''nop_interval''
      then if length p < 13 then None else Some (0, w\<lparr>iw_default_nop_interval := sint (atoi (drop 13 p))\<rparr>)
      else if take 9 p = ''nop_count''
      then if length p < 10 then None else Some (0, w\<lparr>iw_default_nop_count := sint (atoi (drop 10 p))\<rparr>)
      else Some (0, w))"

function iscsi_param_parse_portals :: "lld_env \<Rightarrow> bool \<Rightarrow> bool \<Rightarrow> string \<Rightarrow> iscsi_world \<Rightarrow> (int \<times> iscsi_world) option" where
  "iscsi_param_parse_portals e do_add do_delete p w =
     (if p = [] then Some (0, w)
      else do { (ret, w1) \<leftarrow> portal_param e do_add do_delete p w;
                if ret \<noteq> 0 then Some (- 1, w1)
                else iscsi_param_parse_portals e do_add do_delete (drop 1 (dropWhile (\<lambda>c. c \<noteq> CHR '','') p)) w1 })"
  by pat_completeness auto
termination
proof (relation "measure (\<lambda>(e, a, d, p, w). length p)", simp, clarsimp)
  fix p :: string
  assume "p \<noteq> []"
  moreover have "length (dropWhile (\<lambda>c. c \<noteq> CHR '','') p) \<le> length p" by (rule length_dropWhile_le)
  ultimately show "length (dropWhile (\<lambda>c. c \<noteq> CHR '','') p) - Suc 0 < length p"
    by (cases p) auto
qed

declare iscsi_param_parse_portals.simps [simp del]

definition iscsi_portal_create :: "lld_env \<Rightarrow> string \<Rightarrow> iscsi_world \<Rightarrow> (int \<times> iscsi_world) option" where
  "iscsi_portal_create e p w = iscsi_param_parse_portals e True False p w"

definition iscsi_portal_destroy :: "lld_env \<Rightarrow> string \<Rightarrow> iscsi_world \<Rightarrow> (int \<times> iscsi_world) option" where
  "iscsi_portal_destroy e p w = iscsi_param_parse_portals e False True p w"

section \<open>Start and stop\<close>

text \<open>
  The result of the parser and of the default portal is dropped. The timer of the pings
  and the list it visits are started here; their steps are modelled with the timers.
\<close>

definition iscsi_tcp_init :: "lld_env \<Rightarrow> iscsi_world \<Rightarrow> (int \<times> iscsi_world) option" where
  "iscsi_tcp_init e w =
     do { (_, w1) \<leftarrow> (case le_portal_arguments e of
                        None \<Rightarrow> Some (0, w) | Some p \<Rightarrow> iscsi_param_parse_portals e True False p w);
          (_, w2) \<leftarrow> (if iw_portals w1 = [] then iscsi_add_portal e None 3260 1 w1 else Some (0, w1));
          Some (0, w2) }"

definition iscsi_tcp_exit :: "iscsi_world \<Rightarrow> iscsi_world" where
  "iscsi_tcp_exit w = fold (\<lambda>p v. snd (iscsi_delete_portal (po_addr p) (po_port p) v)) (iw_portals w) w"

text \<open>The loop over the transports counts those that start.\<close>

fun init_transports ::
  "(iscsi_world \<Rightarrow> (int \<times> iscsi_world) option) list \<Rightarrow> nat \<Rightarrow> iscsi_world \<Rightarrow> (nat \<times> iscsi_world) option" where
  "init_transports [] nr w = Some (nr, w)"
| "init_transports (t # ts) nr w = do { (err, w1) \<leftarrow> t w; init_transports ts (if err = 0 then nr + 1 else nr) w1 }"

definition iscsi_init :: "(iscsi_world \<Rightarrow> (int \<times> iscsi_world) option) list \<Rightarrow> iscsi_world \<Rightarrow> (int \<times> iscsi_world) option" where
  "iscsi_init transports w = do { (nr, w1) \<leftarrow> init_transports transports 0 w; Some (if nr = 0 then 1 else 0, w1) }"

definition iscsi_exit :: "(iscsi_world \<Rightarrow> iscsi_world) option list \<Rightarrow> iscsi_world \<Rightarrow> iscsi_world" where
  "iscsi_exit transports w = fold (\<lambda>t v. case t of None \<Rightarrow> v | Some f \<Rightarrow> f v) transports w"

section \<open>The iSNS client\<close>

definition isns_show :: "iscsi_world \<Rightarrow> string" where
  "isns_show w =
     ''iSNS:'' @ NL @
     TAB1 @ ''iSNS='' @ (if iw_use_isns w then ''On'' else ''Off'') @ NL @
     TAB1 @ ''iSNSServerIP='' @ iw_isns_addr w @ NL @
     TAB1 @ ''iSNSServerPort='' @ int_str (iw_isns_port w) @ NL @
     TAB1 @ ''iSNSAccessControl='' @ (if iw_use_isns_ac w then ''On'' else ''Off'') @ NL"

text \<open>
  Starting and stopping the client, as far as the daemon's own state goes: the messages
  to the server are not modelled.
\<close>

definition isns_init :: "lld_env \<Rightarrow> iscsi_world \<Rightarrow> iscsi_world" where
  "isns_init e w = (if le_isns_reach e (iw_isns_addr w) (iw_isns_port w) then w\<lparr>iw_use_isns := True\<rparr> else w)"

definition isns_exit :: "lld_env \<Rightarrow> iscsi_world \<Rightarrow> iscsi_world" where
  "isns_exit e w =
     (if \<not> iw_use_isns w then w
      else w\<lparr>iw_targets := (if le_isns_registered e then map (\<lambda>it. it\<lparr>it_isns_list := []\<rparr>) (iw_targets w) else iw_targets w),
             iw_use_isns := False\<rparr>)"

text \<open>The pattern \<open>%d\<close> at the end of a token: the whole rest is one number for \<open>strtol\<close>.\<close>

definition strtol_whole :: "string \<Rightarrow> bool" where
  "strtol_whole str =
     (let s1 = dropWhile is_cspace str;
          s2 = (if take 1 s1 = ''-'' \<or> take 1 s1 = ''+'' then drop 1 s1 else s1);
          hex = ((take 2 s2 = ''0x'' \<or> take 2 s2 = ''0X'') \<and> snd (digits_val 16 0 (drop 2 s2)))
      in if hex then list_all (\<lambda>c. digit_val c < 16) (drop 2 s2)
         else s2 \<noteq> [] \<and> list_all (\<lambda>c. digit_val c < (if take 1 s2 = ''0'' then 8 else 10)) s2)"

definition isns_update_isns :: "lld_env \<Rightarrow> string \<Rightarrow> tgtadm_err \<times> iscsi_world \<Rightarrow> tgtadm_err \<times> iscsi_world" where
  "isns_update_isns e v r =
     (let (err, w) = r; tmp = take 15 v in
      if tmp = ''On'' then (err, if iw_use_isns w then w else isns_init e w)
      else if tmp = ''Off'' then (err, if iw_use_isns w then isns_exit e w else w)
      else (TGTADM_INVALID_REQUEST, w))"

text \<open>One parameter; an error stays, unless a later state is set without one.\<close>

definition isns_update_opt :: "lld_env \<Rightarrow> string \<Rightarrow> tgtadm_err \<times> iscsi_world \<Rightarrow> tgtadm_err \<times> iscsi_world" where
  "isns_update_opt e p r =
     (let (err, w) = r in
      case match_prefix ''iSNS='' p of Some v \<Rightarrow> isns_update_isns e v r | None \<Rightarrow>
      case match_prefix ''iSNSServerIP='' p of Some v \<Rightarrow> (err, w\<lparr>iw_isns_addr := take 1024 v\<rparr>) | None \<Rightarrow>
      if take 15 p = ''iSNSServerPort='' \<and> strtol_whole (drop 15 p)
      then (err, w\<lparr>iw_isns_port := sint (of_int (strtol True (drop 15 p)) :: u32)\<rparr>) else
      case match_prefix ''iSNSAccessControl='' p of Some v \<Rightarrow> (err, w\<lparr>iw_use_isns_ac := (take 15 v = ''On'')\<rparr>) | None \<Rightarrow>
      case match_prefix ''State='' p of
        Some v \<Rightarrow> (let (err1, st) = system_set_state (take 15 v) (iw_adm w) in (err1, w\<lparr>iw_adm := st\<rparr>))
      | None \<Rightarrow> (TGTADM_INVALID_REQUEST, w))"

definition isns_update :: "lld_env \<Rightarrow> string \<Rightarrow> iscsi_world \<Rightarrow> tgtadm_err \<times> iscsi_world" where
  "isns_update e params w = fold (isns_update_opt e) (strtok_all (CHR '','') [] params) (TGTADM_SUCCESS, w)"

section \<open>Updates\<close>

text \<open>
  The buffer of the target mode holds two texts, the name and its value, each ended by a
  zero byte; the driver gets it without the last one.
\<close>

definition iscsi_target_update ::
  "lld_env \<Rightarrow> u32 \<Rightarrow> u32 \<Rightarrow> int \<Rightarrow> u64 \<Rightarrow> u64 \<Rightarrow> u32 \<Rightarrow> string option \<Rightarrow> iscsi_world \<Rightarrow>
   (tgtadm_err \<times> iscsi_world) option" where
  "iscsi_target_update e mode op t sid l cid buf w =
     (if mode = 0
      then Some (case buf of None \<Rightarrow> (TGTADM_SUCCESS, w) | Some s \<Rightarrow> isns_update e (takeWhile (\<lambda>c. c \<noteq> NUL) s) w)
      else if mode = 1
      then if target_find_by_id t w = None then Some (TGTADM_NO_TARGET, w)
           else do { s \<leftarrow> buf;
                     if NUL \<notin> set s then None
                     else Some (update_target_mode (os_uninit (le_os e)) t (takeWhile (\<lambda>c. c \<noteq> NUL) s)
                                 (takeWhile (\<lambda>c. c \<noteq> NUL) (drop 1 (dropWhile (\<lambda>c. c \<noteq> NUL) s))) w) }
      else if mode = 6
      then Some (if op = 1 then conn_close_admin t sid cid w else (TGTADM_INVALID_REQUEST, w))
      else Some (TGTADM_INVALID_REQUEST, w))"

section \<open>Texts\<close>

text \<open>
  The parameters of a target or session. The buffer for a value is not cleared: a value
  without a text is printed as the one before it.
\<close>

fun show_params :: "string \<Rightarrow> nat list \<Rightarrow> param list \<Rightarrow> string" where
  "show_params stk [] ps = []"
| "show_params stk (i # is) ps =
     (let v = (case param_val_to_str session_keys i (p_val (ps ! i)) of None \<Rightarrow> stk | Some s \<Rightarrow> s) in
      k_name (session_keys ! i) @ ''='' @ v @ NL @ show_params v is ps)"

definition show_iscsi_param :: "lld_env \<Rightarrow> param list \<Rightarrow> string" where
  "show_iscsi_param e ps = show_params (le_stack e) [0..<length session_keys] ps"

definition target_sessions :: "int \<Rightarrow> iscsi_world \<Rightarrow> iscsi_session list" where
  "target_sessions t w = filter (\<lambda>ss. ss_target ss = t) (iw_sessions w)"

definition iscsi_target_find_session :: "int \<Rightarrow> u64 \<Rightarrow> iscsi_world \<Rightarrow> iscsi_session option" where
  "iscsi_target_find_session t sid w = find (\<lambda>ss. ucast (ss_tsih ss) = sid) (target_sessions t w)"

definition iscsi_target_show_session :: "lld_env \<Rightarrow> int \<Rightarrow> u64 \<Rightarrow> iscsi_world \<Rightarrow> tgtadm_err \<times> string" where
  "iscsi_target_show_session e t sid w =
     (TGTADM_SUCCESS, case iscsi_target_find_session t sid w of None \<Rightarrow> [] | Some ss \<Rightarrow> show_iscsi_param e (ss_session_param ss))"

definition iscsi_tcp_show :: "os_env \<Rightarrow> nat \<Rightarrow> string" where
  "iscsi_tcp_show env c =
     (case Option.bind (ep_getpeername env c) (os_getnameinfo env) of
        None \<Rightarrow> [] | Some dst \<Rightarrow> take 127 (''IP Address: '' @ dst))"

text \<open>The connections of all sessions of the target, not of the session that is asked for.\<close>

definition iscsi_target_show_connections :: "lld_env \<Rightarrow> int \<Rightarrow> iscsi_world \<Rightarrow> tgtadm_err \<times> string" where
  "iscsi_target_show_connections e t w =
     (TGTADM_SUCCESS,
      concat (map (\<lambda>ss. concat (map (\<lambda>c.
        case get_conn c w of
          None \<Rightarrow> []
        | Some conn \<Rightarrow>
            ''Session: '' @ dec_str (unat (ss_tsih ss)) @ NL @ TAB1 @ ''Connection: '' @ dec_str (unat (cn_cid conn)) @ NL @
            TAB2 @ ''Initiator: '' @ ss_initiator ss @ NL @ TAB2 @ iscsi_tcp_show (le_os e) c @ NL) (ss_conn_list ss)))
        (target_sessions t w)))"

definition portal_line :: "iscsi_portal \<Rightarrow> string" where
  "portal_line p =
     (let is_ipv6 = (CHR '':'' \<in> set (po_addr p)) in
      ''Portal: '' @ (if is_ipv6 then ''['' else []) @ po_addr p @ (if is_ipv6 then '']'' else []) @ '':'' @
      int_str (if po_port p \<noteq> 0 then po_port p else ISCSI_LISTEN_PORT) @ '','' @ int_str (po_tpgt p) @ NL)"

definition iscsi_target_show_portals :: "iscsi_world \<Rightarrow> tgtadm_err \<times> string" where
  "iscsi_target_show_portals w = (TGTADM_SUCCESS, concat (map portal_line (iw_portals w)))"

definition show_redirect_info :: "redirect_info \<Rightarrow> string" where
  "show_redirect_info ri =
     ''RedirectAddress='' @ ri_addr ri @ NL @ ''RedirectPort='' @ ri_port ri @ NL @
     (if ri_reason ri = ISCSI_LOGIN_STATUS_TGT_MOVED_TEMP then ''RedirectReason=Temporary''
      else if ri_reason ri = ISCSI_LOGIN_STATUS_TGT_MOVED_PERM then ''RedirectReason=Permanent''
      else ''RedirectReason=Unknown'') @ NL"

definition show_redirect_callback :: "string \<Rightarrow> string" where
  "show_redirect_callback callback = ''RedirectCallback='' @ callback @ NL"

definition iscsi_target_show ::
  "lld_env \<Rightarrow> u32 \<Rightarrow> int \<Rightarrow> u64 \<Rightarrow> u32 \<Rightarrow> u64 \<Rightarrow> iscsi_world \<Rightarrow> tgtadm_err \<times> string" where
  "iscsi_target_show e mode t sid cid l w =
     (if mode = 0 then (TGTADM_SUCCESS, isns_show w)
      else if mode = 3 then iscsi_target_show_portals w
      else case target_find_by_id t w of
        None \<Rightarrow> (TGTADM_NO_TARGET, [])
      | Some it \<Rightarrow>
          if mode = 1
          then (TGTADM_SUCCESS,
                case ri_callback (it_redirect_info it) of
                  Some cb \<Rightarrow> show_redirect_callback cb
                | None \<Rightarrow> if ri_addr (it_redirect_info it) \<noteq> [] then show_redirect_info (it_redirect_info it)
                          else show_iscsi_param e (it_session_param it))
          else if mode = 5 then iscsi_target_show_session e t sid w
          else if mode = 6 then iscsi_target_show_connections e t w
          else (TGTADM_INVALID_REQUEST, []))"

section \<open>Statistics\<close>

definition stat_iscsi_conn_hdr :: string where
  "stat_iscsi_conn_hdr =
     ''sid cid rxdata_octets txdata_octets dataout_pdus datain_pdus cmd_pdus rsp_pdus'' @ NL"

definition stat_iscsi_conn :: "iscsi_session \<Rightarrow> iscsi_connection \<Rightarrow> string" where
  "stat_iscsi_conn ss conn =
     (let st = io_stats (cn_io conn); num = (\<lambda>n v. '' '' @ pad_left n (dec_str v)) in
      pad_left 3 (dec_str (unat (ss_tsih ss))) @ '' '' @ pad_left 3 (dec_str (unat (cn_cid conn))) @
      num 13 (unat (rxdata_octets st)) @ num 13 (unat (txdata_octets st)) @
      num 12 (unat (dataout_pdus st)) @ num 11 (unat (datain_pdus st)) @
      num 8 (unat (scsicmd_pdus st)) @ num 8 (unat (scsirsp_pdus st)) @ NL)"

text \<open>The statistics of a session; the unit a request names is not used.\<close>

definition stat_iscsi_session :: "iscsi_session \<Rightarrow> iscsi_world \<Rightarrow> tgtadm_err \<times> string" where
  "stat_iscsi_session ss w =
     (let sid = ucast (ss_tsih ss) in
      case it_nexus_lookup (ss_target ss) sid (adm_targets (iw_adm w)) of
        None \<Rightarrow> (TGTADM_NO_SESSION, [])
      | Some itn \<Rightarrow>
          (TGTADM_SUCCESS,
           tgt_stat_header @
           concat (map (\<lambda>i. tgt_stat_line (ss_target ss) (itl_lu i) sid (itl_stat i)) (itn_itl_info_list itn)) @
           (if ss_conn_list ss \<noteq> [] then NL @ stat_iscsi_conn_hdr else []) @
           concat (map (\<lambda>c. case get_conn c w of None \<Rightarrow> [] | Some conn \<Rightarrow> stat_iscsi_conn ss conn) (ss_conn_list ss))))"

definition iscsi_stat_connection :: "u64 \<Rightarrow> u32 \<Rightarrow> iscsi_world \<Rightarrow> tgtadm_err \<times> string" where
  "iscsi_stat_connection sid cid w =
     (case session_lookup_by_tsih (ucast sid) w of
        None \<Rightarrow> (TGTADM_NO_SESSION, [])
      | Some ss \<Rightarrow>
          (case Option.bind (conn_find ss cid w) (\<lambda>c. get_conn c w) of
             None \<Rightarrow> (TGTADM_NO_CONNECTION, [])
           | Some conn \<Rightarrow> (TGTADM_SUCCESS, stat_iscsi_conn_hdr @ stat_iscsi_conn ss conn)))"

definition iscsi_stat_session_by_sid :: "u64 \<Rightarrow> iscsi_world \<Rightarrow> tgtadm_err \<times> string" where
  "iscsi_stat_session_by_sid sid w =
     (case session_lookup_by_tsih (ucast sid) w of None \<Rightarrow> (TGTADM_NO_SESSION, []) | Some ss \<Rightarrow> stat_iscsi_session ss w)"

definition iscsi_stat_device_by_id :: "u64 \<Rightarrow> u64 \<Rightarrow> iscsi_world \<Rightarrow> tgtadm_err \<times> string" where
  "iscsi_stat_device_by_id l sid w =
     (case session_lookup_by_tsih (ucast sid) w of None \<Rightarrow> (TGTADM_NO_SESSION, []) | Some ss \<Rightarrow> stat_iscsi_session ss w)"

definition iscsi_stat :: "u32 \<Rightarrow> int \<Rightarrow> u64 \<Rightarrow> u32 \<Rightarrow> u64 \<Rightarrow> iscsi_world \<Rightarrow> tgtadm_err \<times> string" where
  "iscsi_stat mode t sid cid l w =
     (if mode = 2 then iscsi_stat_device_by_id l sid w
      else if mode = 5 then iscsi_stat_session_by_sid sid w
      else if mode = 6 then iscsi_stat_connection sid cid w
      else (TGTADM_INVALID_REQUEST, []))"

section \<open>The table of callbacks\<close>

text \<open>\<open>perf\<close> is the command processor, which closing a session calls back.\<close>

definition iscsi_driver :: "lld_env \<Rightarrow> perform \<Rightarrow> tgt_driver" where
  "iscsi_driver e perf =
     \<lparr>drv_name = ''iscsi'', drv_state = DRIVER_REGD,
      drv_init = Some (iscsi_init [iscsi_tcp_init e]),
      drv_exit = Some (iscsi_exit [Some iscsi_tcp_exit]),
      drv_target_create = Some (\<lambda>t w. iscsi_target_create (iw_default_nop_interval w) (iw_default_nop_count w) t w),
      drv_target_destroy = Some (\<lambda>t force w. iscsi_target_destroy perf t w),
      drv_portal_create = Some (iscsi_portal_create e),
      drv_portal_destroy = Some (iscsi_portal_destroy e),
      drv_update = Some (iscsi_target_update e),
      drv_show = Some (iscsi_target_show e),
      drv_stat = Some iscsi_stat,
      drv_default_bst = ''rdwr'', drv_target_list = []\<rparr>"


end
