(* ===== verification/Iscsi_Driver_Thms.thy ===== *)
theory Iscsi_Driver_Thms
  imports Iscsi_Driver
begin

text \<open>
  Portals: the parser adds the portals of a list in order, stopping the driver closes
  every portal, and a portal that was made without a port cannot be deleted without one.
\<close>

section \<open>Numbers in a list\<close>

lemma digit_val_comma: "\<not> digit_val (CHR '','') < 10"
  by (simp add: digit_val_def Let_def)

lemma atoi_dec_str:
  assumes "int n < 2 ^ 31" "rest = [] \<or> (\<exists>cs. rest = CHR '','' # cs)"
  shows "sint (atoi (dec_str n @ rest)) = int n"
proof -
  have ne: "dec_str n \<noteq> []" by (simp add: dec_str.simps [of n])
  then have hd: "dropWhile is_cspace (dec_str n @ rest) = dec_str n @ rest"
    "take 1 (dec_str n @ rest) \<noteq> ''-''" "take 1 (dec_str n @ rest) \<noteq> ''+''"
    using dec_str_digits [of n] by (cases "dec_str n"; auto)+
  have "fst (digits_val 10 n rest) = n"
    using assms(2) digit_val_comma by auto
  moreover have "\<forall>c\<in>set (dec_str n). digit_val c < 10"
    using dec_str_digits [of n] by blast
  ultimately have "fst (digits_val 10 0 (dec_str n @ rest)) = n"
    using digits_val_append [of "dec_str n" 10 0 rest] digits_val_dec_str [of 0 n] by simp
  then have "strtol False (dec_str n @ rest) = int n"
    using hd assms(1) by (simp add: strtol_def Let_def strtol_sat_def)
  then show ?thesis
    using assms(1) by (simp add: atoi_def) (simp add: signed_of_nat signed_take_bit_int_eq_self)
qed

lemma comma_not_dec_str: "CHR '','' \<notin> set (dec_str n)"
  using dec_str_digits [of n] digit_val_comma by blast

lemma strchr_idx_append: "c \<notin> set xs \<Longrightarrow> strchr_idx c (xs @ c # ys) = Some (length xs)"
proof -
  assume "c \<notin> set xs"
  then have "takeWhile (\<lambda>x. x \<noteq> c) (xs @ c # ys) = xs" by (induction xs) auto
  then show ?thesis by (simp add: strchr_idx_def)
qed

section \<open>Lists of portals\<close>

text \<open>The text of a portal with its port, an IPv6 address in brackets, and of a list of them.\<close>

definition portal_item :: "string \<times> nat \<Rightarrow> string" where
  "portal_item p = ''portal='' @ (if CHR '':'' \<in> set (fst p) then ''['' @ fst p @ '']'' else fst p) @ '':'' @ dec_str (snd p)"

fun portal_list :: "(string \<times> nat) list \<Rightarrow> string" where
  "portal_list [] = []"
| "portal_list [p] = portal_item p"
| "portal_list (p # ps) = portal_item p @ '','' @ portal_list ps"

definition portal_ok :: "string \<times> nat \<Rightarrow> bool" where
  "portal_ok p \<longleftrightarrow> fst p \<noteq> [] \<and> take 1 (fst p) \<noteq> ''['' \<and> CHR '']'' \<notin> set (fst p) \<and> CHR '','' \<notin> set (fst p) \<and> snd p < 65536"

text \<open>The portals are opened one after the other until one fails.\<close>

fun add_portals :: "lld_env \<Rightarrow> (string \<times> nat) list \<Rightarrow> iscsi_world \<Rightarrow> (int \<times> iscsi_world) option" where
  "add_portals e [] w = Some (0, w)"
| "add_portals e ((a, n) # ps) w =
     do { (ret, w1) \<leftarrow> iscsi_add_portal e (Some a) (int n) 1 w;
          if ret \<noteq> 0 then Some (- 1, w1) else add_portals e ps w1 }"

lemma parse_portal_item:
  assumes "portal_ok (a, n)" "rest = [] \<or> (\<exists>cs. rest = CHR '','' # cs)"
  shows "parse_portal (drop 7 (portal_item (a, n) @ rest)) = Some (a, int n)"
proof (cases "CHR '':'' \<in> set a")
  case True
  have "strchr_idx (CHR '']'') (a @ CHR '']'' # CHR '':'' # dec_str n @ rest) = Some (length a)"
    using assms(1) by (intro strchr_idx_append) (simp add: portal_ok_def)
  then show ?thesis
    using True assms atoi_dec_str [of n rest] by (simp add: portal_item_def parse_portal_def portal_ok_def Let_def)
next
  case False
  have "strchr_idx (CHR '':'') (a @ CHR '':'' # dec_str n @ rest) = Some (length a)"
    using False by (rule strchr_idx_append)
  moreover have "take 1 (a @ CHR '':'' # dec_str n @ rest) \<noteq> ''[''"
    using assms(1) by (cases a) (auto simp: portal_ok_def)
  ultimately show ?thesis
    using False assms atoi_dec_str [of n rest] by (simp add: portal_item_def parse_portal_def portal_ok_def Let_def)
qed

lemma add_portal_neg: "iscsi_add_portal e a p t w = Some (r, w') \<Longrightarrow> r = 0 \<or> r = - 1"
  by (auto simp: iscsi_add_portal_def bind_eq_Some_conv split: if_splits)

lemma parse_portals_item:
  assumes "portal_ok (a, n)" "rest = [] \<or> (\<exists>cs. rest = CHR '','' # cs)"
  shows "iscsi_param_parse_portals e True False (portal_item (a, n) @ rest) w =
    do { (ret, w1) \<leftarrow> iscsi_add_portal e (Some a) (int n) 1 w;
         if ret \<noteq> 0 then Some (- 1, w1) else iscsi_param_parse_portals e True False (drop 1 rest) w1 }"
proof -
  let ?p = "portal_item (a, n) @ rest"
  have head: "take 6 ?p = ''portal''" "\<not> length ?p < 7" "?p \<noteq> []"
    by (simp_all add: portal_item_def)
  have "portal_param e True False ?p w = iscsi_add_portal e (Some a) (int n) 1 w"
  proof -
    have "portal_param e True False ?p w = portal_request e True False a (int n) w"
      unfolding portal_param_def using head parse_portal_item [OF assms] by simp
    also have "\<dots> = iscsi_add_portal e (Some a) (int n) 1 w"
      using assms(1) add_portal_neg
      by (cases "iscsi_add_portal e (Some a) (int n) 1 w") (fastforce simp: portal_request_def portal_ok_def)+
    finally show ?thesis .
  qed
  moreover have "CHR '','' \<notin> set (portal_item (a, n))"
    using assms(1) comma_not_dec_str by (auto simp: portal_item_def portal_ok_def)
  then have "drop 1 (dropWhile (\<lambda>c. c \<noteq> CHR '','') ?p) = drop 1 rest"
    using assms(2) by (subst dropWhile_append2) auto
  ultimately show ?thesis
    by (subst iscsi_param_parse_portals.simps) (simp only: head(3) if_False)
qed

text \<open>
  C38. A list of portals is parsed as it is meant: for addresses of IPv4 and IPv6, each
  with its port and the latter in brackets, the driver opens exactly these addresses and
  ports, in this order, until one of them fails; then it reports an error.
\<close>

theorem portals_parsed:
  assumes "\<forall>p \<in> set ps. portal_ok p"
  shows "iscsi_portal_create e (portal_list ps) w = add_portals e ps w"
  using assms
proof (induction ps arbitrary: w rule: portal_list.induct)
  case 1
  then show ?case by (simp add: iscsi_portal_create_def iscsi_param_parse_portals.simps)
next
  case (2 p)
  then show ?case
    using parse_portals_item [of "fst p" "snd p" "[]" e]
    by (cases p; cases "iscsi_add_portal e (Some (fst p)) (int (snd p)) 1 w")
       (auto simp: iscsi_portal_create_def iscsi_param_parse_portals.simps [of e True False "[]"])
next
  case (3 p q ps)
  then show ?case
    using parse_portals_item [of "fst p" "snd p" "CHR '','' # portal_list (q # ps)" e]
    by (cases p; cases "iscsi_add_portal e (Some (fst p)) (int (snd p)) 1 w") (auto simp: iscsi_portal_create_def)
qed

text \<open>A system that opens every address, and two portals for it.\<close>

definition ex_any_env :: lld_env where
  "ex_any_env = \<lparr>le_os = ex_env,
     le_getaddrinfo = (\<lambda>addr srv ps. Inr [\<lparr>ai_family = AF_INET, ai_addr = (case addr of None \<Rightarrow> ''0.0.0.0'' | Some a \<Rightarrow> a),
       ai_socket = 3 + int (length ps), ai_v6only = 0, ai_bind = 0, ai_listen = 0, ai_event_add = 0\<rparr>]),
     le_portal_arguments = None, le_stack = [], le_isns_reach = (\<lambda>addr port. False), le_isns_registered = False\<rparr>"

theorem portals_parsed_witness:
  "\<exists>w. iscsi_portal_create ex_any_env (portal_list [(''10.0.0.1'', 3260), (''fe80::1'', 3261)]) ex_world = Some (0, w) \<and>
     map (\<lambda>p. (po_addr p, po_port p)) (iw_portals w) = [(''fe80::1'', 3261), (''10.0.0.1'', 3260)]"
proof -
  have "iscsi_portal_create ex_any_env (portal_list [(''10.0.0.1'', 3260), (''fe80::1'', 3261)]) ex_world =
      add_portals ex_any_env [(''10.0.0.1'', 3260), (''fe80::1'', 3261)] ex_world"
    by (rule portals_parsed) (simp add: portal_ok_def)
  moreover have "iw_portals ex_world = []"
    by (simp add: ex_world_def iscsi_target_create_def)
  ultimately show ?thesis
    by (simp add: iscsi_add_portal_def iscsi_tcp_init_portal_def ex_any_env_def portal_addr_def Let_def)
qed

section \<open>Deleting portals\<close>

text \<open>Stopping the driver removes every portal, also when two have the same address and port.\<close>

lemma tcp_exit_closes_portals: "iw_portals (iscsi_tcp_exit w) = []"
proof -
  have "iw_portals (fold (\<lambda>p v. snd (iscsi_delete_portal (po_addr p) (po_port p) v)) ps v) = []" if "iw_portals v = ps" for ps v
    using that by (induction ps arbitrary: v) (simp_all add: iscsi_delete_portal_def Let_def)
  then show ?thesis by (simp add: iscsi_tcp_exit_def)
qed

lemma parse_portals_last:
  assumes "CHR '','' \<notin> set p" "p \<noteq> []" "portal_param e a d p w = r" "\<And>ret v. r = Some (ret, v) \<Longrightarrow> ret = 0 \<or> ret = - 1"
  shows "iscsi_param_parse_portals e a d p w = r"
proof -
  have "dropWhile (\<lambda>c. c \<noteq> CHR '','') p = []"
    using assms(1) by (auto simp: dropWhile_eq_Nil_conv)
  then have rest: "drop 1 (dropWhile (\<lambda>c. c \<noteq> CHR '','') p) = []" by (simp only: drop_Nil)
  have "iscsi_param_parse_portals e a d p w =
      Option.bind r (\<lambda>(ret, v). if ret \<noteq> 0 then Some (- 1, v) else iscsi_param_parse_portals e a d [] v)"
    unfolding iscsi_param_parse_portals.simps [of e a d p w] rest assms(3) using assms(2) by (simp only: if_False)
  moreover have "iscsi_param_parse_portals e a d [] v = Some (0, v)" for v
    by (simp add: iscsi_param_parse_portals.simps)
  ultimately show ?thesis
    using assms(4) by (cases r) fastforce+
qed

lemma parse_portals_single:
  assumes "CHR '','' \<notin> set p" "take 6 p = ''portal''" "7 \<le> length p" "parse_portal (drop 7 p) = Some (addr, port)" "addr \<noteq> []"
  shows "iscsi_param_parse_portals e True False p w = iscsi_add_portal e (Some addr) port 1 w"
    "iscsi_param_parse_portals e False True p w = Some (iscsi_delete_portal addr port w)"
proof -
  have p: "p \<noteq> []" "\<not> length p < 7" using assms(3) by auto
  have "portal_request e True False addr port w = iscsi_add_portal e (Some addr) port 1 w"
    using assms(5) add_portal_neg [of e "Some addr" port 1 w]
    by (cases "iscsi_add_portal e (Some addr) port 1 w") (fastforce simp: portal_request_def)+
  then show "iscsi_param_parse_portals e True False p w = iscsi_add_portal e (Some addr) port 1 w"
    using p assms(2,4) add_portal_neg by (intro parse_portals_last [OF assms(1)]) (simp_all add: portal_param_def)
  have "portal_request e False True addr port w = Some (iscsi_delete_portal addr port w)"
    using assms(5) by (simp add: portal_request_def iscsi_delete_portal_def Let_def)
  then show "iscsi_param_parse_portals e False True p w = Some (iscsi_delete_portal addr port w)"
    using p assms(2,4)
    by (intro parse_portals_last [OF assms(1)]) (simp_all add: portal_param_def iscsi_delete_portal_def Let_def split: if_splits)
qed

text \<open>
  C39. A portal that was created without a port cannot be deleted the same way. The
  listener gets the default port 3260, which is what the list of portals keeps; the
  request to delete takes a missing port as 0 and finds no such portal, so it fails and
  the portal stays. With the default port written out the deletion works and the list of
  portals is the old one.
\<close>

theorem portal_without_port_stays:
  assumes "a \<noteq> []" "take 1 a \<noteq> ''[''" "CHR '':'' \<notin> set a" "CHR '','' \<notin> set a"
    and "le_getaddrinfo e (Some a) (int_str 3260) (iw_portals w) = Inr [ai]" "ai_addr ai = a"
    and "0 \<le> ai_socket ai" "ai_v6only ai = 0" "ai_bind ai = 0" "ai_listen ai = 0" "ai_event_add ai = 0"
    and "\<forall>p \<in> set (iw_portals w). po_port p \<noteq> 0"
  shows "\<exists>w'. iscsi_portal_create e (''portal='' @ a) w = Some (0, w') \<and>
    map po_addr (iw_portals w') = a # map po_addr (iw_portals w) \<and> map po_port (iw_portals w') = 3260 # map po_port (iw_portals w) \<and>
    iscsi_portal_destroy e (''portal='' @ a) w' = Some (- 1, w') \<and>
    iscsi_portal_destroy e (''portal='' @ a @ '':3260'') w' = Some (0, w)"
proof -
  let ?w = "w\<lparr>iw_portals := \<lparr>po_addr = a, po_port = 3260, po_tpgt = 1, po_fd = ai_socket ai, po_af = ai_family ai\<rparr> # iw_portals w\<rparr>"
  have idx: "strchr_idx (CHR '':'') a = None" "strchr_idx (CHR '','') a = None"
    using assms(3,4) by (simp_all add: strchr_idx_def)
  have "parse_portal (drop 7 (''portal='' @ a)) = Some (a, 0)"
    using assms(1,2) idx by (simp add: parse_portal_def Let_def)
  note bare = parse_portals_single [of "''portal='' @ a", OF _ _ _ this assms(1)]
  have "atoi ''3260'' = 3260" by code_simp
  moreover have "take 1 (a @ '':3260'') \<noteq> ''[''"
    using assms(1,2) by (cases a) auto
  ultimately have "parse_portal (drop 7 (''portal='' @ a @ '':3260'')) = Some (a, 3260)"
    using assms(1,2) strchr_idx_append [OF assms(3), of "''3260''"] by (simp add: parse_portal_def Let_def)
  note full = parse_portals_single [of "''portal='' @ a @ '':3260''", OF _ _ _ this assms(1)]
  have "iscsi_add_portal e (Some a) 0 1 w = Some (0, ?w)"
    using assms(5-11) by (simp add: iscsi_add_portal_def iscsi_tcp_init_portal_def portal_addr_def)
  then have "iscsi_portal_create e (''portal='' @ a) w = Some (0, ?w)"
    using bare(1) [of e w] assms(4) by (simp add: iscsi_portal_create_def)
  moreover have "iscsi_portal_destroy e (''portal='' @ a) ?w = Some (- 1, ?w)"
    using bare(2) [of e ?w] assms(4,12) by (auto simp: iscsi_portal_destroy_def iscsi_delete_portal_def list_ex_iff)
  moreover have "iscsi_portal_destroy e (''portal='' @ a @ '':3260'') ?w = Some (0, w)"
    using full(2) [of e ?w] assms(4) by (simp add: iscsi_portal_destroy_def iscsi_delete_portal_def)
  ultimately show ?thesis by (intro exI [of _ ?w]) simp
qed

theorem portal_without_port_stays_witness:
  "\<exists>w'. iscsi_portal_create ex_any_env ''portal=10.0.0.1'' ex_world = Some (0, w') \<and>
     iscsi_portal_destroy ex_any_env ''portal=10.0.0.1'' w' = Some (- 1, w') \<and>
     iscsi_portal_destroy ex_any_env ''portal=10.0.0.1:3260'' w' = Some (0, ex_world)"
proof -
  have "iw_portals ex_world = []"
    by (simp add: ex_world_def iscsi_target_create_def)
  then show ?thesis
    using portal_without_port_stays [of "''10.0.0.1''" ex_any_env ex_world] by (simp add: ex_any_env_def) blast
qed


end
