(* ===== verification/Hst_Frame.thy ===== *)
theory Hst_Frame
  imports Scsi_Perform Target_Inv Bs_Rdwr
begin

text \<open>
  What a command may change of the state that the invariant of the core speaks of
  (\<open>scsi_cmd_perform\<close> and the handlers of \<open>usr/scsi.c\<close>, \<open>usr/spc.c\<close> and \<open>usr/sbc.c\<close>): the
  nexuses and their entries stay, the unit stays the same unit with the same entries,
  and only the nexus of the command can become the one that reserves it.
\<close>

unbundle bit_operations_syntax

section \<open>The frame of a command\<close>

definition itns_view :: "it_nexus list \<Rightarrow> (u64 \<times> (u64 \<times> u64) list) list" where
  "itns_view itns = map (\<lambda>n. (itn_id n, map (\<lambda>i. (itl_lu i, itl_itn_id i)) (itn_itl_info_list n))) itns"

definition hst_view :: "hst \<Rightarrow> u64 list \<times> int \<times> u64 \<times> u64 list \<times> u64 \<times> u64 \<times> (u64 \<times> (u64 \<times> u64) list) list" where
  "hst_view s =
     (hs_luns s, hs_tid s, lun (hs_lu s), lu_itl_info_list (hs_lu s), cmd_itn_id (hs_cmd s), c_dev (hs_cmd s),
      itns_view (hs_itns s))"

definition kept :: "hst \<Rightarrow> hst \<Rightarrow> bool" where
  "kept s s' \<longleftrightarrow>
     hst_view s' = hst_view s \<and> reserve_id (hs_lu s') \<in> {reserve_id (hs_lu s), 0, cmd_itn_id (hs_cmd s)}"

definition keeps :: "(hst \<Rightarrow> (int \<times> hst) option) \<Rightarrow> bool" where
  "keeps f \<longleftrightarrow> (\<forall>s r s'. f s = Some (r, s') \<longrightarrow> kept s s')"

lemma keepsI: "(\<And>s r s'. f s = Some (r, s') \<Longrightarrow> kept s s') \<Longrightarrow> keeps f"
  by (simp add: keeps_def)

lemma keepsD: "keeps f \<Longrightarrow> f s = Some (r, s') \<Longrightarrow> kept s s'"
  by (simp add: keeps_def)

lemma kept_refl [simp]: "kept s s"
  by (simp add: kept_def)

lemma kept_trans: "kept s t \<Longrightarrow> kept t u \<Longrightarrow> kept s u"
  by (auto simp: kept_def hst_view_def)

lemma kept_via: "kept t s' \<Longrightarrow> kept s t \<Longrightarrow> kept s s'"
  by (rule kept_trans)

lemma kept_cmd [simp]:
  "kept s (s\<lparr>hs_cmd := c\<rparr>) \<longleftrightarrow> cmd_itn_id c = cmd_itn_id (hs_cmd s) \<and> c_dev c = c_dev (hs_cmd s)"
  by (auto simp: kept_def hst_view_def)

lemma kept_lu [simp]:
  "kept s (s\<lparr>hs_lu := l\<rparr>) \<longleftrightarrow> lun l = lun (hs_lu s) \<and> lu_itl_info_list l = lu_itl_info_list (hs_lu s) \<and>
     reserve_id l \<in> {reserve_id (hs_lu s), 0, cmd_itn_id (hs_cmd s)}"
  by (auto simp: kept_def hst_view_def)

lemma kept_itns [simp]: "kept s (s\<lparr>hs_itns := n\<rparr>) \<longleftrightarrow> itns_view n = itns_view (hs_itns s)"
  by (auto simp: kept_def hst_view_def)

lemma kept_lu_itns [simp]:
  "kept s (s\<lparr>hs_lu := l, hs_itns := n\<rparr>) \<longleftrightarrow> kept s (s\<lparr>hs_lu := l\<rparr>) \<and> kept s (s\<lparr>hs_itns := n\<rparr>)"
  "kept s (s\<lparr>hs_itns := n, hs_lu := l\<rparr>) \<longleftrightarrow> kept s (s\<lparr>hs_lu := l\<rparr>) \<and> kept s (s\<lparr>hs_itns := n\<rparr>)"
  by (auto simp: kept_def hst_view_def)

section \<open>Parts of the state\<close>

lemma cmd_ids [simp]:
  "cmd_itn_id (sense_data_build l k a c) = cmd_itn_id c" "c_dev (sense_data_build l k a c) = c_dev c"
  "cmd_itn_id (scsi_set_in_resid_by_actual n c) = cmd_itn_id c" "c_dev (scsi_set_in_resid_by_actual n c) = c_dev c"
  "cmd_itn_id (scsi_set_out_resid_by_actual n c) = cmd_itn_id c" "c_dev (scsi_set_out_resid_by_actual n c) = c_dev c"
  "cmd_itn_id (set_in_buffer b c) = cmd_itn_id c" "c_dev (set_in_buffer b c) = c_dev c"
  "cmd_itn_id (set_out_length n c) = cmd_itn_id c" "c_dev (set_out_length n c) = c_dev c"
  by (simp_all add: sense_data_build_def scsi_set_in_resid_by_actual_def scsi_set_out_resid_by_actual_def set_in_buffer_def
      set_out_length_def Let_def)

lemma kept_sense [simp]:
  "kept s (snd (sense_exit k a s))" "kept s (snd (sense_only k a s))" "kept s (snd (sense_reset k a s))"
  by (simp_all add: sense_exit_def sense_only_def sense_reset_def)

lemma itns_view_map:
  "(\<And>n. itn_id (f n) = itn_id n \<and>
       map (\<lambda>i. (itl_lu i, itl_itn_id i)) (itn_itl_info_list (f n)) = map (\<lambda>i. (itl_lu i, itl_itn_id i)) (itn_itl_info_list n)) \<Longrightarrow>
   itns_view (map f ns) = itns_view ns"
  by (simp add: itns_view_def)

lemma map_upd_first: "(\<And>x. g (f x) = g x) \<Longrightarrow> map g (upd_first P f xs) = map g xs"
  by (induction xs) auto

lemma map_lupdate_keep: "(\<And>x. g (f x) = g x) \<Longrightarrow> map g (lupdate key k f xs) = map g xs"
  by (simp add: lupdate_def)

lemma ua_sense_add_ids [simp]: "itl_lu (ua_sense_add lu asc i) = itl_lu i" "itl_itn_id (ua_sense_add lu asc i) = itl_itn_id i"
  by (simp_all add: ua_sense_add_def)

lemma itns_view_ua [simp]:
  "itns_view (ua_sense_add_other_it_nexus nid lu asc itns) = itns_view itns"
  "itns_view (ua_sense_add_it_nexus nid lu asc itns) = itns_view itns"
  by (auto simp: ua_sense_add_other_it_nexus_def ua_sense_add_it_nexus_def itns_view_def map_upd_first)

lemma itns_view_itl_update:
  "(\<And>i. itl_lu (f i) = itl_lu i \<and> itl_itn_id (f i) = itl_itn_id i) \<Longrightarrow> itns_view (itl_update nid l f itns) = itns_view itns"
  by (simp add: itl_update_def itns_view_def map_lupdate_keep)

lemma itns_view_fold: "(\<And>x n. itns_view (f x n) = itns_view n) \<Longrightarrow> itns_view (fold f xs ns) = itns_view ns"
  by (induction xs arbitrary: ns) auto

lemma kept_fold: "(\<And>x s. kept s (f x s)) \<Longrightarrow> kept s (fold f xs s)"
  by (induction xs arbitrary: s) (auto intro: kept_trans)

lemma lu_ids [simp]:
  "lun (upd_reg i g lu) = lun lu" "lu_itl_info_list (upd_reg i g lu) = lu_itl_info_list lu" "reserve_id (upd_reg i g lu) = reserve_id lu"
  "lun (unregister i lu) = lun lu" "lu_itl_info_list (unregister i lu) = lu_itl_info_list lu" "reserve_id (unregister i lu) = reserve_id lu"
  "lun (upd_mode_page pc sub h lu) = lun lu" "lu_itl_info_list (upd_mode_page pc sub h lu) = lu_itl_info_list lu"
  "reserve_id (upd_mode_page pc sub h lu) = reserve_id lu"
  by (simp_all add: upd_reg_def unregister_def upd_mode_page_def)

section \<open>The handlers\<close>

text \<open>The results of a handler that only answers: the state changes in the command alone.\<close>

lemma kept_sense_result:
  "sense_exit k a s = (r, s') \<Longrightarrow> kept s s'" "sense_only k a s = (r, s') \<Longrightarrow> kept s s'" "sense_reset k a s = (r, s') \<Longrightarrow> kept s s'"
  using kept_sense [of s k a] by auto

lemma kept_return_data: "return_data d n a s = Some (r, s') \<Longrightarrow> kept s s'"
  by (auto simp: return_data_def bind_eq_Some_conv)

lemma kept_illegal: "illegal_cdb s = Some (r, s') \<Longrightarrow> kept s s'" "pr_invalid_field s = Some (r, s') \<Longrightarrow> kept s s'"
  by (auto simp: illegal_cdb_def pr_invalid_field_def intro: kept_sense_result)

lemma kept_inc_prgeneration [simp]: "kept s (inc_prgeneration t) \<longleftrightarrow> kept s t"
  by (simp add: inc_prgeneration_def kept_def hst_view_def)

lemmas kept_dests = kept_return_data kept_illegal kept_sense_result

lemma keeps_inquiry: "keeps spc_inquiry"
  by (rule keepsI)
     (auto simp: spc_inquiry_def Let_def bind_eq_Some_conv split: if_splits option.splits prod.splits intro: kept_dests)

lemma keeps_report_luns: "keeps spc_report_luns"
  by (rule keepsI) (auto simp: spc_report_luns_def Let_def bind_eq_Some_conv split: if_splits intro: kept_dests)

lemma keeps_start_stop: "keeps spc_start_stop"
  by (rule keepsI)
     (auto simp: spc_start_stop_def Let_def spc_lu_offline_def spc_lu_online_def kept_def hst_view_def split: if_splits)

lemma keeps_test_unit: "keeps spc_test_unit"
  by (rule keepsI) (auto simp: spc_test_unit_def Let_def split: if_splits)

lemma keeps_prevent_allow: "keeps spc_prevent_allow_media_removal"
  by (rule keepsI) (auto simp: spc_prevent_allow_media_removal_def Let_def itns_view_itl_update split: if_splits)

lemma keeps_mode_sense: "keeps spc_mode_sense"
proof (rule keepsI)
  fix s r s'
  assume *: "spc_mode_sense s = Some (r, s')"
  have cmd: "illegal_cdb (upd_cmd f s) = Some (r, s') \<Longrightarrow> kept s (upd_cmd f s) \<Longrightarrow> kept s s'" for f
    using kept_illegal(1) kept_trans by blast
  show "kept s s'"
    using * by (auto simp: spc_mode_sense_def Let_def bind_eq_Some_conv split: if_splits option.splits prod.splits
        intro: kept_dests cmd)
qed

lemma keeps_report_opcodes: "keeps spc_report_supported_opcodes"
  by (rule keepsI)
     (auto simp: spc_report_supported_opcodes_def report_opcodes_all_def report_opcode_one_def Let_def bind_eq_Some_conv
       split: if_splits intro: kept_dests kept_trans)

lemma keeps_send_diagnostics: "keeps spc_send_diagnostics"
  by (rule keepsI) (auto simp: spc_send_diagnostics_def split: if_splits intro: kept_dests)

lemma keeps_request_sense: "keeps spc_request_sense"
  by (rule keepsI) (auto simp: spc_request_sense_def Let_def bind_eq_Some_conv)

lemma keeps_illegal_op: "keeps spc_illegal_op"
  by (rule keepsI) (auto simp: spc_illegal_op_def intro: kept_sense_result)

text \<open>MODE SELECT, for a page update that keeps the identity of the unit.\<close>

definition lu_same :: "scsi_lu \<Rightarrow> scsi_lu \<Rightarrow> bool" where
  "lu_same lu l \<longleftrightarrow> lun l = lun lu \<and> lu_itl_info_list l = lu_itl_info_list lu \<and> reserve_id l = reserve_id lu"

lemma lu_same_refl [simp]: "lu_same lu lu"
  by (simp add: lu_same_def)

lemma lu_same_trans: "lu_same a b \<Longrightarrow> lu_same b c \<Longrightarrow> lu_same a c"
  by (simp add: lu_same_def)

lemma mode_select_loop_same:
  assumes "\<And>d lu. lu_same lu (fst (snd (update d lu)))"
  shows "lu_same lu (fst (snd (mode_select_loop update data n off lu ua)))"
  using assms
proof (induction update data n off lu ua rule: mode_select_loop.induct)
  case (1 update data n off lu ua)
  obtain err l ch where u: "update (drop off data) lu = (err, l, ch)" by (cases "update (drop off data) lu") auto
  then have "lu_same lu l" using "1.prems" [of lu "drop off data"] by simp
  then show ?case
    using "1.IH" [OF _ _ _ _ _ u [symmetric]] "1.prems" u
    by (subst mode_select_loop.simps) (auto intro: lu_same_trans split: option.splits)
qed

lemma sbc_page_update_same: "lu_same lu (fst (snd (sbc_mode_page_update d lu)))"
  by (auto simp: sbc_mode_page_update_def lu_same_def upd_attrs_def Let_def split: option.splits)

lemma mode_select_loop_sameD:
  assumes "\<And>d lu. lu_same lu (fst (snd (update d lu)))" "mode_select_loop update data n off lu ua = (x, l, ua')"
  shows "lu_same lu l"
  using mode_select_loop_same [of update lu data n off ua] assms by simp

lemma keeps_mode_select: "keeps sbc_mode_select"
proof (rule keepsI)
  fix s r s'
  assume *: "sbc_mode_select s = Some (r, s')"
  note loop = mode_select_loop_sameD [OF sbc_page_update_same]
  show "kept s s'"
    using * by (auto simp: sbc_mode_select_def spc_mode_select_def Let_def lu_same_def
        split: if_splits option.splits prod.splits dest!: kept_dests loop elim!: kept_via)
qed

text \<open>The block commands, for a backing store whose submit function keeps the frame.\<close>

lemma kept_setup [simp]:
  "cmd_itn_id (sbc_rw_setup lu lba cnt c) = cmd_itn_id c" "c_dev (sbc_rw_setup lu lba cnt c) = c_dev c"
  by (simp_all add: sbc_rw_setup_def Let_def)

lemma keeps_sbc_mode_sense: "keeps sbc_mode_sense"
  by (rule keepsI)
     (auto simp: sbc_mode_sense_def Let_def bind_eq_Some_conv split: if_splits dest!: keepsD [OF keeps_mode_sense] elim!: kept_trans)

lemma keeps_format_unit: "keeps sbc_format_unit"
  by (rule keepsI) (auto simp: sbc_format_unit_def Let_def split: if_splits dest!: kept_dests)

lemma keeps_unmap: "keeps submit \<Longrightarrow> keeps (sbc_unmap submit)"
  by (rule keepsI)
     (auto simp: sbc_unmap_def Let_def bind_eq_Some_conv split: if_splits dest!: kept_dests keepsD elim!: kept_via)

lemma keeps_rw: "keeps submit \<Longrightarrow> keeps (sbc_rw submit)"
proof (rule keepsI)
  fix s r s'
  assume k: "keeps submit" and *: "sbc_rw submit s = Some (r, s')"
  have "kept s t" if "submit (s\<lparr>hs_cmd := sbc_rw_setup (hs_lu s) lba cnt (hs_cmd s)\<rparr>) = Some (x, t)" for lba cnt x t
    using kept_via [OF keepsD [OF k that]] by simp
  then show "kept s s'"
    using * by (auto simp: sbc_rw_def bind_eq_Some_conv split: if_splits sum.splits dest!: kept_dests elim!: kept_via)
qed

lemma keeps_reserve: "keeps sbc_reserve"
  by (rule keepsI) (auto simp: sbc_reserve_def split: if_splits)

lemma keeps_release: "keeps sbc_release"
  by (rule keepsI) (auto simp: sbc_release_def split: if_splits)

lemma keeps_read_capacity: "keeps sbc_read_capacity"
  by (rule keepsI)
     (auto simp: sbc_read_capacity_def Let_def bind_eq_Some_conv split: if_splits dest!: kept_dests)

lemma keeps_verify: "keeps submit \<Longrightarrow> keeps (sbc_verify submit)"
  by (rule keepsI)
     (auto simp: sbc_verify_def Let_def bind_eq_Some_conv split: if_splits dest!: kept_dests keepsD elim!: kept_via)

lemma keeps_readcapacity16: "keeps sbc_readcapacity16"
  by (rule keepsI) (auto simp: sbc_readcapacity16_def Let_def split: if_splits dest!: kept_dests)

lemma keeps_getlbastatus: "keeps (sbc_getlbastatus d h)"
  by (rule keepsI)
     (auto simp: sbc_getlbastatus_def Let_def bind_eq_Some_conv split: if_splits dest!: kept_dests)

lemma keeps_sync_cache: "keeps submit \<Longrightarrow> keeps (sbc_sync_cache submit)"
  by (rule keepsI)
     (auto simp: sbc_sync_cache_def Let_def bind_eq_Some_conv split: if_splits dest!: kept_dests keepsD elim!: kept_via)

text \<open>Persistent reservations: the registrations and the holder are not part of the frame.\<close>

lemma kept_unregister_and_clean: "unregister_and_clean reg s = Some t \<Longrightarrow> kept s t"
  by (auto simp: unregister_and_clean_def Let_def bind_eq_Some_conv itns_view_fold split: if_splits option.splits)

lemma keeps_pr_register: "keeps (spc_pr_register mem)"
  by (rule keepsI)
     (auto simp: spc_pr_register_def Let_def bind_eq_Some_conv split: if_splits option.splits
       dest!: kept_dests kept_unregister_and_clean)

lemma keeps_pr_reserve: "keeps spc_pr_reserve"
  by (rule keepsI)
     (auto simp: spc_pr_reserve_def Let_def bind_eq_Some_conv split: if_splits option.splits dest!: kept_dests)

lemma keeps_pr_release: "keeps spc_pr_release"
  by (rule keepsI)
     (auto simp: spc_pr_release_def Let_def bind_eq_Some_conv itns_view_fold split: if_splits option.splits dest!: kept_dests)

lemma keeps_pr_clear: "keeps spc_pr_clear"
  by (rule keepsI)
     (auto simp: spc_pr_clear_def Let_def itns_view_fold split: if_splits option.splits dest!: kept_dests)

lemma kept_preempt_loop: "kept s (preempt_loop reg k a b s)"
  unfolding preempt_loop_def by (rule kept_fold) auto

lemma kept_preempt_from: "kept s t \<Longrightarrow> kept s (preempt_loop reg k a b t)"
  using kept_preempt_loop kept_trans by blast

lemma keeps_pr_preempt: "keeps spc_pr_preempt"
  by (rule keepsI)
     (auto simp: spc_pr_preempt_def Let_def bind_eq_Some_conv split: if_splits option.splits dest!: kept_dests
       intro!: kept_preempt_from)

lemma keeps_pr_move: "keeps (spc_pr_register_and_move tpid)"
  by (rule keepsI)
     (auto simp: spc_pr_register_and_move_def Let_def bind_eq_Some_conv split: if_splits option.splits prod.splits
       dest!: kept_dests)

lemma keeps_pr_in:
  "keeps spc_pr_read_keys" "keeps spc_pr_read_reservation" "keeps spc_pr_report_capabilities"
  by (rule keepsI, auto simp: spc_pr_read_keys_def spc_pr_read_reservation_def spc_pr_report_capabilities_def Let_def
      bind_eq_Some_conv split: if_splits dest!: kept_dests)+


section \<open>The command processor\<close>

lemmas leaf_keeps =
  keeps_inquiry keeps_report_luns keeps_start_stop keeps_test_unit keeps_prevent_allow keeps_mode_sense keeps_report_opcodes
  keeps_send_diagnostics keeps_request_sense keeps_illegal_op keeps_mode_select keeps_sbc_mode_sense keeps_format_unit
  keeps_unmap keeps_rw keeps_reserve keeps_release keeps_read_capacity keeps_verify keeps_readcapacity16 keeps_getlbastatus
  keeps_sync_cache keeps_pr_register keeps_pr_reserve keeps_pr_release keeps_pr_clear keeps_pr_preempt keeps_pr_move keeps_pr_in

lemma kept_upd_itl: "(\<And>i. itl_lu (f i) = itl_lu i \<and> itl_itn_id (f i) = itl_itn_id i) \<Longrightarrow> kept s (upd_itl f s)"
  by (simp add: upd_itl_def itns_view_itl_update)

lemma itl_lookup_ids:
  assumes "itns_wf itns" "itl_lookup nid l itns = Some i"
  shows "itl_lu i = l" "itl_itn_id i = nid"
proof -
  obtain n where "lfind itn_id nid itns = Some n" "lfind itl_lu l (itn_itl_info_list n) = Some i"
    using assms(2) by (auto simp: itl_lookup_def it_nexus_lu_info_lookup_def bind_eq_Some_conv)
  then show "itl_lu i = l" "itl_itn_id i = nid"
    using assms(1) by (auto simp: itns_wf_def list_all_iff dest!: lfind_SomeD)
qed

lemma itns_view_replace:
  assumes "itns_wf itns" "itl_lu i = l" "itl_itn_id i = nid"
  shows "itns_view (itl_update nid l (\<lambda>_. i) itns) = itns_view itns"
  using assms by (auto simp: itns_view_def itl_update_def lupdate_def itns_wf_def list_all_iff)

lemma ua_sense_del_frame:
  "ua_sense_del del i c = (r, i', c') \<Longrightarrow>
     itl_lu i' = itl_lu i \<and> itl_itn_id i' = itl_itn_id i \<and> cmd_itn_id c' = cmd_itn_id c \<and> c_dev c' = c_dev c"
  by (auto simp: ua_sense_del_def Let_def split: list.splits if_splits)

lemma kept_ua_sense_del:
  assumes "itns_wf (hs_itns s)" "hs_ua_sense_del del s = Some (b, t)"
  shows "kept s t"
proof -
  obtain i where look: "itl_lookup (cmd_itn_id (hs_cmd s)) (c_dev (hs_cmd s)) (hs_itns s) = Some i"
    using assms(2) by (auto simp: hs_ua_sense_del_def bind_eq_Some_conv)
  obtain r i' c where del: "ua_sense_del del i (hs_cmd s) = (r, i', c)" by (cases "ua_sense_del del i (hs_cmd s)")
  note i = look del
  have t: "t = (upd_itl (\<lambda>_. i') s)\<lparr>hs_cmd := c\<rparr>"
    using assms(2) i by (simp add: hs_ua_sense_del_def)
  have "kept s (upd_itl (\<lambda>_. i') s)"
    using itns_view_replace [OF assms(1)] itl_lookup_ids [OF assms(1) i(1)] ua_sense_del_frame [OF i(2)]
    by (simp add: upd_itl_def)
  then show ?thesis
    using ua_sense_del_frame [OF i(2)] t by (simp add: upd_itl_def kept_def hst_view_def)
qed

lemma kept_clear_luns: "kept s (clear_luns_changed s)"
  by (simp add: clear_luns_changed_def itns_view_def lupdate_def ua_sense_clear_def comp_def)

lemma itns_wf_view:
  "itns_wf itns \<longleftrightarrow>
     distinct (map fst (itns_view itns)) \<and>
     (\<forall>(n, is) \<in> set (itns_view itns). distinct (map fst is) \<and> (\<forall>i \<in> set is. snd i = n))"
  by (simp add: itns_wf_def itns_view_def list_all_iff comp_def)

lemma kept_wf: "kept s t \<Longrightarrow> itns_wf (hs_itns s) \<Longrightarrow> itns_wf (hs_itns t)"
  by (simp add: kept_def hst_view_def itns_wf_view)

locale backing_store_calls =
  fixes e :: env
  assumes submit_keeps: "keeps (e_submit e)"
begin

lemma run_leaf_keeps: "keeps (run_leaf e fn)"
proof -
  have "keeps (\<lambda>s. None)" by (simp add: keeps_def)
  then show ?thesis
    using leaf_keeps submit_keeps by (cases fn) (simp_all add: run_leaf_def [abs_def])
qed

lemma run_fn_keeps: "keeps (run_fn e fn)"
proof (rule keepsI)
  fix s r s'
  assume "run_fn e fn s = Some (r, s')"
  then show "kept s s'"
    using keepsD [OF run_leaf_keeps]
    by (auto simp: run_fn_def spc_service_action_def sbc_service_action_def Let_def split: if_splits option.splits dest!: kept_dests)
qed

lemma perform_op_keeps: "keeps (perform_op e)"
  by (rule keepsI)
     (auto simp: perform_op_def Let_def bind_eq_Some_conv split: if_splits dest!: kept_dests keepsD [OF run_fn_keeps])

lemma scsi_cmd_perform_kept:
  assumes "itns_wf (hs_itns s)" "scsi_cmd_perform e s = Some (r, s')"
  shows "kept s s'"
proof -
  define t where "t = upd_itl (\<lambda>i. i\<lparr>itl_stat := subm_stat (hs_cmd s) (itl_stat i)\<rparr>) s"
  have t: "kept s t" unfolding t_def by (rule kept_upd_itl) simp
  then have wf: "itns_wf (hs_itns t)" using kept_wf assms(1) by blast
  have op: "kept t s'" if "perform_op e u = Some (r, s')" "kept t u" for u
    using keepsD [OF perform_op_keeps that(1)] that(2) by (rule kept_via)
  have "kept t s'"
    using assms(2) kept_clear_luns [of t]
    by (auto simp: scsi_cmd_perform_def Let_def bind_eq_Some_conv simp flip: t_def split: if_splits
        dest!: kept_dests kept_ua_sense_del [OF wf] dest: op)
  then show ?thesis using t by (rule kept_via)
qed

end

end
