(* ===== verification/Core_Inv.thy ===== *)
theory Core_Inv
  imports Hst_Frame Cmd_Queue Target_Admin
begin

text \<open>
  The invariant of a target under the run-time operations of the core
  (\<open>usr/target.c\<close>): queueing and performing commands, their completion, and task
  management, in any order. The nexuses, the units and their entries stay, and a unit
  is reserved by no nexus or by one that exists.
\<close>

section \<open>What stays of a target\<close>

definition tgt_view :: "target \<Rightarrow> int \<times> (u64 \<times> u64 list) list \<times> (u64 \<times> (u64 \<times> u64) list) list" where
  "tgt_view t = (tid t, map (\<lambda>lu. (lun lu, lu_itl_info_list lu)) (device_list t), itns_view (it_nexus_list t))"

definition tgt_stays :: "target \<Rightarrow> target \<Rightarrow> bool" where
  "tgt_stays t t' \<longleftrightarrow> (tgt_inv t \<longrightarrow> tgt_inv t' \<and> tgt_view t' = tgt_view t)"

lemma tgt_stays_refl [simp]: "tgt_stays t t"
  by (simp add: tgt_stays_def)

lemma tgt_stays_trans: "tgt_stays a b \<Longrightarrow> tgt_stays b c \<Longrightarrow> tgt_stays a c"
  by (auto simp: tgt_stays_def)

lemma view_itn_ids: "itn_id ` set itns = fst ` set (itns_view itns)"
  by (force simp: itns_view_def)

lemma view_itn_inv:
  "list_all (itn_inv luns) itns \<longleftrightarrow> (\<forall>(n, is) \<in> set (itns_view itns). n \<noteq> 0 \<and> fst ` set is = luns)"
  by (auto simp: itns_view_def itn_inv_def list_all_iff image_image)

lemma tgt_inv_view:
  "tgt_inv t \<longleftrightarrow>
     sorted_wrt (<) (map lun (device_list t)) \<and> itns_wf (it_nexus_list t) \<and>
     (\<forall>(n, is) \<in> set (itns_view (it_nexus_list t)). n \<noteq> 0 \<and> fst ` set is = lun ` set (device_list t)) \<and>
     list_all (lu_inv (fst ` set (itns_view (it_nexus_list t)))) (device_list t)"
  by (simp add: tgt_inv_def view_itn_inv view_itn_ids)

lemma stays_itns:
  assumes "itns_view n = itns_view (it_nexus_list t)"
  shows "tgt_stays t (t\<lparr>it_nexus_list := n\<rparr>)"
  using assms itns_wf_view [of n] itns_wf_view [of "it_nexus_list t"] by (simp add: tgt_stays_def tgt_inv_view tgt_view_def)

lemma stays_device:
  assumes "\<And>lu. lu \<in> set (device_list t) \<Longrightarrow> lun lu = l \<Longrightarrow>
      lun (f lu) = lun lu \<and> lu_itl_info_list (f lu) = lu_itl_info_list lu \<and>
      reserve_id (f lu) \<in> {reserve_id lu, 0} \<union> itn_id ` set (it_nexus_list t)"
  shows "tgt_stays t (upd_device l f t)"
proof -
  have m: "map lun (device_list (upd_device l f t)) = map lun (device_list t)"
      "map (\<lambda>lu. (lun lu, lu_itl_info_list lu)) (device_list (upd_device l f t)) =
       map (\<lambda>lu. (lun lu, lu_itl_info_list lu)) (device_list t)"
    using assms by (auto simp: upd_device_def lupdate_def)
  have "lu_inv (itn_id ` set (it_nexus_list t)) (f lu)"
    if "lu_inv (itn_id ` set (it_nexus_list t)) lu" "lu \<in> set (device_list t)" "lun lu = l" for lu
    using that assms [of lu] by (auto simp: lu_inv_def)
  then have "list_all (lu_inv (itn_id ` set (it_nexus_list t))) (device_list (upd_device l f t))"
    if "list_all (lu_inv (itn_id ` set (it_nexus_list t))) (device_list t)"
    using that by (auto simp: upd_device_def lupdate_def list_all_iff)
  moreover have "lun ` set (device_list (upd_device l f t)) = lun ` set (device_list t)"
    using m(1) by (metis list.set_map)
  moreover have "it_nexus_list (upd_device l f t) = it_nexus_list t" "tid (upd_device l f t) = tid t"
    by (simp_all add: upd_device_def)
  ultimately show ?thesis
    using m by (simp add: tgt_stays_def tgt_inv_def tgt_view_def)
qed

section \<open>Commands\<close>

definition world_stays :: "world \<Rightarrow> world \<Rightarrow> bool" where
  "world_stays w w' \<longleftrightarrow> tgt_stays (w_tgt w) (w_tgt w')"

lemma world_stays_refl [simp]: "world_stays w w"
  by (simp add: world_stays_def)

lemma world_stays_trans: "world_stays a b \<Longrightarrow> world_stays b c \<Longrightarrow> world_stays a c"
  unfolding world_stays_def by (rule tgt_stays_trans)

lemma stays_put_cmd [simp]: "world_stays v (put_cmd h c w) \<longleftrightarrow> world_stays v w" "world_stays v (notify_driver n w) \<longleftrightarrow> world_stays v w"
    "world_stays v (w\<lparr>w_mreqs := m\<rparr>) \<longleftrightarrow> world_stays v w"
  by (simp_all add: world_stays_def put_cmd_def notify_driver_def)

lemma stays_upd_queue: "world_stays w (upd_queue l f w)"
  by (simp add: world_stays_def upd_queue_def upd_wlu_def stays_device)

lemma stays_hlist: "tgt_stays t (cmd_hlist_insert h n t)" "tgt_stays t (cmd_hlist_remove h n t)"
  unfolding cmd_hlist_insert_def cmd_hlist_remove_def by (rule stays_itns, simp add: itns_view_def lupdate_def)+

lemma stays_io_done: "target_cmd_io_done h result w = Some w' \<Longrightarrow> world_stays w w'"
  by (auto simp: target_cmd_io_done_def Let_def bind_eq_Some_conv world_stays_def put_cmd_def notify_driver_def
      intro!: stays_itns itns_view_itl_update)

text \<open>
  What the queue relies on of the function that performs a command: it keeps the frame
  of its command.
\<close>

locale command_processor =
  fixes perf :: perform
  assumes perf_kept: "itns_wf (hs_itns s) \<Longrightarrow> perf s = Some (r, s') \<Longrightarrow> kept s s'"
begin

lemma stays_world_perform:
  assumes "world_perform perf h w = Some (r, w')" "w_cmds w h = Some cmd" "cmd_itn_id cmd \<in> itn_id ` set (it_nexus_list (w_tgt w))"
  shows "world_stays w w'"
proof -
  obtain lu s where lu: "device_lookup (w_tgt w) (c_dev cmd) = Some lu" "perf (world_hst cmd lu w) = Some (r, s)"
      and w': "w' = hst_world h s w"
    using assms(1,2) by (auto simp: world_perform_def bind_eq_Some_conv)
  let ?t = "w_tgt w"
  have "tgt_stays ?t ((upd_device (lun (hs_lu s)) (\<lambda>_. hs_lu s) ?t)\<lparr>it_nexus_list := hs_itns s\<rparr>)" if inv: "tgt_inv ?t"
  proof -
    have "kept (world_hst cmd lu w) s"
      using perf_kept [OF _ lu(2)] inv by (simp add: world_hst_def tgt_inv_def)
    then have k: "lun (hs_lu s) = lun lu" "lu_itl_info_list (hs_lu s) = lu_itl_info_list lu"
        "itns_view (hs_itns s) = itns_view (it_nexus_list ?t)" "reserve_id (hs_lu s) \<in> {reserve_id lu, 0, cmd_itn_id cmd}"
      by (simp_all add: kept_def hst_view_def world_hst_def)
    have only: "x = lu" if "x \<in> set (device_list ?t)" "lun x = lun lu" for x
      using inv lu(1) that tgt_inv_distinct [OF inv] lfind_distinct [of lun "device_list ?t"]
      by (metis device_lookup_def lfind_SomeD option.inject)
    have "tgt_stays ?t (upd_device (lun (hs_lu s)) (\<lambda>_. hs_lu s) ?t)"
      by (rule stays_device) (use k only assms(3) in auto)
    then show ?thesis
      using stays_itns [of "hs_itns s" "upd_device (lun (hs_lu s)) (\<lambda>_. hs_lu s) ?t"] k(3) tgt_stays_trans
      by (auto simp: upd_device_def)
  qed
  then show ?thesis
    using w' by (auto simp: world_stays_def hst_world_def tgt_stays_def put_cmd_def)
qed

lemma stays_start_cmd:
  assumes "start_cmd perf h w = Some w'" "w_cmds w h = Some cmd" "cmd_itn_id cmd \<in> itn_id ` set (it_nexus_list (w_tgt w))"
  shows "world_stays w w'"
proof -
  obtain r w1 c where w1: "world_perform perf h w = Some (r, w1)"
    and w': "w' = put_cmd h (set_cmd_bit TGT_CMD_PROCESSED c) (upd_queue (c_dev c) (cmd_post_perform c) w1) \<or>
        target_cmd_io_done h r (put_cmd h (set_cmd_bit TGT_CMD_PROCESSED c) (upd_queue (c_dev c) (cmd_post_perform c) w1)) = Some w'"
    using assms(1) by (auto simp: start_cmd_def Let_def bind_eq_Some_conv split: if_splits)
  have "world_stays w1 w'"
    using w' stays_upd_queue [of w1] by (auto dest!: stays_io_done elim: world_stays_trans [rotated])
  then show ?thesis
    using stays_world_perform [OF w1 assms(2,3)] world_stays_trans by blast
qed

lemma itn_ids_hlist [simp]: "itn_id ` set (it_nexus_list (cmd_hlist_insert h n t)) = itn_id ` set (it_nexus_list t)"
  by (simp add: cmd_hlist_insert_def set_lupdate_image)

lemma norm_attr_itn [simp]: "cmd_itn_id (norm_attr c) = cmd_itn_id c"
  by (simp add: norm_attr_def)

lemma cmd_enabled_itn: "cmd_enabled q c = (b, c') \<Longrightarrow> cmd_itn_id c' = cmd_itn_id c"
  by (auto simp: cmd_enabled_def Let_def)

lemma stays_cmd_perform:
  assumes "target_cmd_perform perf h w = Some w'" "w_cmds w h = Some cmd" "cmd_itn_id cmd \<in> itn_id ` set (it_nexus_list (w_tgt w))"
  shows "world_stays w w'"
proof -
  obtain q where q: "lu_queue (c_dev cmd) w = Some q"
    using assms(1,2) by (auto simp: target_cmd_perform_def bind_eq_Some_conv)
  obtain b c where c: "cmd_enabled q cmd = (b, c)" by (cases "cmd_enabled q cmd")
  define w1 where "w1 = put_cmd h c (w\<lparr>w_tgt := cmd_hlist_insert h (cmd_itn_id cmd) (w_tgt w)\<rparr>)"
  have w1: "world_stays w w1" using stays_hlist(1) by (simp add: w1_def world_stays_def put_cmd_def)
  have "world_stays w1 w'"
  proof (cases b)
    case True
    then have "start_cmd perf h w1 = Some w'" using assms(1,2) q c by (simp add: target_cmd_perform_def w1_def)
    moreover have "w_cmds w1 h = Some c" "cmd_itn_id c \<in> itn_id ` set (it_nexus_list (w_tgt w1))"
      using assms(3) cmd_enabled_itn [OF c] by (simp_all add: w1_def put_cmd_def)
    ultimately show ?thesis by (rule stays_start_cmd)
  next
    case False
    then have "w' = upd_queue (c_dev cmd) (\<lambda>q. q\<lparr>queue := queue q @ [h]\<rparr>) (put_cmd h (set_cmd_bit TGT_CMD_QUEUED c) w1)"
      using assms(1,2) q c by (simp add: target_cmd_perform_def w1_def)
    then show ?thesis
      using world_stays_trans [OF _ stays_upd_queue, of w1 "put_cmd h (set_cmd_bit TGT_CMD_QUEUED c) w1"] by simp
  qed
  then show ?thesis by (rule world_stays_trans [OF w1])
qed

lemma stays_cmd_queue:
  assumes "target_cmd_queue get_lun perf h w = Some (r, w')"
  shows "world_stays w w'"
proof -
  have "world_stays w w'" if run: "target_cmd_perform perf h (put_cmd h c w) = Some w'"
    and itn: "lfind itn_id (cmd_itn_id c) (it_nexus_list (w_tgt w)) = Some itn" for c itn
    using stays_cmd_perform [OF run, of c] lfind_SomeD [OF itn] by (force simp: put_cmd_def world_stays_def)
  then show ?thesis
    using assms by (auto simp: target_cmd_queue_def Let_def bind_eq_Some_conv split: option.splits if_splits)
qed

lemma stays_post_cmd_loop: "post_cmd_loop perf l hs w = Some w' \<Longrightarrow> world_stays w w'"
proof (induction hs arbitrary: w)
  case (Cons h hs)
  obtain q cmd where q: "lu_queue l w = Some q" and cmd: "w_cmds w h = Some cmd"
    using Cons.prems by (auto simp: bind_eq_Some_conv)
  obtain b c where en: "cmd_enabled q cmd = (b, c)" by (cases "cmd_enabled q cmd")
  note c = cmd en
  show ?case
  proof (cases b)
    case True
    define w1 where "w1 = upd_queue l (\<lambda>q. q\<lparr>queue := remove1 h (queue q)\<rparr>) (put_cmd h c w)"
    obtain itn w2 where itn: "lfind itn_id (cmd_itn_id cmd) (it_nexus_list (w_tgt w)) = Some itn"
      and w2: "start_cmd perf h w1 = Some w2" and w': "post_cmd_loop perf l hs w2 = Some w'"
      using Cons.prems c q True by (auto simp: bind_eq_Some_conv w1_def)
    have "world_stays w w1"
      unfolding w1_def by (rule world_stays_trans [OF _ stays_upd_queue]) simp
    moreover have "world_stays w1 w2"
      using stays_start_cmd [OF w2, of c] lfind_SomeD [OF itn] cmd_enabled_itn [OF c(2)]
      by (force simp: w1_def upd_queue_def upd_wlu_def upd_device_def put_cmd_def)
    ultimately show ?thesis using Cons.IH [OF w'] world_stays_trans by blast
  next
    case False
    then show ?thesis using Cons.prems c q by auto
  qed
qed simp

lemma stays_cmd_done:
  assumes "cmd_done perf h w = Some w'"
  shows "world_stays w w'"
proof -
  obtain cmd where *: "post_cmd_done perf (c_dev cmd) (upd_queue (c_dev cmd) (done_queue cmd)
      (w\<lparr>w_tgt := cmd_hlist_remove h (cmd_itn_id cmd) (w_tgt w)\<rparr>)) = Some w'"
    using assms by (auto simp: cmd_done_def Let_def bind_eq_Some_conv)
  have "world_stays w (w\<lparr>w_tgt := cmd_hlist_remove h (cmd_itn_id cmd) (w_tgt w)\<rparr>)"
    using stays_hlist(2) by (simp add: world_stays_def)
  then show ?thesis
    using * stays_upd_queue world_stays_trans by (auto simp: post_cmd_done_def bind_eq_Some_conv dest!: stays_post_cmd_loop) blast
qed

lemma stays_mreq_done: "mreq_done m w = Some w' \<Longrightarrow> world_stays w w'"
  by (auto simp: mreq_done_def Let_def bind_eq_Some_conv split: if_splits)

lemma stays_target_cmd_done: "target_cmd_done perf h w = Some w' \<Longrightarrow> world_stays w w'"
  by (auto simp: target_cmd_done_def bind_eq_Some_conv split: option.splits dest!: stays_mreq_done stays_cmd_done
      intro: world_stays_trans)

section \<open>Task management\<close>

lemma stays_abort_cmd: "abort_cmd perf m h w = Some (b, w') \<Longrightarrow> world_stays w w'"
  by (auto simp: abort_cmd_def bind_eq_Some_conv split: if_splits dest!: stays_cmd_done stays_io_done intro: world_stays_trans)

lemma stays_abort_loop: "abort_loop perf m nid tg lunb all hs n w = Some (c, w') \<Longrightarrow> world_stays w w'"
proof (induction hs arbitrary: n w)
  case (Cons p hs)
  obtain iid h where p: "p = (iid, h)" by (cases p)
  obtain cmd where cmd: "w_cmds w h = Some cmd" using Cons.prems p by (auto simp: bind_eq_Some_conv)
  show ?case
  proof (cases "abort_matches nid tg lunb all iid cmd")
    case True
    obtain b w1 where w1: "abort_cmd perf m h w = Some (b, w1)"
      using Cons.prems p cmd True by (auto simp: bind_eq_Some_conv)
    define w2 where "w2 = (if b then w1\<lparr>w_mreqs := (w_mreqs w1)(m := map_option (\<lambda>r. r\<lparr>busy := busy r + 1\<rparr>) (w_mreqs w1 m))\<rparr> else w1)"
    have "abort_loop perf m nid tg lunb all hs (n + 1) w2 = Some (c, w')"
      using Cons.prems p cmd True w1 by (simp add: w2_def)
    moreover have "world_stays w w2" using stays_abort_cmd [OF w1] by (simp add: w2_def)
    ultimately show ?thesis using Cons.IH world_stays_trans by blast
  next
    case False
    then show ?thesis using Cons p cmd by simp
  qed
qed simp

lemma stays_ua_all_nexus: "(\<And>i. itl_lu (f i) = itl_lu i \<and> itl_itn_id (f i) = itl_itn_id i) \<Longrightarrow> tgt_stays t (ua_all_nexus l asc f t)"
  unfolding ua_all_nexus_def by (rule stays_itns) (auto simp: itns_view_def intro!: map_upd_first)

lemma stays_release: "tgt_stays t (snd (device_release nid l force t))"
  by (auto simp: device_release_def split: option.splits intro!: stays_device)

lemma stays_abort_set: "abort_task_set perf m nid tg lunb all w = Some (c, w') \<Longrightarrow> world_stays w w'"
  unfolding abort_task_set_def by (rule stays_abort_loop)

lemma stays_reset:
  "world_stays v w \<Longrightarrow> world_stays v (w\<lparr>w_tgt := ua_all_nexus l asc (\<lambda>i. i) (w_tgt w)\<rparr>)"
  "world_stays v w \<Longrightarrow> world_stays v (w\<lparr>w_tgt := ua_all_nexus l asc (\<lambda>i. i\<lparr>itl_prevent := 0\<rparr>) (w_tgt w)\<rparr>)"
  unfolding world_stays_def by (erule tgt_stays_trans, simp add: stays_ua_all_nexus)+

lemma stays_mgmt_request:
  assumes "target_mgmt_request get_lun perf m nid req_id fn lun_buf tg w = Some (r, w')"
  shows "world_stays w w'"
proof -
  have rel: "world_stays v w1" if "abort_task_set perf m nid 0 lunb False (v\<lparr>w_mreqs := q, w_tgt := snd (device_release nid l True (w_tgt v))\<rparr>) = Some (c, w1)"
    for v q l lunb c w1
    using stays_abort_set [OF that] stays_release [of "w_tgt v" nid l True] by (auto simp: world_stays_def elim: tgt_stays_trans)
  have set: "world_stays v w1" if "abort_task_set perf m nid tg' lunb all (v\<lparr>w_mreqs := q\<rparr>) = Some (c, w1)" for v q tg' lunb all c w1
    using stays_abort_set [OF that] by (simp add: world_stays_def)
  show ?thesis
    using assms
    by (auto simp: target_mgmt_request_def Let_def bind_eq_Some_conv split: if_splits intro!: stays_reset dest: set rel)
qed

end


section \<open>The command processor of the block devices\<close>

sublocale backing_store_calls \<subseteq> command_processor "scsi_cmd_perform e"
  by unfold_locales (rule scsi_cmd_perform_kept)

text \<open>
  The submit function of the store of a unit: the null store answers at once, the file
  store gives the command to the worker threads.
\<close>

definition model_submit :: submit_fn where
  "model_submit s = (if bs_name (lu_bst (hs_lu s)) = ''null'' then bs_null_cmd_submit s else bs_thread_cmd_submit s)"

abbreviation "model_perform e \<equiv> scsi_cmd_perform (e\<lparr>e_submit := model_submit\<rparr>)"

interpretation stores: backing_store_calls "e\<lparr>e_submit := model_submit\<rparr>" for e
  by unfold_locales
     (auto simp: keeps_def model_submit_def bs_null_cmd_submit_def bs_thread_cmd_submit_def set_cmd_bit_def)

section \<open>Runs of the core\<close>

text \<open>
  What a transport calls: a new command, the completion of an asynchronous one, the
  release of a command whose answer was sent, and a task management function.
\<close>

datatype core_op =
    Op_queue nat scsi_cmd
  | Op_io_done nat int
  | Op_cmd_done nat
  | Op_mgmt nat u64 u64 int bytes u64

definition core_step :: "(bytes \<Rightarrow> u64) option \<Rightarrow> perform \<Rightarrow> core_op \<Rightarrow> world \<Rightarrow> world option" where
  "core_step get_lun perf op w =
     (case op of
        Op_queue h cmd \<Rightarrow> map_option snd (target_cmd_queue get_lun perf h (put_cmd h cmd w))
      | Op_io_done h result \<Rightarrow> target_cmd_io_done h result w
      | Op_cmd_done h \<Rightarrow> target_cmd_done perf h w
      | Op_mgmt m nid req fn lunb tg \<Rightarrow> map_option snd (target_mgmt_request get_lun perf m nid req fn lunb tg w))"

fun core_run :: "(bytes \<Rightarrow> u64) option \<Rightarrow> perform \<Rightarrow> core_op list \<Rightarrow> world \<Rightarrow> world option" where
  "core_run get_lun perf [] w = Some w"
| "core_run get_lun perf (op # ops) w = do { w' \<leftarrow> core_step get_lun perf op w; core_run get_lun perf ops w' }"

context command_processor
begin

lemma stays_core_step: "core_step get_lun perf op w = Some w' \<Longrightarrow> world_stays w w'"
  by (cases op) (auto simp: core_step_def world_stays_def put_cmd_def
      dest!: stays_cmd_queue stays_io_done stays_target_cmd_done stays_mgmt_request)

lemma stays_core_run: "core_run get_lun perf ops w = Some w' \<Longrightarrow> world_stays w w'"
  by (induction ops arbitrary: w) (auto simp: bind_eq_Some_conv dest!: stays_core_step intro: world_stays_trans)

end

text \<open>
  C2. No sequence of commands of the initiators breaks the data structure of a target.
  Whatever commands are queued, performed by the command processor, completed and
  released and whatever task management functions are called, in any order and on any
  unit: the target keeps its units and its nexuses, every nexus keeps exactly one entry
  for every unit and every unit lists every nexus once, and a unit that is reserved is
  reserved by a nexus that exists.
\<close>

theorem core_keeps_invariant:
  assumes "tgt_inv (w_tgt w)" "core_run get_lun (model_perform e) ops w = Some w'"
  shows "tgt_inv (w_tgt w') \<and> map lun (device_list (w_tgt w')) = map lun (device_list (w_tgt w)) \<and>
    map itn_id (it_nexus_list (w_tgt w')) = map itn_id (it_nexus_list (w_tgt w)) \<and> tid (w_tgt w') = tid (w_tgt w)"
proof -
  have "world_stays w w'"
    using assms(2) by (rule stores.stays_core_run)
  then have "tgt_inv (w_tgt w')" and view: "tgt_view (w_tgt w') = tgt_view (w_tgt w)"
    using assms(1) by (simp_all add: world_stays_def tgt_stays_def)
  moreover have "map lun (device_list t) = map fst (fst (snd (tgt_view t)))"
      "map itn_id (it_nexus_list t) = map fst (snd (snd (tgt_view t)))" "tid t = fst (tgt_view t)" for t
    by (simp_all add: tgt_view_def itns_view_def)
  ultimately show ?thesis by simp
qed

text \<open>A disk on the null store with one nexus, and its RESERVE command.\<close>

definition ex_disk :: world where
  "ex_disk = \<lparr>w_tgt = (new_target 0 1 ''iqn.t'' null_bst)\<lparr>
       device_list := [(blank_lu 0)\<lparr>dt_ops := sbc_ops, lu_bst := null_bst, lu_itl_info_list := [5]\<rparr>],
       it_nexus_list := [\<lparr>itn_id = 5, itn_ctime = 7, itn_cmd_list = [], itn_host_no = 0,
         itn_itl_info_list = [new_itl_info 0 5], itn_info = []\<rparr>]\<rparr>,
     w_cmds = Map.empty, w_mreqs = Map.empty, w_log = []\<rparr>"

definition ex_reserve :: scsi_cmd where
  "ex_reserve = blank_cmd\<lparr>cmd_itn_id := 5, scb := (replicate 16 0)[0 := 0x16], attribute := MSG_SIMPLE_TAG\<rparr>"

definition ex_perform_env :: env where
  "ex_perform_env = \<lparr>e_mem = True, e_submit = bs_null_cmd_submit, e_next_data = (\<lambda>x. x), e_next_hole = (\<lambda>x. x), e_transportid = None\<rparr>"

lemma ex_reserve_runs:
  "map_option (\<lambda>w. map reserve_id (device_list (w_tgt w)))
     (core_run None (model_perform ex_perform_env) [Op_queue 3 ex_reserve, Op_cmd_done 3] ex_disk) = Some [5]"
  by code_simp


theorem core_keeps_invariant_witness:
  "\<exists>w. core_run None (model_perform ex_perform_env) [Op_queue 3 ex_reserve, Op_cmd_done 3] ex_disk = Some w \<and>
     map reserve_id (device_list (w_tgt w)) = [5] \<and> tgt_inv (w_tgt w) \<and> map itn_id (it_nexus_list (w_tgt w)) = [5]"
proof -
  obtain w where w: "core_run None (model_perform ex_perform_env) [Op_queue 3 ex_reserve, Op_cmd_done 3] ex_disk = Some w"
      "map reserve_id (device_list (w_tgt w)) = [5]"
    using ex_reserve_runs by auto
  have "tgt_inv (w_tgt ex_disk)"
    by (simp add: tgt_inv_def ex_disk_def new_target_def itns_wf_def itn_inv_def lu_inv_def new_itl_info_def blank_lu_def)
  from core_keeps_invariant [OF this w(1)] w show ?thesis
    by (simp add: ex_disk_def)
qed


end
