(* ===== verification/Daemon_Inv.thy ===== *)
theory Daemon_Inv
  imports Mgmt Core_Inv Iscsi_Driver
begin

text \<open>
  The invariant of the whole daemon: the requests of the administrator, executed with
  the callbacks of a driver, and the calls of the transport into the core keep the
  targets, units and nexuses well formed. The iSCSI driver meets the contract the
  management channel relies on.
\<close>

section \<open>Sessions and connections\<close>

definition adm_ok :: "iscsi_world \<Rightarrow> bool" where
  "adm_ok w \<longleftrightarrow> sys_inv (adm_targets (iw_adm w))"

lemma adm_ok_upd [simp]:
  "adm_ok (upd_conn c f w) = adm_ok w" "adm_ok (upd_session s g w) = adm_ok w" "adm_ok (upd_itarget t h w) = adm_ok w"
  "adm_ok (w\<lparr>iw_tasks := ts\<rparr>) = adm_ok w" "adm_ok (w\<lparr>iw_conns := cs\<rparr>) = adm_ok w" "adm_ok (w\<lparr>iw_targets := its\<rparr>) = adm_ok w"
  by (simp_all add: adm_ok_def upd_conn_def upd_session_def upd_itarget_def)

lemma sys_inv_replace:
  assumes "sys_inv ts" "target_lookup i ts = Some t" "tgt_inv t'" "tid t' = tid t"
  shows "sys_inv (upd_target i (\<lambda>_. t') ts)"
proof -
  have t: "tid t = i" using target_lookup_inv [OF assms(1,2)] by simp
  have "map tid (upd_target i (\<lambda>_. t') ts) = map tid ts"
    using t assms(4) by (auto simp: upd_target_def lupdate_def)
  then show ?thesis
    using assms by (simp add: sys_inv_def list_all_iff) (auto simp: upd_target_def lupdate_def)
qed

lemma adm_ok_with_core:
  assumes "adm_ok w" "with_core t f w = Some (r, w')" "\<And>v x cw. f v = Some (x, cw) \<Longrightarrow> world_stays v cw"
  shows "adm_ok w'"
proof -
  obtain tg cw where tg: "target_lookup t (adm_targets (iw_adm w)) = Some tg" "f (core_world tg w) = Some (r, cw)"
      and w': "w' = core_result t cw w"
    using assms(2) by (auto simp: with_core_def bind_eq_Some_conv)
  have "tgt_inv tg" using assms(1) target_lookup_inv [OF _ tg(1)] by (simp add: adm_ok_def)
  then have "tgt_inv (w_tgt cw)" "tid (w_tgt cw) = tid tg"
    using assms(3) [OF tg(2)] by (simp_all add: world_stays_def tgt_stays_def core_world_def tgt_view_def)
  then show ?thesis
    using assms(1) sys_inv_replace [OF _ tg(1)] w' by (simp add: adm_ok_def core_result_def)
qed

lemma adm_ok_session_put: "session_put s w = Some w' \<Longrightarrow> adm_ok w \<Longrightarrow> adm_ok w'"
  by (auto simp: session_put_def session_destroy_def Let_def bind_eq_Some_conv split: if_splits)
     (simp_all add: adm_ok_def upd_session_def sys_inv_nexus_destroy)

lemma adm_ok_conn_put: "conn_put c w = Some w' \<Longrightarrow> adm_ok w \<Longrightarrow> adm_ok w'"
  by (auto simp: conn_put_def conn_exit_def Let_def bind_eq_Some_conv split: if_splits option.splits
      elim!: adm_ok_session_put)

lemma adm_ok_free_task: "iscsi_free_task t w = Some w' \<Longrightarrow> adm_ok w \<Longrightarrow> adm_ok w'"
  by (auto simp: iscsi_free_task_def Let_def bind_eq_Some_conv split: if_splits option.splits elim!: adm_ok_conn_put)

lemma adm_ok_each_task:
  "(\<And>t v v'. f t v = Some v' \<Longrightarrow> adm_ok v \<Longrightarrow> adm_ok v') \<Longrightarrow> each_task f ts w = Some w' \<Longrightarrow> adm_ok w \<Longrightarrow> adm_ok w'"
  by (induction ts arbitrary: w) (auto simp: bind_eq_Some_conv)

lemma adm_ok_close_pending: "close_pending_task c s t w = Some w' \<Longrightarrow> adm_ok w \<Longrightarrow> adm_ok w'"
  by (auto simp: close_pending_task_def bind_eq_Some_conv split: if_splits elim!: adm_ok_free_task)

lemma adm_ok_close_rest: "close_rest_task t w = Some w' \<Longrightarrow> adm_ok w \<Longrightarrow> adm_ok w'"
  by (auto simp: close_rest_task_def bind_eq_Some_conv split: if_splits elim!: adm_ok_free_task)

lemma adm_ok_close_loops:
  "each_task (close_pending_task c s) ts w = Some w' \<Longrightarrow> adm_ok w \<Longrightarrow> adm_ok w'"
  "each_task close_rest_task ts w = Some w' \<Longrightarrow> adm_ok w \<Longrightarrow> adm_ok w'"
  using adm_ok_each_task [of "close_pending_task c s" ts w w'] adm_ok_each_task [of close_rest_task ts w w']
    adm_ok_close_pending adm_ok_close_rest by blast+

context command_processor
begin

lemma adm_ok_free_cmd: 
  assumes "iscsi_free_cmd_task perf t w = Some w'" "adm_ok w"
  shows "adm_ok w'"
proof -
  obtain tg w1 where w1: "with_core tg (\<lambda>cw. map_option (\<lambda>cw'. ((), cw')) (target_cmd_done perf t cw)) w = Some ((), w1)"
    and w': "iscsi_free_task t w1 = Some w'"
    using assms(1) by (auto simp: iscsi_free_cmd_task_def bind_eq_Some_conv)
  have "adm_ok w1"
    by (rule adm_ok_with_core [OF assms(2) w1]) (auto dest: stays_target_cmd_done)
  then show ?thesis by (rule adm_ok_free_task [OF w'])
qed

lemma adm_ok_close_tx: "close_tx_task perf t w = Some w' \<Longrightarrow> adm_ok w \<Longrightarrow> adm_ok w'"
  by (auto simp: close_tx_task_def Let_def bind_eq_Some_conv split: if_splits
      dest: adm_ok_free_cmd adm_ok_free_task)

lemma adm_ok_close_tx_loop: "each_task (close_tx_task perf) ts w = Some w' \<Longrightarrow> adm_ok w \<Longrightarrow> adm_ok w'"
  using adm_ok_each_task [of "close_tx_task perf" ts w w'] adm_ok_close_tx by blast

lemma adm_ok_conn_close:
  assumes "conn_close perf c w = Some w'" "adm_ok w"
  shows "adm_ok w'"
  using assms
  by (auto simp: conn_close_def iscsi_tcp_close_def Let_def bind_eq_Some_conv split: if_splits option.splits
      elim!: adm_ok_close_loops adm_ok_close_tx_loop adm_ok_free_task adm_ok_conn_put adm_ok_close_tx)

lemma adm_ok_close_conns: "close_conns perf cs w = Some w' \<Longrightarrow> adm_ok w \<Longrightarrow> adm_ok w'"
  by (induction cs arbitrary: w) (auto simp: bind_eq_Some_conv dest: adm_ok_conn_close)

lemma adm_ok_target_destroy: "iscsi_target_destroy perf t w = Some w' \<Longrightarrow> adm_ok w \<Longrightarrow> adm_ok w'"
  by (auto simp: iscsi_target_destroy_def bind_eq_Some_conv split: option.splits if_splits dest: adm_ok_close_conns)

end

section \<open>Configuration of a unit\<close>

lemma same_identity_config_attr [simp]: "same_identity lu (lu_config_attr opt v lu1) = same_identity lu lu1"
  by (cases opt) (simp_all add: lu_config_attr_def update_b0_opt_xfer_gran_def update_b0_opt_xfer_len_def Let_def)

lemma path_update_templates:
  assumes "dt_lu_online a = dt_lu_online b" "dt_lu_offline a = dt_lu_offline b"
  shows "tgt_device_path_update bs a tg lu p = tgt_device_path_update bs b tg lu p"
  unfolding tgt_device_path_update_def assms by (rule refl)

lemma config_opt_keeps:
  assumes "dt_lu_online base = spc_lu_online" "dt_lu_offline base = off_cb" "same_identity lu (snd r)"
  shows "same_identity lu (snd (lu_config_opt (model_bsops fo b) base tg None p r))"
proof -
  have "sbc_template (model_bsops fo) \<in> set (model_dtypes fo)"
    by (simp add: model_dtypes_def device_type_register_def)
  from disks.path_update_keeps [OF this]
  have "same_identity x (snd (tgt_device_path_update (model_bsops fo b) base tg x q))" for x q
    using path_update_templates [of base "sbc_template (model_bsops fo)"] assms(1,2)
    by (simp add: sbc_template_def Let_def)
  then have "same_identity lu (snd (tgt_device_path_update (model_bsops fo b) base tg (snd r) q))" for q
    using assms(3) same_identity_trans by blast
  then show ?thesis
    using assms by (simp add: lu_config_opt_def Let_def split: option.split)
qed

lemma config_keeps:
  assumes "dt \<in> set (model_dtypes fo)" "dt_lu_config dt = Some f"
  shows "same_identity lu (snd (f tg lu params))"
proof -
  have fold: "same_identity lu (snd (fold (lu_config_opt (model_bsops fo b) base tg None) ps r))"
    if "dt_lu_online base = spc_lu_online" "dt_lu_offline base = off_cb" "same_identity lu (snd r)" for base b ps r
    using that(3) by (induction ps arbitrary: r) (simp_all add: config_opt_keeps [OF that(1,2)])
  show ?thesis
    using assms
    by (auto simp: model_dtypes_def device_type_register_def sbc_template_def scc_template_def lu_config_def Let_def intro!: fold)
qed

lemma sys_inv_device_update:
  assumes "sys_inv ts" "dt \<in> set (model_dtypes fo)"
  shows "sys_inv (snd (tgt_device_update dt t l params ts))"
  using assms
  by (auto simp: tgt_device_update_def split: option.split intro!: sys_inv_upd_device config_keeps [OF assms(2)])

section \<open>Access lists, accounts and states\<close>

lemma tgt_inv_fields [simp]:
  "tgt_inv (t\<lparr>acl_list := a\<rparr>) = tgt_inv t" "tgt_inv (t\<lparr>iqn_acl_list := b\<rparr>) = tgt_inv t"
  "tgt_inv (t\<lparr>account := c\<rparr>) = tgt_inv t" "tgt_inv (t\<lparr>target_state := s\<rparr>) = tgt_inv t"
  by (simp_all add: tgt_inv_def)

lemma sys_inv_upd_field:
  "sys_inv ts \<Longrightarrow> (\<And>t. tid (f t) = tid t \<and> (tgt_inv t \<longrightarrow> tgt_inv (f t))) \<Longrightarrow> sys_inv (upd_target i f ts)"
  by (rule sys_inv_upd_target) (auto simp: sys_inv_def list_all_iff)

lemma sys_inv_acl:
  assumes "sys_inv ts"
  shows "sys_inv (snd (acl_add i a ts))" "sys_inv (snd (acl_del i a ts))"
    "sys_inv (snd (iqn_acl_add i a ts))" "sys_inv (snd (iqn_acl_del i a ts))" "sys_inv (snd (tgt_set_target_state i a ts))"
  using assms
  by (auto simp: acl_add_def acl_del_def iqn_acl_add_def iqn_acl_del_def tgt_set_target_state_def
      split: option.split intro!: sys_inv_upd_field)

lemma sys_inv_acl_ops:
  assumes "sys_inv ts" "\<And>i a ts. sys_inv ts \<Longrightarrow> sys_inv (snd (f i a ts))" "\<And>i a ts. sys_inv ts \<Longrightarrow> sys_inv (snd (g i a ts))"
  shows "sys_inv (snd (acl_ops f g t buf ts))"
proof -
  have "sys_inv ts1" if "f t p ts = (err, ts1)" for p err ts1
    using that assms(2) [OF assms(1), of t p] by simp
  then show ?thesis
    using assms(1,3) by (auto simp: acl_ops_def Let_def split: option.split prod.split)
qed

lemma adm_targets_add [simp]: "adm_targets (snd (account_add u p st)) = adm_targets st"
  by (simp add: account_add_def Let_def)

lemma sys_inv_set_account: "sys_inv (adm_targets st) \<Longrightarrow> sys_inv (adm_targets (set_account t a st))"
  by (auto simp: set_account_def intro!: sys_inv_upd_field)

lemma sys_inv_account_ctl: "sys_inv (adm_targets st) \<Longrightarrow> sys_inv (adm_targets (snd (account_ctl t ty u b st)))"
  by (auto simp: account_ctl_def Let_def split: option.split prod.split intro!: sys_inv_set_account)

lemma sys_inv_account_del:
  assumes "sys_inv (adm_targets st)"
  shows "sys_inv (adm_targets (snd (account_del u st)))"
proof -
  have "sys_inv (adm_targets (fold (\<lambda>t st. snd (account_ctl t x u False (snd (account_ctl t y u False st)))) ts v))"
    if "sys_inv (adm_targets v)" for ts v x y
    using that by (induction ts arbitrary: v) (simp_all add: sys_inv_account_ctl)
  then show ?thesis
    using assms by (auto simp: account_del_def Let_def sys_inv_account_ctl split: option.split)
qed

lemma sys_inv_hosts:
  "sys_inv (adm_targets st) \<Longrightarrow> sys_inv (adm_targets (snd (tgt_bind_host_to_target t h st)))"
  "sys_inv (adm_targets st) \<Longrightarrow> tgt_unbind_host_to_target h st = Some (r, st') \<Longrightarrow> sys_inv (adm_targets st')"
  by (auto simp: tgt_bind_host_to_target_def tgt_unbind_host_to_target_def split: option.splits if_splits)

section \<open>The contract of a driver\<close>

text \<open>
  What the management channel relies on of the callbacks of a driver: they leave the
  targets, units and nexuses of the core well formed.
\<close>

locale lld_callbacks =
  fixes d :: tgt_driver
  assumes init_ok: "drv_init d = Some f1 \<Longrightarrow> adm_ok w \<Longrightarrow> f1 w = Some (r, w') \<Longrightarrow> adm_ok w'"
    and exit_ok: "drv_exit d = Some f2 \<Longrightarrow> adm_ok w \<Longrightarrow> adm_ok (f2 w)"
    and create_ok: "drv_target_create d = Some f3 \<Longrightarrow> adm_ok w \<Longrightarrow> adm_ok (f3 t w)"
    and destroy_ok: "drv_target_destroy d = Some f4 \<Longrightarrow> adm_ok w \<Longrightarrow> f4 t force w = Some w' \<Longrightarrow> adm_ok w'"
    and portal_create_ok: "drv_portal_create d = Some f5 \<Longrightarrow> adm_ok w \<Longrightarrow> f5 p w = Some (r, w') \<Longrightarrow> adm_ok w'"
    and portal_destroy_ok: "drv_portal_destroy d = Some f6 \<Longrightarrow> adm_ok w \<Longrightarrow> f6 p w = Some (r, w') \<Longrightarrow> adm_ok w'"
    and update_ok: "drv_update d = Some f7 \<Longrightarrow> adm_ok w \<Longrightarrow> f7 mode op t sid l cid buf w = Some (err, w') \<Longrightarrow> adm_ok w'"

lemma lld_callbacks_fields [simp]:
  "lld_callbacks (d\<lparr>drv_state := s\<rparr>) = lld_callbacks d" "lld_callbacks (d\<lparr>drv_target_list := l\<rparr>) = lld_callbacks d"
  by (simp_all add: lld_callbacks_def)

text \<open>The state between requests: well formed targets, and drivers that meet the contract.\<close>

definition mgmt_ok :: "mgmt_world \<Rightarrow> bool" where
  "mgmt_ok m \<longleftrightarrow> adm_ok (mw_iw m) \<and> mw_drivers m \<noteq> [] \<and> list_all lld_callbacks (mw_drivers m)"

lemma mgmt_ok_simps [simp]:
  "mgmt_ok (set_adm st m) \<longleftrightarrow> mw_drivers m \<noteq> [] \<and> list_all lld_callbacks (mw_drivers m) \<and> sys_inv (adm_targets st)"
  "mgmt_ok (set_targets ts m) \<longleftrightarrow> mw_drivers m \<noteq> [] \<and> list_all lld_callbacks (mw_drivers m) \<and> sys_inv ts"
  "mgmt_ok (m\<lparr>mw_iw := w\<rparr>) \<longleftrightarrow> mw_drivers m \<noteq> [] \<and> list_all lld_callbacks (mw_drivers m) \<and> adm_ok w"
  "mgmt_ok (m\<lparr>mw_is_debug := b\<rparr>) \<longleftrightarrow> mgmt_ok m" "mgmt_ok (m\<lparr>mw_system_active := b\<rparr>) \<longleftrightarrow> mgmt_ok m"
  by (auto simp: mgmt_ok_def set_adm_def set_targets_def adm_ok_def)

lemma mgmt_ok_upd_driver:
  assumes "mgmt_ok m" "i < length (mw_drivers m)" "\<And>d. lld_callbacks (f d) = lld_callbacks d"
  shows "mgmt_ok (upd_driver i f m)"
  using assms set_update_subset_insert [of "mw_drivers m" i "f (mw_drivers m ! i)"]
  by (auto simp: mgmt_ok_def upd_driver_def list_all_iff)

section \<open>Requests\<close>

text \<open>The device types and stores of the model; the template of a unit is the one of its type.\<close>

definition model_env :: "(string \<Rightarrow> bool \<Rightarrow> bool + (int \<times> u64 \<times> int)) \<Rightarrow> mgmt_env" where
  "model_env fo = \<lparr>me_bsts = bst_list, me_bsops = model_bsops fo, me_dtypes = model_dtypes fo,
     me_lu_template = (\<lambda>lu. if device_type (attrs lu) = 0x0c then scc_template (model_bsops fo) else sbc_template (model_bsops fo))\<rparr>"

lemma model_env_template: "me_lu_template (model_env fo) lu \<in> set (model_dtypes fo)"
  by (simp add: model_env_def model_dtypes_def device_type_register_def)

lemma mgmt_okD:
  assumes "mgmt_ok m"
  shows "adm_ok (mw_iw m)" "sys_inv (adm_targets (mw_adm m))" "mw_drivers m \<noteq> []" "list_all lld_callbacks (mw_drivers m)"
  using assms by (simp_all add: mgmt_ok_def adm_ok_def)

lemma mgmt_ok_driver: "mgmt_ok m \<Longrightarrow> i < length (mw_drivers m) \<Longrightarrow> lld_callbacks (mw_driver i m)"
  by (simp add: mgmt_ok_def mw_driver_def list_all_length)

lemma ok_results:
  "mgmt_ok m \<Longrightarrow> sys_inv (adm_targets (snd p)) \<Longrightarrow> adm_result p m = (err, s, m') \<Longrightarrow> mgmt_ok m'"
  "mgmt_ok m \<Longrightarrow> sys_inv (snd q) \<Longrightarrow> targets_result q m = (err, s, m') \<Longrightarrow> mgmt_ok m'"
  "text_result x m = (err, s, m') \<Longrightarrow> m' = m"
  "drv_show_call lld r dflt m = (err, s, m') \<Longrightarrow> m' = m"
  "drv_stat_call lld r e m = (err, s, m') \<Longrightarrow> m' = m"
  by (auto simp: adm_result_def targets_result_def text_result_def drv_show_call_def drv_stat_call_def mgmt_okD
      split: option.splits prod.splits)

lemma ok_update_call:
  assumes "mgmt_ok m" "lld < length (mw_drivers m)" "drv_update_call lld r buf e m = Some (err, s, m')"
  shows "mgmt_ok m'"
  using assms mgmt_okD [OF assms(1)] lld_callbacks.update_ok [OF mgmt_ok_driver [OF assms(1,2)]]
  by (auto simp: drv_update_call_def bind_eq_Some_conv split: option.splits)


lemma ok_target_new:
  assumes "mgmt_ok m" "lld < length (mw_drivers m)" "target_new (model_env fo) lld t args m = Some (err, s, m')"
  shows "mgmt_ok m'"
proof -
  obtain ts where ts: "create_target fo (drv_default_bst (mw_driver lld m)) (int lld) t args (adm_targets (mw_adm m)) = Some (err, ts)"
    and m': "m' = (if err \<noteq> TGTADM_SUCCESS then set_targets ts m
            else upd_driver lld (\<lambda>d. d\<lparr>drv_target_list := drv_target_list d @ [t]\<rparr>)
                   (case drv_target_create (mw_driver lld (set_targets ts m)) of
                      None \<Rightarrow> set_targets ts m | Some f \<Rightarrow> (set_targets ts m)\<lparr>mw_iw := f t (mw_iw (set_targets ts m))\<rparr>))"
    using assms(3) by (auto simp: target_new_def model_env_def Let_def bind_eq_Some_conv)
  have inv: "sys_inv ts" using sys_inv_target_create [OF mgmt_okD(2) [OF assms(1)] ts] .
  then have m1: "mgmt_ok (set_targets ts m)" "mw_drivers (set_targets ts m) = mw_drivers m"
    using assms(1) by (simp_all add: mgmt_okD) (simp add: set_targets_def set_adm_def)
  show ?thesis
    using m' m1 assms(2) lld_callbacks.create_ok [OF mgmt_ok_driver [OF m1(1), of lld]] mgmt_okD [OF m1(1)]
    by (auto split: option.split intro!: mgmt_ok_upd_driver)
qed

lemma ok_target_delete:
  assumes "mgmt_ok m" "lld < length (mw_drivers m)" "target_delete lld t force m = Some (err, s, m')"
  shows "mgmt_ok m'"
proof (cases "target_lookup t (adm_targets (mw_adm m)) = None \<or>
    (\<not> force \<and> it_nexus_list (the (target_lookup t (adm_targets (mw_adm m)))) \<noteq> [])")
  case True
  then show ?thesis using assms by (auto simp: target_delete_def simp del: destroy_devices.simps split: option.splits)
next
  case False
  then obtain tg where tg: "target_lookup t (adm_targets (mw_adm m)) = Some tg" "(\<not> force \<and> it_nexus_list tg \<noteq> []) = False" by auto
  obtain e ts where d: "destroy_devices t (adm_targets (mw_adm m)) = (e, ts)"
    by (cases "destroy_devices t (adm_targets (mw_adm m))")
  have inv: "sys_inv ts"
    using sys_inv_destroy_devices [OF mgmt_okD(2) [OF assms(1)], of t] d by simp
  show ?thesis
  proof (cases "e = TGTADM_SUCCESS")
    case True
    let ?call = "case drv_target_destroy (mw_driver lld m) of
        None \<Rightarrow> Some (mw_iw (set_targets ts m)) | Some f \<Rightarrow> f t force (mw_iw (set_targets ts m))"
    let ?res = "\<lambda>w. set_targets (lremove tid t (adm_targets (iw_adm w)))
        ((set_targets ts m)\<lparr>mw_iw := w,
           mw_drivers := map (\<lambda>d. d\<lparr>drv_target_list := removeAll t (drv_target_list d)\<rparr>) (mw_drivers (set_targets ts m))\<rparr>)"
    have "target_delete lld t force m = Option.bind ?call (\<lambda>w. Some (TGTADM_SUCCESS, [], ?res w))"
      unfolding target_delete_def using tg d True by (simp add: Let_def del: destroy_devices.simps) blast
    with assms(3) have "Option.bind ?call (\<lambda>w. Some (TGTADM_SUCCESS, [], ?res w)) = Some (err, s, m')" by simp
    then obtain w where w: "?call = Some w" and m': "m' = ?res w"
      unfolding bind_eq_Some_conv by auto
    have "adm_ok (mw_iw (set_targets ts m))" using inv by (simp add: adm_ok_def set_targets_def set_adm_def)
    then have "adm_ok w"
      using w lld_callbacks.destroy_ok [OF mgmt_ok_driver [OF assms(1,2)]] by (auto split: option.splits)
    then have "sys_inv (lremove tid t (adm_targets (iw_adm w)))"
      by (auto simp: adm_ok_def sys_inv_def list_all_iff map_key_lremove sorted_wrt_filter)
    then show ?thesis
      using m' mgmt_okD [OF assms(1)] by (simp add: list.pred_map comp_def) (simp add: set_targets_def set_adm_def)
  next
    case False': False
    then show ?thesis
      using assms(3) tg d inv mgmt_okD [OF assms(1)]
      by (auto simp: target_delete_def Let_def simp del: destroy_devices.simps split: if_splits)
  qed
qed

lemma ok_target_mgmt:
  assumes "mgmt_ok m" "lld < length (mw_drivers m)" "target_mgmt (model_env fo) lld r buf m = Some (err, s, m')"
  shows "mgmt_ok m'"
proof -
  note inv = mgmt_okD(2) [OF assms(1)]
  have "mgmt_ok m'" if "target_bind r buf m = Some (err, s, m')"
    using that by (auto simp: target_bind_def bind_eq_Some_conv split: if_splits
        intro: ok_results(1) [OF assms(1) sys_inv_hosts(1) [OF inv]] ok_results(2) [OF assms(1) sys_inv_acl_ops [OF inv]] sys_inv_acl)
  moreover have "mgmt_ok m'" if unb: "target_unbind r buf m = Some (err, s, m')"
  proof (cases "rq_len r = of_nat SIZEOF_REQ")
    case True
    then obtain p where "tgt_unbind_host_to_target (sint (rq_host_no r)) (mw_adm m) = Some p" "adm_result p m = (err, s, m')"
      using unb by (auto simp: target_unbind_def bind_eq_Some_conv)
    then show ?thesis using sys_inv_hosts(2) [OF inv] ok_results(1) [OF assms(1)] by (metis prod.collapse)
  next
    case False
    then show ?thesis
      using unb by (auto simp: target_unbind_def bind_eq_Some_conv
          intro: ok_results(2) [OF assms(1) sys_inv_acl_ops [OF inv]] sys_inv_acl)
  qed
  moreover have "mgmt_ok m'" if "target_update lld r buf m = Some (err, s, m')"
    using that assms(1,2) by (auto simp: target_update_def Let_def bind_eq_Some_conv split: if_splits
        intro: ok_results(2) [OF assms(1) sys_inv_acl(5) [OF inv]] ok_update_call)
  moreover have "mgmt_ok m'" if "target_show lld r m = Some (err, s, m')"
    using that assms(1) by (auto simp: target_show_def split: if_splits dest: ok_results)
  ultimately show ?thesis
    using assms by (auto simp: target_mgmt_def bind_eq_Some_conv split: if_splits
        dest: ok_target_new ok_target_delete ok_results(3))
qed


lemma ok_portal_mgmt:
  assumes "mgmt_ok m" "lld < length (mw_drivers m)" "portal_mgmt lld r buf m = Some (err, s, m')"
  shows "mgmt_ok m'"
proof -
  note cb = mgmt_ok_driver [OF assms(1,2)] and d = mgmt_okD [OF assms(1)]
  have "mgmt_ok m1" if "tgt_portal_op f args m = Some (e, x, m1)" "\<And>g p r w. f = Some g \<Longrightarrow> g p (mw_iw m) = Some (r, w) \<Longrightarrow> adm_ok w"
    for f args e x m1
    using that assms(1) d by (auto simp: tgt_portal_op_def bind_eq_Some_conv split: option.splits)
  from this [of "drv_portal_create (mw_driver lld m)"] this [of "drv_portal_destroy (mw_driver lld m)"] show ?thesis
    using assms d(1) lld_callbacks.portal_create_ok [OF cb] lld_callbacks.portal_destroy_ok [OF cb]
    by (auto simp: portal_mgmt_def bind_eq_Some_conv split: if_splits dest: ok_results(4))
qed

lemma ok_device_mgmt:
  assumes "mgmt_ok m" "device_mgmt (model_env fo) lld r buf m = Some (err, s, m')"
  shows "mgmt_ok m'"
proof -
  note inv = mgmt_okD(2) [OF assms(1)]
  have "mgmt_ok m'"
    if "targets_result (tgt_device_create (get_backingstore_template (me_bsts (model_env fo))) (me_bsops (model_env fo))
        (me_dtypes (model_env fo)) t ty l params b (adm_targets (mw_adm m))) m = (err, s, m')" for t ty l params b
    using that ok_results(2) [OF assms(1) disks.create_inv [OF inv]] by (simp add: model_env_def)
  then show ?thesis
    using assms
    by (auto simp: device_mgmt_def Let_def bind_eq_Some_conv split: if_splits option.splits dest: ok_results(3,5)
        intro: ok_results(2) [OF assms(1) sys_inv_device_destroy [OF inv]]
          ok_results(2) [OF assms(1) sys_inv_device_update [OF inv model_env_template]])
qed

lemma ok_account_mgmt:
  assumes "mgmt_ok m" "account_mgmt r buf m = Some (err, s, m')"
  shows "mgmt_ok m'"
proof -
  note inv = mgmt_okD(2) [OF assms(1)]
  show ?thesis
  proof (cases "rq_op r \<in> {OP_NEW, OP_DELETE, OP_BIND, OP_UNBIND}")
    case True
    then obtain y where y: "buf_text buf = Some y" using assms(2) by (cases "buf_text buf") (auto simp: account_mgmt_def)
    show ?thesis
    proof (cases "strstr_after ''user='' y")
      case None
      then show ?thesis using assms True y by (simp add: account_mgmt_def)
    next
      case (Some u)
      have "adm_result (account_add n k (mw_adm m)) m = (err, s, m') \<Longrightarrow> mgmt_ok m'" for n k
        using ok_results(1) [OF assms(1), of "account_add n k (mw_adm m)"] inv by simp
      then show ?thesis
        using assms(1,2) True y Some ok_results(1) [OF assms(1) sys_inv_account_del [OF inv]]
          ok_results(1) [OF assms(1) sys_inv_account_ctl [OF inv]]
        by (auto simp: account_mgmt_def Let_def split: if_splits)
    qed
  next
    case False
    then show ?thesis using assms by (auto simp: account_mgmt_def Let_def split: if_splits dest: ok_results(3))
  qed
qed

lemma ok_sys_mgmt:
  assumes "mgmt_ok m" "lld < length (mw_drivers m)" "sys_mgmt env lld r buf m = Some (err, s, m')"
  shows "mgmt_ok m'"
  using assms
  by (auto simp: sys_mgmt_def bind_eq_Some_conv split: if_splits dest: ok_results(3,4) ok_update_call)

lemma ok_session_mgmt:
  assumes "mgmt_ok m" "lld < length (mw_drivers m)"
  shows "session_mgmt lld r buf m = Some (err, s, m') \<Longrightarrow> mgmt_ok m'" "connection_mgmt lld r buf m = Some (err, s, m') \<Longrightarrow> mgmt_ok m'"
  using assms by (auto simp: session_mgmt_def connection_mgmt_def split: if_splits dest: ok_results(3,4,5) ok_update_call)

lemma ok_lld_mgmt:
  assumes "mgmt_ok m" "lld < length (mw_drivers m)" "lld_mgmt lld r m = Some (err, s, m')"
  shows "mgmt_ok m'"
proof -
  note cb = mgmt_ok_driver [OF assms(1,2)] and d = mgmt_okD [OF assms(1)]
  define m0 where "m0 = upd_driver lld (\<lambda>d. d\<lparr>drv_target_list := []\<rparr>) m"
  have m0: "mgmt_ok m0" "lld < length (mw_drivers m0)" "mw_iw m0 = mw_iw m"
    using assms(1,2) by (auto simp: m0_def intro!: mgmt_ok_upd_driver) (simp_all add: upd_driver_def)
  have "mgmt_ok m1" if "lld_init_one lld m = Some (e, m1)" for e m1
    using that m0 mgmt_okD [OF m0(1)] lld_callbacks.init_ok [OF mgmt_ok_driver [OF m0(1,2)]]
    by (auto simp: lld_init_one_def Let_def bind_eq_Some_conv simp flip: m0_def split: option.splits if_splits
        intro!: mgmt_ok_upd_driver)
  then show ?thesis
    using assms d lld_callbacks.exit_ok [OF cb]
    by (auto simp: lld_mgmt_def Let_def bind_eq_Some_conv split: if_splits option.splits dest: ok_results(3) intro!: mgmt_ok_upd_driver)
qed

lemma req_driver_less:
  assumes "mw_drivers m \<noteq> []" "req_driver r m = Some i"
  shows "i < length (mw_drivers m)"
proof -
  have "driver_index nm k ds < int k + int (length ds) \<and> (driver_index nm k ds = - 2 \<or> int k \<le> driver_index nm k ds)" for nm k ds
  proof (induction ds arbitrary: k)
    case (Cons d ds)
    from Cons.IH [of "k + 1"] show ?case by auto
  qed simp
  from this [of _ 0 "mw_drivers m"] show ?thesis
    using assms by (auto simp: req_driver_def get_driver_index_def Let_def nat_less_iff split: if_splits)
qed

lemma ok_execute:
  assumes "mgmt_ok m" "mtask_execute (model_env fo) r buf m = Some (err, s, m')"
  shows "mgmt_ok m'"
proof (cases "req_driver r m")
  case (Some lld)
  then have lld: "lld < length (mw_drivers m)" using req_driver_less mgmt_okD(3) [OF assms(1)] by blast
  show ?thesis
    using assms Some lld
    by (auto simp: mtask_execute_def split: if_splits dest: ok_sys_mgmt ok_target_mgmt ok_portal_mgmt ok_device_mgmt ok_account_mgmt
        ok_session_mgmt ok_lld_mgmt ok_results(4))
qed (use assms in \<open>simp add: mtask_execute_def\<close>)


section \<open>The iSCSI driver meets the contract\<close>

lemma iw_adm_add_portal: "iscsi_add_portal e addr port tpgt w = Some (r, w') \<Longrightarrow> iw_adm w' = iw_adm w"
  by (auto simp: iscsi_add_portal_def iscsi_tcp_init_portal_def Let_def bind_eq_Some_conv split: sum.splits)

lemma iw_adm_delete_portal [simp]: "iw_adm (snd (iscsi_delete_portal addr port w)) = iw_adm w"
  by (simp add: iscsi_delete_portal_def Let_def)

lemma iw_adm_portal_request: "portal_request e a d addr port w = Some (r, w') \<Longrightarrow> iw_adm w' = iw_adm w"
  using iw_adm_delete_portal [of addr port]
  by (auto simp: portal_request_def bind_eq_Some_conv split: if_splits prod.splits dest: iw_adm_add_portal)
     (metis iw_adm_delete_portal iw_adm_add_portal snd_conv)+

lemma iw_adm_portal_param: "portal_param e a d p w = Some (r, w') \<Longrightarrow> iw_adm w' = iw_adm w"
  by (auto simp: portal_param_def split: if_splits option.splits dest: iw_adm_portal_request)

lemma iw_adm_parse_portals: "iscsi_param_parse_portals e a d p w = Some (r, w') \<Longrightarrow> iw_adm w' = iw_adm w"
proof (induction e a d p w rule: iscsi_param_parse_portals.induct)
  case (1 e a d p w)
  show ?case
  proof (cases "p = []")
    case True
    then show ?thesis using "1.prems" by (simp add: iscsi_param_parse_portals.simps)
  next
    case False
    then obtain ret w1 where w1: "portal_param e a d p w = Some (ret, w1)"
      using "1.prems" by (auto simp: iscsi_param_parse_portals.simps [of e a d p] bind_eq_Some_conv)
    then show ?thesis
      using False "1.prems" "1.IH" [OF False w1] iw_adm_portal_param [OF w1]
      by (auto simp: iscsi_param_parse_portals.simps [of e a d p] split: if_splits)
  qed
qed

lemma iw_adm_tcp_exit [simp]: "iw_adm (iscsi_tcp_exit w) = iw_adm w"
proof -
  have "iw_adm (fold (\<lambda>p v. snd (iscsi_delete_portal (po_addr p) (po_port p) v)) ps v) = iw_adm v" for ps v
    by (induction ps arbitrary: v) simp_all
  then show ?thesis by (simp add: iscsi_tcp_exit_def)
qed

lemma adm_ok_isns_update: "adm_ok w \<Longrightarrow> adm_ok (snd (isns_update e params w))"
proof -
  have opt: "adm_ok (snd (isns_update_opt e p r))" if "adm_ok (snd r)" for p r
    using that
    by (cases r) (auto simp: isns_update_opt_def isns_update_isns_def isns_init_def isns_exit_def system_set_state_def adm_ok_def Let_def
        split: option.split)
  have "adm_ok (snd (fold (isns_update_opt e) ps r))" if "adm_ok (snd r)" for ps r
    using that by (induction ps arbitrary: r) (simp_all add: opt)
  then show "adm_ok w \<Longrightarrow> adm_ok (snd (isns_update e params w))" by (simp add: isns_update_def)
qed

lemma adm_ok_update:
  assumes "adm_ok w" "iscsi_target_update e mode op t sid l cid buf w = Some (err, w')"
  shows "adm_ok w'"
proof -
  have "adm_ok (snd (update_target_mode u t name str w))" for u name str
    using assms(1) by (simp add: update_target_mode_def split: option.split prod.split)
  moreover have "adm_ok (snd (conn_close_admin t sid cid w))"
    using assms(1) by (simp add: conn_close_admin_def Let_def split: option.split list.split)
  ultimately show ?thesis
    using assms adm_ok_isns_update [OF assms(1)]
    by (auto simp: iscsi_target_update_def bind_eq_Some_conv split: if_splits option.splits) (metis snd_conv)+
qed

lemma adm_ok_eq: "iw_adm w' = iw_adm w \<Longrightarrow> adm_ok w \<Longrightarrow> adm_ok w'"
  by (simp add: adm_ok_def)

interpretation iscsi: lld_callbacks "iscsi_driver e (model_perform pe)" for e pe
proof
  fix f1 w r w'
  assume "drv_init (iscsi_driver e (model_perform pe)) = Some f1" "adm_ok w" "f1 w = Some (r, w')"
  then show "adm_ok w'"
    by (auto simp: iscsi_driver_def iscsi_init_def iscsi_tcp_init_def adm_ok_def bind_eq_Some_conv split: option.splits if_splits
        dest!: iw_adm_add_portal iw_adm_parse_portals)
next
  fix f4 t force w w'
  assume "drv_target_destroy (iscsi_driver e (model_perform pe)) = Some f4" "adm_ok w" "f4 t force w = Some w'"
  then show "adm_ok w'"
    by (auto simp: iscsi_driver_def intro: stores.adm_ok_target_destroy)
next
  fix f2 w
  assume "drv_exit (iscsi_driver e (model_perform pe)) = Some f2" "adm_ok w"
  then show "adm_ok (f2 w)"
    by (auto simp: iscsi_driver_def iscsi_exit_def intro: adm_ok_eq)
qed (auto simp: iscsi_driver_def iscsi_portal_create_def iscsi_portal_destroy_def iscsi_target_create_def adm_ok_def
      dest!: iw_adm_parse_portals intro: adm_ok_update [unfolded adm_ok_def])

section \<open>Runs of the daemon\<close>

text \<open>
  The daemon starts with the iSCSI driver and no target. Its steps are a request of the
  administrator, a new session, the end of a connection and what the sessions of a target
  let the core do: commands, completions and task management in any order.
\<close>

inductive daemon_reach ::
  "(string \<Rightarrow> bool \<Rightarrow> bool + (int \<times> u64 \<times> int)) \<Rightarrow> lld_env \<Rightarrow> env \<Rightarrow> mgmt_world \<Rightarrow> bool" for fo e pe where
  start: "adm_targets (mw_adm m) = [] \<Longrightarrow> register_driver (iscsi_driver e (model_perform pe)) [] = (0, mw_drivers m) \<Longrightarrow>
    daemon_reach fo e pe m"
| request: "daemon_reach fo e pe m \<Longrightarrow> mtask_execute (model_env fo) r buf m = Some (err, s, m') \<Longrightarrow> daemon_reach fo e pe m'"
| session: "daemon_reach fo e pe m \<Longrightarrow> session_create env (mw_iw m) conn = Some (ret, w', conn') \<Longrightarrow>
    daemon_reach fo e pe (m\<lparr>mw_iw := w'\<rparr>)"
| close: "daemon_reach fo e pe m \<Longrightarrow> conn_close (model_perform pe) c (mw_iw m) = Some w' \<Longrightarrow>
    daemon_reach fo e pe (m\<lparr>mw_iw := w'\<rparr>)"
| core: "daemon_reach fo e pe m \<Longrightarrow>
    with_core t (\<lambda>cw. map_option (Pair ()) (core_run get_lun (model_perform pe) ops cw)) (mw_iw m) = Some ((), w') \<Longrightarrow>
    daemon_reach fo e pe (m\<lparr>mw_iw := w'\<rparr>)"

lemma adm_ok_session_create:
  assumes "adm_ok w" "session_create env w conn = Some (ret, w', conn')"
  shows "adm_ok w'"
proof -
  have "sys_inv ts" if "it_nexus_create now t nid h info (adm_targets (iw_adm w)) = Some (x, ts)" for now t nid h info x ts
    using sys_inv_nexus_create [OF _ that] assms(1) by (simp add: adm_ok_def)
  then show ?thesis
    using assms
    by (auto simp: session_create_def conn_add_to_session_def Let_def bind_eq_Some_conv split: option.splits if_splits)
       (simp_all add: adm_ok_def upd_session_def)
qed

lemma daemon_reach_ok: "daemon_reach fo e pe m \<Longrightarrow> mgmt_ok m"
proof (induction rule: daemon_reach.induct)
  case (start m)
  then show ?case
    using iscsi.lld_callbacks_axioms [of e pe]
    by (auto simp: mgmt_ok_def adm_ok_def sys_inv_def register_driver_def dest!: sym [of _ "mw_drivers m"])
next
  case (request m r buf err s m')
  then show ?case by (blast intro: ok_execute)
next
  case (session m env conn ret w' conn')
  then show ?case by (simp add: mgmt_okD adm_ok_session_create [OF mgmt_okD(1)])
next
  case (close m c w')
  then show ?case by (simp add: mgmt_okD stores.adm_ok_conn_close [OF _ mgmt_okD(1)])
next
  case (core m t get_lun ops w')
  have "adm_ok w'"
    by (rule adm_ok_with_core [OF mgmt_okD(1) [OF core.IH] core.hyps(2)]) (auto dest: stores.stays_core_run)
  then show ?case using core.IH by (simp add: mgmt_okD)
qed

text \<open>
  C1. Whatever the administrators and the initiators do, the data structures of the
  daemon stay consistent. After any sequence of requests on the management channel, of
  any mode and with any text, of new sessions, of connections that end, and of commands,
  completions and task management functions: targets are in strict order of their ids,
  units in strict order of their LUNs, every nexus of a target has exactly one
  \<open>it_nexus_lu_info\<close> for every unit and is in every unit's list exactly once, and a
  reserved unit is reserved by a nexus that exists.
\<close>

theorem daemon_reach_inv:
  assumes "daemon_reach fo e pe m"
  shows "sorted_wrt (<) (map tid (adm_targets (mw_adm m))) \<and>
    list_all (\<lambda>t.
      sorted_wrt (<) (map lun (device_list t)) \<and> distinct (map itn_id (it_nexus_list t)) \<and>
      list_all (\<lambda>itn. distinct (map itl_lu (itn_itl_info_list itn)) \<and>
        itl_lu ` set (itn_itl_info_list itn) = lun ` set (device_list t)) (it_nexus_list t) \<and>
      list_all (\<lambda>lu. distinct (lu_itl_info_list lu) \<and>
        set (lu_itl_info_list lu) = itn_id ` set (it_nexus_list t) \<and>
        (reserve_id lu = 0 \<or> reserve_id lu \<in> itn_id ` set (it_nexus_list t))) (device_list t)) (adm_targets (mw_adm m))"
  using mgmt_okD(2) [OF daemon_reach_ok [OF assms]]
  by (auto simp: sys_inv_def tgt_inv_def itns_wf_def itn_inv_def lu_inv_def list_all_iff)


text \<open>A daemon without targets, and the request for the first one.\<close>

definition ex_lld_env :: lld_env where
  "ex_lld_env = \<lparr>le_os = ex_env, le_getaddrinfo = (\<lambda>addr srv ps. Inr []), le_portal_arguments = None, le_stack = [],
     le_isns_reach = (\<lambda>addr port. False), le_isns_registered = False\<rparr>"

definition ex_daemon :: mgmt_world where
  "ex_daemon = \<lparr>mw_iw = ex_world\<lparr>iw_adm := ex_adm\<lparr>adm_targets := []\<rparr>, iw_targets := []\<rparr>,
     mw_drivers = snd (register_driver (iscsi_driver ex_lld_env (model_perform ex_perform_env)) []),
     mw_system_active = True, mw_is_debug = False\<rparr>"

definition ex_new_target :: tgtadm_req where
  "ex_new_target = \<lparr>rq_mode = ADM_TARGET, rq_op = OP_NEW, rq_lld = [0], rq_len = 0, rq_tid = 1, rq_sid = 0, rq_lun = 0, rq_cid = 0,
     rq_host_no = 0, rq_device_type = 0, rq_ac_dir = 0, rq_pack = 0, rq_force = 0\<rparr>"

definition ex_target_args :: bytes where
  "ex_target_args = str_bytes ''targetname=iqn.t'' @ [0]"

lemma ex_target_args_text: "buf_text (Some ex_target_args) = Some ''targetname=iqn.t''"
  by code_simp

lemma ex_daemon_request:
  "\<exists>m. mtask_execute (model_env no_files) ex_new_target (Some ex_target_args) ex_daemon = Some (TGTADM_SUCCESS, [], m) \<and>
     map it_tid (iw_targets (mw_iw m)) = [1]"
proof -
  have "\<exists>ts. create_target no_files ''rdwr'' 0 1 ''targetname=iqn.t'' [] = Some (TGTADM_SUCCESS, ts)"
    by (simp add: tgt_target_create_def parse_ex_name target_name_char_def target_lookup_def
      target_name_lookup_def get_backingstore_template_def register_backingstore_template_def null_bst_def rdwr_bst_def Let_def)
  then obtain ts where ts: "create_target no_files ''rdwr'' 0 1 ''targetname=iqn.t'' [] = Some (TGTADM_SUCCESS, ts)" by blast
  have d: "req_driver ex_new_target ex_daemon = Some 0"
    by (simp add: req_driver_def ex_new_target_def cstr_def bytes_str_def)
  have m: "adm_targets (mw_adm ex_daemon) = []" "drv_default_bst (mw_driver 0 ex_daemon) = ''rdwr''"
    "iw_targets (mw_iw ex_daemon) = []" "req_tid ex_new_target = 1"
    "drv_target_create (mw_driver 0 (set_targets ts ex_daemon)) =
       Some (\<lambda>t w. iscsi_target_create (iw_default_nop_interval w) (iw_default_nop_count w) t w)"
    by (simp_all add: ex_daemon_def mw_driver_def register_driver_def iscsi_driver_def ex_new_target_def set_targets_def set_adm_def)
  have "mtask_execute (model_env no_files) ex_new_target (Some ex_target_args) ex_daemon =
      target_new (model_env no_files) 0 1 ''targetname=iqn.t'' ex_daemon"
    by (simp add: mtask_execute_def d target_mgmt_def m ex_target_args_text) (simp add: ex_new_target_def)
  also have "\<dots> = Some (TGTADM_SUCCESS, [], upd_driver 0 (\<lambda>d. d\<lparr>drv_target_list := drv_target_list d @ [1]\<rparr>)
        ((set_targets ts ex_daemon)\<lparr>mw_iw := iscsi_target_create (iw_default_nop_interval (mw_iw (set_targets ts ex_daemon)))
          (iw_default_nop_count (mw_iw (set_targets ts ex_daemon))) 1 (mw_iw (set_targets ts ex_daemon))\<rparr>))" (is "_ = Some (_, _, ?m)")
    unfolding target_new_def m(1,2) model_env_def mgmt_env.simps semiring_1_class.of_nat_0 ts bind.bind_lunit prod.case Let_def m(5) option.case
    by (simp only: not_True_eq_False if_False simp_thms)
  finally have "mtask_execute (model_env no_files) ex_new_target (Some ex_target_args) ex_daemon = Some (TGTADM_SUCCESS, [], ?m)" .
  moreover have "map it_tid (iw_targets (mw_iw ?m)) = [1]"
    using m(3) by (simp add: iscsi_target_create_def upd_driver_def set_targets_def set_adm_def)
  ultimately show ?thesis by (intro exI conjI)
qed

theorem daemon_reach_inv_witness:
  "\<exists>m. mtask_execute (model_env no_files) ex_new_target (Some ex_target_args) ex_daemon = Some (TGTADM_SUCCESS, [], m) \<and>
     map it_tid (iw_targets (mw_iw m)) = [1] \<and> sorted_wrt (<) (map tid (adm_targets (mw_adm m)))"
proof -
  obtain m where m: "mtask_execute (model_env no_files) ex_new_target (Some ex_target_args) ex_daemon = Some (TGTADM_SUCCESS, [], m)"
      "map it_tid (iw_targets (mw_iw m)) = [1]"
    using ex_daemon_request by (elim exE conjE)
  have "daemon_reach no_files ex_lld_env ex_perform_env ex_daemon"
    by (rule daemon_reach.start) (simp_all add: ex_daemon_def register_driver_def)
  then have "sorted_wrt (<) (map tid (adm_targets (mw_adm m)))"
    by (rule daemon_reach_inv [OF daemon_reach.request [OF _ m(1)], THEN conjunct1])
  with m show ?thesis by (intro exI conjI)
qed


end
