(* ===== verification/Bs_Aio.thy ===== *)
theory Bs_Aio
  imports Bs_Rdwr
begin

text \<open>
  The backing store with asynchronous input and output (\<open>usr/bs_aio.c\<close>). Commands of
  a unit wait in a list and go to the kernel in batches; the kernel's answers are
  parameters. \<open>None\<close> is the use of a dangling pointer or an access outside of an array.
\<close>

section \<open>State\<close>

datatype aio_lio_opcode = IO_CMD_PREAD | IO_CMD_PWRITE

text \<open>
  A control block. \<open>io_data\<close> is the command; the buffer is its data-out buffer for a
  write and its data-in buffer for a read.
\<close>

record iocb =
  io_data :: nat
  io_fildes :: int
  io_lio_opcode :: aio_lio_opcode
  io_nbytes :: u64
  io_offset :: u64
  io_flags :: u32
  io_resfd :: int

definition zero_iocb :: iocb where
  "zero_iocb = \<lparr>io_data = 0, io_fildes = 0, io_lio_opcode = IO_CMD_PREAD, io_nbytes = 0, io_offset = 0, io_flags = 0, io_resfd = 0\<rparr>"

abbreviation (input) "AIO_MAX_IODEPTH \<equiv> 128 :: nat"

record bs_aio_info =
  bi_cmd_wait_list :: "nat list"
  bi_nwaiting :: u32
  bi_npending :: u32
  bi_iodepth :: u32
  bi_lu :: scsi_lu
  bi_evt_fd :: int
  bi_iocb_arr :: "iocb list"

text \<open>
  The units of the store by their addresses, the list of units with waiting commands, the
  commands, and what the outside sees: the requests the kernel accepted and the
  completions the core was told, in order.
\<close>

record aio_state =
  as_units :: "nat \<Rightarrow> bs_aio_info option"
  as_dev_list :: "nat list"
  as_cmds :: "nat \<Rightarrow> scsi_cmd option"
  as_sent :: "(nat \<times> iocb) list"
  as_done :: "(nat \<times> int) list"

definition put_unit :: "nat \<Rightarrow> bs_aio_info \<Rightarrow> aio_state \<Rightarrow> aio_state" where
  "put_unit d info st = st\<lparr>as_units := (as_units st)(d \<mapsto> info)\<rparr>"

section \<open>Set-up\<close>

definition bs_aio_init :: "scsi_lu \<Rightarrow> bs_aio_info" where
  "bs_aio_init lu = \<lparr>bi_cmd_wait_list = [], bi_nwaiting = 0, bi_npending = 0, bi_iodepth = 0, bi_lu = lu, bi_evt_fd = 0,
     bi_iocb_arr = replicate AIO_MAX_IODEPTH zero_iocb\<rparr>"

text \<open>
  Opening the file: \<open>setup\<close> is the result of \<open>io_setup\<close>, \<open>afd\<close> of \<open>eventfd\<close>, \<open>add\<close> of
  the registration with the event loop, \<open>file_open\<close> opens the file as for the other
  stores. The result is the code, \<open>- 1\<close> when the file is not opened, the descriptor and
  size, and the unit.
\<close>

definition bs_aio_open ::
  "(string \<Rightarrow> bool \<Rightarrow> bool + (int \<times> u64 \<times> int)) \<Rightarrow> int \<Rightarrow> int \<Rightarrow> int \<Rightarrow> string \<Rightarrow> bs_aio_info \<Rightarrow>
   int \<times> (int \<times> u64) option \<times> bs_aio_info" where
  "bs_aio_open file_open setup afd add path info0 =
     (let info = info0\<lparr>bi_iodepth := of_nat AIO_MAX_IODEPTH\<rparr> in
      if setup \<noteq> 0 then (- 1, None, info)
      else if afd < 0 then (afd, None, info)
      else if add \<noteq> 0 then (add, None, info)
      else
        let info1 = info\<lparr>bi_evt_fd := afd\<rparr>;
            ok = (\<lambda>lu (fd, sz, blksize). (0, Some (fd, sz),
              info1\<lparr>bi_lu := (if no_auto_lbppbe (attrs lu) = 0 then update_lbppbe blksize lu else lu)\<rparr>)) in
        case file_open path False of
          Inr r \<Rightarrow> ok (bi_lu info1) r
        | Inl denied \<Rightarrow>
            if \<not> denied then (- 1, None, info1)
            else
              let lu = upd_attrs (\<lambda>a. a\<lparr>readonly := 1\<rparr>) (bi_lu info1) in
              (case file_open path True of Inl _ \<Rightarrow> (- 1, None, info1\<lparr>bi_lu := lu\<rparr>) | Inr r \<Rightarrow> ok lu r))"

section \<open>Submission\<close>

definition aio_writes :: "u8 set" where
  "aio_writes = {WRITE_6, WRITE_10, WRITE_12, WRITE_16}"

definition aio_reads :: "u8 set" where
  "aio_reads = {READ_6, READ_10, READ_12, READ_16}"

definition bs_aio_iocb_prep :: "bs_aio_info \<Rightarrow> nat \<Rightarrow> scsi_cmd \<Rightarrow> iocb \<Rightarrow> iocb" where
  "bs_aio_iocb_prep info h cmd iocb =
     (let op = byte_at (scb cmd) 0; io = iocb\<lparr>io_data := h, io_fildes := lu_fd (bi_lu info)\<rparr>;
          finish = (\<lambda>io. io\<lparr>io_offset := c_offset cmd, io_flags := io_flags io OR 1, io_resfd := bi_evt_fd info\<rparr>) in
      if op \<in> aio_writes
      then finish (io\<lparr>io_lio_opcode := IO_CMD_PWRITE, io_nbytes := ucast (scsi_get_out_length cmd)\<rparr>)
      else if op \<in> aio_reads
      then finish (io\<lparr>io_lio_opcode := IO_CMD_PREAD, io_nbytes := ucast (scsi_get_in_length cmd)\<rparr>)
      else io)"

fun prep_batch :: "(nat \<Rightarrow> scsi_cmd option) \<Rightarrow> bs_aio_info \<Rightarrow> nat list \<Rightarrow> nat \<Rightarrow> iocb list \<Rightarrow> iocb list option" where
  "prep_batch cmds info [] i arr = Some arr"
| "prep_batch cmds info (h # hs) i arr =
     do { cmd \<leftarrow> cmds h;
          if i < length arr then prep_batch cmds info hs (Suc i) (arr[i := bs_aio_iocb_prep info h cmd (arr ! i)]) else None }"

text \<open>The commands of a batch the kernel refused lose their asynchronous mark.\<close>

definition clear_async :: "nat \<Rightarrow> aio_state \<Rightarrow> aio_state" where
  "clear_async h st = st\<lparr>as_cmds := (as_cmds st)(h := map_option (clear_cmd_bit TGT_CMD_ASYNC) (as_cmds st h))\<rparr>"

text \<open>The number of commands the next batch takes; the comparison is unsigned.\<close>

definition batch_size :: "bs_aio_info \<Rightarrow> nat" where
  "batch_size info =
     (let room = bi_iodepth info - bi_npending info in unat (if room > bi_nwaiting info then bi_nwaiting info else room))"

definition batch_refused :: "int \<Rightarrow> nat \<Rightarrow> nat \<Rightarrow> bs_aio_info \<Rightarrow> aio_state \<Rightarrow> int \<times> aio_state" where
  "batch_refused nsuccess nsubmit d info st =
     (let info1 = info\<lparr>bi_nwaiting := bi_nwaiting info - of_nat nsubmit\<rparr>;
          st1 = fold clear_async (rev (map io_data (take nsubmit (bi_iocb_arr info)))) (put_unit d info1 st)
      in (nsuccess, if bi_nwaiting info1 = 0 then st1\<lparr>as_dev_list := remove1 d (as_dev_list st1)\<rparr> else st1))"

definition batch_sent :: "nat \<Rightarrow> nat \<Rightarrow> nat \<Rightarrow> bs_aio_info \<Rightarrow> aio_state \<Rightarrow> aio_state" where
  "batch_sent nsuccess nsubmit d info st =
     (let back = map io_data (drop nsuccess (take nsubmit (bi_iocb_arr info)));
          info1 = info\<lparr>bi_cmd_wait_list := back @ bi_cmd_wait_list info,
                       bi_npending := bi_npending info + of_nat nsuccess,
                       bi_nwaiting := bi_nwaiting info - of_nat nsuccess\<rparr>;
          st1 = (put_unit d info1 st)\<lparr>as_sent := as_sent st @ map (Pair d) (take nsuccess (bi_iocb_arr info))\<rparr>
      in if bi_nwaiting info1 = 0 then st1\<lparr>as_dev_list := remove1 d (as_dev_list st1)\<rparr> else st1)"

text \<open>\<open>kern d n\<close> is the result of \<open>io_submit\<close> for \<open>n\<close> requests of unit \<open>d\<close>.\<close>

abbreviation (input) "EAGAIN \<equiv> 11 :: int"

definition bs_aio_submit_dev_batch :: "(nat \<Rightarrow> nat \<Rightarrow> int) \<Rightarrow> nat \<Rightarrow> aio_state \<Rightarrow> (int \<times> aio_state) option" where
  "bs_aio_submit_dev_batch kern d st =
     do { info \<leftarrow> as_units st d;
          let nsubmit = batch_size info;
          if nsubmit = 0 then Some (0, st)
          else do { arr \<leftarrow> prep_batch (as_cmds st) info (take nsubmit (bi_cmd_wait_list info)) 0 (bi_iocb_arr info);
                    let info1 = info\<lparr>bi_iocb_arr := arr, bi_cmd_wait_list := drop nsubmit (bi_cmd_wait_list info)\<rparr>;
                    let nsuccess = kern d nsubmit;
                    Some (if nsuccess < 0 \<and> nsuccess \<noteq> - EAGAIN then batch_refused nsuccess nsubmit d info1 st
                          else (0, batch_sent (nat nsuccess) nsubmit d info1 st)) } }"

fun submit_devs :: "(nat \<Rightarrow> nat \<Rightarrow> int) \<Rightarrow> nat list \<Rightarrow> aio_state \<Rightarrow> (int \<times> aio_state) option" where
  "submit_devs kern [] st = Some (0, st)"
| "submit_devs kern (d # ds) st =
     do { (err, st1) \<leftarrow> bs_aio_submit_dev_batch kern d st;
          if err \<noteq> 0 then Some (err, st1) else submit_devs kern ds st1 }"

definition bs_aio_submit_all_devs :: "(nat \<Rightarrow> nat \<Rightarrow> int) \<Rightarrow> aio_state \<Rightarrow> (int \<times> aio_state) option" where
  "bs_aio_submit_all_devs kern st = submit_devs kern (as_dev_list st) st"

definition aio_enqueue :: "nat \<Rightarrow> nat \<Rightarrow> scsi_cmd \<Rightarrow> bs_aio_info \<Rightarrow> aio_state \<Rightarrow> aio_state" where
  "aio_enqueue d h cmd info st =
     (put_unit d (info\<lparr>bi_cmd_wait_list := bi_cmd_wait_list info @ [h], bi_nwaiting := bi_nwaiting info + 1\<rparr>) st)
       \<lparr>as_dev_list := (if bi_nwaiting info = 0 then as_dev_list st @ [d] else as_dev_list st),
        as_cmds := (as_cmds st)(h \<mapsto> set_cmd_bit TGT_CMD_ASYNC cmd)\<rparr>"

definition bs_aio_cmd_submit :: "(nat \<Rightarrow> nat \<Rightarrow> int) \<Rightarrow> nat \<Rightarrow> nat \<Rightarrow> aio_state \<Rightarrow> (int \<times> aio_state) option" where
  "bs_aio_cmd_submit kern d h st =
     do { cmd \<leftarrow> as_cmds st h;
          info \<leftarrow> as_units st d;
          let op = byte_at (scb cmd) 0;
          if op \<in> {WRITE_SAME, WRITE_SAME_16} then Some (- 1, st)
          else if op \<notin> aio_writes \<union> aio_reads then Some (0, st)
          else do { let st1 = aio_enqueue d h cmd info st;
                    info1 \<leftarrow> as_units st1 d;
                    if \<not> cmd_bit TGT_CMD_NOT_LAST cmd then bs_aio_submit_all_devs kern st1
                    else if bi_nwaiting info1 = bi_iodepth info1 - bi_npending info1 then bs_aio_submit_dev_batch kern d st1
                    else Some (0, st1) } }"

section \<open>Completion\<close>

text \<open>An event: the command and the result, negative results as large numbers.\<close>

definition bs_aio_complete_one :: "nat \<Rightarrow> nat \<times> u64 \<Rightarrow> aio_state \<Rightarrow> aio_state option" where
  "bs_aio_complete_one d ep st =
     do { cmd \<leftarrow> as_cmds st (fst ep);
          info \<leftarrow> as_units st d;
          let len = (if byte_at (scb cmd) 0 \<in> aio_writes then scsi_get_out_length cmd else scsi_get_in_length cmd);
          let good = (snd ep = ucast len);
          let cmd1 = (if good then cmd else sense_data_build (bi_lu info) MEDIUM_ERROR 0 cmd);
          let result = (if good then SAM_STAT_GOOD else SAM_STAT_CHECK_CONDITION);
          Some (st\<lparr>as_cmds := (as_cmds st)(fst ep \<mapsto> cmd1\<lparr>c_result := result\<rparr>), as_done := as_done st @ [(fst ep, result)]\<rparr>) }"

fun complete_all :: "nat \<Rightarrow> (nat \<times> u64) list \<Rightarrow> aio_state \<Rightarrow> aio_state option" where
  "complete_all d [] st = Some st"
| "complete_all d (ep # eps) st = do { st1 \<leftarrow> bs_aio_complete_one d ep st; complete_all d eps st1 }"

text \<open>
  The loop over \<open>io_getevents\<close> with its answers, one list of events for each call; the
  empty list is an error, and without a further answer the call does not return. Calls
  that are interrupted are repeated.
\<close>

fun getevents_loop :: "nat \<Rightarrow> (nat \<times> u64) list list \<Rightarrow> u32 \<Rightarrow> aio_state \<Rightarrow> (bool \<times> aio_state) option" where
  "getevents_loop d [] ncomplete st = (if ncomplete = 0 then Some (True, st) else None)"
| "getevents_loop d (evs # rest) ncomplete st =
     (if ncomplete = 0 then Some (True, st)
      else if evs = [] then Some (False, st)
      else do { info \<leftarrow> as_units st d;
                st1 \<leftarrow> complete_all d evs (put_unit d (info\<lparr>bi_npending := bi_npending info - of_nat (length evs)\<rparr>) st);
                getevents_loop d rest (ncomplete - of_nat (length evs)) st1 })"

text \<open>\<open>evts\<close> is the number read from the event descriptor, \<open>None\<close> an error.\<close>

definition bs_aio_get_completions ::
  "(nat \<Rightarrow> nat \<Rightarrow> int) \<Rightarrow> nat \<Rightarrow> u64 option \<Rightarrow> (nat \<times> u64) list list \<Rightarrow> aio_state \<Rightarrow> aio_state option" where
  "bs_aio_get_completions kern d evts answers st =
     (case evts of
        None \<Rightarrow> Some st
      | Some n \<Rightarrow>
          do { (ok, st1) \<leftarrow> getevents_loop d answers (ucast n) st;
               if \<not> ok then Some st1
               else do { info \<leftarrow> as_units st1 d;
                         if bi_nwaiting info \<noteq> 0 then map_option snd (bs_aio_submit_dev_batch kern d st1) else Some st1 } })"

definition aio_bst :: backingstore_template where
  "aio_bst = \<lparr>bs_name = ''aio'', bs_oflags_supported = 0, bs_supported_ops = replicate 4 0\<rparr>"

end
