(* ===== verification/Bs_Aio_Thms.thy ===== *)
theory Bs_Aio_Thms
  imports Bs_Aio
begin

text \<open>
  The asynchronous store: along every run each command goes to the kernel once and in
  the order of arrival, whatever part of a batch the kernel takes; a batch the kernel
  refuses for good is lost.
\<close>

section \<open>The requests of a run\<close>

definition aio_rw :: "scsi_cmd \<Rightarrow> bool" where
  "aio_rw cmd \<longleftrightarrow> byte_at (scb cmd) 0 \<in> aio_writes \<union> aio_reads"

text \<open>The commands of a unit the kernel accepted, and those of them it still works on.\<close>

definition sent_of :: "nat \<Rightarrow> aio_state \<Rightarrow> nat list" where
  "sent_of d st = map (\<lambda>p. io_data (snd p)) (filter (\<lambda>p. fst p = d) (as_sent st))"

definition in_flight :: "nat \<Rightarrow> aio_state \<Rightarrow> nat list" where
  "in_flight d st = filter (\<lambda>h. h \<notin> fst ` set (as_done st)) (sent_of d st)"

text \<open>A control block that describes its command.\<close>

definition io_for :: "bs_aio_info \<Rightarrow> scsi_cmd \<Rightarrow> iocb \<Rightarrow> bool" where
  "io_for info cmd io \<longleftrightarrow>
     io_fildes io = lu_fd (bi_lu info) \<and> io_offset io = c_offset cmd \<and> io_resfd io = bi_evt_fd info \<and>
     (if byte_at (scb cmd) 0 \<in> aio_writes then io_lio_opcode io = IO_CMD_PWRITE \<and> io_nbytes io = ucast (scsi_get_out_length cmd)
      else io_lio_opcode io = IO_CMD_PREAD \<and> io_nbytes io = ucast (scsi_get_in_length cmd))"

definition unit_ok :: "nat list \<Rightarrow> nat \<Rightarrow> bs_aio_info \<Rightarrow> aio_state \<Rightarrow> bool" where
  "unit_ok qs d info st \<longleftrightarrow>
     qs = sent_of d st @ bi_cmd_wait_list info \<and> length qs < 2 ^ 32 \<and>
     bi_nwaiting info = of_nat (length (bi_cmd_wait_list info)) \<and>
     bi_npending info = of_nat (length (in_flight d st)) \<and> length (in_flight d st) \<le> AIO_MAX_IODEPTH \<and>
     bi_iodepth info = of_nat AIO_MAX_IODEPTH \<and> length (bi_iocb_arr info) = AIO_MAX_IODEPTH \<and>
     (d \<in> set (as_dev_list st) \<longleftrightarrow> bi_cmd_wait_list info \<noteq> [])"

definition aio_inv :: "(nat \<Rightarrow> nat list) \<Rightarrow> aio_state \<Rightarrow> bool" where
  "aio_inv q st \<longleftrightarrow>
     (\<forall>d info. as_units st d = Some info \<longrightarrow> unit_ok (q d) d info st) \<and>
     (\<forall>d. as_units st d = None \<longrightarrow> q d = []) \<and>
     set (as_dev_list st) \<subseteq> dom (as_units st) \<and> distinct (as_dev_list st) \<and>
     (\<forall>d d'. d \<noteq> d' \<longrightarrow> set (q d) \<inter> set (q d') = {}) \<and> (\<forall>d. distinct (q d)) \<and>
     (\<forall>d. \<forall>h \<in> set (q d). \<exists>cmd. as_cmds st h = Some cmd \<and> aio_rw cmd) \<and>
     (\<forall>h \<in> fst ` set (as_done st). \<exists>d. h \<in> set (sent_of d st)) \<and>
     (\<forall>p \<in> set (as_sent st). \<exists>info cmd. as_units st (fst p) = Some info \<and> as_cmds st (io_data (snd p)) = Some cmd \<and>
        io_for info cmd (snd p))"

lemma aio_invD:
  assumes "aio_inv q st"
  shows "as_units st d = Some info \<Longrightarrow> unit_ok (q d) d info st" "as_units st d = None \<Longrightarrow> q d = []"
    "set (as_dev_list st) \<subseteq> dom (as_units st)" "distinct (as_dev_list st)" "d \<noteq> d' \<Longrightarrow> set (q d) \<inter> set (q d') = {}" "distinct (q d)"
    "h \<in> set (q d) \<Longrightarrow> \<exists>cmd. as_cmds st h = Some cmd \<and> aio_rw cmd" "h \<in> fst ` set (as_done st) \<Longrightarrow> \<exists>d. h \<in> set (sent_of d st)"
    "p \<in> set (as_sent st) \<Longrightarrow> \<exists>info cmd. as_units st (fst p) = Some info \<and> as_cmds st (io_data (snd p)) = Some cmd \<and> io_for info cmd (snd p)"
proof -
  note inv = assms [unfolded aio_inv_def]
  show "as_units st d = Some info \<Longrightarrow> unit_ok (q d) d info st" using inv by simp
  show "as_units st d = None \<Longrightarrow> q d = []" using inv by simp
  show "set (as_dev_list st) \<subseteq> dom (as_units st)" using inv by simp
  show "distinct (as_dev_list st)" using inv by simp
  show "d \<noteq> d' \<Longrightarrow> set (q d) \<inter> set (q d') = {}" using inv by simp
  show "distinct (q d)" using inv by simp
  show "h \<in> set (q d) \<Longrightarrow> \<exists>cmd. as_cmds st h = Some cmd \<and> aio_rw cmd" using inv by simp
  have "\<forall>h \<in> fst ` set (as_done st). \<exists>d. h \<in> set (sent_of d st)" using inv by (elim conjE)
  then show "h \<in> fst ` set (as_done st) \<Longrightarrow> \<exists>d. h \<in> set (sent_of d st)" by blast
  show "p \<in> set (as_sent st) \<Longrightarrow> \<exists>info cmd. as_units st (fst p) = Some info \<and> as_cmds st (io_data (snd p)) = Some cmd \<and> io_for info cmd (snd p)"
    using inv by simp
qed

text \<open>A command that waits was not completed.\<close>

lemma sent_of_queued: "aio_inv q st \<Longrightarrow> h \<in> set (sent_of d st) \<Longrightarrow> h \<in> set (q d)"
proof (cases "as_units st d")
  case None
  assume inv: "aio_inv q st" and "h \<in> set (sent_of d st)"
  then obtain p where "p \<in> set (as_sent st)" "fst p = d" by (auto simp: sent_of_def)
  with aio_invD(9) [OF inv this(1)] show ?thesis using None by simp
next
  case (Some info)
  assume inv: "aio_inv q st" and "h \<in> set (sent_of d st)"
  then show ?thesis using aio_invD(1) [OF inv Some] by (simp add: unit_ok_def)
qed

lemma waiting_not_done:
  assumes "aio_inv q st" "as_units st d = Some info" "h \<in> set (bi_cmd_wait_list info)"
  shows "h \<notin> fst ` set (as_done st)"
proof
  assume "h \<in> fst ` set (as_done st)"
  then obtain d' where d': "h \<in> set (sent_of d' st)" using aio_invD(8) [OF assms(1)] by blast
  have q: "q d = sent_of d st @ bi_cmd_wait_list info" using aio_invD(1) [OF assms(1,2)] by (simp add: unit_ok_def)
  then have "h \<in> set (q d)" "h \<in> set (q d')" using assms(3) sent_of_queued [OF assms(1) d'] by auto
  then have "d' = d" using aio_invD(5) [OF assms(1), of d d'] by blast
  then show False using d' q assms(3) aio_invD(6) [OF assms(1), of d] by auto
qed

section \<open>A batch\<close>

lemma prep_batch_ok:
  assumes "i + length hs \<le> length arr" "\<forall>h \<in> set hs. \<exists>cmd. cmds h = Some cmd \<and> aio_rw cmd"
  shows "\<exists>arr'. prep_batch cmds info hs i arr = Some arr' \<and> length arr' = length arr \<and> (\<forall>k < i. arr' ! k = arr ! k) \<and>
    (\<forall>k < length hs. io_data (arr' ! (i + k)) = hs ! k \<and> io_for info (the (cmds (hs ! k))) (arr' ! (i + k)))"
  using assms
proof (induction hs arbitrary: i arr)
  case (Cons h hs)
  then obtain cmd where cmd: "cmds h = Some cmd" "aio_rw cmd" by auto
  let ?io = "bs_aio_iocb_prep info h cmd (arr ! i)" and ?arr = "arr[i := bs_aio_iocb_prep info h cmd (arr ! i)]"
  have io: "io_data ?io = h" "io_for info cmd ?io"
    using cmd(2) by (auto simp: bs_aio_iocb_prep_def io_for_def aio_rw_def Let_def)
  have "Suc i + length hs \<le> length ?arr" "\<forall>x \<in> set hs. \<exists>cmd. cmds x = Some cmd \<and> aio_rw cmd"
    using Cons.prems by simp_all
  from Cons.IH [OF this] obtain arr' where arr': "prep_batch cmds info hs (Suc i) ?arr = Some arr'" "length arr' = length arr"
      "\<forall>k < Suc i. arr' ! k = ?arr ! k"
      "\<forall>k < length hs. io_data (arr' ! (Suc i + k)) = hs ! k \<and> io_for info (the (cmds (hs ! k))) (arr' ! (Suc i + k))"
    by auto
  have "arr' ! i = ?io" using arr'(3) Cons.prems(1) by simp
  then have "io_data (arr' ! (i + k)) = (h # hs) ! k \<and> io_for info (the (cmds ((h # hs) ! k))) (arr' ! (i + k))"
    if "k < length (h # hs)" for k
    using that arr'(4) io cmd(1) by (cases k) auto
  moreover have "prep_batch cmds info (h # hs) i arr = Some arr'"
    using cmd(1) arr'(1) Cons.prems(1) by simp
  moreover have "\<forall>k < i. arr' ! k = arr ! k" using arr'(3) by simp
  ultimately show ?case using arr'(2) by blast
qed simp

lemma batch_size_min:
  assumes "unit_ok qs d info st"
  shows "batch_size info = min (length (bi_cmd_wait_list info)) (AIO_MAX_IODEPTH - length (in_flight d st))"
proof -
  have w: "unat (bi_nwaiting info) = length (bi_cmd_wait_list info)"
    using assms by (auto simp: unit_ok_def unat_of_nat)
  have p: "unat (bi_npending info) = length (in_flight d st)" "length (in_flight d st) \<le> 128" "bi_iodepth info = 128"
    using assms by (auto simp: unit_ok_def unat_of_nat)
  then have "unat (bi_iodepth info - bi_npending info) = 128 - length (in_flight d st)"
    by (subst unat_sub) (auto simp: word_le_nat_alt)
  then show ?thesis using w by (auto simp: batch_size_def Let_def word_less_nat_alt)
qed

lemma batch_size_ok:
  assumes "unit_ok qs d info st"
  shows "batch_size info \<le> length (bi_cmd_wait_list info)" "batch_size info + length (in_flight d st) \<le> AIO_MAX_IODEPTH"
  using batch_size_min [OF assms] assms by (auto simp: unit_ok_def)

text \<open>What the batch of a unit does when the kernel takes the first \<open>k\<close> of its requests.\<close>

lemma submit_batch_cases:
  assumes "aio_inv q st" "as_units st d = Some info"
  obtains "batch_size info = 0" "\<And>kern. bs_aio_submit_dev_batch kern d st = Some (0, st)"
  | arr where "0 < batch_size info" "length arr = AIO_MAX_IODEPTH"
      "map io_data (take (batch_size info) arr) = take (batch_size info) (bi_cmd_wait_list info)"
      "\<forall>io \<in> set (take (batch_size info) arr). \<exists>cmd. as_cmds st (io_data io) = Some cmd \<and> io_for info cmd io"
      "\<And>kern. bs_aio_submit_dev_batch kern d st =
         Some (if kern d (batch_size info) < 0 \<and> kern d (batch_size info) \<noteq> - EAGAIN
               then batch_refused (kern d (batch_size info)) (batch_size info) d
                      (info\<lparr>bi_iocb_arr := arr, bi_cmd_wait_list := drop (batch_size info) (bi_cmd_wait_list info)\<rparr>) st
               else (0, batch_sent (nat (kern d (batch_size info))) (batch_size info) d
                      (info\<lparr>bi_iocb_arr := arr, bi_cmd_wait_list := drop (batch_size info) (bi_cmd_wait_list info)\<rparr>) st))"
proof (cases "batch_size info = 0")
  case True
  then show ?thesis using assms(2) that(1) by (simp add: bs_aio_submit_dev_batch_def)
next
  case False
  let ?n = "batch_size info" and ?hs = "take (batch_size info) (bi_cmd_wait_list info)"
  have ok: "unit_ok (q d) d info st" using assms by (simp add: aio_inv_def)
  have len: "length ?hs = ?n" "?n \<le> 128" "length (bi_iocb_arr info) = 128"
    using batch_size_ok [OF ok] ok by (simp_all add: unit_ok_def)
  have cmds: "\<forall>h \<in> set ?hs. \<exists>cmd. as_cmds st h = Some cmd \<and> aio_rw cmd"
    using aio_invD(7) [OF assms(1), of _ d] ok by (auto simp: unit_ok_def dest: in_set_takeD)
  obtain arr where arr: "prep_batch (as_cmds st) info ?hs 0 (bi_iocb_arr info) = Some arr" "length arr = 128"
      "\<forall>k < ?n. io_data (arr ! k) = ?hs ! k \<and> io_for info (the (as_cmds st (?hs ! k))) (arr ! k)"
    using prep_batch_ok [of 0 ?hs "bi_iocb_arr info" "as_cmds st" info] cmds len by auto
  have "map io_data (take ?n arr) = ?hs"
    using arr(2,3) len by (intro nth_equalityI) auto
  moreover have "\<forall>io \<in> set (take ?n arr). \<exists>cmd. as_cmds st (io_data io) = Some cmd \<and> io_for info cmd io"
  proof
    fix io assume "io \<in> set (take ?n arr)"
    then obtain k where k: "k < ?n" "io = arr ! k" using arr(2) by (auto simp: in_set_conv_nth)
    then have "?hs ! k \<in> set ?hs" using len(1) by (metis nth_mem)
    then show "\<exists>cmd. as_cmds st (io_data io) = Some cmd \<and> io_for info cmd io"
      using cmds arr(3) k by fastforce
  qed
  moreover have "bs_aio_submit_dev_batch kern d st =
      Some (if kern d ?n < 0 \<and> kern d ?n \<noteq> - EAGAIN
        then batch_refused (kern d ?n) ?n d (info\<lparr>bi_iocb_arr := arr, bi_cmd_wait_list := drop ?n (bi_cmd_wait_list info)\<rparr>) st
        else (0, batch_sent (nat (kern d ?n)) ?n d (info\<lparr>bi_iocb_arr := arr, bi_cmd_wait_list := drop ?n (bi_cmd_wait_list info)\<rparr>) st))"
    for kern
    using False assms(2) arr(1) by (simp add: bs_aio_submit_dev_batch_def Let_def)
  ultimately show ?thesis using that(2) False arr(2) by blast
qed

lemma put_unit_simps [simp]:
  "as_units (put_unit d info st) = (as_units st)(d \<mapsto> info)" "as_dev_list (put_unit d info st) = as_dev_list st"
  "as_cmds (put_unit d info st) = as_cmds st" "as_sent (put_unit d info st) = as_sent st" "as_done (put_unit d info st) = as_done st"
  by (simp_all add: put_unit_def)

lemma sent_of_append [simp]:
  "sent_of d (s\<lparr>as_sent := as_sent st @ map (Pair e) ios\<rparr>) = sent_of d st @ (if d = e then map io_data ios else [])"
  by (induction ios) (auto simp: sent_of_def)

lemma same_sent [simp]:
  "sent_of d (st\<lparr>as_dev_list := ds\<rparr>) = sent_of d st" "sent_of d (st\<lparr>as_cmds := cs\<rparr>) = sent_of d st"
  "sent_of d (put_unit e info st) = sent_of d st" "sent_of d (st\<lparr>as_units := us\<rparr>) = sent_of d st"
  "sent_of d (st\<lparr>as_done := ps\<rparr>) = sent_of d st"
  by (simp_all add: sent_of_def)

text \<open>A step that changes one unit; the requests of the others stay as they are.\<close>

lemma aio_inv_step:
  assumes inv: "aio_inv q st" "as_units st d = Some info"
    and units: "as_units st' = (as_units st)(d \<mapsto> info')"
    and unit_d: "unit_ok (q' d) d info' st'"
    and others: "\<And>e. e \<noteq> d \<Longrightarrow> q' e = q e \<and> sent_of e st' = sent_of e st \<and> in_flight e st' = in_flight e st \<and>
      (e \<in> set (as_dev_list st') \<longleftrightarrow> e \<in> set (as_dev_list st))"
    and devs: "distinct (as_dev_list st')"
    and queued: "distinct (q' d)" "\<And>e. e \<noteq> d \<Longrightarrow> set (q' d) \<inter> set (q e) = {}"
    and cmds: "\<And>e h. h \<in> set (q' e) \<Longrightarrow> \<exists>cmd. as_cmds st' h = Some cmd \<and> aio_rw cmd"
    and compl: "\<And>h. h \<in> fst ` set (as_done st') \<Longrightarrow> \<exists>e. h \<in> set (sent_of e st')"
    and sent: "\<And>p. p \<in> set (as_sent st') \<Longrightarrow>
      \<exists>i cmd. as_units st' (fst p) = Some i \<and> as_cmds st' (io_data (snd p)) = Some cmd \<and> io_for i cmd (snd p)"
  shows "aio_inv q' st'"
  unfolding aio_inv_def
proof (intro conjI allI impI ballI)
  fix e i assume i: "as_units st' e = Some i"
  show "unit_ok (q' e) e i st'"
  proof (cases "e = d")
    case False
    then have "as_units st e = Some i" using i units by simp
    from aio_invD(1) [OF inv(1) this] show ?thesis using others [OF False] by (auto simp: unit_ok_def)
  qed (use i units unit_d in simp)
next
  fix e assume "as_units st' e = None"
  then have "e \<noteq> d" "as_units st e = None" using units by (auto split: if_splits)
  then show "q' e = []" using aio_invD(2) [OF inv(1)] others by auto
next
  have "e \<in> dom (as_units st')" if "e \<in> set (as_dev_list st')" for e
    using that others [of e] aio_invD(3) [OF inv(1)] units by (cases "e = d") auto
  then show "set (as_dev_list st') \<subseteq> dom (as_units st')" by blast
next
  fix e e' :: nat assume "e \<noteq> e'"
  then show "set (q' e) \<inter> set (q' e') = {}"
    using others queued(2) aio_invD(5) [OF inv(1)] by (cases "e = d"; cases "e' = d") (simp_all, blast)
next
  fix e show "distinct (q' e)"
    using others [of e] queued(1) aio_invD(6) [OF inv(1)] by (cases "e = d") simp_all
qed (use devs cmds compl sent in blast)+

lemma batch_sent_inv:
  assumes inv: "aio_inv q st" "as_units st d = Some info" and n: "n = batch_size info" "0 < n" "k \<le> n"
    and arr: "length arr = AIO_MAX_IODEPTH" "map io_data (take n arr) = take n (bi_cmd_wait_list info)"
      "\<forall>io \<in> set (take n arr). \<exists>cmd. as_cmds st (io_data io) = Some cmd \<and> io_for info cmd io"
  shows "aio_inv q (batch_sent k n d (info\<lparr>bi_iocb_arr := arr, bi_cmd_wait_list := drop n (bi_cmd_wait_list info)\<rparr>) st)"
proof -
  note ok = aio_invD(1) [OF inv]
  let ?w = "bi_cmd_wait_list info"
  have nw: "n \<le> length ?w" "n + length (in_flight d st) \<le> 128" using batch_size_ok [OF ok] n(1) by simp_all
  have len: "length ?w < 2 ^ 32" using ok by (auto simp: unit_ok_def)
  have take_k: "map io_data (take k arr) = take k ?w" "map io_data (drop k (take n arr)) = drop k (take n ?w)"
    using arr(2) n(3) by (metis min.absorb1 take_map take_take, metis drop_map)
  have wait: "map io_data (drop k (take n arr)) @ drop n ?w = drop k ?w"
    using take_k(2) n(3) nw(1) by (metis append_take_drop_id diff_is_0_eq drop_0 drop_append length_take min.absorb2)
  define info1 where "info1 = info\<lparr>bi_iocb_arr := arr, bi_cmd_wait_list := drop k ?w,
    bi_npending := bi_npending info + of_nat k, bi_nwaiting := bi_nwaiting info - of_nat k\<rparr>"
  define st1 where "st1 = (put_unit d info1 st)\<lparr>as_sent := as_sent st @ map (Pair d) (take k arr)\<rparr>"
  have nwait: "bi_nwaiting info1 = of_nat (length (drop k ?w))"
    using ok n(3) nw(1) by (simp add: info1_def unit_ok_def of_nat_diff)
  then have empty: "bi_nwaiting info1 = 0 \<longleftrightarrow> drop k ?w = []"
    using len unat_of_nat [where 'a = 32, of "length (drop k ?w)"] by (auto simp flip: unat_eq_zero)
  have res: "batch_sent k n d (info\<lparr>bi_iocb_arr := arr, bi_cmd_wait_list := drop n ?w\<rparr>) st =
      st1\<lparr>as_dev_list := (if drop k ?w = [] then remove1 d (as_dev_list st) else as_dev_list st)\<rparr>"
    using empty wait by (simp add: batch_sent_def Let_def info1_def st1_def put_unit_def)
  define st2 where "st2 = st1\<lparr>as_dev_list := (if drop k ?w = [] then remove1 d (as_dev_list st) else as_dev_list st)\<rparr>"
  have sent: "sent_of e st2 = sent_of e st @ (if e = d then take k ?w else [])" for e
    using take_k(1) by (simp add: st2_def st1_def)
  have flight: "in_flight e st2 = in_flight e st @ (if e = d then take k ?w else [])" for e
    using waiting_not_done [OF inv] sent by (auto simp: in_flight_def st2_def st1_def dest: in_set_takeD intro!: filter_True)
  have "d \<in> set (as_dev_list st)" using ok n nw(1) by (auto simp: unit_ok_def)
  then have unit_d: "unit_ok (q d) d info1 st2"
    using ok sent flight nwait arr(1) n(3) nw aio_invD(4) [OF inv(1)]
    by (auto simp: unit_ok_def info1_def st2_def)
  have ios: "\<exists>i cmd. as_units st2 (fst p) = Some i \<and> as_cmds st2 (io_data (snd p)) = Some cmd \<and> io_for i cmd (snd p)"
    if new: "p \<in> set (as_sent st2)" for p
  proof (cases "p \<in> set (as_sent st)")
    case True
    from aio_invD(9) [OF inv(1) this] inv(2) show ?thesis by (auto simp: st2_def st1_def info1_def io_for_def)
  next
    case False
    then obtain io where "io \<in> set (take n arr)" "p = (d, io)"
      using new set_take_subset_set_take [OF n(3), of arr] by (auto simp: st2_def st1_def)
    then show ?thesis using arr(3) by (fastforce simp: st2_def st1_def info1_def io_for_def)
  qed
  have compl: "\<exists>e. h \<in> set (sent_of e st2)" if "h \<in> fst ` set (as_done st2)" for h
    using aio_invD(8) [OF inv(1), of h] that sent by (auto simp: st2_def st1_def)
  have "aio_inv q st2"
    by (rule aio_inv_step [where q' = q, OF inv _ unit_d _ _ _ _ _ compl ios])
       (use aio_invD(4-7) [OF inv(1)] sent flight in \<open>auto simp: st2_def st1_def split: if_splits dest: notin_set_remove1\<close>)
  then show ?thesis using res by (simp add: st2_def)
qed

section \<open>Steps\<close>

text \<open>What \<open>io_submit\<close> may answer: try again, or a number of requests from the first on.\<close>

definition submit_ok :: "int \<Rightarrow> nat \<Rightarrow> bool" where
  "submit_ok r n \<longleftrightarrow> r = - EAGAIN \<or> (0 \<le> r \<and> r \<le> int n)"

lemma submit_batch_inv:
  assumes "aio_inv q st" "as_units st d = Some info" "\<forall>e n. submit_ok (kern e n) n"
  shows "\<exists>st'. bs_aio_submit_dev_batch kern d st = Some (0, st') \<and> aio_inv q st' \<and> dom (as_units st') = dom (as_units st)"
proof (rule submit_batch_cases [OF assms(1,2)])
  assume "\<And>kern. bs_aio_submit_dev_batch kern d st = Some (0, st)"
  then show ?thesis using assms(1) by simp
next
  fix arr
  let ?n = "batch_size info" and ?info = "info\<lparr>bi_iocb_arr := arr, bi_cmd_wait_list := drop (batch_size info) (bi_cmd_wait_list info)\<rparr>"
  assume arr: "0 < ?n" "length arr = AIO_MAX_IODEPTH" "map io_data (take ?n arr) = take ?n (bi_cmd_wait_list info)"
    "\<forall>io \<in> set (take ?n arr). \<exists>cmd. as_cmds st (io_data io) = Some cmd \<and> io_for info cmd io"
    and run: "\<And>kern. bs_aio_submit_dev_batch kern d st =
      Some (if kern d ?n < 0 \<and> kern d ?n \<noteq> - EAGAIN then batch_refused (kern d ?n) ?n d ?info st
            else (0, batch_sent (nat (kern d ?n)) ?n d ?info st))"
  have k: "kern d ?n = - EAGAIN \<or> (0 \<le> kern d ?n \<and> kern d ?n \<le> int ?n)"
    using assms(3) by (simp add: submit_ok_def)
  then have "aio_inv q (batch_sent (nat (kern d ?n)) ?n d ?info st)"
    using arr by (intro batch_sent_inv [OF assms(1,2)]) auto
  moreover have "dom (as_units (batch_sent k ?n d ?info st)) = dom (as_units st)" for k
    using assms(2) by (auto simp: batch_sent_def Let_def)
  ultimately show ?thesis using run [of kern] k by auto
qed

lemma submit_devs_inv:
  assumes "aio_inv q st" "set ds \<subseteq> dom (as_units st)" "\<forall>e n. submit_ok (kern e n) n"
  shows "\<exists>st'. submit_devs kern ds st = Some (0, st') \<and> aio_inv q st'"
  using assms
proof (induction ds arbitrary: st)
  case (Cons d ds)
  then obtain info where "as_units st d = Some info" by auto
  from submit_batch_inv [OF Cons.prems(1) this Cons.prems(3)] obtain st1
    where st1: "bs_aio_submit_dev_batch kern d st = Some (0, st1)" "aio_inv q st1" "dom (as_units st1) = dom (as_units st)" by blast
  then show ?case using Cons.IH [OF st1(2)] Cons.prems(2,3) by simp
qed simp

lemma enqueue_inv:
  assumes inv: "aio_inv q st" "as_units st d = Some info" and h: "\<forall>e. h \<notin> set (q e)" "aio_rw cmd" "length (q d) + 1 < 2 ^ 32"
  shows "aio_inv (q(d := q d @ [h])) (aio_enqueue d h cmd info st)"
proof -
  note ok = aio_invD(1) [OF inv]
  let ?st = "aio_enqueue d h cmd info st"
  have zero: "bi_nwaiting info = 0 \<longleftrightarrow> bi_cmd_wait_list info = []"
    using ok h(3) unat_of_nat [where 'a = 32, of "length (bi_cmd_wait_list info)"] by (auto simp: unit_ok_def simp flip: unat_eq_zero)
  have sent: "sent_of e ?st = sent_of e st" "in_flight e ?st = in_flight e st" for e
    by (simp_all add: aio_enqueue_def in_flight_def)
  have listed: "d \<in> set (as_dev_list st) \<longleftrightarrow> bi_cmd_wait_list info \<noteq> []" using ok by (simp add: unit_ok_def)
  have rw: "aio_rw (set_cmd_bit b c) = aio_rw c" for b c by (simp add: aio_rw_def set_cmd_bit_def)
  have unit_d: "unit_ok ((q(d := q d @ [h])) d) d (info\<lparr>bi_cmd_wait_list := bi_cmd_wait_list info @ [h], bi_nwaiting := bi_nwaiting info + 1\<rparr>) ?st"
    using ok h(3) zero sent by (auto simp: unit_ok_def aio_enqueue_def)
  have ios: "\<exists>i c. as_units ?st (fst p) = Some i \<and> as_cmds ?st (io_data (snd p)) = Some c \<and> io_for i c (snd p)"
    if p: "p \<in> set (as_sent ?st)" for p
  proof -
    have "p \<in> set (as_sent st)" using p by (simp add: aio_enqueue_def)
    moreover from this have "io_data (snd p) \<in> set (sent_of (fst p) st)" by (auto simp: sent_of_def)
    then have "io_data (snd p) \<noteq> h" using sent_of_queued [OF inv(1)] h(1) by blast
    ultimately show ?thesis using aio_invD(9) [OF inv(1), of p] inv(2) by (auto simp: aio_enqueue_def io_for_def)
  qed
  have compl: "\<exists>e. x \<in> set (sent_of e ?st)" if "x \<in> fst ` set (as_done ?st)" for x
    using that aio_invD(8) [OF inv(1), of x] sent by (auto simp: aio_enqueue_def)
  have cmds: "\<exists>c. as_cmds ?st x = Some c \<and> aio_rw c" if "x \<in> set ((q(d := q d @ [h])) e)" for x e
    using that aio_invD(7) [OF inv(1)] h(2) rw by (auto simp: aio_enqueue_def split: if_splits)
  show ?thesis
    by (rule aio_inv_step [where q' = "q(d := q d @ [h])", OF inv _ unit_d _ _ _ _ cmds compl ios])
       (use aio_invD(4-6) [OF inv(1)] h(1) listed zero sent in \<open>auto simp: aio_enqueue_def\<close>)
qed


section \<open>Completions\<close>

text \<open>The parts of a command the store looks at do not change.\<close>

definition cmd_key :: "scsi_cmd \<Rightarrow> bytes \<times> u64 \<times> u32 \<times> u32" where
  "cmd_key c = (scb c, c_offset c, scsi_get_out_length c, scsi_get_in_length c)"

lemma cmd_key_cong: "cmd_key c = cmd_key c' \<Longrightarrow> aio_rw c = aio_rw c' \<and> io_for info c io = io_for info c' io"
  by (simp add: cmd_key_def aio_rw_def io_for_def)

definition same_cmds :: "aio_state \<Rightarrow> aio_state \<Rightarrow> bool" where
  "same_cmds st st' \<longleftrightarrow> (\<forall>h. map_option cmd_key (as_cmds st' h) = map_option cmd_key (as_cmds st h))"

lemma same_cmdsD:
  assumes "same_cmds st st'" "as_cmds st h = Some c"
  shows "\<exists>c'. as_cmds st' h = Some c' \<and> aio_rw c' = aio_rw c \<and> (\<forall>info io. io_for info c' io = io_for info c io)"
proof -
  have "map_option cmd_key (as_cmds st' h) = Some (cmd_key c)" using assms by (simp add: same_cmds_def)
  then obtain c' where "as_cmds st' h = Some c'" "cmd_key c' = cmd_key c" by auto
  then show ?thesis using cmd_key_cong [of c' c] by blast
qed

lemma complete_all_ok:
  assumes "\<forall>ep \<in> set evs. as_cmds st (fst ep) \<noteq> None" "as_units st d = Some info"
  shows "\<exists>st'. complete_all d evs st = Some st' \<and> as_units st' = as_units st \<and> as_dev_list st' = as_dev_list st \<and>
    as_sent st' = as_sent st \<and> map fst (as_done st') = map fst (as_done st) @ map fst evs \<and> same_cmds st st'"
  using assms
proof (induction evs arbitrary: st)
  case (Cons ep evs)
  then obtain c where c: "as_cmds st (fst ep) = Some c" by auto
  obtain st1 where st1: "bs_aio_complete_one d ep st = Some st1" "as_units st1 = as_units st" "as_dev_list st1 = as_dev_list st"
      "as_sent st1 = as_sent st" "map fst (as_done st1) = map fst (as_done st) @ [fst ep]" "same_cmds st st1"
    using c Cons.prems(2) by (auto simp: bs_aio_complete_one_def Let_def same_cmds_def cmd_key_def sense_data_build_def)
  have "\<forall>x \<in> set evs. as_cmds st1 (fst x) \<noteq> None"
    using Cons.prems(1) same_cmdsD [OF st1(6)] by fastforce
  then obtain st' where st': "complete_all d evs st1 = Some st'" "as_units st' = as_units st1" "as_dev_list st' = as_dev_list st1"
      "as_sent st' = as_sent st1" "map fst (as_done st') = map fst (as_done st1) @ map fst evs" "same_cmds st1 st'"
    using Cons.IH [of st1] st1(2) Cons.prems(2) by auto
  moreover have "same_cmds st st'" using st1(6) st'(6) by (simp add: same_cmds_def)
  ultimately show ?case using st1 by simp
qed (simp add: same_cmds_def)

lemma length_filter_remove:
  assumes "distinct xs" "distinct ys" "set ys \<subseteq> set xs"
  shows "length (filter (\<lambda>x. x \<notin> set ys) xs) + length ys = length xs"
proof -
  have "set (filter (\<lambda>x. x \<notin> set ys) xs) = set xs - set ys" by auto
  then have "length (filter (\<lambda>x. x \<notin> set ys) xs) = card (set xs - set ys)"
    using assms(1) distinct_card [of "filter (\<lambda>x. x \<notin> set ys) xs"] by simp
  also have "\<dots> = length xs - length ys"
    using assms by (simp add: card_Diff_subset distinct_card)
  finally show ?thesis
    using assms card_mono [of "set xs" "set ys"] by (simp add: distinct_card)
qed

lemma events_inv:
  assumes inv: "aio_inv q st" "as_units st d = Some info"
    and evs: "distinct (map fst evs)" "set (map fst evs) \<subseteq> set (in_flight d st)"
  shows "\<exists>st'. complete_all d evs (put_unit d (info\<lparr>bi_npending := bi_npending info - of_nat (length evs)\<rparr>) st) = Some st' \<and>
    aio_inv q st' \<and> in_flight d st' = filter (\<lambda>h. h \<notin> set (map fst evs)) (in_flight d st) \<and> dom (as_units st') = dom (as_units st)"
proof -
  let ?info = "info\<lparr>bi_npending := bi_npending info - of_nat (length evs)\<rparr>"
  note ok = aio_invD(1) [OF inv]
  have sent_d: "set (map fst evs) \<subseteq> set (sent_of d st)" using evs(2) by (auto simp: in_flight_def)
  then have qd: "set (map fst evs) \<subseteq> set (q d)" using sent_of_queued [OF inv(1)] by blast
  then have "\<forall>ep \<in> set evs. as_cmds (put_unit d ?info st) (fst ep) \<noteq> None"
    using aio_invD(7) [OF inv(1), of _ d] by fastforce
  then obtain st' where st': "complete_all d evs (put_unit d ?info st) = Some st'" "as_units st' = (as_units st)(d \<mapsto> ?info)"
      "as_dev_list st' = as_dev_list st" "as_sent st' = as_sent st" "map fst (as_done st') = map fst (as_done st) @ map fst evs"
      "same_cmds (put_unit d ?info st) st'"
    using complete_all_ok [of evs "put_unit d ?info st" d ?info] by auto
  have same: "same_cmds st st'" using st'(6) by (simp add: same_cmds_def)
  have sent: "sent_of e st' = sent_of e st" for e using st'(4) by (simp add: sent_of_def)
  have compl: "fst ` set (as_done st') = fst ` set (as_done st) \<union> set (map fst evs)"
    using arg_cong [OF st'(5), of set] by simp
  have flight: "in_flight e st' = filter (\<lambda>h. h \<notin> set (map fst evs)) (in_flight e st)" for e
    by (auto simp: in_flight_def sent compl intro!: filter_cong)
  have other: "in_flight e st' = in_flight e st" if e: "e \<noteq> d" for e
  proof -
    have "h \<notin> set (map fst evs)" if "h \<in> set (in_flight e st)" for h
      using that e qd sent_of_queued [OF inv(1), of h e] aio_invD(5) [OF inv(1), of e d] by (auto simp: in_flight_def)
    then show ?thesis using flight by (simp add: filter_id_conv)
  qed
  have dist: "distinct (in_flight d st)"
    using ok aio_invD(6) [OF inv(1), of d] by (auto simp: unit_ok_def in_flight_def)
  have len: "length (in_flight d st') + length evs = length (in_flight d st)"
    using length_filter_remove [OF dist evs] flight by simp
  then have "bi_npending ?info = of_nat (length (in_flight d st'))"
    using ok by (simp add: unit_ok_def) (metis add_diff_cancel_right' of_nat_add)
  then have unit_d: "unit_ok (q d) d ?info st'"
    using ok sent st'(3) len by (auto simp: unit_ok_def)
  have cmds: "\<exists>cmd. as_cmds st' h = Some cmd \<and> aio_rw cmd" if "h \<in> set (q e)" for e h
    using aio_invD(7) [OF inv(1) that] same_cmdsD [OF same] by blast
  have ends: "\<exists>e. h \<in> set (sent_of e st')" if "h \<in> fst ` set (as_done st')" for h
    unfolding sent using that [unfolded compl] aio_invD(8) [OF inv(1), of h] sent_d by (elim UnE) blast+
  have ios: "\<exists>i cmd. as_units st' (fst p) = Some i \<and> as_cmds st' (io_data (snd p)) = Some cmd \<and> io_for i cmd (snd p)"
    if p: "p \<in> set (as_sent st')" for p
  proof -
    obtain i c where ic: "as_units st (fst p) = Some i" "as_cmds st (io_data (snd p)) = Some c" "io_for i c (snd p)"
      using aio_invD(9) [OF inv(1), of p] p st'(4) by auto
    then obtain c' where "as_cmds st' (io_data (snd p)) = Some c'" "io_for i c' (snd p)"
      using same_cmdsD [OF same ic(2)] by auto
    then show ?thesis using ic(1) st'(2) inv(2) by (auto simp: io_for_def)
  qed
  have "aio_inv q st'"
    by (rule aio_inv_step [where q' = q, OF inv st'(2) unit_d _ _ _ _ cmds ends ios])
       (use st'(3) sent other aio_invD(4-6) [OF inv(1)] in auto)
  then show ?thesis using st'(1,2) flight inv(2) by auto
qed


lemma getevents_inv:
  assumes "aio_inv q st" "as_units st d \<noteq> None" "distinct (map fst (concat answers))"
    "set (map fst (concat answers)) \<subseteq> set (in_flight d st)" "getevents_loop d answers n st = Some (b, st')"
  shows "aio_inv q st' \<and> as_units st' d \<noteq> None"
  using assms
proof (induction answers arbitrary: n st)
  case (Cons evs rest)
  show ?case
  proof (cases "n = 0 \<or> evs = []")
    case False
    obtain info where info: "as_units st d = Some info" using Cons.prems(2) by auto
    have "distinct (map fst evs)" "set (map fst evs) \<subseteq> set (in_flight d st)" using Cons.prems(3,4) by auto
    from events_inv [OF Cons.prems(1) info this] obtain st1
      where st1: "complete_all d evs (put_unit d (info\<lparr>bi_npending := bi_npending info - of_nat (length evs)\<rparr>) st) = Some st1"
        "aio_inv q st1" "in_flight d st1 = filter (\<lambda>h. h \<notin> set (map fst evs)) (in_flight d st)" "dom (as_units st1) = dom (as_units st)"
      by blast
    have "set (map fst evs) \<inter> set (map fst (concat rest)) = {}" "set (map fst (concat rest)) \<subseteq> set (in_flight d st)"
      using Cons.prems(3,4) by (simp_all only: concat.simps map_append distinct_append set_append Un_subset_iff)
    then have "set (map fst (concat rest)) \<subseteq> set (in_flight d st1)" unfolding st1(3) set_filter by blast
    moreover have "as_units st1 d \<noteq> None" using st1(4) info by (metis domIff option.distinct(1))
    moreover have "getevents_loop d rest (n - of_nat (length evs)) st1 = Some (b, st')"
      using Cons.prems(5) False info st1(1) by simp
    ultimately show ?thesis using Cons.IH [OF st1(2)] Cons.prems(3) by simp
  qed (use Cons.prems in \<open>auto split: if_splits\<close>)
qed (auto split: if_splits)

section \<open>Runs\<close>

text \<open>
  The units are opened; then commands arrive and the kernel reports completions of
  requests it has, each once. \<open>q d\<close> are the reads and writes for unit \<open>d\<close> in their order
  of arrival. The commands of a run are different from each other, and their number stays
  below the range of the counters.
\<close>

inductive aio_reach :: "(nat \<Rightarrow> nat list) \<Rightarrow> aio_state \<Rightarrow> bool" where
  start: "\<forall>d info. as_units st d = Some info \<longrightarrow> (\<exists>fo afd path lu r. bs_aio_open fo 0 afd 0 path (bs_aio_init lu) = (0, Some r, info)) \<Longrightarrow>
    as_dev_list st = [] \<Longrightarrow> as_sent st = [] \<Longrightarrow> as_done st = [] \<Longrightarrow> aio_reach (\<lambda>_. []) st"
| submit: "aio_reach q st \<Longrightarrow> \<forall>e. h \<notin> set (q e) \<Longrightarrow> length (q d) + 1 < 2 ^ 32 \<Longrightarrow> \<forall>e n. submit_ok (kern e n) n \<Longrightarrow>
    bs_aio_cmd_submit kern d h (st\<lparr>as_cmds := (as_cmds st)(h \<mapsto> cmd)\<rparr>) = Some (r, st') \<Longrightarrow>
    aio_reach (if aio_rw cmd then q(d := q d @ [h]) else q) st'"
| complete: "aio_reach q st \<Longrightarrow> distinct (map fst (concat answers)) \<Longrightarrow> set (map fst (concat answers)) \<subseteq> set (in_flight d st) \<Longrightarrow>
    \<forall>e n. submit_ok (kern e n) n \<Longrightarrow> as_units st d \<noteq> None \<Longrightarrow> bs_aio_get_completions kern d evts answers st = Some st' \<Longrightarrow>
    aio_reach q st'"

lemma open_unit_ok:
  assumes "bs_aio_open fo 0 afd 0 path (bs_aio_init lu) = (0, Some r, info)"
    and "as_dev_list st = []" "as_sent st = []" "as_done st = []"
  shows "unit_ok [] d info st"
  using assms by (auto simp: bs_aio_open_def bs_aio_init_def unit_ok_def sent_of_def in_flight_def Let_def split: if_splits sum.splits prod.splits)

lemma put_cmd_inv:
  assumes "aio_inv q st" "\<forall>e. h \<notin> set (q e)"
  shows "aio_inv q (st\<lparr>as_cmds := (as_cmds st)(h \<mapsto> cmd)\<rparr>)"
proof -
  have "io_data (snd p) \<noteq> h" if "p \<in> set (as_sent st)" for p
    using sent_of_queued [OF assms(1), of "io_data (snd p)" "fst p"] that assms(2) by (auto simp: sent_of_def)
  moreover have "unit_ok qs d info (st\<lparr>as_cmds := cs\<rparr>) = unit_ok qs d info st" for qs d info cs
    by (simp add: unit_ok_def in_flight_def)
  moreover have "h' \<noteq> h" if "h' \<in> set (q e)" for h' e using that assms(2) by blast
  ultimately show ?thesis
    using assms(1) by (simp add: aio_inv_def)
qed

lemma cmd_submit_inv:
  assumes "aio_inv q st" "\<forall>e. h \<notin> set (q e)" "length (q d) + 1 < 2 ^ 32" "\<forall>e n. submit_ok (kern e n) n"
    and run: "bs_aio_cmd_submit kern d h (st\<lparr>as_cmds := (as_cmds st)(h \<mapsto> cmd)\<rparr>) = Some (r, st')"
  shows "aio_inv (if aio_rw cmd then q(d := q d @ [h]) else q) st'"
proof -
  let ?st = "st\<lparr>as_cmds := (as_cmds st)(h \<mapsto> cmd)\<rparr>"
  have inv: "aio_inv q ?st" using assms(1,2) by (rule put_cmd_inv)
  obtain info where info: "as_units ?st d = Some info" using run by (auto simp: bs_aio_cmd_submit_def bind_eq_Some_conv)
  show ?thesis
  proof (cases "aio_rw cmd")
    case False
    then show ?thesis using inv run info by (auto simp: bs_aio_cmd_submit_def aio_rw_def Let_def split: if_splits)
  next
    case True
    let ?st1 = "aio_enqueue d h cmd info ?st"
    have inv1: "aio_inv (q(d := q d @ [h])) ?st1" using enqueue_inv [OF inv info assms(2) True assms(3)] .
    obtain info1 where info1: "as_units ?st1 d = Some info1" by (simp add: aio_enqueue_def)
    have "byte_at (scb cmd) 0 \<notin> {WRITE_SAME, WRITE_SAME_16}" using True by (auto simp: aio_rw_def aio_writes_def aio_reads_def)
    then have "bs_aio_cmd_submit kern d h ?st =
        (if \<not> cmd_bit TGT_CMD_NOT_LAST cmd then submit_devs kern (as_dev_list ?st1) ?st1
         else if bi_nwaiting info1 = bi_iodepth info1 - bi_npending info1 then bs_aio_submit_dev_batch kern d ?st1 else Some (0, ?st1))"
      using True info info1 by (simp add: bs_aio_cmd_submit_def bs_aio_submit_all_devs_def aio_rw_def Let_def)
    then show ?thesis
      using run True inv1 submit_devs_inv [OF inv1 aio_invD(3) [OF inv1] assms(4)] submit_batch_inv [OF inv1 info1 assms(4)]
      by (auto split: if_splits)
  qed
qed

lemma aio_reach_inv: "aio_reach q st \<Longrightarrow> aio_inv q st"
proof (induction rule: aio_reach.induct)
  case (start st)
  then show ?case using open_unit_ok by (simp add: aio_inv_def sent_of_def) blast
next
  case (submit q st h d kern cmd r st')
  then show ?case using cmd_submit_inv by blast
next
  case (complete q st answers d kern evts st')
  show ?case
  proof (cases evts)
    case (Some n)
    then obtain b st1 where st1: "getevents_loop d answers (ucast n) st = Some (b, st1)"
        and rest: "(if \<not> b then Some st1
          else do { info \<leftarrow> as_units st1 d; if bi_nwaiting info \<noteq> 0 then map_option snd (bs_aio_submit_dev_batch kern d st1) else Some st1 }) = Some st'"
      using complete.hyps(6) by (auto simp: bs_aio_get_completions_def bind_eq_Some_conv)
    from getevents_inv [OF complete.IH complete.hyps(5,2,3) st1] obtain info
      where inv: "aio_inv q st1" "as_units st1 d = Some info" by auto
    show ?thesis using rest inv submit_batch_inv [OF inv complete.hyps(4)] by (auto split: if_splits)
  qed (use complete in \<open>simp add: bs_aio_get_completions_def\<close>)
qed


text \<open>A batch the kernel takes leaves no command waiting or fills the queue of the kernel.\<close>

lemma batch_sent_unit:
  "\<exists>i. as_units (batch_sent k n d info st) d = Some i \<and>
    bi_cmd_wait_list i = map io_data (drop k (take n (bi_iocb_arr info))) @ bi_cmd_wait_list info \<and> bi_npending i = bi_npending info + of_nat k"
  by (simp add: batch_sent_def Let_def)

lemma batch_fills:
  assumes "aio_inv q st" "as_units st d = Some info" "\<forall>e n. kern e n = int n"
  shows "\<exists>st' info'. bs_aio_submit_dev_batch kern d st = Some (0, st') \<and> as_units st' d = Some info' \<and>
    (bi_cmd_wait_list info' = [] \<or> length (in_flight d st') = AIO_MAX_IODEPTH)"
proof (rule submit_batch_cases [OF assms(1,2)])
  assume "batch_size info = 0" "\<And>kern. bs_aio_submit_dev_batch kern d st = Some (0, st)"
  then show ?thesis
    using assms(2) batch_size_min [OF aio_invD(1) [OF assms(1,2)]] aio_invD(1) [OF assms(1,2)] by (auto simp: unit_ok_def min_def split: if_splits)
next
  fix arr
  let ?n = "batch_size info" and ?info = "info\<lparr>bi_iocb_arr := arr, bi_cmd_wait_list := drop (batch_size info) (bi_cmd_wait_list info)\<rparr>"
  assume "0 < ?n" and run: "\<And>kern. bs_aio_submit_dev_batch kern d st =
      Some (if kern d ?n < 0 \<and> kern d ?n \<noteq> - EAGAIN then batch_refused (kern d ?n) ?n d ?info st
            else (0, batch_sent (nat (kern d ?n)) ?n d ?info st))"
    and arr: "length arr = AIO_MAX_IODEPTH" "map io_data (take ?n arr) = take ?n (bi_cmd_wait_list info)"
      "\<forall>io \<in> set (take ?n arr). \<exists>cmd. as_cmds st (io_data io) = Some cmd \<and> io_for info cmd io"
  have res: "bs_aio_submit_dev_batch kern d st = Some (0, batch_sent ?n ?n d ?info st)" using run [of kern] assms(3) by simp
  have "aio_inv q (batch_sent ?n ?n d ?info st)"
    by (rule batch_sent_inv [OF assms(1,2) refl \<open>0 < ?n\<close> order_refl arr])
  moreover obtain i where i: "as_units (batch_sent ?n ?n d ?info st) d = Some i" "bi_cmd_wait_list i = drop ?n (bi_cmd_wait_list info)"
      "bi_npending i = bi_npending info + of_nat ?n"
    using batch_sent_unit [of ?n ?n d ?info st] by auto
  ultimately have ok: "unit_ok (q d) d i (batch_sent ?n ?n d ?info st)" using aio_invD(1) by blast
  have "unat (bi_npending i) = length (in_flight d (batch_sent ?n ?n d ?info st))"
    using ok by (auto simp: unit_ok_def unat_of_nat)
  moreover have "bi_npending i = of_nat (length (in_flight d st) + ?n)"
    using i(3) aio_invD(1) [OF assms(1,2)] by (simp add: unit_ok_def)
  then have "unat (bi_npending i) = length (in_flight d st) + ?n"
    using batch_size_ok(2) [OF aio_invD(1) [OF assms(1,2)]] by (simp add: unat_of_nat del: of_nat_add)
  ultimately have "length (in_flight d (batch_sent ?n ?n d ?info st)) = length (in_flight d st) + ?n" by simp
  then show ?thesis
    using res i(1,2) batch_size_min [OF aio_invD(1) [OF assms(1,2)]]
      batch_size_ok(2) [OF aio_invD(1) [OF assms(1,2)]]
    by (auto simp: min_def split: if_splits)
qed

text \<open>
  C12. The asynchronous store loses no command and keeps their order. Whatever commands
  arrive for the units, in batches or one by one, whatever part of a batch the kernel
  takes or asks to send again, and in whatever order it completes requests: the commands
  of a unit the kernel took, followed by the waiting ones, are the reads and writes that
  arrived, in order and each once; every request carries the descriptor, direction,
  offset and length of its command; at most 128 are with the kernel, the counters are
  right, and exactly the units with waiting commands are listed for the next batch. A
  further batch is always possible, and when the kernel takes all of it no command waits
  or the kernel has 128 of them.
\<close>

theorem aio_in_order:
  assumes "aio_reach q st" "as_units st d = Some info"
  shows "q d = sent_of d st @ bi_cmd_wait_list info \<and> distinct (q d) \<and>
    (\<forall>p \<in> set (as_sent st). fst p = d \<longrightarrow> (\<exists>cmd. as_cmds st (io_data (snd p)) = Some cmd \<and> io_for info cmd (snd p))) \<and>
    length (in_flight d st) \<le> AIO_MAX_IODEPTH \<and> unat (bi_npending info) = length (in_flight d st) \<and>
    unat (bi_nwaiting info) = length (bi_cmd_wait_list info) \<and> (d \<in> set (as_dev_list st) \<longleftrightarrow> bi_cmd_wait_list info \<noteq> []) \<and>
    (\<forall>kern. bs_aio_submit_dev_batch kern d st \<noteq> None) \<and>
    (\<exists>st' info'. bs_aio_submit_dev_batch (\<lambda>e n. int n) d st = Some (0, st') \<and> as_units st' d = Some info' \<and>
      (bi_cmd_wait_list info' = [] \<or> length (in_flight d st') = AIO_MAX_IODEPTH))"
proof -
  have inv: "aio_inv q st" using assms(1) by (rule aio_reach_inv)
  note ok = aio_invD(1) [OF inv assms(2)]
  have "\<exists>cmd. as_cmds st (io_data (snd p)) = Some cmd \<and> io_for info cmd (snd p)" if "p \<in> set (as_sent st)" "fst p = d" for p
    using aio_invD(9) [OF inv that(1)] that(2) assms(2) by auto
  moreover have "\<forall>kern. bs_aio_submit_dev_batch kern d st \<noteq> None"
    by (rule submit_batch_cases [OF inv assms(2)]) auto
  ultimately show ?thesis
    using ok aio_invD(6) [OF inv, of d] batch_fills [OF inv assms(2), of "\<lambda>e n. int n"]
    by (auto simp: unit_ok_def unat_of_nat)
qed


text \<open>Two commands of one unit; the kernel takes the first only.\<close>

definition ex_aio :: aio_state where
  "ex_aio = \<lparr>as_units = [0 \<mapsto> snd (snd (bs_aio_open (\<lambda>path ro. Inr (3, 4096, 512)) 0 5 0 ''disk'' (bs_aio_init (blank_lu 0))))],
     as_dev_list = [], as_cmds = Map.empty, as_sent = [], as_done = []\<rparr>"

definition ex_aio_write :: scsi_cmd where
  "ex_aio_write = set_cmd_bit TGT_CMD_NOT_LAST (blank_cmd\<lparr>scb := (replicate 16 0)[0 := WRITE_10], c_offset := 512\<rparr>)"

definition ex_aio_read :: scsi_cmd where
  "ex_aio_read = blank_cmd\<lparr>scb := (replicate 16 0)[0 := READ_10], c_offset := 1024\<rparr>"

abbreviation "ex_aio_first kern \<equiv> bs_aio_cmd_submit kern 0 1 (ex_aio\<lparr>as_cmds := (as_cmds ex_aio)(1 \<mapsto> ex_aio_write)\<rparr>)"

abbreviation "ex_aio_second kern st \<equiv> bs_aio_cmd_submit kern 0 2 (st\<lparr>as_cmds := (as_cmds st)(2 \<mapsto> ex_aio_read)\<rparr>)"

lemma ex_aio_runs:
  "do { (r, st) \<leftarrow> ex_aio_first (\<lambda>e n. 1); (r', st') \<leftarrow> ex_aio_second (\<lambda>e n. 1) st;
        Some (map (\<lambda>p. io_data (snd p)) (as_sent st'), map_option bi_cmd_wait_list (as_units st' 0)) } = Some ([1], Some [2])"
  by code_simp

lemma ex_aio_reach:
  assumes "ex_aio_first kern = Some (r, st)" "\<forall>e n. submit_ok (kern e n) n"
  shows "aio_reach ((\<lambda>_. [])(0 := [1])) st"
proof -
  have unit: "\<exists>fo afd path lu r. bs_aio_open fo 0 afd 0 path (bs_aio_init lu) = (0, Some r, info)" if "as_units ex_aio d = Some info" for d info
  proof -
    have "info = snd (snd (bs_aio_open (\<lambda>path ro. Inr (3, 4096, 512)) 0 5 0 ''disk'' (bs_aio_init (blank_lu 0))))"
      using that by (auto simp: ex_aio_def split: if_splits)
    then have "bs_aio_open (\<lambda>path ro. Inr (3, 4096, 512)) 0 5 0 ''disk'' (bs_aio_init (blank_lu 0)) = (0, Some (3, 4096), info)"
      by (simp add: bs_aio_open_def Let_def)
    then show ?thesis by blast
  qed
  have "aio_reach (\<lambda>_. []) ex_aio"
    by (rule aio_reach.start) (use unit in \<open>simp_all add: ex_aio_def\<close>)
  from aio_reach.submit [OF this _ _ assms(2,1)] show ?thesis
    by (simp add: aio_rw_def ex_aio_write_def set_cmd_bit_def byte_at_def aio_writes_def)
qed


theorem aio_in_order_witness:
  "\<exists>st info. as_units st 0 = Some info \<and> bi_cmd_wait_list info = [2] \<and> sent_of 0 st = [1] \<and> unat (bi_npending info) = 1 \<and>
     as_dev_list st = [0] \<and> aio_reach ((\<lambda>_. [])(0 := [1, 2])) st"
proof -
  have ok: "\<forall>e n. submit_ok ((\<lambda>e n. if n = 0 then 0 else 1) e n) n" by (simp add: submit_ok_def)
  have "do { (r, st) \<leftarrow> ex_aio_first (\<lambda>e n. if n = 0 then 0 else 1); (r', st') \<leftarrow> ex_aio_second (\<lambda>e n. if n = 0 then 0 else 1) st;
        Some (map (\<lambda>p. (fst p, io_data (snd p))) (as_sent st'), map_option bi_cmd_wait_list (as_units st' 0), as_done st', as_dev_list st') } =
      Some ([(0, 1)], Some [2], [], [0])"
    by code_simp
  then obtain r st r' st' info where st: "ex_aio_first (\<lambda>e n. if n = 0 then 0 else 1) = Some (r, st)"
      "ex_aio_second (\<lambda>e n. if n = 0 then 0 else 1) st = Some (r', st')"
      and st': "map (\<lambda>p. (fst p, io_data (snd p))) (as_sent st') = [(0, 1)]" "as_units st' 0 = Some info" "bi_cmd_wait_list info = [2]" "as_done st' = []"
        "as_dev_list st' = [0]"
    by (auto simp: bind_eq_Some_conv)
  have "aio_rw ex_aio_read" by (simp add: aio_rw_def ex_aio_read_def byte_at_def aio_reads_def)
  then have reach: "aio_reach ((\<lambda>_. [])(0 := [1, 2])) st'"
    using aio_reach.submit [OF ex_aio_reach [OF st(1) ok] _ _ ok st(2)] by simp
  have "sent_of 0 st' = [1]" using st'(1) by (auto simp: sent_of_def)
  moreover from this have "length (in_flight 0 st') = 1" using st'(4) by (simp add: in_flight_def)
  ultimately show ?thesis
    using aio_in_order [OF reach st'(2)] st' reach by auto
qed

section \<open>A refused batch\<close>

lemma fold_clear_async:
  "as_sent (fold clear_async hs st) = as_sent st \<and> as_done (fold clear_async hs st) = as_done st \<and> as_units (fold clear_async hs st) = as_units st \<and>
   (\<forall>h. as_cmds (fold clear_async hs st) h = (if h \<in> set hs then map_option (clear_cmd_bit TGT_CMD_ASYNC) (as_cmds st h) else as_cmds st h))"
proof (induction hs arbitrary: st)
  case (Cons x xs)
  have "clear_cmd_bit b (clear_cmd_bit b c) = clear_cmd_bit b c" for b c
    by (simp add: clear_cmd_bit_def and.assoc)
  then have "map_option (clear_cmd_bit b) (map_option (clear_cmd_bit b) r) = map_option (clear_cmd_bit b) r" for b r
    by (cases r) simp_all
  then show ?case using Cons.IH [of "clear_async x st"] by (auto simp: clear_async_def)
qed simp

lemma cmd_bit_clear: "\<not> cmd_bit b (clear_cmd_bit b c)"
proof -
  have "(c_state c AND NOT (push_bit b 1)) AND push_bit b 1 = 0"
    by (rule bit_eqI) (auto simp: bit_and_iff bit_not_iff)
  moreover have "c_state (clear_cmd_bit b c) = c_state c AND NOT (push_bit b 1)"
    by (simp add: clear_cmd_bit_def)
  ultimately show ?thesis unfolding cmd_bit_def by metis
qed

lemma batch_refused_effect:
  assumes "map io_data (take n (bi_iocb_arr info)) = hs"
  shows "\<exists>st'. batch_refused r n d info st = (r, st') \<and> as_units st' d = Some (info\<lparr>bi_nwaiting := bi_nwaiting info - of_nat n\<rparr>) \<and>
    as_sent st' = as_sent st \<and> as_done st' = as_done st \<and>
    (\<forall>h \<in> set hs. as_cmds st' h = map_option (clear_cmd_bit TGT_CMD_ASYNC) (as_cmds st h))"
  using assms by (simp add: batch_refused_def Let_def fold_clear_async)

text \<open>
  C13. A batch that the kernel refuses with an error is lost. When \<open>io_submit\<close> fails, other
  than with the request to try again, for all waiting commands of a unit, none of them waits any more,
  none is with the kernel and none is completed: they only lose their mark as
  asynchronous. The caller reports the error for the command it submits last; the earlier
  commands of the batch, whose handlers returned long ago, are never answered.
\<close>

theorem aio_refused_batch_lost:
  assumes "aio_reach q st" "as_units st d = Some info" "bi_cmd_wait_list info \<noteq> []"
    and "length (bi_cmd_wait_list info) + length (in_flight d st) \<le> AIO_MAX_IODEPTH"
    and "kern d (length (bi_cmd_wait_list info)) = r" "r < 0" "r \<noteq> - EAGAIN"
  shows "\<exists>st' info'. bs_aio_submit_dev_batch kern d st = Some (r, st') \<and> as_units st' d = Some info' \<and>
    bi_cmd_wait_list info' = [] \<and> bi_nwaiting info' = 0 \<and> as_sent st' = as_sent st \<and> as_done st' = as_done st \<and>
    (\<forall>h \<in> set (bi_cmd_wait_list info). \<exists>cmd. as_cmds st' h = Some cmd \<and> \<not> cmd_bit TGT_CMD_ASYNC cmd)"
proof -
  have inv: "aio_inv q st" using assms(1) by (rule aio_reach_inv)
  note ok = aio_invD(1) [OF inv assms(2)]
  have n: "batch_size info = length (bi_cmd_wait_list info)"
    using batch_size_min [OF ok] assms(4) by simp
  show ?thesis
  proof (rule submit_batch_cases [OF inv assms(2)])
    fix arr
    let ?info = "info\<lparr>bi_iocb_arr := arr, bi_cmd_wait_list := drop (batch_size info) (bi_cmd_wait_list info)\<rparr>"
    assume arr: "map io_data (take (batch_size info) arr) = take (batch_size info) (bi_cmd_wait_list info)"
      and run: "\<And>kern. bs_aio_submit_dev_batch kern d st =
        Some (if kern d (batch_size info) < 0 \<and> kern d (batch_size info) \<noteq> - EAGAIN
              then batch_refused (kern d (batch_size info)) (batch_size info) d ?info st
              else (0, batch_sent (nat (kern d (batch_size info))) (batch_size info) d ?info st))"
    have "bs_aio_submit_dev_batch kern d st = Some (batch_refused r (batch_size info) d ?info st)"
      using run [of kern] assms(5-7) n by simp
    moreover obtain st' where st': "batch_refused r (batch_size info) d ?info st = (r, st')"
        "as_units st' d = Some (?info\<lparr>bi_nwaiting := bi_nwaiting info - of_nat (batch_size info)\<rparr>)" "as_sent st' = as_sent st" "as_done st' = as_done st"
        "\<forall>h \<in> set (bi_cmd_wait_list info). as_cmds st' h = map_option (clear_cmd_bit TGT_CMD_ASYNC) (as_cmds st h)"
      using batch_refused_effect [of "batch_size info" ?info "bi_cmd_wait_list info" r d st] arr n by auto
    moreover have "bi_nwaiting info - of_nat (batch_size info) = 0" using ok n by (simp add: unit_ok_def)
    moreover have "\<exists>cmd. as_cmds st' h = Some cmd \<and> \<not> cmd_bit TGT_CMD_ASYNC cmd" if h: "h \<in> set (bi_cmd_wait_list info)" for h
    proof -
      obtain c where "as_cmds st h = Some c" using aio_invD(7) [OF inv, of h d] h ok by (auto simp: unit_ok_def)
      then show ?thesis using st'(5) h cmd_bit_clear by simp
    qed
    ultimately show ?thesis using n by simp
  qed (use n assms(3) in simp)
qed

theorem aio_refused_batch_lost_witness:
  "\<exists>st st' info'. ex_aio_first (\<lambda>e n. 0) = Some (0, st) \<and> bs_aio_submit_dev_batch (\<lambda>e n. - 22) 0 st = Some (- 22, st') \<and>
     as_units st' 0 = Some info' \<and> bi_cmd_wait_list info' = [] \<and> as_sent st' = [] \<and> as_done st' = []"
proof -
  have "map_option (\<lambda>(r, st). (r, as_sent st = [], as_done st, map_option bi_cmd_wait_list (as_units st 0))) (ex_aio_first (\<lambda>e n. 0)) =
      Some (0, True, [], Some [1])"
    by code_simp
  then obtain st info where st: "ex_aio_first (\<lambda>e n. 0) = Some (0, st)" "as_sent st = []" "as_done st = []"
      "as_units st 0 = Some info" "bi_cmd_wait_list info = [1]"
    by (auto simp: case_prod_beta)
  have "aio_reach ((\<lambda>_. [])(0 := [1])) st"
    by (rule ex_aio_reach [OF st(1)]) (simp add: submit_ok_def)
  from aio_refused_batch_lost [OF this st(4), of "\<lambda>e n. - 22" "- 22"] st show ?thesis
    by (simp add: in_flight_def sent_of_def) blast
qed


end
