(* ===== verification/Spec2Isabelle.thy ===== *)
theory Spec2Isabelle
  imports Spc_Pr_Thms Spc_Thms Sbc_Thms Cmd_Queue Iscsi_Param Sha1 Md5 Crc32c Iscsi_Login_Thms
    Iscsi_Order_Thms Iscsi_Data_Thms Smc_Thms Tape_Thms Tgt_Log_Thms Tgt_Work_Thms Mgmt_Thms
    Iscsi_Driver_Thms Daemon_Inv Bs_Aio_Thms
begin

text \<open>
  A model of tgt, the Linux SCSI target daemon, and of what makes it correct. All file
  names are relative to \<open>src/usr\<close>.

  \<^bold>\<open>The program.\<close> An initiator reaches the daemon through a transport. The iSCSI transport
  (\<open>iscsi/\<close>) receives PDUs, runs the login, keeps sessions and their command order and
  hands commands to the core. The core (\<open>target.c\<close>, \<open>scsi.c\<close>) finds the unit, queues the
  command by its task attribute and calls the handler of the device type (\<open>spc.c\<close>,
  \<open>sbc.c\<close>, \<open>scc.c\<close>, \<open>smc.c\<close>, \<open>ssc.c\<close>), which works on a backing store (\<open>bs.c\<close>,
  \<open>bs_null.c\<close>, \<open>bs_rdwr.c\<close>, \<open>bs_aio.c\<close>, \<open>bs_ssc.c\<close>). The administrator sends requests over a local
  socket (\<open>mgmt.c\<close>) that create targets, units, accounts, access lists and portals, with
  the callbacks of a driver. Delayed works (\<open>work.c\<close>) drive the pings, messages go through
  a ring in shared memory to a logger process (\<open>log.c\<close>), \<open>tgtimg.c\<close> makes image files.

  \<^bold>\<open>Conventions.\<close> Structures are records, enumerations datatypes, integers words of their
  width where the width matters, byte arrays lists of 8-bit words. Operations pass the
  state explicitly. Lists of the kernel style are lists in their order; pointers to
  structures are numbers or the key of the structure. \<open>None\<close> as the result of an operation
  is undefined behaviour or the end of the process: a null or dangling pointer, an access
  outside of an array, \<open>exit\<close>. Errors the code returns are values. Loops are total
  functions with a measure where they end for every input. Loops that may not end are
  defined by \<open>partial_function (option)\<close>, so that not ending is \<open>None\<close>:
  \<open>write_same_loop\<close>, \<open>getlbastatus_loop\<close>, the tape loops \<open>space_filemark_forward\<close>,
  \<open>space_filemark_reverse\<close>, \<open>space_eod\<close> and \<open>show_loop\<close>, the PDU state machines
  \<open>rx_switch\<close> and \<open>tx_switch\<close>, \<open>deliver\<close>, \<open>run_in_order\<close>, \<open>log_flush\<close> and
  \<open>run_active\<close>. The properties about them state that they return a result. No definition
  has fuel.

  \<^bold>\<open>Parameters.\<close> What is not in the repository is an argument: the answers of the network
  functions (\<open>os_env\<close>, \<open>lld_env\<close>), the bytes a socket moves (\<open>sock\<close>, \<open>sock_answer\<close>), files
  (\<open>file_ops\<close>, \<open>tape_ops\<close>, the function that opens a backing file), the answers of the
  kernel's asynchronous interface, the clock, the timer
  and semaphores, and the content of memory that is read before it is written. Where a
  property relies on documented behaviour of such a part it is a named hypothesis, and
  its witness has a concrete instance.

  \<^bold>\<open>Prelude and helpers.\<close> \<open>Tgt_Prelude\<close> has the shared lemmas on lists, keyed lists and
  words and the named collections. \<open>Byteshift\<close> is \<open>be_byteshift.h\<close> with the locale
  \<open>be_codec\<close>, a codec of fixed width, for its four sizes. \<open>Tgt_Util\<close> is \<open>util.c\<close>,
  \<open>util.h\<close>: serial number comparison, open flags, block shifts, bit maps (locale
  \<open>bitmap\<close>), numbers in texts.

  \<^bold>\<open>SCSI core.\<close> \<open>Scsi_Const\<close>, \<open>Scsi_Cdb\<close> and \<open>Scsi_State\<close> hold constants, CDB decoding
  with the usage tables (\<open>scsi.c\<close>) and the records of commands, units, nexuses and targets
  (\<open>target.h\<close>, \<open>tgtd.h\<close>, \<open>scsi_cmnd.h\<close>). \<open>Ua_Sense\<close> has the unit attention queues,
  \<open>Target_Core\<close> the look-ups, reservations, creation and destruction of targets, units and
  nexuses, \<open>Target_Admin\<close> accounts and access lists (locale \<open>access_list\<close>) and the states
  of targets and system (all \<open>target.c\<close>). \<open>Target_Inv\<close> proves that the operations on
  targets keep \<open>sys_inv\<close>, the invariant that ties targets, units and nexuses together;
  the locale \<open>device_callbacks\<close> states what is needed of device types and stores, and
  \<open>Device_Types\<close> interprets it. \<open>Cmd_Queue\<close> is the command queue and task management.
  \<open>Scsi_Perform\<close> is \<open>scsi_cmd_perform\<close> with its dispatch. \<open>Hst_Frame\<close> shows that every
  handler leaves the identity of units and nexuses alone (locale \<open>backing_store_calls\<close>)
  and \<open>Core_Inv\<close> that no sequence of commands, completions and task management functions
  breaks the invariant (locale \<open>command_processor\<close>).

  \<^bold>\<open>Device types and stores.\<close> \<open>Spc\<close> and \<open>Spc_Pr\<close> model \<open>spc.c\<close>, the latter persistent
  reservations; \<open>Spc_Thms\<close> and \<open>Spc_Pr_Thms\<close> show INQUIRY, REPORT LUNS, MODE SENSE and the
  exclusion and safety of reservations, with one sequence that leaves a dangling pointer.
  \<open>Sbc\<close>, \<open>Scc\<close>, \<open>Sbc_Thms\<close>: block devices, requests stay inside the unit. \<open>Smc\<close>,
  \<open>Smc_Thms\<close>: the medium changer moves media and loses none. \<open>Bs_Rdwr\<close>: the null and
  file stores and the hand-over to worker threads. \<open>Bs_Aio\<close>, \<open>Bs_Aio_Thms\<close>: the
  asynchronous store, whose batches keep the order of commands and lose none, except when
  the kernel refuses a batch for good. \<open>Ssc_Media\<close>, \<open>Bs_Ssc\<close>, \<open>Ssc\<close>,
  \<open>Tgtimg\<close>: tapes and image files. \<open>Tape_Image\<close> and \<open>Tape_Thms\<close> give the tape of the
  standard, a list of records and marks with a position (\<open>ssc_tape\<close>), say in which cases the store
  departs from it (\<open>op_conforms\<close>, \<open>drive_spec\<close>), and show that in all others the drive on a file that
  keeps what is written (locale \<open>tape_file\<close>) answers like it, from the creation of the image on.

  \<^bold>\<open>iSCSI.\<close> \<open>Iscsi_Param\<close> (\<open>param.c\<close>), \<open>Sha1\<close>, \<open>Md5\<close>, \<open>Crc32c\<close> (equal to
  references written from their standards; \<open>Md5_Sine\<close> computes the constants of MD5 from the sine
  function, \<open>Block_Hash\<close> has the locale \<open>block_hash\<close> of a buffered digest),
  \<open>Chap_Codec\<close>, \<open>Iscsi_Chap\<close> (\<open>chap.c\<close>). \<open>Iscsi_State\<close> holds the records of
  \<open>iscsid.h\<close> and the state \<open>iscsi_world\<close> of the transport; \<open>Iscsi_Text\<close>, \<open>Iscsi_Acl\<close>,
  \<open>Iscsi_Target\<close> and \<open>Iscsi_Session\<close> text keys, access lists, targets, sessions and
  connections; \<open>Iscsi_Login\<close> the login and text requests, with authentication in
  \<open>Iscsi_Login_Thms\<close>; \<open>Iscsi_Task\<close> the full feature phase, with the order of commands in
  \<open>Iscsi_Order_Thms\<close> and the data of a read in \<open>Iscsi_Data_Thms\<close>; \<open>Iscsi_Io\<close> the receive and
  transmit state machines and the pings. \<open>Iscsi_Driver\<close> is the table of callbacks with
  portals, updates, texts and statistics, \<open>Iscsi_Driver_Thms\<close> the parser of portals.

  \<^bold>\<open>Daemon.\<close> \<open>Tgt_Work\<close> and \<open>Tgt_Log\<close> with their theorems: works fire on time (locale
  \<open>rearming_callbacks\<close>), messages are logged in order. \<open>Mgmt_Show\<close> has the drivers and the
  texts of the core, \<open>Mgmt\<close> the requests of every mode and the connection, \<open>Mgmt_Thms\<close>
  that a request is executed once and its answer delivered whatever pieces the socket
  moves. \<open>Daemon_Inv\<close> composes them: the locale \<open>lld_callbacks\<close> is what the management
  channel relies on of a driver, the iSCSI driver meets it, and every state the daemon
  reaches by requests, sessions, closed connections and commands satisfies the invariant
  (for disks and controllers on the null and file stores).

  \<^bold>\<open>Not modelled.\<close> The other device types (\<open>mmc.c\<close>, \<open>osd.c\<close>) and stores
  (\<open>bs_sg.c\<close>, \<open>bs_rbd.c\<close>, \<open>bs_glfs.c\<close>, \<open>bs_sheepdog.c\<close>), which are further instances of
  the interfaces above or wrap kernel and cluster libraries; iSCSI over RDMA
  (\<open>iscsi/iser.c\<close>, \<open>iscsi/iser_text.c\<close>), which is written against the verbs library; the
  messages of the iSNS client (\<open>iscsi/isns.c\<close>); the command line of \<open>tgtadm.c\<close> and the
  event loop of \<open>tgtd.c\<close>; memory allocation, except where a failure is visible in the
  result; messages to the log. The event loop runs one handler at a time, which is why
  the steps of \<open>daemon_reach\<close> are whole handlers; the worker threads of a store only
  appear as the completion of a command at any later time.
\<close>

end
